(* ===== verification/Eebus_Prelude.thy ===== *)
theory Eebus_Prelude
  imports Main "HOL-Library.Word" "HOL-Library.Monad_Syntax"
begin

text \<open>
  Shared vocabulary of the development: the width-annotated integer types of the C sources, the
  error codes of \<^verbatim>\<open>common/eebus_errors.h\<close>, the collections of rewrite rules the component
  theories fill and use, and the generic facts on lists and options that more than one component
  needs.

  Conventions used by every theory. A C pointer that may be \<^verbatim>\<open>NULL\<close> is an \<open>option\<close>. A byte
  (\<^verbatim>\<open>uint8_t\<close>, \<^verbatim>\<open>char\<close>) is a \<open>char\<close>, so that buffers and C strings are both \<open>char list\<close>. An
  unsigned counter whose wrap-around is observable is a \<open>word\<close>; a signed \<^verbatim>\<open>int32_t\<close> field is an
  \<open>int\<close> (signed overflow is undefined in C, and the theorems that need it bound the operands). An
  operation that reports through an \<open>EebusError\<close> returns that value; an operation that mutates an
  object takes the object and returns the new one. Allocation succeeds unless a definition takes
  the outcome of an allocation as an argument.
\<close>

section \<open>Machine types\<close>

type_synonym u8 = "8 word"
type_synonym u32 = "32 word"
type_synonym u64 = "64 word"
type_synonym byte = char

section \<open>Error codes\<close>

datatype EebusError =
    kEebusErrorOk
  | kEebusErrorNoChange
  | kEebusErrorInit
  | kEebusErrorDeinit
  | kEebusErrorActivate
  | kEebusErrorDeactivate
  | kEebusErrorThread
  | kEebusErrorInput
  | kEebusErrorInputType
  | kEebusErrorInputSize
  | kEebusErrorInputArgument
  | kEebusErrorInputArgumentNull
  | kEebusErrorInputArgumentOutOfRange
  | kEebusErrorCommunicationBegin
  | kEebusErrorCommunication
  | kEebusErrorCommunicationEnd
  | kEebusErrorCommunicationBusy
  | kEebusErrorCommunicationUpload
  | kEebusErrorMemory
  | kEebusErrorMemoryAllocate
  | kEebusErrorFileSystem
  | kEebusErrorFileSystemAccess
  | kEebusErrorFileSystemNoFile
  | kEebusErrorFileSystemRemove
  | kEebusErrorFileSystemCopy
  | kEebusErrorTime
  | kEebusErrorOther
  | kEebusErrorUnknown
  | kEebusErrorParse
  | kEebusErrorNotImplemented
  | kEebusErrorNotSupported
  | kEebusErrorNotAvailable
  | kEebusErrorCompressFile
  | kEebusErrorOtherEnd
  | kEebusErrorInvalid

section \<open>Collections of rules\<close>

named_theorems invar_intros \<open>an operation keeps its component's invariant\<close>
named_theorems abs_simps \<open>an operation read through its component's abstraction function\<close>
named_theorems step_simps \<open>one branch of an operation, as an equation\<close>

section \<open>Lists\<close>

text \<open>Indices into a cyclic buffer of \<open>n\<close> slots that start at slot \<open>t\<close>.\<close>

lemma ring_index:
  "t < n \<Longrightarrow> i < n \<Longrightarrow> (t + i) mod n = (if t + i < n then t + i else t + i - n)" for n :: nat
  by (simp add: mod_if)

lemma ring_inj:
  "t < n \<Longrightarrow> i < n \<Longrightarrow> j < n \<Longrightarrow> (t + i) mod n = (t + j) mod n \<longleftrightarrow> i = j" for n :: nat
  by (auto simp: ring_index)

lemma ring_dist:
  "t < n \<Longrightarrow> i < n \<Longrightarrow> ((t + i) mod n + n - t) mod n = i" for n :: nat
proof -
  assume a: "t < n" "i < n"
  show ?thesis
  proof (cases "t + i < n")
    case True
    then have "(t + i) mod n + n - t = i + n" by simp
    with a show ?thesis by simp
  next
    case False
    with a have "(t + i) mod n + n - t = i" by (simp add: ring_index)
    with a show ?thesis by simp
  qed
qed

lemma find_append:
  "List.find P (xs @ ys) = (case List.find P xs of None \<Rightarrow> List.find P ys | Some x \<Rightarrow> Some x)"
  by (induction xs) auto

end
