(* ===== verification/Eebus_Queue.thy ===== *)
theory Eebus_Queue
  imports Eebus_Prelude
begin

text \<open>
  The bounded message queue of \<^verbatim>\<open>common/eebus_queue/eebus_queue.c\<close>: a cyclic buffer of
  \<open>max_msg\<close> slots, a head and a tail, and the two flags that tell the full from the empty buffer
  when head and tail coincide. The C pointers \<^verbatim>\<open>head\<close> and \<^verbatim>\<open>tail\<close> are slot indices here (the
  pointer minus \<^verbatim>\<open>msg_buf\<close>, divided by \<^verbatim>\<open>msg_size\<close>); a slot that was never written is \<open>None\<close>.
  Waiting on a condition variable is modelled by the list of things that happen to the waiting
  thread: it is woken with the queue another thread left behind, or its timeout passes. An
  operation whose list runs out while it still waits has not returned (\<open>None\<close>).
\<close>

section \<open>The cyclic buffer\<close>

record 'm EebusQueue =
  max_msg :: nat
  msg_size :: nat
  msg_buf :: "'m option list"
  head :: nat
  tail :: nat
  is_closed :: bool
  is_full :: bool
  is_empty :: bool
  mutex_init_ret :: int
  is_not_empty_cond_init_ret :: int
  is_not_full_cond_init_ret :: int

definition kTimeoutInfinite :: u32 where
  "kTimeoutInfinite = 0xFFFFFFFF"

text \<open>
  Construction. The outcomes of \<^verbatim>\<open>malloc\<close> and of the three pthread initialisers are arguments
  (\<open>alloc\<close>, \<open>mr\<close>, \<open>ner\<close>, \<open>nfr\<close>), as is \<^verbatim>\<open>SIZE_MAX\<close>.
\<close>

definition EebusQueueConstruct ::
    "nat \<Rightarrow> bool \<Rightarrow> int \<Rightarrow> int \<Rightarrow> int \<Rightarrow> nat \<Rightarrow> nat \<Rightarrow> EebusError \<times> 'm EebusQueue" where
  "EebusQueueConstruct SIZE_MAX alloc mr ner nfr maxm sz =
     (let q = \<lparr>max_msg = maxm, msg_size = sz, msg_buf = [], head = 0, tail = 0,
               is_closed = False, is_full = False, is_empty = True,
               mutex_init_ret = -1, is_not_empty_cond_init_ret = -1,
               is_not_full_cond_init_ret = -1\<rparr>
      in if maxm = 0 \<or> sz = 0 \<or> maxm > SIZE_MAX div sz then (kEebusErrorMemoryAllocate, q)
         else if \<not> alloc then (kEebusErrorMemoryAllocate, q)
         else
           let q = q\<lparr>msg_buf := replicate maxm None, mutex_init_ret := mr\<rparr>
           in if mr \<noteq> 0 then (kEebusErrorInit, q)
              else
                let q = q\<lparr>is_not_empty_cond_init_ret := ner\<rparr>
                in if ner \<noteq> 0 then (kEebusErrorInit, q)
                   else
                     let q = q\<lparr>is_not_full_cond_init_ret := nfr\<rparr>
                     in if nfr \<noteq> 0 then (kEebusErrorInit, q) else (kEebusErrorOk, q))"

text \<open>The absolute deadline of a timed wait, from the current time in seconds and nanoseconds.\<close>

definition MsToTimespec :: "int \<times> int \<Rightarrow> u32 \<Rightarrow> int \<times> int" where
  "MsToTimespec now timeout_ms =
     (let sec = fst now + uint timeout_ms div 1000;
          nsec = snd now + (uint timeout_ms mod 1000) * 1000000
      in if nsec \<ge> 1000000000
         then (sec + nsec div 1000000000, nsec mod 1000000000)
         else (sec, nsec))"

datatype 'm wake = Signalled "'m EebusQueue" | TimedOut

fun WaitCond ::
    "u32 \<Rightarrow> ('m EebusQueue \<Rightarrow> bool) \<Rightarrow> 'm wake list \<Rightarrow> 'm EebusQueue \<Rightarrow> (int \<times> 'm EebusQueue) option"
where
  "WaitCond timeout_ms pr [] q = (if pr q then Some (0, q) else None)"
| "WaitCond timeout_ms pr (w # ws) q =
     (if pr q then Some (0, q)
      else case w of
             Signalled q' \<Rightarrow> WaitCond timeout_ms pr ws q'
           | TimedOut \<Rightarrow> (if timeout_ms = kTimeoutInfinite then WaitCond timeout_ms pr ws q
                        else Some (-1, q)))"

definition SendPredicate :: "'m EebusQueue \<Rightarrow> bool" where
  "SendPredicate q \<longleftrightarrow> \<not> is_full q \<or> is_closed q"

definition ReceivePredicate :: "'m EebusQueue \<Rightarrow> bool" where
  "ReceivePredicate q \<longleftrightarrow> \<not> is_empty q \<or> is_closed q"

text \<open>
  \<^verbatim>\<open>SendInternal\<close> from the copy of the message on, and \<^verbatim>\<open>ReceiveInternal\<close> likewise: the slot is
  written (read), the pointer advances and wraps at the end of the buffer, the flags are updated.
\<close>

definition advance :: "'m EebusQueue \<Rightarrow> nat \<Rightarrow> nat" where
  "advance q p = (if p + 1 \<ge> max_msg q then 0 else p + 1)"

definition put_msg :: "'m \<Rightarrow> 'm EebusQueue \<Rightarrow> 'm EebusQueue" where
  "put_msg m q =
     (let q = q\<lparr>msg_buf := (msg_buf q)[head q := Some m], head := advance q (head q)\<rparr>
      in q\<lparr>is_empty := False, is_full := (head q = tail q)\<rparr>)"

definition take_msg :: "'m EebusQueue \<Rightarrow> 'm option \<times> 'm EebusQueue" where
  "take_msg q =
     (let m = msg_buf q ! tail q;
          q = q\<lparr>tail := advance q (tail q)\<rparr>
      in (m, q\<lparr>is_full := False, is_empty := (head q = tail q)\<rparr>))"

definition SendInternal ::
    "'m wake list \<Rightarrow> 'm \<Rightarrow> u32 \<Rightarrow> 'm EebusQueue \<Rightarrow> (EebusError \<times> 'm EebusQueue) option" where
  "SendInternal ws m timeout_ms q =
     (case WaitCond timeout_ms SendPredicate ws q of
        None \<Rightarrow> None
      | Some (ret, q) \<Rightarrow>
          (if ret \<noteq> 0 then Some (kEebusErrorTime, q)
           else if is_closed q then Some (kEebusErrorNoChange, q)
           else Some (kEebusErrorOk, put_msg m q)))"

definition EebusQueue_Send ::
    "'m wake list \<Rightarrow> 'm \<Rightarrow> u32 \<Rightarrow> 'm EebusQueue \<Rightarrow> (EebusError \<times> 'm EebusQueue) option" where
  "EebusQueue_Send ws m timeout_ms q =
     (if \<not> is_closed q then SendInternal ws m timeout_ms q else Some (kEebusErrorNoChange, q))"

definition ReceiveInternal ::
    "'m wake list \<Rightarrow> u32 \<Rightarrow> 'm EebusQueue \<Rightarrow> (EebusError \<times> 'm option \<times> 'm EebusQueue) option" where
  "ReceiveInternal ws timeout_ms q =
     (case WaitCond timeout_ms ReceivePredicate ws q of
        None \<Rightarrow> None
      | Some (ret, q) \<Rightarrow>
          (if ret \<noteq> 0 then Some (kEebusErrorTime, None, q)
           else if is_closed q then Some (kEebusErrorNoChange, None, q)
           else Some (kEebusErrorOk, take_msg q)))"

definition EebusQueue_Receive ::
    "'m wake list \<Rightarrow> u32 \<Rightarrow> 'm EebusQueue \<Rightarrow> (EebusError \<times> 'm option \<times> 'm EebusQueue) option" where
  "EebusQueue_Receive ws timeout_ms q =
     (if \<not> is_closed q then ReceiveInternal ws timeout_ms q
      else Some (kEebusErrorNoChange, None, q))"

definition EebusQueue_IsEmpty :: "'m EebusQueue \<Rightarrow> bool" where
  "EebusQueue_IsEmpty q = is_empty q"

definition EebusQueue_IsFull :: "'m EebusQueue \<Rightarrow> bool" where
  "EebusQueue_IsFull q = is_full q"

text \<open>
  \<^verbatim>\<open>ClearInternal\<close> walks the tail up to the head and hands each slot to the message deallocator.
  The loop is a partial function: it returns when the tail meets the head. The result pairs the
  slots given to the deallocator, in order, with the tail reached.
\<close>

partial_function (option) clear_loop ::
    "'m EebusQueue \<Rightarrow> nat \<Rightarrow> 'm option list \<Rightarrow> ('m option list \<times> nat) option" where
  "clear_loop q t freed =
     (if t \<noteq> head q then clear_loop q (advance q t) (freed @ [msg_buf q ! t])
      else Some (freed, t))"

definition ClearInternal :: "'m EebusQueue \<Rightarrow> ('m option list \<times> 'm EebusQueue) option" where
  "ClearInternal q =
     (case clear_loop q (tail q) [] of
        None \<Rightarrow> None
      | Some (freed, t) \<Rightarrow> Some (freed, q\<lparr>tail := t, is_empty := True, is_full := False\<rparr>))"

definition EebusQueue_Clear :: "'m EebusQueue \<Rightarrow> ('m option list \<times> 'm EebusQueue) option" where
  "EebusQueue_Clear q = ClearInternal q"

text \<open>The destructor closes the queue and clears it when every initialiser had succeeded.\<close>

definition EebusQueue_Destruct :: "'m EebusQueue \<Rightarrow> ('m option list \<times> 'm EebusQueue) option" where
  "EebusQueue_Destruct q =
     (if is_not_empty_cond_init_ret q = 0 \<and> is_not_full_cond_init_ret q = 0 \<and> mutex_init_ret q = 0
      then ClearInternal (q\<lparr>is_closed := True\<rparr>)
      else Some ([], q))"

section \<open>Abstraction to a list, invariant\<close>

text \<open>
  The messages in the buffer, oldest first, and the relation between the pointers and the flags
  that every operation keeps.
\<close>

definition msg_count :: "'m EebusQueue \<Rightarrow> nat" where
  "msg_count q = (if is_full q then max_msg q else (head q + max_msg q - tail q) mod max_msg q)"

definition slot :: "'m EebusQueue \<Rightarrow> nat \<Rightarrow> 'm option" where
  "slot q i = msg_buf q ! ((tail q + i) mod max_msg q)"

definition queued :: "'m EebusQueue \<Rightarrow> 'm option list" where
  "queued q = map (slot q) [0..<msg_count q]"

definition contents :: "'m EebusQueue \<Rightarrow> 'm list" where
  "contents q = map the (queued q)"

definition queue_invar :: "'m EebusQueue \<Rightarrow> bool" where
  "queue_invar q \<longleftrightarrow>
     0 < max_msg q \<and> length (msg_buf q) = max_msg q \<and> head q < max_msg q \<and> tail q < max_msg q \<and>
     (head q = tail q \<longleftrightarrow> is_full q \<or> is_empty q) \<and> \<not> (is_full q \<and> is_empty q) \<and>
     None \<notin> set (queued q)"

lemma advance_mod: "p < max_msg q \<Longrightarrow> advance q p = Suc p mod max_msg q"
  by (auto simp: advance_def dest: Suc_leI antisym)

lemma head_eq:
  assumes "queue_invar q"
  shows "head q = (tail q + msg_count q) mod max_msg q"
proof (cases "is_full q")
  case True
  with assms show ?thesis by (simp add: queue_invar_def msg_count_def)
next
  case False
  with assms have "(tail q + (head q + max_msg q - tail q) mod max_msg q) mod max_msg q
      = (head q + max_msg q) mod max_msg q"
    by (simp add: queue_invar_def mod_add_right_eq)
  with False assms show ?thesis by (simp add: queue_invar_def msg_count_def)
qed

lemma msg_count_le: "queue_invar q \<Longrightarrow> msg_count q \<le> max_msg q"
  by (auto simp: queue_invar_def msg_count_def intro: less_imp_le)

lemma is_full_iff: "queue_invar q \<Longrightarrow> is_full q \<longleftrightarrow> msg_count q = max_msg q"
  unfolding queue_invar_def msg_count_def
  by (metis less_irrefl mod_less_divisor)

lemma is_empty_iff: "queue_invar q \<Longrightarrow> is_empty q \<longleftrightarrow> msg_count q = 0"
proof -
  assume inv: "queue_invar q"
  show "is_empty q \<longleftrightarrow> msg_count q = 0"
  proof (cases "is_full q")
    case True
    with inv show ?thesis by (simp add: queue_invar_def msg_count_def)
  next
    case False
    have "(head q + max_msg q - tail q) mod max_msg q = 0 \<longleftrightarrow> head q = tail q"
      using head_eq [OF inv] inv False
      by (auto simp: queue_invar_def msg_count_def)
    with False inv show ?thesis by (simp add: queue_invar_def msg_count_def)
  qed
qed

lemma put_msg_count:
  assumes "queue_invar q" "\<not> is_full q"
  shows "msg_count (put_msg m q) = Suc (msg_count q)"
proof -
  let ?n = "max_msg q" and ?c = "msg_count q"
  have c: "?c < ?n" using assms is_full_iff msg_count_le by (metis le_neq_implies_less)
  have h: "advance q (head q) = (tail q + Suc ?c) mod ?n"
    using assms head_eq [OF assms(1)] by (simp add: advance_mod queue_invar_def mod_Suc_eq)
  have t: "tail q < ?n" using assms by (simp add: queue_invar_def)
  show ?thesis
  proof (cases "Suc ?c = ?n")
    case True
    with h t have "advance q (head q) = tail q" by simp
    with True show ?thesis by (simp add: put_msg_def Let_def msg_count_def)
  next
    case False
    with c have lt: "Suc ?c < ?n" by simp
    have "(tail q + Suc ?c) mod ?n \<noteq> tail q"
      using ring_inj [OF t lt, of 0] lt t by simp
    then show ?thesis using ring_dist [OF t lt] by (simp add: put_msg_def Let_def msg_count_def h)
  qed
qed

lemma put_msg_simps [simp]:
  "max_msg (put_msg m q) = max_msg q"
  "tail (put_msg m q) = tail q"
  "is_closed (put_msg m q) = is_closed q"
  "msg_buf (put_msg m q) = (msg_buf q)[head q := Some m]"
  "head (put_msg m q) = advance q (head q)"
  "is_empty (put_msg m q) = False"
  "is_full (put_msg m q) \<longleftrightarrow> advance q (head q) = tail q"
  by (simp_all add: put_msg_def Let_def)

lemma queued_put_msg:
  assumes "queue_invar q" "\<not> is_full q"
  shows "queued (put_msg m q) = queued q @ [Some m]"
proof -
  let ?n = "max_msg q" and ?c = "msg_count q"
  have c: "?c < ?n" using assms is_full_iff msg_count_le by (metis le_neq_implies_less)
  have n: "0 < ?n" "length (msg_buf q) = ?n" "head q < ?n" using assms by (simp_all add: queue_invar_def)
  have new: "slot (put_msg m q) ?c = Some m"
    using n head_eq [OF assms(1)] by (simp add: slot_def)
  have old: "slot (put_msg m q) i = slot q i" if "i < ?c" for i
  proof -
    have "(tail q + i) mod ?n \<noteq> (tail q + ?c) mod ?n"
      using ring_inj [of "tail q" ?n i ?c] that c assms(1) by (simp add: queue_invar_def)
    then show ?thesis using head_eq [OF assms(1)] by (simp add: slot_def)
  qed
  show ?thesis
    using put_msg_count [OF assms] new old by (simp add: queued_def)
qed

lemma put_msg_invar [invar_intros]:
  assumes "queue_invar q" "\<not> is_full q"
  shows "queue_invar (put_msg m q)"
  using assms queued_put_msg [OF assms, of m]
  by (simp add: queue_invar_def advance_def)

lemma take_msg_simps [simp]:
  "max_msg (snd (take_msg q)) = max_msg q"
  "head (snd (take_msg q)) = head q"
  "is_closed (snd (take_msg q)) = is_closed q"
  "msg_buf (snd (take_msg q)) = msg_buf q"
  "tail (snd (take_msg q)) = advance q (tail q)"
  "is_full (snd (take_msg q)) = False"
  "is_empty (snd (take_msg q)) \<longleftrightarrow> head q = advance q (tail q)"
  "fst (take_msg q) = msg_buf q ! tail q"
  by (simp_all add: take_msg_def Let_def)

lemma queued_take_msg:
  assumes "queue_invar q" "\<not> is_empty q"
  shows "queued q = fst (take_msg q) # queued (snd (take_msg q))"
proof -
  let ?n = "max_msg q" and ?c = "msg_count q" and ?q' = "snd (take_msg q)"
  have t: "tail q < ?n" and n: "0 < ?n" using assms by (simp_all add: queue_invar_def)
  obtain k where k: "?c = Suc k" using assms is_empty_iff by (cases ?c) auto
  with msg_count_le [OF assms(1)] have kn: "k < ?n" by simp
  have t': "advance q (tail q) < ?n" using n by (simp add: advance_def)
  have "head q = (advance q (tail q) + k) mod ?n"
    using head_eq [OF assms(1)] t k by (simp add: advance_mod mod_add_left_eq)
  then have cnt: "msg_count ?q' = k"
    using ring_dist [OF t' kn] by (simp add: msg_count_def)
  have sl: "slot ?q' i = slot q (Suc i)" for i
    using t by (simp add: slot_def advance_mod mod_add_left_eq)
  have "slot q 0 = fst (take_msg q)" using t by (simp add: slot_def)
  then show ?thesis
    using cnt k sl by (simp add: queued_def upt_conv_Cons map_Suc_upt [symmetric] del: upt_Suc map_Suc_upt)
qed

lemma take_msg_invar [invar_intros]:
  assumes "queue_invar q" "\<not> is_empty q"
  shows "queue_invar (snd (take_msg q))"
  using assms queued_take_msg [OF assms]
  by (auto simp: queue_invar_def advance_def)

lemma take_msg_defined:
  assumes "queue_invar q" "\<not> is_empty q"
  shows "fst (take_msg q) = Some (hd (contents q)) \<and> contents (snd (take_msg q)) = tl (contents q)"
proof -
  have "None \<notin> set (queued q)" using assms(1) by (simp add: queue_invar_def)
  with queued_take_msg [OF assms] obtain m where "fst (take_msg q) = Some m"
    by (cases "fst (take_msg q)") auto
  then show ?thesis using queued_take_msg [OF assms] by (simp add: contents_def)
qed

lemma contents_put_msg:
  "queue_invar q \<Longrightarrow> \<not> is_full q \<Longrightarrow> contents (put_msg m q) = contents q @ [m]"
  by (simp add: contents_def queued_put_msg)

lemma length_contents: "length (contents q) = msg_count q"
  by (simp add: contents_def queued_def)

lemma is_empty_contents: "queue_invar q \<Longrightarrow> is_empty q \<longleftrightarrow> contents q = []"
  by (metis is_empty_iff length_contents length_0_conv)

lemma is_full_contents: "queue_invar q \<Longrightarrow> is_full q \<longleftrightarrow> length (contents q) = max_msg q"
  by (simp add: is_full_iff length_contents)

lemma clear_loop_walk:
  assumes "queue_invar q" "k + j = msg_count q" "j < max_msg q"
  shows "clear_loop q ((tail q + k) mod max_msg q) freed
    = Some (freed @ map (slot q) [k..<msg_count q], head q)"
  using assms(2,3)
proof (induction j arbitrary: k freed)
  case 0
  then show ?case using head_eq [OF assms(1)] by (simp add: clear_loop.simps)
next
  case (Suc j)
  let ?n = "max_msg q"
  have n: "0 < ?n" using assms(1) by (simp add: queue_invar_def)
  have "(tail q + k) mod ?n \<noteq> head q"
  proof
    let ?t = "(tail q + k) mod ?n"
    assume eq: "?t = head q"
    have "(?t + Suc j) mod ?n = (tail q + (k + Suc j)) mod ?n"
      by (metis mod_add_left_eq add.assoc)
    also have "\<dots> = ?t" using head_eq [OF assms(1)] Suc.prems eq by simp
    finally have "(?t + Suc j) mod ?n = (?t + 0) mod ?n" by simp
    moreover have "?t < ?n" using n by simp
    ultimately have "Suc j = 0" using ring_inj [of ?t ?n "Suc j" 0] n Suc.prems by blast
    then show False by simp
  qed
  moreover have "advance q ((tail q + k) mod ?n) = (tail q + Suc k) mod ?n"
    using n by (simp add: advance_mod mod_Suc_eq)
  moreover have "[k..<msg_count q] = k # [Suc k..<msg_count q]"
    using Suc.prems by (simp add: upt_conv_Cons)
  ultimately show ?case
    using Suc.IH [of "Suc k" "freed @ [slot q k]"] Suc.prems
    by (simp add: clear_loop.simps [of q "(tail q + k) mod ?n"] slot_def)
qed

lemma ClearInternal_eq:
  assumes "queue_invar q"
  shows "ClearInternal q = Some (if is_full q then [] else queued q,
    q\<lparr>tail := head q, is_empty := True, is_full := False\<rparr>)"
proof (cases "is_full q")
  case True
  with assms have "tail q = head q" by (simp add: queue_invar_def)
  with True show ?thesis by (simp add: ClearInternal_def clear_loop.simps)
next
  case False
  with assms have "0 + msg_count q = msg_count q" "msg_count q < max_msg q" "tail q < max_msg q"
    using is_full_iff [OF assms] msg_count_le [OF assms] by (simp_all add: queue_invar_def)
  with clear_loop_walk [OF assms this(1,2), of "[]"] False show ?thesis
    by (simp add: ClearInternal_def queued_def)
qed

lemma ClearInternal_invar:
  assumes "queue_invar q" "ClearInternal q = Some (freed, q')"
  shows "queue_invar q' \<and> contents q' = []"
proof -
  have "q' = q\<lparr>tail := head q, is_empty := True, is_full := False\<rparr>"
    using assms by (simp add: ClearInternal_eq)
  then show ?thesis
    using assms(1) by (simp add: queue_invar_def contents_def queued_def msg_count_def)
qed

section \<open>What a waiting thread sees\<close>

definition wakes_ok :: "nat \<Rightarrow> 'm wake list \<Rightarrow> bool" where
  "wakes_ok n ws \<longleftrightarrow>
     list_all (\<lambda>w. case w of Signalled q \<Rightarrow> queue_invar q \<and> max_msg q = n | TimedOut \<Rightarrow> True) ws"

lemma wakes_okD: "wakes_ok n ws \<Longrightarrow> Signalled q \<in> set ws \<Longrightarrow> queue_invar q \<and> max_msg q = n"
  by (auto simp: wakes_ok_def list_all_iff split: wake.splits)

lemma WaitCond_cases:
  assumes "WaitCond t pr ws q = Some (r, q1)"
  shows "(q1 = q \<or> Signalled q1 \<in> set ws) \<and> (r = 0 \<longrightarrow> pr q1) \<and> (r \<noteq> 0 \<longrightarrow> t \<noteq> kTimeoutInfinite \<and> \<not> pr q1)"
  using assms
proof (induction ws arbitrary: q)
  case Nil
  then show ?case by (auto split: if_splits)
next
  case (Cons w ws)
  then show ?case by (cases w) (auto split: if_splits)
qed

lemma WaitCond_invar:
  assumes "WaitCond t pr ws q = Some (r, q1)" "queue_invar q" "wakes_ok (max_msg q) ws"
  shows "queue_invar q1 \<and> max_msg q1 = max_msg q"
  using WaitCond_cases [OF assms(1)] assms(2,3) by (auto dest: wakes_okD)

section \<open>The first-in first-out contract\<close>

datatype 'm qop = Put 'm | Get

fun fifo_run ::
    "('m \<Rightarrow> 'q \<Rightarrow> 'q option) \<Rightarrow> ('q \<Rightarrow> ('m \<times> 'q) option) \<Rightarrow> 'm qop list \<Rightarrow> 'q \<Rightarrow> 'm list \<times> 'm list \<times> 'q"
where
  "fifo_run snd' rcv [] q = ([], [], q)"
| "fifo_run snd' rcv (Put m # ops) q =
     (case snd' m q of
        None \<Rightarrow> fifo_run snd' rcv ops q
      | Some q' \<Rightarrow> (case fifo_run snd' rcv ops q' of (sent, got, q'') \<Rightarrow> (m # sent, got, q'')))"
| "fifo_run snd' rcv (Get # ops) q =
     (case rcv q of
        None \<Rightarrow> fifo_run snd' rcv ops q
      | Some (m, q') \<Rightarrow> (case fifo_run snd' rcv ops q' of (sent, got, q'') \<Rightarrow> (sent, m # got, q'')))"

locale bounded_fifo =
  fixes send :: "'m \<Rightarrow> 'q \<Rightarrow> 'q option"
    and receive :: "'q \<Rightarrow> ('m \<times> 'q) option"
    and items :: "'q \<Rightarrow> 'm list"
    and capacity :: "'q \<Rightarrow> nat"
    and invar :: "'q \<Rightarrow> bool"
  assumes send_room: "invar q \<Longrightarrow> length (items q) < capacity q \<Longrightarrow>
      \<exists>q'. send m q = Some q' \<and> invar q' \<and> items q' = items q @ [m] \<and> capacity q' = capacity q"
    and send_full: "invar q \<Longrightarrow> capacity q \<le> length (items q) \<Longrightarrow> send m q = None"
    and receive_some: "invar q \<Longrightarrow> items q = m # ms \<Longrightarrow>
      \<exists>q'. receive q = Some (m, q') \<and> invar q' \<and> items q' = ms \<and> capacity q' = capacity q"
    and receive_none: "invar q \<Longrightarrow> items q = [] \<Longrightarrow> receive q = None"
begin

lemma send_cases:
  assumes "invar q"
  obtains "send m q = None" "capacity q \<le> length (items q)"
  | q' where "send m q = Some q'" "invar q'" "items q' = items q @ [m]"
      "capacity q' = capacity q" "length (items q) < capacity q"
  using assms send_room send_full by (metis leI)

lemma receive_cases:
  assumes "invar q"
  obtains "receive q = None" "items q = []"
  | m q' where "receive q = Some (m, q')" "invar q'" "items q = m # items q'" "capacity q' = capacity q"
  using assms receive_some receive_none by (metis list.exhaust)

lemma run_fifo:
  assumes "invar q" "length (items q) \<le> capacity q" "fifo_run send receive ops q = (sent, got, q')"
  shows "invar q' \<and> got @ items q' = items q @ sent \<and> length (items q') \<le> capacity q \<and> capacity q' = capacity q"
  using assms
proof (induction ops arbitrary: q sent got q')
  case Nil
  then show ?case by simp
next
  case (Cons p ops)
  show ?case
  proof (cases p)
    case (Put m)
    show ?thesis
      using Cons.prems(1)
    proof (cases rule: send_cases [of q m])
      case 1
      with Put Cons.prems have "fifo_run send receive ops q = (sent, got, q')" by simp
      with Cons.prems(1,2) show ?thesis by (rule Cons.IH)
    next
      case (2 q1)
      obtain s g q2 where r: "fifo_run send receive ops q1 = (s, g, q2)" by (metis prod_cases3)
      with 2 Put Cons.prems have "sent = m # s" "got = g" "q' = q2" by auto
      with Cons.IH [OF 2(2) _ r] 2 show ?thesis by simp
    qed
  next
    case Get
    show ?thesis
      using Cons.prems(1)
    proof (cases rule: receive_cases [of q])
      case 1
      with Get Cons.prems have "fifo_run send receive ops q = (sent, got, q')" by simp
      with Cons.prems(1,2) show ?thesis by (rule Cons.IH)
    next
      case (2 m q1)
      obtain s g q2 where r: "fifo_run send receive ops q1 = (s, g, q2)" by (metis prod_cases3)
      with 2 Get Cons.prems have "sent = s" "got = m # g" "q' = q2" by auto
      with Cons.IH [OF 2(2) _ r] 2 Cons.prems show ?thesis by simp
    qed
  qed
qed

end

text \<open>The calls that do not wait: the timeout passes as soon as the queue is found full (empty).\<close>

definition try_send :: "'m \<Rightarrow> 'm EebusQueue \<Rightarrow> 'm EebusQueue option" where
  "try_send m q =
     (case EebusQueue_Send [TimedOut] m 0 q of
        Some (kEebusErrorOk, q') \<Rightarrow> Some q'
      | _ \<Rightarrow> None)"

definition try_receive :: "'m EebusQueue \<Rightarrow> ('m \<times> 'm EebusQueue) option" where
  "try_receive q =
     (case EebusQueue_Receive [TimedOut] 0 q of
        Some (kEebusErrorOk, Some m, q') \<Rightarrow> Some (m, q')
      | _ \<Rightarrow> None)"

lemma try_send_eq:
  "\<not> is_closed q \<Longrightarrow> try_send m q = (if is_full q then None else Some (put_msg m q))"
  by (simp add: try_send_def EebusQueue_Send_def SendInternal_def SendPredicate_def kTimeoutInfinite_def)

lemma try_receive_eq:
  "\<not> is_closed q \<Longrightarrow> queue_invar q \<Longrightarrow>
   try_receive q = (if is_empty q then None else Some (hd (contents q), snd (take_msg q)))"
  by (cases "take_msg q") (use take_msg_defined [of q] in
    \<open>auto simp: try_receive_def EebusQueue_Receive_def ReceiveInternal_def ReceivePredicate_def
      kTimeoutInfinite_def\<close>)

interpretation eq: bounded_fifo try_send try_receive contents max_msg
  "\<lambda>q. queue_invar q \<and> \<not> is_closed q"
proof (unfold_locales, goal_cases)
  case (1 q m)
  then have "\<not> is_full q" by (simp add: is_full_contents)
  with 1 show ?case by (simp add: try_send_eq contents_put_msg put_msg_invar)
next
  case (2 q m)
  then have "is_full q"
    using msg_count_le [of q] by (simp add: is_full_contents length_contents)
  with 2 show ?case by (simp add: try_send_eq)
next
  case (3 q m ms)
  then have ne: "\<not> is_empty q" by (simp add: is_empty_contents)
  with 3 show ?case
    using take_msg_defined [of q] by (simp add: try_receive_eq take_msg_invar)
next
  case (4 q)
  then show ?case by (simp add: try_receive_eq is_empty_contents)
qed

section \<open>Construction and deadlines\<close>

lemma EebusQueueConstruct_ok:
  assumes "EebusQueueConstruct SIZE_MAX alloc mr ner nfr maxm sz = (kEebusErrorOk, q)"
  shows "queue_invar q \<and> contents q = [] \<and> \<not> is_closed q \<and> max_msg q = maxm
    \<and> maxm * sz \<le> SIZE_MAX"
proof -
  have "maxm \<le> SIZE_MAX div sz" "0 < sz"
    using assms by (auto simp: EebusQueueConstruct_def Let_def split: if_splits)
  then have "maxm * sz \<le> SIZE_MAX" by (metis div_times_less_eq_dividend le_trans mult_le_mono1)
  with assms show ?thesis
    by (auto simp: EebusQueueConstruct_def Let_def queue_invar_def queued_def msg_count_def
      contents_def split: if_splits)
qed

text \<open>
  C40: the queue is first in, first out. For any interleaving of sends and receives that do not
  wait, on a queue that was just constructed, the messages received followed by those still in the
  buffer are exactly the messages accepted, in order, and the buffer never holds more than its
  capacity.
\<close>

theorem queue_fifo:
  assumes "EebusQueueConstruct SIZE_MAX alloc mr ner nfr maxm sz = (kEebusErrorOk, q)"
    and "fifo_run try_send try_receive ops q = (sent, got, q')"
  shows "got @ contents q' = sent \<and> length (contents q') \<le> maxm"
proof -
  note c = EebusQueueConstruct_ok [OF assms(1)]
  then show ?thesis using eq.run_fifo [OF _ _ assms(2)] by simp
qed

definition queue2 :: "nat EebusQueue" where
  "queue2 = snd (EebusQueueConstruct 1000 True 0 0 0 2 8)"

theorem queue_fifo_witness:
  "case fifo_run try_send try_receive [Put 1, Put 2, Put 3, Get, Put 4, Get] queue2 of
     (sent, got, q') \<Rightarrow> sent = [1, 2, 4] \<and> got = [1, 2] \<and> got @ contents q' = sent"
proof -
  have c: "EebusQueueConstruct 1000 True 0 0 0 2 8 = (kEebusErrorOk, queue2)"
    by (simp add: queue2_def EebusQueueConstruct_def)
  obtain sent got q' where
    r: "fifo_run try_send try_receive [Put 1, Put 2, Put 3, Get, Put 4, Get] queue2 = (sent, got, q')"
    by (metis prod_cases3)
  moreover from r have "sent = [1, 2, 4] \<and> got = [1, 2]"
    by (simp add: queue2_def EebusQueueConstruct_def try_send_def try_receive_def EebusQueue_Send_def
      EebusQueue_Receive_def SendInternal_def ReceiveInternal_def SendPredicate_def
      ReceivePredicate_def put_msg_def take_msg_def advance_def Let_def kTimeoutInfinite_def)
  ultimately show ?thesis using queue_fifo [OF c r] by simp
qed

text \<open>
  A send, however long it waits and whatever the other threads do to the queue meanwhile (each
  leaving a queue that satisfies the invariant), either appends its message behind all the queued
  ones, on a queue with a free slot, or reports an error and leaves the queue it last saw.
\<close>

lemma send_never_overwrites:
  assumes "queue_invar q" "wakes_ok (max_msg q) ws"
    and "EebusQueue_Send ws m t q = Some (e, q')"
  shows "queue_invar q' \<and>
    (if e = kEebusErrorOk
     then \<exists>q1. (q1 = q \<or> Signalled q1 \<in> set ws) \<and> length (contents q1) < max_msg q1
            \<and> contents q' = contents q1 @ [m]
     else q' = q \<or> Signalled q' \<in> set ws)"
proof (cases "is_closed q")
  case True
  with assms show ?thesis by (auto simp: EebusQueue_Send_def)
next
  case False
  with assms(3) obtain r q1 where w: "WaitCond t SendPredicate ws q = Some (r, q1)"
    by (auto simp: EebusQueue_Send_def SendInternal_def split: option.splits)
  note seen = WaitCond_cases [OF w] and inv = WaitCond_invar [OF w assms(1,2)]
  show ?thesis
  proof (cases "r = 0 \<and> \<not> is_closed q1")
    case True
    with seen have nf: "\<not> is_full q1" by (simp add: SendPredicate_def)
    then have "length (contents q1) < max_msg q1"
      using inv is_full_iff [of q1] msg_count_le [of q1] by (simp add: length_contents)
    moreover have "e = kEebusErrorOk" "q' = put_msg m q1"
      using assms(3) False True w by (simp_all add: EebusQueue_Send_def SendInternal_def)
    ultimately show ?thesis
      using seen inv nf contents_put_msg put_msg_invar by force
  next
    case closed: False
    then have "e \<noteq> kEebusErrorOk" "q' = q1"
      using assms(3) False w by (auto simp: EebusQueue_Send_def SendInternal_def split: if_splits)
    then show ?thesis using seen inv by simp
  qed
qed

theorem send_never_overwrites_witness:
  "case EebusQueue_Send [Signalled (snd (take_msg (put_msg 2 (put_msg 1 queue2))))] 3 5
          (put_msg 2 (put_msg 1 queue2)) of
     Some (e, q') \<Rightarrow> e = kEebusErrorOk \<and> queue_invar q' \<and> contents q' = [2, 3]
   | None \<Rightarrow> False"
proof -
  let ?q = "put_msg 2 (put_msg 1 queue2)" and ?w = "snd (take_msg (put_msg 2 (put_msg 1 queue2)))"
  have h: "queue_invar ?q" "wakes_ok (max_msg ?q) [Signalled ?w]" by code_simp+
  have "EebusQueue_Send [Signalled ?w] 3 5 ?q = Some (kEebusErrorOk, put_msg 3 ?w)"
    and c: "contents (put_msg 3 ?w) = [2, 3]" by code_simp+
  then obtain q' where s: "EebusQueue_Send [Signalled ?w] 3 5 ?q = Some (kEebusErrorOk, q')"
    and c: "contents q' = [2, 3]" by blast
  from send_never_overwrites [OF h s] s c show ?thesis by simp
qed

text \<open>
  Clearing always terminates and empties the queue, but the message deallocator is called for
  the queued messages only when the queue is not full: on a full queue head and tail coincide, the
  loop body never runs and the messages are dropped without being released.
\<close>

lemma clear_releases:
  assumes "queue_invar q"
  shows "\<exists>freed q'. EebusQueue_Clear q = Some (freed, q') \<and> queue_invar q' \<and> contents q' = []
    \<and> map the freed = (if is_full q then [] else contents q)"
proof -
  obtain freed q' where c: "ClearInternal q = Some (freed, q')"
    "freed = (if is_full q then [] else queued q)"
    using ClearInternal_eq [OF assms] by blast
  then show ?thesis
    using ClearInternal_invar [OF assms c(1)] by (auto simp: EebusQueue_Clear_def contents_def)
qed

theorem clear_releases_witness:
  "contents (put_msg 2 (put_msg 1 queue2)) = [1, 2] \<and>
   (\<exists>freed q'. EebusQueue_Clear (put_msg 2 (put_msg 1 queue2)) = Some (freed, q') \<and> freed = [])"
proof -
  let ?q = "put_msg 2 (put_msg 1 queue2)"
  have "queue_invar ?q" "is_full ?q" "contents ?q = [1, 2]" by code_simp+
  then show ?thesis using clear_releases [of ?q] by auto
qed

text \<open>
  The deadline of a timed wait is the current time plus the timeout, with the nanoseconds
  normalised as \<^verbatim>\<open>pthread_cond_timedwait\<close> requires.
\<close>

lemma MsToTimespec_exact:
  assumes "MsToTimespec (s, ns) t = (s', ns')" "0 \<le> ns" "ns < 1000000000"
  shows "s' * 1000000000 + ns' = s * 1000000000 + ns + uint t * 1000000 \<and> 0 \<le> ns' \<and> ns' < 1000000000"
proof -
  define a b where "a = uint t div 1000" and "b = uint t mod 1000"
  have ut: "uint t = 1000 * a + b" and b: "0 \<le> b"
    by (simp_all add: a_def b_def mult_div_mod_eq)
  define x where "x = ns + b * 1000000"
  have r: "(s', ns') = (if x \<ge> 1000000000 then (s + a + x div 1000000000, x mod 1000000000)
      else (s + a, x))"
    using assms(1) unfolding MsToTimespec_def Let_def a_def b_def x_def by (simp only: fst_conv snd_conv)
  have x: "x = 1000000000 * (x div 1000000000) + x mod 1000000000"
    "0 \<le> x mod 1000000000" "x mod 1000000000 < 1000000000" "0 \<le> x"
    using assms(2) b by (simp_all add: x_def)
  show ?thesis
  proof (cases "x \<ge> 1000000000")
    case True
    with r have "s' = s + a + x div 1000000000" "ns' = x mod 1000000000" by simp_all
    then show ?thesis using x x_def ut by linarith
  next
    case False
    with r have "s' = s + a" "ns' = x" by simp_all
    then show ?thesis using False x(4) x_def ut by linarith
  qed
qed

end
