(* ===== verification/Eebus_Buffer.thy ===== *)
theory Eebus_Buffer
  imports Eebus_Prelude
begin

text \<open>
  Byte buffers and C strings: \<^verbatim>\<open>common/message_buffer.c\<close>, the parts of \<^verbatim>\<open>common/string_util.c\<close>
  and \<^verbatim>\<open>common/array_util.h\<close> the other components call, \<^verbatim>\<open>common/eebus_bool\<close> and
  \<^verbatim>\<open>common/eebus_math\<close>. A buffer owns its bytes through an optional deallocator; releasing it
  reports which bytes were handed to which deallocator.
\<close>

section \<open>Message buffers\<close>

datatype Deallocator = MessageBufferDeallocatorDefault | cJSON_free

record MessageBuffer =
  mb_data :: "byte list option"
  mb_data_size :: nat
  mb_deallocator :: "Deallocator option"

definition MessageBufferInitWithDeallocator ::
    "byte list option \<Rightarrow> nat \<Rightarrow> Deallocator option \<Rightarrow> MessageBuffer" where
  "MessageBufferInitWithDeallocator data sz dealloc =
     \<lparr>mb_data = data, mb_data_size = sz, mb_deallocator = dealloc\<rparr>"

definition MessageBufferInit :: "byte list option \<Rightarrow> nat \<Rightarrow> MessageBuffer" where
  "MessageBufferInit data sz =
     MessageBufferInitWithDeallocator data sz (Some MessageBufferDeallocatorDefault)"

definition MessageBufferRelease ::
    "MessageBuffer \<Rightarrow> (Deallocator \<times> byte list) option \<times> MessageBuffer" where
  "MessageBufferRelease b =
     ((case (mb_deallocator b, mb_data b) of
         (Some d, Some bs) \<Rightarrow> Some (d, bs)
       | _ \<Rightarrow> None),
      \<lparr>mb_data = None, mb_data_size = 0, mb_deallocator = None\<rparr>)"

text \<open>\<^verbatim>\<open>MessageBufferMove(src, dst)\<close>: the result is what \<open>dst\<close> released, the new \<open>src\<close>, the new \<open>dst\<close>.\<close>

definition MessageBufferMove ::
    "MessageBuffer \<Rightarrow> MessageBuffer \<Rightarrow> (Deallocator \<times> byte list) option \<times> MessageBuffer \<times> MessageBuffer" where
  "MessageBufferMove src dst =
     (fst (MessageBufferRelease dst),
      \<lparr>mb_data = None, mb_data_size = 0, mb_deallocator = None\<rparr>,
      \<lparr>mb_data = mb_data src, mb_data_size = mb_data_size src, mb_deallocator = mb_deallocator src\<rparr>)"

abbreviation released :: MessageBuffer where
  "released \<equiv> \<lparr>mb_data = None, mb_data_size = 0, mb_deallocator = None\<rparr>"

lemma MessageBufferRelease_buffer [simp]: "snd (MessageBufferRelease b) = released"
  by (simp add: MessageBufferRelease_def)

text \<open>Releasing twice frees once: the second call has nothing left to free.\<close>

lemma MessageBufferRelease_once: "fst (MessageBufferRelease (snd (MessageBufferRelease b))) = None"
  by (simp add: MessageBufferRelease_def)

section \<open>Strings\<close>

text \<open>The C string that starts at the first byte of a buffer: everything before the first NUL.\<close>

definition cstring :: "byte list \<Rightarrow> string" where
  "cstring bs = takeWhile (\<lambda>c. c \<noteq> CHR 0x00) bs"

definition nul_free :: "string \<Rightarrow> bool" where
  "nul_free s \<longleftrightarrow> CHR 0x00 \<notin> set s"

lemma cstring_snoc_nul [simp]: "nul_free s \<Longrightarrow> cstring (s @ CHR 0x00 # r) = s"
  unfolding cstring_def nul_free_def
  by (induction s) auto

lemma cstring_nul_free [simp]: "nul_free s \<Longrightarrow> cstring s = s"
  unfolding cstring_def nul_free_def
  by (induction s) auto

lemma nul_free_cstring [simp]: "nul_free (cstring s)"
  by (auto simp: nul_free_def cstring_def dest: set_takeWhileD)

definition StringIsEmpty :: "string option \<Rightarrow> bool" where
  "StringIsEmpty s = (case s of None \<Rightarrow> True | Some s \<Rightarrow> length s = 0)"

definition StringCopy :: "string option \<Rightarrow> string option" where
  "StringCopy src = src"

definition StringNCopy :: "string option \<Rightarrow> nat \<Rightarrow> string option" where
  "StringNCopy src n =
     (case src of None \<Rightarrow> None | Some s \<Rightarrow> if n = 0 then None else Some (take n s))"

text \<open>
  \<^verbatim>\<open>strncmp(a, b, n) == 0\<close> on C strings: the first \<open>n\<close> characters agree, where the strings are
  read up to and including their terminator.
\<close>

definition strncmp_eq :: "string \<Rightarrow> string \<Rightarrow> nat \<Rightarrow> bool" where
  "strncmp_eq a b n \<longleftrightarrow> take n a = take n b"

text \<open>\<^verbatim>\<open>ArrayCopy\<close> of bytes: \<open>NULL\<close> for a missing or empty source, or when the allocation fails.\<close>

definition ArrayCopy :: "bool \<Rightarrow> byte list option \<Rightarrow> byte list option" where
  "ArrayCopy alloc src =
     (case src of None \<Rightarrow> None | Some bs \<Rightarrow> if bs = [] \<or> \<not> alloc then None else Some bs)"

text \<open>Lower-case hexadecimal, two digits per byte; used for the subject key identifier.\<close>

definition hex_digit :: "nat \<Rightarrow> char" where
  "hex_digit h = char_of ((if h \<ge> 10 then of_char (CHR ''a'') - 10 else of_char (CHR ''0'')) + h)"

fun hex_loop :: "byte list \<Rightarrow> string" where
  "hex_loop [] = []"
| "hex_loop (b # bs) =
     hex_digit (of_char b div 16) # hex_digit (of_char b mod 16) # hex_loop bs"

definition StringWithHex :: "byte list option \<Rightarrow> string option" where
  "StringWithHex data =
     (case data of None \<Rightarrow> None | Some bs \<Rightarrow> if bs = [] then None else Some (hex_loop bs))"

lemma length_hex_loop: "length (hex_loop bs) = 2 * length bs"
  by (induction bs) auto

definition hex_val :: "char \<Rightarrow> nat" where
  "hex_val c = (if of_char c \<ge> (97::nat) then of_char c - 87 else of_char c - 48)"

lemma hex_val_digit: "h < 16 \<Longrightarrow> hex_val (hex_digit h) = h"
  by (auto simp: hex_val_def hex_digit_def of_char_of)

fun unhex :: "string \<Rightarrow> byte list" where
  "unhex (a # b # s) = char_of (hex_val a * 16 + hex_val b) # unhex s"
| "unhex _ = []"

text \<open>The hexadecimal text determines the bytes.\<close>

lemma unhex_hex_loop: "unhex (hex_loop bs) = bs"
proof (induction bs)
  case Nil
  then show ?case by simp
next
  case (Cons b bs)
  have "(of_char b :: nat) div 16 < 16" using nat_of_char_less_256 [of b] by linarith
  moreover have "(of_char b :: nat) div 16 * 16 + of_char b mod 16 = of_char b"
    by (simp add: div_mult_mod_eq)
  ultimately show ?case using Cons by (simp add: hex_val_digit)
qed

section \<open>Booleans and powers of ten\<close>

definition EebusBoolParse :: "string option \<Rightarrow> EebusError \<times> bool option" where
  "EebusBoolParse s =
     (case s of
        None \<Rightarrow> (kEebusErrorInputArgumentNull, None)
      | Some s \<Rightarrow>
          if s = ''true'' then (kEebusErrorOk, Some True)
          else if s = ''false'' then (kEebusErrorOk, Some False)
          else (kEebusErrorInputArgument, None))"

text \<open>The loop runs while \<open>i < exponent\<close> on \<^verbatim>\<open>int8_t\<close>; the product wraps at 64 bits.\<close>

fun PowerOfTen_loop :: "nat \<Rightarrow> 64 word \<Rightarrow> 64 word" where
  "PowerOfTen_loop 0 result = result"
| "PowerOfTen_loop (Suc n) result = PowerOfTen_loop n (result * 10)"

definition PowerOfTen :: "int \<Rightarrow> 64 word" where
  "PowerOfTen exponent = PowerOfTen_loop (nat exponent) 1"

lemma PowerOfTen_loop_eq: "PowerOfTen_loop n r = r * 10 ^ n"
  by (induction n arbitrary: r) (simp_all add: mult.assoc)

lemma PowerOfTen_exact: "0 \<le> e \<Longrightarrow> e \<le> 18 \<Longrightarrow> sint (PowerOfTen e) = 10 ^ nat e"
proof -
  assume e: "0 \<le> e" "e \<le> 18"
  have "(10::int) ^ nat e \<le> 10 ^ 18" using e by (intro power_increasing) auto
  then have "(10::int) ^ nat e < 2 ^ 63" by simp
  then show ?thesis
    using int_word_sint [where 'a = 64, of "10 ^ nat e"]
    by (simp add: PowerOfTen_def PowerOfTen_loop_eq)
qed

end
