(* ===== verification/Eebus_Duration.thy ===== *)
theory Eebus_Duration
  imports Eebus_Buffer
begin

text \<open>
  Numbers in texts and durations: \<^verbatim>\<open>common/eebus_date_time/eebus_duration.c\<close>. Members of type \<^verbatim>\<open>int32_t\<close> are integers; where a value is
  converted to this type it wraps around (\<open>to_i32\<close>), and an addition that leaves its range is undefined
  behaviour (\<open>None\<close>). \<^verbatim>\<open>long\<close> has \<open>lb\<close> bits.
\<close>

section \<open>Numbers in texts\<close>

definition isdigit :: "char \<Rightarrow> bool" where
  "isdigit c \<longleftrightarrow> 48 \<le> (of_char c :: nat) \<and> (of_char c :: nat) \<le> 57"

definition isspace :: "char \<Rightarrow> bool" where
  "isspace c \<longleftrightarrow> c = CHR '' '' \<or> 9 \<le> (of_char c :: nat) \<and> (of_char c :: nat) \<le> 13"

definition digit_value :: "char \<Rightarrow> nat" where
  "digit_value c = of_char c - 48"

definition number_of :: "string \<Rightarrow> nat" where
  "number_of ds = foldl (\<lambda>n c. 10 * n + digit_value c) 0 ds"

definition clamp :: "nat \<Rightarrow> int \<Rightarrow> int" where
  "clamp b v = max (- (2 ^ (b - 1))) (min (2 ^ (b - 1) - 1) v)"

definition to_i32 :: "int \<Rightarrow> int" where
  "to_i32 v = (v + 2 ^ 31) mod 2 ^ 32 - 2 ^ 31"

definition in_i32 :: "int \<Rightarrow> bool" where
  "in_i32 v \<longleftrightarrow> - (2 ^ 31) \<le> v \<and> v < 2 ^ 31"

text \<open>\<^verbatim>\<open>strtol\<close> and \<^verbatim>\<open>strtoll\<close> with base ten: the value and the rest of the text; \<open>None\<close> when there is no number.\<close>

definition strtol :: "nat \<Rightarrow> string \<Rightarrow> (int \<times> string) option" where
  "strtol b s =
     (let t = dropWhile isspace s;
          neg = (case t of c # _ \<Rightarrow> c = CHR ''-'' | [] \<Rightarrow> False);
          u = (case t of c # u \<Rightarrow> if c = CHR ''-'' \<or> c = CHR ''+'' then u else t | [] \<Rightarrow> t);
          ds = takeWhile isdigit u
      in if ds = [] then None
         else Some (clamp b (if neg then - int (number_of ds) else int (number_of ds)), dropWhile isdigit u))"

text \<open>The conversions \<^verbatim>\<open>%d\<close> of a number that is not negative, and \<^verbatim>\<open>%0wd\<close>.\<close>

definition digit_char :: "nat \<Rightarrow> char" where
  "digit_char n = char_of (48 + n)"

fun show_nat :: "nat \<Rightarrow> string" where
  "show_nat n = (if n < 10 then [digit_char n] else show_nat (n div 10) @ [digit_char (n mod 10)])"

declare show_nat.simps [simp del]

definition show_padded :: "nat \<Rightarrow> nat \<Rightarrow> string" where
  "show_padded w n = replicate (w - length (show_nat n)) (CHR ''0'') @ show_nat n"

lemma digit_char_digit: "n < 10 \<Longrightarrow> isdigit (digit_char n) \<and> digit_value (digit_char n) = n"
  by (simp add: isdigit_def digit_value_def digit_char_def)

lemma number_of_append: "number_of (ds @ [c]) = 10 * number_of ds + digit_value c"
  by (simp add: number_of_def)

lemma show_nat_digits: "show_nat n \<noteq> [] \<and> list_all isdigit (show_nat n)"
proof (induction n rule: show_nat.induct)
  case (1 n)
  then show ?case by (cases "n < 10") (simp_all add: show_nat.simps [of n] digit_char_digit)
qed

lemma number_of_show_nat: "number_of (show_nat n) = n"
proof (induction n rule: show_nat.induct)
  case (1 n)
  show ?case
  proof (cases "n < 10")
    case True
    then show ?thesis by (subst show_nat.simps) (simp add: number_of_def digit_char_digit)
  next
    case False
    then show ?thesis using 1 by (subst show_nat.simps) (simp add: number_of_append digit_char_digit)
  qed
qed

lemma number_of_zeros: "number_of (replicate k (CHR ''0'') @ s) = number_of s"
proof (induction k)
  case (Suc k)
  then show ?case by (simp add: number_of_def digit_value_def)
qed simp

lemma show_padded_digits: "show_padded w n \<noteq> [] \<and> list_all isdigit (show_padded w n)"
  using show_nat_digits [of n] by (auto simp: show_padded_def isdigit_def list_all_iff)

lemma number_of_show_padded: "number_of (show_padded w n) = n"
  by (simp add: show_padded_def number_of_zeros number_of_show_nat)

lemma takeWhile_digits: "list_all isdigit ds \<Longrightarrow> (\<forall>c r'. r = c # r' \<longrightarrow> \<not> isdigit c) \<Longrightarrow>
   takeWhile isdigit (ds @ r) = ds \<and> dropWhile isdigit (ds @ r) = r"
  by (induction ds) (cases r, auto)

lemma digit_not_sign: "isdigit c \<Longrightarrow> \<not> isspace c \<and> c \<noteq> CHR ''-'' \<and> c \<noteq> CHR ''+'' \<and> c \<noteq> CHR ''T''"
  by (auto simp: isdigit_def isspace_def)

lemma strtol_digits:
  assumes "ds \<noteq> []" and "list_all isdigit ds" and "\<forall>c r'. r = c # r' \<longrightarrow> \<not> isdigit c" and "int (number_of ds) < 2 ^ (b - 1)"
  shows "strtol b (ds @ r) = Some (int (number_of ds), r)"
proof -
  obtain c cs where ds: "ds = c # cs" using assms(1) by (cases ds) auto
  then have c: "\<not> isspace c" "c \<noteq> CHR ''-''" "c \<noteq> CHR ''+''" using assms(2) digit_not_sign by auto
  have "clamp b (int (number_of ds)) = int (number_of ds)"
    using assms(4) zero_le_power [of "2 :: int" "b - 1"] unfolding clamp_def by linarith
  then show ?thesis
    using takeWhile_digits [OF assms(2,3)] c ds by (auto simp: strtol_def Let_def)
qed

lemma dropWhile_shorter: "takeWhile P u \<noteq> [] \<Longrightarrow> length (dropWhile P u) < length u"
  by (cases u) (auto simp: le_imp_less_Suc length_dropWhile_le split: if_splits)

lemma strtol_rest_shorter:
  assumes "strtol b s = Some (v, r)"
  shows "length r < length s"
proof -
  define t where "t = dropWhile isspace s"
  define u where "u = (case t of c # u \<Rightarrow> if c = CHR ''-'' \<or> c = CHR ''+'' then u else t | [] \<Rightarrow> t)"
  have "takeWhile isdigit u \<noteq> []" "r = dropWhile isdigit u"
    using assms unfolding strtol_def Let_def t_def [symmetric] u_def [symmetric] by (auto split: if_splits)
  then have "length r < length u" using dropWhile_shorter by blast
  moreover have "length u \<le> length t" by (cases t) (auto simp: u_def)
  moreover have "length t \<le> length s" by (simp add: t_def length_dropWhile_le)
  ultimately show ?thesis by linarith
qed

lemma to_i32_id: "in_i32 v \<Longrightarrow> to_i32 v = v"
  by (simp add: to_i32_def in_i32_def)

section \<open>Durations\<close>

record EebusDuration =
  years :: int
  months :: int
  days :: int
  hours :: int
  minutes :: int
  seconds :: int
  milliseconds :: int

definition zero_duration_value :: EebusDuration where
  "zero_duration_value = \<lparr>years = 0, months = 0, days = 0, hours = 0, minutes = 0, seconds = 0, milliseconds = 0\<rparr>"

definition EebusDurationInvertSign :: "EebusDuration \<Rightarrow> EebusDuration" where
  "EebusDurationInvertSign d =
     \<lparr>years = - years d, months = - months d, days = - days d, hours = - hours d, minutes = - minutes d,
      seconds = - seconds d, milliseconds = - milliseconds d\<rparr>"

definition EebusDurationSetValue :: "EebusDuration \<Rightarrow> char \<Rightarrow> bool \<Rightarrow> int \<Rightarrow> EebusError \<times> EebusDuration" where
  "EebusDurationSetValue d key is_time v =
     (if is_time then
        if key = CHR ''H'' then (kEebusErrorOk, d\<lparr>hours := v\<rparr>)
        else if key = CHR ''M'' then (kEebusErrorOk, d\<lparr>minutes := v\<rparr>)
        else if key = CHR ''S'' then (kEebusErrorOk, d\<lparr>seconds := v\<rparr>)
        else (kEebusErrorInputArgument, d)
      else
        if key = CHR ''Y'' then (kEebusErrorOk, d\<lparr>years := v\<rparr>)
        else if key = CHR ''M'' then (kEebusErrorOk, d\<lparr>months := v\<rparr>)
        else if key = CHR ''D'' then (kEebusErrorOk, d\<lparr>days := v\<rparr>)
        else (kEebusErrorInputArgument, d))"

text \<open>At most three digits behind the point; \<open>f\<close> is the factor of the next one.\<close>

fun fraction_loop :: "nat \<Rightarrow> nat \<Rightarrow> string \<Rightarrow> nat \<times> string" where
  "fraction_loop f acc [] = (acc, [])"
| "fraction_loop f acc (c # cs) =
     (if isdigit c \<and> f > 0 then fraction_loop (f div 10) (acc + digit_value c * f) cs else (acc, c # cs))"

text \<open>The text starts with the point; with the error comes the text from the \<open>S\<close> on.\<close>

definition EebusDurationParseMs :: "EebusDuration \<Rightarrow> int \<Rightarrow> string \<Rightarrow> EebusError \<times> EebusDuration \<times> string" where
  "EebusDurationParseMs d v ps =
     (let (fractional, ps') = fraction_loop 100 0 (tl ps)
      in case ps' of
           [] \<Rightarrow> (kEebusErrorParse, d, ps)
         | c # _ \<Rightarrow>
             if c \<noteq> CHR ''S'' then (kEebusErrorParse, d, ps)
             else let (err, d) = EebusDurationSetValue d c True v
                  in if err \<noteq> kEebusErrorOk then (err, d, ps)
                     else (kEebusErrorOk, d\<lparr>milliseconds := int fractional\<rparr>, ps'))"

lemma fraction_loop_rest: "length (snd (fraction_loop f acc s)) \<le> length s"
  by (induction f acc s rule: fraction_loop.induct) auto

lemma ParseMs_rest: "EebusDurationParseMs d v ps = (err, d', ps') \<Longrightarrow> length ps' \<le> length ps"
  using fraction_loop_rest [of 100 0 "tl ps"]
  by (auto simp: EebusDurationParseMs_def Let_def split: prod.splits list.splits if_splits)

text \<open>The loop of \<^verbatim>\<open>EebusDurationParse\<close> over the text behind the \<open>P\<close>.\<close>

function duration_loop :: "nat \<Rightarrow> bool \<Rightarrow> EebusDuration \<Rightarrow> string \<Rightarrow> EebusError \<times> EebusDuration" where
  "duration_loop lb is_time d ps =
     (case ps of
        [] \<Rightarrow> (kEebusErrorOk, d)
      | c # s \<Rightarrow>
          if c = CHR ''T'' then if is_time then (kEebusErrorParse, d) else duration_loop lb True d s
          else (case strtol lb ps of
                  None \<Rightarrow> (kEebusErrorParse, d)
                | Some (v, rest) \<Rightarrow>
                    (case rest of
                       [] \<Rightarrow> EebusDurationSetValue d (CHR 0x00) is_time (to_i32 v)
                     | k # ks \<Rightarrow>
                         if k = CHR ''.'' then
                           (case EebusDurationParseMs d (to_i32 v) rest of
                              (err, d, ps') \<Rightarrow> if err \<noteq> kEebusErrorOk then (err, d) else duration_loop lb is_time d (tl ps'))
                         else (case EebusDurationSetValue d k is_time (to_i32 v) of
                                 (err, d) \<Rightarrow> if err \<noteq> kEebusErrorOk then (err, d) else duration_loop lb is_time d ks))))"
  by pat_completeness auto
termination
  by (relation "measure (\<lambda>(lb, is_time, d, ps). length ps)")
     (auto dest!: strtol_rest_shorter ParseMs_rest [OF sym])

declare duration_loop.simps [simp del]

definition EebusDurationParse :: "nat \<Rightarrow> string option \<Rightarrow> EebusError \<times> EebusDuration" where
  "EebusDurationParse lb s =
     (case s of
        None \<Rightarrow> (kEebusErrorInputArgumentNull, zero_duration_value)
      | Some s \<Rightarrow>
          let neg = (case s of c # _ \<Rightarrow> c = CHR ''-'' | [] \<Rightarrow> False);
              ps = (case s of c # r \<Rightarrow> if c = CHR ''-'' \<or> c = CHR ''+'' then r else s | [] \<Rightarrow> s)
          in case ps of
               [] \<Rightarrow> (kEebusErrorParse, zero_duration_value)
             | c # r \<Rightarrow>
                 if c \<noteq> CHR ''P'' then (kEebusErrorParse, zero_duration_value)
                 else (case duration_loop lb False zero_duration_value r of
                         (err, d) \<Rightarrow> if err \<noteq> kEebusErrorOk then (err, d)
                                    else (kEebusErrorOk, if neg then EebusDurationInvertSign d else d)))"

definition EebusDurationIsZero :: "EebusDuration \<Rightarrow> bool" where
  "EebusDurationIsZero d \<longleftrightarrow>
     years d = 0 \<and> months d = 0 \<and> days d = 0 \<and> hours d = 0 \<and> minutes d = 0 \<and> seconds d = 0 \<and> milliseconds d = 0"

definition EebusDurationIsNegative :: "EebusDuration \<Rightarrow> bool" where
  "EebusDurationIsNegative d \<longleftrightarrow>
     \<not> EebusDurationIsZero d \<and> years d \<le> 0 \<and> months d \<le> 0 \<and> days d \<le> 0 \<and> hours d \<le> 0 \<and> minutes d \<le> 0 \<and>
     seconds d \<le> 0 \<and> milliseconds d \<le> 0"

definition EebusDurationIsPositive :: "EebusDuration \<Rightarrow> bool" where
  "EebusDurationIsPositive d \<longleftrightarrow>
     \<not> EebusDurationIsZero d \<and> years d \<ge> 0 \<and> months d \<ge> 0 \<and> days d \<ge> 0 \<and> hours d \<ge> 0 \<and> minutes d \<ge> 0 \<and>
     seconds d \<ge> 0 \<and> milliseconds d \<ge> 0"

definition EebusDurationIsValid :: "EebusDuration \<Rightarrow> bool" where
  "EebusDurationIsValid d \<longleftrightarrow> EebusDurationIsZero d \<or> EebusDurationIsNegative d \<or> EebusDurationIsPositive d"

definition print_non_zero :: "int \<Rightarrow> (nat \<Rightarrow> string) \<Rightarrow> string" where
  "print_non_zero n fmt = (if n = 0 then [] else fmt (nat \<bar>n\<bar>))"

definition time_part :: "EebusDuration \<Rightarrow> string" where
  "time_part d =
     (if hours d \<noteq> 0 \<or> minutes d \<noteq> 0 \<or> seconds d \<noteq> 0 \<or> milliseconds d \<noteq> 0
      then ''T'' @ print_non_zero (hours d) (\<lambda>n. show_nat n @ ''H'') @ print_non_zero (minutes d) (\<lambda>n. show_nat n @ ''M'') @
           (if milliseconds d \<noteq> 0
            then print_non_zero (seconds d) show_nat @ print_non_zero (milliseconds d) (\<lambda>n. ''.'' @ show_padded 3 n @ ''S'')
            else print_non_zero (seconds d) (\<lambda>n. show_nat n @ ''S''))
      else [])"

definition EebusDurationToString :: "EebusDuration \<Rightarrow> string option" where
  "EebusDurationToString d =
     (if \<not> EebusDurationIsValid d then None
      else if EebusDurationIsZero d then Some ''PT0S''
      else Some ((if EebusDurationIsNegative d then ''-'' else []) @ ''P'' @
        print_non_zero (years d) (\<lambda>n. show_nat n @ ''Y'') @ print_non_zero (months d) (\<lambda>n. show_nat n @ ''M'') @
        print_non_zero (days d) (\<lambda>n. show_nat n @ ''D'') @ time_part d))"

text \<open>The size of the buffer less one.\<close>

definition EebusDurationGetStringLength :: "EebusDuration \<Rightarrow> nat" where
  "EebusDurationGetStringLength d =
     (if EebusDurationIsZero d then 5
      else 2 + (if EebusDurationIsNegative d then 1 else 0) +
        length (print_non_zero (years d) (\<lambda>n. show_nat n @ ''Y'')) + length (print_non_zero (months d) (\<lambda>n. show_nat n @ ''M'')) +
        length (print_non_zero (days d) (\<lambda>n. show_nat n @ ''D'')) + length (time_part d))"

definition EebusDurationToSeconds :: "EebusDuration \<Rightarrow> int" where
  "EebusDurationToSeconds d =
     (if \<not> EebusDurationIsValid d then 0
      else years d * 31536000 + months d * 2592000 + days d * 86400 + hours d * 3600 + minutes d * 60 + seconds d +
           (if milliseconds d < 0 then - (- milliseconds d div 1000) else milliseconds d div 1000))"

definition EebusDurationCompare :: "EebusDuration \<Rightarrow> EebusDuration \<Rightarrow> int" where
  "EebusDurationCompare d d' =
     (let cmp = (\<lambda>f k. if f d \<noteq> f d' then if f d < f d' then -1 else 1 else k)
      in if \<not> EebusDurationIsValid d \<or> \<not> EebusDurationIsValid d' then 0
         else cmp years (cmp months (cmp days (cmp hours (cmp minutes (cmp seconds (cmp milliseconds (0 :: int))))))))"

subsection \<open>Printing and parsing\<close>

definition duration_in_range :: "EebusDuration \<Rightarrow> bool" where
  "duration_in_range d \<longleftrightarrow>
     \<bar>years d\<bar> < 2 ^ 31 \<and> \<bar>months d\<bar> < 2 ^ 31 \<and> \<bar>days d\<bar> < 2 ^ 31 \<and> \<bar>hours d\<bar> < 2 ^ 31 \<and> \<bar>minutes d\<bar> < 2 ^ 31 \<and>
     \<bar>seconds d\<bar> < 2 ^ 31 \<and> \<bar>milliseconds d\<bar> < 1000"

lemma strtol_number:
  assumes "n < 2 ^ 31" and "\<not> isdigit k" and "32 \<le> lb"
  shows "strtol lb (show_nat n @ k # r) = Some (int n, k # r)"
proof -
  have "(2 :: nat) ^ 31 \<le> 2 ^ (lb - 1)" using assms(3) by (intro power_increasing) auto
  then have "n < 2 ^ (lb - 1)" using assms(1) by (rule less_le_trans [rotated])
  then have "int (number_of (show_nat n)) < 2 ^ (lb - 1)" by (simp add: number_of_show_nat)
  then show ?thesis
    using strtol_digits [of "show_nat n" "k # r" lb] show_nat_digits [of n] assms(2) by (simp add: number_of_show_nat)
qed

lemma show_nat_Cons: "\<exists>c cs. show_nat n = c # cs \<and> isdigit c"
  using show_nat_digits [of n] by (cases "show_nat n") auto

lemma duration_loop_component:
  assumes "n < 2 ^ 31" and "\<not> isdigit k" and "32 \<le> lb" and "k \<noteq> CHR ''.''"
    and "EebusDurationSetValue d k t (int n) = (kEebusErrorOk, d')"
  shows "duration_loop lb t d (show_nat n @ k # r) = duration_loop lb t d' r"
proof -
  obtain c cs where c: "show_nat n = c # cs" "isdigit c" using show_nat_Cons by blast
  have "c \<noteq> CHR ''T''" using digit_not_sign [OF c(2)] by simp
  moreover have "to_i32 (int n) = int n" using assms(1) by (intro to_i32_id) (simp add: in_i32_def)
  ultimately show ?thesis
    using strtol_number [OF assms(1-3), of r] assms(4,5) c(1)
    by (subst duration_loop.simps) simp
qed

lemma print_component:
  assumes "\<bar>x\<bar> < 2 ^ 31" and "\<not> isdigit k" and "32 \<le> lb" and "k \<noteq> CHR ''.''"
    and "\<And>v. EebusDurationSetValue d k t v = (kEebusErrorOk, f v)" and "f 0 = d"
  shows "duration_loop lb t d (print_non_zero x (\<lambda>n. show_nat n @ [k]) @ r) = duration_loop lb t (f \<bar>x\<bar>) r"
proof (cases "x = 0")
  case True
  then show ?thesis using assms(6) by (simp add: print_non_zero_def)
next
  case False
  have "nat \<bar>x\<bar> < 2 ^ 31" using assms(1) by (simp add: nat_less_iff)
  from duration_loop_component [OF this assms(2-4) assms(5)] show ?thesis
    using False by (simp add: print_non_zero_def)
qed

lemma digit_char_0: "digit_char 0 = CHR ''0''"
  by code_simp

lemma show_three:
  assumes "n < 1000"
  shows "show_padded 3 n = [digit_char (n div 100), digit_char (n div 10 mod 10), digit_char (n mod 10)]"
proof -
  have dd: "n div 10 div 10 = n div 100" by (simp add: div_mult2_eq [symmetric])
  have two: "replicate 2 (CHR ''0'') = ''00''" by (simp add: numeral_2_eq_2)
  consider "n < 10" | "10 \<le> n" "n < 100" | "100 \<le> n" by linarith
  then show ?thesis
  proof cases
    case 1
    then show ?thesis by (simp add: show_padded_def show_nat.simps [of n] digit_char_0 two)
  next
    case 2
    then have "n div 10 < 10" "n div 100 = 0" by auto
    then show ?thesis
      using 2 by (simp add: show_padded_def show_nat.simps [of n] show_nat.simps [of "n div 10"] digit_char_0)
  next
    case 3
    then have "\<not> n div 10 < 10" "n div 100 < 10" "\<not> n < 10" using assms by auto
    then have "show_nat n = [digit_char (n div 100), digit_char (n div 10 mod 10), digit_char (n mod 10)]"
      by (simp add: show_nat.simps [of n] show_nat.simps [of "n div 10"] show_nat.simps [of "n div 100"] dd)
    then show ?thesis by (simp add: show_padded_def)
  qed
qed

lemma fraction_three:
  assumes "n < 1000"
  shows "fraction_loop 100 0 (show_padded 3 n @ CHR ''S'' # r) = (n, CHR ''S'' # r)"
proof -
  have d: "n div 100 < 10" "n div 10 mod 10 < 10" "n mod 10 < 10" using assms by auto
  have "n div 10 div 10 = n div 100" by (simp add: div_mult2_eq [symmetric])
  then have "(n div 100) * 100 + (n div 10 mod 10) * 10 + n mod 10 = n"
    using div_mult_mod_eq [of n 10] div_mult_mod_eq [of "n div 10" 10] by linarith
  then show ?thesis
    using digit_char_digit [OF d(1)] digit_char_digit [OF d(2)] digit_char_digit [OF d(3)]
    by (simp add: show_three [OF assms] isdigit_def)
qed

text \<open>The components as they are printed, without their sign.\<close>

definition abs_duration :: "EebusDuration \<Rightarrow> EebusDuration" where
  "abs_duration d =
     \<lparr>years = \<bar>years d\<bar>, months = \<bar>months d\<bar>, days = \<bar>days d\<bar>, hours = \<bar>hours d\<bar>, minutes = \<bar>minutes d\<bar>,
      seconds = \<bar>seconds d\<bar>, milliseconds = \<bar>milliseconds d\<bar>\<rparr>"

lemma abs_duration_sign:
  assumes "EebusDurationIsValid d"
  shows "(if EebusDurationIsNegative d then EebusDurationInvertSign (abs_duration d) else abs_duration d) = d"
  using assms
  by (cases d) (auto simp: EebusDurationIsValid_def EebusDurationIsNegative_def EebusDurationIsPositive_def
      EebusDurationIsZero_def EebusDurationInvertSign_def abs_duration_def)

lemma not_digits: "\<not> isdigit (CHR ''Y'')" "\<not> isdigit (CHR ''M'')" "\<not> isdigit (CHR ''D'')" "\<not> isdigit (CHR ''H'')"
  "\<not> isdigit (CHR ''S'')" "\<not> isdigit (CHR ''.'')" "\<not> isdigit (CHR ''T'')"
  by (simp_all add: isdigit_def)

text \<open>The date part, read into a duration without any.\<close>

lemma parse_date_part:
  assumes "duration_in_range d" and "32 \<le> lb" and "years e = 0" "months e = 0" "days e = 0"
  shows "duration_loop lb False e (print_non_zero (years d) (\<lambda>n. show_nat n @ ''Y'') @
      print_non_zero (months d) (\<lambda>n. show_nat n @ ''M'') @ print_non_zero (days d) (\<lambda>n. show_nat n @ ''D'') @ r) =
    duration_loop lb False (e\<lparr>years := \<bar>years d\<bar>, months := \<bar>months d\<bar>, days := \<bar>days d\<bar>\<rparr>) r"
  using assms
  by (simp add: duration_in_range_def not_digits EebusDurationSetValue_def
      print_component [where f = "\<lambda>v. e\<lparr>years := v\<rparr>"]
      print_component [where f = "\<lambda>v. e\<lparr>years := \<bar>years d\<bar>, months := v\<rparr>"]
      print_component [where f = "\<lambda>v. e\<lparr>years := \<bar>years d\<bar>, months := \<bar>months d\<bar>, days := v\<rparr>"])

lemma parse_seconds_ms:
  assumes "n < 2 ^ 31" and "m < 1000" and "32 \<le> lb"
  shows "duration_loop lb True e (show_nat n @ CHR ''.'' # show_padded 3 m @ ''S'') =
    (kEebusErrorOk, e\<lparr>seconds := int n, milliseconds := int m\<rparr>)"
proof -
  obtain c cs where c: "show_nat n = c # cs" "isdigit c" using show_nat_Cons by blast
  have "c \<noteq> CHR ''T''" using digit_not_sign [OF c(2)] by simp
  moreover have "to_i32 (int n) = int n" using assms(1) by (intro to_i32_id) (simp add: in_i32_def)
  moreover have "EebusDurationParseMs e (int n) (CHR ''.'' # show_padded 3 m @ ''S'') =
      (kEebusErrorOk, e\<lparr>seconds := int n, milliseconds := int m\<rparr>, ''S'')"
    using fraction_three [OF assms(2), of "[]"] by (simp add: EebusDurationParseMs_def EebusDurationSetValue_def)
  ultimately show ?thesis
    using strtol_number [OF assms(1) not_digits(6) assms(3), of "show_padded 3 m @ ''S''"] c(1)
    by (subst duration_loop.simps) (simp add: duration_loop.simps [of lb True _ "[]"])
qed

lemma parse_point_first: "fst (duration_loop lb t e (CHR ''.'' # r)) = kEebusErrorParse"
  by (subst duration_loop.simps) (simp add: strtol_def isspace_def isdigit_def)

lemma parse_hours_minutes:
  assumes "duration_in_range d" and "32 \<le> lb" and "hours e = 0" "minutes e = 0"
  shows "duration_loop lb True e (print_non_zero (hours d) (\<lambda>n. show_nat n @ ''H'') @
      print_non_zero (minutes d) (\<lambda>n. show_nat n @ ''M'') @ r) =
    duration_loop lb True (e\<lparr>hours := \<bar>hours d\<bar>, minutes := \<bar>minutes d\<bar>\<rparr>) r"
  using assms
  by (simp add: duration_in_range_def not_digits EebusDurationSetValue_def
      print_component [where f = "\<lambda>v. e\<lparr>hours := v\<rparr>"]
      print_component [where f = "\<lambda>v. e\<lparr>hours := \<bar>hours d\<bar>, minutes := v\<rparr>"])

lemma duration_loop_T: "duration_loop lb False e (CHR ''T'' # r) = duration_loop lb True e r"
  by (subst duration_loop.simps) simp

lemma duration_loop_end: "duration_loop lb t e [] = (kEebusErrorOk, e)"
  by (subst duration_loop.simps) simp

lemma parse_time_part:
  assumes "duration_in_range d" and "32 \<le> lb" and "hours e = 0" "minutes e = 0" "seconds e = 0" "milliseconds e = 0"
    and "milliseconds d = 0 \<or> seconds d \<noteq> 0"
  shows "duration_loop lb False e (time_part d) =
    (kEebusErrorOk, e\<lparr>hours := \<bar>hours d\<bar>, minutes := \<bar>minutes d\<bar>, seconds := \<bar>seconds d\<bar>, milliseconds := \<bar>milliseconds d\<bar>\<rparr>)"
proof (cases "hours d = 0 \<and> minutes d = 0 \<and> seconds d = 0 \<and> milliseconds d = 0")
  case True
  then show ?thesis using assms(3-6) by (cases e) (simp add: time_part_def duration_loop_end)
next
  case False
  let ?e = "e\<lparr>hours := \<bar>hours d\<bar>, minutes := \<bar>minutes d\<bar>\<rparr>"
  have r: "\<bar>seconds d\<bar> < 2 ^ 31" "nat \<bar>seconds d\<bar> < 2 ^ 31" "nat \<bar>milliseconds d\<bar> < 1000"
    using assms(1) by (auto simp: duration_in_range_def nat_less_iff)
  show ?thesis
  proof (cases "milliseconds d = 0")
    case True
    have "duration_loop lb False e (time_part d) =
      duration_loop lb True ?e (print_non_zero (seconds d) (\<lambda>n. show_nat n @ ''S''))"
      using False True parse_hours_minutes [OF assms(1-4)] by (auto simp: time_part_def duration_loop_T)
    also have "\<dots> = duration_loop lb True (?e\<lparr>seconds := \<bar>seconds d\<bar>\<rparr>) []"
      using print_component [OF r(1) not_digits(5) assms(2), where d = ?e and t = True and r = "[]"
          and f = "\<lambda>v. ?e\<lparr>seconds := v\<rparr>"] assms(5) by (simp add: EebusDurationSetValue_def)
    finally show ?thesis using True assms(6) by (cases e) (simp add: duration_loop_end)
  next
    case ms: False
    then have "seconds d \<noteq> 0" using assms(7) by simp
    then have "duration_loop lb False e (time_part d) =
      duration_loop lb True ?e (show_nat (nat \<bar>seconds d\<bar>) @ CHR ''.'' # show_padded 3 (nat \<bar>milliseconds d\<bar>) @ ''S'')"
      using False ms parse_hours_minutes [OF assms(1-4)] by (auto simp: time_part_def duration_loop_T print_non_zero_def)
    then show ?thesis using parse_seconds_ms [OF r(2,3) assms(2)] by simp
  qed
qed

lemma parse_time_part_fails:
  assumes "duration_in_range d" and "32 \<le> lb" and "hours e = 0" "minutes e = 0"
    and "milliseconds d \<noteq> 0" and "seconds d = 0"
  shows "fst (duration_loop lb False e (time_part d)) = kEebusErrorParse"
proof -
  have "duration_loop lb False e (time_part d) =
      duration_loop lb True (e\<lparr>hours := \<bar>hours d\<bar>, minutes := \<bar>minutes d\<bar>\<rparr>)
        (CHR ''.'' # show_padded 3 (nat \<bar>milliseconds d\<bar>) @ ''S'')"
    using assms(5,6) parse_hours_minutes [OF assms(1-4)] by (auto simp: time_part_def duration_loop_T print_non_zero_def)
  then show ?thesis by (simp add: parse_point_first)
qed

lemma parse_signed:
  "EebusDurationParse lb (Some ((if neg then ''-'' else []) @ ''P'' @ r)) =
     (case duration_loop lb False zero_duration_value r of
        (err, d) \<Rightarrow> if err \<noteq> kEebusErrorOk then (err, d) else (kEebusErrorOk, if neg then EebusDurationInvertSign d else d))"
  by (cases neg) (simp_all add: EebusDurationParse_def split: prod.split)



end
