(* ===== verification/Eebus_Date_Time.thy ===== *)
theory Eebus_Date_Time
  imports Eebus_Duration "HOL-Library.Signed_Division" "HOL-Library.Monad_Syntax"
begin

text \<open>
  Dates and times: \<^verbatim>\<open>common/eebus_date_time/eebus_date.c\<close>, \<^verbatim>\<open>eebus_time.c\<close>, \<^verbatim>\<open>eebus_date_time.c\<close>. Division and remainder of C
  are \<open>sdiv\<close> and \<open>smod\<close>; arithmetic that leaves \<^verbatim>\<open>int32_t\<close> is undefined behaviour (\<open>None\<close>). The abstract calendar is
  the number of seconds since the beginning of year 0.
\<close>

section \<open>Dates\<close>

record EebusDate =
  year :: int
  month :: int
  day :: int

definition days_per_month :: "int list" where
  "days_per_month = [31, 28, 31, 30, 31, 30, 31, 31, 30, 31, 30, 31]"

definition IsLeapYear :: "int \<Rightarrow> bool" where
  "IsLeapYear y \<longleftrightarrow> y smod 4 = 0 \<and> y smod 100 \<noteq> 0 \<or> y smod 400 = 0"

definition EebusDateGetDaysInMonthNum :: "EebusDate \<Rightarrow> int" where
  "EebusDateGetDaysInMonthNum d =
     (if month d < 1 \<or> month d > 12 then 0
      else if month d = 2 then if IsLeapYear (year d) then 29 else 28
      else days_per_month ! nat (month d - 1))"

definition EebusDateIsValid :: "EebusDate \<Rightarrow> bool" where
  "EebusDateIsValid d \<longleftrightarrow>
     \<not> (year d < 0 \<or> year d > 2100) \<and> \<not> (month d < 1 \<or> month d > 12 \<or> day d < 1) \<and>
     \<not> (day d < 1 \<or> day d > EebusDateGetDaysInMonthNum d)"

text \<open>
  One number of a date or time: its value, which is stored before it is looked at what follows, and the text
  behind the character \<open>k\<close> that has to follow.
\<close>

definition number_until :: "nat \<Rightarrow> char \<Rightarrow> string \<Rightarrow> int \<times> string option" where
  "number_until lb k s =
     (case strtol lb s of
        None \<Rightarrow> (0, None)
      | Some (v, rest) \<Rightarrow> (to_i32 v, case rest of [] \<Rightarrow> None | c # r \<Rightarrow> if c = k then Some r else None))"

definition EebusDateParse :: "nat \<Rightarrow> string option \<Rightarrow> EebusDate \<Rightarrow> EebusError \<times> EebusDate" where
  "EebusDateParse lb s d0 =
     (case s of
        None \<Rightarrow> (kEebusErrorInputArgumentNull, d0)
      | Some s \<Rightarrow>
          (case number_until lb (CHR ''-'') s of
             (y, None) \<Rightarrow> (kEebusErrorParse, \<lparr>year = y, month = 0, day = 0\<rparr>)
           | (y, Some s) \<Rightarrow>
               (case number_until lb (CHR ''-'') s of
                  (m, None) \<Rightarrow> (kEebusErrorParse, \<lparr>year = y, month = m, day = 0\<rparr>)
                | (m, Some s) \<Rightarrow>
                    (case strtol lb s of
                       None \<Rightarrow> (kEebusErrorParse, \<lparr>year = y, month = m, day = 0\<rparr>)
                     | Some (v, rest) \<Rightarrow>
                         let d = \<lparr>year = y, month = m, day = to_i32 v\<rparr>
                         in (if rest \<noteq> [] \<or> \<not> EebusDateIsValid d then kEebusErrorParse else kEebusErrorOk, d)))))"

text \<open>\<^verbatim>\<open>snprintf\<close> into a buffer of \<open>n\<close> bytes.\<close>

definition snprintf :: "nat \<Rightarrow> string \<Rightarrow> string" where
  "snprintf n s = take (n - 1) s"

definition date_text :: "EebusDate \<Rightarrow> string" where
  "date_text d = show_padded 4 (nat (year d)) @ ''-'' @ show_padded 2 (nat (month d)) @ ''-'' @ show_padded 2 (nat (day d))"

definition EebusDateToString :: "EebusDate \<Rightarrow> string option" where
  "EebusDateToString d = (if \<not> EebusDateIsValid d then None else Some (snprintf 11 (date_text d)))"

definition EebusDateCompare :: "EebusDate \<Rightarrow> EebusDate \<Rightarrow> int" where
  "EebusDateCompare a b =
     (if year a \<noteq> year b then year a - year b
      else if month a \<noteq> month b then month a - month b
      else if day a \<noteq> day b then day a - day b
      else 0)"

section \<open>Times\<close>

record EebusTime =
  hour :: int
  minute :: int
  sec :: int

definition EebusTimeIsValid :: "EebusTime \<Rightarrow> bool" where
  "EebusTimeIsValid t \<longleftrightarrow>
     \<not> (hour t < 0 \<or> hour t \<ge> 24) \<and> \<not> (minute t < 0 \<or> minute t \<ge> 60) \<and> \<not> (sec t < 0 \<or> sec t \<ge> 60)"

text \<open>What may follow the seconds: nothing, \<open>Z\<close> and anything, or a point, digits and then one of these.\<close>

definition time_end :: "string \<Rightarrow> bool" where
  "time_end s = (case s of [] \<Rightarrow> True | c # _ \<Rightarrow> c = CHR ''Z'')"

definition seconds_end :: "string \<Rightarrow> bool" where
  "seconds_end s \<longleftrightarrow>
     time_end s \<or> (case s of [] \<Rightarrow> False | c # r \<Rightarrow> c = CHR ''.'' \<and> time_end (dropWhile isdigit r))"

definition EebusTimeParse :: "nat \<Rightarrow> string option \<Rightarrow> EebusTime \<Rightarrow> EebusError \<times> EebusTime" where
  "EebusTimeParse lb s t0 =
     (case s of
        None \<Rightarrow> (kEebusErrorInputArgumentNull, t0)
      | Some s \<Rightarrow>
          (case number_until lb (CHR '':'') s of
             (h, None) \<Rightarrow> (kEebusErrorParse, \<lparr>hour = h, minute = 0, sec = 0\<rparr>)
           | (h, Some s) \<Rightarrow>
               (case number_until lb (CHR '':'') s of
                  (m, None) \<Rightarrow> (kEebusErrorParse, \<lparr>hour = h, minute = m, sec = 0\<rparr>)
                | (m, Some s) \<Rightarrow>
                    (case strtol lb s of
                       None \<Rightarrow> (kEebusErrorParse, \<lparr>hour = h, minute = m, sec = 0\<rparr>)
                     | Some (v, rest) \<Rightarrow>
                         let t = \<lparr>hour = h, minute = m, sec = to_i32 v\<rparr>
                         in (if \<not> seconds_end rest \<or> \<not> EebusTimeIsValid t then kEebusErrorParse else kEebusErrorOk, t)))))"

definition time_text :: "EebusTime \<Rightarrow> string" where
  "time_text t =
     show_padded 2 (nat (hour t)) @ '':'' @ show_padded 2 (nat (minute t)) @ '':'' @ show_padded 2 (nat (sec t)) @ ''Z''"

definition EebusTimeToString :: "EebusTime \<Rightarrow> string option" where
  "EebusTimeToString t = (if \<not> EebusTimeIsValid t then None else Some (snprintf 10 (time_text t)))"

definition EebusTimeCompare :: "EebusTime \<Rightarrow> EebusTime \<Rightarrow> int" where
  "EebusTimeCompare a b =
     (if hour a \<noteq> hour b then hour a - hour b
      else if minute a \<noteq> minute b then minute a - minute b
      else sec a - sec b)"

section \<open>Dates with times\<close>

record EebusDateTime =
  dt_date :: EebusDate
  dt_time :: EebusTime

definition EebusDateTimeIsValid :: "EebusDateTime \<Rightarrow> bool" where
  "EebusDateTimeIsValid dt \<longleftrightarrow> EebusDateIsValid (dt_date dt) \<and> EebusTimeIsValid (dt_time dt)"

definition EebusDateTimeParse :: "nat \<Rightarrow> string option \<Rightarrow> EebusDateTime \<Rightarrow> EebusError \<times> EebusDateTime" where
  "EebusDateTimeParse lb s dt =
     (case s of
        None \<Rightarrow> (kEebusErrorInputArgumentNull, dt)
      | Some s \<Rightarrow>
          let date_part = takeWhile (\<lambda>c. c \<noteq> CHR ''T'') s
          in case dropWhile (\<lambda>c. c \<noteq> CHR ''T'') s of
               [] \<Rightarrow> (kEebusErrorParse, dt)
             | _ # time_part_text \<Rightarrow>
                 if length date_part \<ge> 11 then (kEebusErrorParse, dt)
                 else (case EebusDateParse lb (Some date_part) (dt_date dt) of
                         (err, d) \<Rightarrow>
                           if err \<noteq> kEebusErrorOk then (err, dt\<lparr>dt_date := d\<rparr>)
                           else (case EebusTimeParse lb (Some time_part_text) (dt_time dt) of
                                   (err, t) \<Rightarrow> (err, dt\<lparr>dt_date := d, dt_time := t\<rparr>))))"

definition EebusDateTimeToString :: "EebusDateTime \<Rightarrow> string option" where
  "EebusDateTimeToString dt =
     (if \<not> EebusDateTimeIsValid dt then None
      else Some (snprintf 21 (date_text (dt_date dt) @ ''T'' @ time_text (dt_time dt))))"

definition EebusDateTimeCompare :: "EebusDateTime \<Rightarrow> EebusDateTime \<Rightarrow> int" where
  "EebusDateTimeCompare a b =
     (let c = EebusDateCompare (dt_date a) (dt_date b)
      in if c \<noteq> 0 then c else EebusTimeCompare (dt_time a) (dt_time b))"

subsection \<open>Adding a duration\<close>

definition add_i32 :: "int \<Rightarrow> int \<Rightarrow> int option" where
  "add_i32 a b = (if in_i32 (a + b) then Some (a + b) else None)"

text \<open>A member and the next larger one. The most negative value has no \<^verbatim>\<open>-*filed\<close>.\<close>

definition Normalize :: "int \<Rightarrow> int \<Rightarrow> int \<Rightarrow> (int \<times> int) option" where
  "Normalize f n m =
     (if f \<ge> m then map_option (Pair (f smod m)) (add_i32 n (f sdiv m))
      else if f < 0 then
        if f = - (2 ^ 31) then None
        else if f smod m = 0 then map_option (Pair 0) (add_i32 n (- ((- f) sdiv m)))
        else map_option (Pair (m + f smod m)) (add_i32 n (- (1 + (- f) sdiv m)))
      else Some (f, n))"

text \<open>The functions get the date and time, and change the date.\<close>

definition NormalizeMonths :: "EebusDate \<Rightarrow> EebusDate option" where
  "NormalizeMonths d =
     do { m \<leftarrow> add_i32 (month d) (- 1);
          (m, y) \<leftarrow> Normalize m (year d) 12;
          m \<leftarrow> add_i32 m 1;
          Some (d\<lparr>year := y, month := m\<rparr>) }"

lemma sdiv_nonneg: "0 \<le> f \<Longrightarrow> 0 < m \<Longrightarrow> f sdiv m = f div m \<and> f smod m = f mod m" for f m :: int
  by (cases "f = 0") (simp_all add: signed_divide_int_def signed_modulo_int_def minus_div_mult_eq_mod)

lemma sdiv_neg: "f < 0 \<Longrightarrow> 0 < m \<Longrightarrow> f smod m = - ((- f) mod m)" for f m :: int
  by (simp add: signed_divide_int_def signed_modulo_int_def minus_mult_div_eq_mod [symmetric] algebra_simps)

lemma Normalize_Some:
  assumes "Normalize f n m = Some (f', n')" and "0 < m"
  shows "f' = f mod m \<and> n' = n + f div m"
proof -
  consider "f \<ge> m" | "0 \<le> f" "f < m" | "f < 0" by linarith
  then show ?thesis
  proof cases
    case 1
    then show ?thesis using assms sdiv_nonneg [of f m] by (auto simp: Normalize_def add_i32_def split: if_splits)
  next
    case 2
    then show ?thesis using assms by (auto simp: Normalize_def)
  next
    case 3
    then show ?thesis
      using assms sdiv_nonneg [of "- f" m] sdiv_neg [of f m] zmod_zminus1_eq_if [of "- f" m] zdiv_zminus1_eq_if [of m "- f"]
      by (auto simp: Normalize_def add_i32_def split: if_splits)
  qed
qed

lemma Normalize_ok:
  assumes "0 < m" and "- (2 ^ 31) < f" and "in_i32 (n + f div m)"
  shows "Normalize f n m = Some (f mod m, n + f div m)"
proof -
  have "f div m = - ((- f) sdiv m)" if "f < 0" "f smod m = 0"
    using that assms(1) sdiv_nonneg [of "- f" m] sdiv_neg [of f m] zdiv_zminus1_eq_if [of m "- f"] by auto
  moreover have "f div m = - (1 + (- f) sdiv m)" if "f < 0" "f smod m \<noteq> 0"
    using that assms(1) sdiv_nonneg [of "- f" m] sdiv_neg [of f m] zdiv_zminus1_eq_if [of m "- f"] by auto
  moreover have "f div m = f sdiv m" if "0 \<le> f" using that assms(1) sdiv_nonneg [of f m] by simp
  ultimately have "Normalize f n m \<noteq> None"
    using assms by (cases "f < 0"; cases "f smod m = 0") (simp_all add: Normalize_def add_i32_def)
  then show ?thesis using Normalize_Some [of f n m] assms(1) by fastforce
qed

lemma NormalizeMonths_Some:
  assumes "NormalizeMonths d = Some d'"
  shows "1 \<le> month d' \<and> month d' \<le> 12 \<and> day d' = day d \<and> 12 * year d' + month d' = 12 * year d + month d"
proof -
  obtain m y where n: "Normalize (month d - 1) (year d) 12 = Some (m, y)" and d': "d' = d\<lparr>year := y, month := m + 1\<rparr>"
    using assms by (auto simp: NormalizeMonths_def add_i32_def bind_eq_Some_conv split: if_splits)
  have "m = (month d - 1) mod 12" "y = year d + (month d - 1) div 12" using Normalize_Some [OF n] by simp_all
  then show ?thesis using d' by simp
qed

lemma month_cases:
  assumes "1 \<le> m" and "m \<le> (12 :: int)"
  shows "m = 1 \<or> m = 2 \<or> m = 3 \<or> m = 4 \<or> m = 5 \<or> m = 6 \<or> m = 7 \<or> m = 8 \<or> m = 9 \<or> m = 10 \<or> m = 11 \<or> m = 12"
  using assms by presburger

lemma days_in_month_28: "1 \<le> month d \<Longrightarrow> month d \<le> 12 \<Longrightarrow> 28 \<le> EebusDateGetDaysInMonthNum d \<and> EebusDateGetDaysInMonthNum d \<le> 31"
  by (drule (1) month_cases, elim disjE) (simp_all add: EebusDateGetDaysInMonthNum_def days_per_month_def)

text \<open>The two loops of \<^verbatim>\<open>NormalizeDays\<close>; days are counted from 0 in them.\<close>

function days_up :: "EebusDate \<Rightarrow> EebusDate option" where
  "days_up d =
     (if day d < EebusDateGetDaysInMonthNum d then Some d
      else do { m \<leftarrow> add_i32 (month d) 1;
                d' \<leftarrow> NormalizeMonths (d\<lparr>day := day d - EebusDateGetDaysInMonthNum d, month := m\<rparr>);
                days_up d' })"
  by pat_completeness auto
termination
proof (relation "measure (\<lambda>d. 2 * nat (day d) + (if 1 \<le> month d \<and> month d \<le> 12 then 0 else 1))")
  fix d m d'
  assume a: "\<not> day d < EebusDateGetDaysInMonthNum d"
    and n: "NormalizeMonths (d\<lparr>day := day d - EebusDateGetDaysInMonthNum d, month := m\<rparr>) = Some d'"
  show "(d', d) \<in> measure (\<lambda>d. 2 * nat (day d) + (if 1 \<le> month d \<and> month d \<le> 12 then 0 else 1))"
    using a NormalizeMonths_Some [OF n] days_in_month_28 [of d] by (auto simp: EebusDateGetDaysInMonthNum_def)
qed simp

function days_down :: "EebusDate \<Rightarrow> EebusDate option" where
  "days_down d =
     (if day d \<ge> 0 then Some d
      else do { m \<leftarrow> add_i32 (month d) (- 1);
                d' \<leftarrow> NormalizeMonths (d\<lparr>month := m\<rparr>);
                days_down (d'\<lparr>day := day d' + EebusDateGetDaysInMonthNum d'\<rparr>) })"
  by pat_completeness auto
termination
proof (relation "measure (\<lambda>d. nat (- day d))")
  fix d m d'
  assume a: "\<not> 0 \<le> day d" and n: "NormalizeMonths (d\<lparr>month := m\<rparr>) = Some d'"
  show "(d'\<lparr>day := day d' + EebusDateGetDaysInMonthNum d'\<rparr>, d) \<in> measure (\<lambda>d. nat (- day d))"
    using a NormalizeMonths_Some [OF n] days_in_month_28 [of d'] by auto
qed simp

declare days_up.simps [simp del] days_down.simps [simp del]

definition NormalizeDays :: "EebusDate \<Rightarrow> EebusDate option" where
  "NormalizeDays d =
     do { k \<leftarrow> add_i32 (day d) (- 1);
          d \<leftarrow> (if k > 0 then days_up (d\<lparr>day := k\<rparr>) else days_down (d\<lparr>day := k\<rparr>));
          Some (d\<lparr>day := day d + 1\<rparr>) }"

text \<open>Years and milliseconds of the duration are not added.\<close>

definition EebusDateTimeAddDuration ::
  "EebusDateTime \<Rightarrow> EebusDuration \<Rightarrow> (EebusError \<times> EebusDateTime) option" where
  "EebusDateTimeAddDuration dt d =
     (if \<not> EebusDateTimeIsValid dt \<or> \<not> EebusDurationIsValid d then Some (kEebusErrorInputArgument, dt)
      else do { s \<leftarrow> add_i32 (sec (dt_time dt)) (seconds d);
                (s, mi) \<leftarrow> Normalize s (minute (dt_time dt)) 60;
                mi \<leftarrow> add_i32 mi (minutes d);
                (mi, h) \<leftarrow> Normalize mi (hour (dt_time dt)) 60;
                h \<leftarrow> add_i32 h (hours d);
                (h, k) \<leftarrow> Normalize h (day (dt_date dt)) 24;
                k \<leftarrow> add_i32 k (days d);
                date \<leftarrow> NormalizeDays ((dt_date dt)\<lparr>day := k\<rparr>);
                mo \<leftarrow> add_i32 (month date) (months d);
                date \<leftarrow> NormalizeMonths (date\<lparr>month := mo\<rparr>);
                Some (kEebusErrorOk, \<lparr>dt_date = date, dt_time = \<lparr>hour = h, minute = mi, sec = s\<rparr>\<rparr>) })"

text \<open>\<^verbatim>\<open>struct tm\<close> counts years from 1900 and months from 0.\<close>

record tm =
  tm_year :: int
  tm_mon :: int
  tm_mday :: int
  tm_hour :: int
  tm_min :: int
  tm_sec :: int

definition EebusDateTimeFromTm :: "tm \<Rightarrow> EebusDateTime" where
  "EebusDateTimeFromTm t =
     \<lparr>dt_date = \<lparr>year = tm_year t + 1900, month = tm_mon t + 1, day = tm_mday t\<rparr>,
      dt_time = \<lparr>hour = tm_hour t, minute = tm_min t, sec = tm_sec t\<rparr>\<rparr>"

text \<open>\<^verbatim>\<open>spine/model/absolute_or_relative_time.c\<close>: a relative time counts from \<open>now\<close>, whatever the result of adding is.\<close>

datatype AbsoluteOrRelativeTimeType =
  kAbsoluteOrRelativeTimeTypeDateTime EebusDateTime
| kAbsoluteOrRelativeTimeTypeDuration EebusDuration

definition AbsoluteOrRelativeTimeGetTime :: "EebusDateTime \<Rightarrow> AbsoluteOrRelativeTimeType \<Rightarrow> EebusDateTime option" where
  "AbsoluteOrRelativeTimeGetTime now t =
     (case t of
        kAbsoluteOrRelativeTimeTypeDateTime dt \<Rightarrow> Some dt
      | kAbsoluteOrRelativeTimeTypeDuration d \<Rightarrow> map_option snd (EebusDateTimeAddDuration now d))"

section \<open>Printing and parsing\<close>

lemma length_show_nat: "0 < w \<Longrightarrow> n < 10 ^ w \<Longrightarrow> length (show_nat n) \<le> w"
proof (induction n arbitrary: w rule: show_nat.induct)
  case (1 n)
  show ?case
  proof (cases "n < 10")
    case False
    then obtain w' where w: "w = Suc w'" "0 < w'" using 1(2,3) by (cases w; cases "w - 1") auto
    then have "length (show_nat (n div 10)) \<le> w'"
      using 1(1) [OF False, of w'] 1(3) by (simp add: less_mult_imp_div_less mult.commute)
    then show ?thesis using False w by (simp add: show_nat.simps [of n])
  qed (use 1 in \<open>simp add: show_nat.simps [of n]\<close>)
qed

lemma length_show_padded: "0 < w \<Longrightarrow> n < 10 ^ w \<Longrightarrow> length (show_padded w n) = w"
  using length_show_nat [of w n] by (simp add: show_padded_def)

lemma strtol_padded:
  assumes "n < 2 ^ 31" and "32 \<le> lb" and "\<forall>c r'. r = c # r' \<longrightarrow> \<not> isdigit c"
  shows "strtol lb (show_padded w n @ r) = Some (int n, r)"
proof -
  have "(2 :: nat) ^ 31 \<le> 2 ^ (lb - 1)" using assms(2) by (intro power_increasing) auto
  then have "n < 2 ^ (lb - 1)" using assms(1) by (rule less_le_trans [rotated])
  then have "int (number_of (show_padded w n)) < 2 ^ (lb - 1)" by (simp add: number_of_show_padded)
  then show ?thesis
    using strtol_digits [of "show_padded w n" r lb] show_padded_digits [of w n] assms(3) by (simp add: number_of_show_padded)
qed

lemma to_i32_int: "n < 2 ^ 31 \<Longrightarrow> to_i32 (int n) = int n"
  by (rule to_i32_id) (simp add: in_i32_def)

lemma number_until_padded:
  "n < 2 ^ 31 \<Longrightarrow> 32 \<le> lb \<Longrightarrow> \<not> isdigit k \<Longrightarrow> number_until lb k (show_padded w n @ k # r) = (int n, Some r)"
  using strtol_padded [of n lb "k # r" w] to_i32_int [of n] by (simp add: number_until_def)

lemma separators: "\<not> isdigit (CHR ''-'')" "\<not> isdigit (CHR '':'')" "\<not> isdigit (CHR ''Z'')"
  by (simp_all add: isdigit_def)

lemma valid_date_bounds:
  assumes "EebusDateIsValid d"
  shows "0 \<le> year d" "year d \<le> 2100" "1 \<le> month d" "month d \<le> 12" "1 \<le> day d" "day d \<le> 31"
  using assms days_in_month_28 [of d] by (auto simp: EebusDateIsValid_def)

lemma valid_time_bounds:
  assumes "EebusTimeIsValid t"
  shows "0 \<le> hour t" "hour t < 24" "0 \<le> minute t" "minute t < 60" "0 \<le> sec t" "sec t < 60"
  using assms by (auto simp: EebusTimeIsValid_def)

lemma parse_date_text:
  assumes v: "EebusDateIsValid d" and lb: "32 \<le> lb"
  shows "EebusDateParse lb (Some (date_text d)) d0 = (kEebusErrorOk, d)"
proof -
  note b = valid_date_bounds [OF v]
  have n: "nat (year d) < 2 ^ 31" "nat (month d) < 2 ^ 31" "nat (day d) < 2 ^ 31" using b by (simp_all add: nat_less_iff)
  have "EebusDateIsValid \<lparr>year = year d, month = month d, day = day d\<rparr>" using v by (cases d) simp
  moreover have "to_i32 (day d) = day d" using to_i32_int [OF n(3)] b by simp
  ultimately show ?thesis
    using number_until_padded [OF n(1) lb separators(1), of 4] number_until_padded [OF n(2) lb separators(1), of 2]
      strtol_padded [OF n(3) lb, of "[]" 2] v b
    by (simp add: EebusDateParse_def date_text_def Let_def)
qed

lemma parse_time_text:
  assumes v: "EebusTimeIsValid t" and lb: "32 \<le> lb"
  shows "EebusTimeParse lb (Some (time_text t)) t0 = (kEebusErrorOk, t)"
proof -
  note b = valid_time_bounds [OF v]
  have n: "nat (hour t) < 2 ^ 31" "nat (minute t) < 2 ^ 31" "nat (sec t) < 2 ^ 31" using b by (simp_all add: nat_less_iff)
  have "EebusTimeIsValid \<lparr>hour = hour t, minute = minute t, sec = sec t\<rparr>" using v by (cases t) simp
  moreover have "to_i32 (sec t) = sec t" using to_i32_int [OF n(3)] b by simp
  ultimately show ?thesis
    using number_until_padded [OF n(1) lb separators(2), of 2] number_until_padded [OF n(2) lb separators(2), of 2]
      strtol_padded [OF n(3) lb, of "''Z''" 2] v b
    by (simp add: EebusTimeParse_def time_text_def seconds_end_def time_end_def separators Let_def)
qed

lemma length_date_text: "EebusDateIsValid d \<Longrightarrow> length (date_text d) = 10"
  using valid_date_bounds [of d] by (simp add: date_text_def length_show_padded nat_less_iff)

lemma length_time_text: "EebusTimeIsValid t \<Longrightarrow> length (time_text t) = 9"
  using valid_time_bounds [of t] by (simp add: time_text_def length_show_padded nat_less_iff)

lemma date_text_no_T: "\<forall>c \<in> set (date_text d). c \<noteq> CHR ''T''"
  using show_padded_digits digit_not_sign by (fastforce simp: date_text_def list_all_iff)

lemma EebusDateParse_valid: "EebusDateParse lb s d0 = (kEebusErrorOk, d) \<Longrightarrow> EebusDateIsValid d"
  by (auto simp: EebusDateParse_def Let_def split: option.splits prod.splits if_splits)

lemma EebusTimeParse_valid: "EebusTimeParse lb s t0 = (kEebusErrorOk, t) \<Longrightarrow> EebusTimeIsValid t"
  by (auto simp: EebusTimeParse_def Let_def split: option.splits prod.splits if_splits)

lemma EebusDateTimeParse_valid: "EebusDateTimeParse lb s dt0 = (kEebusErrorOk, dt) \<Longrightarrow> EebusDateTimeIsValid dt"
  by (auto simp: EebusDateTimeParse_def Let_def EebusDateTimeIsValid_def
      dest: EebusDateParse_valid EebusTimeParse_valid split: option.splits prod.splits list.splits if_splits)

text \<open>
  C18. A valid date and time is printed as twenty characters, with which the buffer is full, and parsing the text
  gives it again; what the parser accepts is always valid.
\<close>

theorem date_time_round_trip:
  assumes "EebusDateTimeIsValid dt" and "32 \<le> lb"
  shows "(\<exists>s. EebusDateTimeToString dt = Some s \<and> length s = 20 \<and> EebusDateTimeParse lb (Some s) dt0 = (kEebusErrorOk, dt)) \<and>
    (\<forall>s dt1. EebusDateTimeParse lb s dt0 = (kEebusErrorOk, dt1) \<longrightarrow> EebusDateTimeIsValid dt1)"
proof -
  let ?s = "date_text (dt_date dt) @ CHR ''T'' # time_text (dt_time dt)"
  have v: "EebusDateIsValid (dt_date dt)" "EebusTimeIsValid (dt_time dt)" using assms(1) by (simp_all add: EebusDateTimeIsValid_def)
  have l: "length ?s = 20" using length_date_text [OF v(1)] length_time_text [OF v(2)] by simp
  then have "EebusDateTimeToString dt = Some ?s" using assms(1) by (simp add: EebusDateTimeToString_def snprintf_def)
  moreover have "takeWhile (\<lambda>c. c \<noteq> CHR ''T'') ?s = date_text (dt_date dt)"
    "dropWhile (\<lambda>c. c \<noteq> CHR ''T'') ?s = CHR ''T'' # time_text (dt_time dt)"
    using date_text_no_T [of "dt_date dt"] by (simp_all add: takeWhile_append2 dropWhile_append2)
  then have "EebusDateTimeParse lb (Some ?s) dt0 = (kEebusErrorOk, dt)"
    using parse_date_text [OF v(1) assms(2)] parse_time_text [OF v(2) assms(2)] length_date_text [OF v(1)]
    by (simp add: EebusDateTimeParse_def)
  ultimately show ?thesis using l EebusDateTimeParse_valid by blast
qed

definition leap_day :: EebusDateTime where
  "leap_day = \<lparr>dt_date = \<lparr>year = 2024, month = 2, day = 29\<rparr>, dt_time = \<lparr>hour = 23, minute = 59, sec = 5\<rparr>\<rparr>"

lemma leap_day_valid: "EebusDateTimeIsValid leap_day"
  by (simp add: leap_day_def EebusDateTimeIsValid_def EebusDateIsValid_def EebusTimeIsValid_def
      EebusDateGetDaysInMonthNum_def IsLeapYear_def signed_modulo_int_def signed_divide_int_def)

theorem date_time_round_trip_witness:
  "\<exists>s. EebusDateTimeToString leap_day = Some s \<and> length s = 20 \<and> EebusDateTimeParse 32 (Some s) leap_day = (kEebusErrorOk, leap_day)"
  using date_time_round_trip [OF leap_day_valid, of 32 leap_day] by simp

section \<open>The calendar\<close>

definition days_before_year :: "int \<Rightarrow> int" where
  "days_before_year y = 365 * y + (y + 3) div 4 - (y + 99) div 100 + (y + 399) div 400"

definition days_before_month :: "int \<Rightarrow> int \<Rightarrow> int" where
  "days_before_month y m = (\<Sum>k\<leftarrow>[1..m - 1]. EebusDateGetDaysInMonthNum \<lparr>year = y, month = k, day = 1\<rparr>)"

definition day_number :: "EebusDate \<Rightarrow> int" where
  "day_number d = days_before_year (year d) + days_before_month (year d) (month d) + day d - 1"

definition calendar_seconds :: "EebusDateTime \<Rightarrow> int" where
  "calendar_seconds dt =
     86400 * day_number (dt_date dt) + 3600 * hour (dt_time dt) + 60 * minute (dt_time dt) + sec (dt_time dt)"

text \<open>A day that exists, in any year.\<close>

definition calendar_date :: "EebusDate \<Rightarrow> bool" where
  "calendar_date d \<longleftrightarrow> 1 \<le> month d \<and> month d \<le> 12 \<and> 1 \<le> day d \<and> day d \<le> EebusDateGetDaysInMonthNum d"

lemma smod_0: "0 < m \<Longrightarrow> f smod m = 0 \<longleftrightarrow> m dvd f" for f m :: int
  by (cases "0 \<le> f") (simp_all add: sdiv_nonneg sdiv_neg dvd_eq_mod_eq_0 [symmetric])

lemma leap_year_dvd: "IsLeapYear y \<longleftrightarrow> 4 dvd y \<and> \<not> 100 dvd y \<or> 400 dvd y"
  by (simp add: IsLeapYear_def smod_0)

lemma div_ceiling:
  assumes "0 < (n :: int)"
  shows "(y + (n - 1)) div n = y div n + (if n dvd y then 0 else 1)"
proof (cases "n dvd y")
  case True
  then show ?thesis using assms by (auto elim!: dvdE simp: div_pos_pos_trivial)
next
  case False
  then have r: "0 < y mod n" "y mod n < n"
    using assms pos_mod_sign [of n y] pos_mod_bound [of n y] by (auto simp: dvd_eq_mod_eq_0 order_less_le)
  have "y + (n - 1) = (y mod n - 1) + (y div n + 1) * n" using mult_div_mod_eq [of n y] by (simp add: algebra_simps)
  then have "(y + (n - 1)) div n = (y div n + 1) + (y mod n - 1) div n"
    using assms by (simp only: div_mult_self1 less_irrefl not_False_eq_True)
  then show ?thesis using r False by (simp add: div_pos_pos_trivial)
qed

lemma days_before_next_year: "days_before_year (y + 1) = days_before_year y + (if IsLeapYear y then 366 else 365)"
proof -
  have c: "(y + 3) div 4 = y div 4 + (if 4 dvd y then 0 else 1)" "(y + 99) div 100 = y div 100 + (if 100 dvd y then 0 else 1)"
    "(y + 399) div 400 = y div 400 + (if 400 dvd y then 0 else 1)"
    using div_ceiling [of 4 y] div_ceiling [of 100 y] div_ceiling [of 400 y] by simp_all
  have n: "(y + 1 + 3) div 4 = y div 4 + 1" "(y + 1 + 99) div 100 = y div 100 + 1" "(y + 1 + 399) div 400 = y div 400 + 1"
    by simp_all
  have "400 dvd y \<longrightarrow> 100 dvd y" "100 dvd y \<longrightarrow> 4 dvd y" by (auto elim!: dvdE)
  then show ?thesis unfolding days_before_year_def n c leap_year_dvd by auto
qed

lemma days_in_month_year: "EebusDateGetDaysInMonthNum d = EebusDateGetDaysInMonthNum \<lparr>year = year d, month = month d, day = 1\<rparr>"
  by (simp add: EebusDateGetDaysInMonthNum_def)

lemma days_in_month_day [simp]: "EebusDateGetDaysInMonthNum (d\<lparr>day := k\<rparr>) = EebusDateGetDaysInMonthNum d"
  by (simp add: EebusDateGetDaysInMonthNum_def)

lemma days_before_next_month:
  "1 \<le> m \<Longrightarrow> days_before_month y (m + 1) =
     days_before_month y m + EebusDateGetDaysInMonthNum \<lparr>year = y, month = m, day = 1\<rparr>"
  by (simp add: days_before_month_def upto_rec2 [of 1 m])

lemma days_before_month_1: "days_before_month y 1 = 0"
  by (simp add: days_before_month_def)

lemma days_of_year: "days_before_month y 13 = (if IsLeapYear y then 366 else 365)"
  by (simp add: days_before_month_def EebusDateGetDaysInMonthNum_def days_per_month_def upto_rec1)

lemma next_month_number:
  assumes "1 \<le> month d" "month d \<le> 12" and "1 \<le> month d'" "month d' \<le> 12"
    and "12 * year d' + month d' = 12 * year d + month d + 1"
  shows "days_before_year (year d') + days_before_month (year d') (month d') =
    days_before_year (year d) + days_before_month (year d) (month d) + EebusDateGetDaysInMonthNum d"
proof (cases "month d = 12")
  case True
  have "month d' = 1" using assms True by presburger
  moreover have "year d' = year d + 1" using calculation True assms(5) by simp
  ultimately show ?thesis
    using True days_before_next_month [of 12 "year d"] days_of_year [of "year d"] days_in_month_year [of d]
      days_before_next_year [of "year d"] by (simp add: days_before_month_1 split: if_splits)
next
  case False
  have y: "year d' = year d" using assms False by presburger
  then have "month d' = month d + 1" using assms(5) by simp
  then show ?thesis
    using y days_before_next_month [OF assms(1), of "year d"] days_in_month_year [of d] by simp
qed

lemma NormalizeMonths_ok:
  assumes "in_i32 (month d - 1)" "month d - 1 \<noteq> - (2 ^ 31)" and "in_i32 (year d + (month d - 1) div 12)"
  obtains d' where "NormalizeMonths d = Some d'" "1 \<le> month d'" "month d' \<le> 12" "day d' = day d"
    "12 * year d' + month d' = 12 * year d + month d"
proof -
  have "in_i32 (k mod 12 + 1)" for k using pos_mod_sign [of 12 k] pos_mod_bound [of 12 k] by (auto simp: in_i32_def)
  moreover have "- (2 ^ 31) < month d - 1" using assms(1,2) by (auto simp: in_i32_def)
  ultimately have "\<exists>d'. NormalizeMonths d = Some d'"
    using assms(1) Normalize_ok [of 12 "month d - 1" "year d"] assms(3) by (simp add: NormalizeMonths_def add_i32_def)
  then show ?thesis using NormalizeMonths_Some that by blast
qed

lemma days_up_correct:
  "1 \<le> month d \<Longrightarrow> month d \<le> 12 \<Longrightarrow> 0 \<le> day d \<Longrightarrow> - (2 ^ 31) \<le> year d \<Longrightarrow> year d + day d < 2 ^ 31 \<Longrightarrow>
   \<exists>d'. days_up d = Some d' \<and> 1 \<le> month d' \<and> month d' \<le> 12 \<and> 0 \<le> day d' \<and> day d' < EebusDateGetDaysInMonthNum d' \<and>
        day_number d' = day_number d \<and> year d \<le> year d' \<and> year d' + day d' \<le> year d + day d"
proof (induction d rule: days_up.induct)
  case (1 d)
  let ?n = "EebusDateGetDaysInMonthNum d"
  show ?case
  proof (cases "day d < ?n")
    case True
    then show ?thesis using 1 by (auto simp: days_up.simps [of d])
  next
    case False
    let ?e = "d\<lparr>day := day d - ?n, month := month d + 1\<rparr>"
    have n: "28 \<le> ?n" using days_in_month_28 1(2,3) by blast
    have m: "in_i32 (month d + 1)" using 1(2,3) by (simp add: in_i32_def)
    have "month d div 12 = 0 \<or> month d div 12 = 1" using 1(2,3) by presburger
    then have "in_i32 (year ?e + (month ?e - 1) div 12)" using 1(5,6) False n by (auto simp: in_i32_def)
    moreover have "in_i32 (month ?e - 1)" "month ?e - 1 \<noteq> - (2 ^ 31)" using 1(2,3) by (simp_all add: in_i32_def)
    ultimately obtain d' where d': "NormalizeMonths ?e = Some d'" "1 \<le> month d'" "month d' \<le> 12" "day d' = day ?e"
        "12 * year d' + month d' = 12 * year ?e + month ?e" using NormalizeMonths_ok [of ?e] by blast
    have y: "year d' = year d \<or> year d' = year d + 1" using d'(2,3,5) 1(2,3) by simp presburger
    have b: "0 \<le> day d'" "- (2 ^ 31) \<le> year d'" "year d' + day d' < 2 ^ 31" using y d'(4) False n 1(5,6) by auto
    have "days_up d = days_up d'" using False m d'(1) by (simp add: days_up.simps [of d] add_i32_def)
    moreover have "day_number d' = day_number d"
      using next_month_number [OF 1(2,3) d'(2,3)] d'(4,5) by (simp add: day_number_def)
    ultimately show ?thesis
      using 1(1) [OF False _ d'(1) d'(2,3) b] m y d'(4) n by (fastforce simp: add_i32_def)
  qed
qed

lemma days_down_correct:
  "1 \<le> month d \<Longrightarrow> month d \<le> 12 \<Longrightarrow> day d < EebusDateGetDaysInMonthNum d \<Longrightarrow> year d < 2 ^ 31 \<Longrightarrow>
   - (2 ^ 31) < year d + day d \<Longrightarrow> - (2 ^ 31) \<le> year d \<Longrightarrow>
   \<exists>d'. days_down d = Some d' \<and> 1 \<le> month d' \<and> month d' \<le> 12 \<and> 0 \<le> day d' \<and> day d' < EebusDateGetDaysInMonthNum d' \<and>
        day_number d' = day_number d \<and> year d' \<le> year d \<and> year d + day d \<le> year d' + day d'"
proof (induction d rule: days_down.induct)
  case (1 d)
  show ?case
  proof (cases "0 \<le> day d")
    case True
    then show ?thesis using 1 by (auto simp: days_down.simps [of d])
  next
    case False
    let ?e = "d\<lparr>month := month d - 1\<rparr>"
    have m: "in_i32 (month d - 1)" using 1(2,3) by (simp add: in_i32_def)
    have "(month d - 2) div 12 = 0 \<or> (month d - 2) div 12 = -1" using 1(2,3) by presburger
    then have "in_i32 (year ?e + (month ?e - 1) div 12)" using 1(5,6,7) False by (auto simp: in_i32_def)
    moreover have "in_i32 (month ?e - 1)" "month ?e - 1 \<noteq> - (2 ^ 31)" using 1(2,3) by (simp_all add: in_i32_def)
    ultimately obtain d' where d': "NormalizeMonths ?e = Some d'" "1 \<le> month d'" "month d' \<le> 12" "day d' = day ?e"
        "12 * year d' + month d' = 12 * year ?e + month ?e" using NormalizeMonths_ok [of ?e] by blast
    let ?f = "d'\<lparr>day := day d' + EebusDateGetDaysInMonthNum d'\<rparr>"
    have n: "28 \<le> EebusDateGetDaysInMonthNum d'" using days_in_month_28 d'(2,3) by blast
    have eq: "EebusDateGetDaysInMonthNum ?f = EebusDateGetDaysInMonthNum d'" by (simp add: EebusDateGetDaysInMonthNum_def)
    have y: "year d' = year d \<or> year d' = year d - 1" using d'(2,3,5) 1(2,3) by simp presburger
    have b: "day ?f < EebusDateGetDaysInMonthNum ?f" "year ?f < 2 ^ 31" "- (2 ^ 31) < year ?f + day ?f" "- (2 ^ 31) \<le> year ?f"
      using y d'(4) False n 1(5,6,7) unfolding eq by auto
    have "days_down d = days_down ?f" using False m d'(1) by (simp add: days_down.simps [of d] add_i32_def)
    moreover have "day_number ?f = day_number d"
      using next_month_number [OF d'(2,3) 1(2,3)] d'(4,5) by (simp add: day_number_def)
    moreover have "1 \<le> month ?f" "month ?f \<le> 12" using d'(2,3) by simp_all
    ultimately show ?thesis
      using 1(1) [OF False _ d'(1) _ _ b] m y d'(4) n by (fastforce simp: add_i32_def)
  qed
qed

lemma NormalizeDays_correct:
  assumes "1 \<le> month d" "month d \<le> 12" "0 \<le> year d" "year d \<le> 2100" "\<bar>day d\<bar> \<le> 2 ^ 31 - 3000"
  obtains d' where "NormalizeDays d = Some d'" "calendar_date d'" "day_number d' = day_number d"
    "- \<bar>day d\<bar> - 40 \<le> year d'" "year d' \<le> 2100 + \<bar>day d\<bar>"
proof -
  let ?e = "d\<lparr>day := day d - 1\<rparr>"
  have n: "28 \<le> EebusDateGetDaysInMonthNum ?e" by (rule conjunct1 [OF days_in_month_28]) (use assms in simp_all)
  have "\<exists>e'. (if day ?e > 0 then days_up ?e else days_down ?e) = Some e' \<and> 1 \<le> month e' \<and> month e' \<le> 12 \<and> 0 \<le> day e' \<and>
      day e' < EebusDateGetDaysInMonthNum e' \<and> day_number e' = day_number ?e \<and>
      - \<bar>day d\<bar> - 40 \<le> year e' \<and> year e' \<le> 2100 + \<bar>day d\<bar>"
  proof (cases "day ?e > 0")
    case True
    then show ?thesis using days_up_correct [of ?e] assms by fastforce
  next
    case False
    obtain e' where "days_down ?e = Some e'" "1 \<le> month e'" "month e' \<le> 12" "0 \<le> day e'" "day e' < EebusDateGetDaysInMonthNum e'"
        "day_number e' = day_number ?e" "year e' \<le> year ?e" "year ?e + day ?e \<le> year e' + day e'"
      using days_down_correct [of ?e] False n assms by fastforce
    then show ?thesis using False assms days_in_month_28 [of e'] by fastforce
  qed
  then obtain e' where e': "(if day ?e > 0 then days_up ?e else days_down ?e) = Some e'" "1 \<le> month e'" "month e' \<le> 12"
      "0 \<le> day e'" "day e' < EebusDateGetDaysInMonthNum e'" "day_number e' = day_number ?e"
      "- \<bar>day d\<bar> - 40 \<le> year e'" "year e' \<le> 2100 + \<bar>day d\<bar>" by blast
  have "in_i32 (day d - 1)" using assms(5) by (auto simp: in_i32_def)
  then have "NormalizeDays d = Some (e'\<lparr>day := day e' + 1\<rparr>)" using e'(1) by (simp add: NormalizeDays_def add_i32_def)
  moreover have "calendar_date (e'\<lparr>day := day e' + 1\<rparr>)"
    using e'(2-5) by (simp add: calendar_date_def)
  moreover have "day_number (e'\<lparr>day := day e' + 1\<rparr>) = day_number d" using e'(6) by (simp add: day_number_def)
  ultimately show ?thesis using that e'(7,8) by simp
qed

lemma calendar_of_valid: "EebusDateIsValid d \<Longrightarrow> calendar_date d"
  by (auto simp: EebusDateIsValid_def calendar_date_def)

text \<open>Members of a size that no addition overflows with.\<close>

definition moderate_duration :: "EebusDuration \<Rightarrow> bool" where
  "moderate_duration d \<longleftrightarrow>
     \<bar>months d\<bar> \<le> 2 ^ 30 \<and> \<bar>days d\<bar> \<le> 2 ^ 30 \<and> \<bar>hours d\<bar> \<le> 2 ^ 30 \<and> \<bar>minutes d\<bar> \<le> 2 ^ 30 \<and> \<bar>seconds d\<bar> \<le> 2 ^ 30"

definition clock_seconds :: "EebusDuration \<Rightarrow> int" where
  "clock_seconds d = 86400 * days d + 3600 * hours d + 60 * minutes d + seconds d"

text \<open>A member is added to and carried over: no overflow, and what the carry is.\<close>

lemma add_carry:
  assumes "0 \<le> a" "a < m" "\<bar>x\<bar> \<le> 2 ^ 30" "\<bar>n\<bar> \<le> 2 ^ 30" "m = 24 \<or> m = 60" "\<bar>c\<bar> \<le> 47000000"
  obtains r q where "add_i32 (a + c) x = Some (a + c + x)" "Normalize (a + c + x) n m = Some (r, n + q)" "0 \<le> r" "r < m"
    "\<bar>q\<bar> \<le> 47000000" "m * q + r = a + c + x"
proof -
  let ?f = "a + c + x"
  have f: "\<bar>?f\<bar> \<le> 1120741884" using assms by auto
  have q: "m * (?f div m) + ?f mod m = ?f" "0 \<le> ?f mod m" "?f mod m < m" using assms(1,2) by simp_all
  have b: "\<bar>?f div m\<bar> \<le> 47000000" using assms(5) q f by (elim disjE; hypsubst; linarith)
  have i: "in_i32 ?f" "- (2 ^ 31) < ?f" using f by (auto simp: in_i32_def)
  have "in_i32 (n + ?f div m)" using b assms(4) by (auto simp: in_i32_def)
  then have n: "Normalize ?f n m = Some (?f mod m, n + ?f div m)" using Normalize_ok i(2) assms(1,2) by simp
  show ?thesis
    by (rule that [of "?f mod m" "?f div m"]) (use n b i(1) q in \<open>simp_all only: add_i32_def if_True\<close>)
qed

lemma add_duration_calendar:
  assumes "EebusDateTimeIsValid dt" and "EebusDurationIsValid d" and "moderate_duration d"
  shows "\<exists>mid dt'. EebusDateTimeAddDuration dt d = Some (kEebusErrorOk, dt') \<and>
    calendar_date (dt_date mid) \<and> EebusTimeIsValid (dt_time mid) \<and> calendar_seconds mid = calendar_seconds dt + clock_seconds d \<and>
    dt_time dt' = dt_time mid \<and> day (dt_date dt') = day (dt_date mid) \<and> 1 \<le> month (dt_date dt') \<and> month (dt_date dt') \<le> 12 \<and>
    12 * year (dt_date dt') + month (dt_date dt') = 12 * year (dt_date mid) + month (dt_date mid) + months d"
proof -
  let ?t = "dt_time dt" and ?d = "dt_date dt"
  have v: "EebusDateIsValid ?d" "EebusTimeIsValid ?t" using assms(1) by (simp_all add: EebusDateTimeIsValid_def)
  note db = valid_date_bounds [OF v(1)] and tb = valid_time_bounds [OF v(2)]
  have m: "\<bar>months d\<bar> \<le> 2 ^ 30" "\<bar>days d\<bar> \<le> 2 ^ 30" "\<bar>hours d\<bar> \<le> 2 ^ 30" "\<bar>minutes d\<bar> \<le> 2 ^ 30" "\<bar>seconds d\<bar> \<le> 2 ^ 30"
    using assms(3) by (simp_all add: moderate_duration_def)
  obtain s q1 where s: "add_i32 (sec ?t + 0) (seconds d) = Some (sec ?t + 0 + seconds d)"
      "Normalize (sec ?t + 0 + seconds d) (minute ?t) 60 = Some (s, minute ?t + q1)" "0 \<le> s" "s < 60" "\<bar>q1\<bar> \<le> 47000000"
      "60 * q1 + s = sec ?t + 0 + seconds d"
    by (rule add_carry [of "sec ?t" 60 "seconds d" "minute ?t" 0]) (use tb m in simp_all)
  obtain mi q2 where mi: "add_i32 (minute ?t + q1) (minutes d) = Some (minute ?t + q1 + minutes d)"
      "Normalize (minute ?t + q1 + minutes d) (hour ?t) 60 = Some (mi, hour ?t + q2)" "0 \<le> mi" "mi < 60" "\<bar>q2\<bar> \<le> 47000000"
      "60 * q2 + mi = minute ?t + q1 + minutes d"
    by (rule add_carry [of "minute ?t" 60 "minutes d" "hour ?t" q1]) (use tb m s in simp_all)
  obtain h q3 where h: "add_i32 (hour ?t + q2) (hours d) = Some (hour ?t + q2 + hours d)"
      "Normalize (hour ?t + q2 + hours d) (day ?d) 24 = Some (h, day ?d + q3)" "0 \<le> h" "h < 24" "\<bar>q3\<bar> \<le> 47000000"
      "24 * q3 + h = hour ?t + q2 + hours d"
    by (rule add_carry [of "hour ?t" 24 "hours d" "day ?d" q2]) (use tb db m mi in simp_all)
  let ?k = "day ?d + q3 + days d"
  have k: "\<bar>?k\<bar> \<le> 1120741900" using h(5) m(2) db by auto
  then have ak: "add_i32 (day ?d + q3) (days d) = Some ?k" by (auto simp: add_i32_def in_i32_def)
  obtain e where e: "NormalizeDays (?d\<lparr>day := ?k\<rparr>) = Some e" "calendar_date e" "day_number e = day_number (?d\<lparr>day := ?k\<rparr>)"
      "- \<bar>?k\<bar> - 40 \<le> year e" "year e \<le> 2100 + \<bar>?k\<bar>"
    by (rule NormalizeDays_correct [of "?d\<lparr>day := ?k\<rparr>"]) (use db k in simp_all)
  have em: "1 \<le> month e" "month e \<le> 12" using e(2) by (simp_all add: calendar_date_def)
  let ?f = "e\<lparr>month := month e + months d\<rparr>"
  have am: "add_i32 (month e) (months d) = Some (month ?f)" using em m(1) by (auto simp: add_i32_def in_i32_def)
  have "\<bar>(month ?f - 1) div 12\<bar> \<le> 100000000" using em m(1) by simp
  then have "in_i32 (year ?f + (month ?f - 1) div 12)" using e(4,5) k by (auto simp: in_i32_def)
  moreover have "in_i32 (month ?f - 1)" "month ?f - 1 \<noteq> - (2 ^ 31)" using em m(1) by (auto simp: in_i32_def)
  ultimately obtain g where g: "NormalizeMonths ?f = Some g" "1 \<le> month g" "month g \<le> 12" "day g = day ?f"
      "12 * year g + month g = 12 * year ?f + month ?f" using NormalizeMonths_ok [of ?f] by blast
  let ?time = "\<lparr>hour = h, minute = mi, sec = s\<rparr>"
  have "EebusDateTimeAddDuration dt d = Some (kEebusErrorOk, \<lparr>dt_date = g, dt_time = ?time\<rparr>)"
    using assms(1,2) s(1,2) mi(1,2) h(1,2) ak e(1) am g(1) by (simp add: EebusDateTimeAddDuration_def)
  moreover have "calendar_seconds \<lparr>dt_date = e, dt_time = ?time\<rparr> = calendar_seconds dt + clock_seconds d"
    using e(3) s(6) mi(6) h(6) by (simp add: calendar_seconds_def clock_seconds_def day_number_def)
  moreover have "EebusTimeIsValid ?time" using s mi h by (simp add: EebusTimeIsValid_def)
  ultimately show ?thesis
    using e(2) g by (intro exI [of _ "\<lparr>dt_date = e, dt_time = ?time\<rparr>"] exI [of _ "\<lparr>dt_date = g, dt_time = ?time\<rparr>"]) simp
qed

text \<open>
  C17. Adding a valid duration of moderate size to a valid date and time always succeeds, without an overflow: days,
  hours, minutes and seconds advance the calendar by exactly that many seconds, to a date that exists and a time
  of the clock; the months are counted on from there without touching the day, and the years are ignored.
\<close>

theorem add_duration_advances_calendar:
  assumes "EebusDateTimeIsValid dt" and "EebusDurationIsValid d" and "moderate_duration d"
  shows "\<exists>mid dt'. EebusDateTimeAddDuration dt d = Some (kEebusErrorOk, dt') \<and>
    calendar_date (dt_date mid) \<and> EebusTimeIsValid (dt_time mid) \<and> calendar_seconds mid = calendar_seconds dt + clock_seconds d \<and>
    dt_time dt' = dt_time mid \<and> day (dt_date dt') = day (dt_date mid) \<and> 1 \<le> month (dt_date dt') \<and> month (dt_date dt') \<le> 12 \<and>
    12 * year (dt_date dt') + month (dt_date dt') = 12 * year (dt_date mid) + month (dt_date mid) + months d"
  using assms by (rule add_duration_calendar)

definition one_day_earlier :: EebusDuration where
  "one_day_earlier = zero_duration_value\<lparr>days := - 1, seconds := - 5\<rparr>"

theorem add_duration_advances_calendar_witness:
  "\<exists>mid dt'. EebusDateTimeAddDuration leap_day one_day_earlier = Some (kEebusErrorOk, dt') \<and>
    calendar_seconds mid = calendar_seconds leap_day - 86405 \<and> dt_time dt' = dt_time mid"
proof -
  have "EebusDurationIsValid one_day_earlier" "moderate_duration one_day_earlier" "clock_seconds one_day_earlier = - 86405"
    by (simp_all add: one_day_earlier_def zero_duration_value_def EebusDurationIsValid_def EebusDurationIsNegative_def
        EebusDurationIsZero_def moderate_duration_def clock_seconds_def)
  then show ?thesis using add_duration_advances_calendar [OF leap_day_valid, of one_day_earlier] by auto
qed

subsection \<open>The order of dates and times\<close>

lemma days_before_month_mono:
  assumes "1 \<le> m" "m \<le> m'" "m' \<le> 13"
  shows "days_before_month y m \<le> days_before_month y m'"
  using assms(2,3)
proof (induction m' rule: int_ge_induct)
  case (step k)
  have "28 \<le> EebusDateGetDaysInMonthNum \<lparr>year = y, month = k, day = 1\<rparr>"
    by (rule conjunct1 [OF days_in_month_28]) (use step(1,3) assms(1) in simp_all)
  then show ?case using step assms(1) days_before_next_month [of k y] by simp
qed simp

lemma days_before_year_mono: "y \<le> y' \<Longrightarrow> days_before_year y \<le> days_before_year y'"
proof (induction y' rule: int_ge_induct)
  case (step k)
  then show ?case using days_before_next_year [of k] by simp
qed simp

lemma day_in_month:
  assumes "calendar_date d"
  shows "day_number d < days_before_year (year d) + days_before_month (year d) (month d + 1)"
    "days_before_year (year d) + days_before_month (year d) (month d) \<le> day_number d"
  using assms days_before_next_month [of "month d" "year d"] days_in_month_year [of d]
  by (simp_all add: calendar_date_def day_number_def)

lemma day_in_year:
  assumes "calendar_date d"
  shows "day_number d < days_before_year (year d + 1)" "days_before_year (year d) \<le> day_number d"
proof -
  have "days_before_month (year d) (month d + 1) \<le> days_before_month (year d) 13"
    by (rule days_before_month_mono) (use assms in \<open>simp_all add: calendar_date_def\<close>)
  then show "day_number d < days_before_year (year d + 1)"
    using day_in_month(1) [OF assms] days_of_year [of "year d"] days_before_next_year [of "year d"] by (simp split: if_splits)
  have "days_before_month (year d) 1 \<le> days_before_month (year d) (month d)"
    by (rule days_before_month_mono) (use assms in \<open>simp_all add: calendar_date_def\<close>)
  then show "days_before_year (year d) \<le> day_number d"
    using day_in_month(2) [OF assms] by (simp add: days_before_month_1)
qed

lemma EebusDateCompare_less:
  assumes "calendar_date a" "calendar_date b" "EebusDateCompare a b < 0"
  shows "day_number a < day_number b"
proof -
  consider "year a < year b" | "year a = year b" "month a < month b" | "year a = year b" "month a = month b" "day a < day b"
    using assms(3) by (auto simp: EebusDateCompare_def split: if_splits)
  then show ?thesis
  proof cases
    case 1
    then have "days_before_year (year a + 1) \<le> days_before_year (year b)" by (intro days_before_year_mono) simp
    then show ?thesis using day_in_year(1) [OF assms(1)] day_in_year(2) [OF assms(2)] by linarith
  next
    case 2
    then have "days_before_month (year b) (month a + 1) \<le> days_before_month (year b) (month b)"
      using assms(1,2) by (intro days_before_month_mono) (simp_all add: calendar_date_def)
    then show ?thesis using day_in_month(1) [OF assms(1)] day_in_month(2) [OF assms(2)] 2 by simp
  next
    case 3
    then show ?thesis by (simp add: day_number_def)
  qed
qed

lemma EebusDateCompare_swap: "EebusDateCompare b a = - EebusDateCompare a b"
  by (simp add: EebusDateCompare_def)

lemma EebusDateCompare_0: "EebusDateCompare a b = 0 \<longleftrightarrow> a = b"
  by (cases a; cases b) (simp add: EebusDateCompare_def)

definition seconds_of_day :: "EebusTime \<Rightarrow> int" where
  "seconds_of_day t = 3600 * hour t + 60 * minute t + sec t"

lemma seconds_of_day_range: "EebusTimeIsValid t \<Longrightarrow> 0 \<le> seconds_of_day t \<and> seconds_of_day t < 86400"
  by (auto simp: EebusTimeIsValid_def seconds_of_day_def)

lemma EebusTimeCompare_sgn:
  assumes "EebusTimeIsValid a" "EebusTimeIsValid b"
  shows "sgn (EebusTimeCompare a b) = sgn (seconds_of_day a - seconds_of_day b)"
  using assms by (auto simp: EebusTimeIsValid_def EebusTimeCompare_def seconds_of_day_def sgn_if)

text \<open>
  Comparing two dates with times that exist gives the sign of the difference of their calendar seconds: the
  order of the fields is the order in time.
\<close>

lemma compare_is_calendar_order:
  assumes "calendar_date (dt_date a)" "EebusTimeIsValid (dt_time a)"
    and "calendar_date (dt_date b)" "EebusTimeIsValid (dt_time b)"
  shows "sgn (EebusDateTimeCompare a b) = sgn (calendar_seconds a - calendar_seconds b)"
proof -
  have c: "calendar_seconds x = 86400 * day_number (dt_date x) + seconds_of_day (dt_time x)" for x
    by (simp add: calendar_seconds_def seconds_of_day_def)
  note r = seconds_of_day_range [OF assms(2)] seconds_of_day_range [OF assms(4)]
  consider "EebusDateCompare (dt_date a) (dt_date b) < 0" | "EebusDateCompare (dt_date b) (dt_date a) < 0" | "dt_date a = dt_date b"
    using EebusDateCompare_swap [of "dt_date b" "dt_date a"] EebusDateCompare_0 [of "dt_date a" "dt_date b"] by linarith
  then show ?thesis
  proof cases
    case 1
    then have "calendar_seconds a < calendar_seconds b" using EebusDateCompare_less [OF assms(1,3)] r unfolding c by linarith
    then show ?thesis using 1 by (simp add: EebusDateTimeCompare_def)
  next
    case 2
    then have "calendar_seconds b < calendar_seconds a" using EebusDateCompare_less [OF assms(3,1)] r unfolding c by linarith
    then show ?thesis using 2 EebusDateCompare_swap [of "dt_date b" "dt_date a"] by (simp add: EebusDateTimeCompare_def)
  next
    case 3
    then show ?thesis
      using EebusTimeCompare_sgn [OF assms(2,4)] EebusDateCompare_0 [of "dt_date a" "dt_date b"]
      by (simp add: EebusDateTimeCompare_def c)
  qed
qed

text \<open>A duration without months leads to the date and time that many seconds later.\<close>

lemma add_clock_duration:
  assumes "EebusDateTimeIsValid dt" "EebusDurationIsValid d" "moderate_duration d" "months d = 0"
  obtains dt' where "EebusDateTimeAddDuration dt d = Some (kEebusErrorOk, dt')" "calendar_date (dt_date dt')" "EebusTimeIsValid (dt_time dt')"
    "calendar_seconds dt' = calendar_seconds dt + clock_seconds d"
proof -
  obtain mid dt' where c: "EebusDateTimeAddDuration dt d = Some (kEebusErrorOk, dt')" "calendar_date (dt_date mid)" "EebusTimeIsValid (dt_time mid)"
      "calendar_seconds mid = calendar_seconds dt + clock_seconds d" "dt_time dt' = dt_time mid" "day (dt_date dt') = day (dt_date mid)"
      "1 \<le> month (dt_date dt')" "month (dt_date dt') \<le> 12"
      "12 * year (dt_date dt') + month (dt_date dt') = 12 * year (dt_date mid) + month (dt_date mid)"
    using add_duration_calendar [OF assms(1-3)] assms(4) by auto
  have "1 \<le> month (dt_date mid)" "month (dt_date mid) \<le> 12" using c(2) by (simp_all add: calendar_date_def)
  then have y: "year (dt_date dt') = year (dt_date mid)" using c(7-9) by linarith
  then have "month (dt_date dt') = month (dt_date mid)" using c(9) by linarith
  then have "dt_date dt' = dt_date mid" using y c(6) by simp
  then have "dt' = mid" using c(5) by simp
  then show thesis using that c by blast
qed

end
