(* ===== verification/Ship_Model.thy ===== *)
theory Ship_Model
  imports Eebus_Buffer
begin

text \<open>
  The data model of SHIP: the enumerations and structures of \<^verbatim>\<open>ship/model/model.h\<close>, the connection
  states of \<^verbatim>\<open>ship/model/types.h\<close>, the timing constants of \<^verbatim>\<open>ship/ship_connection/types.h\<close>. An
  optional member (a pointer to a buffer inside the structure) is an \<open>option\<close>. The structure's
  \<^verbatim>\<open>format\<close> array with its \<^verbatim>\<open>format_size\<close> is the list of the formats in use. A member name that
  occurs in two structures carries a prefix. The \<^verbatim>\<open>void*\<close> value of a message and its
  \<open>MsgValueType\<close> tag are together a \<open>ShipMessage\<close>.
\<close>

datatype MsgType = kMsgTypeInit | kMsgTypeControl | kMsgTypeData | kMsgTypeEnd

definition msg_type_byte :: "MsgType \<Rightarrow> byte" where
  "msg_type_byte t =
     (case t of kMsgTypeInit \<Rightarrow> CHR 0x00 | kMsgTypeControl \<Rightarrow> CHR 0x01
      | kMsgTypeData \<Rightarrow> CHR 0x02 | kMsgTypeEnd \<Rightarrow> CHR 0x03)"

datatype MsgValueType =
    kValueUndefined
  | kSmeHello
  | kSmeProtocolHandshake
  | kSmeProtocolHandshakeError
  | kSmeConnectionPinState
  | kSmeConnectionPinInput
  | kSmeConnectionPinError
  | kData
  | kSmeConnectionAccessMethodsRequest
  | kSmeConnectionAccessMethods
  | kSmeClose

definition SHIP_PROTOCOL_ID :: string where
  "SHIP_PROTOCOL_ID = ''ee1.0''"

definition SHIP_PROTOCOL_MAX_SUPPORTED_MAJOR_VERSION :: u8 where
  "SHIP_PROTOCOL_MAX_SUPPORTED_MAJOR_VERSION = 1"

definition SHIP_PROTOCOL_MAX_SUPPORTED_MINOR_VERSION :: u8 where
  "SHIP_PROTOCOL_MAX_SUPPORTED_MINOR_VERSION = 0"

datatype ConnectionHelloPhase =
    kConnectionHelloPhasePending
  | kConnectionHelloPhaseReady
  | kConnectionHelloPhaseAborted

record ConnectionHello =
  hello_phase :: ConnectionHelloPhase
  waiting :: "u32 option"
  prolongation_request :: "bool option"

datatype MessageProtocolFormatType =
    kMessageProtocolFormatTypeUTF8
  | kMessageProtocolFormatTypeUTF16

datatype ProtocolHandshakeType =
    kProtocolHandshakeTypeAnnounceMax
  | kProtocolHandshakeTypeSelect

record Version =
  major :: u8
  minor :: u8

record MessageProtocolHandshake =
  handshake_type :: ProtocolHandshakeType
  version :: Version
  formats :: "MessageProtocolFormatType list"

datatype MessageProtocolHandshakeErrorType =
    kMessageProtocolHandshakeErrorTypeRFU
  | kMessageProtocolHandshakeErrorTypeTimeout
  | kMessageProtocolHandshakeErrorTypeUnexpectedMessage
  | kMessageProtocolHandshakeErrorTypeSelectionMismatch

record MessageProtocolHandshakeError =
  hs_error :: MessageProtocolHandshakeErrorType

datatype PinStateType =
    kPinStateTypeRequired
  | kPinStateTypeOptional
  | kPinStateTypePinOk
  | kPinStateTypeNone

datatype PinInputPermissionType =
    kPinInputPermissionTypeBusy
  | kPinInputPermissionTypeOk

record ConnectionPinState =
  pin_state :: PinStateType
  input_permission :: "PinInputPermissionType option"

record ConnectionPinInput =
  pin :: u64

datatype ConnectionPinErrorType =
    kConnectionPinErrorTypeRfu0
  | kConnectionPinErrorTypeWrongPin
  | kConnectionPinErrorTypeRfu4

record ConnectionPinError =
  pin_error :: ConnectionPinErrorType

record Data =
  protocol_id :: string
  payload :: MessageBuffer

record AccessMethods =
  am_id :: "string option"
  dns_sd_mdns :: bool
  dns_uri :: "string option"

datatype ConnectionClosePhaseType =
    kConnectionClosePhaseTypeAnnounce
  | kConnectionClosePhaseTypeConfirm

record ConnectionClose =
  close_phase :: ConnectionClosePhaseType
  max_time :: "u32 option"
  reason :: "string option"

datatype ShipMessage =
    VHello ConnectionHello
  | VHandshake MessageProtocolHandshake
  | VHandshakeError MessageProtocolHandshakeError
  | VPinState ConnectionPinState
  | VPinInput ConnectionPinInput
  | VPinError ConnectionPinError
  | VData Data
  | VAccessMethodsRequest
  | VAccessMethods AccessMethods
  | VClose ConnectionClose

definition value_type_of :: "ShipMessage \<Rightarrow> MsgValueType" where
  "value_type_of v =
     (case v of
        VHello _ \<Rightarrow> kSmeHello
      | VHandshake _ \<Rightarrow> kSmeProtocolHandshake
      | VHandshakeError _ \<Rightarrow> kSmeProtocolHandshakeError
      | VPinState _ \<Rightarrow> kSmeConnectionPinState
      | VPinInput _ \<Rightarrow> kSmeConnectionPinInput
      | VPinError _ \<Rightarrow> kSmeConnectionPinError
      | VData _ \<Rightarrow> kData
      | VAccessMethodsRequest \<Rightarrow> kSmeConnectionAccessMethodsRequest
      | VAccessMethods _ \<Rightarrow> kSmeConnectionAccessMethods
      | VClose _ \<Rightarrow> kSmeClose)"

section \<open>Connection states\<close>

datatype SmeState =
    kCmiStateInitStart
  | kCmiStateClientSend
  | kCmiStateClientWait
  | kCmiStateClientEvaluate
  | kCmiStateServerWait
  | kCmiStateServerEvaluate
  | kSmeHelloState
  | kSmeHelloStateReadyInit
  | kSmeHelloStateReadyListen
  | kSmeHelloStateReadyTimeout
  | kSmeHelloStatePendingInit
  | kSmeHelloStatePendingListen
  | kSmeHelloStatePendingTimeout
  | kSmeHelloStateOk
  | kSmeHelloStateAbort
  | kSmeHelloStateAbortDone
  | kSmeHelloStateRemoteAbortDone
  | kSmeHelloStateRejected
  | kSmeProtHStateServerInit
  | kSmeProtHStateClientInit
  | kSmeProtHStateServerListenProposal
  | kSmeProtHStateServerListenConfirm
  | kSmeProtHStateClientListenChoice
  | kSmeProtHStateTimeout
  | kSmeProtHStateClientOk
  | kSmeProtHStateServerOk
  | kSmePinStateCheckInit
  | kSmePinStateCheckListen
  | kSmePinStateCheckError
  | kSmePinStateCheckBusyInit
  | kSmePinStateCheckBusyWait
  | kSmePinStateCheckOk
  | kSmePinStateAskInit
  | kSmePinStateAskProcess
  | kSmePinStateAskRestrictedOk
  | kSmePinStateAskOk
  | kSmeAccessMethodsRequest
  | kSmeStateApproved
  | kDataExchange
  | kSmeStateError

definition kShipInitMessage :: "byte list" where
  "kShipInitMessage = [CHR 0x00, CHR 0x00]"

datatype ShipRole = kShipRoleServer | kShipRoleClient | kShipRoleAuto

section \<open>Timing constants, in milliseconds\<close>

definition cmiTimeout :: u32 where "cmiTimeout = 10000"
definition tHelloInit :: u32 where "tHelloInit = 60000"
definition tHelloInc :: u32 where "tHelloInc = 60000"
definition tHelloProlongThrInc :: u32 where "tHelloProlongThrInc = 30000"
definition tHelloProlongWaitingGap :: u32 where "tHelloProlongWaitingGap = 15000"
definition tHelloProlongMin :: u32 where "tHelloProlongMin = 1000"

end
