(* ===== verification/Eebus_Json.thy ===== *)
theory Eebus_Json
  imports Eebus_Buffer "HOL-Library.Countable"
begin

text \<open>
  The JSON layer. cJSON is a library outside the repository: its functions are the fields of
  \<open>cjson_api\<close>, over an abstract type \<open>'j\<close> of items, and every definition that reaches cJSON takes
  such a record. What the repository relies on is the predicate \<open>cjson_ok\<close>: the documented behaviour
  of items that were built with the constructors, and that printing such an item and parsing the
  text gives it back. \<^verbatim>\<open>common/json_impl_cjson.c\<close>, the wrapper the SPINE data model uses, is
  translated on top.

  An item under construction is a value here, not a pointer into a tree: a child is built first and
  attached afterwards. The repository discards the whole tree when any step fails, so a failed
  construction is \<open>None\<close>. A double is a \<open>rat\<close>.
\<close>

section \<open>The cJSON interface\<close>

record 'j cjson_api =
  api_Parse :: "string \<Rightarrow> 'j option"
  api_PrintUnformatted :: "'j \<Rightarrow> string option"
  api_GetObjectItem :: "'j \<Rightarrow> string \<Rightarrow> 'j option"
  api_GetArrayItem :: "'j \<Rightarrow> nat \<Rightarrow> 'j option"
  api_GetArraySize :: "'j \<Rightarrow> nat"
  api_GetStringValue :: "'j \<Rightarrow> string option"
  api_IsString :: "'j \<Rightarrow> bool"
  api_IsNumber :: "'j \<Rightarrow> bool"
  api_GetNumberValue :: "'j \<Rightarrow> rat"
  api_IsBool :: "'j \<Rightarrow> bool"
  api_IsTrue :: "'j \<Rightarrow> bool"
  api_IsArray :: "'j \<Rightarrow> bool"
  api_CreateObject :: 'j
  api_CreateArray :: 'j
  api_CreateNull :: 'j
  api_CreateString :: "string \<Rightarrow> 'j"
  api_CreateRaw :: "string \<Rightarrow> 'j"
  api_CreateNumber :: "rat \<Rightarrow> 'j"
  api_CreateBool :: "bool \<Rightarrow> 'j"
  api_AddItemToObject :: "'j \<Rightarrow> string \<Rightarrow> 'j \<Rightarrow> 'j"
  api_AddItemToArray :: "'j \<Rightarrow> 'j \<Rightarrow> 'j"

text \<open>
  The entry points take a pointer that may be \<^verbatim>\<open>NULL\<close>; cJSON answers such a call with \<^verbatim>\<open>NULL\<close>,
  \<^verbatim>\<open>false\<close> or 0.
\<close>

definition cJSON_PrintUnformatted :: "'j cjson_api \<Rightarrow> 'j option \<Rightarrow> string option" where
  "cJSON_PrintUnformatted A j = j \<bind> api_PrintUnformatted A"

definition cJSON_GetObjectItem :: "'j cjson_api \<Rightarrow> 'j option \<Rightarrow> string \<Rightarrow> 'j option" where
  "cJSON_GetObjectItem A j k = j \<bind> (\<lambda>j. api_GetObjectItem A j k)"

definition cJSON_HasObjectItem :: "'j cjson_api \<Rightarrow> 'j option \<Rightarrow> string \<Rightarrow> bool" where
  "cJSON_HasObjectItem A j k = (cJSON_GetObjectItem A j k \<noteq> None)"

definition cJSON_GetArrayItem :: "'j cjson_api \<Rightarrow> 'j option \<Rightarrow> nat \<Rightarrow> 'j option" where
  "cJSON_GetArrayItem A j i = j \<bind> (\<lambda>j. api_GetArrayItem A j i)"

definition cJSON_GetArraySize :: "'j cjson_api \<Rightarrow> 'j option \<Rightarrow> nat" where
  "cJSON_GetArraySize A j = (case j of None \<Rightarrow> 0 | Some j \<Rightarrow> api_GetArraySize A j)"

definition cJSON_GetStringValue :: "'j cjson_api \<Rightarrow> 'j option \<Rightarrow> string option" where
  "cJSON_GetStringValue A j = j \<bind> api_GetStringValue A"

definition cJSON_IsNumber :: "'j cjson_api \<Rightarrow> 'j option \<Rightarrow> bool" where
  "cJSON_IsNumber A j = (case j of None \<Rightarrow> False | Some j \<Rightarrow> api_IsNumber A j)"

definition cJSON_GetNumberValue :: "'j cjson_api \<Rightarrow> 'j option \<Rightarrow> rat" where
  "cJSON_GetNumberValue A j = (case j of None \<Rightarrow> 0 | Some j \<Rightarrow> api_GetNumberValue A j)"

definition cJSON_IsBool :: "'j cjson_api \<Rightarrow> 'j option \<Rightarrow> bool" where
  "cJSON_IsBool A j = (case j of None \<Rightarrow> False | Some j \<Rightarrow> api_IsBool A j)"

definition cJSON_IsTrue :: "'j cjson_api \<Rightarrow> 'j option \<Rightarrow> bool" where
  "cJSON_IsTrue A j = (case j of None \<Rightarrow> False | Some j \<Rightarrow> api_IsTrue A j)"

definition cJSON_CreateString :: "'j cjson_api \<Rightarrow> string option \<Rightarrow> 'j option" where
  "cJSON_CreateString A s = map_option (api_CreateString A) s"

definition cJSON_CreateRaw :: "'j cjson_api \<Rightarrow> string option \<Rightarrow> 'j option" where
  "cJSON_CreateRaw A s = map_option (api_CreateRaw A) s"

definition cJSON_AddItemToObject ::
    "'j cjson_api \<Rightarrow> 'j option \<Rightarrow> string \<Rightarrow> 'j option \<Rightarrow> 'j option" where
  "cJSON_AddItemToObject A ob k item =
     do { ob \<leftarrow> ob; item \<leftarrow> item; Some (api_AddItemToObject A ob k item) }"

definition cJSON_AddItemToArray :: "'j cjson_api \<Rightarrow> 'j option \<Rightarrow> 'j option \<Rightarrow> 'j option" where
  "cJSON_AddItemToArray A ar item =
     do { ar \<leftarrow> ar; item \<leftarrow> item; Some (api_AddItemToArray A ar item) }"

lemmas cjson_calls =
  cJSON_PrintUnformatted_def cJSON_GetObjectItem_def cJSON_HasObjectItem_def cJSON_GetArrayItem_def
  cJSON_GetArraySize_def cJSON_GetStringValue_def cJSON_IsNumber_def cJSON_GetNumberValue_def
  cJSON_IsBool_def cJSON_IsTrue_def cJSON_CreateString_def cJSON_CreateRaw_def
  cJSON_AddItemToObject_def cJSON_AddItemToArray_def

text \<open>
  The C casts of a double to an integer type. They truncate towards zero; out of the target's range
  C leaves the result undefined, and the model keeps the low bits.
\<close>

definition double_trunc :: "rat \<Rightarrow> int" where
  "double_trunc r = (if r < 0 then - \<lfloor>- r\<rfloor> else \<lfloor>r\<rfloor>)"

definition double_to_u32 :: "rat \<Rightarrow> u32" where
  "double_to_u32 r = word_of_int (double_trunc r)"

definition double_to_u8 :: "rat \<Rightarrow> u8" where
  "double_to_u8 r = word_of_int (double_trunc r)"

definition double_to_i32 :: "rat \<Rightarrow> int" where
  "double_to_i32 r = sint (word_of_int (double_trunc r) :: 32 word)"

lemma double_trunc_of_int [simp]: "double_trunc (of_int i) = i"
  by (simp add: double_trunc_def flip: of_int_minus)

lemma double_trunc_numeral [simp]:
  "double_trunc 0 = 0" "double_trunc 1 = 1" "double_trunc (numeral n) = numeral n"
  using double_trunc_of_int [of 0] double_trunc_of_int [of 1] double_trunc_of_int [of "numeral n"] by simp_all

lemma double_trunc_unsigned [simp]: "double_trunc (unsigned w) = uint w"
  by (metis double_trunc_of_int of_int_uint)

lemma double_to_u32_unsigned [simp]: "double_to_u32 (unsigned w) = w"
  by (simp add: double_to_u32_def)

lemma double_to_u8_unsigned [simp]: "double_to_u8 (unsigned w) = w"
  by (simp add: double_to_u8_def)

section \<open>What the repository relies on\<close>

definition mk_array :: "'j cjson_api \<Rightarrow> 'j list \<Rightarrow> 'j" where
  "mk_array A vs = foldl (api_AddItemToArray A) (api_CreateArray A) vs"

definition mk_object :: "'j cjson_api \<Rightarrow> string \<Rightarrow> 'j \<Rightarrow> 'j" where
  "mk_object A k v = api_AddItemToObject A (api_CreateObject A) k v"

text \<open>Names of object members are compared without regard to the case of ASCII letters.\<close>

definition tolower :: "char \<Rightarrow> char" where
  "tolower c = (if of_char c \<ge> (65::nat) \<and> of_char c \<le> (90::nat) then char_of (of_char c + (32::nat)) else c)"

lemma tolower_Char [simp]:
  "tolower (Char b0 b1 b2 b3 b4 b5 b6 b7) =
     Char b0 b1 b2 b3 b4
       (b5 \<or> b6 \<and> \<not> b7 \<and> (b0 \<or> b1 \<or> b2 \<or> b3 \<or> b4) \<and> \<not> (b4 \<and> b3 \<and> (b2 \<or> b1 \<and> b0))) b6 b7"
  by (rule injD [OF inj_of_char [where 'a = nat]])
     (cases b0; cases b1; cases b2; cases b3; cases b4; cases b5; cases b6; cases b7;
      simp add: tolower_def)

definition same_key :: "string \<Rightarrow> string \<Rightarrow> bool" where
  "same_key k k' \<longleftrightarrow> map tolower k = map tolower k'"

text \<open>
  \<open>printed A t t'\<close>: \<open>t\<close> was built with the constructors and \<open>t'\<close> is the item its text denotes. They
  differ only at a raw item, which prints its text verbatim and denotes what that text parses to.
\<close>

inductive printed :: "'j cjson_api \<Rightarrow> 'j \<Rightarrow> 'j \<Rightarrow> bool" for A where
  printed_string: "nul_free s \<Longrightarrow> printed A (api_CreateString A s) (api_CreateString A s)"
| printed_number: "0 \<le> n \<Longrightarrow> n < 2 ^ 32 \<Longrightarrow>
    printed A (api_CreateNumber A (of_int n)) (api_CreateNumber A (of_int n))"
| printed_bool: "printed A (api_CreateBool A b) (api_CreateBool A b)"
| printed_null: "printed A (api_CreateNull A) (api_CreateNull A)"
| printed_raw: "nul_free s \<Longrightarrow> api_PrintUnformatted A v = Some s \<Longrightarrow> api_Parse A s = Some v \<Longrightarrow>
    printed A (api_CreateRaw A s) v"
| printed_array: "list_all2 (printed A) vs vs' \<Longrightarrow> printed A (mk_array A vs) (mk_array A vs')"
| printed_object: "printed A v v' \<Longrightarrow> printed A (mk_object A k v) (mk_object A k v')"

definition cjson_ok :: "'j cjson_api \<Rightarrow> bool" where
  "cjson_ok A \<longleftrightarrow>
     (\<forall>s. api_GetStringValue A (api_CreateString A s) = Some s) \<and>
     (\<forall>n. api_IsNumber A (api_CreateNumber A n)) \<and>
     (\<forall>n. api_GetNumberValue A (api_CreateNumber A n) = n) \<and>
     (\<forall>b. api_IsBool A (api_CreateBool A b)) \<and>
     (\<forall>b. api_IsTrue A (api_CreateBool A b) = b) \<and>
     (\<forall>vs i. api_GetArrayItem A (mk_array A vs) i = (if i < length vs then Some (vs ! i) else None)) \<and>
     (\<forall>vs. api_GetArraySize A (mk_array A vs) = length vs) \<and>
     api_GetArraySize A (api_CreateNull A) = 0 \<and>
     (\<forall>k v k'. api_GetObjectItem A (mk_object A k v) k' = (if same_key k k' then Some v else None)) \<and>
     (\<forall>t t'. printed A t t' \<longrightarrow>
        (\<exists>s. api_PrintUnformatted A t = Some s \<and> nul_free s \<and> api_Parse A s = Some t')) \<and>
     (\<forall>k v s. api_PrintUnformatted A (mk_object A k v) = Some s \<longrightarrow> 2 \<le> length s)"

lemma cjson_ok_accessors:
  assumes "cjson_ok A"
  shows "api_GetStringValue A (api_CreateString A s) = Some s"
    and "api_IsNumber A (api_CreateNumber A n)"
    and "api_GetNumberValue A (api_CreateNumber A n) = n"
    and "api_IsBool A (api_CreateBool A b)"
    and "api_IsTrue A (api_CreateBool A b) = b"
    and "api_GetArrayItem A (mk_array A vs) i = (if i < length vs then Some (vs ! i) else None)"
    and "api_GetArraySize A (mk_array A vs) = length vs"
    and "api_GetArraySize A (api_CreateNull A) = 0"
    and "api_GetObjectItem A (mk_object A k v) k' = (if same_key k k' then Some v else None)"
  using assms by (simp_all add: cjson_ok_def)

lemma cjson_ok_print:
  assumes "cjson_ok A" "printed A (mk_object A k v) t'"
  obtains s where "api_PrintUnformatted A (mk_object A k v) = Some s" "nul_free s" "2 \<le> length s"
    "api_Parse A s = Some t'"
proof -
  have "\<exists>s. api_PrintUnformatted A (mk_object A k v) = Some s \<and> nul_free s \<and> api_Parse A s = Some t'"
    using assms by (simp add: cjson_ok_def)
  moreover have "api_PrintUnformatted A (mk_object A k v) = Some s \<Longrightarrow> 2 \<le> length s" for s
    using assms(1) by (simp add: cjson_ok_def)
  ultimately show ?thesis using that by auto
qed

lemma mk_array_Nil: "api_CreateArray A = mk_array A []"
  by (simp add: mk_array_def)

lemma mk_array_snoc: "api_AddItemToArray A (mk_array A vs) v = mk_array A (vs @ [v])"
  by (simp add: mk_array_def)

lemma mk_object_eq: "api_AddItemToObject A (api_CreateObject A) k v = mk_object A k v"
  by (simp add: mk_object_def)

lemmas built_simps = mk_array_Nil mk_array_snoc mk_object_eq

section \<open>The wrapper in \<^verbatim>\<open>json_impl_cjson.c\<close>\<close>

definition JsonAddItemToArray :: "'j cjson_api \<Rightarrow> 'j option \<Rightarrow> 'j option \<Rightarrow> 'j option" where
  "JsonAddItemToArray A ar item = cJSON_AddItemToArray A ar item"

text \<open>
  \<^verbatim>\<open>JsonAddObjectToArray\<close> returns the new empty object inside the array, and the caller adds one
  member to it: \<open>JsonAddObjectToArray A ar k item\<close> is the array after both steps.
\<close>

definition JsonAddObjectToArray ::
    "'j cjson_api \<Rightarrow> 'j option \<Rightarrow> string \<Rightarrow> 'j option \<Rightarrow> 'j option" where
  "JsonAddObjectToArray A ar k item =
     (case ar of
        None \<Rightarrow> None
      | Some ar \<Rightarrow>
          JsonAddItemToArray A (Some ar) (cJSON_AddItemToObject A (Some (api_CreateObject A)) k item))"

definition JsonAddStringToArray :: "'j cjson_api \<Rightarrow> 'j option \<Rightarrow> string option \<Rightarrow> 'j option" where
  "JsonAddStringToArray A ar s =
     (if ar = None \<or> s = None then None else JsonAddItemToArray A ar (cJSON_CreateString A s))"

definition JsonAddNumberToArray :: "'j cjson_api \<Rightarrow> 'j option \<Rightarrow> rat \<Rightarrow> 'j option" where
  "JsonAddNumberToArray A ar n =
     (if ar = None then None else JsonAddItemToArray A ar (Some (api_CreateNumber A n)))"

definition JsonAddItem ::
    "'j cjson_api \<Rightarrow> 'j option \<Rightarrow> string \<Rightarrow> 'j option \<Rightarrow> bool \<Rightarrow> 'j option" where
  "JsonAddItem A ob k item is_root =
     (if is_root then cJSON_AddItemToObject A ob k item else JsonAddObjectToArray A ob k item)"

text \<open>The search of a named item within a sequence; the loop runs over the array's elements.\<close>

fun JsonGetItem_loop :: "'j cjson_api \<Rightarrow> 'j option \<Rightarrow> string \<Rightarrow> nat \<Rightarrow> nat \<Rightarrow> 'j option" where
  "JsonGetItem_loop A ob k j 0 = None"
| "JsonGetItem_loop A ob k j (Suc rest) =
     (case cJSON_GetObjectItem A (cJSON_GetArrayItem A ob j) k of
        Some item \<Rightarrow> Some item
      | None \<Rightarrow> JsonGetItem_loop A ob k (Suc j) rest)"

definition JsonGetItem :: "'j cjson_api \<Rightarrow> 'j option \<Rightarrow> string \<Rightarrow> bool \<Rightarrow> 'j option" where
  "JsonGetItem A ob k is_root =
     (if is_root then cJSON_GetObjectItem A ob k
      else JsonGetItem_loop A ob k 0 (cJSON_GetArraySize A ob))"

text \<open>A sequence of named members, as SPINE writes an object: an array of one-member objects.\<close>

definition sequence_of :: "'j cjson_api \<Rightarrow> (string \<times> 'j) list \<Rightarrow> 'j" where
  "sequence_of A ms = mk_array A (map (\<lambda>(k, v). mk_object A k v) ms)"

lemma JsonAddItem_sequence:
  "JsonAddItem A (Some (sequence_of A ms)) k (Some v) False = Some (sequence_of A (ms @ [(k, v)]))"
  by (simp add: JsonAddItem_def JsonAddObjectToArray_def JsonAddItemToArray_def cjson_calls sequence_of_def
      built_simps)

lemma JsonGetItem_loop_sequence:
  assumes ok: "cjson_ok A" and "j + rest = length ms"
  shows "JsonGetItem_loop A (Some (sequence_of A ms)) k j rest =
         map_option snd (List.find (\<lambda>(k', v). same_key k' k) (drop j ms))"
  using assms(2)
proof (induction rest arbitrary: j)
  case 0
  then show ?case by simp
next
  case (Suc rest)
  then have j: "j < length ms" by simp
  obtain k' v where m: "ms ! j = (k', v)" by (cases "ms ! j")
  have d: "drop j ms = (k', v) # drop (Suc j) ms" using j m by (metis Cons_nth_drop_Suc)
  have IH: "JsonGetItem_loop A (Some (sequence_of A ms)) k (Suc j) rest =
      map_option snd (List.find (\<lambda>(k', v). same_key k' k) (drop (Suc j) ms))"
    by (rule Suc.IH) (use Suc.prems in simp)
  show ?case
    using j m unfolding JsonGetItem_loop.simps IH
    by (simp add: d cjson_calls sequence_of_def cjson_ok_accessors [OF ok])
qed

lemma JsonGetItem_sequence:
  assumes ok: "cjson_ok A"
  shows "JsonGetItem A (Some (sequence_of A ms)) k False =
         map_option snd (List.find (\<lambda>(k', v). same_key k' k) ms)"
  using JsonGetItem_loop_sequence [OF ok, of 0 "length ms" ms k]
  by (simp add: JsonGetItem_def cjson_calls sequence_of_def cjson_ok_accessors [OF ok])

lemma same_key_refl [simp]: "same_key k k"
  by (simp add: same_key_def)

text \<open>
  What is written into a sequence under a name no earlier member has (names compared without
  case) is what a search for that name finds, and members that differ in name stay as they were.
\<close>

theorem json_sequence_lookup:
  assumes "cjson_ok A"
    and "\<forall>(k', v') \<in> set ms. \<not> same_key k' k"
    and "JsonAddItem A (Some (sequence_of A ms)) k (Some v) False = Some ar"
  shows "JsonGetItem A (Some ar) k2 False =
         (if same_key k k2 then Some v else JsonGetItem A (Some (sequence_of A ms)) k2 False)"
proof -
  have ar: "ar = sequence_of A (ms @ [(k, v)])" using assms(3) by (simp add: JsonAddItem_sequence)
  have none: "same_key k k2 \<Longrightarrow> List.find (\<lambda>(k', v). same_key k' k2) ms = None"
    using assms(2) by (auto simp: find_None_iff same_key_def)
  show ?thesis
    unfolding ar JsonGetItem_sequence [OF assms(1)]
    by (cases "List.find (\<lambda>(k', v). same_key k' k2) ms") (auto simp: find_append none)
qed

section \<open>An instance of the interface\<close>

text \<open>
  \<open>cjson_ok\<close> can hold: items are JSON values, and the text of a value is its position in an
  enumeration of all values, in unary. This shows that the laws do not contradict each other; no
  theorem depends on it.
\<close>

datatype json =
    JNull
  | JBool bool
  | JNum rat
  | JStr string
  | JRaw string
  | JArr "json list"
  | JObj "(string \<times> json) list"

instance json :: countable
  by countable_datatype

definition encode_json :: "json \<Rightarrow> string" where
  "encode_json j = replicate (to_nat j + 2) (CHR ''x'')"

definition decode_json :: "string \<Rightarrow> json" where
  "decode_json s = from_nat (length s - 2)"

primrec resolve :: "json \<Rightarrow> json" where
  "resolve JNull = JNull"
| "resolve (JBool b) = JBool b"
| "resolve (JNum n) = JNum n"
| "resolve (JStr s) = JStr s"
| "resolve (JRaw s) = decode_json s"
| "resolve (JArr vs) = JArr (map resolve vs)"
| "resolve (JObj ms) = JObj (map (map_prod id resolve) ms)"

fun json_find :: "string \<Rightarrow> (string \<times> json) list \<Rightarrow> json option" where
  "json_find k [] = None"
| "json_find k ((k', v) # ms) = (if same_key k' k then Some v else json_find k ms)"

definition json_api :: "json cjson_api" where
  "json_api =
     \<lparr>api_Parse = \<lambda>s. Some (decode_json s),
      api_PrintUnformatted = \<lambda>j. Some (encode_json (resolve j)),
      api_GetObjectItem = \<lambda>j k. (case j of JObj ms \<Rightarrow> json_find k ms | _ \<Rightarrow> None),
      api_GetArrayItem = \<lambda>j i. (case j of JArr vs \<Rightarrow> if i < length vs then Some (vs ! i) else None | _ \<Rightarrow> None),
      api_GetArraySize = \<lambda>j. (case j of JArr vs \<Rightarrow> length vs | JObj ms \<Rightarrow> length ms | _ \<Rightarrow> 0),
      api_GetStringValue = \<lambda>j. (case j of JStr s \<Rightarrow> Some s | _ \<Rightarrow> None),
      api_IsString = \<lambda>j. (case j of JStr s \<Rightarrow> True | _ \<Rightarrow> False),
      api_IsNumber = \<lambda>j. (case j of JNum n \<Rightarrow> True | _ \<Rightarrow> False),
      api_GetNumberValue = \<lambda>j. (case j of JNum n \<Rightarrow> n | _ \<Rightarrow> 0),
      api_IsBool = \<lambda>j. (case j of JBool b \<Rightarrow> True | _ \<Rightarrow> False),
      api_IsTrue = \<lambda>j. (case j of JBool b \<Rightarrow> b | _ \<Rightarrow> False),
      api_IsArray = \<lambda>j. (case j of JArr vs \<Rightarrow> True | _ \<Rightarrow> False),
      api_CreateObject = JObj [],
      api_CreateArray = JArr [],
      api_CreateNull = JNull,
      api_CreateString = JStr,
      api_CreateRaw = JRaw,
      api_CreateNumber = JNum,
      api_CreateBool = JBool,
      api_AddItemToObject = \<lambda>j k v. (case j of JObj ms \<Rightarrow> JObj (ms @ [(k, v)]) | _ \<Rightarrow> j),
      api_AddItemToArray = \<lambda>j v. (case j of JArr vs \<Rightarrow> JArr (vs @ [v]) | _ \<Rightarrow> j)\<rparr>"

lemma json_mk_array [simp]: "mk_array json_api vs = JArr vs"
  by (induction vs rule: rev_induct) (simp_all add: mk_array_def json_api_def)

lemma json_mk_object [simp]: "mk_object json_api k v = JObj [(k, v)]"
  by (simp add: mk_object_def json_api_def)

lemma decode_encode_json [simp]: "decode_json (encode_json j) = j"
  by (simp add: decode_json_def encode_json_def)

lemma nul_free_encode_json [simp]: "nul_free (encode_json j)"
  by (simp add: nul_free_def encode_json_def)

lemma resolve_printed: "printed json_api t t' \<Longrightarrow> resolve t = t'"
proof (induction rule: printed.induct)
  case (printed_array vs vs')
  then have "map resolve vs = vs'" by (induction rule: list_all2_induct) auto
  then show ?case by simp
next
  case (printed_object v v' k)
  then show ?case by simp
qed (auto simp: json_api_def)

lemma cjson_ok_json_api: "cjson_ok json_api"
proof -
  have "\<exists>s. api_PrintUnformatted json_api t = Some s \<and> nul_free s \<and> api_Parse json_api s = Some t'"
    if "printed json_api t t'" for t t'
    using resolve_printed [OF that] by (simp add: json_api_def)
  moreover have "api_PrintUnformatted json_api j = Some s \<longrightarrow> 2 \<le> length s" for j s
    by (auto simp: json_api_def encode_json_def)
  ultimately show ?thesis
    unfolding cjson_ok_def json_mk_array json_mk_object
    by (intro conjI allI) (blast | simp add: json_api_def)+
qed

theorem json_sequence_lookup_witness:
  "JsonGetItem json_api (Some (sequence_of json_api [(''a'', JNum 1), (''b'', JBool True)])) ''B'' False
     = Some (JBool True)"
proof -
  have "same_key ''b'' ''B''" "\<not> same_key ''a'' ''b''" by code_simp+
  then show ?thesis
    using json_sequence_lookup [OF cjson_ok_json_api, of "[(''a'', JNum 1)]" "''b''" "JBool True"
        "sequence_of json_api [(''a'', JNum 1), (''b'', JBool True)]" "''B''"]
    by (simp add: JsonAddItem_sequence)
qed

end
