(* ===== verification/Ship_Serialize.thy ===== *)
theory Ship_Serialize
  imports Ship_Model Eebus_Json
begin

text \<open>
  \<^verbatim>\<open>ship/ship_connection/ship_message_serialize.c\<close>: a SHIP message becomes a JSON tree, its text and
  a buffer whose first byte is the message type. A function that adds to a JSON array takes the
  array and returns it extended, \<open>None\<close> when it fails (the C function returns \<^verbatim>\<open>false\<close>, also for a
  \<^verbatim>\<open>NULL\<close> array). The branches for an enumeration value outside its enumeration have no counterpart,
  because the datatypes have no such value.
\<close>

record 'j ShipMessageSerialize =
  ser_buf :: "MessageBuffer option"
  ser_json_obj :: "'j option"

section \<open>The message type byte\<close>

fun shift_up :: "nat \<Rightarrow> byte list \<Rightarrow> byte list" where
  "shift_up 0 s = s"
| "shift_up (Suc i) s = shift_up i (s[Suc i := s ! i])"

definition StringToShipMessage :: "byte list option \<Rightarrow> MsgType \<Rightarrow> MessageBuffer option" where
  "StringToShipMessage s msg_type =
     (case s of
        None \<Rightarrow> None
      | Some s \<Rightarrow>
          let len = length (cstring s) in
          if len < 2 then None
          else Some (MessageBufferInitWithDeallocator
                       (Some ((shift_up len s)[0 := msg_type_byte msg_type])) (len + 1) (Some cJSON_free)))"

section \<open>Connection hello\<close>

definition ConnectionHelloAddPhase :: "'j cjson_api \<Rightarrow> ConnectionHello \<Rightarrow> 'j option \<Rightarrow> 'j option" where
  "ConnectionHelloAddPhase A sme_hello json_ar =
     (let phase = (case hello_phase sme_hello of
                     kConnectionHelloPhasePending \<Rightarrow> ''pending''
                   | kConnectionHelloPhaseReady \<Rightarrow> ''ready''
                   | kConnectionHelloPhaseAborted \<Rightarrow> ''aborted'')
      in JsonAddObjectToArray A json_ar ''phase'' (cJSON_CreateString A (Some phase)))"

definition ConnectionHelloAddWaiting :: "'j cjson_api \<Rightarrow> ConnectionHello \<Rightarrow> 'j option \<Rightarrow> 'j option" where
  "ConnectionHelloAddWaiting A sme_hello json_ar =
     (case waiting sme_hello of
        None \<Rightarrow> json_ar
      | Some w \<Rightarrow> JsonAddObjectToArray A json_ar ''waiting'' (Some (api_CreateNumber A (of_int (uint w)))))"

definition ConnectionHelloAddProlongationRequest ::
    "'j cjson_api \<Rightarrow> ConnectionHello \<Rightarrow> 'j option \<Rightarrow> 'j option" where
  "ConnectionHelloAddProlongationRequest A sme_hello json_ar =
     (case prolongation_request sme_hello of
        None \<Rightarrow> json_ar
      | Some b \<Rightarrow> JsonAddObjectToArray A json_ar ''prolongationRequest'' (Some (api_CreateBool A b)))"

text \<open>The array is attached to the root object under its name; a failure is a memory error.\<close>

definition attach :: "'j cjson_api \<Rightarrow> 'j \<Rightarrow> string \<Rightarrow> 'j option \<Rightarrow> EebusError \<times> 'j" where
  "attach A ob k ar =
     (case cJSON_AddItemToObject A (Some ob) k ar of
        Some ob' \<Rightarrow> (kEebusErrorOk, ob')
      | None \<Rightarrow> (kEebusErrorMemory, ob))"

definition SmeHelloSerialize :: "'j cjson_api \<Rightarrow> ConnectionHello \<Rightarrow> 'j \<Rightarrow> EebusError \<times> 'j" where
  "SmeHelloSerialize A sme_hello ob =
     attach A ob ''connectionHello''
       (ConnectionHelloAddProlongationRequest A sme_hello
         (ConnectionHelloAddWaiting A sme_hello
           (ConnectionHelloAddPhase A sme_hello (Some (api_CreateArray A)))))"

section \<open>Protocol handshake\<close>

definition MessageProtocolHandshakeAddType ::
    "'j cjson_api \<Rightarrow> MessageProtocolHandshake \<Rightarrow> 'j option \<Rightarrow> 'j option" where
  "MessageProtocolHandshakeAddType A sme_prot_hs json_ar =
     (let handshake_type_str = (case handshake_type sme_prot_hs of
                                  kProtocolHandshakeTypeAnnounceMax \<Rightarrow> ''announceMax''
                                | kProtocolHandshakeTypeSelect \<Rightarrow> ''select'')
      in JsonAddObjectToArray A json_ar ''handshakeType'' (cJSON_CreateString A (Some handshake_type_str)))"

definition MessageProtocolHandshakeAddVersion ::
    "'j cjson_api \<Rightarrow> MessageProtocolHandshake \<Rightarrow> 'j option \<Rightarrow> 'j option" where
  "MessageProtocolHandshakeAddVersion A sme_prot_hs json_ar =
     (let v = version sme_prot_hs;
          version_0 = JsonAddObjectToArray A (Some (api_CreateArray A)) ''major''
                        (Some (api_CreateNumber A (of_int (uint (major v)))));
          version_1 = JsonAddObjectToArray A version_0 ''minor''
                        (Some (api_CreateNumber A (of_int (uint (minor v)))))
      in JsonAddObjectToArray A json_ar ''version'' version_1)"

fun add_formats :: "'j cjson_api \<Rightarrow> MessageProtocolFormatType list \<Rightarrow> 'j option \<Rightarrow> 'j option" where
  "add_formats A [] format_ar = format_ar"
| "add_formats A (f # fs) format_ar =
     (let format_str = (case f of kMessageProtocolFormatTypeUTF8 \<Rightarrow> ''JSON-UTF8''
                        | kMessageProtocolFormatTypeUTF16 \<Rightarrow> ''JSON-UTF16'')
      in case JsonAddStringToArray A format_ar (Some format_str) of
           None \<Rightarrow> None
         | Some ar \<Rightarrow> add_formats A fs (Some ar))"

definition MessageProtocolHandshakeAddFormats ::
    "'j cjson_api \<Rightarrow> MessageProtocolHandshake \<Rightarrow> 'j option \<Rightarrow> 'j option" where
  "MessageProtocolHandshakeAddFormats A sme_prot_hs json_ar =
     (if length (formats sme_prot_hs) > 2 then None
      else
        let format = (if formats sme_prot_hs = [] then Some (api_CreateNull A)
                      else add_formats A (formats sme_prot_hs) (Some (api_CreateArray A)));
            formats_0 = JsonAddObjectToArray A (Some (api_CreateArray A)) ''format'' format
        in JsonAddObjectToArray A json_ar ''formats'' formats_0)"

definition SmeProtocolHandshakeSerialize ::
    "'j cjson_api \<Rightarrow> MessageProtocolHandshake \<Rightarrow> 'j \<Rightarrow> EebusError \<times> 'j" where
  "SmeProtocolHandshakeSerialize A sme_prot_hs ob =
     attach A ob ''messageProtocolHandshake''
       (MessageProtocolHandshakeAddFormats A sme_prot_hs
         (MessageProtocolHandshakeAddVersion A sme_prot_hs
           (MessageProtocolHandshakeAddType A sme_prot_hs (Some (api_CreateArray A)))))"

definition hs_error_code :: "MessageProtocolHandshakeErrorType \<Rightarrow> int" where
  "hs_error_code e =
     (case e of
        kMessageProtocolHandshakeErrorTypeRFU \<Rightarrow> 0
      | kMessageProtocolHandshakeErrorTypeTimeout \<Rightarrow> 1
      | kMessageProtocolHandshakeErrorTypeUnexpectedMessage \<Rightarrow> 2
      | kMessageProtocolHandshakeErrorTypeSelectionMismatch \<Rightarrow> 3)"

definition MessageProtocolHandshakeErrorAddError ::
    "'j cjson_api \<Rightarrow> MessageProtocolHandshakeError \<Rightarrow> 'j option \<Rightarrow> 'j option" where
  "MessageProtocolHandshakeErrorAddError A e json_ar =
     JsonAddObjectToArray A json_ar ''error''
       (Some (api_CreateNumber A (of_int (hs_error_code (hs_error e)))))"

definition SmeProtocolHandshakeErrorSerialize ::
    "'j cjson_api \<Rightarrow> MessageProtocolHandshakeError \<Rightarrow> 'j \<Rightarrow> EebusError \<times> 'j" where
  "SmeProtocolHandshakeErrorSerialize A e ob =
     attach A ob ''messageProtocolHandshakeError''
       (MessageProtocolHandshakeErrorAddError A e (Some (api_CreateArray A)))"

section \<open>PIN messages\<close>

definition ConnectionPinStateAddPinState ::
    "'j cjson_api \<Rightarrow> ConnectionPinState \<Rightarrow> 'j option \<Rightarrow> 'j option" where
  "ConnectionPinStateAddPinState A sme_pin_state json_ar =
     (let pin_state_str = (case pin_state sme_pin_state of
                             kPinStateTypeRequired \<Rightarrow> ''required''
                           | kPinStateTypeOptional \<Rightarrow> ''optional''
                           | kPinStateTypePinOk \<Rightarrow> ''pinOk''
                           | kPinStateTypeNone \<Rightarrow> ''none'')
      in JsonAddObjectToArray A json_ar ''pinState'' (cJSON_CreateString A (Some pin_state_str)))"

definition ConnectionPinStateAddInputPermission ::
    "'j cjson_api \<Rightarrow> ConnectionPinState \<Rightarrow> 'j option \<Rightarrow> 'j option" where
  "ConnectionPinStateAddInputPermission A sme_pin_state json_ar =
     (case input_permission sme_pin_state of
        None \<Rightarrow> json_ar
      | Some p \<Rightarrow>
          let input_permission_str = (case p of kPinInputPermissionTypeBusy \<Rightarrow> ''busy''
                                      | kPinInputPermissionTypeOk \<Rightarrow> ''ok'')
          in JsonAddObjectToArray A json_ar ''inputPermission''
               (cJSON_CreateString A (Some input_permission_str)))"

definition SmeConnectionPinStateSerialize ::
    "'j cjson_api \<Rightarrow> ConnectionPinState \<Rightarrow> 'j \<Rightarrow> EebusError \<times> 'j" where
  "SmeConnectionPinStateSerialize A sme_pin_state ob =
     attach A ob ''connectionPinState''
       (ConnectionPinStateAddInputPermission A sme_pin_state
         (ConnectionPinStateAddPinState A sme_pin_state (Some (api_CreateArray A))))"

text \<open>
  A PIN is written in upper-case hexadecimal: the digits from the lowest to the highest, then
  reversed in place. The buffer holds 16 digits and the terminator.
\<close>

definition pin_digit :: "u64 \<Rightarrow> char" where
  "pin_digit w = (let d = unat (and w 0xF) in char_of (d + (if d < 10 then 48 else 65 - 10)))"

function pin_digits :: "u64 \<Rightarrow> string" where
  "pin_digits w = (if w > 0 then pin_digit w # pin_digits (drop_bit 4 w) else [])"
  by pat_completeness auto

lemma unat_drop_bit4: "unat (drop_bit 4 w) = unat w div 16" for w :: u64
  by (simp add: drop_bit_eq_div unat_div)

termination pin_digits
proof (relation "measure unat", goal_cases)
  case (2 w)
  then have "0 < unat w" by (simp add: unat_gt_0 word_neq_0_conv)
  then show ?case by (simp add: unat_drop_bit4)
qed simp

declare pin_digits.simps [simp del]

fun reverse_loop :: "nat \<Rightarrow> nat \<Rightarrow> string \<Rightarrow> string" where
  "reverse_loop i 0 s = s"
| "reverse_loop i (Suc k) s =
     (let tmp = s ! i; s1 = s[i := s ! (length s - i - 1)]
      in reverse_loop (Suc i) k (s1[length s - i - 1 := tmp]))"

definition pin_string :: "u64 \<Rightarrow> string" where
  "pin_string w = (let s = pin_digits w in reverse_loop 0 (length s div 2) s)"

definition ConnectionPinInputAddPin :: "'j cjson_api \<Rightarrow> ConnectionPinInput \<Rightarrow> 'j option \<Rightarrow> 'j option" where
  "ConnectionPinInputAddPin A sme_pin_input json_ar =
     JsonAddObjectToArray A json_ar ''pin'' (cJSON_CreateString A (Some (pin_string (pin sme_pin_input))))"

definition SmeConnectionPinInputSerialize ::
    "'j cjson_api \<Rightarrow> ConnectionPinInput \<Rightarrow> 'j \<Rightarrow> EebusError \<times> 'j" where
  "SmeConnectionPinInputSerialize A sme_pin_input ob =
     attach A ob ''connectionPinInput'' (ConnectionPinInputAddPin A sme_pin_input (Some (api_CreateArray A)))"

definition pin_error_code :: "ConnectionPinErrorType \<Rightarrow> int" where
  "pin_error_code e =
     (case e of kConnectionPinErrorTypeRfu0 \<Rightarrow> 0 | kConnectionPinErrorTypeWrongPin \<Rightarrow> 1
      | kConnectionPinErrorTypeRfu4 \<Rightarrow> 4)"

definition ConnectionPinErrorAddError :: "'j cjson_api \<Rightarrow> ConnectionPinError \<Rightarrow> 'j option \<Rightarrow> 'j option" where
  "ConnectionPinErrorAddError A sme_pin_error json_ar =
     JsonAddObjectToArray A json_ar ''error''
       (Some (api_CreateNumber A (of_int (pin_error_code (pin_error sme_pin_error)))))"

definition SmeConnectionPinErrorSerialize ::
    "'j cjson_api \<Rightarrow> ConnectionPinError \<Rightarrow> 'j \<Rightarrow> EebusError \<times> 'j" where
  "SmeConnectionPinErrorSerialize A sme_pin_error ob =
     attach A ob ''connectionPinError'' (ConnectionPinErrorAddError A sme_pin_error (Some (api_CreateArray A)))"

section \<open>Data\<close>

definition DataAddHeader :: "'j cjson_api \<Rightarrow> Data \<Rightarrow> 'j option \<Rightarrow> 'j option" where
  "DataAddHeader A data data_ar =
     JsonAddObjectToArray A data_ar ''header''
       (JsonAddObjectToArray A (Some (api_CreateArray A)) ''protocolId''
         (cJSON_CreateString A (Some (protocol_id data))))"

definition DataAddPayload :: "'j cjson_api \<Rightarrow> Data \<Rightarrow> 'j option \<Rightarrow> 'j option" where
  "DataAddPayload A data data_ar =
     JsonAddObjectToArray A data_ar ''payload''
       (cJSON_CreateRaw A (map_option cstring (mb_data (payload data))))"

definition DataSerialize :: "'j cjson_api \<Rightarrow> Data \<Rightarrow> 'j \<Rightarrow> EebusError \<times> 'j" where
  "DataSerialize A data ob =
     attach A ob ''data'' (DataAddPayload A data (DataAddHeader A data (Some (api_CreateArray A))))"

section \<open>Access methods\<close>

definition SmeConnectionAccessMethodsRequestSerialize :: "'j cjson_api \<Rightarrow> 'j \<Rightarrow> EebusError \<times> 'j" where
  "SmeConnectionAccessMethodsRequestSerialize A ob =
     attach A ob ''accessMethodsRequest'' (Some (api_CreateArray A))"

definition AccessMethodsAddId :: "'j cjson_api \<Rightarrow> AccessMethods \<Rightarrow> 'j option \<Rightarrow> 'j option" where
  "AccessMethodsAddId A sme_access_methods json_ar =
     JsonAddObjectToArray A json_ar ''id'' (cJSON_CreateString A (am_id sme_access_methods))"

definition AccessMethodsAddDnsSdMdns :: "'j cjson_api \<Rightarrow> AccessMethods \<Rightarrow> 'j option \<Rightarrow> 'j option" where
  "AccessMethodsAddDnsSdMdns A sme_access_methods json_ar =
     (if \<not> dns_sd_mdns sme_access_methods then json_ar
      else JsonAddObjectToArray A json_ar ''dnsSd_mDns'' (Some (api_CreateArray A)))"

definition AccessMethodsAddDns :: "'j cjson_api \<Rightarrow> AccessMethods \<Rightarrow> 'j option \<Rightarrow> 'j option" where
  "AccessMethodsAddDns A sme_access_methods json_ar =
     (case dns_uri sme_access_methods of
        None \<Rightarrow> json_ar
      | Some uri \<Rightarrow>
          JsonAddObjectToArray A json_ar ''dns''
            (JsonAddObjectToArray A (Some (api_CreateArray A)) ''uri'' (cJSON_CreateString A (Some uri))))"

definition SmeConnectionAccessMethodsSerialize ::
    "'j cjson_api \<Rightarrow> AccessMethods \<Rightarrow> 'j \<Rightarrow> EebusError \<times> 'j" where
  "SmeConnectionAccessMethodsSerialize A sme_access_methods ob =
     attach A ob ''accessMethods''
       (AccessMethodsAddDns A sme_access_methods
         (AccessMethodsAddDnsSdMdns A sme_access_methods
           (AccessMethodsAddId A sme_access_methods (Some (api_CreateArray A)))))"

section \<open>Connection close\<close>

definition ConnectionCloseAddPhase :: "'j cjson_api \<Rightarrow> ConnectionClose \<Rightarrow> 'j option \<Rightarrow> 'j option" where
  "ConnectionCloseAddPhase A sme_close json_ar =
     (let phase_str = (case close_phase sme_close of
                         kConnectionClosePhaseTypeAnnounce \<Rightarrow> ''announce''
                       | kConnectionClosePhaseTypeConfirm \<Rightarrow> ''confirm'')
      in JsonAddObjectToArray A json_ar ''phase'' (cJSON_CreateString A (Some phase_str)))"

definition ConnectionCloseAddMaxTime :: "'j cjson_api \<Rightarrow> ConnectionClose \<Rightarrow> 'j option \<Rightarrow> 'j option" where
  "ConnectionCloseAddMaxTime A sme_close json_ar =
     (case max_time sme_close of
        None \<Rightarrow> json_ar
      | Some t \<Rightarrow> JsonAddObjectToArray A json_ar ''maxTime'' (Some (api_CreateNumber A (of_int (uint t)))))"

definition ConnectionCloseAddReason :: "'j cjson_api \<Rightarrow> ConnectionClose \<Rightarrow> 'j option \<Rightarrow> 'j option" where
  "ConnectionCloseAddReason A sme_close json_ar =
     (case reason sme_close of
        None \<Rightarrow> json_ar
      | Some r \<Rightarrow> JsonAddObjectToArray A json_ar ''reason'' (cJSON_CreateString A (Some r)))"

definition SmeCloseSerialize :: "'j cjson_api \<Rightarrow> ConnectionClose \<Rightarrow> 'j \<Rightarrow> EebusError \<times> 'j" where
  "SmeCloseSerialize A sme_close ob =
     attach A ob ''connectionClose''
       (ConnectionCloseAddReason A sme_close
         (ConnectionCloseAddMaxTime A sme_close
           (ConnectionCloseAddPhase A sme_close (Some (api_CreateArray A)))))"

section \<open>The serializer object\<close>

definition SerializeMessage :: "'j cjson_api \<Rightarrow> 'j \<Rightarrow> ShipMessage \<Rightarrow> EebusError \<times> 'j" where
  "SerializeMessage A ob v =
     (case v of
        VHello h \<Rightarrow> SmeHelloSerialize A h ob
      | VHandshake h \<Rightarrow> SmeProtocolHandshakeSerialize A h ob
      | VHandshakeError e \<Rightarrow> SmeProtocolHandshakeErrorSerialize A e ob
      | VPinState p \<Rightarrow> SmeConnectionPinStateSerialize A p ob
      | VPinInput p \<Rightarrow> SmeConnectionPinInputSerialize A p ob
      | VPinError p \<Rightarrow> SmeConnectionPinErrorSerialize A p ob
      | VData d \<Rightarrow> DataSerialize A d ob
      | VAccessMethodsRequest \<Rightarrow> SmeConnectionAccessMethodsRequestSerialize A ob
      | VAccessMethods m \<Rightarrow> SmeConnectionAccessMethodsSerialize A m ob
      | VClose c \<Rightarrow> SmeCloseSerialize A c ob)"

definition msg_type_of :: "MsgValueType \<Rightarrow> MsgType" where
  "msg_type_of t = (if t = kSmeClose then kMsgTypeEnd else if t = kData then kMsgTypeData else kMsgTypeControl)"

definition Serialize :: "'j cjson_api \<Rightarrow> ShipMessage \<Rightarrow> EebusError \<times> 'j ShipMessageSerialize" where
  "Serialize A v =
     (let self = \<lparr>ser_buf = Some (MessageBufferInit None 0), ser_json_obj = Some (api_CreateObject A)\<rparr>;
          (ret, ob) = SerializeMessage A (api_CreateObject A) v;
          self1 = self\<lparr>ser_json_obj := Some ob\<rparr>
      in if ret \<noteq> kEebusErrorOk then (ret, self1)
         else case cJSON_PrintUnformatted A (Some ob) of
           None \<Rightarrow> (kEebusErrorMemory, self1)
         | Some s \<Rightarrow>
             (case StringToShipMessage (Some (s @ [CHR 0x00])) (msg_type_of (value_type_of v)) of
                None \<Rightarrow> (kEebusErrorMemory, self1)
              | Some buf \<Rightarrow> (kEebusErrorOk, \<lparr>ser_buf = Some buf, ser_json_obj = None\<rparr>)))"

definition SerializeReset :: "'j ShipMessageSerialize \<Rightarrow> 'j ShipMessageSerialize" where
  "SerializeReset self = self\<lparr>ser_json_obj := None, ser_buf := None\<rparr>"

definition ShipMessageSerializeConstruct ::
    "'j cjson_api \<Rightarrow> ShipMessage option \<Rightarrow> 'j ShipMessageSerialize" where
  "ShipMessageSerializeConstruct A v =
     (case v of
        None \<Rightarrow> \<lparr>ser_buf = None, ser_json_obj = None\<rparr>
      | Some v \<Rightarrow>
          (let (ret, self) = Serialize A v
           in if ret \<noteq> kEebusErrorOk then SerializeReset self else self))"

definition Serialize_GetBuffer :: "'j ShipMessageSerialize \<Rightarrow> MessageBuffer option" where
  "Serialize_GetBuffer self = ser_buf self"

lemmas hello_serialize_defs =
  SmeHelloSerialize_def ConnectionHelloAddPhase_def ConnectionHelloAddWaiting_def
  ConnectionHelloAddProlongationRequest_def

lemmas handshake_serialize_defs =
  SmeProtocolHandshakeSerialize_def MessageProtocolHandshakeAddType_def
  MessageProtocolHandshakeAddVersion_def MessageProtocolHandshakeAddFormats_def

lemmas pin_serialize_defs =
  SmeConnectionPinStateSerialize_def ConnectionPinStateAddPinState_def
  ConnectionPinStateAddInputPermission_def SmeConnectionPinInputSerialize_def
  ConnectionPinInputAddPin_def SmeConnectionPinErrorSerialize_def ConnectionPinErrorAddError_def

lemmas data_serialize_defs = DataSerialize_def DataAddHeader_def DataAddPayload_def

lemmas access_serialize_defs =
  SmeConnectionAccessMethodsRequestSerialize_def SmeConnectionAccessMethodsSerialize_def
  AccessMethodsAddId_def AccessMethodsAddDnsSdMdns_def AccessMethodsAddDns_def

lemmas close_serialize_defs =
  SmeCloseSerialize_def ConnectionCloseAddPhase_def ConnectionCloseAddMaxTime_def
  ConnectionCloseAddReason_def

section \<open>Byte-level facts\<close>

lemma shift_up_eq:
  "i < length s \<Longrightarrow> shift_up i s = s ! 0 # take i s @ drop (Suc i) s"
proof (induction i arbitrary: s)
  case 0
  then show ?case by (cases s) auto
next
  case (Suc i)
  have "shift_up i (s[Suc i := s ! i]) =
      s[Suc i := s ! i] ! 0 # take i (s[Suc i := s ! i]) @ drop (Suc i) (s[Suc i := s ! i])"
    by (rule Suc.IH) (use Suc.prems in simp)
  also have "\<dots> = s ! 0 # take i s @ s ! i # drop (Suc (Suc i)) s"
    using Suc.prems by (simp add: drop_update_swap flip: Cons_nth_drop_Suc [of "Suc i"])
  also have "\<dots> = s ! 0 # take (Suc i) s @ drop (Suc (Suc i)) s"
    using Suc.prems by (simp add: take_Suc_conv_app_nth)
  finally show ?case by simp
qed

lemma StringToShipMessage_eq:
  "nul_free s \<Longrightarrow> 2 \<le> length s \<Longrightarrow>
   StringToShipMessage (Some (s @ [CHR 0x00])) t =
     Some \<lparr>mb_data = Some (msg_type_byte t # s), mb_data_size = length s + 1,
           mb_deallocator = Some cJSON_free\<rparr>"
  by (simp add: StringToShipMessage_def MessageBufferInitWithDeallocator_def shift_up_eq)

text \<open>The in-place reversal is \<open>rev\<close>.\<close>

lemma length_reverse_loop [simp]: "length (reverse_loop i k s) = length s"
  by (induction i k s rule: reverse_loop.induct) (simp_all add: Let_def)

lemma nth_reverse_loop:
  "2 * (i + k) \<le> length s \<Longrightarrow> j < length s \<Longrightarrow>
   reverse_loop i k s ! j =
     (if i \<le> j \<and> j < i + k \<or> length s - i - k \<le> j \<and> j < length s - i
      then s ! (length s - 1 - j) else s ! j)"
proof (induction k arbitrary: i s)
  case 0
  then show ?case by auto
next
  case (Suc k)
  let ?n = "length s"
  let ?t = "s[i := s ! (?n - i - 1), ?n - i - 1 := s ! i]"
  have t: "?t ! m = (if m = i then s ! (?n - i - 1) else if m = ?n - i - 1 then s ! i else s ! m)"
    if "m < ?n" for m
    using that Suc.prems by (auto simp: nth_list_update)
  have "reverse_loop i (Suc k) s ! j = reverse_loop (Suc i) k ?t ! j" by (simp add: Let_def)
  also have "\<dots> = (if Suc i \<le> j \<and> j < Suc i + k \<or> ?n - Suc i - k \<le> j \<and> j < ?n - Suc i
      then ?t ! (?n - 1 - j) else ?t ! j)"
    using Suc.IH [of "Suc i" ?t] Suc.prems by simp
  also have "\<dots> = (if i \<le> j \<and> j < i + Suc k \<or> ?n - i - Suc k \<le> j \<and> j < ?n - i
      then s ! (?n - 1 - j) else s ! j)"
  proof -
    consider "j = i" | "j = ?n - i - 1" "j \<noteq> i" | "j \<noteq> i" "j \<noteq> ?n - i - 1" by blast
    then show ?thesis
    proof cases
      case 1
      then have "\<not> ?n - Suc i - k \<le> j" using Suc.prems by simp
      then show ?thesis using 1 Suc.prems t [of j] by simp
    next
      case 2
      then have "?n - 1 - j = i" "\<not> Suc i + k > j" "j < ?n - i" "?n - i - Suc k \<le> j" using Suc.prems by simp_all
      then show ?thesis using Suc.prems 2 t [of j] by simp
    next
      case 3
      then have "?t ! j = s ! j" "?t ! (?n - 1 - j) = s ! (?n - 1 - j)"
        "Suc i \<le> j \<and> j < Suc i + k \<longleftrightarrow> i \<le> j \<and> j < i + Suc k"
        "j < ?n - Suc i \<longleftrightarrow> j < ?n - i"
        using Suc.prems t [of j] t [of "?n - 1 - j"] by auto
      then show ?thesis by simp
    qed
  qed
  finally show ?case .
qed

lemma reverse_loop_rev: "reverse_loop 0 (length s div 2) s = rev s"
proof (rule nth_equalityI)
  fix j assume "j < length (reverse_loop 0 (length s div 2) s)"
  then have j: "j < length s" by simp
  have "s ! j = s ! (length s - 1 - j)" if "\<not> j < length s div 2" "\<not> length s - length s div 2 \<le> j"
  proof -
    have "length s - 1 - j = j" using that by linarith
    then show ?thesis by simp
  qed
  then show "reverse_loop 0 (length s div 2) s ! j = rev s ! j"
    using j by (auto simp: nth_reverse_loop rev_nth)
qed simp

lemma pin_string_rev: "pin_string w = rev (pin_digits w)"
  by (simp add: pin_string_def reverse_loop_rev)

text \<open>The number of digits; it never exceeds the 16 characters the buffer has room for.\<close>

lemma length_pin_digits: "unat w < 16 ^ n \<longleftrightarrow> length (pin_digits w) \<le> n"
proof (induction w arbitrary: n rule: pin_digits.induct)
  case (1 w)
  show ?case
  proof (cases "w > 0")
    case False
    then have "w = 0" using word_neq_0_conv by blast
    then show ?thesis by (simp add: pin_digits.simps)
  next
    case True
    have w: "0 < unat w" using True by (simp add: unat_gt_0 word_neq_0_conv)
    show ?thesis
    proof (cases n)
      case 0
      then show ?thesis using True w by (simp add: pin_digits.simps)
    next
      case (Suc m)
      have "unat w < 16 ^ Suc m \<longleftrightarrow> unat w div 16 < 16 ^ m" by (simp add: div_less_iff_less_mult mult.commute)
      then show ?thesis using "1.IH" [OF True, of m] True Suc
        by (simp add: pin_digits.simps [of w] unat_drop_bit4)
    qed
  qed
qed

lemma pin_digits_16: "length (pin_digits w) \<le> 16"
proof -
  have "unat w < 16 ^ 16" using unsigned_less [of w] by simp
  then show ?thesis by (simp only: length_pin_digits)
qed

text \<open>
  The PIN of an outgoing message fits the buffer of \<^verbatim>\<open>ConnectionPinInputAddPin\<close>: the digit loop
  writes at most 16 characters, so that with the terminator no write passes the end of \<^verbatim>\<open>pin_str[17]\<close>.
\<close>

theorem pin_string_fits: "length (pin_string w) \<le> 16 \<and> length (pin_string w) + 1 \<le> 17"
  using pin_digits_16 [of w] by (simp add: pin_string_rev)

end
