(* ===== verification/Ship_Deserialize.thy ===== *)
theory Ship_Deserialize
  imports Ship_Serialize
begin

text \<open>
  \<^verbatim>\<open>ship/ship_connection/ship_message_deserialize.c\<close>: from the bytes of a received SHIP message to a
  message value. A function that fills a member of a structure returns what it stores, \<open>None\<close> when
  it fails; the structures of a failed parse are freed before anyone reads them. The theorems: every
  message the deserializer accepts, from any peer and with any JSON parser, is within the bounds its
  structures have room for; and what the serializer wrote is read back.
\<close>

record ShipMessageDeserialize =
  ds_value :: "ShipMessage option"
  ds_value_type :: MsgValueType

definition DeserializeReset :: "ShipMessageDeserialize \<Rightarrow> ShipMessageDeserialize" where
  "DeserializeReset self = self\<lparr>ds_value := None, ds_value_type := kValueUndefined\<rparr>"

section \<open>The message type byte\<close>

fun shift_down :: "nat \<Rightarrow> nat \<Rightarrow> byte list \<Rightarrow> byte list" where
  "shift_down i 0 d = d"
| "shift_down i (Suc k) d = shift_down (Suc i) k (d[i := d ! Suc i])"

definition ShipMessageToString :: "MessageBuffer option \<Rightarrow> MessageBuffer option" where
  "ShipMessageToString buf =
     (case buf of
        None \<Rightarrow> None
      | Some b \<Rightarrow>
          if mb_data_size b < 2 then None
          else Some (b\<lparr>mb_data := map_option (\<lambda>d.
                 (shift_down 0 (mb_data_size b - 1) d)[mb_data_size b - 1 := CHR 0x00]) (mb_data b)\<rparr>))"

text \<open>The error code of a parse: the structure on success, \<^verbatim>\<open>kEebusErrorParse\<close> otherwise.\<close>

definition parse_result :: "'a option \<Rightarrow> EebusError \<times> 'a option" where
  "parse_result r = (if Option.is_none r then kEebusErrorParse else kEebusErrorOk, r)"

section \<open>Connection hello\<close>

definition ConnectionHelloParsePhase :: "'j cjson_api \<Rightarrow> 'j option \<Rightarrow> ConnectionHelloPhase option" where
  "ConnectionHelloParsePhase A json_obj =
     (case cJSON_GetStringValue A (cJSON_GetObjectItem A json_obj ''phase'') of
        None \<Rightarrow> None
      | Some s \<Rightarrow>
          if s = ''pending'' then Some kConnectionHelloPhasePending
          else if s = ''ready'' then Some kConnectionHelloPhaseReady
          else if s = ''aborted'' then Some kConnectionHelloPhaseAborted
          else None)"

definition ConnectionHelloParseWaiting :: "'j cjson_api \<Rightarrow> 'j option \<Rightarrow> u32 option" where
  "ConnectionHelloParseWaiting A json_obj =
     (if \<not> cJSON_HasObjectItem A json_obj ''waiting'' then None
      else
        let w = cJSON_GetObjectItem A json_obj ''waiting''
        in if \<not> cJSON_IsNumber A w then None else Some (double_to_u32 (cJSON_GetNumberValue A w)))"

definition ConnectionHelloParseProlongReq :: "'j cjson_api \<Rightarrow> 'j option \<Rightarrow> bool option" where
  "ConnectionHelloParseProlongReq A json_obj =
     (if \<not> cJSON_HasObjectItem A json_obj ''prolongationRequest'' then None
      else
        let p = cJSON_GetObjectItem A json_obj ''prolongationRequest''
        in if \<not> cJSON_IsBool A p then None else Some (cJSON_IsTrue A p))"

definition SmeHelloDeserialize :: "'j cjson_api \<Rightarrow> 'j option \<Rightarrow> EebusError \<times> ConnectionHello option" where
  "SmeHelloDeserialize A sme_hello_ar =
     (if Option.is_none sme_hello_ar then (kEebusErrorInputArgument, None)
      else
        case ConnectionHelloParsePhase A (cJSON_GetArrayItem A sme_hello_ar 0) of
          None \<Rightarrow> (kEebusErrorParse, None)
        | Some phase \<Rightarrow>
            let h = \<lparr>hello_phase = phase, waiting = None, prolongation_request = None\<rparr> in
            (case cJSON_GetArrayItem A sme_hello_ar 1 of
               None \<Rightarrow> (kEebusErrorOk, Some h)
             | Some h1 \<Rightarrow>
                 (case ConnectionHelloParseWaiting A (Some h1) of
                    Some w \<Rightarrow> (kEebusErrorOk, Some (h\<lparr>waiting := Some w\<rparr>))
                  | None \<Rightarrow>
                      (case ConnectionHelloParseProlongReq A (Some h1) of
                         Some p \<Rightarrow> (kEebusErrorOk, Some (h\<lparr>prolongation_request := Some p\<rparr>))
                       | None \<Rightarrow> (kEebusErrorParse, None)))))"

section \<open>Protocol handshake\<close>

definition MessageProtocolHandshakeParseType ::
    "'j cjson_api \<Rightarrow> 'j option \<Rightarrow> ProtocolHandshakeType option" where
  "MessageProtocolHandshakeParseType A json_obj =
     (case cJSON_GetStringValue A (cJSON_GetObjectItem A json_obj ''handshakeType'') of
        None \<Rightarrow> None
      | Some s \<Rightarrow>
          if s = ''announceMax'' then Some kProtocolHandshakeTypeAnnounceMax
          else if s = ''select'' then Some kProtocolHandshakeTypeSelect
          else None)"

definition MessageProtocolHandshakeParseVersion :: "'j cjson_api \<Rightarrow> 'j option \<Rightarrow> Version option" where
  "MessageProtocolHandshakeParseVersion A json_obj =
     (let version_ar = cJSON_GetObjectItem A json_obj ''version'';
          maj = cJSON_GetObjectItem A (cJSON_GetArrayItem A version_ar 0) ''major'';
          mnr = cJSON_GetObjectItem A (cJSON_GetArrayItem A version_ar 1) ''minor''
      in if \<not> cJSON_IsNumber A maj then None
         else if \<not> cJSON_IsNumber A mnr then None
         else Some \<lparr>major = double_to_u8 (cJSON_GetNumberValue A maj),
                    minor = double_to_u8 (cJSON_GetNumberValue A mnr)\<rparr>)"

fun parse_formats ::
    "'j cjson_api \<Rightarrow> 'j option \<Rightarrow> nat \<Rightarrow> nat \<Rightarrow> MessageProtocolFormatType list option" where
  "parse_formats A format_ar i 0 = Some []"
| "parse_formats A format_ar i (Suc k) =
     (case cJSON_GetStringValue A (cJSON_GetArrayItem A format_ar i) of
        None \<Rightarrow> None
      | Some format \<Rightarrow>
          if format = ''JSON-UTF8''
          then map_option ((#) kMessageProtocolFormatTypeUTF8) (parse_formats A format_ar (Suc i) k)
          else if format = ''JSON-UTF16''
          then map_option ((#) kMessageProtocolFormatTypeUTF16) (parse_formats A format_ar (Suc i) k)
          else None)"

definition MessageProtocolHandshakeParseFormats ::
    "'j cjson_api \<Rightarrow> 'j option \<Rightarrow> MessageProtocolFormatType list option" where
  "MessageProtocolHandshakeParseFormats A json_obj =
     (let formats_ar = cJSON_GetObjectItem A json_obj ''formats'';
          formats_0 = cJSON_GetArrayItem A formats_ar 0;
          format_ar = cJSON_GetObjectItem A formats_0 ''format'';
          format_size = cJSON_GetArraySize A format_ar
      in if Option.is_none format_ar then None
         else if format_size > 2 then None
         else parse_formats A format_ar 0 format_size)"

definition SmeProtocolHandshakeDeserialize ::
    "'j cjson_api \<Rightarrow> 'j option \<Rightarrow> EebusError \<times> MessageProtocolHandshake option" where
  "SmeProtocolHandshakeDeserialize A sme_prot_hs_ar =
     (if Option.is_none sme_prot_hs_ar then (kEebusErrorInputArgument, None)
      else
        parse_result (do { t \<leftarrow> MessageProtocolHandshakeParseType A (cJSON_GetArrayItem A sme_prot_hs_ar 0);
                  v \<leftarrow> MessageProtocolHandshakeParseVersion A (cJSON_GetArrayItem A sme_prot_hs_ar 1);
                  fs \<leftarrow> MessageProtocolHandshakeParseFormats A (cJSON_GetArrayItem A sme_prot_hs_ar 2);
                  Some \<lparr>handshake_type = t, version = v, formats = fs\<rparr> }))"

definition hs_error_of_code :: "int \<Rightarrow> MessageProtocolHandshakeErrorType" where
  "hs_error_of_code e =
     (if e = 0 then kMessageProtocolHandshakeErrorTypeRFU
      else if e = 1 then kMessageProtocolHandshakeErrorTypeTimeout
      else if e = 2 then kMessageProtocolHandshakeErrorTypeUnexpectedMessage
      else kMessageProtocolHandshakeErrorTypeSelectionMismatch)"

definition MessageProtocolHandshakeErrorParseError ::
    "'j cjson_api \<Rightarrow> 'j option \<Rightarrow> MessageProtocolHandshakeErrorType option" where
  "MessageProtocolHandshakeErrorParseError A json_obj =
     (let error_obj = cJSON_GetObjectItem A json_obj ''error'';
          e = double_to_i32 (cJSON_GetNumberValue A error_obj)
      in if \<not> cJSON_IsNumber A error_obj then None
         else if 0 \<le> e \<and> e \<le> 3 then Some (hs_error_of_code e)
         else None)"

definition SmeProtocolHandshakeErrorDeserialize ::
    "'j cjson_api \<Rightarrow> 'j option \<Rightarrow> EebusError \<times> MessageProtocolHandshakeError option" where
  "SmeProtocolHandshakeErrorDeserialize A ar =
     (if Option.is_none ar then (kEebusErrorInputArgument, None)
      else
        parse_result (map_option (\<lambda>e. \<lparr>hs_error = e\<rparr>) (MessageProtocolHandshakeErrorParseError A (cJSON_GetArrayItem A ar 0))))"

section \<open>PIN messages\<close>

definition ConnectionPinStateParsePinState :: "'j cjson_api \<Rightarrow> 'j option \<Rightarrow> PinStateType option" where
  "ConnectionPinStateParsePinState A json_obj =
     (case cJSON_GetStringValue A (cJSON_GetObjectItem A json_obj ''pinState'') of
        None \<Rightarrow> None
      | Some s \<Rightarrow>
          if s = ''required'' then Some kPinStateTypeRequired
          else if s = ''optional'' then Some kPinStateTypeOptional
          else if s = ''pinOk'' then Some kPinStateTypePinOk
          else if s = ''none'' then Some kPinStateTypeNone
          else None)"

definition ConnectionPinStateParseInputPermission ::
    "'j cjson_api \<Rightarrow> 'j option \<Rightarrow> PinInputPermissionType option" where
  "ConnectionPinStateParseInputPermission A json_obj =
     (case cJSON_GetStringValue A (cJSON_GetObjectItem A json_obj ''inputPermission'') of
        None \<Rightarrow> None
      | Some s \<Rightarrow>
          if s = ''busy'' then Some kPinInputPermissionTypeBusy
          else if s = ''ok'' then Some kPinInputPermissionTypeOk
          else None)"

definition SmeConnectionPinStateDeserialize ::
    "'j cjson_api \<Rightarrow> 'j option \<Rightarrow> EebusError \<times> ConnectionPinState option" where
  "SmeConnectionPinStateDeserialize A ar =
     (if Option.is_none ar then (kEebusErrorInputArgument, None)
      else
        case ConnectionPinStateParsePinState A (cJSON_GetArrayItem A ar 0) of
          None \<Rightarrow> (kEebusErrorParse, None)
        | Some p \<Rightarrow>
            (case cJSON_GetArrayItem A ar 1 of
               None \<Rightarrow> (kEebusErrorOk, Some \<lparr>pin_state = p, input_permission = None\<rparr>)
             | Some ar_1 \<Rightarrow>
                 (case ConnectionPinStateParseInputPermission A (Some ar_1) of
                    Some q \<Rightarrow> (kEebusErrorOk, Some \<lparr>pin_state = p, input_permission = Some q\<rparr>)
                  | None \<Rightarrow> (kEebusErrorParse, None))))"

definition isdigit :: "char \<Rightarrow> bool" where
  "isdigit c \<longleftrightarrow> 48 \<le> (of_char c :: nat) \<and> (of_char c :: nat) \<le> 57"

definition isalpha :: "char \<Rightarrow> bool" where
  "isalpha c \<longleftrightarrow> 65 \<le> (of_char c :: nat) \<and> (of_char c :: nat) \<le> 90 \<or>
                  97 \<le> (of_char c :: nat) \<and> (of_char c :: nat) \<le> 122"

definition toupper :: "char \<Rightarrow> nat" where
  "toupper c = (if 97 \<le> (of_char c :: nat) \<and> (of_char c :: nat) \<le> 122 then of_char c - 32 else of_char c)"

fun parse_pin :: "string \<Rightarrow> u64 \<Rightarrow> u64 option" where
  "parse_pin [] p = Some p"
| "parse_pin (c # cs) p =
     (let p = push_bit 4 p in
      if isdigit c then parse_pin cs (p + of_nat (of_char c - 48))
      else if isalpha c then
        (if toupper c > 70 then None else parse_pin cs (p + of_nat (toupper c - 65 + 10)))
      else None)"

definition ConnectionPinInputParsePin :: "'j cjson_api \<Rightarrow> 'j option \<Rightarrow> u64 option" where
  "ConnectionPinInputParsePin A json_obj =
     (case cJSON_GetStringValue A (cJSON_GetObjectItem A json_obj ''pin'') of
        None \<Rightarrow> None
      | Some pin_str \<Rightarrow>
          if pin_str \<noteq> [] \<and> hd pin_str = CHR ''0'' then None
          else if length pin_str < 8 \<or> length pin_str > 16 then None
          else parse_pin pin_str 0)"

definition SmeConnectionPinInputDeserialize ::
    "'j cjson_api \<Rightarrow> 'j option \<Rightarrow> EebusError \<times> ConnectionPinInput option" where
  "SmeConnectionPinInputDeserialize A ar =
     (if Option.is_none ar then (kEebusErrorInputArgument, None)
      else
        parse_result (map_option (\<lambda>p. \<lparr>pin = p\<rparr>) (ConnectionPinInputParsePin A (cJSON_GetArrayItem A ar 0))))"

definition ConnectionPinErrorParseError ::
    "'j cjson_api \<Rightarrow> 'j option \<Rightarrow> ConnectionPinErrorType option" where
  "ConnectionPinErrorParseError A json_obj =
     (let pin_error_obj = cJSON_GetObjectItem A json_obj ''error''
      in if \<not> cJSON_IsNumber A pin_error_obj then None
         else if double_to_u32 (cJSON_GetNumberValue A pin_error_obj) = 1 then Some kConnectionPinErrorTypeWrongPin
         else None)"

definition SmeConnectionPinErrorDeserialize ::
    "'j cjson_api \<Rightarrow> 'j option \<Rightarrow> EebusError \<times> ConnectionPinError option" where
  "SmeConnectionPinErrorDeserialize A ar =
     (if Option.is_none ar then (kEebusErrorInputArgument, None)
      else
        parse_result (map_option (\<lambda>e. \<lparr>pin_error = e\<rparr>) (ConnectionPinErrorParseError A (cJSON_GetArrayItem A ar 0))))"

section \<open>Data\<close>

definition DataParseHeader :: "'j cjson_api \<Rightarrow> 'j option \<Rightarrow> string option" where
  "DataParseHeader A json_obj =
     (let header_ar = cJSON_GetObjectItem A json_obj ''header'';
          header_0 = cJSON_GetArrayItem A header_ar 0;
          protocol_id_obj = cJSON_GetObjectItem A header_0 ''protocolId''
      in case cJSON_GetStringValue A protocol_id_obj of
           None \<Rightarrow> None
         | Some s \<Rightarrow> if length s \<ge> 8 then None else Some s)"

definition DataParsePayload :: "'j cjson_api \<Rightarrow> 'j option \<Rightarrow> MessageBuffer option" where
  "DataParsePayload A json_obj =
     (case cJSON_PrintUnformatted A (cJSON_GetObjectItem A json_obj ''payload'') of
        None \<Rightarrow> None
      | Some s \<Rightarrow>
          Some (MessageBufferInitWithDeallocator (Some (s @ [CHR 0x00])) (length s + 1) (Some cJSON_free)))"

definition DataDeserialize :: "'j cjson_api \<Rightarrow> 'j option \<Rightarrow> EebusError \<times> Data option" where
  "DataDeserialize A data_ar =
     (if Option.is_none data_ar then (kEebusErrorInputArgument, None)
      else
        parse_result (do { p \<leftarrow> DataParseHeader A (cJSON_GetArrayItem A data_ar 0);
                  b \<leftarrow> DataParsePayload A (cJSON_GetArrayItem A data_ar 1);
                  Some \<lparr>protocol_id = p, payload = b\<rparr> }))"

section \<open>Access methods\<close>

definition SmeConnectionAccessMethodsRequestDeserialize :: "'j cjson_api \<Rightarrow> 'j option \<Rightarrow> EebusError" where
  "SmeConnectionAccessMethodsRequestDeserialize A ar =
     (if Option.is_none ar then kEebusErrorInputArgument
      else if cJSON_GetArraySize A ar = 0 then kEebusErrorOk else kEebusErrorParse)"

definition AccessMethodsParseId :: "'j cjson_api \<Rightarrow> 'j option \<Rightarrow> string option" where
  "AccessMethodsParseId A json_obj =
     StringCopy (cJSON_GetStringValue A (cJSON_GetObjectItem A json_obj ''id''))"

definition AccessMethodsParseDnsSdMdns :: "'j cjson_api \<Rightarrow> 'j option \<Rightarrow> bool" where
  "AccessMethodsParseDnsSdMdns A json_obj =
     (cJSON_GetArraySize A (cJSON_GetObjectItem A json_obj ''dnsSd_mDns'') = 0)"

definition AccessMethodsParseDns :: "'j cjson_api \<Rightarrow> 'j option \<Rightarrow> string option" where
  "AccessMethodsParseDns A json_obj =
     (let dns_ar = cJSON_GetObjectItem A json_obj ''dns'';
          dns_0 = cJSON_GetArrayItem A dns_ar 0
      in StringCopy (cJSON_GetStringValue A (cJSON_GetObjectItem A dns_0 ''uri'')))"

text \<open>
  The structure after each of the three steps, \<open>None\<close> once a step failed: the identifier from
  element 0, then \<^verbatim>\<open>dnsSd_mDns\<close> or \<^verbatim>\<open>dns\<close> from element 1, then \<^verbatim>\<open>dns\<close> from element 2.
\<close>

definition access_methods_0 :: "'j cjson_api \<Rightarrow> 'j option \<Rightarrow> AccessMethods option" where
  "access_methods_0 A ar =
     map_option (\<lambda>i. \<lparr>am_id = Some i, dns_sd_mdns = False, dns_uri = None\<rparr>)
       (AccessMethodsParseId A (cJSON_GetArrayItem A ar 0))"

definition access_methods_1 :: "'j cjson_api \<Rightarrow> 'j option \<Rightarrow> AccessMethods \<Rightarrow> AccessMethods option" where
  "access_methods_1 A ar m =
     (case cJSON_GetArrayItem A ar 1 of
        None \<Rightarrow> Some m
      | Some ar_1 \<Rightarrow>
          if cJSON_HasObjectItem A (Some ar_1) ''dnsSd_mDns'' then
            (if AccessMethodsParseDnsSdMdns A (Some ar_1) then Some (m\<lparr>dns_sd_mdns := True\<rparr>) else None)
          else if cJSON_HasObjectItem A (Some ar_1) ''Dns'' then
            (case AccessMethodsParseDns A (Some ar_1) of
               None \<Rightarrow> None
             | Some u \<Rightarrow> if cJSON_GetArraySize A ar = 2 then Some (m\<lparr>dns_uri := Some u\<rparr>) else None)
          else None)"

definition access_methods_2 :: "'j cjson_api \<Rightarrow> 'j option \<Rightarrow> AccessMethods \<Rightarrow> AccessMethods option" where
  "access_methods_2 A ar m =
     (case cJSON_GetArrayItem A ar 2 of
        None \<Rightarrow> Some m
      | Some ar_2 \<Rightarrow> map_option (\<lambda>u. m\<lparr>dns_uri := Some u\<rparr>) (AccessMethodsParseDns A (Some ar_2)))"

definition SmeConnectionAccessMethodsDeserialize ::
    "'j cjson_api \<Rightarrow> 'j option \<Rightarrow> EebusError \<times> AccessMethods option" where
  "SmeConnectionAccessMethodsDeserialize A ar =
     (if Option.is_none ar then (kEebusErrorInputArgument, None)
      else
        parse_result (do { m \<leftarrow> access_methods_0 A ar; m \<leftarrow> access_methods_1 A ar m; access_methods_2 A ar m }))"

section \<open>Connection close\<close>

definition ConnectionCloseParsePhase :: "'j cjson_api \<Rightarrow> 'j option \<Rightarrow> ConnectionClosePhaseType option" where
  "ConnectionCloseParsePhase A json_obj =
     (case cJSON_GetStringValue A (cJSON_GetObjectItem A json_obj ''phase'') of
        None \<Rightarrow> None
      | Some s \<Rightarrow>
          if s = ''announce'' then Some kConnectionClosePhaseTypeAnnounce
          else if s = ''confirm'' then Some kConnectionClosePhaseTypeConfirm
          else None)"

definition ConnectionCloseParseMaxTime :: "'j cjson_api \<Rightarrow> 'j option \<Rightarrow> u32 option" where
  "ConnectionCloseParseMaxTime A json_obj =
     (let max_time_obj = cJSON_GetObjectItem A json_obj ''maxTime''
      in if \<not> cJSON_IsNumber A max_time_obj then None
         else Some (double_to_u32 (cJSON_GetNumberValue A max_time_obj)))"

definition ConnectionCloseParseReason :: "'j cjson_api \<Rightarrow> 'j option \<Rightarrow> string option" where
  "ConnectionCloseParseReason A json_obj =
     StringCopy (cJSON_GetStringValue A (cJSON_GetObjectItem A json_obj ''reason''))"

definition close_1 :: "'j cjson_api \<Rightarrow> 'j option \<Rightarrow> ConnectionClose \<Rightarrow> ConnectionClose option" where
  "close_1 A ar c =
     (case cJSON_GetArrayItem A ar 1 of
        None \<Rightarrow> Some c
      | Some ar_1 \<Rightarrow>
          if cJSON_HasObjectItem A (Some ar_1) ''maxTime'' then
            map_option (\<lambda>t. c\<lparr>max_time := Some t\<rparr>) (ConnectionCloseParseMaxTime A (Some ar_1))
          else if cJSON_HasObjectItem A (Some ar_1) ''reason'' then
            (case ConnectionCloseParseReason A (Some ar_1) of
               None \<Rightarrow> None
             | Some r \<Rightarrow> if cJSON_GetArraySize A ar = 2 then Some (c\<lparr>reason := Some r\<rparr>) else None)
          else None)"

definition close_2 :: "'j cjson_api \<Rightarrow> 'j option \<Rightarrow> ConnectionClose \<Rightarrow> ConnectionClose option" where
  "close_2 A ar c =
     (case cJSON_GetArrayItem A ar 2 of
        None \<Rightarrow> Some c
      | Some ar_2 \<Rightarrow> map_option (\<lambda>r. c\<lparr>reason := Some r\<rparr>) (ConnectionCloseParseReason A (Some ar_2)))"

definition SmeCloseDeserialize :: "'j cjson_api \<Rightarrow> 'j option \<Rightarrow> EebusError \<times> ConnectionClose option" where
  "SmeCloseDeserialize A ar =
     (if Option.is_none ar then (kEebusErrorInputArgument, None)
      else
        parse_result (do { p \<leftarrow> ConnectionCloseParsePhase A (cJSON_GetArrayItem A ar 0);
                  c \<leftarrow> close_1 A ar \<lparr>close_phase = p, max_time = None, reason = None\<rparr>;
                  close_2 A ar c }))"

section \<open>The deserializer object\<close>

definition deserialized :: "MsgValueType \<Rightarrow> ('a \<Rightarrow> ShipMessage) \<Rightarrow> EebusError \<times> 'a option \<Rightarrow>
    EebusError \<times> ShipMessageDeserialize" where
  "deserialized t mk r = (fst r, \<lparr>ds_value = map_option mk (snd r), ds_value_type = t\<rparr>)"

definition DeserializeControlMessage ::
    "'j cjson_api \<Rightarrow> ShipMessageDeserialize \<Rightarrow> 'j option \<Rightarrow> EebusError \<times> ShipMessageDeserialize" where
  "DeserializeControlMessage A self json_root =
     (let item = cJSON_GetObjectItem A json_root in
      if cJSON_HasObjectItem A json_root ''connectionHello'' then
        deserialized kSmeHello VHello (SmeHelloDeserialize A (item ''connectionHello''))
      else if cJSON_HasObjectItem A json_root ''messageProtocolHandshake'' then
        deserialized kSmeProtocolHandshake VHandshake
          (SmeProtocolHandshakeDeserialize A (item ''messageProtocolHandshake''))
      else if cJSON_HasObjectItem A json_root ''messageProtocolHandshakeError'' then
        deserialized kSmeProtocolHandshakeError VHandshakeError
          (SmeProtocolHandshakeErrorDeserialize A (item ''messageProtocolHandshakeError''))
      else if cJSON_HasObjectItem A json_root ''connectionPinState'' then
        deserialized kSmeConnectionPinState VPinState
          (SmeConnectionPinStateDeserialize A (item ''connectionPinState''))
      else if cJSON_HasObjectItem A json_root ''connectionPinInput'' then
        deserialized kSmeConnectionPinInput VPinInput
          (SmeConnectionPinInputDeserialize A (item ''connectionPinInput''))
      else if cJSON_HasObjectItem A json_root ''connectionPinError'' then
        deserialized kSmeConnectionPinError VPinError
          (SmeConnectionPinErrorDeserialize A (item ''connectionPinError''))
      else if cJSON_HasObjectItem A json_root ''accessMethodsRequest'' then
        deserialized kSmeConnectionAccessMethodsRequest (\<lambda>_. VAccessMethodsRequest)
          (SmeConnectionAccessMethodsRequestDeserialize A (item ''accessMethodsRequest''), Some ())
      else if cJSON_HasObjectItem A json_root ''accessMethods'' then
        deserialized kSmeConnectionAccessMethods VAccessMethods
          (SmeConnectionAccessMethodsDeserialize A (item ''accessMethods''))
      else (kEebusErrorInputArgument, self))"

definition DeserializeDataMessage ::
    "'j cjson_api \<Rightarrow> ShipMessageDeserialize \<Rightarrow> 'j option \<Rightarrow> EebusError \<times> ShipMessageDeserialize" where
  "DeserializeDataMessage A self json_root =
     (if cJSON_HasObjectItem A json_root ''data'' then
        deserialized kData VData (DataDeserialize A (cJSON_GetObjectItem A json_root ''data''))
      else (kEebusErrorInputArgument, self))"

definition DeserializeEndMessage ::
    "'j cjson_api \<Rightarrow> ShipMessageDeserialize \<Rightarrow> 'j option \<Rightarrow> EebusError \<times> ShipMessageDeserialize" where
  "DeserializeEndMessage A self json_root =
     (if cJSON_HasObjectItem A json_root ''connectionClose'' then
        deserialized kSmeClose VClose (SmeCloseDeserialize A (cJSON_GetObjectItem A json_root ''connectionClose''))
      else (kEebusErrorInputArgument, self))"

definition DeserializeRoot ::
    "'j cjson_api \<Rightarrow> byte \<Rightarrow> ShipMessageDeserialize \<Rightarrow> 'j \<Rightarrow> EebusError \<times> ShipMessageDeserialize" where
  "DeserializeRoot A msg_type self json_root =
     (if msg_type = msg_type_byte kMsgTypeControl then DeserializeControlMessage A self (Some json_root)
      else if msg_type = msg_type_byte kMsgTypeData then DeserializeDataMessage A self (Some json_root)
      else if msg_type = msg_type_byte kMsgTypeEnd then DeserializeEndMessage A self (Some json_root)
      else (kEebusErrorParse, self))"

text \<open>The result is the object and the buffer, whose bytes \<^verbatim>\<open>ShipMessageToString\<close> moved.\<close>

definition Deserialize ::
    "'j cjson_api \<Rightarrow> ShipMessageDeserialize \<Rightarrow> MessageBuffer option \<Rightarrow>
     ShipMessageDeserialize \<times> MessageBuffer option" where
  "Deserialize A self buf =
     (case buf of
        None \<Rightarrow> (self, buf)
      | Some b \<Rightarrow>
          (case mb_data b of
             None \<Rightarrow> (self, buf)
           | Some d \<Rightarrow>
               if mb_data_size b = 0 then (self, buf)
               else if (of_char (d ! 0) :: nat) > 3 then (self, buf)
               else case ShipMessageToString buf of
                 None \<Rightarrow> (self, buf)
               | Some b' \<Rightarrow>
                   (case api_Parse A (case mb_data b' of None \<Rightarrow> [] | Some s \<Rightarrow> cstring s) of
                      None \<Rightarrow> (self, Some b')
                    | Some json_root \<Rightarrow>
                        (let (ret, self') = DeserializeRoot A (d ! 0) self json_root
                         in (if ret \<noteq> kEebusErrorOk then DeserializeReset self' else self', Some b')))))"

definition ShipMessageDeserializeCreate ::
    "'j cjson_api \<Rightarrow> MessageBuffer option \<Rightarrow> ShipMessageDeserialize \<times> MessageBuffer option" where
  "ShipMessageDeserializeCreate A buf =
     Deserialize A \<lparr>ds_value = None, ds_value_type = kValueUndefined\<rparr> buf"

section \<open>Bounds of what a peer can make us accept\<close>

fun msg_bounded :: "ShipMessage \<Rightarrow> bool" where
  "msg_bounded (VHello h) = (waiting h = None \<or> prolongation_request h = None)"
| "msg_bounded (VHandshake h) = (length (formats h) \<le> 2)"
| "msg_bounded (VPinError p) = (pin_error p = kConnectionPinErrorTypeWrongPin)"
| "msg_bounded (VData d) =
     (length (protocol_id d) + 1 \<le> 8 \<and>
      (case mb_data (payload d) of None \<Rightarrow> False
       | Some bs \<Rightarrow> mb_data_size (payload d) = length bs \<and> bs \<noteq> [] \<and> last bs = CHR 0x00))"
| "msg_bounded (VAccessMethods m) = (am_id m \<noteq> None)"
| "msg_bounded _ = True"

lemma parse_formats_length: "parse_formats A ar i k = Some fs \<Longrightarrow> length fs = k"
  by (induction A ar i k arbitrary: fs rule: parse_formats.induct)
     (auto split: option.splits if_splits)

text \<open>\<open>good P r\<close>: the parse failed or produced a structure with \<open>P\<close>.\<close>

definition good :: "('a \<Rightarrow> bool) \<Rightarrow> EebusError \<times> 'a option \<Rightarrow> bool" where
  "good P r \<longleftrightarrow> (fst r = kEebusErrorOk \<longrightarrow> (\<exists>x. snd r = Some x \<and> P x))"

lemma good_parse_result [simp]: "good P (parse_result r) \<longleftrightarrow> (\<forall>x. r = Some x \<longrightarrow> P x)"
  by (cases r) (auto simp: good_def parse_result_def)

lemma good_pair [simp]: "good P (e, Some x) \<longleftrightarrow> (e = kEebusErrorOk \<longrightarrow> P x)"
  "good P (e, None) \<longleftrightarrow> e \<noteq> kEebusErrorOk"
  by (auto simp: good_def)

lemma hello_good: "good (\<lambda>h. msg_bounded (VHello h)) (SmeHelloDeserialize A ar)"
  by (auto simp: SmeHelloDeserialize_def Let_def split: option.split)

lemma handshake_good: "good (\<lambda>h. msg_bounded (VHandshake h)) (SmeProtocolHandshakeDeserialize A ar)"
  by (auto simp: SmeProtocolHandshakeDeserialize_def MessageProtocolHandshakeParseFormats_def Let_def
      bind_eq_Some_conv split: if_splits dest: parse_formats_length)

lemma handshake_error_good: "good (\<lambda>e. msg_bounded (VHandshakeError e)) (SmeProtocolHandshakeErrorDeserialize A ar)"
  by (auto simp: SmeProtocolHandshakeErrorDeserialize_def)

lemma pin_state_good: "good (\<lambda>p. msg_bounded (VPinState p)) (SmeConnectionPinStateDeserialize A ar)"
  by (auto simp: SmeConnectionPinStateDeserialize_def split: option.split)

lemma pin_input_good: "good (\<lambda>p. msg_bounded (VPinInput p)) (SmeConnectionPinInputDeserialize A ar)"
  by (auto simp: SmeConnectionPinInputDeserialize_def)

lemma pin_error_good: "good (\<lambda>p. msg_bounded (VPinError p)) (SmeConnectionPinErrorDeserialize A ar)"
  by (auto simp: SmeConnectionPinErrorDeserialize_def ConnectionPinErrorParseError_def Let_def
      split: if_splits)

lemma data_good: "good (\<lambda>d. msg_bounded (VData d)) (DataDeserialize A ar)"
  by (auto simp: DataDeserialize_def DataParseHeader_def DataParsePayload_def Let_def bind_eq_Some_conv
      MessageBufferInitWithDeallocator_def split: if_splits option.splits)

lemma access_methods_id_kept:
  "access_methods_1 A ar m = Some m' \<Longrightarrow> am_id m' = am_id m"
  "access_methods_2 A ar m = Some m' \<Longrightarrow> am_id m' = am_id m"
  by (auto simp: access_methods_1_def access_methods_2_def split: option.splits if_splits)

lemma access_methods_good: "good (\<lambda>m. msg_bounded (VAccessMethods m)) (SmeConnectionAccessMethodsDeserialize A ar)"
  by (auto simp: SmeConnectionAccessMethodsDeserialize_def access_methods_0_def bind_eq_Some_conv
      dest!: access_methods_id_kept)

lemma close_good: "good (\<lambda>c. msg_bounded (VClose c)) (SmeCloseDeserialize A ar)"
  by (auto simp: SmeCloseDeserialize_def)

lemmas messages_good =
  hello_good handshake_good handshake_error_good pin_state_good pin_input_good pin_error_good
  data_good access_methods_good close_good

definition ds_ok :: "MsgType \<Rightarrow> ShipMessageDeserialize \<Rightarrow> bool" where
  "ds_ok t d \<longleftrightarrow> (case ds_value d of
     None \<Rightarrow> False
   | Some v \<Rightarrow> ds_value_type d = value_type_of v \<and> msg_type_of (value_type_of v) = t \<and> msg_bounded v)"

text \<open>\<open>ret_ok t p\<close>: the pair \<open>p\<close> reports an error or holds a message for the type byte \<open>t\<close>.\<close>

definition ret_ok :: "MsgType \<Rightarrow> EebusError \<times> ShipMessageDeserialize \<Rightarrow> bool" where
  "ret_ok t p \<longleftrightarrow> (fst p = kEebusErrorOk \<longrightarrow> ds_ok t (snd p))"

lemma deserialized_ok:
  assumes "good (\<lambda>x. msg_bounded (mk x)) r" and "\<And>x. value_type_of (mk x) = t" and "msg_type_of t = c"
  shows "ret_ok c (deserialized t mk r)"
  using assms by (auto simp: deserialized_def ds_ok_def good_def ret_ok_def)

lemmas deserialized_messages_ok = messages_good [THEN deserialized_ok]

lemmas tag_simps = value_type_of_def msg_type_of_def

lemma deserialized_request_ok:
  "ret_ok kMsgTypeControl
     (deserialized kSmeConnectionAccessMethodsRequest (\<lambda>_. VAccessMethodsRequest) (e, Some ()))"
  by (simp add: deserialized_def ds_ok_def ret_ok_def tag_simps)

lemma ret_ok_error [simp]: "e \<noteq> kEebusErrorOk \<Longrightarrow> ret_ok t (e, d)"
  by (simp add: ret_ok_def)

lemma DeserializeControlMessage_ok: "ret_ok kMsgTypeControl (DeserializeControlMessage A self root)"
  by (simp add: DeserializeControlMessage_def Let_def deserialized_messages_ok deserialized_request_ok tag_simps)

lemma DeserializeDataMessage_ok: "ret_ok kMsgTypeData (DeserializeDataMessage A self root)"
  by (simp add: DeserializeDataMessage_def deserialized_messages_ok tag_simps)

lemma DeserializeEndMessage_ok: "ret_ok kMsgTypeEnd (DeserializeEndMessage A self root)"
  by (simp add: DeserializeEndMessage_def deserialized_messages_ok tag_simps)

lemma msg_type_byte_eq: "msg_type_byte t = msg_type_byte t' \<longleftrightarrow> t = t'"
  by (simp add: msg_type_byte_def split: MsgType.splits)

lemma DeserializeRoot_ok:
  "fst (DeserializeRoot A c self root) = kEebusErrorOk \<Longrightarrow>
   \<exists>t. c = msg_type_byte t \<and> ds_ok t (snd (DeserializeRoot A c self root))"
  using DeserializeControlMessage_ok [of A self "Some root"] DeserializeDataMessage_ok [of A self "Some root"]
    DeserializeEndMessage_ok [of A self "Some root"]
  by (auto simp: DeserializeRoot_def ret_ok_def msg_type_byte_eq split: if_splits)

lemma Deserialize_result:
  fixes A self buf
  defines "d \<equiv> fst (Deserialize A self buf)"
  shows "d = self \<or> d = DeserializeReset d \<or>
    (\<exists>b bs t. buf = Some b \<and> mb_data b = Some bs \<and> bs ! 0 = msg_type_byte t \<and> ds_ok t d)"
  unfolding d_def Deserialize_def
  by (auto simp: DeserializeReset_def case_prod_beta Let_def split: option.splits dest!: DeserializeRoot_ok)

text \<open>
  C8. Whatever bytes arrive and however the JSON parser reads them, the deserializer ends with no
  value and the type \<^verbatim>\<open>kValueUndefined\<close>, or with a value that its type tag names, whose kind agrees
  with the type byte of the message, and which fits the structures: at most two formats, a protocol
  identifier that leaves room for the terminator in \<^verbatim>\<open>protocol_id[8]\<close>, a terminated payload whose size
  counts its bytes, an identifier in every access methods message.
\<close>

theorem deserialize_safe:
  "let d = fst (ShipMessageDeserializeCreate A buf)
   in case ds_value d of
        None \<Rightarrow> ds_value_type d = kValueUndefined
      | Some v \<Rightarrow>
          ds_value_type d = value_type_of v \<and> msg_bounded v \<and>
          (case buf of None \<Rightarrow> False
           | Some b \<Rightarrow> (case mb_data b of None \<Rightarrow> False
              | Some bs \<Rightarrow> bs ! 0 = msg_type_byte (msg_type_of (value_type_of v))))"
proof -
  define d where "d = fst (ShipMessageDeserializeCreate A buf)"
  have "(ds_value d = None \<and> ds_value_type d = kValueUndefined) \<or>
    (\<exists>b bs t. buf = Some b \<and> mb_data b = Some bs \<and> bs ! 0 = msg_type_byte t \<and> ds_ok t d)"
    using Deserialize_result [of A "\<lparr>ds_value = None, ds_value_type = kValueUndefined\<rparr>" buf]
    unfolding d_def [unfolded ShipMessageDeserializeCreate_def, symmetric]
    by (metis (no_types, lifting) DeserializeReset_def ShipMessageDeserialize.select_convs
        ShipMessageDeserialize.update_convs ShipMessageDeserialize.surjective)
  then show ?thesis unfolding Let_def d_def [symmetric]
    by (auto simp: ds_ok_def split: option.splits)
qed

section \<open>Round trip\<close>

lemma shift_down_eq:
  "length d = Suc (i + k) \<Longrightarrow> shift_down i k d = take i d @ drop (Suc i) d @ [last d]"
proof (induction k arbitrary: i d)
  case 0
  then have "d = take i d @ [last d]" by (metis add.right_neutral append_butlast_last_id butlast_conv_take diff_Suc_1 length_0_conv nat.simps(3))
  then show ?case using 0 by simp
next
  case (Suc k)
  have i: "Suc i < length d" using Suc.prems by simp
  have "d \<noteq> []" using i by auto
  moreover have "i \<noteq> length d - 1" using i by linarith
  ultimately have l: "last (d[i := d ! Suc i]) = last d" by (simp add: last_list_update)
  have "shift_down (Suc i) k (d[i := d ! Suc i]) =
      take (Suc i) (d[i := d ! Suc i]) @ drop (Suc (Suc i)) (d[i := d ! Suc i]) @ [last (d[i := d ! Suc i])]"
    by (rule Suc.IH) (use Suc.prems in simp)
  also have "\<dots> = take i d @ (d ! Suc i # drop (Suc (Suc i)) d) @ [last d]"
    using i l by (simp add: take_Suc_conv_app_nth)
  also have "d ! Suc i # drop (Suc (Suc i)) d = drop (Suc i) d" using i by (simp add: Cons_nth_drop_Suc)
  finally show ?case by simp
qed

lemma ShipMessageToString_eq:
  "d \<noteq> [] \<Longrightarrow>
   ShipMessageToString (Some \<lparr>mb_data = Some (c # d), mb_data_size = Suc (length d), mb_deallocator = f\<rparr>) =
     Some \<lparr>mb_data = Some (d @ [CHR 0x00]), mb_data_size = Suc (length d), mb_deallocator = f\<rparr>"
proof -
  assume "d \<noteq> []"
  have "shift_down 0 (length d) (c # d) = d @ [last (c # d)]" by (simp add: shift_down_eq)
  then show ?thesis using \<open>d \<noteq> []\<close> by (simp add: ShipMessageToString_def list_update_append)
qed

text \<open>
  What is read back: of a hello message only one of the optional members, and a payload buffer that
  owns a fresh copy of the text.
\<close>

fun reread :: "ShipMessage \<Rightarrow> ShipMessage" where
  "reread (VHello h) =
     VHello (h\<lparr>prolongation_request := (if waiting h = None then prolongation_request h else None)\<rparr>)"
| "reread (VData d) =
     VData (d\<lparr>payload := (case mb_data (payload d) of
                            None \<Rightarrow> payload d
                          | Some bs \<Rightarrow> MessageBufferInitWithDeallocator (Some (cstring bs @ [CHR 0x00]))
                                         (length (cstring bs) + 1) (Some cJSON_free))\<rparr>)"
| "reread v = v"

text \<open>What the serializer's caller has to provide.\<close>

fun sendable :: "'j cjson_api \<Rightarrow> ShipMessage \<Rightarrow> bool" where
  "sendable A (VHandshake h) = (length (formats h) \<le> 2)"
| "sendable A (VPinInput p) = (16 ^ 7 \<le> unat (pin p))"
| "sendable A (VPinError e) = (pin_error e = kConnectionPinErrorTypeWrongPin)"
| "sendable A (VData d) =
     (nul_free (protocol_id d) \<and> length (protocol_id d) < 8 \<and>
      (case mb_data (payload d) of
         None \<Rightarrow> False
       | Some bs \<Rightarrow> \<exists>v. api_PrintUnformatted A v = Some (cstring bs) \<and> api_Parse A (cstring bs) = Some v))"
| "sendable A (VAccessMethods m) = (am_id m \<noteq> None \<and> pred_option nul_free (am_id m) \<and> pred_option nul_free (dns_uri m))"
| "sendable A (VClose c) = pred_option nul_free (reason c)"
| "sendable A _ = True"

lemmas json_build = JsonAddObjectToArray_def JsonAddStringToArray_def JsonAddItemToArray_def
  cJSON_AddItemToObject_def cJSON_AddItemToArray_def cJSON_CreateString_def cJSON_CreateRaw_def attach_def built_simps

text \<open>\<open>readback A v v'\<close>: \<open>v\<close> is serialized into an owned buffer, and the bytes are read as \<open>v'\<close>.\<close>

definition readback :: "'j cjson_api \<Rightarrow> ShipMessage \<Rightarrow> ShipMessage \<Rightarrow> bool" where
  "readback A v v' \<longleftrightarrow>
     (\<exists>d b. b = \<lparr>mb_data = Some d, mb_data_size = length d, mb_deallocator = Some cJSON_free\<rparr> \<and> d \<noteq> [] \<and>
        Serialize_GetBuffer (ShipMessageSerializeConstruct A (Some v)) = Some b \<and>
        fst (ShipMessageDeserializeCreate A (Some b)) = \<lparr>ds_value = Some v', ds_value_type = value_type_of v\<rparr>)"

lemma readbackI:
  assumes ok: "cjson_ok A"
    and ser: "SerializeMessage A (api_CreateObject A) v = (kEebusErrorOk, mk_object A k ar)"
    and pr: "printed A ar ar'"
    and des: "\<And>self. DeserializeRoot A (msg_type_byte (msg_type_of (value_type_of v))) self (mk_object A k ar') =
       (kEebusErrorOk, \<lparr>ds_value = Some v', ds_value_type = value_type_of v\<rparr>)"
  shows "readback A v v'"
proof -
  obtain s where s: "api_PrintUnformatted A (mk_object A k ar) = Some s" "nul_free s" "2 \<le> length s"
    "api_Parse A s = Some (mk_object A k ar')"
    using cjson_ok_print [OF ok printed_object [OF pr, of k]] by blast
  let ?t = "msg_type_byte (msg_type_of (value_type_of v))"
  let ?b = "\<lparr>mb_data = Some (?t # s), mb_data_size = Suc (length s), mb_deallocator = Some cJSON_free\<rparr>"
  have "s \<noteq> []" using s(3) by auto
  then have "ShipMessageToString (Some ?b) =
      Some \<lparr>mb_data = Some (s @ [CHR 0x00]), mb_data_size = Suc (length s), mb_deallocator = Some cJSON_free\<rparr>"
    by (rule ShipMessageToString_eq)
  moreover have "\<not> 3 < (of_char ?t :: nat)" by (simp add: msg_type_byte_def split: MsgType.splits)
  ultimately have "fst (ShipMessageDeserializeCreate A (Some ?b)) =
      \<lparr>ds_value = Some v', ds_value_type = value_type_of v\<rparr>"
    using s by (simp add: ShipMessageDeserializeCreate_def Deserialize_def des)
  moreover have "Serialize_GetBuffer (ShipMessageSerializeConstruct A (Some v)) = Some ?b"
    using s by (simp add: ShipMessageSerializeConstruct_def Serialize_GetBuffer_def Serialize_def ser
        cJSON_PrintUnformatted_def StringToShipMessage_eq)
  ultimately show ?thesis unfolding readback_def
    by (intro exI [of _ "?t # s"] exI [of _ ?b]) simp
qed

lemma unsigned_number: "printed A (api_CreateNumber A (unsigned (w::u32))) (api_CreateNumber A (unsigned w))"
  using printed_number [of "uint w" A] uint_lt2p [of w] by simp

lemmas json_intros = printed.intros unsigned_number

lemmas root_simps = DeserializeRoot_def DeserializeControlMessage_def DeserializeDataMessage_def
  DeserializeEndMessage_def deserialized_def parse_result_def tag_simps cjson_calls same_key_def

lemma readback_hello:
  assumes ok: "cjson_ok A"
  shows "readback A (VHello h) (reread (VHello h))"
proof (rule readbackI [OF ok])
  let ?phase = "case hello_phase h of kConnectionHelloPhasePending \<Rightarrow> ''pending''
     | kConnectionHelloPhaseReady \<Rightarrow> ''ready'' | kConnectionHelloPhaseAborted \<Rightarrow> ''aborted''"
  let ?ar = "mk_array A ([mk_object A ''phase'' (api_CreateString A ?phase)]
     @ (case waiting h of None \<Rightarrow> [] | Some w \<Rightarrow> [mk_object A ''waiting'' (api_CreateNumber A (of_int (uint w)))])
     @ (case prolongation_request h of None \<Rightarrow> [] | Some b \<Rightarrow> [mk_object A ''prolongationRequest'' (api_CreateBool A b)]))"
  show "SerializeMessage A (api_CreateObject A) (VHello h) = (kEebusErrorOk, mk_object A ''connectionHello'' ?ar)"
    by (simp add: SerializeMessage_def hello_serialize_defs json_build split: option.splits)
  show "printed A ?ar ?ar"
    by (auto intro!: json_intros simp: nul_free_def split: option.splits ConnectionHelloPhase.splits)
  show "DeserializeRoot A (msg_type_byte (msg_type_of (value_type_of (VHello h)))) self (mk_object A ''connectionHello'' ?ar) =
       (kEebusErrorOk, \<lparr>ds_value = Some (reread (VHello h)), ds_value_type = value_type_of (VHello h)\<rparr>)" for self
    by (cases "hello_phase h"; cases "waiting h"; cases "prolongation_request h"; cases h)
      (simp_all add: root_simps cjson_ok_accessors [OF ok] SmeHelloDeserialize_def ConnectionHelloParsePhase_def
         ConnectionHelloParseWaiting_def ConnectionHelloParseProlongReq_def)
qed

definition format_json :: "'j cjson_api \<Rightarrow> MessageProtocolFormatType \<Rightarrow> 'j" where
  "format_json A f = api_CreateString A (case f of kMessageProtocolFormatTypeUTF8 \<Rightarrow> ''JSON-UTF8''
                        | kMessageProtocolFormatTypeUTF16 \<Rightarrow> ''JSON-UTF16'')"

lemma format_json_simps:
  "format_json A kMessageProtocolFormatTypeUTF8 = api_CreateString A ''JSON-UTF8''"
  "format_json A kMessageProtocolFormatTypeUTF16 = api_CreateString A ''JSON-UTF16''"
  by (simp_all add: format_json_def)

lemma add_formats_eq: "add_formats A fs (Some (mk_array A vs)) = Some (mk_array A (vs @ map (format_json A) fs))"
  by (induction fs arbitrary: vs) (simp_all add: json_build format_json_def)

lemma parse_formats_eq:
  assumes ok: "cjson_ok A"
  shows "parse_formats A (Some (mk_array A (vs @ map (format_json A) fs))) (length vs) (length fs) = Some fs"
proof (induction fs arbitrary: vs)
  case Nil
  then show ?case by simp
next
  case (Cons f fs)
  have "parse_formats A (Some (mk_array A (vs @ map (format_json A) (f # fs)))) (Suc (length vs)) (length fs) = Some fs"
    using Cons.IH [of "vs @ [format_json A f]"] by simp
  then show ?case
    by (cases f) (simp_all add: cjson_calls cjson_ok_accessors [OF ok] format_json_simps)
qed

lemma u8_number: "printed A (api_CreateNumber A (unsigned (w::u8))) (api_CreateNumber A (unsigned w))"
  using printed_number [of "uint w" A] uint_lt2p [of w] by simp

lemma readback_handshake:
  assumes ok: "cjson_ok A" and fs: "length (formats h) \<le> 2"
  shows "readback A (VHandshake h) (VHandshake h)"
proof (rule readbackI [OF ok])
  let ?type = "case handshake_type h of kProtocolHandshakeTypeAnnounceMax \<Rightarrow> ''announceMax''
                                | kProtocolHandshakeTypeSelect \<Rightarrow> ''select''"
  let ?formats = "if formats h = [] then api_CreateNull A else mk_array A (map (format_json A) (formats h))"
  let ?ar = "mk_array A [mk_object A ''handshakeType'' (api_CreateString A ?type),
     mk_object A ''version'' (mk_array A
       [mk_object A ''major'' (api_CreateNumber A (of_int (uint (major (version h))))),
        mk_object A ''minor'' (api_CreateNumber A (of_int (uint (minor (version h)))))]),
     mk_object A ''formats'' (mk_array A [mk_object A ''format'' ?formats])]"
  have add: "add_formats A (formats h) (Some (mk_array A [])) = Some (mk_array A (map (format_json A) (formats h)))"
    using add_formats_eq [of A "formats h" "[]"] by simp
  have parse: "parse_formats A (Some (mk_array A (map (format_json A) (formats h)))) 0 (length (formats h)) = Some (formats h)"
    using parse_formats_eq [OF ok, of "[]" "formats h"] by simp
  show "SerializeMessage A (api_CreateObject A) (VHandshake h) = (kEebusErrorOk, mk_object A ''messageProtocolHandshake'' ?ar)"
    using fs by (simp add: SerializeMessage_def handshake_serialize_defs json_build Let_def add)
  have "list_all2 (printed A) (map (format_json A) xs) (map (format_json A) xs)" for xs
    by (induction xs) (auto intro!: printed_string simp: format_json_def nul_free_def split: MessageProtocolFormatType.split)
  then show "printed A ?ar ?ar"
    by (auto intro!: json_intros u8_number simp: nul_free_def split: ProtocolHandshakeType.splits)
  show "DeserializeRoot A (msg_type_byte (msg_type_of (value_type_of (VHandshake h)))) self (mk_object A ''messageProtocolHandshake'' ?ar) =
       (kEebusErrorOk, \<lparr>ds_value = Some (VHandshake h), ds_value_type = value_type_of (VHandshake h)\<rparr>)" for self
    using fs parse by (cases "handshake_type h"; cases "version h"; cases h)
      (auto simp: root_simps cjson_ok_accessors [OF ok] SmeProtocolHandshakeDeserialize_def
        MessageProtocolHandshakeParseType_def MessageProtocolHandshakeParseVersion_def MessageProtocolHandshakeParseFormats_def)
qed

lemma readback_handshake_error:
  assumes ok: "cjson_ok A"
  shows "readback A (VHandshakeError e) (VHandshakeError e)"
proof (rule readbackI [OF ok])
  let ?ar = "mk_array A [mk_object A ''error'' (api_CreateNumber A (of_int (hs_error_code (hs_error e))))]"
  show "SerializeMessage A (api_CreateObject A) (VHandshakeError e) = (kEebusErrorOk, mk_object A ''messageProtocolHandshakeError'' ?ar)"
    by (simp add: SerializeMessage_def SmeProtocolHandshakeErrorSerialize_def MessageProtocolHandshakeErrorAddError_def json_build)
  have code: "0 \<le> hs_error_code x \<and> hs_error_code x \<le> 3 \<and> hs_error_code x < 2 ^ 32" for x
    by (cases x) (simp_all add: hs_error_code_def)
  then show "printed A ?ar ?ar" by (auto intro!: json_intros)
  have "double_to_i32 (of_int (hs_error_code x)) = hs_error_code x" for x
    by (cases x) (simp_all add: hs_error_code_def double_to_i32_def)
  moreover have "hs_error_of_code (hs_error_code x) = x" for x
    by (cases x) (simp_all add: hs_error_code_def hs_error_of_code_def)
  ultimately show "DeserializeRoot A (msg_type_byte (msg_type_of (value_type_of (VHandshakeError e)))) self (mk_object A ''messageProtocolHandshakeError'' ?ar) =
       (kEebusErrorOk, \<lparr>ds_value = Some (VHandshakeError e), ds_value_type = value_type_of (VHandshakeError e)\<rparr>)" for self
    using code [of "hs_error e"] by (cases e)
      (simp add: root_simps cjson_ok_accessors [OF ok] SmeProtocolHandshakeErrorDeserialize_def
        MessageProtocolHandshakeErrorParseError_def)
qed

lemma readback_pin_state:
  assumes ok: "cjson_ok A"
  shows "readback A (VPinState p) (VPinState p)"
proof (rule readbackI [OF ok])
  let ?state = "case pin_state p of kPinStateTypeRequired \<Rightarrow> ''required'' | kPinStateTypeOptional \<Rightarrow> ''optional''
       | kPinStateTypePinOk \<Rightarrow> ''pinOk'' | kPinStateTypeNone \<Rightarrow> ''none''"
  let ?ar = "mk_array A ([mk_object A ''pinState'' (api_CreateString A ?state)]
     @ (case input_permission p of None \<Rightarrow> [] | Some q \<Rightarrow> [mk_object A ''inputPermission'' (api_CreateString A
          (case q of kPinInputPermissionTypeBusy \<Rightarrow> ''busy'' | kPinInputPermissionTypeOk \<Rightarrow> ''ok''))]))"
  show "SerializeMessage A (api_CreateObject A) (VPinState p) = (kEebusErrorOk, mk_object A ''connectionPinState'' ?ar)"
    by (simp add: SerializeMessage_def pin_serialize_defs json_build split: option.splits)
  show "printed A ?ar ?ar"
    by (auto intro!: json_intros simp: nul_free_def
        split: option.splits PinStateType.splits PinInputPermissionType.splits)
  show "DeserializeRoot A (msg_type_byte (msg_type_of (value_type_of (VPinState p)))) self (mk_object A ''connectionPinState'' ?ar) =
       (kEebusErrorOk, \<lparr>ds_value = Some (VPinState p), ds_value_type = value_type_of (VPinState p)\<rparr>)" for self
    by (cases "pin_state p"; cases "input_permission p"; cases p)
      (auto simp: root_simps cjson_ok_accessors [OF ok] SmeConnectionPinStateDeserialize_def
        ConnectionPinStateParsePinState_def ConnectionPinStateParseInputPermission_def
        split: PinInputPermissionType.split)
qed

lemma parse_pin_append: "parse_pin (xs @ ys) p = parse_pin xs p \<bind> parse_pin ys"
  by (induction xs arbitrary: p) (simp_all add: Let_def)

lemma low_nibble: "and w 0xF = take_bit 4 w" for w :: u64
proof -
  have "mask 4 = (0xF :: u64)" by (simp add: mask_eq_exp_minus_1)
  then show ?thesis by (simp add: take_bit_eq_mask)
qed

lemma pin_digit_code:
  "(of_char (pin_digit w) :: nat) = (let d = unat (and w 0xF) in d + (if d < 10 then 48 else 55))"
  "unat (and w 0xF) < 16"
proof -
  have "unat (and w 0xF) = unat w mod 16"
    by (simp add: low_nibble take_bit_eq_mod unat_mod)
  then show l: "unat (and w 0xF) < 16" by simp
  show "(of_char (pin_digit w) :: nat) = (let d = unat (and w 0xF) in d + (if d < 10 then 48 else 55))"
    using l by (simp add: pin_digit_def Let_def)
qed

lemma parse_pin_digit: "parse_pin [pin_digit w] p = Some (push_bit 4 p + and w 0xF)"
proof -
  define d where "d = unat (and w 0xF)"
  have "of_nat d = and w 0xF" by (simp add: d_def)
  moreover have "(of_char (pin_digit w) :: nat) = d + (if d < 10 then 48 else 55)" "d < 16"
    using pin_digit_code [of w] by (simp_all add: d_def Let_def)
  ultimately show ?thesis
    by (auto simp: isdigit_def isalpha_def toupper_def Let_def)
qed

lemma pin_recombine: "push_bit 4 (drop_bit 4 w) + and w 0xF = w" for w :: u64
  by (simp add: low_nibble bits_ident)

lemma parse_pin_string: "parse_pin (pin_string w) 0 = Some w"
  unfolding pin_string_rev
proof (induction w rule: pin_digits.induct)
  case (1 w)
  show ?case
  proof (cases "w > 0")
    case True
    then show ?thesis
      by (subst pin_digits.simps) (simp add: parse_pin_append "1.IH" parse_pin_digit pin_recombine del: parse_pin.simps)
  next
    case False
    then have "w = 0" using word_neq_0_conv by blast
    then show ?thesis by (simp add: pin_digits.simps)
  qed
qed

lemma pin_digit_not_nul: "pin_digit w \<noteq> CHR 0x00"
proof
  assume "pin_digit w = CHR 0x00"
  then have "(of_char (pin_digit w) :: nat) = 0" by simp
  with pin_digit_code(1) [of w] show False by (simp add: Let_def split: if_splits)
qed

lemma nul_free_pin_string: "nul_free (pin_string w)"
  unfolding nul_free_def pin_string_rev
proof (induction w rule: pin_digits.induct)
  case (1 w)
  then show ?case using pin_digit_not_nul [of w] by (subst pin_digits.simps) auto
qed

lemma pin_digit_zero: "pin_digit w = CHR ''0'' \<Longrightarrow> take_bit 4 w = 0"
proof -
  assume "pin_digit w = CHR ''0''"
  then have "(of_char (pin_digit w) :: nat) = 48" by simp
  with pin_digit_code(1) [of w] have "unat (and w 0xF) = 0" by (simp add: Let_def split: if_splits)
  then show ?thesis by (simp only: low_nibble unat_eq_0)
qed

lemma last_pin_digits: "pin_digits w \<noteq> [] \<Longrightarrow> last (pin_digits w) \<noteq> CHR ''0''"
proof (induction w rule: pin_digits.induct)
  case (1 w)
  have w: "w > 0" using "1.prems" by (metis pin_digits.simps)
  have e: "pin_digits w = pin_digit w # pin_digits (drop_bit 4 w)" using w by (subst pin_digits.simps) simp
  show ?case
  proof (cases "pin_digits (drop_bit 4 w) = []")
    case True
    then have "drop_bit 4 w = 0"
      using length_pin_digits [of "drop_bit 4 w" 0] by (simp flip: unat_eq_0)
    then have "take_bit 4 w \<noteq> 0" using w bits_ident [of 4 w] by auto
    then show ?thesis using pin_digit_zero [of w] True e by auto
  next
    case False
    then show ?thesis using "1.IH" [OF w] e by simp
  qed
qed

lemma readback_pin_input:
  assumes ok: "cjson_ok A" and p: "16 ^ 7 \<le> unat (pin p)"
  shows "readback A (VPinInput p) (VPinInput p)"
proof (rule readbackI [OF ok])
  let ?ar = "mk_array A [mk_object A ''pin'' (api_CreateString A (pin_string (pin p)))]"
  show "SerializeMessage A (api_CreateObject A) (VPinInput p) = (kEebusErrorOk, mk_object A ''connectionPinInput'' ?ar)"
    by (simp add: SerializeMessage_def pin_serialize_defs json_build)
  show "printed A ?ar ?ar" by (auto intro!: json_intros nul_free_pin_string)
  have "\<not> length (pin_digits (pin p)) \<le> 7" using p length_pin_digits [of "pin p" 7] by linarith
  then have l: "8 \<le> length (pin_string (pin p))" "length (pin_string (pin p)) \<le> 16"
    using pin_digits_16 [of "pin p"] by (simp_all add: pin_string_rev)
  moreover have "hd (pin_string (pin p)) \<noteq> CHR ''0''"
  proof -
    have "pin_digits (pin p) \<noteq> []" using l by (auto simp: pin_string_rev)
    then show ?thesis using last_pin_digits by (simp add: pin_string_rev hd_rev)
  qed
  ultimately show "DeserializeRoot A (msg_type_byte (msg_type_of (value_type_of (VPinInput p)))) self (mk_object A ''connectionPinInput'' ?ar) =
       (kEebusErrorOk, \<lparr>ds_value = Some (VPinInput p), ds_value_type = value_type_of (VPinInput p)\<rparr>)" for self
    by (cases p) (simp add: root_simps cjson_ok_accessors [OF ok] SmeConnectionPinInputDeserialize_def
        ConnectionPinInputParsePin_def parse_pin_string)
qed

lemma readback_pin_error:
  assumes ok: "cjson_ok A" and e: "pin_error e = kConnectionPinErrorTypeWrongPin"
  shows "readback A (VPinError e) (VPinError e)"
proof (rule readbackI [OF ok])
  let ?ar = "mk_array A [mk_object A ''error'' (api_CreateNumber A (of_int 1))]"
  show "SerializeMessage A (api_CreateObject A) (VPinError e) = (kEebusErrorOk, mk_object A ''connectionPinError'' ?ar)"
    by (simp add: SerializeMessage_def pin_serialize_defs json_build pin_error_code_def e)
  show "printed A ?ar ?ar" by (auto intro!: json_intros simp del: of_int_1)
  show "DeserializeRoot A (msg_type_byte (msg_type_of (value_type_of (VPinError e)))) self (mk_object A ''connectionPinError'' ?ar) =
       (kEebusErrorOk, \<lparr>ds_value = Some (VPinError e), ds_value_type = value_type_of (VPinError e)\<rparr>)" for self
    using e by (cases e) (simp add: root_simps cjson_ok_accessors [OF ok] SmeConnectionPinErrorDeserialize_def
        ConnectionPinErrorParseError_def double_to_u32_def)
qed

lemma readback_data:
  assumes ok: "cjson_ok A" and d: "sendable A (VData d)"
  shows "readback A (VData d) (reread (VData d))"
proof -
  obtain bs v where bs: "mb_data (payload d) = Some bs" "api_PrintUnformatted A v = Some (cstring bs)"
    "api_Parse A (cstring bs) = Some v" and p: "nul_free (protocol_id d)" "length (protocol_id d) < 8"
    using d by (auto split: option.splits)
  let ?header = "mk_object A ''header'' (mk_array A [mk_object A ''protocolId'' (api_CreateString A (protocol_id d))])"
  let ?ar = "\<lambda>x. mk_array A [?header, mk_object A ''payload'' x]"
  show ?thesis
  proof (rule readbackI [OF ok])
    show "SerializeMessage A (api_CreateObject A) (VData d) =
        (kEebusErrorOk, mk_object A ''data'' (?ar (api_CreateRaw A (cstring bs))))"
      by (simp add: SerializeMessage_def data_serialize_defs json_build bs)
    show "printed A (?ar (api_CreateRaw A (cstring bs))) (?ar v)"
      using bs p by (auto intro!: json_intros)
    show "DeserializeRoot A (msg_type_byte (msg_type_of (value_type_of (VData d)))) self (mk_object A ''data'' (?ar v)) =
       (kEebusErrorOk, \<lparr>ds_value = Some (reread (VData d)), ds_value_type = value_type_of (VData d)\<rparr>)" for self
      using bs p by (cases d) (simp add: root_simps msg_type_byte_eq cjson_ok_accessors [OF ok] DataDeserialize_def
          DataParseHeader_def DataParsePayload_def)
  qed
qed

lemma readback_access_request:
  assumes ok: "cjson_ok A"
  shows "readback A VAccessMethodsRequest VAccessMethodsRequest"
proof (rule readbackI [OF ok])
  show "SerializeMessage A (api_CreateObject A) VAccessMethodsRequest =
      (kEebusErrorOk, mk_object A ''accessMethodsRequest'' (mk_array A []))"
    by (simp add: SerializeMessage_def access_serialize_defs json_build)
  show "printed A (mk_array A []) (mk_array A [])" by (auto intro!: json_intros)
  show "DeserializeRoot A (msg_type_byte (msg_type_of (value_type_of VAccessMethodsRequest))) self
       (mk_object A ''accessMethodsRequest'' (mk_array A [])) =
       (kEebusErrorOk, \<lparr>ds_value = Some VAccessMethodsRequest, ds_value_type = value_type_of VAccessMethodsRequest\<rparr>)" for self
    by (simp add: root_simps cjson_ok_accessors [OF ok] SmeConnectionAccessMethodsRequestDeserialize_def)
qed

lemma readback_access_methods:
  assumes ok: "cjson_ok A" and m: "sendable A (VAccessMethods m)"
  shows "readback A (VAccessMethods m) (VAccessMethods m)"
proof -
  obtain i where i: "am_id m = Some i" "nul_free i" and u: "pred_option nul_free (dns_uri m)"
    using m by auto
  let ?ar = "mk_array A ([mk_object A ''id'' (api_CreateString A i)]
     @ (if dns_sd_mdns m then [mk_object A ''dnsSd_mDns'' (mk_array A [])] else [])
     @ (case dns_uri m of None \<Rightarrow> [] | Some u \<Rightarrow>
          [mk_object A ''dns'' (mk_array A [mk_object A ''uri'' (api_CreateString A u)])]))"
  show ?thesis
  proof (rule readbackI [OF ok])
    show "SerializeMessage A (api_CreateObject A) (VAccessMethods m) = (kEebusErrorOk, mk_object A ''accessMethods'' ?ar)"
      by (simp add: SerializeMessage_def access_serialize_defs json_build i split: option.splits)
    show "printed A ?ar ?ar"
      using i u by (auto intro!: json_intros split: option.splits)
    show "DeserializeRoot A (msg_type_byte (msg_type_of (value_type_of (VAccessMethods m)))) self (mk_object A ''accessMethods'' ?ar) =
       (kEebusErrorOk, \<lparr>ds_value = Some (VAccessMethods m), ds_value_type = value_type_of (VAccessMethods m)\<rparr>)" for self
      using i by (cases "dns_uri m"; cases "dns_sd_mdns m"; cases m)
        (simp_all add: root_simps cjson_ok_accessors [OF ok] SmeConnectionAccessMethodsDeserialize_def
          access_methods_0_def access_methods_1_def access_methods_2_def AccessMethodsParseId_def
          AccessMethodsParseDns_def AccessMethodsParseDnsSdMdns_def StringCopy_def)
  qed
qed

lemma readback_close:
  assumes ok: "cjson_ok A" and c: "pred_option nul_free (reason c)"
  shows "readback A (VClose c) (VClose c)"
proof (rule readbackI [OF ok])
  let ?phase = "case close_phase c of kConnectionClosePhaseTypeAnnounce \<Rightarrow> ''announce''
     | kConnectionClosePhaseTypeConfirm \<Rightarrow> ''confirm''"
  let ?ar = "mk_array A ([mk_object A ''phase'' (api_CreateString A ?phase)]
     @ (case max_time c of None \<Rightarrow> [] | Some w \<Rightarrow> [mk_object A ''maxTime'' (api_CreateNumber A (of_int (uint w)))])
     @ (case reason c of None \<Rightarrow> [] | Some r \<Rightarrow> [mk_object A ''reason'' (api_CreateString A r)]))"
  show "SerializeMessage A (api_CreateObject A) (VClose c) = (kEebusErrorOk, mk_object A ''connectionClose'' ?ar)"
    by (simp add: SerializeMessage_def close_serialize_defs json_build split: option.splits)
  show "printed A ?ar ?ar"
    using c by (auto intro!: json_intros simp: nul_free_def split: option.splits ConnectionClosePhaseType.splits)
  show "DeserializeRoot A (msg_type_byte (msg_type_of (value_type_of (VClose c)))) self (mk_object A ''connectionClose'' ?ar) =
       (kEebusErrorOk, \<lparr>ds_value = Some (VClose c), ds_value_type = value_type_of (VClose c)\<rparr>)" for self
    by (cases "close_phase c"; cases "max_time c"; cases "reason c"; cases c)
      (simp_all add: root_simps msg_type_byte_eq cjson_ok_accessors [OF ok] SmeCloseDeserialize_def ConnectionCloseParsePhase_def
        close_1_def close_2_def ConnectionCloseParseMaxTime_def ConnectionCloseParseReason_def StringCopy_def)
qed

lemma readback_all: "cjson_ok A \<Longrightarrow> sendable A v \<Longrightarrow> readback A v (reread v)"
  by (cases v) (auto intro: readback_hello readback_handshake readback_handshake_error readback_pin_state
      readback_pin_input readback_pin_error readback_data readback_access_request readback_access_methods
      readback_close simp del: sendable.simps(4,5) reread.simps(1,2))

text \<open>
  C7. Round trip. With a JSON library that behaves as documented, every message the application can
  send (at most two formats, a PIN of at least eight significant digits, a payload that is the text
  of a JSON value, strings without NUL) is serialized, and deserializing the bytes gives the message
  back with its type tag, except that a hello message that carries both \<^verbatim>\<open>waiting\<close> and
  \<^verbatim>\<open>prolongationRequest\<close> comes back without the latter.
\<close>

theorem ship_message_roundtrip:
  assumes "cjson_ok A" and "sendable A v"
  shows "\<exists>b. Serialize_GetBuffer (ShipMessageSerializeConstruct A (Some v)) = Some b \<and>
             fst (ShipMessageDeserializeCreate A (Some b)) =
               \<lparr>ds_value = Some (reread v), ds_value_type = value_type_of v\<rparr>"
  using readback_all [OF assms] by (auto simp: readback_def)

definition data_sample :: Data where
  "data_sample = \<lparr>protocol_id = SHIP_PROTOCOL_ID,
     payload = \<lparr>mb_data = Some (encode_json (JObj [(''datagram'', JNull)]) @ [CHR 0x00]),
                mb_data_size = length (encode_json (JObj [(''datagram'', JNull)])) + 1,
                mb_deallocator = Some cJSON_free\<rparr>\<rparr>"

theorem ship_message_roundtrip_witness:
  "\<exists>b. Serialize_GetBuffer (ShipMessageSerializeConstruct json_api (Some (VData data_sample))) = Some b \<and>
       fst (ShipMessageDeserializeCreate json_api (Some b)) =
         \<lparr>ds_value = Some (VData data_sample), ds_value_type = kData\<rparr>"
proof -
  let ?v = "JObj [(''datagram'', JNull)]"
  have "api_PrintUnformatted json_api ?v = Some (encode_json ?v)" "api_Parse json_api (encode_json ?v) = Some ?v"
    by (simp_all add: json_api_def)
  then have "sendable json_api (VData data_sample)"
    by (auto simp: data_sample_def SHIP_PROTOCOL_ID_def nul_free_def [of "CHR ''e'' # _"])
  moreover have "reread (VData data_sample) = VData data_sample"
    by (simp add: data_sample_def MessageBufferInitWithDeallocator_def)
  ultimately show ?thesis
    using ship_message_roundtrip [OF cjson_ok_json_api, of "VData data_sample"] by (simp add: value_type_of_def)
qed

text \<open>
  What cannot be encoded is refused, not truncated: a handshake with more formats than the message
  has room for, an access methods message without an identifier and a data message without a payload
  leave the serializer without a buffer, so that nothing reaches the network.
\<close>

lemma serialize_refuses:
  assumes "(\<exists>h. v = VHandshake h \<and> length (formats h) > 2) \<or>
           (\<exists>m. v = VAccessMethods m \<and> am_id m = None) \<or>
           (\<exists>d. v = VData d \<and> mb_data (payload d) = None)"
  shows "Serialize_GetBuffer (ShipMessageSerializeConstruct A (Some v)) = None"
  using assms
  by (auto simp: ShipMessageSerializeConstruct_def Serialize_def SerializeMessage_def Serialize_GetBuffer_def
      SerializeReset_def handshake_serialize_defs access_serialize_defs data_serialize_defs json_build
      split: option.splits)

theorem serialize_refuses_witness:
  "Serialize_GetBuffer (ShipMessageSerializeConstruct json_api
     (Some (VAccessMethods \<lparr>am_id = None, dns_sd_mdns = True, dns_uri = None\<rparr>))) = None"
  using serialize_refuses [of "VAccessMethods \<lparr>am_id = None, dns_sd_mdns = True, dns_uri = None\<rparr>" json_api]
  by simp

end
