(* ===== verification/Eebus_Timer.thy ===== *)
theory Eebus_Timer
  imports Eebus_Prelude
begin

text \<open>
  Software timers: \<^verbatim>\<open>common/eebus_timer/eebus_timer_freertos.c\<close> and
  \<^verbatim>\<open>common/eebus_timer/eebus_timer_linux.c\<close>, two implementations of
  \<^verbatim>\<open>common/api/eebus_timer_interface.h\<close>. The locale \<open>timer\<close> states what the clients rely on and is
  interpreted on both. The clock is part of a timer's state; time passes between operations. Tick
  conversions belong to FreeRTOS and are parameters.
\<close>

datatype EebusTimerState = kEebusTimerStateIdle | kEebusTimerStateRunning | kEebusTimerStateExpired

text \<open>
  The virtual function table of a timer. \<open>tm_expire\<close> is the platform's expiry routine, which the
  operating system calls.
\<close>

record 't EebusTimerInterface =
  tm_start :: "u32 \<Rightarrow> bool \<Rightarrow> 't \<Rightarrow> 't"
  tm_stop :: "'t \<Rightarrow> 't"
  tm_get_remaining_time :: "'t \<Rightarrow> u32"
  tm_get_timer_state :: "'t \<Rightarrow> EebusTimerState"
  tm_expire :: "'t \<Rightarrow> 't"

section \<open>FreeRTOS\<close>

text \<open>
  \<open>os_timers\<close> are the operating system timers created for this object and not deleted: handle,
  expiry tick, whether it is armed. The object remembers one handle.
\<close>

record freertos_api =
  pdMS_TO_TICKS :: "u32 \<Rightarrow> u32"
  pdTICKS_TO_MS :: "u32 \<Rightarrow> u32"

record FreertosTimer =
  timer_handle :: "nat option"
  ft_timer_state :: EebusTimerState
  os_timers :: "(nat \<times> u32 \<times> bool) list"
  os_next_handle :: nat
  os_tick :: u32

definition FreertosTimer_Construct :: "u32 \<Rightarrow> FreertosTimer" where
  "FreertosTimer_Construct now =
     \<lparr>timer_handle = None, ft_timer_state = kEebusTimerStateIdle, os_timers = [], os_next_handle = 0,
      os_tick = now\<rparr>"

definition FreertosTimer_Start ::
    "freertos_api \<Rightarrow> bool \<Rightarrow> u32 \<Rightarrow> bool \<Rightarrow> FreertosTimer \<Rightarrow> FreertosTimer" where
  "FreertosTimer_Start F created timeout_ms autoreload t =
     (if timeout_ms = 0 then t
      else if \<not> created then t\<lparr>timer_handle := None\<rparr>
      else t\<lparr>timer_handle := Some (os_next_handle t),
             os_next_handle := Suc (os_next_handle t),
             os_timers := os_timers t @ [(os_next_handle t, os_tick t + pdMS_TO_TICKS F timeout_ms, True)],
             ft_timer_state := kEebusTimerStateRunning\<rparr>)"

definition FreertosTimer_Stop :: "FreertosTimer \<Rightarrow> FreertosTimer" where
  "FreertosTimer_Stop t =
     (let t1 = (case timer_handle t of
                  None \<Rightarrow> t
                | Some h \<Rightarrow> t\<lparr>os_timers := filter (\<lambda>(h', _). h' \<noteq> h) (os_timers t), timer_handle := None\<rparr>)
      in if ft_timer_state t1 \<noteq> kEebusTimerStateExpired
         then t1\<lparr>ft_timer_state := kEebusTimerStateIdle\<rparr> else t1)"

definition FreertosTimer_GetRemainingTime :: "freertos_api \<Rightarrow> FreertosTimer \<Rightarrow> u32" where
  "FreertosTimer_GetRemainingTime F t =
     (case timer_handle t of
        None \<Rightarrow> 0
      | Some h \<Rightarrow>
          (case map_of (os_timers t) h of
             None \<Rightarrow> 0
           | Some (expiry, _) \<Rightarrow> pdTICKS_TO_MS F (expiry - os_tick t)))"

text \<open>
  \<^verbatim>\<open>EebusTimerExpiredCallback\<close>: the timer service runs it for the armed timer \<open>h\<close>, which then is dormant
  (one-shot; the clients never ask for a reload). The object is found through the timer's identifier,
  so any timer created for the object marks it expired.
\<close>

definition EebusTimerExpiredCallback :: "nat \<Rightarrow> FreertosTimer \<Rightarrow> FreertosTimer" where
  "EebusTimerExpiredCallback h t =
     t\<lparr>os_timers := map (\<lambda>(h', e, a). (h', e, if h' = h then False else a)) (os_timers t),
       ft_timer_state := kEebusTimerStateExpired\<rparr>"

definition freertos_timer :: "freertos_api \<Rightarrow> FreertosTimer EebusTimerInterface" where
  "freertos_timer F =
     \<lparr>tm_start = FreertosTimer_Start F True,
      tm_stop = FreertosTimer_Stop,
      tm_get_remaining_time = FreertosTimer_GetRemainingTime F,
      tm_get_timer_state = ft_timer_state,
      tm_expire = (\<lambda>t. case timer_handle t of None \<Rightarrow> t | Some h \<Rightarrow> EebusTimerExpiredCallback h t)\<rparr>"

section \<open>Linux\<close>

text \<open>
  A time is a pair of seconds and nanoseconds. \<open>lt_thread\<close>: the timer thread was created and not
  joined.
\<close>

record LinuxTimer =
  lt_timeout_ms :: u32
  lt_timeout :: "int \<times> int"
  lt_autoreload :: bool
  lt_cancel :: bool
  lt_start_time :: "int \<times> int"
  lt_thread :: bool
  lt_timer_state :: EebusTimerState
  lt_realtime :: "int \<times> int"
  lt_monotonic :: "int \<times> int"

definition LinuxTimer_Construct :: "int \<times> int \<Rightarrow> int \<times> int \<Rightarrow> LinuxTimer" where
  "LinuxTimer_Construct rt mt =
     \<lparr>lt_timeout_ms = 0, lt_timeout = (0, 0), lt_autoreload = False, lt_cancel = False,
      lt_start_time = (0, 0), lt_thread = False, lt_timer_state = kEebusTimerStateIdle,
      lt_realtime = rt, lt_monotonic = mt\<rparr>"

definition UpdateWaitCondTimeout :: "LinuxTimer \<Rightarrow> LinuxTimer" where
  "UpdateWaitCondTimeout t =
     (let sec = fst (lt_realtime t) + uint (lt_timeout_ms t) div 1000;
          nsec = snd (lt_realtime t) + uint (lt_timeout_ms t) mod 1000 * 1000000
      in if nsec \<ge> 1000000000
         then t\<lparr>lt_timeout := (sec + nsec div 1000000000, nsec mod 1000000000)\<rparr>
         else t\<lparr>lt_timeout := (sec, nsec)\<rparr>)"

text \<open>
  One return of \<^verbatim>\<open>pthread_cond_timedwait\<close> in \<^verbatim>\<open>TimerLoop\<close>. The loop does not look at the return value,
  so a return without a cancel counts as an expiry, whatever caused it. The result says whether the
  callback ran.
\<close>

definition TimerLoop_wake :: "LinuxTimer \<Rightarrow> bool \<times> LinuxTimer" where
  "TimerLoop_wake t =
     (if lt_cancel t then (False, t)
      else if lt_autoreload t then (True, UpdateWaitCondTimeout t)
      else (True, t\<lparr>lt_timer_state := kEebusTimerStateExpired\<rparr>))"

definition LinuxTimer_Start :: "u32 \<Rightarrow> bool \<Rightarrow> LinuxTimer \<Rightarrow> LinuxTimer" where
  "LinuxTimer_Start timeout_ms autoreload t =
     (if lt_thread t then t
      else
        let t1 = t\<lparr>lt_cancel := False, lt_timeout_ms := timeout_ms, lt_timer_state := kEebusTimerStateIdle,
                   lt_autoreload := autoreload\<rparr>
        in if timeout_ms = 0 then t1
           else
             let t2 = UpdateWaitCondTimeout (t1\<lparr>lt_start_time := lt_monotonic t1\<rparr>)
             in if lt_timeout t2 = (0, 0) then t2
                else t2\<lparr>lt_thread := True, lt_timer_state := kEebusTimerStateRunning\<rparr>)"

definition LinuxTimer_Stop :: "LinuxTimer \<Rightarrow> LinuxTimer" where
  "LinuxTimer_Stop t =
     (if \<not> lt_thread t then t
      else
        let t1 = t\<lparr>lt_cancel := True, lt_thread := False\<rparr>
        in if lt_timer_state t1 \<noteq> kEebusTimerStateExpired
           then t1\<lparr>lt_timer_state := kEebusTimerStateIdle\<rparr> else t1)"

definition LinuxTimer_GetRemainingTime :: "LinuxTimer \<Rightarrow> u32" where
  "LinuxTimer_GetRemainingTime t =
     (let elapsed_sec = fst (lt_monotonic t) - fst (lt_start_time t);
          elapsed_nsec = snd (lt_monotonic t) - snd (lt_start_time t);
          (es, en) = (if elapsed_nsec < 0 then (elapsed_sec - 1, elapsed_nsec + 1000000000)
                      else (elapsed_sec, elapsed_nsec))
      in if es < 0 then 0
         else
           let elapsed_ms = es * 1000 + en div 1000000
           in if elapsed_ms \<ge> uint (lt_timeout_ms t) then 0
              else word_of_int (uint (lt_timeout_ms t) - elapsed_ms))"

definition linux_timer :: "LinuxTimer EebusTimerInterface" where
  "linux_timer =
     \<lparr>tm_start = LinuxTimer_Start,
      tm_stop = LinuxTimer_Stop,
      tm_get_remaining_time = LinuxTimer_GetRemainingTime,
      tm_get_timer_state = lt_timer_state,
      tm_expire = (\<lambda>t. snd (TimerLoop_wake t))\<rparr>"

section \<open>The contract\<close>

locale timer =
  fixes T :: "'t EebusTimerInterface" and inv :: "'t \<Rightarrow> bool"
  assumes inv_start: "inv t \<Longrightarrow> inv (tm_start T ms r t)"
    and inv_stop: "inv t \<Longrightarrow> inv (tm_stop T t)"
    and start_stopped: "inv t \<Longrightarrow> 0 < ms \<Longrightarrow>
          tm_get_timer_state T (tm_start T ms r (tm_stop T t)) = kEebusTimerStateRunning"
    and stop_state: "inv t \<Longrightarrow>
          tm_get_timer_state T (tm_stop T t) =
            (if tm_get_timer_state T t = kEebusTimerStateExpired then kEebusTimerStateExpired
             else kEebusTimerStateIdle)"
    and start_zero: "inv t \<Longrightarrow> tm_get_timer_state T (tm_start T 0 r (tm_stop T t)) \<noteq> kEebusTimerStateRunning"
begin

text \<open>A timer that was stopped does not run, and stopping it again changes nothing visible.\<close>

lemma stop_stop: "inv t \<Longrightarrow> tm_get_timer_state T (tm_stop T (tm_stop T t)) = tm_get_timer_state T (tm_stop T t)"
  by (simp add: stop_state inv_stop)

lemma stop_not_running: "inv t \<Longrightarrow> tm_get_timer_state T (tm_stop T t) \<noteq> kEebusTimerStateRunning"
  by (simp add: stop_state)

text \<open>A start and stop without an expiry in between ends in the idle state, also after an old expiry.\<close>

lemma start_stop_idle:
  assumes "inv t"
  shows "tm_get_timer_state T (tm_stop T (tm_start T ms r (tm_stop T t))) \<noteq> kEebusTimerStateRunning"
    and "0 < ms \<Longrightarrow> tm_get_timer_state T (tm_stop T (tm_start T ms r (tm_stop T t))) = kEebusTimerStateIdle"
  using assms by (simp_all add: stop_state inv_start inv_stop start_stopped)

end

definition freertos_inv :: "FreertosTimer \<Rightarrow> bool" where
  "freertos_inv t \<longleftrightarrow>
     list_all (\<lambda>(h, _). h < os_next_handle t) (os_timers t) \<and>
     (case timer_handle t of None \<Rightarrow> ft_timer_state t \<noteq> kEebusTimerStateRunning
      | Some h \<Rightarrow> h < os_next_handle t)"

definition linux_inv :: "LinuxTimer \<Rightarrow> bool" where
  "linux_inv t \<longleftrightarrow>
     (\<not> lt_thread t \<longrightarrow> lt_timer_state t \<noteq> kEebusTimerStateRunning) \<and>
     0 < fst (lt_realtime t) \<and> 0 \<le> snd (lt_realtime t) \<and> snd (lt_realtime t) < 1000000000"

lemma linux_timeout_normal:
  assumes "linux_inv t"
  shows "0 < fst (lt_timeout (UpdateWaitCondTimeout t))"
    and "0 \<le> snd (lt_timeout (UpdateWaitCondTimeout t))"
    and "snd (lt_timeout (UpdateWaitCondTimeout t)) < 1000000000"
  using assms by (auto simp: UpdateWaitCondTimeout_def linux_inv_def Let_def pos_imp_zdiv_nonneg_iff
      intro!: add_pos_nonneg)

lemma UpdateWaitCondTimeout_other:
  "lt_thread (UpdateWaitCondTimeout t) = lt_thread t"
  "lt_timer_state (UpdateWaitCondTimeout t) = lt_timer_state t"
  "lt_realtime (UpdateWaitCondTimeout t) = lt_realtime t"
  by (simp_all add: UpdateWaitCondTimeout_def Let_def)

interpretation ft: timer "freertos_timer F" freertos_inv for F
proof (unfold_locales, goal_cases)
  case (1 t ms r)
  then show ?case
    by (auto simp: freertos_timer_def freertos_inv_def FreertosTimer_Start_def list_all_iff split: option.splits)
next
  case (2 t)
  then show ?case
    by (auto simp: freertos_timer_def freertos_inv_def FreertosTimer_Stop_def list_all_iff Let_def split: option.splits)
next
  case (3 t ms r)
  then show ?case
    by (auto simp: freertos_timer_def FreertosTimer_Start_def)
next
  case (4 t)
  then show ?case
    by (auto simp: freertos_timer_def FreertosTimer_Stop_def Let_def split: option.splits)
next
  case (5 t r)
  then show ?case
    by (auto simp: freertos_timer_def FreertosTimer_Start_def FreertosTimer_Stop_def Let_def split: option.splits)
qed

interpretation lt: timer linux_timer linux_inv
proof (unfold_locales, goal_cases)
  case (1 t ms r)
  then show ?case
    by (auto simp: linux_timer_def linux_inv_def LinuxTimer_Start_def Let_def UpdateWaitCondTimeout_other)
next
  case (2 t)
  then show ?case
    by (auto simp: linux_timer_def linux_inv_def LinuxTimer_Stop_def Let_def)
next
  case (3 t ms r)
  let ?t = "(LinuxTimer_Stop t)\<lparr>lt_cancel := False, lt_timeout_ms := ms, lt_timer_state := kEebusTimerStateIdle,
                   lt_autoreload := r, lt_start_time := lt_monotonic t\<rparr>"
  have "linux_inv ?t" using 3 by (auto simp: linux_inv_def LinuxTimer_Stop_def Let_def)
  then have "lt_timeout (UpdateWaitCondTimeout ?t) \<noteq> (0, 0)" using linux_timeout_normal(1) [of ?t] by auto
  then show ?case using 3
    by (auto simp: linux_timer_def LinuxTimer_Start_def LinuxTimer_Stop_def Let_def word_neq_0_conv)
next
  case (4 t)
  then show ?case
    by (cases "lt_timer_state t") (auto simp: linux_timer_def LinuxTimer_Stop_def linux_inv_def Let_def)
next
  case (5 t r)
  then show ?case
    by (auto simp: linux_timer_def LinuxTimer_Start_def LinuxTimer_Stop_def Let_def)
qed

section \<open>Properties\<close>

text \<open>
  On both platforms a stopped timer that is started with a positive timeout runs, and stopping it
  before it expires leaves it idle, whatever happened to it before.
\<close>

lemma timer_start_stop:
  assumes "freertos_inv t" and "linux_inv u" and "0 < ms"
  shows "tm_get_timer_state (freertos_timer F) (FreertosTimer_Start F True ms r (FreertosTimer_Stop t)) =
           kEebusTimerStateRunning \<and>
         tm_get_timer_state (freertos_timer F) (FreertosTimer_Stop (FreertosTimer_Start F True ms r (FreertosTimer_Stop t))) =
           kEebusTimerStateIdle \<and>
         tm_get_timer_state linux_timer (LinuxTimer_Start ms r (LinuxTimer_Stop u)) = kEebusTimerStateRunning \<and>
         tm_get_timer_state linux_timer (LinuxTimer_Stop (LinuxTimer_Start ms r (LinuxTimer_Stop u))) =
           kEebusTimerStateIdle"
  using ft.start_stopped [OF assms(1,3), of F r] ft.start_stop_idle(2) [OF assms(1,3), of F r]
    lt.start_stopped [OF assms(2,3), of r] lt.start_stop_idle(2) [OF assms(2,3), of r]
  by (simp add: freertos_timer_def linux_timer_def)

definition sample_api :: freertos_api where
  "sample_api = \<lparr>pdMS_TO_TICKS = (\<lambda>ms. ms div 10), pdTICKS_TO_MS = (\<lambda>k. k * 10)\<rparr>"

theorem timer_start_stop_witness:
  "tm_get_timer_state (freertos_timer sample_api)
     (FreertosTimer_Stop (FreertosTimer_Start sample_api True 1000 False (FreertosTimer_Stop (FreertosTimer_Construct 0))))
   = kEebusTimerStateIdle"
proof -
  have "freertos_inv (FreertosTimer_Construct 0)" "linux_inv (LinuxTimer_Construct (1, 0) (1, 0))"
    by (simp_all add: freertos_inv_def FreertosTimer_Construct_def linux_inv_def LinuxTimer_Construct_def)
  then show ?thesis
    using timer_start_stop [of "FreertosTimer_Construct 0" "LinuxTimer_Construct (1, 0) (1, 0)" 1000 sample_api False]
    by simp
qed

text \<open>
  A FreeRTOS timer that is started while it runs leaves its first operating system timer armed: the
  object forgets the handle, a later stop deletes only the second timer, and when the first expires
  its callback still marks the object expired.
\<close>

lemma freertos_restart_leaks:
  assumes "freertos_inv t" and "timer_handle t = Some h" and "(h, e, True) \<in> set (os_timers t)" and "0 < ms"
  shows "let t' = FreertosTimer_Stop (FreertosTimer_Start F True ms r t) in
         timer_handle t' = None \<and> ft_timer_state t' = kEebusTimerStateIdle \<and>
         (h, e, True) \<in> set (os_timers t') \<and>
         ft_timer_state (EebusTimerExpiredCallback h t') = kEebusTimerStateExpired"
proof -
  have "h \<noteq> os_next_handle t" using assms(1,2) by (simp add: freertos_inv_def)
  then show ?thesis
    using assms(2-4)
    by (auto simp: FreertosTimer_Start_def FreertosTimer_Stop_def EebusTimerExpiredCallback_def Let_def)
qed

theorem freertos_restart_leaks_witness:
  "(0, 100, True) \<in> set (os_timers (FreertosTimer_Stop (FreertosTimer_Start sample_api True 1000 False
     (FreertosTimer_Start sample_api True 1000 False (FreertosTimer_Construct 0)))))"
proof -
  let ?t = "FreertosTimer_Start sample_api True 1000 False (FreertosTimer_Construct 0)"
  have "freertos_inv ?t" "timer_handle ?t = Some 0" "(0, 100, True) \<in> set (os_timers ?t)"
    by (simp_all add: freertos_inv_def FreertosTimer_Construct_def FreertosTimer_Start_def sample_api_def)
  then show ?thesis
    using freertos_restart_leaks [of ?t 0 100 1000 sample_api False] by (simp add: Let_def)
qed

text \<open>
  The remaining time of a Linux timer is the timeout less the whole milliseconds since the start,
  and 0 once they have passed; nanoseconds are borrowed correctly across second boundaries.
\<close>

lemma linux_remaining_exact:
  assumes "0 \<le> snd (lt_start_time t)" "snd (lt_start_time t) < 1000000000"
    and "0 \<le> snd (lt_monotonic t)" "snd (lt_monotonic t) < 1000000000"
    and "fst (lt_monotonic t) * 1000000000 + snd (lt_monotonic t) =
         fst (lt_start_time t) * 1000000000 + snd (lt_start_time t) + d" and "0 \<le> d"
  shows "uint (LinuxTimer_GetRemainingTime t) = max 0 (uint (lt_timeout_ms t) - d div 1000000)"
proof -
  let ?es = "fst (lt_monotonic t) - fst (lt_start_time t)"
  let ?en = "snd (lt_monotonic t) - snd (lt_start_time t)"
  define es where "es = (if ?en < 0 then ?es - 1 else ?es)"
  define en where "en = (if ?en < 0 then ?en + 1000000000 else ?en)"
  define x where "x = uint (lt_timeout_ms t) - (es * 1000 + en div 1000000)"
  have d: "d = es * 1000000000 + en" using assms(5) by (simp add: es_def en_def)
  have en: "0 \<le> en" "en < 1000000000" using assms(1-4) by (simp_all add: en_def)
  then have "0 \<le> es" using d assms(6) by linarith
  moreover have "d div 1000000 = es * 1000 + en div 1000000"
    using div_mult_self1 [of 1000000 en "es * 1000"] by (simp add: d algebra_simps)
  moreover have "uint (lt_timeout_ms t) < 2 ^ 32" using uint_lt2p [of "lt_timeout_ms t"] by simp
  moreover have "0 \<le> d div 1000000" using assms(6) by (simp add: pos_imp_zdiv_nonneg_iff)
  moreover have "LinuxTimer_GetRemainingTime t =
      (if es < 0 then 0 else if es * 1000 + en div 1000000 \<ge> uint (lt_timeout_ms t) then 0
       else word_of_int x)"
    by (simp add: LinuxTimer_GetRemainingTime_def es_def en_def Let_def x_def)
  moreover have "uint (word_of_int x :: u32) = x" if "0 \<le> x" "x < 2 ^ 32"
    using that by (simp add: uint_word_of_int_eq take_bit_int_eq_self)
  moreover have "uint (lt_timeout_ms t) = x + (es * 1000 + en div 1000000)" by (simp add: x_def)
  ultimately show ?thesis by simp
qed

theorem linux_remaining_exact_witness:
  "uint (LinuxTimer_GetRemainingTime
     ((LinuxTimer_Construct (1, 0) (7, 100000000))\<lparr>lt_timeout_ms := 2000, lt_start_time := (6, 900000000)\<rparr>)) = 1800"
  using linux_remaining_exact [of "(LinuxTimer_Construct (1, 0) (7, 100000000))\<lparr>lt_timeout_ms := 2000,
      lt_start_time := (6, 900000000)\<rparr>" 200000000]
  by (simp add: LinuxTimer_Construct_def)

end
