(* ===== verification/Ship_Connection.thy ===== *)
theory Ship_Connection
  imports Ship_Deserialize Eebus_Timer
begin

text \<open>
  The SHIP connection: \<^verbatim>\<open>ship/ship_connection/ship_connection.c\<close>, with the client and server states in
  \<^verbatim>\<open>client.c\<close> and \<^verbatim>\<open>server.c\<close>. The state of a connection is the record \<open>ShipConnection\<close>, with the
  members of the C structure; \<open>out\<close> is the log of the calls the connection makes to its
  collaborators (websocket, information provider, data reader), in order.

  What a call of \<^verbatim>\<open>HandleState\<close> finds outside the connection is the record \<open>env\<close>: the JSON library, the
  timer implementation, how many bytes each websocket write accepts, whether the information
  provider returns a data reader, and what the other threads do while the connection's thread waits
  for a message. The message queue is the list of its messages, as \<open>Eebus_Queue\<close> justifies. A handler
  that waits for a message returns \<open>None\<close> when none arrives: the thread blocks.
\<close>

section \<open>State\<close>

datatype ShipConnectionQueueMsgType =
    kShipConnectionQueueMsgTypeDataReceived
  | kShipConnectionQueueMsgTypeSpineDataToSend
  | kShipConnectionQueueMsgTypeTimeout
  | kShipConnectionQueueMsgTypeWebsocketError
  | kShipConnectionQueueMsgTypeWebsocketClose
  | kShipConnectionQueueMsgTypeCancel

record ShipConnectionQueueMessage =
  qm_type :: ShipConnectionQueueMsgType
  qm_msg_buf :: MessageBuffer

datatype WebsocketCallbackType =
    kWebsocketCallbackTypeError
  | kWebsocketCallbackTypeRead
  | kWebsocketCallbackTypeClose

datatype call =
    WebsocketWrite "byte list"
  | WebsocketClose int "string option"
  | HandleShipStateUpdate "string option" SmeState
  | HandleConnectionClosed bool
  | ReportServiceShipId "string option" "string option"
  | SetupRemoteDevice "string option"
  | DataReaderHandleMessage MessageBuffer

record 't ShipConnection =
  role :: ShipRole
  remote_ski :: "string option"
  remote_ship_id :: "string option"
  local_ship_id :: "string option"
  data_reader :: bool
  sme_state :: SmeState
  sme_error :: EebusError
  is_access_methods_req_sent :: bool
  wait_for_ready_timer :: 't
  send_prolongation_request_timer :: 't
  prolongation_request_reply_timer :: 't
  last_received_waiting_value :: u32
  shutdown_once :: bool
  cancel :: bool
  msg_queue :: "ShipConnectionQueueMessage list"
  msg :: MessageBuffer
  out :: "call list"

datatype connection_timer = WaitForReady | SendProlongationRequest | ProlongationRequestReply

datatype sc_event =
    EvWebsocket WebsocketCallbackType "byte list"
  | EvTimer connection_timer
  | EvWriteMessage "byte list"
  | EvStop
  | EvClose bool int "string option"
  | EvAbortPending

record ('j, 't) env =
  env_json :: "'j cjson_api"
  env_timer :: "'t EebusTimerInterface"
  env_write :: "nat \<Rightarrow> byte list \<Rightarrow> nat"
  env_data_reader :: bool
  env_events :: "sc_event list"

definition kQueueMaxMsg :: nat where
  "kQueueMaxMsg = 30"

definition ShipConnectionConstruct ::
    "ShipRole \<Rightarrow> string option \<Rightarrow> string option \<Rightarrow> string option \<Rightarrow> 't \<Rightarrow> 't ShipConnection" where
  "ShipConnectionConstruct r local_id ski remote_id idle_timer =
     \<lparr>role = r,
      remote_ski = StringCopy ski,
      remote_ship_id = StringCopy remote_id,
      local_ship_id = local_id,
      data_reader = False,
      sme_state = (if r = kShipRoleServer then kCmiStateServerWait else kCmiStateClientSend),
      sme_error = kEebusErrorOk,
      is_access_methods_req_sent = False,
      wait_for_ready_timer = idle_timer,
      send_prolongation_request_timer = idle_timer,
      prolongation_request_reply_timer = idle_timer,
      last_received_waiting_value = 0,
      shutdown_once = False,
      cancel = False,
      msg_queue = [],
      msg = MessageBufferInit None 0,
      out = []\<rparr>"

section \<open>Collaborators\<close>

definition emit :: "call \<Rightarrow> 't ShipConnection \<Rightarrow> 't ShipConnection" where
  "emit c s = s\<lparr>out := out s @ [c]\<rparr>"

definition wait_start :: "('j, 't) env \<Rightarrow> u32 \<Rightarrow> 't ShipConnection \<Rightarrow> 't ShipConnection" where
  "wait_start e ms s = s\<lparr>wait_for_ready_timer := tm_start (env_timer e) ms False (wait_for_ready_timer s)\<rparr>"

definition wait_stop :: "('j, 't) env \<Rightarrow> 't ShipConnection \<Rightarrow> 't ShipConnection" where
  "wait_stop e s = s\<lparr>wait_for_ready_timer := tm_stop (env_timer e) (wait_for_ready_timer s)\<rparr>"

definition prolong_start :: "('j, 't) env \<Rightarrow> u32 \<Rightarrow> 't ShipConnection \<Rightarrow> 't ShipConnection" where
  "prolong_start e ms s =
     s\<lparr>send_prolongation_request_timer := tm_start (env_timer e) ms False (send_prolongation_request_timer s)\<rparr>"

definition prolong_stop :: "('j, 't) env \<Rightarrow> 't ShipConnection \<Rightarrow> 't ShipConnection" where
  "prolong_stop e s =
     s\<lparr>send_prolongation_request_timer := tm_stop (env_timer e) (send_prolongation_request_timer s)\<rparr>"

definition reply_start :: "('j, 't) env \<Rightarrow> u32 \<Rightarrow> 't ShipConnection \<Rightarrow> 't ShipConnection" where
  "reply_start e ms s =
     s\<lparr>prolongation_request_reply_timer := tm_start (env_timer e) ms False (prolongation_request_reply_timer s)\<rparr>"

definition reply_stop :: "('j, 't) env \<Rightarrow> 't ShipConnection \<Rightarrow> 't ShipConnection" where
  "reply_stop e s =
     s\<lparr>prolongation_request_reply_timer := tm_stop (env_timer e) (prolongation_request_reply_timer s)\<rparr>"

definition release_msg :: "'t ShipConnection \<Rightarrow> 't ShipConnection" where
  "release_msg s = s\<lparr>msg := snd (MessageBufferRelease (msg s))\<rparr>"

definition ShipConnectionSetSmeState :: "SmeState \<Rightarrow> 't ShipConnection \<Rightarrow> 't ShipConnection" where
  "ShipConnectionSetSmeState st s =
     (if sme_state s \<noteq> st
      then emit (HandleShipStateUpdate (remote_ski s) st) (s\<lparr>sme_state := st\<rparr>) else s)"

section \<open>Sending and closing\<close>

definition ShipConnectionSend ::
    "('j, 't) env \<Rightarrow> MessageBuffer \<Rightarrow> 't ShipConnection \<Rightarrow> EebusError \<times> 't ShipConnection" where
  "ShipConnectionSend e buf s =
     (let bytes = (case mb_data buf of None \<Rightarrow> [] | Some d \<Rightarrow> d);
          ret = env_write e (length (out s)) bytes;
          s' = emit (WebsocketWrite bytes) s
      in if ret \<noteq> mb_data_size buf then (kEebusErrorCommunication, s') else (kEebusErrorOk, s'))"

definition ShipConnectionSerializeAndSendMessage ::
    "('j, 't) env \<Rightarrow> ShipMessage \<Rightarrow> 't ShipConnection \<Rightarrow> EebusError \<times> 't ShipConnection" where
  "ShipConnectionSerializeAndSendMessage e v s =
     (case Serialize_GetBuffer (ShipMessageSerializeConstruct (env_json e) (Some v)) of
        None \<Rightarrow> (kEebusErrorParse, s)
      | Some buf \<Rightarrow> ShipConnectionSend e buf s)"

definition CloseConnection ::
    "('j, 't) env \<Rightarrow> bool \<Rightarrow> int \<Rightarrow> string option \<Rightarrow> 't ShipConnection \<Rightarrow> 't ShipConnection" where
  "CloseConnection e safe code reason_str s =
     (if shutdown_once s then s
      else
        let s1 = prolong_stop e (reply_stop e (wait_stop e s));
            state = sme_state s1;
            is_hs_ended = (state = kDataExchange \<or> state = kSmeHelloStateAbortDone
                           \<or> state = kSmeHelloStateRemoteAbortDone \<or> state = kSmeHelloStateRejected);
            s2 = (if safe \<and> state = kDataExchange then
                    emit (WebsocketClose 4001 (Some ''close''))
                      (snd (ShipConnectionSerializeAndSendMessage e
                         (VClose \<lparr>close_phase = kConnectionClosePhaseTypeAnnounce, max_time = None,
                                  reason = reason_str\<rparr>) s1))
                  else emit (WebsocketClose (if code \<noteq> 0 then code else 4001) reason_str) s1)
        in emit (HandleConnectionClosed is_hs_ended) (s2\<lparr>cancel := True, shutdown_once := True\<rparr>))"

definition ShipConnectionCloseWithError ::
    "('j, 't) env \<Rightarrow> string \<Rightarrow> 't ShipConnection \<Rightarrow> 't ShipConnection" where
  "ShipConnectionCloseWithError e err s =
     CloseConnection e True 0 (Some err) (ShipConnectionSetSmeState kSmeStateError s)"

section \<open>The message queue and the threads that fill it\<close>

text \<open>A sender that waits for room in a full queue has not sent: \<open>None\<close>.\<close>

definition EebusQueueSend :: "ShipConnectionQueueMessage \<Rightarrow> 't ShipConnection \<Rightarrow> 't ShipConnection option" where
  "EebusQueueSend m s =
     (if length (msg_queue s) < kQueueMaxMsg then Some (s\<lparr>msg_queue := msg_queue s @ [m]\<rparr>) else None)"

definition plain_msg :: "ShipConnectionQueueMsgType \<Rightarrow> ShipConnectionQueueMessage" where
  "plain_msg t = \<lparr>qm_type = t, qm_msg_buf = released\<rparr>"

definition ShipConnectionWebsocketCallback ::
    "WebsocketCallbackType \<Rightarrow> byte list \<Rightarrow> 't ShipConnection \<Rightarrow> 't ShipConnection option" where
  "ShipConnectionWebsocketCallback t bytes s =
     (if cancel s \<or> shutdown_once s then Some s
      else case t of
        kWebsocketCallbackTypeRead \<Rightarrow>
          (case ArrayCopy True (Some bytes) of
             None \<Rightarrow> Some s
           | Some copy \<Rightarrow>
               EebusQueueSend \<lparr>qm_type = kShipConnectionQueueMsgTypeDataReceived,
                               qm_msg_buf = MessageBufferInit (Some copy) (length bytes)\<rparr> s)
      | kWebsocketCallbackTypeError \<Rightarrow> EebusQueueSend (plain_msg kShipConnectionQueueMsgTypeWebsocketError) s
      | kWebsocketCallbackTypeClose \<Rightarrow> EebusQueueSend (plain_msg kShipConnectionQueueMsgTypeWebsocketClose) s)"

definition ShipConnectionTimeoutCallback :: "'t ShipConnection \<Rightarrow> 't ShipConnection option" where
  "ShipConnectionTimeoutCallback s = EebusQueueSend (plain_msg kShipConnectionQueueMsgTypeTimeout) s"

text \<open>\<^verbatim>\<open>WriteMessage\<close> waits for at most a second and then drops the message.\<close>

definition WriteMessage :: "byte list \<Rightarrow> 't ShipConnection \<Rightarrow> 't ShipConnection" where
  "WriteMessage bytes s =
     (case ArrayCopy True (Some bytes) of
        None \<Rightarrow> s
      | Some copy \<Rightarrow>
          (case EebusQueueSend \<lparr>qm_type = kShipConnectionQueueMsgTypeSpineDataToSend,
                                qm_msg_buf = MessageBufferInit (Some copy) (length bytes)\<rparr> s of
             None \<Rightarrow> s
           | Some s' \<Rightarrow> s'))"

text \<open>
  \<^verbatim>\<open>Stop\<close> until it waits for the connection's thread, and after the thread has ended.
\<close>

definition Stop_request :: "'t ShipConnection \<Rightarrow> 't ShipConnection option" where
  "Stop_request s = EebusQueueSend (plain_msg kShipConnectionQueueMsgTypeCancel) (s\<lparr>cancel := True\<rparr>)"

definition Stop_joined :: "('j, 't) env \<Rightarrow> 't ShipConnection \<Rightarrow> 't ShipConnection" where
  "Stop_joined e s = CloseConnection e False 0 (Some '''') s"

definition AbortPendingHandshake :: "'t ShipConnection \<Rightarrow> 't ShipConnection" where
  "AbortPendingHandshake s =
     (if sme_state s \<noteq> kSmeHelloStatePendingListen \<and> sme_state s \<noteq> kSmeHelloStateReadyListen then s
      else ShipConnectionSetSmeState kSmeHelloStateAbort s)"

text \<open>The expiry of a running timer: the platform's expiry routine, then the timeout callback.\<close>

definition timer_fires :: "('j, 't) env \<Rightarrow> connection_timer \<Rightarrow> 't ShipConnection \<Rightarrow> 't ShipConnection option" where
  "timer_fires e w s =
     (let T = env_timer e;
          t = (case w of WaitForReady \<Rightarrow> wait_for_ready_timer s
               | SendProlongationRequest \<Rightarrow> send_prolongation_request_timer s
               | ProlongationRequestReply \<Rightarrow> prolongation_request_reply_timer s)
      in if tm_get_timer_state T t \<noteq> kEebusTimerStateRunning then None
         else
           ShipConnectionTimeoutCallback
             (case w of WaitForReady \<Rightarrow> s\<lparr>wait_for_ready_timer := tm_expire T t\<rparr>
              | SendProlongationRequest \<Rightarrow> s\<lparr>send_prolongation_request_timer := tm_expire T t\<rparr>
              | ProlongationRequestReply \<Rightarrow> s\<lparr>prolongation_request_reply_timer := tm_expire T t\<rparr>))"

definition handle_event :: "('j, 't) env \<Rightarrow> sc_event \<Rightarrow> 't ShipConnection \<Rightarrow> 't ShipConnection option" where
  "handle_event e ev s =
     (case ev of
        EvWebsocket t bytes \<Rightarrow> ShipConnectionWebsocketCallback t bytes s
      | EvTimer w \<Rightarrow> timer_fires e w s
      | EvWriteMessage bytes \<Rightarrow> Some (WriteMessage bytes s)
      | EvStop \<Rightarrow> Stop_request s
      | EvClose safe code r \<Rightarrow> Some (CloseConnection e safe code r s)
      | EvAbortPending \<Rightarrow> Some (AbortPendingHandshake s))"

text \<open>What happens while the thread waits; an event that cannot happen leaves the state alone.\<close>

fun handle_events :: "('j, 't) env \<Rightarrow> sc_event list \<Rightarrow> 't ShipConnection \<Rightarrow> 't ShipConnection" where
  "handle_events e [] s = s"
| "handle_events e (ev # evs) s =
     handle_events e evs (case handle_event e ev s of None \<Rightarrow> s | Some s' \<Rightarrow> s')"

definition EebusQueueReceive ::
    "('j, 't) env \<Rightarrow> 't ShipConnection \<Rightarrow> (ShipConnectionQueueMessage \<times> 't ShipConnection) option" where
  "EebusQueueReceive e s =
     (let s1 = (if msg_queue s = [] then handle_events e (env_events e) s else s)
      in case msg_queue s1 of
           [] \<Rightarrow> None
         | m # q \<Rightarrow> Some (m, s1\<lparr>msg_queue := q\<rparr>))"

definition ShipConnectionReceive ::
    "('j, 't) env \<Rightarrow> u32 \<Rightarrow> 't ShipConnection \<Rightarrow> (EebusError \<times> 't ShipConnection) option" where
  "ShipConnectionReceive e timeout s =
     (case EebusQueueReceive e (wait_start e timeout s) of
        None \<Rightarrow> None
      | Some (m, s1) \<Rightarrow>
          (let s2 = wait_stop e s1 in
           Some (case qm_type m of
              kShipConnectionQueueMsgTypeDataReceived \<Rightarrow> (kEebusErrorOk, s2\<lparr>msg := qm_msg_buf m\<rparr>)
            | kShipConnectionQueueMsgTypeTimeout \<Rightarrow> (kEebusErrorTime, s2)
            | kShipConnectionQueueMsgTypeCancel \<Rightarrow> (kEebusErrorDeactivate, s2)
            | kShipConnectionQueueMsgTypeWebsocketError \<Rightarrow> (kEebusErrorCommunication, s2)
            | kShipConnectionQueueMsgTypeWebsocketClose \<Rightarrow> (kEebusErrorCommunicationEnd, s2)
            | kShipConnectionQueueMsgTypeSpineDataToSend \<Rightarrow> (kEebusErrorInputType, s2))))"

definition ShipConnectionEvaluateInitMsg :: "MessageBuffer \<Rightarrow> bool" where
  "ShipConnectionEvaluateInitMsg buf =
     (case mb_data buf of
        None \<Rightarrow> False
      | Some d \<Rightarrow>
          if mb_data_size buf \<noteq> length kShipInitMessage then False
          else if d ! 0 \<noteq> kShipInitMessage ! 0 then False
          else if d ! 1 \<noteq> kShipInitMessage ! 1 then False
          else True)"

definition deserialize_msg :: "('j, 't) env \<Rightarrow> 't ShipConnection \<Rightarrow> ShipMessageDeserialize" where
  "deserialize_msg e s = fst (ShipMessageDeserializeCreate (env_json e) (Some (msg s)))"

text \<open>The value of a message that is a protocol handshake, by its type tag and its value.\<close>

definition handshake_value :: "ShipMessageDeserialize \<Rightarrow> MessageProtocolHandshake option" where
  "handshake_value d =
     (if ds_value_type d = kSmeProtocolHandshake
      then (case ds_value d of Some (VHandshake h) \<Rightarrow> Some h | _ \<Rightarrow> None) else None)"

section \<open>Hello\<close>

definition SmeHelloStateSendHelloMsg ::
    "('j, 't) env \<Rightarrow> ConnectionHelloPhase \<Rightarrow> u32 \<Rightarrow> bool \<Rightarrow> 't ShipConnection \<Rightarrow> EebusError \<times> 't ShipConnection" where
  "SmeHelloStateSendHelloMsg e phase wait_duration prolongation s =
     ShipConnectionSerializeAndSendMessage e
       (VHello \<lparr>hello_phase = phase,
                waiting = (if wait_duration > 0 then Some wait_duration else None),
                prolongation_request = (if prolongation then Some True else None)\<rparr>) s"

definition SmeHelloStateReadyInit :: "('j, 't) env \<Rightarrow> 't ShipConnection \<Rightarrow> 't ShipConnection" where
  "SmeHelloStateReadyInit e s =
     (let s1 = reply_stop e (prolong_stop e s);
          (err, s2) = SmeHelloStateSendHelloMsg e kConnectionHelloPhaseReady tHelloInit False s1
      in ShipConnectionSetSmeState
           (if err = kEebusErrorOk then kSmeHelloStateReadyListen else kSmeHelloStateAbort) s2)"

definition SmeHelloStateCommonUpdateHelloMessageSendProcedure ::
    "('j, 't) env \<Rightarrow> ConnectionHello \<Rightarrow> 't ShipConnection \<Rightarrow> 't ShipConnection" where
  "SmeHelloStateCommonUpdateHelloMessageSendProcedure e hello s =
     (let T = env_timer e;
          remaining_time = (if tm_get_timer_state T (wait_for_ready_timer s) = kEebusTimerStateRunning
                            then tm_get_remaining_time T (wait_for_ready_timer s) else 0);
          (err, s1) = SmeHelloStateSendHelloMsg e (hello_phase hello) remaining_time False s
      in if err \<noteq> kEebusErrorOk then ShipConnectionSetSmeState kSmeHelloStateAbort s1 else s1)"

definition SmeHelloStateCommonProlongationRequestAndUpdateMessageSendProcedure ::
    "('j, 't) env \<Rightarrow> ConnectionHello \<Rightarrow> 't ShipConnection \<Rightarrow> 't ShipConnection" where
  "SmeHelloStateCommonProlongationRequestAndUpdateMessageSendProcedure e hello s =
     (if prolongation_request hello = Some True then
        SmeHelloStateCommonUpdateHelloMessageSendProcedure e hello
          (wait_start e (tm_get_remaining_time (env_timer e) (wait_for_ready_timer s) + tHelloInc) s)
      else s)"

definition SmeHelloStateAbort :: "('j, 't) env \<Rightarrow> 't ShipConnection \<Rightarrow> 't ShipConnection" where
  "SmeHelloStateAbort e s =
     ShipConnectionCloseWithError e ''SME Hello state connection aborted''
       (snd (SmeHelloStateSendHelloMsg e kConnectionHelloPhaseAborted 0 False s))"

definition SmeHelloReadyStateEvaluateReceivedHelloMessage ::
    "('j, 't) env \<Rightarrow> 't ShipConnection \<Rightarrow> 't ShipConnection" where
  "SmeHelloReadyStateEvaluateReceivedHelloMessage e s =
     (let d = deserialize_msg e s in
      if ds_value_type d \<noteq> kSmeHello then release_msg (ShipConnectionSetSmeState kSmeHelloStateAbort s)
      else release_msg
        (case ds_value d of
           Some (VHello hello) \<Rightarrow>
             (case hello_phase hello of
                kConnectionHelloPhaseReady \<Rightarrow> ShipConnectionSetSmeState kSmeHelloStateOk s
              | kConnectionHelloPhasePending \<Rightarrow>
                  SmeHelloStateCommonProlongationRequestAndUpdateMessageSendProcedure e hello s
              | kConnectionHelloPhaseAborted \<Rightarrow> ShipConnectionSetSmeState kSmeHelloStateAbort s)
         | _ \<Rightarrow> SmeHelloStateAbort e s))"

definition SmeHelloStateReadyListen :: "('j, 't) env \<Rightarrow> 't ShipConnection \<Rightarrow> 't ShipConnection option" where
  "SmeHelloStateReadyListen e s =
     do { (err, s1) \<leftarrow> ShipConnectionReceive e tHelloInit s;
          Some (if err = kEebusErrorOk then SmeHelloReadyStateEvaluateReceivedHelloMessage e s1
                else if err = kEebusErrorTime then ShipConnectionSetSmeState kSmeHelloStateReadyTimeout s1
                else ShipConnectionSetSmeState kSmeHelloStateAbort s1) }"

definition SmeHelloStatePendingInit :: "('j, 't) env \<Rightarrow> 't ShipConnection \<Rightarrow> 't ShipConnection" where
  "SmeHelloStatePendingInit e s =
     (let s1 = reply_stop e (prolong_stop e s);
          (err, s2) = SmeHelloStateSendHelloMsg e kConnectionHelloPhasePending tHelloInit False s1
      in ShipConnectionSetSmeState
           (if err = kEebusErrorOk then kSmeHelloStatePendingListen else kSmeHelloStateAbort) s2)"

definition SmeHelloCalculateNewWaitValueAndSetTimer ::
    "('j, 't) env \<Rightarrow> u32 \<Rightarrow> 't ShipConnection \<Rightarrow> 't ShipConnection" where
  "SmeHelloCalculateNewWaitValueAndSetTimer e w s =
     (if w \<ge> tHelloProlongThrInc then
        let new_wait_duration = w - tHelloProlongWaitingGap
        in if new_wait_duration \<ge> tHelloProlongMin then prolong_start e new_wait_duration s
           else prolong_stop e s
      else prolong_stop e s)"

definition SmeHelloStateCheckWaitAndProlongationRequestSubelements ::
    "('j, 't) env \<Rightarrow> ConnectionHello \<Rightarrow> 't ShipConnection \<Rightarrow> 't ShipConnection" where
  "SmeHelloStateCheckWaitAndProlongationRequestSubelements e hello s =
     (case (waiting hello, prolongation_request hello) of
        (Some w, None) \<Rightarrow> SmeHelloCalculateNewWaitValueAndSetTimer e w (reply_stop e s)
      | _ \<Rightarrow> SmeHelloStateCommonProlongationRequestAndUpdateMessageSendProcedure e hello s)"

definition SmeHelloStateCheckWaitingSubelement ::
    "('j, 't) env \<Rightarrow> ConnectionHello \<Rightarrow> 't ShipConnection \<Rightarrow> 't ShipConnection" where
  "SmeHelloStateCheckWaitingSubelement e hello s =
     (case waiting hello of
        Some w \<Rightarrow> SmeHelloCalculateNewWaitValueAndSetTimer e w (reply_stop e (wait_stop e s))
      | None \<Rightarrow> ShipConnectionSetSmeState kSmeHelloStateAbort s)"

definition SmeHelloPendingStateEvaluateReceivedHelloMessage ::
    "('j, 't) env \<Rightarrow> 't ShipConnection \<Rightarrow> 't ShipConnection" where
  "SmeHelloPendingStateEvaluateReceivedHelloMessage e s =
     (let d = deserialize_msg e s in
      if ds_value_type d \<noteq> kSmeHello then release_msg (ShipConnectionSetSmeState kSmeHelloStateAbort s)
      else release_msg
        (case ds_value d of
           Some (VHello hello) \<Rightarrow>
             (case hello_phase hello of
                kConnectionHelloPhaseReady \<Rightarrow> SmeHelloStateCheckWaitingSubelement e hello s
              | kConnectionHelloPhasePending \<Rightarrow>
                  SmeHelloStateCheckWaitAndProlongationRequestSubelements e hello s
              | kConnectionHelloPhaseAborted \<Rightarrow> ShipConnectionSetSmeState kSmeHelloStateAbort s)
         | _ \<Rightarrow> SmeHelloStateAbort e s))"

definition SmeHelloStatePendingListen :: "('j, 't) env \<Rightarrow> 't ShipConnection \<Rightarrow> 't ShipConnection option" where
  "SmeHelloStatePendingListen e s =
     do { (err, s1) \<leftarrow> ShipConnectionReceive e tHelloInit s;
          Some (if err = kEebusErrorOk then SmeHelloPendingStateEvaluateReceivedHelloMessage e s1
                else if err = kEebusErrorTime then ShipConnectionSetSmeState kSmeHelloStatePendingTimeout s1
                else ShipConnectionSetSmeState kSmeHelloStateAbort s1) }"

text \<open>The factor 1.1 on a 32-bit count of milliseconds, truncated.\<close>

definition times_1_1 :: "u32 \<Rightarrow> u32" where
  "times_1_1 w = word_of_int (uint w * 11 div 10)"

definition SmeHelloStatePendingTimeout :: "('j, 't) env \<Rightarrow> 't ShipConnection \<Rightarrow> 't ShipConnection" where
  "SmeHelloStatePendingTimeout e s =
     (let T = env_timer e in
      if tm_get_timer_state T (wait_for_ready_timer s) = kEebusTimerStateExpired
         \<or> tm_get_timer_state T (prolongation_request_reply_timer s) = kEebusTimerStateExpired
      then ShipConnectionSetSmeState kSmeHelloStateAbort s
      else if tm_get_timer_state T (send_prolongation_request_timer s) = kEebusTimerStateExpired then
        (let (err, s1) = SmeHelloStateSendHelloMsg e kConnectionHelloPhasePending 0 True s in
         if err \<noteq> kEebusErrorOk then ShipConnectionCloseWithError e ''Error sending hello message'' s1
         else
           let s2 = (if last_received_waiting_value s1 = 0
                     then s1\<lparr>last_received_waiting_value :=
                            times_1_1 (tm_get_remaining_time T (prolongation_request_reply_timer s1))\<rparr>
                     else s1)
           in ShipConnectionSetSmeState kSmeHelloStatePendingListen
                (reply_start e (last_received_waiting_value s2) s2))
      else s)"

section \<open>Protocol handshake\<close>

definition SmeProtHandshakeStateAbort ::
    "('j, 't) env \<Rightarrow> MessageProtocolHandshakeErrorType \<Rightarrow> 't ShipConnection \<Rightarrow> 't ShipConnection" where
  "SmeProtHandshakeStateAbort e err s =
     (let (ret, s1) = ShipConnectionSerializeAndSendMessage e (VHandshakeError \<lparr>hs_error = err\<rparr>) (wait_stop e s)
      in if ret \<noteq> kEebusErrorOk then ShipConnectionCloseWithError e ''Error sending ship message'' s1
         else ShipConnectionCloseWithError e ''Abort protocol handshake''
                (ShipConnectionSetSmeState kSmeStateError s1))"

section \<open>PIN\<close>

definition SmePinStateCommonPinRequirementSendProcedure ::
    "('j, 't) env \<Rightarrow> PinStateType \<Rightarrow> PinInputPermissionType option \<Rightarrow> 't ShipConnection \<Rightarrow>
     EebusError \<times> 't ShipConnection" where
  "SmePinStateCommonPinRequirementSendProcedure e node_pin_state node_input_permission s =
     (if node_pin_state = kPinStateTypeNone \<or> node_pin_state = kPinStateTypePinOk then
        ShipConnectionSerializeAndSendMessage e (VPinState \<lparr>pin_state = node_pin_state, input_permission = None\<rparr>) s
      else
        case node_input_permission of
          None \<Rightarrow> (kEebusErrorInputArgument, s)
        | Some p \<Rightarrow>
            ShipConnectionSerializeAndSendMessage e
              (VPinState \<lparr>pin_state = node_pin_state, input_permission = Some p\<rparr>) s)"

definition SmePinStateHandlePermissionType ::
    "('j, 't) env \<Rightarrow> PinInputPermissionType option \<Rightarrow> 't ShipConnection \<Rightarrow> 't ShipConnection" where
  "SmePinStateHandlePermissionType e node_pin_requirement s =
     (case node_pin_requirement of
        None \<Rightarrow> ShipConnectionCloseWithError e ''node_pin_requirement is missing'' s
      | Some kPinInputPermissionTypeBusy \<Rightarrow> ShipConnectionSetSmeState kSmePinStateCheckBusyWait s
      | Some kPinInputPermissionTypeOk \<Rightarrow> ShipConnectionSetSmeState kSmePinStateCheckListen s)"

definition SmePinStateCheckPinStateAndRequirement ::
    "('j, 't) env \<Rightarrow> PinStateType \<Rightarrow> PinInputPermissionType option \<Rightarrow> 't ShipConnection \<Rightarrow> 't ShipConnection" where
  "SmePinStateCheckPinStateAndRequirement e node_pin_state node_pin_requirement s =
     (case node_pin_state of
        kPinStateTypeRequired \<Rightarrow> SmePinStateHandlePermissionType e node_pin_requirement s
      | kPinStateTypeOptional \<Rightarrow> SmePinStateHandlePermissionType e node_pin_requirement s
      | kPinStateTypePinOk \<Rightarrow> ShipConnectionSetSmeState kSmePinStateCheckOk s
      | kPinStateTypeNone \<Rightarrow> ShipConnectionSetSmeState kSmePinStateCheckOk s)"

definition SmePinStateCheckInit :: "('j, 't) env \<Rightarrow> 't ShipConnection \<Rightarrow> 't ShipConnection option" where
  "SmePinStateCheckInit e s =
     (let (err, s1) = SmePinStateCommonPinRequirementSendProcedure e kPinStateTypeNone (Some kPinInputPermissionTypeOk) s
      in if err \<noteq> kEebusErrorOk
         then Some (ShipConnectionCloseWithError e ''Error sending PIN requirement message'' s1)
         else
           do { (err, s2) \<leftarrow> ShipConnectionReceive e cmiTimeout s1;
                Some (if err \<noteq> kEebusErrorOk
                      then ShipConnectionCloseWithError e ''Error receiving pin requirement'' s2
                      else
                        let d = deserialize_msg e s2 in
                        if ds_value_type d \<noteq> kSmeConnectionPinState
                        then release_msg (ShipConnectionSetSmeState kSmeHelloStateAbort s2)
                        else release_msg
                          (case ds_value d of
                             Some (VPinState p) \<Rightarrow>
                               SmePinStateCheckPinStateAndRequirement e (pin_state p) (input_permission p) s2
                           | _ \<Rightarrow> ShipConnectionSetSmeState kSmeHelloStateAbort s2)) })"

definition SmePinStateCheckListen :: "('j, 't) env \<Rightarrow> 't ShipConnection \<Rightarrow> 't ShipConnection option" where
  "SmePinStateCheckListen e s =
     do { (err, s1) \<leftarrow> ShipConnectionReceive e tHelloInit s;
          Some (if err \<noteq> kEebusErrorOk
                then ShipConnectionCloseWithError e ''SmePinStateCheckListen: Error receiving SHIP message'' s1
                else
                  let d = deserialize_msg e s1 in
                  if ds_value_type d \<noteq> kSmeConnectionPinState
                  then release_msg (ShipConnectionCloseWithError e ''Error deserializing PIN message'' s1)
                  else release_msg
                    (case ds_value d of
                       Some (VPinState p) \<Rightarrow>
                         (case pin_state p of
                            kPinStateTypeNone \<Rightarrow> ShipConnectionSetSmeState kSmePinStateCheckOk s1
                          | kPinStateTypeRequired \<Rightarrow>
                              ShipConnectionCloseWithError e ''Unsupported PIN state: required'' s1
                          | kPinStateTypeOptional \<Rightarrow>
                              ShipConnectionCloseWithError e ''Unsupported PIN state: optional'' s1
                          | kPinStateTypePinOk \<Rightarrow> ShipConnectionCloseWithError e ''Unsupported PIN state: ok'' s1)
                     | _ \<Rightarrow> ShipConnectionCloseWithError e ''Error deserializing PIN message'' s1)) }"

section \<open>Access methods and data exchange\<close>

definition SmeHandshakeAccessMethodsInit :: "('j, 't) env \<Rightarrow> 't ShipConnection \<Rightarrow> 't ShipConnection" where
  "SmeHandshakeAccessMethodsInit e s =
     (let (err, s1) = ShipConnectionSerializeAndSendMessage e VAccessMethodsRequest s
      in if err \<noteq> kEebusErrorOk
         then ShipConnectionCloseWithError e
                ''SmeAccessMethodsRequest: Error sending kSmeConnectionAccessMethodsRequest message'' s1
         else wait_start e cmiTimeout s1)"

definition SmeHandshakeAccessMethodsRequestHandle ::
    "('j, 't) env \<Rightarrow> 't ShipConnection \<Rightarrow> EebusError \<times> 't ShipConnection" where
  "SmeHandshakeAccessMethodsRequestHandle e s =
     ShipConnectionSerializeAndSendMessage e
       (VAccessMethods \<lparr>am_id = local_ship_id s, dns_sd_mdns = False, dns_uri = None\<rparr>) s"

definition SmeHandshakeAccessMethodsCheckMessageVal ::
    "ShipMessageDeserialize \<Rightarrow> 't ShipConnection \<Rightarrow> bool \<times> 't ShipConnection" where
  "SmeHandshakeAccessMethodsCheckMessageVal d s =
     (case ds_value d of
        Some (VAccessMethods m) \<Rightarrow>
          (case am_id m of
             None \<Rightarrow> (False, s)
           | Some received_id \<Rightarrow>
               if \<not> StringIsEmpty (remote_ship_id s)
                  \<and> \<not> strncmp_eq (the (remote_ship_id s)) received_id (length received_id)
               then (False, s)
               else if StringIsEmpty (remote_ship_id s)
               then (True, s\<lparr>remote_ship_id := StringCopy (Some received_id)\<rparr>)
               else (True, s))
      | _ \<Rightarrow> (False, s))"

definition SmeHandshakeAccessMethodsHandle ::
    "('j, 't) env \<Rightarrow> ShipMessageDeserialize \<Rightarrow> 't ShipConnection \<Rightarrow> EebusError \<times> 't ShipConnection" where
  "SmeHandshakeAccessMethodsHandle e d s =
     (let (ok, s1) = SmeHandshakeAccessMethodsCheckMessageVal d (wait_stop e s)
      in if \<not> ok then (kEebusErrorCommunication, s1)
         else (kEebusErrorOk, emit (ReportServiceShipId (remote_ski s1) (remote_ship_id s1)) s1))"

definition SmeStateApproved :: "('j, 't) env \<Rightarrow> 't ShipConnection \<Rightarrow> 't ShipConnection" where
  "SmeStateApproved e s =
     ShipConnectionSetSmeState kDataExchange
       (wait_stop e ((emit (SetupRemoteDevice (remote_ski s)) s)\<lparr>data_reader := env_data_reader e\<rparr>))"

definition DataExchangeHandleClose ::
    "('j, 't) env \<Rightarrow> ConnectionClose \<Rightarrow> 't ShipConnection \<Rightarrow> EebusError \<times> 't ShipConnection" where
  "DataExchangeHandleClose e sme_close s =
     (let s1 = (case close_phase sme_close of
                  kConnectionClosePhaseTypeAnnounce \<Rightarrow>
                    emit (WebsocketClose 4001 (Some ''close''))
                      (snd (ShipConnectionSerializeAndSendMessage e
                         (VClose \<lparr>close_phase = kConnectionClosePhaseTypeConfirm, max_time = None, reason = None\<rparr>) s))
                | kConnectionClosePhaseTypeConfirm \<Rightarrow> emit (WebsocketClose 4001 (Some ''close'')) s)
      in (kEebusErrorOk, emit (HandleConnectionClosed True) s1))"

definition DataExchangeHandleReceive ::
    "('j, 't) env \<Rightarrow> MessageBuffer \<Rightarrow> 't ShipConnection \<Rightarrow> EebusError \<times> 't ShipConnection" where
  "DataExchangeHandleReceive e buf s =
     (let d = fst (ShipMessageDeserializeCreate (env_json e) (Some buf)) in
      case ds_value_type d of
        kData \<Rightarrow>
          (case ds_value d of
             Some (VData data) \<Rightarrow> (kEebusErrorOk, emit (DataReaderHandleMessage (payload data)) s)
           | _ \<Rightarrow> (kEebusErrorParse, s))
      | kSmeConnectionAccessMethodsRequest \<Rightarrow> SmeHandshakeAccessMethodsRequestHandle e s
      | kSmeConnectionAccessMethods \<Rightarrow> SmeHandshakeAccessMethodsHandle e d s
      | kSmeClose \<Rightarrow>
          (case ds_value d of
             Some (VClose sme_close) \<Rightarrow> DataExchangeHandleClose e sme_close s
           | _ \<Rightarrow> (kEebusErrorParse, s))
      | _ \<Rightarrow> (kEebusErrorCommunication, s))"

definition DataExchangeHandleSendSpineData ::
    "('j, 't) env \<Rightarrow> MessageBuffer \<Rightarrow> 't ShipConnection \<Rightarrow> EebusError \<times> 't ShipConnection" where
  "DataExchangeHandleSendSpineData e buf s =
     ShipConnectionSerializeAndSendMessage e (VData \<lparr>protocol_id = SHIP_PROTOCOL_ID, payload = buf\<rparr>) s"

definition DataExchangeHandle ::
    "('j, 't) env \<Rightarrow> 't ShipConnection \<Rightarrow> (EebusError \<times> 't ShipConnection) option" where
  "DataExchangeHandle e s =
     do { (m, s1) \<leftarrow> EebusQueueReceive e s;
          Some (case qm_type m of
             kShipConnectionQueueMsgTypeDataReceived \<Rightarrow> DataExchangeHandleReceive e (qm_msg_buf m) s1
           | kShipConnectionQueueMsgTypeSpineDataToSend \<Rightarrow> DataExchangeHandleSendSpineData e (qm_msg_buf m) s1
           | kShipConnectionQueueMsgTypeCancel \<Rightarrow> (kEebusErrorOk, s1)
           | kShipConnectionQueueMsgTypeTimeout \<Rightarrow> (kEebusErrorCommunication, s1)
           | kShipConnectionQueueMsgTypeWebsocketClose \<Rightarrow> (kEebusErrorOk, CloseConnection e True 0 None s1)
           | kShipConnectionQueueMsgTypeWebsocketError \<Rightarrow> (kEebusErrorCommunication, s1)) }"

definition DataExchange :: "('j, 't) env \<Rightarrow> 't ShipConnection \<Rightarrow> 't ShipConnection option" where
  "DataExchange e s =
     (let s1 = (if \<not> is_access_methods_req_sent s
                then (SmeHandshakeAccessMethodsInit e s)\<lparr>is_access_methods_req_sent := True\<rparr> else s)
      in do { (err, s2) \<leftarrow> DataExchangeHandle e s1;
              Some (if err \<noteq> kEebusErrorOk
                    then ShipConnectionCloseWithError e ''kDataExchange: data exchange failed'' s2 else s2) })"

section \<open>Client\<close>

definition CmiStateClientSend :: "('j, 't) env \<Rightarrow> 't ShipConnection \<Rightarrow> 't ShipConnection" where
  "CmiStateClientSend e s =
     (let buf = MessageBufferInitWithDeallocator (Some kShipInitMessage) (length kShipInitMessage) None;
          (err, s1) = ShipConnectionSend e buf s
      in if err = kEebusErrorOk then ShipConnectionSetSmeState kCmiStateClientWait s1
         else ShipConnectionCloseWithError e ''CMI client send failed'' s1)"

definition CmiStateClientWait :: "('j, 't) env \<Rightarrow> 't ShipConnection \<Rightarrow> 't ShipConnection option" where
  "CmiStateClientWait e s =
     do { (err, s1) \<leftarrow> ShipConnectionReceive e cmiTimeout s;
          Some (if err = kEebusErrorOk then ShipConnectionSetSmeState kCmiStateClientEvaluate s1
                else ShipConnectionCloseWithError e ''CMI client wait failed'' s1) }"

definition CmiStateClientEvaluate :: "('j, 't) env \<Rightarrow> 't ShipConnection \<Rightarrow> 't ShipConnection" where
  "CmiStateClientEvaluate e s =
     release_msg
       (if ShipConnectionEvaluateInitMsg (msg s) then ShipConnectionSetSmeState kSmeHelloState s
        else ShipConnectionCloseWithError e ''Invalid init message received'' s)"

definition max_version :: Version where
  "max_version = \<lparr>major = SHIP_PROTOCOL_MAX_SUPPORTED_MAJOR_VERSION,
                  minor = SHIP_PROTOCOL_MAX_SUPPORTED_MINOR_VERSION\<rparr>"

definition SmeProtHandshakeStateClientInit :: "('j, 't) env \<Rightarrow> 't ShipConnection \<Rightarrow> 't ShipConnection" where
  "SmeProtHandshakeStateClientInit e s =
     (let (err, s1) = ShipConnectionSerializeAndSendMessage e
            (VHandshake \<lparr>handshake_type = kProtocolHandshakeTypeAnnounceMax, version = max_version,
                         formats = [kMessageProtocolFormatTypeUTF8]\<rparr>) (wait_stop e s)
      in if err \<noteq> kEebusErrorOk
         then ShipConnectionCloseWithError e ''Error serializing protocol handshake ship message'' s1
         else ShipConnectionSetSmeState kSmeProtHStateClientListenChoice s1)"

definition SmeProtHandshakeStateMessageCheck :: "MessageProtocolHandshake \<Rightarrow> bool" where
  "SmeProtHandshakeStateMessageCheck sme_prot_hs =
     (if handshake_type sme_prot_hs \<noteq> kProtocolHandshakeTypeSelect then False
      else if major (version sme_prot_hs) \<noteq> SHIP_PROTOCOL_MAX_SUPPORTED_MAJOR_VERSION then False
      else if minor (version sme_prot_hs) \<noteq> SHIP_PROTOCOL_MAX_SUPPORTED_MINOR_VERSION then False
      else case formats sme_prot_hs of
             [] \<Rightarrow> False
           | f # _ \<Rightarrow> f = kMessageProtocolFormatTypeUTF8)"

definition SmeProtHandshakeStateSendMaximumSupportedShipVersion ::
    "('j, 't) env \<Rightarrow> 't ShipConnection \<Rightarrow> EebusError \<times> 't ShipConnection" where
  "SmeProtHandshakeStateSendMaximumSupportedShipVersion e s =
     ShipConnectionSerializeAndSendMessage e
       (VHandshake \<lparr>handshake_type = kProtocolHandshakeTypeSelect, version = max_version,
                    formats = [kMessageProtocolFormatTypeUTF8]\<rparr>) s"

definition SmeProtHandshakeStateClientListenChoice ::
    "('j, 't) env \<Rightarrow> 't ShipConnection \<Rightarrow> 't ShipConnection option" where
  "SmeProtHandshakeStateClientListenChoice e s =
     do { (err, s1) \<leftarrow> ShipConnectionReceive e cmiTimeout s;
          Some (if err \<noteq> kEebusErrorOk
                then SmeProtHandshakeStateAbort e kMessageProtocolHandshakeErrorTypeUnexpectedMessage s1
                else
                  let d = deserialize_msg e s1 in
                  case handshake_value d of
                    Some sme_prot_hs \<Rightarrow>
                      (let s2 = wait_stop e s1 in
                       if \<not> SmeProtHandshakeStateMessageCheck sme_prot_hs
                       then SmeProtHandshakeStateAbort e kMessageProtocolHandshakeErrorTypeSelectionMismatch (release_msg s2)
                       else
                         let (ret, s3) = SmeProtHandshakeStateSendMaximumSupportedShipVersion e s2 in
                         if ret \<noteq> kEebusErrorOk
                         then ShipConnectionCloseWithError e ''Error serializing protocol handshake ship message''
                                (release_msg s3)
                         else release_msg (ShipConnectionSetSmeState kSmeProtHStateClientOk s3))
                  | None \<Rightarrow>
                      release_msg (SmeProtHandshakeStateAbort e
                        kMessageProtocolHandshakeErrorTypeUnexpectedMessage s1)) }"

definition ClientHandleState :: "('j, 't) env \<Rightarrow> 't ShipConnection \<Rightarrow> 't ShipConnection option" where
  "ClientHandleState e s =
     (case sme_state s of
        kCmiStateClientSend \<Rightarrow> Some (CmiStateClientSend e s)
      | kCmiStateClientWait \<Rightarrow> CmiStateClientWait e s
      | kCmiStateClientEvaluate \<Rightarrow> Some (CmiStateClientEvaluate e s)
      | kSmeHelloState \<Rightarrow> Some (ShipConnectionSetSmeState kSmeHelloStateReadyInit s)
      | kSmeHelloStateReadyInit \<Rightarrow> Some (SmeHelloStateReadyInit e s)
      | kSmeHelloStateReadyListen \<Rightarrow> SmeHelloStateReadyListen e s
      | kSmeHelloStateReadyTimeout \<Rightarrow> Some (SmeHelloStateAbort e s)
      | kSmeHelloStatePendingInit \<Rightarrow> Some (SmeHelloStatePendingInit e s)
      | kSmeHelloStatePendingListen \<Rightarrow> SmeHelloStatePendingListen e s
      | kSmeHelloStatePendingTimeout \<Rightarrow> Some (SmeHelloStatePendingTimeout e s)
      | kSmeHelloStateOk \<Rightarrow> Some (ShipConnectionSetSmeState kSmeProtHStateClientInit s)
      | kSmeHelloStateAbort \<Rightarrow> Some (SmeHelloStateAbort e s)
      | kSmeHelloStateAbortDone \<Rightarrow> Some (SmeHelloStateAbort e s)
      | kSmeHelloStateRemoteAbortDone \<Rightarrow> Some (SmeHelloStateAbort e s)
      | kSmeHelloStateRejected \<Rightarrow> Some (SmeHelloStateAbort e s)
      | kSmeProtHStateClientInit \<Rightarrow> Some (SmeProtHandshakeStateClientInit e s)
      | kSmeProtHStateClientListenChoice \<Rightarrow> SmeProtHandshakeStateClientListenChoice e s
      | kSmeProtHStateClientOk \<Rightarrow> Some (ShipConnectionSetSmeState kSmePinStateCheckInit s)
      | kSmePinStateCheckInit \<Rightarrow> SmePinStateCheckInit e s
      | kSmePinStateCheckListen \<Rightarrow> SmePinStateCheckListen e s
      | kSmePinStateCheckBusyWait \<Rightarrow> Some (ShipConnectionSetSmeState kSmePinStateCheckListen s)
      | kSmePinStateCheckOk \<Rightarrow> Some (ShipConnectionSetSmeState kSmeStateApproved s)
      | kSmeStateApproved \<Rightarrow> Some (SmeStateApproved e s)
      | kDataExchange \<Rightarrow> DataExchange e s
      | _ \<Rightarrow> Some s)"

section \<open>Server\<close>

definition CmiStateServerWait :: "('j, 't) env \<Rightarrow> 't ShipConnection \<Rightarrow> 't ShipConnection option" where
  "CmiStateServerWait e s =
     do { (err, s1) \<leftarrow> ShipConnectionReceive e cmiTimeout s;
          Some (if err = kEebusErrorOk then ShipConnectionSetSmeState kCmiStateServerEvaluate s1
                else ShipConnectionCloseWithError e ''CMI server wait failed'' s1) }"

definition CmiStateServerEvaluate :: "('j, 't) env \<Rightarrow> 't ShipConnection \<Rightarrow> 't ShipConnection" where
  "CmiStateServerEvaluate e s =
     (let buf = MessageBufferInitWithDeallocator (Some kShipInitMessage) (length kShipInitMessage) None in
      if \<not> ShipConnectionEvaluateInitMsg (msg s)
      then ShipConnectionCloseWithError e ''Invalid init message received'' (release_msg s)
      else
        let (err, s1) = ShipConnectionSend e buf s in
        if err \<noteq> kEebusErrorOk
        then ShipConnectionCloseWithError e ''Server CMI message send failed'' (release_msg s1)
        else release_msg (ShipConnectionSetSmeState kSmeHelloState s1))"

definition SmeProtHandshakeStateServerInit :: "('j, 't) env \<Rightarrow> 't ShipConnection \<Rightarrow> 't ShipConnection" where
  "SmeProtHandshakeStateServerInit e s =
     ShipConnectionSetSmeState kSmeProtHStateServerListenProposal (wait_stop e s)"

definition SmeProtHandshakeStateSendAgreementMessage ::
    "('j, 't) env \<Rightarrow> u8 \<Rightarrow> u8 \<Rightarrow> 't ShipConnection \<Rightarrow> EebusError \<times> 't ShipConnection" where
  "SmeProtHandshakeStateSendAgreementMessage e maj mnr s =
     ShipConnectionSerializeAndSendMessage e
       (VHandshake \<lparr>handshake_type = kProtocolHandshakeTypeSelect, version = \<lparr>major = maj, minor = mnr\<rparr>,
                    formats = [kMessageProtocolFormatTypeUTF8]\<rparr>) s"

definition SmeProtHandshakeStateAgreeOnProtocolVersion :: "MessageProtocolHandshake \<Rightarrow> (u8 \<times> u8) option" where
  "SmeProtHandshakeStateAgreeOnProtocolVersion sme_prot_hs =
     (if major (version sme_prot_hs) \<le> SHIP_PROTOCOL_MAX_SUPPORTED_MAJOR_VERSION
         \<and> minor (version sme_prot_hs) \<le> SHIP_PROTOCOL_MAX_SUPPORTED_MINOR_VERSION
      then Some (major (version sme_prot_hs), minor (version sme_prot_hs)) else None)"

definition SmeProtHandshakeStateServerListenProposal ::
    "('j, 't) env \<Rightarrow> 't ShipConnection \<Rightarrow> 't ShipConnection option" where
  "SmeProtHandshakeStateServerListenProposal e s =
     do { (err, s1) \<leftarrow> ShipConnectionReceive e cmiTimeout s;
          Some (if err \<noteq> kEebusErrorOk
                then SmeProtHandshakeStateAbort e kMessageProtocolHandshakeErrorTypeUnexpectedMessage s1
                else
                  let d = deserialize_msg e s1 in
                  case handshake_value d of
                    Some msg_value \<Rightarrow>
                      (let s2 = wait_stop e s1 in
                       if handshake_type msg_value \<noteq> kProtocolHandshakeTypeAnnounceMax
                       then SmeProtHandshakeStateAbort e kMessageProtocolHandshakeErrorTypeUnexpectedMessage (release_msg s2)
                       else case SmeProtHandshakeStateAgreeOnProtocolVersion msg_value of
                         None \<Rightarrow>
                           SmeProtHandshakeStateAbort e kMessageProtocolHandshakeErrorTypeSelectionMismatch (release_msg s2)
                       | Some (agreed_major, agreed_minor) \<Rightarrow>
                           (let (ret, s3) = SmeProtHandshakeStateSendAgreementMessage e agreed_major agreed_minor s2 in
                            if ret \<noteq> kEebusErrorOk
                            then ShipConnectionCloseWithError e ''Error serializing protocol handshake ship message''
                                   (release_msg s3)
                            else release_msg (ShipConnectionSetSmeState kSmeProtHStateServerListenConfirm s3)))
                  | None \<Rightarrow>
                      release_msg (SmeProtHandshakeStateAbort e
                        kMessageProtocolHandshakeErrorTypeUnexpectedMessage s1)) }"

definition SmeProtHandshakeStateServerListenConfirm ::
    "('j, 't) env \<Rightarrow> 't ShipConnection \<Rightarrow> 't ShipConnection option" where
  "SmeProtHandshakeStateServerListenConfirm e s =
     do { (err, s1) \<leftarrow> ShipConnectionReceive e cmiTimeout s;
          Some (if err \<noteq> kEebusErrorOk
                then SmeProtHandshakeStateAbort e kMessageProtocolHandshakeErrorTypeUnexpectedMessage s1
                else
                  let d = deserialize_msg e s1 in
                  case handshake_value d of
                    Some sme_prot_hs \<Rightarrow>
                      (if handshake_type sme_prot_hs \<noteq> kProtocolHandshakeTypeSelect
                       then SmeProtHandshakeStateAbort e kMessageProtocolHandshakeErrorTypeSelectionMismatch (release_msg s1)
                       else release_msg (ShipConnectionSetSmeState kSmeProtHStateServerOk (wait_stop e s1)))
                  | None \<Rightarrow>
                      release_msg (SmeProtHandshakeStateAbort e
                        kMessageProtocolHandshakeErrorTypeSelectionMismatch s1)) }"

definition ServerHandleState :: "('j, 't) env \<Rightarrow> 't ShipConnection \<Rightarrow> 't ShipConnection option" where
  "ServerHandleState e s =
     (case sme_state s of
        kCmiStateServerWait \<Rightarrow> CmiStateServerWait e s
      | kCmiStateServerEvaluate \<Rightarrow> Some (CmiStateServerEvaluate e s)
      | kSmeHelloState \<Rightarrow> Some (ShipConnectionSetSmeState kSmeHelloStateReadyInit s)
      | kSmeHelloStateReadyInit \<Rightarrow> Some (SmeHelloStateReadyInit e s)
      | kSmeHelloStateReadyListen \<Rightarrow> SmeHelloStateReadyListen e s
      | kSmeHelloStateReadyTimeout \<Rightarrow> Some (SmeHelloStateAbort e s)
      | kSmeHelloStatePendingInit \<Rightarrow> Some (SmeHelloStatePendingInit e s)
      | kSmeHelloStatePendingListen \<Rightarrow> SmeHelloStatePendingListen e s
      | kSmeHelloStatePendingTimeout \<Rightarrow> Some (SmeHelloStatePendingTimeout e s)
      | kSmeHelloStateOk \<Rightarrow> Some (ShipConnectionSetSmeState kSmeProtHStateServerInit s)
      | kSmeHelloStateAbort \<Rightarrow> Some (SmeHelloStateAbort e s)
      | kSmeHelloStateAbortDone \<Rightarrow> Some (SmeHelloStateAbort e s)
      | kSmeHelloStateRemoteAbortDone \<Rightarrow> Some (SmeHelloStateAbort e s)
      | kSmeHelloStateRejected \<Rightarrow> Some (SmeHelloStateAbort e s)
      | kSmeProtHStateServerInit \<Rightarrow> Some (SmeProtHandshakeStateServerInit e s)
      | kSmeProtHStateServerListenProposal \<Rightarrow> SmeProtHandshakeStateServerListenProposal e s
      | kSmeProtHStateServerListenConfirm \<Rightarrow> SmeProtHandshakeStateServerListenConfirm e s
      | kSmeProtHStateServerOk \<Rightarrow> Some (ShipConnectionSetSmeState kSmePinStateCheckInit s)
      | kSmePinStateCheckInit \<Rightarrow> SmePinStateCheckInit e s
      | kSmePinStateCheckListen \<Rightarrow> SmePinStateCheckListen e s
      | kSmePinStateCheckBusyWait \<Rightarrow> Some (ShipConnectionSetSmeState kSmePinStateCheckListen s)
      | kSmePinStateCheckOk \<Rightarrow> Some (ShipConnectionSetSmeState kSmeStateApproved s)
      | kSmeStateApproved \<Rightarrow> Some (SmeStateApproved e s)
      | kDataExchange \<Rightarrow> DataExchange e s
      | _ \<Rightarrow> Some s)"

section \<open>The connection's thread and its public operations\<close>

definition HandleState :: "('j, 't) env \<Rightarrow> 't ShipConnection \<Rightarrow> 't ShipConnection option" where
  "HandleState e s =
     (case role s of
        kShipRoleClient \<Rightarrow> ClientHandleState e s
      | kShipRoleServer \<Rightarrow> ServerHandleState e s
      | kShipRoleAuto \<Rightarrow> Some s)"

text \<open>
  \<^verbatim>\<open>ShipConnectionLoop\<close>, with one environment per iteration: \<open>None\<close> when the thread blocks in an
  iteration, and the state reached when the environments are used up.
\<close>

fun ShipConnectionLoop :: "('j, 't) env list \<Rightarrow> 't ShipConnection \<Rightarrow> 't ShipConnection option" where
  "ShipConnectionLoop [] s = Some s"
| "ShipConnectionLoop (e # es) s =
     (if \<not> cancel s \<and> \<not> shutdown_once s
      then (case HandleState e s of None \<Rightarrow> None | Some s' \<Rightarrow> ShipConnectionLoop es s')
      else Some s)"

definition ApprovePendingHandshake :: "('j, 't) env \<Rightarrow> 't ShipConnection \<Rightarrow> 't ShipConnection option" where
  "ApprovePendingHandshake e s =
     (if sme_state s \<noteq> kSmeHelloStatePendingListen then Some s
      else
        do { s1 \<leftarrow> HandleState e (ShipConnectionSetSmeState kSmeHelloStateReadyInit s);
             HandleState e (ShipConnectionSetSmeState kSmeHelloStateOk s1) })"

definition ReportConnectionError :: "('j, 't) env \<Rightarrow> 't ShipConnection \<Rightarrow> 't ShipConnection" where
  "ReportConnectionError e s =
     (if sme_state s = kSmeHelloStateReadyListen then
        CloseConnection e False 0 (Some '''') (ShipConnectionSetSmeState kSmeHelloStateRejected s)
      else if sme_state s = kSmeHelloStateRemoteAbortDone then CloseConnection e False 0 (Some '''') s
      else if sme_state s = kSmeHelloStateAbort \<or> sme_state s = kSmeHelloStateAbortDone then
        CloseConnection e False 4452 (Some ''Node rejected by application'') s
      else
        emit (HandleShipStateUpdate (remote_ski s) kSmeStateError)
          (CloseConnection e False 0 (Some '''') (ShipConnectionSetSmeState kSmeStateError s)))"

definition GetState :: "'t ShipConnection \<Rightarrow> SmeState \<times> EebusError" where
  "GetState s = (sme_state s, sme_error s)"

end
