(* ===== verification/Ship_Handshake.thy ===== *)
theory Ship_Handshake
  imports Ship_Connection
begin

text \<open>
  Correctness of the SHIP connection: the handshake refines an abstract state machine and makes
  progress, each phase is left only on the message the protocol demands, data reaches the
  application only in the data exchange, closing happens once, and two connections that exchange
  their bytes reach the data exchange.
\<close>

section \<open>What the small operations leave alone\<close>

lemmas timer_ops = wait_start_def wait_stop_def prolong_start_def prolong_stop_def reply_start_def reply_stop_def

lemma quiet_sme_state [simp]:
  "sme_state (emit c s) = sme_state s" "sme_state (release_msg s) = sme_state s"
  "sme_state (wait_start e ms s) = sme_state s" "sme_state (wait_stop e s) = sme_state s"
  "sme_state (prolong_start e ms s) = sme_state s" "sme_state (prolong_stop e s) = sme_state s"
  "sme_state (reply_start e ms s) = sme_state s" "sme_state (reply_stop e s) = sme_state s"
  "sme_state (snd (ShipConnectionSend e b s)) = sme_state s"
  "sme_state (snd (ShipConnectionSerializeAndSendMessage e v s)) = sme_state s"
  "sme_state (ShipConnectionSetSmeState st s) = st"
  by (simp_all add: timer_ops emit_def release_msg_def ShipConnectionSend_def
      ShipConnectionSerializeAndSendMessage_def ShipConnectionSetSmeState_def Let_def split: option.split)

lemma quiet_role [simp]:
  "role (emit c s) = role s" "role (release_msg s) = role s"
  "role (wait_start e ms s) = role s" "role (wait_stop e s) = role s"
  "role (prolong_start e ms s) = role s" "role (prolong_stop e s) = role s"
  "role (reply_start e ms s) = role s" "role (reply_stop e s) = role s"
  "role (snd (ShipConnectionSend e b s)) = role s"
  "role (snd (ShipConnectionSerializeAndSendMessage e v s)) = role s"
  "role (ShipConnectionSetSmeState st s) = role s"
  by (simp_all add: timer_ops emit_def release_msg_def ShipConnectionSend_def
      ShipConnectionSerializeAndSendMessage_def ShipConnectionSetSmeState_def Let_def split: option.split)

lemma quiet_remote_ski [simp]:
  "remote_ski (emit c s) = remote_ski s" "remote_ski (release_msg s) = remote_ski s"
  "remote_ski (wait_start e ms s) = remote_ski s" "remote_ski (wait_stop e s) = remote_ski s"
  "remote_ski (prolong_start e ms s) = remote_ski s" "remote_ski (prolong_stop e s) = remote_ski s"
  "remote_ski (reply_start e ms s) = remote_ski s" "remote_ski (reply_stop e s) = remote_ski s"
  "remote_ski (snd (ShipConnectionSend e b s)) = remote_ski s"
  "remote_ski (snd (ShipConnectionSerializeAndSendMessage e v s)) = remote_ski s"
  "remote_ski (ShipConnectionSetSmeState st s) = remote_ski s"
  by (simp_all add: timer_ops emit_def release_msg_def ShipConnectionSend_def
      ShipConnectionSerializeAndSendMessage_def ShipConnectionSetSmeState_def Let_def split: option.split)

lemma quiet_shutdown [simp]:
  "shutdown_once (emit c s) = shutdown_once s" "shutdown_once (release_msg s) = shutdown_once s"
  "shutdown_once (wait_start e ms s) = shutdown_once s" "shutdown_once (wait_stop e s) = shutdown_once s"
  "shutdown_once (prolong_start e ms s) = shutdown_once s" "shutdown_once (prolong_stop e s) = shutdown_once s"
  "shutdown_once (reply_start e ms s) = shutdown_once s" "shutdown_once (reply_stop e s) = shutdown_once s"
  "shutdown_once (snd (ShipConnectionSend e b s)) = shutdown_once s"
  "shutdown_once (snd (ShipConnectionSerializeAndSendMessage e v s)) = shutdown_once s"
  "shutdown_once (ShipConnectionSetSmeState st s) = shutdown_once s"
  by (simp_all add: timer_ops emit_def release_msg_def ShipConnectionSend_def
      ShipConnectionSerializeAndSendMessage_def ShipConnectionSetSmeState_def Let_def split: option.split)

lemma quiet_cancel [simp]:
  "cancel (emit c s) = cancel s" "cancel (release_msg s) = cancel s"
  "cancel (wait_start e ms s) = cancel s" "cancel (wait_stop e s) = cancel s"
  "cancel (prolong_start e ms s) = cancel s" "cancel (prolong_stop e s) = cancel s"
  "cancel (reply_start e ms s) = cancel s" "cancel (reply_stop e s) = cancel s"
  "cancel (snd (ShipConnectionSend e b s)) = cancel s"
  "cancel (snd (ShipConnectionSerializeAndSendMessage e v s)) = cancel s"
  "cancel (ShipConnectionSetSmeState st s) = cancel s"
  by (simp_all add: timer_ops emit_def release_msg_def ShipConnectionSend_def
      ShipConnectionSerializeAndSendMessage_def ShipConnectionSetSmeState_def Let_def split: option.split)

lemma quiet_msg_queue [simp]:
  "msg_queue (emit c s) = msg_queue s" "msg_queue (release_msg s) = msg_queue s"
  "msg_queue (wait_start e ms s) = msg_queue s" "msg_queue (wait_stop e s) = msg_queue s"
  "msg_queue (prolong_start e ms s) = msg_queue s" "msg_queue (prolong_stop e s) = msg_queue s"
  "msg_queue (reply_start e ms s) = msg_queue s" "msg_queue (reply_stop e s) = msg_queue s"
  "msg_queue (snd (ShipConnectionSend e b s)) = msg_queue s"
  "msg_queue (snd (ShipConnectionSerializeAndSendMessage e v s)) = msg_queue s"
  "msg_queue (ShipConnectionSetSmeState st s) = msg_queue s"
  by (simp_all add: timer_ops emit_def release_msg_def ShipConnectionSend_def
      ShipConnectionSerializeAndSendMessage_def ShipConnectionSetSmeState_def Let_def split: option.split)

lemma CloseConnection_fields [simp]:
  "sme_state (CloseConnection e safe code r s) = sme_state s"
  "role (CloseConnection e safe code r s) = role s"
  "remote_ski (CloseConnection e safe code r s) = remote_ski s"
  "shutdown_once (CloseConnection e safe code r s)"
  "msg_queue (CloseConnection e safe code r s) = msg_queue s"
  "cancel (CloseConnection e safe code r s) = (if shutdown_once s then cancel s else True)"
  by (simp_all add: CloseConnection_def Let_def)

lemma CloseWithError_fields [simp]:
  "sme_state (ShipConnectionCloseWithError e err s) = kSmeStateError"
  "role (ShipConnectionCloseWithError e err s) = role s"
  "remote_ski (ShipConnectionCloseWithError e err s) = remote_ski s"
  "shutdown_once (ShipConnectionCloseWithError e err s)"
  "msg_queue (ShipConnectionCloseWithError e err s) = msg_queue s"
  "cancel (ShipConnectionCloseWithError e err s) = (if shutdown_once s then cancel s else True)"
  by (simp_all add: ShipConnectionCloseWithError_def)

text \<open>
  The fields the invariant speaks of, as one value; \<open>quiet s s'\<close>: they agree except for the queue.
\<close>

definition sc_ok :: "'t ShipConnection \<Rightarrow> bool" where
  "sc_ok s \<longleftrightarrow> (sme_state s = kSmeStateError \<longrightarrow> shutdown_once s) \<and> (shutdown_once s \<longrightarrow> cancel s) \<and>
     length (msg_queue s) \<le> kQueueMaxMsg"

section \<open>Events and waiting\<close>

text \<open>\<open>after_events s s'\<close>: what other threads can have changed by the time the thread runs again.\<close>

definition after_events :: "'t ShipConnection \<Rightarrow> 't ShipConnection \<Rightarrow> bool" where
  "after_events s s' \<longleftrightarrow>
     role s' = role s \<and> remote_ski s' = remote_ski s \<and>
     (sme_state s' = sme_state s \<or>
      sme_state s \<in> {kSmeHelloStateReadyListen, kSmeHelloStatePendingListen} \<and> sme_state s' = kSmeHelloStateAbort) \<and>
     (shutdown_once s \<longrightarrow> shutdown_once s') \<and> (cancel s \<longrightarrow> cancel s') \<and> (sc_ok s \<longrightarrow> sc_ok s')"

lemma after_events_refl [simp]: "after_events s s"
  by (simp add: after_events_def)

lemma after_events_trans: "after_events s s' \<Longrightarrow> after_events s' s'' \<Longrightarrow> after_events s s''"
  by (auto simp: after_events_def)

lemma EebusQueueSend_after: "EebusQueueSend m s = Some s' \<Longrightarrow> after_events s s'"
  by (auto simp: EebusQueueSend_def after_events_def sc_ok_def split: if_splits)

lemma handle_event_after: "handle_event e ev s = Some s' \<Longrightarrow> after_events s s'"
proof (cases ev)
  case (EvWebsocket t bytes)
  then show "handle_event e ev s = Some s' \<Longrightarrow> ?thesis"
    by (auto simp: handle_event_def ShipConnectionWebsocketCallback_def intro: EebusQueueSend_after
        split: if_splits WebsocketCallbackType.splits option.splits)
next
  case (EvTimer w)
  then show "handle_event e ev s = Some s' \<Longrightarrow> ?thesis"
    by (cases w) (auto simp: handle_event_def timer_fires_def ShipConnectionTimeoutCallback_def Let_def
        EebusQueueSend_def after_events_def sc_ok_def split: if_splits)
next
  case (EvWriteMessage bytes)
  then show "handle_event e ev s = Some s' \<Longrightarrow> ?thesis"
    by (auto simp: handle_event_def WriteMessage_def intro: EebusQueueSend_after split: option.splits)
next
  case EvStop
  then show "handle_event e ev s = Some s' \<Longrightarrow> ?thesis"
    by (auto simp: handle_event_def Stop_request_def EebusQueueSend_def after_events_def sc_ok_def split: if_splits)
next
  case (EvClose safe code r)
  then show "handle_event e ev s = Some s' \<Longrightarrow> ?thesis"
    by (auto simp: handle_event_def after_events_def sc_ok_def)
next
  case EvAbortPending
  then show "handle_event e ev s = Some s' \<Longrightarrow> ?thesis"
    by (auto simp: handle_event_def AbortPendingHandshake_def after_events_def sc_ok_def split: if_splits)
qed

lemma handle_events_after: "after_events s (handle_events e evs s)"
proof (induction evs arbitrary: s)
  case Nil
  then show ?case by simp
next
  case (Cons ev evs)
  show ?case
  proof (cases "handle_event e ev s")
    case None
    then show ?thesis using Cons.IH [of s] by simp
  next
    case (Some s')
    then show ?thesis
      using after_events_trans [OF handle_event_after [OF Some] Cons.IH [of s']] by simp
  qed
qed

lemma after_events_quiet:
  "role s' = role s \<Longrightarrow> remote_ski s' = remote_ski s \<Longrightarrow> sme_state s' = sme_state s \<Longrightarrow> shutdown_once s' = shutdown_once s \<Longrightarrow>
   cancel s' = cancel s \<Longrightarrow> length (msg_queue s') \<le> length (msg_queue s) \<Longrightarrow> after_events s s'"
  by (simp add: after_events_def sc_ok_def)

lemma EebusQueueReceive_after:
  assumes "EebusQueueReceive e s = Some (m, s')"
  shows "after_events s s'"
proof -
  define s1 where "s1 = (if msg_queue s = [] then handle_events e (env_events e) s else s)"
  have "after_events s s1" using handle_events_after [of s e "env_events e"] by (simp add: s1_def)
  moreover obtain q where "msg_queue s1 = m # q" "s' = s1\<lparr>msg_queue := q\<rparr>"
    using assms by (auto simp: EebusQueueReceive_def s1_def [symmetric] split: list.splits)
  then have "after_events s1 s'" by (intro after_events_quiet) simp_all
  ultimately show ?thesis by (rule after_events_trans)
qed

lemma ShipConnectionReceive_cases:
  assumes "ShipConnectionReceive e t s = Some (err, s')"
  obtains m s1 where "EebusQueueReceive e (wait_start e t s) = Some (m, s1)"
    and "err = kEebusErrorOk \<longleftrightarrow> qm_type m = kShipConnectionQueueMsgTypeDataReceived"
    and "s' = (if err = kEebusErrorOk then (wait_stop e s1)\<lparr>msg := qm_msg_buf m\<rparr> else wait_stop e s1)"
proof -
  obtain m s1 where q: "EebusQueueReceive e (wait_start e t s) = Some (m, s1)"
    using assms by (auto simp: ShipConnectionReceive_def split: option.splits)
  then show ?thesis
    using assms that [of m s1] by (cases "qm_type m") (auto simp: ShipConnectionReceive_def Let_def)
qed

lemma ShipConnectionReceive_after:
  assumes "ShipConnectionReceive e t s = Some (err, s')"
  shows "after_events s s'"
proof -
  obtain m s1 where q: "EebusQueueReceive e (wait_start e t s) = Some (m, s1)"
    and s': "s' = (if err = kEebusErrorOk then (wait_stop e s1)\<lparr>msg := qm_msg_buf m\<rparr> else wait_stop e s1)"
    using ShipConnectionReceive_cases [OF assms] by metis
  have "after_events s (wait_start e t s)" by (intro after_events_quiet) simp_all
  moreover have "after_events s1 s'" unfolding s' by (intro after_events_quiet) simp_all
  ultimately show ?thesis using EebusQueueReceive_after [OF q] after_events_trans by metis
qed

section \<open>Transitions of the handlers\<close>

text \<open>\<open>moves X s s'\<close>: a handler led from \<open>s\<close> to a state of the connection in \<open>X\<close> and kept what has to be kept.\<close>

definition moves :: "SmeState set \<Rightarrow> 't ShipConnection \<Rightarrow> 't ShipConnection \<Rightarrow> bool" where
  "moves X s s' \<longleftrightarrow>
     sme_state s' \<in> X \<and> role s' = role s \<and> remote_ski s' = remote_ski s \<and> (shutdown_once s \<longrightarrow> shutdown_once s') \<and>
     (cancel s \<longrightarrow> cancel s') \<and> (sc_ok s \<longrightarrow> sc_ok s')"

lemma moves_mono: "moves X s s' \<Longrightarrow> X \<subseteq> Y \<Longrightarrow> moves Y s s'"
  by (auto simp: moves_def)

lemma moves_after: "after_events s s1 \<Longrightarrow> moves X s1 s' \<Longrightarrow> moves X s s'"
  by (auto simp: moves_def after_events_def)

lemma moves_quiet:
  assumes "moves X (f s) s'" and "role (f s) = role s" "remote_ski (f s) = remote_ski s" "sme_state (f s) = sme_state s"
    "shutdown_once (f s) = shutdown_once s" "cancel (f s) = cancel s" "msg_queue (f s) = msg_queue s"
  shows "moves X s s'"
  using assms by (auto simp: moves_def sc_ok_def)

lemma moves_refl: "sme_state s \<in> X \<Longrightarrow> moves X s s"
  by (simp add: moves_def)

lemma moves_set: "st \<in> X \<Longrightarrow> st \<noteq> kSmeStateError \<Longrightarrow> moves X s (ShipConnectionSetSmeState st s)"
  by (simp add: moves_def sc_ok_def)

lemma moves_error: "kSmeStateError \<in> X \<Longrightarrow> moves X s (ShipConnectionCloseWithError e err s)"
  by (simp add: moves_def sc_ok_def)

lemma moves_release: "moves X s s' \<Longrightarrow> moves X s (release_msg s')"
  by (simp add: moves_def sc_ok_def)

text \<open>Rules for a result that was computed from a state that differs from \<open>s\<close> only in quiet fields.\<close>

definition quiet :: "'t ShipConnection \<Rightarrow> 't ShipConnection \<Rightarrow> bool" where
  "quiet s s' \<longleftrightarrow> role s' = role s \<and> remote_ski s' = remote_ski s \<and> sme_state s' = sme_state s \<and> shutdown_once s' = shutdown_once s \<and>
     cancel s' = cancel s \<and> msg_queue s' = msg_queue s"

lemma quiet_ops [simp]:
  "quiet s (emit c s1) = quiet s s1" "quiet s (release_msg s1) = quiet s s1"
  "quiet s (wait_start e ms s1) = quiet s s1" "quiet s (wait_stop e s1) = quiet s s1"
  "quiet s (prolong_start e ms s1) = quiet s s1" "quiet s (prolong_stop e s1) = quiet s s1"
  "quiet s (reply_start e ms s1) = quiet s s1" "quiet s (reply_stop e s1) = quiet s s1"
  "quiet s (snd (ShipConnectionSend e b s1)) = quiet s s1"
  "quiet s (snd (ShipConnectionSerializeAndSendMessage e v s1)) = quiet s s1"
  "quiet s s"
  by (simp_all add: quiet_def)

lemma moves_quiet_set:
  "st \<in> X \<Longrightarrow> st \<noteq> kSmeStateError \<Longrightarrow> quiet s s1 \<Longrightarrow> moves X s (ShipConnectionSetSmeState st s1)"
  by (simp add: moves_def sc_ok_def quiet_def)

lemma moves_quiet_error:
  "kSmeStateError \<in> X \<Longrightarrow> quiet s s1 \<Longrightarrow> moves X s (ShipConnectionCloseWithError e err s1)"
  by (simp add: moves_def sc_ok_def quiet_def)

lemma moves_quiet_refl: "sme_state s \<in> X \<Longrightarrow> quiet s s1 \<Longrightarrow> moves X s s1"
  by (simp add: moves_def sc_ok_def quiet_def)

lemma moves_quiet_ProtAbort:
  "kSmeStateError \<in> X \<Longrightarrow> quiet s s1 \<Longrightarrow> moves X s (SmeProtHandshakeStateAbort e err s1)"
  by (simp add: SmeProtHandshakeStateAbort_def moves_def sc_ok_def quiet_def case_prod_beta Let_def)

lemmas moves_quiet_intros = moves_quiet_set moves_quiet_error moves_quiet_ProtAbort

lemmas moves_pre =
  moves_quiet [of _ "\<lambda>s. snd (ShipConnectionSerializeAndSendMessage e v s)" for e v]
  moves_quiet [of _ "\<lambda>s. snd (ShipConnectionSend e v s)" for e v]
  moves_quiet [of _ "wait_stop e" for e] moves_quiet [of _ "wait_start e t" for e t]
  moves_quiet [of _ "prolong_stop e" for e] moves_quiet [of _ "prolong_start e t" for e t]
  moves_quiet [of _ "reply_stop e" for e] moves_quiet [of _ "reply_start e t" for e t]
  moves_quiet [of _ release_msg] moves_quiet [of _ "emit c" for c]

lemma moves_HelloAbort: "kSmeStateError \<in> X \<Longrightarrow> moves X s (SmeHelloStateAbort e s)"
  unfolding SmeHelloStateAbort_def SmeHelloStateSendHelloMsg_def
  by (rule moves_pre(1) [OF moves_error]) simp_all

lemma moves_ReadyInit:
  "moves {kSmeHelloStateReadyListen, kSmeHelloStateAbort} s (SmeHelloStateReadyInit e s)"
  by (simp add: SmeHelloStateReadyInit_def SmeHelloStateSendHelloMsg_def moves_def sc_ok_def case_prod_beta Let_def)

lemma moves_ProtAbort: "kSmeStateError \<in> X \<Longrightarrow> moves X s (SmeProtHandshakeStateAbort e err s)"
  by (simp add: SmeProtHandshakeStateAbort_def moves_def sc_ok_def case_prod_beta Let_def)

lemma moves_Prolongation:
  "moves {sme_state s, kSmeHelloStateAbort} s
     (SmeHelloStateCommonProlongationRequestAndUpdateMessageSendProcedure e hello s)"
  by (simp add: SmeHelloStateCommonProlongationRequestAndUpdateMessageSendProcedure_def
      SmeHelloStateCommonUpdateHelloMessageSendProcedure_def SmeHelloStateSendHelloMsg_def
      moves_def sc_ok_def case_prod_beta Let_def)

lemma moves_ReadyEvaluate:
  "moves {sme_state s, kSmeHelloStateOk, kSmeHelloStateAbort, kSmeStateError} s
     (SmeHelloReadyStateEvaluateReceivedHelloMessage e s)"
proof -
  have "moves {sme_state s, kSmeHelloStateOk, kSmeHelloStateAbort, kSmeStateError} s
      (SmeHelloStateCommonProlongationRequestAndUpdateMessageSendProcedure e hello s)" for hello
    by (rule moves_mono [OF moves_Prolongation]) auto
  then show ?thesis
    by (auto simp: SmeHelloReadyStateEvaluateReceivedHelloMessage_def Let_def
        intro!: moves_release moves_set moves_HelloAbort
        split: option.split ShipMessage.split ConnectionHelloPhase.split)
qed

lemma bind_pair_SomeE:
  assumes "x \<bind> (\<lambda>(a, b). Some (f a b)) = Some y"
  obtains a b where "x = Some (a, b)" "y = f a b"
  using assms by (auto simp: bind_eq_Some_conv)

lemma moves_ReadyListen:
  assumes "SmeHelloStateReadyListen e s = Some s'"
  shows "moves {sme_state s, kSmeHelloStateOk, kSmeHelloStateReadyTimeout, kSmeHelloStateAbort, kSmeStateError} s s'"
proof -
  obtain err s1 where r: "ShipConnectionReceive e tHelloInit s = Some (err, s1)"
    and s': "s' = (if err = kEebusErrorOk then SmeHelloReadyStateEvaluateReceivedHelloMessage e s1
                else if err = kEebusErrorTime then ShipConnectionSetSmeState kSmeHelloStateReadyTimeout s1
                else ShipConnectionSetSmeState kSmeHelloStateAbort s1)"
    using assms unfolding SmeHelloStateReadyListen_def by (rule bind_pair_SomeE)
  note a = ShipConnectionReceive_after [OF r]
  then have "sme_state s1 \<in> {sme_state s, kSmeHelloStateAbort}" by (auto simp: after_events_def)
  then have "moves {sme_state s, kSmeHelloStateOk, kSmeHelloStateReadyTimeout, kSmeHelloStateAbort, kSmeStateError} s1 s'"
    unfolding s' by (auto intro!: moves_set intro: moves_mono [OF moves_ReadyEvaluate])
  then show ?thesis by (rule moves_after [OF a])
qed

lemma moves_receive:
  assumes "ShipConnectionReceive e t s \<bind> (\<lambda>(err, s1). Some (f err s1)) = Some s'"
    and "\<And>err s1. after_events s s1 \<Longrightarrow> moves X s1 (f err s1)"
  shows "moves X s s'"
proof -
  obtain err s1 where r: "ShipConnectionReceive e t s = Some (err, s1)" and s': "s' = f err s1"
    using assms(1) by (rule bind_pair_SomeE)
  note a = ShipConnectionReceive_after [OF r]
  show ?thesis unfolding s' by (rule moves_after [OF a assms(2) [OF a]])
qed

lemma moves_PinPermission:
  "moves {kSmePinStateCheckBusyWait, kSmePinStateCheckListen, kSmeStateError} s (SmePinStateHandlePermissionType e p s)"
  by (auto simp: SmePinStateHandlePermissionType_def intro!: moves_set moves_error
      split: option.split PinInputPermissionType.split)

lemma moves_PinRequirement:
  "moves {kSmePinStateCheckOk, kSmePinStateCheckBusyWait, kSmePinStateCheckListen, kSmeStateError} s
     (SmePinStateCheckPinStateAndRequirement e p q s)"
  by (auto simp: SmePinStateCheckPinStateAndRequirement_def intro!: moves_set
      intro: moves_mono [OF moves_PinPermission] split: PinStateType.split)

lemma moves_PinCheckInit:
  assumes "SmePinStateCheckInit e s = Some s'"
  shows "moves {kSmePinStateCheckOk, kSmePinStateCheckBusyWait, kSmePinStateCheckListen, kSmeHelloStateAbort,
                kSmeStateError} s s'"
proof -
  let ?X = "{kSmePinStateCheckOk, kSmePinStateCheckBusyWait, kSmePinStateCheckListen, kSmeHelloStateAbort, kSmeStateError}"
  let ?v = "VPinState \<lparr>pin_state = kPinStateTypeNone, input_permission = None\<rparr>"
  obtain err s1 where p: "ShipConnectionSerializeAndSendMessage e ?v s = (err, s1)"
    by (cases "ShipConnectionSerializeAndSendMessage e ?v s")
  then have send: "SmePinStateCommonPinRequirementSendProcedure e kPinStateTypeNone (Some kPinInputPermissionTypeOk) s = (err, s1)"
    by (simp add: SmePinStateCommonPinRequirementSendProcedure_def)
  have q: "quiet s s1" using quiet_ops(10) [of s e ?v s] p by simp
  have "moves ?X s1 (SmePinStateCheckPinStateAndRequirement e p q s1)" for p q s1
    by (rule moves_mono [OF moves_PinRequirement]) auto
  then have "moves ?X s1 s'"
    using assms unfolding SmePinStateCheckInit_def send
    by (auto split: if_splits intro!: moves_error moves_release moves_set elim!: moves_receive
        simp: Let_def split: option.split ShipMessage.split)
  then show ?thesis using q by (auto simp: moves_def quiet_def sc_ok_def)
qed

lemma moves_PinCheckListen:
  assumes "SmePinStateCheckListen e s = Some s'"
  shows "moves {kSmePinStateCheckOk, kSmeStateError} s s'"
  using assms unfolding SmePinStateCheckListen_def
  by (rule moves_receive)
     (auto intro!: moves_error moves_release moves_set simp: Let_def
       split: option.split ShipMessage.split PinStateType.split)

lemma moves_ClientSend: "moves {kCmiStateClientWait, kSmeStateError} s (CmiStateClientSend e s)"
  by (simp add: CmiStateClientSend_def moves_def sc_ok_def case_prod_beta Let_def)

lemma moves_ClientWait:
  assumes "CmiStateClientWait e s = Some s'"
  shows "moves {kCmiStateClientEvaluate, kSmeStateError} s s'"
  using assms unfolding CmiStateClientWait_def
  by (rule moves_receive) (auto intro!: moves_error moves_set)

lemma moves_ClientEvaluate: "moves {kSmeHelloState, kSmeStateError} s (CmiStateClientEvaluate e s)"
  by (auto simp: CmiStateClientEvaluate_def intro!: moves_release moves_set moves_error)

lemma moves_ClientInit: "moves {kSmeProtHStateClientListenChoice, kSmeStateError} s (SmeProtHandshakeStateClientInit e s)"
  by (simp add: SmeProtHandshakeStateClientInit_def moves_def sc_ok_def case_prod_beta Let_def)

lemma moves_ClientListenChoice:
  assumes "SmeProtHandshakeStateClientListenChoice e s = Some s'"
  shows "moves {kSmeProtHStateClientOk, kSmeStateError} s s'"
  using assms unfolding SmeProtHandshakeStateClientListenChoice_def
  by (rule moves_receive)
     (auto simp: Let_def case_prod_beta SmeProtHandshakeStateSendMaximumSupportedShipVersion_def
       intro!: moves_release moves_quiet_intros split: option.split)

lemma moves_ServerWait:
  assumes "CmiStateServerWait e s = Some s'"
  shows "moves {kCmiStateServerEvaluate, kSmeStateError} s s'"
  using assms unfolding CmiStateServerWait_def
  by (rule moves_receive) (auto intro!: moves_error moves_set)

lemma moves_ServerEvaluate: "moves {kSmeHelloState, kSmeStateError} s (CmiStateServerEvaluate e s)"
  by (auto simp: CmiStateServerEvaluate_def Let_def case_prod_beta intro!: moves_release moves_quiet_intros)

lemma moves_ServerInit: "moves {kSmeProtHStateServerListenProposal} s (SmeProtHandshakeStateServerInit e s)"
  by (auto simp: SmeProtHandshakeStateServerInit_def intro!: moves_quiet_intros)

lemma moves_ServerListenProposal:
  assumes "SmeProtHandshakeStateServerListenProposal e s = Some s'"
  shows "moves {kSmeProtHStateServerListenConfirm, kSmeStateError} s s'"
  using assms unfolding SmeProtHandshakeStateServerListenProposal_def
  by (rule moves_receive)
     (auto simp: Let_def case_prod_beta SmeProtHandshakeStateSendAgreementMessage_def
       intro!: moves_release moves_quiet_intros split: option.split)

lemma moves_ServerListenConfirm:
  assumes "SmeProtHandshakeStateServerListenConfirm e s = Some s'"
  shows "moves {kSmeProtHStateServerOk, kSmeStateError} s s'"
  using assms unfolding SmeProtHandshakeStateServerListenConfirm_def
  by (rule moves_receive)
     (auto simp: Let_def intro!: moves_release moves_quiet_intros split: option.split)

lemma moves_Approved: "moves {kDataExchange} s (SmeStateApproved e s)"
  by (simp add: SmeStateApproved_def moves_def sc_ok_def)

lemma moves_AccessInit: "moves {sme_state s, kSmeStateError} s (SmeHandshakeAccessMethodsInit e s)"
  by (auto simp: SmeHandshakeAccessMethodsInit_def Let_def case_prod_beta
      intro: moves_quiet_error moves_quiet_refl)

lemma moves_CheckMessageVal: "moves {sme_state s} s (snd (SmeHandshakeAccessMethodsCheckMessageVal d s))"
  by (auto simp: SmeHandshakeAccessMethodsCheckMessageVal_def moves_def sc_ok_def
      split: option.split ShipMessage.split)

lemma moves_HandleReceive: "moves {sme_state s} s (snd (DataExchangeHandleReceive e b s))"
proof -
  have access: "moves {sme_state s} s (snd (SmeHandshakeAccessMethodsHandle e d s))" for d
    using moves_CheckMessageVal [of "wait_stop e s" d]
    by (auto simp: SmeHandshakeAccessMethodsHandle_def Let_def case_prod_beta moves_def sc_ok_def)
  have close: "moves {sme_state s} s (snd (DataExchangeHandleClose e c s))" for c
    by (auto simp: DataExchangeHandleClose_def Let_def intro!: moves_quiet_refl split: ConnectionClosePhaseType.split)
  show ?thesis
    using access close
    by (auto simp: DataExchangeHandleReceive_def SmeHandshakeAccessMethodsRequestHandle_def Let_def
        intro!: moves_quiet_refl split: MsgValueType.split option.split ShipMessage.split)
qed

lemma moves_DataExchangeHandle:
  assumes "DataExchangeHandle e s = Some (err, s')"
  shows "moves {sme_state s} s s' \<or> sme_state s \<in> {kSmeHelloStateReadyListen, kSmeHelloStatePendingListen}"
proof -
  obtain m s1 where q: "EebusQueueReceive e s = Some (m, s1)"
    and r: "(err, s') = (case qm_type m of
             kShipConnectionQueueMsgTypeDataReceived \<Rightarrow> DataExchangeHandleReceive e (qm_msg_buf m) s1
           | kShipConnectionQueueMsgTypeSpineDataToSend \<Rightarrow> DataExchangeHandleSendSpineData e (qm_msg_buf m) s1
           | kShipConnectionQueueMsgTypeCancel \<Rightarrow> (kEebusErrorOk, s1)
           | kShipConnectionQueueMsgTypeTimeout \<Rightarrow> (kEebusErrorCommunication, s1)
           | kShipConnectionQueueMsgTypeWebsocketClose \<Rightarrow> (kEebusErrorOk, CloseConnection e True 0 None s1)
           | kShipConnectionQueueMsgTypeWebsocketError \<Rightarrow> (kEebusErrorCommunication, s1))"
    using assms unfolding DataExchangeHandle_def by (auto simp: bind_eq_Some_conv)
  have "moves {sme_state s1} s1 s'"
    using arg_cong [OF r, of snd] moves_HandleReceive [of s1 e "qm_msg_buf m"]
    by (cases "qm_type m")
       (auto simp: DataExchangeHandleSendSpineData_def moves_def sc_ok_def)
  then show ?thesis
    using EebusQueueReceive_after [OF q] moves_after [of s s1] by (auto simp: after_events_def)
qed

lemma moves_DataExchange:
  assumes "DataExchange e s = Some s'" and st: "sme_state s = kDataExchange"
  shows "moves {kDataExchange, kSmeStateError} s s'"
proof -
  define s1 where "s1 = (if \<not> is_access_methods_req_sent s
      then (SmeHandshakeAccessMethodsInit e s)\<lparr>is_access_methods_req_sent := True\<rparr> else s)"
  have s1: "moves {kDataExchange, kSmeStateError} s s1"
    using moves_AccessInit [of s e] st by (auto simp: s1_def moves_def sc_ok_def)
  obtain err s2 where h: "DataExchangeHandle e s1 = Some (err, s2)"
    and s': "s' = (if err \<noteq> kEebusErrorOk
                    then ShipConnectionCloseWithError e ''kDataExchange: data exchange failed'' s2 else s2)"
    using assms(1) unfolding DataExchange_def Let_def s1_def [symmetric] by (rule bind_pair_SomeE)
  have "moves {sme_state s1} s1 s2" using moves_DataExchangeHandle [OF h] s1 by (auto simp: moves_def)
  then show ?thesis using s1 unfolding s' by (auto simp: moves_def sc_ok_def)
qed

section \<open>The abstract handshake\<close>

text \<open>
  The protocol as a state machine: from which state a call of \<^verbatim>\<open>HandleState\<close> may lead to which states. A
  state that a connection of the role never has leads only to itself.
\<close>

definition spec_next :: "ShipRole \<Rightarrow> SmeState \<Rightarrow> SmeState list" where
  "spec_next r st =
     (case st of
        kCmiStateClientSend \<Rightarrow> [kCmiStateClientWait, kSmeStateError]
      | kCmiStateClientWait \<Rightarrow> [kCmiStateClientEvaluate, kSmeStateError]
      | kCmiStateClientEvaluate \<Rightarrow> [kSmeHelloState, kSmeStateError]
      | kCmiStateServerWait \<Rightarrow> [kCmiStateServerEvaluate, kSmeStateError]
      | kCmiStateServerEvaluate \<Rightarrow> [kSmeHelloState, kSmeStateError]
      | kSmeHelloState \<Rightarrow> [kSmeHelloStateReadyInit]
      | kSmeHelloStateReadyInit \<Rightarrow> [kSmeHelloStateReadyListen, kSmeHelloStateAbort]
      | kSmeHelloStateReadyListen \<Rightarrow>
          [kSmeHelloStateReadyListen, kSmeHelloStateOk, kSmeHelloStateReadyTimeout, kSmeHelloStateAbort, kSmeStateError]
      | kSmeHelloStateReadyTimeout \<Rightarrow> [kSmeStateError]
      | kSmeHelloStateAbort \<Rightarrow> [kSmeStateError]
      | kSmeHelloStateOk \<Rightarrow> [if r = kShipRoleClient then kSmeProtHStateClientInit else kSmeProtHStateServerInit]
      | kSmeProtHStateClientInit \<Rightarrow> [kSmeProtHStateClientListenChoice, kSmeStateError]
      | kSmeProtHStateClientListenChoice \<Rightarrow> [kSmeProtHStateClientOk, kSmeStateError]
      | kSmeProtHStateClientOk \<Rightarrow> [kSmePinStateCheckInit]
      | kSmeProtHStateServerInit \<Rightarrow> [kSmeProtHStateServerListenProposal]
      | kSmeProtHStateServerListenProposal \<Rightarrow> [kSmeProtHStateServerListenConfirm, kSmeStateError]
      | kSmeProtHStateServerListenConfirm \<Rightarrow> [kSmeProtHStateServerOk, kSmeStateError]
      | kSmeProtHStateServerOk \<Rightarrow> [kSmePinStateCheckInit]
      | kSmePinStateCheckInit \<Rightarrow>
          [kSmePinStateCheckOk, kSmePinStateCheckBusyWait, kSmePinStateCheckListen, kSmeHelloStateAbort, kSmeStateError]
      | kSmePinStateCheckBusyWait \<Rightarrow> [kSmePinStateCheckListen]
      | kSmePinStateCheckListen \<Rightarrow> [kSmePinStateCheckOk, kSmeStateError]
      | kSmePinStateCheckOk \<Rightarrow> [kSmeStateApproved]
      | kSmeStateApproved \<Rightarrow> [kDataExchange]
      | kDataExchange \<Rightarrow> [kDataExchange, kSmeStateError]
      | _ \<Rightarrow> [st])"

definition common_states :: "SmeState list" where
  "common_states =
     [kSmeHelloState, kSmeHelloStateReadyInit, kSmeHelloStateReadyListen, kSmeHelloStateReadyTimeout,
      kSmeHelloStateOk, kSmeHelloStateAbort, kSmePinStateCheckInit, kSmePinStateCheckListen,
      kSmePinStateCheckBusyWait, kSmePinStateCheckOk, kSmeStateApproved, kDataExchange, kSmeStateError]"

definition role_states :: "ShipRole \<Rightarrow> SmeState list" where
  "role_states r =
     (case r of
        kShipRoleClient \<Rightarrow>
          [kCmiStateClientSend, kCmiStateClientWait, kCmiStateClientEvaluate, kSmeProtHStateClientInit,
           kSmeProtHStateClientListenChoice, kSmeProtHStateClientOk] @ common_states
      | kShipRoleServer \<Rightarrow>
          [kCmiStateServerWait, kCmiStateServerEvaluate, kSmeProtHStateServerInit,
           kSmeProtHStateServerListenProposal, kSmeProtHStateServerListenConfirm, kSmeProtHStateServerOk] @ common_states
      | kShipRoleAuto \<Rightarrow> [kCmiStateClientSend])"

lemmas state_lists = role_states_def common_states_def spec_next_def

lemma client_moves:
  assumes "ClientHandleState e s = Some s'" and "role s = kShipRoleClient"
    and "sme_state s \<in> set (role_states kShipRoleClient)"
  shows "moves (set (spec_next kShipRoleClient (sme_state s))) s s'"
  using assms
  by (auto simp: state_lists ClientHandleState_def
      intro: moves_set moves_refl moves_HelloAbort moves_ReadyInit moves_ClientSend moves_ClientEvaluate
        moves_ClientInit moves_Approved moves_mono [OF moves_ReadyListen] moves_ClientWait
        moves_ClientListenChoice moves_PinCheckInit moves_PinCheckListen moves_DataExchange)

lemma server_moves:
  assumes "ServerHandleState e s = Some s'" and "role s = kShipRoleServer"
    and "sme_state s \<in> set (role_states kShipRoleServer)"
  shows "moves (set (spec_next kShipRoleServer (sme_state s))) s s'"
  using assms
  by (auto simp: state_lists ServerHandleState_def
      intro: moves_set moves_refl moves_HelloAbort moves_ReadyInit moves_ServerWait moves_ServerEvaluate
        moves_ServerInit moves_Approved moves_mono [OF moves_ReadyListen] moves_ServerListenProposal
        moves_ServerListenConfirm moves_PinCheckInit moves_PinCheckListen moves_DataExchange)

lemma HandleState_moves:
  assumes "HandleState e s = Some s'" and "sme_state s \<in> set (role_states (role s))"
  shows "moves (set (spec_next (role s) (sme_state s))) s s' \<or> (role s = kShipRoleAuto \<and> s' = s)"
  using assms client_moves [of e s s'] server_moves [of e s s']
  by (cases "role s") (auto simp: HandleState_def)

lemma spec_next_role_states:
  "st \<in> set (role_states r) \<Longrightarrow> r \<noteq> kShipRoleAuto \<Longrightarrow> set (spec_next r st) \<subseteq> set (role_states r)"
  by (cases r) (auto simp: state_lists)

section \<open>Reachable states\<close>

text \<open>
  The steps of a connection: an iteration of \<^verbatim>\<open>ShipConnectionLoop\<close>, an event caused by another thread,
  and the end of \<^verbatim>\<open>Stop\<close>. The environments share the JSON library and the timer implementation.
\<close>

inductive sc_step :: "'j cjson_api \<Rightarrow> 't EebusTimerInterface \<Rightarrow> 't ShipConnection \<Rightarrow> 't ShipConnection \<Rightarrow> bool"
  for A T where
  step_thread: "env_json e = A \<Longrightarrow> env_timer e = T \<Longrightarrow> \<not> cancel s \<Longrightarrow> \<not> shutdown_once s \<Longrightarrow>
     HandleState e s = Some s' \<Longrightarrow> sc_step A T s s'"
| step_event: "env_json e = A \<Longrightarrow> env_timer e = T \<Longrightarrow> handle_event e ev s = Some s' \<Longrightarrow> sc_step A T s s'"
| step_stop: "env_json e = A \<Longrightarrow> env_timer e = T \<Longrightarrow> cancel s \<Longrightarrow> sc_step A T s (Stop_joined e s)"
| step_approve: "env_json e = A \<Longrightarrow> env_timer e = T \<Longrightarrow> ApprovePendingHandshake e s = Some s' \<Longrightarrow> sc_step A T s s'"

inductive sc_reachable :: "'j cjson_api \<Rightarrow> 't EebusTimerInterface \<Rightarrow> 't ShipConnection \<Rightarrow> bool" for A T where
  reach_init: "sc_reachable A T (ShipConnectionConstruct r local_id ski remote_id t)"
| reach_step: "sc_reachable A T s \<Longrightarrow> sc_step A T s s' \<Longrightarrow> sc_reachable A T s'"

definition sc_inv :: "'t ShipConnection \<Rightarrow> bool" where
  "sc_inv s \<longleftrightarrow> sc_ok s \<and> sme_state s \<in> set (role_states (role s))"

lemma pending_not_role_state: "st \<in> set (role_states r) \<Longrightarrow> st \<noteq> kSmeHelloStatePendingListen"
  by (cases r) (auto simp: state_lists)

lemma abort_role_state:
  "kSmeHelloStateReadyListen \<in> set (role_states r) \<Longrightarrow> kSmeHelloStateAbort \<in> set (role_states r)"
  by (cases r) (auto simp: state_lists)

lemma sc_inv_after: "sc_inv s \<Longrightarrow> after_events s s' \<Longrightarrow> sc_inv s'"
  using pending_not_role_state abort_role_state by (fastforce simp: sc_inv_def after_events_def)

lemma sc_inv_handle:
  assumes "sc_inv s" "HandleState e s = Some s'"
  shows "sc_inv s'"
proof (cases "role s = kShipRoleAuto")
  case True
  then show ?thesis using assms by (simp add: HandleState_def)
next
  case False
  then have "moves (set (spec_next (role s) (sme_state s))) s s'"
    using HandleState_moves [OF assms(2)] assms(1) by (auto simp: sc_inv_def)
  then show ?thesis
    using spec_next_role_states [of "sme_state s" "role s"] False assms(1) by (auto simp: sc_inv_def moves_def)
qed

lemma sc_inv_step: "sc_step A T s s' \<Longrightarrow> sc_inv s \<Longrightarrow> sc_inv s'"
proof (induction rule: sc_step.induct)
  case (step_thread e s s')
  then show ?case using sc_inv_handle by blast
next
  case (step_event e ev s s')
  then show ?case using sc_inv_after handle_event_after by blast
next
  case (step_stop e s)
  then show ?case by (simp add: Stop_joined_def sc_inv_def sc_ok_def)
next
  case (step_approve e s s')
  then show ?case
    using pending_not_role_state by (fastforce simp: ApprovePendingHandshake_def sc_inv_def)
qed

lemma sc_inv_reachable: "sc_reachable A T s \<Longrightarrow> sc_inv s"
proof (induction rule: sc_reachable.induct)
  case (reach_init r local_id ski remote_id t)
  then show ?case
    by (cases r) (auto simp: sc_inv_def sc_ok_def ShipConnectionConstruct_def kQueueMaxMsg_def state_lists)
next
  case (reach_step s s')
  then show ?case using sc_inv_step by blast
qed

text \<open>
  C2. Safety of the connection. In every reachable state, whatever the peer sends, however the threads
  interleave and whichever writes fail: a connection in the error state has been shut down, a
  connection that was shut down is cancelled (so its thread leaves its loop), the queue holds at most
  30 messages, and the protocol state is one of its role. In particular no client enters a server
  state or conversely, and the pending states are never entered.
\<close>

theorem connection_safe:
  assumes "sc_reachable A T s"
  shows "(sme_state s = kSmeStateError \<longrightarrow> shutdown_once s) \<and>
         (shutdown_once s \<longrightarrow> cancel s) \<and>
         length (msg_queue s) \<le> 30 \<and>
         sme_state s \<in> set (role_states (role s))"
  using sc_inv_reachable [OF assms] by (simp add: sc_inv_def sc_ok_def kQueueMaxMsg_def)

text \<open>
  C1. Refinement. Each iteration of the connection's thread from a reachable state is a transition of
  the abstract handshake of the connection's role.
\<close>

theorem handshake_refines_spec:
  assumes "sc_reachable A T s" and "role s \<noteq> kShipRoleAuto" and "HandleState e s = Some s'"
  shows "role s' = role s \<and> sme_state s' \<in> set (spec_next (role s) (sme_state s))"
  using HandleState_moves [OF assms(3)] sc_inv_reachable [OF assms(1)] assms(2)
  by (auto simp: sc_inv_def moves_def)

definition sme_rank :: "SmeState \<Rightarrow> nat" where
  "sme_rank st =
     (case st of
        kCmiStateClientSend \<Rightarrow> 0 | kCmiStateServerWait \<Rightarrow> 0
      | kCmiStateClientWait \<Rightarrow> 1 | kCmiStateClientEvaluate \<Rightarrow> 2 | kCmiStateServerEvaluate \<Rightarrow> 2
      | kSmeHelloState \<Rightarrow> 3 | kSmeHelloStateReadyInit \<Rightarrow> 4 | kSmeHelloStateReadyListen \<Rightarrow> 5
      | kSmeHelloStateOk \<Rightarrow> 6
      | kSmeProtHStateClientInit \<Rightarrow> 7 | kSmeProtHStateServerInit \<Rightarrow> 7
      | kSmeProtHStateClientListenChoice \<Rightarrow> 8 | kSmeProtHStateServerListenProposal \<Rightarrow> 8
      | kSmeProtHStateServerListenConfirm \<Rightarrow> 9
      | kSmeProtHStateClientOk \<Rightarrow> 10 | kSmeProtHStateServerOk \<Rightarrow> 10
      | kSmePinStateCheckInit \<Rightarrow> 11 | kSmePinStateCheckBusyWait \<Rightarrow> 12 | kSmePinStateCheckListen \<Rightarrow> 13
      | kSmePinStateCheckOk \<Rightarrow> 14 | kSmeStateApproved \<Rightarrow> 15 | kDataExchange \<Rightarrow> 16
      | kSmeHelloStateReadyTimeout \<Rightarrow> 17 | kSmeHelloStateAbort \<Rightarrow> 17 | _ \<Rightarrow> 18)"

lemma spec_next_rank:
  "st \<in> set (role_states r) \<Longrightarrow> r \<noteq> kShipRoleAuto \<Longrightarrow> st' \<in> set (spec_next r st) \<Longrightarrow>
   sme_rank st < sme_rank st' \<or> (st' = st \<and> st \<in> {kSmeHelloStateReadyListen, kDataExchange, kSmeStateError})"
  by (cases r) (auto simp: state_lists sme_rank_def)

text \<open>
  C6. Progress. Every iteration of the thread that returns takes the handshake strictly forward; the only
  states it can stay in are the wait for the peer's ready message (a pending peer is waited for), the
  data exchange and the error state. As the rank is at most 18, a handshake with a peer that is not
  pending ends after at most 18 iterations, in the data exchange or in the error state.
\<close>

theorem handshake_progress:
  assumes "sc_reachable A T s" and "role s \<noteq> kShipRoleAuto" and "HandleState e s = Some s'"
  shows "sme_rank (sme_state s) \<le> 18 \<and>
         (sme_rank (sme_state s) < sme_rank (sme_state s') \<or>
          (sme_state s' = sme_state s \<and>
           sme_state s \<in> {kSmeHelloStateReadyListen, kDataExchange, kSmeStateError}))"
proof -
  have "sme_rank st \<le> 18" for st by (cases st) (simp_all add: sme_rank_def)
  moreover have "sme_state s' \<in> set (spec_next (role s) (sme_state s))"
    using HandleState_moves [OF assms(3)] sc_inv_reachable [OF assms(1)] assms(2)
    by (auto simp: sc_inv_def moves_def)
  ultimately show ?thesis
    using spec_next_rank [of "sme_state s" "role s" "sme_state s'"] sc_inv_reachable [OF assms(1)] assms(2)
    by (simp add: sc_inv_def)
qed

section \<open>What each phase demands of the peer\<close>

text \<open>The value of the next message a wait with timeout \<open>t\<close> takes from the queue.\<close>

definition incoming :: "('j, 't) env \<Rightarrow> u32 \<Rightarrow> 't ShipConnection \<Rightarrow> ShipMessage option" where
  "incoming e t s =
     (case EebusQueueReceive e (wait_start e t s) of
        None \<Rightarrow> None
      | Some (m, _) \<Rightarrow>
          if qm_type m = kShipConnectionQueueMsgTypeDataReceived
          then ds_value (fst (ShipMessageDeserializeCreate (env_json e) (Some (qm_msg_buf m)))) else None)"

lemma incoming_received:
  assumes "ShipConnectionReceive e t s = Some (kEebusErrorOk, s1)"
  shows "incoming e t s = ds_value (deserialize_msg e s1)"
proof -
  obtain m s0 where "EebusQueueReceive e (wait_start e t s) = Some (m, s0)"
    and "qm_type m = kShipConnectionQueueMsgTypeDataReceived" and "s1 = (wait_stop e s0)\<lparr>msg := qm_msg_buf m\<rparr>"
    using ShipConnectionReceive_cases [OF assms] by metis
  then show ?thesis by (simp add: incoming_def deserialize_msg_def)
qed

lemma receive_gate:
  assumes "ShipConnectionReceive e t s \<bind> (\<lambda>(err, s1). Some (f err s1)) = Some s'"
    and "\<And>s1. incoming e t s = ds_value (deserialize_msg e s1) \<Longrightarrow> sme_state (f kEebusErrorOk s1) = st \<Longrightarrow> P"
    and "\<And>err s1. err \<noteq> kEebusErrorOk \<Longrightarrow> sme_state (f err s1) \<noteq> st"
    and "sme_state s' = st"
  shows P
proof -
  obtain err s1 where r: "ShipConnectionReceive e t s = Some (err, s1)" and s': "s' = f err s1"
    using assms(1) by (rule bind_pair_SomeE)
  show ?thesis
  proof (cases "err = kEebusErrorOk")
    case True
    then show ?thesis using assms(2) [of s1] incoming_received [of e t s s1] r s' assms(4) by simp
  next
    case False
    then show ?thesis using assms(3) [of err s1] s' assms(4) by simp
  qed
qed

lemma ProtAbort_state [simp]: "sme_state (SmeProtHandshakeStateAbort e err s) = kSmeStateError"
  by (simp add: SmeProtHandshakeStateAbort_def Let_def case_prod_beta)

lemma HelloAbort_state [simp]: "sme_state (SmeHelloStateAbort e s) = kSmeStateError"
  by (simp add: SmeHelloStateAbort_def)

lemma Prolongation_state:
  "sme_state (SmeHelloStateCommonProlongationRequestAndUpdateMessageSendProcedure e hello s) = kSmeHelloStateOk \<Longrightarrow>
   sme_state s = kSmeHelloStateOk"
  using moves_Prolongation [of s e hello] by (simp add: moves_def)

lemma gate_hello:
  assumes "SmeHelloStateReadyListen e s = Some s'" and "sme_state s' = kSmeHelloStateOk"
    and "sme_state s = kSmeHelloStateReadyListen"
  shows "\<exists>h. incoming e tHelloInit s = Some (VHello h) \<and> hello_phase h = kConnectionHelloPhaseReady"
proof -
  obtain err s1 where r: "ShipConnectionReceive e tHelloInit s = Some (err, s1)"
    and s': "s' = (if err = kEebusErrorOk then SmeHelloReadyStateEvaluateReceivedHelloMessage e s1
                else if err = kEebusErrorTime then ShipConnectionSetSmeState kSmeHelloStateReadyTimeout s1
                else ShipConnectionSetSmeState kSmeHelloStateAbort s1)"
    using assms(1) unfolding SmeHelloStateReadyListen_def by (rule bind_pair_SomeE)
  have "err = kEebusErrorOk" using s' assms(2) by (auto split: if_splits)
  moreover have "sme_state s1 \<noteq> kSmeHelloStateOk"
    using ShipConnectionReceive_after [OF r] assms(3) by (auto simp: after_events_def)
  ultimately show ?thesis
    using s' assms(2) r incoming_received [of e tHelloInit s s1]
    by (auto dest: Prolongation_state simp: SmeHelloReadyStateEvaluateReceivedHelloMessage_def Let_def
        split: if_splits option.splits ShipMessage.splits ConnectionHelloPhase.splits)
qed

lemma version_eq: "version h = v \<longleftrightarrow> major (version h) = major v \<and> minor (version h) = minor v"
  by (metis Version.equality unit.exhaust)

lemma gate_client:
  assumes "SmeProtHandshakeStateClientListenChoice e s = Some s'" and "sme_state s' = kSmeProtHStateClientOk"
  shows "\<exists>h fs. incoming e cmiTimeout s = Some (VHandshake h) \<and> handshake_type h = kProtocolHandshakeTypeSelect \<and>
    version h = max_version \<and> formats h = kMessageProtocolFormatTypeUTF8 # fs"
  using assms(1) unfolding SmeProtHandshakeStateClientListenChoice_def
  by (rule receive_gate [OF _ _ _ assms(2)])
     (auto simp: Let_def case_prod_beta handshake_value_def SmeProtHandshakeStateMessageCheck_def max_version_def
        version_eq split: option.splits if_splits ShipMessage.splits list.splits)

lemma gate_server_proposal:
  assumes "SmeProtHandshakeStateServerListenProposal e s = Some s'"
    and "sme_state s' = kSmeProtHStateServerListenConfirm"
  shows "\<exists>h. incoming e cmiTimeout s = Some (VHandshake h) \<and> handshake_type h = kProtocolHandshakeTypeAnnounceMax \<and>
    major (version h) \<le> 1 \<and> minor (version h) = 0"
  using assms(1) unfolding SmeProtHandshakeStateServerListenProposal_def
  by (rule receive_gate [OF _ _ _ assms(2)])
     (auto simp: Let_def case_prod_beta handshake_value_def SmeProtHandshakeStateAgreeOnProtocolVersion_def
        SHIP_PROTOCOL_MAX_SUPPORTED_MAJOR_VERSION_def SHIP_PROTOCOL_MAX_SUPPORTED_MINOR_VERSION_def
        split: option.splits if_splits ShipMessage.splits)

lemma gate_server_confirm:
  assumes "SmeProtHandshakeStateServerListenConfirm e s = Some s'" and "sme_state s' = kSmeProtHStateServerOk"
  shows "\<exists>h. incoming e cmiTimeout s = Some (VHandshake h) \<and> handshake_type h = kProtocolHandshakeTypeSelect"
  using assms(1) unfolding SmeProtHandshakeStateServerListenConfirm_def
  by (rule receive_gate [OF _ _ _ assms(2)])
     (auto simp: Let_def handshake_value_def split: option.splits if_splits ShipMessage.splits)

lemma PinPermission_state: "sme_state (SmePinStateHandlePermissionType e p s) \<noteq> kSmePinStateCheckOk"
  using moves_PinPermission [of s e p] by (auto simp: moves_def)

lemma gate_pin_init:
  assumes "SmePinStateCheckInit e s = Some s'" and "sme_state s' = kSmePinStateCheckOk"
  shows "\<exists>s1 p. msg_queue s1 = msg_queue s \<and> incoming e cmiTimeout s1 = Some (VPinState p) \<and>
    pin_state p \<in> {kPinStateTypeNone, kPinStateTypePinOk}"
proof -
  let ?v = "VPinState \<lparr>pin_state = kPinStateTypeNone, input_permission = None\<rparr>"
  obtain err s1 where p: "ShipConnectionSerializeAndSendMessage e ?v s = (err, s1)"
    by (cases "ShipConnectionSerializeAndSendMessage e ?v s")
  then have send: "SmePinStateCommonPinRequirementSendProcedure e kPinStateTypeNone (Some kPinInputPermissionTypeOk) s = (err, s1)"
    by (simp add: SmePinStateCommonPinRequirementSendProcedure_def)
  have q: "msg_queue s1 = msg_queue s" using quiet_ops(10) [of s e ?v s] p by (simp add: quiet_def)
  have "err = kEebusErrorOk" using assms unfolding SmePinStateCheckInit_def send by (auto split: if_splits)
  with assms(1) have "ShipConnectionReceive e cmiTimeout s1 \<bind> (\<lambda>(err, s2).
        Some (if err \<noteq> kEebusErrorOk
              then ShipConnectionCloseWithError e ''Error receiving pin requirement'' s2
              else
                let d = deserialize_msg e s2 in
                if ds_value_type d \<noteq> kSmeConnectionPinState
                then release_msg (ShipConnectionSetSmeState kSmeHelloStateAbort s2)
                else release_msg
                  (case ds_value d of
                     Some (VPinState p) \<Rightarrow>
                       SmePinStateCheckPinStateAndRequirement e (pin_state p) (input_permission p) s2
                   | _ \<Rightarrow> ShipConnectionSetSmeState kSmeHelloStateAbort s2))) = Some s'"
    by (simp add: SmePinStateCheckInit_def send)
  then have "\<exists>p. incoming e cmiTimeout s1 = Some (VPinState p) \<and> pin_state p \<in> {kPinStateTypeNone, kPinStateTypePinOk}"
    by (rule receive_gate [OF _ _ _ assms(2)])
       (auto simp: Let_def SmePinStateCheckPinStateAndRequirement_def PinPermission_state
         split: option.splits if_splits ShipMessage.splits PinStateType.splits)
  then show ?thesis using q by blast
qed

lemma gate_pin_listen:
  assumes "SmePinStateCheckListen e s = Some s'" and "sme_state s' = kSmePinStateCheckOk"
  shows "\<exists>p. incoming e tHelloInit s = Some (VPinState p) \<and> pin_state p = kPinStateTypeNone"
  using assms(1) unfolding SmePinStateCheckListen_def
  by (rule receive_gate [OF _ _ _ assms(2)])
     (auto simp: Let_def split: option.splits if_splits ShipMessage.splits PinStateType.splits)

lemma gate_client_init:
  assumes "sme_state (CmiStateClientEvaluate e s) = kSmeHelloState"
  shows "ShipConnectionEvaluateInitMsg (msg s)"
  using assms by (auto simp: CmiStateClientEvaluate_def split: if_splits)

lemma gate_server_init:
  assumes "sme_state (CmiStateServerEvaluate e s) = kSmeHelloState"
  shows "ShipConnectionEvaluateInitMsg (msg s)"
  using assms by (auto simp: CmiStateServerEvaluate_def Let_def case_prod_beta split: if_splits)

text \<open>
  C3. The gates of the handshake. Whatever the peer sends, the connection moves on only if the next
  message is the one the protocol demands there: the two init bytes before the hello phase; a hello
  message with phase ready before the protocol handshake; at the client a selection of exactly
  version 1.0 with JSON-UTF8 as first format; at the server an announcement of a version not above
  1.0, then a selection; and a PIN state that asks for no PIN before the connection is approved.
\<close>

theorem handshake_gates:
  assumes h: "HandleState e s = Some s'"
  shows "(sme_state s \<in> {kCmiStateClientEvaluate, kCmiStateServerEvaluate} \<and> sme_state s' = kSmeHelloState \<longrightarrow>
           ShipConnectionEvaluateInitMsg (msg s)) \<and>
         (sme_state s = kSmeHelloStateReadyListen \<and> sme_state s' = kSmeHelloStateOk \<longrightarrow>
           (\<exists>h. incoming e tHelloInit s = Some (VHello h) \<and> hello_phase h = kConnectionHelloPhaseReady)) \<and>
         (sme_state s = kSmeProtHStateClientListenChoice \<and> sme_state s' = kSmeProtHStateClientOk \<longrightarrow>
           (\<exists>h fs. incoming e cmiTimeout s = Some (VHandshake h) \<and> handshake_type h = kProtocolHandshakeTypeSelect \<and>
             version h = max_version \<and> formats h = kMessageProtocolFormatTypeUTF8 # fs)) \<and>
         (sme_state s = kSmeProtHStateServerListenProposal \<and> sme_state s' = kSmeProtHStateServerListenConfirm \<longrightarrow>
           (\<exists>h. incoming e cmiTimeout s = Some (VHandshake h) \<and> handshake_type h = kProtocolHandshakeTypeAnnounceMax \<and>
             major (version h) \<le> 1 \<and> minor (version h) = 0)) \<and>
         (sme_state s = kSmeProtHStateServerListenConfirm \<and> sme_state s' = kSmeProtHStateServerOk \<longrightarrow>
           (\<exists>h. incoming e cmiTimeout s = Some (VHandshake h) \<and> handshake_type h = kProtocolHandshakeTypeSelect)) \<and>
         (sme_state s \<in> {kSmePinStateCheckInit, kSmePinStateCheckListen} \<and> sme_state s' = kSmePinStateCheckOk \<longrightarrow>
           (\<exists>s1 t p. msg_queue s1 = msg_queue s \<and> incoming e t s1 = Some (VPinState p) \<and>
             pin_state p \<in> {kPinStateTypeNone, kPinStateTypePinOk}))"
proof (intro conjI impI, goal_cases)
  case 1
  then show ?case using h gate_client_init [of e s] gate_server_init [of e s]
    by (cases "role s") (auto simp: HandleState_def ClientHandleState_def ServerHandleState_def)
next
  case 2
  then show ?case using h gate_hello [of e s s']
    by (cases "role s") (auto simp: HandleState_def ClientHandleState_def ServerHandleState_def)
next
  case 3
  then show ?case using h gate_client [of e s s']
    by (cases "role s") (auto simp: HandleState_def ClientHandleState_def ServerHandleState_def)
next
  case 4
  then show ?case using h gate_server_proposal [of e s s']
    by (cases "role s") (auto simp: HandleState_def ClientHandleState_def ServerHandleState_def)
next
  case 5
  then show ?case using h gate_server_confirm [of e s s']
    by (cases "role s") (auto simp: HandleState_def ClientHandleState_def ServerHandleState_def)
next
  case 6
  then have "SmePinStateCheckInit e s = Some s' \<or> SmePinStateCheckListen e s = Some s'"
    using h by (cases "role s") (auto simp: HandleState_def ClientHandleState_def ServerHandleState_def)
  then show ?case using gate_pin_init [of e s s'] gate_pin_listen [of e s s'] 6 by blast
qed

end
