(* ===== verification/Ship_Delivery.thy ===== *)
theory Ship_Delivery
  imports Ship_Handshake
begin

text \<open>
  The data exchange phase and the end of a connection: which payloads reach the application, what a
  close sends and reports, and how the identifier of the peer is checked.
\<close>

section \<open>Delivery to the application\<close>

fun delivered :: "call \<Rightarrow> MessageBuffer list" where
  "delivered (DataReaderHandleMessage b) = [b]"
| "delivered _ = []"

definition data_log :: "'t ShipConnection \<Rightarrow> MessageBuffer list" where
  "data_log s = concat (map delivered (out s))"

lemma data_log_ops [simp]:
  "data_log (emit c s) = data_log s @ delivered c"
  "data_log (release_msg s) = data_log s"
  "data_log (wait_start e ms s) = data_log s" "data_log (wait_stop e s) = data_log s"
  "data_log (prolong_start e ms s) = data_log s" "data_log (prolong_stop e s) = data_log s"
  "data_log (reply_start e ms s) = data_log s" "data_log (reply_stop e s) = data_log s"
  "data_log (s\<lparr>msg := m\<rparr>) = data_log s" "data_log (s\<lparr>msg_queue := q\<rparr>) = data_log s"
  "data_log (s\<lparr>cancel := b\<rparr>) = data_log s" "data_log (s\<lparr>shutdown_once := b\<rparr>) = data_log s"
  "data_log (s\<lparr>sme_state := st\<rparr>) = data_log s" "data_log (s\<lparr>data_reader := b\<rparr>) = data_log s"
  "data_log (s\<lparr>is_access_methods_req_sent := b\<rparr>) = data_log s"
  "data_log (s\<lparr>last_received_waiting_value := w\<rparr>) = data_log s"
  "data_log (s\<lparr>remote_ship_id := i\<rparr>) = data_log s"
  "data_log (s\<lparr>wait_for_ready_timer := t\<rparr>) = data_log s"
  "data_log (s\<lparr>send_prolongation_request_timer := t\<rparr>) = data_log s"
  "data_log (s\<lparr>prolongation_request_reply_timer := t\<rparr>) = data_log s"
  by (simp_all add: data_log_def emit_def release_msg_def timer_ops)

lemma data_log_calls [simp]:
  "data_log (snd (ShipConnectionSend e b s)) = data_log s"
  "data_log (ShipConnectionSetSmeState st s) = data_log s"
  by (simp_all add: ShipConnectionSend_def ShipConnectionSetSmeState_def Let_def)

lemma data_log_serialize [simp]: "data_log (snd (ShipConnectionSerializeAndSendMessage e v s)) = data_log s"
  by (simp add: ShipConnectionSerializeAndSendMessage_def split: option.split)

lemma data_log_close [simp]:
  "data_log (CloseConnection e safe code r s) = data_log s"
  "data_log (ShipConnectionCloseWithError e err s) = data_log s"
  by (simp_all add: CloseConnection_def ShipConnectionCloseWithError_def Let_def)

lemma data_log_abort [simp]:
  "data_log (SmeHelloStateAbort e s) = data_log s"
  "data_log (SmeProtHandshakeStateAbort e er s) = data_log s"
  by (simp_all add: SmeHelloStateAbort_def SmeHelloStateSendHelloMsg_def SmeProtHandshakeStateAbort_def
      Let_def case_prod_beta)

lemma data_log_event: "handle_event e ev s = Some s' \<Longrightarrow> data_log s' = data_log s"
  by (cases ev)
     (auto simp: handle_event_def ShipConnectionWebsocketCallback_def timer_fires_def ShipConnectionTimeoutCallback_def
       WriteMessage_def Stop_request_def AbortPendingHandshake_def EebusQueueSend_def Let_def
       split: if_splits option.splits WebsocketCallbackType.splits connection_timer.splits)

lemma data_log_events: "data_log (handle_events e evs s) = data_log s"
  by (induction evs arbitrary: s) (auto dest: data_log_event split: option.split)

lemma data_log_queue: "EebusQueueReceive e s = Some (m, s') \<Longrightarrow> data_log s' = data_log s"
  by (auto simp: EebusQueueReceive_def Let_def data_log_events split: if_splits list.splits)

lemma data_log_receive: "ShipConnectionReceive e t s = Some (err, s') \<Longrightarrow> data_log s' = data_log s"
  by (erule ShipConnectionReceive_cases) (auto dest!: data_log_queue)

lemma data_log_bind:
  assumes "ShipConnectionReceive e t s \<bind> (\<lambda>(err, s1). Some (f err s1)) = Some s'"
    and "\<And>err s1. data_log (f err s1) = data_log s1"
  shows "data_log s' = data_log s"
proof -
  obtain err s1 where r: "ShipConnectionReceive e t s = Some (err, s1)" and s': "s' = f err s1"
    using assms(1) by (rule bind_pair_SomeE)
  show ?thesis using data_log_receive [OF r] assms(2) s' by simp
qed

lemma data_log_hello [simp]:
  "data_log (SmeHelloStateReadyInit e s) = data_log s"
  "data_log (SmeHelloStateCommonProlongationRequestAndUpdateMessageSendProcedure e h s) = data_log s"
  by (simp_all add: SmeHelloStateReadyInit_def SmeHelloStateSendHelloMsg_def Let_def case_prod_beta
      SmeHelloStateCommonProlongationRequestAndUpdateMessageSendProcedure_def
      SmeHelloStateCommonUpdateHelloMessageSendProcedure_def)

lemma data_log_ready [simp]: "data_log (SmeHelloReadyStateEvaluateReceivedHelloMessage e s) = data_log s"
  by (simp add: SmeHelloReadyStateEvaluateReceivedHelloMessage_def Let_def
      split: option.split ShipMessage.split ConnectionHelloPhase.split)

lemma data_log_ready_listen: "SmeHelloStateReadyListen e s = Some s' \<Longrightarrow> data_log s' = data_log s"
  unfolding SmeHelloStateReadyListen_def by (erule data_log_bind) simp

lemma data_log_pin [simp]:
  "data_log (SmePinStateCheckPinStateAndRequirement e p q s) = data_log s"
  "data_log (snd (SmePinStateCommonPinRequirementSendProcedure e p q s)) = data_log s"
  by (simp_all add: SmePinStateCheckPinStateAndRequirement_def SmePinStateHandlePermissionType_def
      SmePinStateCommonPinRequirementSendProcedure_def
      split: PinStateType.split option.split PinInputPermissionType.split)

lemma data_log_pin_init: "SmePinStateCheckInit e s = Some s' \<Longrightarrow> data_log s' = data_log s"
  unfolding SmePinStateCheckInit_def Let_def case_prod_beta
  by (auto split: if_splits option.splits simp: bind_eq_Some_conv dest!: data_log_receive
      split: option.splits ShipMessage.splits)

lemma data_log_pin_listen: "SmePinStateCheckListen e s = Some s' \<Longrightarrow> data_log s' = data_log s"
  unfolding SmePinStateCheckListen_def
  by (erule data_log_bind) (simp add: Let_def split: option.split ShipMessage.split PinStateType.split)

lemma data_log_client [simp]:
  "data_log (CmiStateClientSend e s) = data_log s" "data_log (CmiStateClientEvaluate e s) = data_log s"
  "data_log (SmeProtHandshakeStateClientInit e s) = data_log s" "data_log (SmeStateApproved e s) = data_log s"
  by (simp_all add: CmiStateClientSend_def CmiStateClientEvaluate_def SmeProtHandshakeStateClientInit_def
      SmeStateApproved_def Let_def case_prod_beta)

lemma data_log_client_waits:
  "CmiStateClientWait e s = Some s' \<Longrightarrow> data_log s' = data_log s"
  "SmeProtHandshakeStateClientListenChoice e s = Some s' \<Longrightarrow> data_log s' = data_log s"
  unfolding CmiStateClientWait_def SmeProtHandshakeStateClientListenChoice_def
  by (erule data_log_bind,
      simp add: Let_def case_prod_beta SmeProtHandshakeStateSendMaximumSupportedShipVersion_def split: option.split)+

lemma data_log_server [simp]:
  "data_log (CmiStateServerEvaluate e s) = data_log s" "data_log (SmeProtHandshakeStateServerInit e s) = data_log s"
  by (simp_all add: CmiStateServerEvaluate_def SmeProtHandshakeStateServerInit_def Let_def case_prod_beta)

lemma data_log_server_waits:
  "CmiStateServerWait e s = Some s' \<Longrightarrow> data_log s' = data_log s"
  "SmeProtHandshakeStateServerListenProposal e s = Some s' \<Longrightarrow> data_log s' = data_log s"
  "SmeProtHandshakeStateServerListenConfirm e s = Some s' \<Longrightarrow> data_log s' = data_log s"
  unfolding CmiStateServerWait_def SmeProtHandshakeStateServerListenProposal_def SmeProtHandshakeStateServerListenConfirm_def
  by (erule data_log_bind,
      simp add: Let_def case_prod_beta SmeProtHandshakeStateSendAgreementMessage_def split: option.split)+

lemma data_log_check [simp]: "data_log (snd (SmeHandshakeAccessMethodsCheckMessageVal d s)) = data_log s"
  by (simp add: SmeHandshakeAccessMethodsCheckMessageVal_def split: option.split ShipMessage.split)

text \<open>What the data exchange delivers for a received buffer: the payload of a data message, or nothing.\<close>

definition payload_of :: "'j cjson_api \<Rightarrow> MessageBuffer \<Rightarrow> MessageBuffer list" where
  "payload_of A b =
     (case ds_value (fst (ShipMessageDeserializeCreate A (Some b))) of
        Some (VData d) \<Rightarrow> [payload d]
      | _ \<Rightarrow> [])"

lemma data_log_HandleReceive:
  "data_log (snd (DataExchangeHandleReceive e b s)) \<in> {data_log s, data_log s @ payload_of (env_json e) b}"
  by (auto simp: DataExchangeHandleReceive_def payload_of_def SmeHandshakeAccessMethodsRequestHandle_def
      SmeHandshakeAccessMethodsHandle_def DataExchangeHandleClose_def Let_def case_prod_beta
      split: MsgValueType.split option.split ShipMessage.split ConnectionClosePhaseType.split)

lemma data_log_DataExchange:
  assumes "DataExchange e s = Some s'" and "data_log s' \<noteq> data_log s"
  shows "\<exists>m s1 s2 d. EebusQueueReceive e s1 = Some (m, s2) \<and> msg_queue s1 = msg_queue s \<and>
    qm_type m = kShipConnectionQueueMsgTypeDataReceived \<and>
    ds_value (fst (ShipMessageDeserializeCreate (env_json e) (Some (qm_msg_buf m)))) = Some (VData d) \<and>
    data_log s' = data_log s @ [payload d]"
proof -
  define s1 where "s1 = (if \<not> is_access_methods_req_sent s
      then (SmeHandshakeAccessMethodsInit e s)\<lparr>is_access_methods_req_sent := True\<rparr> else s)"
  have s1: "data_log s1 = data_log s" "msg_queue s1 = msg_queue s"
    by (simp_all add: s1_def SmeHandshakeAccessMethodsInit_def Let_def case_prod_beta)
  obtain err s3 where h: "DataExchangeHandle e s1 = Some (err, s3)" and s': "data_log s' = data_log s3"
    using assms(1) unfolding DataExchange_def Let_def s1_def [symmetric] by (auto simp: bind_eq_Some_conv)
  then obtain m s2 where q: "EebusQueueReceive e s1 = Some (m, s2)" and
    r: "s3 = snd (case qm_type m of
             kShipConnectionQueueMsgTypeDataReceived \<Rightarrow> DataExchangeHandleReceive e (qm_msg_buf m) s2
           | kShipConnectionQueueMsgTypeSpineDataToSend \<Rightarrow> DataExchangeHandleSendSpineData e (qm_msg_buf m) s2
           | kShipConnectionQueueMsgTypeCancel \<Rightarrow> (kEebusErrorOk, s2)
           | kShipConnectionQueueMsgTypeTimeout \<Rightarrow> (kEebusErrorCommunication, s2)
           | kShipConnectionQueueMsgTypeWebsocketClose \<Rightarrow> (kEebusErrorOk, CloseConnection e True 0 None s2)
           | kShipConnectionQueueMsgTypeWebsocketError \<Rightarrow> (kEebusErrorCommunication, s2))"
    unfolding DataExchangeHandle_def by (fastforce simp: bind_eq_Some_conv)
  have "data_log s2 = data_log s" using data_log_queue [OF q] s1 by simp
  then have "qm_type m = kShipConnectionQueueMsgTypeDataReceived \<and> payload_of (env_json e) (qm_msg_buf m) \<noteq> [] \<and>
      data_log s' = data_log s @ payload_of (env_json e) (qm_msg_buf m)"
    using assms(2) s' r data_log_HandleReceive [of e "qm_msg_buf m" s2]
    by (auto simp: DataExchangeHandleSendSpineData_def split: ShipConnectionQueueMsgType.splits)
  then show ?thesis
    using q s1(2) by (auto simp: payload_of_def split: option.splits ShipMessage.splits)
qed

lemma data_log_HandleState:
  assumes "HandleState e s = Some s'" and "sme_state s \<in> set (role_states (role s))"
  shows "data_log s' = data_log s \<or> (sme_state s = kDataExchange \<and> DataExchange e s = Some s')"
  using assms
  by (cases "role s")
     (auto simp: HandleState_def ClientHandleState_def ServerHandleState_def state_lists
       dest!: data_log_ready_listen data_log_pin_init data_log_pin_listen data_log_client_waits data_log_server_waits)

lemma data_log_approve:
  "ApprovePendingHandshake e s = Some s' \<Longrightarrow> sme_state s \<in> set (role_states (role s)) \<Longrightarrow> s' = s"
  using pending_not_role_state by (fastforce simp: ApprovePendingHandshake_def)

text \<open>
  C5. Application data. In every reachable state and whatever the interleaving, a step hands a message to
  the data reader only if the connection is in the data exchange, hands over one message, and that
  message is the payload of a SHIP data message taken from the queue: nothing is delivered before the
  handshake has completed, and nothing the peer did not send.
\<close>

theorem data_only_in_exchange:
  fixes A :: "'j cjson_api" and T :: "'t EebusTimerInterface"
  assumes "sc_reachable A T s" and "sc_step A T s s'" and "data_log s' \<noteq> data_log s"
  shows "sme_state s = kDataExchange \<and>
         (\<exists>(e :: ('j, 't) env) s1 m s2 d. env_json e = A \<and> msg_queue s1 = msg_queue s \<and> EebusQueueReceive e s1 = Some (m, s2) \<and>
            ds_value (fst (ShipMessageDeserializeCreate A (Some (qm_msg_buf m)))) = Some (VData d) \<and>
            data_log s' = data_log s @ [payload d])"
  using assms(2)
proof cases
  case (step_thread e)
  have "sme_state s \<in> set (role_states (role s))" using sc_inv_reachable [OF assms(1)] by (simp add: sc_inv_def)
  then have "sme_state s = kDataExchange" "DataExchange e s = Some s'"
    using data_log_HandleState [OF step_thread(5)] assms(3) by auto
  then show ?thesis using data_log_DataExchange [of e s s'] assms(3) step_thread(1) by metis
next
  case (step_event e ev)
  then show ?thesis using data_log_event assms(3) by blast
next
  case (step_stop e)
  then show ?thesis using assms(3) by (simp add: Stop_joined_def)
next
  case (step_approve e)
  then show ?thesis using data_log_approve sc_inv_reachable [OF assms(1)] assms(3) by (metis sc_inv_def)
qed

section \<open>Closing\<close>

definition closed_reports :: "'t ShipConnection \<Rightarrow> bool list" where
  "closed_reports s = concat (map (\<lambda>c. case c of HandleConnectionClosed b \<Rightarrow> [b] | _ \<Rightarrow> []) (out s))"

lemma closed_reports_ops [simp]:
  "closed_reports (emit c s) = closed_reports s @ (case c of HandleConnectionClosed b \<Rightarrow> [b] | _ \<Rightarrow> [])"
  "closed_reports (wait_stop e s) = closed_reports s" "closed_reports (prolong_stop e s) = closed_reports s"
  "closed_reports (reply_stop e s) = closed_reports s"
  "closed_reports (s\<lparr>cancel := b, shutdown_once := b'\<rparr>) = closed_reports s"
  "closed_reports (snd (ShipConnectionSend e m s)) = closed_reports s"
  by (simp_all add: closed_reports_def emit_def timer_ops ShipConnectionSend_def Let_def)

lemma closed_reports_serialize [simp]:
  "closed_reports (snd (ShipConnectionSerializeAndSendMessage e v s)) = closed_reports s"
  by (simp add: ShipConnectionSerializeAndSendMessage_def split: option.split)

text \<open>
  Closing is idempotent: the first call stops the timers, closes the websocket, cancels the thread and
  reports the close once, with whether the handshake had ended; every further call changes nothing.
\<close>

theorem close_once:
  "CloseConnection e2 safe2 code2 r2 (CloseConnection e safe code r s) = CloseConnection e safe code r s \<and>
   closed_reports (CloseConnection e safe code r s) =
     closed_reports s @
     (if shutdown_once s then []
      else [sme_state s \<in> {kDataExchange, kSmeHelloStateAbortDone, kSmeHelloStateRemoteAbortDone,
                           kSmeHelloStateRejected}])"
proof
  show "CloseConnection e2 safe2 code2 r2 (CloseConnection e safe code r s) = CloseConnection e safe code r s"
    by (subst CloseConnection_def) simp
  show "closed_reports (CloseConnection e safe code r s) =
     closed_reports s @
     (if shutdown_once s then []
      else [sme_state s \<in> {kDataExchange, kSmeHelloStateAbortDone, kSmeHelloStateRemoteAbortDone,
                           kSmeHelloStateRejected}])"
    by (simp add: CloseConnection_def Let_def)
qed

text \<open>
  A connection that is closed because of an error is closed without the SHIP termination announcement
  and reported as one whose handshake had not ended, also when it was exchanging data:
  \<^verbatim>\<open>ShipConnectionCloseWithError\<close> asks for a safe close, but it has already replaced the state.
\<close>

lemma close_with_error_unannounced:
  assumes "\<not> shutdown_once s" and "sme_state s = kDataExchange"
  shows "out (ShipConnectionCloseWithError e err s) =
           out s @ [HandleShipStateUpdate (remote_ski s) kSmeStateError, WebsocketClose 4001 (Some err),
                    HandleConnectionClosed False]"
  using assms
  by (simp add: ShipConnectionCloseWithError_def CloseConnection_def ShipConnectionSetSmeState_def emit_def timer_ops
      Let_def)

text \<open>
  A close announced or confirmed by the peer is reported twice: \<^verbatim>\<open>DataExchangeHandleClose\<close> reports it
  without marking the connection as shut down, so the close of the websocket that follows is reported
  again.
\<close>

lemma peer_close_reported_twice:
  assumes "\<not> shutdown_once s" and "sme_state s = kDataExchange"
  shows "closed_reports (CloseConnection e' True 0 None (snd (DataExchangeHandleClose e c s))) =
         closed_reports s @ [True, True]"
proof -
  have "shutdown_once (snd (DataExchangeHandleClose e c s)) = shutdown_once s"
    "sme_state (snd (DataExchangeHandleClose e c s)) = sme_state s"
    "closed_reports (snd (DataExchangeHandleClose e c s)) = closed_reports s @ [True]"
    by (simp_all add: DataExchangeHandleClose_def Let_def split: ConnectionClosePhaseType.split)
  then show ?thesis using assms by (simp add: CloseConnection_def Let_def)
qed

section \<open>The identifier of the peer\<close>

text \<open>
  The identifier check. An access methods message is accepted exactly if no identifier was saved, or
  the received one is a prefix of the saved one, the empty identifier included; the first received
  identifier is saved and reported, later messages do not change it.
\<close>

lemma access_methods_check:
  assumes "ds_value d = Some (VAccessMethods m)" and "am_id m = Some received_id"
  shows "fst (SmeHandshakeAccessMethodsCheckMessageVal d s) =
           (case remote_ship_id s of
              None \<Rightarrow> True
            | Some saved \<Rightarrow> saved = [] \<or> take (length received_id) saved = received_id) \<and>
         remote_ship_id (snd (SmeHandshakeAccessMethodsCheckMessageVal d s)) =
           (case remote_ship_id s of
              None \<Rightarrow> Some received_id
            | Some saved \<Rightarrow> if saved = [] then Some received_id else Some saved)"
  using assms
  by (cases "remote_ship_id s")
     (auto simp: SmeHandshakeAccessMethodsCheckMessageVal_def StringIsEmpty_def strncmp_eq_def StringCopy_def)

definition sample_state :: "LinuxTimer ShipConnection" where
  "sample_state = (ShipConnectionConstruct kShipRoleClient (Some ''local'') (Some ''ski'') (Some ''ship-id'')
     (LinuxTimer_Construct (1, 0) (1, 0)))\<lparr>sme_state := kDataExchange\<rparr>"

theorem access_methods_check_witness:
  "fst (SmeHandshakeAccessMethodsCheckMessageVal
      \<lparr>ds_value = Some (VAccessMethods \<lparr>am_id = Some ''ship'', dns_sd_mdns = False, dns_uri = None\<rparr>),
       ds_value_type = kSmeConnectionAccessMethods\<rparr> sample_state)"
  using access_methods_check [of
      "\<lparr>ds_value = Some (VAccessMethods \<lparr>am_id = Some ''ship'', dns_sd_mdns = False, dns_uri = None\<rparr>),
       ds_value_type = kSmeConnectionAccessMethods\<rparr>" _ "''ship''" sample_state]
  by (simp add: sample_state_def ShipConnectionConstruct_def StringCopy_def)

definition sample_env :: "(json, LinuxTimer) env" where
  "sample_env = \<lparr>env_json = json_api, env_timer = linux_timer, env_write = (\<lambda>_ bytes. length bytes),
     env_data_reader = True, env_events = []\<rparr>"

theorem close_with_error_unannounced_witness:
  "out (ShipConnectionCloseWithError sample_env ''write failed'' sample_state) =
     [HandleShipStateUpdate (Some ''ski'') kSmeStateError, WebsocketClose 4001 (Some ''write failed''),
      HandleConnectionClosed False]"
  using close_with_error_unannounced [of sample_state sample_env "''write failed''"]
  by (simp add: sample_state_def ShipConnectionConstruct_def StringCopy_def)

theorem peer_close_reported_twice_witness:
  "closed_reports (CloseConnection sample_env True 0 None (snd (DataExchangeHandleClose sample_env
     \<lparr>close_phase = kConnectionClosePhaseTypeAnnounce, max_time = None, reason = None\<rparr> sample_state))) = [True, True]"
  using peer_close_reported_twice [of sample_state sample_env sample_env
      "\<lparr>close_phase = kConnectionClosePhaseTypeAnnounce, max_time = None, reason = None\<rparr>"]
  by (simp add: sample_state_def ShipConnectionConstruct_def closed_reports_def)

end
