(* ===== verification/Ship_Liveness.thy ===== *)
theory Ship_Liveness
  imports Ship_Delivery
begin

text \<open>
  Runs of a connection: with a cooperating peer both roles reach the data exchange; what happens when
  an application aborts while the thread waits, and when a peer asks for prolongation on FreeRTOS. The
  runs also show that the hypotheses of the theorems on connections can be met.
\<close>

section \<open>A handshake with a cooperating peer\<close>

text \<open>The bytes of a message on the wire.\<close>

definition enc :: "'j cjson_api \<Rightarrow> ShipMessage \<Rightarrow> byte list" where
  "enc A v = (case Serialize_GetBuffer (ShipMessageSerializeConstruct A (Some v)) of
                Some b \<Rightarrow> (case mb_data b of Some d \<Rightarrow> d | None \<Rightarrow> []) | None \<Rightarrow> [])"

lemma Deserialize_dealloc:
  "fst (ShipMessageDeserializeCreate A (Some (b\<lparr>mb_deallocator := f\<rparr>))) = fst (ShipMessageDeserializeCreate A (Some b))"
  by (simp add: ShipMessageDeserializeCreate_def Deserialize_def ShipMessageToString_def Let_def case_prod_beta
      split: option.split)

lemma enc_sent:
  assumes "cjson_ok A" "sendable A v"
  shows "Serialize_GetBuffer (ShipMessageSerializeConstruct A (Some v)) =
      Some \<lparr>mb_data = Some (enc A v), mb_data_size = length (enc A v), mb_deallocator = Some cJSON_free\<rparr>"
    and "enc A v \<noteq> []"
    and "fst (ShipMessageDeserializeCreate A (Some (MessageBufferInit (Some (enc A v)) (length (enc A v))))) =
      \<lparr>ds_value = Some (reread v), ds_value_type = value_type_of v\<rparr>"
proof -
  obtain d where d: "d \<noteq> []"
    "Serialize_GetBuffer (ShipMessageSerializeConstruct A (Some v)) =
       Some \<lparr>mb_data = Some d, mb_data_size = length d, mb_deallocator = Some cJSON_free\<rparr>"
    "fst (ShipMessageDeserializeCreate A (Some \<lparr>mb_data = Some d, mb_data_size = length d, mb_deallocator = Some cJSON_free\<rparr>)) =
       \<lparr>ds_value = Some (reread v), ds_value_type = value_type_of v\<rparr>"
    using readback_all [OF assms] by (auto simp: readback_def)
  have e: "enc A v = d" using d by (simp add: enc_def)
  show "Serialize_GetBuffer (ShipMessageSerializeConstruct A (Some v)) =
      Some \<lparr>mb_data = Some (enc A v), mb_data_size = length (enc A v), mb_deallocator = Some cJSON_free\<rparr>"
    and "enc A v \<noteq> []" using d e by simp_all
  show "fst (ShipMessageDeserializeCreate A (Some (MessageBufferInit (Some (enc A v)) (length (enc A v))))) =
      \<lparr>ds_value = Some (reread v), ds_value_type = value_type_of v\<rparr>"
    using d(3) Deserialize_dealloc [where A = A and f = "Some MessageBufferDeallocatorDefault" and
        b = "\<lparr>mb_data = Some d, mb_data_size = length d, mb_deallocator = Some cJSON_free\<rparr>"]
    by (simp add: e MessageBufferInit_def MessageBufferInitWithDeallocator_def)
qed

text \<open>
  An iteration with working writes; the peer's message, if any, arrives while the thread waits.
\<close>

definition peer_env :: "'j cjson_api \<Rightarrow> 't EebusTimerInterface \<Rightarrow> byte list option \<Rightarrow> ('j, 't) env" where
  "peer_env A T m =
     \<lparr>env_json = A, env_timer = T, env_write = (\<lambda>_ bytes. length bytes), env_data_reader = True,
      env_events = (case m of None \<Rightarrow> [] | Some bytes \<Rightarrow> [EvWebsocket kWebsocketCallbackTypeRead bytes])\<rparr>"

lemma peer_env_fields [simp]:
  "env_json (peer_env A T m) = A" "env_timer (peer_env A T m) = T"
  "env_write (peer_env A T m) n bytes = length bytes" "env_data_reader (peer_env A T m)"
  by (simp_all add: peer_env_def)

definition writes :: "'t ShipConnection \<Rightarrow> byte list list" where
  "writes s = concat (map (\<lambda>c. case c of WebsocketWrite bs \<Rightarrow> [bs] | _ \<Rightarrow> []) (out s))"

lemma writes_ops [simp]:
  "writes (emit c s) = writes s @ (case c of WebsocketWrite bs \<Rightarrow> [bs] | _ \<Rightarrow> [])"
  "writes (release_msg s) = writes s"
  "writes (wait_start e ms s) = writes s" "writes (wait_stop e s) = writes s"
  "writes (prolong_stop e s) = writes s" "writes (reply_stop e s) = writes s"
  "writes (s\<lparr>msg := m\<rparr>) = writes s" "writes (s\<lparr>msg_queue := q\<rparr>) = writes s"
  "writes (s\<lparr>sme_state := st\<rparr>) = writes s" "writes (s\<lparr>data_reader := b\<rparr>) = writes s"
  "writes (ShipConnectionSetSmeState st s) = writes s"
  by (simp_all add: writes_def emit_def release_msg_def timer_ops ShipConnectionSetSmeState_def)

lemma send_peer:
  assumes "cjson_ok A" "sendable A v"
  shows "ShipConnectionSerializeAndSendMessage (peer_env A T m) v s = (kEebusErrorOk, emit (WebsocketWrite (enc A v)) s)"
  using enc_sent [OF assms] by (simp add: ShipConnectionSerializeAndSendMessage_def ShipConnectionSend_def Let_def)

lemma receive_peer:
  assumes "msg_queue s = []" "\<not> cancel s" "\<not> shutdown_once s" "bytes \<noteq> []"
  shows "ShipConnectionReceive (peer_env A T (Some bytes)) t s =
    Some (kEebusErrorOk,
      (wait_stop (peer_env A T (Some bytes)) ((wait_start (peer_env A T (Some bytes)) t s)\<lparr>msg_queue := []\<rparr>))
        \<lparr>msg := MessageBufferInit (Some bytes) (length bytes)\<rparr>)"
proof -
  let ?e = "peer_env A T (Some bytes)"
  have "handle_events ?e (env_events ?e) (wait_start ?e t s) =
      (wait_start ?e t s)\<lparr>msg_queue := [\<lparr>qm_type = kShipConnectionQueueMsgTypeDataReceived,
         qm_msg_buf = MessageBufferInit (Some bytes) (length bytes)\<rparr>]\<rparr>"
    using assms by (simp add: peer_env_def handle_event_def ShipConnectionWebsocketCallback_def ArrayCopy_def
        EebusQueueSend_def kQueueMaxMsg_def wait_start_def)
  then have "EebusQueueReceive ?e (wait_start ?e t s) =
      Some (\<lparr>qm_type = kShipConnectionQueueMsgTypeDataReceived,
         qm_msg_buf = MessageBufferInit (Some bytes) (length bytes)\<rparr>, (wait_start ?e t s)\<lparr>msg_queue := []\<rparr>)"
    using assms(1) by (simp add: EebusQueueReceive_def)
  then show ?thesis by (simp add: ShipConnectionReceive_def)
qed

text \<open>\<open>running s r st ws\<close>: a connection of role \<open>r\<close> in state \<open>st\<close> that was not closed and wrote \<open>ws\<close>.\<close>

definition running :: "'t ShipConnection \<Rightarrow> ShipRole \<Rightarrow> SmeState \<Rightarrow> byte list list \<Rightarrow> bool" where
  "running s r st ws \<longleftrightarrow> role s = r \<and> sme_state s = st \<and> \<not> cancel s \<and> \<not> shutdown_once s \<and> msg_queue s = [] \<and>
     writes s = ws"

lemma loop_step:
  assumes "running s r st ws" and "HandleState e s = Some s1" and "\<exists>c. ShipConnectionLoop es s1 = Some c \<and> P c"
  shows "\<exists>c. ShipConnectionLoop (e # es) s = Some c \<and> P c"
  using assms by (simp add: running_def)

definition hello_ready :: ShipMessage where
  "hello_ready = VHello \<lparr>hello_phase = kConnectionHelloPhaseReady, waiting = Some tHelloInit, prolongation_request = None\<rparr>"

definition announce_max :: ShipMessage where
  "announce_max = VHandshake \<lparr>handshake_type = kProtocolHandshakeTypeAnnounceMax, version = max_version,
                         formats = [kMessageProtocolFormatTypeUTF8]\<rparr>"

definition select_max :: ShipMessage where
  "select_max = VHandshake \<lparr>handshake_type = kProtocolHandshakeTypeSelect, version = max_version,
                         formats = [kMessageProtocolFormatTypeUTF8]\<rparr>"

definition pin_none :: ShipMessage where
  "pin_none = VPinState \<lparr>pin_state = kPinStateTypeNone, input_permission = None\<rparr>"

lemma peer_sendable: "sendable A hello_ready" "sendable A announce_max" "sendable A select_max" "sendable A pin_none"
  by (simp_all add: hello_ready_def announce_max_def select_max_def pin_none_def)

lemma peer_reread: "reread hello_ready = hello_ready" "reread announce_max = announce_max"
  "reread select_max = select_max" "reread pin_none = pin_none"
  by (simp_all add: hello_ready_def announce_max_def select_max_def pin_none_def)

lemma client_send:
  assumes "running s kShipRoleClient kCmiStateClientSend ws"
  shows "\<exists>s1. HandleState (peer_env A T m) s = Some s1 \<and>
    running s1 kShipRoleClient kCmiStateClientWait (ws @ [kShipInitMessage])"
  using assms
  by (simp add: running_def HandleState_def ClientHandleState_def CmiStateClientSend_def ShipConnectionSend_def
      MessageBufferInitWithDeallocator_def Let_def)

lemma msg_ops [simp]:
  "msg (emit c s) = msg s" "msg (wait_stop e s) = msg s" "msg (wait_start e t s) = msg s"
  "msg (ShipConnectionSetSmeState st s) = msg s"
  by (simp_all add: emit_def timer_ops ShipConnectionSetSmeState_def)

lemma init_msg_ok: "ShipConnectionEvaluateInitMsg (MessageBufferInit (Some kShipInitMessage) (length kShipInitMessage))"
  by (simp add: kShipInitMessage_def ShipConnectionEvaluateInitMsg_def MessageBufferInit_def MessageBufferInitWithDeallocator_def)

lemma init_msg_nonempty [simp]: "kShipInitMessage \<noteq> []"
  by (simp add: kShipInitMessage_def)

lemma client_wait:
  assumes "running s kShipRoleClient kCmiStateClientWait ws"
  shows "\<exists>s1. HandleState (peer_env A T (Some kShipInitMessage)) s = Some s1 \<and>
    running s1 kShipRoleClient kCmiStateClientEvaluate ws \<and> ShipConnectionEvaluateInitMsg (msg s1)"
  using assms
  by (simp add: running_def HandleState_def ClientHandleState_def CmiStateClientWait_def receive_peer init_msg_ok)

lemma client_evaluate:
  assumes "running s kShipRoleClient kCmiStateClientEvaluate ws" "ShipConnectionEvaluateInitMsg (msg s)"
  shows "\<exists>s1. HandleState (peer_env A T m) s = Some s1 \<and> running s1 kShipRoleClient kSmeHelloState ws"
  using assms by (simp add: running_def HandleState_def ClientHandleState_def CmiStateClientEvaluate_def)

lemma server_wait:
  assumes "running s kShipRoleServer kCmiStateServerWait ws"
  shows "\<exists>s1. HandleState (peer_env A T (Some kShipInitMessage)) s = Some s1 \<and>
    running s1 kShipRoleServer kCmiStateServerEvaluate ws \<and> ShipConnectionEvaluateInitMsg (msg s1)"
  using assms
  by (simp add: running_def HandleState_def ServerHandleState_def CmiStateServerWait_def receive_peer init_msg_ok)

lemma server_evaluate:
  assumes "running s kShipRoleServer kCmiStateServerEvaluate ws" "ShipConnectionEvaluateInitMsg (msg s)"
  shows "\<exists>s1. HandleState (peer_env A T m) s = Some s1 \<and> running s1 kShipRoleServer kSmeHelloState (ws @ [kShipInitMessage])"
  using assms by (simp add: running_def HandleState_def ServerHandleState_def CmiStateServerEvaluate_def
      ShipConnectionSend_def MessageBufferInitWithDeallocator_def Let_def)

text \<open>States that only lead on.\<close>

lemma pass_on:
  assumes "running s r st ws" and "r \<noteq> kShipRoleAuto"
    and "(st, st') \<in> {(kSmeHelloState, kSmeHelloStateReadyInit), (kSmePinStateCheckOk, kSmeStateApproved),
      (kSmeHelloStateOk, if r = kShipRoleClient then kSmeProtHStateClientInit else kSmeProtHStateServerInit),
      (if r = kShipRoleClient then kSmeProtHStateClientOk else kSmeProtHStateServerOk, kSmePinStateCheckInit)}"
  shows "\<exists>s1. HandleState (peer_env A T m) s = Some s1 \<and> running s1 r st' ws"
  using assms by (cases r) (auto simp: running_def HandleState_def ClientHandleState_def ServerHandleState_def)

lemma deserialize_peer:
  assumes "cjson_ok A" "sendable A v" "msg s = MessageBufferInit (Some (enc A v)) (length (enc A v))"
  shows "deserialize_msg (peer_env A T m) s = \<lparr>ds_value = Some (reread v), ds_value_type = value_type_of v\<rparr>"
  using enc_sent(3) [OF assms(1,2)] assms(3) by (simp add: deserialize_msg_def)

lemmas common_defs = running_def HandleState_def ClientHandleState_def ServerHandleState_def

lemma ready_init:
  assumes "cjson_ok A" "running s r kSmeHelloStateReadyInit ws" "r \<noteq> kShipRoleAuto"
  shows "\<exists>s1. HandleState (peer_env A T m) s = Some s1 \<and> running s1 r kSmeHelloStateReadyListen (ws @ [enc A hello_ready])"
proof -
  have w: "tHelloInit > 0" by (simp add: tHelloInit_def)
  show ?thesis
    using assms(2,3) send_peer [OF assms(1) peer_sendable(1), of T m, unfolded hello_ready_def] w
    by (cases r) (simp_all add: common_defs SmeHelloStateReadyInit_def SmeHelloStateSendHelloMsg_def Let_def
        hello_ready_def [symmetric])
qed

lemma ready_listen:
  assumes ok: "cjson_ok A" and "running s r kSmeHelloStateReadyListen ws" "r \<noteq> kShipRoleAuto"
  shows "\<exists>s1. HandleState (peer_env A T (Some (enc A hello_ready))) s = Some s1 \<and> running s1 r kSmeHelloStateOk ws"
  using assms(2,3) enc_sent(2) [OF ok peer_sendable(1)]
  by (cases r) (simp_all add: common_defs SmeHelloStateReadyListen_def receive_peer
      SmeHelloReadyStateEvaluateReceivedHelloMessage_def deserialize_peer [OF ok peer_sendable(1)] peer_reread
      Let_def hello_ready_def value_type_of_def)

lemma client_init:
  assumes ok: "cjson_ok A" and "running s kShipRoleClient kSmeProtHStateClientInit ws"
  shows "\<exists>s1. HandleState (peer_env A T m) s = Some s1 \<and>
    running s1 kShipRoleClient kSmeProtHStateClientListenChoice (ws @ [enc A announce_max])"
  using assms(2) send_peer [OF ok peer_sendable(2), of T m]
  by (simp add: common_defs SmeProtHandshakeStateClientInit_def announce_max_def [symmetric])

lemma client_choice:
  assumes ok: "cjson_ok A" and "running s kShipRoleClient kSmeProtHStateClientListenChoice ws"
  shows "\<exists>s1. HandleState (peer_env A T (Some (enc A select_max))) s = Some s1 \<and>
    running s1 kShipRoleClient kSmeProtHStateClientOk (ws @ [enc A select_max])"
proof -
  have d: "handshake_value \<lparr>ds_value = Some select_max, ds_value_type = value_type_of select_max\<rparr> =
      Some \<lparr>handshake_type = kProtocolHandshakeTypeSelect, version = max_version, formats = [kMessageProtocolFormatTypeUTF8]\<rparr>"
    by (simp add: handshake_value_def select_max_def value_type_of_def)
  show ?thesis
    using assms(2) enc_sent(2) [OF ok peer_sendable(3)] send_peer [OF ok peer_sendable(3), of T "Some (enc A select_max)"]
    by (simp add: common_defs SmeProtHandshakeStateClientListenChoice_def receive_peer
        deserialize_peer [OF ok peer_sendable(3)] peer_reread d SmeProtHandshakeStateMessageCheck_def
        SmeProtHandshakeStateSendMaximumSupportedShipVersion_def select_max_def [symmetric] max_version_def [symmetric])
       (simp add: max_version_def)
qed

lemma server_init:
  assumes "running s kShipRoleServer kSmeProtHStateServerInit ws"
  shows "\<exists>s1. HandleState (peer_env A T m) s = Some s1 \<and> running s1 kShipRoleServer kSmeProtHStateServerListenProposal ws"
  using assms by (simp add: common_defs SmeProtHandshakeStateServerInit_def)

lemma server_proposal:
  assumes ok: "cjson_ok A" and "running s kShipRoleServer kSmeProtHStateServerListenProposal ws"
  shows "\<exists>s1. HandleState (peer_env A T (Some (enc A announce_max))) s = Some s1 \<and>
    running s1 kShipRoleServer kSmeProtHStateServerListenConfirm (ws @ [enc A select_max])"
proof -
  have d: "handshake_value \<lparr>ds_value = Some announce_max, ds_value_type = value_type_of announce_max\<rparr> =
      Some \<lparr>handshake_type = kProtocolHandshakeTypeAnnounceMax, version = max_version, formats = [kMessageProtocolFormatTypeUTF8]\<rparr>"
    by (simp add: handshake_value_def announce_max_def value_type_of_def)
  show ?thesis
    using assms(2) enc_sent(2) [OF ok peer_sendable(2)] send_peer [OF ok peer_sendable(3), of T "Some (enc A announce_max)"]
    by (simp add: common_defs SmeProtHandshakeStateServerListenProposal_def receive_peer
        deserialize_peer [OF ok peer_sendable(2)] peer_reread d SmeProtHandshakeStateAgreeOnProtocolVersion_def
        SmeProtHandshakeStateSendAgreementMessage_def select_max_def max_version_def)
qed

lemma server_confirm:
  assumes ok: "cjson_ok A" and "running s kShipRoleServer kSmeProtHStateServerListenConfirm ws"
  shows "\<exists>s1. HandleState (peer_env A T (Some (enc A select_max))) s = Some s1 \<and>
    running s1 kShipRoleServer kSmeProtHStateServerOk ws"
proof -
  have d: "handshake_value \<lparr>ds_value = Some select_max, ds_value_type = value_type_of select_max\<rparr> =
      Some \<lparr>handshake_type = kProtocolHandshakeTypeSelect, version = max_version, formats = [kMessageProtocolFormatTypeUTF8]\<rparr>"
    by (simp add: handshake_value_def select_max_def value_type_of_def)
  show ?thesis
    using assms(2) enc_sent(2) [OF ok peer_sendable(3)]
    by (simp add: common_defs SmeProtHandshakeStateServerListenConfirm_def receive_peer
        deserialize_peer [OF ok peer_sendable(3)] peer_reread d)
qed

lemma pin_init:
  assumes ok: "cjson_ok A" and "running s r kSmePinStateCheckInit ws" "r \<noteq> kShipRoleAuto"
  shows "\<exists>s1. HandleState (peer_env A T (Some (enc A pin_none))) s = Some s1 \<and>
    running s1 r kSmePinStateCheckOk (ws @ [enc A pin_none])"
  using assms(2,3) enc_sent(2) [OF ok peer_sendable(4)]
    send_peer [OF ok peer_sendable(4), of T "Some (enc A pin_none)"]
  by (cases r) (simp_all add: common_defs SmePinStateCheckInit_def SmePinStateCommonPinRequirementSendProcedure_def
      pin_none_def [symmetric] receive_peer deserialize_peer [OF ok peer_sendable(4)] peer_reread,
      simp_all add: pin_none_def value_type_of_def SmePinStateCheckPinStateAndRequirement_def)

lemma approved:
  assumes "running s r kSmeStateApproved ws" "r \<noteq> kShipRoleAuto"
  shows "\<exists>s1. HandleState (peer_env A T m) s = Some s1 \<and> running s1 r kDataExchange ws"
  using assms by (cases r) (simp_all add: common_defs SmeStateApproved_def)

lemma running_chain:
  assumes "running s r st ws" and "\<exists>s1. HandleState e s = Some s1 \<and> Q s1"
    and "\<And>s1. Q s1 \<Longrightarrow> \<exists>c. ShipConnectionLoop es s1 = Some c \<and> P c"
  shows "\<exists>c. ShipConnectionLoop (e # es) s = Some c \<and> P c"
  using assms loop_step by blast

lemma client_completes:
  assumes ok: "cjson_ok A"
  shows "\<exists>c. ShipConnectionLoop (map (peer_env A T)
              [None, Some kShipInitMessage, None, None, None, Some (enc A hello_ready), None, None,
               Some (enc A select_max), None, Some (enc A pin_none), None, None])
              (ShipConnectionConstruct kShipRoleClient lc kc rc t) = Some c \<and>
            running c kShipRoleClient kDataExchange
              [kShipInitMessage, enc A hello_ready, enc A announce_max, enc A select_max, enc A pin_none]"
proof -
  have c0: "running (ShipConnectionConstruct kShipRoleClient lc kc rc t) kShipRoleClient kCmiStateClientSend []"
    by (simp add: running_def ShipConnectionConstruct_def writes_def)
  show ?thesis
    unfolding list.map
    apply (rule running_chain [OF c0 client_send [OF c0]])
    apply (rule running_chain, assumption, erule client_wait)
    apply (elim conjE, rule running_chain, assumption, erule (1) client_evaluate)
    apply (rule running_chain, assumption, erule pass_on, simp, simp)
    apply (rule running_chain, assumption, erule ready_init [OF ok], simp)
    apply (rule running_chain, assumption, erule ready_listen [OF ok], simp)
    apply (rule running_chain, assumption, erule pass_on, simp, simp)
    apply (rule running_chain, assumption, erule client_init [OF ok])
    apply (rule running_chain, assumption, erule client_choice [OF ok])
    apply (rule running_chain, assumption, erule pass_on, simp, simp)
    apply (rule running_chain, assumption, erule pin_init [OF ok], simp)
    apply (rule running_chain, assumption, erule pass_on, simp, simp)
    apply (rule running_chain, assumption, erule approved, simp)
    apply simp
    done
qed

lemma server_completes:
  assumes ok: "cjson_ok A"
  shows "\<exists>c. ShipConnectionLoop (map (peer_env A T)
              [Some kShipInitMessage, None, None, None, Some (enc A hello_ready), None, None,
               Some (enc A announce_max), Some (enc A select_max), None, Some (enc A pin_none), None, None])
              (ShipConnectionConstruct kShipRoleServer ls ks rs t) = Some c \<and>
            running c kShipRoleServer kDataExchange
              [kShipInitMessage, enc A hello_ready, enc A select_max, enc A pin_none]"
proof -
  have s0: "running (ShipConnectionConstruct kShipRoleServer ls ks rs t) kShipRoleServer kCmiStateServerWait []"
    by (simp add: running_def ShipConnectionConstruct_def writes_def)
  show ?thesis
    unfolding list.map
    apply (rule running_chain [OF s0 server_wait [OF s0]])
    apply (elim conjE, rule running_chain, assumption, erule (1) server_evaluate)
    apply (rule running_chain, assumption, erule pass_on, simp, simp)
    apply (rule running_chain, assumption, erule ready_init [OF ok], simp)
    apply (rule running_chain, assumption, erule ready_listen [OF ok], simp)
    apply (rule running_chain, assumption, erule pass_on, simp, simp)
    apply (rule running_chain, assumption, erule server_init)
    apply (rule running_chain, assumption, erule server_proposal [OF ok])
    apply (rule running_chain, assumption, erule server_confirm [OF ok])
    apply (rule running_chain, assumption, erule pass_on, simp, simp)
    apply (rule running_chain, assumption, erule pin_init [OF ok], simp)
    apply (rule running_chain, assumption, erule pass_on, simp, simp)
    apply (rule running_chain, assumption, erule approved, simp)
    apply simp
    done
qed

text \<open>
  C4. Two connections shake hands. A client that finds each message of the server when it waits for it
  writes the init message, hello, its highest version, the selection and its PIN state, and reaches
  the data exchange in 13 iterations; a server that finds each of these messages when it waits for it
  writes exactly what the client was given, and reaches the data exchange in 13 iterations too. The
  bytes are the ones the serializer produces and the deserializer reads; neither side is closed.
\<close>

theorem handshake_completes:
  assumes ok: "cjson_ok A"
  shows "(\<exists>c. ShipConnectionLoop (map (peer_env A T)
              [None, Some kShipInitMessage, None, None, None, Some (enc A hello_ready), None, None,
               Some (enc A select_max), None, Some (enc A pin_none), None, None])
              (ShipConnectionConstruct kShipRoleClient lc kc rc t) = Some c \<and>
            running c kShipRoleClient kDataExchange
              [kShipInitMessage, enc A hello_ready, enc A announce_max, enc A select_max, enc A pin_none]) \<and>
         (\<exists>c. ShipConnectionLoop (map (peer_env A T)
              [Some kShipInitMessage, None, None, None, Some (enc A hello_ready), None, None,
               Some (enc A announce_max), Some (enc A select_max), None, Some (enc A pin_none), None, None])
              (ShipConnectionConstruct kShipRoleServer ls ks rs t') = Some c \<and>
            running c kShipRoleServer kDataExchange
              [kShipInitMessage, enc A hello_ready, enc A select_max, enc A pin_none])"
  using client_completes [OF ok, of T lc kc rc t] server_completes [OF ok, of T ls ks rs t'] by blast

abbreviation idle_linux :: LinuxTimer where
  "idle_linux \<equiv> LinuxTimer_Construct (1, 0) (1, 0)"

abbreviation client0 :: "LinuxTimer ShipConnection" where
  "client0 \<equiv> ShipConnectionConstruct kShipRoleClient (Some ''c'') (Some ''ski-s'') None idle_linux"

theorem handshake_completes_witness:
  "\<exists>c. ShipConnectionLoop (map (peer_env json_api linux_timer)
      [None, Some kShipInitMessage, None, None, None, Some (enc json_api hello_ready), None, None,
       Some (enc json_api select_max), None, Some (enc json_api pin_none), None, None]) client0 = Some c \<and>
     sme_state c = kDataExchange"
  using handshake_completes [OF cjson_ok_json_api, of linux_timer "Some ''c''" "Some ''ski-s''" None idle_linux
      "Some ''s''" "Some ''ski-c''" None idle_linux]
  by (auto simp: running_def)

section \<open>Reachability of the runs\<close>

lemma loop_reachable:
  assumes "ShipConnectionLoop es s = Some c" and "sc_reachable A T s"
    and "\<forall>e \<in> set es. env_json e = A \<and> env_timer e = T"
  shows "sc_reachable A T c"
  using assms
proof (induction es arbitrary: s)
  case Nil
  then show ?case by simp
next
  case (Cons e es)
  show ?case
  proof (cases "\<not> cancel s \<and> \<not> shutdown_once s")
    case True
    then obtain s1 where s1: "HandleState e s = Some s1" "ShipConnectionLoop es s1 = Some c"
      using Cons.prems(1) by (auto split: option.splits)
    have "sc_step A T s s1" by (rule step_thread [of e]) (use Cons.prems(3) True s1(1) in simp_all)
    then have r: "sc_reachable A T s1" by (rule reach_step [OF Cons.prems(2)])
    have "\<forall>e \<in> set es. env_json e = A \<and> env_timer e = T" using Cons.prems(3) by simp
    then show ?thesis by (rule Cons.IH [OF s1(2) r])
  next
    case False
    then have "c = s" using Cons.prems(1) by (auto split: if_splits)
    then show ?thesis using Cons.prems(2) by simp
  qed
qed

lemma client0_running: "running client0 kShipRoleClient kCmiStateClientSend []"
  by (simp add: running_def ShipConnectionConstruct_def writes_def)

lemma exchange_reachable:
  "\<exists>c. sc_reachable json_api linux_timer c \<and> (\<exists>ws. running c kShipRoleClient kDataExchange ws)"
proof -
  obtain c where c: "ShipConnectionLoop (map (peer_env json_api linux_timer)
      [None, Some kShipInitMessage, None, None, None, Some (enc json_api hello_ready), None, None,
       Some (enc json_api select_max), None, Some (enc json_api pin_none), None, None]) client0 = Some c"
    "running c kShipRoleClient kDataExchange [kShipInitMessage, enc json_api hello_ready, enc json_api announce_max,
       enc json_api select_max, enc json_api pin_none]"
    using client_completes [OF cjson_ok_json_api, of linux_timer "Some ''c''" "Some ''ski-s''" None idle_linux] by blast
  have "sc_reachable json_api linux_timer c"
    by (rule loop_reachable [OF c(1) reach_init]) auto
  then show ?thesis using c(2) by blast
qed

theorem connection_safe_witness:
  "\<exists>c :: LinuxTimer ShipConnection. sme_state c = kDataExchange \<and> length (msg_queue c) \<le> 30 \<and>
     sme_state c \<in> set (role_states (role c))"
proof -
  obtain c where "sc_reachable json_api linux_timer c" "sme_state c = kDataExchange"
    using exchange_reachable by (auto simp: running_def)
  then show ?thesis using connection_safe [of json_api linux_timer c] by blast
qed

theorem handshake_refines_spec_witness:
  "\<exists>s1. HandleState (peer_env json_api linux_timer None) client0 = Some s1 \<and>
     sme_state s1 \<in> set (spec_next kShipRoleClient kCmiStateClientSend)"
proof -
  obtain s1 where s1: "HandleState (peer_env json_api linux_timer None) client0 = Some s1"
    using client_send [OF client0_running] by blast
  have "role client0 = kShipRoleClient" "sme_state client0 = kCmiStateClientSend"
    using client0_running by (simp_all add: running_def)
  then show ?thesis using handshake_refines_spec [OF reach_init _ s1] s1 by auto
qed

theorem handshake_progress_witness:
  "\<exists>s1. HandleState (peer_env json_api linux_timer None) client0 = Some s1 \<and>
     sme_rank (sme_state client0) < sme_rank (sme_state s1)"
proof -
  obtain s1 where s1: "HandleState (peer_env json_api linux_timer None) client0 = Some s1"
    using client_send [OF client0_running] by blast
  have "role client0 = kShipRoleClient" "sme_state client0 = kCmiStateClientSend"
    using client0_running by (simp_all add: running_def)
  then show ?thesis using handshake_progress [OF reach_init _ s1] s1 by auto
qed

theorem handshake_gates_witness:
  "\<exists>h. incoming (peer_env json_api linux_timer (Some (enc json_api hello_ready))) tHelloInit
        (client0\<lparr>sme_state := kSmeHelloStateReadyListen\<rparr>) = Some (VHello h) \<and>
       hello_phase h = kConnectionHelloPhaseReady"
proof -
  let ?s = "client0\<lparr>sme_state := kSmeHelloStateReadyListen\<rparr>"
  have "running ?s kShipRoleClient kSmeHelloStateReadyListen []" using client0_running by (simp add: running_def)
  then obtain s1 where "HandleState (peer_env json_api linux_timer (Some (enc json_api hello_ready))) ?s = Some s1"
    "sme_state s1 = kSmeHelloStateOk"
    using ready_listen [OF cjson_ok_json_api, of ?s kShipRoleClient "[]" linux_timer] by (auto simp: running_def)
  then show ?thesis using handshake_gates [of _ ?s s1] by simp
qed

section \<open>A data message\<close>

lemma exchange_data:
  assumes ok: "cjson_ok A" and d: "sendable A (VData d)" and r: "running s kShipRoleClient kDataExchange ws"
    and p: "payload d = MessageBufferInitWithDeallocator (Some (x @ [CHR 0x00])) (length x + 1) (Some cJSON_free)"
    "nul_free x"
  shows "\<exists>s1. HandleState (peer_env A T (Some (enc A (VData d)))) s = Some s1 \<and>
    data_log s1 = data_log s @ [payload d]"
proof -
  let ?e = "peer_env A T (Some (enc A (VData d)))"
  define s1 where "s1 = (if \<not> is_access_methods_req_sent s
      then (SmeHandshakeAccessMethodsInit ?e s)\<lparr>is_access_methods_req_sent := True\<rparr> else s)"
  have "sendable A VAccessMethodsRequest" by simp
  then have s1: "data_log s1 = data_log s" "msg_queue s1 = []" "\<not> cancel s1" "\<not> shutdown_once s1"
    using r send_peer [OF ok, of VAccessMethodsRequest T "Some (enc A (VData d))" s]
    by (simp_all add: s1_def SmeHandshakeAccessMethodsInit_def running_def)
  let ?m = "\<lparr>qm_type = kShipConnectionQueueMsgTypeDataReceived,
     qm_msg_buf = MessageBufferInit (Some (enc A (VData d))) (length (enc A (VData d)))\<rparr>"
  have "handle_events ?e (env_events ?e) s1 = s1\<lparr>msg_queue := [?m]\<rparr>"
    using s1 enc_sent(2) [OF ok d]
    by (simp add: peer_env_def handle_event_def ShipConnectionWebsocketCallback_def ArrayCopy_def
        EebusQueueSend_def kQueueMaxMsg_def)
  then have "EebusQueueReceive ?e s1 = Some (?m, s1\<lparr>msg_queue := []\<rparr>)"
    using s1(2) by (simp add: EebusQueueReceive_def)
  moreover have "reread (VData d) = VData d"
    using p by (simp add: MessageBufferInitWithDeallocator_def)
  ultimately have "DataExchange ?e s = Some (emit (DataReaderHandleMessage (payload d)) (s1\<lparr>msg_queue := []\<rparr>))"
    using enc_sent(3) [OF ok d]
    by (simp add: DataExchange_def s1_def [symmetric] Let_def DataExchangeHandle_def DataExchangeHandleReceive_def
        value_type_of_def)
  then show ?thesis using r s1(1) by (simp add: common_defs)
qed

theorem data_only_in_exchange_witness:
  "\<exists>(s :: LinuxTimer ShipConnection) s1 (d :: Data). sc_step json_api linux_timer s s1 \<and> sme_state s = kDataExchange \<and>
     data_log s1 = data_log s @ [payload d]"
proof -
  obtain c ws where c: "sc_reachable json_api linux_timer c" "running c kShipRoleClient kDataExchange ws"
    using exchange_reachable by blast
  let ?j = "JObj [(''datagram'', JNull)]"
  have "api_PrintUnformatted json_api ?j = Some (encode_json ?j)" "api_Parse json_api (encode_json ?j) = Some ?j"
    by (simp_all add: json_api_def)
  then have "sendable json_api (VData data_sample)"
    by (auto simp: data_sample_def SHIP_PROTOCOL_ID_def nul_free_def [of "CHR ''e'' # _"])
  then obtain s1 where s1: "HandleState (peer_env json_api linux_timer (Some (enc json_api (VData data_sample)))) c = Some s1"
    "data_log s1 = data_log c @ [payload data_sample]"
    using exchange_data [OF cjson_ok_json_api _ c(2), of data_sample "encode_json ?j" linux_timer]
    by (auto simp: data_sample_def MessageBufferInitWithDeallocator_def)
  then have st: "sc_step json_api linux_timer c s1"
    using c(2) by (intro step_thread) (auto simp: running_def)
  then have "sme_state c = kDataExchange" using data_only_in_exchange [OF c(1) st] s1(2) by simp
  then show ?thesis using st s1(2) by blast
qed

section \<open>An abort while the thread waits\<close>

text \<open>
  An abort can be lost. When the application aborts the handshake while the thread waits for the
  peer's hello message, and a ready message arrives afterwards, the connection ends in the state that
  continues the handshake: the aborted state the application set is overwritten.
\<close>

lemma abort_overridden:
  assumes ok: "cjson_ok A" and r: "running s kShipRoleServer kSmeHelloStateReadyListen ws"
  shows "\<exists>s1. HandleState ((peer_env A T None)\<lparr>env_events :=
                [EvAbortPending, EvWebsocket kWebsocketCallbackTypeRead (enc A hello_ready)]\<rparr>) s = Some s1 \<and>
              sme_state s1 = kSmeHelloStateOk \<and> \<not> shutdown_once s1 \<and>
              HandleShipStateUpdate (remote_ski s) kSmeHelloStateAbort \<in> set (out s1)"
proof -
  let ?e = "(peer_env A T None)\<lparr>env_events :=
                [EvAbortPending, EvWebsocket kWebsocketCallbackTypeRead (enc A hello_ready)]\<rparr>"
  let ?m = "MessageBufferInit (Some (enc A hello_ready)) (length (enc A hello_ready))"
  let ?w = "wait_start ?e tHelloInit s"
  define s2 where "s2 = (wait_stop ?e ((ShipConnectionSetSmeState kSmeHelloStateAbort ?w)\<lparr>msg_queue := []\<rparr>))\<lparr>msg := ?m\<rparr>"
  have "ShipConnectionReceive ?e tHelloInit s = Some (kEebusErrorOk, s2)"
    using r enc_sent(2) [OF ok peer_sendable(1)]
    by (simp add: ShipConnectionReceive_def EebusQueueReceive_def handle_event_def AbortPendingHandshake_def
        ShipConnectionWebsocketCallback_def ArrayCopy_def EebusQueueSend_def kQueueMaxMsg_def running_def s2_def)
  moreover have "deserialize_msg ?e s2 = \<lparr>ds_value = Some hello_ready, ds_value_type = kSmeHello\<rparr>"
    using enc_sent(3) [OF ok peer_sendable(1)]
    by (simp add: deserialize_msg_def s2_def peer_env_def peer_reread) (simp add: hello_ready_def value_type_of_def)
  ultimately have "SmeHelloStateReadyListen ?e s = Some (release_msg (ShipConnectionSetSmeState kSmeHelloStateOk s2))"
    by (simp add: SmeHelloStateReadyListen_def SmeHelloReadyStateEvaluateReceivedHelloMessage_def hello_ready_def)
  moreover have "HandleShipStateUpdate (remote_ski s) kSmeHelloStateAbort \<in>
      set (out (release_msg (ShipConnectionSetSmeState kSmeHelloStateOk s2)))"
    using r by (simp add: s2_def release_msg_def ShipConnectionSetSmeState_def emit_def timer_ops running_def)
  ultimately show ?thesis using r by (simp add: common_defs s2_def)
qed

theorem abort_overridden_witness:
  "\<exists>s1. HandleState ((peer_env json_api linux_timer None)\<lparr>env_events :=
            [EvAbortPending, EvWebsocket kWebsocketCallbackTypeRead (enc json_api hello_ready)]\<rparr>)
          ((ShipConnectionConstruct kShipRoleServer None (Some ''ski'') None idle_linux)
             \<lparr>sme_state := kSmeHelloStateReadyListen\<rparr>) = Some s1 \<and>
        sme_state s1 = kSmeHelloStateOk"
proof -
  have "running ((ShipConnectionConstruct kShipRoleServer None (Some ''ski'') None idle_linux)
      \<lparr>sme_state := kSmeHelloStateReadyListen\<rparr>) kShipRoleServer kSmeHelloStateReadyListen []"
    by (simp add: running_def ShipConnectionConstruct_def writes_def)
  then show ?thesis using abort_overridden [OF cjson_ok_json_api, of _ "[]" linux_timer] by blast
qed

section \<open>Prolongation on FreeRTOS\<close>

definition hello_prolong :: ShipMessage where
  "hello_prolong = VHello \<lparr>hello_phase = kConnectionHelloPhasePending, waiting = None, prolongation_request = Some True\<rparr>"

lemma freertos_idle_cycle:
  assumes "timer_handle t = None" "os_timers t = []"
  shows "timer_handle (FreertosTimer_Stop (FreertosTimer_Start F True ms r t)) = None"
    and "os_timers (FreertosTimer_Stop (FreertosTimer_Start F True ms r t)) = []"
  using assms by (auto simp: FreertosTimer_Start_def FreertosTimer_Stop_def Let_def)

lemma freertos_start_armed:
  assumes "0 < ms"
  shows "\<exists>h x. timer_handle (FreertosTimer_Start F True ms r t) = Some h \<and>
    (h, x, True) \<in> set (os_timers (FreertosTimer_Start F True ms r t)) \<and>
    h < os_next_handle (FreertosTimer_Start F True ms r t)"
  using assms by (auto simp: FreertosTimer_Start_def)

lemma freertos_armed_cycle:
  assumes "timer_handle t = Some h" "(h, x, True) \<in> set (os_timers t)" "h < os_next_handle t" "0 < ms"
  shows "timer_handle (FreertosTimer_Stop (FreertosTimer_Start F True ms r t)) = None"
    and "(h, x, True) \<in> set (os_timers (FreertosTimer_Stop (FreertosTimer_Start F True ms r t)))"
  using assms by (auto simp: FreertosTimer_Start_def FreertosTimer_Stop_def Let_def)

text \<open>The timer after a prolongation request was handled: started once more, for a minute.\<close>

lemma prolong_step:
  fixes s :: "FreertosTimer ShipConnection"
  assumes ok: "cjson_ok A" and r: "running s kShipRoleServer kSmeHelloStateReadyListen ws"
    and t: "timer_handle (wait_for_ready_timer s) = None" "os_timers (wait_for_ready_timer s) = []"
  shows "\<exists>s1 ws'. HandleState (peer_env A (freertos_timer F) (Some (enc A hello_prolong))) s = Some s1 \<and>
    running s1 kShipRoleServer kSmeHelloStateReadyListen ws' \<and>
    wait_for_ready_timer s1 = FreertosTimer_Start F True tHelloInc False
      (FreertosTimer_Stop (FreertosTimer_Start F True tHelloInit False (wait_for_ready_timer s)))"
proof -
  let ?e = "peer_env A (freertos_timer F) (Some (enc A hello_prolong))"
  have sd: "sendable A hello_prolong" by (simp add: hello_prolong_def)
  have rr: "reread hello_prolong = hello_prolong" by (simp add: hello_prolong_def)
  define s1 where "s1 = (wait_stop ?e ((wait_start ?e tHelloInit s)\<lparr>msg_queue := []\<rparr>))
        \<lparr>msg := MessageBufferInit (Some (enc A hello_prolong)) (length (enc A hello_prolong))\<rparr>"
  have rec: "ShipConnectionReceive ?e tHelloInit s = Some (kEebusErrorOk, s1)"
    using r enc_sent(2) [OF ok sd] by (simp add: receive_peer running_def s1_def)
  have w: "wait_for_ready_timer s1 = FreertosTimer_Stop (FreertosTimer_Start F True tHelloInit False (wait_for_ready_timer s))"
    by (simp add: s1_def timer_ops freertos_timer_def)
  then have "tm_get_remaining_time (freertos_timer F) (wait_for_ready_timer s1) = 0"
    using freertos_idle_cycle [OF t] by (simp add: freertos_timer_def FreertosTimer_GetRemainingTime_def)
  moreover have "deserialize_msg ?e s1 = \<lparr>ds_value = Some hello_prolong, ds_value_type = kSmeHello\<rparr>"
    using deserialize_peer [OF ok sd, of s1] rr by (simp add: s1_def) (simp add: hello_prolong_def value_type_of_def)
  moreover have "\<exists>bs. SmeHelloStateSendHelloMsg ?e p v False x = (kEebusErrorOk, emit (WebsocketWrite bs) x)"
    for p v and x :: "FreertosTimer ShipConnection"
    using send_peer [OF ok, of "VHello _" "freertos_timer F"] by (auto simp: SmeHelloStateSendHelloMsg_def)
  then obtain bs where send: "SmeHelloStateSendHelloMsg ?e kConnectionHelloPhasePending
      (tm_get_remaining_time (freertos_timer F) (wait_for_ready_timer (wait_start ?e tHelloInc s1))) False
      (wait_start ?e tHelloInc s1) = (kEebusErrorOk, emit (WebsocketWrite bs) (wait_start ?e tHelloInc s1))" by metis
  have "tm_get_timer_state (freertos_timer F) (wait_for_ready_timer (wait_start ?e tHelloInc s1)) = kEebusTimerStateRunning"
    by (simp add: timer_ops freertos_timer_def FreertosTimer_Start_def tHelloInc_def)
  ultimately have "SmeHelloStateReadyListen ?e s = Some (release_msg (emit (WebsocketWrite bs) (wait_start ?e tHelloInc s1)))"
    using rec send
    by (simp add: SmeHelloStateReadyListen_def SmeHelloReadyStateEvaluateReceivedHelloMessage_def
        hello_prolong_def SmeHelloStateCommonProlongationRequestAndUpdateMessageSendProcedure_def
        SmeHelloStateCommonUpdateHelloMessageSendProcedure_def Let_def)
  then show ?thesis
    using r w by (simp add: common_defs s1_def) (simp add: release_msg_def emit_def timer_ops freertos_timer_def)
qed

text \<open>
  On FreeRTOS a prolongation request leaves a timer behind. The wait for the next message starts the
  timer that is already running, so after the peer has become ready and the handshake continues, an
  armed operating system timer of this connection is left that no operation can stop any more.
\<close>

lemma prolongation_leaks_timer:
  fixes s :: "FreertosTimer ShipConnection"
  assumes ok: "cjson_ok A" and r: "running s kShipRoleServer kSmeHelloStateReadyListen ws"
    and t: "timer_handle (wait_for_ready_timer s) = None" "os_timers (wait_for_ready_timer s) = []"
  shows "\<exists>c h x. ShipConnectionLoop (map (peer_env A (freertos_timer F))
            [Some (enc A hello_prolong), Some (enc A hello_ready)]) s = Some c \<and>
          sme_state c = kSmeHelloStateOk \<and>
          timer_handle (wait_for_ready_timer c) = None \<and> (h, x, True) \<in> set (os_timers (wait_for_ready_timer c))"
proof -
  obtain s1 ws' where s1: "HandleState (peer_env A (freertos_timer F) (Some (enc A hello_prolong))) s = Some s1"
    "running s1 kShipRoleServer kSmeHelloStateReadyListen ws'"
    "wait_for_ready_timer s1 = FreertosTimer_Start F True tHelloInc False
      (FreertosTimer_Stop (FreertosTimer_Start F True tHelloInit False (wait_for_ready_timer s)))"
    using prolong_step [OF ok r t] by blast
  let ?t = "wait_for_ready_timer s1"
  have nz: "0 < tHelloInc" "0 < tHelloInit" by (simp_all add: tHelloInc_def tHelloInit_def)
  obtain h x where h: "timer_handle ?t = Some h" "(h, x, True) \<in> set (os_timers ?t)" "h < os_next_handle ?t"
    using freertos_start_armed [OF nz(1)] unfolding s1(3) by blast
  let ?e = "peer_env A (freertos_timer F) (Some (enc A hello_ready))"
  obtain c where c: "HandleState ?e s1 = Some c" "running c kShipRoleServer kSmeHelloStateOk ws'"
    using ready_listen [OF ok s1(2), of "freertos_timer F"] by blast
  have "wait_for_ready_timer c = FreertosTimer_Stop (FreertosTimer_Start F True tHelloInit False ?t)"
    using c(1) s1(2) enc_sent(2) [OF ok peer_sendable(1)]
    by (auto simp: common_defs SmeHelloStateReadyListen_def receive_peer
      SmeHelloReadyStateEvaluateReceivedHelloMessage_def deserialize_peer [OF ok peer_sendable(1)] peer_reread
      Let_def hello_ready_def value_type_of_def release_msg_def ShipConnectionSetSmeState_def emit_def timer_ops
      freertos_timer_def)
  then have "timer_handle (wait_for_ready_timer c) = None" "(h, x, True) \<in> set (os_timers (wait_for_ready_timer c))"
    using freertos_armed_cycle [OF h nz(2)] by simp_all
  moreover have "ShipConnectionLoop (map (peer_env A (freertos_timer F))
      [Some (enc A hello_prolong), Some (enc A hello_ready)]) s = Some c"
    using r s1 c by (simp add: running_def)
  ultimately show ?thesis using c(2) by (auto simp: running_def)
qed

theorem prolongation_leaks_timer_witness:
  "\<exists>c h x. ShipConnectionLoop (map (peer_env json_api (freertos_timer sample_api))
        [Some (enc json_api hello_prolong), Some (enc json_api hello_ready)])
        ((ShipConnectionConstruct kShipRoleServer None (Some ''ski'') None (FreertosTimer_Construct 0))
           \<lparr>sme_state := kSmeHelloStateReadyListen\<rparr>) = Some c \<and>
      (h, x, True) \<in> set (os_timers (wait_for_ready_timer c))"
proof -
  let ?s = "(ShipConnectionConstruct kShipRoleServer None (Some ''ski'') None (FreertosTimer_Construct 0))
      \<lparr>sme_state := kSmeHelloStateReadyListen\<rparr>"
  have "running ?s kShipRoleServer kSmeHelloStateReadyListen []"
    "timer_handle (wait_for_ready_timer ?s) = None" "os_timers (wait_for_ready_timer ?s) = []"
    by (simp_all add: running_def ShipConnectionConstruct_def writes_def FreertosTimer_Construct_def)
  then show ?thesis
    using prolongation_leaks_timer [OF cjson_ok_json_api, of ?s "[]" sample_api] by blast
qed

text \<open>
  Such a late timeout ends a healthy connection: in the data exchange a timeout message, whichever
  timer sent it, closes the connection with an error.
\<close>

lemma timeout_ends_exchange:
  assumes "sme_state s = kDataExchange" and "role s = kShipRoleClient \<or> role s = kShipRoleServer"
    and "msg_queue s = plain_msg kShipConnectionQueueMsgTypeTimeout # q"
  shows "\<exists>s1. HandleState e s = Some s1 \<and> sme_state s1 = kSmeStateError \<and> shutdown_once s1"
proof -
  define s1 where "s1 = (if \<not> is_access_methods_req_sent s
      then (SmeHandshakeAccessMethodsInit e s)\<lparr>is_access_methods_req_sent := True\<rparr> else s)"
  have "msg_queue s1 = plain_msg kShipConnectionQueueMsgTypeTimeout # q"
    using assms(3) by (simp add: s1_def SmeHandshakeAccessMethodsInit_def Let_def case_prod_beta)
  then have "\<exists>s2. DataExchange e s = Some s2 \<and> sme_state s2 = kSmeStateError \<and> shutdown_once s2"
    by (simp add: DataExchange_def s1_def [symmetric] Let_def DataExchangeHandle_def EebusQueueReceive_def plain_msg_def)
  then show ?thesis
    using assms(1,2) by (auto simp: HandleState_def ClientHandleState_def ServerHandleState_def)
qed

theorem timeout_ends_exchange_witness:
  "\<exists>s1. HandleState sample_env
      (sample_state\<lparr>msg_queue := [plain_msg kShipConnectionQueueMsgTypeTimeout]\<rparr>) = Some s1 \<and> shutdown_once s1"
  using timeout_ends_exchange [of "sample_state\<lparr>msg_queue := [plain_msg kShipConnectionQueueMsgTypeTimeout]\<rparr>" "[]" sample_env]
  by (auto simp: sample_state_def ShipConnectionConstruct_def)

end
