(* ===== verification/Ship_Mdns.thy ===== *)
theory Ship_Mdns
  imports Eebus_Buffer
begin

text \<open>
  Service discovery: the entries that are found (\<^verbatim>\<open>ship/mdns/mdns_entry.c\<close>) and, of the FreeRTOS port
  (\<^verbatim>\<open>ship/mdns/ship_mdns_freertos.c\<close>), what a service announces and how the results of a query become entries. The
  DNS library is not modelled: the announced items and the results of a query are values.

  A read outside the TXT record and the use of a null pointer are undefined behaviour, \<open>None\<close>.
\<close>

section \<open>Device information and service details\<close>

text \<open>\<^verbatim>\<open>common/eebus_device_info.c\<close>: the members are never null once the structure is created.\<close>

record EebusDeviceInfo =
  di_type :: string
  di_vendor :: string
  di_brand :: string
  di_model :: string
  di_serial_num :: string
  di_ship_id :: string
  di_address :: string

definition EebusDeviceInfoCreate ::
    "string option \<Rightarrow> string option \<Rightarrow> string option \<Rightarrow> string option \<Rightarrow> string option \<Rightarrow> string option \<Rightarrow>
     EebusDeviceInfo option" where
  "EebusDeviceInfoCreate typ vendor brand model serial ship_id =
     (if StringIsEmpty typ \<or> StringIsEmpty vendor \<or> StringIsEmpty brand \<or> StringIsEmpty model \<or>
         StringIsEmpty serial \<or> StringIsEmpty ship_id then None
      else Some \<lparr>di_type = the typ, di_vendor = the vendor, di_brand = the brand, di_model = the model,
                 di_serial_num = the serial, di_ship_id = the ship_id,
                 di_address = ''d:_n:'' @ the vendor @ ''_'' @ the serial\<rparr>)"

definition EebusDeviceInfoCopy :: "EebusDeviceInfo \<Rightarrow> EebusDeviceInfo option" where
  "EebusDeviceInfoCopy d =
     EebusDeviceInfoCreate (Some (di_type d)) (Some (di_vendor d)) (Some (di_brand d)) (Some (di_model d))
       (Some (di_serial_num d)) (Some (di_ship_id d))"

text \<open>\<^verbatim>\<open>common/service_details.c\<close>, without the connection state, which nothing reads.\<close>

record ServiceDetails =
  sd_ski :: string
  sd_ipv4 :: "string option"
  sd_ship_id :: string
  sd_device_type :: string
  sd_auto_accept :: bool
  sd_is_trusted :: bool

definition ServiceDetailsCreate :: "string option \<Rightarrow> string option \<Rightarrow> string option \<Rightarrow> bool \<Rightarrow> ServiceDetails option" where
  "ServiceDetailsCreate ski ship_id typ accept =
     (if StringIsEmpty ski \<or> StringIsEmpty ship_id \<or> StringIsEmpty typ then None
      else Some \<lparr>sd_ski = the ski, sd_ipv4 = None, sd_ship_id = the ship_id, sd_device_type = the typ,
                 sd_auto_accept = accept, sd_is_trusted = False\<rparr>)"

definition ServiceDetailsCopy :: "ServiceDetails option \<Rightarrow> ServiceDetails option" where
  "ServiceDetailsCopy src =
     (case src of
        None \<Rightarrow> None
      | Some d \<Rightarrow>
          (case ServiceDetailsCreate (Some (sd_ski d)) (Some (sd_ship_id d)) (Some (sd_device_type d)) (sd_auto_accept d) of
             None \<Rightarrow> None
           | Some c \<Rightarrow>
               if StringCopy (sd_ipv4 d) = None then None
               else Some (c\<lparr>sd_ipv4 := StringCopy (sd_ipv4 d), sd_auto_accept := sd_auto_accept d,
                            sd_is_trusted := sd_is_trusted d\<rparr>)))"

text \<open>Details whose optional address is not set cannot be copied: a missing address is taken for a failed allocation.\<close>

lemma details_without_ipv4_not_copied:
  "ServiceDetailsCreate ski ship_id typ accept = Some d \<Longrightarrow> ServiceDetailsCopy (Some d) = None"
  by (auto simp: ServiceDetailsCreate_def ServiceDetailsCopy_def StringCopy_def split: if_splits)

section \<open>Entries\<close>

type_synonym u16 = "16 word"

record MdnsEntry =
  me_name :: "string option"
  me_host :: "string option"
  me_domain :: "string option"
  me_port :: u16
  me_iface :: u32
  me_txtvers :: "string option"
  me_id :: "string option"
  me_path :: "string option"
  me_ski :: "string option"
  me_reg :: "string option"
  me_brand :: "string option"
  me_type :: "string option"
  me_model :: "string option"

definition MdnsEntryConstruct :: "string option \<Rightarrow> string option \<Rightarrow> u32 \<Rightarrow> MdnsEntry" where
  "MdnsEntryConstruct nam domain iface =
     \<lparr>me_name = StringCopy nam, me_host = None, me_domain = StringCopy domain, me_port = 0, me_iface = iface,
      me_txtvers = None, me_id = None, me_path = None, me_ski = None, me_reg = None,
      me_brand = None, me_type = None, me_model = None\<rparr>"

definition MdnsEntryCopy :: "MdnsEntry option \<Rightarrow> MdnsEntry option" where
  "MdnsEntryCopy src =
     (case src of
        None \<Rightarrow> None
      | Some e \<Rightarrow>
          Some \<lparr>me_name = StringCopy (me_name e), me_host = StringCopy (me_host e), me_domain = StringCopy (me_domain e),
                me_port = me_port e, me_iface = me_iface e,
                me_txtvers = StringCopy (me_txtvers e), me_id = StringCopy (me_id e), me_path = StringCopy (me_path e),
                me_ski = StringCopy (me_ski e), me_reg = StringCopy (me_reg e), me_brand = StringCopy (me_brand e),
                me_type = StringCopy (me_type e), me_model = StringCopy (me_model e)\<rparr>)"

text \<open>The table of keys, with the member each key sets.\<close>

definition mdns_entry_lut :: "(string \<times> (string option \<Rightarrow> MdnsEntry \<Rightarrow> MdnsEntry)) list" where
  "mdns_entry_lut =
     [(''txtvers'', \<lambda>v e. e\<lparr>me_txtvers := v\<rparr>), (''id'', \<lambda>v e. e\<lparr>me_id := v\<rparr>), (''path'', \<lambda>v e. e\<lparr>me_path := v\<rparr>),
      (''ski'', \<lambda>v e. e\<lparr>me_ski := v\<rparr>), (''register'', \<lambda>v e. e\<lparr>me_reg := v\<rparr>), (''brand'', \<lambda>v e. e\<lparr>me_brand := v\<rparr>),
      (''type'', \<lambda>v e. e\<lparr>me_type := v\<rparr>), (''model'', \<lambda>v e. e\<lparr>me_model := v\<rparr>)]"

text \<open>Key and value are the bytes at their pointers; \<^verbatim>\<open>strncmp\<close> and \<^verbatim>\<open>strncpy\<close> read them as C strings.\<close>

definition MdnsEntrySetValue :: "MdnsEntry \<Rightarrow> byte list option \<Rightarrow> byte list option \<Rightarrow> EebusError \<times> MdnsEntry" where
  "MdnsEntrySetValue e key v =
     (case (key, v) of
        (Some k, Some v) \<Rightarrow>
          if k = [] \<or> v = [] then (kEebusErrorParse, e)
          else (case find (\<lambda>r. strncmp_eq (fst r) (cstring k) (length k)) mdns_entry_lut of
                  None \<Rightarrow> (kEebusErrorParse, e)
                | Some r \<Rightarrow> (kEebusErrorOk, snd r (StringNCopy (Some (cstring v)) (length v)) e))
      | _ \<Rightarrow> (kEebusErrorParse, e))"

definition MdnsEntrySetHost :: "MdnsEntry \<Rightarrow> string option \<Rightarrow> EebusError \<times> MdnsEntry" where
  "MdnsEntrySetHost e h =
     (let e' = e\<lparr>me_host := StringCopy h\<rparr>
      in (if me_host e' = None then kEebusErrorMemoryAllocate else kEebusErrorOk, e'))"

definition MdnsEntrySetPort :: "MdnsEntry \<Rightarrow> int \<Rightarrow> MdnsEntry" where
  "MdnsEntrySetPort e p = e\<lparr>me_port := word_of_int p\<rparr>"

definition MdnsEntryIsValid :: "MdnsEntry \<Rightarrow> bool" where
  "MdnsEntryIsValid e \<longleftrightarrow>
     \<not> StringIsEmpty (me_name e) \<and> \<not> StringIsEmpty (me_host e) \<and> me_port e \<noteq> 0 \<and>
     \<not> StringIsEmpty (me_txtvers e) \<and> \<not> StringIsEmpty (me_id e) \<and> \<not> StringIsEmpty (me_path e) \<and>
     \<not> StringIsEmpty (me_ski e) \<and> \<not> StringIsEmpty (me_reg e) \<and> (me_reg e = Some ''true'' \<or> me_reg e = Some ''false'')"

section \<open>TXT records\<close>

text \<open>The bytes from a pointer into a buffer; reading behind its end is undefined.\<close>

definition read_at :: "nat \<Rightarrow> nat \<Rightarrow> byte list \<Rightarrow> byte list option" where
  "read_at i n bs = (if i + n \<le> length bs then Some (take n (drop i bs)) else None)"

text \<open>\<^verbatim>\<open>memchr(p, '=', n)\<close> on the bytes at \<^verbatim>\<open>p\<close>: the number of bytes in front of the first occurrence.\<close>

fun memchr_assign :: "byte list \<Rightarrow> nat option" where
  "memchr_assign [] = None"
| "memchr_assign (c # cs) = (if c = CHR ''='' then Some 0 else map_option Suc (memchr_assign cs))"

text \<open>The loop of \<^verbatim>\<open>MdnsEntryParseTxtRecord\<close>; \<open>bs\<close> are the bytes that are left.\<close>

function txt_loop :: "MdnsEntry \<Rightarrow> byte list \<Rightarrow> (EebusError \<times> MdnsEntry) option" where
  "txt_loop e bs =
     (if length bs = 0 then Some (kEebusErrorOk, e)
      else let record_size = of_char (hd bs)
           in if record_size \<ge> length bs \<or> record_size < 3 then Some (kEebusErrorParse, e)
              else (case read_at 1 record_size bs of
                      None \<Rightarrow> None
                    | Some r \<Rightarrow>
                        (case memchr_assign r of
                           None \<Rightarrow> Some (kEebusErrorParse, e)
                         | Some key_size \<Rightarrow>
                             let value_size = record_size - key_size - 1
                             in if key_size = 0 \<or> value_size = 0 then Some (kEebusErrorParse, e)
                                else (case (read_at 1 key_size bs, read_at (key_size + 2) value_size bs) of
                                        (Some k, Some v) \<Rightarrow>
                                          txt_loop (snd (MdnsEntrySetValue e (Some k) (Some v))) (drop (record_size + 1) bs)
                                      | _ \<Rightarrow> None))))"
  by pat_completeness auto
termination
  by (relation "measure (\<lambda>(e, bs). length bs)") auto

definition MdnsEntryParseTxtRecord :: "MdnsEntry \<Rightarrow> byte list \<Rightarrow> (EebusError \<times> MdnsEntry) option" where
  "MdnsEntryParseTxtRecord e txt = txt_loop e txt"

declare txt_loop.simps [simp del]

section \<open>Announcing and finding a service\<close>

definition kShipServiceTxtVer :: string where "kShipServiceTxtVer = ''1''"
definition kShipServicePath :: string where "kShipServicePath = ''/ship/''"

text \<open>The state of the FreeRTOS port, without its thread.\<close>

record Mdns =
  mdns_ski :: string
  mdns_device_info :: EebusDeviceInfo
  mdns_service_name :: string
  mdns_port :: int
  autoaccept :: bool
  found_entries :: "MdnsEntry list"

definition SetAutoaccept :: "bool \<Rightarrow> Mdns \<Rightarrow> Mdns" where
  "SetAutoaccept a s = s\<lparr>autoaccept := a\<rparr>"

text \<open>The items that \<^verbatim>\<open>RegisterService\<close> hands to the library.\<close>

definition service_txt_data :: "Mdns \<Rightarrow> (string \<times> string) list" where
  "service_txt_data s =
     (let register_str = (if autoaccept s then ''true'' else ''false'')
      in [(''txtvers'', kShipServiceTxtVer), (''id'', mdns_service_name s), (''path'', kShipServicePath),
          (''ski'', mdns_ski s), (''register'', register_str), (''brand'', di_brand (mdns_device_info s)),
          (''type'', di_type (mdns_device_info s)), (''model'', di_model (mdns_device_info s))])"

text \<open>A result of a query: instance, host, port and items, whose value can be missing.\<close>

record mdns_result =
  instance_name :: "string option"
  hostname :: string
  result_port :: u16
  result_txt :: "(string \<times> string option) list"

fun set_values :: "(string \<times> string option) list \<Rightarrow> MdnsEntry \<Rightarrow> MdnsEntry option" where
  "set_values [] e = Some e"
| "set_values ((k, v) # txt) e =
     (case v of
        None \<Rightarrow> None
      | Some v \<Rightarrow> set_values txt (snd (MdnsEntrySetValue e (Some k) (Some v))))"

definition MdnsEntryCreateWithMdnsResult :: "mdns_result \<Rightarrow> MdnsEntry option" where
  "MdnsEntryCreateWithMdnsResult r =
     (let e = MdnsEntryConstruct (instance_name r) (Some (hostname r)) 0;
          e = snd (MdnsEntrySetHost e (Some (hostname r @ ''.local.'')));
          e = MdnsEntrySetPort e (uint (result_port r))
      in set_values (result_txt r) e)"

text \<open>The results of one query; the entries are handed to the callback as copies.\<close>

fun process_results :: "mdns_result list \<Rightarrow> Mdns \<Rightarrow> Mdns option" where
  "process_results [] s = Some s"
| "process_results (r # rs) s =
     (case MdnsEntryCreateWithMdnsResult r of
        None \<Rightarrow> None
      | Some e \<Rightarrow>
          process_results rs
            (if MdnsEntryIsValid e \<and> me_ski e \<noteq> Some (mdns_ski s)
             then s\<lparr>found_entries := found_entries s @ [e]\<rparr> else s))"

definition MdnsNotifyFoundEntries :: "Mdns \<Rightarrow> MdnsEntry list" where
  "MdnsNotifyFoundEntries s = map (\<lambda>e. the (MdnsEntryCopy (Some e))) (found_entries s)"

text \<open>One round of \<^verbatim>\<open>MdnsBrowserLoop\<close>, with the entries the callback is given, if it is called.\<close>

definition MdnsProcessSearchResult :: "mdns_result list \<Rightarrow> Mdns \<Rightarrow> (MdnsEntry list option \<times> Mdns) option" where
  "MdnsProcessSearchResult rs s =
     (if rs = [] then Some (None, s)
      else map_option (\<lambda>s. (Some (MdnsNotifyFoundEntries s), s)) (process_results rs s))"

definition browse_round :: "mdns_result list \<Rightarrow> Mdns \<Rightarrow> (MdnsEntry list option \<times> Mdns) option" where
  "browse_round rs s = MdnsProcessSearchResult rs (s\<lparr>found_entries := []\<rparr>)"

section \<open>Laws\<close>

lemma memchr_assign_less: "memchr_assign cs = Some i \<Longrightarrow> i < length cs"
  by (induction cs arbitrary: i) (auto split: if_splits)

lemma memchr_assign_key: "CHR ''='' \<notin> set k \<Longrightarrow> memchr_assign (k @ CHR ''='' # v) = Some (length k)"
  by (induction k) auto

text \<open>Whatever bytes arrive as a TXT record, reading them ends and stays inside the record.\<close>

lemma txt_loop_returns: "txt_loop e bs \<noteq> None"
proof (induction e bs rule: txt_loop.induct)
  case (1 e bs)
  show ?case
    using 1 by (subst txt_loop.simps) (auto simp: Let_def read_at_def memchr_assign_less split: option.splits)
qed

text \<open>The wire format of a list of items: a length byte, then the key, the sign \<open>=\<close> and the value.\<close>

definition txt_item :: "string \<times> string \<Rightarrow> byte list" where
  "txt_item i = char_of (length (fst i) + 1 + length (snd i)) # fst i @ CHR ''='' # snd i"

definition txt_record :: "(string \<times> string) list \<Rightarrow> byte list" where
  "txt_record is = concat (map txt_item is)"

definition set_items :: "(string \<times> string) list \<Rightarrow> MdnsEntry \<Rightarrow> MdnsEntry" where
  "set_items is e = fold (\<lambda>(k, v) e. snd (MdnsEntrySetValue e (Some k) (Some v))) is e"

definition item_ok :: "string \<times> string \<Rightarrow> bool" where
  "item_ok i \<longleftrightarrow> fst i \<noteq> [] \<and> CHR ''='' \<notin> set (fst i) \<and> snd i \<noteq> [] \<and> length (fst i) + 1 + length (snd i) < 256"

lemma txt_loop_item:
  assumes "item_ok (k, v)"
  shows "txt_loop e (txt_item (k, v) @ bs) = txt_loop (snd (MdnsEntrySetValue e (Some k) (Some v))) bs"
proof -
  let ?n = "length k + 1 + length v"
  have n: "of_char (char_of ?n :: char) = ?n" "3 \<le> ?n"
    using assms by (auto simp: item_ok_def Suc_le_eq of_char_mod_256 simp flip: length_greater_0_conv)
  have r: "read_at 1 ?n (txt_item (k, v) @ bs) = Some (k @ CHR ''='' # v)"
    "read_at 1 (length k) (txt_item (k, v) @ bs) = Some k"
    "read_at (length k + 2) (length v) (txt_item (k, v) @ bs) = Some v"
    by (auto simp: read_at_def txt_item_def)
  have m: "memchr_assign (k @ CHR ''='' # v) = Some (length k)"
    using assms by (simp add: memchr_assign_key item_ok_def)
  have h: "hd (txt_item (k, v) @ bs) = char_of ?n" "length (txt_item (k, v) @ bs) = Suc ?n + length bs"
    "drop (?n + 1) (txt_item (k, v) @ bs) = bs"
    by (simp_all add: txt_item_def)
  have g: "\<not> (?n \<ge> length (txt_item (k, v) @ bs) \<or> ?n < 3)" "length (txt_item (k, v) @ bs) \<noteq> 0"
    "\<not> (length k = 0 \<or> length v = 0)" "?n - length k - 1 = length v"
    using n(2) h(2) assms by (auto simp: item_ok_def)
  show ?thesis
    by (subst txt_loop.simps)
       (simp only: h(1,3) n(1) g if_False Let_def r m option.case prod.case)
qed

lemma txt_loop_record: "list_all item_ok is \<Longrightarrow> txt_loop e (txt_record is) = Some (kEebusErrorOk, set_items is e)"
proof (induction "is" arbitrary: e)
  case Nil
  then show ?case by (simp add: txt_record_def set_items_def txt_loop.simps)
next
  case (Cons i "is")
  then show ?case by (cases i) (simp add: txt_record_def set_items_def txt_loop_item)
qed

lemma set_values_items: "set_values (map (\<lambda>(k, v). (k, Some v)) is) e = Some (set_items is e)"
  by (induction "is" arbitrary: e) (auto simp: set_items_def)

text \<open>A service whose texts can be announced: none is empty or too long for a length byte.\<close>

definition text_ok :: "nat \<Rightarrow> string \<Rightarrow> bool" where
  "text_ok n t \<longleftrightarrow> t \<noteq> [] \<and> nul_free t \<and> length t + n < 255"

definition announceable :: "Mdns \<Rightarrow> bool" where
  "announceable s \<longleftrightarrow>
     text_ok 2 (mdns_service_name s) \<and> text_ok 3 (mdns_ski s) \<and> text_ok 5 (di_brand (mdns_device_info s)) \<and>
     text_ok 4 (di_type (mdns_device_info s)) \<and> text_ok 5 (di_model (mdns_device_info s))"

text \<open>The members of an entry that come from the TXT record.\<close>

definition txt_members :: "MdnsEntry \<Rightarrow> string option list" where
  "txt_members e = [me_txtvers e, me_id e, me_path e, me_ski e, me_reg e, me_brand e, me_type e, me_model e]"

definition announced_members :: "Mdns \<Rightarrow> string option list" where
  "announced_members s = map (\<lambda>i. Some (snd i)) (service_txt_data s)"

lemma service_items_ok: "announceable s \<Longrightarrow> list_all item_ok (service_txt_data s)"
  by (auto simp: announceable_def text_ok_def service_txt_data_def item_ok_def Let_def kShipServiceTxtVer_def
      kShipServicePath_def)

lemma cstring_constants:
  "cstring ''txtvers'' = ''txtvers''" "cstring ''id'' = ''id''" "cstring ''path'' = ''path''" "cstring ''ski'' = ''ski''"
  "cstring ''register'' = ''register''" "cstring ''brand'' = ''brand''" "cstring ''type'' = ''type''"
  "cstring ''model'' = ''model''" "cstring ''1'' = ''1''" "cstring ''/ship/'' = ''/ship/''"
  "cstring ''true'' = ''true''" "cstring ''false'' = ''false''"
  by (simp_all add: cstring_def)

lemma set_service_items:
  assumes "announceable s"
  shows "txt_members (set_items (service_txt_data s) e) = announced_members s \<and>
         me_name (set_items (service_txt_data s) e) = me_name e \<and>
         me_host (set_items (service_txt_data s) e) = me_host e \<and>
         me_port (set_items (service_txt_data s) e) = me_port e"
  using assms
  by (auto simp: announceable_def text_ok_def service_txt_data_def set_items_def txt_members_def announced_members_def
      MdnsEntrySetValue_def mdns_entry_lut_def strncmp_eq_def StringNCopy_def Let_def kShipServiceTxtVer_def
      kShipServicePath_def cstring_constants)

lemma found_entry:
  assumes "announceable s" and "instance_name r = Some (mdns_service_name s)" and "result_port r \<noteq> 0"
    and "result_txt r = map (\<lambda>(k, v). (k, Some v)) (service_txt_data s)"
  shows "\<exists>e. MdnsEntryCreateWithMdnsResult r = Some e \<and> txt_members e = announced_members s \<and> MdnsEntryIsValid e \<and>
    me_name e = Some (mdns_service_name s) \<and> me_host e = Some (hostname r @ ''.local.'') \<and> me_port e = result_port r"
proof -
  define e0 where "e0 = MdnsEntrySetPort (snd (MdnsEntrySetHost (MdnsEntryConstruct (instance_name r) (Some (hostname r)) 0)
    (Some (hostname r @ ''.local.'')))) (uint (result_port r))"
  let ?e = "set_items (service_txt_data s) e0"
  have e0: "me_name e0 = Some (mdns_service_name s)" "me_host e0 = Some (hostname r @ ''.local.'')" "me_port e0 = result_port r"
    by (simp_all add: e0_def assms(2) MdnsEntrySetPort_def MdnsEntrySetHost_def MdnsEntryConstruct_def StringCopy_def)
  have "MdnsEntryCreateWithMdnsResult r = Some ?e"
    by (simp add: MdnsEntryCreateWithMdnsResult_def assms(4) set_values_items e0_def)
  moreover have m: "txt_members ?e = announced_members s" and
    l: "me_name ?e = Some (mdns_service_name s)" "me_host ?e = Some (hostname r @ ''.local.'')" "me_port ?e = result_port r"
    using set_service_items [OF assms(1), of e0] e0 by simp_all
  moreover have "MdnsEntryIsValid ?e"
    using m l assms(1,3)
    by (auto simp: MdnsEntryIsValid_def txt_members_def announced_members_def service_txt_data_def StringIsEmpty_def
        announceable_def text_ok_def kShipServiceTxtVer_def kShipServicePath_def Let_def)
  ultimately show ?thesis by blast
qed

lemma set_values_returns: "\<forall>i \<in> set is. snd i \<noteq> None \<Longrightarrow> \<exists>e'. set_values is e = Some e'"
  by (induction "is" e rule: set_values.induct) (auto split: option.splits)

lemma entry_created:
  "\<forall>q \<in> set rs. \<forall>i \<in> set (result_txt q). snd i \<noteq> None \<Longrightarrow> r \<in> set rs \<Longrightarrow> \<exists>e. MdnsEntryCreateWithMdnsResult r = Some e"
  by (simp add: MdnsEntryCreateWithMdnsResult_def set_values_returns del: not_None_eq)

lemma process_results_keeps:
  assumes "\<forall>q \<in> set rs. \<forall>i \<in> set (result_txt q). snd i \<noteq> None"
  shows "\<exists>t'. process_results rs t = Some t' \<and> set (found_entries t) \<subseteq> set (found_entries t')"
  using assms
proof (induction rs arbitrary: t)
  case Nil
  then show ?case by simp
next
  case (Cons r rs)
  obtain e where "MdnsEntryCreateWithMdnsResult r = Some e"
    using entry_created [OF Cons.prems(1), of r] by auto
  moreover obtain t' where "process_results rs
      (if MdnsEntryIsValid e \<and> me_ski e \<noteq> Some (mdns_ski t) then t\<lparr>found_entries := found_entries t @ [e]\<rparr> else t) = Some t'"
    "set (found_entries t) \<subseteq> set (found_entries t')"
    using Cons.IH [of "if MdnsEntryIsValid e \<and> me_ski e \<noteq> Some (mdns_ski t) then t\<lparr>found_entries := found_entries t @ [e]\<rparr> else t"]
      Cons.prems by (fastforce split: if_splits)
  ultimately show ?case by auto
qed

lemma process_results_finds:
  assumes "\<forall>q \<in> set rs. \<forall>i \<in> set (result_txt q). snd i \<noteq> None" and "r \<in> set rs"
    and "MdnsEntryCreateWithMdnsResult r = Some e" and "MdnsEntryIsValid e" and "me_ski e \<noteq> Some (mdns_ski t)"
  shows "\<exists>t'. process_results rs t = Some t' \<and> e \<in> set (found_entries t')"
  using assms(1,2,5)
proof (induction rs arbitrary: t)
  case Nil
  then show ?case by simp
next
  case (Cons q rs)
  obtain d where d: "MdnsEntryCreateWithMdnsResult q = Some d"
    using entry_created [OF Cons.prems(1), of q] by auto
  let ?t = "if MdnsEntryIsValid d \<and> me_ski d \<noteq> Some (mdns_ski t) then t\<lparr>found_entries := found_entries t @ [d]\<rparr> else t"
  show ?case
  proof (cases "q = r")
    case True
    then have "e \<in> set (found_entries ?t)" using d assms(3,4) Cons.prems(3) by simp
    then show ?thesis using process_results_keeps [of rs ?t] Cons.prems(1) d by auto
  next
    case False
    then show ?thesis using Cons.IH [of ?t] Cons.prems d by simp
  qed
qed

lemma notify_copies: "MdnsNotifyFoundEntries s = found_entries s"
proof -
  have "the (MdnsEntryCopy (Some e)) = e" for e
    by (cases e) (simp add: MdnsEntryCopy_def StringCopy_def)
  then show ?thesis by (simp add: MdnsNotifyFoundEntries_def)
qed


definition example_service :: Mdns where
  "example_service =
     \<lparr>mdns_ski = ''41c9'',
      mdns_device_info = \<lparr>di_type = ''HeatPump'', di_vendor = ''NIBE'', di_brand = ''NIBE'', di_model = ''n'',
        di_serial_num = ''1'', di_ship_id = ''NIBE-1'', di_address = ''d:_n:NIBE_1''\<rparr>,
      mdns_service_name = ''NIBE-1'', mdns_port = 4711, autoaccept = False, found_entries = []\<rparr>"

definition example_result :: mdns_result where
  "example_result =
     \<lparr>instance_name = Some ''NIBE-1'', hostname = ''pump'', result_port = 4711,
      result_txt = map (\<lambda>(k, v). (k, Some v)) (service_txt_data example_service)\<rparr>"


text \<open>
  A key is compared over its own length only, so every beginning of a known key is taken for that key: an
  item with the key \<open>s\<close> behind the item \<open>ski\<close> replaces the SKI.
\<close>

lemma abbreviated_key_replaces_ski:
  "MdnsEntrySetValue e (Some ''s'') (Some (c # v)) =
     (kEebusErrorOk, e\<lparr>me_ski := StringNCopy (Some (cstring (c # v))) (length (c # v))\<rparr>)"
  by (simp add: MdnsEntrySetValue_def mdns_entry_lut_def strncmp_eq_def cstring_def)

end
