(* ===== verification/Ship_Node.thy ===== *)
theory Ship_Node
  imports Ship_Delivery Ship_Mdns
begin

text \<open>
  The node of the SHIP layer (\<^verbatim>\<open>ship/ship_node/ship_node.c\<close>): it trusts one remote SKI, connects to the service with
  this SKI when it is found, accepts connections of it, and resolves the case that both sides connect
  at once. The record \<open>ShipNode\<close> is the C structure with the connection objects that are allocated, by
  their addresses, and a log of the calls of the reader. The connections are those of \<open>Ship_Connection\<close>.

  An operation does not return (\<open>Blocks\<close>) when it waits for room in a queue or for a thread that has not
  ended, and it crashes (\<open>Crashes\<close>) when it uses an object that was freed or has not been set up. The threads are
  the loop of the node, the HTTP server with its callback, the browser of mDNS, those of the
  connections, and the callers of the interface. What one of them does between two blocking calls is one
  step; the mutex is held by the loop while it starts a connection.
\<close>

section \<open>State\<close>

type_synonym conn = nat

datatype stuck = Blocks | Crashes

datatype ShipNodeQueueMessage =
    kShipNodeQueueMsgTypeCancel
  | kShipNodeQueueMsgTypeMdnsEntriesFound
  | kShipNodeQueueMsgTypeShipConnectionClosed conn bool
  | kShipNodeQueueMsgTypeShipUnregisterSki "string option"
  | kShipNodeQueueMsgTypeShipRegisterSki "string option"

datatype reader_call =
    OnRemoteServicesUpdate "MdnsEntry list"
  | OnRemoteSkiConnected "string option"
  | OnRemoteSkiDisconnected "string option"
  | OnShipIdUpdate "string option" "string option"
  | OnShipStateUpdate "string option" SmeState
  | ReaderSetupRemoteDevice "string option"

record 't ShipNode =
  sn_msg_queue :: "ShipNodeQueueMessage list"
  sn_remote_ski :: "string option"
  mdns_entries :: "MdnsEntry list"
  search_for_remote_ski :: bool
  sn_cancel :: bool
  local_service_details :: ServiceDetails
  ship_connection :: "conn option"
  cancel_ship_connection :: "conn option"
  connection_attempt_running :: bool
  sn_role :: ShipRole
  outbound_skip_remaining :: u32
  conns :: "conn \<rightharpoonup> 't ShipConnection"
  started :: "conn \<Rightarrow> bool"
  reader_calls :: "reader_call list"

definition kNodeQueueMaxMsg :: nat where "kNodeQueueMaxMsg = 10"

text \<open>\<^verbatim>\<open>outbound_skip_remaining\<close> is not set by the constructor: \<open>skip\<close> is what the memory held.\<close>

definition ShipNodeConstruct :: "string \<Rightarrow> ServiceDetails \<Rightarrow> u32 \<Rightarrow> 't ShipNode" where
  "ShipNodeConstruct role_name details skip =
     \<lparr>sn_msg_queue = [], sn_remote_ski = None, mdns_entries = [], search_for_remote_ski = False, sn_cancel = False,
      local_service_details = details, ship_connection = None, cancel_ship_connection = None,
      connection_attempt_running = False,
      sn_role = (if role_name = ''server'' then kShipRoleServer
                 else if role_name = ''client'' then kShipRoleClient else kShipRoleAuto),
      outbound_skip_remaining = skip, conns = Map.empty, started = (\<lambda>_. False), reader_calls = []\<rparr>"

definition ShipNodeIsClientSupported :: "'t ShipNode \<Rightarrow> bool" where
  "ShipNodeIsClientSupported n \<longleftrightarrow> sn_role n = kShipRoleClient \<or> sn_role n = kShipRoleAuto"

definition ShipNodeIsServerSupported :: "'t ShipNode \<Rightarrow> bool" where
  "ShipNodeIsServerSupported n \<longleftrightarrow> sn_role n = kShipRoleServer \<or> sn_role n = kShipRoleAuto"

section \<open>Calls of the connections\<close>

definition NodeQueueSend :: "ShipNodeQueueMessage \<Rightarrow> 't ShipNode \<Rightarrow> stuck + 't ShipNode" where
  "NodeQueueSend m n =
     (if length (sn_msg_queue n) < kNodeQueueMaxMsg then Inr (n\<lparr>sn_msg_queue := sn_msg_queue n @ [m]\<rparr>) else Inl Blocks)"

definition read_call :: "reader_call \<Rightarrow> 't ShipNode \<Rightarrow> 't ShipNode" where
  "read_call c n = n\<lparr>reader_calls := reader_calls n @ [c]\<rparr>"

definition IsRemoteServiceForSkiPaired :: "string option \<Rightarrow> bool" where
  "IsRemoteServiceForSkiPaired ski = False"

definition IsWaitingForTrustAllowed :: "string option \<Rightarrow> bool" where
  "IsWaitingForTrustAllowed ski = False"

definition NodeHandleShipStateUpdate :: "string option \<Rightarrow> SmeState \<Rightarrow> 't ShipNode \<Rightarrow> 't ShipNode" where
  "NodeHandleShipStateUpdate ski st n =
     (let n = read_call (OnShipStateUpdate ski st) n
      in if st = kDataExchange then read_call (OnRemoteSkiConnected ski) n else n)"

text \<open>The calls that a connection makes of its info provider; the others go elsewhere.\<close>

definition info_provider_call :: "conn \<Rightarrow> call \<Rightarrow> 't ShipNode \<Rightarrow> stuck + 't ShipNode" where
  "info_provider_call p c n =
     (case c of
        HandleConnectionClosed had_error \<Rightarrow> NodeQueueSend (kShipNodeQueueMsgTypeShipConnectionClosed p had_error) n
      | HandleShipStateUpdate ski st \<Rightarrow> Inr (NodeHandleShipStateUpdate ski st n)
      | ReportServiceShipId ski ship_id \<Rightarrow> Inr (read_call (OnShipIdUpdate ski ship_id) n)
      | SetupRemoteDevice ski \<Rightarrow> Inr (read_call (ReaderSetupRemoteDevice ski) n)
      | _ \<Rightarrow> Inr n)"

fun info_provider_calls :: "conn \<Rightarrow> call list \<Rightarrow> 't ShipNode \<Rightarrow> stuck + 't ShipNode" where
  "info_provider_calls p [] n = Inr n"
| "info_provider_calls p (c # cs) n =
     (case info_provider_call p c n of Inl x \<Rightarrow> Inl x | Inr n \<Rightarrow> info_provider_calls p cs n)"

text \<open>A connection goes from \<open>c\<close> to \<open>c'\<close>, and the calls it makes on the way are handled.\<close>

definition connection_moves :: "conn \<Rightarrow> 't ShipConnection \<Rightarrow> 't ShipConnection \<Rightarrow> 't ShipNode \<Rightarrow> stuck + 't ShipNode" where
  "connection_moves p c c' n =
     info_provider_calls p (drop (length (out c)) (out c')) (n\<lparr>conns := (conns n)(p \<mapsto> c')\<rparr>)"

text \<open>
  \<^verbatim>\<open>SHIP_CONNECTION_STOP\<close>. A connection that was not started, or whose start failed, lacks its queue or its
  websocket. The thread of the connection has no iteration left once it is cancelled.
\<close>

definition StopConnection :: "('j, 't) env \<Rightarrow> conn \<Rightarrow> 't ShipNode \<Rightarrow> stuck + 't ShipNode" where
  "StopConnection e p n =
     (case conns n p of
        None \<Rightarrow> Inl Crashes
      | Some c \<Rightarrow>
          if \<not> started n p then Inl Crashes
          else (case Stop_request c of
                  None \<Rightarrow> Inl Blocks
                | Some c1 \<Rightarrow> connection_moves p c (Stop_joined e c1) n))"

text \<open>\<^verbatim>\<open>ShipConnectionDelete\<close> waits for the thread of the connection, without a message that would wake it.\<close>

definition DeleteConnection :: "conn \<Rightarrow> 't ShipNode \<Rightarrow> stuck + 't ShipNode" where
  "DeleteConnection p n =
     (case conns n p of
        None \<Rightarrow> Inl Crashes
      | Some c \<Rightarrow>
          if started n p \<and> \<not> cancel c \<and> \<not> shutdown_once c then Inl Blocks
          else Inr (n\<lparr>conns := (conns n)(p := None), started := (started n)(p := False)\<rparr>))"

definition CloseShipConnection :: "('j, 't) env \<Rightarrow> conn option \<Rightarrow> bool \<Rightarrow> 't ShipNode \<Rightarrow> stuck + 't ShipNode" where
  "CloseShipConnection e sc had_error n =
     (case sc of
        None \<Rightarrow> Inr n
      | Some p \<Rightarrow>
          if cancel_ship_connection n = Some p then
            (case DeleteConnection p n of
               Inl x \<Rightarrow> Inl x
             | Inr n \<Rightarrow> Inr (n\<lparr>cancel_ship_connection := None\<rparr>))
          else if ship_connection n \<noteq> Some p then Inr n
          else (case StopConnection e p n of
                  Inl x \<Rightarrow> Inl x
                | Inr n \<Rightarrow>
                    (case conns n p of
                       None \<Rightarrow> Inl Crashes
                     | Some c \<Rightarrow>
                         (case DeleteConnection p (read_call (OnRemoteSkiDisconnected (remote_ski c)) n) of
                            Inl x \<Rightarrow> Inl x
                          | Inr n \<Rightarrow>
                              Inr (n\<lparr>ship_connection := None, connection_attempt_running := False,
                                     outbound_skip_remaining := 100\<rparr>)))))"

section \<open>Connecting to a service\<close>

definition ShipNodeOnMdnsEntriesFound :: "MdnsEntry list option \<Rightarrow> 't ShipNode \<Rightarrow> stuck + 't ShipNode" where
  "ShipNodeOnMdnsEntriesFound found n =
     (if sn_cancel n then Inr n
      else case found of
             None \<Rightarrow> Inr n
           | Some es \<Rightarrow>
               let n = read_call (OnRemoteServicesUpdate es) (n\<lparr>mdns_entries := es, search_for_remote_ski := True\<rparr>)
               in if ShipNodeIsClientSupported n then NodeQueueSend kShipNodeQueueMsgTypeMdnsEntriesFound n else Inr n)"

definition SkiMatches :: "string option \<Rightarrow> string option \<Rightarrow> bool" where
  "SkiMatches a b \<longleftrightarrow> \<not> StringIsEmpty a \<and> \<not> StringIsEmpty b \<and> a = b"

definition ShipNodeFindService :: "'t ShipNode \<Rightarrow> MdnsEntry option" where
  "ShipNodeFindService n =
     (if sn_cancel n then None else find (\<lambda>d. SkiMatches (me_ski d) (sn_remote_ski n)) (mdns_entries n))"

text \<open>
  \<^verbatim>\<open>ShipNodeConnectToService\<close> until it starts the connection: with the address of the new connection when it
  gets so far. \<open>p\<close> is the address that the allocator gives, \<open>creator\<close> whether the websocket creator could be made,
  \<open>idle\<close> a new timer.
\<close>

definition ConnectToService_begin :: "'t \<Rightarrow> conn \<Rightarrow> bool \<Rightarrow> MdnsEntry \<Rightarrow> 't ShipNode \<Rightarrow> stuck + (conn option \<times> 't ShipNode)" where
  "ConnectToService_begin idle p creator d n =
     (if connection_attempt_running n then Inr (None, n)
      else if outbound_skip_remaining n > 0
      then Inr (None, n\<lparr>outbound_skip_remaining := outbound_skip_remaining n - 1\<rparr>)
      else case me_host d of
             None \<Rightarrow> Inl Crashes
           | Some h \<Rightarrow>
               if length h \<le> 1 \<or> \<not> creator then Inr (None, n)
               else Inr (Some p,
                 n\<lparr>conns := (conns n)(p \<mapsto> ShipConnectionConstruct kShipRoleClient
                               (Some (sd_ship_id (local_service_details n))) (me_ski d) (Some '''') idle),
                   ship_connection := Some p\<rparr>))"

definition ConnectToRemoteSki_begin :: "'t \<Rightarrow> conn \<Rightarrow> bool \<Rightarrow> 't ShipNode \<Rightarrow> stuck + (conn option \<times> 't ShipNode)" where
  "ConnectToRemoteSki_begin idle p creator n =
     (case ShipNodeFindService n of
        None \<Rightarrow> Inr (None, n\<lparr>search_for_remote_ski := False\<rparr>)
      | Some d \<Rightarrow>
          (case ConnectToService_begin idle p creator d n of
             Inl x \<Rightarrow> Inl x
           | Inr (None, n) \<Rightarrow> Inr (None, n\<lparr>search_for_remote_ski := False\<rparr>)
           | Inr (Some q, n) \<Rightarrow> Inr (Some q, n)))"

text \<open>\<^verbatim>\<open>strcmp(a, b) > 0\<close>.\<close>

fun strcmp_greater :: "string \<Rightarrow> string \<Rightarrow> bool" where
  "strcmp_greater [] b = False"
| "strcmp_greater (x # a) [] = True"
| "strcmp_greater (x # a) (y # b) = (if x = y then strcmp_greater a b else of_char y < (of_char x :: nat))"

text \<open>A connection is put aside, or stopped and deleted when another one is put aside already.\<close>

definition put_aside :: "('j, 't) env \<Rightarrow> conn option \<Rightarrow> 't ShipNode \<Rightarrow> stuck + 't ShipNode" where
  "put_aside e sc n =
     (if cancel_ship_connection n = None then Inr (n\<lparr>cancel_ship_connection := sc\<rparr>)
      else case sc of
             None \<Rightarrow> Inl Crashes
           | Some p \<Rightarrow> (case StopConnection e p n of Inl x \<Rightarrow> Inl x | Inr n \<Rightarrow> DeleteConnection p n))"

definition local_ski_higher :: "'t ShipNode \<Rightarrow> bool" where
  "local_ski_higher n =
     (case sn_remote_ski n of None \<Rightarrow> False | Some r \<Rightarrow> strcmp_greater (sd_ski (local_service_details n)) r)"

text \<open>The rest of \<^verbatim>\<open>ShipNodeConnectToService\<close>, with what the start returned.\<close>

definition ConnectToService_end :: "('j, 't) env \<Rightarrow> conn \<Rightarrow> EebusError \<Rightarrow> 't ShipNode \<Rightarrow> stuck + 't ShipNode" where
  "ConnectToService_end e outbound err n =
     (if err \<noteq> kEebusErrorOk then
        DeleteConnection outbound (if ship_connection n = Some outbound then n\<lparr>ship_connection := None\<rparr> else n)
      else
        let n = n\<lparr>started := (started n)(outbound := True)\<rparr>
        in if ship_connection n \<noteq> Some outbound then
             if local_ski_higher n then
               (case put_aside e (ship_connection n) n of
                  Inl x \<Rightarrow> Inl x
                | Inr n \<Rightarrow> Inr (n\<lparr>ship_connection := Some outbound\<rparr>))
             else put_aside e (Some outbound) n
           else Inr (n\<lparr>connection_attempt_running := True\<rparr>))"

definition ConnectToRemoteSki_end :: "('j, 't) env \<Rightarrow> conn \<Rightarrow> EebusError \<Rightarrow> 't ShipNode \<Rightarrow> stuck + 't ShipNode" where
  "ConnectToRemoteSki_end e outbound err n =
     (case ConnectToService_end e outbound err n of
        Inl x \<Rightarrow> Inl x
      | Inr n \<Rightarrow> Inr (n\<lparr>search_for_remote_ski := False\<rparr>))"

section \<open>Registration\<close>

definition ShipNodeRegisterSki :: "string option \<Rightarrow> 't ShipNode \<Rightarrow> 't ShipNode" where
  "ShipNodeRegisterSki ski n = n\<lparr>sn_remote_ski := StringCopy ski\<rparr>"

definition RegisterRemoteSki :: "string option \<Rightarrow> 't ShipNode \<Rightarrow> stuck + 't ShipNode" where
  "RegisterRemoteSki ski n = NodeQueueSend (kShipNodeQueueMsgTypeShipRegisterSki (StringCopy ski)) n"

definition ShipNodeUnregisterSki :: "('j, 't) env \<Rightarrow> 't ShipNode \<Rightarrow> stuck + 't ShipNode" where
  "ShipNodeUnregisterSki e n =
     (let n = n\<lparr>sn_remote_ski := None\<rparr>
      in if ship_connection n \<noteq> None then CloseShipConnection e (ship_connection n) False n else Inr n)"

definition UnregisterRemoteSki :: "string option \<Rightarrow> 't ShipNode \<Rightarrow> stuck + 't ShipNode" where
  "UnregisterRemoteSki ski n =
     (if \<not> SkiMatches ski (sn_remote_ski n) then Inr n
      else NodeQueueSend (kShipNodeQueueMsgTypeShipUnregisterSki (StringCopy ski)) n)"

text \<open>
  \<^verbatim>\<open>Stop\<close> until it waits for the loop, and the state \<^verbatim>\<open>Destruct\<close> leaves after it. Before it is destructed the node is
  stopped.
\<close>

definition NodeStop_request :: "'t ShipNode \<Rightarrow> stuck + 't ShipNode" where
  "NodeStop_request n = NodeQueueSend kShipNodeQueueMsgTypeCancel (n\<lparr>sn_cancel := True\<rparr>)"

definition NodeDestruct :: "('j, 't) env \<Rightarrow> 't ShipNode \<Rightarrow> stuck + 't ShipNode" where
  "NodeDestruct e n =
     (let stop_delete = (\<lambda>sc n. case sc of
            None \<Rightarrow> Inr n
          | Some p \<Rightarrow> (case StopConnection e p n of Inl x \<Rightarrow> Inl x | Inr n \<Rightarrow> DeleteConnection p n))
      in case stop_delete (cancel_ship_connection n) (n\<lparr>sn_remote_ski := None, mdns_entries := []\<rparr>) of
           Inl x \<Rightarrow> Inl x
         | Inr n \<Rightarrow>
             (case stop_delete (ship_connection n) (n\<lparr>cancel_ship_connection := None\<rparr>) of
                Inl x \<Rightarrow> Inl x
              | Inr n \<Rightarrow> Inr (n\<lparr>ship_connection := None, sn_msg_queue := [], connection_attempt_running := False\<rparr>)))"

section \<open>Accepting a connection\<close>

text \<open>
  The callback of the HTTP server under the mutex; \<open>allowed\<close> is the answer of the reader. The result says whether
  the SKI is trusted.
\<close>

definition OnWebsocketServerConnection_trust :: "string option \<Rightarrow> bool \<Rightarrow> 't ShipNode \<Rightarrow> bool \<times> 't ShipNode" where
  "OnWebsocketServerConnection_trust ski allowed n =
     (if sn_cancel n then (False, n)
      else if SkiMatches ski (sn_remote_ski n) then (True, n)
      else if allowed then (StringCopy ski \<noteq> None, n\<lparr>sn_remote_ski := StringCopy ski\<rparr>)
      else (False, n))"

text \<open>The rest of it for a trusted SKI, until the connection is created, and its start.\<close>

definition OnWebsocketServerConnection_create :: "'t \<Rightarrow> conn \<Rightarrow> string option \<Rightarrow> 't ShipNode \<Rightarrow> 't ShipNode option" where
  "OnWebsocketServerConnection_create idle p ski n =
     (let n = (if connection_attempt_running n \<and> ship_connection n \<noteq> None
               then n\<lparr>cancel_ship_connection := ship_connection n, ship_connection := None,
                      connection_attempt_running := False\<rparr>
               else n)
      in if connection_attempt_running n then None
         else Some (n\<lparr>conns := (conns n)(p \<mapsto> ShipConnectionConstruct kShipRoleServer
                                 (Some (sd_ship_id (local_service_details n))) ski (Some '''') idle),
                      ship_connection := Some p\<rparr>))"

definition OnWebsocketServerConnection_start :: "EebusError \<Rightarrow> 't ShipNode \<Rightarrow> stuck + 't ShipNode" where
  "OnWebsocketServerConnection_start err n =
     (case ship_connection n of
        None \<Rightarrow> Inl Crashes
      | Some p \<Rightarrow>
          if conns n p = None then Inl Crashes
          else Inr (n\<lparr>connection_attempt_running := True,
                      started := (if err = kEebusErrorOk then (started n)(p := True) else started n)\<rparr>))"

definition OnWebsocketServerConnection_accept ::
    "'t \<Rightarrow> conn \<Rightarrow> string option \<Rightarrow> EebusError \<Rightarrow> 't ShipNode \<Rightarrow> stuck + 't ShipNode" where
  "OnWebsocketServerConnection_accept idle p ski err n =
     (case OnWebsocketServerConnection_create idle p ski n of
        None \<Rightarrow> Inr n
      | Some n' \<Rightarrow> OnWebsocketServerConnection_start err n')"

section \<open>The threads of the node\<close>

text \<open>
  \<open>nr_connecting\<close> is the connection that the loop is starting, while it holds the mutex; \<open>nr_accepting\<close> the SKI that
  the callback of the HTTP server trusts and has not yet created a connection for.
\<close>

record 't NodeRun =
  nr_node :: "'t ShipNode"
  nr_connecting :: "conn option"
  nr_accepting :: "string option"

datatype ('j, 't) node_event =
    EvEntries "MdnsEntry list option"
  | EvLoop "('j, 't) env" 't conn bool
  | EvConnected "('j, 't) env" EebusError
  | EvInbound "string option" bool
  | EvAccept 't conn EebusError
  | EvThread conn "('j, 't) env"
  | EvConnection conn "('j, 't) env" sc_event
  | EvRegister "string option"
  | EvUnregister "string option"
  | EvNodeStop

text \<open>One message of the queue in \<^verbatim>\<open>ShipNodeConnectionLoop\<close>, up to the start of a connection.\<close>

definition handle_node_message ::
    "('j, 't) env \<Rightarrow> 't \<Rightarrow> conn \<Rightarrow> bool \<Rightarrow> ShipNodeQueueMessage \<Rightarrow> 't ShipNode \<Rightarrow> stuck + (conn option \<times> 't ShipNode)" where
  "handle_node_message e idle p creator m n =
     (case m of
        kShipNodeQueueMsgTypeMdnsEntriesFound \<Rightarrow> ConnectToRemoteSki_begin idle p creator n
      | kShipNodeQueueMsgTypeShipConnectionClosed q had_error \<Rightarrow>
          map_sum id (Pair None) (CloseShipConnection e (Some q) had_error n)
      | kShipNodeQueueMsgTypeShipUnregisterSki ski \<Rightarrow> map_sum id (Pair None) (ShipNodeUnregisterSki e n)
      | kShipNodeQueueMsgTypeShipRegisterSki ski \<Rightarrow> Inr (None, ShipNodeRegisterSki ski n)
      | kShipNodeQueueMsgTypeCancel \<Rightarrow> Inr (None, n))"

text \<open>An event that cannot happen in a state blocks: a mutex that is held, an address that is in use.\<close>

fun node_step :: "('j, 't) node_event \<Rightarrow> 't NodeRun \<Rightarrow> stuck + 't NodeRun" where
  "node_step (EvEntries found) r =
     (if nr_connecting r \<noteq> None then Inl Blocks
      else map_sum id (\<lambda>n. r\<lparr>nr_node := n\<rparr>) (ShipNodeOnMdnsEntriesFound found (nr_node r)))"
| "node_step (EvLoop e idle p creator) r =
     (if nr_connecting r \<noteq> None \<or> sn_cancel (nr_node r) \<or> conns (nr_node r) p \<noteq> None then Inl Blocks
      else case sn_msg_queue (nr_node r) of
             [] \<Rightarrow> Inl Blocks
           | m # q \<Rightarrow>
               map_sum id (\<lambda>(c, n). r\<lparr>nr_node := n, nr_connecting := c\<rparr>)
                 (handle_node_message e idle p creator m ((nr_node r)\<lparr>sn_msg_queue := q\<rparr>)))"
| "node_step (EvConnected e err) r =
     (case nr_connecting r of
        None \<Rightarrow> Inl Blocks
      | Some p \<Rightarrow>
          map_sum id (\<lambda>n. r\<lparr>nr_node := n, nr_connecting := None\<rparr>) (ConnectToRemoteSki_end e p err (nr_node r)))"
| "node_step (EvInbound ski allowed) r =
     (if nr_connecting r \<noteq> None \<or> nr_accepting r \<noteq> None then Inl Blocks
      else let (trusted, n) = OnWebsocketServerConnection_trust ski allowed (nr_node r)
           in Inr (r\<lparr>nr_node := n, nr_accepting := (if trusted then ski else None)\<rparr>))"
| "node_step (EvAccept idle p err) r =
     (if nr_accepting r = None \<or> conns (nr_node r) p \<noteq> None then Inl Blocks
      else map_sum id (\<lambda>n. r\<lparr>nr_node := n, nr_accepting := None\<rparr>)
             (OnWebsocketServerConnection_accept idle p (nr_accepting r) err (nr_node r)))"
| "node_step (EvThread p e) r =
     (case conns (nr_node r) p of
        None \<Rightarrow> Inl Blocks
      | Some c \<Rightarrow>
          if \<not> started (nr_node r) p \<or> cancel c \<or> shutdown_once c then Inl Blocks
          else (case HandleState e c of
                  None \<Rightarrow> Inl Blocks
                | Some c' \<Rightarrow> map_sum id (\<lambda>n. r\<lparr>nr_node := n\<rparr>) (connection_moves p c c' (nr_node r))))"
| "node_step (EvConnection p e ev) r =
     (case conns (nr_node r) p of
        None \<Rightarrow> Inl Blocks
      | Some c \<Rightarrow>
          (case handle_event e ev c of
             None \<Rightarrow> Inl Blocks
           | Some c' \<Rightarrow> map_sum id (\<lambda>n. r\<lparr>nr_node := n\<rparr>) (connection_moves p c c' (nr_node r))))"
| "node_step (EvRegister ski) r = map_sum id (\<lambda>n. r\<lparr>nr_node := n\<rparr>) (RegisterRemoteSki ski (nr_node r))"
| "node_step (EvUnregister ski) r = map_sum id (\<lambda>n. r\<lparr>nr_node := n\<rparr>) (UnregisterRemoteSki ski (nr_node r))"
| "node_step EvNodeStop r = map_sum id (\<lambda>n. r\<lparr>nr_node := n\<rparr>) (NodeStop_request (nr_node r))"

fun node_run :: "('j, 't) node_event list \<Rightarrow> 't NodeRun \<Rightarrow> stuck + 't NodeRun" where
  "node_run [] r = Inr r"
| "node_run (ev # evs) r = (case node_step ev r of Inl x \<Rightarrow> Inl x | Inr r \<Rightarrow> node_run evs r)"

definition node_initial :: "'t ShipNode \<Rightarrow> 't NodeRun" where
  "node_initial n = \<lparr>nr_node = n, nr_connecting = None, nr_accepting = None\<rparr>"

end
