(* ===== verification/Ship_Node_Laws.thy ===== *)
theory Ship_Node_Laws
  imports Ship_Node
begin

text \<open>
  Laws of the SHIP node: it never uses a connection that was freed, it connects with trusted devices only,
  both sides of a double connection keep the same one, and it waits before it connects again.

  The locale \<open>node_invariant\<close> lifts an invariant of the steps to the runs of the node; it is interpreted for the
  ownership of the connections and for the trusted SKIs.
\<close>

section \<open>Invariants of runs\<close>

locale node_invariant =
  fixes ok :: "('j, 't) node_event \<Rightarrow> bool"
    and I :: "'t NodeRun \<Rightarrow> bool"
  assumes step: "ok ev \<Longrightarrow> I r \<Longrightarrow> node_step ev r = Inr r' \<Longrightarrow> I r'"
begin

lemma run: "\<forall>ev \<in> set evs. ok ev \<Longrightarrow> I r \<Longrightarrow> node_run evs r = Inr r' \<Longrightarrow> I r'"
proof (induction evs arbitrary: r)
  case Nil
  then show ?case by simp
next
  case (Cons ev evs)
  obtain r1 where r1: "node_step ev r = Inr r1" "node_run evs r1 = Inr r'"
    using Cons.prems(3) by (auto split: sum.splits)
  then have "I r1" using step Cons.prems(1,2) by auto
  then show ?case using Cons.IH r1(2) Cons.prems(1) by auto
qed

lemma run_safe:
  assumes safe: "\<And>ev r. ok ev \<Longrightarrow> I r \<Longrightarrow> node_step ev r \<noteq> Inl Crashes"
  shows "\<forall>ev \<in> set evs. ok ev \<Longrightarrow> I r \<Longrightarrow> node_run evs r \<noteq> Inl Crashes"
proof (induction evs arbitrary: r)
  case Nil
  then show ?case by simp
next
  case (Cons ev evs)
  show ?case
  proof (cases "node_step ev r")
    case (Inl x)
    then show ?thesis using safe [of ev r] Cons.prems by auto
  next
    case (Inr r1)
    then have "I r1" using step Cons.prems by auto
    then show ?thesis using Cons.IH Inr Cons.prems(1) by auto
  qed
qed

end

section \<open>Frames\<close>

text \<open>The calls of a connection change the node only by messages about closed connections and calls of the reader.\<close>

definition only_calls :: "'t ShipNode \<Rightarrow> 't ShipNode \<Rightarrow> bool" where
  "only_calls n n' \<longleftrightarrow>
     (\<exists>ms rs. n' = n\<lparr>sn_msg_queue := sn_msg_queue n @ ms, reader_calls := rs\<rparr> \<and>
        (\<forall>m \<in> set ms. \<exists>p b. m = kShipNodeQueueMsgTypeShipConnectionClosed p b) \<and>
        (length (sn_msg_queue n) \<le> kNodeQueueMaxMsg \<longrightarrow> length (sn_msg_queue n @ ms) \<le> kNodeQueueMaxMsg))"

lemma only_calls_refl: "only_calls n n"
  unfolding only_calls_def by (rule exI [of _ "[]"], rule exI [of _ "reader_calls n"]) simp

lemma only_calls_reader: "only_calls n (n\<lparr>reader_calls := rs\<rparr>)"
  unfolding only_calls_def by (rule exI [of _ "[]"], rule exI [of _ rs]) simp

lemma only_calls_trans: "only_calls n n1 \<Longrightarrow> only_calls n1 n2 \<Longrightarrow> only_calls n n2"
  unfolding only_calls_def
proof (elim exE conjE, goal_cases)
  case (1 ms ms' rs rs')
  then show ?case by (intro exI [of _ "ms @ ms'"] exI [of _ rs']) auto
qed

lemma info_provider_call_frame: "info_provider_call p c n = Inr n' \<Longrightarrow> only_calls n n'"
proof (cases c)
  case (HandleConnectionClosed b)
  assume "info_provider_call p c n = Inr n'"
  then have "length (sn_msg_queue n) < kNodeQueueMaxMsg"
    "n' = n\<lparr>sn_msg_queue := sn_msg_queue n @ [kShipNodeQueueMsgTypeShipConnectionClosed p b]\<rparr>"
    using HandleConnectionClosed by (auto simp: info_provider_call_def NodeQueueSend_def split: if_splits)
  then show ?thesis
    unfolding only_calls_def
    by (intro exI [of _ "[kShipNodeQueueMsgTypeShipConnectionClosed p b]"] exI [of _ "reader_calls n"]) auto
qed (auto simp: info_provider_call_def read_call_def NodeHandleShipStateUpdate_def Let_def only_calls_refl
      intro: only_calls_reader split: if_splits)

lemma info_provider_calls_frame: "info_provider_calls p cs n = Inr n' \<Longrightarrow> only_calls n n'"
proof (induction cs arbitrary: n)
  case Nil
  then show ?case by (simp add: only_calls_refl)
next
  case (Cons c cs)
  then show ?case by (auto split: sum.splits intro: only_calls_trans [OF info_provider_call_frame])
qed

lemma info_provider_calls_safe: "info_provider_calls p cs n \<noteq> Inl Crashes"
  by (induction cs arbitrary: n)
     (auto simp: info_provider_call_def NodeQueueSend_def split: sum.splits call.splits if_splits)

lemma connection_moves_safe: "connection_moves p c c' n \<noteq> Inl Crashes"
  by (simp add: connection_moves_def info_provider_calls_safe)

lemma connection_moves_frame:
  "connection_moves p c c' n = Inr n' \<Longrightarrow> only_calls (n\<lparr>conns := (conns n)(p \<mapsto> c')\<rparr>) n'"
  by (auto simp: connection_moves_def intro: info_provider_calls_frame)

lemma only_calls_fields:
  assumes "only_calls n n'"
  shows "sn_remote_ski n' = sn_remote_ski n" "mdns_entries n' = mdns_entries n" "sn_cancel n' = sn_cancel n"
    "local_service_details n' = local_service_details n" "ship_connection n' = ship_connection n"
    "cancel_ship_connection n' = cancel_ship_connection n"
    "connection_attempt_running n' = connection_attempt_running n" "conns n' = conns n" "started n' = started n"
    "outbound_skip_remaining n' = outbound_skip_remaining n"
  using assms by (auto simp: only_calls_def)

lemma only_calls_queue:
  assumes "only_calls n n'"
  shows "length (sn_msg_queue n) \<le> kNodeQueueMaxMsg \<Longrightarrow> length (sn_msg_queue n') \<le> kNodeQueueMaxMsg"
    and "kShipNodeQueueMsgTypeShipRegisterSki ski \<in> set (sn_msg_queue n') \<Longrightarrow>
         kShipNodeQueueMsgTypeShipRegisterSki ski \<in> set (sn_msg_queue n)"
  using assms by (auto simp: only_calls_def)

section \<open>Connections keep their identity\<close>

lemma HandleState_ski: "sc_inv c \<Longrightarrow> HandleState e c = Some c' \<Longrightarrow> remote_ski c' = remote_ski c"
  using HandleState_moves [of e c c'] by (auto simp: sc_inv_def moves_def)

lemma handle_event_ski: "handle_event e ev c = Some c' \<Longrightarrow> remote_ski c' = remote_ski c"
  using handle_event_after [of e ev c c'] by (simp add: after_events_def)

lemma stop_fields:
  assumes "Stop_request c = Some c1"
  shows "remote_ski (Stop_joined e c1) = remote_ski c" "cancel (Stop_joined e c1)" "sc_inv c \<Longrightarrow> sc_inv (Stop_joined e c1)"
  using assms
  by (auto simp: Stop_request_def EebusQueueSend_def Stop_joined_def sc_inv_def sc_ok_def split: if_splits)

lemma StopConnection_returns:
  assumes "StopConnection e p n = Inr n'"
  obtains c c' where "conns n p = Some c" "started n p" "remote_ski c' = remote_ski c" "cancel c'" "sc_inv c \<longrightarrow> sc_inv c'"
    "only_calls (n\<lparr>conns := (conns n)(p \<mapsto> c')\<rparr>) n'"
proof -
  obtain c c1 where c: "conns n p = Some c" "started n p" "Stop_request c = Some c1"
    "connection_moves p c (Stop_joined e c1) n = Inr n'"
    using assms by (auto simp: StopConnection_def split: option.splits if_splits)
  show thesis
    using that [OF c(1,2)] stop_fields [OF c(3)] connection_moves_frame [OF c(4)] by blast
qed

lemma StopConnection_safe: "conns n p \<noteq> None \<Longrightarrow> started n p \<Longrightarrow> StopConnection e p n \<noteq> Inl Crashes"
  by (auto simp: StopConnection_def connection_moves_safe split: option.splits)

lemma DeleteConnection_safe: "conns n p \<noteq> None \<Longrightarrow> DeleteConnection p n \<noteq> Inl Crashes"
  by (auto simp: DeleteConnection_def split: if_splits)

lemma DeleteConnection_returns:
  "DeleteConnection p n = Inr n' \<Longrightarrow> n' = n\<lparr>conns := (conns n)(p := None), started := (started n)(p := False)\<rparr>"
  by (auto simp: DeleteConnection_def split: option.splits if_splits)

section \<open>Ownership of the connections\<close>

text \<open>
  What the node holds is allocated: the current connection is started, or is being started by the loop; the one
  that was put aside is started and is another one; and there is an attempt exactly when there is a
  current connection that the loop is not just starting. Entries have a host.
\<close>

definition node_ok :: "'t NodeRun \<Rightarrow> bool" where
  "node_ok r \<longleftrightarrow>
     (let n = nr_node r; sc = ship_connection n; aside = cancel_ship_connection n; new = nr_connecting r
      in (\<forall>p. sc = Some p \<longrightarrow> conns n p \<noteq> None \<and> (started n p \<or> new = Some p)) \<and>
         (\<forall>p. aside = Some p \<longrightarrow> conns n p \<noteq> None \<and> started n p \<and> sc \<noteq> Some p) \<and>
         (\<forall>p. new = Some p \<longrightarrow> conns n p \<noteq> None \<and> \<not> started n p \<and> sc \<noteq> None) \<and>
         (connection_attempt_running n \<longleftrightarrow> sc \<noteq> None \<and> sc \<noteq> new) \<and>
         (\<forall>p. started n p \<longrightarrow> conns n p \<noteq> None) \<and>
         (\<forall>d \<in> set (mdns_entries n). me_host d \<noteq> None))"

lemma node_ok_calls:
  assumes "only_calls n n'" and "node_ok (r\<lparr>nr_node := n\<rparr>)"
  shows "node_ok (r\<lparr>nr_node := n'\<rparr>)"
  using assms(2) by (simp add: node_ok_def Let_def only_calls_fields [OF assms(1)])

lemma node_ok_conn:
  assumes "node_ok r" and "conns (nr_node r) p \<noteq> None"
  shows "node_ok (r\<lparr>nr_node := (nr_node r)\<lparr>conns := (conns (nr_node r))(p \<mapsto> c)\<rparr>\<rparr>)"
  using assms by (auto simp: node_ok_def Let_def)

lemma node_ok_moves:
  assumes "node_ok r" and "conns (nr_node r) p = Some c" and "connection_moves p c c' (nr_node r) = Inr n'"
  shows "node_ok (r\<lparr>nr_node := n'\<rparr>)"
  using node_ok_calls [OF connection_moves_frame [OF assms(3)], of r] node_ok_conn [OF assms(1), of p] assms(2) by simp

lemma node_ok_queue: "node_ok (r\<lparr>nr_node := n\<lparr>sn_msg_queue := q\<rparr>\<rparr>) = node_ok (r\<lparr>nr_node := n\<rparr>)"
  by (simp add: node_ok_def Let_def)

lemma node_ok_reader: "node_ok (r\<lparr>nr_node := read_call c n\<rparr>) = node_ok (r\<lparr>nr_node := n\<rparr>)"
  by (simp add: node_ok_def Let_def read_call_def)

lemma CloseShipConnection_ok:
  assumes "node_ok (r\<lparr>nr_node := n\<rparr>)" and "nr_connecting r = None" and "CloseShipConnection e sc b n = Inr n'"
  shows "node_ok (r\<lparr>nr_node := n'\<rparr>)"
proof (cases sc)
  case None
  then show ?thesis using assms by (simp add: CloseShipConnection_def)
next
  case (Some p)
  consider (aside) "cancel_ship_connection n = Some p"
    | (other) "cancel_ship_connection n \<noteq> Some p" "ship_connection n \<noteq> Some p"
    | (current) "cancel_ship_connection n \<noteq> Some p" "ship_connection n = Some p" by blast
  then show ?thesis
  proof cases
    case aside
    then obtain n1 where "DeleteConnection p n = Inr n1" "n' = n1\<lparr>cancel_ship_connection := None\<rparr>"
      using assms(3) Some by (auto simp: CloseShipConnection_def split: sum.splits)
    then show ?thesis using assms(1,2) aside
      by (auto simp: node_ok_def Let_def dest!: DeleteConnection_returns)
  next
    case other
    then show ?thesis using assms Some by (simp add: CloseShipConnection_def)
  next
    case current
    then obtain n1 c n2 where n: "StopConnection e p n = Inr n1" "conns n1 p = Some c"
      "DeleteConnection p (read_call (OnRemoteSkiDisconnected (remote_ski c)) n1) = Inr n2"
      "n' = n2\<lparr>ship_connection := None, connection_attempt_running := False, outbound_skip_remaining := 100\<rparr>"
      using assms(3) Some by (auto simp: CloseShipConnection_def split: sum.splits option.splits)
    obtain c' where c': "only_calls (n\<lparr>conns := (conns n)(p \<mapsto> c')\<rparr>) n1"
      by (rule StopConnection_returns [OF n(1)])
    show ?thesis using assms(1,2) current n(4) DeleteConnection_returns [OF n(3)]
      by (auto simp: node_ok_def Let_def read_call_def only_calls_fields [OF c'])
  qed
qed

lemma CloseShipConnection_safe:
  assumes "node_ok (r\<lparr>nr_node := n\<rparr>)" and "nr_connecting r = None"
  shows "CloseShipConnection e sc b n \<noteq> Inl Crashes"
proof (cases sc)
  case None
  then show ?thesis by (simp add: CloseShipConnection_def)
next
  case (Some p)
  show ?thesis
  proof (cases "cancel_ship_connection n = Some p \<or> ship_connection n \<noteq> Some p")
    case True
    then show ?thesis using Some assms DeleteConnection_safe [of n p]
      by (auto simp: CloseShipConnection_def node_ok_def Let_def split: sum.splits)
  next
    case False
    then have "conns n p \<noteq> None" "started n p" using assms by (auto simp: node_ok_def Let_def)
    then have s: "StopConnection e p n \<noteq> Inl Crashes" by (rule StopConnection_safe)
    show ?thesis
    proof (cases "StopConnection e p n")
      case (Inl x)
      then show ?thesis using s False Some by (simp add: CloseShipConnection_def)
    next
      case (Inr n1)
      obtain c' where "only_calls (n\<lparr>conns := (conns n)(p \<mapsto> c')\<rparr>) n1"
        by (rule StopConnection_returns [OF Inr])
      then have c: "conns n1 p = Some c'" by (simp add: only_calls_fields)
      then have "DeleteConnection p (read_call x n1) \<noteq> Inl Crashes" for x
        by (intro DeleteConnection_safe) (simp add: read_call_def)
      then show ?thesis using Inr False Some c by (auto simp: CloseShipConnection_def split: sum.splits)
    qed
  qed
qed

lemma ConnectToRemoteSki_begin_ok:
  assumes "node_ok (r\<lparr>nr_node := n\<rparr>)" and "nr_connecting r = None" and "conns n p = None"
    and "ConnectToRemoteSki_begin idle p creator n = Inr (new, n')"
  shows "node_ok (r\<lparr>nr_node := n', nr_connecting := new\<rparr>)"
  using assms
  by (auto simp: ConnectToRemoteSki_begin_def ConnectToService_begin_def node_ok_def Let_def
      split: option.splits if_splits sum.splits)

lemma found_service_host:
  "node_ok (r\<lparr>nr_node := n\<rparr>) \<Longrightarrow> ShipNodeFindService n = Some d \<Longrightarrow> me_host d \<noteq> None"
  by (auto simp: ShipNodeFindService_def node_ok_def Let_def find_Some_iff split: if_splits)

lemma ConnectToRemoteSki_begin_safe:
  "node_ok (r\<lparr>nr_node := n\<rparr>) \<Longrightarrow> ConnectToRemoteSki_begin idle p creator n \<noteq> Inl Crashes"
  by (auto simp: ConnectToRemoteSki_begin_def ConnectToService_begin_def dest: found_service_host
      split: option.splits if_splits sum.splits)

text \<open>Putting aside a started connection that is neither the one put aside before nor needed any more.\<close>

lemma put_aside_returns:
  assumes "put_aside e (Some p) n = Inr n'"
  shows "if cancel_ship_connection n = None then n' = n\<lparr>cancel_ship_connection := Some p\<rparr>
         else ship_connection n' = ship_connection n \<and> cancel_ship_connection n' = cancel_ship_connection n \<and>
           connection_attempt_running n' = connection_attempt_running n \<and> mdns_entries n' = mdns_entries n \<and>
           conns n' = (conns n)(p := None) \<and> started n' = (started n)(p := False)"
proof (cases "cancel_ship_connection n = None")
  case True
  then show ?thesis using assms by (simp add: put_aside_def)
next
  case False
  then obtain n1 where n1: "StopConnection e p n = Inr n1" "DeleteConnection p n1 = Inr n'"
    using assms by (auto simp: put_aside_def split: sum.splits)
  obtain c' where "only_calls (n\<lparr>conns := (conns n)(p \<mapsto> c')\<rparr>) n1"
    by (rule StopConnection_returns [OF n1(1)])
  then show ?thesis using False DeleteConnection_returns [OF n1(2)] by (auto simp: only_calls_fields)
qed

lemma put_aside_safe:
  assumes "conns n p \<noteq> None" and "started n p"
  shows "put_aside e (Some p) n \<noteq> Inl Crashes"
proof (cases "StopConnection e p n")
  case (Inl x)
  then show ?thesis using StopConnection_safe [OF assms, of e] by (auto simp: put_aside_def)
next
  case (Inr n1)
  obtain c' where "only_calls (n\<lparr>conns := (conns n)(p \<mapsto> c')\<rparr>) n1"
    by (rule StopConnection_returns [OF Inr])
  then have "conns n1 p \<noteq> None" by (simp add: only_calls_fields)
  then show ?thesis using Inr DeleteConnection_safe [of n1 p] by (simp add: put_aside_def)
qed

lemma ConnectToService_end_ok:
  assumes "node_ok r" and "nr_connecting r = Some p" and "ConnectToService_end e p err (nr_node r) = Inr n'"
  shows "node_ok (r\<lparr>nr_node := n', nr_connecting := None\<rparr>)"
proof (cases "err = kEebusErrorOk")
  case False
  then show ?thesis using assms
    by (auto simp: ConnectToService_end_def node_ok_def Let_def dest!: DeleteConnection_returns split: if_splits)
next
  case True
  let ?n = "(nr_node r)\<lparr>started := (started (nr_node r))(p := True)\<rparr>"
  obtain q where q: "ship_connection (nr_node r) = Some q" using assms(1,2) by (auto simp: node_ok_def Let_def)
  consider (current) "q = p" | (keep) "q \<noteq> p" "local_ski_higher ?n" | (drop) "q \<noteq> p" "\<not> local_ski_higher ?n" by blast
  then show ?thesis
  proof cases
    case current
    then show ?thesis using assms True q by (auto simp: ConnectToService_end_def node_ok_def Let_def split: if_splits)
  next
    case keep
    then obtain n1 where n1: "put_aside e (Some q) ?n = Inr n1" "n' = n1\<lparr>ship_connection := Some p\<rparr>"
      using assms(3) True q by (auto simp: ConnectToService_end_def Let_def split: sum.splits)
    show ?thesis using put_aside_returns [OF n1(1)] assms(1,2) keep(1) q n1(2)
      by (auto simp: node_ok_def Let_def split: if_splits)
  next
    case drop
    then have n1: "put_aside e (Some p) ?n = Inr n'"
      using assms(3) True q by (auto simp: ConnectToService_end_def Let_def)
    show ?thesis using put_aside_returns [OF n1] assms(1,2) drop(1) q
      by (auto simp: node_ok_def Let_def split: if_splits)
  qed
qed

lemma ConnectToService_end_safe:
  assumes "node_ok r" and "nr_connecting r = Some p"
  shows "ConnectToService_end e p err (nr_node r) \<noteq> Inl Crashes"
proof -
  let ?n = "(nr_node r)\<lparr>started := (started (nr_node r))(p := True)\<rparr>"
  obtain q where q: "ship_connection (nr_node r) = Some q" using assms by (auto simp: node_ok_def Let_def)
  have p: "conns (nr_node r) p \<noteq> None" "conns (nr_node r) q \<noteq> None" "q \<noteq> p \<Longrightarrow> started (nr_node r) q"
    using assms q by (auto simp: node_ok_def Let_def)
  have "put_aside e (Some p) ?n \<noteq> Inl Crashes" "put_aside e (Some q) ?n \<noteq> Inl Crashes"
    using p put_aside_safe [of ?n p e] put_aside_safe [of ?n q e] by auto
  then show ?thesis
    using q DeleteConnection_safe [of _ p] p(1) by (auto simp: ConnectToService_end_def Let_def split: sum.splits)
qed

lemma accept_returns:
  assumes "connection_attempt_running n \<longrightarrow> ship_connection n \<noteq> None"
  shows "OnWebsocketServerConnection_accept idle p ski err n =
    Inr (n\<lparr>cancel_ship_connection := (if connection_attempt_running n then ship_connection n else cancel_ship_connection n),
          conns := (conns n)(p \<mapsto> ShipConnectionConstruct kShipRoleServer (Some (sd_ship_id (local_service_details n)))
                      ski (Some '''') idle),
          ship_connection := Some p, connection_attempt_running := True,
          started := (if err = kEebusErrorOk then (started n)(p := True) else started n)\<rparr>)"
  using assms
  by (auto simp: OnWebsocketServerConnection_accept_def OnWebsocketServerConnection_create_def
      OnWebsocketServerConnection_start_def Let_def)

lemma node_ok_attempt: "node_ok r \<Longrightarrow> connection_attempt_running (nr_node r) \<longrightarrow> ship_connection (nr_node r) \<noteq> None"
  by (auto simp: node_ok_def Let_def)

lemma accept_ok:
  assumes "node_ok r" and "conns (nr_node r) p = None"
    and "OnWebsocketServerConnection_accept idle p ski kEebusErrorOk (nr_node r) = Inr n'"
  shows "node_ok (r\<lparr>nr_node := n', nr_accepting := x\<rparr>)"
proof (cases "connection_attempt_running (nr_node r)")
  case True
  then show ?thesis
    using assms(1,2) assms(3) [unfolded accept_returns [OF node_ok_attempt [OF assms(1)]]]
    by (cases "nr_connecting r") (auto simp: node_ok_def Let_def split: if_splits)
next
  case False
  then show ?thesis
    using assms(1,2) assms(3) [unfolded accept_returns [OF node_ok_attempt [OF assms(1)]]]
    by (cases "nr_connecting r") (auto simp: node_ok_def Let_def split: if_splits)
qed

text \<open>
  Entries that are handed to the node have passed the validity check, as those of \<open>browse_round\<close> have, and a websocket
  that was accepted can be used.
\<close>

fun event_ok :: "('j, 't) node_event \<Rightarrow> bool" where
  "event_ok (EvEntries (Some es)) = list_all MdnsEntryIsValid es"
| "event_ok (EvAccept idle p err) = (err = kEebusErrorOk)"
| "event_ok _ = True"

lemma valid_entry_host: "MdnsEntryIsValid d \<Longrightarrow> me_host d \<noteq> None"
  by (auto simp: MdnsEntryIsValid_def StringIsEmpty_def split: option.splits)

lemma process_results_valid:
  "process_results rs s = Some s' \<Longrightarrow> list_all MdnsEntryIsValid (found_entries s) \<Longrightarrow> list_all MdnsEntryIsValid (found_entries s')"
  by (induction rs s rule: process_results.induct) (auto split: option.splits if_splits)

lemma browse_round_valid: "browse_round rs s = Some (Some es, s') \<Longrightarrow> list_all MdnsEntryIsValid es"
  by (auto simp: browse_round_def MdnsProcessSearchResult_def notify_copies intro: process_results_valid
      split: if_splits)

lemma queue_send_ok: "node_ok (r\<lparr>nr_node := n\<rparr>) \<Longrightarrow> NodeQueueSend m n = Inr n' \<Longrightarrow> node_ok (r\<lparr>nr_node := n'\<rparr>)"
  by (auto simp: NodeQueueSend_def node_ok_queue split: if_splits)

lemma entries_ok:
  assumes "event_ok (EvEntries found)" and "node_ok r" and "ShipNodeOnMdnsEntriesFound found (nr_node r) = Inr n'"
  shows "node_ok (r\<lparr>nr_node := n'\<rparr>)"
proof (cases "sn_cancel (nr_node r) \<or> found = None")
  case True
  then show ?thesis using assms by (auto simp: ShipNodeOnMdnsEntriesFound_def split: if_splits)
next
  case False
  then obtain es where es: "found = Some es" "\<not> sn_cancel (nr_node r)" by auto
  let ?n = "read_call (OnRemoteServicesUpdate es) ((nr_node r)\<lparr>mdns_entries := es, search_for_remote_ski := True\<rparr>)"
  have "node_ok (r\<lparr>nr_node := ?n\<rparr>)"
    using assms(1,2) es(1) valid_entry_host unfolding node_ok_reader by (auto simp: node_ok_def Let_def list_all_iff)
  then show ?thesis
    using assms(3) es by (auto simp: ShipNodeOnMdnsEntriesFound_def Let_def intro: queue_send_ok split: if_splits)
qed

lemma message_ok:
  assumes "node_ok (r\<lparr>nr_node := n\<rparr>)" and "nr_connecting r = None" and "conns n p = None"
    and "handle_node_message e idle p creator m n = Inr (new, n')"
  shows "node_ok (r\<lparr>nr_node := n', nr_connecting := new\<rparr>)"
proof -
  have u: "node_ok (r\<lparr>nr_node := n\<lparr>sn_remote_ski := x\<rparr>\<rparr>)" for x using assms(1) by (simp add: node_ok_def Let_def)
  have c: "node_ok (r\<lparr>nr_node := n'\<rparr>) \<Longrightarrow> node_ok (r\<lparr>nr_node := n', nr_connecting := None\<rparr>)" for n'
    using assms(2) by (simp add: node_ok_def Let_def)
  show ?thesis
  proof (cases m)
    case kShipNodeQueueMsgTypeMdnsEntriesFound
    then show ?thesis using assms ConnectToRemoteSki_begin_ok by (auto simp: handle_node_message_def)
  next
    case (kShipNodeQueueMsgTypeShipConnectionClosed q b)
    then show ?thesis
      using assms c CloseShipConnection_ok [OF assms(1,2), of e] by (auto simp: handle_node_message_def map_sum_def split: sum.splits)
  next
    case (kShipNodeQueueMsgTypeShipUnregisterSki ski)
    then show ?thesis
      using assms c u CloseShipConnection_ok [OF u assms(2), of e]
      by (auto simp: handle_node_message_def ShipNodeUnregisterSki_def Let_def map_sum_def split: sum.splits if_splits)
  qed (use assms c u in \<open>auto simp: handle_node_message_def ShipNodeRegisterSki_def\<close>)
qed

lemma message_safe:
  assumes "node_ok (r\<lparr>nr_node := n\<rparr>)" and "nr_connecting r = None"
  shows "handle_node_message e idle p creator m n \<noteq> Inl Crashes"
proof -
  have u: "node_ok (r\<lparr>nr_node := n\<lparr>sn_remote_ski := None\<rparr>\<rparr>)" using assms(1) by (simp add: node_ok_def Let_def)
  show ?thesis
    using ConnectToRemoteSki_begin_safe [OF assms(1)] CloseShipConnection_safe [OF assms, of e]
      CloseShipConnection_safe [OF u assms(2), of e]
    by (auto simp: handle_node_message_def ShipNodeUnregisterSki_def Let_def map_sum_def
        split: ShipNodeQueueMessage.splits sum.splits if_splits)
qed

lemma node_ok_step: "event_ok ev \<Longrightarrow> node_ok r \<Longrightarrow> node_step ev r = Inr r' \<Longrightarrow> node_ok r'"
proof (cases ev)
  case (EvEntries found)
  assume "event_ok ev" "node_ok r" "node_step ev r = Inr r'"
  then show ?thesis
    using EvEntries entries_ok [of found r] by (auto simp: map_sum_def split: sum.splits if_splits)
next
  case (EvLoop e idle p creator)
  assume a: "event_ok ev" "node_ok r" "node_step ev r = Inr r'"
  then obtain m q new n' where m: "nr_connecting r = None" "conns (nr_node r) p = None"
    "handle_node_message e idle p creator m ((nr_node r)\<lparr>sn_msg_queue := q\<rparr>) = Inr (new, n')"
    "r' = r\<lparr>nr_node := n', nr_connecting := new\<rparr>"
    using EvLoop by (auto simp: map_sum_def split: sum.splits if_splits list.splits)
  have "node_ok (r\<lparr>nr_node := (nr_node r)\<lparr>sn_msg_queue := q\<rparr>\<rparr>)" using a(2) by (simp add: node_ok_queue)
  then show ?thesis using message_ok [OF _ m(1) _ m(3)] m(2,4) by simp
next
  case (EvConnected e err)
  assume a: "event_ok ev" "node_ok r" "node_step ev r = Inr r'"
  then obtain p n1 where p: "nr_connecting r = Some p" "ConnectToService_end e p err (nr_node r) = Inr n1"
    "r' = r\<lparr>nr_node := n1\<lparr>search_for_remote_ski := False\<rparr>, nr_connecting := None\<rparr>"
    using EvConnected by (auto simp: ConnectToRemoteSki_end_def map_sum_def split: sum.splits option.splits)
  then show ?thesis using ConnectToService_end_ok [OF a(2) p(1,2)] by (simp add: node_ok_def Let_def)
next
  case (EvInbound ski allowed)
  assume "event_ok ev" "node_ok r" "node_step ev r = Inr r'"
  then show ?thesis
    using EvInbound by (auto simp: OnWebsocketServerConnection_trust_def node_ok_def Let_def split: if_splits)
next
  case (EvAccept idle p err)
  assume a: "event_ok ev" "node_ok r" "node_step ev r = Inr r'"
  then show ?thesis
    using EvAccept accept_ok [OF a(2)] by (auto simp: map_sum_def split: sum.splits if_splits)
next
  case (EvThread p e)
  assume "event_ok ev" "node_ok r" "node_step ev r = Inr r'"
  then show ?thesis
    using EvThread node_ok_moves [of r p] by (auto simp: map_sum_def split: sum.splits if_splits option.splits)
next
  case (EvConnection p e sev)
  assume "event_ok ev" "node_ok r" "node_step ev r = Inr r'"
  then show ?thesis
    using EvConnection node_ok_moves [of r p] by (auto simp: map_sum_def split: sum.splits if_splits option.splits)
next
  case (EvRegister ski)
  assume "event_ok ev" "node_ok r" "node_step ev r = Inr r'"
  then show ?thesis
    using EvRegister queue_send_ok [where r = r and n = "nr_node r"] by (auto simp: RegisterRemoteSki_def map_sum_def split: sum.splits)
next
  case (EvUnregister ski)
  assume "event_ok ev" "node_ok r" "node_step ev r = Inr r'"
  then show ?thesis
    using EvUnregister queue_send_ok [where r = r and n = "nr_node r"]
    by (auto simp: UnregisterRemoteSki_def map_sum_def split: sum.splits if_splits)
next
  case EvNodeStop
  assume a: "event_ok ev" "node_ok r" "node_step ev r = Inr r'"
  have "node_ok (r\<lparr>nr_node := (nr_node r)\<lparr>sn_cancel := True\<rparr>\<rparr>)" using a(2) by (simp add: node_ok_def Let_def)
  then show ?thesis
    using EvNodeStop a(3) queue_send_ok by (auto simp: NodeStop_request_def map_sum_def split: sum.splits)
qed

lemma queue_send_safe: "NodeQueueSend m n \<noteq> Inl Crashes"
  by (simp add: NodeQueueSend_def)

lemma node_step_safe:
  assumes "event_ok ev" and "node_ok r"
  shows "node_step ev r \<noteq> Inl Crashes"
proof (cases ev)
  case (EvLoop e idle p creator)
  have "node_ok (r\<lparr>nr_node := (nr_node r)\<lparr>sn_msg_queue := q\<rparr>\<rparr>)" for q using assms(2) by (simp add: node_ok_queue)
  then show ?thesis
    using EvLoop message_safe [where r = r and e = e] by (auto simp: map_sum_def split: sum.splits list.splits)
next
  case (EvConnected e err)
  then show ?thesis
    using ConnectToService_end_safe [OF assms(2), of _ e]
    by (auto simp: ConnectToRemoteSki_end_def map_sum_def split: sum.splits option.splits)
next
  case (EvAccept idle p err)
  then show ?thesis
    using accept_returns [OF node_ok_attempt [OF assms(2)]] by (auto simp: map_sum_def split: sum.splits)
qed (auto simp: map_sum_def ShipNodeOnMdnsEntriesFound_def Let_def RegisterRemoteSki_def UnregisterRemoteSki_def NodeStop_request_def
      queue_send_safe connection_moves_safe split: sum.splits option.splits if_splits prod.splits)

interpretation memory: node_invariant event_ok node_ok
  by unfold_locales (rule node_ok_step)


section \<open>Trust\<close>

text \<open>The SKIs that an event makes trusted: it is registered, or it connects while pairing is allowed.\<close>

fun grants :: "('j, 't) node_event \<Rightarrow> string set" where
  "grants (EvRegister (Some ski)) = {ski}"
| "grants (EvInbound (Some ski) True) = {ski}"
| "grants _ = {}"

definition conn_trusted :: "string set \<Rightarrow> 't ShipConnection \<Rightarrow> bool" where
  "conn_trusted G c \<longleftrightarrow> sc_inv c \<and> (\<exists>ski \<in> G. remote_ski c = Some ski)"

definition node_trusts :: "string set \<Rightarrow> 't ShipNode \<Rightarrow> bool" where
  "node_trusts G n \<longleftrightarrow>
     (\<forall>ski. sn_remote_ski n = Some ski \<longrightarrow> ski \<in> G) \<and>
     (\<forall>ski. kShipNodeQueueMsgTypeShipRegisterSki (Some ski) \<in> set (sn_msg_queue n) \<longrightarrow> ski \<in> G) \<and>
     (\<forall>p c. conns n p = Some c \<longrightarrow> conn_trusted G c)"

definition run_trusts :: "string set \<Rightarrow> 't NodeRun \<Rightarrow> bool" where
  "run_trusts G r \<longleftrightarrow> node_trusts G (nr_node r) \<and> (\<forall>ski. nr_accepting r = Some ski \<longrightarrow> ski \<in> G)"

lemma trusts_calls: "only_calls n n' \<Longrightarrow> node_trusts G n \<Longrightarrow> node_trusts G n'"
  using only_calls_queue(2) [of n n'] by (auto simp: node_trusts_def only_calls_fields)

lemma trusts_conn: "node_trusts G n \<Longrightarrow> conn_trusted G c \<Longrightarrow> node_trusts G (n\<lparr>conns := (conns n)(p \<mapsto> c)\<rparr>)"
  by (auto simp: node_trusts_def)

lemma trusts_moves:
  "connection_moves p c c' n = Inr n' \<Longrightarrow> node_trusts G n \<Longrightarrow> conn_trusted G c' \<Longrightarrow> node_trusts G n'"
  using trusts_calls [OF connection_moves_frame] trusts_conn by blast

lemma trusts_stop:
  assumes "StopConnection e p n = Inr n'" and "node_trusts G n"
  shows "node_trusts G n'"
proof -
  obtain c c' where c: "conns n p = Some c" "remote_ski c' = remote_ski c" "sc_inv c \<longrightarrow> sc_inv c'"
    "only_calls (n\<lparr>conns := (conns n)(p \<mapsto> c')\<rparr>) n'"
    by (rule StopConnection_returns [OF assms(1)])
  have "conn_trusted G c" using assms(2) c(1) by (auto simp: node_trusts_def)
  then have "conn_trusted G c'" using c(2,3) by (simp add: conn_trusted_def)
  then show ?thesis using trusts_calls [OF c(4)] trusts_conn assms(2) by blast
qed

lemma trusts_delete: "DeleteConnection p n = Inr n' \<Longrightarrow> node_trusts G n \<Longrightarrow> node_trusts G n'"
  by (auto simp: node_trusts_def dest!: DeleteConnection_returns split: if_splits)

lemma trusts_fields [simp]:
  "node_trusts G (read_call x n) = node_trusts G n"
  "node_trusts G (n\<lparr>cancel_ship_connection := a\<rparr>) = node_trusts G n"
  "node_trusts G (n\<lparr>ship_connection := a\<rparr>) = node_trusts G n"
  "node_trusts G (n\<lparr>connection_attempt_running := b\<rparr>) = node_trusts G n"
  "node_trusts G (n\<lparr>outbound_skip_remaining := k\<rparr>) = node_trusts G n"
  "node_trusts G (n\<lparr>search_for_remote_ski := b\<rparr>) = node_trusts G n"
  "node_trusts G (n\<lparr>started := st\<rparr>) = node_trusts G n"
  "node_trusts G (n\<lparr>sn_cancel := b\<rparr>) = node_trusts G n"
  "node_trusts G (n\<lparr>mdns_entries := es\<rparr>) = node_trusts G n"
  by (simp_all add: node_trusts_def read_call_def)

lemma trusts_close: "CloseShipConnection e sc b n = Inr n' \<Longrightarrow> node_trusts G n \<Longrightarrow> node_trusts G n'"
  by (fastforce simp: CloseShipConnection_def dest: trusts_delete trusts_stop split: option.splits if_splits sum.splits)

lemma constructed_trusted:
  assumes "s \<in> G"
  shows "conn_trusted G (ShipConnectionConstruct r i (Some s) x idle)"
proof -
  have "sc_inv (ShipConnectionConstruct r i (Some s) x idle)" by (rule sc_inv_reachable [OF sc_reachable.reach_init])
  moreover have "remote_ski (ShipConnectionConstruct r i (Some s) x idle) = Some s"
    by (simp add: ShipConnectionConstruct_def StringCopy_def)
  ultimately show ?thesis using assms by (auto simp: conn_trusted_def)
qed

lemma trusts_begin:
  assumes "ConnectToRemoteSki_begin idle p creator n = Inr (new, n')" and "node_trusts G n"
  shows "node_trusts G n'"
proof (cases "ShipNodeFindService n")
  case None
  then show ?thesis using assms by (auto simp: ConnectToRemoteSki_begin_def)
next
  case (Some d)
  then obtain s where s: "me_ski d = Some s" "sn_remote_ski n = Some s"
    by (auto simp: ShipNodeFindService_def find_Some_iff SkiMatches_def StringIsEmpty_def split: if_splits option.splits)
  then have "s \<in> G" using assms(2) by (auto simp: node_trusts_def)
  then have "node_trusts G (n\<lparr>conns := (conns n)(p \<mapsto> ShipConnectionConstruct r i (Some s) x idle)\<rparr>)" for r i x
    using trusts_conn [OF assms(2) constructed_trusted] by blast
  then show ?thesis
    using assms Some s(1)
    by (auto simp: ConnectToRemoteSki_begin_def ConnectToService_begin_def split: option.splits if_splits sum.splits)
qed

lemma trusts_aside: "put_aside e sc n = Inr n' \<Longrightarrow> node_trusts G n \<Longrightarrow> node_trusts G n'"
  by (auto simp: put_aside_def dest: trusts_delete trusts_stop split: option.splits if_splits sum.splits)

lemma trusts_end: "ConnectToRemoteSki_end e p err n = Inr n' \<Longrightarrow> node_trusts G n \<Longrightarrow> node_trusts G n'"
  by (fastforce simp: ConnectToRemoteSki_end_def ConnectToService_end_def Let_def
      dest: trusts_delete trusts_aside split: if_splits sum.splits)

lemma trusts_send:
  "NodeQueueSend m n = Inr n' \<Longrightarrow> (\<And>ski. m = kShipNodeQueueMsgTypeShipRegisterSki (Some ski) \<Longrightarrow> ski \<in> G) \<Longrightarrow>
   node_trusts G n \<Longrightarrow> node_trusts G n'"
  by (auto simp: NodeQueueSend_def node_trusts_def split: if_splits)

lemma trusts_message:
  assumes "handle_node_message e idle p creator m (n\<lparr>sn_msg_queue := q\<rparr>) = Inr (new, n')"
    and "sn_msg_queue n = m # q" and "node_trusts G n"
  shows "node_trusts G n'"
proof -
  have q: "node_trusts G (n\<lparr>sn_msg_queue := q\<rparr>)" "node_trusts G (n\<lparr>sn_msg_queue := q, sn_remote_ski := None\<rparr>)"
    using assms(2,3) by (auto simp: node_trusts_def)
  show ?thesis
  proof (cases m)
    case (kShipNodeQueueMsgTypeShipRegisterSki ski)
    then show ?thesis using assms by (auto simp: handle_node_message_def ShipNodeRegisterSki_def StringCopy_def node_trusts_def)
  next
    case (kShipNodeQueueMsgTypeShipUnregisterSki ski)
    then show ?thesis using assms(1) q(2)
      by (auto simp: handle_node_message_def ShipNodeUnregisterSki_def Let_def map_sum_def
          dest: trusts_close split: sum.splits if_splits)
  next
    case (kShipNodeQueueMsgTypeShipConnectionClosed c b)
    then show ?thesis using assms(1) q(1)
      by (auto simp: handle_node_message_def map_sum_def dest: trusts_close split: sum.splits)
  next
    case kShipNodeQueueMsgTypeMdnsEntriesFound
    then show ?thesis using assms(1) trusts_begin [OF _ q(1)] by (simp add: handle_node_message_def)
  next
    case kShipNodeQueueMsgTypeCancel
    then show ?thesis using assms(1) q(1) by (auto simp: handle_node_message_def)
  qed
qed

lemma trusts_accept:
  assumes "OnWebsocketServerConnection_accept idle p (Some s) err n = Inr n'" and "node_trusts G n" and "s \<in> G"
  shows "node_trusts G n'"
proof -
  have "node_trusts G (n\<lparr>conns := (conns n)(p \<mapsto> ShipConnectionConstruct r i (Some s) x idle)\<rparr>)" for r i x
    using trusts_conn [OF assms(2) constructed_trusted [OF assms(3)]] .
  then show ?thesis
    using assms(1,2)
    by (auto simp: OnWebsocketServerConnection_accept_def OnWebsocketServerConnection_create_def node_trusts_def
        OnWebsocketServerConnection_start_def Let_def split: if_splits option.splits)
qed

lemma trusts_thread:
  "conns n p = Some c \<Longrightarrow> node_trusts G n \<Longrightarrow> HandleState e c = Some c' \<Longrightarrow> conn_trusted G c'"
  using HandleState_ski [of c e c'] sc_inv_handle [of c e c'] by (auto simp: node_trusts_def conn_trusted_def)

lemma trusts_event:
  "conns n p = Some c \<Longrightarrow> node_trusts G n \<Longrightarrow> handle_event e ev c = Some c' \<Longrightarrow> conn_trusted G c'"
  using handle_event_ski [of e ev c c'] sc_inv_after [OF _ handle_event_after [of e ev c c']]
  by (auto simp: node_trusts_def conn_trusted_def)

lemma run_trusts_step:
  assumes "grants ev \<subseteq> G" and "run_trusts G r" and "node_step ev r = Inr r'"
  shows "run_trusts G r'"
proof -
  have t: "node_trusts G (nr_node r)" "\<And>ski. nr_accepting r = Some ski \<Longrightarrow> ski \<in> G"
    using assms(2) by (auto simp: run_trusts_def)
  show ?thesis
  proof (cases ev)
    case (EvEntries found)
    then show ?thesis using assms(3) t
      by (auto simp: run_trusts_def ShipNodeOnMdnsEntriesFound_def Let_def map_sum_def dest!: trusts_send
          split: sum.splits if_splits option.splits)
  next
    case (EvLoop e idle p creator)
    then obtain m q new n' where "sn_msg_queue (nr_node r) = m # q"
      "handle_node_message e idle p creator m ((nr_node r)\<lparr>sn_msg_queue := q\<rparr>) = Inr (new, n')"
      "r' = r\<lparr>nr_node := n', nr_connecting := new\<rparr>"
      using assms(3) by (auto simp: map_sum_def split: sum.splits if_splits list.splits)
    then show ?thesis using trusts_message t by (auto simp: run_trusts_def)
  next
    case (EvConnected e err)
    then show ?thesis using assms(3) t
      by (auto simp: run_trusts_def map_sum_def dest: trusts_end split: sum.splits option.splits)
  next
    case (EvInbound ski allowed)
    then show ?thesis using assms(1,3) t
      by (cases ski; cases allowed)
         (auto simp: run_trusts_def OnWebsocketServerConnection_trust_def node_trusts_def SkiMatches_def StringCopy_def
           split: if_splits)
  next
    case (EvAccept idle p err)
    then show ?thesis using assms(3) t
      by (auto simp: run_trusts_def map_sum_def dest: trusts_accept split: sum.splits if_splits)
  next
    case (EvThread p e)
    then show ?thesis using assms(3) t
      by (auto simp: run_trusts_def map_sum_def dest: trusts_moves trusts_thread split: sum.splits if_splits option.splits)
  next
    case (EvConnection p e sev)
    then show ?thesis using assms(3) t
      by (auto simp: run_trusts_def map_sum_def dest: trusts_moves trusts_event split: sum.splits option.splits)
  next
    case (EvRegister ski)
    then show ?thesis using assms(1,3) t
      by (cases ski) (auto simp: run_trusts_def RegisterRemoteSki_def StringCopy_def map_sum_def dest!: trusts_send split: sum.splits)
  next
    case (EvUnregister ski)
    then show ?thesis using assms(3) t
      by (auto simp: run_trusts_def UnregisterRemoteSki_def map_sum_def dest!: trusts_send split: sum.splits if_splits)
  next
    case EvNodeStop
    then show ?thesis using assms(3) t
      by (auto simp: run_trusts_def NodeStop_request_def map_sum_def dest!: trusts_send split: sum.splits)
  qed
qed

interpretation trust: node_invariant "\<lambda>ev. grants ev \<subseteq> G" "run_trusts G"
  by unfold_locales (rule run_trusts_step)

text \<open>
  C11. Only trusted devices get a connection: in every run of the node, each connection object that exists, outgoing
  or incoming, is one with a SKI that was registered before, or that connected while the reader allowed
  pairing.
\<close>

theorem connections_are_trusted:
  assumes "node_run evs (node_initial (ShipNodeConstruct role_name details skip)) = Inr r"
    and "conns (nr_node r) p = Some c"
  shows "\<exists>ski. remote_ski c = Some ski \<and> (\<exists>ev \<in> set evs. ski \<in> grants ev)"
proof -
  let ?G = "\<Union>(grants ` set evs)"
  have "run_trusts ?G (node_initial (ShipNodeConstruct role_name details skip))"
    by (auto simp: run_trusts_def node_trusts_def node_initial_def ShipNodeConstruct_def)
  then have "run_trusts ?G r"
    using trust.run [of evs ?G] assms(1) by blast
  then show ?thesis using assms(2) by (fastforce simp: run_trusts_def node_trusts_def conn_trusted_def)
qed

definition example_details :: ServiceDetails where
  "example_details = \<lparr>sd_ski = ''41c9'', sd_ipv4 = None, sd_ship_id = ''A'', sd_device_type = ''HeatPump'',
     sd_auto_accept = False, sd_is_trusted = False\<rparr>"

definition example_node :: "nat ShipNode" where
  "example_node = ShipNodeConstruct ''auto'' example_details 0"

definition example_run :: "(nat, nat) node_event list" where
  "example_run = [EvEntries None, EvInbound (Some ''0f01'') False, EvInbound (Some ''7e01'') True, EvAccept 0 5 kEebusErrorOk]"


lemma example_run_result:
  "\<exists>r c. node_run example_run (node_initial (ShipNodeConstruct ''auto'' example_details 0)) = Inr r \<and>
     conns (nr_node r) 5 = Some c \<and> remote_ski c = Some ''7e01''"
  by (simp add: example_run_def node_initial_def ShipNodeConstruct_def ShipNodeOnMdnsEntriesFound_def
      OnWebsocketServerConnection_trust_def SkiMatches_def StringIsEmpty_def StringCopy_def
      OnWebsocketServerConnection_accept_def OnWebsocketServerConnection_create_def OnWebsocketServerConnection_start_def
      ShipConnectionConstruct_def)

theorem connections_are_trusted_witness:
  "\<exists>r c. node_run example_run (node_initial (ShipNodeConstruct ''auto'' example_details 0)) = Inr r \<and>
     conns (nr_node r) 5 = Some c \<and> (\<exists>ski. remote_ski c = Some ski \<and> (\<exists>ev \<in> set example_run. ski \<in> grants ev))"
proof -
  obtain r c where r: "node_run example_run (node_initial (ShipNodeConstruct ''auto'' example_details 0)) = Inr r"
    "conns (nr_node r) 5 = Some c"
    using example_run_result by blast
  show ?thesis using r connections_are_trusted [OF r] by blast
qed

section \<open>Double connections\<close>

lemma strcmp_greater_total: "a \<noteq> b \<Longrightarrow> strcmp_greater a b \<longleftrightarrow> \<not> strcmp_greater b a"
proof (induction a b rule: strcmp_greater.induct)
  case (1 b)
  then show ?case by (cases b) auto
next
  case (3 x a y b)
  have "of_char y < (of_char x :: nat) \<longleftrightarrow> \<not> of_char x < (of_char y :: nat)" if "x \<noteq> y"
    using that linorder_less_linear [of "of_char x :: nat" "of_char y"] by auto
  then show ?case using 3 by (cases "x = y") auto
qed auto

lemma local_ski_higher_started [simp]: "local_ski_higher (n\<lparr>started := st\<rparr>) = local_ski_higher n"
  by (simp add: local_ski_higher_def split: option.split)

lemma tie_break:
  assumes "ship_connection n = Some i" and "i \<noteq> p" and "ConnectToService_end e p kEebusErrorOk n = Inr n'"
  shows "ship_connection n' = Some (if local_ski_higher n then p else i)"
proof (cases "local_ski_higher n")
  case True
  then show ?thesis
    using assms by (auto simp: ConnectToService_end_def Let_def split: sum.splits)
next
  case False
  then have "put_aside e (Some p) (n\<lparr>started := (started n)(p := True)\<rparr>) = Inr n'"
    using assms by (auto simp: ConnectToService_end_def Let_def)
  from put_aside_returns [OF this] show ?thesis using assms(1) False by (auto split: if_splits)
qed


definition example_racing :: "string \<Rightarrow> string \<Rightarrow> nat ShipNode" where
  "example_racing ski peer =
     (ShipNodeConstruct ''auto'' (example_details\<lparr>sd_ski := ski\<rparr>) 0)
       \<lparr>sn_remote_ski := Some peer, ship_connection := Some 2, connection_attempt_running := True,
        conns := [1 \<mapsto> ShipConnectionConstruct kShipRoleClient (Some ''A'') (Some peer) (Some '''') 0,
                  2 \<mapsto> ShipConnectionConstruct kShipRoleServer (Some ''A'') (Some peer) (Some '''') 0],
        started := (\<lambda>p. p = 2)\<rparr>"

definition example_env :: "(nat, nat) env" where
  "example_env = \<lparr>env_json = undefined, env_timer = undefined, env_write = (\<lambda>_. length), env_data_reader = True, env_events = []\<rparr>"


text \<open>
  The node remembers one connection that was replaced. When a trusted device connects for the second time
  while a replaced connection still exists, the node forgets that one: it stays allocated with its
  thread running, no member refers to it, so no report of its end will free it, and the reader is not
  told that the device is gone.
\<close>

theorem accept_forgets_replaced_connection:
  assumes "connection_attempt_running n" and "ship_connection n = Some q" and "cancel_ship_connection n = Some a"
    and "a \<noteq> q" and "a \<noteq> p" and "conns n a = Some c" and "started n a"
  shows "\<exists>n'. OnWebsocketServerConnection_accept idle p ski err n = Inr n' \<and> conns n' a = Some c \<and> started n' a \<and>
    ship_connection n' = Some p \<and> cancel_ship_connection n' = Some q \<and> reader_calls n' = reader_calls n \<and>
    CloseShipConnection e (Some a) had_error n' = Inr n'"
  using assms by (simp add: accept_returns CloseShipConnection_def)

theorem accept_forgets_replaced_connection_witness:
  "\<exists>n'. OnWebsocketServerConnection_accept 0 3 (Some ''41c9'') kEebusErrorOk
      ((example_racing ''7e01'' ''41c9'')\<lparr>cancel_ship_connection := Some 1, started := (\<lambda>_. True)\<rparr>) = Inr n' \<and>
    conns n' 1 \<noteq> None \<and> CloseShipConnection example_env (Some 1) True n' = Inr n'"
proof -
  let ?n = "(example_racing ''7e01'' ''41c9'')\<lparr>cancel_ship_connection := Some 1, started := (\<lambda>_. True)\<rparr>"
  obtain c where c: "conns ?n 1 = Some c" by (simp add: example_racing_def)
  have "\<exists>n'. OnWebsocketServerConnection_accept 0 3 (Some ''41c9'') kEebusErrorOk ?n = Inr n' \<and> conns n' 1 = Some c \<and>
    started n' 1 \<and> ship_connection n' = Some 3 \<and> cancel_ship_connection n' = Some 2 \<and> reader_calls n' = reader_calls ?n \<and>
    CloseShipConnection example_env (Some 1) True n' = Inr n'"
    by (rule accept_forgets_replaced_connection [OF _ _ _ _ _ c]) (simp_all add: example_racing_def ShipNodeConstruct_def)
  then show ?thesis by auto
qed

text \<open>
  The callback of the HTTP server does not hold the mutex when it has created a connection: if the loop handles an
  unregistration before the connection is started, it stops a connection that has no queue yet.
\<close>

lemma unregister_during_accept_crashes:
  assumes "OnWebsocketServerConnection_create idle p ski n = Some n'" and "\<not> started n p"
    and "cancel_ship_connection n \<noteq> Some p" and "ship_connection n \<noteq> Some p"
  shows "ShipNodeUnregisterSki e n' = Inl Crashes"
  using assms
  by (auto simp: OnWebsocketServerConnection_create_def ShipNodeUnregisterSki_def CloseShipConnection_def StopConnection_def
      Let_def split: if_splits)

end
