(* ===== verification/Eebus_Data.thy ===== *)
theory Eebus_Data
  imports Eebus_Prelude
begin

unbundle bit_operations_syntax

text \<open>
  The descriptor-driven data of SPINE: \<^verbatim>\<open>common/eebus_data\<close>. A descriptor tree (\<open>EebusDataCfg\<close>) says of
  every member of a C structure how it is compared, copied, merged and deleted; the functions of an
  interface are found through the descriptor's \<^verbatim>\<open>interface_\<close> pointer, here the enumeration
  \<open>EebusDataInterface\<close>.

  A value is what a structure member holds: \<open>Null\<close> for a null pointer (and for a reset tag), else the
  bytes of a simple value, a string, a set tag, the members of a structure in the order of its
  descriptors, the elements of a list, or the index and the data of a choice. Each C function that
  calls others through the interface is a definition that takes the dispatching function as its first
  argument; the dispatching functions, named like the C macros, tie the knot. An assertion that fails
  has no effect, as in a release build: the definitions follow the statements after it.

  The outcome of a call that writes is \<open>None\<close> when the destination holds data of another type than the
  code takes it for, or when an element of an empty buffer is read; else the error code and the new
  destination. \<open>z\<close> tells whether \<^verbatim>\<open>malloc(0)\<close> returns a pointer (glibc) or \<^verbatim>\<open>NULL\<close> (ESP-IDF).
\<close>

section \<open>Descriptors and values\<close>

datatype EebusDataInterface =
    eebus_data_bool_methods
  | eebus_data_numeric_methods
  | eebus_data_enum_methods
  | eebus_data_absolute_or_relative_time_methods
  | eebus_data_string_methods
  | eebus_data_tag_methods
  | eebus_data_sequence_methods
  | eebus_data_container_methods
  | eebus_data_choice_methods
  | eebus_data_list_methods
  | eebus_data_list_simple_methods
  | eebus_data_stub_methods

datatype EebusDataCfg =
  EebusDataCfg (cfg_interface: EebusDataInterface) (cfg_name: string) (cfg_size: nat) (flags: u32)
    (metadata: "EebusDataCfg list")

datatype EebusData =
    Null
  | Simple "byte list"
  | Str string
  | Tag
  | Seq "EebusData list"
  | Lst "EebusData list"
  | Choice nat EebusData

definition kEebusDataFlagIsIdentifier :: u32 where "kEebusDataFlagIsIdentifier = 1"
definition kEebusDataFlagIsSubIdentifier :: u32 where "kEebusDataFlagIsSubIdentifier = 2"
definition kEebusDataFlagIsReadOnly :: u32 where "kEebusDataFlagIsReadOnly = 3"

text \<open>The descriptor of the elements of a list, and of the selected alternative of a choice.\<close>

definition with_element :: "EebusDataCfg \<Rightarrow> 'a \<Rightarrow> (EebusDataCfg \<Rightarrow> 'a) \<Rightarrow> 'a" where
  "with_element cfg x f = (case metadata cfg of [] \<Rightarrow> x | ec # _ \<Rightarrow> f ec)"

definition with_choice :: "EebusDataCfg \<Rightarrow> nat \<Rightarrow> 'a \<Rightarrow> (EebusDataCfg \<Rightarrow> 'a) \<Rightarrow> 'a" where
  "with_choice cfg i x f = (if i < length (metadata cfg) then f (metadata cfg ! i) else x)"

lemma with_element_cong [fundef_cong]:
  "cfg = cfg' \<Longrightarrow> x = y \<Longrightarrow> (\<And>ec. ec \<in> set (metadata cfg') \<Longrightarrow> f ec = g ec) \<Longrightarrow>
   with_element cfg x f = with_element cfg' y g"
  by (auto simp: with_element_def split: list.split)

lemma with_choice_cong [fundef_cong]:
  "cfg = cfg' \<Longrightarrow> i = j \<Longrightarrow> x = y \<Longrightarrow> (\<And>c. c \<in> set (metadata cfg') \<Longrightarrow> f c = g c) \<Longrightarrow>
   with_choice cfg i x f = with_choice cfg' j y g"
  by (auto simp: with_choice_def)

lemma metadata_size [termination_simp]: "c \<in> set (metadata cfg) \<Longrightarrow> size c < size cfg"
  by (cases cfg) (auto dest: size_list_estimation' [where f = size, OF _ order_refl])

lemma metadata_zip_size [termination_simp]: "(c, v) \<in> set (zip (metadata cfg) vs) \<Longrightarrow> size c < size cfg"
  using metadata_size by (auto dest: set_zip_leftD)

text \<open>
  A value that has the shape its descriptor describes. A list buffer without elements exists only
  where \<^verbatim>\<open>malloc(0)\<close> returns a pointer.
\<close>

fun fits :: "bool \<Rightarrow> EebusDataCfg \<Rightarrow> EebusData \<Rightarrow> bool" where
  "fits z cfg v =
     (case cfg_interface cfg of
        eebus_data_stub_methods \<Rightarrow> v = Null
      | eebus_data_tag_methods \<Rightarrow> v = Null \<or> v = Tag
      | eebus_data_string_methods \<Rightarrow> (case v of Null \<Rightarrow> True | Str s \<Rightarrow> True | _ \<Rightarrow> False)
      | eebus_data_sequence_methods \<Rightarrow>
          (case v of Null \<Rightarrow> True
           | Seq ds \<Rightarrow> length ds = length (metadata cfg) \<and> 0 < cfg_size cfg \<and>
                       list_all (\<lambda>(c, d). fits z c d) (zip (metadata cfg) ds)
           | _ \<Rightarrow> False)
      | eebus_data_container_methods \<Rightarrow>
          (case v of Null \<Rightarrow> True
           | Seq ds \<Rightarrow> length ds = length (metadata cfg) \<and> 0 < cfg_size cfg \<and>
                       list_all (\<lambda>(c, d). fits z c d) (zip (metadata cfg) ds)
           | _ \<Rightarrow> False)
      | eebus_data_choice_methods \<Rightarrow>
          (case v of Choice i d \<Rightarrow> with_choice cfg i False (\<lambda>c. fits z c d) | _ \<Rightarrow> False)
      | eebus_data_list_methods \<Rightarrow>
          (case v of Null \<Rightarrow> True | Lst ds \<Rightarrow> with_element cfg False (\<lambda>ec. (z \<or> ds \<noteq> []) \<and> list_all (fits z ec) ds) | _ \<Rightarrow> False)
      | eebus_data_list_simple_methods \<Rightarrow>
          (case v of Null \<Rightarrow> True | Lst ds \<Rightarrow> with_element cfg False (\<lambda>ec. (z \<or> ds \<noteq> []) \<and> list_all (fits z ec) ds) | _ \<Rightarrow> False)
      | _ \<Rightarrow> (case v of Null \<Rightarrow> True | Simple bs \<Rightarrow> length bs = cfg_size cfg \<and> 0 < cfg_size cfg | _ \<Rightarrow> False))"

declare fits.simps [simp del]


section \<open>Null, empty, deleted\<close>

definition EebusDataChoice_IsNull ::
    "(EebusDataCfg \<Rightarrow> EebusData \<Rightarrow> bool) \<Rightarrow> EebusDataCfg \<Rightarrow> EebusData \<Rightarrow> bool" where
  "EebusDataChoice_IsNull is_null cfg v =
     (case v of Choice i d \<Rightarrow> with_choice cfg i False (\<lambda>c. is_null c d) | _ \<Rightarrow> False)"

definition EebusDataChoice_IsEmpty ::
    "(EebusDataCfg \<Rightarrow> EebusData \<Rightarrow> bool) \<Rightarrow> EebusDataCfg \<Rightarrow> EebusData \<Rightarrow> bool" where
  "EebusDataChoice_IsEmpty is_empty cfg v =
     (case v of Choice i d \<Rightarrow> with_choice cfg i False (\<lambda>c. is_empty c d) | _ \<Rightarrow> False)"

lemma choice_null_cong [fundef_cong]:
  assumes "cfg = cfg'" "v = w" "\<And>c d. c \<in> set (metadata cfg') \<Longrightarrow> f c d = g c d"
  shows "EebusDataChoice_IsNull f cfg v = EebusDataChoice_IsNull g cfg' w"
    and "EebusDataChoice_IsEmpty f cfg v = EebusDataChoice_IsEmpty g cfg' w"
  using assms by (simp_all add: EebusDataChoice_IsNull_def EebusDataChoice_IsEmpty_def split: EebusData.split
      cong: with_choice_cong)

fun EEBUS_DATA_IS_NULL :: "EebusDataCfg \<Rightarrow> EebusData \<Rightarrow> bool" where
  "EEBUS_DATA_IS_NULL cfg v =
     (case cfg_interface cfg of
        eebus_data_stub_methods \<Rightarrow> True
      | eebus_data_choice_methods \<Rightarrow> EebusDataChoice_IsNull EEBUS_DATA_IS_NULL cfg v
      | _ \<Rightarrow> v = Null)"

declare EEBUS_DATA_IS_NULL.simps [simp del]

definition EebusDataSequenceIsEmpty :: "EebusDataCfg \<Rightarrow> EebusData \<Rightarrow> bool" where
  "EebusDataSequenceIsEmpty cfg v =
     (case v of
        Seq ds \<Rightarrow> list_all (\<lambda>(c, d). EEBUS_DATA_IS_NULL c d) (zip (metadata cfg) ds)
      | _ \<Rightarrow> False)"

fun EEBUS_DATA_IS_EMPTY :: "EebusDataCfg \<Rightarrow> EebusData \<Rightarrow> bool" where
  "EEBUS_DATA_IS_EMPTY cfg v =
     (case cfg_interface cfg of
        eebus_data_sequence_methods \<Rightarrow> EebusDataSequenceIsEmpty cfg v
      | eebus_data_container_methods \<Rightarrow> EebusDataSequenceIsEmpty cfg v
      | eebus_data_choice_methods \<Rightarrow> EebusDataChoice_IsEmpty EEBUS_DATA_IS_EMPTY cfg v
      | _ \<Rightarrow> False)"

declare EEBUS_DATA_IS_EMPTY.simps [simp del]

definition EebusDataChoice_Delete ::
    "(EebusDataCfg \<Rightarrow> EebusData \<Rightarrow> EebusData) \<Rightarrow> EebusDataCfg \<Rightarrow> EebusData \<Rightarrow> EebusData" where
  "EebusDataChoice_Delete del cfg v =
     (case v of Choice i d \<Rightarrow> with_choice cfg i v (\<lambda>c. Choice i (del c d)) | _ \<Rightarrow> v)"

lemma choice_delete_cong [fundef_cong]:
  assumes "cfg = cfg'" "v = w" "\<And>c d. c \<in> set (metadata cfg') \<Longrightarrow> f c d = g c d"
  shows "EebusDataChoice_Delete f cfg v = EebusDataChoice_Delete g cfg' w"
  using assms by (simp add: EebusDataChoice_Delete_def split: EebusData.split cong: with_choice_cong)

text \<open>Deleting frees what a member points to, recursively, and leaves a null pointer.\<close>

fun EEBUS_DATA_DELETE :: "EebusDataCfg \<Rightarrow> EebusData \<Rightarrow> EebusData" where
  "EEBUS_DATA_DELETE cfg v =
     (case cfg_interface cfg of
        eebus_data_stub_methods \<Rightarrow> v
      | eebus_data_choice_methods \<Rightarrow> EebusDataChoice_Delete EEBUS_DATA_DELETE cfg v
      | _ \<Rightarrow> Null)"

declare EEBUS_DATA_DELETE.simps [simp del]

text \<open>A member of a structure that has just been allocated and set to zero.\<close>

definition empty_member :: "EebusDataCfg \<Rightarrow> EebusData" where
  "empty_member cfg = (if cfg_interface cfg = eebus_data_choice_methods then Choice 0 Null else Null)"

definition EebusDataBaseCreateEmpty :: "EebusDataCfg \<Rightarrow> EebusData" where
  "EebusDataBaseCreateEmpty cfg =
     (if cfg_size cfg = 0 then Null
      else if cfg_interface cfg \<in> {eebus_data_sequence_methods, eebus_data_container_methods}
      then Seq (map empty_member (metadata cfg))
      else Simple (replicate (cfg_size cfg) (CHR 0x00)))"

section \<open>Comparison\<close>

definition EebusDataSimpleCompare ::
    "EebusDataCfg \<Rightarrow> EebusData \<Rightarrow> EebusDataCfg \<Rightarrow> EebusData \<Rightarrow> bool" where
  "EebusDataSimpleCompare a_cfg a b_cfg b =
     (if cfg_interface a_cfg \<noteq> cfg_interface b_cfg then False
      else if a = Null \<or> b = Null then a = b
      else case (a, b) of
             (Simple x, Simple y) \<Rightarrow> take (cfg_size a_cfg) x = take (cfg_size a_cfg) y
           | _ \<Rightarrow> False)"

definition EebusDataString_Compare ::
    "EebusDataCfg \<Rightarrow> EebusData \<Rightarrow> EebusDataCfg \<Rightarrow> EebusData \<Rightarrow> bool" where
  "EebusDataString_Compare a_cfg a b_cfg b = (cfg_interface a_cfg = cfg_interface b_cfg \<and> a = b)"

definition EebusDataTag_Compare ::
    "EebusDataCfg \<Rightarrow> EebusData \<Rightarrow> EebusDataCfg \<Rightarrow> EebusData \<Rightarrow> bool" where
  "EebusDataTag_Compare a_cfg a b_cfg b =
     (cfg_interface a_cfg = cfg_interface b_cfg \<and>
      EEBUS_DATA_IS_NULL a_cfg a = EEBUS_DATA_IS_NULL b_cfg b)"

definition EebusDataSequenceCompare ::
    "(EebusDataCfg \<Rightarrow> EebusData \<Rightarrow> EebusDataCfg \<Rightarrow> EebusData \<Rightarrow> bool) \<Rightarrow>
     EebusDataCfg \<Rightarrow> EebusData \<Rightarrow> EebusDataCfg \<Rightarrow> EebusData \<Rightarrow> bool" where
  "EebusDataSequenceCompare compare a_cfg a b_cfg b =
     (if cfg_interface a_cfg \<noteq> cfg_interface b_cfg then False
      else if a = Null \<or> b = Null then a = b
      else case (a, b) of
             (Seq xs, Seq ys) \<Rightarrow>
               length (metadata a_cfg) = length (metadata b_cfg) \<and>
               list_all (\<lambda>((ac, x), (bc, y)). compare ac x bc y)
                 (zip (zip (metadata a_cfg) xs) (zip (metadata b_cfg) ys))
           | _ \<Rightarrow> False)"

definition EebusDataChoice_Compare ::
    "(EebusDataCfg \<Rightarrow> EebusData \<Rightarrow> EebusDataCfg \<Rightarrow> EebusData \<Rightarrow> bool) \<Rightarrow>
     EebusDataCfg \<Rightarrow> EebusData \<Rightarrow> EebusDataCfg \<Rightarrow> EebusData \<Rightarrow> bool" where
  "EebusDataChoice_Compare compare a_cfg a b_cfg b =
     (if cfg_interface a_cfg \<noteq> cfg_interface b_cfg then False
      else case (a, b) of
             (Choice i x, Choice j y) \<Rightarrow>
               with_choice a_cfg i False (\<lambda>ac. with_choice b_cfg j False (\<lambda>bc. compare ac x bc y))
           | _ \<Rightarrow> False)"

definition EebusDataList_Compare ::
    "(EebusDataCfg \<Rightarrow> EebusData \<Rightarrow> EebusDataCfg \<Rightarrow> EebusData \<Rightarrow> bool) \<Rightarrow>
     EebusDataCfg \<Rightarrow> EebusData \<Rightarrow> EebusDataCfg \<Rightarrow> EebusData \<Rightarrow> bool" where
  "EebusDataList_Compare compare a_cfg a b_cfg b =
     (if a = Null \<or> b = Null then a = b
      else case (a, b) of
             (Lst xs, Lst ys) \<Rightarrow>
               length xs = length ys \<and>
               with_element a_cfg False (\<lambda>ae. with_element b_cfg False (\<lambda>be.
                 list_all (\<lambda>(x, y). compare ae x be y) (zip xs ys)))
           | _ \<Rightarrow> False)"

lemma compare_cong [fundef_cong]:
  assumes "a_cfg = a_cfg'" "a = a'" "b_cfg = b_cfg'" "b = b'"
    and "\<And>c x d y. c \<in> set (metadata a_cfg') \<Longrightarrow> f c x d y = g c x d y"
  shows "EebusDataSequenceCompare f a_cfg a b_cfg b = EebusDataSequenceCompare g a_cfg' a' b_cfg' b'"
    and "EebusDataChoice_Compare f a_cfg a b_cfg b = EebusDataChoice_Compare g a_cfg' a' b_cfg' b'"
    and "EebusDataList_Compare f a_cfg a b_cfg b = EebusDataList_Compare g a_cfg' a' b_cfg' b'"
proof -
  have "list_all (\<lambda>((ac, x), (bc, y)). f ac x bc y) (zip (zip (metadata a_cfg') xs) zs) =
      list_all (\<lambda>((ac, x), (bc, y)). g ac x bc y) (zip (zip (metadata a_cfg') xs) zs)" for xs zs
    using assms(5) by (intro list_all_cong refl) (auto dest!: set_zip_leftD)
  then show "EebusDataSequenceCompare f a_cfg a b_cfg b = EebusDataSequenceCompare g a_cfg' a' b_cfg' b'"
    using assms by (simp add: EebusDataSequenceCompare_def split: EebusData.split)
  show "EebusDataChoice_Compare f a_cfg a b_cfg b = EebusDataChoice_Compare g a_cfg' a' b_cfg' b'"
    using assms by (auto simp: EebusDataChoice_Compare_def with_choice_def split: EebusData.split)
  have "with_element a_cfg' False (\<lambda>ae. with_element b_cfg' False (\<lambda>be. list_all (\<lambda>(x, y). f ae x be y) zs)) =
      with_element a_cfg' False (\<lambda>ae. with_element b_cfg' False (\<lambda>be. list_all (\<lambda>(x, y). g ae x be y) zs))" for zs
    using assms(5) by (intro with_element_cong list_all_cong refl) auto
  then show "EebusDataList_Compare f a_cfg a b_cfg b = EebusDataList_Compare g a_cfg' a' b_cfg' b'"
    using assms(1-4) by (simp add: EebusDataList_Compare_def split: EebusData.split)
qed

function EEBUS_DATA_COMPARE ::
    "EebusDataCfg \<Rightarrow> EebusData \<Rightarrow> EebusDataCfg \<Rightarrow> EebusData \<Rightarrow> bool" where
  "EEBUS_DATA_COMPARE a_cfg a b_cfg b =
     (case cfg_interface a_cfg of
        eebus_data_stub_methods \<Rightarrow> True
      | eebus_data_string_methods \<Rightarrow> EebusDataString_Compare a_cfg a b_cfg b
      | eebus_data_tag_methods \<Rightarrow> EebusDataTag_Compare a_cfg a b_cfg b
      | eebus_data_sequence_methods \<Rightarrow> EebusDataSequenceCompare EEBUS_DATA_COMPARE a_cfg a b_cfg b
      | eebus_data_container_methods \<Rightarrow> EebusDataSequenceCompare EEBUS_DATA_COMPARE a_cfg a b_cfg b
      | eebus_data_choice_methods \<Rightarrow> EebusDataChoice_Compare EEBUS_DATA_COMPARE a_cfg a b_cfg b
      | eebus_data_list_methods \<Rightarrow> EebusDataList_Compare EEBUS_DATA_COMPARE a_cfg a b_cfg b
      | eebus_data_list_simple_methods \<Rightarrow> EebusDataList_Compare EEBUS_DATA_COMPARE a_cfg a b_cfg b
      | _ \<Rightarrow> EebusDataSimpleCompare a_cfg a b_cfg b)"
  by pat_completeness auto
termination by (relation "measure (\<lambda>(a_cfg, _). size a_cfg)") (auto simp: metadata_size)

declare EEBUS_DATA_COMPARE.simps [simp del]


section \<open>Identifiers and selectors\<close>

definition EebusDataBaseHasIdentifiersFlags :: "EebusDataCfg \<Rightarrow> bool" where
  "EebusDataBaseHasIdentifiersFlags cfg =
     (flags cfg AND kEebusDataFlagIsIdentifier \<noteq> 0 \<or> flags cfg AND kEebusDataFlagIsSubIdentifier \<noteq> 0)"

definition EebusDataBaseHasIdentifiers :: "EebusDataCfg \<Rightarrow> EebusData \<Rightarrow> bool" where
  "EebusDataBaseHasIdentifiers cfg v =
     (if EEBUS_DATA_IS_NULL cfg v then False else EebusDataBaseHasIdentifiersFlags cfg)"

definition EebusDataSequenceHasIdentifiers ::
    "(EebusDataCfg \<Rightarrow> EebusData \<Rightarrow> bool) \<Rightarrow> EebusDataCfg \<Rightarrow> EebusData \<Rightarrow> bool" where
  "EebusDataSequenceHasIdentifiers has_identifiers cfg v =
     (case v of
        Seq ds \<Rightarrow> EebusDataBaseHasIdentifiersFlags cfg \<or>
                  list_ex (\<lambda>(c, d). has_identifiers c d) (zip (metadata cfg) ds)
      | _ \<Rightarrow> False)"

lemma has_identifiers_cong [fundef_cong]:
  assumes "cfg = cfg'" "v = w" "\<And>c d. c \<in> set (metadata cfg') \<Longrightarrow> f c d = g c d"
  shows "EebusDataSequenceHasIdentifiers f cfg v = EebusDataSequenceHasIdentifiers g cfg' w"
proof -
  have "list_ex (\<lambda>(c, d). f c d) (zip (metadata cfg') ds) = list_ex (\<lambda>(c, d). g c d) (zip (metadata cfg') ds)" for ds
    using assms(3) by (intro list_ex_cong refl) (auto dest!: set_zip_leftD)
  then show ?thesis using assms by (simp add: EebusDataSequenceHasIdentifiers_def split: EebusData.split)
qed

fun EEBUS_DATA_HAS_IDENTIFIERS :: "EebusDataCfg \<Rightarrow> EebusData \<Rightarrow> bool" where
  "EEBUS_DATA_HAS_IDENTIFIERS cfg v =
     (case cfg_interface cfg of
        eebus_data_stub_methods \<Rightarrow> False
      | eebus_data_choice_methods \<Rightarrow> False
      | eebus_data_list_methods \<Rightarrow> False
      | eebus_data_list_simple_methods \<Rightarrow> False
      | eebus_data_sequence_methods \<Rightarrow> EebusDataSequenceHasIdentifiers EEBUS_DATA_HAS_IDENTIFIERS cfg v
      | eebus_data_container_methods \<Rightarrow> EebusDataSequenceHasIdentifiers EEBUS_DATA_HAS_IDENTIFIERS cfg v
      | _ \<Rightarrow> EebusDataBaseHasIdentifiers cfg v)"

declare EEBUS_DATA_HAS_IDENTIFIERS.simps [simp del]

definition EebusDataBaseIdentifiersMatch :: "EebusDataCfg \<Rightarrow> EebusData \<Rightarrow> EebusData \<Rightarrow> bool" where
  "EebusDataBaseIdentifiersMatch cfg v src =
     (if \<not> EebusDataBaseHasIdentifiersFlags cfg then True
      else if EEBUS_DATA_IS_NULL cfg src then True
      else EEBUS_DATA_COMPARE cfg v cfg src)"

definition EebusDataSequenceIdentifiersMatch ::
    "(EebusDataCfg \<Rightarrow> EebusData \<Rightarrow> EebusData \<Rightarrow> bool) \<Rightarrow> EebusDataCfg \<Rightarrow> EebusData \<Rightarrow> EebusData \<Rightarrow> bool" where
  "EebusDataSequenceIdentifiersMatch identifiers_match cfg v src =
     (if EebusDataBaseHasIdentifiersFlags cfg then EEBUS_DATA_COMPARE cfg v cfg src
      else if \<not> EEBUS_DATA_HAS_IDENTIFIERS cfg src then True
      else case (v, src) of
             (Seq ds, Seq ss) \<Rightarrow>
               list_all (\<lambda>(c, d, s). identifiers_match c d s) (zip (metadata cfg) (zip ds ss))
           | _ \<Rightarrow> False)"

lemma identifiers_match_cong [fundef_cong]:
  assumes "cfg = cfg'" "v = v'" "s = s'" "\<And>c d e. c \<in> set (metadata cfg') \<Longrightarrow> f c d e = g c d e"
  shows "EebusDataSequenceIdentifiersMatch f cfg v s = EebusDataSequenceIdentifiersMatch g cfg' v' s'"
proof -
  have "list_all (\<lambda>(c, d, s). f c d s) (zip (metadata cfg') zs) =
      list_all (\<lambda>(c, d, s). g c d s) (zip (metadata cfg') zs)" for zs
    using assms(4) by (intro list_all_cong refl) (auto dest!: set_zip_leftD)
  then show ?thesis using assms(1-3) by (simp add: EebusDataSequenceIdentifiersMatch_def split: EebusData.split)
qed

fun EEBUS_DATA_IDENTIFIERS_MATCH :: "EebusDataCfg \<Rightarrow> EebusData \<Rightarrow> EebusData \<Rightarrow> bool" where
  "EEBUS_DATA_IDENTIFIERS_MATCH cfg v src =
     (case cfg_interface cfg of
        eebus_data_stub_methods \<Rightarrow> False
      | eebus_data_choice_methods \<Rightarrow> False
      | eebus_data_sequence_methods \<Rightarrow> EebusDataSequenceIdentifiersMatch EEBUS_DATA_IDENTIFIERS_MATCH cfg v src
      | eebus_data_container_methods \<Rightarrow> EebusDataSequenceIdentifiersMatch EEBUS_DATA_IDENTIFIERS_MATCH cfg v src
      | _ \<Rightarrow> EebusDataBaseIdentifiersMatch cfg v src)"

declare EEBUS_DATA_IDENTIFIERS_MATCH.simps [simp del]

text \<open>\<^verbatim>\<open>EebusDataSequenceGetFieldCfg\<close>, with the member the descriptor found stands for.\<close>

definition EebusDataSequenceGetFieldCfg ::
    "EebusDataCfg \<Rightarrow> EebusData list \<Rightarrow> string \<Rightarrow> (EebusDataCfg \<times> EebusData) option" where
  "EebusDataSequenceGetFieldCfg cfg ds nm =
     List.find (\<lambda>(c, d). cfg_name c = nm) (zip (metadata cfg) ds)"

definition EebusDataSequence_SelectorsMatch ::
    "EebusDataCfg \<Rightarrow> EebusData \<Rightarrow> EebusDataCfg \<Rightarrow> EebusData \<Rightarrow> bool" where
  "EebusDataSequence_SelectorsMatch cfg v selectors_cfg selectors =
     (if cfg_interface selectors_cfg \<noteq> eebus_data_sequence_methods then False
      else case selectors of
        Seq ss \<Rightarrow>
          (case v of
             Seq ds \<Rightarrow>
               list_all (\<lambda>(sc, s).
                   EEBUS_DATA_IS_NULL sc s \<or>
                   (case EebusDataSequenceGetFieldCfg cfg ds (cfg_name sc) of
                      None \<Rightarrow> True
                    | Some (c, d) \<Rightarrow> EEBUS_DATA_COMPARE c d sc s))
                 (zip (metadata selectors_cfg) ss)
           | _ \<Rightarrow> False)
      | _ \<Rightarrow> True)"

definition EEBUS_DATA_SELECTORS_MATCH ::
    "EebusDataCfg \<Rightarrow> EebusData \<Rightarrow> EebusDataCfg \<Rightarrow> EebusData \<Rightarrow> bool" where
  "EEBUS_DATA_SELECTORS_MATCH cfg v selectors_cfg selectors =
     (if cfg_interface cfg = eebus_data_sequence_methods
      then EebusDataSequence_SelectorsMatch cfg v selectors_cfg selectors else False)"

section \<open>Writing\<close>

type_synonym 'a written = "(EebusError \<times> 'a) option"

text \<open>The loop over the members or the elements of a destination: it stops at the first error.\<close>

fun write_loop :: "('x \<Rightarrow> 'd written) \<Rightarrow> ('d \<times> 'x) list \<Rightarrow> 'd list written" where
  "write_loop f [] = Some (kEebusErrorOk, [])"
| "write_loop f ((d, x) # r) =
     (case f x of
        None \<Rightarrow> None
      | Some (err, d') \<Rightarrow>
          if err \<noteq> kEebusErrorOk then Some (err, d' # map fst r)
          else map_option (\<lambda>(err', ds). (err', d' # ds)) (write_loop f r))"

lemma write_loop_cong [fundef_cong]:
  "xs = ys \<Longrightarrow> (\<And>d x. (d, x) \<in> set ys \<Longrightarrow> f x = g x) \<Longrightarrow> write_loop f xs = write_loop g ys"
proof (induction xs arbitrary: ys)
  case (Cons p xs)
  have "f (snd p) = g (snd p)" using Cons.prems(2) [of "fst p" "snd p"] Cons.prems(1) by auto
  moreover have "write_loop f xs = write_loop g xs"
  proof (rule Cons.IH [OF refl])
    show "f x = g x" if "(d, x) \<in> set xs" for d x
      using Cons.prems(2) [of d x] Cons.prems(1) that by auto
  qed
  ultimately show ?case using Cons.prems(1) by (cases p) (auto split: option.split)
qed simp

definition write_members ::
    "(EebusDataCfg \<Rightarrow> EebusData \<Rightarrow> EebusData \<Rightarrow> EebusData written) \<Rightarrow> EebusDataCfg \<Rightarrow>
     EebusData list \<Rightarrow> EebusData list \<Rightarrow> EebusData written" where
  "write_members f cfg ds ss =
     map_option (\<lambda>(err, ds). (err, Seq ds))
       (write_loop (\<lambda>(c, d, s). f c d s) (zip ds (zip (metadata cfg) (zip ds ss))))"

lemma zip_second: "(d, c, x) \<in> set (zip ds (zip cs xs)) \<Longrightarrow> c \<in> set cs"
  by (meson set_zip_leftD set_zip_rightD)

lemma write_members_cong [fundef_cong]:
  assumes "cfg = cfg'" "ds = ds'" "ss = ss'" "\<And>c d s. c \<in> set (metadata cfg') \<Longrightarrow> f c d s = g c d s"
  shows "write_members f cfg ds ss = write_members g cfg' ds' ss'"
proof -
  have "write_loop (\<lambda>(c, d, s). f c d s) (zip ds (zip (metadata cfg') (zip ds ss))) =
      write_loop (\<lambda>(c, d, s). g c d s) (zip ds (zip (metadata cfg') (zip ds ss)))"
    using assms(4) by (intro write_loop_cong refl) (auto dest: zip_second)
  then show ?thesis using assms by (simp add: write_members_def)
qed

definition EebusDataSimpleWrite :: "EebusDataCfg \<Rightarrow> EebusData \<Rightarrow> EebusData \<Rightarrow> EebusData written" where
  "EebusDataSimpleWrite cfg v src =
     (case src of
        Simple bs \<Rightarrow>
          if v = Null \<and> EebusDataBaseCreateEmpty cfg = Null then Some (kEebusErrorMemoryAllocate, v)
          else Some (kEebusErrorOk, Simple (take (cfg_size cfg) bs))
      | _ \<Rightarrow> Some (kEebusErrorOk, EEBUS_DATA_DELETE cfg v))"

definition EebusDataString_Write :: "EebusDataCfg \<Rightarrow> EebusData \<Rightarrow> EebusData \<Rightarrow> EebusData written" where
  "EebusDataString_Write cfg v src =
     Some (kEebusErrorOk, if src = Null then EEBUS_DATA_DELETE cfg v else src)"

definition EebusDataTag_Write :: "EebusDataCfg \<Rightarrow> EebusData \<Rightarrow> EebusData \<Rightarrow> EebusData written" where
  "EebusDataTag_Write cfg v src =
     Some (kEebusErrorOk, if src = Null then EEBUS_DATA_DELETE cfg v else src)"

text \<open>A null structure is allocated before its members are written; a type of size 0 cannot be.\<close>

definition with_buffer :: "EebusDataCfg \<Rightarrow> EebusData \<Rightarrow> (EebusData list \<Rightarrow> EebusData written) \<Rightarrow> EebusData written" where
  "with_buffer cfg v f =
     (case (if v = Null then EebusDataBaseCreateEmpty cfg else v) of
        Null \<Rightarrow> Some (kEebusErrorMemoryAllocate, Null)
      | Seq ds \<Rightarrow> f ds
      | _ \<Rightarrow> None)"

lemma with_buffer_cong [fundef_cong]:
  "cfg = cfg' \<Longrightarrow> v = w \<Longrightarrow> (\<And>ds. f ds = g ds) \<Longrightarrow> with_buffer cfg v f = with_buffer cfg' w g"
  by (simp add: with_buffer_def split: EebusData.split)

definition EebusDataSequenceWrite ::
    "(EebusDataCfg \<Rightarrow> EebusData \<Rightarrow> EebusData \<Rightarrow> EebusData written) \<Rightarrow>
     EebusDataCfg \<Rightarrow> EebusData \<Rightarrow> EebusData \<Rightarrow> EebusData written" where
  "EebusDataSequenceWrite write cfg v src =
     (case src of
        Seq ss \<Rightarrow> with_buffer cfg v (\<lambda>ds. write_members write cfg ds ss)
      | _ \<Rightarrow> Some (kEebusErrorOk, EEBUS_DATA_DELETE cfg v))"

text \<open>
  The alternative is switched first; the data the destination still holds is then written to as data
  of the new alternative. The result of that write is ignored.
\<close>

definition EebusDataChoice_Write ::
    "bool \<Rightarrow> (EebusDataCfg \<Rightarrow> EebusData \<Rightarrow> EebusData \<Rightarrow> EebusData written) \<Rightarrow>
     EebusDataCfg \<Rightarrow> EebusData \<Rightarrow> EebusData \<Rightarrow> EebusData written" where
  "EebusDataChoice_Write z write cfg v src =
     (case (v, src) of
        (Choice i d, Choice j s) \<Rightarrow>
          with_choice cfg j (Some (kEebusErrorInputArgument, v)) (\<lambda>c.
            if fits z c d then map_option (\<lambda>(err, d'). (kEebusErrorOk, Choice j d')) (write c d s) else None)
      | _ \<Rightarrow> None)"

text \<open>A list buffer of \<open>n\<close> null pointers; \<open>None\<close> when the allocation returns \<^verbatim>\<open>NULL\<close>.\<close>

definition CreateListBuffer :: "bool \<Rightarrow> nat \<Rightarrow> EebusData list option" where
  "CreateListBuffer z n = (if n = 0 \<and> \<not> z then None else Some (replicate n Null))"

definition EebusDataList_Write ::
    "bool \<Rightarrow> (EebusDataCfg \<Rightarrow> EebusData \<Rightarrow> EebusData \<Rightarrow> EebusData written) \<Rightarrow>
     EebusDataCfg \<Rightarrow> EebusData \<Rightarrow> EebusData \<Rightarrow> EebusData written" where
  "EebusDataList_Write z write cfg v src =
     (case src of
        Lst ss \<Rightarrow>
          (case (case v of Lst ds \<Rightarrow> if length ds = length ss then Some ds else CreateListBuffer z (length ss)
                 | _ \<Rightarrow> CreateListBuffer z (length ss)) of
             None \<Rightarrow> Some (kEebusErrorMemoryAllocate, Null)
           | Some ds \<Rightarrow>
               with_element cfg None (\<lambda>ec.
                 map_option (\<lambda>(err, ds). (err, Lst ds))
                   (write_loop (\<lambda>(d, s). write ec d s) (zip ds (zip ds ss)))))
      | _ \<Rightarrow> Some (kEebusErrorOk, EEBUS_DATA_DELETE cfg v))"

lemma write_cong [fundef_cong]:
  assumes "cfg = cfg'" "v = v'" "s = s'" "\<And>c d e. c \<in> set (metadata cfg') \<Longrightarrow> f c d e = g c d e"
  shows "EebusDataSequenceWrite f cfg v s = EebusDataSequenceWrite g cfg' v' s'"
    and "z = z' \<Longrightarrow> EebusDataChoice_Write z f cfg v s = EebusDataChoice_Write z' g cfg' v' s'"
    and "z = z' \<Longrightarrow> EebusDataList_Write z f cfg v s = EebusDataList_Write z' g cfg' v' s'"
proof -
  have "write_members f cfg' ds ss = write_members g cfg' ds ss" for ds ss
    using assms(4) by (intro write_members_cong refl) auto
  then show "EebusDataSequenceWrite f cfg v s = EebusDataSequenceWrite g cfg' v' s'"
    using assms(1-3) by (simp add: EebusDataSequenceWrite_def split: EebusData.split)
  show "z = z' \<Longrightarrow> EebusDataChoice_Write z f cfg v s = EebusDataChoice_Write z' g cfg' v' s'"
    using assms by (auto simp: EebusDataChoice_Write_def with_choice_def split: EebusData.split)
  have "with_element cfg' None (\<lambda>ec. map_option (\<lambda>(err, ds). (err, Lst ds)) (write_loop (\<lambda>(d, s). f ec d s) zs)) =
      with_element cfg' None (\<lambda>ec. map_option (\<lambda>(err, ds). (err, Lst ds)) (write_loop (\<lambda>(d, s). g ec d s) zs))" for zs
    using assms(4) by (intro with_element_cong arg_cong [where f = "map_option _"] write_loop_cong refl) auto
  then show "z = z' \<Longrightarrow> EebusDataList_Write z f cfg v s = EebusDataList_Write z' g cfg' v' s'"
    using assms(1-3) by (simp add: EebusDataList_Write_def split: EebusData.split option.split)
qed

function EEBUS_DATA_WRITE :: "bool \<Rightarrow> EebusDataCfg \<Rightarrow> EebusData \<Rightarrow> EebusData \<Rightarrow> EebusData written" where
  "EEBUS_DATA_WRITE z cfg v src =
     (case cfg_interface cfg of
        eebus_data_stub_methods \<Rightarrow> Some (kEebusErrorOk, v)
      | eebus_data_string_methods \<Rightarrow> EebusDataString_Write cfg v src
      | eebus_data_tag_methods \<Rightarrow> EebusDataTag_Write cfg v src
      | eebus_data_sequence_methods \<Rightarrow> EebusDataSequenceWrite (EEBUS_DATA_WRITE z) cfg v src
      | eebus_data_container_methods \<Rightarrow> EebusDataSequenceWrite (EEBUS_DATA_WRITE z) cfg v src
      | eebus_data_choice_methods \<Rightarrow> EebusDataChoice_Write z (EEBUS_DATA_WRITE z) cfg v src
      | eebus_data_list_methods \<Rightarrow> EebusDataList_Write z (EEBUS_DATA_WRITE z) cfg v src
      | eebus_data_list_simple_methods \<Rightarrow> EebusDataList_Write z (EEBUS_DATA_WRITE z) cfg v src
      | _ \<Rightarrow> EebusDataSimpleWrite cfg v src)"
  by pat_completeness auto
termination by (relation "measure (\<lambda>(z, cfg, _). size cfg)") (auto simp: metadata_size)

declare EEBUS_DATA_WRITE.simps [simp del]


section \<open>Writing only what is present\<close>

definition EebusDataBaseWriteElements ::
    "bool \<Rightarrow> EebusDataCfg \<Rightarrow> EebusData \<Rightarrow> EebusData \<Rightarrow> EebusData written" where
  "EebusDataBaseWriteElements z cfg v src =
     (if EEBUS_DATA_IS_NULL cfg src then Some (kEebusErrorOk, v) else EEBUS_DATA_WRITE z cfg v src)"

definition EebusDataSequenceWriteElements ::
    "(EebusDataCfg \<Rightarrow> EebusData \<Rightarrow> EebusData \<Rightarrow> EebusData written) \<Rightarrow>
     EebusDataCfg \<Rightarrow> EebusData \<Rightarrow> EebusData \<Rightarrow> EebusData written" where
  "EebusDataSequenceWriteElements write_elements cfg v src =
     (case src of
        Seq ss \<Rightarrow> with_buffer cfg v (\<lambda>ds. write_members write_elements cfg ds ss)
      | _ \<Rightarrow> Some (kEebusErrorOk, v))"

lemma write_elements_cong [fundef_cong]:
  assumes "cfg = cfg'" "v = v'" "s = s'" "\<And>c d e. c \<in> set (metadata cfg') \<Longrightarrow> f c d e = g c d e"
  shows "EebusDataSequenceWriteElements f cfg v s = EebusDataSequenceWriteElements g cfg' v' s'"
proof -
  have "write_members f cfg' ds ss = write_members g cfg' ds ss" for ds ss
    using assms(4) by (intro write_members_cong refl) auto
  then show ?thesis using assms(1-3) by (simp add: EebusDataSequenceWriteElements_def split: EebusData.split)
qed

function EEBUS_DATA_WRITE_ELEMENTS ::
    "bool \<Rightarrow> EebusDataCfg \<Rightarrow> EebusData \<Rightarrow> EebusData \<Rightarrow> EebusData written" where
  "EEBUS_DATA_WRITE_ELEMENTS z cfg v src =
     (case cfg_interface cfg of
        eebus_data_stub_methods \<Rightarrow> Some (kEebusErrorOk, v)
      | eebus_data_sequence_methods \<Rightarrow> EebusDataSequenceWriteElements (EEBUS_DATA_WRITE_ELEMENTS z) cfg v src
      | eebus_data_container_methods \<Rightarrow> EebusDataSequenceWriteElements (EEBUS_DATA_WRITE_ELEMENTS z) cfg v src
      | _ \<Rightarrow> EebusDataBaseWriteElements z cfg v src)"
  by pat_completeness auto
termination by (relation "measure (\<lambda>(z, cfg, _). size cfg)") (auto simp: metadata_size)

declare EEBUS_DATA_WRITE_ELEMENTS.simps [simp del]

section \<open>Partial writes\<close>

type_synonym selection = "(EebusDataCfg \<times> EebusData) option"

definition EebusDataSequenceWritePartial ::
    "(EebusDataCfg \<Rightarrow> EebusData \<Rightarrow> EebusData \<Rightarrow> selection \<Rightarrow> EebusData written) \<Rightarrow>
     EebusDataCfg \<Rightarrow> EebusData \<Rightarrow> EebusData \<Rightarrow> EebusData written" where
  "EebusDataSequenceWritePartial write_partial cfg v src =
     (case src of
        Seq ss \<Rightarrow> with_buffer cfg v (\<lambda>ds. write_members (\<lambda>c d s. write_partial c d s None) cfg ds ss)
      | _ \<Rightarrow> Some (kEebusErrorOk, v))"

definition EebusDataContainer_WritePartial ::
    "(EebusDataCfg \<Rightarrow> EebusData \<Rightarrow> EebusData \<Rightarrow> selection \<Rightarrow> EebusData written) \<Rightarrow>
     EebusDataCfg \<Rightarrow> EebusData \<Rightarrow> EebusData \<Rightarrow> selection \<Rightarrow> EebusData written" where
  "EebusDataContainer_WritePartial write_partial cfg v src sel =
     with_element cfg (Some (kEebusErrorInputArgument, v)) (\<lambda>list_cfg.
       if cfg_interface list_cfg \<noteq> eebus_data_list_methods then Some (kEebusErrorInputArgument, v)
       else case src of
              Seq ss \<Rightarrow>
                with_buffer cfg v (\<lambda>ds.
                  case (ds, ss) of
                    (d # r, s # _) \<Rightarrow>
                      map_option (\<lambda>(err, d'). (err, Seq (d' # r))) (write_partial list_cfg d s sel)
                  | _ \<Rightarrow> None)
            | _ \<Rightarrow> Some (kEebusErrorInputArgument, v))"

text \<open>The first element of the source is written to the selected elements of the list.\<close>

definition CopyToSelectedData ::
    "bool \<Rightarrow> EebusDataCfg \<Rightarrow> EebusData \<Rightarrow> EebusData \<Rightarrow> EebusDataCfg \<Rightarrow> EebusData \<Rightarrow> EebusData written" where
  "CopyToSelectedData z cfg v src selectors_cfg selectors =
     (if EEBUS_DATA_IS_NULL cfg src then Some (kEebusErrorOk, v)
      else case v of
        Lst ds \<Rightarrow>
          with_element cfg None (\<lambda>ec.
            map_option (\<lambda>(err, ds). (err, Lst ds))
              (write_loop (\<lambda>d.
                  if EEBUS_DATA_SELECTORS_MATCH ec d selectors_cfg selectors
                  then (case src of Lst (s # _) \<Rightarrow> EEBUS_DATA_WRITE_ELEMENTS z ec d s | _ \<Rightarrow> None)
                  else Some (kEebusErrorOk, d))
                (zip ds ds)))
      | _ \<Rightarrow> Some (kEebusErrorOk, v))"

text \<open>The first element of the source is written to all elements of the list.\<close>

definition CopyToAllData ::
    "(EebusDataCfg \<Rightarrow> EebusData \<Rightarrow> EebusData \<Rightarrow> selection \<Rightarrow> EebusData written) \<Rightarrow>
     EebusDataCfg \<Rightarrow> EebusData \<Rightarrow> EebusData \<Rightarrow> EebusData written" where
  "CopyToAllData write_partial cfg v src =
     (case (src, v) of
        (Lst ss, Lst ds) \<Rightarrow>
          with_element cfg None (\<lambda>ec.
            map_option (\<lambda>(err, ds). (err, Lst ds))
              (write_loop (\<lambda>d. case ss of s # _ \<Rightarrow> write_partial ec d s None | [] \<Rightarrow> None) (zip ds ds)))
      | _ \<Rightarrow> Some (kEebusErrorOk, v))"

definition GetItemMatchingIdentifiers :: "EebusDataCfg \<Rightarrow> EebusData list \<Rightarrow> EebusData \<Rightarrow> nat option" where
  "GetItemMatchingIdentifiers ec ar el =
     List.find (\<lambda>i. EEBUS_DATA_IDENTIFIERS_MATCH ec (ar ! i) el) [0..<length ar]"

text \<open>
  The third step of \<^verbatim>\<open>MergeData\<close>. \<open>ar\<close> are the slots of the new buffer that are in use, \<open>n\<close> of which held
  the old list; the buffer was allocated for \<open>new_size\<close> elements.
\<close>

fun merge_loop ::
    "(EebusData \<Rightarrow> EebusData \<Rightarrow> EebusData written) \<Rightarrow> (EebusData \<Rightarrow> EebusData written) \<Rightarrow> EebusDataCfg \<Rightarrow>
     nat \<Rightarrow> nat \<Rightarrow> EebusData list \<Rightarrow> EebusData list \<Rightarrow> EebusData list written" where
  "merge_loop update create ec n new_size ar [] = Some (kEebusErrorOk, ar)"
| "merge_loop update create ec n new_size ar (s # ss) =
     (case GetItemMatchingIdentifiers ec (take n ar) s of
        Some i \<Rightarrow>
          (case update (ar ! i) s of
             None \<Rightarrow> None
           | Some (err, d) \<Rightarrow>
               if err \<noteq> kEebusErrorOk then Some (err, ar[i := d])
               else merge_loop update create ec n new_size (ar[i := d]) ss)
      | None \<Rightarrow>
          if new_size \<le> length ar then None
          else (case create s of
                  None \<Rightarrow> None
                | Some (err, d) \<Rightarrow>
                    if err \<noteq> kEebusErrorOk then Some (err, ar @ [d])
                    else merge_loop update create ec n new_size (ar @ [d]) ss))"

definition MergeData ::
    "bool \<Rightarrow> (EebusDataCfg \<Rightarrow> EebusData \<Rightarrow> EebusData \<Rightarrow> selection \<Rightarrow> EebusData written) \<Rightarrow>
     EebusDataCfg \<Rightarrow> EebusData \<Rightarrow> EebusData \<Rightarrow> EebusData written" where
  "MergeData z write_partial cfg v src =
     (let ds = (case v of Lst ds \<Rightarrow> ds | _ \<Rightarrow> []);
          ss = (case src of Lst ss \<Rightarrow> ss | _ \<Rightarrow> [])
      in with_element cfg None (\<lambda>ec.
           let new_size = length ds + length (filter (\<lambda>s. GetItemMatchingIdentifiers ec ds s = None) ss)
           in map_option
                (\<lambda>(err, ar). (err, if new_size = length ds \<and> v = Null then Null
                                   else Lst (ar @ replicate (new_size - length ar) Null)))
                (merge_loop (\<lambda>d s. write_partial ec d s None) (EEBUS_DATA_WRITE z ec Null) ec
                   (length ds) new_size ds ss)))"

definition ListElementsHaveIdentifiers :: "EebusDataCfg \<Rightarrow> EebusData \<Rightarrow> bool" where
  "ListElementsHaveIdentifiers cfg v =
     (case v of
        Lst (d # _) \<Rightarrow> with_element cfg False (\<lambda>ec. EEBUS_DATA_HAS_IDENTIFIERS ec d)
      | _ \<Rightarrow> False)"

definition EebusDataList_WritePartial ::
    "bool \<Rightarrow> (EebusDataCfg \<Rightarrow> EebusData \<Rightarrow> EebusData \<Rightarrow> selection \<Rightarrow> EebusData written) \<Rightarrow>
     EebusDataCfg \<Rightarrow> EebusData \<Rightarrow> EebusData \<Rightarrow> selection \<Rightarrow> EebusData written" where
  "EebusDataList_WritePartial z write_partial cfg v src sel =
     (case sel of
        Some (selectors_cfg, selectors) \<Rightarrow>
          if \<not> EEBUS_DATA_IS_NULL selectors_cfg selectors
          then CopyToSelectedData z cfg v src selectors_cfg selectors
          else if \<not> ListElementsHaveIdentifiers cfg src then CopyToAllData write_partial cfg v src
          else MergeData z write_partial cfg v src
      | None \<Rightarrow>
          if \<not> ListElementsHaveIdentifiers cfg src then CopyToAllData write_partial cfg v src
          else MergeData z write_partial cfg v src)"

lemma merge_loop_cong:
  "(\<And>d s. f d s = g d s) \<Longrightarrow> merge_loop f h ec n m ar ss = merge_loop g h ec n m ar ss"
  by (induction g h ec n m ar ss rule: merge_loop.induct) (simp_all split: option.split)

lemma write_partial_cong [fundef_cong]:
  assumes "cfg = cfg'" "v = v'" "s = s'"
    and "\<And>c d e x. c \<in> set (metadata cfg') \<Longrightarrow> f c d e x = g c d e x"
  shows "EebusDataSequenceWritePartial f cfg v s = EebusDataSequenceWritePartial g cfg' v' s'"
    and "x = x' \<Longrightarrow> EebusDataContainer_WritePartial f cfg v s x = EebusDataContainer_WritePartial g cfg' v' s' x'"
    and "CopyToAllData f cfg v s = CopyToAllData g cfg' v' s'"
    and "z = z' \<Longrightarrow> MergeData z f cfg v s = MergeData z' g cfg' v' s'"
proof -
  have "write_members (\<lambda>c d s. f c d s None) cfg' ds ss = write_members (\<lambda>c d s. g c d s None) cfg' ds ss" for ds ss
    using assms(4) by (intro write_members_cong refl) auto
  then show "EebusDataSequenceWritePartial f cfg v s = EebusDataSequenceWritePartial g cfg' v' s'"
    using assms(1-3) by (simp add: EebusDataSequenceWritePartial_def split: EebusData.split)
  show "x = x' \<Longrightarrow> EebusDataContainer_WritePartial f cfg v s x = EebusDataContainer_WritePartial g cfg' v' s' x'"
    using assms(4) unfolding EebusDataContainer_WritePartial_def assms(1-3)
    by (intro with_element_cong refl) (auto split: EebusData.split list.split intro!: with_buffer_cong)
  show "CopyToAllData f cfg v s = CopyToAllData g cfg' v' s'"
    using assms(4) unfolding CopyToAllData_def assms(1-3)
    by (auto split: EebusData.split list.split
        intro!: with_element_cong arg_cong [where f = "map_option _"] write_loop_cong)
  show "MergeData z f cfg v s = MergeData z' g cfg' v' s'" if "z = z'"
    using assms(4) unfolding MergeData_def assms(1-3) that Let_def
    by (intro with_element_cong arg_cong [where f = "map_option _"] merge_loop_cong refl) simp
qed

lemma list_write_partial_cong [fundef_cong]:
  assumes "cfg = cfg'" "v = v'" "s = s'" "x = x'" "z = z'"
    and "\<And>c d e x. c \<in> set (metadata cfg') \<Longrightarrow> f c d e x = g c d e x"
  shows "EebusDataList_WritePartial z f cfg v s x = EebusDataList_WritePartial z' g cfg' v' s' x'"
  unfolding EebusDataList_WritePartial_def
  using assms(1-5) write_partial_cong(3,4) [OF refl refl refl assms(6)] by (auto split: option.split)

function EEBUS_DATA_WRITE_PARTIAL ::
    "bool \<Rightarrow> EebusDataCfg \<Rightarrow> EebusData \<Rightarrow> EebusData \<Rightarrow> selection \<Rightarrow> EebusData written" where
  "EEBUS_DATA_WRITE_PARTIAL z cfg v src sel =
     (case cfg_interface cfg of
        eebus_data_stub_methods \<Rightarrow> Some (kEebusErrorOk, v)
      | eebus_data_sequence_methods \<Rightarrow> EebusDataSequenceWritePartial (EEBUS_DATA_WRITE_PARTIAL z) cfg v src
      | eebus_data_container_methods \<Rightarrow> EebusDataContainer_WritePartial (EEBUS_DATA_WRITE_PARTIAL z) cfg v src sel
      | eebus_data_list_methods \<Rightarrow> EebusDataList_WritePartial z (EEBUS_DATA_WRITE_PARTIAL z) cfg v src sel
      | _ \<Rightarrow> EEBUS_DATA_WRITE_ELEMENTS z cfg v src)"
  by pat_completeness auto
termination by (relation "measure (\<lambda>(z, cfg, _). size cfg)") (auto simp: metadata_size)

declare EEBUS_DATA_WRITE_PARTIAL.simps [simp del]


section \<open>Partial deletes\<close>

text \<open>
  The elements structure of a function has one member per member of the data; a member that is set
  names a member of the data, an empty structure names all of them.
\<close>

definition EebusDataSimpleDeleteElements ::
    "EebusDataCfg \<Rightarrow> EebusData \<Rightarrow> EebusDataCfg \<Rightarrow> EebusData \<Rightarrow> EebusData" where
  "EebusDataSimpleDeleteElements cfg v elements_cfg elements =
     (if EEBUS_DATA_IS_NULL elements_cfg elements then v else EEBUS_DATA_DELETE cfg v)"

definition EebusDataSequenceDeleteElements ::
    "(EebusDataCfg \<Rightarrow> EebusData \<Rightarrow> EebusDataCfg \<Rightarrow> EebusData \<Rightarrow> EebusData) \<Rightarrow>
     EebusDataCfg \<Rightarrow> EebusData \<Rightarrow> EebusDataCfg \<Rightarrow> EebusData \<Rightarrow> EebusData" where
  "EebusDataSequenceDeleteElements delete_elements cfg v elements_cfg elements =
     (if cfg_interface elements_cfg \<noteq> eebus_data_sequence_methods then v
      else case (v, elements) of
        (Seq ds, Seq es) \<Rightarrow>
          if EEBUS_DATA_IS_EMPTY elements_cfg elements then EEBUS_DATA_DELETE cfg v
          else let n = min (length (metadata cfg)) (length (metadata elements_cfg))
               in Seq (map (\<lambda>((c, d), (ec, e)).
                         if EEBUS_DATA_IS_NULL ec e then d
                         else if EEBUS_DATA_IS_EMPTY ec e then EEBUS_DATA_DELETE c d
                         else delete_elements c d ec e)
                       (zip (zip (metadata cfg) ds) (zip (metadata elements_cfg) es)) @ drop n ds)
      | _ \<Rightarrow> v)"

lemma delete_elements_cong [fundef_cong]:
  assumes "cfg = cfg'" "v = v'" "ec = ec'" "e = e'"
    and "\<And>c d ec e. c \<in> set (metadata cfg') \<Longrightarrow> f c d ec e = g c d ec e"
  shows "EebusDataSequenceDeleteElements f cfg v ec e = EebusDataSequenceDeleteElements g cfg' v' ec' e'"
proof -
  have "f c d ec e = g c d ec e" if "((c, d), (ec, e)) \<in> set (zip (zip (metadata cfg') ds) es)" for c d ec e ds es
    using assms(5) that by (auto dest!: set_zip_leftD)
  then show ?thesis
    using assms(1-4)
    by (auto simp: EebusDataSequenceDeleteElements_def Let_def split: EebusData.split intro!: map_cong)
qed

function EEBUS_DATA_DELETE_ELEMENTS ::
    "EebusDataCfg \<Rightarrow> EebusData \<Rightarrow> EebusDataCfg \<Rightarrow> EebusData \<Rightarrow> EebusData" where
  "EEBUS_DATA_DELETE_ELEMENTS cfg v elements_cfg elements =
     (case cfg_interface cfg of
        eebus_data_stub_methods \<Rightarrow> v
      | eebus_data_choice_methods \<Rightarrow> v
      | eebus_data_sequence_methods \<Rightarrow>
          EebusDataSequenceDeleteElements EEBUS_DATA_DELETE_ELEMENTS cfg v elements_cfg elements
      | eebus_data_container_methods \<Rightarrow>
          EebusDataSequenceDeleteElements EEBUS_DATA_DELETE_ELEMENTS cfg v elements_cfg elements
      | _ \<Rightarrow> EebusDataSimpleDeleteElements cfg v elements_cfg elements)"
  by pat_completeness auto
termination by (relation "measure (\<lambda>(cfg, _). size cfg)") (auto simp: metadata_size)

declare EEBUS_DATA_DELETE_ELEMENTS.simps [simp del]

text \<open>
  The selected elements leave the list. When none is left the new buffer has size 0: where \<^verbatim>\<open>malloc(0)\<close>
  returns \<^verbatim>\<open>NULL\<close> the list is kept as it was.
\<close>

definition DeleteListItems ::
    "bool \<Rightarrow> EebusDataCfg \<Rightarrow> EebusData \<Rightarrow> EebusDataCfg \<Rightarrow> EebusData \<Rightarrow> EebusData" where
  "DeleteListItems z cfg v selectors_cfg selectors =
     (case v of
        Lst ds \<Rightarrow>
          with_element cfg v (\<lambda>ec.
            let rest = filter (\<lambda>d. \<not> EEBUS_DATA_SELECTORS_MATCH ec d selectors_cfg selectors) ds
            in if length rest = length ds then v
               else case CreateListBuffer z (length rest) of None \<Rightarrow> v | Some _ \<Rightarrow> Lst rest)
      | _ \<Rightarrow> v)"

text \<open>The address of the elements pointer is never null in the calls, so only the selectors decide.\<close>

definition DeleteListItemsElements ::
    "EebusDataCfg \<Rightarrow> EebusData \<Rightarrow> EebusDataCfg \<Rightarrow> EebusData \<Rightarrow> EebusDataCfg \<Rightarrow> EebusData \<Rightarrow> EebusData" where
  "DeleteListItemsElements cfg v selectors_cfg selectors elements_cfg elements =
     (case v of
        Lst ds \<Rightarrow>
          with_element cfg v (\<lambda>ec.
            Lst (map (\<lambda>d. if EEBUS_DATA_SELECTORS_MATCH ec d selectors_cfg selectors
                          then EEBUS_DATA_DELETE_ELEMENTS ec d elements_cfg elements else d) ds))
      | _ \<Rightarrow> v)"

definition EebusDataList_DeletePartial ::
    "bool \<Rightarrow> EebusDataCfg \<Rightarrow> EebusData \<Rightarrow> EebusDataCfg \<Rightarrow> EebusData \<Rightarrow> EebusDataCfg \<Rightarrow> EebusData \<Rightarrow> EebusData" where
  "EebusDataList_DeletePartial z cfg v selectors_cfg selectors elements_cfg elements =
     (if EEBUS_DATA_IS_NULL selectors_cfg selectors \<and> EEBUS_DATA_IS_NULL elements_cfg elements then v
      else if \<not> EEBUS_DATA_IS_NULL selectors_cfg selectors \<and> EEBUS_DATA_IS_NULL elements_cfg elements
      then DeleteListItems z cfg v selectors_cfg selectors
      else DeleteListItemsElements cfg v selectors_cfg selectors elements_cfg elements)"

definition EebusDataContainer_DeletePartial ::
    "bool \<Rightarrow> EebusDataCfg \<Rightarrow> EebusData \<Rightarrow> EebusDataCfg \<Rightarrow> EebusData \<Rightarrow> EebusDataCfg \<Rightarrow> EebusData \<Rightarrow> EebusData" where
  "EebusDataContainer_DeletePartial z cfg v selectors_cfg selectors elements_cfg elements =
     with_element cfg v (\<lambda>list_cfg.
       if cfg_interface list_cfg \<noteq> eebus_data_list_methods then v
       else case v of
              Seq (d # r) \<Rightarrow>
                Seq (EebusDataList_DeletePartial z list_cfg d selectors_cfg selectors elements_cfg elements # r)
            | _ \<Rightarrow> v)"

definition EEBUS_DATA_DELETE_PARTIAL ::
    "bool \<Rightarrow> EebusDataCfg \<Rightarrow> EebusData \<Rightarrow> EebusDataCfg \<Rightarrow> EebusData \<Rightarrow> EebusDataCfg \<Rightarrow> EebusData \<Rightarrow> EebusData" where
  "EEBUS_DATA_DELETE_PARTIAL z cfg v selectors_cfg selectors elements_cfg elements =
     (case cfg_interface cfg of
        eebus_data_stub_methods \<Rightarrow> v
      | eebus_data_container_methods \<Rightarrow>
          EebusDataContainer_DeletePartial z cfg v selectors_cfg selectors elements_cfg elements
      | eebus_data_list_methods \<Rightarrow>
          EebusDataList_DeletePartial z cfg v selectors_cfg selectors elements_cfg elements
      | eebus_data_list_simple_methods \<Rightarrow>
          EebusDataList_DeletePartial z cfg v selectors_cfg selectors elements_cfg elements
      | _ \<Rightarrow> EEBUS_DATA_DELETE_ELEMENTS cfg v elements_cfg elements)"

section \<open>Matching elements of a list\<close>

text \<open>\<^verbatim>\<open>CopyMatching\<close> of a list: a copy of the elements whose members agree with those set in the pattern.\<close>

definition EebusDataList_CopyMatching ::
    "bool \<Rightarrow> EebusDataCfg \<Rightarrow> EebusData \<Rightarrow> EebusData \<Rightarrow> EebusData \<Rightarrow> EebusData written" where
  "EebusDataList_CopyMatching z cfg v dst pattern =
     (case v of
        Lst ds \<Rightarrow>
          with_element cfg None (\<lambda>ec.
            let picked = filter (\<lambda>d. EEBUS_DATA_SELECTORS_MATCH ec d ec pattern) ds
            in if picked = [] then Some (kEebusErrorOk, Null)
               else map_option (\<lambda>(err, ds). (err, Lst ds))
                      (write_loop (EEBUS_DATA_WRITE z ec Null) (zip (replicate (length picked) Null) picked)))
      | _ \<Rightarrow> Some (kEebusErrorOk, EEBUS_DATA_DELETE cfg dst))"

text \<open>
  The iterator over the matching elements: its state is the index it stands at, and \<open>None\<close> at the end.
\<close>

definition EebusDataListDataFindMatching ::
    "EebusDataCfg \<Rightarrow> EebusData list \<Rightarrow> nat \<Rightarrow> EebusData \<Rightarrow> nat option" where
  "EebusDataListDataFindMatching ec ar first pattern =
     List.find (\<lambda>i. EEBUS_DATA_SELECTORS_MATCH ec (ar ! i) ec pattern) [first..<length ar]"

definition EebusDataListMatchIteratorConstruct ::
    "EebusDataCfg \<Rightarrow> EebusData \<Rightarrow> EebusData \<Rightarrow> nat option" where
  "EebusDataListMatchIteratorConstruct cfg v pattern =
     (case v of
        Lst ds \<Rightarrow>
          if pattern = Null then None
          else with_element cfg None (\<lambda>ec. EebusDataListDataFindMatching ec ds 0 pattern)
      | _ \<Rightarrow> None)"

definition EebusDataListMatchIteratorNext ::
    "EebusDataCfg \<Rightarrow> EebusData \<Rightarrow> EebusData \<Rightarrow> nat option \<Rightarrow> nat option" where
  "EebusDataListMatchIteratorNext cfg v pattern current =
     (case (current, v) of
        (Some i, Lst ds) \<Rightarrow> with_element cfg None (\<lambda>ec. EebusDataListDataFindMatching ec ds (Suc i) pattern)
      | _ \<Rightarrow> None)"

definition EebusDataListMatchIteratorGet :: "EebusData \<Rightarrow> nat option \<Rightarrow> EebusData" where
  "EebusDataListMatchIteratorGet v current =
     (case (current, v) of (Some i, Lst ds) \<Rightarrow> ds ! i | _ \<Rightarrow> Null)"

end
