(* ===== verification/Eebus_Data_Laws.thy ===== *)
theory Eebus_Data_Laws
  imports Eebus_Data
begin

text \<open>
  The laws of the descriptor-driven data: comparing is equality, copying gives an equal value,
  partial writes and deletes do to a list what the restricted function exchange of SPINE asks for,
  and where they do not.
\<close>

section \<open>Descriptors\<close>

lemma cfg_induct: "(\<And>cfg. (\<And>c. c \<in> set (metadata cfg) \<Longrightarrow> P c) \<Longrightarrow> P cfg) \<Longrightarrow> P cfg"
  by (induction cfg rule: measure_induct_rule [of size]) (metis metadata_size)

abbreviation is_list :: "EebusDataCfg \<Rightarrow> bool" where
  "is_list cfg \<equiv> cfg_interface cfg \<in> {eebus_data_list_methods, eebus_data_list_simple_methods}"

abbreviation is_structure :: "EebusDataCfg \<Rightarrow> bool" where
  "is_structure cfg \<equiv> cfg_interface cfg \<in> {eebus_data_sequence_methods, eebus_data_container_methods}"

abbreviation is_leaf :: "EebusDataCfg \<Rightarrow> bool" where
  "is_leaf cfg \<equiv> cfg_interface cfg \<in> {eebus_data_bool_methods, eebus_data_numeric_methods, eebus_data_enum_methods,
     eebus_data_absolute_or_relative_time_methods, eebus_data_string_methods, eebus_data_tag_methods}"

text \<open>
  Descriptors as the macros build them: a list has an element descriptor and no flags, and neither
  the elements of a list nor the alternatives of a choice are choices.
\<close>

fun cfg_wf :: "EebusDataCfg \<Rightarrow> bool" where
  "cfg_wf cfg \<longleftrightarrow>
     (is_list cfg \<longrightarrow> metadata cfg \<noteq> [] \<and> \<not> EebusDataBaseHasIdentifiersFlags cfg) \<and>
     (is_list cfg \<or> cfg_interface cfg = eebus_data_choice_methods \<longrightarrow>
        list_all (\<lambda>c. cfg_interface c \<noteq> eebus_data_choice_methods) (metadata cfg)) \<and>
     list_all cfg_wf (metadata cfg)"

text \<open>Descriptors without choices, stubs and containers: those of the elements of a list.\<close>

fun plain :: "EebusDataCfg \<Rightarrow> bool" where
  "plain cfg \<longleftrightarrow>
     cfg_interface cfg \<notin> {eebus_data_choice_methods, eebus_data_stub_methods, eebus_data_container_methods} \<and>
     (is_list cfg \<longrightarrow> metadata cfg \<noteq> [] \<and> \<not> EebusDataBaseHasIdentifiersFlags cfg) \<and>
     list_all plain (metadata cfg)"

declare cfg_wf.simps [simp del] plain.simps [simp del]

lemma cfg_wf_memberD: "cfg_wf cfg \<Longrightarrow> c \<in> set (metadata cfg) \<Longrightarrow> cfg_wf c"
  by (subst (asm) cfg_wf.simps) (simp add: list_all_iff)

lemma plain_memberD: "plain cfg \<Longrightarrow> c \<in> set (metadata cfg) \<Longrightarrow> plain c"
  by (subst (asm) plain.simps) (simp add: list_all_iff)

lemma plain_interface:
  "plain cfg \<Longrightarrow> cfg_interface cfg \<notin> {eebus_data_choice_methods, eebus_data_stub_methods, eebus_data_container_methods}"
  by (subst (asm) plain.simps) blast

lemma plain_list: "plain cfg \<Longrightarrow> is_list cfg \<Longrightarrow> metadata cfg \<noteq> [] \<and> \<not> EebusDataBaseHasIdentifiersFlags cfg"
  by (subst (asm) plain.simps) blast

lemma plain_wf: "plain cfg \<Longrightarrow> cfg_wf cfg"
proof (induction cfg rule: cfg_induct)
  case (1 cfg)
  have "cfg_wf c" "cfg_interface c \<noteq> eebus_data_choice_methods" if "c \<in> set (metadata cfg)" for c
    using 1 that plain_memberD plain_interface by blast+
  moreover have "is_list cfg \<Longrightarrow> metadata cfg \<noteq> [] \<and> \<not> EebusDataBaseHasIdentifiersFlags cfg"
    using 1 plain_list by blast
  ultimately show ?case by (subst cfg_wf.simps) (simp add: list_all_iff)
qed

lemma fits_Null [simp]: "cfg_interface cfg \<noteq> eebus_data_choice_methods \<Longrightarrow> fits z cfg Null"
  unfolding fits.simps [of z cfg]
  by (simp split: EebusDataInterface.split)

lemma is_null_iff [simp]:
  "cfg_interface cfg \<notin> {eebus_data_choice_methods, eebus_data_stub_methods} \<Longrightarrow>
   EEBUS_DATA_IS_NULL cfg v \<longleftrightarrow> v = Null"
  unfolding EEBUS_DATA_IS_NULL.simps [of cfg] by (simp split: EebusDataInterface.split)

lemma fits_structure:
  "is_structure cfg \<Longrightarrow> fits z cfg v \<longleftrightarrow>
     v = Null \<or> (\<exists>ds. v = Seq ds \<and> length ds = length (metadata cfg) \<and> 0 < cfg_size cfg \<and>
       list_all2 (fits z) (metadata cfg) ds)"
  by (auto simp: fits.simps [of z cfg] list_all2_iff list_all_iff split: EebusData.splits)

lemma fits_list:
  "is_list cfg \<Longrightarrow> fits z cfg v \<longleftrightarrow>
     v = Null \<or> (\<exists>ds ec r. v = Lst ds \<and> metadata cfg = ec # r \<and> (z \<or> ds \<noteq> []) \<and> list_all (fits z ec) ds)"
  by (auto simp: fits.simps [of z cfg] with_element_def split: EebusData.splits list.splits)

lemma fits_choice:
  "cfg_interface cfg = eebus_data_choice_methods \<Longrightarrow> fits z cfg v \<longleftrightarrow>
     (\<exists>i d. v = Choice i d \<and> i < length (metadata cfg) \<and> fits z (metadata cfg ! i) d)"
  by (auto simp: fits.simps [of z cfg] with_choice_def split: EebusData.splits if_splits)

text \<open>The four kinds of descriptors.\<close>

lemma cfg_cases:
  obtains "is_structure cfg" | "is_list cfg" | "cfg_interface cfg = eebus_data_choice_methods"
    | "is_leaf cfg" | "cfg_interface cfg = eebus_data_stub_methods"
  by (cases "cfg_interface cfg") auto

lemma plain_cases:
  assumes "plain cfg"
  obtains "cfg_interface cfg = eebus_data_sequence_methods" | "is_list cfg" | "is_leaf cfg"
  using plain_interface [OF assms] by (cases "cfg_interface cfg") auto

lemma fits_mono: "fits False cfg v \<Longrightarrow> fits z cfg v"
proof (induction cfg arbitrary: v rule: cfg_induct)
  case (1 cfg)
  note IH = 1(1) and prems = 1(2)
  show ?case
  proof (cases cfg rule: cfg_cases)
    case 1
    then obtain ds where "v = Null \<or> v = Seq ds \<and> length ds = length (metadata cfg) \<and> 0 < cfg_size cfg \<and>
        list_all2 (fits False) (metadata cfg) ds"
      using prems fits_structure [OF 1] by blast
    then show ?thesis
      using IH fits_structure [OF 1, of z v] by (auto elim!: list.rel_mono_strong)
  next
    case 2
    then show ?thesis using prems IH fits_list [OF 2, of z v] fits_list [OF 2, of False v]
      by (auto simp: list_all_iff)
  next
    case 3
    then show ?thesis using prems IH fits_choice [OF 3, of z v] fits_choice [OF 3, of False v] by auto
  next
    case 4
    then show ?thesis using prems unfolding fits.simps [of z cfg] fits.simps [of False cfg]
      by (auto split: EebusData.splits)
  next
    case 5
    then show ?thesis using prems unfolding fits.simps [of z cfg] fits.simps [of False cfg] by simp
  qed
qed


section \<open>Comparison\<close>

lemma fits_leaf:
  assumes "is_leaf cfg"
  shows "fits z cfg v \<longleftrightarrow> v = Null \<or>
    (\<exists>bs. v = Simple bs \<and> length bs = cfg_size cfg \<and> 0 < cfg_size cfg \<and>
      cfg_interface cfg \<notin> {eebus_data_string_methods, eebus_data_tag_methods}) \<or>
    (\<exists>t. v = Str t \<and> cfg_interface cfg = eebus_data_string_methods) \<or>
    (v = Tag \<and> cfg_interface cfg = eebus_data_tag_methods)"
  using assms unfolding fits.simps [of z cfg] by (cases v) auto

lemma compare_leaf:
  assumes "is_leaf cfg" "fits z cfg a" "fits z' cfg b"
  shows "EEBUS_DATA_COMPARE cfg a cfg b \<longleftrightarrow> a = b"
proof -
  have "EEBUS_DATA_COMPARE cfg a cfg b =
      (if cfg_interface cfg = eebus_data_string_methods then EebusDataString_Compare cfg a cfg b
       else if cfg_interface cfg = eebus_data_tag_methods then EebusDataTag_Compare cfg a cfg b
       else EebusDataSimpleCompare cfg a cfg b)"
    using assms(1) by (auto simp: EEBUS_DATA_COMPARE.simps [of cfg])
  then show ?thesis
    using assms(2,3) unfolding fits_leaf [OF assms(1)]
    by (auto simp: EebusDataSimpleCompare_def EebusDataString_Compare_def EebusDataTag_Compare_def)
qed

lemma compare_members:
  assumes "list_all2 (fits z) cs xs" "list_all2 (fits z') cs ys"
    and "\<And>c x y. c \<in> set cs \<Longrightarrow> fits z c x \<Longrightarrow> fits z' c y \<Longrightarrow> EEBUS_DATA_COMPARE c x c y \<longleftrightarrow> x = y"
  shows "list_all (\<lambda>((ac, x), (bc, y)). EEBUS_DATA_COMPARE ac x bc y) (zip (zip cs xs) (zip cs ys)) \<longleftrightarrow> xs = ys"
  using assms
proof (induction cs xs arbitrary: ys rule: list_all2_induct)
  case (Cons c cs x xs)
  then show ?case by (cases ys) auto
qed simp

lemma compare_elements:
  assumes "list_all (fits z ec) xs" "list_all (fits z' ec) ys" "length xs = length ys"
    and "\<And>x y. fits z ec x \<Longrightarrow> fits z' ec y \<Longrightarrow> EEBUS_DATA_COMPARE ec x ec y \<longleftrightarrow> x = y"
  shows "list_all (\<lambda>(x, y). EEBUS_DATA_COMPARE ec x ec y) (zip xs ys) \<longleftrightarrow> xs = ys"
  using assms(3,1,2,4) by (induction xs ys rule: list_induct2) auto

lemma compare_eq:
  assumes "plain cfg" "fits z cfg a" "fits z' cfg b"
  shows "EEBUS_DATA_COMPARE cfg a cfg b \<longleftrightarrow> a = b"
  using assms
proof (induction cfg arbitrary: a b rule: cfg_induct)
  case (1 cfg)
  note IH = 1(1) and pl = 1(2) and a = 1(3) and b = 1(4)
  have sub: "\<And>c x y. c \<in> set (metadata cfg) \<Longrightarrow> fits z c x \<Longrightarrow> fits z' c y \<Longrightarrow> EEBUS_DATA_COMPARE c x c y \<longleftrightarrow> x = y"
    using IH plain_memberD [OF pl] by blast
  show ?case
  proof (cases rule: plain_cases [OF pl])
    case 1
    then have st: "is_structure cfg" by simp
    show ?thesis
      using a b compare_members [OF _ _ sub] 1 unfolding fits_structure [OF st] EEBUS_DATA_COMPARE.simps [of cfg]
      by (auto simp: EebusDataSequenceCompare_def)
  next
    case 2
    then obtain ec r where ec: "metadata cfg = ec # r" using plain_list [OF pl] by (cases "metadata cfg") auto
    have "EEBUS_DATA_COMPARE cfg a cfg b = EebusDataList_Compare EEBUS_DATA_COMPARE cfg a cfg b"
      using 2 by (auto simp: EEBUS_DATA_COMPARE.simps [of cfg])
    then show ?thesis
      using a b compare_elements [of z ec _ z'] sub [of ec] unfolding fits_list [OF 2]
      by (auto simp: EebusDataList_Compare_def with_element_def ec)
  next
    case 3
    then show ?thesis using compare_leaf a b by blast
  qed
qed


section \<open>Writing\<close>

lemma delete_Null [simp]:
  "cfg_interface cfg \<notin> {eebus_data_choice_methods, eebus_data_stub_methods} \<Longrightarrow> EEBUS_DATA_DELETE cfg v = Null"
  unfolding EEBUS_DATA_DELETE.simps [of cfg] by (simp split: EebusDataInterface.split)

lemma write_loop_ok:
  "(\<And>d x. (d, x) \<in> set xs \<Longrightarrow> f x = Some (kEebusErrorOk, g x)) \<Longrightarrow>
   write_loop f xs = Some (kEebusErrorOk, map (\<lambda>(d, x). g x) xs)"
proof (induction xs)
  case (Cons p xs)
  have "f (snd p) = Some (kEebusErrorOk, g (snd p))" using Cons.prems [of "fst p" "snd p"] by simp
  moreover have "write_loop f xs = Some (kEebusErrorOk, map (\<lambda>(d, x). g x) xs)"
  proof (rule Cons.IH)
    show "f x = Some (kEebusErrorOk, g x)" if "(d, x) \<in> set xs" for d x
      using Cons.prems [of d x] that by simp
  qed
  ultimately show ?case by (cases p) simp
qed simp

lemma write_members_ok:
  assumes "length ds = length (metadata cfg)" "length ss = length (metadata cfg)"
    and "\<And>i. i < length (metadata cfg) \<Longrightarrow>
      f (metadata cfg ! i) (ds ! i) (ss ! i) = Some (kEebusErrorOk, g (metadata cfg ! i) (ds ! i) (ss ! i))"
  shows "write_members f cfg ds ss =
    Some (kEebusErrorOk, Seq (map (\<lambda>(c, d, s). g c d s) (zip (metadata cfg) (zip ds ss))))"
proof -
  let ?xs = "zip ds (zip (metadata cfg) (zip ds ss))"
  have "write_loop (\<lambda>(c, d, s). f c d s) ?xs = Some (kEebusErrorOk, map (\<lambda>(d, x). case x of (c, d, s) \<Rightarrow> g c d s) ?xs)"
    using assms by (intro write_loop_ok) (auto simp: set_zip)
  also have "map (\<lambda>(d, x). case x of (c, d, s) \<Rightarrow> g c d s) ?xs = map (\<lambda>(c, d, s). g c d s) (zip (metadata cfg) (zip ds ss))"
    using assms(1,2) by (intro nth_equalityI) auto
  finally show ?thesis by (simp add: write_members_def)
qed

lemma write_elements_loop:
  assumes "length ds = length ss"
    and "\<And>i. i < length ss \<Longrightarrow> f (ds ! i) (ss ! i) = Some (kEebusErrorOk, g (ds ! i) (ss ! i))"
  shows "write_loop (\<lambda>(d, s). f d s) (zip ds (zip ds ss)) = Some (kEebusErrorOk, map (\<lambda>(d, s). g d s) (zip ds ss))"
proof -
  have "write_loop (\<lambda>(d, s). f d s) (zip ds (zip ds ss)) =
      Some (kEebusErrorOk, map (\<lambda>(d, x). case x of (d, s) \<Rightarrow> g d s) (zip ds (zip ds ss)))"
    using assms by (intro write_loop_ok) (auto simp: set_zip)
  also have "map (\<lambda>(d, x). case x of (d, s) \<Rightarrow> g d s) (zip ds (zip ds ss)) = map (\<lambda>(d, s). g d s) (zip ds ss)"
    using assms(1) by (intro nth_equalityI) auto
  finally show ?thesis .
qed

lemma empty_member_Null: "cfg_interface cfg \<noteq> eebus_data_choice_methods \<Longrightarrow> empty_member cfg = Null"
  by (simp add: empty_member_def)

lemma wf_element:
  assumes "cfg_wf cfg" "is_list cfg \<or> cfg_interface cfg = eebus_data_choice_methods" "c \<in> set (metadata cfg)"
  shows "cfg_interface c \<noteq> eebus_data_choice_methods"
  using assms by (subst (asm) cfg_wf.simps) (auto simp: list_all_iff)

lemma wf_list_element: "cfg_wf cfg \<Longrightarrow> is_list cfg \<Longrightarrow> metadata cfg \<noteq> []"
  by (subst (asm) cfg_wf.simps) blast

text \<open>A destination that can be written: one that was just allocated, or one of a plain type.\<close>

definition target :: "bool \<Rightarrow> EebusDataCfg \<Rightarrow> EebusData \<Rightarrow> bool" where
  "target z cfg v \<longleftrightarrow> v = empty_member cfg \<or> plain cfg \<and> fits z cfg v"

lemma target_buffer:
  assumes "is_structure cfg" "target z cfg v" "0 < cfg_size cfg"
  obtains ds where "(if v = Null then EebusDataBaseCreateEmpty cfg else v) = Seq ds"
    "length ds = length (metadata cfg)" "list_all2 (target z) (metadata cfg) ds"
proof (cases "v = Null")
  case True
  then show thesis
    using that [of "map empty_member (metadata cfg)"] assms
    by (auto simp: EebusDataBaseCreateEmpty_def list_all2_conv_all_nth target_def)
next
  case False
  then have v: "plain cfg" "fits z cfg v" using assms(1,2) by (auto simp: target_def empty_member_def)
  then show thesis
    using that False fits_structure [OF assms(1), of z v] plain_memberD [OF v(1)]
    by (auto simp: target_def list_all2_conv_all_nth)
qed

lemma with_buffer_Seq:
  "(if v = Null then EebusDataBaseCreateEmpty cfg else v) = Seq ds \<Longrightarrow> with_buffer cfg v f = f ds"
  by (simp add: with_buffer_def)


lemma write_leaf:
  assumes "is_leaf cfg" "fits z cfg src"
  shows "EEBUS_DATA_WRITE z' cfg v src = Some (kEebusErrorOk, src)"
proof -
  have "EEBUS_DATA_WRITE z' cfg v src =
      (if cfg_interface cfg = eebus_data_string_methods then EebusDataString_Write cfg v src
       else if cfg_interface cfg = eebus_data_tag_methods then EebusDataTag_Write cfg v src
       else EebusDataSimpleWrite cfg v src)"
    using assms(1) by (auto simp: EEBUS_DATA_WRITE.simps [of z' cfg])
  then show ?thesis
    using assms unfolding fits_leaf [OF assms(1)]
    by (auto simp: EebusDataSimpleWrite_def EebusDataString_Write_def EebusDataTag_Write_def EebusDataBaseCreateEmpty_def)
qed

lemma zip3_third: "length ds = length cs \<Longrightarrow> length ss = length cs \<Longrightarrow> map (\<lambda>(c, d, s). s) (zip cs (zip ds ss)) = ss"
  by (rule nth_equalityI) auto

text \<open>A list buffer to write to: the old one if it has the right length, else a new one.\<close>

lemma list_buffer:
  assumes "is_list cfg" "cfg_wf cfg" "target z cfg v" "metadata cfg = ec # r" "z \<or> ss \<noteq> []"
  obtains ds where "(case v of Lst ds \<Rightarrow> if length ds = length ss then Some ds else CreateListBuffer z (length ss)
      | _ \<Rightarrow> CreateListBuffer z (length ss)) = Some ds" "length ds = length ss" "list_all (target z ec) ds"
proof -
  have "cfg_interface ec \<noteq> eebus_data_choice_methods" using wf_element [OF assms(2)] assms(1,4) by auto
  then have fresh: "CreateListBuffer z (length ss) = Some (replicate (length ss) Null)"
    "list_all (target z ec) (replicate (length ss) Null)"
    using assms(5) by (auto simp: CreateListBuffer_def target_def empty_member_def list_all_iff)
  show thesis
  proof (cases "\<exists>ds. v = Lst ds \<and> length ds = length ss")
    case True
    then obtain ds where v: "v = Lst ds" "length ds = length ss" by blast
    then have "plain cfg" "fits z cfg v" using assms(1,3) by (auto simp: target_def empty_member_def)
    then have "list_all (target z ec) ds"
      using v fits_list [OF assms(1)] assms(4) plain_memberD by (auto simp: target_def list_all_iff)
    then show thesis using that v by simp
  next
    case False
    then have "(case v of Lst ds \<Rightarrow> if length ds = length ss then Some ds else CreateListBuffer z (length ss)
      | _ \<Rightarrow> CreateListBuffer z (length ss)) = CreateListBuffer z (length ss)"
      by (simp split: EebusData.split)
    then show thesis using that fresh by simp
  qed
qed

lemma write_structure:
  assumes st: "is_structure cfg" and src: "fits z cfg src" and t: "target z cfg v"
    and sub: "\<And>c d s. c \<in> set (metadata cfg) \<Longrightarrow> fits z c s \<Longrightarrow> target z c d \<Longrightarrow>
      EEBUS_DATA_WRITE z c d s = Some (kEebusErrorOk, s)"
  shows "EEBUS_DATA_WRITE z cfg v src = Some (kEebusErrorOk, src)"
proof -
  have eq: "EEBUS_DATA_WRITE z cfg v src = EebusDataSequenceWrite (EEBUS_DATA_WRITE z) cfg v src"
    using st by (auto simp: EEBUS_DATA_WRITE.simps [of z cfg])
  show ?thesis
  proof (cases src)
    case (Seq ss)
    then have ss: "length ss = length (metadata cfg)" "0 < cfg_size cfg" "list_all2 (fits z) (metadata cfg) ss"
      using src unfolding fits_structure [OF st] by auto
    obtain ds where ds: "(if v = Null then EebusDataBaseCreateEmpty cfg else v) = Seq ds"
        "length ds = length (metadata cfg)" "list_all2 (target z) (metadata cfg) ds"
      using target_buffer [OF st t ss(2)] .
    have "write_members (EEBUS_DATA_WRITE z) cfg ds ss = Some (kEebusErrorOk, Seq ss)"
      using write_members_ok [OF ds(2) ss(1), of "EEBUS_DATA_WRITE z" "\<lambda>c d s. s"] sub ss ds(2,3)
      by (simp add: list_all2_conv_all_nth zip3_third)
    then show ?thesis using eq Seq with_buffer_Seq [OF ds(1)] by (simp add: EebusDataSequenceWrite_def)
  qed (use src st eq in \<open>auto simp: fits_structure EebusDataSequenceWrite_def\<close>)
qed

lemma write_list:
  assumes ls: "is_list cfg" and wf: "cfg_wf cfg" and src: "fits z cfg src" and t: "target z cfg v"
    and sub: "\<And>c d s. c \<in> set (metadata cfg) \<Longrightarrow> fits z c s \<Longrightarrow> target z c d \<Longrightarrow>
      EEBUS_DATA_WRITE z c d s = Some (kEebusErrorOk, s)"
  shows "EEBUS_DATA_WRITE z cfg v src = Some (kEebusErrorOk, src)"
proof -
  have eq: "EEBUS_DATA_WRITE z cfg v src = EebusDataList_Write z (EEBUS_DATA_WRITE z) cfg v src"
    using ls by (auto simp: EEBUS_DATA_WRITE.simps [of z cfg])
  show ?thesis
  proof (cases src)
    case (Lst ss)
    then obtain ec r where ss: "metadata cfg = ec # r" "z \<or> ss \<noteq> []" "list_all (fits z ec) ss"
      using src unfolding fits_list [OF ls] by auto
    obtain ds where ds: "(case v of Lst ds \<Rightarrow> if length ds = length ss then Some ds else CreateListBuffer z (length ss)
        | _ \<Rightarrow> CreateListBuffer z (length ss)) = Some ds" "length ds = length ss" "list_all (target z ec) ds"
      using list_buffer [OF ls wf t ss(1,2)] .
    have "write_loop (\<lambda>(d, s). EEBUS_DATA_WRITE z ec d s) (zip ds (zip ds ss)) =
        Some (kEebusErrorOk, map (\<lambda>(d, s). s) (zip ds ss))"
      using sub [of ec] ss ds(2,3) by (intro write_elements_loop) (auto simp: list_all_length)
    also have "map (\<lambda>(d, s). s) (zip ds ss) = ss" using ds(2) by (intro nth_equalityI) auto
    finally show ?thesis using eq Lst ds(1) ss(1) by (simp add: EebusDataList_Write_def with_element_def)
  qed (use src ls eq in \<open>auto simp: fits_list EebusDataList_Write_def\<close>)
qed

lemma write_copies:
  assumes "cfg_wf cfg" "fits z cfg src" "target z cfg v"
  shows "EEBUS_DATA_WRITE z cfg v src = Some (kEebusErrorOk, src)"
  using assms
proof (induction cfg arbitrary: v src rule: cfg_induct)
  case (1 cfg)
  note IH = 1(1) and wf = 1(2) and src = 1(3) and t = 1(4)
  have sub: "\<And>c d s. c \<in> set (metadata cfg) \<Longrightarrow> fits z c s \<Longrightarrow> target z c d \<Longrightarrow>
      EEBUS_DATA_WRITE z c d s = Some (kEebusErrorOk, s)"
    using IH cfg_wf_memberD [OF wf] by blast
  show ?case
  proof (cases cfg rule: cfg_cases)
    case 1
    then show ?thesis using write_structure src t sub by blast
  next
    case 2
    then show ?thesis using write_list wf src t sub by blast
  next
    case 3
    then obtain j s where s: "src = Choice j s" "j < length (metadata cfg)" "fits z (metadata cfg ! j) s"
      using src unfolding fits_choice [OF 3] by blast
    have "\<not> plain cfg" using 3 plain_interface by fastforce
    then have v: "v = Choice 0 Null" using t 3 by (simp add: target_def empty_member_def)
    have "cfg_interface (metadata cfg ! j) \<noteq> eebus_data_choice_methods" using wf_element [OF wf] 3 s(2) by simp
    then have "fits z (metadata cfg ! j) Null" "target z (metadata cfg ! j) Null"
      by (simp_all add: target_def empty_member_def)
    then show ?thesis
      using sub [of "metadata cfg ! j" s Null] s 3 v
      by (simp add: EEBUS_DATA_WRITE.simps [of z cfg] EebusDataChoice_Write_def with_choice_def)
  next
    case 4
    then show ?thesis using write_leaf src by blast
  next
    case 5
    then have "src = Null" "v = Null"
      using src t plain_interface by (auto simp: fits.simps [of z cfg] target_def empty_member_def)
    then show ?thesis using 5 by (simp add: EEBUS_DATA_WRITE.simps [of z cfg])
  qed
qed


section \<open>Writing only what is present\<close>

text \<open>
  What a write of the present elements means, without descriptors: the members of a structure that are
  present in the source replace those of the destination, recursively.
\<close>

lemma zip_size [termination_simp]: "(a, b) \<in> set (zip xs ys) \<Longrightarrow> size a < Suc (size_list size xs)"
  by (drule set_zip_leftD) (simp add: less_Suc_eq_le size_list_estimation')

fun overlay :: "EebusData \<Rightarrow> EebusData \<Rightarrow> EebusData" where
  "overlay (Seq ds) (Seq ss) = Seq (map (\<lambda>(d, s). overlay d s) (zip ds ss))"
| "overlay v Null = v"
| "overlay v s = s"

lemma overlay_Null [simp]: "overlay Null s = s"
  by (cases s) auto

lemma overlay_not_Seq: "(\<forall>ds. v \<noteq> Seq ds) \<or> (\<forall>ss. s \<noteq> Seq ss) \<Longrightarrow> overlay v s = (if s = Null then v else s)"
  by (cases v; cases s) auto

lemma overlay_self [simp]: "overlay v v = v"
proof (induction v)
  case (Seq ds)
  then show ?case by (auto simp: zip_same_conv_map intro: map_idI)
qed auto

fun list_free :: "EebusDataCfg \<Rightarrow> bool" where
  "list_free cfg \<longleftrightarrow> \<not> is_list cfg \<and> list_all list_free (metadata cfg)"

declare list_free.simps [simp del]

lemma list_free_memberD: "list_free cfg \<Longrightarrow> c \<in> set (metadata cfg) \<Longrightarrow> list_free c"
  by (subst (asm) list_free.simps) (simp add: list_all_iff)

lemma list_free_not_list: "list_free cfg \<Longrightarrow> \<not> is_list cfg"
  by (subst (asm) list_free.simps) blast

lemma fits_SeqD: "fits z cfg (Seq ds) \<Longrightarrow> is_structure cfg"
  unfolding fits.simps [of z cfg] by (simp split: EebusDataInterface.splits)

lemma fits_Seq_iff:
  "is_structure cfg \<Longrightarrow> fits z cfg (Seq ds) \<longleftrightarrow>
     length ds = length (metadata cfg) \<and> 0 < cfg_size cfg \<and> list_all2 (fits z) (metadata cfg) ds"
  using fits_structure [of cfg z "Seq ds"] by auto

lemma fits_overlay:
  assumes "plain cfg" "fits z cfg v" "fits z cfg s"
  shows "fits z cfg (overlay v s)"
  using assms
proof (induction cfg arbitrary: v s rule: cfg_induct)
  case (1 cfg)
  note IH = 1(1) and pl = 1(2) and v = 1(3) and s = 1(4)
  show ?case
  proof (cases "\<exists>ds ss. v = Seq ds \<and> s = Seq ss")
    case True
    then obtain ds ss where [simp]: "v = Seq ds" "s = Seq ss" by blast
    have st: "is_structure cfg"
      using v fits_SeqD by simp
    have ds: "length ds = length (metadata cfg)" "length ss = length (metadata cfg)" "0 < cfg_size cfg"
      "list_all2 (fits z) (metadata cfg) ds" "list_all2 (fits z) (metadata cfg) ss"
      using v s fits_Seq_iff [OF st] by simp_all
    have "list_all2 (fits z) (metadata cfg) (map (\<lambda>(d, s). overlay d s) (zip ds ss))"
    proof (rule list_all2_all_nthI)
      fix i assume "i < length (metadata cfg)"
      then have "fits z (metadata cfg ! i) (overlay (ds ! i) (ss ! i))"
        using IH [of "metadata cfg ! i"] plain_memberD [OF pl] list_all2_nthD [OF ds(4)]
          list_all2_nthD [OF ds(5)] by simp
      then show "fits z (metadata cfg ! i) (map (\<lambda>(d, s). overlay d s) (zip ds ss) ! i)"
        using \<open>i < length (metadata cfg)\<close> ds(1,2) by simp
    qed (use ds in simp)
    then show ?thesis using ds fits_Seq_iff [OF st] by simp
  next
    case False
    then show ?thesis using v s overlay_not_Seq [of v s] by (cases v) auto
  qed
qed

lemma structure_members:
  assumes "is_structure cfg" "plain cfg" "fits z cfg v" "fits z cfg (Seq ss)"
  obtains ds where "(if v = Null then EebusDataBaseCreateEmpty cfg else v) = Seq ds"
    "length ds = length (metadata cfg)" "length ss = length (metadata cfg)"
    "list_all2 (fits z) (metadata cfg) ds" "list_all2 (fits z) (metadata cfg) ss"
    "Seq (map (\<lambda>(c, d, s). overlay d s) (zip (metadata cfg) (zip ds ss))) = overlay v (Seq ss)"
proof -
  have ss: "length ss = length (metadata cfg)" "0 < cfg_size cfg" "list_all2 (fits z) (metadata cfg) ss"
    using assms(4) unfolding fits_structure [OF assms(1)] by auto
  have empty: "empty_member c = Null" "fits z c Null" if "c \<in> set (metadata cfg)" for c
    using plain_interface [OF plain_memberD [OF assms(2) that]] by (auto simp: empty_member_def)
  show thesis
  proof (cases "v = Null")
    case True
    have e: "map empty_member (metadata cfg) = map (\<lambda>_. Null) (metadata cfg)" using empty by simp
    have "map (\<lambda>(c, d, s). overlay d s) (zip (metadata cfg) (zip (map (\<lambda>_. Null) (metadata cfg)) ss)) = ss"
      using ss(1) by (intro nth_equalityI) auto
    then show thesis
      using that [of "map (\<lambda>_. Null) (metadata cfg)"] True ss assms(1) empty e
      by (simp add: EebusDataBaseCreateEmpty_def list_all2_conv_all_nth)
  next
    case False
    then obtain ds where [simp]: "v = Seq ds" and ds: "length ds = length (metadata cfg)"
        "list_all2 (fits z) (metadata cfg) ds"
      using assms(3) unfolding fits_structure [OF assms(1)] by blast
    have "map (\<lambda>(c, d, s). overlay d s) (zip (metadata cfg) (zip ds ss)) = map (\<lambda>(d, s). overlay d s) (zip ds ss)"
      using ss(1) ds(1) by (intro nth_equalityI) auto
    then show thesis using that [of ds] ds ss by simp
  qed
qed

lemma write_elements_overlay:
  assumes "plain cfg" "fits z cfg v" "fits z cfg s"
  shows "EEBUS_DATA_WRITE_ELEMENTS z cfg v s = Some (kEebusErrorOk, overlay v s)"
  using assms
proof (induction cfg arbitrary: v s rule: cfg_induct)
  case (1 cfg)
  note IH = 1(1) and pl = 1(2) and v = 1(3) and s = 1(4)
  show ?case
  proof (cases "cfg_interface cfg = eebus_data_sequence_methods")
    case True
    then have st: "is_structure cfg" by simp
    have eq: "EEBUS_DATA_WRITE_ELEMENTS z cfg v s = EebusDataSequenceWriteElements (EEBUS_DATA_WRITE_ELEMENTS z) cfg v s"
      using True by (simp add: EEBUS_DATA_WRITE_ELEMENTS.simps [of z cfg])
    consider "s = Null" | ss where "s = Seq ss" using s unfolding fits_structure [OF st] by blast
    then show ?thesis
    proof cases
      case 1
      then show ?thesis using eq by (simp add: EebusDataSequenceWriteElements_def)
    next
      case 2
      then obtain ds where ds: "(if v = Null then EebusDataBaseCreateEmpty cfg else v) = Seq ds"
        "length ds = length (metadata cfg)" "length ss = length (metadata cfg)"
        "list_all2 (fits z) (metadata cfg) ds" "list_all2 (fits z) (metadata cfg) ss"
        "Seq (map (\<lambda>(c, d, s). overlay d s) (zip (metadata cfg) (zip ds ss))) = overlay v (Seq ss)"
        using structure_members [OF st pl v] s by metis
      have "write_members (EEBUS_DATA_WRITE_ELEMENTS z) cfg ds ss =
          Some (kEebusErrorOk, Seq (map (\<lambda>(c, d, s). overlay d s) (zip (metadata cfg) (zip ds ss))))"
        using IH plain_memberD [OF pl] ds by (intro write_members_ok) (auto simp: list_all2_conv_all_nth)
      then show ?thesis using eq 2 ds(6) with_buffer_Seq [OF ds(1)] by (simp add: EebusDataSequenceWriteElements_def)
    qed
  next
    case False
    then have eq: "EEBUS_DATA_WRITE_ELEMENTS z cfg v s = EebusDataBaseWriteElements z cfg v s"
      and "EEBUS_DATA_IS_NULL cfg s \<longleftrightarrow> s = Null"
      using plain_interface [OF pl] unfolding EEBUS_DATA_WRITE_ELEMENTS.simps [of z cfg]
      by (auto split: EebusDataInterface.split)
    moreover have "\<forall>ds. v \<noteq> Seq ds" using fits_SeqD v False plain_interface [OF pl] by blast
    moreover have "EEBUS_DATA_WRITE z cfg v s = Some (kEebusErrorOk, s)"
      using write_copies [OF plain_wf [OF pl] s] pl v by (simp add: target_def)
    ultimately show ?thesis by (simp add: EebusDataBaseWriteElements_def overlay_not_Seq)
  qed
qed


section \<open>Partial writes of one element\<close>

lemma write_partial_overlay:
  assumes "plain cfg" "list_free cfg" "fits z cfg v" "fits z cfg s"
  shows "EEBUS_DATA_WRITE_PARTIAL z cfg v s sel = Some (kEebusErrorOk, overlay v s)"
  using assms
proof (induction cfg arbitrary: v s sel rule: cfg_induct)
  case (1 cfg)
  note IH = 1(1) and pl = 1(2) and lf = 1(3) and v = 1(4) and s = 1(5)
  show ?case
  proof (cases "cfg_interface cfg = eebus_data_sequence_methods")
    case True
    then have st: "is_structure cfg" by simp
    have eq: "EEBUS_DATA_WRITE_PARTIAL z cfg v s sel = EebusDataSequenceWritePartial (EEBUS_DATA_WRITE_PARTIAL z) cfg v s"
      using True by (simp add: EEBUS_DATA_WRITE_PARTIAL.simps [of z cfg])
    consider "s = Null" | ss where "s = Seq ss" using s unfolding fits_structure [OF st] by blast
    then show ?thesis
    proof cases
      case 1
      then show ?thesis using eq by (simp add: EebusDataSequenceWritePartial_def)
    next
      case 2
      then obtain ds where ds: "(if v = Null then EebusDataBaseCreateEmpty cfg else v) = Seq ds"
        "length ds = length (metadata cfg)" "length ss = length (metadata cfg)"
        "list_all2 (fits z) (metadata cfg) ds" "list_all2 (fits z) (metadata cfg) ss"
        "Seq (map (\<lambda>(c, d, s). overlay d s) (zip (metadata cfg) (zip ds ss))) = overlay v (Seq ss)"
        using structure_members [OF st pl v] s by metis
      have "write_members (\<lambda>c d s. EEBUS_DATA_WRITE_PARTIAL z c d s None) cfg ds ss =
          Some (kEebusErrorOk, Seq (map (\<lambda>(c, d, s). overlay d s) (zip (metadata cfg) (zip ds ss))))"
        using IH plain_memberD [OF pl] list_free_memberD [OF lf] ds
        by (intro write_members_ok) (auto simp: list_all2_conv_all_nth)
      then show ?thesis using eq 2 ds(6) with_buffer_Seq [OF ds(1)] by (simp add: EebusDataSequenceWritePartial_def)
    qed
  next
    case False
    then have "EEBUS_DATA_WRITE_PARTIAL z cfg v s sel = EEBUS_DATA_WRITE_ELEMENTS z cfg v s"
      using plain_interface [OF pl] list_free_not_list [OF lf] unfolding EEBUS_DATA_WRITE_PARTIAL.simps [of z cfg]
      by (auto split: EebusDataInterface.split)
    then show ?thesis using write_elements_overlay [OF pl v s] by simp
  qed
qed

section \<open>Identifiers\<close>

lemma has_identifiers_sequence:
  "cfg_interface cfg = eebus_data_sequence_methods \<Longrightarrow>
   EEBUS_DATA_HAS_IDENTIFIERS cfg v = EebusDataSequenceHasIdentifiers EEBUS_DATA_HAS_IDENTIFIERS cfg v"
  by (simp add: EEBUS_DATA_HAS_IDENTIFIERS.simps [of cfg])

lemma identifiers_match_sequence:
  "cfg_interface cfg = eebus_data_sequence_methods \<Longrightarrow>
   EEBUS_DATA_IDENTIFIERS_MATCH cfg v s = EebusDataSequenceIdentifiersMatch EEBUS_DATA_IDENTIFIERS_MATCH cfg v s"
  by (simp add: EEBUS_DATA_IDENTIFIERS_MATCH.simps [of cfg])

lemma identifiers_leaf:
  assumes "is_leaf cfg"
  shows "EEBUS_DATA_HAS_IDENTIFIERS cfg v = (v \<noteq> Null \<and> EebusDataBaseHasIdentifiersFlags cfg)"
    and "fits z cfg v \<Longrightarrow> fits z' cfg s \<Longrightarrow>
      EEBUS_DATA_IDENTIFIERS_MATCH cfg v s = (\<not> EebusDataBaseHasIdentifiersFlags cfg \<or> s = Null \<or> v = s)"
proof -
  have "EEBUS_DATA_HAS_IDENTIFIERS cfg v = EebusDataBaseHasIdentifiers cfg v"
    using assms by (auto simp: EEBUS_DATA_HAS_IDENTIFIERS.simps [of cfg])
  then show "EEBUS_DATA_HAS_IDENTIFIERS cfg v = (v \<noteq> Null \<and> EebusDataBaseHasIdentifiersFlags cfg)"
    using assms by (auto simp: EebusDataBaseHasIdentifiers_def)
  have "EEBUS_DATA_IDENTIFIERS_MATCH cfg v s = EebusDataBaseIdentifiersMatch cfg v s"
    using assms by (auto simp: EEBUS_DATA_IDENTIFIERS_MATCH.simps [of cfg])
  then show "fits z cfg v \<Longrightarrow> fits z' cfg s \<Longrightarrow>
      EEBUS_DATA_IDENTIFIERS_MATCH cfg v s = (\<not> EebusDataBaseHasIdentifiersFlags cfg \<or> s = Null \<or> v = s)"
    using assms compare_leaf [OF assms] by (auto simp: EebusDataBaseIdentifiersMatch_def)
qed

text \<open>What is null matches exactly the elements without identifiers.\<close>

lemma identifiers_match_Null:
  assumes "plain cfg" "list_free cfg" "fits z cfg x"
  shows "EEBUS_DATA_IDENTIFIERS_MATCH cfg Null x \<longleftrightarrow> \<not> EEBUS_DATA_HAS_IDENTIFIERS cfg x"
proof (cases rule: plain_cases [OF assms(1)])
  case 1
  have n: "fits z cfg Null" using 1 by simp
  show ?thesis
    unfolding identifiers_match_sequence [OF 1] EebusDataSequenceIdentifiersMatch_def
      compare_eq [OF assms(1) n assms(3)] has_identifiers_sequence [OF 1] EebusDataSequenceHasIdentifiers_def
    using assms(3) 1 by (auto split: EebusData.split simp: fits.simps [of z cfg])
next
  case 2
  then show ?thesis using list_free_not_list [OF assms(2)] by blast
next
  case 3
  then have n: "fits z cfg Null" by auto
  show ?thesis unfolding identifiers_leaf(1) [OF 3] identifiers_leaf(2) [OF 3 n assms(3)] by auto
qed


lemma identifiers_match_Seq:
  assumes "cfg_interface cfg = eebus_data_sequence_methods" "\<not> EebusDataBaseHasIdentifiersFlags cfg"
    and "length ds = length (metadata cfg)" "length xs = length (metadata cfg)"
  shows "EEBUS_DATA_IDENTIFIERS_MATCH cfg (Seq ds) (Seq xs) \<longleftrightarrow>
    (\<forall>i < length (metadata cfg). \<not> EEBUS_DATA_HAS_IDENTIFIERS (metadata cfg ! i) (xs ! i)) \<or>
    (\<forall>i < length (metadata cfg). EEBUS_DATA_IDENTIFIERS_MATCH (metadata cfg ! i) (ds ! i) (xs ! i))"
  using assms by (auto simp: identifiers_match_sequence EebusDataSequenceIdentifiersMatch_def
      has_identifiers_sequence EebusDataSequenceHasIdentifiers_def list_all_length list_ex_length)

lemma has_identifiers_Seq:
  assumes "cfg_interface cfg = eebus_data_sequence_methods" "\<not> EebusDataBaseHasIdentifiersFlags cfg"
    and "length xs = length (metadata cfg)"
  shows "EEBUS_DATA_HAS_IDENTIFIERS cfg (Seq xs) \<longleftrightarrow>
    (\<exists>i < length (metadata cfg). EEBUS_DATA_HAS_IDENTIFIERS (metadata cfg ! i) (xs ! i))"
  using assms by (auto simp: has_identifiers_sequence EebusDataSequenceHasIdentifiers_def list_ex_length)

lemma has_identifiers_Null [simp]:
  assumes "plain cfg"
  shows "\<not> EEBUS_DATA_HAS_IDENTIFIERS cfg Null"
proof (cases rule: plain_cases [OF assms])
  case 1
  then show ?thesis by (simp add: has_identifiers_sequence EebusDataSequenceHasIdentifiers_def)
next
  case 2
  then show ?thesis by (auto simp: EEBUS_DATA_HAS_IDENTIFIERS.simps [of cfg])
next
  case 3
  then show ?thesis using identifiers_leaf(1) by blast
qed

text \<open>The members of a structure; those of a null structure are all null.\<close>

definition members :: "EebusDataCfg \<Rightarrow> EebusData \<Rightarrow> EebusData list" where
  "members cfg v = (case v of Seq ds \<Rightarrow> ds | _ \<Rightarrow> replicate (length (metadata cfg)) Null)"

lemma members_Seq [simp]: "members cfg (Seq ds) = ds"
  by (simp add: members_def)

lemma fits_members:
  assumes "is_structure cfg" "plain cfg" "fits z cfg v"
  shows "length (members cfg v) = length (metadata cfg)"
    and "\<And>i. i < length (metadata cfg) \<Longrightarrow> fits z (metadata cfg ! i) (members cfg v ! i)"
proof -
  have "fits z (metadata cfg ! i) Null" if "i < length (metadata cfg)" for i
    using plain_interface [OF plain_memberD [OF assms(2)]] that by (intro fits_Null) fastforce
  moreover have "v = Null \<or> (\<exists>ds. v = Seq ds \<and> length ds = length (metadata cfg) \<and> list_all2 (fits z) (metadata cfg) ds)"
    using assms(3) unfolding fits_structure [OF assms(1)] by blast
  ultimately show "length (members cfg v) = length (metadata cfg)"
      "\<And>i. i < length (metadata cfg) \<Longrightarrow> fits z (metadata cfg ! i) (members cfg v ! i)"
    by (auto simp: members_def dest: list_all2_nthD)
qed

lemma overlay_members:
  assumes "is_structure cfg" "fits z cfg v" "length ss = length (metadata cfg)"
  shows "overlay v (Seq ss) = Seq (map (\<lambda>(d, s). overlay d s) (zip (members cfg v) ss))"
proof (cases v)
  case Null
  then show ?thesis using assms(3) by (auto simp: members_def intro!: nth_equalityI)
qed (use assms(1,2) in \<open>auto dest: fits_structure [THEN iffD1, rotated]\<close>)

lemma identifiers_match_members:
  assumes seq: "cfg_interface cfg = eebus_data_sequence_methods" and nf: "\<not> EebusDataBaseHasIdentifiersFlags cfg"
    and pl: "plain cfg" and lf: "list_free cfg" and v: "fits z cfg v" and x: "fits z cfg (Seq xs)"
  shows "EEBUS_DATA_IDENTIFIERS_MATCH cfg v (Seq xs) \<longleftrightarrow>
    EEBUS_DATA_IDENTIFIERS_MATCH cfg (Seq (members cfg v)) (Seq xs)"
proof -
  have st: "is_structure cfg" using seq by simp
  consider "v = Null" | ds where "v = Seq ds" using v unfolding fits_structure [OF st] by blast
  then show ?thesis
  proof cases
    case 1
    let ?n = "length (metadata cfg)" and ?c = "\<lambda>i. metadata cfg ! i"
    note xs = fits_members [OF st pl x, unfolded members_Seq] and ds = fits_members [OF st pl v]
    have "EEBUS_DATA_IDENTIFIERS_MATCH (?c i) (members cfg v ! i) (xs ! i) \<longleftrightarrow> \<not> EEBUS_DATA_HAS_IDENTIFIERS (?c i) (xs ! i)"
      if "i < ?n" for i
      using that 1 identifiers_match_Null [OF plain_memberD [OF pl] list_free_memberD [OF lf] xs(2) [OF that]]
      by (simp add: members_def)
    then show ?thesis
      unfolding identifiers_match_Seq [OF seq nf ds(1) xs(1)]
      using 1 identifiers_match_Null [OF pl lf x] has_identifiers_Seq [OF seq nf xs(1)] by simp
  qed simp
qed

text \<open>
  Writing what is present to an element it matches, or writing data without identifiers, does not
  change what the element matches.
\<close>

lemma overlay_keeps_identifiers_Seq:
  assumes seq: "cfg_interface cfg = eebus_data_sequence_methods" and nf: "\<not> EebusDataBaseHasIdentifiersFlags cfg"
    and pl: "plain cfg" and lf: "list_free cfg"
    and v: "fits z cfg v" and s: "fits z cfg (Seq ss)" and x: "fits z cfg (Seq xs)"
    and H: "EEBUS_DATA_IDENTIFIERS_MATCH cfg v (Seq ss) \<or> \<not> EEBUS_DATA_HAS_IDENTIFIERS cfg (Seq ss)"
    and IH: "\<And>c v s x. c \<in> set (metadata cfg) \<Longrightarrow> fits z c v \<Longrightarrow> fits z c s \<Longrightarrow> fits z c x \<Longrightarrow>
      EEBUS_DATA_IDENTIFIERS_MATCH c v s \<or> \<not> EEBUS_DATA_HAS_IDENTIFIERS c s \<Longrightarrow>
      EEBUS_DATA_IDENTIFIERS_MATCH c (overlay v s) x \<longleftrightarrow> EEBUS_DATA_IDENTIFIERS_MATCH c v x"
  shows "EEBUS_DATA_IDENTIFIERS_MATCH cfg (overlay v (Seq ss)) (Seq xs) \<longleftrightarrow> EEBUS_DATA_IDENTIFIERS_MATCH cfg v (Seq xs)"
proof -
  have st: "is_structure cfg" using seq by simp
  let ?n = "length (metadata cfg)" and ?c = "\<lambda>i. metadata cfg ! i" and ?ds = "members cfg v"
  let ?os = "map (\<lambda>(d, s). overlay d s) (zip ?ds ss)"
  note ds = fits_members [OF st pl v] and ss = fits_members [OF st pl s, unfolded members_Seq]
    and xs = fits_members [OF st pl x, unfolded members_Seq]
  have os: "length ?os = ?n" using ds ss by simp
  have "EEBUS_DATA_IDENTIFIERS_MATCH (?c i) (?ds ! i) (ss ! i) \<or> \<not> EEBUS_DATA_HAS_IDENTIFIERS (?c i) (ss ! i)"
    if "i < ?n" for i
    using H that unfolding identifiers_match_members [OF seq nf pl lf v s]
      identifiers_match_Seq [OF seq nf ds(1) ss(1)] has_identifiers_Seq [OF seq nf ss(1)] by blast
  then have "EEBUS_DATA_IDENTIFIERS_MATCH (?c i) (?os ! i) (xs ! i) \<longleftrightarrow> EEBUS_DATA_IDENTIFIERS_MATCH (?c i) (?ds ! i) (xs ! i)"
    if "i < ?n" for i
    using IH [of "?c i" "?ds ! i" "ss ! i" "xs ! i"] that ds ss xs by simp
  then show ?thesis
    unfolding overlay_members [OF st v ss(1)] identifiers_match_members [OF seq nf pl lf v x]
      identifiers_match_Seq [OF seq nf ds(1) xs(1)] identifiers_match_Seq [OF seq nf os xs(1)] by simp
qed

lemma overlay_keeps_identifiers:
  assumes "plain cfg" "list_free cfg" "fits z cfg v" "fits z cfg s" "fits z cfg x"
    and "EEBUS_DATA_IDENTIFIERS_MATCH cfg v s \<or> \<not> EEBUS_DATA_HAS_IDENTIFIERS cfg s"
  shows "EEBUS_DATA_IDENTIFIERS_MATCH cfg (overlay v s) x \<longleftrightarrow> EEBUS_DATA_IDENTIFIERS_MATCH cfg v x"
  using assms
proof (induction cfg arbitrary: v s x rule: cfg_induct)
  case (1 cfg)
  note IH = 1(1) and pl = 1(2) and lf = 1(3) and v = 1(4) and s = 1(5) and x = 1(6) and H = 1(7)
  show ?case
  proof (cases rule: plain_cases [OF pl])
    case seq: 1
    then have st: "is_structure cfg" by simp
    show ?thesis
    proof (cases "s = Null \<or> v = s")
      case True
      then show ?thesis by auto
    next
      case False
      then obtain ss where S: "s = Seq ss" using s unfolding fits_structure [OF st] by blast
      have nf: "\<not> EebusDataBaseHasIdentifiersFlags cfg"
        using H False S compare_eq [OF pl v s]
        by (auto simp: identifiers_match_sequence [OF seq] EebusDataSequenceIdentifiersMatch_def
            has_identifiers_sequence [OF seq] EebusDataSequenceHasIdentifiers_def)
      show ?thesis
      proof (cases x)
        case (Seq xs)
        show ?thesis
          unfolding S Seq
          by (rule overlay_keeps_identifiers_Seq [OF seq nf pl lf v _ _ _ IH])
            (use s x S Seq H plain_memberD [OF pl] list_free_memberD [OF lf] in auto)
      qed (use x pl nf in \<open>auto simp: fits_structure [OF st] identifiers_match_sequence [OF seq]
          EebusDataSequenceIdentifiersMatch_def\<close>)
    qed
  next
    case 2
    then show ?thesis using list_free_not_list [OF lf] by blast
  next
    case 3
    then have "\<forall>ds. v \<noteq> Seq ds" using v fits_SeqD by fastforce
    then have ov: "overlay v s = (if s = Null then v else s)" by (simp add: overlay_not_Seq)
    show ?thesis
      using H unfolding ov identifiers_leaf(1) [OF 3] identifiers_leaf(2) [OF 3 v s] identifiers_leaf(2) [OF 3 v x]
      using identifiers_leaf(2) [OF 3 s x] identifiers_leaf(2) [OF 3 v x] by auto
  qed
qed


section \<open>Merging a list\<close>

text \<open>
  What \<^verbatim>\<open>MergeData\<close> is to do: the elements of the source that match an element of the list are written
  over it, one after the other, and the others are appended in their order.
\<close>

fun first_match :: "EebusDataCfg \<Rightarrow> EebusData list \<Rightarrow> EebusData \<Rightarrow> nat option" where
  "first_match ec [] s = None"
| "first_match ec (d # ds) s =
     (if EEBUS_DATA_IDENTIFIERS_MATCH ec d s then Some 0 else map_option Suc (first_match ec ds s))"

definition merge_spec :: "EebusDataCfg \<Rightarrow> EebusData list \<Rightarrow> EebusData list \<Rightarrow> EebusData list" where
  "merge_spec ec ds ss =
     map (\<lambda>i. foldl overlay (ds ! i) (filter (\<lambda>s. first_match ec ds s = Some i) ss)) [0..<length ds] @
     filter (\<lambda>s. first_match ec ds s = None) ss"

lemma find_map_Suc: "List.find P (map Suc xs) = map_option Suc (List.find (\<lambda>i. P (Suc i)) xs)"
  by (induction xs) auto

lemma GetItemMatchingIdentifiers_first: "GetItemMatchingIdentifiers ec ds s = first_match ec ds s"
proof (induction ds)
  case (Cons d ds)
  have "[0..<length (d # ds)] = 0 # map Suc [0..<length ds]" by (simp add: map_Suc_upt upt_conv_Cons del: upt_Suc)
  then show ?case using Cons by (simp add: GetItemMatchingIdentifiers_def find_map_Suc del: upt_Suc)
qed (simp add: GetItemMatchingIdentifiers_def)

lemmas merge_spec_code = merge_spec_def [folded GetItemMatchingIdentifiers_first]

lemma GetItemMatchingIdentifiers_SomeD:
  "GetItemMatchingIdentifiers ec ds s = Some i \<Longrightarrow> i < length ds \<and> EEBUS_DATA_IDENTIFIERS_MATCH ec (ds ! i) s"
  by (auto simp: GetItemMatchingIdentifiers_def find_Some_iff)

lemma GetItemMatchingIdentifiers_cong:
  assumes "length as = length ds"
    and "\<And>i. i < length ds \<Longrightarrow> EEBUS_DATA_IDENTIFIERS_MATCH ec (as ! i) s = EEBUS_DATA_IDENTIFIERS_MATCH ec (ds ! i) s"
  shows "GetItemMatchingIdentifiers ec as s = GetItemMatchingIdentifiers ec ds s"
  unfolding GetItemMatchingIdentifiers_def using assms by (intro find_cong) auto

lemma write_created:
  "plain ec \<Longrightarrow> fits z ec s \<Longrightarrow> EEBUS_DATA_WRITE z ec Null s = Some (kEebusErrorOk, s)"
  using plain_interface [of ec] by (intro write_copies plain_wf) (auto simp: target_def)

text \<open>
  The slots of the old list match what they matched before, however often they were written, so the
  buffer sized by the first count is always large enough.
\<close>

lemma merge_loop_ok:
  assumes "plain ec" "list_free ec" "\<forall>s \<in> set ss. fits z ec s"
    and "length as = length ds" "\<forall>i < length ds. fits z ec (as ! i)"
    and "\<forall>i < length ds. \<forall>x. fits z ec x \<longrightarrow>
      EEBUS_DATA_IDENTIFIERS_MATCH ec (as ! i) x = EEBUS_DATA_IDENTIFIERS_MATCH ec (ds ! i) x"
    and "length ds + length bs + length (filter (\<lambda>s. GetItemMatchingIdentifiers ec ds s = None) ss) \<le> new_size"
  shows "merge_loop (\<lambda>d s. EEBUS_DATA_WRITE_PARTIAL z ec d s None) (EEBUS_DATA_WRITE z ec Null) ec (length ds) new_size
      (as @ bs) ss =
    Some (kEebusErrorOk,
      map (\<lambda>i. foldl overlay (as ! i) (filter (\<lambda>s. GetItemMatchingIdentifiers ec ds s = Some i) ss)) [0..<length ds] @
      bs @ filter (\<lambda>s. GetItemMatchingIdentifiers ec ds s = None) ss)"
  using assms(3-7)
proof (induction ss arbitrary: as bs)
  case Nil
  then show ?case by (auto intro!: nth_equalityI simp: nth_append)
next
  case (Cons s ss)
  note IH = Cons.IH and fs = Cons.prems(1) and len = Cons.prems(2) and fas = Cons.prems(3)
    and same = Cons.prems(4) and room = Cons.prems(5)
  have g: "GetItemMatchingIdentifiers ec (take (length ds) (as @ bs)) s = GetItemMatchingIdentifiers ec ds s"
    using len fs same by (intro GetItemMatchingIdentifiers_cong) simp_all
  show ?case
  proof (cases "GetItemMatchingIdentifiers ec ds s")
    case None
    have c: "EEBUS_DATA_WRITE z ec Null s = Some (kEebusErrorOk, s)" using write_created [OF assms(1)] fs by simp
    show ?thesis using g None c room len fs IH [of as "bs @ [s]"] fas same by simp
  next
    case (Some i)
    then have i: "i < length ds" "EEBUS_DATA_IDENTIFIERS_MATCH ec (as ! i) s"
      using GetItemMatchingIdentifiers_SomeD [OF Some] same fs by auto
    have u: "EEBUS_DATA_WRITE_PARTIAL z ec (as ! i) s None = Some (kEebusErrorOk, overlay (as ! i) s)"
      using write_partial_overlay [OF assms(1,2)] fas fs i by simp
    let ?as = "as[i := overlay (as ! i) s]"
    have "fits z ec (?as ! j)" if "j < length ds" for j
      using fits_overlay [OF assms(1)] fas fs i that len by (simp add: nth_list_update)
    moreover have "EEBUS_DATA_IDENTIFIERS_MATCH ec (?as ! j) x = EEBUS_DATA_IDENTIFIERS_MATCH ec (ds ! j) x"
      if "j < length ds" "fits z ec x" for j x
      using overlay_keeps_identifiers [OF assms(1,2), of z "as ! i" s x] fas fs i that len same
      by (cases "i = j") (simp_all add: nth_list_update)
    moreover have "map (\<lambda>j. foldl overlay (?as ! j) (filter (\<lambda>s. GetItemMatchingIdentifiers ec ds s = Some j) ss)) [0..<length ds] =
      map (\<lambda>j. foldl overlay (as ! j) (filter (\<lambda>s. GetItemMatchingIdentifiers ec ds s = Some j) (s # ss))) [0..<length ds]"
      using Some i len by (auto simp: nth_list_update)
    moreover have "(as @ bs)[i := overlay ((as @ bs) ! i) s] = ?as @ bs"
      using i len by (simp add: list_update_append nth_append)
    ultimately show ?thesis
      using g Some u i room len fs IH [of ?as bs] by (simp add: nth_append)
  qed
qed

lemma MergeData_spec:
  assumes "metadata cfg = ec # r" "plain ec" "list_free ec"
    and "v = Null \<and> ds = [] \<or> v = Lst ds" "list_all (fits z ec) ds" "list_all (fits z ec) ss" "ss \<noteq> []"
  shows "MergeData z (EEBUS_DATA_WRITE_PARTIAL z) cfg v (Lst ss) = Some (kEebusErrorOk, Lst (merge_spec ec ds ss))"
proof -
  let ?n = "length ds + length (filter (\<lambda>s. GetItemMatchingIdentifiers ec ds s = None) ss)"
  have dsv: "(case v of Lst ds \<Rightarrow> ds | _ \<Rightarrow> []) = ds" using assms(4) by auto
  have "merge_loop (\<lambda>d s. EEBUS_DATA_WRITE_PARTIAL z ec d s None) (EEBUS_DATA_WRITE z ec Null) ec (length ds) ?n (ds @ []) ss =
      Some (kEebusErrorOk, merge_spec ec ds ss)"
    unfolding merge_spec_code
    using merge_loop_ok [OF assms(2,3), of ss z ds ds "[]" ?n] assms(5,6) by (auto simp: list_all_iff)
  moreover have "length (merge_spec ec ds ss) = ?n" by (simp add: merge_spec_code)
  moreover have "\<not> (?n = length ds \<and> v = Null)"
    using assms(4,7) by (auto simp: GetItemMatchingIdentifiers_def)
  ultimately show ?thesis
    by (simp add: MergeData_def with_element_def assms(1) dsv Let_def del: length_append add.right_neutral)
qed


section \<open>Partial writes keep the type\<close>

text \<open>
  Whatever the outcome of a loop of writes, an error included, each slot holds its old value or the
  value of a write.
\<close>

lemma write_loop_slots:
  assumes "write_loop f xs = Some (err, ws)"
    and "\<And>i. i < length xs \<Longrightarrow> Q i (fst (xs ! i))"
    and "\<And>i e w. i < length xs \<Longrightarrow> f (snd (xs ! i)) = Some (e, w) \<Longrightarrow> Q i w"
  shows "length ws = length xs \<and> (\<forall>i < length xs. Q i (ws ! i))"
  using assms
proof (induction xs arbitrary: ws err Q)
  case (Cons p xs)
  obtain d x where p: "p = (d, x)" by (cases p)
  from Cons.prems(1) obtain e w where w: "f x = Some (e, w)" by (auto simp: p split: option.splits)
  then have q: "Q 0 w" using Cons.prems(3) [of 0] p by simp
  show ?case
  proof (cases "e = kEebusErrorOk")
    case True
    then obtain vs where vs: "write_loop f xs = Some (err, vs)" "ws = w # vs"
      using Cons.prems(1) w by (auto simp: p)
    have "length vs = length xs \<and> (\<forall>i < length xs. Q (Suc i) (vs ! i))"
      using Cons.IH [OF vs(1), of "\<lambda>i. Q (Suc i)"] Cons.prems(2) [of "Suc _"] Cons.prems(3) [of "Suc _"] by fastforce
    then show ?thesis using vs(2) q by (auto simp: nth_Cons split: nat.split)
  next
    case False
    then have "ws = w # map fst xs" using Cons.prems(1) w by (simp add: p)
    then show ?thesis using q Cons.prems(2) [of "Suc _"] by (fastforce simp: nth_Cons split: nat.split)
  qed
qed simp

lemma write_loop_fits:
  assumes "write_loop f (zip ds xs) = Some (err, ws)" "length xs = length ds" "list_all (fits z ec) ds"
    and "\<And>x e w. x \<in> set xs \<Longrightarrow> f x = Some (e, w) \<Longrightarrow> fits z ec w"
  shows "list_all (fits z ec) ws \<and> length ws = length ds"
proof -
  have "length ws = length (zip ds xs) \<and> (\<forall>i < length (zip ds xs). fits z ec (ws ! i))"
  proof (rule write_loop_slots [OF assms(1)])
    show "fits z ec w" if "i < length (zip ds xs)" "f (snd (zip ds xs ! i)) = Some (e, w)" for i e w
      using that assms(4) [of "xs ! i"] by simp
  qed (use assms(2,3) in \<open>simp add: list_all_length\<close>)
  then show ?thesis using assms(2) by (simp add: list_all_length)
qed

lemma write_members_fits:
  assumes "is_structure cfg" "plain cfg" "fits z cfg v" "fits z cfg (Seq ss)"
    and "\<And>c d s e w. c \<in> set (metadata cfg) \<Longrightarrow> fits z c d \<Longrightarrow> fits z c s \<Longrightarrow> f c d s = Some (e, w) \<Longrightarrow> fits z c w"
    and "with_buffer cfg v (\<lambda>ds. write_members f cfg ds ss) = Some (err, w)"
  shows "fits z cfg w"
proof -
  obtain ds where ds: "(if v = Null then EebusDataBaseCreateEmpty cfg else v) = Seq ds"
    "length ds = length (metadata cfg)" "length ss = length (metadata cfg)"
    "list_all2 (fits z) (metadata cfg) ds" "list_all2 (fits z) (metadata cfg) ss"
    using structure_members [OF assms(1-4)] by metis
  let ?xs = "zip ds (zip (metadata cfg) (zip ds ss))"
  obtain ws where ws: "w = Seq ws" "write_loop (\<lambda>(c, d, s). f c d s) ?xs = Some (err, ws)"
    using assms(6) unfolding with_buffer_Seq [OF ds(1)] write_members_def by auto
  have "length ws = length ?xs \<and> (\<forall>i < length ?xs. fits z (metadata cfg ! i) (ws ! i))"
  proof (rule write_loop_slots [OF ws(2)])
    show "fits z (metadata cfg ! i) w" if "i < length ?xs" "(\<lambda>(c, d, s). f c d s) (snd (?xs ! i)) = Some (e, w)" for i e w
      using that ds(2,3) list_all2_nthD [OF ds(4)] list_all2_nthD [OF ds(5)]
        assms(5) [of "metadata cfg ! i" "ds ! i" "ss ! i" e w] by simp
  qed (use ds(2,3) list_all2_nthD [OF ds(4)] in simp)
  then show ?thesis
    unfolding ws(1) fits_Seq_iff [OF assms(1)]
    using ds(2,3) assms(4) fits_Seq_iff [OF assms(1)] by (auto intro!: list_all2_all_nthI)
qed

lemma merge_loop_fits:
  assumes "merge_loop update create ec n new_size ar ss = Some (err, ws)" "list_all (fits z ec) ar" "list_all (fits z ec) ss"
    and "\<And>d s e w. fits z ec d \<Longrightarrow> fits z ec s \<Longrightarrow> update d s = Some (e, w) \<Longrightarrow> fits z ec w"
    and "\<And>s e w. fits z ec s \<Longrightarrow> create s = Some (e, w) \<Longrightarrow> fits z ec w"
  shows "list_all (fits z ec) ws"
  using assms(1-3)
proof (induction ss arbitrary: ar)
  case (Cons s ss)
  show ?case
  proof (cases "GetItemMatchingIdentifiers ec (take n ar) s")
    case None
    then obtain e d where d: "create s = Some (e, d)" using Cons.prems(1) by (auto split: if_splits option.splits)
    then have "fits z ec d" using assms(5) [of s e d] Cons.prems(3) by simp
    then show ?thesis
      using Cons.prems Cons.IH [of "ar @ [d]"] None d by (auto split: if_splits)
  next
    case (Some i)
    then have i: "i < length ar" using GetItemMatchingIdentifiers_SomeD [OF Some] by simp
    obtain e d where d: "update (ar ! i) s = Some (e, d)" using Cons.prems(1) Some by (auto split: option.splits)
    moreover have "fits z ec (ar ! i)" "fits z ec s" using Cons.prems(2,3) i by (auto simp: list_all_length)
    ultimately have "fits z ec d" using assms(4) by blast
    then have "list_all (fits z ec) (ar[i := d])" using Cons.prems(2) i
      by (auto simp: list_all_length nth_list_update)
    then show ?thesis using Cons.prems Cons.IH Some d by (auto split: if_splits)
  qed
qed simp


lemma fits_plain_list:
  assumes "is_list cfg" "metadata cfg = ec # r"
  shows "fits z cfg u \<longleftrightarrow> u = Null \<or> (\<exists>ds. u = Lst ds \<and> (z \<or> ds \<noteq> []) \<and> list_all (fits z ec) ds)"
  unfolding fits_list [OF assms(1)] using assms(2) by simp

lemma write_all_fits:
  assumes "is_list cfg" "metadata cfg = ec # r" "fits z cfg (Lst ds)"
    and "map_option (\<lambda>(err, ds). (err, Lst ds)) (write_loop f (zip ds ds)) = Some (err, w)"
    and "\<And>d e w. fits z ec d \<Longrightarrow> f d = Some (e, w) \<Longrightarrow> fits z ec w"
  shows "fits z cfg w"
proof -
  obtain ws where ws: "w = Lst ws" "write_loop f (zip ds ds) = Some (err, ws)" using assms(4) by auto
  have ds: "list_all (fits z ec) ds" "z \<or> ds \<noteq> []" using assms(3) fits_plain_list [OF assms(1,2)] by simp_all
  have "list_all (fits z ec) ws \<and> length ws = length ds"
  proof (rule write_loop_fits [OF ws(2) refl ds(1)])
    show "fits z ec w" if "x \<in> set ds" "f x = Some (e, w)" for x e w
      using that assms(5) ds(1) by (auto simp: list_all_iff)
  qed
  then show ?thesis unfolding ws(1) fits_plain_list [OF assms(1,2)] using ds(2) by auto
qed

lemma MergeData_fits:
  assumes ls: "is_list cfg" and ec: "metadata cfg = ec # r" "plain ec" and v: "fits z cfg v" and s: "fits z cfg s"
    and wp: "\<And>d e err w. fits z ec d \<Longrightarrow> fits z ec e \<Longrightarrow> write_partial ec d e None = Some (err, w) \<Longrightarrow> fits z ec w"
    and out: "MergeData z write_partial cfg v s = Some (err, w)"
  shows "fits z cfg w"
proof -
  define ds where "ds = (case v of Lst ds \<Rightarrow> ds | _ \<Rightarrow> [])"
  define ss where "ss = (case s of Lst ss \<Rightarrow> ss | _ \<Rightarrow> [])"
  let ?n = "length ds + length (filter (\<lambda>s. GetItemMatchingIdentifiers ec ds s = None) ss)"
  have fs: "list_all (fits z ec) ds" "list_all (fits z ec) ss"
    using v s unfolding fits_plain_list [OF ls ec(1)] ds_def ss_def by auto
  obtain ws where ws: "merge_loop (\<lambda>d s. write_partial ec d s None) (EEBUS_DATA_WRITE z ec Null) ec (length ds) ?n ds ss = Some (err, ws)"
    "w = (if ?n = length ds \<and> v = Null then Null else Lst (ws @ replicate (?n - length ws) Null))"
    using out unfolding MergeData_def with_element_def ec(1) ds_def [symmetric] ss_def [symmetric] Let_def by auto
  have "fits z ec Null" using plain_interface [OF ec(2)] by auto
  moreover have "list_all (fits z ec) ws"
    using merge_loop_fits [OF ws(1) fs wp] write_created [OF ec(2)] by fastforce
  ultimately have f: "list_all (fits z ec) (ws @ replicate (?n - length ws) Null)" by (auto simp: list_all_iff)
  have "z \<or> ?n \<noteq> 0" if "v \<noteq> Null" using that v unfolding fits_plain_list [OF ls ec(1)] by (auto simp: ds_def)
  moreover have "ds = []" if "v = Null" using that by (simp add: ds_def)
  ultimately have "z \<or> ws @ replicate (?n - length ws) Null \<noteq> []" if "\<not> (?n = length ds \<and> v = Null)"
    using that by (cases "v = Null") auto
  then show ?thesis using f unfolding ws(2) fits_plain_list [OF ls ec(1)] by simp
qed

lemma list_write_partial_fits:
  assumes ls: "is_list cfg" and pl: "plain cfg" and v: "fits z cfg v" and s: "fits z cfg s"
    and wp: "\<And>c d e err w. c \<in> set (metadata cfg) \<Longrightarrow> fits z c d \<Longrightarrow> fits z c e \<Longrightarrow>
      write_partial c d e None = Some (err, w) \<Longrightarrow> fits z c w"
    and out: "EebusDataList_WritePartial z write_partial cfg v s sel = Some (err, w)"
  shows "fits z cfg w"
proof -
  obtain ec r where ec: "metadata cfg = ec # r" using plain_list [OF pl ls] by (cases "metadata cfg") auto
  have p: "plain ec" using plain_memberD [OF pl] ec by simp
  have wp: "\<And>d e err w. fits z ec d \<Longrightarrow> fits z ec e \<Longrightarrow> write_partial ec d e None = Some (err, w) \<Longrightarrow> fits z ec w"
    by (rule wp) (simp_all add: ec)
  have el: "fits z ec w" if "fits z ec d" "fits z ec e" "EEBUS_DATA_WRITE_ELEMENTS z ec d e = Some (err, w)" for d e err w
    using that(3) write_elements_overlay [OF p that(1,2)] fits_overlay [OF p that(1,2)] by simp
  have first: "fits z ec x" if "s = Lst (x # xs)" for x xs
    using s unfolding that fits_plain_list [OF ls ec] by simp
  have sel: "fits z cfg w" if "CopyToSelectedData z cfg v s c t = Some (err, w)" for c t
  proof (cases "s = Null \<or> (\<forall>ds. v \<noteq> Lst ds)")
    case True
    then show ?thesis using that v ls by (auto simp: CopyToSelectedData_def split: EebusData.splits)
  next
    case False
    then obtain ds where ds: "v = Lst ds" by blast
    show ?thesis
    proof (rule write_all_fits [OF ls ec])
      let ?f = "\<lambda>d. if EEBUS_DATA_SELECTORS_MATCH ec d c t
          then (case s of Lst (s # _) \<Rightarrow> EEBUS_DATA_WRITE_ELEMENTS z ec d s | _ \<Rightarrow> None) else Some (kEebusErrorOk, d)"
      have "\<not> EEBUS_DATA_IS_NULL cfg s" using False ls by auto
      then show "map_option (\<lambda>(err, ds). (err, Lst ds)) (write_loop ?f (zip ds ds)) = Some (err, w)"
        using that by (simp add: CopyToSelectedData_def ec with_element_def ds)
      show "fits z ec w" if d: "fits z ec d" and e: "?f d = Some (e, w)" for d e w
      proof (cases "EEBUS_DATA_SELECTORS_MATCH ec d c t")
        case True
        then obtain x xs where x: "s = Lst (x # xs)" "EEBUS_DATA_WRITE_ELEMENTS z ec d x = Some (e, w)"
          using e by (auto split: EebusData.splits list.splits)
        then show ?thesis using el [OF d first] by blast
      qed (use d e in auto)
    qed (use v ds in simp)
  qed
  have all: "fits z cfg w" if "CopyToAllData write_partial cfg v s = Some (err, w)"
  proof (cases "\<exists>ds ss. v = Lst ds \<and> s = Lst ss")
    case True
    then obtain ds ss where ds: "v = Lst ds" "s = Lst ss" by blast
    show ?thesis
    proof (rule write_all_fits [OF ls ec])
      let ?f = "\<lambda>d. case ss of s # _ \<Rightarrow> write_partial ec d s None | [] \<Rightarrow> None"
      show "map_option (\<lambda>(err, ds). (err, Lst ds)) (write_loop ?f (zip ds ds)) = Some (err, w)"
        using that ds by (simp add: CopyToAllData_def ec with_element_def)
      show "fits z ec w" if d: "fits z ec d" and e: "?f d = Some (e, w)" for d e w
      proof -
        obtain x xs where x: "ss = x # xs" "write_partial ec d x None = Some (e, w)" using e by (cases ss) auto
        then show ?thesis using wp [OF d first] ds(2) by blast
      qed
    qed (use v ds in simp)
  next
    case False
    then show ?thesis using that v by (auto simp: CopyToAllData_def split: EebusData.splits)
  qed
  show ?thesis
    using out sel all MergeData_fits [OF ls ec p v s wp] by (auto simp: EebusDataList_WritePartial_def split: option.splits if_splits)
qed


lemma write_partial_fits:
  assumes "plain cfg" "fits z cfg v" "fits z cfg s"
    and "EEBUS_DATA_WRITE_PARTIAL z cfg v s sel = Some (err, w)"
  shows "fits z cfg w"
  using assms
proof (induction cfg arbitrary: v s sel err w rule: cfg_induct)
  case (1 cfg)
  note pl = 1(2) and v = 1(3) and s = 1(4) and out = 1(5)
  have IH: "\<And>c d e err w. c \<in> set (metadata cfg) \<Longrightarrow> fits z c d \<Longrightarrow> fits z c e \<Longrightarrow>
      EEBUS_DATA_WRITE_PARTIAL z c d e None = Some (err, w) \<Longrightarrow> fits z c w"
    using 1(1) plain_memberD [OF pl] by blast
  consider "cfg_interface cfg = eebus_data_sequence_methods" | "cfg_interface cfg = eebus_data_list_methods"
    | "EEBUS_DATA_WRITE_PARTIAL z cfg v s sel = EEBUS_DATA_WRITE_ELEMENTS z cfg v s"
    using plain_interface [OF pl] unfolding EEBUS_DATA_WRITE_PARTIAL.simps [of z cfg]
    by (cases "cfg_interface cfg") auto
  then show ?case
  proof cases
    case 1
    then have st: "is_structure cfg" and eq: "EebusDataSequenceWritePartial (EEBUS_DATA_WRITE_PARTIAL z) cfg v s = Some (err, w)"
      using out by (simp_all add: EEBUS_DATA_WRITE_PARTIAL.simps [of z cfg])
    consider "s = Null" | ss where "s = Seq ss" using s unfolding fits_structure [OF st] by blast
    then show ?thesis
    proof cases
      case 1
      then show ?thesis using eq v by (simp add: EebusDataSequenceWritePartial_def)
    next
      case 2
      have out: "with_buffer cfg v (\<lambda>ds. write_members (\<lambda>c d s. EEBUS_DATA_WRITE_PARTIAL z c d s None) cfg ds ss) = Some (err, w)"
        using eq 2 by (simp add: EebusDataSequenceWritePartial_def)
      show ?thesis by (rule write_members_fits [OF st pl v _ _ out]) (use s 2 IH in blast)+
    qed
  next
    case 2
    then have out: "EebusDataList_WritePartial z (EEBUS_DATA_WRITE_PARTIAL z) cfg v s sel = Some (err, w)"
      using out by (simp add: EEBUS_DATA_WRITE_PARTIAL.simps [of z cfg])
    show ?thesis by (rule list_write_partial_fits [OF _ pl v s _ out]) (use 2 IH in blast)+
  next
    case 3
    then show ?thesis using out write_elements_overlay [OF pl v s] fits_overlay [OF pl v s] by simp
  qed
qed


section \<open>Properties\<close>

text \<open>The descriptors of the addresses of entities and features, the plainest descriptors with a list inside.\<close>

definition entity_element_data_cfg :: EebusDataCfg where
  "entity_element_data_cfg = EebusDataCfg eebus_data_numeric_methods [] 4 0 []"

definition entity_list_cfg :: EebusDataCfg where
  "entity_list_cfg = EebusDataCfg eebus_data_list_methods ''entity'' 8 0 [entity_element_data_cfg]"

definition entity_address_cfg :: "EebusDataCfg list" where
  "entity_address_cfg = [EebusDataCfg eebus_data_string_methods ''device'' 8 0 [], entity_list_cfg]"

definition feature_address_cfg :: "EebusDataCfg list" where
  "feature_address_cfg =
     [EebusDataCfg eebus_data_string_methods ''device'' 8 0 [], entity_list_cfg,
      EebusDataCfg eebus_data_numeric_methods ''feature'' 4 0 []]"

text \<open>The structure descriptor of a feature address (\<^verbatim>\<open>EEBUS_DATA_SEQUENCE_TMP\<close>).\<close>

definition feature_address_tmp_cfg :: EebusDataCfg where
  "feature_address_tmp_cfg = EebusDataCfg eebus_data_sequence_methods [] 32 0 feature_address_cfg"

text \<open>A number below 256 as its bytes, and an address of such numbers.\<close>

definition number :: "byte \<Rightarrow> EebusData" where "number b = Simple [b, CHR 0x00, CHR 0x00, CHR 0x00]"

definition address :: "string \<Rightarrow> byte list \<Rightarrow> byte \<Rightarrow> EebusData" where
  "address device entity feature = Seq [Str device, Lst (map number entity), number feature]"

text \<open>
  Comparing two values of a type without choices through its descriptors is equality of the values:
  numbers by their bytes, strings by their characters, structures member by member, lists element by
  element and by length, and a null pointer is equal to a null pointer only.
\<close>

theorem EEBUS_DATA_COMPARE_is_equality:
  assumes "plain cfg" "fits z cfg a" "fits z cfg b"
  shows "EEBUS_DATA_COMPARE cfg a cfg b \<longleftrightarrow> a = b"
  using assms by (rule compare_eq)

lemma EEBUS_DATA_COMPARE_witness:
  "\<not> EEBUS_DATA_COMPARE feature_address_tmp_cfg (address ''d'' [CHR 0x01, CHR 0x02] (CHR 0x03))
     feature_address_tmp_cfg (address ''d'' [CHR 0x01] (CHR 0x03))"
proof -
  have "plain feature_address_tmp_cfg" "fits False feature_address_tmp_cfg (address ''d'' [CHR 0x01, CHR 0x02] (CHR 0x03))"
    "fits False feature_address_tmp_cfg (address ''d'' [CHR 0x01] (CHR 0x03))" by code_simp+
  then show ?thesis
    using EEBUS_DATA_COMPARE_is_equality [of feature_address_tmp_cfg False "address ''d'' [CHR 0x01, CHR 0x02] (CHR 0x03)"
        "address ''d'' [CHR 0x01] (CHR 0x03)"] by (simp add: address_def)
qed

text \<open>
  Copying a value of any well-formed type, choices included, to a destination that was just allocated,
  or writing it over data of a type without choices, succeeds and leaves a value equal to the source.
\<close>

theorem EEBUS_DATA_WRITE_copies:
  assumes "cfg_wf cfg" "fits z cfg src" "v = empty_member cfg \<or> plain cfg \<and> fits z cfg v"
  shows "EEBUS_DATA_WRITE z cfg v src = Some (kEebusErrorOk, src)"
  using write_copies assms unfolding target_def by blast

lemma EEBUS_DATA_WRITE_witness:
  "EEBUS_DATA_WRITE False feature_address_tmp_cfg (address ''other'' [CHR 0x01] (CHR 0x09))
     (address ''d'' [CHR 0x01, CHR 0x02] (CHR 0x03)) =
   Some (kEebusErrorOk, address ''d'' [CHR 0x01, CHR 0x02] (CHR 0x03))"
  by (rule EEBUS_DATA_WRITE_copies) code_simp+



text \<open>
  Without selectors and with data that has no identifiers, a partial write of a list takes only the
  first element of its data and overlays it on every element of the list; it does not change the length
  of the list, and a null list stays null. The entity part of an address is such a list: writing the
  address 1.2 over 5.6 leaves 1.1.
\<close>

lemma partial_write_without_identifiers:
  assumes "cfg_interface cfg = eebus_data_list_methods" "metadata cfg = ec # r" "plain ec" "list_free ec"
    and "list_all (fits z ec) ds" "fits z ec s" "\<not> EEBUS_DATA_HAS_IDENTIFIERS ec s"
  shows "EEBUS_DATA_WRITE_PARTIAL z cfg (Lst ds) (Lst (s # ss)) None =
      Some (kEebusErrorOk, Lst (map (\<lambda>d. overlay d s) ds)) \<and>
    EEBUS_DATA_WRITE_PARTIAL z cfg Null (Lst (s # ss)) None = Some (kEebusErrorOk, Null)"
proof (intro conjI)
  have "write_loop (\<lambda>d. EEBUS_DATA_WRITE_PARTIAL z ec d s None) (zip ds ds) =
      Some (kEebusErrorOk, map (\<lambda>(d, x). overlay x s) (zip ds ds))"
    using assms(5,6) write_partial_overlay [OF assms(3,4)]
    by (intro write_loop_ok) (auto simp: list_all_iff dest: set_zip_rightD)
  then show "EEBUS_DATA_WRITE_PARTIAL z cfg (Lst ds) (Lst (s # ss)) None = Some (kEebusErrorOk, Lst (map (\<lambda>d. overlay d s) ds))"
    using assms by (simp add: EEBUS_DATA_WRITE_PARTIAL.simps [of z cfg] EebusDataList_WritePartial_def
        ListElementsHaveIdentifiers_def with_element_def CopyToAllData_def zip_same_conv_map comp_def)
  show "EEBUS_DATA_WRITE_PARTIAL z cfg Null (Lst (s # ss)) None = Some (kEebusErrorOk, Null)"
    using assms by (simp add: EEBUS_DATA_WRITE_PARTIAL.simps [of z cfg] EebusDataList_WritePartial_def
        ListElementsHaveIdentifiers_def with_element_def CopyToAllData_def)
qed

lemma partial_write_without_identifiers_witness:
  "EEBUS_DATA_WRITE_PARTIAL False entity_list_cfg (Lst [number (CHR 0x05), number (CHR 0x06)])
     (Lst [number (CHR 0x01), number (CHR 0x02)]) None =
   Some (kEebusErrorOk, Lst [number (CHR 0x01), number (CHR 0x01)])"
proof -
  let ?ec = entity_element_data_cfg
  have "cfg_interface entity_list_cfg = eebus_data_list_methods" "metadata entity_list_cfg = [?ec]" "plain ?ec" "list_free ?ec"
    "list_all (fits False ?ec) [number (CHR 0x05), number (CHR 0x06)]" "fits False ?ec (number (CHR 0x01))"
    "\<not> EEBUS_DATA_HAS_IDENTIFIERS ?ec (number (CHR 0x01))" by code_simp+
  from partial_write_without_identifiers [OF this, of "[number (CHR 0x02)]"] show ?thesis
    by (simp add: number_def)
qed

end
