(* ===== verification/Spine_Function.thy ===== *)
theory Spine_Function
  imports Eebus_Data_Laws
begin

text \<open>
  SPINE functions: \<^verbatim>\<open>spine/function/function.c\<close>, \<^verbatim>\<open>spine/feature/operations.c\<close>, \<^verbatim>\<open>spine/model/filter.c\<close>,
  \<^verbatim>\<open>spine/model/cmd.c\<close> and the data accessors of \<^verbatim>\<open>spine/model/model.c\<close>. A function of a feature holds data of the
  type its descriptor describes; it builds the commands that carry the data and applies the restricted
  function exchange of the commands it receives.

  The tables of descriptors (\<^verbatim>\<open>command_frame_types.inc\<close>) are the record \<open>Model\<close>; the descriptors of the load
  control limits, the most used function, are translated and serve as its instance. Sizes are those of a
  64-bit build; the code depends only on their not being 0 and on the bytes of simple values.
\<close>

section \<open>The model tables\<close>

record Model =
  data_choice_data_cfg :: "EebusDataCfg list"
  data_selectors_choice_data_cfg :: "EebusDataCfg list"
  data_elements_choice_data_cfg :: "EebusDataCfg list"

definition ModelGetDataCfg :: "Model \<Rightarrow> nat \<Rightarrow> EebusDataCfg option" where
  "ModelGetDataCfg m t =
     (if length (data_choice_data_cfg m) \<le> t then None else Some (data_choice_data_cfg m ! t))"

definition ModelGetDataSelectorsCfg :: "Model \<Rightarrow> nat \<Rightarrow> EebusDataCfg option" where
  "ModelGetDataSelectorsCfg m t =
     (if length (data_selectors_choice_data_cfg m) \<le> t then None else Some (data_selectors_choice_data_cfg m ! t))"

definition ModelGetDataElementsCfg :: "Model \<Rightarrow> nat \<Rightarrow> EebusDataCfg option" where
  "ModelGetDataElementsCfg m t =
     (if length (data_elements_choice_data_cfg m) \<le> t then None else Some (data_elements_choice_data_cfg m ! t))"

text \<open>The outcome \<open>None\<close> is undefined behaviour, \<open>Some Null\<close> a null pointer.\<close>

definition ModelDataCopy :: "bool \<Rightarrow> EebusDataCfg \<Rightarrow> EebusData \<Rightarrow> EebusData option" where
  "ModelDataCopy z cfg v =
     map_option (\<lambda>(err, w). if err \<noteq> kEebusErrorOk then Null else w) (EEBUS_DATA_WRITE z cfg Null v)"

definition ModelFunctionDataCreateEmpty :: "Model \<Rightarrow> nat \<Rightarrow> EebusData" where
  "ModelFunctionDataCreateEmpty m t =
     (case ModelGetDataCfg m t of None \<Rightarrow> Null | Some cfg \<Rightarrow> EebusDataBaseCreateEmpty cfg)"

definition ModelFunctionDataCopy :: "bool \<Rightarrow> Model \<Rightarrow> nat \<Rightarrow> EebusData \<Rightarrow> EebusData option" where
  "ModelFunctionDataCopy z m t v =
     (case ModelGetDataCfg m t of None \<Rightarrow> Some Null | Some cfg \<Rightarrow> ModelDataCopy z cfg v)"

definition ModelGetDataListElementCfg :: "Model \<Rightarrow> nat \<Rightarrow> EebusDataCfg option" where
  "ModelGetDataListElementCfg m t =
     (case ModelGetDataCfg m t of
        None \<Rightarrow> None
      | Some cfg \<Rightarrow>
          if cfg_interface cfg \<notin> {eebus_data_sequence_methods, eebus_data_container_methods} then None
          else (case metadata cfg of
                  [] \<Rightarrow> None
                | list_cfg # _ \<Rightarrow>
                    if cfg_interface list_cfg \<noteq> eebus_data_list_methods then None
                    else with_element list_cfg None Some))"

definition ModelGetCfgWithName :: "EebusDataCfg list \<Rightarrow> string \<Rightarrow> EebusDataCfg option" where
  "ModelGetCfgWithName cfgs nm = List.find (\<lambda>c. cfg_name c = nm) cfgs"


section \<open>Operations\<close>

record Operations =
  op_read :: bool
  op_read_partial :: bool
  op_write :: bool
  op_write_partial :: bool

definition OperationsCreate :: "bool \<Rightarrow> bool \<Rightarrow> bool \<Rightarrow> bool \<Rightarrow> Operations" where
  "OperationsCreate r rp w wp =
     \<lparr>op_read = r, op_read_partial = rp, op_write = w, op_write_partial = wp\<rparr>"

definition OperationsToString :: "Operations \<Rightarrow> string" where
  "OperationsToString op =
     (if op_read op \<and> \<not> op_write op then ''RO'' else if op_read op \<and> op_write op then ''RW'' else ''--'')"

section \<open>Filters\<close>

record FilterType =
  filter_id :: EebusData
  cmd_ctrl :: EebusData
  data_selectors_choice :: EebusData
  data_selectors_choice_type_id :: nat
  data_elements_choice :: EebusData
  data_elements_choice_type_id :: nat

datatype FilterTypeType = kFilterTypeUndefined | kFilterTypePartial | kFilterTypeDelete

definition uint32_cfg :: "string \<Rightarrow> EebusDataCfg" where
  "uint32_cfg nm = EebusDataCfg eebus_data_numeric_methods nm 4 0 []"

definition tag_cfg :: "string \<Rightarrow> EebusDataCfg" where
  "tag_cfg nm = EebusDataCfg eebus_data_tag_methods nm 0 0 []"

definition cmd_control_cfg :: "EebusDataCfg list" where
  "cmd_control_cfg = [tag_cfg ''delete'', tag_cfg ''partial'']"

text \<open>The values of \<^verbatim>\<open>CmdControlType\<close>; the order of the members is that of the descriptors.\<close>

definition ctrl_partial :: EebusData where "ctrl_partial = Seq [Null, Tag]"
definition ctrl_delete :: EebusData where "ctrl_delete = Seq [Tag, Null]"

definition choice_cfg :: "EebusDataCfg list \<Rightarrow> EebusDataCfg" where
  "choice_cfg cfgs = EebusDataCfg eebus_data_choice_methods [] 0 0 cfgs"

definition GetFilterCfg :: "Model \<Rightarrow> EebusDataCfg" where
  "GetFilterCfg m = EebusDataCfg eebus_data_sequence_methods ''filter'' 48 0
     [uint32_cfg ''filterId'',
      EebusDataCfg eebus_data_sequence_methods ''cmdControl'' 16 0 cmd_control_cfg,
      choice_cfg (data_selectors_choice_data_cfg m), choice_cfg (data_elements_choice_data_cfg m)]"

text \<open>The structure as the descriptor of filters describes it, and back.\<close>

definition filter_value :: "FilterType \<Rightarrow> EebusData" where
  "filter_value f =
     Seq [filter_id f, cmd_ctrl f, Choice (data_selectors_choice_type_id f) (data_selectors_choice f),
          Choice (data_elements_choice_type_id f) (data_elements_choice f)]"

definition value_filter :: "EebusData \<Rightarrow> FilterType option" where
  "value_filter v =
     (case v of
        Seq [i, c, Choice t s, Choice u e] \<Rightarrow>
          Some \<lparr>filter_id = i, cmd_ctrl = c, data_selectors_choice = s, data_selectors_choice_type_id = t,
                data_elements_choice = e, data_elements_choice_type_id = u\<rparr>
      | _ \<Rightarrow> None)"

definition FilterCreate ::
    "bool \<Rightarrow> Model \<Rightarrow> nat \<Rightarrow> EebusData \<Rightarrow> EebusData \<Rightarrow> EebusData \<Rightarrow> EebusData \<Rightarrow> FilterType option option" where
  "FilterCreate z m function_type i cmd_control selectors elements =
     (let filter_tmp = \<lparr>filter_id = i, cmd_ctrl = cmd_control,
                        data_selectors_choice = selectors, data_selectors_choice_type_id = function_type,
                        data_elements_choice = elements, data_elements_choice_type_id = function_type\<rparr>
      in map_option (\<lambda>(err, v). if err \<noteq> kEebusErrorOk then None else value_filter v)
           (EEBUS_DATA_WRITE z (GetFilterCfg m) Null (filter_value filter_tmp)))"

definition FilterPartialCreate ::
    "bool \<Rightarrow> Model \<Rightarrow> nat \<Rightarrow> EebusData \<Rightarrow> EebusData \<Rightarrow> EebusData \<Rightarrow> FilterType option option" where
  "FilterPartialCreate z m t i selectors elements = FilterCreate z m t i ctrl_partial selectors elements"

definition FilterDeleteCreate ::
    "bool \<Rightarrow> Model \<Rightarrow> nat \<Rightarrow> EebusData \<Rightarrow> EebusData \<Rightarrow> EebusData \<Rightarrow> FilterType option option" where
  "FilterDeleteCreate z m t i selectors elements = FilterCreate z m t i ctrl_delete selectors elements"

definition FilterGetType :: "FilterType \<Rightarrow> FilterTypeType" where
  "FilterGetType f =
     (case cmd_ctrl f of
        Seq [del, part] \<Rightarrow>
          if part = Tag \<and> del = Tag then kFilterTypeUndefined
          else if part = Tag then kFilterTypePartial
          else if del = Tag then kFilterTypeDelete
          else kFilterTypeUndefined
      | _ \<Rightarrow> kFilterTypeUndefined)"


section \<open>Commands\<close>

text \<open>\<^verbatim>\<open>filter\<close> and \<^verbatim>\<open>filter_size\<close> are one list; a null pointer is the list without elements.\<close>

record CmdType =
  cmd_function :: "nat option"
  cmd_filter :: "FilterType list"
  data_choice :: EebusData
  data_choice_type_id :: nat
  last_update_at :: EebusData
  manufacturer_specific_extension :: EebusData

definition CmdCreateEmpty :: CmdType where
  "CmdCreateEmpty =
     \<lparr>cmd_function = None, cmd_filter = [], data_choice = Null, data_choice_type_id = 0,
      last_update_at = Null, manufacturer_specific_extension = Null\<rparr>"

definition CmdGetFilterWithType :: "CmdType \<Rightarrow> FilterTypeType \<Rightarrow> FilterType option" where
  "CmdGetFilterWithType cmd t = List.find (\<lambda>f. FilterGetType f = t) (cmd_filter cmd)"

definition CmdGetFilterPartial :: "CmdType \<Rightarrow> FilterType option" where
  "CmdGetFilterPartial cmd = CmdGetFilterWithType cmd kFilterTypePartial"

definition CmdGetFilterDelete :: "CmdType \<Rightarrow> FilterType option" where
  "CmdGetFilterDelete cmd = CmdGetFilterWithType cmd kFilterTypeDelete"

definition CmdAddFilterPartialEmpty :: "bool \<Rightarrow> Model \<Rightarrow> CmdType \<Rightarrow> (EebusError \<times> CmdType) option" where
  "CmdAddFilterPartialEmpty z m cmd =
     map_option
       (\<lambda>f. case f of
          None \<Rightarrow> (kEebusErrorMemoryAllocate, cmd\<lparr>cmd_filter := []\<rparr>)
        | Some f \<Rightarrow> (kEebusErrorOk, cmd\<lparr>cmd_filter := [f]\<rparr>))
       (FilterPartialCreate z m 0 Null Null Null)"

section \<open>Functions\<close>

record Function =
  ftype :: nat
  fdata :: EebusData
  foperations :: "Operations option"

definition FunctionConstruct :: "Model \<Rightarrow> nat \<Rightarrow> Function" where
  "FunctionConstruct m t = \<lparr>ftype = t, fdata = ModelFunctionDataCreateEmpty m t, foperations = None\<rparr>"

definition FunctionCreate :: "Model \<Rightarrow> nat \<Rightarrow> Function option" where
  "FunctionCreate m t = (case ModelGetDataCfg m t of None \<Rightarrow> None | Some cfg \<Rightarrow> Some (FunctionConstruct m t))"

definition AddDataToReadCmd :: "Model \<Rightarrow> Function \<Rightarrow> CmdType \<Rightarrow> EebusError \<times> CmdType" where
  "AddDataToReadCmd m f cmd =
     (let d = ModelFunctionDataCreateEmpty m (ftype f);
          cmd' = cmd\<lparr>data_choice_type_id := ftype f, data_choice := d\<rparr>
      in if d = Null then (kEebusErrorMemoryAllocate, cmd') else (kEebusErrorOk, cmd'))"

definition AddFilterToReadCmd ::
    "bool \<Rightarrow> Model \<Rightarrow> Function \<Rightarrow> CmdType \<Rightarrow> FilterType option \<Rightarrow> (EebusError \<times> CmdType) option" where
  "AddFilterToReadCmd z m f cmd filter_partial =
     (case filter_partial of
        None \<Rightarrow> Some (kEebusErrorOk, cmd)
      | Some p \<Rightarrow>
          map_option
            (\<lambda>r. case r of
               None \<Rightarrow> (kEebusErrorMemoryAllocate, cmd)
             | Some q \<Rightarrow>
                 (kEebusErrorOk, cmd\<lparr>cmd_filter := cmd_filter cmd @ [q], cmd_function := Some (ftype f)\<rparr>))
            (FilterPartialCreate z m (data_choice_type_id cmd) (filter_id p)
               (data_selectors_choice p) (data_elements_choice p)))"

text \<open>The commands: \<open>None\<close> is undefined behaviour, \<open>Some None\<close> a null pointer.\<close>

definition CreateReadCmd :: "bool \<Rightarrow> Model \<Rightarrow> Function \<Rightarrow> FilterType option \<Rightarrow> CmdType option option" where
  "CreateReadCmd z m f filter_partial =
     (let (err, cmd) = AddDataToReadCmd m f CmdCreateEmpty
      in if err \<noteq> kEebusErrorOk then Some None
         else map_option
                (\<lambda>(err, cmd). if err \<noteq> kEebusErrorOk then None else Some (cmd\<lparr>data_choice_type_id := ftype f\<rparr>))
                (AddFilterToReadCmd z m f cmd filter_partial))"

definition CreateReplyCmd :: "bool \<Rightarrow> Model \<Rightarrow> Function \<Rightarrow> CmdType option option" where
  "CreateReplyCmd z m f =
     (case ModelGetDataCfg m (ftype f) of
        None \<Rightarrow> None
      | Some cfg \<Rightarrow>
          map_option
            (\<lambda>(err, v). if err \<noteq> kEebusErrorOk then None
                        else Some (CmdCreateEmpty\<lparr>data_choice := v, data_choice_type_id := ftype f\<rparr>))
            (EEBUS_DATA_WRITE z cfg Null (fdata f)))"

definition AddDataToWriteCmd ::
    "bool \<Rightarrow> Model \<Rightarrow> Function \<Rightarrow> CmdType \<Rightarrow> EebusData \<Rightarrow> (EebusError \<times> CmdType) option" where
  "AddDataToWriteCmd z m f cmd new_data =
     (case ModelGetDataCfg m (ftype f) of
        None \<Rightarrow> None
      | Some cfg \<Rightarrow>
          map_option (\<lambda>(err, v). (err, cmd\<lparr>data_choice_type_id := ftype f, data_choice := v\<rparr>))
            (EEBUS_DATA_WRITE z cfg (data_choice cmd) new_data))"

definition GetFiltersNum :: "FilterType option \<Rightarrow> FilterType option \<Rightarrow> nat" where
  "GetFiltersNum filter_partial filter_delete =
     (if filter_partial \<noteq> None then 1 else 0) + (if filter_delete \<noteq> None then 1 else 0)"

text \<open>One of the two filters: appended to the command, or the error of its copy.\<close>

definition add_filter ::
    "FilterType option option option \<Rightarrow> EebusError \<times> CmdType \<Rightarrow> (EebusError \<times> CmdType) option" where
  "add_filter r ec =
     (let (err, cmd) = ec
      in if err \<noteq> kEebusErrorOk then Some ec
         else case r of
                None \<Rightarrow> Some ec
              | Some None \<Rightarrow> None
              | Some (Some None) \<Rightarrow> Some (kEebusErrorMemoryAllocate, cmd)
              | Some (Some (Some q)) \<Rightarrow> Some (kEebusErrorOk, cmd\<lparr>cmd_filter := cmd_filter cmd @ [q]\<rparr>))"

definition AddFiltersToWriteCmd ::
    "bool \<Rightarrow> Model \<Rightarrow> Function \<Rightarrow> CmdType \<Rightarrow> FilterType option \<Rightarrow> FilterType option \<Rightarrow>
     (EebusError \<times> CmdType) option" where
  "AddFiltersToWriteCmd z m f cmd filter_partial filter_delete =
     (if GetFiltersNum filter_partial filter_delete = 0 then Some (kEebusErrorOk, cmd)
      else
        let t = data_choice_type_id cmd;
            part = map_option (\<lambda>p. FilterPartialCreate z m t (filter_id p) (data_selectors_choice p) Null) filter_partial;
            del = map_option (\<lambda>d. FilterDeleteCreate z m t (filter_id d) (data_selectors_choice d)
                    (data_elements_choice d)) filter_delete
        in map_option
             (\<lambda>(err, cmd). (err, if err \<noteq> kEebusErrorOk then cmd else cmd\<lparr>cmd_function := Some (ftype f)\<rparr>))
             (Option.bind (add_filter part (kEebusErrorOk, cmd)) (add_filter del)))"

definition CreateWriteCmd ::
    "bool \<Rightarrow> Model \<Rightarrow> Function \<Rightarrow> EebusData \<Rightarrow> FilterType option \<Rightarrow> FilterType option \<Rightarrow> CmdType option option" where
  "CreateWriteCmd z m f new_data filter_partial filter_delete =
     (case AddDataToWriteCmd z m f CmdCreateEmpty new_data of
        None \<Rightarrow> None
      | Some (err, cmd) \<Rightarrow>
          if err \<noteq> kEebusErrorOk then Some None
          else map_option (\<lambda>(err, cmd). if err \<noteq> kEebusErrorOk then None else Some cmd)
                 (AddFiltersToWriteCmd z m f cmd filter_partial filter_delete))"

definition CreateNotifyCmd ::
    "bool \<Rightarrow> Model \<Rightarrow> Function \<Rightarrow> EebusData \<Rightarrow> FilterType option \<Rightarrow> FilterType option \<Rightarrow> CmdType option option" where
  "CreateNotifyCmd z m f new_data filter_partial filter_delete =
     CreateWriteCmd z m f new_data filter_partial filter_delete"

definition DataCopy :: "bool \<Rightarrow> Model \<Rightarrow> Function \<Rightarrow> EebusData option" where
  "DataCopy z m f = ModelFunctionDataCopy z m (ftype f) (fdata f)"

definition FunctionUpdateData ::
    "bool \<Rightarrow> Model \<Rightarrow> Function \<Rightarrow> EebusData \<Rightarrow> FilterType option \<Rightarrow> FilterType option \<Rightarrow> bool \<Rightarrow> Function written" where
  "FunctionUpdateData z m f new_data filter_partial filter_delete persist =
     (case (ModelGetDataCfg m (ftype f), ModelGetDataSelectorsCfg m (ftype f), ModelGetDataElementsCfg m (ftype f)) of
        (Some cfg, Some selectors_cfg, Some elements_cfg) \<Rightarrow>
          if filter_partial = None \<and> filter_delete = None \<and> persist
          then map_option (\<lambda>(err, v). (err, f\<lparr>fdata := v\<rparr>))
                 (EEBUS_DATA_WRITE z cfg (EEBUS_DATA_DELETE cfg (fdata f)) new_data)
          else
            let f = (case filter_delete of
                       None \<Rightarrow> f
                     | Some d \<Rightarrow> f\<lparr>fdata := EEBUS_DATA_DELETE_PARTIAL z cfg (fdata f)
                                      selectors_cfg (data_selectors_choice d) elements_cfg (data_elements_choice d)\<rparr>)
            in (case filter_partial of
                  None \<Rightarrow> Some (kEebusErrorOk, f)
                | Some p \<Rightarrow>
                    map_option (\<lambda>(err, v). (err, f\<lparr>fdata := v\<rparr>))
                      (EEBUS_DATA_WRITE_PARTIAL z cfg (fdata f) new_data
                         (Some (selectors_cfg, data_selectors_choice p))))
      | _ \<Rightarrow> None)"

definition FunctionSetOperations :: "Function \<Rightarrow> bool \<Rightarrow> bool \<Rightarrow> bool \<Rightarrow> bool \<Rightarrow> Function" where
  "FunctionSetOperations f r rp w wp =
     (if foperations f \<noteq> None then f else f\<lparr>foperations := Some (OperationsCreate r rp w wp)\<rparr>)"


section \<open>The restricted function exchange as an abstract specification\<close>

text \<open>
  Most functions hold a list of structures. Their state is the list, or \<open>None\<close> while it is null. A
  partial write either overlays the selected elements, or all of them when its data has no
  identifiers, or merges by identifiers; a delete removes the selected elements, or members of them.
\<close>

definition list_function :: "Model \<Rightarrow> nat \<Rightarrow> EebusDataCfg \<Rightarrow> bool" where
  "list_function m t ec =
     (case ModelGetDataCfg m t of
        None \<Rightarrow> False
      | Some cfg \<Rightarrow>
          cfg_interface cfg = eebus_data_container_methods \<and> 0 < cfg_size cfg \<and>
          (case metadata cfg of
             [lc] \<Rightarrow> cfg_interface lc = eebus_data_list_methods \<and> \<not> EebusDataBaseHasIdentifiersFlags lc \<and>
                     metadata lc = [ec]
           | _ \<Rightarrow> False) \<and>
          cfg_interface ec = eebus_data_sequence_methods \<and> plain ec \<and> list_free ec)"

definition function_list :: "EebusData \<Rightarrow> EebusData list option" where
  "function_list v = (case v of Seq (Lst ds # _) \<Rightarrow> Some ds | _ \<Rightarrow> None)"

definition rfe_write ::
    "EebusDataCfg \<Rightarrow> EebusDataCfg \<Rightarrow> EebusData \<Rightarrow> EebusData list \<Rightarrow> EebusData list option \<Rightarrow> EebusData list option" where
  "rfe_write ec selectors_cfg selectors ss old =
     (if \<not> EEBUS_DATA_IS_NULL selectors_cfg selectors
      then map_option (map (\<lambda>d. if EEBUS_DATA_SELECTORS_MATCH ec d selectors_cfg selectors
                                then overlay d (hd ss) else d)) old
      else if \<not> EEBUS_DATA_HAS_IDENTIFIERS ec (hd ss)
      then map_option (map (\<lambda>d. overlay d (hd ss))) old
      else Some (merge_spec ec (case old of None \<Rightarrow> [] | Some ds \<Rightarrow> ds) ss))"

definition rfe_delete ::
    "bool \<Rightarrow> EebusDataCfg \<Rightarrow> EebusDataCfg \<Rightarrow> EebusData \<Rightarrow> EebusDataCfg \<Rightarrow> EebusData \<Rightarrow>
     EebusData list option \<Rightarrow> EebusData list option" where
  "rfe_delete z ec selectors_cfg selectors elements_cfg elements old =
     (let selected = (\<lambda>d. EEBUS_DATA_SELECTORS_MATCH ec d selectors_cfg selectors)
      in if EEBUS_DATA_IS_NULL elements_cfg elements
         then if EEBUS_DATA_IS_NULL selectors_cfg selectors then old
              else map_option (\<lambda>ds. if list_all selected ds \<and> \<not> z then ds else filter (\<lambda>d. \<not> selected d) ds) old
         else map_option (map (\<lambda>d. if selected d then EEBUS_DATA_DELETE_ELEMENTS ec d elements_cfg elements else d)) old)"

lemma list_functionE:
  assumes "list_function m t ec"
  obtains cfg lc where "ModelGetDataCfg m t = Some cfg" "cfg_interface cfg = eebus_data_container_methods"
    "0 < cfg_size cfg" "metadata cfg = [lc]" "cfg_interface lc = eebus_data_list_methods"
    "\<not> EebusDataBaseHasIdentifiersFlags lc" "metadata lc = [ec]" "cfg_interface ec = eebus_data_sequence_methods"
    "plain ec" "list_free ec"
  using assms unfolding list_function_def by (auto split: option.splits list.splits)

lemma write_loop_map:
  assumes "\<And>d. d \<in> set ds \<Longrightarrow> f d = Some (kEebusErrorOk, g d)"
  shows "write_loop f (zip ds ds) = Some (kEebusErrorOk, map g ds)"
proof -
  have "write_loop f (zip ds ds) = Some (kEebusErrorOk, map (\<lambda>(d, x). g x) (zip ds ds))"
    using assms by (intro write_loop_ok) (auto dest: set_zip_rightD)
  then show ?thesis by (simp add: zip_same_conv_map comp_def)
qed

text \<open>The fitting values of a container of one list.\<close>

lemma fits_list_container:
  assumes "cfg_interface cfg = eebus_data_container_methods" "0 < cfg_size cfg" "metadata cfg = [lc]"
    "cfg_interface lc = eebus_data_list_methods" "metadata lc = [ec]"
  shows "fits z cfg v \<longleftrightarrow> v = Null \<or> v = Seq [Null] \<or> (\<exists>ds. v = Seq [Lst ds] \<and> (z \<or> ds \<noteq> []) \<and> list_all (fits z ec) ds)"
proof -
  have st: "is_structure cfg" and ls: "is_list lc" using assms by simp_all
  show ?thesis
    using assms unfolding fits_structure [OF st]
    by (auto simp: fits_list [OF ls] list_all2_Cons1)
qed

lemma fits_delete_members:
  assumes "is_structure cfg" "fits z cfg (Seq ds)" "length es = length (metadata elements_cfg)"
    and "\<And>i. i < length (metadata cfg) \<Longrightarrow> i < length es \<Longrightarrow> fits z (metadata cfg ! i) (f (metadata cfg ! i) (ds ! i) (metadata elements_cfg ! i) (es ! i))"
  shows "fits z cfg (Seq (map (\<lambda>((c, d), (ec, e)). f c d ec e) (zip (zip (metadata cfg) ds) (zip (metadata elements_cfg) es)) @
    drop (min (length (metadata cfg)) (length (metadata elements_cfg))) ds))"
proof -
  have ds: "length ds = length (metadata cfg)" "list_all2 (fits z) (metadata cfg) ds"
    using assms(2) fits_Seq_iff [OF assms(1)] by simp_all
  show ?thesis
    unfolding fits_Seq_iff [OF assms(1)]
    using ds assms(2-4) fits_Seq_iff [OF assms(1)]
    by (auto intro!: list_all2_all_nthI simp: nth_append list_all2_nthD)
qed

lemma fits_delete_elements:
  assumes "plain cfg" "fits z cfg v" "fits z' elements_cfg elements"
  shows "fits z cfg (EEBUS_DATA_DELETE_ELEMENTS cfg v elements_cfg elements)"
  using assms
proof (induction cfg arbitrary: v elements_cfg elements rule: cfg_induct)
  case (1 cfg)
  note IH = 1(1) and pl = 1(2) and v = 1(3) and e = 1(4)
  have null: "fits z c Null" "EEBUS_DATA_DELETE c d = Null" if "plain c" for c d
    using plain_interface [OF that] by auto
  show ?case
  proof (cases "cfg_interface cfg = eebus_data_sequence_methods")
    case True
    then have st: "is_structure cfg" by simp
    have eq: "EEBUS_DATA_DELETE_ELEMENTS cfg v elements_cfg elements =
        EebusDataSequenceDeleteElements EEBUS_DATA_DELETE_ELEMENTS cfg v elements_cfg elements"
      using True by (simp add: EEBUS_DATA_DELETE_ELEMENTS.simps [of cfg])
    show ?thesis
    proof (cases "cfg_interface elements_cfg = eebus_data_sequence_methods \<and> (\<exists>ds es. v = Seq ds \<and> elements = Seq es)")
      case True
      then obtain ds es where [simp]: "v = Seq ds" "elements = Seq es" and ei: "is_structure elements_cfg" by auto
      have es: "length es = length (metadata elements_cfg)" "list_all2 (fits z') (metadata elements_cfg) es"
        using e fits_Seq_iff [OF ei] by simp_all
      have ds: "list_all2 (fits z) (metadata cfg) ds" using v fits_Seq_iff [OF st] by simp
      let ?f = "\<lambda>c d ec e. if EEBUS_DATA_IS_NULL ec e then d else if EEBUS_DATA_IS_EMPTY ec e then EEBUS_DATA_DELETE c d
        else EEBUS_DATA_DELETE_ELEMENTS c d ec e"
      have "fits z (metadata cfg ! i) (?f (metadata cfg ! i) (ds ! i) (metadata elements_cfg ! i) (es ! i))"
        if "i < length (metadata cfg)" "i < length es" for i
        using IH [of "metadata cfg ! i"] null plain_memberD [OF pl] list_all2_nthD [OF ds] list_all2_nthD2 [OF es(2)] that
        by simp
      then show ?thesis
        unfolding eq using v es(1) null [OF pl] fits_delete_members [OF st, of z ds es elements_cfg ?f] True
        by (simp add: EebusDataSequenceDeleteElements_def Let_def)
    qed (use v eq in \<open>auto simp: EebusDataSequenceDeleteElements_def split: EebusData.split\<close>)
  next
    case False
    then have "EEBUS_DATA_DELETE_ELEMENTS cfg v elements_cfg elements = EebusDataSimpleDeleteElements cfg v elements_cfg elements"
      using plain_interface [OF pl] unfolding EEBUS_DATA_DELETE_ELEMENTS.simps [of cfg] by (auto split: EebusDataInterface.split)
    then show ?thesis using v null [OF pl] by (simp add: EebusDataSimpleDeleteElements_def)
  qed
qed


section \<open>Updates refine the specification\<close>

text \<open>The two partial operations on a container of one list.\<close>

lemma write_partial_list:
  assumes lc: "cfg_interface lc = eebus_data_list_methods" "metadata lc = [ec]" "plain ec" "list_free ec"
    and old: "v = Null \<and> old = None \<or> (\<exists>ds. v = Lst ds \<and> old = Some ds \<and> list_all (fits z ec) ds)"
    and new: "list_all (fits z ec) ss" "ss \<noteq> []"
  shows "EEBUS_DATA_WRITE_PARTIAL z lc v (Lst ss) (Some (selectors_cfg, selectors)) =
    Some (kEebusErrorOk, case rfe_write ec selectors_cfg selectors ss old of None \<Rightarrow> Null | Some ds \<Rightarrow> Lst ds)"
proof -
  obtain s r where ss: "ss = s # r" "fits z ec s" using new by (cases ss) auto
  have eq: "EEBUS_DATA_WRITE_PARTIAL z lc v (Lst ss) (Some (selectors_cfg, selectors)) =
      EebusDataList_WritePartial z (EEBUS_DATA_WRITE_PARTIAL z) lc v (Lst ss) (Some (selectors_cfg, selectors))"
    using lc by (simp add: EEBUS_DATA_WRITE_PARTIAL.simps [of z lc])
  consider (selected) "\<not> EEBUS_DATA_IS_NULL selectors_cfg selectors"
    | (all) "EEBUS_DATA_IS_NULL selectors_cfg selectors" "\<not> EEBUS_DATA_HAS_IDENTIFIERS ec s"
    | (merge) "EEBUS_DATA_IS_NULL selectors_cfg selectors" "EEBUS_DATA_HAS_IDENTIFIERS ec s" by blast
  then show ?thesis
  proof cases
    case selected
    let ?g = "\<lambda>d. if EEBUS_DATA_SELECTORS_MATCH ec d selectors_cfg selectors then overlay d s else d"
    have "write_loop (\<lambda>d. if EEBUS_DATA_SELECTORS_MATCH ec d selectors_cfg selectors
        then EEBUS_DATA_WRITE_ELEMENTS z ec d s else Some (kEebusErrorOk, d)) (zip ds ds) = Some (kEebusErrorOk, map ?g ds)"
      if "list_all (fits z ec) ds" for ds
      using that ss write_elements_overlay [OF lc(3)] by (intro write_loop_map) (auto simp: list_all_iff)
    then show ?thesis
      using selected old ss lc unfolding eq EebusDataList_WritePartial_def
      by (auto simp: CopyToSelectedData_def with_element_def rfe_write_def cong: if_cong)
  next
    case all
    have "write_loop (\<lambda>d. EEBUS_DATA_WRITE_PARTIAL z ec d s None) (zip ds ds) = Some (kEebusErrorOk, map (\<lambda>d. overlay d s) ds)"
      if "list_all (fits z ec) ds" for ds
      using that ss write_partial_overlay [OF lc(3,4)] by (intro write_loop_map) (auto simp: list_all_iff)
    then show ?thesis
      using all old ss lc unfolding eq EebusDataList_WritePartial_def
      by (auto simp: CopyToAllData_def ListElementsHaveIdentifiers_def with_element_def rfe_write_def)
  next
    case merge
    have "MergeData z (EEBUS_DATA_WRITE_PARTIAL z) lc v (Lst ss) =
        Some (kEebusErrorOk, Lst (merge_spec ec (case old of None \<Rightarrow> [] | Some ds \<Rightarrow> ds) ss))"
      using MergeData_spec [OF lc(2-4), of v "case old of None \<Rightarrow> [] | Some ds \<Rightarrow> ds" z ss] old new by auto
    then show ?thesis
      using merge ss lc unfolding eq EebusDataList_WritePartial_def
      by (simp add: ListElementsHaveIdentifiers_def with_element_def rfe_write_def)
  qed
qed

lemma filter_not_id:
  "length (filter P xs) = length xs \<longleftrightarrow> (\<forall>x \<in> set xs. P x)"
  by (metis filter_id_conv length_filter_less less_irrefl)

lemma DeleteListItems_list:
  fixes selectors_cfg :: EebusDataCfg and selectors :: EebusData
  assumes "metadata lc = [ec]" "z \<or> ds \<noteq> []"
  defines "p \<equiv> \<lambda>d. EEBUS_DATA_SELECTORS_MATCH ec d selectors_cfg selectors"
  shows "DeleteListItems z lc (Lst ds) selectors_cfg selectors =
    Lst (if list_all p ds \<and> \<not> z then ds else filter (\<lambda>d. \<not> p d) ds)"
proof (cases "list_all p ds \<and> \<not> z")
  case True
  then have "filter (\<lambda>d. \<not> p d) ds = []" by (simp add: filter_empty_conv list_all_iff)
  then show ?thesis using True assms(1) unfolding p_def
    by (simp add: DeleteListItems_def with_element_def CreateListBuffer_def)
next
  case False
  then have "\<not> (filter (\<lambda>d. \<not> p d) ds = [] \<and> \<not> z)" by (auto simp: filter_empty_conv list_all_iff)
  moreover have "length (filter (\<lambda>d. \<not> p d) ds) = length ds \<Longrightarrow> filter (\<lambda>d. \<not> p d) ds = ds"
    by (simp add: filter_not_id filter_id_conv)
  ultimately show ?thesis using False assms(1) unfolding p_def
    by (auto simp: DeleteListItems_def with_element_def CreateListBuffer_def Let_def)
qed

lemma delete_partial_list:
  assumes "metadata lc = [ec]"
    and old: "v = Null \<and> old = None \<or> (\<exists>ds. v = Lst ds \<and> old = Some ds \<and> (z \<or> ds \<noteq> []))"
  shows "EebusDataList_DeletePartial z lc v selectors_cfg selectors elements_cfg elements =
    (case rfe_delete z ec selectors_cfg selectors elements_cfg elements old of None \<Rightarrow> Null | Some ds \<Rightarrow> Lst ds)"
  using old
proof
  assume "v = Null \<and> old = None"
  then show ?thesis
    by (simp add: EebusDataList_DeletePartial_def DeleteListItems_def DeleteListItemsElements_def rfe_delete_def Let_def)
next
  assume "\<exists>ds. v = Lst ds \<and> old = Some ds \<and> (z \<or> ds \<noteq> [])"
  then obtain ds where "v = Lst ds" "old = Some ds" "z \<or> ds \<noteq> []" by blast
  then show ?thesis
    by (simp add: EebusDataList_DeletePartial_def DeleteListItems_list [OF assms(1)] DeleteListItemsElements_def
        rfe_delete_def Let_def with_element_def assms(1))
qed


lemma merge_spec_fits:
  assumes "plain ec" "list_all (fits z ec) ds" "list_all (fits z ec) ss"
  shows "list_all (fits z ec) (merge_spec ec ds ss)"
proof -
  have "fits z ec (foldl overlay d xs)" if "fits z ec d" "list_all (fits z ec) xs" for d xs
    using that fits_overlay [OF assms(1)] by (induction xs arbitrary: d) auto
  then show ?thesis using assms(2,3) by (auto simp: merge_spec_def list_all_iff)
qed

text \<open>The list a function may hold: elements of the element type, and no buffer without elements if there can be none.\<close>

definition list_ok :: "bool \<Rightarrow> EebusDataCfg \<Rightarrow> EebusData list option \<Rightarrow> bool" where
  "list_ok z ec old = (case old of None \<Rightarrow> True | Some ds \<Rightarrow> (z \<or> ds \<noteq> []) \<and> list_all (fits z ec) ds)"

lemma rfe_write_ok:
  assumes "plain ec" "list_ok z ec old" "list_all (fits z ec) ss" "ss \<noteq> []"
  shows "list_ok z ec (rfe_write ec selectors_cfg selectors ss old)"
proof -
  have hd: "fits z ec (hd ss)" using assms(3,4) by (cases ss) auto
  have ne: "merge_spec ec ds ss \<noteq> []" for ds
    using assms(4) by (cases ds) (simp_all add: merge_spec_def)
  have ov: "list_all (fits z ec) (map (\<lambda>d. if P d then overlay d (hd ss) else d) ds)" if "list_all (fits z ec) ds" for P ds
    using that hd fits_overlay [OF assms(1)] by (auto simp: list_all_iff)
  show ?thesis
  proof (cases old)
    case None
    then show ?thesis using ne merge_spec_fits [OF assms(1) _ assms(3), of "[]"] by (simp add: rfe_write_def list_ok_def)
  next
    case (Some ds)
    then have "list_all (fits z ec) ds" "z \<or> ds \<noteq> []" using assms(2) by (simp_all add: list_ok_def)
    then show ?thesis
      using Some ne merge_spec_fits [OF assms(1) _ assms(3), of ds] ov [of ds] ov [of ds "\<lambda>_. True"]
      by (simp add: rfe_write_def list_ok_def)
  qed
qed

lemma rfe_delete_ok:
  assumes "plain ec" "list_ok z ec old" "fits z' elements_cfg elements"
  shows "list_ok z ec (rfe_delete z ec selectors_cfg selectors elements_cfg elements old)"
  using assms(2) fits_delete_elements [OF assms(1) _ assms(3)]
  by (auto simp: rfe_delete_def list_ok_def Let_def list_all_iff filter_empty_conv split: option.splits)

text \<open>How a container holds its list.\<close>

definition holds :: "EebusData \<Rightarrow> EebusData list option \<Rightarrow> bool" where
  "holds v old \<longleftrightarrow> v = Null \<and> old = None \<or> v = Seq [case old of None \<Rightarrow> Null | Some ds \<Rightarrow> Lst ds]"

lemma holds_function_list: "holds v old \<Longrightarrow> function_list v = old"
  by (auto simp: holds_def function_list_def split: option.splits)


lemma fits_holds_iff:
  assumes "cfg_interface cfg = eebus_data_container_methods" "0 < cfg_size cfg" "metadata cfg = [lc]"
    "cfg_interface lc = eebus_data_list_methods" "metadata lc = [ec]"
  shows "fits z cfg v \<longleftrightarrow> (\<exists>old. holds v old \<and> list_ok z ec old)"
  unfolding fits_list_container [OF assms] split_option_ex by (auto simp: holds_def list_ok_def)

lemma container_write_partial:
  assumes "cfg_interface cfg = eebus_data_container_methods" "0 < cfg_size cfg" "metadata cfg = [lc]"
    and lc: "cfg_interface lc = eebus_data_list_methods" "metadata lc = [ec]" "plain ec" "list_free ec"
    and v: "holds v old" "list_ok z ec old" and new: "list_all (fits z ec) ss" "ss \<noteq> []"
  shows "\<exists>w. EEBUS_DATA_WRITE_PARTIAL z cfg v (Seq [Lst ss]) (Some (selectors_cfg, selectors)) = Some (kEebusErrorOk, w) \<and>
    holds w (rfe_write ec selectors_cfg selectors ss old)"
proof -
  let ?d = "case old of None \<Rightarrow> Null | Some ds \<Rightarrow> Lst ds"
  have "EEBUS_DATA_WRITE_PARTIAL z lc ?d (Lst ss) (Some (selectors_cfg, selectors)) =
      Some (kEebusErrorOk, case rfe_write ec selectors_cfg selectors ss old of None \<Rightarrow> Null | Some ds \<Rightarrow> Lst ds)"
    using v(2) by (intro write_partial_list [OF lc _ new]) (auto simp: list_ok_def split: option.splits)
  moreover have "(if v = Null then EebusDataBaseCreateEmpty cfg else v) = Seq [?d]"
    using v(1) assms(1-4) by (auto simp: holds_def EebusDataBaseCreateEmpty_def empty_member_def)
  ultimately show ?thesis
    using assms(1-4)
    by (simp add: EEBUS_DATA_WRITE_PARTIAL.simps [of z cfg] EebusDataContainer_WritePartial_def with_element_def
        with_buffer_Seq holds_def)
qed

lemma container_delete_partial:
  assumes "cfg_interface cfg = eebus_data_container_methods" "metadata cfg = [lc]"
    and lc: "cfg_interface lc = eebus_data_list_methods" "metadata lc = [ec]"
    and v: "holds v old" "list_ok z ec old"
  shows "holds (EEBUS_DATA_DELETE_PARTIAL z cfg v selectors_cfg selectors elements_cfg elements)
    (rfe_delete z ec selectors_cfg selectors elements_cfg elements old)"
proof -
  let ?d = "case old of None \<Rightarrow> Null | Some ds \<Rightarrow> Lst ds"
  have "EebusDataList_DeletePartial z lc ?d selectors_cfg selectors elements_cfg elements =
      (case rfe_delete z ec selectors_cfg selectors elements_cfg elements old of None \<Rightarrow> Null | Some ds \<Rightarrow> Lst ds)"
    using v(2) by (intro delete_partial_list [OF lc(2)]) (auto simp: list_ok_def split: option.splits)
  moreover have "rfe_delete z ec selectors_cfg selectors elements_cfg elements None = None"
    by (simp add: rfe_delete_def Let_def)
  ultimately show ?thesis
    using v(1) assms(1-3)
    by (auto simp: holds_def EEBUS_DATA_DELETE_PARTIAL_def EebusDataContainer_DeletePartial_def with_element_def)
qed


section \<open>Commands carry updates\<close>

text \<open>What the tables of the model satisfy: well-formed descriptors, one entry for each function in each table.\<close>

definition model_wf :: "Model \<Rightarrow> bool" where
  "model_wf m \<longleftrightarrow>
     length (data_selectors_choice_data_cfg m) = length (data_choice_data_cfg m) \<and>
     length (data_elements_choice_data_cfg m) = length (data_choice_data_cfg m) \<and>
     list_all (\<lambda>c. cfg_wf c \<and> cfg_interface c \<notin> {eebus_data_choice_methods, eebus_data_stub_methods})
       (data_choice_data_cfg m) \<and>
     list_all (\<lambda>c. cfg_wf c \<and> cfg_interface c \<noteq> eebus_data_choice_methods) (data_selectors_choice_data_cfg m) \<and>
     list_all (\<lambda>c. cfg_wf c \<and> cfg_interface c \<noteq> eebus_data_choice_methods) (data_elements_choice_data_cfg m)"

text \<open>A filter whose members have the types of the function's tables.\<close>

definition filter_ok :: "bool \<Rightarrow> Model \<Rightarrow> nat \<Rightarrow> FilterType \<Rightarrow> bool" where
  "filter_ok z m t f \<longleftrightarrow>
     fits z (uint32_cfg ''filterId'') (filter_id f) \<and>
     fits z (data_selectors_choice_data_cfg m ! t) (data_selectors_choice f) \<and>
     fits z (data_elements_choice_data_cfg m ! t) (data_elements_choice f)"

lemma filter_cfg_wf: "model_wf m \<Longrightarrow> cfg_wf (GetFilterCfg m)"
  by (simp add: GetFilterCfg_def cfg_wf.simps [of "EebusDataCfg _ _ _ _ _"] uint32_cfg_def tag_cfg_def cmd_control_cfg_def choice_cfg_def
      model_wf_def list_all_iff EebusDataBaseHasIdentifiersFlags_def)

lemma cmd_control_fits:
  "c \<in> {ctrl_partial, ctrl_delete} \<Longrightarrow> fits z (EebusDataCfg eebus_data_sequence_methods ''cmdControl'' 16 0 cmd_control_cfg) c"
  by (auto simp: ctrl_partial_def ctrl_delete_def cmd_control_cfg_def tag_cfg_def fits.simps [of z "EebusDataCfg _ _ _ _ _"])

lemma FilterCreate_copies:
  assumes "model_wf m" "t < length (data_choice_data_cfg m)" "c \<in> {ctrl_partial, ctrl_delete}"
    and "fits z (uint32_cfg ''filterId'') i" "fits z (data_selectors_choice_data_cfg m ! t) s"
      "fits z (data_elements_choice_data_cfg m ! t) e"
  shows "FilterCreate z m t i c s e =
    Some (Some \<lparr>filter_id = i, cmd_ctrl = c, data_selectors_choice = s, data_selectors_choice_type_id = t,
      data_elements_choice = e, data_elements_choice_type_id = t\<rparr>)"
proof -
  let ?v = "Seq [i, c, Choice t s, Choice t e]"
  have "fits z (choice_cfg (data_selectors_choice_data_cfg m)) (Choice t s)"
    "fits z (choice_cfg (data_elements_choice_data_cfg m)) (Choice t e)"
    using assms(1,2,5,6) by (simp_all add: choice_cfg_def fits.simps [of z "EebusDataCfg _ _ _ _ _"] with_choice_def model_wf_def)
  then have "fits z (GetFilterCfg m) ?v"
    using assms(4) cmd_control_fits [OF assms(3)] by (simp add: GetFilterCfg_def fits_Seq_iff)
  then have "EEBUS_DATA_WRITE z (GetFilterCfg m) Null ?v = Some (kEebusErrorOk, ?v)"
    by (intro write_copies filter_cfg_wf [OF assms(1)]) (simp_all add: target_def empty_member_def GetFilterCfg_def)
  then show ?thesis by (simp add: FilterCreate_def filter_value_def value_filter_def)
qed

lemma fits_no_elements:
  assumes "model_wf m" "t < length (data_choice_data_cfg m)"
  shows "fits z (data_elements_choice_data_cfg m ! t) Null"
  using assms by (intro fits_Null) (auto simp: model_wf_def list_all_length)

text \<open>An update uses nothing of its filters but the selectors, and the elements of a delete.\<close>

lemma FunctionUpdateData_cong:
  assumes "map_option data_selectors_choice p = map_option data_selectors_choice p'"
    and "map_option (\<lambda>d. (data_selectors_choice d, data_elements_choice d)) q =
      map_option (\<lambda>d. (data_selectors_choice d, data_elements_choice d)) q'"
  shows "FunctionUpdateData z m g v p q persist = FunctionUpdateData z m g v p' q' persist"
  using assms unfolding FunctionUpdateData_def
  by (cases p; cases p'; cases q; cases q') (simp_all split: option.split)

lemma FilterGetType_ctrl [simp]:
  "cmd_ctrl f = ctrl_partial \<Longrightarrow> FilterGetType f = kFilterTypePartial"
  "cmd_ctrl f = ctrl_delete \<Longrightarrow> FilterGetType f = kFilterTypeDelete"
  by (simp_all add: FilterGetType_def ctrl_partial_def ctrl_delete_def)

text \<open>Copying function data to a null pointer.\<close>

lemma write_function_data:
  assumes "model_wf m" "t < length (data_choice_data_cfg m)" "fits z (data_choice_data_cfg m ! t) v"
  shows "EEBUS_DATA_WRITE z (data_choice_data_cfg m ! t) Null v = Some (kEebusErrorOk, v)"
    and "EEBUS_DATA_WRITE z (data_choice_data_cfg m ! t) (EEBUS_DATA_DELETE (data_choice_data_cfg m ! t) w) v =
      Some (kEebusErrorOk, v)"
proof -
  let ?c = "data_choice_data_cfg m ! t"
  have c: "cfg_wf ?c" "cfg_interface ?c \<notin> {eebus_data_choice_methods, eebus_data_stub_methods}"
    using assms(1,2) by (auto simp: model_wf_def list_all_length)
  then show w: "EEBUS_DATA_WRITE z ?c Null v = Some (kEebusErrorOk, v)"
    using write_copies [OF c(1) assms(3)] by (simp add: target_def empty_member_def)
  show "EEBUS_DATA_WRITE z ?c (EEBUS_DATA_DELETE ?c w) v = Some (kEebusErrorOk, v)"
    using w delete_Null [OF c(2)] by simp
qed

section \<open>The load control limits\<close>

definition EEBUS_DATA_BOOL :: "string \<Rightarrow> EebusDataCfg" where
  "EEBUS_DATA_BOOL nm = EebusDataCfg eebus_data_bool_methods nm 1 0 []"

definition EEBUS_DATA_SEQUENCE :: "string \<Rightarrow> nat \<Rightarrow> EebusDataCfg list \<Rightarrow> EebusDataCfg" where
  "EEBUS_DATA_SEQUENCE nm n cfgs = EebusDataCfg eebus_data_sequence_methods nm n 0 cfgs"

definition time_period_cfg :: "EebusDataCfg list" where
  "time_period_cfg =
     [EebusDataCfg eebus_data_absolute_or_relative_time_methods ''startTime'' 32 0 [],
      EebusDataCfg eebus_data_absolute_or_relative_time_methods ''endTime'' 32 0 []]"

definition time_period_elements_cfg :: "EebusDataCfg list" where
  "time_period_elements_cfg = [tag_cfg ''startTime'', tag_cfg ''endTime'']"

definition scaled_number_cfg :: "EebusDataCfg list" where
  "scaled_number_cfg =
     [EebusDataCfg eebus_data_numeric_methods ''number'' 8 0 [],
      EebusDataCfg eebus_data_numeric_methods ''scale'' 1 0 []]"

definition scaled_number_elements_cfg :: "EebusDataCfg list" where
  "scaled_number_elements_cfg = [tag_cfg ''number'', tag_cfg ''scale'']"

definition load_control_limit_data_cfg :: "EebusDataCfg list" where
  "load_control_limit_data_cfg =
     [EebusDataCfg eebus_data_numeric_methods ''limitId'' 4 kEebusDataFlagIsIdentifier [],
      EEBUS_DATA_BOOL ''isLimitChangeable'', EEBUS_DATA_BOOL ''isLimitActive'',
      EEBUS_DATA_SEQUENCE ''timePeriod'' 16 time_period_cfg, EEBUS_DATA_SEQUENCE ''value'' 16 scaled_number_cfg]"

definition load_control_limit_data_elements_cfg :: "EebusDataCfg list" where
  "load_control_limit_data_elements_cfg =
     [tag_cfg ''limitId'', tag_cfg ''isLimitChangeable'', tag_cfg ''isLimitActive'',
      EEBUS_DATA_SEQUENCE ''timePeriod'' 16 time_period_elements_cfg,
      EEBUS_DATA_SEQUENCE ''value'' 16 scaled_number_elements_cfg]"

definition load_control_limit_data_element_data_cfg :: EebusDataCfg where
  "load_control_limit_data_element_data_cfg =
     EebusDataCfg eebus_data_sequence_methods [] 40 0 load_control_limit_data_cfg"

definition load_control_limit_list_data_cfg :: "EebusDataCfg list" where
  "load_control_limit_list_data_cfg =
     [EebusDataCfg eebus_data_list_methods ''loadControlLimitData'' 8 0 [load_control_limit_data_element_data_cfg]]"

definition load_control_limit_list_data_selectors_cfg :: "EebusDataCfg list" where
  "load_control_limit_list_data_selectors_cfg = [uint32_cfg ''limitId'']"

text \<open>The entries of the three tables for this function.\<close>

definition load_control_model :: Model where
  "load_control_model =
     \<lparr>data_choice_data_cfg = [EebusDataCfg eebus_data_container_methods ''loadControlLimitListData'' 16 0
        load_control_limit_list_data_cfg],
      data_selectors_choice_data_cfg = [EEBUS_DATA_SEQUENCE ''loadControlLimitListDataSelectors'' 8
        load_control_limit_list_data_selectors_cfg],
      data_elements_choice_data_cfg = [EEBUS_DATA_SEQUENCE ''loadControlLimitDataElements'' 40
        load_control_limit_data_elements_cfg]\<rparr>"

lemmas load_control_defs = load_control_model_def load_control_limit_list_data_cfg_def
  load_control_limit_data_element_data_cfg_def load_control_limit_data_cfg_def time_period_cfg_def scaled_number_cfg_def
  load_control_limit_list_data_selectors_cfg_def load_control_limit_data_elements_cfg_def
  time_period_elements_cfg_def scaled_number_elements_cfg_def EEBUS_DATA_BOOL_def EEBUS_DATA_SEQUENCE_def
  uint32_cfg_def tag_cfg_def

text \<open>A limit with an identifier, an activity and a value, each below 256; what is not given is null.\<close>

definition limit :: "byte \<Rightarrow> bool option \<Rightarrow> byte option \<Rightarrow> EebusData" where
  "limit i active watts =
     Seq [Simple [i, CHR 0x00, CHR 0x00, CHR 0x00], Null,
          case active of None \<Rightarrow> Null | Some b \<Rightarrow> Simple [if b then CHR 0x01 else CHR 0x00], Null,
          case watts of None \<Rightarrow> Null | Some w \<Rightarrow> Seq [Simple (w # replicate 7 (CHR 0x00)), Simple [CHR 0x00]]]"

lemma load_control_list_function:
  "list_function load_control_model 0 load_control_limit_data_element_data_cfg"
  by code_simp

section \<open>Properties\<close>

lemma update_refines:
  assumes "list_function m (ftype f) ec" "ModelGetDataCfg m (ftype f) = Some cfg"
    and "ModelGetDataSelectorsCfg m (ftype f) = Some scfg" "ModelGetDataElementsCfg m (ftype f) = Some ecfg"
    and "fits z cfg (fdata f)"
    and "filter_partial = None \<or> new_data = Seq [Lst ss] \<and> ss \<noteq> [] \<and> list_all (fits z ec) ss"
    and "filter_delete = None \<or> fits z ecfg (data_elements_choice (the filter_delete))"
    and "filter_partial \<noteq> None \<or> filter_delete \<noteq> None"
  shows "\<exists>v. FunctionUpdateData z m f new_data filter_partial filter_delete persist =
      Some (kEebusErrorOk, f\<lparr>fdata := v\<rparr>) \<and> fits z cfg v \<and>
    function_list v =
      (case filter_partial of None \<Rightarrow> id | Some p \<Rightarrow> rfe_write ec scfg (data_selectors_choice p) ss)
      ((case filter_delete of None \<Rightarrow> id
        | Some d \<Rightarrow> rfe_delete z ec scfg (data_selectors_choice d) ecfg (data_elements_choice d))
        (function_list (fdata f)))"
proof -
  obtain lc where cfg: "cfg_interface cfg = eebus_data_container_methods" "0 < cfg_size cfg" "metadata cfg = [lc]"
    and lc: "cfg_interface lc = eebus_data_list_methods" "metadata lc = [ec]" "plain ec" "list_free ec"
    using assms(1,2) by (auto elim: list_functionE)
  note fits = fits_holds_iff [OF cfg lc(1,2)]
  obtain old where old: "holds (fdata f) old" "list_ok z ec old" using assms(5) fits by blast
  define v where "v = (case filter_delete of None \<Rightarrow> fdata f
    | Some d \<Rightarrow> EEBUS_DATA_DELETE_PARTIAL z cfg (fdata f) scfg (data_selectors_choice d) ecfg (data_elements_choice d))"
  define mid where "mid = (case filter_delete of None \<Rightarrow> id
    | Some d \<Rightarrow> rfe_delete z ec scfg (data_selectors_choice d) ecfg (data_elements_choice d)) old"
  have v: "holds v mid" "list_ok z ec mid"
    using old assms(7) container_delete_partial [OF cfg(1,3) lc(1,2) old] rfe_delete_ok [OF lc(3) old(2)]
    by (auto simp: v_def mid_def split: option.split)
  have eq: "FunctionUpdateData z m f new_data filter_partial filter_delete persist =
      (case filter_partial of None \<Rightarrow> Some (kEebusErrorOk, f\<lparr>fdata := v\<rparr>)
       | Some p \<Rightarrow> map_option (\<lambda>(err, v). (err, f\<lparr>fdata := v\<rparr>))
           (EEBUS_DATA_WRITE_PARTIAL z cfg v new_data (Some (scfg, data_selectors_choice p))))"
    using assms(2-4,8) by (auto simp: FunctionUpdateData_def v_def split: option.split)
  have final: "\<exists>w. FunctionUpdateData z m f new_data filter_partial filter_delete persist =
      Some (kEebusErrorOk, f\<lparr>fdata := w\<rparr>) \<and>
    holds w ((case filter_partial of None \<Rightarrow> id | Some p \<Rightarrow> rfe_write ec scfg (data_selectors_choice p) ss) mid) \<and>
    list_ok z ec ((case filter_partial of None \<Rightarrow> id | Some p \<Rightarrow> rfe_write ec scfg (data_selectors_choice p) ss) mid)"
  proof (cases filter_partial)
    case None
    then show ?thesis using eq v by auto
  next
    case (Some p)
    then have new: "new_data = Seq [Lst ss]" "list_all (fits z ec) ss" "ss \<noteq> []" using assms(6) by auto
    show ?thesis
      using eq Some new container_write_partial [OF cfg lc v new(2,3), of scfg "data_selectors_choice p"]
        rfe_write_ok [OF lc(3) v(2) new(2,3)] by auto
  qed
  then obtain w where w: "FunctionUpdateData z m f new_data filter_partial filter_delete persist =
      Some (kEebusErrorOk, f\<lparr>fdata := w\<rparr>)"
    "holds w ((case filter_partial of None \<Rightarrow> id | Some p \<Rightarrow> rfe_write ec scfg (data_selectors_choice p) ss) mid)"
    "list_ok z ec ((case filter_partial of None \<Rightarrow> id | Some p \<Rightarrow> rfe_write ec scfg (data_selectors_choice p) ss) mid)"
    by blast
  then have "fits z cfg w" unfolding fits by blast
  then show ?thesis
    using w(1) holds_function_list [OF w(2)] unfolding mid_def holds_function_list [OF old(1)] by blast
qed

text \<open>
  C22. An update with filters (a partial write, a delete, or a delete followed by a partial write) of a
  function that holds a list does to the list what the restricted function exchange specifies: the delete
  comes first, and the partial write overlays the selected elements, or all elements when the data has no
  identifiers, or merges by identifiers. It never fails, writes no slot outside its buffers, and keeps
  the type of the data, whatever the data was.
\<close>

theorem FunctionUpdateData_refines:
  assumes "list_function m (ftype f) ec" "ModelGetDataCfg m (ftype f) = Some cfg"
    and "ModelGetDataSelectorsCfg m (ftype f) = Some scfg" "ModelGetDataElementsCfg m (ftype f) = Some ecfg"
    and "fits z cfg (fdata f)"
    and "filter_partial = None \<or> new_data = Seq [Lst ss] \<and> ss \<noteq> [] \<and> list_all (fits z ec) ss"
    and "filter_delete = None \<or> fits z ecfg (data_elements_choice (the filter_delete))"
    and "filter_partial \<noteq> None \<or> filter_delete \<noteq> None"
  shows "\<exists>v. FunctionUpdateData z m f new_data filter_partial filter_delete persist =
      Some (kEebusErrorOk, f\<lparr>fdata := v\<rparr>) \<and> fits z cfg v \<and>
    function_list v =
      (case filter_partial of None \<Rightarrow> id | Some p \<Rightarrow> rfe_write ec scfg (data_selectors_choice p) ss)
      ((case filter_delete of None \<Rightarrow> id
        | Some d \<Rightarrow> rfe_delete z ec scfg (data_selectors_choice d) ecfg (data_elements_choice d))
        (function_list (fdata f)))"
  using assms by (rule update_refines)

definition limits :: "EebusData list \<Rightarrow> EebusData" where "limits ds = Seq [Lst ds]"

definition no_selectors :: FilterType where
  "no_selectors = \<lparr>filter_id = Null, cmd_ctrl = ctrl_partial, data_selectors_choice = Null,
     data_selectors_choice_type_id = 0, data_elements_choice = Null, data_elements_choice_type_id = 0\<rparr>"

text \<open>
  Limit 2 is deleted; then limit (CHR 0x01) gets a new value and keeps its activity, and limit (CHR 0x03) is added.
\<close>

lemma FunctionUpdateData_witness:
  "\<exists>v. FunctionUpdateData False load_control_model
      \<lparr>ftype = 0, fdata = limits [limit (CHR 0x01) (Some True) (Some (CHR 0x2A)), limit (CHR 0x02) (Some True) None], foperations = None\<rparr>
      (limits [limit (CHR 0x01) None (Some (CHR 0x32)), limit (CHR 0x03) (Some False) None]) (Some no_selectors)
      (Some (no_selectors\<lparr>data_selectors_choice := Seq [Simple [CHR 0x02, CHR 0x00, CHR 0x00, CHR 0x00]]\<rparr>)) True =
    Some (kEebusErrorOk, \<lparr>ftype = 0, fdata = v, foperations = None\<rparr>) \<and>
    function_list v = Some [limit (CHR 0x01) (Some True) (Some (CHR 0x32)), limit (CHR 0x03) (Some False) None]"
proof -
  let ?f = "\<lparr>ftype = 0, fdata = limits [limit (CHR 0x01) (Some True) (Some (CHR 0x2A)), limit (CHR 0x02) (Some True) None], foperations = None\<rparr>"
  let ?ec = load_control_limit_data_element_data_cfg and ?ss = "[limit (CHR 0x01) None (Some (CHR 0x32)), limit (CHR 0x03) (Some False) None]"
  let ?d = "no_selectors\<lparr>data_selectors_choice := Seq [Simple [CHR 0x02, CHR 0x00, CHR 0x00, CHR 0x00]]\<rparr>"
  let ?cfg = "data_choice_data_cfg load_control_model ! 0"
    and ?scfg = "data_selectors_choice_data_cfg load_control_model ! 0"
    and ?ecfg = "data_elements_choice_data_cfg load_control_model ! 0"
  have "list_function load_control_model (ftype ?f) ?ec" using load_control_list_function by simp
  moreover have "ModelGetDataCfg load_control_model (ftype ?f) = Some ?cfg"
    "ModelGetDataSelectorsCfg load_control_model (ftype ?f) = Some ?scfg"
    "ModelGetDataElementsCfg load_control_model (ftype ?f) = Some ?ecfg" by code_simp+
  moreover have "fits False ?cfg (fdata ?f)" "list_all (fits False ?ec) ?ss" by code_simp+
  moreover have "fits False ?ecfg (data_elements_choice ?d)" by code_simp
  ultimately obtain v where v: "FunctionUpdateData False load_control_model ?f (limits ?ss) (Some no_selectors) (Some ?d) True =
      Some (kEebusErrorOk, ?f\<lparr>fdata := v\<rparr>)"
    "function_list v = rfe_write ?ec ?scfg (data_selectors_choice no_selectors) ?ss
      (rfe_delete False ?ec ?scfg (data_selectors_choice ?d) ?ecfg (data_elements_choice ?d) (function_list (fdata ?f)))"
    using FunctionUpdateData_refines [of load_control_model ?f ?ec ?cfg ?scfg ?ecfg False "Some no_selectors" "limits ?ss" ?ss
        "Some ?d" True] by (auto simp: limits_def)
  have "rfe_write ?ec ?scfg (data_selectors_choice no_selectors) ?ss
      (rfe_delete False ?ec ?scfg (data_selectors_choice ?d) ?ecfg (data_elements_choice ?d) (function_list (fdata ?f))) =
      Some [limit (CHR 0x01) (Some True) (Some (CHR 0x32)), limit (CHR 0x03) (Some False) None]" by code_simp
  then show ?thesis using v by simp
qed


text \<open>
  A notification carries an update: the command built for new data and filters, applied by the
  receiver to its copy of the function, does exactly what the update itself does. So a copy that was
  equal to the function's data before the update is equal to it after.
\<close>

lemma notify_carries_update:
  assumes "model_wf m" "ftype f < length (data_choice_data_cfg m)" "fits z (data_choice_data_cfg m ! ftype f) new_data"
    and "filter_partial = None \<or> filter_ok z m (ftype f) (the filter_partial)"
    and "filter_delete = None \<or> filter_ok z m (ftype f) (the filter_delete)"
  shows "\<exists>cmd. CreateNotifyCmd z m f new_data filter_partial filter_delete = Some (Some cmd) \<and>
    data_choice_type_id cmd = ftype f \<and> data_choice cmd = new_data \<and>
    (\<forall>g. ftype g = ftype f \<longrightarrow>
      FunctionUpdateData z m g (data_choice cmd) (CmdGetFilterPartial cmd) (CmdGetFilterDelete cmd) persist =
      FunctionUpdateData z m g new_data filter_partial filter_delete persist)"
proof -
  let ?cmd = "CmdCreateEmpty\<lparr>data_choice_type_id := ftype f, data_choice := new_data\<rparr>"
  have d: "AddDataToWriteCmd z m f CmdCreateEmpty new_data = Some (kEebusErrorOk, ?cmd)"
    using write_function_data(1) [OF assms(1-3)] assms(2)
    by (simp add: AddDataToWriteCmd_def ModelGetDataCfg_def CmdCreateEmpty_def)
  have p: "FilterPartialCreate z m (ftype f) (filter_id q) (data_selectors_choice q) Null =
      Some (Some \<lparr>filter_id = filter_id q, cmd_ctrl = ctrl_partial, data_selectors_choice = data_selectors_choice q,
        data_selectors_choice_type_id = ftype f, data_elements_choice = Null, data_elements_choice_type_id = ftype f\<rparr>)"
    if "filter_partial = Some q" for q
    using that assms(4) FilterCreate_copies [OF assms(1,2)] fits_no_elements [OF assms(1,2)]
    by (simp add: FilterPartialCreate_def filter_ok_def)
  have q: "FilterDeleteCreate z m (ftype f) (filter_id q) (data_selectors_choice q) (data_elements_choice q) =
      Some (Some \<lparr>filter_id = filter_id q, cmd_ctrl = ctrl_delete, data_selectors_choice = data_selectors_choice q,
        data_selectors_choice_type_id = ftype f, data_elements_choice = data_elements_choice q,
        data_elements_choice_type_id = ftype f\<rparr>)"
    if "filter_delete = Some q" for q
    using that assms(5) FilterCreate_copies [OF assms(1,2)] by (simp add: FilterDeleteCreate_def filter_ok_def)
  define ps where "ps = (case filter_partial of None \<Rightarrow> [] | Some q \<Rightarrow>
    [\<lparr>filter_id = filter_id q, cmd_ctrl = ctrl_partial, data_selectors_choice = data_selectors_choice q,
      data_selectors_choice_type_id = ftype f, data_elements_choice = Null, data_elements_choice_type_id = ftype f\<rparr>])"
  define qs where "qs = (case filter_delete of None \<Rightarrow> [] | Some q \<Rightarrow>
    [\<lparr>filter_id = filter_id q, cmd_ctrl = ctrl_delete, data_selectors_choice = data_selectors_choice q,
      data_selectors_choice_type_id = ftype f, data_elements_choice = data_elements_choice q,
      data_elements_choice_type_id = ftype f\<rparr>])"
  obtain cmd where cmd: "CreateNotifyCmd z m f new_data filter_partial filter_delete = Some (Some cmd)"
    "data_choice_type_id cmd = ftype f" "data_choice cmd = new_data" "cmd_filter cmd = ps @ qs"
    using d p q unfolding ps_def qs_def
    by (cases filter_partial; cases filter_delete)
      (simp_all add: CreateNotifyCmd_def CreateWriteCmd_def AddFiltersToWriteCmd_def GetFiltersNum_def add_filter_def
        CmdCreateEmpty_def Let_def)
  have "map_option data_selectors_choice (CmdGetFilterPartial cmd) = map_option data_selectors_choice filter_partial"
    "map_option (\<lambda>d. (data_selectors_choice d, data_elements_choice d)) (CmdGetFilterDelete cmd) =
      map_option (\<lambda>d. (data_selectors_choice d, data_elements_choice d)) filter_delete"
    unfolding CmdGetFilterPartial_def CmdGetFilterDelete_def CmdGetFilterWithType_def cmd(4) ps_def qs_def
    by (cases filter_partial; cases filter_delete; simp)+
  then show ?thesis using cmd(1-3) FunctionUpdateData_cong by blast
qed

text \<open>
  C35. A reply carries the data: the command a function builds for a read, applied by the reader without
  filters, leaves the reader's copy equal to the function's data, whatever the copy was.
\<close>

theorem reply_carries_data:
  assumes "model_wf m" "ftype f < length (data_choice_data_cfg m)" "fits z (data_choice_data_cfg m ! ftype f) (fdata f)"
    and "ftype g = ftype f"
  shows "\<exists>cmd. CreateReplyCmd z m f = Some (Some cmd) \<and> data_choice_type_id cmd = ftype f \<and>
    FunctionUpdateData z m g (data_choice cmd) (CmdGetFilterPartial cmd) (CmdGetFilterDelete cmd) True =
      Some (kEebusErrorOk, g\<lparr>fdata := fdata f\<rparr>)"
  using write_function_data [OF assms(1-3)] assms(1,2,4)
  by (simp add: CreateReplyCmd_def ModelGetDataCfg_def FunctionUpdateData_def ModelGetDataSelectorsCfg_def
      ModelGetDataElementsCfg_def CmdCreateEmpty_def CmdGetFilterPartial_def CmdGetFilterDelete_def
      CmdGetFilterWithType_def model_wf_def)

lemma reply_carries_data_witness:
  "\<exists>cmd. CreateReplyCmd False load_control_model
      \<lparr>ftype = 0, fdata = limits [limit (CHR 0x01) (Some True) None], foperations = None\<rparr> = Some (Some cmd) \<and>
    data_choice_type_id cmd = 0"
proof -
  let ?f = "\<lparr>ftype = 0, fdata = limits [limit (CHR 0x01) (Some True) None], foperations = None\<rparr>"
  have "model_wf load_control_model" "ftype ?f < length (data_choice_data_cfg load_control_model)"
    "fits False (data_choice_data_cfg load_control_model ! ftype ?f) (fdata ?f)" by code_simp+
  then show ?thesis
    using reply_carries_data [of load_control_model ?f False "FunctionConstruct load_control_model 0"]
    by (auto simp: FunctionConstruct_def)
qed


section \<open>Where the exchange fails\<close>

definition network_management_entity_description_data_cfg :: "EebusDataCfg list" where
  "network_management_entity_description_data_cfg =
     [EebusDataCfg eebus_data_sequence_methods ''entityAddress'' 24 kEebusDataFlagIsIdentifier entity_address_cfg,
      EebusDataCfg eebus_data_enum_methods ''entityType'' 4 0 [],
      EebusDataCfg eebus_data_enum_methods ''lastStateChange'' 4 0 [],
      EebusDataCfg eebus_data_string_methods ''minimumTrustLevel'' 8 0 [],
      EebusDataCfg eebus_data_string_methods ''label'' 8 0 [],
      EebusDataCfg eebus_data_string_methods ''description'' 8 0 []]"

definition network_management_entity_description_list_data_cfg :: EebusDataCfg where
  "network_management_entity_description_list_data_cfg =
     EebusDataCfg eebus_data_list_methods ''networkManagementEntityDescriptionData'' 8 0
       [EebusDataCfg eebus_data_sequence_methods [] 48 0 network_management_entity_description_data_cfg]"

definition entity_description :: "byte list \<Rightarrow> EebusData" where
  "entity_description entity = Seq [Seq [Str ''d'', Lst (map number entity)], Null, Null, Null, Null, Null]"

text \<open>
  Merging entity descriptions can write outside the new buffer: the identifier of a description is an
  address, whose entity list a partial write changes (1.2 becomes 1.1), so a second description of the
  same entity in one message matches no slot any more, although the buffer was sized as if it did.
\<close>

lemma entity_description_merge_overflows:
  "EEBUS_DATA_WRITE_PARTIAL z network_management_entity_description_list_data_cfg
     (Lst [entity_description [CHR 0x01, CHR 0x02]])
     (Lst [entity_description [CHR 0x01, CHR 0x02], entity_description [CHR 0x01, CHR 0x02]]) None = None"
  by (cases z) code_simp+

text \<open>
  Where \<^verbatim>\<open>malloc(0)\<close> returns no buffer, a delete that selects every element of the list has no effect,
  although it reports success: the last load control limit cannot be deleted.
\<close>

lemma delete_of_last_element_is_ignored:
  "FunctionUpdateData False load_control_model
     \<lparr>ftype = 0, fdata = limits [limit (CHR 0x01) (Some True) None], foperations = None\<rparr> Null None
     (Some (no_selectors\<lparr>data_selectors_choice := Seq [number (CHR 0x01)]\<rparr>)) True =
   Some (kEebusErrorOk, \<lparr>ftype = 0, fdata = limits [limit (CHR 0x01) (Some True) None], foperations = None\<rparr>)"
  by code_simp

end
