(* ===== verification/Eebus_Containers.thy ===== *)
theory Eebus_Containers
  imports Eebus_Prelude
begin

text \<open>
  The containers: \<^verbatim>\<open>common/vector.c\<close>, \<^verbatim>\<open>common/string_lut.c\<close>, \<^verbatim>\<open>common/uint64_lut.c\<close> and the list helpers of
  \<^verbatim>\<open>common/eebus_data/eebus_data_list.c\<close>.

  Elements are pointers, values of a type \<open>'a\<close>; a null pointer is \<open>None\<close>. A buffer is the list of its slots.
  Operations that allocate take the outcome of the allocation; the outcome \<open>None\<close> of an operation is an
  access outside the buffer. Locale \<open>vec\<close> is what the other components rely on: a vector is a list to
  which elements are appended and from which the first occurrence of an element is removed.
\<close>

section \<open>Vectors\<close>

record 'a Vector =
  elements :: "'a option list option"
  num_elements :: nat
  buffer_size :: nat

definition pointer_size :: nat where "pointer_size = 8"

definition num_elements_max :: nat where "num_elements_max = (2 ^ 64 - 1) div pointer_size"

definition VectorConstruct :: "'a Vector" where
  "VectorConstruct = \<lparr>elements = None, num_elements = 0, buffer_size = 0\<rparr>"

definition VectorClear :: "'a Vector \<Rightarrow> 'a Vector" where
  "VectorClear v =
     (if elements v \<noteq> None then v\<lparr>elements := None, num_elements := 0, buffer_size := 0\<rparr> else v)"

definition VectorDestruct :: "'a Vector \<Rightarrow> 'a Vector" where
  "VectorDestruct v = VectorClear v"

text \<open>The elements that are handed to the deallocator, in order, and the vector with their slots cleared.\<close>

definition VectorFreeElements :: "'a Vector \<Rightarrow> 'a list \<times> 'a Vector" where
  "VectorFreeElements v =
     (case elements v of
        None \<Rightarrow> ([], v)
      | Some buf \<Rightarrow>
          (List.map_filter id (take (num_elements v) buf),
           v\<lparr>elements := Some (replicate (min (num_elements v) (length buf)) None @ drop (num_elements v) buf)\<rparr>))"

text \<open>The new destination and the new source.\<close>

definition VectorMove :: "'a Vector \<Rightarrow> 'a Vector \<Rightarrow> 'a Vector \<times> 'a Vector" where
  "VectorMove dest src = (src, src\<lparr>elements := None, num_elements := 0, buffer_size := 0\<rparr>)"

definition VectorGetSize :: "'a Vector \<Rightarrow> nat" where
  "VectorGetSize v = num_elements v"

definition VectorGetElement :: "'a Vector \<Rightarrow> nat \<Rightarrow> 'a option" where
  "VectorGetElement v i =
     (if i \<ge> num_elements v then None
      else case elements v of None \<Rightarrow> None | Some buf \<Rightarrow> if i < length buf then buf ! i else None)"

text \<open>
  \<open>ok\<close> tells whether the allocation of a larger buffer succeeds. When it does not and the vector has a
  buffer, the element is written behind its last slot.
\<close>

definition VectorPushBack :: "bool \<Rightarrow> 'a Vector \<Rightarrow> 'a option \<Rightarrow> 'a Vector option" where
  "VectorPushBack ok v element =
     (if element = None then Some v
      else if num_elements v \<ge> num_elements_max then Some v
      else
        let size' = (num_elements v + 1) * pointer_size;
            v = (if size' > buffer_size v \<and> ok
                 then v\<lparr>buffer_size := size',
                        elements := Some (case elements v of
                            None \<Rightarrow> replicate (num_elements v + 1) None
                          | Some buf \<Rightarrow> take (num_elements v) buf @ replicate (num_elements v + 1 - length (take (num_elements v) buf)) None)\<rparr>
                 else v)
        in case elements v of
             None \<Rightarrow> Some v
           | Some buf \<Rightarrow>
               if num_elements v < length buf
               then Some (v\<lparr>elements := Some (buf[num_elements v := element]), num_elements := num_elements v + 1\<rparr>)
               else None)"

text \<open>The loop that closes the gap at index \<open>j\<close>.\<close>

definition shift_left :: "'a option list \<Rightarrow> nat \<Rightarrow> nat \<Rightarrow> 'a option list" where
  "shift_left buf j n = foldl (\<lambda>b k. b[k := b ! (k + 1)]) buf [j..<n - 1]"

definition VectorRemove :: "'a Vector \<Rightarrow> 'a option \<Rightarrow> 'a Vector" where
  "VectorRemove v element =
     (if element = None then v
      else case elements v of
        None \<Rightarrow> v
      | Some buf \<Rightarrow>
          (case List.find (\<lambda>i. buf ! i = element) [0..<num_elements v] of
             None \<Rightarrow> v
           | Some j \<Rightarrow> v\<lparr>elements := Some (shift_left buf j (num_elements v)), num_elements := num_elements v - 1\<rparr>))"


section \<open>Vectors are lists\<close>

definition vector_ok :: "'a Vector \<Rightarrow> bool" where
  "vector_ok v =
     (case elements v of
        None \<Rightarrow> num_elements v = 0 \<and> buffer_size v = 0
      | Some buf \<Rightarrow>
          buf \<noteq> [] \<and> num_elements v \<le> length buf \<and> buffer_size v = length buf * pointer_size \<and>
          list_all (\<lambda>x. x \<noteq> None) (take (num_elements v) buf))"

definition vector_list :: "'a Vector \<Rightarrow> 'a list" where
  "vector_list v = (case elements v of None \<Rightarrow> [] | Some buf \<Rightarrow> map the (take (num_elements v) buf))"


lemma VectorConstruct_ok [invar_intros]: "vector_ok VectorConstruct"
  by (simp add: VectorConstruct_def vector_ok_def)

lemma VectorConstruct_list [abs_simps]: "vector_list VectorConstruct = []"
  by (simp add: VectorConstruct_def vector_list_def)

lemma VectorClear_list [abs_simps]: "vector_ok v \<Longrightarrow> vector_ok (VectorClear v) \<and> vector_list (VectorClear v) = []"
  by (auto simp: VectorClear_def vector_ok_def vector_list_def)

lemma vector_length [simp]: "vector_ok v \<Longrightarrow> length (vector_list v) = VectorGetSize v"
  by (auto simp: vector_ok_def vector_list_def VectorGetSize_def split: option.splits)

lemma VectorGetElement_list [abs_simps]:
  "vector_ok v \<Longrightarrow> VectorGetElement v i = (if i < VectorGetSize v then Some (vector_list v ! i) else None)"
  by (auto simp: VectorGetElement_def VectorGetSize_def vector_ok_def vector_list_def list_all_length split: option.splits)

lemma VectorPushBack_ok:
  assumes v: "vector_ok v" and ok: "ok \<or> num_elements v * pointer_size < buffer_size v"
    and room: "num_elements v < num_elements_max"
  shows "\<exists>w. VectorPushBack ok v (Some x) = Some w \<and> vector_ok w \<and> vector_list w = vector_list v @ [x]"
proof (cases "(num_elements v + 1) * pointer_size > buffer_size v")
  case True
  then have ok: ok using ok v by (auto simp: vector_ok_def pointer_size_def split: option.splits)
  show ?thesis
  proof (cases "elements v")
    case None
    then have "num_elements v = 0" using v by (simp add: vector_ok_def)
    then show ?thesis
      using True ok None room by (simp add: VectorPushBack_def vector_ok_def vector_list_def Let_def)
  next
    case (Some buf)
    then have n: "num_elements v = length buf" using v True by (auto simp: vector_ok_def pointer_size_def)
    then show ?thesis
      using True ok Some v room
      by (simp add: VectorPushBack_def vector_ok_def vector_list_def Let_def nth_append list_update_append)
  qed
next
  case False
  then obtain buf where buf: "elements v = Some buf"
    using v by (cases "elements v") (auto simp: vector_ok_def pointer_size_def)
  then have n: "num_elements v < length buf" using v False by (simp add: vector_ok_def pointer_size_def)
  then have t: "take (Suc (num_elements v)) (buf[num_elements v := Some x]) = take (num_elements v) buf @ [Some x]"
    by (simp add: take_Suc_conv_app_nth)
  show ?thesis
    using False buf n t v room by (simp add: VectorPushBack_def vector_ok_def vector_list_def Let_def)
qed

text \<open>A failed allocation on a vector whose buffer is full writes behind the buffer.\<close>

lemma VectorPushBack_overflow:
  assumes "vector_ok v" "elements v = Some buf" "num_elements v = length buf" "length buf < num_elements_max"
  shows "VectorPushBack False v (Some x) = None"
  using assms by (simp add: VectorPushBack_def Let_def)

text \<open>Whatever the allocator does, a push that returns has added the element or nothing.\<close>

lemma VectorPushBack_SomeD:
  assumes v: "vector_ok v" and push: "VectorPushBack ok v (Some x) = Some w"
  shows "vector_ok w" "vector_list w = vector_list v \<or> vector_list w = vector_list v @ [x]"
proof -
  have "w = v \<or> (\<exists>w'. Some w = Some w' \<and> vector_ok w' \<and> vector_list w' = vector_list v @ [x])"
  proof (cases "num_elements v < num_elements_max \<and> (ok \<or> num_elements v * pointer_size < buffer_size v)")
    case True
    then show ?thesis using VectorPushBack_ok [OF v, of ok x] push by simp
  next
    case False
    then show ?thesis using push v
      by (auto simp: VectorPushBack_def Let_def vector_ok_def pointer_size_def split: option.splits if_splits)
  qed
  then show "vector_ok w" "vector_list w = vector_list v \<or> vector_list w = vector_list v @ [x]" using v by auto
qed

lemma shift_left_length [simp]: "length (shift_left buf j n) = length buf"
proof -
  have "length (foldl (\<lambda>b k. b[k := b ! (k + 1)]) buf ks) = length buf" for ks
    by (induction ks arbitrary: buf) auto
  then show ?thesis by (simp add: shift_left_def)
qed

lemma shift_left_take:
  assumes "j < n" "n \<le> length buf"
  shows "take (n - 1) (shift_left buf j n) = take j buf @ drop (Suc j) (take n buf)"
proof -
  have "shift_left buf j (Suc m) ! i = (if j \<le> i \<and> i < m then buf ! Suc i else buf ! i)"
    if "j \<le> m" "m < length buf" "i < length buf" for m i
    using that
  proof (induction m arbitrary: i)
    case 0
    then show ?case by (simp add: shift_left_def)
  next
    case (Suc m)
    show ?case
    proof (cases "j = Suc m")
      case True
      then show ?thesis using Suc.prems by (auto simp: shift_left_def)
    next
      case False
      then have jm: "j \<le> m" using Suc.prems by simp
      let ?b = "shift_left buf j (Suc m)"
      have eq: "shift_left buf j (Suc (Suc m)) = ?b[m := ?b ! Suc m]"
        using jm by (simp add: shift_left_def)
      have "?b ! Suc m = buf ! Suc m" using Suc.IH [of "Suc m"] jm Suc.prems by simp
      then show ?thesis using eq Suc.IH [of i] jm Suc.prems by (auto simp: nth_list_update)
    qed
  qed
  from this [of "n - 1"] have nth: "\<And>i. i < n - 1 \<Longrightarrow> shift_left buf j n ! i = (if j \<le> i then buf ! Suc i else buf ! i)"
    using assms by simp
  show ?thesis
  proof (rule nth_equalityI)
    show "take (n - 1) (shift_left buf j n) ! i = (take j buf @ drop (Suc j) (take n buf)) ! i"
      if "i < length (take (n - 1) (shift_left buf j n))" for i
      using that assms nth [of i] by (auto simp: nth_append)
  qed (use assms in simp)
qed

lemma remove1_split: "i < length xs \<Longrightarrow> \<forall>k < i. xs ! k \<noteq> x \<Longrightarrow> xs ! i = x \<Longrightarrow> remove1 x xs = take i xs @ drop (Suc i) xs"
proof (induction xs arbitrary: i)
  case (Cons y xs)
  show ?case
  proof (cases i)
    case (Suc k)
    then have "y \<noteq> x" "\<forall>l < k. xs ! l \<noteq> x" using Cons.prems(2) by (auto dest: spec [of _ "Suc _"])
    then show ?thesis using Suc Cons.prems Cons.IH [of k] by simp
  qed (use Cons.prems in simp)
qed simp

lemma VectorRemove_list:
  assumes "vector_ok v"
  shows "vector_ok (VectorRemove v (Some x)) \<and> vector_list (VectorRemove v (Some x)) = remove1 x (vector_list v)"
proof (cases "elements v")
  case None
  then show ?thesis using assms by (simp add: VectorRemove_def vector_list_def)
next
  case (Some buf)
  then have v: "num_elements v \<le> length buf" "list_all (\<lambda>x. x \<noteq> None) (take (num_elements v) buf)"
    and l: "vector_list v = map the (take (num_elements v) buf)"
    using assms by (simp_all add: vector_ok_def vector_list_def)
  have same: "buf ! i = Some x \<longleftrightarrow> vector_list v ! i = x" if "i < num_elements v" for i
    using that v l by (auto simp: list_all_length)
  show ?thesis
  proof (cases "List.find (\<lambda>i. buf ! i = Some x) [0..<num_elements v]")
    case None
    then have "x \<notin> set (vector_list v)"
      using same assms by (auto simp: find_None_iff in_set_conv_nth VectorGetSize_def)
    then show ?thesis using Some None assms by (simp add: VectorRemove_def remove1_idem)
  next
    case j: (Some j)
    then have j': "j < num_elements v" "vector_list v ! j = x" "\<forall>k < j. vector_list v ! k \<noteq> x"
      using same by (auto simp: find_Some_iff)
    then have r: "remove1 x (vector_list v) = take j (vector_list v) @ drop (Suc j) (vector_list v)"
      using assms by (intro remove1_split) (simp_all add: VectorGetSize_def)
    have t: "take (num_elements v - 1) (shift_left buf j (num_elements v)) = take j buf @ drop (Suc j) (take (num_elements v) buf)"
      using j' v by (intro shift_left_take) auto
    have "list_all (\<lambda>x. x \<noteq> None) (take j buf @ drop (Suc j) (take (num_elements v) buf))"
      using v(2) j'(1) by (auto simp: list_all_iff dest: in_set_takeD in_set_dropD)
        (metis in_set_takeD min.absorb1 less_imp_le take_take)
    moreover have "shift_left buf j (num_elements v) \<noteq> []"
    proof -
      have "buf \<noteq> []" using Some assms by (simp add: vector_ok_def)
      then show ?thesis using shift_left_length [of buf j "num_elements v"] by force
    qed
    ultimately show ?thesis
      using Some j t r l v assms j'(1)
      by (simp add: VectorRemove_def vector_ok_def vector_list_def take_map drop_map min.absorb1 le_diff_conv)
  qed
qed


section \<open>The interface of a list container\<close>

locale list_container =
  fixes inv :: "'v \<Rightarrow> bool" and items :: "'v \<Rightarrow> 'a list"
    and get_size :: "'v \<Rightarrow> nat" and get :: "'v \<Rightarrow> nat \<Rightarrow> 'a option" and remove :: "'v \<Rightarrow> 'a option \<Rightarrow> 'v"
  assumes size_items: "inv v \<Longrightarrow> get_size v = length (items v)"
    and get_items: "inv v \<Longrightarrow> get v i = (if i < length (items v) then Some (items v ! i) else None)"
    and remove_items: "inv v \<Longrightarrow> inv (remove v (Some x)) \<and> items (remove v (Some x)) = remove1 x (items v)"
begin

text \<open>The search loop over the indices finds the first element that satisfies the condition.\<close>

lemma find_loop:
  assumes "inv v"
  shows "Option.bind (List.find (\<lambda>i. P (the (get v i))) [0..<get_size v]) (get v) = List.find P (items v)"
proof (cases "List.find P (items v)")
  case None
  then have "List.find (\<lambda>i. P (the (get v i))) [0..<get_size v] = None"
    using assms by (auto simp: find_None_iff size_items get_items)
  then show ?thesis using None by simp
next
  case (Some x)
  then obtain j where j: "j < length (items v)" "P (items v ! j)" "x = items v ! j" "\<forall>k < j. \<not> P (items v ! k)"
    by (auto simp: find_Some_iff)
  then have "List.find (\<lambda>i. P (the (get v i))) [0..<get_size v] = Some j"
    using assms by (auto simp: find_Some_iff size_items get_items intro!: exI [of _ j])
  then show ?thesis using j Some assms by (simp add: get_items)
qed

text \<open>Removing what a search found removes the first element that satisfies the condition.\<close>

lemma remove_found:
  assumes "inv v" "List.find P (items v) = Some x"
  shows "items (remove v (Some x)) = takeWhile (\<lambda>y. \<not> P y) (items v) @ tl (dropWhile (\<lambda>y. \<not> P y) (items v))"
proof -
  have "remove1 x xs = takeWhile (\<lambda>y. \<not> P y) xs @ tl (dropWhile (\<lambda>y. \<not> P y) xs)" if "List.find P xs = Some x" for xs
    using that by (induction xs) (auto split: if_splits simp: find_Some_iff)
  then show ?thesis using remove_items [OF assms(1)] assms(2) by simp
qed

lemma length_remove_found:
  assumes "inv v" "List.find P (items v) = Some x"
  shows "length (items (remove v (Some x))) = length (items v) - 1"
  using remove_items [OF assms(1)] assms(2) by (auto simp: length_remove1 find_Some_iff)

end

interpretation vec: list_container vector_ok vector_list VectorGetSize VectorGetElement VectorRemove
  by unfold_locales (simp_all add: VectorGetElement_list VectorRemove_list)

section \<open>Look-up tables\<close>

record ('k, 'v) LutRecord =
  record_key :: 'k
  record_value :: 'v
  record_deleter :: bool

type_synonym 'v StringLut = "(string, 'v) LutRecord Vector"
type_synonym 'v Uint64Lut = "(u64, 'v) LutRecord Vector"

definition StringLutInit :: "'v StringLut" where "StringLutInit = VectorConstruct"

definition StringLutFindRecord :: "'v StringLut \<Rightarrow> string option \<Rightarrow> (string, 'v) LutRecord option" where
  "StringLutFindRecord lut key =
     (case key of
        None \<Rightarrow> None
      | Some k \<Rightarrow>
          Option.bind (List.find (\<lambda>i. record_key (the (VectorGetElement lut i)) = k) [0..<VectorGetSize lut])
            (VectorGetElement lut))"

definition StringLutFind :: "'v StringLut \<Rightarrow> string option \<Rightarrow> 'v option" where
  "StringLutFind lut key = map_option record_value (StringLutFindRecord lut key)"

text \<open>A record without a key or a value is not created; \<open>ok\<close> is the allocation of the vector's buffer.\<close>

definition StringLutInsert ::
    "bool \<Rightarrow> 'v StringLut \<Rightarrow> string option \<Rightarrow> 'v option \<Rightarrow> bool \<Rightarrow> (EebusError \<times> 'v StringLut) option" where
  "StringLutInsert ok lut key v del =
     (case (key, v) of
        (Some k, Some x) \<Rightarrow>
          map_option (Pair kEebusErrorOk)
            (VectorPushBack ok lut (Some \<lparr>record_key = k, record_value = x, record_deleter = del\<rparr>))
      | _ \<Rightarrow> Some (kEebusErrorMemoryAllocate, lut))"

definition StringLutRemove :: "'v StringLut \<Rightarrow> string option \<Rightarrow> EebusError \<times> 'v StringLut" where
  "StringLutRemove lut key =
     (case StringLutFindRecord lut key of
        None \<Rightarrow> (kEebusErrorInputArgument, lut)
      | Some r \<Rightarrow> (kEebusErrorOk, VectorRemove lut (Some r)))"

definition StringLutGetElementValue :: "'v StringLut \<Rightarrow> nat \<Rightarrow> 'v option" where
  "StringLutGetElementValue lut i = map_option record_value (VectorGetElement lut i)"

definition Uint64LutConstruct :: "'v Uint64Lut" where "Uint64LutConstruct = VectorConstruct"

definition Uint64LutFindRecord :: "'v Uint64Lut \<Rightarrow> u64 \<Rightarrow> (u64, 'v) LutRecord option" where
  "Uint64LutFindRecord lut k =
     Option.bind (List.find (\<lambda>i. record_key (the (VectorGetElement lut i)) = k) [0..<VectorGetSize lut])
       (VectorGetElement lut)"

definition Uint64LutFind :: "'v Uint64Lut \<Rightarrow> u64 \<Rightarrow> 'v option" where
  "Uint64LutFind lut k = map_option record_value (Uint64LutFindRecord lut k)"

definition Uint64LutInsert ::
    "bool \<Rightarrow> 'v Uint64Lut \<Rightarrow> u64 \<Rightarrow> 'v option \<Rightarrow> bool \<Rightarrow> (EebusError \<times> 'v Uint64Lut) option" where
  "Uint64LutInsert ok lut k v del =
     (case v of
        None \<Rightarrow> Some (kEebusErrorMemoryAllocate, lut)
      | Some x \<Rightarrow>
          map_option (Pair kEebusErrorOk)
            (VectorPushBack ok lut (Some \<lparr>record_key = k, record_value = x, record_deleter = del\<rparr>)))"

definition Uint64LutRemove :: "'v Uint64Lut \<Rightarrow> u64 \<Rightarrow> EebusError \<times> 'v Uint64Lut" where
  "Uint64LutRemove lut k =
     (case Uint64LutFindRecord lut k of
        None \<Rightarrow> (kEebusErrorInputArgument, lut)
      | Some r \<Rightarrow> (kEebusErrorOk, VectorRemove lut (Some r)))"


text \<open>
  What both tables promise: the first record with a key is found, an insertion goes behind all records,
  a removal takes the first record with the key.
\<close>

locale lookup_table =
  fixes inv :: "'l \<Rightarrow> bool" and records :: "'l \<Rightarrow> ('k, 'v) LutRecord list"
    and find :: "'l \<Rightarrow> 'k \<Rightarrow> 'v option"
    and insert :: "'l \<Rightarrow> 'k \<Rightarrow> 'v \<Rightarrow> bool \<Rightarrow> (EebusError \<times> 'l) option"
    and remove :: "'l \<Rightarrow> 'k \<Rightarrow> EebusError \<times> 'l"
  assumes find_records: "inv l \<Longrightarrow> find l k = map_option record_value (List.find (\<lambda>r. record_key r = k) (records l))"
    and insert_records: "inv l \<Longrightarrow> length (records l) < num_elements_max \<Longrightarrow>
      \<exists>l'. insert l k x d = Some (kEebusErrorOk, l') \<and> inv l' \<and>
        records l' = records l @ [\<lparr>record_key = k, record_value = x, record_deleter = d\<rparr>]"
    and remove_records: "inv l \<Longrightarrow> List.find (\<lambda>r. record_key r = k) (records l) = Some r \<Longrightarrow>
      \<exists>l'. remove l k = (kEebusErrorOk, l') \<and> inv l' \<and> records l' = remove1 r (records l)"
    and remove_absent: "inv l \<Longrightarrow> List.find (\<lambda>r. record_key r = k) (records l) = None \<Longrightarrow>
      remove l k = (kEebusErrorInputArgument, l)"
begin

text \<open>An insertion does not replace: a key that is present keeps its value.\<close>

lemma find_after_insert:
  assumes "inv l" "length (records l) < num_elements_max"
  shows "\<exists>l'. insert l k x d = Some (kEebusErrorOk, l') \<and> inv l' \<and>
    (\<forall>k'. find l' k' = (if k' = k \<and> find l k = None then Some x else find l k'))"
proof -
  obtain l' where l': "insert l k x d = Some (kEebusErrorOk, l')" "inv l'"
    "records l' = records l @ [\<lparr>record_key = k, record_value = x, record_deleter = d\<rparr>]"
    using insert_records [OF assms] by blast
  then have "find l' k' = (if k' = k \<and> find l k = None then Some x else find l k')" for k'
    using assms(1) by (auto simp: find_records find_append split: option.splits)
  then show ?thesis using l' by blast
qed

text \<open>A removal takes away one record, so a key that was inserted once is gone.\<close>

lemma find_remove1:
  assumes "distinct (map record_key rs)" "List.find (\<lambda>r. record_key r = k) rs = Some r"
  shows "List.find (\<lambda>r. record_key r = k') (remove1 r rs) = (if k' = k then None else List.find (\<lambda>r. record_key r = k') rs)"
  using assms
proof (induction rs)
  case (Cons q rs)
  show ?case
  proof (cases "record_key q = k")
    case True
    then have "r = q" "k \<notin> record_key ` set rs" using Cons.prems by auto
    then show ?thesis using True by (auto simp: find_None_iff image_iff)
  next
    case False
    then have f: "List.find (\<lambda>r. record_key r = k) rs = Some r" using Cons.prems(2) by simp
    then have "record_key r = k" by (auto simp: find_Some_iff)
    then show ?thesis using False f Cons.prems(1) Cons.IH by auto
  qed
qed simp

lemma find_after_remove:
  assumes "inv l" "distinct (map record_key (records l))"
  shows "find (snd (remove l k)) k' = (if k' = k then None else find l k')"
proof (cases "List.find (\<lambda>r. record_key r = k) (records l)")
  case None
  then show ?thesis using remove_absent [OF assms(1) None] assms(1) by (auto simp: find_records)
next
  case (Some r)
  then obtain l' where l': "remove l k = (kEebusErrorOk, l')" "inv l'" "records l' = remove1 r (records l)"
    using remove_records [OF assms(1)] by blast
  then show ?thesis using find_remove1 [OF assms(2) Some] assms(1) by (simp add: find_records)
qed

end

lemma find_record_list:
  "vector_ok v \<Longrightarrow>
   Option.bind (List.find (\<lambda>i. record_key (the (VectorGetElement v i)) = k) [0..<VectorGetSize v]) (VectorGetElement v) =
   List.find (\<lambda>r. record_key r = k) (vector_list v)"
  by (rule vec.find_loop)

interpretation string_lut: lookup_table vector_ok vector_list "\<lambda>l k. StringLutFind l (Some k)"
  "\<lambda>l k x. StringLutInsert True l (Some k) (Some x)" "\<lambda>l k. StringLutRemove l (Some k)"
proof (unfold_locales, goal_cases)
  case (2 l k x d)
  then show ?case
    using VectorPushBack_ok [of l True] by (fastforce simp: StringLutInsert_def VectorGetSize_def)
qed (simp_all add: StringLutFind_def StringLutFindRecord_def StringLutRemove_def find_record_list VectorRemove_list)

interpretation uint64_lut: lookup_table vector_ok vector_list Uint64LutFind
  "\<lambda>l k x. Uint64LutInsert True l k (Some x)" Uint64LutRemove
proof (unfold_locales, goal_cases)
  case (2 l k x d)
  then show ?case
    using VectorPushBack_ok [of l True] by (fastforce simp: Uint64LutInsert_def VectorGetSize_def)
qed (simp_all add: Uint64LutFind_def Uint64LutFindRecord_def Uint64LutRemove_def find_record_list VectorRemove_list)

section \<open>Lists of data pointers\<close>

text \<open>
  The array and the size variable of a list; the array is the list of its slots, and \<open>None\<close> the null
  pointer. Sizes are words: decrementing 0 wraps around.
\<close>

definition EebusDataListDataAppend :: "'a list option \<Rightarrow> u64 \<Rightarrow> 'a option \<Rightarrow> EebusError \<times> 'a list option \<times> u64" where
  "EebusDataListDataAppend ar ar_size el =
     (case el of
        None \<Rightarrow> (kEebusErrorInputArgumentNull, ar, ar_size)
      | Some x \<Rightarrow> (kEebusErrorOk, Some ((case ar of None \<Rightarrow> [] | Some xs \<Rightarrow> take (unat ar_size) xs) @ [x]), ar_size + 1))"

definition EebusDataListDataRemove :: "'a list option \<Rightarrow> u64 \<Rightarrow> 'a option \<Rightarrow> EebusError \<times> 'a list option \<times> u64" where
  "EebusDataListDataRemove ar ar_size el =
     (case el of
        None \<Rightarrow> (kEebusErrorInputArgumentNull, ar, ar_size)
      | Some x \<Rightarrow>
          let rest = filter (\<lambda>y. y \<noteq> x) (case ar of None \<Rightarrow> [] | Some xs \<Rightarrow> take (unat ar_size) xs)
          in (kEebusErrorOk, if rest = [] then None else Some rest, ar_size - 1))"

definition EebusDataListDataAppendList ::
    "'a list option \<Rightarrow> u64 \<Rightarrow> 'a list option \<Rightarrow> EebusError \<times> 'a list option \<times> u64" where
  "EebusDataListDataAppendList ar ar_size els =
     (case els of
        Some (x # xs) \<Rightarrow>
          (kEebusErrorOk, Some ((case ar of None \<Rightarrow> [] | Some ys \<Rightarrow> take (unat ar_size) ys) @ x # xs),
           ar_size + of_nat (Suc (length xs)))
      | _ \<Rightarrow> (kEebusErrorInputArgumentNull, ar, ar_size))"


section \<open>Properties\<close>

datatype 'a vector_op = PushBack 'a | Remove 'a

fun vector_run :: "'a Vector \<Rightarrow> 'a vector_op list \<Rightarrow> 'a Vector option" where
  "vector_run v [] = Some v"
| "vector_run v (PushBack x # ops) = Option.bind (VectorPushBack True v (Some x)) (\<lambda>w. vector_run w ops)"
| "vector_run v (Remove x # ops) = vector_run (VectorRemove v (Some x)) ops"

fun list_run :: "'a list \<Rightarrow> 'a vector_op list \<Rightarrow> 'a list" where
  "list_run xs [] = xs"
| "list_run xs (PushBack x # ops) = list_run (xs @ [x]) ops"
| "list_run xs (Remove x # ops) = list_run (remove1 x xs) ops"

lemma vector_run_list:
  assumes "vector_ok v" "VectorGetSize v + length ops < num_elements_max"
  shows "\<exists>w. vector_run v ops = Some w \<and> vector_ok w \<and> vector_list w = list_run (vector_list v) ops"
  using assms
proof (induction ops arbitrary: v)
  case (Cons op ops)
  show ?case
  proof (cases op)
    case (PushBack x)
    obtain w where w: "VectorPushBack True v (Some x) = Some w" "vector_ok w" "vector_list w = vector_list v @ [x]"
      using VectorPushBack_ok [OF Cons.prems(1), of True x] Cons.prems(2) by (auto simp: VectorGetSize_def)
    then have "VectorGetSize w = VectorGetSize v + 1"
      using vector_length [OF w(2)] vector_length [OF Cons.prems(1)] by simp
    then show ?thesis using PushBack w Cons.IH [OF w(2)] Cons.prems(2) by simp
  next
    case (Remove x)
    note w = VectorRemove_list [OF Cons.prems(1), of x]
    then have "VectorGetSize (VectorRemove v (Some x)) \<le> VectorGetSize v"
      using vector_length [of "VectorRemove v (Some x)"] vector_length [OF Cons.prems(1)]
      by (auto simp: length_remove1 split: if_splits)
    then show ?thesis using Remove w Cons.IH [of "VectorRemove v (Some x)"] Cons.prems(2) by simp
  qed
qed simp

text \<open>
  Any sequence of insertions and removals on a new vector, as long as allocations succeed, stays inside
  the buffer and leaves the list that appending and removing the first occurrence give; sizes and
  elements read through the interface are those of the list.
\<close>

theorem vector_refines_list:
  fixes ops :: "'a vector_op list"
  assumes "length ops < num_elements_max"
  shows "\<exists>v. vector_run VectorConstruct ops = Some v \<and> VectorGetSize v = length (list_run [] ops) \<and>
    (\<forall>i. VectorGetElement v i = (if i < length (list_run [] ops) then Some (list_run [] ops ! i) else None))"
proof -
  have "VectorGetSize (VectorConstruct :: 'a Vector) + length ops < num_elements_max"
    using assms by (simp add: VectorGetSize_def VectorConstruct_def)
  then obtain v where "vector_run VectorConstruct ops = Some v" "vector_ok v" "vector_list v = list_run [] ops"
    using vector_run_list [OF VectorConstruct_ok, of ops] unfolding VectorConstruct_list by blast
  then show ?thesis using vec.size_items vec.get_items by metis
qed

lemma vector_refines_list_witness:
  "\<exists>v. vector_run VectorConstruct [PushBack 1, PushBack 2, PushBack 1, Remove (1::nat)] = Some v \<and>
    VectorGetSize v = 2 \<and> VectorGetElement v 0 = Some 2 \<and> VectorGetElement v 1 = Some 1"
  using vector_refines_list [of "[PushBack 1, PushBack 2, PushBack 1, Remove (1::nat)]"]
  by (auto simp: num_elements_max_def pointer_size_def)

text \<open>
  When the allocation of a larger buffer fails, inserting into a vector that has a full buffer writes
  the element behind the buffer: only the first insertion, into a vector without a buffer, is safe.
\<close>

lemma push_back_after_failed_allocation:
  assumes "vector_ok v" "VectorGetSize v * pointer_size = buffer_size v" "VectorGetSize v < num_elements_max"
  shows "VectorPushBack False v (Some x) = (if VectorGetSize v = 0 then Some v else None)"
proof (cases "elements v")
  case None
  then have "num_elements v = 0" using assms(1) by (simp add: vector_ok_def)
  then show ?thesis using None assms(3) by (simp add: VectorPushBack_def VectorGetSize_def Let_def)
next
  case (Some buf)
  then have n: "num_elements v = length buf"
    using assms(1,2) by (simp add: vector_ok_def VectorGetSize_def pointer_size_def)
  then show ?thesis
    using VectorPushBack_overflow [OF assms(1) Some n] assms(1,3) Some by (auto simp: VectorGetSize_def vector_ok_def)
qed

lemma push_back_after_failed_allocation_witness:
  "VectorPushBack False \<lparr>elements = Some [Some (1::nat)], num_elements = 1, buffer_size = 8\<rparr> (Some 2) = None"
  using push_back_after_failed_allocation [of "\<lparr>elements = Some [Some (1::nat)], num_elements = 1, buffer_size = 8\<rparr>" 2]
  by (simp add: vector_ok_def VectorGetSize_def pointer_size_def num_elements_max_def)

text \<open>
  A look-up table with string keys: an insertion succeeds and is found under its key unless the key was
  present, which then keeps its old value; all other keys are as before.
\<close>

lemma string_lut_insert_find:
  assumes "vector_ok lut" "VectorGetSize lut < num_elements_max"
  shows "\<exists>lut'. StringLutInsert True lut (Some k) (Some x) d = Some (kEebusErrorOk, lut') \<and>
    (\<forall>k'. StringLutFind lut' (Some k') =
      (if k' = k \<and> StringLutFind lut (Some k) = None then Some x else StringLutFind lut (Some k')))"
  using string_lut.find_after_insert [OF assms(1), of k x d] assms vector_length by fastforce

lemma string_lut_insert_find_witness:
  "\<exists>lut. StringLutInsert True StringLutInit (Some ''a'') (Some (1::nat)) False = Some (kEebusErrorOk, lut) \<and>
    StringLutFind lut (Some ''a'') = Some 1"
proof -
  have "vector_ok (StringLutInit :: nat StringLut)" "VectorGetSize (StringLutInit :: nat StringLut) < num_elements_max"
    "StringLutFind (StringLutInit :: nat StringLut) (Some ''a'') = None"
    by (simp_all add: StringLutInit_def VectorConstruct_def vector_ok_def VectorGetSize_def num_elements_max_def
        pointer_size_def StringLutFind_def StringLutFindRecord_def)
  then show ?thesis using string_lut_insert_find [of "StringLutInit :: nat StringLut" "''a''" 1 False] by auto
qed

end
