(* ===== verification/Spine_Types.thy ===== *)
theory Spine_Types
  imports Eebus_Prelude
begin

text \<open>
  The numbers of function types and feature types (\<^verbatim>\<open>spine/model/function_types.h\<close>, \<^verbatim>\<open>feature_types.h\<close>) and the
  functions of each feature type (\<^verbatim>\<open>spine/feature/feature_functions.c\<close>).
\<close>

section \<open>Function types\<close>

definition kFunctionTypeActuatorLevelData :: nat where "kFunctionTypeActuatorLevelData = 0"
definition kFunctionTypeActuatorLevelDescriptionData :: nat where "kFunctionTypeActuatorLevelDescriptionData = 1"
definition kFunctionTypeActuatorSwitchData :: nat where "kFunctionTypeActuatorSwitchData = 2"
definition kFunctionTypeActuatorSwitchDescriptionData :: nat where "kFunctionTypeActuatorSwitchDescriptionData = 3"
definition kFunctionTypeAlarmListData :: nat where "kFunctionTypeAlarmListData = 4"
definition kFunctionTypeBillConstraintsListData :: nat where "kFunctionTypeBillConstraintsListData = 5"
definition kFunctionTypeBillDescriptionListData :: nat where "kFunctionTypeBillDescriptionListData = 6"
definition kFunctionTypeBillListData :: nat where "kFunctionTypeBillListData = 7"
definition kFunctionTypeBindingManagementDeleteCall :: nat where "kFunctionTypeBindingManagementDeleteCall = 8"
definition kFunctionTypeBindingManagementEntryListData :: nat where "kFunctionTypeBindingManagementEntryListData = 9"
definition kFunctionTypeBindingManagementRequestCall :: nat where "kFunctionTypeBindingManagementRequestCall = 10"
definition kFunctionTypeCommodityListData :: nat where "kFunctionTypeCommodityListData = 11"
definition kFunctionTypeDataTunnelingCall :: nat where "kFunctionTypeDataTunnelingCall = 12"
definition kFunctionTypeDeviceClassificationManufacturerData :: nat where "kFunctionTypeDeviceClassificationManufacturerData = 13"
definition kFunctionTypeDeviceClassificationUserData :: nat where "kFunctionTypeDeviceClassificationUserData = 14"
definition kFunctionTypeDeviceConfigurationKeyValueConstraintsListData :: nat where "kFunctionTypeDeviceConfigurationKeyValueConstraintsListData = 15"
definition kFunctionTypeDeviceConfigurationKeyValueDescriptionListData :: nat where "kFunctionTypeDeviceConfigurationKeyValueDescriptionListData = 16"
definition kFunctionTypeDeviceConfigurationKeyValueListData :: nat where "kFunctionTypeDeviceConfigurationKeyValueListData = 17"
definition kFunctionTypeDeviceDiagnosisHeartbeatData :: nat where "kFunctionTypeDeviceDiagnosisHeartbeatData = 18"
definition kFunctionTypeDeviceDiagnosisServiceData :: nat where "kFunctionTypeDeviceDiagnosisServiceData = 19"
definition kFunctionTypeDeviceDiagnosisStateData :: nat where "kFunctionTypeDeviceDiagnosisStateData = 20"
definition kFunctionTypeDirectControlActivityListData :: nat where "kFunctionTypeDirectControlActivityListData = 21"
definition kFunctionTypeDirectControlDescriptionData :: nat where "kFunctionTypeDirectControlDescriptionData = 22"
definition kFunctionTypeElectricalConnectionCharacteristicData :: nat where "kFunctionTypeElectricalConnectionCharacteristicData = 23"
definition kFunctionTypeElectricalConnectionCharacteristicListData :: nat where "kFunctionTypeElectricalConnectionCharacteristicListData = 24"
definition kFunctionTypeElectricalConnectionDescriptionListData :: nat where "kFunctionTypeElectricalConnectionDescriptionListData = 25"
definition kFunctionTypeElectricalConnectionParameterDescriptionListData :: nat where "kFunctionTypeElectricalConnectionParameterDescriptionListData = 26"
definition kFunctionTypeElectricalConnectionPermittedValueSetListData :: nat where "kFunctionTypeElectricalConnectionPermittedValueSetListData = 27"
definition kFunctionTypeElectricalConnectionStateListData :: nat where "kFunctionTypeElectricalConnectionStateListData = 28"
definition kFunctionTypeHvacOperationModeDescriptionListData :: nat where "kFunctionTypeHvacOperationModeDescriptionListData = 29"
definition kFunctionTypeHvacOverrunDescriptionListData :: nat where "kFunctionTypeHvacOverrunDescriptionListData = 30"
definition kFunctionTypeHvacOverrunListData :: nat where "kFunctionTypeHvacOverrunListData = 31"
definition kFunctionTypeHvacSystemFunctionDescriptionListData :: nat where "kFunctionTypeHvacSystemFunctionDescriptionListData = 32"
definition kFunctionTypeHvacSystemFunctionListData :: nat where "kFunctionTypeHvacSystemFunctionListData = 33"
definition kFunctionTypeHvacSystemFunctionOperationModeRelationListData :: nat where "kFunctionTypeHvacSystemFunctionOperationModeRelationListData = 34"
definition kFunctionTypeHvacSystemFunctionPowerSequenceRelationListData :: nat where "kFunctionTypeHvacSystemFunctionPowerSequenceRelationListData = 35"
definition kFunctionTypeHvacSystemFunctionSetpointRelationListData :: nat where "kFunctionTypeHvacSystemFunctionSetpointRelationListData = 36"
definition kFunctionTypeIdentificationListData :: nat where "kFunctionTypeIdentificationListData = 37"
definition kFunctionTypeIncentiveDescriptionListData :: nat where "kFunctionTypeIncentiveDescriptionListData = 38"
definition kFunctionTypeIncentiveListData :: nat where "kFunctionTypeIncentiveListData = 39"
definition kFunctionTypeIncentiveTableConstraintsData :: nat where "kFunctionTypeIncentiveTableConstraintsData = 40"
definition kFunctionTypeIncentiveTableData :: nat where "kFunctionTypeIncentiveTableData = 41"
definition kFunctionTypeIncentiveTableDescriptionData :: nat where "kFunctionTypeIncentiveTableDescriptionData = 42"
definition kFunctionTypeLoadControlEventListData :: nat where "kFunctionTypeLoadControlEventListData = 43"
definition kFunctionTypeLoadControlLimitConstraintsListData :: nat where "kFunctionTypeLoadControlLimitConstraintsListData = 44"
definition kFunctionTypeLoadControlLimitDescriptionListData :: nat where "kFunctionTypeLoadControlLimitDescriptionListData = 45"
definition kFunctionTypeLoadControlLimitListData :: nat where "kFunctionTypeLoadControlLimitListData = 46"
definition kFunctionTypeLoadControlNodeData :: nat where "kFunctionTypeLoadControlNodeData = 47"
definition kFunctionTypeLoadControlStateListData :: nat where "kFunctionTypeLoadControlStateListData = 48"
definition kFunctionTypeMeasurementConstraintsListData :: nat where "kFunctionTypeMeasurementConstraintsListData = 49"
definition kFunctionTypeMeasurementDescriptionListData :: nat where "kFunctionTypeMeasurementDescriptionListData = 50"
definition kFunctionTypeMeasurementListData :: nat where "kFunctionTypeMeasurementListData = 51"
definition kFunctionTypeMeasurementSeriesListData :: nat where "kFunctionTypeMeasurementSeriesListData = 52"
definition kFunctionTypeMeasurementThresholdRelationListData :: nat where "kFunctionTypeMeasurementThresholdRelationListData = 53"
definition kFunctionTypeMessagingListData :: nat where "kFunctionTypeMessagingListData = 54"
definition kFunctionTypeNetworkManagementAbortCall :: nat where "kFunctionTypeNetworkManagementAbortCall = 55"
definition kFunctionTypeNetworkManagementAddNodeCall :: nat where "kFunctionTypeNetworkManagementAddNodeCall = 56"
definition kFunctionTypeNetworkManagementDeviceDescriptionListData :: nat where "kFunctionTypeNetworkManagementDeviceDescriptionListData = 57"
definition kFunctionTypeNetworkManagementDiscoverCall :: nat where "kFunctionTypeNetworkManagementDiscoverCall = 58"
definition kFunctionTypeNetworkManagementEntityDescriptionListData :: nat where "kFunctionTypeNetworkManagementEntityDescriptionListData = 59"
definition kFunctionTypeNetworkManagementFeatureDescriptionListData :: nat where "kFunctionTypeNetworkManagementFeatureDescriptionListData = 60"
definition kFunctionTypeNetworkManagementJoiningModeData :: nat where "kFunctionTypeNetworkManagementJoiningModeData = 61"
definition kFunctionTypeNetworkManagementModifyNodeCall :: nat where "kFunctionTypeNetworkManagementModifyNodeCall = 62"
definition kFunctionTypeNetworkManagementProcessStateData :: nat where "kFunctionTypeNetworkManagementProcessStateData = 63"
definition kFunctionTypeNetworkManagementRemoveNodeCall :: nat where "kFunctionTypeNetworkManagementRemoveNodeCall = 64"
definition kFunctionTypeNetworkManagementReportCandidateData :: nat where "kFunctionTypeNetworkManagementReportCandidateData = 65"
definition kFunctionTypeNetworkManagementScanNetworkCall :: nat where "kFunctionTypeNetworkManagementScanNetworkCall = 66"
definition kFunctionTypeNodeManagementBindingData :: nat where "kFunctionTypeNodeManagementBindingData = 67"
definition kFunctionTypeNodeManagementBindingDeleteCall :: nat where "kFunctionTypeNodeManagementBindingDeleteCall = 68"
definition kFunctionTypeNodeManagementBindingRequestCall :: nat where "kFunctionTypeNodeManagementBindingRequestCall = 69"
definition kFunctionTypeNodeManagementDestinationListData :: nat where "kFunctionTypeNodeManagementDestinationListData = 70"
definition kFunctionTypeNodeManagementDetailedDiscoveryData :: nat where "kFunctionTypeNodeManagementDetailedDiscoveryData = 71"
definition kFunctionTypeNodeManagementSubscriptionData :: nat where "kFunctionTypeNodeManagementSubscriptionData = 72"
definition kFunctionTypeNodeManagementSubscriptionDeleteCall :: nat where "kFunctionTypeNodeManagementSubscriptionDeleteCall = 73"
definition kFunctionTypeNodeManagementSubscriptionRequestCall :: nat where "kFunctionTypeNodeManagementSubscriptionRequestCall = 74"
definition kFunctionTypeNodeManagementUseCaseData :: nat where "kFunctionTypeNodeManagementUseCaseData = 75"
definition kFunctionTypeOperatingConstraintsDurationListData :: nat where "kFunctionTypeOperatingConstraintsDurationListData = 76"
definition kFunctionTypeOperatingConstraintsInterruptListData :: nat where "kFunctionTypeOperatingConstraintsInterruptListData = 77"
definition kFunctionTypeOperatingConstraintsPowerDescriptionListData :: nat where "kFunctionTypeOperatingConstraintsPowerDescriptionListData = 78"
definition kFunctionTypeOperatingConstraintsPowerLevelListData :: nat where "kFunctionTypeOperatingConstraintsPowerLevelListData = 79"
definition kFunctionTypeOperatingConstraintsPowerRangeListData :: nat where "kFunctionTypeOperatingConstraintsPowerRangeListData = 80"
definition kFunctionTypeOperatingConstraintsResumeImplicationListData :: nat where "kFunctionTypeOperatingConstraintsResumeImplicationListData = 81"
definition kFunctionTypePowerSequenceAlternativesRelationListData :: nat where "kFunctionTypePowerSequenceAlternativesRelationListData = 82"
definition kFunctionTypePowerSequenceDescriptionListData :: nat where "kFunctionTypePowerSequenceDescriptionListData = 83"
definition kFunctionTypePowerSequenceNodeScheduleInformationData :: nat where "kFunctionTypePowerSequenceNodeScheduleInformationData = 84"
definition kFunctionTypePowerSequencePriceCalculationRequestCall :: nat where "kFunctionTypePowerSequencePriceCalculationRequestCall = 85"
definition kFunctionTypePowerSequencePriceListData :: nat where "kFunctionTypePowerSequencePriceListData = 86"
definition kFunctionTypePowerSequenceScheduleConfigurationRequestCall :: nat where "kFunctionTypePowerSequenceScheduleConfigurationRequestCall = 87"
definition kFunctionTypePowerSequenceScheduleConstraintsListData :: nat where "kFunctionTypePowerSequenceScheduleConstraintsListData = 88"
definition kFunctionTypePowerSequenceScheduleListData :: nat where "kFunctionTypePowerSequenceScheduleListData = 89"
definition kFunctionTypePowerSequenceSchedulePreferenceListData :: nat where "kFunctionTypePowerSequenceSchedulePreferenceListData = 90"
definition kFunctionTypePowerSequenceStateListData :: nat where "kFunctionTypePowerSequenceStateListData = 91"
definition kFunctionTypePowerTimeSlotScheduleConstraintsListData :: nat where "kFunctionTypePowerTimeSlotScheduleConstraintsListData = 92"
definition kFunctionTypePowerTimeSlotScheduleListData :: nat where "kFunctionTypePowerTimeSlotScheduleListData = 93"
definition kFunctionTypePowerTimeSlotValueListData :: nat where "kFunctionTypePowerTimeSlotValueListData = 94"
definition kFunctionTypeResultData :: nat where "kFunctionTypeResultData = 95"
definition kFunctionTypeSensingDescriptionData :: nat where "kFunctionTypeSensingDescriptionData = 96"
definition kFunctionTypeSensingListData :: nat where "kFunctionTypeSensingListData = 97"
definition kFunctionTypeSessionIdentificationListData :: nat where "kFunctionTypeSessionIdentificationListData = 98"
definition kFunctionTypeSessionMeasurementRelationListData :: nat where "kFunctionTypeSessionMeasurementRelationListData = 99"
definition kFunctionTypeSetpointConstraintsListData :: nat where "kFunctionTypeSetpointConstraintsListData = 100"
definition kFunctionTypeSetpointDescriptionListData :: nat where "kFunctionTypeSetpointDescriptionListData = 101"
definition kFunctionTypeSetpointListData :: nat where "kFunctionTypeSetpointListData = 102"
definition kFunctionTypeSmartEnergyManagementPsConfigurationRequestCall :: nat where "kFunctionTypeSmartEnergyManagementPsConfigurationRequestCall = 103"
definition kFunctionTypeSmartEnergyManagementPsData :: nat where "kFunctionTypeSmartEnergyManagementPsData = 104"
definition kFunctionTypeSmartEnergyManagementPsPriceCalculationRequestCall :: nat where "kFunctionTypeSmartEnergyManagementPsPriceCalculationRequestCall = 105"
definition kFunctionTypeSmartEnergyManagementPsPriceData :: nat where "kFunctionTypeSmartEnergyManagementPsPriceData = 106"
definition kFunctionTypeSpecificationVersionListData :: nat where "kFunctionTypeSpecificationVersionListData = 107"
definition kFunctionTypeStateInformationListData :: nat where "kFunctionTypeStateInformationListData = 108"
definition kFunctionTypeSubscriptionManagementDeleteCall :: nat where "kFunctionTypeSubscriptionManagementDeleteCall = 109"
definition kFunctionTypeSubscriptionManagementEntryListData :: nat where "kFunctionTypeSubscriptionManagementEntryListData = 110"
definition kFunctionTypeSubscriptionManagementRequestCall :: nat where "kFunctionTypeSubscriptionManagementRequestCall = 111"
definition kFunctionTypeSupplyConditionDescriptionListData :: nat where "kFunctionTypeSupplyConditionDescriptionListData = 112"
definition kFunctionTypeSupplyConditionListData :: nat where "kFunctionTypeSupplyConditionListData = 113"
definition kFunctionTypeSupplyConditionThresholdRelationListData :: nat where "kFunctionTypeSupplyConditionThresholdRelationListData = 114"
definition kFunctionTypeTariffBoundaryRelationListData :: nat where "kFunctionTypeTariffBoundaryRelationListData = 115"
definition kFunctionTypeTariffDescriptionListData :: nat where "kFunctionTypeTariffDescriptionListData = 116"
definition kFunctionTypeTariffListData :: nat where "kFunctionTypeTariffListData = 117"
definition kFunctionTypeTariffOverallConstraintsData :: nat where "kFunctionTypeTariffOverallConstraintsData = 118"
definition kFunctionTypeTariffTierRelationListData :: nat where "kFunctionTypeTariffTierRelationListData = 119"
definition kFunctionTypeTaskManagementJobDescriptionListData :: nat where "kFunctionTypeTaskManagementJobDescriptionListData = 120"
definition kFunctionTypeTaskManagementJobListData :: nat where "kFunctionTypeTaskManagementJobListData = 121"
definition kFunctionTypeTaskManagementJobRelationListData :: nat where "kFunctionTypeTaskManagementJobRelationListData = 122"
definition kFunctionTypeTaskManagementOverviewData :: nat where "kFunctionTypeTaskManagementOverviewData = 123"
definition kFunctionTypeThresholdConstraintsListData :: nat where "kFunctionTypeThresholdConstraintsListData = 124"
definition kFunctionTypeThresholdDescriptionListData :: nat where "kFunctionTypeThresholdDescriptionListData = 125"
definition kFunctionTypeThresholdListData :: nat where "kFunctionTypeThresholdListData = 126"
definition kFunctionTypeTierBoundaryDescriptionListData :: nat where "kFunctionTypeTierBoundaryDescriptionListData = 127"
definition kFunctionTypeTierBoundaryListData :: nat where "kFunctionTypeTierBoundaryListData = 128"
definition kFunctionTypeTierDescriptionListData :: nat where "kFunctionTypeTierDescriptionListData = 129"
definition kFunctionTypeTierIncentiveRelationListData :: nat where "kFunctionTypeTierIncentiveRelationListData = 130"
definition kFunctionTypeTierListData :: nat where "kFunctionTypeTierListData = 131"
definition kFunctionTypeTimeDistributorData :: nat where "kFunctionTypeTimeDistributorData = 132"
definition kFunctionTypeTimeDistributorEnquiryCall :: nat where "kFunctionTypeTimeDistributorEnquiryCall = 133"
definition kFunctionTypeTimeInformationData :: nat where "kFunctionTypeTimeInformationData = 134"
definition kFunctionTypeTimePrecisionData :: nat where "kFunctionTypeTimePrecisionData = 135"
definition kFunctionTypeTimeSeriesConstraintsListData :: nat where "kFunctionTypeTimeSeriesConstraintsListData = 136"
definition kFunctionTypeTimeSeriesDescriptionListData :: nat where "kFunctionTypeTimeSeriesDescriptionListData = 137"
definition kFunctionTypeTimeSeriesListData :: nat where "kFunctionTypeTimeSeriesListData = 138"
definition kFunctionTypeTimeTableConstraintsListData :: nat where "kFunctionTypeTimeTableConstraintsListData = 139"
definition kFunctionTypeTimeTableDescriptionListData :: nat where "kFunctionTypeTimeTableDescriptionListData = 140"
definition kFunctionTypeTimeTableListData :: nat where "kFunctionTypeTimeTableListData = 141"
definition kFunctionTypeUseCaseInformationListData :: nat where "kFunctionTypeUseCaseInformationListData = 142"
definition kFunctionTypeNum :: nat where "kFunctionTypeNum = 143"

section \<open>Feature types\<close>

definition kFeatureTypeTypeActuatorLevel :: nat where "kFeatureTypeTypeActuatorLevel = 0"
definition kFeatureTypeTypeActuatorSwitch :: nat where "kFeatureTypeTypeActuatorSwitch = 1"
definition kFeatureTypeTypeAlarm :: nat where "kFeatureTypeTypeAlarm = 2"
definition kFeatureTypeTypeDataTunneling :: nat where "kFeatureTypeTypeDataTunneling = 3"
definition kFeatureTypeTypeDeviceClassification :: nat where "kFeatureTypeTypeDeviceClassification = 4"
definition kFeatureTypeTypeDeviceDiagnosis :: nat where "kFeatureTypeTypeDeviceDiagnosis = 5"
definition kFeatureTypeTypeDirectControl :: nat where "kFeatureTypeTypeDirectControl = 6"
definition kFeatureTypeTypeElectricalConnection :: nat where "kFeatureTypeTypeElectricalConnection = 7"
definition kFeatureTypeTypeGeneric :: nat where "kFeatureTypeTypeGeneric = 8"
definition kFeatureTypeTypeHvac :: nat where "kFeatureTypeTypeHvac = 9"
definition kFeatureTypeTypeLoadControl :: nat where "kFeatureTypeTypeLoadControl = 10"
definition kFeatureTypeTypeMeasurement :: nat where "kFeatureTypeTypeMeasurement = 11"
definition kFeatureTypeTypeMessaging :: nat where "kFeatureTypeTypeMessaging = 12"
definition kFeatureTypeTypeNetworkManagement :: nat where "kFeatureTypeTypeNetworkManagement = 13"
definition kFeatureTypeTypeNodeManagement :: nat where "kFeatureTypeTypeNodeManagement = 14"
definition kFeatureTypeTypeOperatingConstraints :: nat where "kFeatureTypeTypeOperatingConstraints = 15"
definition kFeatureTypeTypePowerSequences :: nat where "kFeatureTypeTypePowerSequences = 16"
definition kFeatureTypeTypeSensing :: nat where "kFeatureTypeTypeSensing = 17"
definition kFeatureTypeTypeSetpoint :: nat where "kFeatureTypeTypeSetpoint = 18"
definition kFeatureTypeTypeSmartEnergyManagementPs :: nat where "kFeatureTypeTypeSmartEnergyManagementPs = 19"
definition kFeatureTypeTypeTaskManagement :: nat where "kFeatureTypeTypeTaskManagement = 20"
definition kFeatureTypeTypeThreshold :: nat where "kFeatureTypeTypeThreshold = 21"
definition kFeatureTypeTypeTimeInformation :: nat where "kFeatureTypeTypeTimeInformation = 22"
definition kFeatureTypeTypeTimeTable :: nat where "kFeatureTypeTypeTimeTable = 23"
definition kFeatureTypeTypeDeviceConfiguration :: nat where "kFeatureTypeTypeDeviceConfiguration = 24"
definition kFeatureTypeTypeSupplyCondition :: nat where "kFeatureTypeTypeSupplyCondition = 25"
definition kFeatureTypeTypeTimeSeries :: nat where "kFeatureTypeTypeTimeSeries = 26"
definition kFeatureTypeTypeTariffInformation :: nat where "kFeatureTypeTypeTariffInformation = 27"
definition kFeatureTypeTypeIncentiveTable :: nat where "kFeatureTypeTypeIncentiveTable = 28"
definition kFeatureTypeTypeBill :: nat where "kFeatureTypeTypeBill = 29"
definition kFeatureTypeTypeIdentification :: nat where "kFeatureTypeTypeIdentification = 30"
definition kFeatureTypeTypeStateInformation :: nat where "kFeatureTypeTypeStateInformation = 31"

section \<open>The functions of a feature\<close>

definition actuator_level_functions :: "nat list" where
  "actuator_level_functions =
     [kFunctionTypeActuatorLevelData, kFunctionTypeActuatorLevelDescriptionData]"

definition actuator_switch_functions :: "nat list" where
  "actuator_switch_functions =
     [kFunctionTypeActuatorSwitchData, kFunctionTypeActuatorSwitchDescriptionData]"

definition alarm_functions :: "nat list" where
  "alarm_functions =
     [kFunctionTypeAlarmListData]"

definition data_tunneling_functions :: "nat list" where
  "data_tunneling_functions =
     [kFunctionTypeDataTunnelingCall]"

definition device_classification_functions :: "nat list" where
  "device_classification_functions =
     [kFunctionTypeDeviceClassificationManufacturerData, kFunctionTypeDeviceClassificationUserData]"

definition device_diagnosis_functions :: "nat list" where
  "device_diagnosis_functions =
     [kFunctionTypeDeviceDiagnosisStateData, kFunctionTypeDeviceDiagnosisHeartbeatData,
      kFunctionTypeDeviceDiagnosisServiceData]"

definition direct_control_functions :: "nat list" where
  "direct_control_functions =
     [kFunctionTypeDirectControlActivityListData, kFunctionTypeDirectControlDescriptionData]"

definition electrical_connection_functions :: "nat list" where
  "electrical_connection_functions =
     [kFunctionTypeElectricalConnectionDescriptionListData, kFunctionTypeElectricalConnectionParameterDescriptionListData,
      kFunctionTypeElectricalConnectionPermittedValueSetListData, kFunctionTypeElectricalConnectionStateListData,
      kFunctionTypeElectricalConnectionCharacteristicData, kFunctionTypeElectricalConnectionCharacteristicListData]"

definition generic_functions :: "nat list" where
  "generic_functions =
     [kFunctionTypeActuatorLevelData, kFunctionTypeActuatorLevelDescriptionData,
      kFunctionTypeActuatorSwitchData, kFunctionTypeActuatorSwitchDescriptionData,
      kFunctionTypeAlarmListData, kFunctionTypeBillDescriptionListData,
      kFunctionTypeBillConstraintsListData, kFunctionTypeBillListData,
      kFunctionTypeDataTunnelingCall, kFunctionTypeDeviceClassificationManufacturerData,
      kFunctionTypeDeviceClassificationUserData, kFunctionTypeDeviceConfigurationKeyValueConstraintsListData,
      kFunctionTypeDeviceConfigurationKeyValueDescriptionListData, kFunctionTypeDeviceConfigurationKeyValueListData,
      kFunctionTypeDeviceDiagnosisStateData, kFunctionTypeDeviceDiagnosisHeartbeatData,
      kFunctionTypeDeviceDiagnosisServiceData, kFunctionTypeDirectControlActivityListData,
      kFunctionTypeDirectControlDescriptionData, kFunctionTypeElectricalConnectionDescriptionListData,
      kFunctionTypeElectricalConnectionParameterDescriptionListData, kFunctionTypeElectricalConnectionPermittedValueSetListData,
      kFunctionTypeElectricalConnectionStateListData, kFunctionTypeElectricalConnectionCharacteristicData,
      kFunctionTypeElectricalConnectionCharacteristicListData, kFunctionTypeHvacOperationModeDescriptionListData,
      kFunctionTypeHvacOverrunDescriptionListData, kFunctionTypeHvacOverrunListData,
      kFunctionTypeHvacSystemFunctionDescriptionListData, kFunctionTypeHvacSystemFunctionListData,
      kFunctionTypeHvacSystemFunctionOperationModeRelationListData, kFunctionTypeHvacSystemFunctionPowerSequenceRelationListData,
      kFunctionTypeHvacSystemFunctionSetpointRelationListData, kFunctionTypeIdentificationListData,
      kFunctionTypeSessionIdentificationListData, kFunctionTypeSessionMeasurementRelationListData,
      kFunctionTypeIncentiveTableDescriptionData, kFunctionTypeIncentiveTableConstraintsData,
      kFunctionTypeIncentiveTableData, kFunctionTypeLoadControlEventListData,
      kFunctionTypeLoadControlLimitConstraintsListData, kFunctionTypeLoadControlLimitDescriptionListData,
      kFunctionTypeLoadControlLimitListData, kFunctionTypeLoadControlNodeData,
      kFunctionTypeLoadControlStateListData, kFunctionTypeMeasurementListData,
      kFunctionTypeMeasurementDescriptionListData, kFunctionTypeMeasurementConstraintsListData,
      kFunctionTypeMeasurementThresholdRelationListData, kFunctionTypeMeasurementSeriesListData,
      kFunctionTypeMessagingListData, kFunctionTypeNetworkManagementAbortCall,
      kFunctionTypeNetworkManagementAddNodeCall, kFunctionTypeNetworkManagementDeviceDescriptionListData,
      kFunctionTypeNetworkManagementDiscoverCall, kFunctionTypeNetworkManagementEntityDescriptionListData,
      kFunctionTypeNetworkManagementFeatureDescriptionListData, kFunctionTypeNetworkManagementJoiningModeData,
      kFunctionTypeNetworkManagementModifyNodeCall, kFunctionTypeNetworkManagementProcessStateData,
      kFunctionTypeNetworkManagementRemoveNodeCall, kFunctionTypeNetworkManagementReportCandidateData,
      kFunctionTypeNetworkManagementScanNetworkCall, kFunctionTypeOperatingConstraintsDurationListData,
      kFunctionTypeOperatingConstraintsInterruptListData, kFunctionTypeOperatingConstraintsPowerDescriptionListData,
      kFunctionTypeOperatingConstraintsPowerLevelListData, kFunctionTypeOperatingConstraintsPowerRangeListData,
      kFunctionTypeOperatingConstraintsResumeImplicationListData, kFunctionTypePowerSequenceAlternativesRelationListData,
      kFunctionTypePowerSequenceDescriptionListData, kFunctionTypePowerSequenceNodeScheduleInformationData,
      kFunctionTypePowerSequencePriceCalculationRequestCall, kFunctionTypePowerSequencePriceListData,
      kFunctionTypePowerSequenceScheduleConfigurationRequestCall, kFunctionTypePowerSequenceScheduleConstraintsListData,
      kFunctionTypePowerSequenceScheduleListData, kFunctionTypePowerSequenceSchedulePreferenceListData,
      kFunctionTypePowerSequenceStateListData, kFunctionTypePowerTimeSlotScheduleConstraintsListData,
      kFunctionTypePowerTimeSlotScheduleListData, kFunctionTypePowerTimeSlotValueListData,
      kFunctionTypeSensingDescriptionData, kFunctionTypeSensingListData,
      kFunctionTypeSetpointConstraintsListData, kFunctionTypeSetpointDescriptionListData,
      kFunctionTypeSetpointListData, kFunctionTypeSmartEnergyManagementPsConfigurationRequestCall,
      kFunctionTypeSmartEnergyManagementPsData, kFunctionTypeSmartEnergyManagementPsPriceCalculationRequestCall,
      kFunctionTypeSmartEnergyManagementPsPriceData, kFunctionTypeStateInformationListData,
      kFunctionTypeSupplyConditionDescriptionListData, kFunctionTypeSupplyConditionListData,
      kFunctionTypeSupplyConditionThresholdRelationListData, kFunctionTypeIncentiveDescriptionListData,
      kFunctionTypeIncentiveListData, kFunctionTypeTariffBoundaryRelationListData,
      kFunctionTypeTariffDescriptionListData, kFunctionTypeTariffListData,
      kFunctionTypeTariffOverallConstraintsData, kFunctionTypeTariffTierRelationListData,
      kFunctionTypeTierBoundaryDescriptionListData, kFunctionTypeTierBoundaryListData,
      kFunctionTypeTierDescriptionListData, kFunctionTypeTierIncentiveRelationListData,
      kFunctionTypeTierListData, kFunctionTypeTaskManagementJobDescriptionListData,
      kFunctionTypeTaskManagementJobListData, kFunctionTypeTaskManagementJobRelationListData,
      kFunctionTypeTaskManagementOverviewData, kFunctionTypeThresholdConstraintsListData,
      kFunctionTypeThresholdDescriptionListData, kFunctionTypeThresholdListData,
      kFunctionTypeTimeDistributorData, kFunctionTypeTimeDistributorEnquiryCall,
      kFunctionTypeTimeInformationData, kFunctionTypeTimePrecisionData,
      kFunctionTypeTimeSeriesDescriptionListData, kFunctionTypeTimeSeriesConstraintsListData,
      kFunctionTypeTimeSeriesListData, kFunctionTypeTimeTableConstraintsListData,
      kFunctionTypeTimeTableDescriptionListData, kFunctionTypeTimeTableListData]"

definition hvac_functions :: "nat list" where
  "hvac_functions =
     [kFunctionTypeHvacOperationModeDescriptionListData, kFunctionTypeHvacOverrunDescriptionListData,
      kFunctionTypeHvacOverrunListData, kFunctionTypeHvacSystemFunctionDescriptionListData,
      kFunctionTypeHvacSystemFunctionListData, kFunctionTypeHvacSystemFunctionOperationModeRelationListData,
      kFunctionTypeHvacSystemFunctionPowerSequenceRelationListData, kFunctionTypeHvacSystemFunctionSetpointRelationListData]"

definition load_control_functions :: "nat list" where
  "load_control_functions =
     [kFunctionTypeLoadControlEventListData, kFunctionTypeLoadControlLimitConstraintsListData,
      kFunctionTypeLoadControlLimitDescriptionListData, kFunctionTypeLoadControlLimitListData,
      kFunctionTypeLoadControlNodeData, kFunctionTypeLoadControlStateListData]"

definition measurement_functions :: "nat list" where
  "measurement_functions =
     [kFunctionTypeMeasurementListData, kFunctionTypeMeasurementDescriptionListData,
      kFunctionTypeMeasurementConstraintsListData, kFunctionTypeMeasurementThresholdRelationListData,
      kFunctionTypeMeasurementSeriesListData]"

definition messaging_functions :: "nat list" where
  "messaging_functions =
     [kFunctionTypeMessagingListData]"

definition network_management_functions :: "nat list" where
  "network_management_functions =
     [kFunctionTypeNetworkManagementAbortCall, kFunctionTypeNetworkManagementAddNodeCall,
      kFunctionTypeNetworkManagementDeviceDescriptionListData, kFunctionTypeNetworkManagementDiscoverCall,
      kFunctionTypeNetworkManagementEntityDescriptionListData, kFunctionTypeNetworkManagementFeatureDescriptionListData,
      kFunctionTypeNetworkManagementJoiningModeData, kFunctionTypeNetworkManagementModifyNodeCall,
      kFunctionTypeNetworkManagementProcessStateData, kFunctionTypeNetworkManagementRemoveNodeCall,
      kFunctionTypeNetworkManagementReportCandidateData, kFunctionTypeNetworkManagementScanNetworkCall]"

definition node_management_functions :: "nat list" where
  "node_management_functions =
     [kFunctionTypeNodeManagementBindingData, kFunctionTypeNodeManagementBindingDeleteCall,
      kFunctionTypeNodeManagementBindingRequestCall, kFunctionTypeNodeManagementDestinationListData,
      kFunctionTypeNodeManagementDetailedDiscoveryData, kFunctionTypeNodeManagementSubscriptionData,
      kFunctionTypeNodeManagementSubscriptionDeleteCall, kFunctionTypeNodeManagementSubscriptionRequestCall,
      kFunctionTypeNodeManagementUseCaseData]"

definition operating_constraints_functions :: "nat list" where
  "operating_constraints_functions =
     [kFunctionTypeOperatingConstraintsDurationListData, kFunctionTypeOperatingConstraintsInterruptListData,
      kFunctionTypeOperatingConstraintsPowerDescriptionListData, kFunctionTypeOperatingConstraintsPowerLevelListData,
      kFunctionTypeOperatingConstraintsPowerRangeListData, kFunctionTypeOperatingConstraintsResumeImplicationListData]"

definition power_sequences_functions :: "nat list" where
  "power_sequences_functions =
     [kFunctionTypePowerSequenceAlternativesRelationListData, kFunctionTypePowerSequenceDescriptionListData,
      kFunctionTypePowerSequenceNodeScheduleInformationData, kFunctionTypePowerSequencePriceCalculationRequestCall,
      kFunctionTypePowerSequencePriceListData, kFunctionTypePowerSequenceScheduleConfigurationRequestCall,
      kFunctionTypePowerSequenceScheduleConstraintsListData, kFunctionTypePowerSequenceScheduleListData,
      kFunctionTypePowerSequenceSchedulePreferenceListData, kFunctionTypePowerSequenceStateListData,
      kFunctionTypePowerTimeSlotScheduleConstraintsListData, kFunctionTypePowerTimeSlotScheduleListData,
      kFunctionTypePowerTimeSlotValueListData]"

definition sensing_functions :: "nat list" where
  "sensing_functions =
     [kFunctionTypeSensingDescriptionData, kFunctionTypeSensingListData]"

definition setpoint_functions :: "nat list" where
  "setpoint_functions =
     [kFunctionTypeSetpointConstraintsListData, kFunctionTypeSetpointDescriptionListData,
      kFunctionTypeSetpointListData]"

definition smart_energy_management_ps_functions :: "nat list" where
  "smart_energy_management_ps_functions =
     [kFunctionTypeSmartEnergyManagementPsConfigurationRequestCall, kFunctionTypeSmartEnergyManagementPsData,
      kFunctionTypeSmartEnergyManagementPsPriceCalculationRequestCall, kFunctionTypeSmartEnergyManagementPsPriceData]"

definition task_management_functions :: "nat list" where
  "task_management_functions =
     [kFunctionTypeTaskManagementJobDescriptionListData, kFunctionTypeTaskManagementJobListData,
      kFunctionTypeTaskManagementJobRelationListData, kFunctionTypeTaskManagementOverviewData]"

definition threshold_functions :: "nat list" where
  "threshold_functions =
     [kFunctionTypeThresholdConstraintsListData, kFunctionTypeThresholdDescriptionListData,
      kFunctionTypeThresholdListData]"

definition time_information_functions :: "nat list" where
  "time_information_functions =
     [kFunctionTypeTimeDistributorData, kFunctionTypeTimeDistributorEnquiryCall,
      kFunctionTypeTimeInformationData, kFunctionTypeTimePrecisionData]"

definition timetable_functions :: "nat list" where
  "timetable_functions =
     [kFunctionTypeTimeTableConstraintsListData, kFunctionTypeTimeTableDescriptionListData,
      kFunctionTypeTimeTableListData]"

definition device_configuration_functions :: "nat list" where
  "device_configuration_functions =
     [kFunctionTypeDeviceConfigurationKeyValueConstraintsListData, kFunctionTypeDeviceConfigurationKeyValueDescriptionListData,
      kFunctionTypeDeviceConfigurationKeyValueListData]"

definition supply_condition_functions :: "nat list" where
  "supply_condition_functions =
     [kFunctionTypeSupplyConditionDescriptionListData, kFunctionTypeSupplyConditionListData,
      kFunctionTypeSupplyConditionThresholdRelationListData]"

definition time_series_functions :: "nat list" where
  "time_series_functions =
     [kFunctionTypeTimeSeriesDescriptionListData, kFunctionTypeTimeSeriesConstraintsListData,
      kFunctionTypeTimeSeriesListData]"

definition tariff_information_functions :: "nat list" where
  "tariff_information_functions =
     [kFunctionTypeIncentiveDescriptionListData, kFunctionTypeIncentiveListData,
      kFunctionTypeTariffBoundaryRelationListData, kFunctionTypeTariffDescriptionListData,
      kFunctionTypeTariffListData, kFunctionTypeTariffOverallConstraintsData,
      kFunctionTypeTariffTierRelationListData, kFunctionTypeTierBoundaryDescriptionListData,
      kFunctionTypeTierBoundaryListData, kFunctionTypeTierDescriptionListData,
      kFunctionTypeTierIncentiveRelationListData, kFunctionTypeTierListData]"

definition incentive_table_functions :: "nat list" where
  "incentive_table_functions =
     [kFunctionTypeIncentiveTableDescriptionData, kFunctionTypeIncentiveTableConstraintsData,
      kFunctionTypeIncentiveTableData]"

definition bill_functions :: "nat list" where
  "bill_functions =
     [kFunctionTypeBillDescriptionListData, kFunctionTypeBillConstraintsListData,
      kFunctionTypeBillListData]"

definition identification_functions :: "nat list" where
  "identification_functions =
     [kFunctionTypeIdentificationListData, kFunctionTypeSessionIdentificationListData,
      kFunctionTypeSessionMeasurementRelationListData]"

definition state_information_functions :: "nat list" where
  "state_information_functions =
     [kFunctionTypeStateInformationListData]"

definition feature_functions_table :: "(nat \<times> nat list) list" where
  "feature_functions_table =
     [(kFeatureTypeTypeActuatorLevel, actuator_level_functions),
      (kFeatureTypeTypeActuatorSwitch, actuator_switch_functions),
      (kFeatureTypeTypeAlarm, alarm_functions),
      (kFeatureTypeTypeDataTunneling, data_tunneling_functions),
      (kFeatureTypeTypeDeviceClassification, device_classification_functions),
      (kFeatureTypeTypeDeviceDiagnosis, device_diagnosis_functions),
      (kFeatureTypeTypeDirectControl, direct_control_functions),
      (kFeatureTypeTypeElectricalConnection, electrical_connection_functions),
      (kFeatureTypeTypeGeneric, generic_functions),
      (kFeatureTypeTypeHvac, hvac_functions),
      (kFeatureTypeTypeLoadControl, load_control_functions),
      (kFeatureTypeTypeMeasurement, measurement_functions),
      (kFeatureTypeTypeMessaging, messaging_functions),
      (kFeatureTypeTypeNetworkManagement, network_management_functions),
      (kFeatureTypeTypeNodeManagement, node_management_functions),
      (kFeatureTypeTypeOperatingConstraints, operating_constraints_functions),
      (kFeatureTypeTypePowerSequences, power_sequences_functions),
      (kFeatureTypeTypeSensing, sensing_functions),
      (kFeatureTypeTypeSetpoint, setpoint_functions),
      (kFeatureTypeTypeSmartEnergyManagementPs, smart_energy_management_ps_functions),
      (kFeatureTypeTypeTaskManagement, task_management_functions),
      (kFeatureTypeTypeThreshold, threshold_functions),
      (kFeatureTypeTypeTimeInformation, time_information_functions),
      (kFeatureTypeTypeTimeTable, timetable_functions),
      (kFeatureTypeTypeDeviceConfiguration, device_configuration_functions),
      (kFeatureTypeTypeSupplyCondition, supply_condition_functions),
      (kFeatureTypeTypeTimeSeries, time_series_functions),
      (kFeatureTypeTypeTariffInformation, tariff_information_functions),
      (kFeatureTypeTypeIncentiveTable, incentive_table_functions),
      (kFeatureTypeTypeBill, bill_functions),
      (kFeatureTypeTypeIdentification, identification_functions),
      (kFeatureTypeTypeStateInformation, state_information_functions)]"

definition GetFeatureFunctions :: "nat \<Rightarrow> nat list option" where
  "GetFeatureFunctions feature_type =
     map_option snd (List.find (\<lambda>(t, fs). t = feature_type) feature_functions_table)"

text \<open>No list names a function twice.\<close>

lemmas function_type_defs =
  kFunctionTypeActuatorLevelData_def kFunctionTypeActuatorLevelDescriptionData_def kFunctionTypeActuatorSwitchData_def
  kFunctionTypeActuatorSwitchDescriptionData_def kFunctionTypeAlarmListData_def kFunctionTypeBillConstraintsListData_def
  kFunctionTypeBillDescriptionListData_def kFunctionTypeBillListData_def kFunctionTypeBindingManagementDeleteCall_def
  kFunctionTypeBindingManagementEntryListData_def kFunctionTypeBindingManagementRequestCall_def kFunctionTypeCommodityListData_def
  kFunctionTypeDataTunnelingCall_def kFunctionTypeDeviceClassificationManufacturerData_def kFunctionTypeDeviceClassificationUserData_def
  kFunctionTypeDeviceConfigurationKeyValueConstraintsListData_def kFunctionTypeDeviceConfigurationKeyValueDescriptionListData_def kFunctionTypeDeviceConfigurationKeyValueListData_def
  kFunctionTypeDeviceDiagnosisHeartbeatData_def kFunctionTypeDeviceDiagnosisServiceData_def kFunctionTypeDeviceDiagnosisStateData_def
  kFunctionTypeDirectControlActivityListData_def kFunctionTypeDirectControlDescriptionData_def kFunctionTypeElectricalConnectionCharacteristicData_def
  kFunctionTypeElectricalConnectionCharacteristicListData_def kFunctionTypeElectricalConnectionDescriptionListData_def kFunctionTypeElectricalConnectionParameterDescriptionListData_def
  kFunctionTypeElectricalConnectionPermittedValueSetListData_def kFunctionTypeElectricalConnectionStateListData_def kFunctionTypeHvacOperationModeDescriptionListData_def
  kFunctionTypeHvacOverrunDescriptionListData_def kFunctionTypeHvacOverrunListData_def kFunctionTypeHvacSystemFunctionDescriptionListData_def
  kFunctionTypeHvacSystemFunctionListData_def kFunctionTypeHvacSystemFunctionOperationModeRelationListData_def kFunctionTypeHvacSystemFunctionPowerSequenceRelationListData_def
  kFunctionTypeHvacSystemFunctionSetpointRelationListData_def kFunctionTypeIdentificationListData_def kFunctionTypeIncentiveDescriptionListData_def
  kFunctionTypeIncentiveListData_def kFunctionTypeIncentiveTableConstraintsData_def kFunctionTypeIncentiveTableData_def
  kFunctionTypeIncentiveTableDescriptionData_def kFunctionTypeLoadControlEventListData_def kFunctionTypeLoadControlLimitConstraintsListData_def
  kFunctionTypeLoadControlLimitDescriptionListData_def kFunctionTypeLoadControlLimitListData_def kFunctionTypeLoadControlNodeData_def
  kFunctionTypeLoadControlStateListData_def kFunctionTypeMeasurementConstraintsListData_def kFunctionTypeMeasurementDescriptionListData_def
  kFunctionTypeMeasurementListData_def kFunctionTypeMeasurementSeriesListData_def kFunctionTypeMeasurementThresholdRelationListData_def
  kFunctionTypeMessagingListData_def kFunctionTypeNetworkManagementAbortCall_def kFunctionTypeNetworkManagementAddNodeCall_def
  kFunctionTypeNetworkManagementDeviceDescriptionListData_def kFunctionTypeNetworkManagementDiscoverCall_def kFunctionTypeNetworkManagementEntityDescriptionListData_def
  kFunctionTypeNetworkManagementFeatureDescriptionListData_def kFunctionTypeNetworkManagementJoiningModeData_def kFunctionTypeNetworkManagementModifyNodeCall_def
  kFunctionTypeNetworkManagementProcessStateData_def kFunctionTypeNetworkManagementRemoveNodeCall_def kFunctionTypeNetworkManagementReportCandidateData_def
  kFunctionTypeNetworkManagementScanNetworkCall_def kFunctionTypeNodeManagementBindingData_def kFunctionTypeNodeManagementBindingDeleteCall_def
  kFunctionTypeNodeManagementBindingRequestCall_def kFunctionTypeNodeManagementDestinationListData_def kFunctionTypeNodeManagementDetailedDiscoveryData_def
  kFunctionTypeNodeManagementSubscriptionData_def kFunctionTypeNodeManagementSubscriptionDeleteCall_def kFunctionTypeNodeManagementSubscriptionRequestCall_def
  kFunctionTypeNodeManagementUseCaseData_def kFunctionTypeOperatingConstraintsDurationListData_def kFunctionTypeOperatingConstraintsInterruptListData_def
  kFunctionTypeOperatingConstraintsPowerDescriptionListData_def kFunctionTypeOperatingConstraintsPowerLevelListData_def kFunctionTypeOperatingConstraintsPowerRangeListData_def
  kFunctionTypeOperatingConstraintsResumeImplicationListData_def kFunctionTypePowerSequenceAlternativesRelationListData_def kFunctionTypePowerSequenceDescriptionListData_def
  kFunctionTypePowerSequenceNodeScheduleInformationData_def kFunctionTypePowerSequencePriceCalculationRequestCall_def kFunctionTypePowerSequencePriceListData_def
  kFunctionTypePowerSequenceScheduleConfigurationRequestCall_def kFunctionTypePowerSequenceScheduleConstraintsListData_def kFunctionTypePowerSequenceScheduleListData_def
  kFunctionTypePowerSequenceSchedulePreferenceListData_def kFunctionTypePowerSequenceStateListData_def kFunctionTypePowerTimeSlotScheduleConstraintsListData_def
  kFunctionTypePowerTimeSlotScheduleListData_def kFunctionTypePowerTimeSlotValueListData_def kFunctionTypeResultData_def
  kFunctionTypeSensingDescriptionData_def kFunctionTypeSensingListData_def kFunctionTypeSessionIdentificationListData_def
  kFunctionTypeSessionMeasurementRelationListData_def kFunctionTypeSetpointConstraintsListData_def kFunctionTypeSetpointDescriptionListData_def
  kFunctionTypeSetpointListData_def kFunctionTypeSmartEnergyManagementPsConfigurationRequestCall_def kFunctionTypeSmartEnergyManagementPsData_def
  kFunctionTypeSmartEnergyManagementPsPriceCalculationRequestCall_def kFunctionTypeSmartEnergyManagementPsPriceData_def kFunctionTypeSpecificationVersionListData_def
  kFunctionTypeStateInformationListData_def kFunctionTypeSubscriptionManagementDeleteCall_def kFunctionTypeSubscriptionManagementEntryListData_def
  kFunctionTypeSubscriptionManagementRequestCall_def kFunctionTypeSupplyConditionDescriptionListData_def kFunctionTypeSupplyConditionListData_def
  kFunctionTypeSupplyConditionThresholdRelationListData_def kFunctionTypeTariffBoundaryRelationListData_def kFunctionTypeTariffDescriptionListData_def
  kFunctionTypeTariffListData_def kFunctionTypeTariffOverallConstraintsData_def kFunctionTypeTariffTierRelationListData_def
  kFunctionTypeTaskManagementJobDescriptionListData_def kFunctionTypeTaskManagementJobListData_def kFunctionTypeTaskManagementJobRelationListData_def
  kFunctionTypeTaskManagementOverviewData_def kFunctionTypeThresholdConstraintsListData_def kFunctionTypeThresholdDescriptionListData_def
  kFunctionTypeThresholdListData_def kFunctionTypeTierBoundaryDescriptionListData_def kFunctionTypeTierBoundaryListData_def
  kFunctionTypeTierDescriptionListData_def kFunctionTypeTierIncentiveRelationListData_def kFunctionTypeTierListData_def
  kFunctionTypeTimeDistributorData_def kFunctionTypeTimeDistributorEnquiryCall_def kFunctionTypeTimeInformationData_def
  kFunctionTypeTimePrecisionData_def kFunctionTypeTimeSeriesConstraintsListData_def kFunctionTypeTimeSeriesDescriptionListData_def
  kFunctionTypeTimeSeriesListData_def kFunctionTypeTimeTableConstraintsListData_def kFunctionTypeTimeTableDescriptionListData_def
  kFunctionTypeTimeTableListData_def kFunctionTypeUseCaseInformationListData_def kFunctionTypeNum_def

lemmas feature_functions_defs =
  feature_functions_table_def actuator_level_functions_def actuator_switch_functions_def alarm_functions_def
  data_tunneling_functions_def device_classification_functions_def device_diagnosis_functions_def direct_control_functions_def
  electrical_connection_functions_def generic_functions_def hvac_functions_def load_control_functions_def
  measurement_functions_def messaging_functions_def network_management_functions_def node_management_functions_def
  operating_constraints_functions_def power_sequences_functions_def sensing_functions_def setpoint_functions_def
  smart_energy_management_ps_functions_def task_management_functions_def threshold_functions_def time_information_functions_def
  timetable_functions_def device_configuration_functions_def supply_condition_functions_def time_series_functions_def
  tariff_information_functions_def incentive_table_functions_def bill_functions_def identification_functions_def
  state_information_functions_def

lemma feature_functions_distinct: "list_all (\<lambda>(t, fs). distinct fs) feature_functions_table"
  by (simp add: feature_functions_defs function_type_defs)

end
