(* ===== verification/Spine_Links.thy ===== *)
theory Spine_Links
  imports Eebus_Data_Laws Eebus_Containers Spine_Types
begin

text \<open>
  The devices as the link managers see them, and the managers: \<^verbatim>\<open>spine/feature_link\<close>,
  \<^verbatim>\<open>spine/binding/binding_manager.c\<close>, \<^verbatim>\<open>spine/subscription/subscription_manager.c\<close>, the address types
  \<^verbatim>\<open>spine/model/entity_types.c\<close> and \<^verbatim>\<open>feature_types.c\<close>, and the look-ups of \<^verbatim>\<open>device_local.c\<close>, \<^verbatim>\<open>device_remote.c\<close>,
  \<^verbatim>\<open>entity_local.c\<close>, \<^verbatim>\<open>entity_remote.c\<close> and \<^verbatim>\<open>feature.c\<close>.

  A link holds pointers to a feature of the local device and to a feature of a remote device. The
  features of a device are in its entities, each with its address in memory, so that a pointer is valid
  exactly while its feature is in one of the devices: reading through any other pointer, and through a
  null pointer, has the outcome \<open>None\<close>. Links are compared by their identifiers and members, which is
  comparing pointers, because identifiers are not given twice. The vectors of entities and features are
  lists here; the container of links is the vector of the code.
\<close>

section \<open>Addresses\<close>

record EntityAddressType =
  ea_device :: "string option"
  ea_entity :: "u32 option list option"

record FeatureAddressType =
  device :: "string option"
  entity :: "u32 option list option"
  feature :: "u32 option"

text \<open>The structures as their descriptors describe them; a number is its bytes.\<close>

definition u32_bytes :: "u32 \<Rightarrow> byte list" where
  "u32_bytes w = map (\<lambda>i. char_of (unat (drop_bit (8 * i) w))) [0..<4]"

definition number_value :: "u32 option \<Rightarrow> EebusData" where
  "number_value n = (case n of None \<Rightarrow> Null | Some w \<Rightarrow> Simple (u32_bytes w))"

definition string_value :: "string option \<Rightarrow> EebusData" where
  "string_value s = (case s of None \<Rightarrow> Null | Some t \<Rightarrow> Str t)"

definition entity_value :: "u32 option list option \<Rightarrow> EebusData" where
  "entity_value e = (case e of None \<Rightarrow> Null | Some ns \<Rightarrow> Lst (map number_value ns))"

definition entity_address_value :: "EntityAddressType option \<Rightarrow> EebusData" where
  "entity_address_value a =
     (case a of None \<Rightarrow> Null | Some a \<Rightarrow> Seq [string_value (ea_device a), entity_value (ea_entity a)])"

definition feature_address_value :: "FeatureAddressType option \<Rightarrow> EebusData" where
  "feature_address_value a =
     (case a of
        None \<Rightarrow> Null
      | Some a \<Rightarrow> Seq [string_value (device a), entity_value (entity a), number_value (feature a)])"

definition entity_address_tmp_cfg :: EebusDataCfg where
  "entity_address_tmp_cfg = EebusDataCfg eebus_data_sequence_methods [] 32 0 entity_address_cfg"

definition FeatureAddressCompare :: "FeatureAddressType option \<Rightarrow> FeatureAddressType option \<Rightarrow> bool" where
  "FeatureAddressCompare a b =
     EEBUS_DATA_COMPARE feature_address_tmp_cfg (feature_address_value a) feature_address_tmp_cfg (feature_address_value b)"

definition EntityAddressCompare :: "EntityAddressType option \<Rightarrow> EntityAddressType option \<Rightarrow> bool" where
  "EntityAddressCompare a b =
     EEBUS_DATA_COMPARE entity_address_tmp_cfg (entity_address_value a) entity_address_tmp_cfg (entity_address_value b)"

definition EntityAddressMatchIds :: "EntityAddressType \<Rightarrow> u32 option list option \<Rightarrow> bool" where
  "EntityAddressMatchIds self ids =
     (if ea_entity self = None \<or> ea_entity self = Some [] then False
      else if ids = None \<or> ids = Some [] then False
      else EntityAddressCompare (Some \<lparr>ea_device = None, ea_entity = ea_entity self\<rparr>)
             (Some \<lparr>ea_device = None, ea_entity = ids\<rparr>))"

definition FeatureAddressIsValid :: "FeatureAddressType option \<Rightarrow> bool" where
  "FeatureAddressIsValid a =
     (case a of
        None \<Rightarrow> False
      | Some a \<Rightarrow> feature a \<noteq> None \<and> entity a \<noteq> None \<and> entity a \<noteq> Some [])"

text \<open>The copy of the entity part reads every number; a list with a missing number has no copy.\<close>

definition FeatureAddressCreate :: "EntityAddressType \<Rightarrow> u32 \<Rightarrow> FeatureAddressType option" where
  "FeatureAddressCreate entity_addr feature_id =
     (let ids = (case ea_entity entity_addr of None \<Rightarrow> [] | Some ns \<Rightarrow> ns)
      in if None \<in> set ids then None
         else Some \<lparr>device = ea_device entity_addr, entity = Some ids, feature = Some feature_id\<rparr>)"

definition EntityAddressCreate :: "string option \<Rightarrow> u32 list \<Rightarrow> EntityAddressType" where
  "EntityAddressCreate d entity_ids = \<lparr>ea_device = d, ea_entity = Some (map Some entity_ids)\<rparr>"

text \<open>The comparisons are equality.\<close>

lemma u32_bytes_inj [simp]: "u32_bytes v = u32_bytes w \<longleftrightarrow> v = w"
proof
  assume eq: "u32_bytes v = u32_bytes w"
  have "bit v n = bit w n" if "n < 32" for n
  proof -
    have bits: "bit u n = bit (of_char (u32_bytes u ! (n div 8)) :: nat) (n mod 8)" for u
    proof -
      have "8 * (n div 8) + n mod 8 = n" by simp
      then have "bit u n = bit (unat (drop_bit (8 * (n div 8)) u)) (n mod 8)"
        by (simp add: bit_unsigned_iff bit_drop_bit_eq)
      moreover have "x mod 256 = take_bit 8 x" for x :: nat by (simp add: take_bit_eq_mod)
      moreover have "[0..<4] ! (n div 8) = n div 8" using that nth_upt [of 0 "n div 8" 4] by linarith
      ultimately show ?thesis using that by (simp add: u32_bytes_def of_char_of bit_take_bit_iff)
    qed
    show ?thesis unfolding bits eq ..
  qed
  then show "v = w" by (intro bit_word_eqI) simp
qed simp


lemma u32_bytes_length [simp]: "length (u32_bytes w) = 4"
  by (simp add: u32_bytes_def)

lemma value_inj [simp]:
  "number_value m = number_value n \<longleftrightarrow> m = n" "string_value s = string_value t \<longleftrightarrow> s = t"
  by (auto simp: number_value_def string_value_def split: option.splits)

lemma entity_value_inj [simp]: "entity_value m = entity_value n \<longleftrightarrow> m = n"
proof -
  have "inj number_value" by (rule injI) simp
  then show ?thesis by (auto simp: entity_value_def split: option.splits)
qed

lemma number_fits:
  "fits True entity_element_data_cfg (number_value n)" "fits True (EebusDataCfg eebus_data_numeric_methods nm 4 0 []) (number_value n)"
  by (auto simp: number_value_def entity_element_data_cfg_def fits.simps [of True "EebusDataCfg _ _ _ _ _"] split: option.split)

lemma string_fits: "fits True (EebusDataCfg eebus_data_string_methods nm 8 0 []) (string_value s)"
  by (auto simp: string_value_def fits.simps [of True "EebusDataCfg _ _ _ _ _"] split: option.split)

lemma entity_fits: "fits True entity_list_cfg (entity_value e)"
  by (auto simp: entity_value_def entity_list_cfg_def fits.simps [of True "EebusDataCfg _ _ _ _ _"] with_element_def
      list_all_iff number_fits split: option.split)

lemma address_plain: "plain feature_address_tmp_cfg" "plain entity_address_tmp_cfg"
  by code_simp+

lemma address_fits:
  "fits True feature_address_tmp_cfg (feature_address_value a)"
  "fits True entity_address_tmp_cfg (entity_address_value b)"
  by (auto simp: feature_address_value_def entity_address_value_def feature_address_tmp_cfg_def entity_address_tmp_cfg_def
      feature_address_cfg_def entity_address_cfg_def fits_Seq_iff string_fits entity_fits number_fits split: option.split)

lemma FeatureAddressCompare_eq [simp]: "FeatureAddressCompare a b \<longleftrightarrow> a = b"
  unfolding FeatureAddressCompare_def compare_eq [OF address_plain(1) address_fits(1) address_fits(1)]
  by (auto simp: feature_address_value_def split: option.splits)

lemma EntityAddressCompare_eq [simp]: "EntityAddressCompare a b \<longleftrightarrow> a = b"
  unfolding EntityAddressCompare_def compare_eq [OF address_plain(2) address_fits(2) address_fits(2)]
  by (auto simp: entity_address_value_def split: option.splits)

section \<open>Devices\<close>

datatype RoleType = kRoleTypeClient | kRoleTypeServer | kRoleTypeSpecial

type_synonym ptr = nat

record Feature =
  feature_address :: FeatureAddressType
  feature_type :: nat
  feature_role :: RoleType
  feature_desc :: "string option"

record Entity =
  entity_address :: EntityAddressType
  entity_features :: "(ptr \<times> Feature) list"
  entity_type :: nat
  entity_desc :: "string option"
  next_feature_id :: u32

text \<open>The feature set of a device is \<open>None\<close> when its memory was freed.\<close>

record Device =
  device_ski :: string
  device_address :: "string option"
  device_entities :: "Entity list"
  device_type :: "u32 option"
  device_feature_set :: "u32 option option"

definition device_features :: "Device \<Rightarrow> (ptr \<times> Feature) list" where
  "device_features d = concat (map entity_features (device_entities d))"

definition FeatureParametersMatch :: "Feature option \<Rightarrow> RoleType \<Rightarrow> nat \<Rightarrow> bool" where
  "FeatureParametersMatch f r t =
     (case f of
        None \<Rightarrow> False
      | Some f \<Rightarrow>
          (feature_role f = kRoleTypeSpecial \<or> feature_role f = r) \<and>
          (feature_type f = kFeatureTypeTypeGeneric \<or> feature_type f = t))"

definition EntityGetFeatureWithId :: "Entity \<Rightarrow> u32 option \<Rightarrow> (ptr \<times> Feature) option" where
  "EntityGetFeatureWithId e i =
     (case i of
        None \<Rightarrow> None
      | Some n \<Rightarrow> List.find (\<lambda>(p, f). feature (feature_address f) = Some n) (entity_features e))"

definition DeviceGetEntity :: "Device \<Rightarrow> u32 option list option \<Rightarrow> Entity option" where
  "DeviceGetEntity d ids = List.find (\<lambda>e. EntityAddressMatchIds (entity_address e) ids) (device_entities d)"

text \<open>The local device does not look at another device's address; a null address is no feature.\<close>

definition LocalGetFeatureWithAddress :: "Device \<Rightarrow> FeatureAddressType option \<Rightarrow> (ptr \<times> Feature) option" where
  "LocalGetFeatureWithAddress d addr =
     (case (device_address d, addr) of
        (Some own, Some a) \<Rightarrow>
          if device a \<noteq> None \<and> device a \<noteq> Some own then None
          else Option.bind (DeviceGetEntity d (entity a)) (\<lambda>e. EntityGetFeatureWithId e (feature a))
      | _ \<Rightarrow> None)"

text \<open>The remote device reads the address without a check for null.\<close>

definition RemoteGetFeatureWithAddress :: "Device \<Rightarrow> FeatureAddressType option \<Rightarrow> (ptr \<times> Feature) option option" where
  "RemoteGetFeatureWithAddress d addr =
     map_option (\<lambda>a. Option.bind (DeviceGetEntity d (entity a)) (\<lambda>e. EntityGetFeatureWithId e (feature a))) addr"


record World =
  local_device :: Device
  remote_devices :: "Device list"

text \<open>Reading through a pointer to a local feature, and to a remote one together with its device.\<close>

definition local_feature_at :: "World \<Rightarrow> ptr option \<Rightarrow> Feature option" where
  "local_feature_at w p = Option.bind p (map_of (device_features (local_device w)))"

definition remote_feature_at :: "World \<Rightarrow> ptr option \<Rightarrow> (Device \<times> Feature) option" where
  "remote_feature_at w p =
     Option.bind p (\<lambda>q.
       Option.bind (List.find (\<lambda>d. map_of (device_features d) q \<noteq> None) (remote_devices w))
         (\<lambda>d. map_option (Pair d) (map_of (device_features d) q)))"

section \<open>Links\<close>

record FeatureLink =
  link_id :: u64
  server_feature :: "ptr option"
  client_feature :: "ptr option"

definition FeatureLinkCreate :: "u64 \<Rightarrow> ptr option \<Rightarrow> ptr option \<Rightarrow> FeatureLink" where
  "FeatureLinkCreate i s c = \<lparr>link_id = i, server_feature = s, client_feature = c\<rparr>"

definition FeatureLinkGetServerAddr :: "World \<Rightarrow> FeatureLink \<Rightarrow> FeatureAddressType option" where
  "FeatureLinkGetServerAddr w l = map_option feature_address (local_feature_at w (server_feature l))"

definition FeatureLinkGetClientAddr :: "World \<Rightarrow> FeatureLink \<Rightarrow> FeatureAddressType option" where
  "FeatureLinkGetClientAddr w l = map_option (\<lambda>(d, f). feature_address f) (remote_feature_at w (client_feature l))"

definition FeatureLinkRemoteDeviceMatch :: "World \<Rightarrow> FeatureLink \<Rightarrow> Device \<Rightarrow> bool option" where
  "FeatureLinkRemoteDeviceMatch w l remote =
     map_option (\<lambda>(d, f). device_ski d = device_ski remote) (remote_feature_at w (client_feature l))"

definition FeatureLinkRemoteEntityMatch :: "World \<Rightarrow> FeatureLink \<Rightarrow> Entity \<Rightarrow> bool option" where
  "FeatureLinkRemoteEntityMatch w l e =
     map_option (\<lambda>a. EntityAddressCompare (Some (entity_address e)) (Some \<lparr>ea_device = device a, ea_entity = entity a\<rparr>))
       (FeatureLinkGetClientAddr w l)"

type_synonym FeatureLinkContainer = "FeatureLink Vector"

text \<open>The elements a loop over the container visits, and a loop that stops at the first match.\<close>

definition links :: "FeatureLinkContainer \<Rightarrow> FeatureLink list" where
  "links c = List.map_filter (VectorGetElement c) [0..<VectorGetSize c]"

fun find_link :: "('a \<Rightarrow> bool option) \<Rightarrow> 'a list \<Rightarrow> 'a option option" where
  "find_link P [] = Some None"
| "find_link P (l # ls) = Option.bind (P l) (\<lambda>m. if m then Some (Some l) else find_link P ls)"

definition FeatureLinkContainerAdd ::
    "bool \<Rightarrow> FeatureLinkContainer \<Rightarrow> u64 \<Rightarrow> ptr option \<Rightarrow> ptr option \<Rightarrow> FeatureLinkContainer option" where
  "FeatureLinkContainerAdd ok c i server client = VectorPushBack ok c (Some (FeatureLinkCreate i server client))"

definition FeatureLinkContainerFind ::
    "World \<Rightarrow> FeatureLinkContainer \<Rightarrow> FeatureAddressType option \<Rightarrow> FeatureAddressType option \<Rightarrow> FeatureLink option option" where
  "FeatureLinkContainerFind w c server_addr client_addr =
     find_link (\<lambda>l.
         Option.bind (FeatureLinkGetServerAddr w l) (\<lambda>a.
           if FeatureAddressCompare server_addr (Some a)
           then map_option (\<lambda>b. FeatureAddressCompare client_addr (Some b)) (FeatureLinkGetClientAddr w l)
           else Some False))
       (links c)"

definition FeatureLinkContainerRemove :: "FeatureLinkContainer \<Rightarrow> FeatureLink \<Rightarrow> FeatureLinkContainer" where
  "FeatureLinkContainerRemove c l = VectorRemove c (Some l)"

definition FeatureLinkContainerHasServer :: "World \<Rightarrow> FeatureLinkContainer \<Rightarrow> FeatureAddressType option \<Rightarrow> bool option" where
  "FeatureLinkContainerHasServer w c server_addr =
     map_option (\<lambda>r. r \<noteq> None)
       (find_link (\<lambda>l. map_option (\<lambda>a. FeatureAddressCompare server_addr (Some a)) (FeatureLinkGetServerAddr w l)) (links c))"

fun match_num :: "(FeatureLink \<Rightarrow> bool option) \<Rightarrow> FeatureLink list \<Rightarrow> nat option" where
  "match_num P [] = Some 0"
| "match_num P (l # ls) = Option.bind (P l) (\<lambda>m. map_option (\<lambda>n. if m then Suc n else n) (match_num P ls))"

definition FeatureLinkContainerGetRemoteDeviceMatchNum :: "World \<Rightarrow> FeatureLinkContainer \<Rightarrow> Device \<Rightarrow> nat option" where
  "FeatureLinkContainerGetRemoteDeviceMatchNum w c remote =
     match_num (\<lambda>l. FeatureLinkRemoteDeviceMatch w l remote) (links c)"

section \<open>Events\<close>

datatype EventType =
    kEventTypeDeviceChange | kEventTypeEntityChange | kEventTypeSubscriptionChange | kEventTypeBindingChange
  | kEventTypeDataChange | kEventTypeUseCaseChange

datatype ElementChangeType = kElementChangeAdd | kElementChangeUpdate | kElementChangeRemove

text \<open>
  The payload of an event without its device and entity, which are those of the feature, and without the
  request it answers.
\<close>

record EventPayload =
  ep_ski :: string
  ep_event_type :: EventType
  ep_change_type :: ElementChangeType
  ep_feature :: "ptr option"
  ep_local_feature :: "ptr option"

section \<open>The binding manager\<close>

record BindingManagementRequestCall =
  rq_client_address :: "FeatureAddressType option"
  rq_server_address :: "FeatureAddressType option"
  rq_server_feature_type :: "nat option"

record BindingManagementDeleteCall =
  dl_client_address :: "FeatureAddressType option"
  dl_server_address :: "FeatureAddressType option"

record BindingManager =
  binding_num :: u64
  binding_entries :: FeatureLinkContainer

definition BindingManagerConstruct :: BindingManager where
  "BindingManagerConstruct = \<lparr>binding_num = 0, binding_entries = VectorConstruct\<rparr>"

text \<open>
  The result, the manager and the published events. A request without an address, and one whose client
  feature does not exist, is not refused: the code reads through the null pointer.
\<close>

definition AddBinding ::
    "bool \<Rightarrow> World \<Rightarrow> BindingManager \<Rightarrow> Device \<Rightarrow> BindingManagementRequestCall option \<Rightarrow>
     (EebusError \<times> BindingManager \<times> EventPayload list) option" where
  "AddBinding ok w bm remote data = do {
     req \<leftarrow> data;
     let server = LocalGetFeatureWithAddress (local_device w) (rq_server_address req);
     client \<leftarrow> RemoteGetFeatureWithAddress remote (rq_client_address req);
     (if rq_server_feature_type req \<noteq> None \<and>
         (\<not> FeatureParametersMatch (map_option snd server) kRoleTypeServer (the (rq_server_feature_type req)) \<or>
          \<not> FeatureParametersMatch (map_option snd client) kRoleTypeClient (the (rq_server_feature_type req)))
      then Some (kEebusErrorNoChange, bm, [])
      else do {
        has \<leftarrow> FeatureLinkContainerHasServer w (binding_entries bm) (rq_server_address req);
        if has then Some (kEebusErrorNoChange, bm, [])
        else do {
          c \<leftarrow> FeatureLinkContainerAdd ok (binding_entries bm) (binding_num bm) (map_option fst server) (map_option fst client);
          cl \<leftarrow> client;
          Some (kEebusErrorOk, \<lparr>binding_num = binding_num bm + 1, binding_entries = c\<rparr>,
            [\<lparr>ep_ski = device_ski remote, ep_event_type = kEventTypeBindingChange, ep_change_type = kElementChangeAdd,
              ep_feature = Some (fst cl), ep_local_feature = map_option fst server\<rparr>])
        }
      })
   }"

text \<open>An address that lacks its device part is completed.\<close>

definition complete :: "string option \<Rightarrow> FeatureAddressType \<Rightarrow> FeatureAddressType" where
  "complete d a = (if device a = None then a\<lparr>device := d\<rparr> else a)"

definition RemoveBinding ::
    "World \<Rightarrow> BindingManager \<Rightarrow> BindingManagementDeleteCall option \<Rightarrow> Device \<Rightarrow>
     (EebusError \<times> BindingManager \<times> EventPayload list) option" where
  "RemoveBinding w bm data remote = do {
     req \<leftarrow> data;
     ca \<leftarrow> map_option (complete (device_address remote)) (dl_client_address req);
     sa \<leftarrow> map_option (complete (device_address (local_device w))) (dl_server_address req);
     client \<leftarrow> RemoteGetFeatureWithAddress remote (Some ca);
     (case client of
        None \<Rightarrow> Some (kEebusErrorInputArgumentNull, bm, [])
      | Some cl \<Rightarrow>
          (case LocalGetFeatureWithAddress (local_device w) (Some sa) of
             None \<Rightarrow> Some (kEebusErrorNoChange, bm, [])
           | Some sv \<Rightarrow>
               if feature_role (snd sv) \<noteq> kRoleTypeServer then Some (kEebusErrorNoChange, bm, [])
               else do {
                 found \<leftarrow> FeatureLinkContainerFind w (binding_entries bm) (Some sa) (Some ca);
                 (case found of
                    None \<Rightarrow> Some (kEebusErrorNoChange, bm, [])
                  | Some l \<Rightarrow>
                      Some (kEebusErrorOk, bm\<lparr>binding_entries := FeatureLinkContainerRemove (binding_entries bm) l\<rparr>,
                        [\<lparr>ep_ski = device_ski remote, ep_event_type = kEventTypeBindingChange,
                          ep_change_type = kElementChangeRemove, ep_feature = Some (fst cl),
                          ep_local_feature = Some (fst sv)\<rparr>]))
               }))
   }"

text \<open>
  The loop over the container: every iteration removes the link at index \<open>i\<close> or advances, so it runs once
  for each link. \<open>n\<close> counts the iterations that are left.
\<close>

fun remove_entity_loop ::
    "EventType \<Rightarrow> World \<Rightarrow> Device \<Rightarrow> Entity \<Rightarrow> nat \<Rightarrow> nat \<Rightarrow> FeatureLinkContainer \<Rightarrow>
     (FeatureLinkContainer \<times> EventPayload list) option" where
  "remove_entity_loop t w remote e 0 i c = Some (c, [])"
| "remove_entity_loop t w remote e (Suc n) i c =
     (case (if i < VectorGetSize c then VectorGetElement c i else None) of
        None \<Rightarrow> Some (c, [])
      | Some l \<Rightarrow> do {
          m \<leftarrow> FeatureLinkRemoteEntityMatch w l e;
          if \<not> m then remove_entity_loop t w remote e n (Suc i) c
          else do {
            sa \<leftarrow> FeatureLinkGetServerAddr w l;
            ca \<leftarrow> FeatureLinkGetClientAddr w l;
            let ev = \<lparr>ep_ski = device_ski remote, ep_event_type = t, ep_change_type = kElementChangeRemove,
                      ep_feature = map_option fst (EntityGetFeatureWithId e (feature ca)),
                      ep_local_feature = map_option fst (LocalGetFeatureWithAddress (local_device w) (Some sa))\<rparr>;
            map_option (\<lambda>(c, evs). (c, ev # evs))
              (remove_entity_loop t w remote e n i (FeatureLinkContainerRemove c l))
          }
        })"

definition RemoveEntityBindings ::
    "World \<Rightarrow> BindingManager \<Rightarrow> Device \<Rightarrow> Entity option \<Rightarrow> (BindingManager \<times> EventPayload list) option" where
  "RemoveEntityBindings w bm remote e =
     (case e of
        None \<Rightarrow> Some (bm, [])
      | Some e \<Rightarrow>
          map_option (\<lambda>(c, evs). (bm\<lparr>binding_entries := c\<rparr>, evs))
            (remove_entity_loop kEventTypeBindingChange w remote e (VectorGetSize (binding_entries bm)) 0 (binding_entries bm)))"

fun RemoveDeviceBindings_loop ::
    "World \<Rightarrow> BindingManager \<Rightarrow> Device \<Rightarrow> Entity list \<Rightarrow> (BindingManager \<times> EventPayload list) option" where
  "RemoveDeviceBindings_loop w bm remote [] = Some (bm, [])"
| "RemoveDeviceBindings_loop w bm remote (e # es) = do {
     r \<leftarrow> RemoveEntityBindings w bm remote (Some e);
     map_option (\<lambda>(bm, evs). (bm, snd r @ evs)) (RemoveDeviceBindings_loop w (fst r) remote es)
   }"

definition RemoveDeviceBindings ::
    "World \<Rightarrow> BindingManager \<Rightarrow> Device option \<Rightarrow> (BindingManager \<times> EventPayload list) option" where
  "RemoveDeviceBindings w bm remote =
     (case remote of None \<Rightarrow> Some (bm, []) | Some d \<Rightarrow> RemoveDeviceBindings_loop w bm d (device_entities d))"

definition HasBinding ::
    "World \<Rightarrow> BindingManager \<Rightarrow> FeatureAddressType option \<Rightarrow> FeatureAddressType option \<Rightarrow> bool option" where
  "HasBinding w bm local_addr remote_addr =
     map_option (\<lambda>r. r \<noteq> None) (FeatureLinkContainerFind w (binding_entries bm) local_addr remote_addr)"


text \<open>
  The entries of the reply to a read of the bindings: the buffer of \<open>n\<close> slots and how many entries it
  holds. An entry is written to the slot with the index of its link in the container.
\<close>

type_synonym link_entry = "u64 \<times> FeatureAddressType \<times> FeatureAddressType"

definition CreateLinkEntryData :: "World \<Rightarrow> FeatureLink \<Rightarrow> link_entry option" where
  "CreateLinkEntryData w l = do {
     sa \<leftarrow> FeatureLinkGetServerAddr w l;
     ca \<leftarrow> FeatureLinkGetClientAddr w l;
     Some (link_id l, sa, ca)
   }"

fun add_entries_loop ::
    "World \<Rightarrow> Device \<Rightarrow> nat \<Rightarrow> FeatureLink list \<Rightarrow> link_entry option list \<Rightarrow> nat \<Rightarrow> (link_entry option list \<times> nat) option" where
  "add_entries_loop w remote i [] buf n = Some (buf, n)"
| "add_entries_loop w remote i (l # ls) buf n = do {
     m \<leftarrow> FeatureLinkRemoteDeviceMatch w l remote;
     if \<not> m then add_entries_loop w remote (Suc i) ls buf n
     else do {
       entry \<leftarrow> CreateLinkEntryData w l;
       if i < length buf then add_entries_loop w remote (Suc i) ls (buf[i := Some entry]) (Suc n) else None
     }
   }"

definition AddBindingEntries :: "World \<Rightarrow> BindingManager \<Rightarrow> Device \<Rightarrow> (link_entry option list \<times> nat) option" where
  "AddBindingEntries w bm remote = do {
     n \<leftarrow> FeatureLinkContainerGetRemoteDeviceMatchNum w (binding_entries bm) remote;
     if n = 0 then Some ([], 0)
     else add_entries_loop w remote 0 (links (binding_entries bm)) (replicate n None) 0
   }"

section \<open>The subscription manager\<close>

record SubscriptionManager =
  subscription_num :: u64
  subscription_entries :: FeatureLinkContainer

definition SubscriptionManagerConstruct :: SubscriptionManager where
  "SubscriptionManagerConstruct = \<lparr>subscription_num = 0, subscription_entries = VectorConstruct\<rparr>"

definition AddSubscription ::
    "bool \<Rightarrow> World \<Rightarrow> SubscriptionManager \<Rightarrow> Device \<Rightarrow> BindingManagementRequestCall option \<Rightarrow>
     (EebusError \<times> SubscriptionManager \<times> EventPayload list) option" where
  "AddSubscription ok w sm remote data = do {
     req \<leftarrow> data;
     let server = LocalGetFeatureWithAddress (local_device w) (rq_server_address req);
     client \<leftarrow> RemoteGetFeatureWithAddress remote (rq_client_address req);
     (if rq_server_feature_type req \<noteq> None \<and>
         (\<not> FeatureParametersMatch (map_option snd server) kRoleTypeServer (the (rq_server_feature_type req)) \<or>
          \<not> FeatureParametersMatch (map_option snd client) kRoleTypeClient (the (rq_server_feature_type req)))
      then Some (kEebusErrorNoChange, sm, [])
      else do {
        found \<leftarrow> FeatureLinkContainerFind w (subscription_entries sm) (rq_server_address req) (rq_client_address req);
        if found \<noteq> None then Some (kEebusErrorNoChange, sm, [])
        else do {
          c \<leftarrow> FeatureLinkContainerAdd ok (subscription_entries sm) (subscription_num sm) (map_option fst server)
                 (map_option fst client);
          cl \<leftarrow> client;
          Some (kEebusErrorOk, \<lparr>subscription_num = subscription_num sm + 1, subscription_entries = c\<rparr>,
            [\<lparr>ep_ski = device_ski remote, ep_event_type = kEventTypeSubscriptionChange, ep_change_type = kElementChangeAdd,
              ep_feature = Some (fst cl), ep_local_feature = map_option fst server\<rparr>])
        }
      })
   }"

definition RemoveSubscription ::
    "World \<Rightarrow> SubscriptionManager \<Rightarrow> Device \<Rightarrow> BindingManagementDeleteCall option \<Rightarrow>
     (EebusError \<times> SubscriptionManager \<times> EventPayload list) option" where
  "RemoveSubscription w sm remote data = do {
     req \<leftarrow> data;
     ca \<leftarrow> map_option (complete (device_address remote)) (dl_client_address req);
     sa \<leftarrow> map_option (complete (device_address (local_device w))) (dl_server_address req);
     client \<leftarrow> RemoteGetFeatureWithAddress remote (Some ca);
     (case client of
        None \<Rightarrow> Some (kEebusErrorInputArgumentNull, sm, [])
      | Some cl \<Rightarrow>
          (case LocalGetFeatureWithAddress (local_device w) (Some sa) of
             None \<Rightarrow> Some (kEebusErrorNoChange, sm, [])
           | Some sv \<Rightarrow> do {
               found \<leftarrow> FeatureLinkContainerFind w (subscription_entries sm) (Some sa) (Some ca);
               (case found of
                  None \<Rightarrow> Some (kEebusErrorNoChange, sm, [])
                | Some l \<Rightarrow>
                    Some (kEebusErrorOk,
                      sm\<lparr>subscription_entries := FeatureLinkContainerRemove (subscription_entries sm) l\<rparr>,
                      [\<lparr>ep_ski = device_ski remote, ep_event_type = kEventTypeSubscriptionChange,
                        ep_change_type = kElementChangeRemove, ep_feature = Some (fst cl),
                        ep_local_feature = Some (fst sv)\<rparr>]))
             }))
   }"

definition RemoveEntitySubscriptions ::
    "World \<Rightarrow> SubscriptionManager \<Rightarrow> Device \<Rightarrow> Entity option \<Rightarrow> (SubscriptionManager \<times> EventPayload list) option" where
  "RemoveEntitySubscriptions w sm remote e =
     (case e of
        None \<Rightarrow> Some (sm, [])
      | Some e \<Rightarrow>
          map_option (\<lambda>(c, evs). (sm\<lparr>subscription_entries := c\<rparr>, evs))
            (remove_entity_loop kEventTypeSubscriptionChange w remote e (VectorGetSize (subscription_entries sm)) 0
               (subscription_entries sm)))"

fun RemoveDeviceSubscriptions_loop ::
    "World \<Rightarrow> SubscriptionManager \<Rightarrow> Device \<Rightarrow> Entity list \<Rightarrow> (SubscriptionManager \<times> EventPayload list) option" where
  "RemoveDeviceSubscriptions_loop w sm remote [] = Some (sm, [])"
| "RemoveDeviceSubscriptions_loop w sm remote (e # es) = do {
     r \<leftarrow> RemoveEntitySubscriptions w sm remote (Some e);
     map_option (\<lambda>(sm, evs). (sm, snd r @ evs)) (RemoveDeviceSubscriptions_loop w (fst r) remote es)
   }"

definition RemoveDeviceSubscriptions ::
    "World \<Rightarrow> SubscriptionManager \<Rightarrow> Device option \<Rightarrow> (SubscriptionManager \<times> EventPayload list) option" where
  "RemoveDeviceSubscriptions w sm remote =
     (case remote of None \<Rightarrow> Some (sm, []) | Some d \<Rightarrow> RemoveDeviceSubscriptions_loop w sm d (device_entities d))"

definition AddSubscriptionEntries :: "World \<Rightarrow> SubscriptionManager \<Rightarrow> Device \<Rightarrow> (link_entry option list \<times> nat) option" where
  "AddSubscriptionEntries w sm remote = do {
     n \<leftarrow> FeatureLinkContainerGetRemoteDeviceMatchNum w (subscription_entries sm) remote;
     if n = 0 then Some ([], 0)
     else add_entries_loop w remote 0 (links (subscription_entries sm)) (replicate n None) 0
   }"

text \<open>The notifications of \<^verbatim>\<open>Publish\<close>, in order: the device they go to and their two addresses.\<close>

fun publish_loop ::
    "World \<Rightarrow> FeatureAddressType option \<Rightarrow> FeatureLink list \<Rightarrow> (string \<times> FeatureAddressType \<times> FeatureAddressType) list option" where
  "publish_loop w addr [] = Some []"
| "publish_loop w addr (l # ls) = do {
     sa \<leftarrow> FeatureLinkGetServerAddr w l;
     if FeatureAddressCompare (Some sa) addr
     then do {
       (d, f) \<leftarrow> remote_feature_at w (client_feature l);
       map_option (Cons (device_ski d, sa, feature_address f)) (publish_loop w addr ls)
     }
     else publish_loop w addr ls
   }"

definition Publish ::
    "World \<Rightarrow> SubscriptionManager \<Rightarrow> FeatureAddressType option \<Rightarrow> (string \<times> FeatureAddressType \<times> FeatureAddressType) list option" where
  "Publish w sm addr = publish_loop w addr (links (subscription_entries sm))"

end
