(* ===== verification/Spine_Links_Laws.thy ===== *)
theory Spine_Links_Laws
  imports Spine_Links
begin

text \<open>
  The laws of bindings and subscriptions: exclusivity of bindings, removal with an entity or a device,
  publication to the subscribers, and where they fail.
\<close>

section \<open>Live links\<close>

definition link_live :: "World \<Rightarrow> FeatureLink \<Rightarrow> bool" where
  "link_live w l \<longleftrightarrow> local_feature_at w (server_feature l) \<noteq> None \<and> remote_feature_at w (client_feature l) \<noteq> None"

definition server_of :: "World \<Rightarrow> FeatureLink \<Rightarrow> FeatureAddressType" where
  "server_of w l = the (FeatureLinkGetServerAddr w l)"

definition client_of :: "World \<Rightarrow> FeatureLink \<Rightarrow> FeatureAddressType" where
  "client_of w l = the (FeatureLinkGetClientAddr w l)"

lemma link_live_addr:
  assumes "link_live w l"
  shows "FeatureLinkGetServerAddr w l = Some (server_of w l)" "FeatureLinkGetClientAddr w l = Some (client_of w l)"
  using assms by (auto simp: link_live_def server_of_def client_of_def FeatureLinkGetServerAddr_def FeatureLinkGetClientAddr_def)

lemma links_vector: "vector_ok c \<Longrightarrow> links c = vector_list c"
proof -
  assume c: "vector_ok c"
  have "List.map_filter (VectorGetElement c) [0..<VectorGetSize c] = map (\<lambda>i. vector_list c ! i) [0..<length (vector_list c)]"
    using c by (auto simp: List.map_filter_def VectorGetElement_list intro!: map_cong filter_True [symmetric, THEN sym])
  then show "links c = vector_list c" by (simp add: links_def map_nth)
qed

lemma find_link_total:
  "\<forall>l \<in> set ls. P l = Some (Q l) \<Longrightarrow> find_link P ls = Some (List.find Q ls)"
  by (induction ls) auto

lemma match_num_total:
  "\<forall>l \<in> set ls. P l = Some (Q l) \<Longrightarrow> match_num P ls = Some (length (filter Q ls))"
  by (induction ls) auto

text \<open>A container all of whose links are live, without duplicates.\<close>

definition container_ok :: "World \<Rightarrow> FeatureLinkContainer \<Rightarrow> bool" where
  "container_ok w c \<longleftrightarrow> vector_ok c \<and> distinct (vector_list c) \<and> list_all (link_live w) (vector_list c)"

lemma container_find:
  assumes "container_ok w c"
  shows "FeatureLinkContainerFind w c sa ca =
    Some (List.find (\<lambda>l. sa = Some (server_of w l) \<and> ca = Some (client_of w l)) (vector_list c))"
  unfolding FeatureLinkContainerFind_def links_vector [OF conjunct1 [OF assms [unfolded container_ok_def]]]
  using assms by (intro find_link_total) (auto simp: container_ok_def list_all_iff link_live_addr)

lemma container_has_server:
  assumes "vector_ok c" "list_all (link_live w) (vector_list c)"
  shows "FeatureLinkContainerHasServer w c sa = Some (\<exists>l \<in> set (vector_list c). sa = Some (server_of w l))"
proof -
  have "find_link (\<lambda>l. map_option (\<lambda>a. FeatureAddressCompare sa (Some a)) (FeatureLinkGetServerAddr w l)) (links c) =
      Some (List.find (\<lambda>l. sa = Some (server_of w l)) (vector_list c))"
    unfolding links_vector [OF assms(1)]
    using assms(2) by (intro find_link_total) (auto simp: list_all_iff link_live_addr)
  moreover have "(List.find P xs \<noteq> None) = (\<exists>x \<in> set xs. P x)" for P and xs :: "FeatureLink list"
    by (auto simp: find_None_iff)
  ultimately show ?thesis by (simp add: FeatureLinkContainerHasServer_def)
qed

section \<open>Removing the links of an entity\<close>

definition entity_links :: "World \<Rightarrow> Entity \<Rightarrow> FeatureLink \<Rightarrow> bool" where
  "entity_links w e l \<longleftrightarrow> entity_address e = \<lparr>ea_device = device (client_of w l), ea_entity = entity (client_of w l)\<rparr>"

definition remove_event :: "EventType \<Rightarrow> World \<Rightarrow> Device \<Rightarrow> Entity \<Rightarrow> FeatureLink \<Rightarrow> EventPayload" where
  "remove_event t w remote e l =
     \<lparr>ep_ski = device_ski remote, ep_event_type = t, ep_change_type = kElementChangeRemove,
      ep_feature = map_option fst (EntityGetFeatureWithId e (feature (client_of w l))),
      ep_local_feature = map_option fst (LocalGetFeatureWithAddress (local_device w) (Some (server_of w l)))\<rparr>"

lemma entity_match_live:
  "link_live w l \<Longrightarrow> FeatureLinkRemoteEntityMatch w l e = Some (entity_links w e l)"
  by (simp add: FeatureLinkRemoteEntityMatch_def link_live_addr entity_links_def)

lemma remove_entity_loop_spec:
  assumes "container_ok w c" "i \<le> VectorGetSize c" "n = VectorGetSize c - i"
  shows "\<exists>c'. remove_entity_loop t w remote e n i c =
      Some (c', map (remove_event t w remote e) (filter (entity_links w e) (drop i (vector_list c)))) \<and>
    container_ok w c' \<and>
    vector_list c' = take i (vector_list c) @ filter (\<lambda>l. \<not> entity_links w e l) (drop i (vector_list c))"
  using assms
proof (induction n arbitrary: i c)
  case 0
  then show ?case by (auto simp: container_ok_def)
next
  case (Suc n)
  let ?ls = "vector_list c" and ?l = "vector_list c ! i"
  have vo: "vector_ok c" "distinct ?ls" using Suc.prems(1) by (simp_all add: container_ok_def)
  then have i: "i < length ?ls" using Suc.prems by simp
  have live: "link_live w ?l" using Suc.prems(1) i by (auto simp: container_ok_def list_all_length)
  have get: "(if i < VectorGetSize c then VectorGetElement c i else None) = Some ?l"
    using vo i by (simp add: VectorGetElement_list)
  have d: "drop i ?ls = ?l # drop (Suc i) ?ls" using i by (simp add: Cons_nth_drop_Suc)
  show ?case
  proof (cases "entity_links w e ?l")
    case False
    obtain c' where c': "remove_entity_loop t w remote e n (Suc i) c =
        Some (c', map (remove_event t w remote e) (filter (entity_links w e) (drop (Suc i) ?ls)))"
      "container_ok w c'" "vector_list c' = take (Suc i) ?ls @ filter (\<lambda>l. \<not> entity_links w e l) (drop (Suc i) ?ls)"
      using Suc.IH [OF Suc.prems(1), of "Suc i"] Suc.prems i vo by (metis Suc_diff_Suc Suc_inject Suc_leI vector_length)
    then show ?thesis
      using get False entity_match_live [OF live] d i by (simp add: take_Suc_conv_app_nth)
  next
    case True
    let ?c = "FeatureLinkContainerRemove c ?l"
    have r: "vector_ok ?c" "vector_list ?c = remove1 ?l ?ls"
      using VectorRemove_list [OF vo(1)] by (simp_all add: FeatureLinkContainerRemove_def)
    have split: "vector_list ?c = take i ?ls @ drop (Suc i) ?ls"
      unfolding r(2) using i vo(2) by (intro remove1_split) (auto simp: nth_eq_iff_index_eq)
    have ok: "container_ok w ?c"
      using r vo(2) Suc.prems(1) by (auto simp: container_ok_def list_all_iff dest: notin_set_remove1)
    have size: "VectorGetSize ?c = VectorGetSize c - 1"
      using vector_length [OF r(1)] vector_length [OF vo(1)] split i by simp
    have drop: "drop i (vector_list ?c) = drop (Suc i) ?ls" "take i (vector_list ?c) = take i ?ls"
      unfolding split using i by simp_all
    have n: "n = VectorGetSize ?c - i" "i \<le> VectorGetSize ?c"
      using Suc.prems(3) size i vector_length [OF vo(1)] by simp_all
    obtain c' where c': "remove_entity_loop t w remote e n i ?c =
        Some (c', map (remove_event t w remote e) (filter (entity_links w e) (drop i (vector_list ?c))))"
      "container_ok w c'" "vector_list c' = take i (vector_list ?c) @ filter (\<lambda>l. \<not> entity_links w e l) (drop i (vector_list ?c))"
      using Suc.IH [OF ok n(2,1)] by blast
    then show ?thesis
      using get True entity_match_live [OF live] link_live_addr [OF live] d unfolding drop
      by (simp add: remove_event_def)
  qed
qed

text \<open>
  The interface the devices use to take an entity or a whole device out of a manager. Both managers
  provide it; what the removal of a device does is proved once, from the law for one entity.
\<close>

locale link_manager =
  fixes entries :: "'m \<Rightarrow> FeatureLinkContainer"
    and event :: EventType
    and remove_entity :: "World \<Rightarrow> 'm \<Rightarrow> Device \<Rightarrow> Entity option \<Rightarrow> ('m \<times> EventPayload list) option"
    and remove_device :: "World \<Rightarrow> 'm \<Rightarrow> Device \<Rightarrow> Entity list \<Rightarrow> ('m \<times> EventPayload list) option"
  assumes remove_entity_law: "container_ok w (entries m) \<Longrightarrow>
      \<exists>m'. remove_entity w m d (Some e) =
          Some (m', map (remove_event event w d e) (filter (entity_links w e) (vector_list (entries m)))) \<and>
        container_ok w (entries m') \<and>
        vector_list (entries m') = filter (\<lambda>l. \<not> entity_links w e l) (vector_list (entries m))"
    and remove_device_law: "remove_device w m d [] = Some (m, [])"
      "remove_device w m d (e # es) = Option.bind (remove_entity w m d (Some e))
         (\<lambda>r. map_option (\<lambda>(m, evs). (m, snd r @ evs)) (remove_device w (fst r) d es))"
begin

lemma remove_device_spec:
  assumes "container_ok w (entries m)"
  shows "\<exists>m' evs. remove_device w m d es = Some (m', evs) \<and> container_ok w (entries m') \<and>
    vector_list (entries m') = filter (\<lambda>l. \<forall>e \<in> set es. \<not> entity_links w e l) (vector_list (entries m)) \<and>
    length evs = length (filter (\<lambda>l. \<exists>e \<in> set es. entity_links w e l) (vector_list (entries m)))"
  using assms
proof (induction es arbitrary: m)
  case (Cons e es)
  let ?ls = "vector_list (entries m)"
  obtain m1 where m1: "remove_entity w m d (Some e) =
        Some (m1, map (remove_event event w d e) (filter (entity_links w e) ?ls))"
      "container_ok w (entries m1)" "vector_list (entries m1) = filter (\<lambda>l. \<not> entity_links w e l) ?ls"
    using remove_entity_law [OF Cons.prems] by blast
  have parts: "length (filter (\<lambda>l. P l \<or> Q l) xs) = length (filter P xs) + length (filter Q (filter (\<lambda>l. \<not> P l) xs))"
    for P Q and xs :: "FeatureLink list"
    by (induction xs) auto
  show ?case
    using Cons.IH [OF m1(2)] unfolding m1(3)
    by (auto simp: remove_device_law m1(1) parts conj_commute)
qed (auto simp: remove_device_law)

lemma remove_device_clears:
  assumes "container_ok w (entries m)" "remove_device w m d es = Some (m', evs)" "e \<in> set es"
  shows "\<forall>l \<in> set (vector_list (entries m')). \<not> entity_links w e l"
  using remove_device_spec [OF assms(1), of d es] assms(2,3) by auto

end

interpretation bindings: link_manager binding_entries kEventTypeBindingChange RemoveEntityBindings RemoveDeviceBindings_loop
proof unfold_locales
  fix w d e and m :: BindingManager
  assume "container_ok w (binding_entries m)"
  from remove_entity_loop_spec [OF this, of 0 "VectorGetSize (binding_entries m)" kEventTypeBindingChange d e]
  show "\<exists>m'. RemoveEntityBindings w m d (Some e) =
      Some (m', map (remove_event kEventTypeBindingChange w d e) (filter (entity_links w e) (vector_list (binding_entries m)))) \<and>
    container_ok w (binding_entries m') \<and>
    vector_list (binding_entries m') = filter (\<lambda>l. \<not> entity_links w e l) (vector_list (binding_entries m))"
    by (auto simp: RemoveEntityBindings_def)
qed auto

interpretation subscriptions: link_manager subscription_entries kEventTypeSubscriptionChange RemoveEntitySubscriptions
  RemoveDeviceSubscriptions_loop
proof unfold_locales
  fix w d e and m :: SubscriptionManager
  assume "container_ok w (subscription_entries m)"
  from remove_entity_loop_spec [OF this, of 0 "VectorGetSize (subscription_entries m)" kEventTypeSubscriptionChange d e]
  show "\<exists>m'. RemoveEntitySubscriptions w m d (Some e) =
      Some (m', map (remove_event kEventTypeSubscriptionChange w d e)
        (filter (entity_links w e) (vector_list (subscription_entries m)))) \<and>
    container_ok w (subscription_entries m') \<and>
    vector_list (subscription_entries m') = filter (\<lambda>l. \<not> entity_links w e l) (vector_list (subscription_entries m))"
    by (auto simp: RemoveEntitySubscriptions_def)
qed auto

text \<open>
  When a remote device is removed, its bindings and its subscriptions are removed with it: afterwards
  the managers hold, in their order, exactly the links whose client is in none of the device's entities,
  and one event has been published for every link that was removed.
\<close>

lemma remove_device_removes_links:
  assumes "container_ok w (binding_entries bm)" "container_ok w (subscription_entries sm)"
  shows "\<exists>bm' sm' bevs sevs.
    RemoveDeviceBindings w bm (Some d) = Some (bm', bevs) \<and> RemoveDeviceSubscriptions w sm (Some d) = Some (sm', sevs) \<and>
    vector_list (binding_entries bm') =
      filter (\<lambda>l. \<forall>e \<in> set (device_entities d). \<not> entity_links w e l) (vector_list (binding_entries bm)) \<and>
    vector_list (subscription_entries sm') =
      filter (\<lambda>l. \<forall>e \<in> set (device_entities d). \<not> entity_links w e l) (vector_list (subscription_entries sm)) \<and>
    length bevs + length (vector_list (binding_entries bm')) = length (vector_list (binding_entries bm)) \<and>
    length sevs + length (vector_list (subscription_entries sm')) = length (vector_list (subscription_entries sm))"
proof -
  have parts: "length (filter (\<lambda>l. \<exists>e \<in> set (device_entities d). entity_links w e l) xs) +
      length (filter (\<lambda>l. \<forall>e \<in> set (device_entities d). \<not> entity_links w e l) xs) = length xs" for xs
    using sum_length_filter_compl [of "\<lambda>l. \<exists>e \<in> set (device_entities d). entity_links w e l" xs] by simp
  obtain bm' bevs where b: "RemoveDeviceBindings_loop w bm d (device_entities d) = Some (bm', bevs)"
    "vector_list (binding_entries bm') =
      filter (\<lambda>l. \<forall>e \<in> set (device_entities d). \<not> entity_links w e l) (vector_list (binding_entries bm))"
    "length bevs = length (filter (\<lambda>l. \<exists>e \<in> set (device_entities d). entity_links w e l) (vector_list (binding_entries bm)))"
    using bindings.remove_device_spec [OF assms(1)] by blast
  obtain sm' sevs where s: "RemoveDeviceSubscriptions_loop w sm d (device_entities d) = Some (sm', sevs)"
    "vector_list (subscription_entries sm') =
      filter (\<lambda>l. \<forall>e \<in> set (device_entities d). \<not> entity_links w e l) (vector_list (subscription_entries sm))"
    "length sevs = length (filter (\<lambda>l. \<exists>e \<in> set (device_entities d). entity_links w e l) (vector_list (subscription_entries sm)))"
    using subscriptions.remove_device_spec [OF assms(2)] by blast
  show ?thesis
    using b s parts by (simp add: RemoveDeviceBindings_def RemoveDeviceSubscriptions_def)
qed

section \<open>Publication\<close>

text \<open>
  A change of a local feature is published to its subscribers and to no one else: one notification
  for each subscription whose server is the feature, in the order of the subscriptions, to the device of
  the subscribed client and with its address.
\<close>

lemma Publish_to_subscribers:
  assumes "container_ok w (subscription_entries sm)"
  shows "Publish w sm (Some addr) =
    Some (map (\<lambda>l. (device_ski (fst (the (remote_feature_at w (client_feature l)))), addr, client_of w l))
      (filter (\<lambda>l. server_of w l = addr) (vector_list (subscription_entries sm))))"
proof -
  have "publish_loop w (Some addr) ls =
      Some (map (\<lambda>l. (device_ski (fst (the (remote_feature_at w (client_feature l)))), addr, client_of w l))
        (filter (\<lambda>l. server_of w l = addr) ls))" if "list_all (link_live w) ls" for ls
    using that
  proof (induction ls)
    case (Cons l ls)
    then have live: "link_live w l" by simp
    then obtain d f where "remote_feature_at w (client_feature l) = Some (d, f)" by (auto simp: link_live_def)
    then show ?case
      using Cons link_live_addr [OF live] by (auto simp: client_of_def FeatureLinkGetClientAddr_def)
  qed simp
  then show ?thesis using assms by (simp add: Publish_def container_ok_def links_vector)
qed

section \<open>Exclusive bindings\<close>

text \<open>
  The devices as they are built: every address carries the device part, every feature the address of its
  entity, and no two features are at the same place.
\<close>

definition device_ok :: "Device \<Rightarrow> bool" where
  "device_ok d \<longleftrightarrow> device_address d \<noteq> None \<and>
     list_all (\<lambda>e. ea_device (entity_address e) = device_address d \<and>
       list_all (\<lambda>(p, f). device (feature_address f) = device_address d \<and>
         entity (feature_address f) = ea_entity (entity_address e)) (entity_features e)) (device_entities d)"

definition world_ok :: "World \<Rightarrow> bool" where
  "world_ok w \<longleftrightarrow> device_ok (local_device w) \<and> distinct (map fst (device_features (local_device w))) \<and>
     distinct (map fst (concat (map device_features (remote_devices w))))"

lemma DeviceGetEntity_SomeD:
  assumes "DeviceGetEntity d ids = Some e"
  shows "e \<in> set (device_entities d)" "ea_entity (entity_address e) = ids"
proof -
  obtain i where "i < length (device_entities d)" "e = device_entities d ! i" "EntityAddressMatchIds (entity_address e) ids"
    using assms by (auto simp: DeviceGetEntity_def find_Some_iff)
  then show "e \<in> set (device_entities d)" "ea_entity (entity_address e) = ids"
    by (auto simp: EntityAddressMatchIds_def split: if_splits)
qed

lemma EntityGetFeatureWithId_SomeD:
  assumes "EntityGetFeatureWithId e i = Some (p, f)"
  shows "(p, f) \<in> set (entity_features e)" "feature (feature_address f) = i"
  using assms by (auto simp: EntityGetFeatureWithId_def find_Some_iff in_set_conv_nth split: option.splits)

lemma LocalGetFeature_SomeD:
  assumes "LocalGetFeatureWithAddress d addr = Some (p, f)" "device_ok d"
  obtains a where "addr = Some a" "(p, f) \<in> set (device_features d)"
    "feature_address f = complete (device_address d) a"
proof -
  obtain a own e where a: "addr = Some a" "device_address d = Some own" "device a = None \<or> device a = Some own"
      "DeviceGetEntity d (entity a) = Some e" "EntityGetFeatureWithId e (feature a) = Some (p, f)"
    using assms(1) by (auto simp: LocalGetFeatureWithAddress_def bind_eq_Some_conv split: option.splits if_splits)
  note e = DeviceGetEntity_SomeD [OF a(4)] and f = EntityGetFeatureWithId_SomeD [OF a(5)]
  have mem: "(p, f) \<in> set (device_features d)" using e(1) f(1) by (auto simp: device_features_def)
  have "device (feature_address f) = Some own \<and> entity (feature_address f) = entity a"
    using assms(2) a(2) e f unfolding device_ok_def list_all_iff by fastforce
  then have "feature_address f = complete (device_address d) a"
    using a f(2) by (auto simp: complete_def)
  with that a(1) mem show thesis by blast
qed

lemma RemoteGetFeature_SomeD:
  assumes "RemoteGetFeatureWithAddress d addr = Some (Some (p, f))"
  shows "(p, f) \<in> set (device_features d)"
  using assms by (auto simp: RemoteGetFeatureWithAddress_def bind_eq_Some_conv device_features_def
      dest!: DeviceGetEntity_SomeD(1) EntityGetFeatureWithId_SomeD(1) split: option.splits)

lemma local_feature_live:
  "world_ok w \<Longrightarrow> (p, f) \<in> set (device_features (local_device w)) \<Longrightarrow> local_feature_at w (Some p) = Some f"
  by (auto simp: world_ok_def local_feature_at_def)

lemma remote_feature_live:
  assumes "d \<in> set (remote_devices w)" "(p, f) \<in> set (device_features d)"
  shows "remote_feature_at w (Some p) \<noteq> None"
proof -
  have "map_of (device_features d) p \<noteq> None" using assms(2) by (metis map_of_eq_None_iff fst_conv image_eqI)
  then have "List.find (\<lambda>d. map_of (device_features d) p \<noteq> None) (remote_devices w) \<noteq> None"
    using assms(1) unfolding find_None_iff by blast
  then obtain d' where d': "List.find (\<lambda>d. map_of (device_features d) p \<noteq> None) (remote_devices w) = Some d'" by blast
  then have "map_of (device_features d') p \<noteq> None" unfolding find_Some_iff by blast
  with d' show ?thesis unfolding remote_feature_at_def by simp
qed

text \<open>The invariant: the links are live, and no two of them have the same server feature.\<close>

definition exclusive :: "World \<Rightarrow> BindingManager \<Rightarrow> bool" where
  "exclusive w bm \<longleftrightarrow> container_ok w (binding_entries bm) \<and> distinct (map (server_of w) (vector_list (binding_entries bm)))"

text \<open>A request as the specification of the protocol has it: complete server address, and a feature type.\<close>

definition complete_request :: "BindingManagementRequestCall \<Rightarrow> bool" where
  "complete_request r \<longleftrightarrow> rq_server_feature_type r \<noteq> None \<and>
     (case rq_server_address r of None \<Rightarrow> True | Some a \<Rightarrow> device a \<noteq> None)"

text \<open>What an accepted request adds.\<close>

lemma AddBinding_OkD:
  assumes w: "world_ok w" "remote \<in> set (remote_devices w)" and t: "rq_server_feature_type req \<noteq> None"
    and ok: "container_ok w (binding_entries bm)"
    and add: "AddBinding ok w bm remote (Some req) = Some (r, bm', evs)"
  obtains "bm' = bm"
  | a l where "rq_server_address req = Some a" "vector_ok (binding_entries bm')"
      "vector_list (binding_entries bm') = vector_list (binding_entries bm) \<or>
       vector_list (binding_entries bm') = vector_list (binding_entries bm) @ [l]"
      "link_live w l" "server_of w l = complete (device_address (local_device w)) a" "link_id l = binding_num bm"
      "\<forall>k \<in> set (vector_list (binding_entries bm)). server_of w k \<noteq> a"
proof (cases "bm' = bm")
  case False
  obtain ft where ft: "rq_server_feature_type req = Some ft" using t by blast
  obtain sp sf cp cf where s: "LocalGetFeatureWithAddress (local_device w) (rq_server_address req) = Some (sp, sf)"
      and c: "RemoteGetFeatureWithAddress remote (rq_client_address req) = Some (Some (cp, cf))"
      and has: "FeatureLinkContainerHasServer w (binding_entries bm) (rq_server_address req) = Some False"
      and push: "VectorPushBack ok (binding_entries bm) (Some (FeatureLinkCreate (binding_num bm) (Some sp) (Some cp))) =
        Some (binding_entries bm')"
    using add False ft
    by (auto simp: AddBinding_def Let_def FeatureLinkContainerAdd_def FeatureParametersMatch_def bind_eq_Some_conv
        split: if_splits option.splits)
  let ?l = "FeatureLinkCreate (binding_num bm) (Some sp) (Some cp)"
  obtain a where a: "rq_server_address req = Some a" "(sp, sf) \<in> set (device_features (local_device w))"
      "feature_address sf = complete (device_address (local_device w)) a"
    using LocalGetFeature_SomeD [OF s] w(1) by (auto simp: world_ok_def)
  have live: "local_feature_at w (Some sp) = Some sf" by (rule local_feature_live [OF w(1) a(2)])
  have ll: "link_live w ?l" "server_of w ?l = complete (device_address (local_device w)) a"
    using live remote_feature_live [OF w(2) RemoteGetFeature_SomeD [OF c]] a(3)
    by (auto simp: link_live_def FeatureLinkCreate_def server_of_def FeatureLinkGetServerAddr_def)
  have vo: "vector_ok (binding_entries bm)" using ok by (simp add: container_ok_def)
  have no: "\<forall>k \<in> set (vector_list (binding_entries bm)). server_of w k \<noteq> a"
    using has a(1) ok by (auto simp: container_has_server container_ok_def)
  show thesis
    using that(2) [OF a(1) _ _ ll _ no] VectorPushBack_SomeD [OF vo push] by (simp add: FeatureLinkCreate_def)
qed (rule that(1))

text \<open>The operations of the manager in any order, and whatever the allocator answers.\<close>

inductive binding_step :: "World \<Rightarrow> BindingManager \<Rightarrow> BindingManager \<Rightarrow> bool" for w where
  add: "remote \<in> set (remote_devices w) \<Longrightarrow> complete_request req \<Longrightarrow>
    AddBinding ok w bm remote (Some req) = Some (r, bm', evs) \<Longrightarrow> binding_step w bm bm'"
| remove: "RemoveBinding w bm (Some req) remote = Some (r, bm', evs) \<Longrightarrow> binding_step w bm bm'"
| remove_entity: "RemoveEntityBindings w bm remote e = Some (bm', evs) \<Longrightarrow> binding_step w bm bm'"
| remove_device: "RemoveDeviceBindings w bm remote = Some (bm', evs) \<Longrightarrow> binding_step w bm bm'"

inductive binding_reachable :: "World \<Rightarrow> BindingManager \<Rightarrow> bool" for w where
  construct: "binding_reachable w BindingManagerConstruct"
| step: "binding_reachable w bm \<Longrightarrow> binding_step w bm bm' \<Longrightarrow> binding_reachable w bm'"

lemma exclusive_construct: "exclusive w BindingManagerConstruct"
  by (simp add: exclusive_def container_ok_def BindingManagerConstruct_def VectorConstruct_ok VectorConstruct_list)

text \<open>A manager that has lost links and gained none is still exclusive.\<close>

lemma exclusive_sub:
  assumes "exclusive w bm" "vector_ok (binding_entries bm')"
    "vector_list (binding_entries bm') = filter P (vector_list (binding_entries bm))"
  shows "exclusive w bm'"
  using assms by (auto simp: exclusive_def container_ok_def list_all_iff distinct_map_filter)

lemma AddBinding_exclusive:
  assumes w: "world_ok w" "remote \<in> set (remote_devices w)" and req: "complete_request req"
    and ex: "exclusive w bm" and add: "AddBinding ok w bm remote (Some req) = Some (r, bm', evs)"
  shows "exclusive w bm'"
proof -
  have ok: "container_ok w (binding_entries bm)" and t: "rq_server_feature_type req \<noteq> None"
    using ex req by (simp_all add: exclusive_def complete_request_def)
  from AddBinding_OkD [OF w t ok add] show ?thesis
  proof cases
    case 1
    then show ?thesis using ex by simp
  next
    case (2 a l)
    then have "complete (device_address (local_device w)) a = a"
      using req by (auto simp: complete_request_def complete_def)
    then have "server_of w l = a" "l \<notin> set (vector_list (binding_entries bm))"
      "a \<notin> server_of w ` set (vector_list (binding_entries bm))" using 2 by auto
    then show ?thesis using 2(2-4) ex by (auto simp: exclusive_def container_ok_def)
  qed
qed

lemma RemoveBinding_exclusive:
  assumes ex: "exclusive w bm" and rm: "RemoveBinding w bm (Some req) remote = Some (r, bm', evs)"
  shows "exclusive w bm'"
proof -
  have vo: "vector_ok (binding_entries bm)" "distinct (vector_list (binding_entries bm))"
    using ex by (simp_all add: exclusive_def container_ok_def)
  have "bm' = bm \<or> (\<exists>l. binding_entries bm' = VectorRemove (binding_entries bm) (Some l))"
    using rm by (auto simp: RemoveBinding_def FeatureLinkContainerRemove_def
        split: bind_splits option.splits if_splits)
  then show ?thesis
    using ex exclusive_sub [OF ex] VectorRemove_list [OF vo(1)] distinct_remove1_removeAll [OF vo(2)]
    by (metis removeAll_filter_not_eq)
qed

lemma RemoveDevice_exclusive:
  assumes ex: "exclusive w bm" and rm: "RemoveDeviceBindings_loop w bm d es = Some (bm', evs)"
  shows "exclusive w bm'"
  using bindings.remove_device_spec [of w bm d es] ex rm exclusive_sub [OF ex, of bm']
  by (auto simp: exclusive_def container_ok_def)

lemma binding_step_exclusive:
  assumes "binding_step w bm bm'" "world_ok w" "exclusive w bm"
  shows "exclusive w bm'"
  using assms
proof cases
  case (remove_entity remote e evs)
  show ?thesis
  proof (cases e)
    case (Some x)
    then show ?thesis using RemoveDevice_exclusive [of w bm remote "[x]" bm' evs] remove_entity assms(3) by simp
  qed (use remove_entity assms(3) in \<open>simp add: RemoveEntityBindings_def\<close>)
next
  case (remove_device remote evs)
  then show ?thesis using assms(3)
    by (auto simp: RemoveDeviceBindings_def intro: RemoveDevice_exclusive split: option.splits)
qed (auto intro: AddBinding_exclusive RemoveBinding_exclusive)


section \<open>Server addresses without their device part\<close>

lemma server_of_device:
  assumes w: "world_ok w" and l: "link_live w l"
  shows "device (server_of w l) \<noteq> None"
proof -
  obtain p f where f: "map_of (device_features (local_device w)) p = Some f" "server_of w l = feature_address f"
    using l by (auto simp: link_live_def server_of_def FeatureLinkGetServerAddr_def local_feature_at_def bind_eq_Some_conv)
  from map_of_SomeD [OF f(1)] obtain e where "e \<in> set (device_entities (local_device w))" "(p, f) \<in> set (entity_features e)"
    by (auto simp: device_features_def)
  then show ?thesis using w f(2) unfolding world_ok_def device_ok_def list_all_iff by fastforce
qed

lemma AddBinding_without_device:
  assumes w: "world_ok w" "remote \<in> set (remote_devices w)"
    and c: "vector_ok (binding_entries bm)" "list_all (link_live w) (vector_list (binding_entries bm))"
      "num_elements (binding_entries bm) < num_elements_max"
    and req: "rq_server_address req = Some a" "device a = None" "rq_server_feature_type req = Some t"
    and server: "LocalGetFeatureWithAddress (local_device w) (Some a) = Some (sp, sf)"
      "FeatureParametersMatch (Some sf) kRoleTypeServer t"
    and client: "RemoteGetFeatureWithAddress remote (rq_client_address req) = Some (Some (cp, cf))"
      "FeatureParametersMatch (Some cf) kRoleTypeClient t"
  shows "\<exists>bm' evs l. AddBinding True w bm remote (Some req) = Some (kEebusErrorOk, bm', evs) \<and>
    vector_ok (binding_entries bm') \<and> vector_list (binding_entries bm') = vector_list (binding_entries bm) @ [l] \<and>
    link_live w l \<and> server_of w l = complete (device_address (local_device w)) a"
proof -
  let ?l = "FeatureLinkCreate (binding_num bm) (Some sp) (Some cp)"
  have "device_ok (local_device w)" using w(1) by (simp add: world_ok_def)
  then obtain a' where a': "Some a = Some a'" "(sp, sf) \<in> set (device_features (local_device w))"
      "feature_address sf = complete (device_address (local_device w)) a'"
    using LocalGetFeature_SomeD [OF server(1)] by blast
  have live: "local_feature_at w (Some sp) = Some sf" by (rule local_feature_live [OF w(1) a'(2)])
  have ll: "link_live w ?l" "server_of w ?l = complete (device_address (local_device w)) a"
    using live remote_feature_live [OF w(2) RemoteGetFeature_SomeD [OF client(1)]] a'
    by (auto simp: link_live_def FeatureLinkCreate_def server_of_def FeatureLinkGetServerAddr_def)
  have "FeatureLinkContainerHasServer w (binding_entries bm) (Some a) = Some False"
    using server_of_device [OF w(1)] c(2) req(2) unfolding container_has_server [OF c(1,2)] list_all_iff by fastforce
  moreover obtain v where "VectorPushBack True (binding_entries bm) (Some ?l) = Some v" "vector_ok v"
      "vector_list v = vector_list (binding_entries bm) @ [?l]"
    using VectorPushBack_ok [OF c(1), of True ?l] c(3) by blast
  ultimately show ?thesis
    using req server client ll by (auto simp: AddBinding_def FeatureLinkContainerAdd_def)
qed

text \<open>
  The rule that a local feature has one binding depends on the form of the request. A request whose
  server address lacks the device part, which the look-up of the feature accepts, is compared as it is
  with the complete addresses of the bindings and never found: sent twice it is accepted twice, and the
  feature has two bindings.
\<close>

lemma binding_without_device_part_twice:
  assumes w: "world_ok w" "remote \<in> set (remote_devices w)"
    and c: "vector_ok (binding_entries bm)" "list_all (link_live w) (vector_list (binding_entries bm))"
      "num_elements (binding_entries bm) + 1 < num_elements_max"
    and req: "rq_server_address req = Some a" "device a = None" "rq_server_feature_type req = Some t"
    and server: "LocalGetFeatureWithAddress (local_device w) (Some a) = Some (sp, sf)"
      "FeatureParametersMatch (Some sf) kRoleTypeServer t"
    and client: "RemoteGetFeatureWithAddress remote (rq_client_address req) = Some (Some (cp, cf))"
      "FeatureParametersMatch (Some cf) kRoleTypeClient t"
  shows "\<exists>bm1 bm2 evs1 evs2 l1 l2. AddBinding True w bm remote (Some req) = Some (kEebusErrorOk, bm1, evs1) \<and>
    AddBinding True w bm1 remote (Some req) = Some (kEebusErrorOk, bm2, evs2) \<and>
    vector_list (binding_entries bm2) = vector_list (binding_entries bm) @ [l1, l2] \<and> server_of w l1 = server_of w l2"
proof -
  obtain bm1 evs1 l1 where b1: "AddBinding True w bm remote (Some req) = Some (kEebusErrorOk, bm1, evs1)"
      "vector_ok (binding_entries bm1)" "vector_list (binding_entries bm1) = vector_list (binding_entries bm) @ [l1]"
      "link_live w l1" "server_of w l1 = complete (device_address (local_device w)) a"
    using AddBinding_without_device [OF w c(1,2) _ req server client] c(3) by (auto simp: less_Suc_eq)
  have live: "list_all (link_live w) (vector_list (binding_entries bm1))" using c(2) b1(3,4) by simp
  have "num_elements (binding_entries bm1) < num_elements_max"
    using vector_length [OF b1(2)] vector_length [OF c(1)] b1(3) c(3) by (simp add: VectorGetSize_def)
  then obtain bm2 evs2 l2 where "AddBinding True w bm1 remote (Some req) = Some (kEebusErrorOk, bm2, evs2)"
      "vector_list (binding_entries bm2) = vector_list (binding_entries bm1) @ [l2]"
      "server_of w l2 = complete (device_address (local_device w)) a"
    using AddBinding_without_device [OF w b1(2) live _ req server client] by blast
  with b1 show ?thesis by (metis append_assoc append_Cons append_Nil)
qed

section \<open>Listing the links of a device\<close>

definition of_device :: "World \<Rightarrow> Device \<Rightarrow> FeatureLink \<Rightarrow> bool" where
  "of_device w remote l \<longleftrightarrow> FeatureLinkRemoteDeviceMatch w l remote = Some True"

definition link_entry_of :: "World \<Rightarrow> FeatureLink \<Rightarrow> link_entry" where
  "link_entry_of w l = (link_id l, server_of w l, client_of w l)"

lemma device_match_live: "link_live w l \<Longrightarrow> FeatureLinkRemoteDeviceMatch w l remote = Some (of_device w remote l)"
  by (auto simp: link_live_def of_device_def FeatureLinkRemoteDeviceMatch_def)

lemma entry_live: "link_live w l \<Longrightarrow> CreateLinkEntryData w l = Some (link_entry_of w l)"
  by (simp add: CreateLinkEntryData_def link_live_addr link_entry_of_def)

lemma add_entries_none:
  "list_all (link_live w) ls \<Longrightarrow> filter (of_device w r) ls = [] \<Longrightarrow> add_entries_loop w r i ls buf n = Some (buf, n)"
  by (induction ls arbitrary: i) (auto simp: device_match_live split: if_splits)

lemma add_entries_overflow:
  assumes "list_all (link_live w) ls" "j < length ls" "of_device w r (ls ! j)" "length buf \<le> i + j"
  shows "add_entries_loop w r i ls buf n = None"
  using assms
proof (induction ls arbitrary: i j buf n)
  case (Cons l ls)
  then show ?case
    by (cases j) (auto simp: device_match_live entry_live)
qed simp

lemma takeWhile_eq_filter:
  "\<forall>j < length xs. P (xs ! j) \<longrightarrow> j < length (filter P xs) \<Longrightarrow> takeWhile P xs = filter P xs"
proof (induction xs rule: rev_induct)
  case (snoc x xs)
  show ?case
  proof (cases "P x")
    case True
    then have "length xs \<le> length (filter P xs)" using snoc.prems by (auto dest: spec [of _ "length xs"])
    then have "length (filter P xs) = length xs" using length_filter_le [of P xs] by simp
    then have "filter P xs = xs" by (metis filter_True length_filter_less nat_neq_iff)
    then show ?thesis using True by (metis filter_append filter.simps filter_id_conv takeWhile_eq_all_conv)
  next
    case False
    have "\<forall>j < length xs. P (xs ! j) \<longrightarrow> j < length (filter P xs)"
      using snoc.prems False by (auto simp: nth_append split: if_splits)
    then show ?thesis using snoc.IH False by (simp add: takeWhile_tail)
  qed
qed simp

lemma add_entries_in_front:
  assumes "list_all (link_live w) ls" "takeWhile (of_device w r) ls = filter (of_device w r) ls"
    "i + length (filter (of_device w r) ls) \<le> length buf"
  shows "add_entries_loop w r i ls buf n =
    Some (take i buf @ map (Some \<circ> link_entry_of w) (filter (of_device w r) ls) @
        drop (i + length (filter (of_device w r) ls)) buf, n + length (filter (of_device w r) ls))"
  using assms
proof (induction ls arbitrary: i buf n)
  case (Cons l ls)
  show ?case
  proof (cases "of_device w r l")
    case True
    then have "add_entries_loop w r i (l # ls) buf n =
        add_entries_loop w r (Suc i) ls (buf[i := Some (link_entry_of w l)]) (Suc n)"
      using Cons.prems by (simp add: device_match_live entry_live)
    also have "\<dots> = Some (take (Suc i) (buf[i := Some (link_entry_of w l)]) @
        map (Some \<circ> link_entry_of w) (filter (of_device w r) ls) @
        drop (Suc i + length (filter (of_device w r) ls)) (buf[i := Some (link_entry_of w l)]),
        Suc n + length (filter (of_device w r) ls))"
      using Cons.prems True by (intro Cons.IH) auto
    finally show ?thesis using True Cons.prems by (simp add: take_Suc_conv_app_nth drop_update_cancel)
  next
    case False
    then have "filter (of_device w r) ls = []" using Cons.prems(2) by (metis filter.simps(2) takeWhile.simps(2))
    then show ?thesis
      using False add_entries_none [of w ls r "Suc i" buf n] Cons.prems by (simp add: device_match_live)
  qed
qed auto

lemma match_num_live:
  assumes "container_ok w c"
  shows "FeatureLinkContainerGetRemoteDeviceMatchNum w c r = Some (length (filter (of_device w r) (vector_list c)))"
  unfolding FeatureLinkContainerGetRemoteDeviceMatchNum_def
  using assms by (subst links_vector) (auto simp: container_ok_def list_all_iff device_match_live intro!: match_num_total)

text \<open>The listing of the links of a device: there is one exactly if they come before all others.\<close>

definition listing :: "World \<Rightarrow> Device \<Rightarrow> FeatureLink list \<Rightarrow> (link_entry option list \<times> nat) option" where
  "listing w r ls =
     (if takeWhile (of_device w r) ls = filter (of_device w r) ls
      then Some (map (Some \<circ> link_entry_of w) (filter (of_device w r) ls), length (filter (of_device w r) ls)) else None)"

lemma listing_none: "filter (of_device w r) ls = [] \<Longrightarrow> listing w r ls = Some ([], 0)"
  by (cases ls) (auto simp: listing_def split: if_splits)

lemma add_entries_spec:
  assumes ok: "container_ok w c"
  shows "add_entries_loop w r 0 (links c) (replicate (length (filter (of_device w r) (vector_list c))) None) 0 =
    listing w r (vector_list c)"
proof -
  let ?ls = "vector_list c"
  have ls: "links c = ?ls" "list_all (link_live w) ?ls"
    using ok by (auto simp: container_ok_def links_vector)
  show ?thesis
  proof (cases "takeWhile (of_device w r) ?ls = filter (of_device w r) ?ls")
    case True
    then show ?thesis
      using add_entries_in_front [OF ls(2) True, of 0] by (simp add: listing_def ls(1))
  next
    case False
    then obtain j where "j < length ?ls" "of_device w r (?ls ! j)" "length (filter (of_device w r) ?ls) \<le> j"
      using takeWhile_eq_filter [of ?ls "of_device w r"] by (meson not_less)
    then show ?thesis using add_entries_overflow [OF ls(2)] False by (simp add: ls(1) listing_def)
  qed
qed

text \<open>
  The reply to a read of the bindings. It lists the bindings of the asking device, in their order, if
  they are the first ones of the manager; as soon as a binding of another device is in front of one of
  them, an entry is written behind the end of the buffer, because the buffer is as long as the number of
  the device's bindings and is indexed with the position among all bindings. The subscriptions are listed
  the same way.
\<close>

lemma link_entries_in_front:
  assumes "container_ok w (binding_entries bm)" "container_ok w (subscription_entries sm)"
  shows "AddBindingEntries w bm r = listing w r (vector_list (binding_entries bm)) \<and>
    AddSubscriptionEntries w sm r = listing w r (vector_list (subscription_entries sm))"
  by (simp add: AddBindingEntries_def AddSubscriptionEntries_def match_num_live [OF assms(1)] match_num_live [OF assms(2)]
      add_entries_spec [OF assms(1)] add_entries_spec [OF assms(2)] listing_none)

section \<open>An example\<close>

text \<open>A local device with one feature, two remote devices with one feature each.\<close>

definition example_device :: "string \<Rightarrow> ptr \<Rightarrow> RoleType \<Rightarrow> Device" where
  "example_device nm p r =
     \<lparr>device_ski = nm, device_address = Some nm,
      device_entities = [\<lparr>entity_address = \<lparr>ea_device = Some nm, ea_entity = Some [Some 1]\<rparr>,
        entity_features = [(p, \<lparr>feature_address = \<lparr>device = Some nm, entity = Some [Some 1], feature = Some 2\<rparr>,
          feature_type = 3, feature_role = r, feature_desc = None\<rparr>)],
        entity_type = 0, entity_desc = None, next_feature_id = 3\<rparr>], device_type = None, device_feature_set = Some None\<rparr>"

definition example_world :: World where
  "example_world =
     \<lparr>local_device = example_device ''L'' 1 kRoleTypeServer,
      remote_devices = [example_device ''A'' 2 kRoleTypeClient, example_device ''B'' 3 kRoleTypeClient]\<rparr>"

definition example_link :: "u64 \<Rightarrow> ptr \<Rightarrow> FeatureLink" where
  "example_link i p = FeatureLinkCreate i (Some 1) (Some p)"

definition example_bindings :: BindingManager where
  "example_bindings =
     \<lparr>binding_num = 2, binding_entries =
        \<lparr>elements = Some [Some (example_link 0 3), Some (example_link 1 2)], num_elements = 2, buffer_size = 16\<rparr>\<rparr>"

definition example_subscriptions :: SubscriptionManager where
  "example_subscriptions = \<lparr>subscription_num = 2, subscription_entries = binding_entries example_bindings\<rparr>"

lemmas example_simps = example_device_def example_world_def example_link_def example_bindings_def example_subscriptions_def
  FeatureLinkCreate_def

lemma example_list:
  "vector_list (binding_entries example_bindings) = [example_link 0 3, example_link 1 2]"
  "vector_list (subscription_entries example_subscriptions) = [example_link 0 3, example_link 1 2]"
  by (simp_all add: example_bindings_def example_subscriptions_def vector_list_def numeral_2_eq_2)

lemma example_at:
  "local_feature_at example_world (Some 1) \<noteq> None" "remote_feature_at example_world (Some 2) \<noteq> None"
  "remote_feature_at example_world (Some 3) \<noteq> None"
  "client_of example_world (example_link i 2) = \<lparr>device = Some ''A'', entity = Some [Some 1], feature = Some 2\<rparr>"
  "client_of example_world (example_link i 3) = \<lparr>device = Some ''B'', entity = Some [Some 1], feature = Some 2\<rparr>"
  "server_of example_world (example_link i p) = \<lparr>device = Some ''L'', entity = Some [Some 1], feature = Some 2\<rparr>"
  by (simp_all add: example_simps local_feature_at_def remote_feature_at_def device_features_def client_of_def
      server_of_def FeatureLinkGetClientAddr_def FeatureLinkGetServerAddr_def)

lemma example_ok:
  "world_ok example_world" "container_ok example_world (binding_entries example_bindings)"
  "container_ok example_world (subscription_entries example_subscriptions)"
proof -
  show "world_ok example_world"
    by (simp add: example_simps world_ok_def device_ok_def device_features_def)
  have "link_live example_world (example_link i 2)" "link_live example_world (example_link i 3)" for i
    using example_at by (simp_all add: link_live_def example_link_def FeatureLinkCreate_def)
  moreover have "vector_ok (binding_entries example_bindings)"
    by (simp add: example_bindings_def vector_ok_def pointer_size_def numeral_2_eq_2)
  moreover have "example_link 0 3 \<noteq> example_link 1 2" by (simp add: example_link_def FeatureLinkCreate_def)
  ultimately show "container_ok example_world (binding_entries example_bindings)"
    by (simp add: container_ok_def example_list)
  then show "container_ok example_world (subscription_entries example_subscriptions)"
    by (simp add: example_subscriptions_def)
qed

lemma example_links:
  "entity_links example_world e (example_link i 2) \<longleftrightarrow> entity_address e = \<lparr>ea_device = Some ''A'', ea_entity = Some [Some 1]\<rparr>"
  "entity_links example_world e (example_link i 3) \<longleftrightarrow> entity_address e = \<lparr>ea_device = Some ''B'', ea_entity = Some [Some 1]\<rparr>"
  by (simp_all add: entity_links_def example_at)

lemma example_of_device:
  "of_device example_world (example_device nm p r) (example_link i 2) \<longleftrightarrow> nm = ''A''"
  "of_device example_world (example_device nm p r) (example_link i 3) \<longleftrightarrow> nm = ''B''"
  by (auto simp: of_device_def FeatureLinkRemoteDeviceMatch_def remote_feature_at_def device_features_def example_simps)

theorem remove_device_removes_links_witness:
  "\<exists>bm' bevs. RemoveDeviceBindings example_world example_bindings (Some (example_device ''A'' 2 kRoleTypeClient)) = Some (bm', bevs) \<and>
     vector_list (binding_entries bm') = [example_link 0 3] \<and> length bevs = 1"
  using remove_device_removes_links [OF example_ok(2,3), of "example_device ''A'' 2 kRoleTypeClient"]
  by (auto simp: example_list example_links example_device_def)

lemma Publish_example:
  "Publish example_world example_subscriptions (Some \<lparr>device = Some ''L'', entity = Some [Some 1], feature = Some 2\<rparr>) =
     Some [(''B'', \<lparr>device = Some ''L'', entity = Some [Some 1], feature = Some 2\<rparr>,
             \<lparr>device = Some ''B'', entity = Some [Some 1], feature = Some 2\<rparr>),
           (''A'', \<lparr>device = Some ''L'', entity = Some [Some 1], feature = Some 2\<rparr>,
             \<lparr>device = Some ''A'', entity = Some [Some 1], feature = Some 2\<rparr>)]"
  by (subst Publish_to_subscribers [OF example_ok(3)])
    (simp add: example_list example_at, simp add: example_simps remote_feature_at_def device_features_def)

theorem link_entries_in_front_witness:
  "AddBindingEntries example_world example_bindings (example_device ''A'' 2 kRoleTypeClient) = None \<and>
   AddBindingEntries example_world example_bindings (example_device ''B'' 3 kRoleTypeClient) =
     Some ([Some (link_entry_of example_world (example_link 0 3))], 1)"
  using link_entries_in_front [OF example_ok(2,3), of "example_device ''A'' 2 kRoleTypeClient"]
    link_entries_in_front [OF example_ok(2,3), of "example_device ''B'' 3 kRoleTypeClient"]
  by (simp add: listing_def example_list example_of_device)

definition example_request :: "string option \<Rightarrow> BindingManagementRequestCall" where
  "example_request d =
     \<lparr>rq_client_address = Some \<lparr>device = Some ''A'', entity = Some [Some 1], feature = Some 2\<rparr>,
      rq_server_address = Some \<lparr>device = d, entity = Some [Some 1], feature = Some 2\<rparr>, rq_server_feature_type = Some 3\<rparr>"

lemma example_lookups:
  "LocalGetFeatureWithAddress (local_device example_world)
     (Some \<lparr>device = None, entity = Some [Some 1], feature = Some 2\<rparr>) =
   Some (1, \<lparr>feature_address = \<lparr>device = Some ''L'', entity = Some [Some 1], feature = Some 2\<rparr>,
     feature_type = 3, feature_role = kRoleTypeServer, feature_desc = None\<rparr>)"
  "RemoteGetFeatureWithAddress (example_device ''A'' 2 kRoleTypeClient)
     (Some \<lparr>device = Some ''A'', entity = Some [Some 1], feature = Some 2\<rparr>) =
   Some (Some (2, \<lparr>feature_address = \<lparr>device = Some ''A'', entity = Some [Some 1], feature = Some 2\<rparr>,
     feature_type = 3, feature_role = kRoleTypeClient, feature_desc = None\<rparr>))"
  by (simp_all add: LocalGetFeatureWithAddress_def RemoteGetFeatureWithAddress_def example_simps DeviceGetEntity_def
      EntityAddressMatchIds_def EntityGetFeatureWithId_def)

theorem binding_without_device_part_twice_witness:
  "\<exists>bm1 bm2 evs1 evs2 l1 l2.
     AddBinding True example_world BindingManagerConstruct (example_device ''A'' 2 kRoleTypeClient)
       (Some (example_request None)) = Some (kEebusErrorOk, bm1, evs1) \<and>
     AddBinding True example_world bm1 (example_device ''A'' 2 kRoleTypeClient)
       (Some (example_request None)) = Some (kEebusErrorOk, bm2, evs2) \<and>
     vector_list (binding_entries bm2) = [l1, l2] \<and> server_of example_world l1 = server_of example_world l2"
proof -
  have c: "vector_ok (binding_entries BindingManagerConstruct)"
      "list_all (link_live example_world) (vector_list (binding_entries BindingManagerConstruct))"
      "num_elements (binding_entries BindingManagerConstruct) + 1 < num_elements_max"
    by (simp_all add: BindingManagerConstruct_def vector_ok_def vector_list_def VectorConstruct_def num_elements_max_def
        pointer_size_def)
  have "example_device ''A'' 2 kRoleTypeClient \<in> set (remote_devices example_world)" by (simp add: example_world_def)
  from binding_without_device_part_twice [OF example_ok(1) this c, of "example_request None" _ 3, OF _ _ _ example_lookups(1)]
  show ?thesis
    using example_lookups(2)
    by (simp add: example_request_def FeatureParametersMatch_def BindingManagerConstruct_def VectorConstruct_list)
qed


end
