(* ===== verification/Spine_Sender.thy ===== *)
theory Spine_Sender
  imports Spine_Function Spine_Links_Laws
begin

text \<open>
  Datagrams and the sender: \<^verbatim>\<open>spine/model/datagram.h\<close>, \<^verbatim>\<open>spine/device/sender.c\<close>, and the structures the sender
  builds (results, binding and subscription calls) together with what a receiver reads from them. The
  writer is given the text of a datagram; the log \<open>written\<close> holds the datagrams themselves. Allocations
  succeed.
\<close>

section \<open>Datagrams\<close>

datatype CommandClassifierType =
    kCommandClassifierTypeRead | kCommandClassifierTypeReply | kCommandClassifierTypeNotify
  | kCommandClassifierTypeWrite | kCommandClassifierTypeCall | kCommandClassifierTypeResult

record HeaderType =
  spec_version :: "string option"
  src_addr :: "FeatureAddressType option"
  dest_addr :: "FeatureAddressType option"
  originator_addr :: "FeatureAddressType option"
  msg_cnt :: "u64 option"
  msg_cnt_ref :: "u64 option"
  cmd_classifier :: "CommandClassifierType option"
  ack_request :: "bool option"

record DatagramType =
  header :: "HeaderType option"
  payload :: "CmdType option list option"

definition specification_version :: string where "specification_version = ''1.3.0''"

definition DatagramHeaderIsValid :: "HeaderType option \<Rightarrow> bool" where
  "DatagramHeaderIsValid h =
     (case h of
        None \<Rightarrow> False
      | Some h \<Rightarrow>
          spec_version h \<noteq> None \<and> FeatureAddressIsValid (src_addr h) \<and> FeatureAddressIsValid (dest_addr h) \<and>
          (originator_addr h \<noteq> None \<longrightarrow>
             FeatureAddressIsValid (originator_addr h) \<and> Option.bind (originator_addr h) device \<noteq> None) \<and>
          msg_cnt h \<noteq> None \<and> cmd_classifier h \<noteq> None)"

definition DatagramIsValid :: "DatagramType option \<Rightarrow> bool" where
  "DatagramIsValid d = (case d of None \<Rightarrow> False | Some d \<Rightarrow> DatagramHeaderIsValid (header d))"

section \<open>Structures in datagrams\<close>


definition kErrorNumberTypeNoError :: u32 where "kErrorNumberTypeNoError = 0"
definition kErrorNumberTypeGeneralError :: u32 where "kErrorNumberTypeGeneralError = 1"
definition kErrorNumberTypeTimeout :: u32 where "kErrorNumberTypeTimeout = 2"

record ErrorType =
  error_number :: u32
  description :: "string option"

text \<open>Reading the values back; \<open>None\<close> is a value of another type.\<close>

definition value_number :: "EebusData \<Rightarrow> u32 option option" where
  "value_number v =
     (case v of
        Null \<Rightarrow> Some None
      | Simple [a, b, c, d] \<Rightarrow>
          Some (Some (of_nat (of_char a + 256 * (of_char b + 256 * (of_char c + 256 * of_char d)))))
      | _ \<Rightarrow> None)"

definition value_string :: "EebusData \<Rightarrow> string option option" where
  "value_string v = (case v of Null \<Rightarrow> Some None | Str s \<Rightarrow> Some (Some s) | _ \<Rightarrow> None)"

definition value_entity :: "EebusData \<Rightarrow> u32 option list option option" where
  "value_entity v =
     (case v of Null \<Rightarrow> Some None | Lst ns \<Rightarrow> map_option Some (those (map value_number ns)) | _ \<Rightarrow> None)"

definition value_feature_address :: "EebusData \<Rightarrow> FeatureAddressType option option" where
  "value_feature_address v =
     (case v of
        Null \<Rightarrow> Some None
      | Seq [d, e, f] \<Rightarrow> do {
          d' \<leftarrow> value_string d; e' \<leftarrow> value_entity e; f' \<leftarrow> value_number f;
          Some (Some \<lparr>device = d', entity = e', feature = f'\<rparr>)
        }
      | _ \<Rightarrow> None)"

definition request_call_value :: "BindingManagementRequestCall \<Rightarrow> EebusData" where
  "request_call_value r =
     Seq [Seq [feature_address_value (rq_client_address r), feature_address_value (rq_server_address r),
               number_value (map_option of_nat (rq_server_feature_type r))]]"

definition value_request_call :: "EebusData \<Rightarrow> BindingManagementRequestCall option option" where
  "value_request_call v =
     (case v of
        Seq [Null] \<Rightarrow> Some None
      | Seq [Seq [c, s, t]] \<Rightarrow> do {
          c' \<leftarrow> value_feature_address c; s' \<leftarrow> value_feature_address s; t' \<leftarrow> value_number t;
          Some (Some \<lparr>rq_client_address = c', rq_server_address = s', rq_server_feature_type = map_option unat t'\<rparr>)
        }
      | _ \<Rightarrow> None)"

definition delete_call_value :: "BindingManagementDeleteCall \<Rightarrow> EebusData" where
  "delete_call_value r =
     Seq [Seq [Null, feature_address_value (dl_client_address r), feature_address_value (dl_server_address r)]]"

definition value_delete_call :: "EebusData \<Rightarrow> BindingManagementDeleteCall option option" where
  "value_delete_call v =
     (case v of
        Seq [Null] \<Rightarrow> Some None
      | Seq [Seq [i, c, s]] \<Rightarrow> do {
          c' \<leftarrow> value_feature_address c; s' \<leftarrow> value_feature_address s;
          Some (Some \<lparr>dl_client_address = c', dl_server_address = s'\<rparr>)
        }
      | _ \<Rightarrow> None)"

definition result_data_value :: "u32 \<Rightarrow> string option \<Rightarrow> EebusData" where
  "result_data_value n s = Seq [number_value (Some n), string_value s]"

lemma value_number_inv [simp]: "value_number (number_value n) = Some n"
proof (cases n)
  case (Some w)
  define m where "m = unat w"
  have m: "m < 2 ^ 32" unfolding m_def using unsigned_less [of w, where ?'a = nat] by simp
  have drop: "unat (drop_bit k w) = m div 2 ^ k" for k
    using unat_drop_bit_eq [of k w] drop_bit_eq_div [of k "unat w"] by (simp add: m_def)
  have up: "[0..<4] = [0, 1, 2, 3 :: nat]" by code_simp
  have "m mod 256 + 256 * (m div 2 ^ 8 mod 256 + 256 * (m div 2 ^ 16 mod 256 + 256 * (m div 2 ^ 24 mod 256))) = m"
  proof -
    have "m div 2 ^ 16 = m div 2 ^ 8 div 256" "m div 2 ^ 24 = m div 2 ^ 16 div 256" by (simp_all add: div_mult2_eq [symmetric])
    moreover have "m div 2 ^ 24 mod 256 = m div 2 ^ 24" using m by (simp add: less_mult_imp_div_less)
    ultimately show ?thesis using mod_mult_div_eq [of _ 256] by (simp add: mod_div_mult_eq)
  qed
  then have "(of_nat (of_char (char_of (m div 2 ^ 0) :: char) + 256 * (of_char (char_of (m div 2 ^ 8) :: char) +
      256 * (of_char (char_of (m div 2 ^ 16) :: char) + 256 * of_char (char_of (m div 2 ^ 24) :: char)))) :: u32) = of_nat m"
    by (simp only: of_char_of power_0 div_by_1)
  then show ?thesis
    using Some by (simp add: number_value_def value_number_def u32_bytes_def up drop m_def del: of_nat_add of_nat_mult of_char_of)
qed (simp add: number_value_def value_number_def)

lemma value_string_inv [simp]: "value_string (string_value s) = Some s"
  by (simp add: value_string_def string_value_def split: option.splits)

lemma value_entity_inv [simp]: "value_entity (entity_value e) = Some e"
proof -
  have "those (map value_number (map number_value ns)) = Some ns" for ns by (induction ns) simp_all
  then show ?thesis by (simp add: value_entity_def entity_value_def comp_def split: option.splits)
qed

lemma value_address_inv [simp]: "value_feature_address (feature_address_value a) = Some a"
  by (cases a) (simp_all add: value_feature_address_def feature_address_value_def)

lemma value_request_inv:
  "\<forall>t. rq_server_feature_type r = Some t \<longrightarrow> t < 2 ^ 32 \<Longrightarrow> value_request_call (request_call_value r) = Some (Some r)"
  by (cases r) (auto simp: value_request_call_def request_call_value_def unat_of_nat map_option_case split: option.splits)

lemma value_delete_inv [simp]: "value_delete_call (delete_call_value r) = Some (Some r)"
  by (cases r) (simp add: value_delete_call_def delete_call_value_def)

section \<open>The sender\<close>

record Sender =
  msg_num :: u64
  writer :: bool
  written :: "DatagramType list"

definition SenderConstruct :: "bool \<Rightarrow> Sender" where
  "SenderConstruct w = \<lparr>msg_num = 0, writer = w, written = []\<rparr>"

definition SenderGetNextMsgCounter :: "Sender \<Rightarrow> u64 \<times> Sender" where
  "SenderGetNextMsgCounter s = (msg_num s + 1, s\<lparr>msg_num := msg_num s + 1\<rparr>)"

definition SendSpineMessage ::
    "Sender \<Rightarrow> CommandClassifierType \<Rightarrow> FeatureAddressType option \<Rightarrow> FeatureAddressType option \<Rightarrow> u64 option \<Rightarrow> bool \<Rightarrow>
     CmdType list option \<Rightarrow> EebusError \<times> Sender" where
  "SendSpineMessage s classifier source dest msg_counter_ref request_ack cmd =
     (if source = None \<or> dest = None \<or> cmd = None \<or> cmd = Some [] then (kEebusErrorInputArgumentNull, s)
      else if \<not> writer s then (kEebusErrorInit, s)
      else let (msg_counter, s) = SenderGetNextMsgCounter s;
               h = \<lparr>spec_version = Some specification_version, src_addr = source, dest_addr = dest, originator_addr = None,
                    msg_cnt = Some msg_counter, msg_cnt_ref = msg_counter_ref, cmd_classifier = Some classifier,
                    ack_request = (if request_ack then Some True else None)\<rparr>;
               datagram = \<lparr>header = Some h, payload = Some (map Some (the cmd))\<rparr>
           in (kEebusErrorOk, s\<lparr>written := written s @ [datagram]\<rparr>))"

definition SenderRead :: "Sender \<Rightarrow> FeatureAddressType option \<Rightarrow> FeatureAddressType option \<Rightarrow> CmdType option \<Rightarrow> EebusError \<times> Sender" where
  "SenderRead s sender_addr dest cmd =
     SendSpineMessage s kCommandClassifierTypeRead sender_addr dest None False (map_option (\<lambda>c. [c]) cmd)"

text \<open>The destination of the request is read without a check: without one there is no outcome.\<close>

definition SenderReply ::
    "Sender \<Rightarrow> HeaderType option \<Rightarrow> FeatureAddressType option \<Rightarrow> CmdType option \<Rightarrow> (EebusError \<times> Sender) option" where
  "SenderReply s request_header sender_addr cmd =
     (case (request_header, sender_addr) of
        (Some h, Some a) \<Rightarrow>
          if src_addr h = None then Some (kEebusErrorInputArgument, s)
          else map_option
                 (\<lambda>d. SendSpineMessage s kCommandClassifierTypeReply (Some (d\<lparr>device := device a\<rparr>)) (src_addr h) (msg_cnt h)
                        False (map_option (\<lambda>c. [c]) cmd))
                 (dest_addr h)
      | _ \<Rightarrow> Some (kEebusErrorInputArgumentNull, s))"

definition SenderNotify :: "Sender \<Rightarrow> FeatureAddressType option \<Rightarrow> FeatureAddressType option \<Rightarrow> CmdType option \<Rightarrow> EebusError \<times> Sender" where
  "SenderNotify s sender_addr dest cmd =
     SendSpineMessage s kCommandClassifierTypeNotify sender_addr dest None False (map_option (\<lambda>c. [c]) cmd)"

definition SenderWrite :: "Sender \<Rightarrow> FeatureAddressType option \<Rightarrow> FeatureAddressType option \<Rightarrow> CmdType option \<Rightarrow> EebusError \<times> Sender" where
  "SenderWrite s sender_addr dest cmd =
     SendSpineMessage s kCommandClassifierTypeWrite sender_addr dest None True (map_option (\<lambda>c. [c]) cmd)"

definition NodeManagementAddress :: "string option \<Rightarrow> FeatureAddressType" where
  "NodeManagementAddress device_addr = \<lparr>device = device_addr, entity = Some [Some 0], feature = Some 0\<rparr>"

definition SendNodeManagmentCall :: "Sender \<Rightarrow> EebusData \<Rightarrow> nat \<Rightarrow> string option \<Rightarrow> string option \<Rightarrow> EebusError \<times> Sender" where
  "SendNodeManagmentCall s data data_type_id local_dev remote_dev =
     SendSpineMessage s kCommandClassifierTypeCall (Some (NodeManagementAddress local_dev)) (Some (NodeManagementAddress remote_dev))
       None True (Some [CmdCreateEmpty\<lparr>data_choice := data, data_choice_type_id := data_type_id\<rparr>])"

definition CallSubscribe :: "Sender \<Rightarrow> FeatureAddressType option \<Rightarrow> FeatureAddressType option \<Rightarrow> nat \<Rightarrow> EebusError \<times> Sender" where
  "CallSubscribe s sender_addr dest server_feature_type =
     (case (sender_addr, dest) of
        (Some a, Some d) \<Rightarrow>
          SendNodeManagmentCall s
            (request_call_value \<lparr>rq_client_address = Some a, rq_server_address = Some d,
                                 rq_server_feature_type = Some server_feature_type\<rparr>)
            kFunctionTypeNodeManagementSubscriptionRequestCall (device a) (device d)
      | _ \<Rightarrow> (kEebusErrorInputArgumentNull, s))"

definition CallUnsubscribe :: "Sender \<Rightarrow> FeatureAddressType option \<Rightarrow> FeatureAddressType option \<Rightarrow> EebusError \<times> Sender" where
  "CallUnsubscribe s sender_addr dest =
     (case (sender_addr, dest) of
        (Some a, Some d) \<Rightarrow>
          SendNodeManagmentCall s (delete_call_value \<lparr>dl_client_address = Some a, dl_server_address = Some d\<rparr>)
            kFunctionTypeNodeManagementSubscriptionDeleteCall (device a) (device d)
      | _ \<Rightarrow> (kEebusErrorInputArgumentNull, s))"

definition CallBind :: "Sender \<Rightarrow> FeatureAddressType option \<Rightarrow> FeatureAddressType option \<Rightarrow> nat \<Rightarrow> EebusError \<times> Sender" where
  "CallBind s sender_addr dest server_feature_type =
     (case (sender_addr, dest) of
        (Some a, Some d) \<Rightarrow>
          SendNodeManagmentCall s
            (request_call_value \<lparr>rq_client_address = Some a, rq_server_address = Some d,
                                 rq_server_feature_type = Some server_feature_type\<rparr>)
            kFunctionTypeNodeManagementBindingRequestCall (device a) (device d)
      | _ \<Rightarrow> (kEebusErrorInputArgumentNull, s))"

definition CallUnbind :: "Sender \<Rightarrow> FeatureAddressType option \<Rightarrow> FeatureAddressType option \<Rightarrow> EebusError \<times> Sender" where
  "CallUnbind s sender_addr dest =
     (case (sender_addr, dest) of
        (Some a, Some d) \<Rightarrow>
          SendNodeManagmentCall s (delete_call_value \<lparr>dl_client_address = Some a, dl_server_address = Some d\<rparr>)
            kFunctionTypeNodeManagementBindingDeleteCall (device a) (device d)
      | _ \<Rightarrow> (kEebusErrorInputArgumentNull, s))"

definition SendResult ::
    "Sender \<Rightarrow> HeaderType option \<Rightarrow> FeatureAddressType option \<Rightarrow> ErrorType option \<Rightarrow> EebusError \<times> Sender" where
  "SendResult s request_header sender_addr err =
     (case (request_header, sender_addr) of
        (Some h, Some a) \<Rightarrow>
          (case dest_addr h of
             None \<Rightarrow> (kEebusErrorInputArgument, s)
           | Some d \<Rightarrow>
               SendSpineMessage s kCommandClassifierTypeResult (Some (d\<lparr>device := device a\<rparr>)) (src_addr h) (msg_cnt h) False
                 (Some [CmdCreateEmpty\<lparr>data_choice :=
                          result_data_value (case err of None \<Rightarrow> kErrorNumberTypeNoError | Some e \<Rightarrow> error_number e)
                            (Option.bind err description),
                        data_choice_type_id := kFunctionTypeResultData\<rparr>]))
      | _ \<Rightarrow> (kEebusErrorInputArgumentNull, s))"

definition ResultSuccess :: "Sender \<Rightarrow> HeaderType option \<Rightarrow> FeatureAddressType option \<Rightarrow> EebusError \<times> Sender" where
  "ResultSuccess s request_header sender_addr = SendResult s request_header sender_addr None"

definition ResultError :: "Sender \<Rightarrow> HeaderType option \<Rightarrow> FeatureAddressType option \<Rightarrow> ErrorType option \<Rightarrow> EebusError \<times> Sender" where
  "ResultError s request_header sender_addr err = SendResult s request_header sender_addr err"

section \<open>Laws of the sender\<close>

text \<open>
  What every operation of the sender does: nothing, with an error, or one datagram whose message counter
  is the next one.
\<close>

definition sends_one :: "Sender \<Rightarrow> EebusError \<times> Sender \<Rightarrow> bool" where
  "sends_one s r \<longleftrightarrow>
     (fst r \<noteq> kEebusErrorOk \<and> snd r = s \<or>
      fst r = kEebusErrorOk \<and> writer s \<and>
      (\<exists>h cs. snd r = s\<lparr>msg_num := msg_num s + 1, written := written s @ [\<lparr>header = Some h, payload = Some (map Some cs)\<rparr>]\<rparr> \<and>
         msg_cnt h = Some (msg_num s + 1) \<and> cs \<noteq> [] \<and> src_addr h \<noteq> None \<and> dest_addr h \<noteq> None \<and> cmd_classifier h \<noteq> None))"

lemma SendSpineMessage_sends: "sends_one s (SendSpineMessage s c src dst ref ack cmd)"
proof (cases "src = None \<or> dst = None \<or> cmd = None \<or> cmd = Some [] \<or> \<not> writer s")
  case False
  let ?h = "\<lparr>spec_version = Some specification_version, src_addr = src, dest_addr = dst, originator_addr = None,
    msg_cnt = Some (msg_num s + 1), msg_cnt_ref = ref, cmd_classifier = Some c,
    ack_request = (if ack then Some True else None)\<rparr>"
  have "SendSpineMessage s c src dst ref ack cmd = (kEebusErrorOk, s\<lparr>msg_num := msg_num s + 1,
      written := written s @ [\<lparr>header = Some ?h, payload = Some (map Some (the cmd))\<rparr>]\<rparr>)"
    using False by (simp add: SendSpineMessage_def SenderGetNextMsgCounter_def)
  moreover have "the cmd \<noteq> []" using False by auto
  ultimately show ?thesis
    unfolding sends_one_def using False by (intro disjI2 conjI exI [of _ ?h] exI [of _ "the cmd"]) auto
qed (auto simp: sends_one_def SendSpineMessage_def)

lemma sender_sends:
  "sends_one s (SenderRead s a d cmd)" "sends_one s (SenderNotify s a d cmd)" "sends_one s (SenderWrite s a d cmd)"
  "SenderReply s h a cmd = Some r \<Longrightarrow> sends_one s r"
  "sends_one s (CallSubscribe s a d t)" "sends_one s (CallUnsubscribe s a d)" "sends_one s (CallBind s a d t)"
  "sends_one s (CallUnbind s a d)" "sends_one s (SendResult s h a e)"
proof -
  have err: "sends_one s (kEebusErrorInputArgumentNull, s)" "sends_one s (kEebusErrorInputArgument, s)"
    by (simp_all add: sends_one_def)
  show "sends_one s (SenderRead s a d cmd)" "sends_one s (SenderNotify s a d cmd)" "sends_one s (SenderWrite s a d cmd)"
    by (simp_all add: SenderRead_def SenderNotify_def SenderWrite_def SendSpineMessage_sends)
  show "SenderReply s h a cmd = Some r \<Longrightarrow> sends_one s r"
    by (auto simp: SenderReply_def err SendSpineMessage_sends split: option.splits if_splits)
  show "sends_one s (CallSubscribe s a d t)" "sends_one s (CallUnsubscribe s a d)" "sends_one s (CallBind s a d t)"
    "sends_one s (CallUnbind s a d)" "sends_one s (SendResult s h a e)"
    by (auto simp: CallSubscribe_def CallUnsubscribe_def CallBind_def CallUnbind_def SendNodeManagmentCall_def SendResult_def
        err SendSpineMessage_sends split: option.split)
qed

text \<open>Any sequence of operations on a new sender.\<close>

inductive sender_reachable :: "Sender \<Rightarrow> bool" where
  construct: "sender_reachable (SenderConstruct w)"
| send: "sender_reachable s \<Longrightarrow> sends_one s r \<Longrightarrow> sender_reachable (snd r)"

lemma sender_counters:
  assumes "sender_reachable s"
  shows "msg_num s = of_nat (length (written s)) \<and>
    map (\<lambda>d. Option.bind (header d) msg_cnt) (written s) = map (\<lambda>i. Some (of_nat (Suc i))) [0..<length (written s)]"
  using assms
proof induction
  case (send s r)
  then show ?case by (auto simp: sends_one_def)
qed (simp add: SenderConstruct_def)



end
