(* ===== verification/Spine_Use_Case.thy ===== *)
theory Spine_Use_Case
  imports Spine_Links_Laws
begin

text \<open>
  The use case information of an entity: \<^verbatim>\<open>spine/model/usecase_information_types.c\<close>, the use case part of
  \<^verbatim>\<open>node_management_types.c\<close>, and the events of \<^verbatim>\<open>node_management_remote.c\<close>. The elements of the lists are
  structures, as the parser and these functions make them; the outcome \<open>None\<close> is the use of a null pointer.
\<close>

section \<open>The data\<close>

type_synonym UseCaseActorType = u32
type_synonym UseCaseNameType = u32

record UseCaseSupportType =
  use_case_name :: "UseCaseNameType option"
  use_case_version :: "string option"
  use_case_available :: "bool option"
  scenario_support :: "u32 list"
  use_case_document_sub_revision :: "string option"

record UseCaseInformationDataType =
  uc_address :: "FeatureAddressType option"
  uc_actor :: "UseCaseActorType option"
  use_case_support :: "UseCaseSupportType list"

record UseCaseFilterType =
  filter_actor :: UseCaseActorType
  filter_use_case_name_id :: UseCaseNameType

type_synonym NodeManagementUseCaseDataType = "UseCaseInformationDataType list"

text \<open>An address without its feature part.\<close>

definition entity_part :: "FeatureAddressType \<Rightarrow> FeatureAddressType" where
  "entity_part a = a\<lparr>feature := None\<rparr>"

definition UseCaseInformationDataCreate ::
    "FeatureAddressType \<Rightarrow> UseCaseActorType \<Rightarrow> UseCaseSupportType \<Rightarrow> UseCaseInformationDataType" where
  "UseCaseInformationDataCreate addr ac support =
     \<lparr>uc_address = Some (entity_part addr), uc_actor = Some ac, use_case_support = [support]\<rparr>"

definition ActorMatch :: "UseCaseInformationDataType \<Rightarrow> UseCaseActorType option \<Rightarrow> bool" where
  "ActorMatch info ac \<longleftrightarrow> ac = None \<or> uc_actor info = ac"

definition UseCaseInformationFind ::
    "UseCaseInformationDataType \<Rightarrow> UseCaseNameType option \<Rightarrow> UseCaseSupportType option" where
  "UseCaseInformationFind info name_id =
     (if name_id = None then None else List.find (\<lambda>s. use_case_name s = name_id) (use_case_support info))"

definition UseCaseNameIdMatch :: "UseCaseInformationDataType \<Rightarrow> UseCaseNameType option \<Rightarrow> bool" where
  "UseCaseNameIdMatch info name_id \<longleftrightarrow> name_id = None \<or> UseCaseInformationFind info name_id \<noteq> None"

text \<open>\<^verbatim>\<open>strncmp\<close> over the length of the first string: the first is a prefix of the second.\<close>

definition UseCaseInformationMatch ::
    "UseCaseInformationDataType \<Rightarrow> FeatureAddressType \<Rightarrow> UseCaseActorType option \<Rightarrow> UseCaseNameType option \<Rightarrow> bool option" where
  "UseCaseInformationMatch info addr ac name_id = do {
     a \<leftarrow> uc_address info;
     m \<leftarrow> (if entity a = None \<or> entity addr = None
          then do { da \<leftarrow> device a; db \<leftarrow> device addr; Some (take (length da) db = da) }
          else Some (FeatureAddressCompare (Some (entity_part a)) (Some (entity_part addr))));
     Some (m \<and> ActorMatch info ac \<and> UseCaseNameIdMatch info name_id)
   }"

definition UseCaseInformationAdd :: "UseCaseInformationDataType \<Rightarrow> UseCaseSupportType \<Rightarrow> UseCaseInformationDataType" where
  "UseCaseInformationAdd info support = info\<lparr>use_case_support := use_case_support info @ [support]\<rparr>"

section \<open>The use case data of node management\<close>

definition NodeManagementUseCaseDataFindInfo ::
    "NodeManagementUseCaseDataType \<Rightarrow> FeatureAddressType \<Rightarrow> UseCaseActorType option \<Rightarrow> UseCaseNameType option \<Rightarrow>
     UseCaseInformationDataType option option" where
  "NodeManagementUseCaseDataFindInfo infos addr ac name_id =
     find_link (\<lambda>info. UseCaseInformationMatch info addr ac name_id) infos"

text \<open>Writing through the pointer that the search returned: the first match is changed.\<close>

fun update_found :: "('a \<Rightarrow> bool option) \<Rightarrow> ('a \<Rightarrow> 'a) \<Rightarrow> 'a list \<Rightarrow> 'a list" where
  "update_found P f [] = []"
| "update_found P f (x # xs) = (if P x = Some True then f x # xs else x # update_found P f xs)"

text \<open>\<open>z\<close> tells whether \<^verbatim>\<open>malloc(0)\<close> returns a buffer.\<close>

definition NodeManagementUseCaseDataAddUseCaseSupport ::
    "bool \<Rightarrow> NodeManagementUseCaseDataType \<Rightarrow> FeatureAddressType \<Rightarrow> UseCaseActorType \<Rightarrow> UseCaseNameType \<Rightarrow> string option \<Rightarrow>
     string option \<Rightarrow> bool \<Rightarrow> u32 list \<Rightarrow> NodeManagementUseCaseDataType option" where
  "NodeManagementUseCaseDataAddUseCaseSupport z infos addr ac name_id version sub_revision available scenarios =
     (if scenarios = [] \<and> \<not> z then Some infos
      else let support = \<lparr>use_case_name = Some name_id, use_case_version = version, use_case_available = Some available,
                     scenario_support = scenarios, use_case_document_sub_revision = sub_revision\<rparr>
      in do {
        found \<leftarrow> NodeManagementUseCaseDataFindInfo infos addr (Some ac) None;
        Some (if found \<noteq> None
              then update_found (\<lambda>i. UseCaseInformationMatch i addr (Some ac) None) (\<lambda>i. UseCaseInformationAdd i support) infos
              else infos @ [UseCaseInformationDataCreate addr ac support])
      })"

definition NodeManagementUseCaseDataHasUseCaseSupport ::
    "NodeManagementUseCaseDataType \<Rightarrow> FeatureAddressType \<Rightarrow> UseCaseActorType \<Rightarrow> UseCaseNameType \<Rightarrow> bool option" where
  "NodeManagementUseCaseDataHasUseCaseSupport infos addr ac name_id =
     map_option (\<lambda>r. r \<noteq> None) (NodeManagementUseCaseDataFindInfo infos addr (Some ac) (Some name_id))"

definition NodeManagementUseCaseDataSetAvailability ::
    "NodeManagementUseCaseDataType \<Rightarrow> FeatureAddressType \<Rightarrow> UseCaseActorType \<Rightarrow> UseCaseNameType \<Rightarrow> bool \<Rightarrow>
     NodeManagementUseCaseDataType option" where
  "NodeManagementUseCaseDataSetAvailability infos addr ac name_id available = do {
     found \<leftarrow> NodeManagementUseCaseDataFindInfo infos addr (Some ac) (Some name_id);
     Some (if found = None then infos
           else update_found (\<lambda>i. UseCaseInformationMatch i addr (Some ac) (Some name_id))
                  (\<lambda>i. i\<lparr>use_case_support :=
                    update_found (\<lambda>s. Some (use_case_name s = Some name_id)) (\<lambda>s. s\<lparr>use_case_available := Some available\<rparr>)
                      (use_case_support i)\<rparr>)
                  infos)
   }"

text \<open>
  The removals copy what they keep to a new buffer. The result is the list of slots, where \<open>None\<close> is a
  slot that was not written; a write behind the buffer has the outcome \<open>None\<close>.
\<close>

definition copy_kept :: "bool \<Rightarrow> nat \<Rightarrow> ('a \<Rightarrow> bool) \<Rightarrow> 'a list \<Rightarrow> 'a option list option" where
  "copy_kept z n keep xs =
     (if n = length xs \<or> n = 0 \<and> \<not> z then Some (map Some xs)
      else let kept = filter keep xs
           in if length kept \<le> n then Some (map Some kept @ replicate (n - length kept) None) else None)"

definition NodeManagementUseCaseDataRemoveWithAddress ::
    "bool \<Rightarrow> NodeManagementUseCaseDataType \<Rightarrow> FeatureAddressType \<Rightarrow> UseCaseInformationDataType option list option" where
  "NodeManagementUseCaseDataRemoveWithAddress z infos addr =
     (let keep = (\<lambda>i. \<not> FeatureAddressCompare (uc_address i) (Some addr))
      in copy_kept z (length (filter keep infos)) keep infos)"

fun UseCaseInformationMatchAnyFilter ::
    "UseCaseInformationDataType \<Rightarrow> FeatureAddressType \<Rightarrow> UseCaseFilterType list \<Rightarrow> bool option" where
  "UseCaseInformationMatchAnyFilter info addr [] = Some False"
| "UseCaseInformationMatchAnyFilter info addr (f # fs) =
     Option.bind (UseCaseInformationMatch info addr (Some (filter_actor f)) (Some (filter_use_case_name_id f)))
       (\<lambda>m. if m then Some True else UseCaseInformationMatchAnyFilter info addr fs)"

text \<open>The number of slots is counted once for every filter.\<close>

definition NodeManagementUseCaseDataRemoveWithFilters ::
    "bool \<Rightarrow> NodeManagementUseCaseDataType \<Rightarrow> FeatureAddressType \<Rightarrow> UseCaseFilterType list \<Rightarrow>
     UseCaseInformationDataType option list option" where
  "NodeManagementUseCaseDataRemoveWithFilters z infos addr filters =
     (if filters \<noteq> [] \<and> (\<exists>i \<in> set infos. UseCaseInformationMatchAnyFilter i addr filters = None) then None
      else let keep = (\<lambda>i. UseCaseInformationMatchAnyFilter i addr filters = Some False)
           in copy_kept z (length (filter keep infos) * length filters) keep infos)"

section \<open>The use cases of a remote device\<close>

record UseCaseEvent =
  uce_ski :: string
  uce_change_type :: ElementChangeType
  uce_entity :: "Entity option"
  uce_actor :: UseCaseActorType
  uce_name :: UseCaseNameType

definition UseCaseInformationListFind ::
    "NodeManagementUseCaseDataType option \<Rightarrow> FeatureAddressType \<Rightarrow> UseCaseActorType \<Rightarrow> UseCaseNameType \<Rightarrow>
     UseCaseInformationDataType option option" where
  "UseCaseInformationListFind infos addr ac name_id =
     (case infos of
        None \<Rightarrow> Some None
      | Some is \<Rightarrow> find_link (\<lambda>i. UseCaseInformationMatch i addr (Some ac) (Some name_id)) is)"

definition PublishUseCaseSupportedEvent ::
    "Device \<Rightarrow> FeatureAddressType \<Rightarrow> UseCaseActorType \<Rightarrow> UseCaseNameType \<Rightarrow> ElementChangeType \<Rightarrow> UseCaseEvent list" where
  "PublishUseCaseSupportedEvent dr addr ac name_id change =
     (let event = (\<lambda>e. \<lparr>uce_ski = device_ski dr, uce_change_type = change, uce_entity = e, uce_actor = ac, uce_name = name_id\<rparr>)
      in if entity addr = None then map (event \<circ> Some) (device_entities dr)
         else [event (DeviceGetEntity dr (entity addr))])"

fun process_supports ::
    "Device \<Rightarrow> NodeManagementUseCaseDataType option \<Rightarrow> ElementChangeType \<Rightarrow> FeatureAddressType \<Rightarrow> UseCaseActorType \<Rightarrow>
     UseCaseSupportType list \<Rightarrow> UseCaseEvent list option" where
  "process_supports dr a change addr ac [] = Some []"
| "process_supports dr a change addr ac (s # ss) =
     (case use_case_name s of
        None \<Rightarrow> process_supports dr a change addr ac ss
      | Some name_id \<Rightarrow> do {
          found \<leftarrow> UseCaseInformationListFind a addr ac name_id;
          evs \<leftarrow> process_supports dr a change addr ac ss;
          Some ((if found = None then PublishUseCaseSupportedEvent dr addr ac name_id change else []) @ evs)
        })"

fun ProcessUseCaseSupport ::
    "Device \<Rightarrow> NodeManagementUseCaseDataType option \<Rightarrow> NodeManagementUseCaseDataType \<Rightarrow> ElementChangeType \<Rightarrow>
     UseCaseEvent list option" where
  "ProcessUseCaseSupport dr a [] change = Some []"
| "ProcessUseCaseSupport dr a (i # is) change =
     (case (uc_address i, uc_actor i) of
        (Some addr, Some ac) \<Rightarrow> do {
          evs \<leftarrow> process_supports dr a change addr ac (use_case_support i);
          evs' \<leftarrow> ProcessUseCaseSupport dr a is change;
          Some (evs @ evs')
        }
      | _ \<Rightarrow> ProcessUseCaseSupport dr a is change)"

text \<open>The events, and the data that is kept for the next update.\<close>

definition UpdateUseCaseData ::
    "Device \<Rightarrow> NodeManagementUseCaseDataType option \<Rightarrow> NodeManagementUseCaseDataType option \<Rightarrow>
     (UseCaseEvent list \<times> NodeManagementUseCaseDataType option) option" where
  "UpdateUseCaseData dr prev new = do {
     added \<leftarrow> (case new of None \<Rightarrow> Some [] | Some n \<Rightarrow> ProcessUseCaseSupport dr prev n kElementChangeAdd);
     removed \<leftarrow> (case prev of None \<Rightarrow> Some [] | Some p \<Rightarrow> ProcessUseCaseSupport dr new p kElementChangeRemove);
     Some (added @ removed, new)
   }"

section \<open>The registry of use cases\<close>

text \<open>
  What the data stands for: a set of supported use cases, each with the entity that supports it and the
  actor it has. The data is well-formed if every information has the address of an entity.
\<close>

definition info_ok :: "UseCaseInformationDataType \<Rightarrow> bool" where
  "info_ok i = (case uc_address i of None \<Rightarrow> False | Some a \<Rightarrow> entity a \<noteq> None)"

definition info_cases :: "UseCaseInformationDataType \<Rightarrow> (FeatureAddressType \<times> UseCaseActorType \<times> UseCaseNameType) set" where
  "info_cases i =
     {(entity_part a, ac, nm) | a ac nm s. uc_address i = Some a \<and> uc_actor i = Some ac \<and>
        s \<in> set (use_case_support i) \<and> use_case_name s = Some nm}"

definition use_cases :: "NodeManagementUseCaseDataType \<Rightarrow> (FeatureAddressType \<times> UseCaseActorType \<times> UseCaseNameType) set" where
  "use_cases infos = \<Union> (info_cases ` set infos)"

definition info_match :: "FeatureAddressType \<Rightarrow> UseCaseActorType option \<Rightarrow> UseCaseNameType option \<Rightarrow> UseCaseInformationDataType \<Rightarrow> bool" where
  "info_match addr ac name_id i \<longleftrightarrow> entity_part (the (uc_address i)) = entity_part addr \<and> ActorMatch i ac \<and> UseCaseNameIdMatch i name_id"

lemma name_match: "UseCaseNameIdMatch i (Some nm) \<longleftrightarrow> (\<exists>s \<in> set (use_case_support i). use_case_name s = Some nm)"
proof -
  have "(List.find P xs \<noteq> None) = (\<exists>x \<in> set xs. P x)" for P and xs :: "UseCaseSupportType list" by (auto simp: find_None_iff)
  then show ?thesis by (auto simp: UseCaseNameIdMatch_def UseCaseInformationFind_def)
qed

lemma match_ok:
  assumes "info_ok i" "entity addr \<noteq> None"
  shows "UseCaseInformationMatch i addr ac name_id = Some (info_match addr ac name_id i)"
  using assms by (auto simp: UseCaseInformationMatch_def info_ok_def info_match_def split: option.splits)

lemma find_info_ok:
  assumes "list_all info_ok infos" "entity addr \<noteq> None"
  shows "find_link (\<lambda>i. UseCaseInformationMatch i addr ac name_id) infos = Some (List.find (info_match addr ac name_id) infos)"
  using assms by (intro find_link_total) (auto simp: list_all_iff match_ok)

lemma update_found_ok:
  assumes "list_all info_ok infos" "entity addr \<noteq> None"
  shows "update_found (\<lambda>i. UseCaseInformationMatch i addr ac name_id) f infos =
    update_found (\<lambda>i. Some (info_match addr ac name_id i)) f infos"
  using assms by (induction infos) (auto simp: match_ok)

lemma update_found_split:
  "List.find P xs = Some x \<Longrightarrow> \<exists>ys zs. xs = ys @ x # zs \<and> P x \<and> update_found (\<lambda>i. Some (P i)) f xs = ys @ f x # zs"
proof (induction xs)
  case (Cons y ys)
  show ?case
  proof (cases "P y")
    case True
    then show ?thesis using Cons.prems by (intro exI [of _ "[]"] exI [of _ ys]) simp
  next
    case False
    then obtain us zs where "ys = us @ x # zs" "P x" "update_found (\<lambda>i. Some (P i)) f ys = us @ f x # zs"
      using Cons by auto
    then show ?thesis using False by (intro exI [of _ "y # us"] exI [of _ zs]) simp
  qed
qed simp

lemma info_cases_names:
  "info_cases i = {(entity_part a, ac, nm) | a ac nm. uc_address i = Some a \<and> uc_actor i = Some ac \<and>
     Some nm \<in> set (map use_case_name (use_case_support i))}"
  by (force simp: info_cases_def)

lemma use_cases_simps [simp]:
  "use_cases [] = {}" "use_cases (i # is) = info_cases i \<union> use_cases is" "use_cases (xs @ ys) = use_cases xs \<union> use_cases ys"
  by (auto simp: use_cases_def)

lemma match_cases:
  "info_ok i \<Longrightarrow> info_match addr (Some ac) (Some nm) i \<longleftrightarrow> (entity_part addr, ac, nm) \<in> info_cases i"
  by (auto simp: info_ok_def info_match_def info_cases_def ActorMatch_def name_match split: option.splits)

lemma has_iff:
  assumes "list_all info_ok infos" "entity addr \<noteq> None"
  shows "NodeManagementUseCaseDataHasUseCaseSupport infos addr ac nm = Some ((entity_part addr, ac, nm) \<in> use_cases infos)"
proof -
  have "(List.find (info_match addr (Some ac) (Some nm)) infos \<noteq> None) = ((entity_part addr, ac, nm) \<in> use_cases infos)"
    using assms(1) by (auto simp: find_None_iff use_cases_def match_cases list_all_iff)
  then show ?thesis
    by (simp add: NodeManagementUseCaseDataHasUseCaseSupport_def NodeManagementUseCaseDataFindInfo_def find_info_ok [OF assms])
qed

lemma add_cases:
  assumes ok: "list_all info_ok infos" "entity addr \<noteq> None" and s: "scenarios \<noteq> [] \<or> z"
  shows "\<exists>infos'. NodeManagementUseCaseDataAddUseCaseSupport z infos addr ac nm version revision available scenarios = Some infos' \<and>
    list_all info_ok infos' \<and> use_cases infos' = insert (entity_part addr, ac, nm) (use_cases infos) \<and>
    uc_address ` set infos' \<subseteq> insert (Some (entity_part addr)) (uc_address ` set infos)"
proof -
  define sup where "sup = \<lparr>use_case_name = Some nm, use_case_version = version, use_case_available = Some available,
    scenario_support = scenarios, use_case_document_sub_revision = revision\<rparr>"
  define infos' where "infos' = (if List.find (info_match addr (Some ac) None) infos \<noteq> None
    then update_found (\<lambda>i. Some (info_match addr (Some ac) None i)) (\<lambda>i. UseCaseInformationAdd i sup) infos
    else infos @ [UseCaseInformationDataCreate addr ac sup])"
  have add: "NodeManagementUseCaseDataAddUseCaseSupport z infos addr ac nm version revision available scenarios = Some infos'"
    using s by (auto simp: NodeManagementUseCaseDataAddUseCaseSupport_def NodeManagementUseCaseDataFindInfo_def
        find_info_ok [OF ok] update_found_ok [OF ok] infos'_def sup_def)
  have "list_all info_ok infos' \<and> use_cases infos' = insert (entity_part addr, ac, nm) (use_cases infos) \<and>
      uc_address ` set infos' \<subseteq> insert (Some (entity_part addr)) (uc_address ` set infos)"
  proof (cases "List.find (info_match addr (Some ac) None) infos")
    case None
    then show ?thesis using ok
      by (auto simp: infos'_def UseCaseInformationDataCreate_def info_ok_def info_cases_def sup_def entity_part_def)
  next
    case (Some i)
    then obtain ys zs where split: "infos = ys @ i # zs" "info_match addr (Some ac) None i"
        "infos' = ys @ UseCaseInformationAdd i sup # zs"
      using update_found_split [OF Some, of "\<lambda>i. UseCaseInformationAdd i sup"] by (auto simp: infos'_def)
    have "info_ok i" using ok(1) split(1) by simp
    then have "info_cases (UseCaseInformationAdd i sup) = insert (entity_part addr, ac, nm) (info_cases i)"
      using split(2) unfolding info_cases_names
      by (auto simp: UseCaseInformationAdd_def sup_def info_match_def ActorMatch_def info_ok_def split: option.splits)
    moreover have "info_ok (UseCaseInformationAdd i sup)" using \<open>info_ok i\<close> by (simp add: info_ok_def UseCaseInformationAdd_def)
    moreover have "uc_address (UseCaseInformationAdd i sup) = uc_address i" by (simp add: UseCaseInformationAdd_def)
    ultimately show ?thesis using ok(1) by (auto simp: split(1,3))
  qed
  with add show ?thesis by blast
qed

lemma availability_cases:
  assumes ok: "list_all info_ok infos" "entity addr \<noteq> None"
  shows "\<exists>infos'. NodeManagementUseCaseDataSetAvailability infos addr ac nm available = Some infos' \<and>
    list_all info_ok infos' \<and> use_cases infos' = use_cases infos \<and> uc_address ` set infos' = uc_address ` set infos"
proof -
  define f where "f i = i\<lparr>use_case_support := update_found (\<lambda>s. Some (use_case_name s = Some nm))
    (\<lambda>s. s\<lparr>use_case_available := Some available\<rparr>) (use_case_support i)\<rparr>" for i :: UseCaseInformationDataType
  have names: "map use_case_name (update_found P (\<lambda>s. s\<lparr>use_case_available := b\<rparr>) ss) = map use_case_name ss"
    for P b and ss :: "UseCaseSupportType list" by (induction ss) auto
  have f: "info_ok (f i) = info_ok i" "info_cases (f i) = info_cases i" "uc_address (f i) = uc_address i" for i
    unfolding info_cases_names by (simp_all add: f_def info_ok_def names del: set_map)
  have upd: "list_all info_ok (update_found P f is) = list_all info_ok is \<and> use_cases (update_found P f is) = use_cases is \<and>
      uc_address ` set (update_found P f is) = uc_address ` set is"
    for P and "is" by (induction "is") (auto simp: f)
  show ?thesis
    using ok(1) upd
    by (simp add: NodeManagementUseCaseDataSetAvailability_def NodeManagementUseCaseDataFindInfo_def find_info_ok [OF ok]
        flip: f_def)
qed

lemma copy_kept_filter:
  assumes "z \<or> filter keep xs \<noteq> [] \<or> xs = []"
  shows "copy_kept z (length (filter keep xs)) keep xs = Some (map Some (filter keep xs))"
proof (cases "length (filter keep xs) = length xs")
  case True
  then have "filter keep xs = xs" by (metis filter_True length_filter_less nat_neq_iff)
  then show ?thesis by (simp add: copy_kept_def)
qed (use assms in \<open>auto simp: copy_kept_def\<close>)

lemma remove_cases:
  assumes "z \<or> (\<exists>i \<in> set infos. uc_address i \<noteq> Some addr) \<or> infos = []"
  shows "NodeManagementUseCaseDataRemoveWithAddress z infos addr =
    Some (map Some (filter (\<lambda>i. uc_address i \<noteq> Some addr) infos))"
proof -
  have "z \<or> filter (\<lambda>i. uc_address i \<noteq> Some addr) infos \<noteq> [] \<or> infos = []"
    using assms unfolding filter_empty_conv by blast
  then show ?thesis
    unfolding NodeManagementUseCaseDataRemoveWithAddress_def Let_def FeatureAddressCompare_eq by (rule copy_kept_filter)
qed

fun fold_option :: "('d \<Rightarrow> 'k \<Rightarrow> 'd option) \<Rightarrow> 'd \<Rightarrow> 'k list \<Rightarrow> 'd option" where
  "fold_option f d [] = Some d"
| "fold_option f d (k # ks) = Option.bind (f d k) (\<lambda>d'. fold_option f d' ks)"

text \<open>The interface the entities use, and what it promises.\<close>

locale use_case_registry =
  fixes invar :: "'d \<Rightarrow> bool" and supported :: "'d \<Rightarrow> 'k set" and key_ok :: "'k \<Rightarrow> bool"
    and add :: "'d \<Rightarrow> 'k \<Rightarrow> 'd option" and has :: "'d \<Rightarrow> 'k \<Rightarrow> bool option"
  assumes add_law: "invar d \<Longrightarrow> key_ok k \<Longrightarrow> \<exists>d'. add d k = Some d' \<and> invar d' \<and> supported d' = insert k (supported d)"
    and has_law: "invar d \<Longrightarrow> key_ok k \<Longrightarrow> has d k = Some (k \<in> supported d)"
begin

lemma add_all_spec:
  "invar d \<Longrightarrow> list_all key_ok ks \<Longrightarrow> \<exists>d'. fold_option add d ks = Some d' \<and> invar d' \<and> supported d' = set ks \<union> supported d"
proof (induction ks arbitrary: d)
  case (Cons k ks)
  obtain d' where "add d k = Some d'" "invar d'" "supported d' = insert k (supported d)"
    using add_law Cons.prems by fastforce
  then show ?case using Cons.IH [of d'] Cons.prems by auto
qed simp

lemma has_after_add_all:
  assumes "invar d" "list_all key_ok ks" "key_ok k"
  shows "Option.bind (fold_option add d ks) (\<lambda>d'. has d' k) = Some (k \<in> set ks \<or> k \<in> supported d)"
  using add_all_spec [OF assms(1,2)] has_law assms(3) by fastforce

end

text \<open>The use case data as such a registry: the keys are use cases with the address of their entity.\<close>

definition case_ok :: "FeatureAddressType \<times> UseCaseActorType \<times> UseCaseNameType \<Rightarrow> bool" where
  "case_ok k \<longleftrightarrow> entity (fst k) \<noteq> None \<and> feature (fst k) = None"

definition add_case ::
    "string option \<Rightarrow> u32 \<Rightarrow> NodeManagementUseCaseDataType \<Rightarrow> FeatureAddressType \<times> UseCaseActorType \<times> UseCaseNameType \<Rightarrow>
     NodeManagementUseCaseDataType option" where
  "add_case version scenario infos k =
     NodeManagementUseCaseDataAddUseCaseSupport False infos (fst k) (fst (snd k)) (snd (snd k)) version None True [scenario]"

definition has_case ::
    "NodeManagementUseCaseDataType \<Rightarrow> FeatureAddressType \<times> UseCaseActorType \<times> UseCaseNameType \<Rightarrow> bool option" where
  "has_case infos k = NodeManagementUseCaseDataHasUseCaseSupport infos (fst k) (fst (snd k)) (snd (snd k))"

lemma case_ok_part: "case_ok k \<Longrightarrow> entity_part (fst k) = fst k"
  by (simp add: case_ok_def entity_part_def)

text \<open>Data of the local device: addresses of entities have no feature part.\<close>

definition local_ok :: "NodeManagementUseCaseDataType \<Rightarrow> bool" where
  "local_ok infos \<longleftrightarrow> list_all info_ok infos \<and> (\<forall>a. Some a \<in> uc_address ` set infos \<longrightarrow> entity_part a = a)"

interpretation registry: use_case_registry local_ok use_cases case_ok "add_case version scenario" has_case
proof unfold_locales
  fix infos k assume ok: "local_ok infos" "case_ok k"
  then have e: "list_all info_ok infos" "entity (fst k) \<noteq> None" by (simp_all add: case_ok_def local_ok_def)
  obtain d' where d': "add_case version scenario infos k = Some d'" "list_all info_ok d'"
      "use_cases d' = insert k (use_cases infos)" "uc_address ` set d' \<subseteq> insert (Some (fst k)) (uc_address ` set infos)"
    using add_cases [OF e, of "[scenario]" False "fst (snd k)" "snd (snd k)" version None True] case_ok_part [OF ok(2)]
    by (auto simp: add_case_def)
  moreover have "entity_part a = a" if "Some a \<in> uc_address ` set d'" for a
    using subsetD [OF d'(4) that] ok(1) case_ok_part [OF ok(2)] by (auto simp: local_ok_def)
  ultimately show "\<exists>d'. add_case version scenario infos k = Some d' \<and> local_ok d' \<and> use_cases d' = insert k (use_cases infos)"
    by (auto simp: local_ok_def)
  show "has_case infos k = Some (k \<in> use_cases infos)"
    using has_iff [OF e] case_ok_part [OF ok(2)] by (simp add: has_case_def)
qed

lemma use_cases_filter:
  assumes "local_ok infos"
  shows "local_ok (filter (\<lambda>i. uc_address i \<noteq> Some addr) infos)"
    "use_cases (filter (\<lambda>i. uc_address i \<noteq> Some addr) infos) = {k \<in> use_cases infos. fst k \<noteq> addr}"
proof -
  show "local_ok (filter (\<lambda>i. uc_address i \<noteq> Some addr) infos)"
    using assms by (auto simp: local_ok_def list_all_iff)
  have part: "entity_part a = a" if "i \<in> set infos" "uc_address i = Some a" for i a
    using assms that unfolding local_ok_def by (metis image_eqI)
  then have key: "uc_address i = Some (fst k)" if "i \<in> set infos" "k \<in> info_cases i" for i k
    using that by (auto simp: info_cases_def)
  show "use_cases (filter (\<lambda>i. uc_address i \<noteq> Some addr) infos) = {k \<in> use_cases infos. fst k \<noteq> addr}"
    using key by (auto simp: use_cases_def)
qed

text \<open>
  C39. After a device has registered use cases for its entities, in any order, a use case is reported as
  supported for an entity and an actor exactly if it was registered for them. Changing the availability
  of a use case does not change this, and removing the use cases of an entity takes away those and no
  others, unless nothing would be left and \<^verbatim>\<open>malloc(0)\<close> returns no buffer.
\<close>

theorem registered_use_cases:
  assumes "list_all case_ok ks" "case_ok k" "entity addr \<noteq> None"
  shows "\<exists>infos infos1. fold_option (add_case version scenario) [] ks = Some infos \<and>
    has_case infos k = Some (k \<in> set ks) \<and>
    NodeManagementUseCaseDataSetAvailability infos addr ac nm available = Some infos1 \<and>
    has_case infos1 k = Some (k \<in> set ks) \<and>
    ((\<exists>k' \<in> set ks. fst k' \<noteq> addr) \<longrightarrow>
      (\<exists>infos2. NodeManagementUseCaseDataRemoveWithAddress z infos addr = Some (map Some infos2) \<and>
        has_case infos2 k = Some (k \<in> set ks \<and> fst k \<noteq> addr)))"
proof -
  obtain infos where infos: "fold_option (add_case version scenario) [] ks = Some infos" "local_ok infos" "use_cases infos = set ks"
    using registry.add_all_spec [of "[]" ks version scenario] assms(1) by (auto simp: local_ok_def)
  obtain infos1 where i1: "NodeManagementUseCaseDataSetAvailability infos addr ac nm available = Some infos1"
      "list_all info_ok infos1" "use_cases infos1 = set ks" "uc_address ` set infos1 = uc_address ` set infos"
    using availability_cases [of infos addr ac nm available] infos(2,3) assms(3) by (auto simp: local_ok_def)
  have "local_ok infos1" using infos(2) i1(2,4) by (simp add: local_ok_def)
  moreover have "\<exists>infos2. NodeManagementUseCaseDataRemoveWithAddress z infos addr = Some (map Some infos2) \<and>
      has_case infos2 k = Some (k \<in> set ks \<and> fst k \<noteq> addr)" if "\<exists>k' \<in> set ks. fst k' \<noteq> addr"
  proof -
    have "use_cases (filter (\<lambda>i. uc_address i \<noteq> Some addr) infos) \<noteq> {}"
      using that use_cases_filter(2) [OF infos(2)] infos(3) by blast
    then have "\<exists>i \<in> set infos. uc_address i \<noteq> Some addr" by (auto simp: use_cases_def)
    then show ?thesis
      using remove_cases [of z infos addr] use_cases_filter [OF infos(2)] registry.has_law [OF _ assms(2)] infos(3) by auto
  qed
  ultimately show ?thesis using infos i1 registry.has_law [OF _ assms(2)] by auto
qed

section \<open>Removal with filters\<close>

lemma any_filter_ok:
  assumes "info_ok i" "entity addr \<noteq> None"
  shows "UseCaseInformationMatchAnyFilter i addr fs =
    Some (\<exists>f \<in> set fs. (entity_part addr, filter_actor f, filter_use_case_name_id f) \<in> info_cases i)"
  using assms by (induction fs) (auto simp: match_ok match_cases)

text \<open>
  Removing use cases with filters. With one filter the informations that contain the use case are
  removed. With two or more, the slots of the new list are counted once for each filter: the list that
  is left has that many slots, and those behind the kept informations were never written.
\<close>

lemma remove_with_filters_slots:
  assumes "list_all info_ok infos" "entity addr \<noteq> None" "filters \<noteq> []"
    and keep: "kept = filter (\<lambda>i. \<forall>f \<in> set filters. (entity_part addr, filter_actor f, filter_use_case_name_id f) \<notin> info_cases i) infos"
    and "kept \<noteq> []" "length kept * length filters \<noteq> length infos"
  shows "NodeManagementUseCaseDataRemoveWithFilters z infos addr filters =
    Some (map Some kept @ replicate (length kept * (length filters - 1)) None)"
proof -
  have eq: "filter (\<lambda>i. UseCaseInformationMatchAnyFilter i addr filters = Some False) infos = kept"
    unfolding keep using assms(1,2) by (intro filter_cong) (auto simp: any_filter_ok list_all_iff)
  have "\<not> (\<exists>i \<in> set infos. UseCaseInformationMatchAnyFilter i addr filters = None)"
    using assms(1,2) by (auto simp: any_filter_ok list_all_iff)
  moreover have "length kept \<le> length kept * length filters" using assms(3) by (cases filters) auto
  moreover have "length kept * length filters - length kept = length kept * (length filters - 1)"
    by (simp add: diff_mult_distrib2)
  ultimately show ?thesis
    using assms(3,5,6) by (simp add: NodeManagementUseCaseDataRemoveWithFilters_def Let_def copy_kept_def eq)
qed

section \<open>Events of remote use cases\<close>

text \<open>The use cases of data in their order, each with the address it was given with.\<close>

definition info_list :: "UseCaseInformationDataType \<Rightarrow> (FeatureAddressType \<times> UseCaseActorType \<times> UseCaseNameType) list" where
  "info_list i =
     (case (uc_address i, uc_actor i) of
        (Some a, Some ac) \<Rightarrow> map (\<lambda>nm. (a, ac, nm)) (List.map_filter use_case_name (use_case_support i))
      | _ \<Rightarrow> [])"

definition case_list :: "NodeManagementUseCaseDataType \<Rightarrow> (FeatureAddressType \<times> UseCaseActorType \<times> UseCaseNameType) list" where
  "case_list infos = concat (map info_list infos)"

definition case_events ::
    "Device \<Rightarrow> ElementChangeType \<Rightarrow> NodeManagementUseCaseDataType option \<Rightarrow>
     (FeatureAddressType \<times> UseCaseActorType \<times> UseCaseNameType) list \<Rightarrow> UseCaseEvent list" where
  "case_events dr change other ks =
     concat (map (\<lambda>(a, ac, nm).
       if (entity_part a, ac, nm) \<in> (case other of None \<Rightarrow> {} | Some is \<Rightarrow> use_cases is) then []
       else PublishUseCaseSupportedEvent dr a ac nm change) ks)"

lemma list_find_ok:
  assumes "case a of None \<Rightarrow> True | Some is \<Rightarrow> list_all info_ok is" "entity addr \<noteq> None"
  shows "\<exists>r. UseCaseInformationListFind a addr ac nm = Some r \<and>
    (r = None) = ((entity_part addr, ac, nm) \<notin> (case a of None \<Rightarrow> {} | Some is \<Rightarrow> use_cases is))"
  using assms
  by (auto simp: UseCaseInformationListFind_def find_info_ok find_None_iff use_cases_def match_cases list_all_iff
      split: option.splits)

lemma process_supports_ok:
  assumes a: "case a of None \<Rightarrow> True | Some is \<Rightarrow> list_all info_ok is" and e: "entity addr \<noteq> None"
  shows "process_supports dr a change addr ac ss =
    Some (case_events dr change a (map (\<lambda>nm. (addr, ac, nm)) (List.map_filter use_case_name ss)))"
proof (induction ss)
  case (Cons s ss)
  show ?case
  proof (cases "use_case_name s")
    case (Some nm)
    obtain r where "UseCaseInformationListFind a addr ac nm = Some r"
        "(r = None) = ((entity_part addr, ac, nm) \<notin> (case a of None \<Rightarrow> {} | Some is \<Rightarrow> use_cases is))"
      using list_find_ok [OF a e] by blast
    then show ?thesis using Some Cons by (auto simp: case_events_def map_filter_simps)
  qed (use Cons in \<open>simp add: map_filter_simps\<close>)
qed (simp add: case_events_def map_filter_simps)

lemma process_ok:
  assumes a: "case a of None \<Rightarrow> True | Some is \<Rightarrow> list_all info_ok is" and b: "list_all info_ok b"
  shows "ProcessUseCaseSupport dr a b change = Some (case_events dr change a (case_list b))"
  using b
proof (induction b)
  case (Cons i "is")
  then obtain addr where addr: "uc_address i = Some addr" "entity addr \<noteq> None" by (auto simp: info_ok_def split: option.splits)
  then show ?case
    using Cons process_supports_ok [OF a addr(2)]
    by (auto simp: case_list_def info_list_def case_events_def split: option.splits)
qed (simp add: case_list_def case_events_def)

text \<open>
  An update of the use cases of a remote device publishes the difference: for every use case of the new
  data that the old data did not have, in order, an event that it was added, and then for every use case
  of the old data that the new data does not have an event that it was removed. Nothing is published for
  use cases both have.
\<close>

theorem use_case_update_publishes_difference:
  assumes "case prev of None \<Rightarrow> True | Some is \<Rightarrow> list_all info_ok is" "case new of None \<Rightarrow> True | Some is \<Rightarrow> list_all info_ok is"
  shows "UpdateUseCaseData dr prev new =
    Some (case_events dr kElementChangeAdd prev (case new of None \<Rightarrow> [] | Some is \<Rightarrow> case_list is) @
      case_events dr kElementChangeRemove new (case prev of None \<Rightarrow> [] | Some is \<Rightarrow> case_list is), new)"
  using assms process_ok [OF assms(1)] process_ok [OF assms(2)]
  by (auto simp: UpdateUseCaseData_def case_events_def split: option.splits)

text \<open>
  Use case data without an address ends the program: once a remote device has sent an information
  without an address, the next data with a use case makes the comparison read the missing address.
\<close>

lemma use_case_without_address_crashes:
  assumes "uc_address i = None" "uc_address j = Some a" "uc_actor j = Some ac" "use_case_support j = s # ss"
    and "use_case_name s = Some nm"
  shows "UpdateUseCaseData dr None (Some [i]) = Some ([], Some [i]) \<and> UpdateUseCaseData dr (Some [i]) (Some [j]) = None"
  using assms by (simp add: UpdateUseCaseData_def UseCaseInformationListFind_def UseCaseInformationMatch_def)

section \<open>Examples\<close>

definition example_entity :: "u32 \<Rightarrow> FeatureAddressType" where
  "example_entity n = \<lparr>device = Some ''A'', entity = Some [Some n], feature = None\<rparr>"

definition example_info :: "u32 \<Rightarrow> u32 \<Rightarrow> u32 \<Rightarrow> UseCaseInformationDataType" where
  "example_info n ac nm =
     \<lparr>uc_address = Some (example_entity n), uc_actor = Some ac,
      use_case_support = [\<lparr>use_case_name = Some nm, use_case_version = None, use_case_available = Some True,
        scenario_support = [1], use_case_document_sub_revision = None\<rparr>]\<rparr>"

lemma example_info_simps:
  "info_ok (example_info n ac nm)" "info_cases (example_info n ac nm) = {(example_entity n, ac, nm)}"
  "entity_part (example_entity n) = example_entity n" "entity (example_entity n) \<noteq> None"
  "example_entity m = example_entity n \<longleftrightarrow> m = n"
  by (auto simp: example_info_def info_ok_def info_cases_def example_entity_def entity_part_def)

theorem registered_use_cases_witness:
  "\<exists>infos infos1. fold_option (add_case None 1) [] [(example_entity 1, 7, 14), (example_entity 2, 7, 14)] = Some infos \<and>
     has_case infos (example_entity 1, 7, 14) = Some True \<and>
     NodeManagementUseCaseDataRemoveWithAddress False infos (example_entity 1) = Some (map Some infos1) \<and>
     has_case infos1 (example_entity 1, 7, 14) = Some False"
  using registered_use_cases [of "[(example_entity 1, 7, 14), (example_entity 2, 7, 14)]" "(example_entity 1, 7, 14)"
      "example_entity 1" None 1 7 14 False False]
  by (auto simp: case_ok_def example_entity_def)

theorem remove_with_filters_slots_witness:
  "NodeManagementUseCaseDataRemoveWithFilters False [example_info 1 7 14, example_info 1 8 15, example_info 1 9 16]
     (example_entity 1) [\<lparr>filter_actor = 7, filter_use_case_name_id = 14\<rparr>, \<lparr>filter_actor = 7, filter_use_case_name_id = 17\<rparr>] =
   Some [Some (example_info 1 8 15), Some (example_info 1 9 16), None, None]"
  using remove_with_filters_slots [of "[example_info 1 7 14, example_info 1 8 15, example_info 1 9 16]" "example_entity 1"
      "[\<lparr>filter_actor = 7, filter_use_case_name_id = 14\<rparr>, \<lparr>filter_actor = 7, filter_use_case_name_id = 17\<rparr>]"
      "[example_info 1 8 15, example_info 1 9 16]" False]
  by (simp add: example_info_simps numeral_2_eq_2)

theorem use_case_update_publishes_difference_witness:
  "UpdateUseCaseData (example_device ''A'' 2 kRoleTypeClient) (Some [example_info 1 7 14])
     (Some [example_info 1 7 14, example_info 1 8 15]) =
   Some (PublishUseCaseSupportedEvent (example_device ''A'' 2 kRoleTypeClient) (example_entity 1) 8 15 kElementChangeAdd,
     Some [example_info 1 7 14, example_info 1 8 15])"
  using use_case_update_publishes_difference [of "Some [example_info 1 7 14]" "Some [example_info 1 7 14, example_info 1 8 15]"
      "example_device ''A'' 2 kRoleTypeClient"]
  by (simp add: example_info_simps case_events_def case_list_def,
      simp add: example_info_def info_list_def map_filter_simps example_info_simps)

theorem use_case_without_address_crashes_witness:
  "UpdateUseCaseData (example_device ''A'' 2 kRoleTypeClient) (Some [(example_info 1 7 14)\<lparr>uc_address := None\<rparr>])
     (Some [example_info 1 8 15]) = None"
  using use_case_without_address_crashes [of "(example_info 1 7 14)\<lparr>uc_address := None\<rparr>" "example_info 1 8 15" "example_entity 1" 8
      _ "[]" 15] by (simp add: example_info_def)

end
