(* ===== verification/Spine_Feature.thy ===== *)
theory Spine_Feature
  imports Spine_Sender Spine_Use_Case
begin

text \<open>
  Features and what they do with messages: \<^verbatim>\<open>spine/feature/feature_local.c\<close>, \<^verbatim>\<open>feature_remote.c\<close>,
  \<^verbatim>\<open>pending_write_request.c\<close>, \<^verbatim>\<open>feature_address_container.c\<close> and the update of \<^verbatim>\<open>node_management_remote.c\<close>.

  The record \<open>Node\<close> is the local device with everything its operations reach: the devices (\<open>World\<close>), the two
  managers, the changing members of the local features and of the remote features, by pointer, and a
  sender for each remote device, by its SKI. The vectors and tables of a feature are lists here, and
  allocations succeed. Callbacks and event handlers of the application are logged in \<open>trace\<close>; what a
  write approval callback does while it runs is the parameter \<open>app\<close>. \<open>None\<close> is undefined behaviour.
\<close>

section \<open>State\<close>

type_synonym callback = "nat \<times> nat"

record Message =
  request_header :: "HeaderType option"
  msg_classifier :: CommandClassifierType
  msg_cmd :: CmdType
  msg_filter_partial :: "FilterType option"
  msg_filter_delete :: "FilterType option"
  feature_remote :: ptr
  device_remote :: string

record ResponseMessage =
  rm_msg_cnt_ref :: u64
  rm_function_data :: EebusData
  rm_function_type :: nat
  rm_feature_local :: ptr
  rm_feature_remote :: ptr
  rm_device_remote :: string

record PendingWriteRequest =
  pw_ski :: string
  msg_counter :: u64
  num_approvals :: u64
  time_counter :: u32
  has_expired :: bool
  pw_cmd_classifier :: CommandClassifierType
  pw_cmd :: CmdType
  pw_header :: "HeaderType"
  pw_feature_address :: FeatureAddressType

record FeatureLocal =
  fl_functions :: "Function list"
  resp_msg_cbs :: "(u64 \<times> callback list) list"
  result_cbs :: "callback list"
  wr_approval_cbs :: "callback list"
  pending_write_requests :: "PendingWriteRequest list"
  fl_bindings :: "FeatureAddressType list"
  fl_subscriptions :: "FeatureAddressType list"

record DataEvent = EventPayload +
  ep_function_type :: nat
  ep_function_data :: EebusData
  ep_cmd_classifier :: "CommandClassifierType option"

datatype trace =
    LinkEvent EventPayload
  | DataChange DataEvent
  | UseCaseChange UseCaseEvent
  | EntityChange DataEvent EntityAddressType
  | Response callback ResponseMessage
  | ApprovalRequest callback Message

text \<open>The heartbeat manager of a local entity; its feature is null until it is set.\<close>

record HeartbeatManager =
  hb_local_feature :: "(ptr \<times> Feature) option"
  heartbeat_num :: u64
  tick_cnt :: u32
  heartbeat_timeout :: u32
  hb_running :: bool

text \<open>
  Objects get new addresses in the order of their creation (\<open>next_ptr\<close>), so that a pointer to a feature that
  was deleted is never taken for a pointer to another one.
\<close>

record Node =
  world :: World
  binding_manager :: BindingManager
  subscription_manager :: SubscriptionManager
  locals :: "ptr \<Rightarrow> FeatureLocal"
  remotes :: "ptr \<Rightarrow> Function list"
  use_case_prev :: "ptr \<Rightarrow> NodeManagementUseCaseDataType option"
  senders :: "string \<Rightarrow> Sender"
  node_management :: "ptr \<times> Feature"
  heartbeats :: "EntityAddressType \<Rightarrow> HeartbeatManager option"
  next_ptr :: ptr
  traces :: "trace list"

definition upd_local :: "ptr \<Rightarrow> (FeatureLocal \<Rightarrow> FeatureLocal) \<Rightarrow> Node \<Rightarrow> Node" where
  "upd_local p f n = n\<lparr>locals := (locals n)(p := f (locals n p))\<rparr>"

definition log_trace :: "trace list \<Rightarrow> Node \<Rightarrow> Node" where
  "log_trace t n = n\<lparr>traces := traces n @ t\<rparr>"

definition with_sender :: "string \<Rightarrow> (Sender \<Rightarrow> EebusError \<times> Sender) \<Rightarrow> Node \<Rightarrow> EebusError \<times> Node" where
  "with_sender ski f n = (let (err, s) = f (senders n ski) in (err, n\<lparr>senders := (senders n)(ski := s)\<rparr>))"

section \<open>Look-ups\<close>

definition GetRemoteDeviceWithSki :: "Node \<Rightarrow> string \<Rightarrow> Device option" where
  "GetRemoteDeviceWithSki n ski = List.find (\<lambda>d. device_ski d = ski) (remote_devices (world n))"

definition GetRemoteDeviceWithAddress :: "Node \<Rightarrow> string option \<Rightarrow> Device option" where
  "GetRemoteDeviceWithAddress n addr =
     (if addr = None then None else List.find (\<lambda>d. device_address d = addr) (remote_devices (world n)))"

definition FeatureGetFunction :: "Function list \<Rightarrow> nat \<Rightarrow> Function option" where
  "FeatureGetFunction fs t = List.find (\<lambda>f. ftype f = t) fs"

text \<open>Writing through the pointer to a function.\<close>

definition set_function :: "Function \<Rightarrow> Function list \<Rightarrow> Function list" where
  "set_function f fs = update_found (\<lambda>g. Some (ftype g = ftype f)) (\<lambda>_. f) fs"

section \<open>Addresses of remote features\<close>

definition FeatureAddressContainerFind :: "FeatureAddressType list \<Rightarrow> FeatureAddressType option \<Rightarrow> FeatureAddressType option" where
  "FeatureAddressContainerFind as a = List.find (\<lambda>b. FeatureAddressCompare (Some b) a) as"

definition FeatureAddressContainerAdd :: "FeatureAddressType list \<Rightarrow> FeatureAddressType \<Rightarrow> FeatureAddressType list" where
  "FeatureAddressContainerAdd as a = (if FeatureAddressContainerFind as (Some a) \<noteq> None then as else as @ [a])"

definition FeatureAddressContainerRemove :: "FeatureAddressType list \<Rightarrow> FeatureAddressType \<Rightarrow> FeatureAddressType list" where
  "FeatureAddressContainerRemove as a =
     (case FeatureAddressContainerFind as (Some a) of None \<Rightarrow> as | Some b \<Rightarrow> remove1 b as)"

text \<open>The loop from the last address to the first; \<open>i\<close> addresses are left to look at.\<close>

fun clean_container :: "string \<Rightarrow> nat \<Rightarrow> FeatureAddressType list \<Rightarrow> FeatureAddressType list" where
  "clean_container d 0 as = as"
| "clean_container d (Suc i) as =
     clean_container d i
       (if i < length as \<and> device (as ! i) = Some d then FeatureAddressContainerRemove as (as ! i) else as)"

definition FeatureLocalCleanRemoteDeviceCaches :: "ptr \<Rightarrow> string option \<Rightarrow> Node \<Rightarrow> Node" where
  "FeatureLocalCleanRemoteDeviceCaches p remote_addr n =
     (case remote_addr of
        None \<Rightarrow> n
      | Some d \<Rightarrow>
          upd_local p (\<lambda>fl. fl\<lparr>fl_subscriptions := clean_container d (length (fl_subscriptions fl)) (fl_subscriptions fl),
                               fl_bindings := clean_container d (length (fl_bindings fl)) (fl_bindings fl)\<rparr>) n)"

section \<open>Remote features\<close>


definition FeatureRemoteUpdateData ::
    "bool \<Rightarrow> Model \<Rightarrow> ptr \<Rightarrow> nat \<Rightarrow> EebusData \<Rightarrow> FilterType option \<Rightarrow> FilterType option \<Rightarrow> bool \<Rightarrow> Node \<Rightarrow>
     (EebusError \<times> Node) option" where
  "FeatureRemoteUpdateData z m p t new_data filter_partial filter_delete persist n =
     (case FeatureGetFunction (remotes n p) t of
        None \<Rightarrow> Some (kEebusErrorInputArgument, n)
      | Some f \<Rightarrow>
          map_option (\<lambda>(err, g). (err, n\<lparr>remotes := (remotes n)(p := set_function g (remotes n p))\<rparr>))
            (FunctionUpdateData z m f new_data filter_partial filter_delete persist))"

text \<open>The use case data of a node management feature, as its structure.\<close>

definition value_bool :: "EebusData \<Rightarrow> bool option option" where
  "value_bool v = (case v of Null \<Rightarrow> Some None | Simple [b] \<Rightarrow> Some (Some (b \<noteq> CHR 0x00)) | _ \<Rightarrow> None)"

definition value_list :: "(EebusData \<Rightarrow> 'a option) \<Rightarrow> EebusData \<Rightarrow> 'a list option" where
  "value_list f v = (case v of Null \<Rightarrow> Some [] | Lst vs \<Rightarrow> those (map f vs) | _ \<Rightarrow> None)"

definition value_support :: "EebusData \<Rightarrow> UseCaseSupportType option" where
  "value_support v =
     (case v of
        Seq [nm, ver, av, sc, sub] \<Rightarrow> do {
          nm' \<leftarrow> value_number nm; ver' \<leftarrow> value_string ver; av' \<leftarrow> value_bool av;
          sc' \<leftarrow> value_list (\<lambda>x. Option.bind (value_number x) id) sc; sub' \<leftarrow> value_string sub;
          Some \<lparr>use_case_name = nm', use_case_version = ver', use_case_available = av', scenario_support = sc',
                use_case_document_sub_revision = sub'\<rparr>
        }
      | _ \<Rightarrow> None)"

definition value_info :: "EebusData \<Rightarrow> UseCaseInformationDataType option" where
  "value_info v =
     (case v of
        Seq [a, ac, ss] \<Rightarrow> do {
          a' \<leftarrow> value_feature_address a; ac' \<leftarrow> value_number ac; ss' \<leftarrow> value_list value_support ss;
          Some \<lparr>uc_address = a', uc_actor = ac', use_case_support = ss'\<rparr>
        }
      | _ \<Rightarrow> None)"

definition value_use_case_data :: "EebusData \<Rightarrow> NodeManagementUseCaseDataType option option" where
  "value_use_case_data v =
     (case v of Null \<Rightarrow> Some None | Seq [is] \<Rightarrow> map_option Some (value_list value_info is) | _ \<Rightarrow> None)"

definition NodeManagementRemoteUpdateData ::
    "bool \<Rightarrow> Model \<Rightarrow> ptr \<Rightarrow> nat \<Rightarrow> EebusData \<Rightarrow> FilterType option \<Rightarrow> FilterType option \<Rightarrow> bool \<Rightarrow> Node \<Rightarrow>
     (EebusError \<times> Node) option" where
  "NodeManagementRemoteUpdateData z m p t new_data filter_partial filter_delete persist n = do {
     (err, n) \<leftarrow> FeatureRemoteUpdateData z m p t new_data filter_partial filter_delete persist n;
     if err \<noteq> kEebusErrorOk then Some (err, n)
     else if t \<noteq> kFunctionTypeNodeManagementUseCaseData then Some (kEebusErrorOk, n)
     else do {
       (dr, f) \<leftarrow> remote_feature_at (world n) (Some p);
       let n = log_trace [DataChange \<lparr>ep_ski = device_ski dr, ep_event_type = kEventTypeDeviceChange,
                  ep_change_type = kElementChangeUpdate, ep_feature = Some p, ep_local_feature = None,
                  ep_function_type = t, ep_function_data = new_data, ep_cmd_classifier = None\<rparr>] n;
       fn \<leftarrow> FeatureGetFunction (remotes n p) t;
       new \<leftarrow> value_use_case_data (fdata fn);
       (evs, prev) \<leftarrow> UpdateUseCaseData dr (use_case_prev n p) new;
       Some (kEebusErrorOk, log_trace (map UseCaseChange evs) (n\<lparr>use_case_prev := (use_case_prev n)(p := prev)\<rparr>))
     }
   }"

text \<open>The method of a remote feature is that of its class.\<close>

definition FEATURE_REMOTE_UPDATE_DATA ::
    "bool \<Rightarrow> Model \<Rightarrow> ptr \<Rightarrow> nat \<Rightarrow> EebusData \<Rightarrow> FilterType option \<Rightarrow> FilterType option \<Rightarrow> bool \<Rightarrow> Node \<Rightarrow>
     (EebusError \<times> Node) option" where
  "FEATURE_REMOTE_UPDATE_DATA z m p t new_data filter_partial filter_delete persist n = do {
     (dr, f) \<leftarrow> remote_feature_at (world n) (Some p);
     if feature_type f = kFeatureTypeTypeNodeManagement \<and> feature_role f = kRoleTypeSpecial
     then NodeManagementRemoteUpdateData z m p t new_data filter_partial filter_delete persist n
     else FeatureRemoteUpdateData z m p t new_data filter_partial filter_delete persist n
   }"

section \<open>Pending write requests\<close>

definition kDefaultMaxResponseDelayMs :: u32 where "kDefaultMaxResponseDelayMs = 10000"

text \<open>The copies of the header, the command and the address are equal to them.\<close>

definition PendingWriteRequestCreate :: "Message \<Rightarrow> FeatureAddressType \<Rightarrow> PendingWriteRequest option" where
  "PendingWriteRequestCreate msg addr =
     (case request_header msg of
        None \<Rightarrow> None
      | Some h \<Rightarrow>
          map_option (\<lambda>cnt.
            \<lparr>pw_ski = device_remote msg, msg_counter = cnt, num_approvals = 0,
             time_counter = kDefaultMaxResponseDelayMs div 1000, has_expired = False,
             pw_cmd_classifier = msg_classifier msg, pw_cmd = msg_cmd msg, pw_header = h, pw_feature_address = addr\<rparr>)
            (msg_cnt h))"

definition PendingWriteRequest_GetMessage :: "PendingWriteRequest \<Rightarrow> Node \<Rightarrow> EebusError + Message" where
  "PendingWriteRequest_GetMessage r n =
     (case GetRemoteDeviceWithAddress n (device (pw_feature_address r)) of
        None \<Rightarrow> Inl kEebusErrorNotAvailable
      | Some dr \<Rightarrow>
          (case RemoteGetFeatureWithAddress dr (Some (pw_feature_address r)) of
             Some (Some (p, f)) \<Rightarrow>
               Inr \<lparr>request_header = Some (pw_header r), msg_classifier = pw_cmd_classifier r, msg_cmd = pw_cmd r,
                    msg_filter_partial = CmdGetFilterPartial (pw_cmd r), msg_filter_delete = CmdGetFilterDelete (pw_cmd r),
                    feature_remote = p, device_remote = device_ski dr\<rparr>
           | _ \<Rightarrow> Inl kEebusErrorNotAvailable))"

definition PendingWriteRequest_AddApproval :: "PendingWriteRequest \<Rightarrow> PendingWriteRequest" where
  "PendingWriteRequest_AddApproval r = r\<lparr>num_approvals := num_approvals r + 1\<rparr>"

definition PendingWriteRequest_UpdateRemainingTime :: "PendingWriteRequest \<Rightarrow> PendingWriteRequest" where
  "PendingWriteRequest_UpdateRemainingTime r =
     (let r = (if time_counter r > 0 then r\<lparr>time_counter := time_counter r - 1\<rparr> else r)
      in if time_counter r = 0 then r\<lparr>has_expired := True\<rparr> else r)"

text \<open>Writing through the pointer to a request.\<close>

definition set_request :: "PendingWriteRequest \<Rightarrow> PendingWriteRequest \<Rightarrow> FeatureLocal \<Rightarrow> FeatureLocal" where
  "set_request r r' fl =
     fl\<lparr>pending_write_requests := map (\<lambda>q. if q = r then r' else q) (pending_write_requests fl)\<rparr>"

definition remove_request :: "PendingWriteRequest \<Rightarrow> FeatureLocal \<Rightarrow> FeatureLocal" where
  "remove_request r fl = fl\<lparr>pending_write_requests := remove1 r (pending_write_requests fl)\<rparr>"

definition FindPendingWriteRequest :: "FeatureLocal \<Rightarrow> string \<Rightarrow> u64 \<Rightarrow> PendingWriteRequest option" where
  "FindPendingWriteRequest fl ski cnt =
     List.find (\<lambda>r. pw_ski r = ski \<and> msg_counter r = cnt) (pending_write_requests fl)"

section \<open>Local features\<close>

text \<open>A local feature is its pointer and its constant members.\<close>

type_synonym self = "ptr \<times> Feature"

definition FeatureLocalConstruct :: "Function list \<Rightarrow> FeatureLocal" where
  "FeatureLocalConstruct fs =
     \<lparr>fl_functions = fs, resp_msg_cbs = [], result_cbs = [], wr_approval_cbs = [], pending_write_requests = [],
      fl_bindings = [], fl_subscriptions = []\<rparr>"

definition FeatureLocalGetData :: "self \<Rightarrow> nat \<Rightarrow> Node \<Rightarrow> EebusData option" where
  "FeatureLocalGetData self t n = map_option fdata (FeatureGetFunction (fl_functions (locals n (fst self))) t)"

definition FeatureLocalAddResponseCallback :: "self \<Rightarrow> u64 \<Rightarrow> callback \<Rightarrow> Node \<Rightarrow> EebusError \<times> Node" where
  "FeatureLocalAddResponseCallback self cnt cb n =
     (case map_of (resp_msg_cbs (locals n (fst self))) cnt of
        Some cbs \<Rightarrow>
          if cb \<in> set cbs then (kEebusErrorNoChange, n)
          else (kEebusErrorOk, upd_local (fst self) (\<lambda>fl. fl\<lparr>resp_msg_cbs := map (\<lambda>(k, cs). if k = cnt then (k, cs @ [cb]) else (k, cs)) (resp_msg_cbs fl)\<rparr>) n)
      | None \<Rightarrow> (kEebusErrorOk, upd_local (fst self) (\<lambda>fl. fl\<lparr>resp_msg_cbs := resp_msg_cbs fl @ [(cnt, [cb])]\<rparr>) n))"

definition ProcessResponseMsgCallbacks :: "self \<Rightarrow> u64 \<Rightarrow> ResponseMessage \<Rightarrow> Node \<Rightarrow> Node" where
  "ProcessResponseMsgCallbacks self cnt msg n =
     (case map_of (resp_msg_cbs (locals n (fst self))) cnt of
        None \<Rightarrow> n
      | Some cbs \<Rightarrow>
          upd_local (fst self) (\<lambda>fl. fl\<lparr>resp_msg_cbs := filter (\<lambda>(k, cs). k \<noteq> cnt) (resp_msg_cbs fl)\<rparr>)
            (log_trace (map (\<lambda>cb. Response cb msg) cbs) n))"

definition FeatureLocalAddResultCallback :: "self \<Rightarrow> callback \<Rightarrow> Node \<Rightarrow> Node" where
  "FeatureLocalAddResultCallback self cb n = upd_local (fst self) (\<lambda>fl. fl\<lparr>result_cbs := result_cbs fl @ [cb]\<rparr>) n"

definition ProcessResultCallbacks :: "self \<Rightarrow> ResponseMessage \<Rightarrow> Node \<Rightarrow> Node" where
  "ProcessResultCallbacks self msg n = log_trace (map (\<lambda>cb. Response cb msg) (result_cbs (locals n (fst self)))) n"

definition FeatureLocalAddWriteApprovalCallback :: "self \<Rightarrow> callback \<Rightarrow> Node \<Rightarrow> EebusError \<times> Node" where
  "FeatureLocalAddWriteApprovalCallback self cb n =
     (if feature_role (snd self) \<noteq> kRoleTypeServer then (kEebusErrorNoChange, n)
      else (kEebusErrorOk, upd_local (fst self) (\<lambda>fl. fl\<lparr>wr_approval_cbs := wr_approval_cbs fl @ [cb]\<rparr>) n))"

text \<open>One notification to every subscriber, each over the sender of its device.\<close>

fun notify_all :: "CmdType \<Rightarrow> (string \<times> FeatureAddressType \<times> FeatureAddressType) list \<Rightarrow> Node \<Rightarrow> Node" where
  "notify_all cmd [] n = n"
| "notify_all cmd ((ski, sa, ca) # ts) n =
     notify_all cmd ts (snd (with_sender ski (\<lambda>s. SenderNotify s (Some sa) (Some ca) (Some cmd)) n))"

definition NotifySubscribers :: "FeatureAddressType \<Rightarrow> CmdType \<Rightarrow> Node \<Rightarrow> Node option" where
  "NotifySubscribers addr cmd n =
     map_option (\<lambda>ts. notify_all cmd ts n) (Publish (world n) (subscription_manager n) (Some addr))"

definition FunctionUpdateNotifySubscribers ::
    "bool \<Rightarrow> Model \<Rightarrow> self \<Rightarrow> Function \<Rightarrow> EebusData \<Rightarrow> FilterType option \<Rightarrow> FilterType option \<Rightarrow> Node \<Rightarrow>
     (EebusError \<times> Node) option" where
  "FunctionUpdateNotifySubscribers z m self fn new_data filter_partial filter_delete n = do {
     r \<leftarrow> CreateNotifyCmd z m fn new_data filter_partial filter_delete;
     (case r of
        None \<Rightarrow> Some (kEebusErrorMemoryAllocate, n)
      | Some cmd \<Rightarrow> map_option (Pair kEebusErrorOk) (NotifySubscribers (feature_address (snd self)) cmd n))
   }"

text \<open>The update of a function of a local feature: the new function is in its place even after an error.\<close>

definition update_function ::
    "bool \<Rightarrow> Model \<Rightarrow> self \<Rightarrow> Function \<Rightarrow> EebusData \<Rightarrow> FilterType option \<Rightarrow> FilterType option \<Rightarrow> Node \<Rightarrow>
     (EebusError \<times> Function \<times> Node) option" where
  "update_function z m self fn new_data filter_partial filter_delete n =
     map_option (\<lambda>(err, g). (err, g, upd_local (fst self) (\<lambda>fl. fl\<lparr>fl_functions := set_function g (fl_functions fl)\<rparr>) n))
       (FunctionUpdateData z m fn new_data filter_partial filter_delete True)"

definition FeatureLocalUpdateData ::
    "bool \<Rightarrow> Model \<Rightarrow> self \<Rightarrow> nat \<Rightarrow> EebusData \<Rightarrow> FilterType option \<Rightarrow> FilterType option \<Rightarrow> Node \<Rightarrow>
     (EebusError \<times> Node) option" where
  "FeatureLocalUpdateData z m self t data filter_partial filter_delete n =
     (case FeatureGetFunction (fl_functions (locals n (fst self))) t of
        None \<Rightarrow> Some (kEebusErrorNoChange, n)
      | Some fn \<Rightarrow> do {
          (err, fn, n) \<leftarrow> update_function z m self fn data filter_partial filter_delete n;
          if err \<noteq> kEebusErrorOk then Some (err, n)
          else FunctionUpdateNotifySubscribers z m self fn data filter_partial filter_delete n
        })"

definition FeatureLocalSetData :: "bool \<Rightarrow> Model \<Rightarrow> self \<Rightarrow> nat \<Rightarrow> EebusData \<Rightarrow> Node \<Rightarrow> Node option" where
  "FeatureLocalSetData z m self t data n = map_option snd (FeatureLocalUpdateData z m self t data None None n)"

definition PublishDataUpdateEvent ::
    "self \<Rightarrow> ptr \<Rightarrow> nat \<Rightarrow> EebusData \<Rightarrow> CommandClassifierType \<Rightarrow> Node \<Rightarrow> Node option" where
  "PublishDataUpdateEvent self p t new_data classifier n =
     map_option (\<lambda>(dr, f).
       log_trace [DataChange \<lparr>ep_ski = device_ski dr, ep_event_type = kEventTypeDataChange,
         ep_change_type = kElementChangeUpdate, ep_feature = Some p, ep_local_feature = Some (fst self),
         ep_function_type = t, ep_function_data = new_data, ep_cmd_classifier = Some classifier\<rparr>] n)
       (remote_feature_at (world n) (Some p))"

definition ProcessWriteFunctionData :: "bool \<Rightarrow> Model \<Rightarrow> self \<Rightarrow> Message \<Rightarrow> Node \<Rightarrow> (EebusError \<times> Node) option" where
  "ProcessWriteFunctionData z m self msg n =
     (let t = data_choice_type_id (msg_cmd msg); new_data = data_choice (msg_cmd msg)
      in case FeatureGetFunction (fl_functions (locals n (fst self))) t of
           None \<Rightarrow> Some (kEebusErrorNoChange, n)
         | Some fn \<Rightarrow> do {
             (err, fn, n) \<leftarrow> update_function z m self fn new_data (msg_filter_partial msg) (msg_filter_delete msg) n;
             if err \<noteq> kEebusErrorOk then Some (err, n)
             else do {
               (e, n) \<leftarrow> FunctionUpdateNotifySubscribers z m self fn new_data (msg_filter_partial msg) (msg_filter_delete msg) n;
               n \<leftarrow> PublishDataUpdateEvent self (feature_remote msg) t new_data kCommandClassifierTypeWrite n;
               Some (kEebusErrorOk, n)
             }
           })"

definition ProcessWriteInternal :: "bool \<Rightarrow> Model \<Rightarrow> self \<Rightarrow> Message \<Rightarrow> Node \<Rightarrow> (EebusError \<times> Node) option" where
  "ProcessWriteInternal z m self msg n =
     (case request_header msg of
        None \<Rightarrow> Some (kEebusErrorInvalid, n)
      | Some h \<Rightarrow> do {
          (err, n) \<leftarrow> ProcessWriteFunctionData z m self msg n;
          Some (kEebusErrorOk,
            if err \<noteq> kEebusErrorOk
            then snd (with_sender (device_remote msg) (\<lambda>s. ResultError s (Some h) (Some (feature_address (snd self)))
                   (Some \<lparr>error_number = kErrorNumberTypeGeneralError,
                          description = Some ''Error processing write request''\<rparr>)) n)
            else if ack_request h = Some True
            then snd (with_sender (device_remote msg) (\<lambda>s. ResultSuccess s (Some h) (Some (feature_address (snd self)))) n)
            else n)
        })"

definition FeatureLocalTryApproveWrite :: "bool \<Rightarrow> Model \<Rightarrow> self \<Rightarrow> string option \<Rightarrow> u64 \<Rightarrow> Node \<Rightarrow> (EebusError \<times> Node) option" where
  "FeatureLocalTryApproveWrite z m self ski cnt n =
     (if feature_role (snd self) \<noteq> kRoleTypeServer \<or> ski = None then Some (kEebusErrorInputArgument, n)
      else case FindPendingWriteRequest (locals n (fst self)) (the ski) cnt of
             None \<Rightarrow> Some (kEebusErrorNoChange, n)
           | Some r \<Rightarrow>
               let r' = PendingWriteRequest_AddApproval r;
                   n = upd_local (fst self) (set_request r r') n
               in if length (wr_approval_cbs (locals n (fst self))) > unat (num_approvals r') then Some (kEebusErrorOk, n)
                  else case PendingWriteRequest_GetMessage r' n of
                         Inl status \<Rightarrow> Some (status, n)
                       | Inr msg \<Rightarrow>
                           map_option (\<lambda>(status, n). (status, upd_local (fst self) (remove_request r') n))
                             (ProcessWriteInternal z m self msg n))"

definition FeatureLocalDenyWrite :: "self \<Rightarrow> string option \<Rightarrow> u64 \<Rightarrow> ErrorType option \<Rightarrow> Node \<Rightarrow> EebusError \<times> Node" where
  "FeatureLocalDenyWrite self ski cnt err n =
     (if feature_role (snd self) \<noteq> kRoleTypeServer \<or> ski = None then (kEebusErrorInputArgument, n)
      else if err = None \<or> error_number (the err) = kErrorNumberTypeNoError then (kEebusErrorInputArgument, n)
      else case FindPendingWriteRequest (locals n (fst self)) (the ski) cnt of
             None \<Rightarrow> (kEebusErrorNoChange, n)
           | Some r \<Rightarrow>
               (case PendingWriteRequest_GetMessage r n of
                  Inl status \<Rightarrow> (status, n)
                | Inr msg \<Rightarrow>
                    (kEebusErrorOk,
                     upd_local (fst self) (remove_request r)
                       (snd (with_sender (device_remote msg)
                         (\<lambda>s. ResultError s (request_header msg) (Some (feature_address (snd self))) err) n)))))"

text \<open>The address that a request keeps is read through the pointer to the remote feature.\<close>

definition AddPendingWriteRequest :: "self \<Rightarrow> Message \<Rightarrow> Node \<Rightarrow> Node option" where
  "AddPendingWriteRequest self msg n =
     (case Option.bind (request_header msg) msg_cnt of
        None \<Rightarrow> Some n
      | Some cnt \<Rightarrow>
          if feature_role (snd self) \<noteq> kRoleTypeServer then Some n
          else if FindPendingWriteRequest (locals n (fst self)) (device_remote msg) cnt \<noteq> None then Some n
          else do {
            (dr, f) \<leftarrow> remote_feature_at (world n) (Some (feature_remote msg));
            Some (case PendingWriteRequestCreate msg (feature_address f) of
                    None \<Rightarrow> n
                  | Some r \<Rightarrow>
                      upd_local (fst self) (\<lambda>fl. fl\<lparr>pending_write_requests := pending_write_requests fl @ [r]\<rparr>) n)
          })"

text \<open>What a callback may do with write requests before it returns; it sees the state of the device.\<close>

datatype approval_action = Approve "string option" u64 | Deny "string option" u64 "ErrorType option"

type_synonym approver = "callback \<Rightarrow> Message \<Rightarrow> Node \<Rightarrow> approval_action list"

fun run_actions :: "bool \<Rightarrow> Model \<Rightarrow> self \<Rightarrow> approval_action list \<Rightarrow> Node \<Rightarrow> Node option" where
  "run_actions z m self [] n = Some n"
| "run_actions z m self (Approve ski cnt # as) n =
     Option.bind (FeatureLocalTryApproveWrite z m self ski cnt n) (\<lambda>(err, n). run_actions z m self as n)"
| "run_actions z m self (Deny ski cnt e # as) n = run_actions z m self as (snd (FeatureLocalDenyWrite self ski cnt e n))"

fun ProcessWriteApprovalCallbacks ::
    "bool \<Rightarrow> Model \<Rightarrow> approver \<Rightarrow> self \<Rightarrow> Message \<Rightarrow> callback list \<Rightarrow> Node \<Rightarrow> Node option" where
  "ProcessWriteApprovalCallbacks z m app self msg [] n = Some n"
| "ProcessWriteApprovalCallbacks z m app self msg (cb # cbs) n =
     Option.bind (run_actions z m self (app cb msg n) (log_trace [ApprovalRequest cb msg] n))
       (ProcessWriteApprovalCallbacks z m app self msg cbs)"

definition ProcessWrite :: "bool \<Rightarrow> Model \<Rightarrow> approver \<Rightarrow> self \<Rightarrow> Message \<Rightarrow> Node \<Rightarrow> (EebusError \<times> Node) option" where
  "ProcessWrite z m app self msg n =
     (if wr_approval_cbs (locals n (fst self)) \<noteq> []
      then do {
        n \<leftarrow> AddPendingWriteRequest self msg n;
        n \<leftarrow> ProcessWriteApprovalCallbacks z m app self msg (wr_approval_cbs (locals n (fst self))) n;
        Some (kEebusErrorOk, n)
      }
      else ProcessWriteInternal z m self msg n)"

definition FeatureLocalProcessResult :: "self \<Rightarrow> Message \<Rightarrow> Node \<Rightarrow> (EebusError \<times> Node) option" where
  "FeatureLocalProcessResult self msg n =
     (if data_choice_type_id (msg_cmd msg) \<noteq> kFunctionTypeResultData then Some (kEebusErrorInputArgument, n)
      else case data_choice (msg_cmd msg) of
             Null \<Rightarrow> Some (kEebusErrorNotImplemented, n)
           | Seq (err_num # _) \<Rightarrow>
               if err_num = Null then Some (kEebusErrorNotImplemented, n)
               else (case Option.bind (request_header msg) msg_cnt_ref of
                       None \<Rightarrow> Some (kEebusErrorOk, n)
                     | Some cnt \<Rightarrow>
                         let rm = \<lparr>rm_msg_cnt_ref = cnt, rm_function_data = data_choice (msg_cmd msg),
                                   rm_function_type = kFunctionTypeResultData, rm_feature_local = fst self,
                                   rm_feature_remote = feature_remote msg, rm_device_remote = device_remote msg\<rparr>
                         in Some (kEebusErrorOk, ProcessResultCallbacks self rm (ProcessResponseMsgCallbacks self cnt rm n)))
           | _ \<Rightarrow> None)"

definition ProcessRead :: "bool \<Rightarrow> Model \<Rightarrow> self \<Rightarrow> Message \<Rightarrow> Node \<Rightarrow> (EebusError \<times> Node) option" where
  "ProcessRead z m self msg n =
     (if feature_role (snd self) = kRoleTypeClient then Some (kEebusErrorNoChange, n)
      else case FeatureGetFunction (fl_functions (locals n (fst self))) (data_choice_type_id (msg_cmd msg)) of
             None \<Rightarrow> Some (kEebusErrorNoChange, n)
           | Some fn \<Rightarrow> do {
               r \<leftarrow> CreateReplyCmd z m fn;
               (case r of
                  None \<Rightarrow> Some (kEebusErrorMemoryAllocate, n)
                | Some cmd \<Rightarrow> do {
                    (err, s) \<leftarrow> SenderReply (senders n (device_remote msg)) (request_header msg)
                                  (Some (feature_address (snd self))) (Some cmd);
                    Some (err, n\<lparr>senders := (senders n)(device_remote msg := s)\<rparr>)
                  })
             })"

text \<open>The update of the remote feature and its event, which notifications and replies share.\<close>

definition update_remote ::
    "bool \<Rightarrow> Model \<Rightarrow> self \<Rightarrow> Message \<Rightarrow> CommandClassifierType \<Rightarrow> Node \<Rightarrow> (EebusError \<times> Node) option" where
  "update_remote z m self msg classifier n =
     (let t = data_choice_type_id (msg_cmd msg); new_data = data_choice (msg_cmd msg)
      in do {
        (err, n) \<leftarrow> FEATURE_REMOTE_UPDATE_DATA z m (feature_remote msg) t new_data (msg_filter_partial msg)
                      (msg_filter_delete msg) True n;
        if err \<noteq> kEebusErrorOk then Some (err, n)
        else do {
          n \<leftarrow> PublishDataUpdateEvent self (feature_remote msg) t new_data classifier n;
          Some (kEebusErrorOk, n)
        }
      })"

definition ProcessNotify :: "bool \<Rightarrow> Model \<Rightarrow> self \<Rightarrow> Message \<Rightarrow> Node \<Rightarrow> (EebusError \<times> Node) option" where
  "ProcessNotify z m self msg n = update_remote z m self msg kCommandClassifierTypeNotify n"

definition ProcessReply :: "bool \<Rightarrow> Model \<Rightarrow> self \<Rightarrow> Message \<Rightarrow> Node \<Rightarrow> (EebusError \<times> Node) option" where
  "ProcessReply z m self msg n = do {
     (err, n) \<leftarrow> update_remote z m self msg kCommandClassifierTypeReply n;
     if err \<noteq> kEebusErrorOk then Some (err, n)
     else case Option.bind (request_header msg) msg_cnt_ref of
            None \<Rightarrow> Some (kEebusErrorOk, n)
          | Some cnt \<Rightarrow>
              Some (kEebusErrorOk, ProcessResponseMsgCallbacks self cnt
                \<lparr>rm_msg_cnt_ref = cnt, rm_function_data = data_choice (msg_cmd msg),
                 rm_function_type = data_choice_type_id (msg_cmd msg), rm_feature_local = fst self,
                 rm_feature_remote = feature_remote msg, rm_device_remote = device_remote msg\<rparr> n)
   }"

definition FeatureLocalHandleMessage :: "bool \<Rightarrow> Model \<Rightarrow> approver \<Rightarrow> self \<Rightarrow> Message \<Rightarrow> Node \<Rightarrow> (EebusError \<times> Node) option" where
  "FeatureLocalHandleMessage z m app self msg n =
     (if data_choice (msg_cmd msg) = Null then Some (kEebusErrorInputArgumentNull, n)
      else case msg_classifier msg of
             kCommandClassifierTypeResult \<Rightarrow> FeatureLocalProcessResult self msg n
           | kCommandClassifierTypeRead \<Rightarrow> ProcessRead z m self msg n
           | kCommandClassifierTypeReply \<Rightarrow> ProcessReply z m self msg n
           | kCommandClassifierTypeNotify \<Rightarrow> ProcessNotify z m self msg n
           | kCommandClassifierTypeWrite \<Rightarrow> ProcessWrite z m app self msg n
           | kCommandClassifierTypeCall \<Rightarrow> Some (kEebusErrorNotImplemented, n))"

section \<open>Time\<close>

text \<open>The loop runs from the last request to the first; \<open>rs\<close> are the requests it has not reached yet.\<close>

fun update_request_time :: "self \<Rightarrow> PendingWriteRequest list \<Rightarrow> Node \<Rightarrow> Node" where
  "update_request_time self [] n = n"
| "update_request_time self (r # rs) n =
     update_request_time self rs
       (if has_expired r
        then (case PendingWriteRequest_GetMessage r n of
                Inl status \<Rightarrow> n
              | Inr msg \<Rightarrow>
                  upd_local (fst self) (remove_request r)
                    (snd (with_sender (device_remote msg) (\<lambda>s. ResultError s (request_header msg)
                       (Some (feature_address (snd self)))
                       (Some \<lparr>error_number = kErrorNumberTypeTimeout, description = Some ''Write request timed out''\<rparr>)) n)))
        else upd_local (fst self) (set_request r (PendingWriteRequest_UpdateRemainingTime r)) n)"

definition FeatureLocalTick :: "self \<Rightarrow> Node \<Rightarrow> Node" where
  "FeatureLocalTick self n = update_request_time self (rev (pending_write_requests (locals n (fst self)))) n"

section \<open>Requests to remote devices\<close>

definition FeatureLocalRequestRemoteData ::
    "bool \<Rightarrow> Model \<Rightarrow> self \<Rightarrow> nat \<Rightarrow> FilterType option \<Rightarrow> ptr \<Rightarrow> Node \<Rightarrow> (EebusError \<times> Node) option" where
  "FeatureLocalRequestRemoteData z m self t filter_partial dest n =
     (case FeatureGetFunction (fl_functions (locals n (fst self))) t of
        None \<Rightarrow> Some (kEebusErrorNoChange, n)
      | Some fn \<Rightarrow> do {
          r \<leftarrow> CreateReadCmd z m fn filter_partial;
          (case r of
             None \<Rightarrow> Some (kEebusErrorMemoryAllocate, n)
           | Some cmd \<Rightarrow> do {
               (dr, f) \<leftarrow> remote_feature_at (world n) (Some dest);
               Some (with_sender (device_ski dr) (\<lambda>s. SenderRead s (Some (feature_address (snd self)))
                       (Some (feature_address f)) (Some cmd)) n)
             })
        })"

definition GetRemoteDeviceSender :: "Node \<Rightarrow> FeatureAddressType \<Rightarrow> string option" where
  "GetRemoteDeviceSender n a = map_option device_ski (GetRemoteDeviceWithAddress n (device a))"

definition FeatureLocalHasSubscriptionToRemote :: "self \<Rightarrow> FeatureAddressType \<Rightarrow> Node \<Rightarrow> bool" where
  "FeatureLocalHasSubscriptionToRemote self a n =
     (FeatureAddressContainerFind (fl_subscriptions (locals n (fst self))) (Some a) \<noteq> None)"

definition FeatureLocalSubscribeToRemote :: "self \<Rightarrow> FeatureAddressType \<Rightarrow> Node \<Rightarrow> EebusError \<times> Node" where
  "FeatureLocalSubscribeToRemote self a n =
     (if feature_role (snd self) = kRoleTypeServer then (kEebusErrorNoChange, n)
      else case GetRemoteDeviceSender n a of
             None \<Rightarrow> (kEebusErrorNoChange, n)
           | Some ski \<Rightarrow>
               let (err, n) = with_sender ski (\<lambda>s. CallSubscribe s (Some (feature_address (snd self))) (Some a) (feature_type (snd self))) n
               in if err \<noteq> kEebusErrorOk then (err, n)
                  else (kEebusErrorOk, upd_local (fst self)
                          (\<lambda>fl. fl\<lparr>fl_subscriptions := FeatureAddressContainerAdd (fl_subscriptions fl) a\<rparr>) n))"

definition FeatureLocalRemoveRemoteSubscription :: "self \<Rightarrow> FeatureAddressType \<Rightarrow> Node \<Rightarrow> EebusError \<times> Node" where
  "FeatureLocalRemoveRemoteSubscription self a n =
     (case GetRemoteDeviceSender n a of
        None \<Rightarrow> (kEebusErrorNoChange, n)
      | Some ski \<Rightarrow>
          let (err, n) = with_sender ski (\<lambda>s. CallUnsubscribe s (Some (feature_address (snd self))) (Some a)) n
          in if err \<noteq> kEebusErrorOk then (err, n)
             else (kEebusErrorOk, upd_local (fst self)
                     (\<lambda>fl. fl\<lparr>fl_subscriptions := FeatureAddressContainerRemove (fl_subscriptions fl) a\<rparr>) n))"

text \<open>\<open>None\<close> is the loop that does not end.\<close>

partial_function (option) FeatureLocalRemoveAllRemoteSubscriptions :: "self \<Rightarrow> Node \<Rightarrow> Node option" where
  "FeatureLocalRemoveAllRemoteSubscriptions self n =
     (let as = fl_subscriptions (locals n (fst self))
      in if as = [] then Some n
         else FeatureLocalRemoveAllRemoteSubscriptions self (snd (FeatureLocalRemoveRemoteSubscription self (last as) n)))"

definition FeatureLocalHasBindingToRemote :: "self \<Rightarrow> FeatureAddressType \<Rightarrow> Node \<Rightarrow> bool" where
  "FeatureLocalHasBindingToRemote self a n =
     (FeatureAddressContainerFind (fl_bindings (locals n (fst self))) (Some a) \<noteq> None)"

definition FeatureLocalBindToRemote :: "self \<Rightarrow> FeatureAddressType \<Rightarrow> Node \<Rightarrow> EebusError \<times> Node" where
  "FeatureLocalBindToRemote self a n =
     (if feature_role (snd self) = kRoleTypeServer then (kEebusErrorNoChange, n)
      else case GetRemoteDeviceSender n a of
             None \<Rightarrow> (kEebusErrorNoChange, n)
           | Some ski \<Rightarrow>
               let (err, n) = with_sender ski (\<lambda>s. CallBind s (Some (feature_address (snd self))) (Some a) (feature_type (snd self))) n
               in if err \<noteq> kEebusErrorOk then (err, n)
                  else (kEebusErrorOk, upd_local (fst self)
                          (\<lambda>fl. fl\<lparr>fl_bindings := FeatureAddressContainerAdd (fl_bindings fl) a\<rparr>) n))"

definition FeatureLocalRemoveRemoteBinding :: "self \<Rightarrow> FeatureAddressType \<Rightarrow> Node \<Rightarrow> EebusError \<times> Node" where
  "FeatureLocalRemoveRemoteBinding self a n =
     (case GetRemoteDeviceSender n a of
        None \<Rightarrow> (kEebusErrorNoChange, n)
      | Some ski \<Rightarrow>
          let (err, n) = with_sender ski (\<lambda>s. CallUnbind s (Some (feature_address (snd self))) (Some a)) n
          in if err \<noteq> kEebusErrorOk then (err, n)
             else (kEebusErrorOk, upd_local (fst self)
                     (\<lambda>fl. fl\<lparr>fl_bindings := FeatureAddressContainerRemove (fl_bindings fl) a\<rparr>) n))"

partial_function (option) FeatureLocalRemoveAllRemoteBindings :: "self \<Rightarrow> Node \<Rightarrow> Node option" where
  "FeatureLocalRemoveAllRemoteBindings self n =
     (let as = fl_bindings (locals n (fst self))
      in if as = [] then Some n
         else FeatureLocalRemoveAllRemoteBindings self (snd (FeatureLocalRemoveRemoteBinding self (last as) n)))"

end
