(* ===== verification/Spine_Discovery.thy ===== *)
theory Spine_Discovery
  imports Spine_Feature
begin

text \<open>
  Detailed discovery: the structures of \<^verbatim>\<open>spine/model/node_management_types.c\<close> and \<^verbatim>\<open>network_management_types.h\<close>, what a
  local device says about itself (\<^verbatim>\<open>node_management_detailed_discovery.c\<close>, \<^verbatim>\<open>entity_local.c\<close>, \<^verbatim>\<open>feature_local.c\<close>,
  \<^verbatim>\<open>possible_operations_types.c\<close>), and what a remote device becomes from it (\<^verbatim>\<open>device_remote.c\<close>, \<^verbatim>\<open>entity_remote.c\<close>,
  \<^verbatim>\<open>feature_remote.c\<close>). Only the members of a description that the program reads or writes are in the
  records; the others are null in what it sends. \<open>None\<close> is undefined behaviour.
\<close>

section \<open>Structures\<close>

text \<open>Each classifier is the tag \<^verbatim>\<open>partial\<close>, if the operation is possible at all.\<close>

record PossibleOperationsType =
  po_read :: "bool option"
  po_write :: "bool option"

record FunctionPropertyType =
  fp_function :: "u32 option"
  fp_possible_operations :: "PossibleOperationsType option"

record NetworkManagementDeviceDescriptionDataType =
  dd_device_address :: "string option option"
  dd_device_type :: "u32 option"
  dd_network_feature_set :: "u32 option"

record NetworkManagementEntityDescriptionDataType =
  ed_entity_address :: "EntityAddressType option"
  ed_entity_type :: "u32 option"
  ed_description :: "string option"

record NetworkManagementFeatureDescriptionDataType =
  fd_feature_address :: "FeatureAddressType option"
  fd_feature_type :: "u32 option"
  fd_role :: "RoleType option"
  fd_supported_function :: "FunctionPropertyType list"
  fd_description :: "string option"

text \<open>The informations are structures with the one member \<^verbatim>\<open>description\<close>.\<close>

record NodeManagementDetailedDiscoveryDataType =
  specification_version_list :: "string list"
  device_information :: "NetworkManagementDeviceDescriptionDataType option option"
  entity_information :: "NetworkManagementEntityDescriptionDataType option list"
  feature_information :: "NetworkManagementFeatureDescriptionDataType option list"

text \<open>The structures as their descriptors describe them.\<close>

definition opt_value :: "('a \<Rightarrow> EebusData) \<Rightarrow> 'a option \<Rightarrow> EebusData" where
  "opt_value f x = (case x of None \<Rightarrow> Null | Some y \<Rightarrow> f y)"

definition value_opt :: "(EebusData \<Rightarrow> 'a option) \<Rightarrow> EebusData \<Rightarrow> 'a option option" where
  "value_opt f v = (if v = Null then Some None else map_option Some (f v))"

definition tag_value :: "bool \<Rightarrow> EebusData" where "tag_value b = Seq [if b then Tag else Null]"

definition value_tag :: "EebusData \<Rightarrow> bool option" where
  "value_tag v = (case v of Seq [t] \<Rightarrow> Some (t = Tag) | _ \<Rightarrow> None)"

definition role_number :: "RoleType \<Rightarrow> u32" where
  "role_number r = (case r of kRoleTypeClient \<Rightarrow> 0 | kRoleTypeServer \<Rightarrow> 1 | kRoleTypeSpecial \<Rightarrow> 2)"

definition number_role :: "u32 \<Rightarrow> RoleType option" where
  "number_role i =
     (if i = 0 then Some kRoleTypeClient else if i = 1 then Some kRoleTypeServer
      else if i = 2 then Some kRoleTypeSpecial else None)"

definition value_role :: "EebusData \<Rightarrow> RoleType option option" where
  "value_role v = do {
     i \<leftarrow> value_number v;
     (case i of None \<Rightarrow> Some None | Some j \<Rightarrow> map_option Some (number_role j))
   }"

definition operations_value :: "PossibleOperationsType \<Rightarrow> EebusData" where
  "operations_value p = Seq [opt_value tag_value (po_read p), opt_value tag_value (po_write p)]"

definition value_operations :: "EebusData \<Rightarrow> PossibleOperationsType option" where
  "value_operations v =
     (case v of
        Seq [r, w] \<Rightarrow> do {
          r' \<leftarrow> value_opt value_tag r; w' \<leftarrow> value_opt value_tag w; Some \<lparr>po_read = r', po_write = w'\<rparr>
        }
      | _ \<Rightarrow> None)"

definition function_property_value :: "FunctionPropertyType \<Rightarrow> EebusData" where
  "function_property_value p = Seq [number_value (fp_function p), opt_value operations_value (fp_possible_operations p)]"

definition value_function_property :: "EebusData \<Rightarrow> FunctionPropertyType option" where
  "value_function_property v =
     (case v of
        Seq [f, ops] \<Rightarrow> do {
          f' \<leftarrow> value_number f; ops' \<leftarrow> value_opt value_operations ops;
          Some \<lparr>fp_function = f', fp_possible_operations = ops'\<rparr>
        }
      | _ \<Rightarrow> None)"

definition device_description_value :: "NetworkManagementDeviceDescriptionDataType \<Rightarrow> EebusData" where
  "device_description_value d =
     Seq [opt_value (\<lambda>a. Seq [string_value a]) (dd_device_address d), number_value (dd_device_type d), Null, Null, Null, Null,
          number_value (dd_network_feature_set d), Null, Null, Null, Null]"

definition value_device_description :: "EebusData \<Rightarrow> NetworkManagementDeviceDescriptionDataType option" where
  "value_device_description v =
     (case v of
        Seq [a, ty, ra, ns, ta, ci, fs, sc, mt, lb, ds] \<Rightarrow> do {
          a' \<leftarrow> value_opt (\<lambda>x. case x of Seq [s] \<Rightarrow> value_string s | _ \<Rightarrow> None) a;
          ty' \<leftarrow> value_number ty; fs' \<leftarrow> value_number fs;
          Some \<lparr>dd_device_address = a', dd_device_type = ty', dd_network_feature_set = fs'\<rparr>
        }
      | _ \<Rightarrow> None)"

definition value_entity_address :: "EebusData \<Rightarrow> EntityAddressType option option" where
  "value_entity_address v =
     (case v of
        Null \<Rightarrow> Some None
      | Seq [d, e] \<Rightarrow> do { d' \<leftarrow> value_string d; e' \<leftarrow> value_entity e; Some (Some \<lparr>ea_device = d', ea_entity = e'\<rparr>) }
      | _ \<Rightarrow> None)"

definition entity_description_value :: "NetworkManagementEntityDescriptionDataType \<Rightarrow> EebusData" where
  "entity_description_value d =
     Seq [entity_address_value (ed_entity_address d), number_value (ed_entity_type d), Null, Null, Null,
          string_value (ed_description d)]"

definition value_entity_description :: "EebusData \<Rightarrow> NetworkManagementEntityDescriptionDataType option" where
  "value_entity_description v =
     (case v of
        Seq [a, ty, sc, mt, lb, ds] \<Rightarrow> do {
          a' \<leftarrow> value_entity_address a; ty' \<leftarrow> value_number ty; ds' \<leftarrow> value_string ds;
          Some \<lparr>ed_entity_address = a', ed_entity_type = ty', ed_description = ds'\<rparr>
        }
      | _ \<Rightarrow> None)"

definition feature_description_value :: "NetworkManagementFeatureDescriptionDataType \<Rightarrow> EebusData" where
  "feature_description_value d =
     Seq [feature_address_value (fd_feature_address d), number_value (fd_feature_type d), Null, Null,
          number_value (map_option role_number (fd_role d)), Lst (map function_property_value (fd_supported_function d)),
          Null, Null, Null, string_value (fd_description d), Null]"

definition value_feature_description :: "EebusData \<Rightarrow> NetworkManagementFeatureDescriptionDataType option" where
  "value_feature_description v =
     (case v of
        Seq [a, ty, su, fg, ro, fs, sc, mt, lb, ds, md] \<Rightarrow> do {
          a' \<leftarrow> value_feature_address a; ty' \<leftarrow> value_number ty; ro' \<leftarrow> value_role ro;
          fs' \<leftarrow> value_list value_function_property fs; ds' \<leftarrow> value_string ds;
          Some \<lparr>fd_feature_address = a', fd_feature_type = ty', fd_role = ro', fd_supported_function = fs', fd_description = ds'\<rparr>
        }
      | _ \<Rightarrow> None)"

definition discovery_value :: "NodeManagementDetailedDiscoveryDataType \<Rightarrow> EebusData" where
  "discovery_value d =
     Seq [Seq [Lst (map Str (specification_version_list d))],
          opt_value (\<lambda>i. Seq [opt_value device_description_value i]) (device_information d),
          Lst (map (\<lambda>i. Seq [opt_value entity_description_value i]) (entity_information d)),
          Lst (map (\<lambda>i. Seq [opt_value feature_description_value i]) (feature_information d))]"

definition value_description :: "(EebusData \<Rightarrow> 'a option) \<Rightarrow> EebusData \<Rightarrow> 'a option option" where
  "value_description f v = (case v of Seq [d] \<Rightarrow> value_opt f d | _ \<Rightarrow> None)"

text \<open>The version list is not read.\<close>

definition value_discovery :: "EebusData \<Rightarrow> NodeManagementDetailedDiscoveryDataType option" where
  "value_discovery v =
     (case v of
        Seq [vs, dv, es, fs] \<Rightarrow> do {
          dv' \<leftarrow> value_opt (value_description value_device_description) dv;
          es' \<leftarrow> value_list (value_description value_entity_description) es;
          fs' \<leftarrow> value_list (value_description value_feature_description) fs;
          Some \<lparr>specification_version_list = [], device_information = dv', entity_information = es', feature_information = fs'\<rparr>
        }
      | _ \<Rightarrow> None)"

section \<open>What a device says about itself\<close>

definition PossibleOperationsCreate :: "bool \<Rightarrow> bool \<Rightarrow> bool \<Rightarrow> bool \<Rightarrow> PossibleOperationsType" where
  "PossibleOperationsCreate rd read_partial wr write_partial =
     \<lparr>po_read = (if rd then Some read_partial else None), po_write = (if wr then Some write_partial else None)\<rparr>"

definition FunctionPropertyCreate :: "nat \<Rightarrow> PossibleOperationsType \<Rightarrow> FunctionPropertyType" where
  "FunctionPropertyCreate t ops = \<lparr>fp_function = Some (of_nat t), fp_possible_operations = Some ops\<rparr>"

definition NodeManagementDetailedDiscoveryDeviceInformationCreate ::
    "string option \<Rightarrow> u32 option \<Rightarrow> u32 option \<Rightarrow> NetworkManagementDeviceDescriptionDataType" where
  "NodeManagementDetailedDiscoveryDeviceInformationCreate addr ty fs =
     \<lparr>dd_device_address = Some addr, dd_device_type = ty, dd_network_feature_set = fs\<rparr>"

definition NodeManagementDetailedDiscoveryEntityInformationCreate ::
    "EntityAddressType \<Rightarrow> nat \<Rightarrow> NetworkManagementEntityDescriptionDataType" where
  "NodeManagementDetailedDiscoveryEntityInformationCreate addr ty =
     \<lparr>ed_entity_address = Some (addr\<lparr>ea_device := None\<rparr>), ed_entity_type = Some (of_nat ty), ed_description = None\<rparr>"

definition NodeManagementDetailedDiscoveryFeatureInformationCreate ::
    "FeatureAddressType \<Rightarrow> nat \<Rightarrow> RoleType \<Rightarrow> string option \<Rightarrow> NetworkManagementFeatureDescriptionDataType" where
  "NodeManagementDetailedDiscoveryFeatureInformationCreate addr ty r ds =
     \<lparr>fd_feature_address = Some (addr\<lparr>device := None\<rparr>), fd_feature_type = Some (of_nat ty), fd_role = Some r,
      fd_supported_function = [], fd_description = ds\<rparr>"

definition AddSupportedFunctions ::
    "Function list \<Rightarrow> NetworkManagementFeatureDescriptionDataType \<Rightarrow> NetworkManagementFeatureDescriptionDataType" where
  "AddSupportedFunctions fs d =
     d\<lparr>fd_supported_function :=
         List.map_filter (\<lambda>f. map_option (\<lambda>op. FunctionPropertyCreate (ftype f)
           (PossibleOperationsCreate (op_read op) (op_read_partial op) (op_write op) (op_write_partial op))) (foperations f)) fs\<rparr>"

definition FeatureLocalCreateInformation :: "self \<Rightarrow> Node \<Rightarrow> NetworkManagementFeatureDescriptionDataType" where
  "FeatureLocalCreateInformation self n =
     AddSupportedFunctions (fl_functions (locals n (fst self)))
       (NodeManagementDetailedDiscoveryFeatureInformationCreate (feature_address (snd self)) (feature_type (snd self))
          (feature_role (snd self)) (feature_desc (snd self)))"

definition EntityLocalCreateInformation :: "Entity \<Rightarrow> NetworkManagementEntityDescriptionDataType" where
  "EntityLocalCreateInformation e =
     NodeManagementDetailedDiscoveryEntityInformationCreate (entity_address e) (entity_type e)"

text \<open>The feature set of the local device is never freed.\<close>

definition DeviceLocalCreateInformation :: "Node \<Rightarrow> NetworkManagementDeviceDescriptionDataType" where
  "DeviceLocalCreateInformation n =
     (let d = local_device (world n)
      in NodeManagementDetailedDiscoveryDeviceInformationCreate (device_address d) (device_type d)
           (Option.bind (device_feature_set d) id))"

definition AddEntityInfo :: "Node \<Rightarrow> NodeManagementDetailedDiscoveryDataType \<Rightarrow> NodeManagementDetailedDiscoveryDataType" where
  "AddEntityInfo n d =
     d\<lparr>entity_information := map (\<lambda>e. Some (EntityLocalCreateInformation e)) (device_entities (local_device (world n)))\<rparr>"

definition AddFeatureInfo :: "Node \<Rightarrow> NodeManagementDetailedDiscoveryDataType \<Rightarrow> NodeManagementDetailedDiscoveryDataType" where
  "AddFeatureInfo n d =
     d\<lparr>feature_information :=
         map (\<lambda>f. Some (FeatureLocalCreateInformation f n)) (concat (map entity_features (device_entities (local_device (world n)))))\<rparr>"

definition AddInfo :: "Node \<Rightarrow> NodeManagementDetailedDiscoveryDataType \<Rightarrow> NodeManagementDetailedDiscoveryDataType" where
  "AddInfo n d = AddFeatureInfo n (AddEntityInfo n (d\<lparr>device_information := Some (Some (DeviceLocalCreateInformation n))\<rparr>))"

definition NodeManagementDetailedDiscoveryDataCreate :: "string list \<Rightarrow> NodeManagementDetailedDiscoveryDataType" where
  "NodeManagementDetailedDiscoveryDataCreate vs =
     \<lparr>specification_version_list = vs, device_information = None, entity_information = [], feature_information = []\<rparr>"

section \<open>What a remote device becomes\<close>

text \<open>Writing to the remote device with an SKI.\<close>

definition upd_device :: "string \<Rightarrow> (Device \<Rightarrow> Device) \<Rightarrow> Node \<Rightarrow> Node" where
  "upd_device ski f n =
     n\<lparr>world := (world n)\<lparr>remote_devices := map (\<lambda>d. if device_ski d = ski then f d else d) (remote_devices (world n))\<rparr>\<rparr>"

text \<open>
  A new device type frees the feature set, which stays in the device. To free it once more has no outcome.
\<close>

definition UpdateDevice :: "Device \<Rightarrow> NetworkManagementDeviceDescriptionDataType \<Rightarrow> Device option" where
  "UpdateDevice d ds = do {
     let d = (case dd_device_address ds of Some (Some a) \<Rightarrow> d\<lparr>device_address := Some a\<rparr> | _ \<Rightarrow> d);
     d \<leftarrow> (case dd_device_type ds of
            None \<Rightarrow> Some d
          | Some t \<Rightarrow>
              map_option (\<lambda>fs. d\<lparr>device_type := Some t, device_feature_set := (if fs = None then Some None else None)\<rparr>)
                (device_feature_set d));
     (case dd_network_feature_set ds of
        None \<Rightarrow> Some d
      | Some s \<Rightarrow> map_option (\<lambda>fs. d\<lparr>device_feature_set := Some (Some s)\<rparr>) (device_feature_set d))
   }"

definition DeviceInfoGetDeviceAddress :: "NetworkManagementDeviceDescriptionDataType option option \<Rightarrow> string option" where
  "DeviceInfoGetDeviceAddress i =
     (case i of Some (Some ds) \<Rightarrow> (case dd_device_address ds of Some a \<Rightarrow> a | None \<Rightarrow> None) | _ \<Rightarrow> None)"

text \<open>An entity of a remote device; the first number of its address is read without a check.\<close>

definition EntityRemoteCreate :: "Device \<Rightarrow> nat \<Rightarrow> u32 list \<Rightarrow> Entity option" where
  "EntityRemoteCreate dr ty ids =
     (case ids of
        [] \<Rightarrow> None
      | i # _ \<Rightarrow> Some \<lparr>entity_address = EntityAddressCreate (device_address dr) ids, entity_features = [], entity_type = ty,
                        entity_desc = None, next_feature_id = (if i = 0 then 0 else 1)\<rparr>)"

text \<open>With a missing number there is no entity, and the caller reads its address all the same.\<close>

definition AddEntityWithAddressAndType :: "Device \<Rightarrow> EntityAddressType \<Rightarrow> nat \<Rightarrow> Entity option" where
  "AddEntityWithAddressAndType dr addr ty =
     (let ids = (case ea_entity addr of None \<Rightarrow> [] | Some is \<Rightarrow> is)
      in if None \<in> set ids then None else EntityRemoteCreate dr ty (map the ids))"

definition SetOperations :: "nat \<Rightarrow> PossibleOperationsType \<Rightarrow> Function list \<Rightarrow> Function list" where
  "SetOperations t ops fs =
     (case FeatureGetFunction fs t of
        None \<Rightarrow> fs
      | Some f \<Rightarrow>
          set_function (FunctionSetOperations f (po_read ops \<noteq> None) (po_read ops = Some True)
            (po_write ops \<noteq> None) (po_write ops = Some True)) fs)"

definition FeatureRemoteSetFunctionOperations :: "FunctionPropertyType list \<Rightarrow> Function list \<Rightarrow> Function list" where
  "FeatureRemoteSetFunctionOperations ps fs =
     foldl (\<lambda>fs p. case (fp_possible_operations p, fp_function p) of
              (Some ops, Some t) \<Rightarrow> SetOperations (unat t) ops fs
            | _ \<Rightarrow> fs) fs ps"

text \<open>The functions of a new feature of a type.\<close>

definition FeatureConstruct_functions :: "Model \<Rightarrow> nat \<Rightarrow> Function list" where
  "FeatureConstruct_functions m t =
     (case GetFeatureFunctions t of None \<Rightarrow> [] | Some ts \<Rightarrow> map (FunctionConstruct m) ts)"

text \<open>A new feature with its functions, or none.\<close>

definition FeatureRemoteCreateWithInfo ::
    "Model \<Rightarrow> Entity \<Rightarrow> NetworkManagementFeatureDescriptionDataType \<Rightarrow> (Feature \<times> Function list) option" where
  "FeatureRemoteCreateWithInfo m e ds = do {
     a \<leftarrow> fd_feature_address ds;
     feature_id \<leftarrow> feature a;
     t \<leftarrow> fd_feature_type ds;
     r \<leftarrow> fd_role ds;
     addr \<leftarrow> FeatureAddressCreate (entity_address e) feature_id;
     Some (\<lparr>feature_address = addr, feature_type = unat t, feature_role = r, feature_desc = fd_description ds\<rparr>,
       FeatureRemoteSetFunctionOperations (fd_supported_function ds) (FeatureConstruct_functions m (unat t)))
   }"

definition EntityIdsMatch :: "EntityAddressType \<Rightarrow> FeatureAddressType option \<Rightarrow> bool" where
  "EntityIdsMatch ea fa = (case fa of None \<Rightarrow> False | Some a \<Rightarrow> EntityAddressMatchIds ea (entity a))"

text \<open>The features of an entity; each has a new address, and its functions are stored there.\<close>

fun EntityRemoteAddFeaturesWithInfo ::
    "Model \<Rightarrow> NetworkManagementFeatureDescriptionDataType option list \<Rightarrow> Entity \<Rightarrow> Node \<Rightarrow> (Entity \<times> Node) option" where
  "EntityRemoteAddFeaturesWithInfo m [] e n = Some (e, n)"
| "EntityRemoteAddFeaturesWithInfo m (i # is) e n = do {
     ds \<leftarrow> i;
     let (e, n) =
       (if EntityIdsMatch (entity_address e) (fd_feature_address ds)
        then (case FeatureRemoteCreateWithInfo m e ds of
                None \<Rightarrow> (e, n)
              | Some (f, fs) \<Rightarrow>
                  (e\<lparr>entity_features := entity_features e @ [(next_ptr n, f)]\<rparr>,
                   n\<lparr>remotes := (remotes n)(next_ptr n := fs), use_case_prev := (use_case_prev n)(next_ptr n := None),
                     next_ptr := next_ptr n + 1\<rparr>))
        else (e, n));
     EntityRemoteAddFeaturesWithInfo m is e n
   }"

definition CheckEntityInformation ::
    "Device \<Rightarrow> bool \<Rightarrow> NetworkManagementEntityDescriptionDataType option \<Rightarrow> EebusError" where
  "CheckEntityInformation dr init i =
     (case i of
        None \<Rightarrow> kEebusErrorInputArgumentNull
      | Some ds \<Rightarrow>
          (case ed_entity_address ds of
             None \<Rightarrow> kEebusErrorInputArgument
           | Some a \<Rightarrow>
               if ea_entity a = None then kEebusErrorInputArgument
               else if init then kEebusErrorOk
               else if ea_device a \<noteq> None \<and> device_address dr \<noteq> None \<and> ea_device a \<noteq> device_address dr
               then kEebusErrorInputArgument
               else kEebusErrorOk))"

text \<open>Replacing the first entity with a list of numbers.\<close>

definition set_entity :: "u32 option list option \<Rightarrow> Entity \<Rightarrow> Device \<Rightarrow> Device" where
  "set_entity ids e dr =
     dr\<lparr>device_entities := update_found (\<lambda>x. Some (EntityAddressMatchIds (entity_address x) ids)) (\<lambda>_. e) (device_entities dr)\<rparr>"

text \<open>
  The loop over the entities of the message. The result has the entities that were added, or \<open>None\<close> if an
  information was refused; the changes up to there stay in the device.
\<close>

fun add_entities ::
    "Model \<Rightarrow> bool \<Rightarrow> NodeManagementDetailedDiscoveryDataType \<Rightarrow> NetworkManagementEntityDescriptionDataType option list \<Rightarrow>
     Device \<Rightarrow> EntityAddressType list \<Rightarrow> Node \<Rightarrow> (EntityAddressType list option \<times> Device \<times> Node) option" where
  "add_entities m init data [] dr new n = Some (Some new, dr, n)"
| "add_entities m init data (i # is) dr new n =
     (if CheckEntityInformation dr init i \<noteq> kEebusErrorOk then Some (None, dr, n)
      else do {
        ds \<leftarrow> i;
        addr \<leftarrow> ed_entity_address ds;
        (e, dr, new) \<leftarrow> (case DeviceGetEntity dr (ea_entity addr) of
            Some e \<Rightarrow> Some (e, dr, new)
          | None \<Rightarrow> do {
              t \<leftarrow> ed_entity_type ds;
              e \<leftarrow> AddEntityWithAddressAndType dr addr (unat t);
              Some (e, dr\<lparr>device_entities := device_entities dr @ [e]\<rparr>, new @ [entity_address e])
            });
        let e = (if ea_device (entity_address e) = None \<or> ea_device (entity_address e) = Some []
                 then (case DeviceInfoGetDeviceAddress (device_information data) of
                         None \<Rightarrow> e
                       | Some a \<Rightarrow> e\<lparr>entity_address := (entity_address e)\<lparr>ea_device := Some a\<rparr>\<rparr>)
                 else e);
        (e, n) \<leftarrow> EntityRemoteAddFeaturesWithInfo m (feature_information data)
                   (e\<lparr>entity_desc := ed_description ds, entity_features := []\<rparr>) n;
        add_entities m init data is (set_entity (ea_entity addr) e dr) new n
      })"

definition AddEntityAndFeatures ::
    "Model \<Rightarrow> Device \<Rightarrow> bool \<Rightarrow> NodeManagementDetailedDiscoveryDataType \<Rightarrow> Node \<Rightarrow>
     (EntityAddressType list option \<times> Device \<times> Node) option" where
  "AddEntityAndFeatures m dr init data n = add_entities m init data (entity_information data) dr [] n"

end
