(* ===== verification/Spine_Device.thy ===== *)
theory Spine_Device
  imports Spine_Discovery
begin

text \<open>
  The local device: the handlers of node management (\<^verbatim>\<open>spine/node_management\<close>), the processing of datagrams, remote
  devices that come and go (\<^verbatim>\<open>spine/device/device_local.c\<close>), and the heartbeat (\<^verbatim>\<open>heartbeat_manager.c\<close>).

  A message names the remote device by its SKI; a device that is no longer in the table was deleted, and
  using it has no outcome. Datagrams are taken after they were parsed. Allocations succeed.
\<close>

section \<open>Node management\<close>

definition NodeManagementSendReply :: "EebusData \<Rightarrow> nat \<Rightarrow> Message \<Rightarrow> Node \<Rightarrow> (EebusError \<times> Node) option" where
  "NodeManagementSendReply data data_type msg n = do {
     (err, s) \<leftarrow> SenderReply (senders n (device_remote msg)) (request_header msg)
                   (Some (feature_address (snd (node_management n))))
                   (Some (CmdCreateEmpty\<lparr>data_choice := data, data_choice_type_id := data_type\<rparr>));
     Some (err, n\<lparr>senders := (senders n)(device_remote msg := s)\<rparr>)
   }"

definition FeatureLocalRequestRemoteDataBySenderAddress ::
    "self \<Rightarrow> CmdType \<Rightarrow> string \<Rightarrow> FeatureAddressType \<Rightarrow> Node \<Rightarrow> EebusError \<times> Node" where
  "FeatureLocalRequestRemoteDataBySenderAddress self cmd ski dest n =
     with_sender ski (\<lambda>s. SenderRead s (Some (feature_address (snd self))) (Some dest) (Some cmd)) n"

definition RequestDetailedDiscovery :: "string \<Rightarrow> string option \<Rightarrow> Node \<Rightarrow> EebusError \<times> Node" where
  "RequestDetailedDiscovery ski addr n =
     FeatureLocalRequestRemoteDataBySenderAddress (node_management n)
       (CmdCreateEmpty\<lparr>data_choice := Seq [Null, Null, Null, Null],
                       data_choice_type_id := kFunctionTypeNodeManagementDetailedDiscoveryData\<rparr>)
       ski (NodeManagementAddress addr) n"

definition RequestUseCaseData :: "string \<Rightarrow> string option \<Rightarrow> Node \<Rightarrow> EebusError \<times> Node" where
  "RequestUseCaseData ski addr n =
     FeatureLocalRequestRemoteDataBySenderAddress (node_management n)
       (CmdCreateEmpty\<lparr>data_choice := Seq [Null], data_choice_type_id := kFunctionTypeNodeManagementUseCaseData\<rparr>)
       ski (NodeManagementAddress addr) n"

text \<open>The core event handler: a new device is subscribed to and asked for its use cases.\<close>

definition DeviceLocalHandleEvent :: "DataEvent \<Rightarrow> Node \<Rightarrow> Node option" where
  "DeviceLocalHandleEvent ev n =
     (if ep_event_type ev \<noteq> kEventTypeDeviceChange \<or> ep_change_type ev \<noteq> kElementChangeAdd then Some n
      else if ep_function_data ev = Null \<or> ep_ski ev = [] then Some n
      else case GetRemoteDeviceWithSki n (ep_ski ev) of
             None \<Rightarrow> Some n
           | Some dr \<Rightarrow>
               if ep_function_type ev \<noteq> kFunctionTypeNodeManagementDetailedDiscoveryData then Some n
               else do {
                 p \<leftarrow> ep_feature ev;
                 (d, f) \<leftarrow> remote_feature_at (world n) (Some p);
                 let addr = (if device (feature_address f) = None then (feature_address f)\<lparr>device := device_address dr\<rparr>
                             else feature_address f);
                 let n = snd (FeatureLocalSubscribeToRemote (node_management n) addr n);
                 Some (snd (RequestUseCaseData (device_ski dr) (device_address dr) n))
               })"

definition EventPublish :: "DataEvent \<Rightarrow> Node \<Rightarrow> Node option" where
  "EventPublish ev n = map_option (log_trace [DataChange ev]) (DeviceLocalHandleEvent ev n)"

definition ProcessReadDetailedDiscoveryData :: "Message \<Rightarrow> Node \<Rightarrow> (EebusError \<times> Node) option" where
  "ProcessReadDetailedDiscoveryData msg n =
     NodeManagementSendReply (discovery_value (AddInfo n (NodeManagementDetailedDiscoveryDataCreate [specification_version])))
       kFunctionTypeNodeManagementDetailedDiscoveryData msg n"

definition ProcessReplyDetailedDiscoveryData :: "Model \<Rightarrow> Message \<Rightarrow> Node \<Rightarrow> (EebusError \<times> Node) option" where
  "ProcessReplyDetailedDiscoveryData m msg n = do {
     data \<leftarrow> value_discovery (data_choice (msg_cmd msg));
     (case device_information data of
        Some (Some ds) \<Rightarrow> do {
          let ski = device_remote msg;
          dr \<leftarrow> GetRemoteDeviceWithSki n ski;
          dr \<leftarrow> UpdateDevice dr ds;
          let n = upd_device ski (\<lambda>_. dr) n;
          (d, f) \<leftarrow> remote_feature_at (world n) (Some (feature_remote msg));
          (new, dr, n) \<leftarrow> AddEntityAndFeatures m dr True data n;
          let n = upd_device ski (\<lambda>_. dr) n;
          (case new of
             None \<Rightarrow> Some (kEebusErrorMemoryAllocate, n)
           | Some es \<Rightarrow> do {
               fr \<leftarrow> RemoteGetFeatureWithAddress dr (Some (feature_address f));
               let ev = \<lparr>ep_ski = ski, ep_event_type = kEventTypeDeviceChange, ep_change_type = kElementChangeAdd,
                         ep_feature = map_option fst fr, ep_local_feature = None,
                         ep_function_type = kFunctionTypeNodeManagementDetailedDiscoveryData,
                         ep_function_data = data_choice (msg_cmd msg), ep_cmd_classifier = None\<rparr>;
               n \<leftarrow> EventPublish ev n;
               Some (kEebusErrorOk,
                 log_trace (map (EntityChange (ev\<lparr>ep_event_type := kEventTypeEntityChange, ep_feature := None\<rparr>)) es) n)
             })
        }
      | _ \<Rightarrow> Some (kEebusErrorInputArgument, n))
   }"

definition HandleMsgDetailedDiscoveryData :: "Model \<Rightarrow> Message \<Rightarrow> Node \<Rightarrow> (EebusError \<times> Node) option" where
  "HandleMsgDetailedDiscoveryData m msg n =
     (case msg_classifier msg of
        kCommandClassifierTypeRead \<Rightarrow> ProcessReadDetailedDiscoveryData msg n
      | kCommandClassifierTypeReply \<Rightarrow> ProcessReplyDetailedDiscoveryData m msg n
      | _ \<Rightarrow> Some (kEebusErrorNotImplemented, n))"

definition link_entry_value :: "link_entry option \<Rightarrow> EebusData" where
  "link_entry_value e =
     (case e of
        None \<Rightarrow> Null
      | Some (i, sa, ca) \<Rightarrow>
          Seq [number_value (Some (ucast i)), feature_address_value (Some ca), feature_address_value (Some sa), Null, Null])"

definition CreateBindingData :: "Device \<Rightarrow> Node \<Rightarrow> EebusData option" where
  "CreateBindingData dr n =
     map_option (\<lambda>(es, k). Seq [Lst (map link_entry_value (take k es))]) (AddBindingEntries (world n) (binding_manager n) dr)"

definition CreateSubscriptionData :: "Device \<Rightarrow> Node \<Rightarrow> EebusData option" where
  "CreateSubscriptionData dr n =
     map_option (\<lambda>(es, k). Seq [Lst (map link_entry_value (take k es))])
       (AddSubscriptionEntries (world n) (subscription_manager n) dr)"

definition HandleMsgBindingData :: "Message \<Rightarrow> Node \<Rightarrow> (EebusError \<times> Node) option" where
  "HandleMsgBindingData msg n =
     (if msg_classifier msg \<noteq> kCommandClassifierTypeCall then Some (kEebusErrorNotImplemented, n)
      else do {
        dr \<leftarrow> GetRemoteDeviceWithSki n (device_remote msg);
        data \<leftarrow> CreateBindingData dr n;
        NodeManagementSendReply data kFunctionTypeNodeManagementBindingData msg n
      })"

definition HandleMsgBindingRequestCall :: "Message \<Rightarrow> Node \<Rightarrow> (EebusError \<times> Node) option" where
  "HandleMsgBindingRequestCall msg n =
     (if msg_classifier msg \<noteq> kCommandClassifierTypeCall then Some (kEebusErrorNotImplemented, n)
      else do {
        data \<leftarrow> value_request_call (data_choice (msg_cmd msg));
        dr \<leftarrow> GetRemoteDeviceWithSki n (device_remote msg);
        (err, bm, evs) \<leftarrow> AddBinding True (world n) (binding_manager n) dr data;
        Some (err, log_trace (map LinkEvent evs) (n\<lparr>binding_manager := bm\<rparr>))
      })"

definition HandleMsgBindingDeleteCall :: "Message \<Rightarrow> Node \<Rightarrow> (EebusError \<times> Node) option" where
  "HandleMsgBindingDeleteCall msg n =
     (if msg_classifier msg \<noteq> kCommandClassifierTypeCall then Some (kEebusErrorNotImplemented, n)
      else do {
        data \<leftarrow> value_delete_call (data_choice (msg_cmd msg));
        dr \<leftarrow> GetRemoteDeviceWithSki n (device_remote msg);
        (err, bm, evs) \<leftarrow> RemoveBinding (world n) (binding_manager n) data dr;
        Some (err, log_trace (map LinkEvent evs) (n\<lparr>binding_manager := bm\<rparr>))
      })"

definition HandleMsgSubscriptionData :: "Message \<Rightarrow> Node \<Rightarrow> (EebusError \<times> Node) option" where
  "HandleMsgSubscriptionData msg n =
     (if msg_classifier msg \<noteq> kCommandClassifierTypeCall then Some (kEebusErrorNotImplemented, n)
      else do {
        dr \<leftarrow> GetRemoteDeviceWithSki n (device_remote msg);
        data \<leftarrow> CreateSubscriptionData dr n;
        NodeManagementSendReply data kFunctionTypeNodeManagementSubscriptionData msg n
      })"

definition HandleMsgSubscriptionRequestCall :: "Message \<Rightarrow> Node \<Rightarrow> (EebusError \<times> Node) option" where
  "HandleMsgSubscriptionRequestCall msg n =
     (if msg_classifier msg \<noteq> kCommandClassifierTypeCall then Some (kEebusErrorNotImplemented, n)
      else do {
        data \<leftarrow> value_request_call (data_choice (msg_cmd msg));
        dr \<leftarrow> GetRemoteDeviceWithSki n (device_remote msg);
        (err, sm, evs) \<leftarrow> AddSubscription True (world n) (subscription_manager n) dr data;
        Some (err, log_trace (map LinkEvent evs) (n\<lparr>subscription_manager := sm\<rparr>))
      })"

definition HandleMsgSubscriptionDeleteCall :: "Message \<Rightarrow> Node \<Rightarrow> (EebusError \<times> Node) option" where
  "HandleMsgSubscriptionDeleteCall msg n =
     (if msg_classifier msg \<noteq> kCommandClassifierTypeCall then Some (kEebusErrorNotImplemented, n)
      else do {
        data \<leftarrow> value_delete_call (data_choice (msg_cmd msg));
        dr \<leftarrow> GetRemoteDeviceWithSki n (device_remote msg);
        (err, sm, evs) \<leftarrow> RemoveSubscription (world n) (subscription_manager n) dr data;
        Some (err, log_trace (map LinkEvent evs) (n\<lparr>subscription_manager := sm\<rparr>))
      })"

definition ProcessReadUseCaseData :: "bool \<Rightarrow> Model \<Rightarrow> Message \<Rightarrow> Node \<Rightarrow> (EebusError \<times> Node) option" where
  "ProcessReadUseCaseData z m msg n =
     (case FeatureGetFunction (fl_functions (locals n (fst (node_management n)))) kFunctionTypeNodeManagementUseCaseData of
        None \<Rightarrow> Some (kEebusErrorNoChange, n)
      | Some fn \<Rightarrow> do {
          r \<leftarrow> CreateReplyCmd z m fn;
          (case r of
             None \<Rightarrow> Some (kEebusErrorMemoryAllocate, n)
           | Some cmd \<Rightarrow> do {
               (err, s) \<leftarrow> SenderReply (senders n (device_remote msg)) (request_header msg)
                             (Some (feature_address (snd (node_management n)))) (Some cmd);
               Some (err, n\<lparr>senders := (senders n)(device_remote msg := s)\<rparr>)
             })
        })"

definition ProcessReplyUseCaseData :: "bool \<Rightarrow> Model \<Rightarrow> Message \<Rightarrow> Node \<Rightarrow> (EebusError \<times> Node) option" where
  "ProcessReplyUseCaseData z m msg n = do {
     let data = data_choice (msg_cmd msg);
     (err, n) \<leftarrow> FEATURE_REMOTE_UPDATE_DATA z m (feature_remote msg) kFunctionTypeNodeManagementUseCaseData data None None True n;
     if err \<noteq> kEebusErrorOk then Some (err, n)
     else do {
       (dr, f) \<leftarrow> remote_feature_at (world n) (Some (feature_remote msg));
       Some (kEebusErrorOk,
         log_trace [DataChange \<lparr>ep_ski = device_ski dr, ep_event_type = kEventTypeDataChange,
           ep_change_type = kElementChangeUpdate, ep_feature = Some (feature_remote msg), ep_local_feature = None,
           ep_function_type = kFunctionTypeNodeManagementUseCaseData, ep_function_data = data,
           ep_cmd_classifier = Some (msg_classifier msg)\<rparr>] n)
     }
   }"

definition HandleMsgUseCaseData :: "bool \<Rightarrow> Model \<Rightarrow> Message \<Rightarrow> Node \<Rightarrow> (EebusError \<times> Node) option" where
  "HandleMsgUseCaseData z m msg n =
     (case msg_classifier msg of
        kCommandClassifierTypeRead \<Rightarrow> ProcessReadUseCaseData z m msg n
      | kCommandClassifierTypeReply \<Rightarrow> ProcessReplyUseCaseData z m msg n
      | kCommandClassifierTypeNotify \<Rightarrow> ProcessReplyUseCaseData z m msg n
      | _ \<Rightarrow> Some (kEebusErrorNotImplemented, n))"

definition ProcessReadDestinationListData :: "Message \<Rightarrow> Node \<Rightarrow> (EebusError \<times> Node) option" where
  "ProcessReadDestinationListData msg n =
     NodeManagementSendReply (Seq [Lst [Seq [device_description_value (DeviceLocalCreateInformation n)]]])
       kFunctionTypeNodeManagementDestinationListData msg n"

definition HandleMsgDestinationListData :: "Message \<Rightarrow> Node \<Rightarrow> (EebusError \<times> Node) option" where
  "HandleMsgDestinationListData msg n =
     (case msg_classifier msg of
        kCommandClassifierTypeRead \<Rightarrow> ProcessReadDestinationListData msg n
      | _ \<Rightarrow> Some (kEebusErrorNotImplemented, n))"

definition NodeManagementHandleMessage :: "bool \<Rightarrow> Model \<Rightarrow> Message \<Rightarrow> Node \<Rightarrow> (EebusError \<times> Node) option" where
  "NodeManagementHandleMessage z m msg n =
     (let t = data_choice_type_id (msg_cmd msg)
      in if data_choice (msg_cmd msg) = Null then Some (kEebusErrorInputArgumentNull, n)
         else if t = kFunctionTypeResultData then FeatureLocalProcessResult (node_management n) msg n
         else if t = kFunctionTypeNodeManagementDetailedDiscoveryData then HandleMsgDetailedDiscoveryData m msg n
         else if t = kFunctionTypeNodeManagementSubscriptionRequestCall then HandleMsgSubscriptionRequestCall msg n
         else if t = kFunctionTypeNodeManagementSubscriptionDeleteCall then HandleMsgSubscriptionDeleteCall msg n
         else if t = kFunctionTypeNodeManagementSubscriptionData then HandleMsgSubscriptionData msg n
         else if t = kFunctionTypeNodeManagementBindingRequestCall then HandleMsgBindingRequestCall msg n
         else if t = kFunctionTypeNodeManagementBindingDeleteCall then HandleMsgBindingDeleteCall msg n
         else if t = kFunctionTypeNodeManagementBindingData then HandleMsgBindingData msg n
         else if t = kFunctionTypeNodeManagementUseCaseData then HandleMsgUseCaseData z m msg n
         else if t = kFunctionTypeNodeManagementDestinationListData then HandleMsgDestinationListData msg n
         else Some (kEebusErrorNotImplemented, n))"

section \<open>Datagrams\<close>

text \<open>The node management feature has its own handler.\<close>

definition FEATURE_LOCAL_HANDLE_MESSAGE ::
    "bool \<Rightarrow> Model \<Rightarrow> approver \<Rightarrow> self \<Rightarrow> Message \<Rightarrow> Node \<Rightarrow> (EebusError \<times> Node) option" where
  "FEATURE_LOCAL_HANDLE_MESSAGE z m app self msg n =
     (if fst self = fst (node_management n) then NodeManagementHandleMessage z m msg n
      else FeatureLocalHandleMessage z m app self msg n)"

definition ProcessCmd ::
    "bool \<Rightarrow> Model \<Rightarrow> approver \<Rightarrow> HeaderType \<Rightarrow> CmdType \<Rightarrow> string \<Rightarrow> Node \<Rightarrow> (EebusError \<times> Node) option" where
  "ProcessCmd z m app h cmd ski n =
     (case LocalGetFeatureWithAddress (local_device (world n)) (dest_addr h) of
        None \<Rightarrow> Some (kEebusErrorInputArgumentOutOfRange, n)
      | Some local_feature \<Rightarrow> do {
          dr \<leftarrow> GetRemoteDeviceWithSki n ski;
          fr \<leftarrow> RemoteGetFeatureWithAddress dr (src_addr h);
          (case fr of
             None \<Rightarrow> Some (kEebusErrorNoChange, n)
           | Some (p, f) \<Rightarrow>
               (case cmd_classifier h of
                  None \<Rightarrow> Some (kEebusErrorInputArgumentNull, n)
                | Some c \<Rightarrow> do {
                    let msg = \<lparr>request_header = Some h, msg_classifier = c, msg_cmd = cmd,
                               msg_filter_partial = CmdGetFilterPartial cmd, msg_filter_delete = CmdGetFilterDelete cmd,
                               feature_remote = p, device_remote = ski\<rparr>;
                    bound \<leftarrow> (if c = kCommandClassifierTypeWrite
                              then HasBinding (world n) (binding_manager n) (Some (feature_address (snd local_feature)))
                                     (Some (feature_address f))
                              else Some True);
                    if \<not> bound then Some (kEebusErrorNoChange, n)
                    else FEATURE_LOCAL_HANDLE_MESSAGE z m app local_feature msg n
                  }))
        })"

fun process_cmds ::
    "bool \<Rightarrow> Model \<Rightarrow> approver \<Rightarrow> HeaderType \<Rightarrow> CmdType option list \<Rightarrow> string \<Rightarrow> Node \<Rightarrow> (EebusError \<times> Node) option" where
  "process_cmds z m app h [] ski n = Some (kEebusErrorOk, n)"
| "process_cmds z m app h (c # cs) ski n =
     (case c of
        None \<Rightarrow> Some (kEebusErrorInputArgumentNull, n)
      | Some cmd \<Rightarrow> do {
          (err, n) \<leftarrow> ProcessCmd z m app h cmd ski n;
          if err \<noteq> kEebusErrorOk then Some (err, n) else process_cmds z m app h cs ski n
        })"

definition ProcessDatagram ::
    "bool \<Rightarrow> Model \<Rightarrow> approver \<Rightarrow> DatagramType option \<Rightarrow> string \<Rightarrow> Node \<Rightarrow> (EebusError \<times> Node) option" where
  "ProcessDatagram z m app datagram ski n =
     (case datagram of
        None \<Rightarrow> Some (kEebusErrorInputArgumentNull, n)
      | Some d \<Rightarrow>
          (case (header d, payload d) of
             (Some h, Some cmds) \<Rightarrow>
               if cmd_classifier h = None \<or> cmds = [] then Some (kEebusErrorInputArgumentNull, n)
               else do {
                 (err, n) \<leftarrow> process_cmds z m app h cmds ski n;
                 let ack = ack_request h = Some True \<and>
                           the (cmd_classifier h) \<in> {kCommandClassifierTypeCall, kCommandClassifierTypeReply, kCommandClassifierTypeNotify};
                 Some (err, if err = kEebusErrorOk \<and> ack
                            then snd (with_sender ski (\<lambda>s. ResultSuccess s (Some h) (dest_addr h)) n) else n)
               }
           | _ \<Rightarrow> Some (kEebusErrorInputArgumentNull, n)))"

section \<open>Remote devices\<close>

definition kEntityTypeTypeDeviceInformation :: nat where "kEntityTypeTypeDeviceInformation = 2"

text \<open>A new remote device has its device information with node management and nothing else.\<close>

definition DeviceRemoteConstruct :: "string \<Rightarrow> ptr \<Rightarrow> Device" where
  "DeviceRemoteConstruct ski p =
     \<lparr>device_ski = ski, device_address = None,
      device_entities = [\<lparr>entity_address = EntityAddressCreate None [0],
        entity_features = [(p, \<lparr>feature_address = NodeManagementAddress None, feature_type = kFeatureTypeTypeNodeManagement,
          feature_role = kRoleTypeSpecial, feature_desc = None\<rparr>)],
        entity_type = kEntityTypeTypeDeviceInformation, entity_desc = None, next_feature_id = 1\<rparr>],
      device_type = None, device_feature_set = Some None\<rparr>"

text \<open>The SKI is new: the table refuses a second device with the same one.\<close>

definition SetupRemoteDevice :: "Model \<Rightarrow> string \<Rightarrow> bool \<Rightarrow> Node \<Rightarrow> Node" where
  "SetupRemoteDevice m ski w n =
     (let p = next_ptr n;
          dr = DeviceRemoteConstruct ski p;
          n = n\<lparr>world := (world n)\<lparr>remote_devices := remote_devices (world n) @ [dr]\<rparr>, next_ptr := p + 1,
                senders := (senders n)(ski := SenderConstruct w),
                remotes := (remotes n)(p := FeatureConstruct_functions m kFeatureTypeTypeNodeManagement),
                use_case_prev := (use_case_prev n)(p := None)\<rparr>
      in snd (RequestDetailedDiscovery ski (device_address dr) n))"

definition RemoveRemoteDevice :: "string \<Rightarrow> Node \<Rightarrow> Node option" where
  "RemoveRemoteDevice ski n =
     (case GetRemoteDeviceWithSki n ski of
        None \<Rightarrow> Some n
      | Some dr \<Rightarrow> do {
          (sm, sevs) \<leftarrow> RemoveDeviceSubscriptions (world n) (subscription_manager n) (Some dr);
          (bm, bevs) \<leftarrow> RemoveDeviceBindings (world n) (binding_manager n) (Some dr);
          let n = log_trace (map LinkEvent (sevs @ bevs)) (n\<lparr>subscription_manager := sm, binding_manager := bm\<rparr>);
          let n = foldl (\<lambda>n (p, f). FeatureLocalCleanRemoteDeviceCaches p (device_address dr) n) n
                    (device_features (local_device (world n)));
          Some (n\<lparr>world := (world n)\<lparr>remote_devices := remove1 dr (remote_devices (world n))\<rparr>\<rparr>)
        })"

definition RemoveRemoteDeviceConnection :: "string \<Rightarrow> Node \<Rightarrow> Node option" where
  "RemoveRemoteDeviceConnection ski n =
     (if GetRemoteDeviceWithSki n ski = None then Some n
      else map_option (log_trace [DataChange \<lparr>ep_ski = ski, ep_event_type = kEventTypeDeviceChange,
             ep_change_type = kElementChangeRemove, ep_feature = None, ep_local_feature = None, ep_function_type = 0,
             ep_function_data = Null, ep_cmd_classifier = None\<rparr>]) (RemoveRemoteDevice ski n))"

end
