(* ===== verification/Spine_Heartbeat.thy ===== *)
theory Spine_Heartbeat
  imports Spine_Device
begin

text \<open>
  The heartbeat of a local entity (\<^verbatim>\<open>spine/heartbeat/heartbeat_manager.c\<close>), the tick of a second and the messages of
  the queue of the local device (\<^verbatim>\<open>spine/device/device_local.c\<close>).

  The time stamp of a beat is the parameter \<open>now\<close>. The state of a manager is a member of the node, under the
  address of its entity; the operations below are on this state together with the node. Datagrams in
  the queue are taken as parsed. \<open>None\<close> is undefined behaviour, here the use of a feature that was never set.
\<close>

section \<open>The heartbeat manager\<close>

text \<open>\<^verbatim>\<open>DeviceDiagnosisHeartbeatDataType\<close>: the counter has eight bytes, the duration seven numbers of four.\<close>

definition u64_bytes :: "u64 \<Rightarrow> byte list" where
  "u64_bytes w = map (\<lambda>i. char_of (unat (drop_bit (8 * i) w))) [0..<8]"

definition heartbeat_value :: "EebusData \<Rightarrow> u64 \<Rightarrow> u32 \<Rightarrow> EebusData" where
  "heartbeat_value now num timeout =
     Seq [now, Simple (u64_bytes num),
          Simple (concat (map u32_bytes [0, 0, 0, 0, 0, timeout, 0]))]"

definition UpdateHeartbeatData :: "bool \<Rightarrow> Model \<Rightarrow> EebusData \<Rightarrow> HeartbeatManager \<Rightarrow> Node \<Rightarrow> Node option" where
  "UpdateHeartbeatData z m now hm n = do {
     f \<leftarrow> hb_local_feature hm;
     FeatureLocalSetData z m f kFunctionTypeDeviceDiagnosisHeartbeatData
       (heartbeat_value now (heartbeat_num hm) (heartbeat_timeout hm)) n
   }"

definition HeartbeatManagerConstruct :: "u32 \<Rightarrow> HeartbeatManager" where
  "HeartbeatManagerConstruct timeout =
     \<lparr>hb_local_feature = None, heartbeat_num = 0, tick_cnt = timeout, heartbeat_timeout = timeout, hb_running = False\<rparr>"

definition HeartbeatStart :: "bool \<Rightarrow> Model \<Rightarrow> EebusData \<Rightarrow> HeartbeatManager \<Rightarrow> Node \<Rightarrow> (HeartbeatManager \<times> Node) option" where
  "HeartbeatStart z m now hm n =
     (let hm = hm\<lparr>hb_running := True\<rparr>
      in if hb_local_feature hm = None then Some (hm, n)
         else do {
           let hm = hm\<lparr>heartbeat_num := heartbeat_num hm + 1\<rparr>;
           n \<leftarrow> UpdateHeartbeatData z m now hm n;
           Some (hm\<lparr>tick_cnt := (if heartbeat_timeout hm > 1 then heartbeat_timeout hm div 2 else heartbeat_timeout hm)\<rparr>, n)
         })"

definition HeartbeatStop :: "HeartbeatManager \<Rightarrow> HeartbeatManager" where
  "HeartbeatStop hm = (if hb_running hm then hm\<lparr>hb_running := False\<rparr> else hm)"

definition SetLocalFeature ::
    "bool \<Rightarrow> Model \<Rightarrow> EebusData \<Rightarrow> self option \<Rightarrow> HeartbeatManager \<Rightarrow> Node \<Rightarrow> (HeartbeatManager \<times> Node) option" where
  "SetLocalFeature z m now f hm n =
     (case f of
        None \<Rightarrow> Some (hm, n)
      | Some self \<Rightarrow>
          if feature_type (snd self) \<noteq> kFeatureTypeTypeDeviceDiagnosis \<or> feature_role (snd self) \<noteq> kRoleTypeServer
          then Some (hm, n)
          else if Option.bind (FeatureGetFunction (fl_functions (locals n (fst self))) kFunctionTypeDeviceDiagnosisHeartbeatData)
                    foperations = None
          then Some (hm, n)
          else do {
            let hm = hm\<lparr>hb_local_feature := Some self\<rparr>;
            n \<leftarrow> UpdateHeartbeatData z m now hm n;
            HeartbeatStart z m now hm n
          })"

text \<open>The product of the timeout with three wraps around.\<close>

definition HeartbeatTick :: "bool \<Rightarrow> Model \<Rightarrow> EebusData \<Rightarrow> HeartbeatManager \<Rightarrow> Node \<Rightarrow> (HeartbeatManager \<times> Node) option" where
  "HeartbeatTick z m now hm n =
     (if heartbeat_timeout hm = 0 then Some (hm, n)
      else let hm = (if hb_running hm \<and> tick_cnt hm > 0 then hm\<lparr>tick_cnt := tick_cnt hm - 1\<rparr> else hm)
           in if tick_cnt hm \<noteq> 0 then Some (hm, n)
              else do {
                let hm = hm\<lparr>heartbeat_num := heartbeat_num hm + 1\<rparr>;
                n \<leftarrow> UpdateHeartbeatData z m now hm n;
                let cnt = (heartbeat_timeout hm * 3) div 4;
                Some (hm\<lparr>tick_cnt := (if cnt = 0 then 1 else cnt)\<rparr>, n)
              })"

section \<open>The tick of the device\<close>

definition EntityLocalTick :: "Entity \<Rightarrow> Node \<Rightarrow> Node" where
  "EntityLocalTick e n = fold FeatureLocalTick (entity_features e) n"

fun tick_entities :: "bool \<Rightarrow> Model \<Rightarrow> EebusData \<Rightarrow> Entity list \<Rightarrow> Node \<Rightarrow> Node option" where
  "tick_entities z m now [] n = Some n"
| "tick_entities z m now (e # es) n = do {
     let n = EntityLocalTick e n;
     n \<leftarrow> (case heartbeats n (entity_address e) of
             None \<Rightarrow> Some n
           | Some hm \<Rightarrow>
               map_option (\<lambda>(hm, n). n\<lparr>heartbeats := (heartbeats n)(entity_address e \<mapsto> hm)\<rparr>) (HeartbeatTick z m now hm n));
     tick_entities z m now es n
   }"

definition DeviceLocalTick :: "bool \<Rightarrow> Model \<Rightarrow> EebusData \<Rightarrow> Node \<Rightarrow> Node option" where
  "DeviceLocalTick z m now n = tick_entities z m now (device_entities (local_device (world n))) n"

text \<open>The message at the head of the queue; a received datagram names its device.\<close>

datatype DeviceLocalQueueMessage =
    kDeviceLocalQueueMsgTypeDataReceived "DatagramType option" string
  | kDeviceLocalQueueMsgTypeTimerTick EebusData
  | kDeviceLocalQueueMsgTypeCancel

definition HandleQueueMessage ::
    "bool \<Rightarrow> Model \<Rightarrow> approver \<Rightarrow> DeviceLocalQueueMessage \<Rightarrow> Node \<Rightarrow> (EebusError \<times> Node) option" where
  "HandleQueueMessage z m app msg n =
     (case msg of
        kDeviceLocalQueueMsgTypeDataReceived d ski \<Rightarrow> ProcessDatagram z m app d ski n
      | kDeviceLocalQueueMsgTypeTimerTick now \<Rightarrow> map_option (Pair kEebusErrorOk) (DeviceLocalTick z m now n)
      | kDeviceLocalQueueMsgTypeCancel \<Rightarrow> Some (kEebusErrorOk, n))"

end
