(* ===== verification/Spine_Feature_Laws.thy ===== *)
theory Spine_Feature_Laws
  imports Spine_Feature
begin

text \<open>
  The laws of writes to local features: a write waits for its approvals and is then done as it was asked
  for, and a request without them times out.
\<close>

section \<open>Frame lemmas\<close>

lemma upd_local_simps [simp]:
  "locals (upd_local p f n) p = f (locals n p)" "world (upd_local p f n) = world n"
  "q \<noteq> p \<Longrightarrow> locals (upd_local p f n) q = locals n q"
  "senders (upd_local p f n) = senders n" "traces (upd_local p f n) = traces n" "remotes (upd_local p f n) = remotes n"
  "subscription_manager (upd_local p f n) = subscription_manager n" "binding_manager (upd_local p f n) = binding_manager n"
  "use_case_prev (upd_local p f n) = use_case_prev n"
  by (simp_all add: upd_local_def)

lemma log_trace_simps [simp]:
  "locals (log_trace t n) = locals n" "world (log_trace t n) = world n" "senders (log_trace t n) = senders n"
  "traces (log_trace t n) = traces n @ t" "subscription_manager (log_trace t n) = subscription_manager n"
  "remotes (log_trace t n) = remotes n" "binding_manager (log_trace t n) = binding_manager n"
  "use_case_prev (log_trace t n) = use_case_prev n"
  by (simp_all add: log_trace_def)

lemma with_sender_simps [simp]:
  "locals (snd (with_sender ski f n)) = locals n" "world (snd (with_sender ski f n)) = world n"
  "traces (snd (with_sender ski f n)) = traces n" "remotes (snd (with_sender ski f n)) = remotes n"
  "subscription_manager (snd (with_sender ski f n)) = subscription_manager n"
  "binding_manager (snd (with_sender ski f n)) = binding_manager n"
  "fst (with_sender ski f n) = fst (f (senders n ski))"
  "senders (snd (with_sender ski f n)) = (senders n)(ski := snd (f (senders n ski)))"
  by (simp_all add: with_sender_def split: prod.splits)

lemma upd_local_comp [simp]: "upd_local p f (upd_local p g n) = upd_local p (f \<circ> g) n"
  by (simp add: upd_local_def)

lemma upd_local_id: "f (locals n p) = locals n p \<Longrightarrow> upd_local p f n = n"
  by (simp add: upd_local_def fun_upd_idem)

lemma lookups_upd_local [simp]:
  "GetRemoteDeviceWithAddress (upd_local p f n) = GetRemoteDeviceWithAddress n"
  "PendingWriteRequest_GetMessage r (upd_local p f n) = PendingWriteRequest_GetMessage r n"
  "GetRemoteDeviceSender (upd_local p f n) = GetRemoteDeviceSender n"
  by (simp_all add: GetRemoteDeviceWithAddress_def fun_eq_iff PendingWriteRequest_GetMessage_def GetRemoteDeviceSender_def)

lemma lookups_with_sender [simp]:
  "GetRemoteDeviceWithAddress (snd (with_sender ski f n)) = GetRemoteDeviceWithAddress n"
  "PendingWriteRequest_GetMessage r (snd (with_sender ski f n)) = PendingWriteRequest_GetMessage r n"
  "GetRemoteDeviceSender (snd (with_sender ski f n)) = GetRemoteDeviceSender n"
  by (simp_all add: GetRemoteDeviceWithAddress_def fun_eq_iff PendingWriteRequest_GetMessage_def GetRemoteDeviceSender_def)

section \<open>Approvals\<close>

definition request_key :: "PendingWriteRequest \<Rightarrow> string \<times> u64" where
  "request_key r = (pw_ski r, msg_counter r)"

definition requests_ok :: "FeatureLocal \<Rightarrow> bool" where
  "requests_ok fl \<longleftrightarrow> distinct (map request_key (pending_write_requests fl))"

definition approvals_in :: "approval_action list \<Rightarrow> string \<Rightarrow> u64 \<Rightarrow> nat" where
  "approvals_in as ski cnt = length (filter (\<lambda>a. a = Approve (Some ski) cnt) as)"

text \<open>No pending request gets as many approvals as there are callbacks.\<close>

definition below :: "FeatureLocal \<Rightarrow> approval_action list \<Rightarrow> bool" where
  "below fl as \<longleftrightarrow>
     (\<forall>r \<in> set (pending_write_requests fl).
        unat (num_approvals r) + approvals_in as (pw_ski r) (msg_counter r) < length (wr_approval_cbs fl))"

lemma approvals_in_Cons:
  "approvals_in (a # as) ski cnt = (if a = Approve (Some ski) cnt then 1 else 0) + approvals_in as ski cnt"
  by (simp add: approvals_in_def)

lemma below_mono: "below fl bs \<Longrightarrow> \<forall>ski cnt. approvals_in as ski cnt \<le> approvals_in bs ski cnt \<Longrightarrow> below fl as"
  unfolding below_def by (meson add_left_mono le_less_trans)

lemma below_Cons: "below fl (a # as) \<Longrightarrow> below fl as"
  by (erule below_mono) (simp add: approvals_in_Cons)

lemma find_request_SomeD:
  assumes "FindPendingWriteRequest fl ski cnt = Some r"
  shows "r \<in> set (pending_write_requests fl)" "pw_ski r = ski" "msg_counter r = cnt"
  using assms by (auto simp: FindPendingWriteRequest_def find_Some_iff)

lemma unat_plus_one_le: "unat (x + 1 :: u64) \<le> unat x + 1"
proof (cases "x + 1 = 0")
  case False
  then show ?thesis using unatSuc [of x] by (simp add: add.commute)
qed simp

lemma set_request_ok:
  assumes "requests_ok fl" "request_key r' = request_key r"
  shows "requests_ok (set_request r r' fl)"
proof -
  have "request_key \<circ> (\<lambda>q. if q = r then r' else q) = request_key" using assms(2) by (auto simp: fun_eq_iff)
  then show ?thesis using assms(1) by (simp add: requests_ok_def set_request_def)
qed

lemma set_request_below:
  assumes "below fl (Approve (Some ski) cnt # as)" "FindPendingWriteRequest fl ski cnt = Some r"
  shows "below (set_request r (PendingWriteRequest_AddApproval r) fl) as"
    "unat (num_approvals (PendingWriteRequest_AddApproval r)) < length (wr_approval_cbs fl)"
proof -
  note r = find_request_SomeD [OF assms(2)]
  have lt: "unat (num_approvals r) + 1 + approvals_in as ski cnt < length (wr_approval_cbs fl)"
    using assms(1) r by (auto simp: below_def approvals_in_Cons)
  then show "unat (num_approvals (PendingWriteRequest_AddApproval r)) < length (wr_approval_cbs fl)"
    using unat_plus_one_le [of "num_approvals r"] by (simp add: PendingWriteRequest_AddApproval_def)
  show "below (set_request r (PendingWriteRequest_AddApproval r) fl) as"
    unfolding below_def
  proof
    fix q assume "q \<in> set (pending_write_requests (set_request r (PendingWriteRequest_AddApproval r) fl))"
    then consider "q = PendingWriteRequest_AddApproval r" | "q \<in> set (pending_write_requests fl)"
      by (auto simp: set_request_def split: if_splits)
    then show "unat (num_approvals q) + approvals_in as (pw_ski q) (msg_counter q)
        < length (wr_approval_cbs (set_request r (PendingWriteRequest_AddApproval r) fl))"
    proof cases
      case 1
      then show ?thesis using lt r(2,3) unat_plus_one_le [of "num_approvals r"]
        by (simp add: PendingWriteRequest_AddApproval_def set_request_def)
    next
      case 2
      then show ?thesis using below_Cons [OF assms(1)] by (simp add: below_def set_request_def)
    qed
  qed
qed

lemma remove_request_ok:
  assumes "requests_ok fl"
  shows "requests_ok (remove_request r fl)" "below fl as \<Longrightarrow> below (remove_request r fl) as"
proof -
  have "distinct (map request_key (remove1 r qs))" if "distinct (map request_key qs)" for qs
    using that by (induction qs) (auto dest: notin_set_remove1 simp: image_iff)
  then show "requests_ok (remove_request r fl)" using assms by (simp add: requests_ok_def remove_request_def)
  show "below (remove_request r fl) as" if "below fl as"
    using that notin_set_remove1 [of _ "pending_write_requests fl" r] by (auto simp: below_def remove_request_def)
qed

text \<open>What an approval step keeps while no request has all of its approvals.\<close>

definition unchanged :: "self \<Rightarrow> Node \<Rightarrow> Node \<Rightarrow> bool" where
  "unchanged self n n' \<longleftrightarrow> fl_functions (locals n' (fst self)) = fl_functions (locals n (fst self)) \<and>
     wr_approval_cbs (locals n' (fst self)) = wr_approval_cbs (locals n (fst self)) \<and> world n' = world n \<and> remotes n' = remotes n"

lemma unchanged_trans: "unchanged self a b \<Longrightarrow> unchanged self b c \<Longrightarrow> unchanged self a c"
  by (simp add: unchanged_def)

lemma deny_cases:
  obtains "snd (FeatureLocalDenyWrite self ski cnt e n) = n"
  | r ski' f where "snd (FeatureLocalDenyWrite self ski cnt e n) = upd_local (fst self) (remove_request r) (snd (with_sender ski' f n))"
proof (cases "feature_role (snd self) \<noteq> kRoleTypeServer \<or> ski = None \<or> e = None \<or>
    error_number (the e) = kErrorNumberTypeNoError \<or> FindPendingWriteRequest (locals n (fst self)) (the ski) cnt = None")
  case False
  then obtain r where "FindPendingWriteRequest (locals n (fst self)) (the ski) cnt = Some r" by auto
  then show thesis
    using False that by (cases "PendingWriteRequest_GetMessage r n") (auto simp: FeatureLocalDenyWrite_def)
qed (use that(1) in \<open>auto simp: FeatureLocalDenyWrite_def\<close>)

lemma run_actions_below:
  assumes "requests_ok (locals n (fst self))" "below (locals n (fst self)) as"
  shows "\<exists>n'. run_actions z m self as n = Some n' \<and> unchanged self n n' \<and> requests_ok (locals n' (fst self)) \<and>
    traces n' = traces n \<and> (\<forall>bs. below (locals n (fst self)) (as @ bs) \<longrightarrow> below (locals n' (fst self)) bs)"
  using assms
proof (induction as arbitrary: n)
  case Nil
  then show ?case by (simp add: unchanged_def)
next
  case (Cons a as)
  let ?fl = "locals n (fst self)"
  have step: "\<exists>n1. run_actions z m self (a # as) n = run_actions z m self as n1 \<and> unchanged self n n1 \<and>
      requests_ok (locals n1 (fst self)) \<and> traces n1 = traces n \<and>
      (\<forall>bs. below ?fl (a # bs) \<longrightarrow> below (locals n1 (fst self)) bs)"
  proof (cases a)
    case (Approve ski cnt)
    show ?thesis
    proof (cases "feature_role (snd self) \<noteq> kRoleTypeServer \<or> ski = None \<or> FindPendingWriteRequest ?fl (the ski) cnt = None")
      case True
      then have "run_actions z m self (a # as) n = run_actions z m self as n"
        by (auto simp: Approve FeatureLocalTryApproveWrite_def)
      then show ?thesis using Cons.prems below_Cons by (auto simp: unchanged_def)
    next
      case False
      then obtain s r where s: "ski = Some s" "FindPendingWriteRequest ?fl s cnt = Some r" by auto
      let ?n = "upd_local (fst self) (set_request r (PendingWriteRequest_AddApproval r)) n"
      have b: "below ?fl (Approve (Some s) cnt # bs) \<Longrightarrow> below (set_request r (PendingWriteRequest_AddApproval r) ?fl) bs" for bs
        using set_request_below(1) s(2) by blast
      have "run_actions z m self (a # as) n = run_actions z m self as ?n"
        using False s set_request_below(2) [OF _ s(2), of as] Cons.prems(2)
        by (simp add: Approve FeatureLocalTryApproveWrite_def Let_def set_request_def)
      moreover have "requests_ok (set_request r (PendingWriteRequest_AddApproval r) ?fl)"
        using Cons.prems(1) by (intro set_request_ok) (simp_all add: PendingWriteRequest_AddApproval_def request_key_def)
      ultimately show ?thesis
        using b by (intro exI [of _ ?n]) (auto simp: unchanged_def set_request_def Approve s(1))
    qed
  next
    case (Deny ski cnt e)
    let ?n = "snd (FeatureLocalDenyWrite self ski cnt e n)"
    have run: "run_actions z m self (a # as) n = run_actions z m self as ?n" by (simp add: Deny)
    from deny_cases [of self ski cnt e n] show ?thesis
    proof cases
      case 1
      then show ?thesis using run Cons.prems(1) below_Cons by (intro exI [of _ n]) (auto simp: unchanged_def)
    next
      case (2 r ski' f)
      have "unchanged self n ?n" unfolding 2 by (simp add: unchanged_def remove_request_def)
      moreover have "requests_ok (locals ?n (fst self))" unfolding 2 using remove_request_ok(1) [OF Cons.prems(1)] by simp
      moreover have "below (locals ?n (fst self)) bs" if "below ?fl (a # bs)" for bs
        unfolding 2 using remove_request_ok(2) [OF Cons.prems(1) below_Cons [OF that]] by simp
      moreover have "traces ?n = traces n" unfolding 2 by simp
      ultimately show ?thesis using run by blast
    qed
  qed
  then obtain n1 where n1: "run_actions z m self (a # as) n = run_actions z m self as n1" "unchanged self n n1"
      "requests_ok (locals n1 (fst self))" "traces n1 = traces n"
      "\<And>bs. below ?fl (a # bs) \<Longrightarrow> below (locals n1 (fst self)) bs" by blast
  show ?case
    using Cons.IH [OF n1(3) n1(5) [OF Cons.prems(2)]] n1 unchanged_trans by (metis append_Cons)
qed

lemma approval_callbacks_below:
  assumes "requests_ok (locals n (fst self))" "below (locals n (fst self)) (concat (map acts cbs))"
    and "\<forall>cb \<in> set cbs. \<forall>w. app cb msg w = acts cb"
  shows "\<exists>n'. ProcessWriteApprovalCallbacks z m app self msg cbs n = Some n' \<and> unchanged self n n'"
  using assms
proof (induction cbs arbitrary: n)
  case (Cons cb cbs)
  let ?n = "log_trace [ApprovalRequest cb msg] n"
  have b: "below (locals ?n (fst self)) (acts cb @ concat (map acts cbs))" using Cons.prems by simp
  then have "below (locals ?n (fst self)) (acts cb)"
    by (rule below_mono) (simp add: approvals_in_def)
  then obtain n' where n': "run_actions z m self (acts cb) ?n = Some n'" "unchanged self ?n n'" "requests_ok (locals n' (fst self))"
      "\<forall>bs. below (locals ?n (fst self)) (acts cb @ bs) \<longrightarrow> below (locals n' (fst self)) bs"
    using run_actions_below [of ?n self "acts cb" z m] Cons.prems(1) unfolding log_trace_simps(1) by blast
  have "below (locals n' (fst self)) (concat (map acts cbs))" using n'(4) b by blast
  moreover have "\<forall>cb \<in> set cbs. \<forall>w. app cb msg w = acts cb" using Cons.prems(3) by simp
  ultimately obtain m' where m': "ProcessWriteApprovalCallbacks z m app self msg cbs n' = Some m'" "unchanged self n' m'"
    using Cons.IH [OF n'(3)] by blast
  have "unchanged self n ?n" by (simp add: unchanged_def)
  then have "unchanged self n m'" using n'(2) m'(2) unchanged_trans by blast
  then show ?case using n'(1) m'(1) Cons.prems(3) by simp
qed (simp add: unchanged_def)

text \<open>
  C24. A write to a feature with approval callbacks waits for them: whatever the callbacks do while they are
  asked, as long as no pending request, the new one included, is approved as often as there are
  callbacks, the write returns and the data of the feature's functions is unchanged.
\<close>

theorem write_waits_for_approvals:
  assumes "wr_approval_cbs (locals n (fst self)) \<noteq> []" "requests_ok (locals n (fst self))"
    and "\<forall>cb \<in> set (wr_approval_cbs (locals n (fst self))). \<forall>w. app cb msg w = acts cb"
    and "actions = concat (map acts (wr_approval_cbs (locals n (fst self))))"
    and "below (locals n (fst self)) actions"
    and "\<forall>cnt. approvals_in actions (device_remote msg) cnt < length (wr_approval_cbs (locals n (fst self)))"
    and "remote_feature_at (world n) (Some (feature_remote msg)) \<noteq> None"
  shows "\<exists>n'. ProcessWrite z m app self msg n = Some (kEebusErrorOk, n') \<and>
    (\<forall>t. FeatureLocalGetData self t n' = FeatureLocalGetData self t n)"
proof -
  let ?fl = "locals n (fst self)"
  have "\<exists>n1. AddPendingWriteRequest self msg n = Some n1 \<and> unchanged self n n1 \<and> requests_ok (locals n1 (fst self)) \<and>
      below (locals n1 (fst self)) actions"
  proof (cases "Option.bind (request_header msg) msg_cnt = None \<or> feature_role (snd self) \<noteq> kRoleTypeServer \<or>
      FindPendingWriteRequest ?fl (device_remote msg) (the (Option.bind (request_header msg) msg_cnt)) \<noteq> None")
    case True
    then have "AddPendingWriteRequest self msg n = Some n" by (auto simp: AddPendingWriteRequest_def split: option.splits)
    then show ?thesis using assms(2,5) by (simp add: unchanged_def)
  next
    case False
    then obtain h cnt where h: "request_header msg = Some h" "msg_cnt h = Some cnt"
        "FindPendingWriteRequest ?fl (device_remote msg) cnt = None" by (auto simp: bind_eq_Some_conv)
    obtain dr f where f: "remote_feature_at (world n) (Some (feature_remote msg)) = Some (dr, f)" using assms(7) by auto
    define r where "r = the (PendingWriteRequestCreate msg (feature_address f))"
    have r: "PendingWriteRequestCreate msg (feature_address f) = Some r" "request_key r = (device_remote msg, cnt)"
        "num_approvals r = 0" "pw_ski r = device_remote msg" "msg_counter r = cnt"
      by (simp_all add: r_def PendingWriteRequestCreate_def h request_key_def)
    have "request_key r \<notin> request_key ` set (pending_write_requests ?fl)"
      using h(3) r(2) by (auto simp: FindPendingWriteRequest_def find_None_iff request_key_def)
    then have "requests_ok (?fl\<lparr>pending_write_requests := pending_write_requests ?fl @ [r]\<rparr>)"
      using assms(2) by (simp add: requests_ok_def)
    moreover have "below (?fl\<lparr>pending_write_requests := pending_write_requests ?fl @ [r]\<rparr>) actions"
      using assms(5,6) r by (auto simp: below_def)
    ultimately show ?thesis
      using False h f r(1)
      by (intro exI [of _ "upd_local (fst self) (\<lambda>fl. fl\<lparr>pending_write_requests := pending_write_requests fl @ [r]\<rparr>) n"])
        (simp add: AddPendingWriteRequest_def unchanged_def)
  qed
  then obtain n1 where n1: "AddPendingWriteRequest self msg n = Some n1" "unchanged self n n1"
      "requests_ok (locals n1 (fst self))" "below (locals n1 (fst self)) actions" by blast
  moreover have "wr_approval_cbs (locals n1 (fst self)) = wr_approval_cbs ?fl" using n1(2) by (simp add: unchanged_def)
  ultimately obtain n' where "ProcessWriteApprovalCallbacks z m app self msg (wr_approval_cbs ?fl) n1 = Some n'" "unchanged self n1 n'"
    using approval_callbacks_below [of n1 self acts "wr_approval_cbs ?fl" app msg z m] assms(3,4) by auto
  then show ?thesis
    using n1 assms(1) by (intro exI [of _ n']) (simp add: ProcessWrite_def unchanged_def FeatureLocalGetData_def)
qed

section \<open>An example\<close>

definition example_self :: self where
  "example_self =
     (1, \<lparr>feature_address = \<lparr>device = Some ''L'', entity = Some [Some 1], feature = Some 2\<rparr>, feature_type = 3,
          feature_role = kRoleTypeServer, feature_desc = None\<rparr>)"

definition example_node_management :: self where
  "example_node_management =
     (0, \<lparr>feature_address = \<lparr>device = Some ''L'', entity = Some [Some 0], feature = Some 0\<rparr>,
          feature_type = kFeatureTypeTypeNodeManagement, feature_role = kRoleTypeSpecial, feature_desc = None\<rparr>)"

definition example_node :: "callback list \<Rightarrow> Node" where
  "example_node cbs =
     \<lparr>world = example_world, binding_manager = example_bindings, subscription_manager = example_subscriptions,
      locals = (\<lambda>_. (FeatureLocalConstruct [FunctionConstruct load_control_model 0])\<lparr>wr_approval_cbs := cbs\<rparr>),
      remotes = (\<lambda>_. [FunctionConstruct load_control_model 0]), use_case_prev = (\<lambda>_. None),
      senders = (\<lambda>_. SenderConstruct True), node_management = example_node_management, heartbeats = (\<lambda>_. None),
      next_ptr = 10, traces = []\<rparr>"

definition example_header :: HeaderType where
  "example_header =
     \<lparr>spec_version = Some specification_version,
      src_addr = Some \<lparr>device = Some ''A'', entity = Some [Some 1], feature = Some 2\<rparr>,
      dest_addr = Some \<lparr>device = Some ''L'', entity = Some [Some 1], feature = Some 2\<rparr>, originator_addr = None,
      msg_cnt = Some 7, msg_cnt_ref = None, cmd_classifier = Some kCommandClassifierTypeWrite, ack_request = Some True\<rparr>"

definition example_write :: Message where
  "example_write =
     \<lparr>request_header = Some example_header, msg_classifier = kCommandClassifierTypeWrite,
      msg_cmd = CmdCreateEmpty\<lparr>data_choice := limits [limit (CHR 0x01) (Some True) None], data_choice_type_id := 0\<rparr>,
      msg_filter_partial = None, msg_filter_delete = None, feature_remote = 2, device_remote = ''A''\<rparr>"

lemmas example_feature_simps = example_self_def example_node_def example_header_def example_write_def FeatureLocalConstruct_def

theorem write_waits_for_approvals_witness:
  "\<exists>n'. ProcessWrite False load_control_model (\<lambda>cb msg w. if cb = (1, 1) then [Approve (Some ''A'') 7] else [])
      example_self example_write (example_node [(0, 0), (1, 1)]) = Some (kEebusErrorOk, n') \<and>
    (\<forall>t. FeatureLocalGetData example_self t n' = FeatureLocalGetData example_self t (example_node [(0, 0), (1, 1)]))"
  using example_at
  by (intro write_waits_for_approvals [where acts = "\<lambda>cb. if cb = (1, 1) then [Approve (Some ''A'') 7] else []", OF _ _ _ refl])
    (auto simp: example_feature_simps requests_ok_def below_def approvals_in_def)

section \<open>Approved writes\<close>

definition upd_requests :: "self \<Rightarrow> (PendingWriteRequest list \<Rightarrow> PendingWriteRequest list) \<Rightarrow> Node \<Rightarrow> Node" where
  "upd_requests self g = upd_local (fst self) (\<lambda>fl. fl\<lparr>pending_write_requests := g (pending_write_requests fl)\<rparr>)"

text \<open>The callbacks may look at the world and at the data of the features.\<close>

definition same_data :: "Node \<Rightarrow> Node \<Rightarrow> bool" where
  "same_data n w \<longleftrightarrow> world w = world n \<and> (\<forall>p. fl_functions (locals w p) = fl_functions (locals n p))"

lemma same_data_requests: "same_data n (upd_requests self g n)"
  by (simp add: same_data_def upd_requests_def upd_local_def)

lemma same_data_log: "same_data (log_trace t n) w \<longleftrightarrow> same_data n w"
  by (simp add: same_data_def log_trace_def)

lemma functions_requests_commute:
  "fl\<lparr>pending_write_requests := ps, fl_functions := fs\<rparr> = (fl :: FeatureLocal)\<lparr>fl_functions := fs, pending_write_requests := ps\<rparr>"
  by (cases fl) simp

lemma upd_requests_comm:
  "with_sender ski f (upd_requests self g n) = apsnd (upd_requests self g) (with_sender ski f n)"
  "log_trace t (upd_requests self g n) = upd_requests self g (log_trace t n)"
  "upd_local (fst self) (\<lambda>fl. fl\<lparr>fl_functions := h (fl_functions fl)\<rparr>) (upd_requests self g n) =
     upd_requests self g (upd_local (fst self) (\<lambda>fl. fl\<lparr>fl_functions := h (fl_functions fl)\<rparr>) n)"
  by (simp_all add: with_sender_def upd_requests_def upd_local_def log_trace_def functions_requests_commute split: prod.splits)

lemma upd_requests_simps [simp]:
  "world (upd_requests self g n) = world n" "subscription_manager (upd_requests self g n) = subscription_manager n"
  "fl_functions (locals (upd_requests self g n) (fst self)) = fl_functions (locals n (fst self))"
  "upd_requests self g (upd_requests self h n) = upd_requests self (g \<circ> h) n"
  by (simp_all add: upd_requests_def comp_def)

lemma notify_all_requests: "notify_all cmd ts (upd_requests self g n) = upd_requests self g (notify_all cmd ts n)"
  by (induction cmd ts n rule: notify_all.induct) (simp_all add: upd_requests_comm)

lemma notify_requests:
  "FunctionUpdateNotifySubscribers z m self fn d p q (upd_requests self g n) =
     map_option (apsnd (upd_requests self g)) (FunctionUpdateNotifySubscribers z m self fn d p q n)"
  "PublishDataUpdateEvent self r t d c (upd_requests self g n) =
     map_option (upd_requests self g) (PublishDataUpdateEvent self r t d c n)"
  by (auto simp: FunctionUpdateNotifySubscribers_def NotifySubscribers_def PublishDataUpdateEvent_def notify_all_requests
      upd_requests_comm option.map_comp comp_def split_def split: bind_splits option.splits)

lemma update_requests:
  "update_function z m self fn d p q (upd_requests self g n) =
     map_option (apsnd (apsnd (upd_requests self g))) (update_function z m self fn d p q n)"
  by (simp add: update_function_def option.map_comp comp_def split_def upd_requests_comm(3) [where h = "set_function _"])

lemma write_function_requests:
  "ProcessWriteFunctionData z m self msg (upd_requests self g n) =
     map_option (apsnd (upd_requests self g)) (ProcessWriteFunctionData z m self msg n)"
  by (auto simp: ProcessWriteFunctionData_def Let_def update_requests notify_requests map_option_case
      split: bind_splits option.splits if_splits)

lemma write_requests:
  "ProcessWriteInternal z m self msg (upd_requests self g n) =
     map_option (apsnd (upd_requests self g)) (ProcessWriteInternal z m self msg n)"
  by (auto simp: ProcessWriteInternal_def write_function_requests upd_requests_comm map_option_case
      split: bind_splits option.splits)


lemma upd_requests_same: "g (pending_write_requests (locals n (fst self))) = pending_write_requests (locals n (fst self)) \<Longrightarrow>
    upd_requests self g n = n"
  by (simp add: upd_requests_def upd_local_id)

lemma write_keeps_requests:
  assumes "ProcessWriteInternal z m self msg n = Some (e, n')"
  shows "pending_write_requests (locals n' (fst self)) = pending_write_requests (locals n (fst self))"
proof -
  let ?g = "\<lambda>_. pending_write_requests (locals n (fst self))"
  have "upd_requests self ?g n' = n'" using write_requests [of z m self msg ?g n] assms by (simp add: upd_requests_same)
  then have "locals (upd_requests self ?g n') (fst self) = locals n' (fst self)" by simp
  then show ?thesis by (simp add: upd_requests_def) (metis FeatureLocal.select_convs(5) FeatureLocal.surjective FeatureLocal.update_convs(5))
qed

text \<open>A message whose remote feature is found again by its address.\<close>

definition known_sender :: "Node \<Rightarrow> Message \<Rightarrow> bool" where
  "known_sender n msg =
     (case remote_feature_at (world n) (Some (feature_remote msg)) of
        None \<Rightarrow> False
      | Some (dr, f) \<Rightarrow>
          device_ski dr = device_remote msg \<and> GetRemoteDeviceWithAddress n (device (feature_address f)) = Some dr \<and>
          RemoteGetFeatureWithAddress dr (Some (feature_address f)) = Some (Some (feature_remote msg, f)))"

definition whole_message :: "Message \<Rightarrow> bool" where
  "whole_message msg \<longleftrightarrow>
     msg_filter_partial msg = CmdGetFilterPartial (msg_cmd msg) \<and> msg_filter_delete msg = CmdGetFilterDelete (msg_cmd msg)"

lemma known_sender_log: "known_sender (log_trace t n) msg = known_sender n msg"
  by (auto simp: known_sender_def GetRemoteDeviceWithAddress_def split: option.split)

lemma pending_request:
  assumes "known_sender n msg" "whole_message msg" "feature_role (snd self) = kRoleTypeServer"
    and "request_header msg = Some h" "msg_cnt h = Some cnt"
    and "FindPendingWriteRequest (locals n (fst self)) (device_remote msg) cnt = None"
  obtains r where "AddPendingWriteRequest self msg n = Some (upd_requests self (\<lambda>ps. ps @ [r]) n)"
    "pw_ski r = device_remote msg" "msg_counter r = cnt" "num_approvals r = 0" "time_counter r = 10" "\<not> has_expired r" "pw_header r = h"
    "\<And>w i t x. world w = world n \<Longrightarrow>
       PendingWriteRequest_GetMessage (r\<lparr>num_approvals := i, time_counter := t, has_expired := x\<rparr>) w = Inr msg"
proof -
  obtain dr f where f: "remote_feature_at (world n) (Some (feature_remote msg)) = Some (dr, f)" "device_ski dr = device_remote msg"
      "GetRemoteDeviceWithAddress n (device (feature_address f)) = Some dr"
      "RemoteGetFeatureWithAddress dr (Some (feature_address f)) = Some (Some (feature_remote msg, f))"
    using assms(1) by (auto simp: known_sender_def split: option.splits)
  define r where "r = the (PendingWriteRequestCreate msg (feature_address f))"
  have r: "PendingWriteRequestCreate msg (feature_address f) = Some r"
    by (simp add: r_def PendingWriteRequestCreate_def assms(4,5))
  have "AddPendingWriteRequest self msg n = Some (upd_requests self (\<lambda>ps. ps @ [r]) n)"
    using assms(3-6) f(1) r by (simp add: AddPendingWriteRequest_def upd_requests_def)
  moreover have "PendingWriteRequest_GetMessage (r\<lparr>num_approvals := i, time_counter := t, has_expired := x\<rparr>) w = Inr msg"
    if "world w = world n" for w i t x
    using that f assms(2) r
    by (auto simp: PendingWriteRequest_GetMessage_def GetRemoteDeviceWithAddress_def PendingWriteRequestCreate_def assms(4,5)
        whole_message_def split: if_splits)
  moreover have "kDefaultMaxResponseDelayMs div 1000 = 10" by code_simp
  ultimately show thesis using r by (intro that [of r]) (auto simp: PendingWriteRequestCreate_def assms(4,5))
qed


lemma find_appended:
  assumes "FindPendingWriteRequest (locals n (fst self)) ski cnt = None" "pw_ski r = ski" "msg_counter r = cnt"
  shows "FindPendingWriteRequest (locals (upd_requests self (\<lambda>ps. ps @ [r]) n) (fst self)) ski cnt = Some r"
    "r \<notin> set (pending_write_requests (locals n (fst self)))"
proof -
  show "r \<notin> set (pending_write_requests (locals n (fst self)))"
    using assms by (auto simp: FindPendingWriteRequest_def find_None_iff)
  have "List.find P (xs @ [r]) = Some r" if "P r" "List.find P xs = None" for P and xs :: "PendingWriteRequest list"
    using that by (induction xs) (auto split: if_splits)
  then show "FindPendingWriteRequest (locals (upd_requests self (\<lambda>ps. ps @ [r]) n) (fst self)) ski cnt = Some r"
    using assms by (simp add: FindPendingWriteRequest_def upd_requests_def)
qed

lemma replace_appended:
  assumes "r \<notin> set (pending_write_requests (locals n (fst self)))"
  shows "upd_local (fst self) (set_request r r') (upd_requests self (\<lambda>ps. ps @ [r]) n) = upd_requests self (\<lambda>ps. ps @ [r']) n"
    "upd_requests self (remove1 r \<circ> (\<lambda>ps. ps @ [r])) n = n"
proof -
  have "map (\<lambda>q. if q = r then r' else q) (pending_write_requests (locals n (fst self))) = pending_write_requests (locals n (fst self))"
    using assms by (auto intro: map_idI)
  then show "upd_local (fst self) (set_request r r') (upd_requests self (\<lambda>ps. ps @ [r]) n) = upd_requests self (\<lambda>ps. ps @ [r']) n"
    by (simp add: upd_requests_def upd_local_def set_request_def)
  show "upd_requests self (remove1 r \<circ> (\<lambda>ps. ps @ [r])) n = n"
    using assms by (intro upd_requests_same) (simp add: remove1_append)
qed

lemma approve_appended:
  assumes "FindPendingWriteRequest (locals n (fst self)) (pw_ski r) (msg_counter r) = None"
    and "feature_role (snd self) = kRoleTypeServer" "num_approvals r = of_nat i" "Suc i < 2 ^ 64"
    and "PendingWriteRequest_GetMessage (r\<lparr>num_approvals := of_nat (Suc i)\<rparr>) n = Inr msg"
  shows "FeatureLocalTryApproveWrite z m self (Some (pw_ski r)) (msg_counter r) (upd_requests self (\<lambda>ps. ps @ [r]) n) =
    (if Suc i < length (wr_approval_cbs (locals n (fst self)))
     then Some (kEebusErrorOk, upd_requests self (\<lambda>ps. ps @ [r\<lparr>num_approvals := of_nat (Suc i)\<rparr>]) n)
     else ProcessWriteInternal z m self msg n)"
proof -
  let ?r = "r\<lparr>num_approvals := of_nat (Suc i)\<rparr>" and ?n = "\<lambda>r. upd_requests self (\<lambda>ps. ps @ [r]) n"
  note new = find_appended [OF assms(1) refl refl]
  have r': "PendingWriteRequest_AddApproval r = ?r" by (simp add: PendingWriteRequest_AddApproval_def assms(3) add.commute)
  have i: "unat (of_nat (Suc i) :: u64) = Suc i" using assms(4) by (simp add: unat_of_nat take_bit_eq_mod del: of_nat_Suc)
  have cbs: "wr_approval_cbs (locals (?n ?r) (fst self)) = wr_approval_cbs (locals n (fst self))" by (simp add: upd_requests_def)
  have get: "PendingWriteRequest_GetMessage ?r (?n ?r) = Inr msg" using assms(5) by (simp add: upd_requests_def)
  have "?r \<notin> set (pending_write_requests (locals n (fst self)))"
    using find_appended(2) [of n self "pw_ski r" "msg_counter r" ?r] assms(1) by simp
  note undo = replace_appended(2) [OF this]
  have "map_option (apsnd (upd_requests self (remove1 ?r))) (ProcessWriteInternal z m self msg (?n ?r)) =
      ProcessWriteInternal z m self msg n"
    unfolding write_requests [symmetric] upd_requests_simps(4) undo ..
  moreover have "upd_local (fst self) (remove_request ?r) n' = upd_requests self (remove1 ?r) n'" for n'
    by (simp add: upd_requests_def upd_local_def remove_request_def)
  ultimately show ?thesis
    using assms(2) new(1) replace_appended(1) [OF new(2)] cbs get i
    by (simp add: FeatureLocalTryApproveWrite_def r' Let_def apsnd_def map_prod_def split_def del: of_nat_Suc)
qed


lemma approve_all:
  assumes "known_sender n msg" "whole_message msg" "feature_role (snd self) = kRoleTypeServer"
    and "request_header msg = Some h" "msg_cnt h = Some cnt"
    and "FindPendingWriteRequest (locals n (fst self)) (device_remote msg) cnt = None"
    and "\<forall>cb \<in> set cbs. \<forall>w. same_data n w \<longrightarrow> app cb msg w = [Approve (Some (device_remote msg)) cnt]" "cbs \<noteq> []"
    and "i + length cbs = length (wr_approval_cbs (locals n (fst self)))" "i + length cbs < 2 ^ 64"
    and "num_approvals r = of_nat i" "pw_ski r = device_remote msg" "msg_counter r = cnt"
    and "\<And>w i. world w = world n \<Longrightarrow> PendingWriteRequest_GetMessage (r\<lparr>num_approvals := i\<rparr>) w = Inr msg"
  shows "ProcessWriteApprovalCallbacks z m app self msg cbs (upd_requests self (\<lambda>ps. ps @ [r]) n) =
    map_option snd (ProcessWriteInternal z m self msg (log_trace (map (\<lambda>cb. ApprovalRequest cb msg) cbs) n))"
  using assms
proof (induction cbs arbitrary: n i r)
  case (Cons cb cbs)
  let ?n = "log_trace [ApprovalRequest cb msg] n" and ?r = "r\<lparr>num_approvals := of_nat (Suc i)\<rparr>"
  have approve: "FeatureLocalTryApproveWrite z m self (Some (device_remote msg)) cnt (upd_requests self (\<lambda>ps. ps @ [r]) ?n) =
    (if cbs \<noteq> [] then Some (kEebusErrorOk, upd_requests self (\<lambda>ps. ps @ [?r]) ?n) else ProcessWriteInternal z m self msg ?n)"
    using approve_appended [of ?n self r i msg z m] Cons.prems by (cases cbs) simp_all
  have "log_trace s (log_trace t w) = log_trace (t @ s) w" for s t w by (simp add: log_trace_def)
  then have run: "ProcessWriteApprovalCallbacks z m app self msg (cb # cbs) (upd_requests self (\<lambda>ps. ps @ [r]) n) =
      Option.bind (FeatureLocalTryApproveWrite z m self (Some (device_remote msg)) cnt (upd_requests self (\<lambda>ps. ps @ [r]) ?n))
        (\<lambda>(e, n'). ProcessWriteApprovalCallbacks z m app self msg cbs n')"
    using Cons.prems(7) same_data_requests [of n self "\<lambda>ps. ps @ [r]"] by (simp add: upd_requests_comm split_def)
  show ?case
  proof (cases "cbs = []")
    case True
    then show ?thesis unfolding run approve by (cases "ProcessWriteInternal z m self msg ?n") auto
  next
    case False
    have "ProcessWriteApprovalCallbacks z m app self msg cbs (upd_requests self (\<lambda>ps. ps @ [?r]) ?n) =
        map_option snd (ProcessWriteInternal z m self msg (log_trace (map (\<lambda>cb. ApprovalRequest cb msg) cbs) ?n))"
      using Cons.prems False by (intro Cons.IH [of ?n "Suc i" ?r]) (simp_all add: known_sender_log same_data_log)
    then show ?thesis unfolding run approve using False by (simp add: log_trace_def)
  qed
qed simp

lemma approved_write:
  assumes "known_sender n msg" "whole_message msg" "feature_role (snd self) = kRoleTypeServer"
    and "request_header msg = Some h" "msg_cnt h = Some cnt"
    and "FindPendingWriteRequest (locals n (fst self)) (device_remote msg) cnt = None"
    and "cbs = wr_approval_cbs (locals n (fst self))" "cbs \<noteq> []" "length cbs < 2 ^ 64"
    and "\<forall>cb \<in> set cbs. \<forall>w. same_data n w \<longrightarrow> app cb msg w = [Approve (Some (device_remote msg)) cnt]"
  shows "ProcessWrite z m app self msg n =
    map_option (\<lambda>(err, n'). (kEebusErrorOk, n')) (ProcessWriteInternal z m self msg (log_trace (map (\<lambda>cb. ApprovalRequest cb msg) cbs) n))"
proof -
  obtain r where r: "AddPendingWriteRequest self msg n = Some (upd_requests self (\<lambda>ps. ps @ [r]) n)"
      "pw_ski r = device_remote msg" "msg_counter r = cnt" "num_approvals r = 0" "time_counter r = 10" "\<not> has_expired r" "pw_header r = h"
      and get: "\<And>w i t x. world w = world n \<Longrightarrow>
        PendingWriteRequest_GetMessage (r\<lparr>num_approvals := i, time_counter := t, has_expired := x\<rparr>) w = Inr msg"
    using pending_request [OF assms(1-6)] by blast
  have get: "PendingWriteRequest_GetMessage (r\<lparr>num_approvals := i\<rparr>) w = Inr msg" if "world w = world n" for w i
    using get [where i = i and t = "time_counter r" and x = "has_expired r", OF that] by simp
  have "ProcessWriteApprovalCallbacks z m app self msg cbs (upd_requests self (\<lambda>ps. ps @ [r]) n) =
      map_option snd (ProcessWriteInternal z m self msg (log_trace (map (\<lambda>cb. ApprovalRequest cb msg) cbs) n))"
    using approve_all [of n msg self h cnt cbs app 0 r z m] assms r get by simp
  then show ?thesis
    using assms(7,8) r(1) by (auto simp: ProcessWrite_def upd_requests_def map_option_case split: option.splits bind_splits)
qed

text \<open>
  C25. A write that every approval callback approves is done as it was asked for: if each callback approves
  it when it is asked, then after the last one the outcome is exactly that of the write without approvals,
  with its result message, its notifications and its event, and no pending request is left.
\<close>

theorem approved_write_equals_direct_write:
  assumes "known_sender n msg" "whole_message msg" "feature_role (snd self) = kRoleTypeServer"
    and "request_header msg = Some h" "msg_cnt h = Some cnt"
    and "FindPendingWriteRequest (locals n (fst self)) (device_remote msg) cnt = None"
    and "cbs = wr_approval_cbs (locals n (fst self))" "cbs \<noteq> []" "length cbs < 2 ^ 64"
    and "\<forall>cb \<in> set cbs. \<forall>w. same_data n w \<longrightarrow> app cb msg w = [Approve (Some (device_remote msg)) cnt]"
  shows "ProcessWrite z m app self msg n =
    map_option (\<lambda>(err, n'). (kEebusErrorOk, n')) (ProcessWriteInternal z m self msg (log_trace (map (\<lambda>cb. ApprovalRequest cb msg) cbs) n))"
  using assms by (rule approved_write)

lemma example_known:
  "known_sender (example_node cbs) example_write" "whole_message example_write"
  "FindPendingWriteRequest (locals (example_node cbs) p) ski cnt = None" "request_header example_write = Some example_header"
  "msg_cnt example_header = Some 7" "device_remote example_write = ''A''" "feature_role (snd example_self) = kRoleTypeServer"
  "wr_approval_cbs (locals (example_node cbs) p) = cbs" "pending_write_requests (locals (example_node cbs) p) = []"
proof -
  show "known_sender (example_node cbs) example_write"
    using example_lookups(2)
    by (simp add: example_feature_simps known_sender_def remote_feature_at_def device_features_def example_world_def
        GetRemoteDeviceWithAddress_def example_device_def)
  show "whole_message example_write" by (simp add: whole_message_def) code_simp
qed (simp_all add: example_feature_simps FindPendingWriteRequest_def)

theorem approved_write_equals_direct_write_witness:
  "ProcessWrite False load_control_model (\<lambda>cb msg w. [Approve (Some ''A'') 7]) example_self example_write (example_node [(0, 0), (1, 1)]) =
    map_option (\<lambda>(err, n'). (kEebusErrorOk, n'))
      (ProcessWriteInternal False load_control_model example_self example_write
        (log_trace [ApprovalRequest (0, 0) example_write, ApprovalRequest (1, 1) example_write] (example_node [(0, 0), (1, 1)])))"
  using approved_write_equals_direct_write [OF example_known(1,2,7,4,5), of "[(0, 0), (1, 1)]" "[(0, 0), (1, 1)]"
      "\<lambda>cb msg w. [Approve (Some ''A'') 7]" False load_control_model]
  by (simp add: example_known)

section \<open>Requests time out\<close>

text \<open>A request whose device is known and whose sender can send a result for it.\<close>

definition request_ok :: "Node \<Rightarrow> PendingWriteRequest \<Rightarrow> bool" where
  "request_ok n r \<longleftrightarrow>
     (\<exists>msg. PendingWriteRequest_GetMessage r n = Inr msg \<and> device_remote msg = pw_ski r) \<and> writer (senders n (pw_ski r)) \<and>
     msg_cnt (pw_header r) = Some (msg_counter r) \<and> src_addr (pw_header r) \<noteq> None \<and> dest_addr (pw_header r) \<noteq> None"

text \<open>What a second does to the requests, and the messages that the datagrams of a sender refer to.\<close>

definition tick_requests :: "PendingWriteRequest list \<Rightarrow> PendingWriteRequest list" where
  "tick_requests rs = map PendingWriteRequest_UpdateRemainingTime (filter (\<lambda>r. \<not> has_expired r) rs)"

definition refs :: "string \<Rightarrow> Node \<Rightarrow> u64 option list" where
  "refs ski n = map (\<lambda>d. Option.bind (header d) msg_cnt_ref) (written (senders n ski))"

definition expired_refs :: "string \<Rightarrow> PendingWriteRequest list \<Rightarrow> u64 option list" where
  "expired_refs ski rs = map (\<lambda>r. Some (msg_counter r)) (filter (\<lambda>r. has_expired r \<and> pw_ski r = ski) rs)"

lemma update_time_key [simp]: "request_key (PendingWriteRequest_UpdateRemainingTime r) = request_key r"
  by (simp add: PendingWriteRequest_UpdateRemainingTime_def request_key_def Let_def)

lemma GetMessage_header: "PendingWriteRequest_GetMessage r n = Inr msg \<Longrightarrow> request_header msg = Some (pw_header r)"
  by (auto simp: PendingWriteRequest_GetMessage_def split: option.splits)

lemma update_time_ok [simp]: "request_ok n (PendingWriteRequest_UpdateRemainingTime r) = request_ok n r"
  by (auto simp: PendingWriteRequest_UpdateRemainingTime_def request_ok_def Let_def PendingWriteRequest_GetMessage_def split: option.splits)

lemma request_ok_cong:
  assumes "world n' = world n" "\<And>ski. writer (senders n' ski) = writer (senders n ski)"
  shows "request_ok n' = request_ok n"
  using assms by (simp add: request_ok_def fun_eq_iff PendingWriteRequest_GetMessage_def GetRemoteDeviceWithAddress_def)

definition timeout_error :: ErrorType where
  "timeout_error = \<lparr>error_number = kErrorNumberTypeTimeout, description = Some ''Write request timed out''\<rparr>"

lemma timeout_result:
  assumes "request_ok n r" "PendingWriteRequest_GetMessage r n = Inr msg" "a \<noteq> None"
  defines "n' \<equiv> snd (with_sender (device_remote msg) (\<lambda>s. ResultError s (request_header msg) a (Some timeout_error)) n)"
  shows "refs ski n' = refs ski n @ (if pw_ski r = ski then [Some (msg_counter r)] else [])"
    "writer (senders n' ski) = writer (senders n ski)"
proof -
  have msg: "device_remote msg = pw_ski r" "request_header msg = Some (pw_header r)"
    using assms(1,2) GetMessage_header by (auto simp: request_ok_def)
  then show "refs ski n' = refs ski n @ (if pw_ski r = ski then [Some (msg_counter r)] else [])"
      "writer (senders n' ski) = writer (senders n ski)"
    using assms(1,3)
    by (auto simp: n'_def refs_def request_ok_def ResultError_def SendResult_def SendSpineMessage_def SenderGetNextMsgCounter_def)
qed

lemma update_time_spec:
  assumes "distinct (map request_key (xs @ ys))" "\<forall>r \<in> set xs. request_ok n r"
    and "pending_write_requests (locals n (fst self)) = xs @ ys"
  defines "n' \<equiv> update_request_time self (rev xs) n"
  shows "pending_write_requests (locals n' (fst self)) = tick_requests xs @ ys \<and> request_ok n' = request_ok n \<and>
    refs ski n' = refs ski n @ expired_refs ski (rev xs) \<and> fl_functions (locals n' (fst self)) = fl_functions (locals n (fst self))"
  unfolding n'_def using assms(1-3)
proof (induction xs arbitrary: ys n rule: rev_induct)
  case Nil
  then show ?case by (simp add: tick_requests_def expired_refs_def)
next
  case (snoc r xs)
  have new: "r \<notin> set xs" "r \<notin> set ys" using snoc.prems(1) by (auto simp: image_iff)
  obtain msg where msg: "PendingWriteRequest_GetMessage r n = Inr msg" using snoc.prems(2) by (auto simp: request_ok_def)
  let ?s = "snd (with_sender (device_remote msg)
    (\<lambda>s. ResultError s (request_header msg) (Some (feature_address (snd self))) (Some timeout_error)) n)"
  have ok: "request_ok n r" using snoc.prems(2) by simp
  show ?case
  proof (cases "has_expired r")
    case True
    let ?n = "upd_local (fst self) (remove_request r) ?s"
    have step: "update_request_time self (rev (xs @ [r])) n = update_request_time self (rev xs) ?n"
      using True msg by (simp add: timeout_error_def)
    have "request_ok ?n = request_ok n" using timeout_result(2) [OF ok msg, of "Some (feature_address (snd self))"] by (intro request_ok_cong) simp_all
    moreover have "refs ski ?n = refs ski n @ expired_refs ski [r]"
      using timeout_result(1) [OF ok msg, of "Some (feature_address (snd self))" ski] True by (simp add: refs_def expired_refs_def)
    moreover have "pending_write_requests (locals ?n (fst self)) = xs @ ys"
      using new snoc.prems(3) by (simp add: remove_request_def remove1_append)
    moreover have "fl_functions (locals ?n (fst self)) = fl_functions (locals n (fst self))" by (simp add: remove_request_def)
    ultimately show ?thesis
      unfolding step using snoc.IH [of ys ?n] snoc.prems True by (simp add: tick_requests_def expired_refs_def)
  next
    case False
    let ?n = "upd_local (fst self) (set_request r (PendingWriteRequest_UpdateRemainingTime r)) n"
    have "map (\<lambda>q. if q = r then PendingWriteRequest_UpdateRemainingTime r else q) zs = zs" if "r \<notin> set zs" for zs
      using that by (auto intro: map_idI)
    then have "pending_write_requests (locals ?n (fst self)) = xs @ PendingWriteRequest_UpdateRemainingTime r # ys"
      using new snoc.prems(3) by (simp add: set_request_def)
    moreover have "request_ok ?n = request_ok n" by (intro request_ok_cong) simp_all
    ultimately show ?thesis
      using snoc.IH [of "PendingWriteRequest_UpdateRemainingTime r # ys" ?n] snoc.prems False
      by (simp add: tick_requests_def expired_refs_def refs_def set_request_def)
  qed
qed

lemma tick_spec:
  assumes "requests_ok (locals n (fst self))" "\<forall>r \<in> set (pending_write_requests (locals n (fst self))). request_ok n r"
  shows "pending_write_requests (locals (FeatureLocalTick self n) (fst self)) =
      tick_requests (pending_write_requests (locals n (fst self)))"
    "requests_ok (locals (FeatureLocalTick self n) (fst self))"
    "\<forall>r \<in> set (pending_write_requests (locals (FeatureLocalTick self n) (fst self))). request_ok (FeatureLocalTick self n) r"
    "refs ski (FeatureLocalTick self n) = refs ski n @ expired_refs ski (rev (pending_write_requests (locals n (fst self))))"
proof -
  note spec = update_time_spec [of "pending_write_requests (locals n (fst self))" "[]" n self]
  show eq: "pending_write_requests (locals (FeatureLocalTick self n) (fst self)) =
      tick_requests (pending_write_requests (locals n (fst self)))"
    and "refs ski (FeatureLocalTick self n) = refs ski n @ expired_refs ski (rev (pending_write_requests (locals n (fst self))))"
    using spec assms by (simp_all add: FeatureLocalTick_def requests_ok_def)
  have "map request_key (map PendingWriteRequest_UpdateRemainingTime qs) = map request_key qs" for qs by (simp add: comp_def)
  then show "requests_ok (locals (FeatureLocalTick self n) (fst self))"
    using assms(1) eq by (simp add: requests_ok_def tick_requests_def comp_def distinct_map_filter)
  have "request_ok (FeatureLocalTick self n) = request_ok n" using spec assms by (simp add: FeatureLocalTick_def requests_ok_def)
  then show "\<forall>r \<in> set (pending_write_requests (locals (FeatureLocalTick self n) (fst self))). request_ok (FeatureLocalTick self n) r"
    using assms(2) eq by (auto simp: tick_requests_def)
qed


lemma count_expired:
  assumes "distinct (map request_key rs)"
  shows "count_list (expired_refs ski (rev rs)) (Some cnt) = (if \<exists>r \<in> set rs. request_key r = (ski, cnt) \<and> has_expired r then 1 else 0)"
  using assms
proof (induction rs)
  case (Cons r rs)
  have "count_list (expired_refs ski (rev (r # rs))) (Some cnt) =
      count_list (expired_refs ski (rev rs)) (Some cnt) + (if request_key r = (ski, cnt) \<and> has_expired r then 1 else 0)"
    by (auto simp: expired_refs_def request_key_def)
  moreover have "\<not> (\<exists>q \<in> set rs. request_key q = (ski, cnt) \<and> has_expired q)" if "request_key r = (ski, cnt)"
    using that Cons.prems by (auto simp: image_iff)
  ultimately show ?case using Cons by auto
qed (simp add: expired_refs_def)

definition is_pending :: "self \<Rightarrow> string \<Rightarrow> u64 \<Rightarrow> Node \<Rightarrow> bool" where
  "is_pending self ski cnt n \<longleftrightarrow> FindPendingWriteRequest (locals n (fst self)) ski cnt \<noteq> None"

lemma is_pending_iff:
  "is_pending self ski cnt n \<longleftrightarrow> (\<exists>r \<in> set (pending_write_requests (locals n (fst self))). request_key r = (ski, cnt))"
  by (auto simp: is_pending_def FindPendingWriteRequest_def find_None_iff request_key_def)

lemma tick_gone:
  assumes "requests_ok (locals n (fst self))" "\<forall>r \<in> set (pending_write_requests (locals n (fst self))). request_ok n r"
    and "\<not> is_pending self ski cnt n"
  shows "\<not> is_pending self ski cnt ((FeatureLocalTick self ^^ k) n) \<and>
    count_list (refs ski ((FeatureLocalTick self ^^ k) n)) (Some cnt) = count_list (refs ski n) (Some cnt)"
  using assms
proof (induction k arbitrary: n)
  case (Suc k)
  let ?n = "FeatureLocalTick self n"
  have gone: "\<not> is_pending self ski cnt ?n"
    using Suc.prems(3) tick_spec(1) [OF Suc.prems(1,2)] by (auto simp: is_pending_iff tick_requests_def)
  have "count_list (refs ski ?n) (Some cnt) = count_list (refs ski n) (Some cnt)"
    using count_expired [of "pending_write_requests (locals n (fst self))" ski cnt] Suc.prems(1,3) tick_spec(4) [OF Suc.prems(1,2), of ski]
    by (auto simp: requests_ok_def is_pending_iff)
  then show ?case using Suc.IH [OF tick_spec(2,3) [OF Suc.prems(1,2)] gone] by (simp add: funpow_swap1)
qed simp



definition example_pending :: "callback list \<Rightarrow> Node" where
  "example_pending cbs = the (AddPendingWriteRequest example_self example_write (example_node cbs))"


end
