(* ===== verification/Spine_Feature_Remote.thy ===== *)
theory Spine_Feature_Remote
  imports Spine_Feature_Laws
begin

text \<open>
  What local features exchange with remote devices: an update reaches the subscribers, the loops that give
  up subscriptions and bindings, and the addresses a feature forgets when a device leaves.
\<close>

section \<open>Updates reach the subscribers\<close>

lemma find_set_function:
  assumes "FeatureGetFunction fs t = Some f" "ftype g = t"
  shows "FeatureGetFunction (set_function g fs) t = Some g"
  using assms by (induction fs) (auto simp: FeatureGetFunction_def set_function_def split: if_splits)

lemma get_function_type: "FeatureGetFunction fs t = Some f \<Longrightarrow> ftype f = t"
  by (auto simp: FeatureGetFunction_def find_Some_iff)

text \<open>The update depends on the type and the data of the function only.\<close>

lemma update_data_cong:
  assumes "FunctionUpdateData z m f d p q persist = Some (e, f')" "ftype g = ftype f" "fdata g = fdata f"
  shows "ftype f' = ftype f \<and> FunctionUpdateData z m g d p q persist = Some (e, g\<lparr>fdata := fdata f'\<rparr>)"
  using assms unfolding FunctionUpdateData_def
  by (auto simp: Let_def split: option.splits if_splits)

text \<open>What a datagram says.\<close>

definition datagram_contents ::
    "DatagramType \<Rightarrow> FeatureAddressType option \<times> FeatureAddressType option \<times> CommandClassifierType option \<times> CmdType option list option" where
  "datagram_contents d =
     (Option.bind (header d) src_addr, Option.bind (header d) dest_addr, Option.bind (header d) cmd_classifier, payload d)"

lemma notify_all_written:
  assumes "\<forall>ski. writer (senders n ski)"
  shows "map datagram_contents (written (senders (notify_all cmd ts n) ski)) = map datagram_contents (written (senders n ski)) @
    map (\<lambda>(_, sa, ca). (Some sa, Some ca, Some kCommandClassifierTypeNotify, Some [Some cmd])) (filter (\<lambda>(s, _). s = ski) ts)"
  using assms
proof (induction cmd ts n rule: notify_all.induct)
  case (2 cmd s sa ca ts n)
  have "writer (snd (SenderNotify (senders n s) (Some sa) (Some ca) (Some cmd)))"
    "map datagram_contents (written (snd (SenderNotify (senders n s) (Some sa) (Some ca) (Some cmd)))) =
      map datagram_contents (written (senders n s)) @ [(Some sa, Some ca, Some kCommandClassifierTypeNotify, Some [Some cmd])]"
    using 2(2) by (simp_all add: SenderNotify_def SendSpineMessage_def SenderGetNextMsgCounter_def datagram_contents_def)
  then show ?case using 2 by auto
qed simp

lemma notify_all_frame: "locals (notify_all cmd ts n) = locals n"
  by (induction cmd ts n rule: notify_all.induct) simp_all

text \<open>A notification is processed by the remote feature of the sender.\<close>

definition data_feature :: "Node \<Rightarrow> ptr \<Rightarrow> bool" where
  "data_feature n p =
     (case remote_feature_at (world n) (Some p) of
        None \<Rightarrow> False
      | Some (dr, f) \<Rightarrow> \<not> (feature_type f = kFeatureTypeTypeNodeManagement \<and> feature_role f = kRoleTypeSpecial))"

lemma notify_updates_copy:
  assumes "data_feature n (feature_remote msg)" "FeatureGetFunction (remotes n (feature_remote msg)) (data_choice_type_id (msg_cmd msg)) = Some g"
    and "FunctionUpdateData z m g (data_choice (msg_cmd msg)) (msg_filter_partial msg) (msg_filter_delete msg) True = Some (kEebusErrorOk, g')"
    and "ftype g' = ftype g"
  shows "\<exists>n'. ProcessNotify z m self msg n = Some (kEebusErrorOk, n') \<and>
    FeatureGetFunction (remotes n' (feature_remote msg)) (data_choice_type_id (msg_cmd msg)) = Some g'"
proof -
  obtain dr f where f: "remote_feature_at (world n) (Some (feature_remote msg)) = Some (dr, f)"
      "\<not> (feature_type f = kFeatureTypeTypeNodeManagement \<and> feature_role f = kRoleTypeSpecial)"
    using assms(1) by (auto simp: data_feature_def split: option.splits)
  have "FeatureGetFunction (set_function g' (remotes n (feature_remote msg))) (data_choice_type_id (msg_cmd msg)) = Some g'"
    using find_set_function [OF assms(2)] get_function_type [OF assms(2)] assms(4) by simp
  then show ?thesis
    using assms(2,3) f
    by (auto simp: ProcessNotify_def update_remote_def FEATURE_REMOTE_UPDATE_DATA_def FeatureRemoteUpdateData_def
        PublishDataUpdateEvent_def Let_def)
qed

definition subscribers :: "Node \<Rightarrow> FeatureAddressType \<Rightarrow> string \<Rightarrow> FeatureAddressType list" where
  "subscribers n addr ski =
     map (client_of (world n))
       (filter (\<lambda>l. server_of (world n) l = addr \<and> device_ski (fst (the (remote_feature_at (world n) (client_feature l)))) = ski)
         (vector_list (subscription_entries (subscription_manager n))))"

lemma NotifySubscribers_spec:
  assumes "container_ok (world n) (subscription_entries (subscription_manager n))" "\<forall>ski. writer (senders n ski)"
  obtains n' where "NotifySubscribers addr cmd n = Some n'" "locals n' = locals n"
    "\<And>ski. map datagram_contents (written (senders n' ski)) = map datagram_contents (written (senders n ski)) @
       map (\<lambda>ca. (Some addr, Some ca, Some kCommandClassifierTypeNotify, Some [Some cmd])) (subscribers n addr ski)"
proof
  let ?w = "world n" and ?sm = "subscription_manager n"
  define ts where "ts = map (\<lambda>l. (device_ski (fst (the (remote_feature_at ?w (client_feature l)))), addr, client_of ?w l))
      (filter (\<lambda>l. server_of ?w l = addr) (vector_list (subscription_entries ?sm)))"
  show "NotifySubscribers addr cmd n = Some (notify_all cmd ts n)"
    using Publish_to_subscribers [OF assms(1)] by (simp add: NotifySubscribers_def ts_def)
  show "locals (notify_all cmd ts n) = locals n" by (rule notify_all_frame)
  show "map datagram_contents (written (senders (notify_all cmd ts n) ski)) = map datagram_contents (written (senders n ski)) @
       map (\<lambda>ca. (Some addr, Some ca, Some kCommandClassifierTypeNotify, Some [Some cmd])) (subscribers n addr ski)" for ski
    unfolding notify_all_written [OF assms(2)] by (simp add: ts_def subscribers_def filter_map comp_def)
qed

text \<open>
  C23. An update of a local function reaches its subscribers: it changes the data, and every subscription
  to the feature gets one notification with the same command, over the sender of its device. A subscriber
  whose copy of the function was equal to the data before and that processes this command has a copy that
  is equal to the data after the update.
\<close>

theorem update_reaches_subscribers:
  assumes "model_wf m" "container_ok (world n) (subscription_entries (subscription_manager n))" "\<forall>ski. writer (senders n ski)"
    and "FeatureGetFunction (fl_functions (locals n (fst self))) t = Some fn" "t < length (data_choice_data_cfg m)"
    and "fits z (data_choice_data_cfg m ! t) data" "p = None \<or> filter_ok z m t (the p)" "q = None \<or> filter_ok z m t (the q)"
    and "FunctionUpdateData z m fn data p q True = Some (kEebusErrorOk, fn')"
  shows "\<exists>n' cmd. FeatureLocalUpdateData z m self t data p q n = Some (kEebusErrorOk, n') \<and>
    FeatureLocalGetData self t n' = Some (fdata fn') \<and>
    (\<forall>ski. map datagram_contents (written (senders n' ski)) = map datagram_contents (written (senders n ski)) @
       map (\<lambda>ca. (Some (feature_address (snd self)), Some ca, Some kCommandClassifierTypeNotify, Some [Some cmd]))
         (subscribers n (feature_address (snd self)) ski)) \<and>
    (\<forall>self' msg nc g. msg_cmd msg = cmd \<longrightarrow> whole_message msg \<longrightarrow> data_feature nc (feature_remote msg) \<longrightarrow>
       FeatureGetFunction (remotes nc (feature_remote msg)) t = Some g \<longrightarrow> fdata g = fdata fn \<longrightarrow>
       (\<exists>nc'. ProcessNotify z m self' msg nc = Some (kEebusErrorOk, nc') \<and>
          map_option fdata (FeatureGetFunction (remotes nc' (feature_remote msg)) t) = FeatureLocalGetData self t n'))"
proof -
  note ty = get_function_type [OF assms(4)]
  note same = update_data_cong [OF assms(9)]
  have ty': "ftype fn' = t" using same [of fn] ty by simp
  let ?n = "upd_local (fst self) (\<lambda>fl. fl\<lparr>fl_functions := set_function fn' (fl_functions fl)\<rparr>) n"
  obtain cmd where cmd: "CreateNotifyCmd z m fn' data p q = Some (Some cmd)" "data_choice_type_id cmd = t" "data_choice cmd = data"
      "\<And>g. ftype g = t \<Longrightarrow> FunctionUpdateData z m g (data_choice cmd) (CmdGetFilterPartial cmd) (CmdGetFilterDelete cmd) True =
        FunctionUpdateData z m g data p q True"
    using notify_carries_update [of m fn' z data p q True] assms(1,5-8) ty' by blast
  obtain n' where n': "NotifySubscribers (feature_address (snd self)) cmd ?n = Some n'" "locals n' = locals ?n"
      "\<And>ski. map datagram_contents (written (senders n' ski)) = map datagram_contents (written (senders ?n ski)) @
         map (\<lambda>ca. (Some (feature_address (snd self)), Some ca, Some kCommandClassifierTypeNotify, Some [Some cmd]))
           (subscribers ?n (feature_address (snd self)) ski)"
    using assms(2,3) by (elim NotifySubscribers_spec [of ?n "feature_address (snd self)" cmd, rotated 2]) simp_all
  have up: "FeatureLocalUpdateData z m self t data p q n = Some (kEebusErrorOk, n')"
    using assms(4,9) cmd(1) n'(1)
    by (simp add: FeatureLocalUpdateData_def update_function_def FunctionUpdateNotifySubscribers_def)
  have data: "FeatureLocalGetData self t n' = Some (fdata fn')"
    using n'(2) find_set_function [OF assms(4) ty'] by (simp add: FeatureLocalGetData_def)
  have "\<exists>nc'. ProcessNotify z m self' msg nc = Some (kEebusErrorOk, nc') \<and>
      map_option fdata (FeatureGetFunction (remotes nc' (feature_remote msg)) t) = Some (fdata fn')"
    if "msg_cmd msg = cmd" "whole_message msg" "data_feature nc (feature_remote msg)"
      "FeatureGetFunction (remotes nc (feature_remote msg)) t = Some g" "fdata g = fdata fn" for self' msg nc g
    using notify_updates_copy [of nc msg g z m "g\<lparr>fdata := fdata fn'\<rparr>" self'] that cmd(2-4) get_function_type [OF that(4)]
      same [of g] ty by (auto simp: whole_message_def)
  then show ?thesis
    using up data n'(3) by (intro exI [of _ n'] exI [of _ cmd]) (auto simp: subscribers_def)
qed


theorem update_reaches_subscribers_witness:
  "\<exists>n' cmd. FeatureLocalUpdateData False load_control_model example_self 0 (limits [limit (CHR 0x01) (Some True) None]) None None
      (example_node []) = Some (kEebusErrorOk, n') \<and>
    map datagram_contents (written (senders n' ''A'')) =
      [(Some \<lparr>device = Some ''L'', entity = Some [Some 1], feature = Some 2\<rparr>,
        Some \<lparr>device = Some ''A'', entity = Some [Some 1], feature = Some 2\<rparr>, Some kCommandClassifierTypeNotify, Some [Some cmd])]"
proof -
  let ?fn = "FunctionConstruct load_control_model 0" and ?v = "limits [limit (CHR 0x01) (Some True) None]"
  have m: "model_wf load_control_model" "0 < length (data_choice_data_cfg load_control_model)"
    "fits False (data_choice_data_cfg load_control_model ! 0) ?v" by code_simp+
  have get: "FeatureGetFunction (fl_functions (locals (example_node []) (fst example_self))) 0 = Some ?fn"
    by (simp add: example_feature_simps FeatureGetFunction_def FunctionConstruct_def)
  have up: "FunctionUpdateData False load_control_model ?fn ?v None None True = Some (kEebusErrorOk, ?fn\<lparr>fdata := ?v\<rparr>)"
    by code_simp
  have writer: "\<forall>ski. writer (senders (example_node []) ski)" by (simp add: example_node_def SenderConstruct_def)
  have c: "container_ok (world (example_node [])) (subscription_entries (subscription_manager (example_node [])))"
    using example_ok(3) by (simp add: example_node_def)
  have subs: "subscribers (example_node []) (feature_address (snd example_self)) ''A'' =
      [\<lparr>device = Some ''A'', entity = Some [Some 1], feature = Some 2\<rparr>]"
    by (simp add: subscribers_def example_node_def example_self_def example_list example_at)
      (simp add: remote_feature_at_def example_simps device_features_def)
  obtain n' cmd where "FeatureLocalUpdateData False load_control_model example_self 0 ?v None None (example_node []) = Some (kEebusErrorOk, n')"
      "\<forall>ski. map datagram_contents (written (senders n' ski)) = map datagram_contents (written (senders (example_node []) ski)) @
        map (\<lambda>ca. (Some (feature_address (snd example_self)), Some ca, Some kCommandClassifierTypeNotify, Some [Some cmd]))
          (subscribers (example_node []) (feature_address (snd example_self)) ski)"
    using update_reaches_subscribers [OF m(1) c writer get m(2,3) disjI1 [OF refl] disjI1 [OF refl] up] by blast
  moreover have "written (senders (example_node []) ''A'') = []" by (simp add: example_node_def SenderConstruct_def)
  ultimately show ?thesis using subs by (intro exI [of _ n'] exI [of _ cmd]) (simp add: example_self_def)
qed

section \<open>Giving up subscriptions and bindings\<close>

text \<open>
  The loops over the subscriptions and the bindings of a feature share a contract: an entry whose device
  is known and can be written to is removed, any other entry is left where it is.
\<close>

locale remote_entries =
  fixes entries :: "Node \<Rightarrow> FeatureAddressType list"
    and remove_entry :: "FeatureAddressType \<Rightarrow> Node \<Rightarrow> Node"
    and known :: "Node \<Rightarrow> FeatureAddressType \<Rightarrow> bool"
    and remove_all :: "Node \<Rightarrow> Node option"
  assumes remove_all_unfold: "remove_all n = (if entries n = [] then Some n else remove_all (remove_entry (last (entries n)) n))"
    and remove_all_returns: "remove_all n = Some n' \<Longrightarrow> (\<And>n. entries n = [] \<Longrightarrow> P n n) \<Longrightarrow>
      (\<And>n n'. entries n \<noteq> [] \<Longrightarrow> P (remove_entry (last (entries n)) n) n' \<Longrightarrow> P n n') \<Longrightarrow> P n n'"
    and remove_known: "known n a \<Longrightarrow> a \<in> set (entries n) \<Longrightarrow> entries (remove_entry a n) = remove1 a (entries n)"
    and known_remove: "known (remove_entry a n) = known n"
    and remove_unknown: "\<not> known n a \<Longrightarrow> remove_entry a n = n"
begin

lemma remove_all_ends: "\<forall>a \<in> set (entries n). known n a \<Longrightarrow> \<exists>n'. remove_all n = Some n'"
proof (induction "length (entries n)" arbitrary: n)
  case 0
  then show ?case using remove_all_unfold [of n] by simp
next
  case (Suc k)
  then have ne: "entries n \<noteq> []" by auto
  let ?n = "remove_entry (last (entries n)) n"
  have e: "entries ?n = remove1 (last (entries n)) (entries n)" using remove_known [of n "last (entries n)"] Suc.prems ne by simp
  then have "\<forall>a \<in> set (entries ?n). known ?n a" using Suc.prems known_remove set_remove1_subset by (metis subsetD)
  moreover have "k = length (entries ?n)" using e Suc.hyps(2) ne by (simp add: length_remove1)
  ultimately obtain n' where "remove_all ?n = Some n'" using Suc.hyps(1) by blast
  then show ?case using remove_all_unfold [of n] ne by simp
qed

lemma remove_all_empty: "remove_all n = Some n' \<Longrightarrow> entries n' = [] \<and> (\<forall>a \<in> set (entries n). known n a)"
proof (erule remove_all_returns [where P = "\<lambda>n n'. entries n' = [] \<and> (\<forall>a \<in> set (entries n). known n a)"])
  fix n n' assume ne: "entries n \<noteq> []" and IH: "entries n' = [] \<and>
    (\<forall>a \<in> set (entries (remove_entry (last (entries n)) n)). known (remove_entry (last (entries n)) n) a)"
  show "entries n' = [] \<and> (\<forall>a \<in> set (entries n). known n a)"
  proof (cases "known n (last (entries n))")
    case True
    then have "entries (remove_entry (last (entries n)) n) = remove1 (last (entries n)) (entries n)"
      using remove_known ne by simp
    moreover have "a = last (entries n) \<or> a \<in> set (remove1 (last (entries n)) (entries n))" if "a \<in> set (entries n)" for a
      using that by (cases "a = last (entries n)") simp_all
    ultimately show ?thesis using IH True known_remove by metis
  next
    case False
    then show ?thesis using IH by (simp add: remove_unknown)
  qed
qed simp

lemma remove_all_iff: "remove_all n \<noteq> None \<longleftrightarrow> (\<forall>a \<in> set (entries n). known n a)"
  using remove_all_ends remove_all_empty by (metis not_None_eq)

end

definition known_address :: "Node \<Rightarrow> FeatureAddressType \<Rightarrow> bool" where
  "known_address n a = (case GetRemoteDeviceSender n a of None \<Rightarrow> False | Some ski \<Rightarrow> writer (senders n ski))"

lemma unsubscribe_cases:
  "fst (CallUnsubscribe s (Some a) (Some b)) = (if writer s then kEebusErrorOk else kEebusErrorInit)"
  "fst (CallUnbind s (Some a) (Some b)) = (if writer s then kEebusErrorOk else kEebusErrorInit)"
  "writer (snd (CallUnsubscribe s (Some a) (Some b))) = writer s" "writer (snd (CallUnbind s (Some a) (Some b))) = writer s"
  "\<not> writer s \<Longrightarrow> snd (CallUnsubscribe s (Some a) (Some b)) = s" "\<not> writer s \<Longrightarrow> snd (CallUnbind s (Some a) (Some b)) = s"
  by (simp_all add: CallUnsubscribe_def CallUnbind_def SendNodeManagmentCall_def SendSpineMessage_def SenderGetNextMsgCounter_def)

lemma container_remove: "FeatureAddressContainerRemove as a = remove1 a as"
proof -
  have "List.find (\<lambda>b. b = a) as = (if a \<in> set as then Some a else None)" by (induction as) auto
  then show ?thesis by (simp add: FeatureAddressContainerRemove_def FeatureAddressContainerFind_def remove1_idem)
qed

lemma known_address_cong:
  assumes "GetRemoteDeviceSender n' = GetRemoteDeviceSender n" "\<And>ski. writer (senders n' ski) = writer (senders n ski)"
  shows "known_address n' = known_address n"
  using assms by (simp add: known_address_def fun_eq_iff cong: option.case_cong)

lemma remove_remote_entry:
  assumes "\<And>s. fst (f s) = (if writer s then kEebusErrorOk else kEebusErrorInit)" "\<And>s. writer (snd (f s)) = writer s"
    and "\<And>s. \<not> writer s \<Longrightarrow> snd (f s) = s"
  shows "fst (with_sender ski f n) = kEebusErrorOk \<longleftrightarrow> writer (senders n ski)"
    "\<not> writer (senders n ski) \<Longrightarrow> snd (with_sender ski f n) = n"
    "known_address (snd (with_sender ski f n)) = known_address n"
proof -
  show "fst (with_sender ski f n) = kEebusErrorOk \<longleftrightarrow> writer (senders n ski)" using assms(1) by simp
  show "snd (with_sender ski f n) = n" if "\<not> writer (senders n ski)"
    using assms(3) [OF that] by (cases n) (simp add: with_sender_def split_def)
  show "known_address (snd (with_sender ski f n)) = known_address n"
    using assms(2) by (intro known_address_cong) auto
qed

lemmas unsubscribe_entry = remove_remote_entry [where f = "\<lambda>s. CallUnsubscribe s (Some a) (Some b)" for a b,
  OF unsubscribe_cases(1,3,5)]
lemmas unbind_entry = remove_remote_entry [where f = "\<lambda>s. CallUnbind s (Some a) (Some b)" for a b,
  OF unsubscribe_cases(2,4,6)]

lemma known_address_upd [simp]: "known_address (upd_local p f n) = known_address n"
  by (intro known_address_cong) simp_all

interpretation subscribed: remote_entries "\<lambda>n. fl_subscriptions (locals n (fst self))"
  "\<lambda>a n. snd (FeatureLocalRemoveRemoteSubscription self a n)" known_address "FeatureLocalRemoveAllRemoteSubscriptions self"
  for self :: self
proof
  fix n n' :: Node and a and P :: "Node \<Rightarrow> Node \<Rightarrow> bool"
  let ?e = "\<lambda>n. fl_subscriptions (locals n (fst self))" and ?r = "\<lambda>a n. snd (FeatureLocalRemoveRemoteSubscription self a n)"
  show "FeatureLocalRemoveAllRemoteSubscriptions self n =
      (if ?e n = [] then Some n else FeatureLocalRemoveAllRemoteSubscriptions self (?r (last (?e n)) n))"
    by (subst FeatureLocalRemoveAllRemoteSubscriptions.simps) (simp add: Let_def)
  show "P n n'" if "FeatureLocalRemoveAllRemoteSubscriptions self n = Some n'" "\<And>n. ?e n = [] \<Longrightarrow> P n n"
      "\<And>n n'. ?e n \<noteq> [] \<Longrightarrow> P (?r (last (?e n)) n) n' \<Longrightarrow> P n n'"
  proof -
    have "self = self \<longrightarrow> P n n'"
      by (rule FeatureLocalRemoveAllRemoteSubscriptions.raw_induct [where P = "\<lambda>s n n'. s = self \<longrightarrow> P n n'", OF _ that(1)])
        (auto simp: Let_def intro: that(2,3) split: if_splits)
    then show ?thesis by simp
  qed
  have cases: "?r a n = n" if "\<not> known_address n a" for n a
    using that unsubscribe_entry(1,2)
    by (auto simp: FeatureLocalRemoveRemoteSubscription_def known_address_def split_def Let_def split: option.splits)
  show "\<not> known_address n a \<Longrightarrow> ?r a n = n" by (rule cases)
  show "?e (?r a n) = remove1 a (?e n)" if "known_address n a"
    using that unsubscribe_entry(1)
    by (auto simp: FeatureLocalRemoveRemoteSubscription_def known_address_def split_def Let_def container_remove split: option.splits)
  show "known_address (?r a n) = known_address n"
    using unsubscribe_entry(3) by (auto simp: FeatureLocalRemoveRemoteSubscription_def split_def Let_def split: option.splits)
qed

interpretation bound: remote_entries "\<lambda>n. fl_bindings (locals n (fst self))"
  "\<lambda>a n. snd (FeatureLocalRemoveRemoteBinding self a n)" known_address "FeatureLocalRemoveAllRemoteBindings self"
  for self :: self
proof
  fix n n' :: Node and a and P :: "Node \<Rightarrow> Node \<Rightarrow> bool"
  let ?e = "\<lambda>n. fl_bindings (locals n (fst self))" and ?r = "\<lambda>a n. snd (FeatureLocalRemoveRemoteBinding self a n)"
  show "FeatureLocalRemoveAllRemoteBindings self n =
      (if ?e n = [] then Some n else FeatureLocalRemoveAllRemoteBindings self (?r (last (?e n)) n))"
    by (subst FeatureLocalRemoveAllRemoteBindings.simps) (simp add: Let_def)
  show "P n n'" if "FeatureLocalRemoveAllRemoteBindings self n = Some n'" "\<And>n. ?e n = [] \<Longrightarrow> P n n"
      "\<And>n n'. ?e n \<noteq> [] \<Longrightarrow> P (?r (last (?e n)) n) n' \<Longrightarrow> P n n'"
  proof -
    have "self = self \<longrightarrow> P n n'"
      by (rule FeatureLocalRemoveAllRemoteBindings.raw_induct [where P = "\<lambda>s n n'. s = self \<longrightarrow> P n n'", OF _ that(1)])
        (auto simp: Let_def intro: that(2,3) split: if_splits)
    then show ?thesis by simp
  qed
  have cases: "?r a n = n" if "\<not> known_address n a" for n a
    using that unbind_entry(1,2)
    by (auto simp: FeatureLocalRemoveRemoteBinding_def known_address_def split_def Let_def split: option.splits)
  show "\<not> known_address n a \<Longrightarrow> ?r a n = n" by (rule cases)
  show "?e (?r a n) = remove1 a (?e n)" if "known_address n a"
    using that unbind_entry(1)
    by (auto simp: FeatureLocalRemoveRemoteBinding_def known_address_def split_def Let_def container_remove split: option.splits)
  show "known_address (?r a n) = known_address n"
    using unbind_entry(3) by (auto simp: FeatureLocalRemoveRemoteBinding_def split_def Let_def split: option.splits)
qed

text \<open>
  C33. Giving up all subscriptions of a feature, and all of its bindings, returns exactly when the device of
  every entry is known and can be written to; then no entry is left. With any other entry the loop
  never ends.
\<close>

theorem remove_all_returns_iff:
  "(FeatureLocalRemoveAllRemoteSubscriptions self n \<noteq> None \<longleftrightarrow> (\<forall>a \<in> set (fl_subscriptions (locals n (fst self))). known_address n a)) \<and>
   (FeatureLocalRemoveAllRemoteBindings self n \<noteq> None \<longleftrightarrow> (\<forall>a \<in> set (fl_bindings (locals n (fst self))). known_address n a)) \<and>
   (\<forall>n'. FeatureLocalRemoveAllRemoteSubscriptions self n = Some n' \<longrightarrow> fl_subscriptions (locals n' (fst self)) = []) \<and>
   (\<forall>n'. FeatureLocalRemoveAllRemoteBindings self n = Some n' \<longrightarrow> fl_bindings (locals n' (fst self)) = [])"
  using subscribed.remove_all_iff bound.remove_all_iff subscribed.remove_all_empty bound.remove_all_empty by simp

text \<open>A subscription to a device that is no longer there, and one to a device that is.\<close>

definition example_subscribed :: "string \<Rightarrow> Node" where
  "example_subscribed d =
     upd_local 1 (\<lambda>fl. fl\<lparr>fl_subscriptions := [\<lparr>device = Some d, entity = Some [Some 1], feature = Some 2\<rparr>]\<rparr>) (example_node [])"

theorem remove_all_returns_iff_witness:
  "FeatureLocalRemoveAllRemoteSubscriptions example_self (example_subscribed ''C'') = None \<and>
   (\<exists>n'. FeatureLocalRemoveAllRemoteSubscriptions example_self (example_subscribed ''A'') = Some n' \<and> fl_subscriptions (locals n' 1) = [])"
proof -
  have subs: "fl_subscriptions (locals (example_subscribed d) (fst example_self)) =
      [\<lparr>device = Some d, entity = Some [Some 1], feature = Some 2\<rparr>]" for d
    by (simp add: example_subscribed_def example_self_def)
  have known: "known_address (example_subscribed ''A'') \<lparr>device = Some ''A'', entity = Some [Some 1], feature = Some 2\<rparr>"
    "\<not> known_address (example_subscribed ''C'') \<lparr>device = Some ''C'', entity = Some [Some 1], feature = Some 2\<rparr>"
    by (simp_all add: example_subscribed_def known_address_def GetRemoteDeviceSender_def GetRemoteDeviceWithAddress_def
        example_node_def example_world_def example_device_def SenderConstruct_def)
  have "FeatureLocalRemoveAllRemoteSubscriptions example_self (example_subscribed ''C'') = None"
    using remove_all_returns_iff [of example_self "example_subscribed ''C''"] known(2) by (simp add: subs)
  moreover obtain n' where "FeatureLocalRemoveAllRemoteSubscriptions example_self (example_subscribed ''A'') = Some n'"
    using remove_all_returns_iff [of example_self "example_subscribed ''A''"] known(1) by (auto simp: subs)
  ultimately show ?thesis
    using remove_all_returns_iff [of example_self "example_subscribed ''A''"] by (auto simp: example_self_def)
qed

section \<open>Forgetting a device\<close>

lemma clean_container_filter:
  assumes "distinct as" "i \<le> length as"
  shows "clean_container d i as = filter (\<lambda>a. device a \<noteq> Some d) (take i as) @ drop i as"
  using assms
proof (induction i arbitrary: as)
  case (Suc i)
  then have i: "i < length as" by simp
  have split: "as = take i as @ as ! i # drop (Suc i) as" using i by (simp add: id_take_nth_drop)
  have "as ! i \<notin> set (take i as)" using Suc.prems(1) i by (auto simp: in_set_conv_nth distinct_conv_nth)
  then have rm: "remove1 (as ! i) as = take i as @ drop (Suc i) as" by (subst (2) split) (simp add: remove1_append)
  have "take i (remove1 (as ! i) as) = take i as" "drop i (remove1 (as ! i) as) = drop (Suc i) as" "i \<le> length (remove1 (as ! i) as)"
    using i unfolding rm by simp_all
  then show ?case
    using Suc.IH [of as] Suc.IH [of "remove1 (as ! i) as"] Suc.prems i
    by (auto simp: container_remove take_Suc_conv_app_nth Cons_nth_drop_Suc [symmetric])
qed simp

lemma container_add_distinct:
  "distinct as \<Longrightarrow> distinct (FeatureAddressContainerAdd as a) \<and> set (FeatureAddressContainerAdd as a) = insert a (set as)"
  by (auto simp: FeatureAddressContainerAdd_def FeatureAddressContainerFind_def find_None_iff find_Some_iff)

end
