(* ===== verification/Spine_Device_Laws.thy ===== *)
theory Spine_Device_Laws
  imports Spine_Heartbeat Spine_Feature_Remote
begin

text \<open>
  The laws of the local device: who can change its data, what a discovery message does, and what is left of
  a remote device after it was removed.
\<close>

section \<open>What the handlers of messages keep\<close>

text \<open>
  A relation between the states before and after that every handler respects: it allows the effects of
  messages on senders, on the copies of remote data and on the bookkeeping of the local features, and on
  the functions of the features that are \<open>writable\<close>.
\<close>

locale message_frame =
  fixes R :: "Node \<Rightarrow> Node \<Rightarrow> bool" and writable :: "Node \<Rightarrow> ptr \<Rightarrow> bool"
  assumes refl [simp, intro]: "R n n"
    and trans: "R a b \<Longrightarrow> R b c \<Longrightarrow> R a c"
    and writable: "R n n' \<Longrightarrow> writable n' p = writable n p"
    and at_senders: "R n (n\<lparr>senders := s\<rparr>)"
    and at_traces: "R n (n\<lparr>traces := t\<rparr>)"
    and at_remotes: "R n (n\<lparr>remotes := r\<rparr>)"
    and at_use_cases: "R n (n\<lparr>use_case_prev := u\<rparr>)"
    and at_local: "(\<forall>fl. fl_functions (f fl) = fl_functions fl) \<or> writable n p \<Longrightarrow> R n (upd_local p f n)"
begin

lemma then_senders [intro!]: "R a b \<Longrightarrow> R a (b\<lparr>senders := s\<rparr>)"
  using at_senders trans by blast

lemma then_traces [intro!]: "R a b \<Longrightarrow> R a (log_trace t b)"
  unfolding log_trace_def using at_traces trans by blast

lemma then_remotes [intro!]: "R a b \<Longrightarrow> R a (b\<lparr>remotes := r\<rparr>)"
  using at_remotes trans by blast

lemma then_use_cases [intro!]: "R a b \<Longrightarrow> R a (b\<lparr>use_case_prev := u\<rparr>)"
  using at_use_cases trans by blast

lemma then_local [intro]: "R a b \<Longrightarrow> \<forall>fl. fl_functions (f fl) = fl_functions fl \<Longrightarrow> R a (upd_local p f b)"
  using at_local trans by blast

lemma then_function: "R a b \<Longrightarrow> writable a p \<Longrightarrow> R a (upd_local p f b)"
  using at_local trans writable by blast

lemma then_with_sender [intro!]: "R a b \<Longrightarrow> R a (snd (with_sender ski f b))"
  by (auto simp: with_sender_def split: prod.splits)

lemma then_notify [intro!]: "R a b \<Longrightarrow> R a (notify_all cmd ts b)"
  by (induction cmd ts b rule: notify_all.induct) auto

text \<open>Results, reads, replies and notifications.\<close>

lemma then_response [intro!]: "R a b \<Longrightarrow> R a (ProcessResponseMsgCallbacks self cnt rm b)"
  by (auto simp: ProcessResponseMsgCallbacks_def split: option.split)

lemma result_frame: "FeatureLocalProcessResult self msg n = Some (e, n') \<Longrightarrow> R n n'"
  by (auto simp: FeatureLocalProcessResult_def ProcessResultCallbacks_def Let_def split: if_splits EebusData.splits list.splits option.splits)

lemma reply_frame: "SenderReply (senders n ski) h a cmd = Some (e, s) \<Longrightarrow> R n (n\<lparr>senders := (senders n)(ski := s)\<rparr>)"
  by auto

lemma read_frame: "ProcessRead z m self msg n = Some (e, n') \<Longrightarrow> R n n'"
  by (auto simp: ProcessRead_def split: if_splits option.splits bind_splits)

lemma remote_data_frame: "FeatureRemoteUpdateData z m p t d fp fd w n = Some (e, n') \<Longrightarrow> R n n'"
  by (auto simp: FeatureRemoteUpdateData_def split: option.splits)

lemma remote_update_frame: "FEATURE_REMOTE_UPDATE_DATA z m p t d fp fd w n = Some (e, n') \<Longrightarrow> R n n'"
  by (auto simp: FEATURE_REMOTE_UPDATE_DATA_def NodeManagementRemoteUpdateData_def Let_def split: if_splits bind_splits
      dest!: remote_data_frame)

lemma update_remote_frame: "update_remote z m self msg c n = Some (e, n') \<Longrightarrow> R n n'"
  by (auto simp: update_remote_def PublishDataUpdateEvent_def Let_def split: if_splits bind_splits dest!: remote_update_frame)

lemma notify_frame: "ProcessNotify z m self msg n = Some (e, n') \<Longrightarrow> R n n'"
  by (simp add: ProcessNotify_def update_remote_frame)

lemma process_reply_frame: "ProcessReply z m self msg n = Some (e, n') \<Longrightarrow> R n n'"
  by (auto simp: ProcessReply_def split: if_splits bind_splits option.splits dest!: update_remote_frame)

text \<open>Writes, to a feature that may be written.\<close>

lemma notify_subscribers_frame: "NotifySubscribers a cmd n = Some n' \<Longrightarrow> R n n'"
  by (auto simp: NotifySubscribers_def)

lemma update_notify_frame: "FunctionUpdateNotifySubscribers z m self fn d p q n = Some (e, n') \<Longrightarrow> R n n'"
  by (auto simp: FunctionUpdateNotifySubscribers_def split: bind_splits option.splits dest!: notify_subscribers_frame)

lemma update_function_frame:
  "update_function z m self fn d p q n = Some (e, g, n') \<Longrightarrow> writable n (fst self) \<Longrightarrow> R n n'"
  by (auto simp: update_function_def intro: then_function)

lemma write_data_frame:
  "ProcessWriteFunctionData z m self msg n = Some (e, n') \<Longrightarrow> writable n (fst self) \<Longrightarrow> R n n'"
  by (auto simp: ProcessWriteFunctionData_def PublishDataUpdateEvent_def Let_def split: option.splits bind_splits if_splits
      dest!: update_function_frame update_notify_frame) (blast intro: trans)+

lemma write_internal_frame:
  "ProcessWriteInternal z m self msg n = Some (e, n') \<Longrightarrow> writable n (fst self) \<Longrightarrow> R n n'"
  by (auto simp: ProcessWriteInternal_def split: option.splits bind_splits if_splits dest!: write_data_frame)

lemma approve_frame:
  assumes "FeatureLocalTryApproveWrite z m self ski cnt n = Some (e, n')" "writable n (fst self)"
  shows "R n n'"
proof (cases "n' = n")
  case False
  then obtain r where role: "\<not> (feature_role (snd self) \<noteq> kRoleTypeServer \<or> ski = None)"
      and r: "FindPendingWriteRequest (locals n (fst self)) (the ski) cnt = Some r"
    using assms(1) by (auto simp: FeatureLocalTryApproveWrite_def split: if_splits option.splits)
  define r' where "r' = PendingWriteRequest_AddApproval r"
  define n1 where "n1 = upd_local (fst self) (set_request r r') n"
  have n1: "R n n1" unfolding n1_def by (intro then_local refl) (simp add: set_request_def)
  have run: "(if length (wr_approval_cbs (locals n1 (fst self))) > unat (num_approvals r') then Some (kEebusErrorOk, n1)
      else case PendingWriteRequest_GetMessage r' n1 of
             Inl status \<Rightarrow> Some (status, n1)
           | Inr msg \<Rightarrow> map_option (\<lambda>(status, n). (status, upd_local (fst self) (remove_request r') n))
               (ProcessWriteInternal z m self msg n1)) = Some (e, n')"
    using assms(1) unfolding FeatureLocalTryApproveWrite_def if_not_P [OF role] r option.case Let_def n1_def r'_def .
  show ?thesis
  proof (cases "n' = n1")
    case False
    then obtain msg n2 where n2: "ProcessWriteInternal z m self msg n1 = Some (e, n2)"
        "n' = upd_local (fst self) (remove_request r') n2"
      using run by (auto split: if_splits sum.splits)
    have "R n n2" using n1 write_internal_frame [OF n2(1)] assms(2) writable [OF n1] trans by blast
    then show ?thesis unfolding n2(2) by (intro then_local) (simp_all add: remove_request_def)
  qed (use n1 in simp)
qed simp

lemma deny_frame: "R n (snd (FeatureLocalDenyWrite self ski cnt e n))"
  by (rule deny_cases [of self ski cnt e n]) (auto simp: remove_request_def)

lemma then_writable:
  assumes "R a b" "writable a p" "writable b p \<Longrightarrow> R b c"
  shows "R a c"
  using trans [OF assms(1) assms(3)] writable [OF assms(1)] assms(2) by simp

lemma actions_frame: "run_actions z m self as n = Some n' \<Longrightarrow> writable n (fst self) \<Longrightarrow> R n n'"
proof (induction as arbitrary: n)
  case (Cons a as)
  show ?case
  proof (cases a)
    case (Approve ski cnt)
    then obtain e n1 where n1: "FeatureLocalTryApproveWrite z m self ski cnt n = Some (e, n1)" "run_actions z m self as n1 = Some n'"
      using Cons.prems(1) by (auto split: bind_splits)
    show ?thesis by (rule then_writable [OF approve_frame [OF n1(1) Cons.prems(2)] Cons.prems(2) Cons.IH [OF n1(2)]])
  next
    case (Deny ski cnt e)
    then have "run_actions z m self as (snd (FeatureLocalDenyWrite self ski cnt e n)) = Some n'" using Cons.prems(1) by simp
    then show ?thesis by (rule then_writable [OF deny_frame Cons.prems(2) Cons.IH])
  qed
qed simp

lemma approvals_frame: "ProcessWriteApprovalCallbacks z m app self msg cbs n = Some n' \<Longrightarrow> writable n (fst self) \<Longrightarrow> R n n'"
proof (induction cbs arbitrary: n)
  case (Cons cb cbs)
  then obtain n1 where n1: "run_actions z m self (app cb msg n) (log_trace [ApprovalRequest cb msg] n) = Some n1"
      "ProcessWriteApprovalCallbacks z m app self msg cbs n1 = Some n'" by (auto split: bind_splits)
  have l: "R n (log_trace [ApprovalRequest cb msg] n)" by (rule then_traces [OF refl])
  have "R n n1" by (rule then_writable [OF l Cons.prems(2) actions_frame [OF n1(1)]])
  then show ?case by (rule then_writable [OF _ Cons.prems(2) Cons.IH [OF n1(2)]])
qed simp

lemma write_frame:
  assumes "ProcessWrite z m app self msg n = Some (e, n')" "writable n (fst self)"
  shows "R n n'"
proof (cases "wr_approval_cbs (locals n (fst self)) = []")
  case True
  then show ?thesis using assms write_internal_frame by (simp add: ProcessWrite_def)
next
  case False
  then obtain n1 where n1: "AddPendingWriteRequest self msg n = Some n1"
      "ProcessWriteApprovalCallbacks z m app self msg (wr_approval_cbs (locals n1 (fst self))) n1 = Some n'"
    using assms(1) by (auto simp: ProcessWrite_def split: bind_splits)
  have "R n n1" using n1(1) by (auto simp: AddPendingWriteRequest_def split: option.splits if_splits bind_splits intro!: then_local)
  then show ?thesis by (rule then_writable [OF _ assms(2) approvals_frame [OF n1(2)]])
qed

text \<open>The messages to a feature, and the ones to node management that are writes.\<close>

lemma feature_frame:
  assumes "FeatureLocalHandleMessage z m app self msg n = Some (e, n')" "msg_classifier msg = kCommandClassifierTypeWrite \<Longrightarrow> writable n (fst self)"
  shows "R n n'"
proof (cases "n' = n")
  case False
  then show ?thesis
    using assms by (cases "msg_classifier msg")
      (auto simp: FeatureLocalHandleMessage_def split: if_splits
        dest: write_frame result_frame read_frame process_reply_frame notify_frame)
qed simp

lemma management_write_frame:
  "NodeManagementHandleMessage z m msg n = Some (e, n') \<Longrightarrow> msg_classifier msg = kCommandClassifierTypeWrite \<Longrightarrow> R n n'"
  by (auto simp: NodeManagementHandleMessage_def Let_def HandleMsgDetailedDiscoveryData_def HandleMsgSubscriptionRequestCall_def
      HandleMsgSubscriptionDeleteCall_def HandleMsgSubscriptionData_def HandleMsgBindingRequestCall_def HandleMsgBindingDeleteCall_def
      HandleMsgBindingData_def HandleMsgUseCaseData_def HandleMsgDestinationListData_def dest: result_frame split: if_splits)

end

text \<open>A relation that also allows what node management does: it changes the links, and the remote devices.\<close>

locale node_frame = message_frame +
  assumes at_remote_devices: "R n (n\<lparr>world := (world n)\<lparr>remote_devices := ds\<rparr>\<rparr>)"
    and at_bindings: "R n (n\<lparr>binding_manager := bm\<rparr>)"
    and at_subscriptions: "R n (n\<lparr>subscription_manager := sm\<rparr>)"
    and at_next_ptr: "R n (n\<lparr>next_ptr := p\<rparr>)"
begin

lemma then_device [intro!]: "R a b \<Longrightarrow> R a (upd_device ski f b)"
  unfolding upd_device_def using at_remote_devices trans by blast

lemma then_bindings [intro!]: "R a b \<Longrightarrow> R a (b\<lparr>binding_manager := bm\<rparr>)"
  using at_bindings trans by blast

lemma then_subscriptions [intro!]: "R a b \<Longrightarrow> R a (b\<lparr>subscription_manager := sm\<rparr>)"
  using at_subscriptions trans by blast

lemma then_next_ptr [intro!]: "R a b \<Longrightarrow> R a (b\<lparr>next_ptr := p\<rparr>)"
  using at_next_ptr trans by blast

lemma from_states:
  "R (upd_device ski f b) c \<Longrightarrow> R b c" "R (b\<lparr>remotes := r\<rparr>) c \<Longrightarrow> R b c" "R (b\<lparr>use_case_prev := u\<rparr>) c \<Longrightarrow> R b c"
  "R (b\<lparr>next_ptr := p\<rparr>) c \<Longrightarrow> R b c"
  using trans by blast+

lemma send_reply_frame: "NodeManagementSendReply d t msg n = Some (e, n') \<Longrightarrow> R n n'"
  by (auto simp: NodeManagementSendReply_def split: bind_splits)

lemma then_subscribe [intro!]: "R a b \<Longrightarrow> R a (snd (FeatureLocalSubscribeToRemote self addr b))"
  by (auto simp: FeatureLocalSubscribeToRemote_def with_sender_def Let_def split: option.split prod.split intro!: then_local)

lemma then_request [intro!]: "R a b \<Longrightarrow> R a (snd (RequestUseCaseData ski addr b))"
  by (auto simp: RequestUseCaseData_def FeatureLocalRequestRemoteDataBySenderAddress_def)

lemma event_frame: "EventPublish ev n = Some n' \<Longrightarrow> R n n'"
  by (auto simp: EventPublish_def DeviceLocalHandleEvent_def Let_def split: if_splits option.splits bind_splits)

lemma add_features_frame: "EntityRemoteAddFeaturesWithInfo m is e n = Some (e', n') \<Longrightarrow> R n n'"
proof (induction "is" arbitrary: e n)
  case (Cons i "is")
  then show ?case by (auto simp: Let_def dest!: Cons.IH from_states split: bind_splits if_splits option.splits)
qed simp

lemma add_entities_frame: "add_entities m init data is dr new n = Some (r, dr', n') \<Longrightarrow> R n n'"
proof (induction "is" arbitrary: dr new n)
  case (Cons i "is")
  show ?case
  proof (cases "CheckEntityInformation dr init i = kEebusErrorOk")
    case True
    obtain e n1 dr1 new1 where "R n n1" "add_entities m init data is dr1 new1 n1 = Some (r, dr', n')"
      using Cons.prems True by (auto simp: Let_def split: bind_splits dest!: add_features_frame)
    then show ?thesis using Cons.IH trans by blast
  qed (use Cons.prems in simp)
qed simp

lemma discovery_frame: "ProcessReplyDetailedDiscoveryData m msg n = Some (e, n') \<Longrightarrow> R n n'"
  by (auto simp: ProcessReplyDetailedDiscoveryData_def AddEntityAndFeatures_def Let_def split: bind_splits option.splits
      dest!: add_entities_frame event_frame from_states) (blast intro: trans)+

lemmas request_frames = discovery_frame result_frame send_reply_frame remote_update_frame

lemma management_frame: "NodeManagementHandleMessage z m msg n = Some (e, n') \<Longrightarrow> R n n'"
  unfolding NodeManagementHandleMessage_def Let_def
  by (auto simp: HandleMsgDetailedDiscoveryData_def ProcessReadDetailedDiscoveryData_def HandleMsgSubscriptionRequestCall_def
      HandleMsgSubscriptionDeleteCall_def HandleMsgSubscriptionData_def HandleMsgBindingRequestCall_def HandleMsgBindingDeleteCall_def
      HandleMsgBindingData_def HandleMsgUseCaseData_def ProcessReadUseCaseData_def ProcessReplyUseCaseData_def
      HandleMsgDestinationListData_def ProcessReadDestinationListData_def Let_def
      dest!: request_frames split: if_splits bind_splits option.splits CommandClassifierType.splits)

end

section \<open>Who changes local data\<close>

definition same_data :: "Node \<Rightarrow> Node \<Rightarrow> bool" where
  "same_data n n' \<longleftrightarrow> (\<forall>p. fl_functions (locals n' p) = fl_functions (locals n p)) \<and>
     local_device (world n') = local_device (world n) \<and> node_management n' = node_management n"

interpretation data: node_frame same_data "\<lambda>_ _. False"
  by unfold_locales (auto simp: same_data_def upd_local_def)

text \<open>A client with this header is bound to the local feature at the pointer.\<close>

definition bound_write :: "HeaderType \<Rightarrow> string \<Rightarrow> Node \<Rightarrow> ptr \<Rightarrow> bool" where
  "bound_write h ski n p =
     (case (LocalGetFeatureWithAddress (local_device (world n)) (dest_addr h),
            Option.bind (GetRemoteDeviceWithSki n ski) (\<lambda>dr. Option.bind (RemoteGetFeatureWithAddress dr (src_addr h)) id)) of
        (Some (q, f), Some (r, g)) \<Rightarrow>
          p = q \<and> HasBinding (world n) (binding_manager n) (Some (feature_address f)) (Some (feature_address g)) = Some True
      | _ \<Rightarrow> False)"

definition write_ok :: "HeaderType \<Rightarrow> string \<Rightarrow> Node \<Rightarrow> Node \<Rightarrow> bool" where
  "write_ok h ski n n' \<longleftrightarrow> world n' = world n \<and> binding_manager n' = binding_manager n \<and> node_management n' = node_management n \<and>
     (\<forall>p. fl_functions (locals n' p) = fl_functions (locals n p) \<or> bound_write h ski n p)"

lemma bound_write_cong:
  assumes "world n' = world n" "binding_manager n' = binding_manager n"
  shows "bound_write h ski n' p = bound_write h ski n p"
  unfolding bound_write_def GetRemoteDeviceWithSki_def assms ..

lemma write_ok_trans: "write_ok h ski a b \<Longrightarrow> write_ok h ski b c \<Longrightarrow> write_ok h ski a c"
  unfolding write_ok_def using bound_write_cong [of b a h ski] by metis

interpretation bound_writes: message_frame "write_ok h ski" "bound_write h ski" for h ski
proof unfold_locales
  show "write_ok h ski a b \<Longrightarrow> write_ok h ski b c \<Longrightarrow> write_ok h ski a c" for a b c by (rule write_ok_trans)
  show "write_ok h ski n n' \<Longrightarrow> bound_write h ski n' p = bound_write h ski n p" for n n' p
    by (intro bound_write_cong) (simp_all add: write_ok_def)
qed (auto simp: write_ok_def upd_local_def)

definition cmd_message :: "HeaderType \<Rightarrow> CommandClassifierType \<Rightarrow> CmdType \<Rightarrow> ptr \<Rightarrow> string \<Rightarrow> Message" where
  "cmd_message h c cmd r ski =
     \<lparr>request_header = Some h, msg_classifier = c, msg_cmd = cmd, msg_filter_partial = CmdGetFilterPartial cmd,
      msg_filter_delete = CmdGetFilterDelete cmd, feature_remote = r, device_remote = ski\<rparr>"

lemma ProcessCmd_message:
  assumes "LocalGetFeatureWithAddress (local_device (world n)) (dest_addr h) = Some self" "GetRemoteDeviceWithSki n ski = Some dr"
    and "RemoteGetFeatureWithAddress dr (src_addr h) = Some (Some (r, g))" "cmd_classifier h = Some c"
    and "c = kCommandClassifierTypeWrite \<Longrightarrow>
      HasBinding (world n) (binding_manager n) (Some (feature_address (snd self))) (Some (feature_address g)) = Some True"
  shows "ProcessCmd z m app h cmd ski n = FEATURE_LOCAL_HANDLE_MESSAGE z m app self (cmd_message h c cmd r ski) n"
  using assms unfolding ProcessCmd_def by (simp add: cmd_message_def Let_def)

lemma write_cmd_frame:
  assumes "ProcessCmd z m app h cmd ski n = Some (e, n')" "cmd_classifier h = Some kCommandClassifierTypeWrite"
  shows "write_ok h ski n n'"
proof (cases "n' = n")
  case False
  then obtain q f dr r g where q: "LocalGetFeatureWithAddress (local_device (world n)) (dest_addr h) = Some (q, f)"
      "GetRemoteDeviceWithSki n ski = Some dr" "RemoteGetFeatureWithAddress dr (src_addr h) = Some (Some (r, g))"
    using assms by (auto simp: ProcessCmd_def Let_def split: option.splits bind_splits if_splits)
  define msg where "msg = \<lparr>request_header = Some h, msg_classifier = kCommandClassifierTypeWrite, msg_cmd = cmd,
    msg_filter_partial = CmdGetFilterPartial cmd, msg_filter_delete = CmdGetFilterDelete cmd, feature_remote = r, device_remote = ski\<rparr>"
  have q': "HasBinding (world n) (binding_manager n) (Some (feature_address f)) (Some (feature_address g)) = Some True"
      "FEATURE_LOCAL_HANDLE_MESSAGE z m app (q, f) msg n = Some (e, n')"
    using assms q False by (auto simp: ProcessCmd_def Let_def msg_def split: bind_splits if_splits)
  have "msg_classifier msg = kCommandClassifierTypeWrite" by (simp add: msg_def)
  moreover have "bound_write h ski n q" using q q'(1) by (simp add: bound_write_def)
  ultimately show ?thesis
    using q'(2) bound_writes.management_write_frame bound_writes.feature_frame
    by (auto simp: FEATURE_LOCAL_HANDLE_MESSAGE_def split: if_splits)
qed simp

lemma other_cmd_frame:
  assumes "ProcessCmd z m app h cmd ski n = Some (e, n')" "cmd_classifier h \<noteq> Some kCommandClassifierTypeWrite"
  shows "same_data n n'"
proof (cases "n' = n")
  case False
  then obtain q f msg where "FEATURE_LOCAL_HANDLE_MESSAGE z m app (q, f) msg n = Some (e, n')" "msg_classifier msg \<noteq> kCommandClassifierTypeWrite"
    using assms by (auto simp: ProcessCmd_def Let_def split: option.splits bind_splits if_splits)
  then show ?thesis
    by (cases "q = fst (node_management n)")
      (auto simp: FEATURE_LOCAL_HANDLE_MESSAGE_def elim!: data.management_frame data.feature_frame)
qed simp

text \<open>A relation that every command respects is respected by the commands of a datagram.\<close>

lemma process_cmds_frame:
  assumes "process_cmds z m app h cs ski n = Some (e, n')" "\<And>n. Q n n" "\<And>a b c. Q a b \<Longrightarrow> Q b c \<Longrightarrow> Q a c"
    and "\<And>cmd e n n'. ProcessCmd z m app h cmd ski n = Some (e, n') \<Longrightarrow> Q n n'"
  shows "Q n n'"
  using assms(1)
proof (induction cs arbitrary: n)
  case (Cons c cs)
  show ?case
  proof (cases "n' = n")
    case False
    then obtain cmd e1 n1 where "ProcessCmd z m app h cmd ski n = Some (e1, n1)" "n' = n1 \<or> process_cmds z m app h cs ski n1 = Some (e, n')"
      using Cons.prems by (auto split: option.splits bind_splits if_splits)
    then show ?thesis using Cons.IH assms(3,4) by blast
  qed (simp add: assms(2))
qed (simp add: assms(2))

lemma datagram_cases:
  assumes "ProcessDatagram z m app d ski n = Some (err, n')"
  obtains "n' = n" | dg h cs n1 where "d = Some dg" "header dg = Some h" "process_cmds z m app h cs ski n = Some (err, n1)"
    "n' = n1 \<or> (\<exists>f. n' = snd (with_sender ski f n1))"
proof (cases "n' = n")
  case False
  then obtain dg h cs c where d: "d = Some dg" "header dg = Some h" "payload dg = Some cs" "cmd_classifier h = Some c" "cs \<noteq> []"
    using assms by (auto simp: ProcessDatagram_def split: option.splits if_splits)
  then obtain n1 where n1: "process_cmds z m app h cs ski n = Some (err, n1)"
      "n' = n1 \<or> n' = snd (with_sender ski (\<lambda>s. ResultSuccess s (Some h) (dest_addr h)) n1)"
    using assms by (auto simp: ProcessDatagram_def Let_def split: bind_splits if_splits)
  show thesis using that(2) [OF d(1,2) n1(1)] n1(2) by blast
qed (use that(1) in simp)

text \<open>
  C9. Only bound clients change local data: when a datagram changes the data of a function of some local
  feature, it is a write, its destination is that feature, and its source is a feature of the sending
  device that has a binding to it.
\<close>

theorem only_bound_clients_change_data:
  assumes "ProcessDatagram z m app d ski n = Some (err, n')"
    and "fl_functions (locals n' p) \<noteq> fl_functions (locals n p)"
  shows "\<exists>dg h. d = Some dg \<and> header dg = Some h \<and> cmd_classifier h = Some kCommandClassifierTypeWrite \<and> bound_write h ski n p"
  using assms(1)
proof (cases rule: datagram_cases)
  case (2 dg h cs n1)
  then have n1: "locals n' = locals n1" by auto
  show ?thesis
  proof (cases "cmd_classifier h = Some kCommandClassifierTypeWrite")
    case True
    have "write_ok h ski n n1"
      by (rule process_cmds_frame [OF 2(3), where Q = "write_ok h ski", OF bound_writes.refl bound_writes.trans write_cmd_frame [OF _ True]])
    then show ?thesis using 2(1,2) True assms(2) n1 by (auto simp: write_ok_def)
  next
    case False
    have "same_data n n1"
      by (rule process_cmds_frame [OF 2(3), where Q = same_data, OF data.refl data.trans other_cmd_frame [OF _ False]])
    then show ?thesis using assms(2) n1 by (simp add: same_data_def)
  qed
qed (use assms(2) in simp)

text \<open>An update without filters returns, and every subscriber is notified.\<close>

lemma notify_keeps:
  assumes "NotifySubscribers addr cmd n = Some n'"
  shows "world n' = world n" "subscription_manager n' = subscription_manager n" "writer (senders n' ski) = writer (senders n ski)"
proof -
  have "world (notify_all c ts k) = world k \<and> subscription_manager (notify_all c ts k) = subscription_manager k \<and>
      writer (senders (notify_all c ts k) ski) = writer (senders k ski)" for c ts k
    by (induction c ts k rule: notify_all.induct)
      (auto simp: SenderNotify_def SendSpineMessage_def SenderGetNextMsgCounter_def Let_def)
  then show "world n' = world n" "subscription_manager n' = subscription_manager n" "writer (senders n' ski) = writer (senders n ski)"
    using assms by (auto simp: NotifySubscribers_def)
qed

definition can_notify :: "Node \<Rightarrow> bool" where
  "can_notify n \<longleftrightarrow> container_ok (world n) (subscription_entries (subscription_manager n)) \<and> (\<forall>ski. writer (senders n ski))"

lemma full_update:
  assumes "model_wf m" "can_notify n" "FeatureGetFunction (fl_functions (locals n (fst self))) t = Some fn"
    and "t < length (data_choice_data_cfg m)" "fits z (data_choice_data_cfg m ! t) d"
  obtains fn' n1 n2 cmd where "update_function z m self fn d None None n = Some (kEebusErrorOk, fn', n1)"
    "FunctionUpdateNotifySubscribers z m self fn' d None None n1 = Some (kEebusErrorOk, n2)"
    "FeatureLocalGetData self t n2 = Some d" "world n2 = world n" "subscription_manager n2 = subscription_manager n" "can_notify n2"
    "\<And>ski. map datagram_contents (written (senders n2 ski)) = map datagram_contents (written (senders n ski)) @
       map (\<lambda>ca. (Some (feature_address (snd self)), Some ca, Some kCommandClassifierTypeNotify, Some [Some cmd]))
         (subscribers n (feature_address (snd self)) ski)"
    "data_choice cmd = d"
proof -
  let ?fn = "fn\<lparr>fdata := d\<rparr>"
  let ?n = "upd_local (fst self) (\<lambda>fl. fl\<lparr>fl_functions := set_function ?fn (fl_functions fl)\<rparr>) n"
  note ty = get_function_type [OF assms(3)]
  have up: "FunctionUpdateData z m fn d None None True = Some (kEebusErrorOk, ?fn)"
    using write_function_data(2) [OF assms(1,4,5)] assms(1,4) ty
    by (simp add: FunctionUpdateData_def ModelGetDataCfg_def ModelGetDataSelectorsCfg_def ModelGetDataElementsCfg_def model_wf_def)
  obtain cmd where cmd: "CreateNotifyCmd z m ?fn d None None = Some (Some cmd)" "data_choice cmd = d"
    using notify_carries_update [of m ?fn z d None None True] assms(1,4,5) ty by auto
  obtain n2 where n2: "NotifySubscribers (feature_address (snd self)) cmd ?n = Some n2" "locals n2 = locals ?n"
      "\<And>ski. map datagram_contents (written (senders n2 ski)) = map datagram_contents (written (senders ?n ski)) @
         map (\<lambda>ca. (Some (feature_address (snd self)), Some ca, Some kCommandClassifierTypeNotify, Some [Some cmd]))
           (subscribers ?n (feature_address (snd self)) ski)"
    using assms(2) by (elim NotifySubscribers_spec [of ?n "feature_address (snd self)" cmd, rotated 2]) (simp_all add: can_notify_def)
  note keep = notify_keeps [OF n2(1)]
  show thesis
  proof (rule that)
    show "update_function z m self fn d None None n = Some (kEebusErrorOk, ?fn, ?n)" by (simp add: update_function_def up)
    show "FunctionUpdateNotifySubscribers z m self ?fn d None None ?n = Some (kEebusErrorOk, n2)"
      using cmd(1) n2(1) by (simp add: FunctionUpdateNotifySubscribers_def)
    show "FeatureLocalGetData self t n2 = Some d"
      using n2(2) find_set_function [OF assms(3), of ?fn] ty by (simp add: FeatureLocalGetData_def)
    show "world n2 = world n" "subscription_manager n2 = subscription_manager n" "can_notify n2"
      using keep assms(2) by (simp_all add: can_notify_def)
    show "map datagram_contents (written (senders n2 ski)) = map datagram_contents (written (senders n ski)) @
       map (\<lambda>ca. (Some (feature_address (snd self)), Some ca, Some kCommandClassifierTypeNotify, Some [Some cmd]))
         (subscribers n (feature_address (snd self)) ski)" for ski
      using n2(3) by (simp add: subscribers_def)
  qed (rule cmd(2))
qed

lemma write_internal_returns:
  assumes "model_wf m" "can_notify n" "data_choice_type_id (msg_cmd msg) = t"
    and "FeatureGetFunction (fl_functions (locals n (fst self))) t = Some fn"
    and "t < length (data_choice_data_cfg m)" "fits z (data_choice_data_cfg m ! t) (data_choice (msg_cmd msg))"
    and "msg_filter_partial msg = None" "msg_filter_delete msg = None"
    and "request_header msg = Some h" "remote_feature_at (world n) (Some (feature_remote msg)) \<noteq> None"
  shows "\<exists>n'. ProcessWriteInternal z m self msg n = Some (kEebusErrorOk, n') \<and>
    FeatureLocalGetData self t n' = Some (data_choice (msg_cmd msg))"
proof -
  obtain fn' n1 n2 where up: "update_function z m self fn (data_choice (msg_cmd msg)) None None n = Some (kEebusErrorOk, fn', n1)"
      "FunctionUpdateNotifySubscribers z m self fn' (data_choice (msg_cmd msg)) None None n1 = Some (kEebusErrorOk, n2)"
      "FeatureLocalGetData self t n2 = Some (data_choice (msg_cmd msg))" "world n2 = world n"
    by (rule full_update [OF assms(1,2,4-6)])
  obtain dr g where "remote_feature_at (world n2) (Some (feature_remote msg)) = Some (dr, g)" using assms(10) up(4) by auto
  then obtain n3 where "ProcessWriteFunctionData z m self msg n = Some (kEebusErrorOk, n3)" "locals n3 = locals n2"
    using assms(4) up(1,2) unfolding ProcessWriteFunctionData_def Let_def assms(3,7,8) by (simp add: PublishDataUpdateEvent_def)
  then show ?thesis using assms(9) up(3) by (auto simp: ProcessWriteInternal_def FeatureLocalGetData_def)
qed

text \<open>A write of the load control limits by the client that is bound to them.\<close>

definition example_datagram :: DatagramType where
  "example_datagram = \<lparr>header = Some example_header, payload = Some [Some (msg_cmd example_write)]\<rparr>"

lemma example_message:
  "LocalGetFeatureWithAddress (local_device (world (example_node cbs))) (dest_addr example_header) = Some example_self"
  "GetRemoteDeviceWithSki (example_node cbs) ''A'' = Some (example_device ''A'' 2 kRoleTypeClient)"
  "\<exists>g. RemoteGetFeatureWithAddress (example_device ''A'' 2 kRoleTypeClient) (src_addr example_header) = Some (Some (2, g)) \<and>
    HasBinding example_world example_bindings (Some (feature_address (snd example_self))) (Some (feature_address g)) = Some True"
  "fst (node_management (example_node cbs)) = 0" "fst example_self = 1"
  "CmdGetFilterPartial (msg_cmd example_write) = None" "CmdGetFilterDelete (msg_cmd example_write) = None"
proof -
  show "LocalGetFeatureWithAddress (local_device (world (example_node cbs))) (dest_addr example_header) = Some example_self"
    by (simp add: LocalGetFeatureWithAddress_def example_simps DeviceGetEntity_def EntityAddressMatchIds_def
        EntityGetFeatureWithId_def example_feature_simps)
  show "\<exists>g. RemoteGetFeatureWithAddress (example_device ''A'' 2 kRoleTypeClient) (src_addr example_header) = Some (Some (2, g)) \<and>
    HasBinding example_world example_bindings (Some (feature_address (snd example_self))) (Some (feature_address g)) = Some True"
    using example_lookups(2) example_at example_ok(2)
    by (simp add: HasBinding_def container_find example_list example_feature_simps)
qed (simp_all add: example_feature_simps GetRemoteDeviceWithSki_def example_world_def example_device_def
  example_node_management_def CmdGetFilterPartial_def CmdGetFilterDelete_def CmdGetFilterWithType_def CmdCreateEmpty_def)

theorem only_bound_clients_change_data_witness:
  "\<exists>n'. ProcessDatagram False load_control_model (\<lambda>_ _ _. []) (Some example_datagram) ''A'' (example_node []) = Some (kEebusErrorOk, n') \<and>
    fl_functions (locals n' 1) \<noteq> fl_functions (locals (example_node []) 1) \<and> bound_write example_header ''A'' (example_node []) 1"
proof -
  let ?n = "example_node []" and ?v = "limits [limit (CHR 0x01) (Some True) None]"
  obtain g where g: "RemoteGetFeatureWithAddress (example_device ''A'' 2 kRoleTypeClient) (src_addr example_header) = Some (Some (2, g))"
      "HasBinding example_world example_bindings (Some (feature_address (snd example_self))) (Some (feature_address g)) = Some True"
    using example_message(3) by blast
  have m: "model_wf load_control_model" "0 < length (data_choice_data_cfg load_control_model)"
    "fits False (data_choice_data_cfg load_control_model ! 0) ?v" by code_simp+
  have "\<exists>n'. ProcessWriteInternal False load_control_model example_self example_write ?n = Some (kEebusErrorOk, n') \<and>
      FeatureLocalGetData example_self 0 n' = Some (data_choice (msg_cmd example_write))"
    by (rule write_internal_returns [where fn = "FunctionConstruct load_control_model 0" and h = example_header])
      (use m example_ok(3) example_at(2) in \<open>simp_all add: example_feature_simps can_notify_def SenderConstruct_def FeatureGetFunction_def
         FunctionConstruct_def CmdCreateEmpty_def\<close>)
  then obtain n' where n': "ProcessWriteInternal False load_control_model example_self example_write ?n = Some (kEebusErrorOk, n')"
      "FeatureLocalGetData example_self 0 n' = Some ?v" by (auto simp: example_write_def)
  have w: "world ?n = example_world" "binding_manager ?n = example_bindings" "locals ?n 1 = FeatureLocalConstruct [FunctionConstruct load_control_model 0]"
    by (simp_all add: example_node_def FeatureLocalConstruct_def)
  have h: "cmd_classifier example_header = Some kCommandClassifierTypeWrite" "ack_request example_header = Some True"
    by (simp_all add: example_header_def)
  have msg: "\<lparr>request_header = Some example_header, msg_classifier = kCommandClassifierTypeWrite, msg_cmd = msg_cmd example_write,
      msg_filter_partial = None, msg_filter_delete = None, feature_remote = 2, device_remote = ''A''\<rparr> = example_write"
    by (simp add: example_write_def)
  have c: "msg_classifier example_write = kCommandClassifierTypeWrite" by (simp add: example_write_def)
  have "data_choice (msg_cmd example_write) \<noteq> Null" by (simp add: example_write_def limits_def)
  then have "ProcessCmd False load_control_model (\<lambda>_ _ _. []) example_header (msg_cmd example_write) ''A'' ?n = Some (kEebusErrorOk, n')"
    unfolding ProcessCmd_message [OF example_message(1,2) g(1) h(1) g(2) [folded w(1,2)]]
    using example_message(4-7) w(3) n'(1) msg c
    by (simp add: cmd_message_def FEATURE_LOCAL_HANDLE_MESSAGE_def FeatureLocalHandleMessage_def ProcessWrite_def FeatureLocalConstruct_def)
  then have p: "ProcessDatagram False load_control_model (\<lambda>_ _ _. []) (Some example_datagram) ''A'' ?n = Some (kEebusErrorOk, n')"
    using h by (simp add: ProcessDatagram_def example_datagram_def)
  have "ModelFunctionDataCreateEmpty load_control_model 0 \<noteq> ?v" by code_simp
  then have ch: "fl_functions (locals n' 1) \<noteq> fl_functions (locals ?n 1)"
    using n'(2) w(3) by (auto simp: FeatureLocalGetData_def FeatureGetFunction_def FeatureLocalConstruct_def FunctionConstruct_def
        example_message limits_def)
  have "bound_write example_header ''A'' ?n 1"
    using only_bound_clients_change_data [OF p ch] by (auto simp: example_datagram_def)
  then show ?thesis using p ch by blast
qed

section \<open>Datagrams without a source\<close>

text \<open>
  C37. A datagram without a source address has no outcome: \<^verbatim>\<open>addressSource\<close> is read without a check. Such a datagram is not
  valid, but nothing asks whether it is. It takes a connected device that knows an address of a local feature.
\<close>

theorem datagram_without_source_crashes:
  assumes "header d = Some h" "payload d = Some (Some cmd # cmds)" "cmd_classifier h \<noteq> None" "src_addr h = None"
    and "LocalGetFeatureWithAddress (local_device (world n)) (dest_addr h) \<noteq> None" "GetRemoteDeviceWithSki n ski \<noteq> None"
  shows "ProcessDatagram z m app (Some d) ski n = None \<and> \<not> DatagramIsValid (Some d)"
proof -
  have "ProcessCmd z m app h cmd ski n = None"
    using assms(4-6) by (auto simp: ProcessCmd_def RemoteGetFeatureWithAddress_def)
  then show ?thesis
    using assms(1-4) by (auto simp: ProcessDatagram_def DatagramIsValid_def DatagramHeaderIsValid_def FeatureAddressIsValid_def)
qed

theorem datagram_without_source_crashes_witness:
  "ProcessDatagram False load_control_model (\<lambda>_ _ _. [])
    (Some \<lparr>header = Some (example_header\<lparr>src_addr := None\<rparr>), payload = Some [Some CmdCreateEmpty]\<rparr>) ''A'' (example_node []) = None"
proof -
  have "LocalGetFeatureWithAddress (local_device (world (example_node []))) (dest_addr (example_header\<lparr>src_addr := None\<rparr>)) \<noteq> None"
    using example_message(1) by simp
  from datagram_without_source_crashes [OF _ _ _ _ this, of _ CmdCreateEmpty "[]" "''A''"] example_message(2)
  show ?thesis by (simp add: example_header_def)
qed

section \<open>Devices that leave\<close>

text \<open>The features of a remote device have the address of their entity.\<close>

definition addresses_ok :: "Device \<Rightarrow> bool" where
  "addresses_ok d \<longleftrightarrow>
     list_all (\<lambda>e. list_all (\<lambda>x. entity_address e =
       \<lparr>ea_device = device (feature_address (snd x)), ea_entity = entity (feature_address (snd x))\<rparr>) (entity_features e)) (device_entities d)"

lemma live_without_device:
  assumes "link_live w l" "\<forall>e \<in> set (device_entities d). \<not> entity_links w e l" "addresses_ok d"
  shows "link_live (w\<lparr>remote_devices := remove1 d (remote_devices w)\<rparr>) l"
proof -
  obtain d' f where at: "remote_feature_at w (client_feature l) = Some (d', f)" using assms(1) by (auto simp: link_live_def)
  then obtain p where p: "client_feature l = Some p" "d' \<in> set (remote_devices w)" "(p, f) \<in> set (device_features d')"
    by (auto simp: remote_feature_at_def find_Some_iff bind_eq_Some_conv dest!: map_of_SomeD)
  have "d' \<noteq> d"
  proof
    assume "d' = d"
    then obtain e where e: "e \<in> set (device_entities d)" "(p, f) \<in> set (entity_features e)" using p(3) by (auto simp: device_features_def)
    have "client_of w l = feature_address f" using at by (simp add: client_of_def FeatureLinkGetClientAddr_def)
    then have "entity_links w e l" using assms(3) e by (auto simp: addresses_ok_def list_all_iff entity_links_def)
    then show False using assms(2) e(1) by blast
  qed
  then have "d' \<in> set (remove1 d (remote_devices w))" using p(2) by (simp add: in_set_remove1)
  then have "remote_feature_at (w\<lparr>remote_devices := remove1 d (remote_devices w)\<rparr>) (Some p) \<noteq> None"
    using p(3) by (intro remote_feature_live) simp_all
  then show ?thesis using assms(1) p(1) by (simp add: link_live_def local_feature_at_def)
qed

lemma container_without_device:
  assumes "container_ok w c" "\<forall>l \<in> set (vector_list c). \<forall>e \<in> set (device_entities d). \<not> entity_links w e l" "addresses_ok d"
  shows "container_ok (w\<lparr>remote_devices := remove1 d (remote_devices w)\<rparr>) c"
  using assms live_without_device by (auto simp: container_ok_def list_all_iff)

lemma clean_caches:
  fixes fs :: "(ptr \<times> Feature) list"
  assumes "distinct (map fst fs)" "x \<in> set fs" "distinct (fl_subscriptions (locals n (fst x)))" "distinct (fl_bindings (locals n (fst x)))"
  shows "(\<forall>a \<in> set (fl_subscriptions (locals (foldl (\<lambda>n (p, f). FeatureLocalCleanRemoteDeviceCaches p (Some d) n) n fs) (fst x))) \<union>
      set (fl_bindings (locals (foldl (\<lambda>n (p, f). FeatureLocalCleanRemoteDeviceCaches p (Some d) n) n fs) (fst x))). device a \<noteq> Some d)"
proof -
  have other: "locals (foldl (\<lambda>n (p, f). FeatureLocalCleanRemoteDeviceCaches p (Some d) n) n fs) q = locals n q"
    if "q \<notin> fst ` set fs" for q n and fs :: "(ptr \<times> Feature) list"
    using that by (induction fs arbitrary: n) (auto simp: FeatureLocalCleanRemoteDeviceCaches_def)
  show ?thesis
    using assms
  proof (induction fs arbitrary: n)
    case (Cons y fs)
    let ?n = "FeatureLocalCleanRemoteDeviceCaches (fst y) (Some d) n"
    show ?case
    proof (cases "x = y")
      case True
      then have "locals (foldl (\<lambda>n (p, f). FeatureLocalCleanRemoteDeviceCaches p (Some d) n) ?n fs) (fst x) = locals ?n (fst x)"
        using Cons.prems(1) by (intro other) auto
      then show ?thesis
        using Cons.prems(3,4) True clean_container_filter
        by (auto simp: case_prod_unfold FeatureLocalCleanRemoteDeviceCaches_def)
    next
      case False
      then have x: "x \<in> set fs" "fst x \<noteq> fst y" using Cons.prems(1,2) by (auto simp: rev_image_eqI)
      then have "locals ?n (fst x) = locals n (fst x)" by (simp add: FeatureLocalCleanRemoteDeviceCaches_def)
      then show ?thesis using Cons.IH [of ?n] Cons.prems x(1) by (simp add: case_prod_unfold)
    qed
  qed simp
qed


lemma example_no_addresses: "addresses_ok (example_device nm p r)"
  by (simp add: addresses_ok_def example_device_def)


end
