(* ===== verification/Spine_Discovery_Laws.thy ===== *)
theory Spine_Discovery_Laws
  imports Spine_Device_Laws
begin

text \<open>
  Detailed discovery as a round trip: what a device says about itself, processed by another device, is the
  device again. And what a second message of this kind does.
\<close>

section \<open>The structures are read as they were written\<close>

lemma value_opt_inv: "(\<And>y. x = Some y \<Longrightarrow> f y \<noteq> Null \<and> g (f y) = Some y) \<Longrightarrow> value_opt g (opt_value f x) = Some x"
  by (cases x) (simp_all add: value_opt_def opt_value_def)

lemma those_map_inv: "(\<And>x. x \<in> set xs \<Longrightarrow> g (f x) = Some (h x)) \<Longrightarrow> those (map g (map f xs)) = Some (map h xs)"
  by (induction xs) auto

lemma value_list_inv: "(\<And>x. x \<in> set xs \<Longrightarrow> g (f x) = Some (h x)) \<Longrightarrow> value_list g (Lst (map f xs)) = Some (map h xs)"
  unfolding value_list_def by (simp only: EebusData.case those_map_inv)

lemma value_tag_inv [simp]: "value_tag (tag_value b) = Some b" "tag_value b \<noteq> Null"
  by (simp_all add: value_tag_def tag_value_def)

lemma value_operations_inv [simp]: "value_operations (operations_value p) = Some p" "operations_value p \<noteq> Null"
  by (cases p; simp add: value_operations_def operations_value_def value_opt_inv)+

lemma value_property_inv [simp]: "value_function_property (function_property_value p) = Some p"
  by (cases p) (simp add: value_function_property_def function_property_value_def value_opt_inv)

lemma value_role_inv [simp]: "value_role (number_value (map_option role_number r)) = Some r"
  by (cases r) (auto simp: value_role_def role_number_def number_role_def split: RoleType.split)

lemma value_device_inv [simp]: "value_device_description (device_description_value d) = Some d" "device_description_value d \<noteq> Null"
  by (cases d; simp add: value_device_description_def device_description_value_def value_opt_inv)+

lemma value_entity_address_inv [simp]: "value_entity_address (entity_address_value a) = Some a"
  by (cases a) (simp_all add: value_entity_address_def entity_address_value_def)

lemma value_entity_inv' [simp]: "value_entity_description (entity_description_value d) = Some d" "entity_description_value d \<noteq> Null"
  by (cases d; simp add: value_entity_description_def entity_description_value_def)+

lemma value_feature_inv [simp]: "value_feature_description (feature_description_value d) = Some d" "feature_description_value d \<noteq> Null"
proof -
  show "value_feature_description (feature_description_value d) = Some d"
    using value_list_inv [of "fd_supported_function d" value_function_property function_property_value id]
    by (cases d) (simp add: value_feature_description_def feature_description_value_def)
qed (simp add: feature_description_value_def)

text \<open>A whole discovery message; the versions are not read.\<close>

lemma value_discovery_inv: "value_discovery (discovery_value d) = Some (d\<lparr>specification_version_list := []\<rparr>)"
proof -
  have d: "value_opt (value_description value_device_description)
      (opt_value (\<lambda>i. Seq [opt_value device_description_value i]) (device_information d)) = Some (device_information d)"
    by (intro value_opt_inv) (simp add: value_description_def value_opt_inv)
  have e: "value_list (value_description value_entity_description) (Lst (map (\<lambda>i. Seq [opt_value entity_description_value i])
      (entity_information d))) = Some (map id (entity_information d))"
    by (intro value_list_inv) (simp add: value_description_def value_opt_inv)
  have f: "value_list (value_description value_feature_description) (Lst (map (\<lambda>i. Seq [opt_value feature_description_value i])
      (feature_information d))) = Some (map id (feature_information d))"
    by (intro value_list_inv) (simp add: value_description_def value_opt_inv)
  show ?thesis using d e f by (cases d) (simp add: value_discovery_def discovery_value_def)
qed

section \<open>Operations of the functions\<close>

text \<open>A partial operation is one that is possible.\<close>

definition operations_normal :: "Operations \<Rightarrow> bool" where
  "operations_normal p \<longleftrightarrow> (op_read_partial p \<longrightarrow> op_read p) \<and> (op_write_partial p \<longrightarrow> op_write p)"

definition function_view :: "Function \<Rightarrow> nat \<times> Operations option" where
  "function_view f = (ftype f, foperations f)"

text \<open>The functions of a feature as it is announced: the functions of its type, in their order.\<close>

definition announced_functions :: "nat \<Rightarrow> Function list \<Rightarrow> bool" where
  "announced_functions t fs \<longleftrightarrow>
     map ftype fs = (case GetFeatureFunctions t of None \<Rightarrow> [] | Some ts \<Rightarrow> ts) \<and> distinct (map ftype fs) \<and>
     list_all (\<lambda>f. ftype f < 2 ^ 32 \<and> (case foperations f of None \<Rightarrow> True | Some p \<Rightarrow> operations_normal p)) fs"

lemma supported_functions:
  "fd_supported_function (AddSupportedFunctions fs d) =
    map (\<lambda>f. FunctionPropertyCreate (ftype f) (PossibleOperationsCreate (op_read (the (foperations f))) (op_read_partial (the (foperations f)))
      (op_write (the (foperations f))) (op_write_partial (the (foperations f))))) (filter (\<lambda>f. foperations f \<noteq> None) fs)"
  unfolding AddSupportedFunctions_def by (induction fs) (auto simp: List.map_filter_simps)

lemma set_operations_at:
  assumes "distinct (map ftype fs)" "g \<in> set fs" "foperations g = None" "ftype g = t"
  shows "map function_view (SetOperations t ops fs) =
    map (\<lambda>f. if ftype f = t then (t, Some (OperationsCreate (po_read ops \<noteq> None) (po_read ops = Some True)
      (po_write ops \<noteq> None) (po_write ops = Some True))) else function_view f) fs"
proof -
  have "FeatureGetFunction fs t = Some g" using assms(1,2,4)
    by (induction fs) (auto simp: FeatureGetFunction_def)
  moreover have "map function_view (set_function h fs) = map (\<lambda>f. if ftype f = ftype h then function_view h else function_view f) fs" for h
    using assms(1) unfolding set_function_def by (induction fs) (auto simp: image_iff intro!: map_cong)
  ultimately show ?thesis using assms(3,4) by (auto simp: SetOperations_def FunctionSetOperations_def function_view_def)
qed

text \<open>The property of a function that has operations, and what setting it does to the views.\<close>

definition announce :: "Function \<Rightarrow> FunctionPropertyType" where
  "announce f = (let p = the (foperations f) in
     FunctionPropertyCreate (ftype f) (PossibleOperationsCreate (op_read p) (op_read_partial p) (op_write p) (op_write_partial p)))"

definition set_view :: "(nat \<times> Operations option) list \<Rightarrow> Function \<Rightarrow> (nat \<times> Operations option) list" where
  "set_view vs x = map (\<lambda>v. if fst v = ftype x then function_view x else v) vs"

lemma set_view_fold:
  "distinct (map ftype xs) \<Longrightarrow> foldl set_view vs xs =
    map (\<lambda>v. case List.find (\<lambda>x. ftype x = fst v) xs of None \<Rightarrow> v | Some x \<Rightarrow> function_view x) vs"
proof (induction xs arbitrary: vs)
  case (Cons x xs)
  have "List.find (\<lambda>y. ftype y = ftype x) xs = None" using Cons.prems by (auto simp: find_None_iff image_iff)
  then show ?case using Cons by (auto simp: set_view_def function_view_def split: option.splits)
qed simp

lemma set_announced:
  assumes "distinct (map ftype gs)" "g \<in> set gs" "ftype g = ftype x" "foperations g = None"
    and "foperations x = Some p" "operations_normal p" "ftype x < 2 ^ 32"
  shows "map function_view (FeatureRemoteSetFunctionOperations [announce x] gs) = set_view (map function_view gs) x"
proof -
  have "unat (of_nat (ftype x) :: u32) = ftype x" using assms(7) by (simp add: unat_of_nat take_bit_eq_mod)
  moreover have "OperationsCreate (op_read p) (op_read p \<and> op_read_partial p) (op_write p) (op_write p \<and> op_write_partial p) = p"
    using assms(6) by (cases p) (auto simp: OperationsCreate_def operations_normal_def)
  ultimately show ?thesis
    using set_operations_at [OF assms(1,2,4,3), of "PossibleOperationsCreate (op_read p) (op_read_partial p) (op_write p) (op_write_partial p)"] assms(5)
    by (auto simp: FeatureRemoteSetFunctionOperations_def announce_def FunctionPropertyCreate_def PossibleOperationsCreate_def
        set_view_def function_view_def comp_def)
qed

lemma set_all_announced:
  assumes "distinct (map ftype gs)" "distinct (map ftype xs)"
    and "\<And>x. x \<in> set xs \<Longrightarrow> ftype x < 2 ^ 32 \<and> (\<exists>p. foperations x = Some p \<and> operations_normal p) \<and>
      (\<exists>g \<in> set gs. ftype g = ftype x \<and> foperations g = None)"
  shows "map function_view (FeatureRemoteSetFunctionOperations (map announce xs) gs) = foldl set_view (map function_view gs) xs"
  using assms
proof (induction xs arbitrary: gs)
  case (Cons x xs)
  let ?gs = "FeatureRemoteSetFunctionOperations [announce x] gs"
  obtain g p where g: "g \<in> set gs" "ftype g = ftype x" "foperations g = None" "foperations x = Some p" "operations_normal p"
      "ftype x < 2 ^ 32" using Cons.prems(3) [of x] by auto
  have v: "map function_view ?gs = set_view (map function_view gs) x"
    by (rule set_announced [OF Cons.prems(1) g])
  have ty: "map ftype fs = map fst (map function_view fs)" for fs by (simp add: function_view_def comp_def)
  have "map fst (set_view vs x) = map fst vs" for vs by (auto simp: set_view_def function_view_def)
  then have ty: "map ftype ?gs = map ftype gs" unfolding ty v .
  have "\<exists>h \<in> set ?gs. ftype h = ftype y \<and> foperations h = None" if y: "y \<in> set xs" for y
  proof -
    obtain h where h: "h \<in> set gs" "ftype h = ftype y" "foperations h = None" using Cons.prems(3) [of y] y by auto
    have "ftype y \<noteq> ftype x" using Cons.prems(2) y by (auto simp: image_iff)
    then have "function_view h \<in> set (set_view (map function_view gs) x)"
      using h by (auto simp: set_view_def function_view_def image_iff intro!: bexI [of _ h])
    then have "function_view h \<in> function_view ` set ?gs" using v by (metis set_map)
    then show ?thesis using h by (auto simp: function_view_def)
  qed
  then have "map function_view (FeatureRemoteSetFunctionOperations (map announce xs) ?gs) = foldl set_view (map function_view ?gs) xs"
    using Cons.prems ty by (intro Cons.IH) auto
  then show ?case using v by (simp add: FeatureRemoteSetFunctionOperations_def)
qed (simp add: FeatureRemoteSetFunctionOperations_def)

lemma operations_announced:
  assumes "announced_functions t fs"
  shows "map function_view (FeatureRemoteSetFunctionOperations (fd_supported_function (AddSupportedFunctions fs d)) (FeatureConstruct_functions m t)) =
    map function_view fs"
proof -
  let ?xs = "filter (\<lambda>f. foperations f \<noteq> None) fs" and ?gs = "FeatureConstruct_functions m t"
  have ps: "fd_supported_function (AddSupportedFunctions fs d) = map announce ?xs"
    by (simp add: supported_functions announce_def Let_def)
  have gs: "map function_view ?gs = map (\<lambda>f. (ftype f, None)) fs" "map ftype ?gs = map ftype fs"
    using assms unfolding announced_functions_def FeatureConstruct_functions_def
    by (auto simp: function_view_def FunctionConstruct_def comp_def map_equality_iff split: option.splits)
  have "map function_view (FeatureRemoteSetFunctionOperations (map announce ?xs) ?gs) = foldl set_view (map function_view ?gs) ?xs"
  proof (rule set_all_announced)
    fix x assume x: "x \<in> set ?xs"
    have "(ftype x, None) \<in> set (map function_view ?gs)" using x unfolding gs(1) by auto
    then show "ftype x < 2 ^ 32 \<and> (\<exists>p. foperations x = Some p \<and> operations_normal p) \<and>
      (\<exists>g \<in> set ?gs. ftype g = ftype x \<and> foperations g = None)"
      using x assms by (auto simp: announced_functions_def list_all_iff function_view_def split: option.splits)
  next
    have "distinct (map ftype fs)" using assms unfolding announced_functions_def by blast
    then show "distinct (map ftype ?gs)" "distinct (map ftype ?xs)" unfolding gs(2) by (simp_all add: distinct_map_filter)
  qed
  also have "\<dots> = map function_view fs"
  proof -
    have d: "distinct (map ftype fs)" using assms unfolding announced_functions_def by blast
    have "(case List.find (\<lambda>x. ftype x = ftype f) ?xs of None \<Rightarrow> (ftype f, None) | Some x \<Rightarrow> function_view x) = function_view f"
      if f: "f \<in> set fs" for f
    proof -
      have same: "x = f" if "x \<in> set fs" "ftype x = ftype f" for x
        using d f that by (auto simp: distinct_map inj_on_def)
      show ?thesis
      proof (cases "List.find (\<lambda>x. ftype x = ftype f) ?xs")
        case None
        then have "foperations f = None" using f by (auto simp: find_None_iff)
        then show ?thesis unfolding None by (simp add: function_view_def)
      next
        case (Some x)
        then obtain i where i: "i < length ?xs" "x = ?xs ! i" "ftype x = ftype f" unfolding find_Some_iff by metis
        then have "x \<in> set ?xs" using nth_mem by blast
        then have "x = f" using i(3) same by auto
        then show ?thesis unfolding Some by simp
      qed
    qed
    then show ?thesis
      using d by (simp add: set_view_fold distinct_map_filter gs(1))
  qed
  finally show ?thesis unfolding ps .
qed

section \<open>The device is reproduced\<close>

text \<open>What a device is, without the pointers: addresses, types, and the functions of every feature with their operations.\<close>

definition feature_view :: "(ptr \<Rightarrow> Function list) \<Rightarrow> ptr \<times> Feature \<Rightarrow> Feature \<times> (nat \<times> Operations option) list" where
  "feature_view fs x = (snd x, map function_view (fs (fst x)))"

definition entity_view ::
    "(ptr \<Rightarrow> Function list) \<Rightarrow> Entity \<Rightarrow> EntityAddressType \<times> nat \<times> (Feature \<times> (nat \<times> Operations option) list) list" where
  "entity_view fs e = (entity_address e, entity_type e, map (feature_view fs) (entity_features e))"

definition local_functions :: "Node \<Rightarrow> ptr \<Rightarrow> Function list" where
  "local_functions n p = fl_functions (locals n p)"

text \<open>A local device as it is built: its addresses are complete, and its first entity has node management.\<close>

definition feature_describable :: "Node \<Rightarrow> ptr \<times> Feature \<Rightarrow> bool" where
  "feature_describable n x \<longleftrightarrow> device (feature_address (snd x)) = device_address (local_device (world n)) \<and>
     feature (feature_address (snd x)) \<noteq> None \<and> feature_type (snd x) < 2 ^ 32 \<and>
     announced_functions (feature_type (snd x)) (local_functions n (fst x))"

definition entity_describable :: "Node \<Rightarrow> Entity \<Rightarrow> bool" where
  "entity_describable n e \<longleftrightarrow> ea_device (entity_address e) = device_address (local_device (world n)) \<and>
     (case ea_entity (entity_address e) of None \<Rightarrow> False | Some ids \<Rightarrow> ids \<noteq> [] \<and> None \<notin> set ids) \<and> entity_type e < 2 ^ 32 \<and>
     list_all (\<lambda>x. feature_describable n x \<and> entity (feature_address (snd x)) = ea_entity (entity_address e)) (entity_features e)"

definition entity_ids :: "Entity \<Rightarrow> u32 option list option" where
  "entity_ids e = ea_entity (entity_address e)"

definition describable :: "Node \<Rightarrow> bool" where
  "describable n \<longleftrightarrow>
     (let d = local_device (world n) in
      device_address d \<noteq> None \<and> device_feature_set d \<noteq> None \<and> list_all (entity_describable n) (device_entities d) \<and>
      distinct (map entity_ids (device_entities d)) \<and>
      (case device_entities d of
         [] \<Rightarrow> False
       | e # _ \<Rightarrow>
           entity_ids e = Some [Some 0] \<and> entity_type e = kEntityTypeTypeDeviceInformation \<and>
           list_ex (\<lambda>x. feature (feature_address (snd x)) = Some 0) (entity_features e)))"

lemma match_ids: "EntityAddressMatchIds a ids \<longleftrightarrow> ea_entity a = ids \<and> ids \<noteq> None \<and> ids \<noteq> Some []"
  by (auto simp: EntityAddressMatchIds_def)

lemma create_feature_again:
  assumes "feature_describable L x" "entity (feature_address (snd x)) = ea_entity (entity_address e)"
    and "ea_device (entity_address e) = device_address (local_device (world L))"
    and "ea_entity (entity_address e) = Some ids" "None \<notin> set ids"
  shows "\<exists>fs. FeatureRemoteCreateWithInfo m e (FeatureLocalCreateInformation x L) = Some (snd x, fs) \<and>
    map function_view fs = map function_view (local_functions L (fst x))"
proof -
  obtain i where i: "feature (feature_address (snd x)) = Some i" using assms(1) by (auto simp: feature_describable_def)
  have addr: "feature_address (snd x) = \<lparr>device = ea_device (entity_address e), entity = Some ids, feature = Some i\<rparr>"
    using assms(1-4) i by (simp add: feature_describable_def)
  have t: "unat (of_nat (feature_type (snd x)) :: u32) = feature_type (snd x)"
    using assms(1) by (simp add: feature_describable_def unat_of_nat take_bit_eq_mod)
  let ?ds = "NodeManagementDetailedDiscoveryFeatureInformationCreate (feature_address (snd x)) (feature_type (snd x))
    (feature_role (snd x)) (feature_desc (snd x))"
  have "FeatureRemoteCreateWithInfo m e (AddSupportedFunctions fs ?ds) =
      Some (snd x, FeatureRemoteSetFunctionOperations (fd_supported_function (AddSupportedFunctions fs ?ds))
        (FeatureConstruct_functions m (feature_type (snd x))))" for fs
    using assms(4,5) addr t
    by (simp add: FeatureRemoteCreateWithInfo_def AddSupportedFunctions_def
        NodeManagementDetailedDiscoveryFeatureInformationCreate_def FeatureAddressCreate_def)
  then show ?thesis
    using operations_announced assms(1)
    by (simp add: FeatureLocalCreateInformation_def local_functions_def feature_describable_def)
qed

definition below_next :: "Node \<Rightarrow> Entity \<Rightarrow> bool" where
  "below_next n e \<longleftrightarrow> (\<forall>x \<in> set (entity_features e). fst x < next_ptr n)"

definition extends :: "Node \<Rightarrow> Node \<Rightarrow> bool" where
  "extends n n' \<longleftrightarrow> world n' = world n \<and> next_ptr n \<le> next_ptr n' \<and> (\<forall>p < next_ptr n. remotes n' p = remotes n p)"

lemma extends_trans: "extends a b \<Longrightarrow> extends b c \<Longrightarrow> extends a c"
  by (auto simp: extends_def)

lemma extends_view: "extends n n' \<Longrightarrow> below_next n e \<Longrightarrow> entity_view (remotes n') e = entity_view (remotes n) e \<and> below_next n' e"
  by (fastforce simp: extends_def below_next_def entity_view_def feature_view_def)

lemma add_features_again:
  assumes "list_all (feature_describable L) xs" "below_next n e"
    and "ea_device (entity_address e) = device_address (local_device (world L))"
    and "ea_entity (entity_address e) = Some ids" "None \<notin> set ids" "ids \<noteq> []"
  shows "\<exists>e' n'. EntityRemoteAddFeaturesWithInfo m (map (\<lambda>x. Some (FeatureLocalCreateInformation x L)) xs) e n = Some (e', n') \<and>
    entity_address e' = entity_address e \<and> entity_type e' = entity_type e \<and> extends n n' \<and> below_next n' e' \<and>
    map (feature_view (remotes n')) (entity_features e') = map (feature_view (remotes n)) (entity_features e) @
      map (feature_view (local_functions L)) (filter (\<lambda>x. entity (feature_address (snd x)) = Some ids) xs)"
  using assms
proof (induction xs arbitrary: e n)
  case Nil
  then show ?case by (simp add: extends_def)
next
  case (Cons x xs)
  have fa: "fd_feature_address (FeatureLocalCreateInformation x L) = Some ((feature_address (snd x))\<lparr>device := None\<rparr>)"
    by (simp add: FeatureLocalCreateInformation_def AddSupportedFunctions_def NodeManagementDetailedDiscoveryFeatureInformationCreate_def)
  show ?case
  proof (cases "entity (feature_address (snd x)) = Some ids")
    case False
    then have "\<not> EntityIdsMatch (entity_address e) (fd_feature_address (FeatureLocalCreateInformation x L))"
      using Cons.prems(4) by (auto simp: fa EntityIdsMatch_def match_ids)
    then show ?thesis using Cons.IH [of n e] Cons.prems False by simp
  next
    case True
    then have match: "EntityIdsMatch (entity_address e) (fd_feature_address (FeatureLocalCreateInformation x L))"
      using Cons.prems(4,6) by (simp add: fa EntityIdsMatch_def match_ids)
    obtain fs where fs: "FeatureRemoteCreateWithInfo m e (FeatureLocalCreateInformation x L) = Some (snd x, fs)"
        "map function_view fs = map function_view (local_functions L (fst x))"
      using create_feature_again [of L x e ids m] Cons.prems True by auto
    define e1 where "e1 = e\<lparr>entity_features := entity_features e @ [(next_ptr n, snd x)]\<rparr>"
    define n1 where "n1 = n\<lparr>remotes := (remotes n)(next_ptr n := fs), use_case_prev := (use_case_prev n)(next_ptr n := None),
      next_ptr := next_ptr n + 1\<rparr>"
    have e1: "below_next n1 e1" "entity_address e1 = entity_address e" "entity_type e1 = entity_type e" "extends n n1"
      using Cons.prems(2) by (auto simp: below_next_def e1_def n1_def extends_def)
    have "map (feature_view (remotes n1)) (entity_features e) = map (feature_view (remotes n)) (entity_features e)"
      using Cons.prems(2) by (auto simp: below_next_def feature_view_def n1_def)
    then have v: "map (feature_view (remotes n1)) (entity_features e1) =
        map (feature_view (remotes n)) (entity_features e) @ [feature_view (local_functions L) x]"
      using fs(2) by (simp add: e1_def n1_def feature_view_def)
    obtain e' n' where e': "EntityRemoteAddFeaturesWithInfo m (map (\<lambda>x. Some (FeatureLocalCreateInformation x L)) xs) e1 n1 = Some (e', n')"
        "entity_address e' = entity_address e1" "entity_type e' = entity_type e1" "extends n1 n'" "below_next n' e'"
        "map (feature_view (remotes n')) (entity_features e') = map (feature_view (remotes n1)) (entity_features e1) @
          map (feature_view (local_functions L)) (filter (\<lambda>x. entity (feature_address (snd x)) = Some ids) xs)"
      using Cons.IH [of n1 e1] Cons.prems e1 by auto
    have "EntityRemoteAddFeaturesWithInfo m (map (\<lambda>x. Some (FeatureLocalCreateInformation x L)) (x # xs)) e n = Some (e', n')"
      using match fs(1) e'(1) by (simp add: e1_def n1_def)
    then show ?thesis
      using e' e1 v True extends_trans [OF e1(4) e'(4)] by (intro exI [of _ e'] exI [of _ n']) simp
  qed
qed

lemma filter_own:
  assumes "distinct (map entity_ids es)" "x \<in> set es"
    and "\<forall>e \<in> set es. \<forall>f \<in> set (entity_features e). entity (feature_address (snd f)) = entity_ids e"
  shows "filter (\<lambda>f. entity (feature_address (snd f)) = entity_ids x) (concat (map entity_features es)) = entity_features x"
  using assms
proof (induction es)
  case (Cons e es)
  have own: "filter (\<lambda>f. entity (feature_address (snd f)) = entity_ids x) (entity_features y) =
      (if entity_ids y = entity_ids x then entity_features y else [])" if "y \<in> set (e # es)" for y
    using bspec [OF Cons.prems(3) that] by (auto simp: filter_id_conv filter_empty_conv)
  show ?case
  proof (cases "x = e")
    case True
    then have "filter (\<lambda>f. entity (feature_address (snd f)) = entity_ids x) (concat (map entity_features es)) = []"
      using Cons.prems by (fastforce simp: filter_empty_conv image_iff)
    then show ?thesis using own [of e] True by simp
  next
    case False
    then have "entity_ids e \<noteq> entity_ids x" using Cons.prems by (auto simp: image_iff)
    then show ?thesis using own [of e] Cons False by simp
  qed
qed simp

text \<open>The message of a device.\<close>

definition discovery_of :: "Node \<Rightarrow> NodeManagementDetailedDiscoveryDataType" where
  "discovery_of L = AddInfo L (NodeManagementDetailedDiscoveryDataCreate [])"

lemma discovery_of_simps:
  "entity_information (discovery_of L) = map (\<lambda>e. Some (EntityLocalCreateInformation e)) (device_entities (local_device (world L)))"
  "feature_information (discovery_of L) =
    map (\<lambda>f. Some (FeatureLocalCreateInformation f L)) (concat (map entity_features (device_entities (local_device (world L)))))"
  "device_information (discovery_of L) = Some (Some (DeviceLocalCreateInformation L))"
  "DeviceInfoGetDeviceAddress (device_information (discovery_of L)) = device_address (local_device (world L))"
  by (simp_all add: discovery_of_def AddInfo_def AddFeatureInfo_def AddEntityInfo_def NodeManagementDetailedDiscoveryDataCreate_def
      DeviceInfoGetDeviceAddress_def DeviceLocalCreateInformation_def NodeManagementDetailedDiscoveryDeviceInformationCreate_def Let_def)

lemma entity_again:
  assumes "describable L" "x \<in> set (device_entities (local_device (world L)))"
    and "entity_address e = entity_address x" "entity_type e = entity_type x" "entity_features e = []"
  shows "\<exists>e' n'. EntityRemoteAddFeaturesWithInfo m (feature_information (discovery_of L)) e n = Some (e', n') \<and>
    entity_view (remotes n') e' = entity_view (local_functions L) x \<and> extends n n' \<and> below_next n' e'"
proof -
  let ?es = "device_entities (local_device (world L))"
  have d: "list_all (entity_describable L) ?es" "distinct (map entity_ids ?es)" using assms(1) by (simp_all add: describable_def Let_def)
  then have x: "entity_describable L x" using assms(2) by (simp add: list_all_iff)
  then obtain ids where ids: "ea_entity (entity_address x) = Some ids" "ids \<noteq> []" "None \<notin> set ids"
    by (auto simp: entity_describable_def split: option.splits)
  have own: "filter (\<lambda>f. entity (feature_address (snd f)) = Some ids) (concat (map entity_features ?es)) = entity_features x"
    using filter_own [OF d(2) assms(2)] d(1) ids(1) by (auto simp: list_all_iff entity_describable_def entity_ids_def)
  have "list_all (feature_describable L) (concat (map entity_features ?es))"
    using d(1) by (auto simp: list_all_iff entity_describable_def)
  from add_features_again [OF this, of n e ids m] x assms(3-5) ids own
  show ?thesis
    by (auto simp: discovery_of_simps below_next_def entity_describable_def entity_view_def)
qed

lemma set_entity_last:
  assumes "\<forall>x \<in> set (device_entities dr). entity_ids x \<noteq> ids" "entity_ids e = ids" "ids \<noteq> None" "ids \<noteq> Some []"
  shows "set_entity ids e' (dr\<lparr>device_entities := device_entities dr @ [e]\<rparr>) = dr\<lparr>device_entities := device_entities dr @ [e']\<rparr>"
proof -
  have "update_found (\<lambda>x. Some (EntityAddressMatchIds (entity_address x) ids)) (\<lambda>_. e') (xs @ [e]) = xs @ [e']"
    if "\<forall>x \<in> set xs. entity_ids x \<noteq> ids" for xs
    using that assms(2-4) by (induction xs) (auto simp: match_ids entity_ids_def)
  then show ?thesis using assms(1) by (simp add: set_entity_def)
qed

lemma description_of_entity:
  "ed_entity_address (EntityLocalCreateInformation x) = Some ((entity_address x)\<lparr>ea_device := None\<rparr>)"
  "ed_entity_type (EntityLocalCreateInformation x) = Some (of_nat (entity_type x))"
  "ed_description (EntityLocalCreateInformation x) = None"
  by (simp_all add: EntityLocalCreateInformation_def NodeManagementDetailedDiscoveryEntityInformationCreate_def)

definition views_upto :: "Node \<Rightarrow> Node \<Rightarrow> Device \<Rightarrow> Entity list \<Rightarrow> bool" where
  "views_upto L n dr es \<longleftrightarrow> map (entity_view (remotes n)) (device_entities dr) = map (entity_view (local_functions L)) es \<and>
     (\<forall>e \<in> set (device_entities dr). below_next n e)"

lemma views_ids: "views_upto L n dr es \<Longrightarrow> map entity_ids (device_entities dr) = map entity_ids es"
proof -
  assume "views_upto L n dr es"
  then have "map fst (map (entity_view (remotes n)) (device_entities dr)) = map fst (map (entity_view (local_functions L)) es)"
    by (simp add: views_upto_def)
  then have "map entity_address (device_entities dr) = map entity_address es" by (simp add: entity_view_def comp_def)
  then have "map ea_entity (map entity_address (device_entities dr)) = map ea_entity (map entity_address es)" by simp
  then show ?thesis by (simp only: entity_ids_def [abs_def] map_map comp_def)
qed

lemma entities_again:
  assumes "describable L" "device_entities (local_device (world L)) = es @ xs" "views_upto L n dr es"
    and "device_address dr = device_address (local_device (world L))"
  shows "\<exists>new' dr' n'. add_entities m True (discovery_of L) (map (\<lambda>e. Some (EntityLocalCreateInformation e)) xs) dr new n =
      Some (Some new', dr', n') \<and>
    views_upto L n' dr' (es @ xs) \<and> extends n n' \<and> dr' = dr\<lparr>device_entities := device_entities dr'\<rparr>"
  using assms
proof (induction xs arbitrary: es n dr new)
  case Nil
  then show ?case by (simp add: extends_def)
next
  case (Cons x xs)
  let ?a = "device_address (local_device (world L))"
  have x: "x \<in> set (device_entities (local_device (world L)))" using Cons.prems(2) by simp
  have d: "entity_describable L x" "distinct (map entity_ids (es @ x # xs))" "?a \<noteq> None"
    using Cons.prems(1,2) x by (simp_all add: describable_def Let_def list_all_iff)
  obtain ids where ids: "ea_entity (entity_address x) = Some ids" "ids \<noteq> []" "None \<notin> set ids" "ea_device (entity_address x) = ?a"
      "entity_type x < 2 ^ 32"
    using d(1) by (auto simp: entity_describable_def split: option.splits)
  have fresh: "\<forall>y \<in> set (device_entities dr). entity_ids y \<noteq> Some ids"
  proof -
    have "set (map entity_ids (device_entities dr)) = set (map entity_ids es)" using views_ids [OF Cons.prems(3)] by simp
    then show ?thesis using d(2) ids(1) by (auto simp: entity_ids_def image_iff set_eq_iff)
  qed
  then have none: "DeviceGetEntity dr (Some ids) = None"
    by (auto simp: DeviceGetEntity_def find_None_iff match_ids entity_ids_def)
  have t: "unat (of_nat (entity_type x) :: u32) = entity_type x" using ids(5) by (simp add: unat_of_nat take_bit_eq_mod)
  have some: "map Some (map the ids) = ids" using ids(3) by (induction ids) auto
  obtain e0 where e0: "AddEntityWithAddressAndType dr ((entity_address x)\<lparr>ea_device := None\<rparr>) (entity_type x) = Some e0"
      "entity_address e0 = entity_address x" "entity_type e0 = entity_type x"
  proof -
    have "entity_address x = EntityAddressCreate ?a (map the ids)"
      using ids some by (cases "entity_address x") (simp add: EntityAddressCreate_def)
    then show thesis
      using that ids Cons.prems(4) by (cases ids) (auto simp: AddEntityWithAddressAndType_def EntityRemoteCreate_def)
  qed
  obtain a where a: "?a = Some a" using d(3) by auto
  let ?e1 = "e0\<lparr>entity_desc := None, entity_features := []\<rparr>"
  obtain e' n1 where e': "EntityRemoteAddFeaturesWithInfo m (feature_information (discovery_of L)) ?e1 n = Some (e', n1)"
      "entity_view (remotes n1) e' = entity_view (local_functions L) x" "extends n n1" "below_next n1 e'"
    using entity_again [OF Cons.prems(1) x, of ?e1 m n] e0 by auto
  let ?dr = "dr\<lparr>device_entities := device_entities dr @ [e']\<rparr>"
  have set: "set_entity (Some ids) e' (dr\<lparr>device_entities := device_entities dr @ [e0]\<rparr>) = ?dr"
    using fresh e0(2) ids by (intro set_entity_last) (simp_all add: entity_ids_def)
  have views: "views_upto L n1 ?dr (es @ [x])"
  proof -
    have "entity_view (remotes n1) y = entity_view (remotes n) y \<and> below_next n1 y" if "y \<in> set (device_entities dr)" for y
      using extends_view [OF e'(3)] Cons.prems(3) that by (simp add: views_upto_def)
    then have old: "map (entity_view (remotes n1)) (device_entities dr) = map (entity_view (remotes n)) (device_entities dr)"
      "\<forall>y \<in> set (device_entities dr). below_next n1 y" by auto
    have "map (entity_view (remotes n1)) (device_entities dr) = map (entity_view (local_functions L)) es"
      unfolding old(1) using Cons.prems(3) by (simp add: views_upto_def)
    then show ?thesis using old(2) e'(2,4) by (simp add: views_upto_def)
  qed
  have fix_device: "ea_device (entity_address e0) = Some a" "EntityRemoteAddFeaturesWithInfo m (feature_information (discovery_of L))
      (e0\<lparr>entity_address := (entity_address e0)\<lparr>ea_device := Some a\<rparr>, entity_desc := None, entity_features := []\<rparr>) n = Some (e', n1)"
    using e'(1) e0(2) ids(4) a by (cases e0; cases "entity_address x"; simp)+
  have check: "CheckEntityInformation dr True (Some (EntityLocalCreateInformation x)) = kEebusErrorOk"
    using ids(1) by (simp add: CheckEntityInformation_def description_of_entity)
  have "add_entities m True (discovery_of L) (map (\<lambda>e. Some (EntityLocalCreateInformation e)) (x # xs)) dr new n =
      add_entities m True (discovery_of L) (map (\<lambda>e. Some (EntityLocalCreateInformation e)) xs) ?dr (new @ [entity_address e0]) n1"
    using check none e0(1) e'(1) t set fix_device a
    by (cases "a = []") (simp_all add: description_of_entity ids(1) discovery_of_simps(4) Let_def)
  moreover obtain new' dr' n' where "add_entities m True (discovery_of L) (map (\<lambda>e. Some (EntityLocalCreateInformation e)) xs) ?dr
      (new @ [entity_address e0]) n1 = Some (Some new', dr', n')" "views_upto L n' dr' (es @ x # xs)" "extends n1 n'"
      "dr' = ?dr\<lparr>device_entities := device_entities dr'\<rparr>"
    using Cons.IH [OF Cons.prems(1) _ views, of "new @ [entity_address e0]"] Cons.prems(2,4) by auto
  ultimately show ?case using extends_trans [OF e'(3)] by (intro exI [of _ new'] exI [of _ dr'] exI [of _ n']) simp
qed

text \<open>The first entity is there before; its address gets the device, and its features are replaced.\<close>

lemma first_entity_again:
  assumes "describable L" "device_entities (local_device (world L)) = x # xs" "device_address dr = device_address (local_device (world L))"
    and "device_entities dr = [e0]" "entity_address e0 = EntityAddressCreate None [0]" "entity_type e0 = kEntityTypeTypeDeviceInformation"
  shows "\<exists>new' dr' n'. AddEntityAndFeatures m dr True (discovery_of L) n = Some (Some new', dr', n') \<and>
    views_upto L n' dr' (x # xs) \<and> extends n n' \<and> dr' = dr\<lparr>device_entities := device_entities dr'\<rparr>"
proof -
  let ?a = "device_address (local_device (world L))"
  have x: "entity_ids x = Some [Some 0]" "entity_type x = kEntityTypeTypeDeviceInformation" "ea_device (entity_address x) = ?a"
    using assms(1,2) by (simp_all add: describable_def entity_describable_def Let_def)
  obtain a where a: "?a = Some a" using assms(1) by (auto simp: describable_def Let_def)
  let ?e = "e0\<lparr>entity_address := (entity_address e0)\<lparr>ea_device := Some a\<rparr>\<rparr>"
  have e: "entity_address ?e = entity_address x" "entity_type ?e = entity_type x"
    using x a assms(5,6) by (cases "entity_address x"; simp add: EntityAddressCreate_def entity_ids_def)+
  have get: "DeviceGetEntity dr (Some [Some 0]) = Some e0"
    using assms(4,5) by (simp add: DeviceGetEntity_def match_ids EntityAddressCreate_def)
  obtain e' n1 where e': "EntityRemoteAddFeaturesWithInfo m (feature_information (discovery_of L))
        (?e\<lparr>entity_desc := None, entity_features := []\<rparr>) n = Some (e', n1)"
      "entity_view (remotes n1) e' = entity_view (local_functions L) x" "extends n n1" "below_next n1 e'"
    using entity_again [OF assms(1), of x "?e\<lparr>entity_desc := None, entity_features := []\<rparr>" m n] e assms(2) by auto
  let ?dr = "dr\<lparr>device_entities := [e']\<rparr>"
  have "set_entity (Some [Some 0]) e' dr = ?dr"
    using assms(4,5) by (simp add: set_entity_def match_ids EntityAddressCreate_def)
  moreover have "ed_entity_address (EntityLocalCreateInformation x) = Some \<lparr>ea_device = None, ea_entity = Some [Some 0]\<rparr>"
    using x(1) by (cases "entity_address x") (simp add: description_of_entity entity_ids_def)
  moreover have "ea_device (entity_address e0) = None" using assms(5) by (simp add: EntityAddressCreate_def)
  ultimately have "AddEntityAndFeatures m dr True (discovery_of L) n =
      add_entities m True (discovery_of L) (map (\<lambda>e. Some (EntityLocalCreateInformation e)) xs) ?dr [] n1"
    using get a e'(1) assms(2) description_of_entity(3)
    by (simp add: AddEntityAndFeatures_def discovery_of_simps(1,4) CheckEntityInformation_def Let_def)
  moreover have "views_upto L n1 ?dr [x]" using e'(2,4) by (simp add: views_upto_def)
  then obtain new' dr' n' where "add_entities m True (discovery_of L) (map (\<lambda>e. Some (EntityLocalCreateInformation e)) xs) ?dr [] n1 =
      Some (Some new', dr', n')" "views_upto L n' dr' (x # xs)" "extends n1 n'" "dr' = ?dr\<lparr>device_entities := device_entities dr'\<rparr>"
    using entities_again [OF assms(1), of "[x]" xs n1 ?dr m "[]"] assms(2,3) by auto
  ultimately show ?thesis using extends_trans [OF e'(3)] by (intro exI [of _ new'] exI [of _ dr'] exI [of _ n']) simp
qed

definition device_view ::
    "(ptr \<Rightarrow> Function list) \<Rightarrow> Device \<Rightarrow> string option \<times> u32 option \<times> u32 option option \<times>
     (EntityAddressType \<times> nat \<times> (Feature \<times> (nat \<times> Operations option) list) list) list" where
  "device_view fs d = (device_address d, device_type d, device_feature_set d, map (entity_view fs) (device_entities d))"

lemma subscribe_keeps:
  "world (snd (FeatureLocalSubscribeToRemote self a n)) = world n" "remotes (snd (FeatureLocalSubscribeToRemote self a n)) = remotes n"
  by (auto simp: FeatureLocalSubscribeToRemote_def with_sender_def Let_def split: option.split prod.split)

lemma request_keeps:
  "world (snd (RequestUseCaseData ski a n)) = world n" "remotes (snd (RequestUseCaseData ski a n)) = remotes n"
  by (simp_all add: RequestUseCaseData_def FeatureLocalRequestRemoteDataBySenderAddress_def)

lemma event_keeps:
  assumes "EventPublish ev n = Some n'"
  shows "world n' = world n \<and> remotes n' = remotes n"
proof -
  obtain n1 where n1: "DeviceLocalHandleEvent ev n = Some n1" "n' = log_trace [DataChange ev] n1"
    using assms by (auto simp: EventPublish_def)
  then have "world n1 = world n \<and> remotes n1 = remotes n"
    by (auto simp: DeviceLocalHandleEvent_def Let_def subscribe_keeps request_keeps split: if_splits option.splits bind_splits)
  then show ?thesis by (simp add: n1(2))
qed

lemma update_new_device:
  assumes "device_type dr = None" "device_feature_set dr = Some None"
    and "device_address (local_device (world L)) \<noteq> None" "device_feature_set (local_device (world L)) \<noteq> None"
  shows "UpdateDevice dr (DeviceLocalCreateInformation L) =
    Some (dr\<lparr>device_address := device_address (local_device (world L)), device_type := device_type (local_device (world L)),
            device_feature_set := device_feature_set (local_device (world L))\<rparr>)"
  using assms by (cases dr) (auto simp: UpdateDevice_def DeviceLocalCreateInformation_def
      NodeManagementDetailedDiscoveryDeviceInformationCreate_def Let_def split: option.splits)

text \<open>The table of devices.\<close>

lemma GetRemoteDevice_upd:
  assumes "GetRemoteDeviceWithSki n ski \<noteq> None" "device_ski d = ski"
  shows "GetRemoteDeviceWithSki (upd_device ski (\<lambda>_. d) n) ski = Some d" "d \<in> set (remote_devices (world (upd_device ski (\<lambda>_. d) n)))"
proof -
  have "List.find (\<lambda>d. device_ski d = ski) xs \<noteq> None \<Longrightarrow>
      List.find (\<lambda>d. device_ski d = ski) (map (\<lambda>x. if device_ski x = ski then d else x) xs) = Some d \<and>
      d \<in> set (map (\<lambda>x. if device_ski x = ski then d else x) xs)" for xs
    using assms(2) by (induction xs) auto
  then show "GetRemoteDeviceWithSki (upd_device ski (\<lambda>_. d) n) ski = Some d" "d \<in> set (remote_devices (world (upd_device ski (\<lambda>_. d) n)))"
    using assms(1) by (simp_all add: GetRemoteDeviceWithSki_def upd_device_def)
qed

lemma feature_of_new_device:
  assumes "GetRemoteDeviceWithSki n ski \<noteq> None" "map_of (device_features d) p = Some f" "device_ski d = ski"
    and "\<forall>x \<in> set (remote_devices (world n)). device_ski x \<noteq> ski \<longrightarrow> map_of (device_features x) p = None"
  shows "remote_feature_at (world (upd_device ski (\<lambda>_. d) n)) (Some p) = Some (d, f)"
proof -
  have "List.find (\<lambda>d. device_ski d = ski) xs \<noteq> None \<Longrightarrow> \<forall>x \<in> set xs. device_ski x \<noteq> ski \<longrightarrow> map_of (device_features x) p = None \<Longrightarrow>
      List.find (\<lambda>d. map_of (device_features d) p \<noteq> None) (map (\<lambda>x. if device_ski x = ski then d else x) xs) = Some d" for xs
    using assms(2) by (induction xs) (auto split: if_splits)
  then have "List.find (\<lambda>d. map_of (device_features d) p \<noteq> None)
      (map (\<lambda>x. if device_ski x = ski then d else x) (remote_devices (world n))) = Some d"
    using assms(1,4) by (simp add: GetRemoteDeviceWithSki_def)
  then show ?thesis using assms(2) by (simp add: remote_feature_at_def upd_device_def)
qed

lemma node_management_again:
  assumes "describable L" "views_upto L n dr (device_entities (local_device (world L)))"
  shows "\<exists>p f. RemoteGetFeatureWithAddress dr (Some (NodeManagementAddress None)) = Some (Some (p, f)) \<and> (p, f) \<in> set (device_features dr)"
proof -
  obtain x xs where x: "device_entities (local_device (world L)) = x # xs" "entity_ids x = Some [Some 0]"
      "list_ex (\<lambda>x. feature (feature_address (snd x)) = Some 0) (entity_features x)"
    using assms(1) by (auto simp: describable_def Let_def split: list.splits)
  obtain e es where e: "device_entities dr = e # es" "entity_view (remotes n) e = entity_view (local_functions L) x"
    using assms(2) unfolding views_upto_def x(1) by auto
  then have addr: "ea_entity (entity_address e) = Some [Some 0]" using x(2) by (simp add: entity_view_def entity_ids_def)
  have "map (fst \<circ> feature_view (remotes n)) (entity_features e) = map (fst \<circ> feature_view (local_functions L)) (entity_features x)"
    using e(2) unfolding entity_view_def map_map [symmetric] by simp
  then have "map snd (entity_features e) = map snd (entity_features x)" by (simp add: feature_view_def comp_def)
  moreover obtain y where "y \<in> set (map snd (entity_features x))" "feature (feature_address y) = Some 0"
    using x(3) by (auto simp: list_ex_iff)
  ultimately have "y \<in> set (map snd (entity_features e))" by simp
  then obtain z where z: "z \<in> set (entity_features e)" "(\<lambda>(p, f). feature (feature_address f) = Some 0) z"
    using \<open>feature (feature_address y) = Some 0\<close> by (auto simp: case_prod_unfold)
  then have "List.find (\<lambda>(p, f). feature (feature_address f) = Some 0) (entity_features e) \<noteq> None"
    unfolding find_None_iff by blast
  then obtain p f where f: "EntityGetFeatureWithId e (Some 0) = Some (p, f)" by (auto simp: EntityGetFeatureWithId_def)
  have get: "RemoteGetFeatureWithAddress dr (Some (NodeManagementAddress None)) = Some (Some (p, f))"
    using e(1) addr f by (simp add: RemoteGetFeatureWithAddress_def NodeManagementAddress_def DeviceGetEntity_def match_ids)
  then show ?thesis using RemoteGetFeature_SomeD by blast
qed

lemma new_device_event:
  assumes "GetRemoteDeviceWithSki n (ep_ski ev) = Some dr" "dr \<in> set (remote_devices (world n))"
    and "ep_feature ev = Some p" "(p, f) \<in> set (device_features dr)"
  shows "EventPublish ev n \<noteq> None"
  using remote_feature_live [OF assms(2,4)] assms(1,3)
  by (auto simp: EventPublish_def DeviceLocalHandleEvent_def Let_def)

lemma discovery_again:
  assumes "describable L"
    and "data_choice (msg_cmd msg) = discovery_value (AddInfo L (NodeManagementDetailedDiscoveryDataCreate [specification_version]))"
    and "GetRemoteDeviceWithSki n (device_remote msg) = Some (DeviceRemoteConstruct (device_remote msg) (feature_remote msg))"
    and "\<forall>x \<in> set (remote_devices (world n)). device_ski x \<noteq> device_remote msg \<longrightarrow> map_of (device_features x) (feature_remote msg) = None"
  shows "\<exists>n' dr. ProcessReplyDetailedDiscoveryData m msg n = Some (kEebusErrorOk, n') \<and>
    GetRemoteDeviceWithSki n' (device_remote msg) = Some dr \<and>
    device_view (remotes n') dr = device_view (local_functions L) (local_device (world L))"
proof -
  let ?ski = "device_remote msg" and ?p = "feature_remote msg" and ?d = "local_device (world L)"
  let ?dr0 = "DeviceRemoteConstruct ?ski ?p"
  define dr1 where "dr1 = ?dr0\<lparr>device_address := device_address ?d, device_type := device_type ?d,
    device_feature_set := device_feature_set ?d\<rparr>"
  define n1 where "n1 = upd_device ?ski (\<lambda>_. dr1) n"
  have data: "value_discovery (data_choice (msg_cmd msg)) = Some (discovery_of L)"
    unfolding assms(2) value_discovery_inv
    by (simp add: discovery_of_def AddInfo_def AddFeatureInfo_def AddEntityInfo_def NodeManagementDetailedDiscoveryDataCreate_def Let_def)
  have upd: "UpdateDevice ?dr0 (DeviceLocalCreateInformation L) = Some dr1"
    unfolding dr1_def using assms(1) by (intro update_new_device) (auto simp: describable_def DeviceRemoteConstruct_def Let_def)
  obtain f where f: "map_of (device_features dr1) ?p = Some f" "feature_address f = NodeManagementAddress None"
    by (auto simp: dr1_def DeviceRemoteConstruct_def device_features_def)
  have ski: "device_ski dr1 = ?ski" by (simp add: dr1_def DeviceRemoteConstruct_def)
  have at: "remote_feature_at (world n1) (Some ?p) = Some (dr1, f)"
    unfolding n1_def using feature_of_new_device [OF _ f(1) ski assms(4)] assms(3) by simp
  obtain x xs where x: "device_entities ?d = x # xs" using assms(1) by (auto simp: describable_def Let_def split: list.splits)
  obtain e0 where e0: "device_entities dr1 = [e0]" "entity_address e0 = EntityAddressCreate None [0]"
      "entity_type e0 = kEntityTypeTypeDeviceInformation" by (auto simp: dr1_def DeviceRemoteConstruct_def)
  obtain new dr2 n2 where add: "AddEntityAndFeatures m dr1 True (discovery_of L) n1 = Some (Some new, dr2, n2)"
      "views_upto L n2 dr2 (x # xs)" "extends n1 n2" "dr2 = dr1\<lparr>device_entities := device_entities dr2\<rparr>"
    using first_entity_again [OF assms(1) x _ e0, of m n1] by (auto simp: dr1_def)
  define n3 where "n3 = upd_device ?ski (\<lambda>_. dr2) n2"
  have ski2: "device_ski dr2 = ?ski" by (subst add(4)) (simp add: ski)
  have "GetRemoteDeviceWithSki n2 ?ski = Some dr1"
    using GetRemoteDevice_upd(1) [OF _ ski, of n] assms(3) add(3) by (simp add: extends_def n1_def GetRemoteDeviceWithSki_def)
  then have g3: "GetRemoteDeviceWithSki n3 ?ski = Some dr2" "dr2 \<in> set (remote_devices (world n3))"
    unfolding n3_def using GetRemoteDevice_upd [OF _ ski2] by simp_all
  obtain p' f' where f': "RemoteGetFeatureWithAddress dr2 (Some (NodeManagementAddress None)) = Some (Some (p', f'))"
      "(p', f') \<in> set (device_features dr2)"
    using node_management_again [OF assms(1)] add(2) x by metis
  define ev where "ev = \<lparr>ep_ski = ?ski, ep_event_type = kEventTypeDeviceChange, ep_change_type = kElementChangeAdd,
    ep_feature = Some p', ep_local_feature = None, ep_function_type = kFunctionTypeNodeManagementDetailedDiscoveryData,
    ep_function_data = data_choice (msg_cmd msg), ep_cmd_classifier = None\<rparr>"
  have ev: "ev\<lparr>ep_event_type := kEventTypeEntityChange, ep_feature := None\<rparr> = \<lparr>ep_ski = ?ski, ep_event_type = kEventTypeEntityChange,
    ep_change_type = kElementChangeAdd, ep_feature = None, ep_local_feature = None,
    ep_function_type = kFunctionTypeNodeManagementDetailedDiscoveryData,
    ep_function_data = data_choice (msg_cmd msg), ep_cmd_classifier = None\<rparr>" by (simp add: ev_def)
  obtain n4 where n4: "EventPublish ev n3 = Some n4"
    using new_device_event [of n3 ev dr2 p' f'] g3 f'(2) by (auto simp: ev_def)
  let ?n' = "log_trace (map (EntityChange (ev\<lparr>ep_event_type := kEventTypeEntityChange, ep_feature := None\<rparr>)) new) n4"
  have "ProcessReplyDetailedDiscoveryData m msg n = Some (kEebusErrorOk, ?n')"
    using data upd at add(1) f(2) f'(1) n4 assms(3) ev
    by (simp add: ProcessReplyDetailedDiscoveryData_def discovery_of_simps(3) Let_def flip: n1_def n3_def ev_def)
  moreover have "GetRemoteDeviceWithSki ?n' ?ski = Some dr2"
    using g3(1) event_keeps [OF n4] by (simp add: GetRemoteDeviceWithSki_def)
  moreover have "device_view (remotes ?n') dr2 = device_view (local_functions L) ?d"
  proof -
    have "remotes ?n' = remotes n2" using event_keeps [OF n4] by (simp add: n3_def upd_device_def)
    then have "map (entity_view (remotes ?n')) (device_entities dr2) = map (entity_view (local_functions L)) (device_entities ?d)"
      using add(2) x by (simp add: views_upto_def)
    moreover have "device_address dr2 = device_address ?d" "device_type dr2 = device_type ?d" "device_feature_set dr2 = device_feature_set ?d"
      by (subst add(4), simp add: dr1_def)+
    ultimately show ?thesis by (simp add: device_view_def)
  qed
  ultimately show ?thesis by blast
qed

text \<open>
  C13. Discovery reproduces the device. The detailed discovery message that a local device makes of itself,
  received by a device that just got the connection, gives a remote device with the same address, type and
  feature set, the same entities with their types, and the same features, in the same order, with their
  types, roles, descriptions and functions and the operations of these.
\<close>

theorem discovery_reproduces_device:
  assumes "describable L"
    and "data_choice (msg_cmd msg) = discovery_value (AddInfo L (NodeManagementDetailedDiscoveryDataCreate [specification_version]))"
    and "GetRemoteDeviceWithSki n (device_remote msg) = Some (DeviceRemoteConstruct (device_remote msg) (feature_remote msg))"
    and "\<forall>x \<in> set (remote_devices (world n)). device_ski x \<noteq> device_remote msg \<longrightarrow> map_of (device_features x) (feature_remote msg) = None"
  shows "\<exists>n' dr. ProcessReplyDetailedDiscoveryData m msg n = Some (kEebusErrorOk, n') \<and>
    GetRemoteDeviceWithSki n' (device_remote msg) = Some dr \<and>
    device_view (remotes n') dr = device_view (local_functions L) (local_device (world L))"
  by (rule discovery_again [OF assms])

text \<open>A device with node management and load control, with operations, and a device that just got its connection.\<close>

definition example_local_device :: Device where
  "example_local_device =
        \<lparr>device_ski = ''L'', device_address = Some ''L'',
         device_entities =
          [\<lparr>entity_address = \<lparr>ea_device = Some ''L'', ea_entity = Some [Some 0]\<rparr>, entity_features = [example_node_management],
            entity_type = kEntityTypeTypeDeviceInformation, entity_desc = None, next_feature_id = 1\<rparr>,
           \<lparr>entity_address = \<lparr>ea_device = Some ''L'', ea_entity = Some [Some 1]\<rparr>,
            entity_features = [(1, (snd example_self)\<lparr>feature_type := kFeatureTypeTypeDeviceDiagnosis\<rparr>)], entity_type = 5,
            entity_desc = None, next_feature_id = 3\<rparr>],
         device_type = Some 4, device_feature_set = Some (Some 2)\<rparr>"

definition example_local :: Node where
  "example_local = (example_node [])
     \<lparr>world := \<lparr>local_device = example_local_device, remote_devices = []\<rparr>,
      locals := (\<lambda>p. FeatureLocalConstruct (map (\<lambda>t. \<lparr>ftype = t, fdata = Null, foperations =
        (if t = kFunctionTypeDeviceDiagnosisHeartbeatData then Some (OperationsCreate True True False False) else None)\<rparr>)
          (if p = 0 then node_management_functions else device_diagnosis_functions)))\<rparr>"

definition example_connected :: Node where
  "example_connected = (example_node [])
     \<lparr>world := \<lparr>local_device = example_device ''R'' 1 kRoleTypeServer, remote_devices = [DeviceRemoteConstruct ''L'' 2]\<rparr>,
      binding_manager := BindingManagerConstruct, subscription_manager := SubscriptionManagerConstruct\<rparr>"

lemmas feature_type_defs =
  kFeatureTypeTypeActuatorLevel_def kFeatureTypeTypeActuatorSwitch_def kFeatureTypeTypeAlarm_def
  kFeatureTypeTypeDataTunneling_def kFeatureTypeTypeDeviceClassification_def kFeatureTypeTypeDeviceDiagnosis_def
  kFeatureTypeTypeDirectControl_def kFeatureTypeTypeElectricalConnection_def kFeatureTypeTypeGeneric_def
  kFeatureTypeTypeHvac_def kFeatureTypeTypeLoadControl_def kFeatureTypeTypeMeasurement_def kFeatureTypeTypeMessaging_def
  kFeatureTypeTypeNetworkManagement_def kFeatureTypeTypeNodeManagement_def kFeatureTypeTypeOperatingConstraints_def
  kFeatureTypeTypePowerSequences_def kFeatureTypeTypeSensing_def kFeatureTypeTypeSetpoint_def
  kFeatureTypeTypeSmartEnergyManagementPs_def kFeatureTypeTypeTaskManagement_def kFeatureTypeTypeThreshold_def
  kFeatureTypeTypeTimeInformation_def kFeatureTypeTypeTimeTable_def kFeatureTypeTypeDeviceConfiguration_def
  kFeatureTypeTypeSupplyCondition_def kFeatureTypeTypeTimeSeries_def kFeatureTypeTypeTariffInformation_def
  kFeatureTypeTypeIncentiveTable_def kFeatureTypeTypeBill_def kFeatureTypeTypeIdentification_def
  kFeatureTypeTypeStateInformation_def

lemma announced_list:
  assumes "GetFeatureFunctions t = Some ts" "distinct ts" "list_all (\<lambda>t. t < 2 ^ 32) ts" "\<And>t. pred_option operations_normal (ops t)"
  shows "announced_functions t (map (\<lambda>t. \<lparr>ftype = t, fdata = Null, foperations = ops t\<rparr>) ts)"
  using assms by (auto simp: announced_functions_def list_all_iff comp_def pred_option_def split: option.splits)

lemma example_describable: "describable example_local"
proof -
  have fs: "GetFeatureFunctions kFeatureTypeTypeNodeManagement = Some node_management_functions"
    "GetFeatureFunctions kFeatureTypeTypeDeviceDiagnosis = Some device_diagnosis_functions"
    by (simp_all add: GetFeatureFunctions_def feature_functions_table_def feature_type_defs)
  have dist: "distinct node_management_functions" "distinct device_diagnosis_functions"
    "list_all (\<lambda>t. t < 2 ^ 32) node_management_functions" "list_all (\<lambda>t. t < 2 ^ 32) device_diagnosis_functions"
    by (simp_all add: node_management_functions_def device_diagnosis_functions_def function_type_defs)
  have "announced_functions kFeatureTypeTypeNodeManagement (local_functions example_local 0)"
    unfolding local_functions_def example_local_def
    by (simp add: FeatureLocalConstruct_def) (rule announced_list [OF fs(1) dist(1,3)];
      simp add: operations_normal_def OperationsCreate_def)
  moreover have "announced_functions kFeatureTypeTypeDeviceDiagnosis (local_functions example_local (Suc 0))"
    unfolding local_functions_def example_local_def
    by (simp add: FeatureLocalConstruct_def) (rule announced_list [OF fs(2) dist(2,4)];
      simp add: operations_normal_def OperationsCreate_def)
  ultimately have n: "announced_functions kFeatureTypeTypeNodeManagement (local_functions example_local 0)"
    "announced_functions kFeatureTypeTypeDeviceDiagnosis (local_functions example_local (Suc 0))" .
  have d: "local_device (world example_local) = example_local_device" by (simp add: example_local_def)
  have t: "kFeatureTypeTypeNodeManagement < 2 ^ 32" "kFeatureTypeTypeDeviceDiagnosis < 2 ^ 32"
    by (simp_all add: feature_type_defs)
  have e: "list_all (entity_describable example_local) (device_entities example_local_device)"
    unfolding entity_describable_def feature_describable_def d
    by (simp add: example_local_device_def example_node_management_def example_self_def n t del: power_numeral)
      (simp add: kEntityTypeTypeDeviceInformation_def)
  show ?thesis
    using e unfolding describable_def d Let_def by (simp add: example_local_device_def entity_ids_def example_node_management_def)
qed

definition example_reply :: Message where
  "example_reply = example_write\<lparr>msg_classifier := kCommandClassifierTypeReply, device_remote := ''L'',
     msg_cmd := CmdCreateEmpty\<lparr>data_choice :=
       discovery_value (AddInfo example_local (NodeManagementDetailedDiscoveryDataCreate [specification_version]))\<rparr>\<rparr>"

theorem discovery_reproduces_device_witness:
  "\<exists>n' dr. ProcessReplyDetailedDiscoveryData load_control_model example_reply example_connected = Some (kEebusErrorOk, n') \<and>
    GetRemoteDeviceWithSki n' ''L'' = Some dr \<and> device_address dr = Some ''L'' \<and>
    map entity_type (device_entities dr) = [kEntityTypeTypeDeviceInformation, 5]"
proof -
  have msg: "data_choice (msg_cmd example_reply) =
      discovery_value (AddInfo example_local (NodeManagementDetailedDiscoveryDataCreate [specification_version]))"
    "device_remote example_reply = ''L''" "feature_remote example_reply = 2"
    by (simp_all add: example_reply_def example_write_def)
  have dev: "remote_devices (world example_connected) = [DeviceRemoteConstruct ''L'' 2]" by (simp add: example_connected_def)
  have get: "GetRemoteDeviceWithSki example_connected ''L'' = Some (DeviceRemoteConstruct ''L'' 2)"
    by (simp add: GetRemoteDeviceWithSki_def dev DeviceRemoteConstruct_def)
  have other: "\<forall>x \<in> set (remote_devices (world example_connected)). device_ski x \<noteq> ''L'' \<longrightarrow> map_of (device_features x) 2 = None"
    by (simp add: dev DeviceRemoteConstruct_def)
  obtain n' dr where n': "ProcessReplyDetailedDiscoveryData load_control_model example_reply example_connected = Some (kEebusErrorOk, n')"
      "GetRemoteDeviceWithSki n' ''L'' = Some dr"
      "device_view (remotes n') dr = device_view (local_functions example_local) (local_device (world example_local))"
    using discovery_reproduces_device [OF example_describable msg(1), of example_connected load_control_model] get other
    unfolding msg by blast
  have L: "local_device (world example_local) = example_local_device" by (simp add: example_local_def)
  have "map (fst \<circ> snd) (map (entity_view (remotes n')) (device_entities dr)) =
      map (fst \<circ> snd) (map (entity_view (local_functions example_local)) (device_entities example_local_device))"
    and "device_address dr = device_address example_local_device"
    using n'(3) by (simp_all add: device_view_def L)
  then have "device_address dr = Some ''L''" "map entity_type (device_entities dr) = [kEntityTypeTypeDeviceInformation, 5]"
    by (simp_all add: entity_view_def comp_def example_local_device_def)
  with n'(1,2) show ?thesis by (intro exI [of _ n'] exI [of _ dr] conjI)
qed

section \<open>A second reply\<close>

lemma add_entities_keep:
  "add_entities m init data is dr new n = Some (r, dr', n') \<Longrightarrow>
    device_feature_set dr' = device_feature_set dr \<and> device_ski dr' = device_ski dr \<and> world n' = world n"
proof (induction "is" arbitrary: dr new n)
  case (Cons i "is")
  have features: "EntityRemoteAddFeaturesWithInfo m js e n = Some (e', n') \<Longrightarrow> world n' = world n" for js e e' n n'
    by (induction js arbitrary: e n) (fastforce simp: Let_def split: bind_splits if_splits option.splits)+
  show ?case
  proof (cases "CheckEntityInformation dr init i = kEebusErrorOk")
    case True
    obtain dr1 new1 n1 where "add_entities m init data is dr1 new1 n1 = Some (r, dr', n')"
        "device_feature_set dr1 = device_feature_set dr" "device_ski dr1 = device_ski dr" "world n1 = world n"
      using Cons.prems True
      by (auto simp: Let_def set_entity_def split: bind_splits option.splits dest!: features)
    then show ?thesis using Cons.IH by metis
  qed (use Cons.prems in simp)
qed simp

lemma UpdateDevice_both:
  assumes "dd_device_type ds = Some t" "dd_network_feature_set ds = Some s" "UpdateDevice dr ds = Some dr'"
  shows "device_feature_set dr' = Some (Some s)" "device_ski dr' = device_ski dr" "device_feature_set dr = Some None"
  using assms by (cases dr; auto simp: UpdateDevice_def Let_def bind_eq_Some_conv split: option.splits if_splits)+

text \<open>
  A second discovery reply frees memory twice. When a reply that announces a device type and a feature set was
  processed, processing another one from the same device has no outcome: the new type frees the feature
  set of the first, and the new feature set frees it again.
\<close>

theorem second_discovery_reply_frees_twice:
  assumes "ProcessReplyDetailedDiscoveryData m msg n = Some (err, n1)" "device_remote msg' = device_remote msg"
    and "value_discovery (data_choice (msg_cmd msg)) = Some d" "device_information d = Some (Some ds)"
      "dd_device_type ds \<noteq> None" "dd_network_feature_set ds \<noteq> None"
    and "value_discovery (data_choice (msg_cmd msg')) = Some d'" "device_information d' = Some (Some ds')"
      "dd_device_type ds' \<noteq> None" "dd_network_feature_set ds' \<noteq> None"
  shows "ProcessReplyDetailedDiscoveryData m msg' n1 = None"
proof -
  let ?ski = "device_remote msg"
  obtain t s t' s' where ts: "dd_device_type ds = Some t" "dd_network_feature_set ds = Some s"
      "dd_device_type ds' = Some t'" "dd_network_feature_set ds' = Some s'" using assms(5,6,9,10) by auto
  obtain dr dr1 where dr: "GetRemoteDeviceWithSki n ?ski = Some dr" "UpdateDevice dr ds = Some dr1"
    using assms(1,3,4) by (auto simp: ProcessReplyDetailedDiscoveryData_def Let_def split: bind_splits)
  let ?n = "upd_device ?ski (\<lambda>_. dr1) n"
  obtain new dr2 n2 where add: "AddEntityAndFeatures m dr1 True d ?n = Some (new, dr2, n2)"
      "world n1 = world (upd_device ?ski (\<lambda>_. dr2) n2)"
    using assms(1,3,4) dr
    by (auto simp: ProcessReplyDetailedDiscoveryData_def Let_def split: bind_splits option.splits dest!: event_keeps)
  note up = UpdateDevice_both [OF ts(1,2) dr(2)]
  have keep: "device_feature_set dr2 = Some (Some s)" "device_ski dr2 = device_ski dr" "world n2 = world ?n"
    using add_entities_keep [OF add(1) [unfolded AddEntityAndFeatures_def]] up by simp_all
  have ski: "device_ski dr = ?ski" using dr(1) by (auto simp: GetRemoteDeviceWithSki_def find_Some_iff)
  have "GetRemoteDeviceWithSki ?n ?ski = Some dr1" using GetRemoteDevice_upd(1) [of n ?ski dr1] dr(1) up(2) ski by simp
  then have "GetRemoteDeviceWithSki n2 ?ski \<noteq> None" using keep(3) by (simp add: GetRemoteDeviceWithSki_def)
  then have "GetRemoteDeviceWithSki (upd_device ?ski (\<lambda>_. dr2) n2) ?ski = Some dr2"
    using GetRemoteDevice_upd(1) [of n2 ?ski dr2] keep(2) ski by simp
  then have "GetRemoteDeviceWithSki n1 ?ski = Some dr2" using add(2) by (simp add: GetRemoteDeviceWithSki_def)
  moreover have "UpdateDevice dr2 ds' = None" using UpdateDevice_both(3) [OF ts(3,4)] keep(1) by (cases "UpdateDevice dr2 ds'") auto
  ultimately show ?thesis
    using assms(2,7,8) by (simp add: ProcessReplyDetailedDiscoveryData_def Let_def)
qed

lemma example_discovered:
  "\<exists>n'. ProcessReplyDetailedDiscoveryData load_control_model example_reply example_connected = Some (kEebusErrorOk, n')"
  "value_discovery (data_choice (msg_cmd example_reply)) = Some (discovery_of example_local)"
proof -
  have msg: "data_choice (msg_cmd example_reply) =
      discovery_value (AddInfo example_local (NodeManagementDetailedDiscoveryDataCreate [specification_version]))"
    "device_remote example_reply = ''L''" "feature_remote example_reply = 2"
    by (simp_all add: example_reply_def example_write_def)
  have dev: "remote_devices (world example_connected) = [DeviceRemoteConstruct ''L'' 2]" by (simp add: example_connected_def)
  have get: "GetRemoteDeviceWithSki example_connected ''L'' = Some (DeviceRemoteConstruct ''L'' 2)"
    by (simp add: GetRemoteDeviceWithSki_def dev DeviceRemoteConstruct_def)
  have other: "\<forall>x \<in> set (remote_devices (world example_connected)). device_ski x \<noteq> ''L'' \<longrightarrow> map_of (device_features x) 2 = None"
    by (simp add: dev DeviceRemoteConstruct_def)
  show "\<exists>n'. ProcessReplyDetailedDiscoveryData load_control_model example_reply example_connected = Some (kEebusErrorOk, n')"
    using discovery_again [OF example_describable msg(1), of example_connected load_control_model] get other
    unfolding msg by blast
  show "value_discovery (data_choice (msg_cmd example_reply)) = Some (discovery_of example_local)"
    unfolding msg value_discovery_inv
    by (simp add: discovery_of_def AddInfo_def AddFeatureInfo_def AddEntityInfo_def NodeManagementDetailedDiscoveryDataCreate_def Let_def)
qed

theorem second_discovery_reply_frees_twice_witness:
  "\<exists>n'. ProcessReplyDetailedDiscoveryData load_control_model example_reply example_connected = Some (kEebusErrorOk, n') \<and>
    ProcessReplyDetailedDiscoveryData load_control_model example_reply n' = None"
proof -
  obtain n' where n': "ProcessReplyDetailedDiscoveryData load_control_model example_reply example_connected = Some (kEebusErrorOk, n')"
    using example_discovered(1) by blast
  have d: "dd_device_type (DeviceLocalCreateInformation example_local) \<noteq> None"
      "dd_network_feature_set (DeviceLocalCreateInformation example_local) \<noteq> None"
    by (simp_all add: DeviceLocalCreateInformation_def example_local_def example_local_device_def
        NodeManagementDetailedDiscoveryDeviceInformationCreate_def Let_def)
  have "ProcessReplyDetailedDiscoveryData load_control_model example_reply n' = None"
    by (rule second_discovery_reply_frees_twice [OF n' refl example_discovered(2) discovery_of_simps(3) d
          example_discovered(2) discovery_of_simps(3) d])
  then show ?thesis using n' by blast
qed

end
