(* ===== verification/Spine_Exchange.thy ===== *)
theory Spine_Exchange
  imports Spine_Discovery_Laws
begin

text \<open>
  What two devices do together: a subscription call of one becomes a subscription of the other. And the
  heartbeat: beats are never further apart than their announced timeout.
\<close>

section \<open>Subscription calls\<close>

lemma subscribe_sends:
  assumes "FeatureLocalSubscribeToRemote self a n = (kEebusErrorOk, n')" "GetRemoteDeviceSender n a = Some ski"
  shows "\<exists>cnt. written (senders n' ski) = written (senders n ski) @
    [\<lparr>header = Some \<lparr>spec_version = Some specification_version, src_addr = Some (NodeManagementAddress (device (feature_address (snd self)))),
        dest_addr = Some (NodeManagementAddress (device a)), originator_addr = None, msg_cnt = Some cnt, msg_cnt_ref = None,
        cmd_classifier = Some kCommandClassifierTypeCall, ack_request = Some True\<rparr>,
      payload = Some [Some (CmdCreateEmpty\<lparr>data_choice := request_call_value \<lparr>rq_client_address = Some (feature_address (snd self)),
        rq_server_address = Some a, rq_server_feature_type = Some (feature_type (snd self))\<rparr>,
        data_choice_type_id := kFunctionTypeNodeManagementSubscriptionRequestCall\<rparr>)]\<rparr>]"
  using assms
  by (auto simp: FeatureLocalSubscribeToRemote_def with_sender_def CallSubscribe_def SendNodeManagmentCall_def SendSpineMessage_def
      SenderGetNextMsgCounter_def Let_def split: if_splits prod.splits)

lemma AddSubscription_ok:
  assumes "container_ok w (subscription_entries sm)" "num_elements (subscription_entries sm) < num_elements_max"
    and "LocalGetFeatureWithAddress (local_device w) (Some a) = Some (q, f)" "FeatureParametersMatch (Some f) kRoleTypeServer t"
    and "RemoteGetFeatureWithAddress dr (Some b) = Some (Some (p, g))" "FeatureParametersMatch (Some g) kRoleTypeClient t"
    and "\<forall>l \<in> set (vector_list (subscription_entries sm)). \<not> (server_of w l = a \<and> client_of w l = b)"
  shows "\<exists>sm' evs. AddSubscription True w sm dr
      (Some \<lparr>rq_client_address = Some b, rq_server_address = Some a, rq_server_feature_type = Some t\<rparr>) = Some (kEebusErrorOk, sm', evs) \<and>
    vector_list (subscription_entries sm') =
      vector_list (subscription_entries sm) @ [FeatureLinkCreate (subscription_num sm) (Some q) (Some p)]"
proof -
  have find: "FeatureLinkContainerFind w (subscription_entries sm) (Some a) (Some b) = Some None"
    unfolding container_find [OF assms(1)] using assms(7) by (auto simp: find_None_iff)
  obtain v where v: "VectorPushBack True (subscription_entries sm) (Some (FeatureLinkCreate (subscription_num sm) (Some q) (Some p))) = Some v"
      "vector_list v = vector_list (subscription_entries sm) @ [FeatureLinkCreate (subscription_num sm) (Some q) (Some p)]"
    using VectorPushBack_ok [of "subscription_entries sm" True] assms(1,2) by (auto simp: container_ok_def)
  show ?thesis using assms(3-6) find v by (simp add: AddSubscription_def FeatureLinkContainerAdd_def)
qed

text \<open>
  C14. A subscription call subscribes. The datagram with which a client feature subscribes to a server feature, processed
  by the server's device, adds one subscription of the server feature by the client feature after the others,
  and is answered with a result that names the datagram.
\<close>

theorem subscribe_call_subscribes:
  assumes "FeatureLocalSubscribeToRemote self a C = (kEebusErrorOk, C')" "GetRemoteDeviceSender C a = Some server_ski"
      "feature_type (snd self) < 2 ^ 32"
    and "LocalGetFeatureWithAddress (local_device (world S)) (Some (NodeManagementAddress (device a))) = Some nm"
      "fst nm = fst (node_management S)" "GetRemoteDeviceWithSki S ski = Some dr" "writer (senders S ski)"
      "RemoteGetFeatureWithAddress dr (Some (NodeManagementAddress (device (feature_address (snd self))))) = Some (Some (r, gm))"
    and "LocalGetFeatureWithAddress (local_device (world S)) (Some a) = Some (q, f)"
      "FeatureParametersMatch (Some f) kRoleTypeServer (feature_type (snd self))"
    and "RemoteGetFeatureWithAddress dr (Some (feature_address (snd self))) = Some (Some (p, g))"
      "FeatureParametersMatch (Some g) kRoleTypeClient (feature_type (snd self))"
    and "container_ok (world S) (subscription_entries (subscription_manager S))"
      "num_elements (subscription_entries (subscription_manager S)) < num_elements_max"
      "\<forall>l \<in> set (vector_list (subscription_entries (subscription_manager S))).
         \<not> (server_of (world S) l = a \<and> client_of (world S) l = feature_address (snd self))"
  shows "\<exists>dg S' result. written (senders C' server_ski) = written (senders C server_ski) @ [dg] \<and>
    ProcessDatagram z m app (Some dg) ski S = Some (kEebusErrorOk, S') \<and>
    vector_list (subscription_entries (subscription_manager S')) = vector_list (subscription_entries (subscription_manager S)) @
      [FeatureLinkCreate (subscription_num (subscription_manager S)) (Some q) (Some p)] \<and>
    written (senders S' ski) = written (senders S ski) @ [result] \<and>
    Option.bind (header result) msg_cnt_ref = Option.bind (header dg) msg_cnt"
proof -
  define h where "h cnt = \<lparr>spec_version = Some specification_version, src_addr = Some (NodeManagementAddress (device (feature_address (snd self)))),
        dest_addr = Some (NodeManagementAddress (device a)), originator_addr = None, msg_cnt = Some cnt, msg_cnt_ref = None,
        cmd_classifier = Some kCommandClassifierTypeCall, ack_request = Some True\<rparr>" for cnt :: u64
  define req where "req = \<lparr>rq_client_address = Some (feature_address (snd self)), rq_server_address = Some a,
    rq_server_feature_type = Some (feature_type (snd self))\<rparr>"
  define cmd where "cmd = CmdCreateEmpty\<lparr>data_choice := request_call_value req,
    data_choice_type_id := kFunctionTypeNodeManagementSubscriptionRequestCall\<rparr>"
  obtain cnt where dg: "written (senders C' server_ski) = written (senders C server_ski) @ [\<lparr>header = Some (h cnt), payload = Some [Some cmd]\<rparr>]"
    using subscribe_sends [OF assms(1,2)] unfolding h_def cmd_def req_def by blast
  obtain sm evs where sm: "AddSubscription True (world S) (subscription_manager S) dr (Some req) = Some (kEebusErrorOk, sm, evs)"
      "vector_list (subscription_entries sm) = vector_list (subscription_entries (subscription_manager S)) @
        [FeatureLinkCreate (subscription_num (subscription_manager S)) (Some q) (Some p)]"
    using AddSubscription_ok [OF assms(13,14,9-12,15)] unfolding req_def by blast
  define S1 where "S1 = log_trace (map LinkEvent evs) (S\<lparr>subscription_manager := sm\<rparr>)"
  have val: "value_request_call (request_call_value req) = Some (Some req)"
    using assms(3) by (intro value_request_inv) (simp add: req_def)
  have "ProcessCmd z m app (h cnt) cmd ski S = FEATURE_LOCAL_HANDLE_MESSAGE z m app nm (cmd_message (h cnt) kCommandClassifierTypeCall cmd r ski) S"
    by (rule ProcessCmd_message [of S _ nm ski dr r gm]) (use assms(4,6,8) in \<open>simp_all add: h_def\<close>)
  also have "\<dots> = HandleMsgSubscriptionRequestCall (cmd_message (h cnt) kCommandClassifierTypeCall cmd r ski) S"
    using assms(5) by (simp add: FEATURE_LOCAL_HANDLE_MESSAGE_def NodeManagementHandleMessage_def cmd_message_def cmd_def
        request_call_value_def Let_def function_type_defs)
  also have "\<dots> = Some (kEebusErrorOk, S1)"
    using assms(6) val sm(1) by (simp add: HandleMsgSubscriptionRequestCall_def cmd_message_def cmd_def S1_def)
  finally have "ProcessCmd z m app (h cnt) cmd ski S = Some (kEebusErrorOk, S1)" .
  then have "ProcessDatagram z m app (Some \<lparr>header = Some (h cnt), payload = Some [Some cmd]\<rparr>) ski S =
      Some (kEebusErrorOk, snd (with_sender ski (\<lambda>s. ResultSuccess s (Some (h cnt)) (dest_addr (h cnt))) S1))"
    by (simp add: ProcessDatagram_def h_def)
  moreover have "\<exists>result. written (senders (snd (with_sender ski (\<lambda>s. ResultSuccess s (Some (h cnt)) (dest_addr (h cnt))) S1)) ski) =
      written (senders S ski) @ [result] \<and> Option.bind (header result) msg_cnt_ref = Some cnt"
    using assms(7) by (simp add: ResultSuccess_def SendResult_def SendSpineMessage_def SenderGetNextMsgCounter_def S1_def h_def)
  ultimately show ?thesis
    using dg sm(2) by (fastforce simp: S1_def h_def)
qed

text \<open>Two devices with node management and one more feature each.\<close>

definition example_peer :: "string \<Rightarrow> ptr \<Rightarrow> ptr \<Rightarrow> RoleType \<Rightarrow> Device" where
  "example_peer nm p0 p r = (example_device nm p r)\<lparr>device_entities :=
     \<lparr>entity_address = \<lparr>ea_device = Some nm, ea_entity = Some [Some 0]\<rparr>,
      entity_features = [(p0, \<lparr>feature_address = NodeManagementAddress (Some nm), feature_type = kFeatureTypeTypeNodeManagement,
        feature_role = kRoleTypeSpecial, feature_desc = None\<rparr>)],
      entity_type = kEntityTypeTypeDeviceInformation, entity_desc = None, next_feature_id = 1\<rparr> # device_entities (example_device nm p r)\<rparr>"

definition example_between :: "Device \<Rightarrow> Device \<Rightarrow> Node" where
  "example_between l r = (example_node [])\<lparr>world := \<lparr>local_device = l, remote_devices = [r]\<rparr>,
     binding_manager := BindingManagerConstruct, subscription_manager := SubscriptionManagerConstruct\<rparr>"

definition example_client :: self where
  "example_client =
     (1, \<lparr>feature_address = \<lparr>device = Some ''A'', entity = Some [Some 1], feature = Some 2\<rparr>, feature_type = 3,
          feature_role = kRoleTypeClient, feature_desc = None\<rparr>)"

theorem subscribe_call_subscribes_witness:
  "\<exists>C' dg S' result. FeatureLocalSubscribeToRemote example_client \<lparr>device = Some ''L'', entity = Some [Some 1], feature = Some 2\<rparr>
      (example_between (example_peer ''A'' 0 1 kRoleTypeClient) (example_peer ''L'' 2 3 kRoleTypeServer)) = (kEebusErrorOk, C') \<and>
    written (senders C' ''L'') = [dg] \<and>
    ProcessDatagram False load_control_model (\<lambda>_ _ _. []) (Some dg) ''A''
      (example_between (example_peer ''L'' 0 1 kRoleTypeServer) (example_peer ''A'' 2 3 kRoleTypeClient)) = Some (kEebusErrorOk, S') \<and>
    vector_list (subscription_entries (subscription_manager S')) = [FeatureLinkCreate 0 (Some 1) (Some 3)] \<and>
    written (senders S' ''A'') = [result]"
proof -
  let ?a = "\<lparr>device = Some ''L'', entity = Some [Some 1], feature = Some 2\<rparr> :: FeatureAddressType"
  let ?L = "example_peer ''L'' 0 1 kRoleTypeServer" and ?A = "example_peer ''A'' 2 3 kRoleTypeClient"
  let ?C = "example_between (example_peer ''A'' 0 1 kRoleTypeClient) (example_peer ''L'' 2 3 kRoleTypeServer)" and ?S = "example_between ?L ?A"
  note d = example_peer_def example_between_def example_device_def example_client_def NodeManagementAddress_def
  have send: "GetRemoteDeviceSender ?C ?a = Some ''L''" "written (senders ?C ''L'') = []" "writer (senders ?C ''L'')"
      "written (senders ?S ''A'') = []" "writer (senders ?S ''A'')"
    by (simp_all add: GetRemoteDeviceSender_def GetRemoteDeviceWithAddress_def d example_node_def SenderConstruct_def)
  then obtain C' where C': "FeatureLocalSubscribeToRemote example_client ?a ?C = (kEebusErrorOk, C')"
    by (auto simp: FeatureLocalSubscribeToRemote_def example_client_def with_sender_def CallSubscribe_def SendNodeManagmentCall_def
        SendSpineMessage_def SenderGetNextMsgCounter_def Let_def)
  have w: "world ?S = \<lparr>local_device = ?L, remote_devices = [?A]\<rparr>" "subscription_manager ?S = SubscriptionManagerConstruct"
    "fst (node_management ?S) = 0" by (simp_all add: example_between_def example_node_def example_node_management_def)
  have get: "GetRemoteDeviceWithSki ?S ''A'' = Some ?A" by (simp add: GetRemoteDeviceWithSki_def d)
  obtain nm where nm: "LocalGetFeatureWithAddress ?L (Some (NodeManagementAddress (device ?a))) = Some nm" "fst nm = 0"
    by (simp add: LocalGetFeatureWithAddress_def d DeviceGetEntity_def match_ids EntityGetFeatureWithId_def)
  obtain r gm where gm: "RemoteGetFeatureWithAddress ?A (Some (NodeManagementAddress (device (feature_address (snd example_client))))) = Some (Some (r, gm))"
    by (simp add: RemoteGetFeatureWithAddress_def d DeviceGetEntity_def match_ids EntityGetFeatureWithId_def)
  obtain f where f: "LocalGetFeatureWithAddress ?L (Some ?a) = Some (1, f)" "FeatureParametersMatch (Some f) kRoleTypeServer 3"
    by (simp add: LocalGetFeatureWithAddress_def d DeviceGetEntity_def match_ids EntityGetFeatureWithId_def FeatureParametersMatch_def)
  obtain g where g: "RemoteGetFeatureWithAddress ?A (Some (feature_address (snd example_client))) = Some (Some (3, g))"
      "FeatureParametersMatch (Some g) kRoleTypeClient 3"
    by (simp add: RemoteGetFeatureWithAddress_def d DeviceGetEntity_def match_ids EntityGetFeatureWithId_def FeatureParametersMatch_def)
  have empty: "vector_list (subscription_entries SubscriptionManagerConstruct) = []"
      "num_elements (subscription_entries SubscriptionManagerConstruct) < num_elements_max"
      "subscription_num SubscriptionManagerConstruct = 0"
      "container_ok (world ?S) (subscription_entries SubscriptionManagerConstruct)"
    by (simp_all add: SubscriptionManagerConstruct_def container_ok_def vector_ok_def vector_list_def VectorConstruct_def
        num_elements_max_def pointer_size_def)
  have t: "feature_type (snd example_client) = 3" by (simp add: example_client_def)
  have "\<exists>dg S' result. written (senders C' ''L'') = written (senders ?C ''L'') @ [dg] \<and>
    ProcessDatagram False load_control_model (\<lambda>_ _ _. []) (Some dg) ''A'' ?S = Some (kEebusErrorOk, S') \<and>
    vector_list (subscription_entries (subscription_manager S')) = vector_list (subscription_entries (subscription_manager ?S)) @
      [FeatureLinkCreate (subscription_num (subscription_manager ?S)) (Some 1) (Some 3)] \<and>
    written (senders S' ''A'') = written (senders ?S ''A'') @ [result] \<and>
    Option.bind (header result) msg_cnt_ref = Option.bind (header dg) msg_cnt"
    by (rule subscribe_call_subscribes [OF C' send(1), where nm = nm and dr = ?A and r = r and gm = gm and f = f and g = g])
      (use t w get nm gm f g send(5) empty in simp_all)
  then show ?thesis using C' w(2) empty(1,3) send(2,4) by auto
qed

section \<open>The heartbeat\<close>

text \<open>What a beat needs: a running manager whose feature has the function, a model that describes it, and subscribers that can be told.\<close>

definition beat_ready :: "bool \<Rightarrow> Model \<Rightarrow> self \<Rightarrow> HeartbeatManager \<Rightarrow> Node \<Rightarrow> bool" where
  "beat_ready z m self hm n \<longleftrightarrow> model_wf m \<and> kFunctionTypeDeviceDiagnosisHeartbeatData < length (data_choice_data_cfg m) \<and>
     hb_local_feature hm = Some self \<and> hb_running hm \<and> heartbeat_timeout hm > 0 \<and> can_notify n \<and>
     FeatureGetFunction (fl_functions (locals n (fst self))) kFunctionTypeDeviceDiagnosisHeartbeatData \<noteq> None"

definition fits_heartbeat :: "bool \<Rightarrow> Model \<Rightarrow> u32 \<Rightarrow> EebusData \<Rightarrow> bool" where
  "fits_heartbeat z m timeout now \<longleftrightarrow>
     (\<forall>num. fits z (data_choice_data_cfg m ! kFunctionTypeDeviceDiagnosisHeartbeatData) (heartbeat_value now num timeout))"

lemma beat:
  assumes "beat_ready z m self hm n" "fits_heartbeat z m (heartbeat_timeout hm) now"
  obtains n' cmd where "UpdateHeartbeatData z m now hm n = Some n'"
    "FeatureLocalGetData self kFunctionTypeDeviceDiagnosisHeartbeatData n' = Some (heartbeat_value now (heartbeat_num hm) (heartbeat_timeout hm))"
    "can_notify n'" "data_choice cmd = heartbeat_value now (heartbeat_num hm) (heartbeat_timeout hm)"
    "\<And>ski. map datagram_contents (written (senders n' ski)) = map datagram_contents (written (senders n ski)) @
       map (\<lambda>ca. (Some (feature_address (snd self)), Some ca, Some kCommandClassifierTypeNotify, Some [Some cmd]))
         (subscribers n (feature_address (snd self)) ski)"
proof -
  let ?d = "heartbeat_value now (heartbeat_num hm) (heartbeat_timeout hm)" and ?t = kFunctionTypeDeviceDiagnosisHeartbeatData
  obtain fn where fn: "FeatureGetFunction (fl_functions (locals n (fst self))) ?t = Some fn" using assms(1) by (auto simp: beat_ready_def)
  have f: "fits z (data_choice_data_cfg m ! ?t) ?d" using assms(2) by (simp add: fits_heartbeat_def)
  have r: "model_wf m" "can_notify n" "?t < length (data_choice_data_cfg m)" "hb_local_feature hm = Some self"
    using assms(1) by (simp_all add: beat_ready_def)
  show thesis
  proof (rule full_update [OF r(1,2) fn r(3) f])
    fix fn' n1 n2 cmd
    assume u: "update_function z m self fn ?d None None n = Some (kEebusErrorOk, fn', n1)"
      "FunctionUpdateNotifySubscribers z m self fn' ?d None None n1 = Some (kEebusErrorOk, n2)"
      "FeatureLocalGetData self ?t n2 = Some ?d" "can_notify n2" "data_choice cmd = ?d"
      "\<And>ski. map datagram_contents (written (senders n2 ski)) = map datagram_contents (written (senders n ski)) @
       map (\<lambda>ca. (Some (feature_address (snd self)), Some ca, Some kCommandClassifierTypeNotify, Some [Some cmd]))
         (subscribers n (feature_address (snd self)) ski)"
    have "UpdateHeartbeatData z m now hm n = Some n2"
      using r(4) fn u(1,2) by (simp add: UpdateHeartbeatData_def FeatureLocalSetData_def FeatureLocalUpdateData_def)
    then show thesis using that u(3-6) by blast
  qed
qed

text \<open>The ticks of the seconds, each with its time stamp.\<close>

fun heartbeat_ticks :: "bool \<Rightarrow> Model \<Rightarrow> EebusData list \<Rightarrow> HeartbeatManager \<Rightarrow> Node \<Rightarrow> (HeartbeatManager \<times> Node) option" where
  "heartbeat_ticks z m [] hm n = Some (hm, n)"
| "heartbeat_ticks z m (now # nows) hm n = Option.bind (HeartbeatTick z m now hm n) (\<lambda>(hm, n). heartbeat_ticks z m nows hm n)"

lemma silent_ticks:
  assumes "hb_running hm" "heartbeat_timeout hm > 0" "length nows < unat (tick_cnt hm)"
  shows "heartbeat_ticks z m nows hm n = Some (hm\<lparr>tick_cnt := tick_cnt hm - of_nat (length nows)\<rparr>, n)"
  using assms
proof (induction nows arbitrary: hm)
  case (Cons now nows)
  let ?hm = "hm\<lparr>tick_cnt := tick_cnt hm - 1\<rparr>"
  have pos: "tick_cnt hm > 0" using Cons.prems(3) by (auto simp: word_gt_0)
  then have dec: "unat (tick_cnt hm - 1) = unat (tick_cnt hm) - 1" by (simp add: unat_minus_one word_gt_0)
  then have "unat (tick_cnt hm - 1) \<noteq> 0" using Cons.prems(3) by simp
  then have "tick_cnt hm - 1 \<noteq> 0" by auto
  then have "HeartbeatTick z m now hm n = Some (?hm, n)"
    using Cons.prems(1,2) pos by (auto simp: HeartbeatTick_def Let_def word_gt_0)
  moreover have "heartbeat_ticks z m nows ?hm n = Some (?hm\<lparr>tick_cnt := tick_cnt ?hm - of_nat (length nows)\<rparr>, n)"
    using Cons.prems dec by (intro Cons.IH) simp_all
  ultimately show ?case by (simp add: algebra_simps)
qed simp

lemma ticks_append:
  "heartbeat_ticks z m (xs @ ys) hm n = Option.bind (heartbeat_ticks z m xs hm n) (\<lambda>(hm, n). heartbeat_ticks z m ys hm n)"
  by (induction xs arbitrary: hm n) (auto split: bind_split)

lemma next_interval:
  fixes t :: u32
  assumes "t > 0"
  shows "(if t * 3 div 4 = 0 then 1 else t * 3 div 4) \<le> t" "(if t * 3 div 4 = 0 then 1 else t * 3 div 4) > 0"
proof -
  have "unat (t * 3) \<le> unat t * 3" by (simp add: unat_word_ariths)
  then have "unat (t * 3 div 4) \<le> unat t" by (simp add: unat_div)
  moreover have "1 \<le> t" using assms by (simp add: word_le_nat_alt word_less_nat_alt)
  ultimately show "(if t * 3 div 4 = 0 then 1 else t * 3 div 4) \<le> t" by (simp add: word_le_nat_alt)
qed (simp add: word_gt_0)

definition beating :: "bool \<Rightarrow> Model \<Rightarrow> self \<Rightarrow> HeartbeatManager \<Rightarrow> Node \<Rightarrow> bool" where
  "beating z m self hm n \<longleftrightarrow> beat_ready z m self hm n \<and> 0 < tick_cnt hm \<and> tick_cnt hm \<le> heartbeat_timeout hm"

text \<open>
  C15. The heart beats in time. With a running manager, the next beat comes when its counter of ticks has run
  down, which is never more ticks than the announced timeout has seconds: the counter of beats goes up by one,
  the function has the new data, and every subscriber is sent it. And then the same is true of the next beat.
\<close>

theorem heartbeat_in_time:
  assumes "beating z m self hm n" "length nows = unat (tick_cnt hm)" "list_all (fits_heartbeat z m (heartbeat_timeout hm)) nows"
  shows "length nows \<le> unat (heartbeat_timeout hm) \<and>
    (\<exists>hm' n' cmd. heartbeat_ticks z m nows hm n = Some (hm', n') \<and> heartbeat_num hm' = heartbeat_num hm + 1 \<and>
      FeatureLocalGetData self kFunctionTypeDeviceDiagnosisHeartbeatData n' =
        Some (heartbeat_value (last nows) (heartbeat_num hm') (heartbeat_timeout hm)) \<and>
      data_choice cmd = heartbeat_value (last nows) (heartbeat_num hm') (heartbeat_timeout hm) \<and>
      (\<forall>ski. map datagram_contents (written (senders n' ski)) = map datagram_contents (written (senders n ski)) @
         map (\<lambda>ca. (Some (feature_address (snd self)), Some ca, Some kCommandClassifierTypeNotify, Some [Some cmd]))
           (subscribers n (feature_address (snd self)) ski)) \<and>
      beating z m self hm' n' \<and> heartbeat_timeout hm' = heartbeat_timeout hm)"
proof -
  note r = assms(1) [unfolded beating_def]
  have "nows \<noteq> []" using assms(2) r by (auto simp: word_gt_0 unat_eq_0)
  then obtain xs now where nows: "nows = xs @ [now]" by (metis rev_exhaust)
  let ?h1 = "hm\<lparr>tick_cnt := 1\<rparr>" and ?h2 = "hm\<lparr>tick_cnt := 0, heartbeat_num := heartbeat_num hm + 1\<rparr>"
  have "tick_cnt hm - of_nat (length xs) = 1"
  proof -
    have "tick_cnt hm = of_nat (unat (tick_cnt hm))" by simp
    also have "unat (tick_cnt hm) = Suc (length xs)" using assms(2) nows by simp
    finally have "tick_cnt hm = of_nat (Suc (length xs))" .
    then show ?thesis by simp
  qed
  then have xs: "heartbeat_ticks z m xs hm n = Some (?h1, n)"
    using silent_ticks [of hm xs z m n] r assms(2) by (simp add: beat_ready_def nows)
  have ready: "beat_ready z m self ?h2 n" using r by (simp add: beat_ready_def)
  have fits: "fits_heartbeat z m (heartbeat_timeout ?h2) now" using assms(3) by (simp add: nows)
  show ?thesis
  proof (rule beat [OF ready fits])
    fix n' cmd
    assume b: "UpdateHeartbeatData z m now ?h2 n = Some n'"
      "FeatureLocalGetData self kFunctionTypeDeviceDiagnosisHeartbeatData n' = Some (heartbeat_value now (heartbeat_num ?h2) (heartbeat_timeout ?h2))"
      "can_notify n'" "data_choice cmd = heartbeat_value now (heartbeat_num ?h2) (heartbeat_timeout ?h2)"
      "\<And>ski. map datagram_contents (written (senders n' ski)) = map datagram_contents (written (senders n ski)) @
       map (\<lambda>ca. (Some (feature_address (snd self)), Some ca, Some kCommandClassifierTypeNotify, Some [Some cmd]))
         (subscribers n (feature_address (snd self)) ski)"
    let ?t = "heartbeat_timeout hm"
    let ?h = "?h2\<lparr>tick_cnt := (if ?t * 3 div 4 = 0 then 1 else ?t * 3 div 4)\<rparr>"
    have "HeartbeatTick z m now ?h1 n = Some (?h, n')"
      using r b(1) by (auto simp: HeartbeatTick_def beat_ready_def Let_def)
    then have run: "heartbeat_ticks z m nows hm n = Some (?h, n')" by (simp add: nows ticks_append xs)
    have "beating z m self ?h n'"
      using r b(2,3) next_interval [of ?t] by (auto simp: beating_def beat_ready_def FeatureLocalGetData_def)
    then show ?thesis
      using run b(2,4,5) r assms(2) by (intro conjI exI [of _ ?h] exI [of _ n'] exI [of _ cmd]) (simp_all add: nows word_le_nat_alt)
  qed
qed

text \<open>The function of the heartbeat as the model describes it; the other entries of the tables do not matter here.\<close>

definition device_diagnosis_heartbeat_data_cfg :: "EebusDataCfg list" where
  "device_diagnosis_heartbeat_data_cfg =
     [EebusDataCfg eebus_data_absolute_or_relative_time_methods ''timestamp'' 32 0 [],
      EebusDataCfg eebus_data_numeric_methods ''heartbeatCounter'' 8 0 [],
      EebusDataCfg eebus_data_absolute_or_relative_time_methods ''heartbeatTimeout'' 28 0 []]"

definition device_diagnosis_heartbeat_data_elements_cfg :: "EebusDataCfg list" where
  "device_diagnosis_heartbeat_data_elements_cfg =
     [tag_cfg ''timestamp'', tag_cfg ''heartbeatCounter'', tag_cfg ''heartbeatTimeout'']"

definition heartbeat_model :: Model where
  "heartbeat_model =
     (let n = kFunctionTypeDeviceDiagnosisHeartbeatData + 1 in
      \<lparr>data_choice_data_cfg = replicate n (EEBUS_DATA_SEQUENCE ''deviceDiagnosisHeartbeatData'' 24 device_diagnosis_heartbeat_data_cfg),
       data_selectors_choice_data_cfg = replicate n (EebusDataCfg eebus_data_stub_methods ''deviceDiagnosisHeartbeatDataSelectors'' 0 0 []),
       data_elements_choice_data_cfg =
         replicate n (EEBUS_DATA_SEQUENCE ''deviceDiagnosisHeartbeatDataElements'' 24 device_diagnosis_heartbeat_data_elements_cfg)\<rparr>)"

definition example_heart :: HeartbeatManager where
  "example_heart = \<lparr>hb_local_feature = Some example_self, heartbeat_num = 4, tick_cnt = 2, heartbeat_timeout = 4, hb_running = True\<rparr>"

definition example_beating :: Node where
  "example_beating = upd_local 1 (\<lambda>fl. fl\<lparr>fl_functions := [FunctionConstruct heartbeat_model kFunctionTypeDeviceDiagnosisHeartbeatData]\<rparr>)
     (example_node [])"

theorem heartbeat_in_time_witness:
  "\<exists>hm' n'. heartbeat_ticks False heartbeat_model [Simple (replicate 32 CHR 0x00), Simple (replicate 32 CHR 0x01)] example_heart example_beating =
      Some (hm', n') \<and> heartbeat_num hm' = 5 \<and> beating False heartbeat_model example_self hm' n'"
proof -
  let ?nows = "[Simple (replicate 32 CHR 0x00), Simple (replicate 32 CHR 0x01)]"
  have m: "model_wf heartbeat_model" "kFunctionTypeDeviceDiagnosisHeartbeatData < length (data_choice_data_cfg heartbeat_model)"
    by (simp_all add: heartbeat_model_def Let_def model_wf_def list_all_iff cfg_wf.simps [of "EebusDataCfg _ _ _ _ _"] EEBUS_DATA_SEQUENCE_def
        device_diagnosis_heartbeat_data_cfg_def device_diagnosis_heartbeat_data_elements_cfg_def tag_cfg_def EebusDataBaseHasIdentifiersFlags_def)
  have "fits_heartbeat False heartbeat_model 4 (Simple (replicate 32 b))" for b
    unfolding fits_heartbeat_def
    by (simp add: heartbeat_model_def Let_def nth_replicate heartbeat_value_def EEBUS_DATA_SEQUENCE_def fits_Seq_iff
        device_diagnosis_heartbeat_data_cfg_def fits.simps [of False "EebusDataCfg _ _ _ _ _"] u64_bytes_def del: replicate_Suc replicate.simps)
  then have f: "list_all (fits_heartbeat False heartbeat_model (heartbeat_timeout example_heart)) ?nows" by (simp add: example_heart_def)
  have "beating False heartbeat_model example_self example_heart example_beating"
    using m example_ok(3) by (simp add: beating_def beat_ready_def example_heart_def example_beating_def can_notify_def example_node_def
        SenderConstruct_def FeatureGetFunction_def FunctionConstruct_def example_self_def upd_local_def)
  from heartbeat_in_time [OF this _ f] show ?thesis by (auto simp: example_heart_def)
qed

end
