(* ===== verification/Use_Case_Data.thy ===== *)
theory Use_Case_Data
  imports Eebus_Date_Time Spine_Heartbeat Spine_Feature_Laws
begin

text \<open>
  The data that use cases read and write: \<^verbatim>\<open>use_case/model\<close>, \<^verbatim>\<open>use_case/specialization\<close> (load control and device
  configuration, with the feature that a local entity serves them from), \<^verbatim>\<open>loadcontrol_types.c\<close> and
  \<^verbatim>\<open>device_configuration_types.c\<close>. A C structure is the value that its descriptors see (\<open>EebusData\<close>), a member the value
  at its index; numbers are their bytes, the lowest first.
\<close>

section \<open>Members and numbers\<close>

definition member :: "nat \<Rightarrow> EebusData \<Rightarrow> EebusData" where
  "member i v = (case v of Seq ds \<Rightarrow> if i < length ds then ds ! i else Null | _ \<Rightarrow> Null)"

definition set_member :: "nat \<Rightarrow> EebusData \<Rightarrow> EebusData \<Rightarrow> EebusData" where
  "set_member i d v = (case v of Seq ds \<Rightarrow> Seq (ds[i := d]) | _ \<Rightarrow> v)"

text \<open>The elements of a list member; a null pointer comes with the size 0.\<close>

definition elements_of :: "EebusData \<Rightarrow> EebusData list" where
  "elements_of v = (case v of Lst ds \<Rightarrow> ds | _ \<Rightarrow> [])"

fun bytes_nat :: "byte list \<Rightarrow> nat" where
  "bytes_nat [] = 0"
| "bytes_nat (b # bs) = of_char b + 256 * bytes_nat bs"

definition bytes_int :: "byte list \<Rightarrow> int" where
  "bytes_int bs =
     (let k = int (bytes_nat bs) in if 2 * k \<ge> 256 ^ length bs then k - 256 ^ length bs else k)"

fun nat_bytes :: "nat \<Rightarrow> nat \<Rightarrow> byte list" where
  "nat_bytes 0 k = []"
| "nat_bytes (Suc n) k = char_of (k mod 256) # nat_bytes n (k div 256)"

definition int_bytes :: "nat \<Rightarrow> int \<Rightarrow> byte list" where
  "int_bytes n k = nat_bytes n (nat (k mod 256 ^ n))"

lemma length_nat_bytes [simp]: "length (nat_bytes n k) = n"
  by (induction n k rule: nat_bytes.induct) simp_all

lemma bytes_nat_bytes: "bytes_nat (nat_bytes n k) = k mod 256 ^ n"
proof (induction n k rule: nat_bytes.induct)
  case (2 n k)
  have "(k mod 256) mod 256 + 256 * (k div 256 mod 256 ^ n) = k mod (256 * 256 ^ n)"
    by (simp add: mod_mult2_eq)
  then show ?case using 2 by (simp add: of_char_of take_bit_eq_mod)
qed simp

lemma bytes_int_bytes:
  assumes "- (256 ^ n) \<le> 2 * k" "2 * k < 256 ^ n"
  shows "bytes_int (int_bytes n k) = k"
proof -
  have "int (nat (k mod 256 ^ n) mod 256 ^ n) = k mod 256 ^ n" by (simp add: zmod_int)
  then have b: "int (bytes_nat (int_bytes n k)) = k mod 256 ^ n" "length (int_bytes n k) = n"
    by (simp_all add: int_bytes_def bytes_nat_bytes)
  show ?thesis
  proof (cases "0 \<le> k")
    case True
    then have "k mod 256 ^ n = k" using assms(2) by (intro mod_pos_pos_trivial) linarith+
    then show ?thesis using b assms(2) by (simp add: bytes_int_def)
  next
    case False
    have "(k + 256 ^ n) mod 256 ^ n = k + 256 ^ n"
      using assms(1) False by (intro mod_pos_pos_trivial) linarith+
    then have "k mod 256 ^ n = k + 256 ^ n" by simp
    then show ?thesis using b assms(1) False by (simp add: bytes_int_def)
  qed
qed

text \<open>The number that a pointer points to.\<close>

definition value_int :: "EebusData \<Rightarrow> int option" where
  "value_int v = (case v of Simple bs \<Rightarrow> Some (bytes_int bs) | _ \<Rightarrow> None)"

definition value_nat :: "EebusData \<Rightarrow> nat option" where
  "value_nat v = (case v of Simple bs \<Rightarrow> Some (bytes_nat bs) | _ \<Rightarrow> None)"

definition value_flag :: "EebusData \<Rightarrow> bool" where
  "value_flag v = (case v of Simple [b] \<Rightarrow> b \<noteq> CHR 0x00 | _ \<Rightarrow> False)"

definition u32_value :: "nat \<Rightarrow> EebusData" where "u32_value k = Simple (nat_bytes 4 k)"
definition enum_value :: "nat \<Rightarrow> EebusData" where "enum_value k = Simple (nat_bytes 4 k)"
definition bool_value :: "bool \<Rightarrow> EebusData" where "bool_value b = Simple [if b then CHR 0x01 else CHR 0x00]"

definition duration_bytes :: "EebusDuration \<Rightarrow> byte list" where
  "duration_bytes d =
     concat (map (int_bytes 4) [years d, months d, days d, hours d, minutes d, seconds d, milliseconds d])"

definition bytes_duration :: "byte list \<Rightarrow> EebusDuration" where
  "bytes_duration bs =
     (let f = (\<lambda>i. bytes_int (take 4 (drop (4 * i) bs)))
      in \<lparr>years = f 0, months = f 1, days = f 2, hours = f 3, minutes = f 4, seconds = f 5, milliseconds = f 6\<rparr>)"

text \<open>\<^verbatim>\<open>AbsoluteOrRelativeTimeType\<close>: the kind, then a date with time or a duration in the same place.\<close>

definition bytes_date_time :: "byte list \<Rightarrow> EebusDateTime" where
  "bytes_date_time bs =
     (let f = (\<lambda>i. bytes_int (take 4 (drop (4 * i) bs)))
      in \<lparr>dt_date = \<lparr>year = f 0, month = f 1, day = f 2\<rparr>, dt_time = \<lparr>hour = f 3, minute = f 4, sec = f 5\<rparr>\<rparr>)"

definition value_time :: "EebusData \<Rightarrow> AbsoluteOrRelativeTimeType option" where
  "value_time v =
     (case v of
        Simple bs \<Rightarrow>
          Some (if bytes_int (take 4 bs) = 0 then kAbsoluteOrRelativeTimeTypeDateTime (bytes_date_time (drop 4 bs))
                else kAbsoluteOrRelativeTimeTypeDuration (bytes_duration (drop 4 bs)))
      | _ \<Rightarrow> None)"

section \<open>Scaled values and limits\<close>

record ScaledValue =
  sv_value :: int
  sv_scale :: int

text \<open>Members of \<^verbatim>\<open>ScaledNumberType\<close>: number, scale. An error leaves the result as it was.\<close>

definition ScaledValueInitWithScaledNumber :: "EebusData \<Rightarrow> EebusError + ScaledValue" where
  "ScaledValueInitWithScaledNumber v =
     (if v = Null then Inl kEebusErrorInputArgumentNull
      else case value_int (member 0 v) of
             None \<Rightarrow> Inl kEebusErrorInputArgument
           | Some k \<Rightarrow>
               Inr \<lparr>sv_value = k, sv_scale = (case value_int (member 1 v) of None \<Rightarrow> 0 | Some s \<Rightarrow> s)\<rparr>)"

definition scaled_number_value :: "ScaledValue \<Rightarrow> EebusData" where
  "scaled_number_value s = Seq [Simple (int_bytes 8 (sv_value s)), Simple (int_bytes 1 (sv_scale s))]"

text \<open>Members of \<^verbatim>\<open>LoadControlLimitDataType\<close>: limitId, isLimitChangeable, isLimitActive, timePeriod, value.\<close>

definition LoadControlLimitIsValid :: "EebusData \<Rightarrow> bool" where
  "LoadControlLimitIsValid limit_data \<longleftrightarrow>
     limit_data \<noteq> Null \<and> member 0 limit_data \<noteq> Null \<and> member 4 limit_data \<noteq> Null \<and> member 0 (member 4 limit_data) \<noteq> Null"

definition LoadControlLimitIsLimitChangeable :: "EebusData \<Rightarrow> bool" where
  "LoadControlLimitIsLimitChangeable limit_data = value_flag (member 1 limit_data)"

definition LoadControlLimitIsActive :: "EebusData \<Rightarrow> bool" where
  "LoadControlLimitIsActive limit_data = value_flag (member 2 limit_data)"

definition LoadControlLimitGetValue :: "EebusData \<Rightarrow> EebusData" where
  "LoadControlLimitGetValue limit_data = member 4 limit_data"

text \<open>The error, whether there is no duration, and the duration if one is stored.\<close>

definition LoadControlLimitGetDuration :: "EebusData \<Rightarrow> EebusError \<times> bool \<times> EebusDuration option" where
  "LoadControlLimitGetDuration limit_data =
     (case value_time (member 1 (member 3 limit_data)) of
        None \<Rightarrow> (kEebusErrorOk, True, None)
      | Some (kAbsoluteOrRelativeTimeTypeDuration d) \<Rightarrow> (kEebusErrorOk, False, Some d)
      | Some (kAbsoluteOrRelativeTimeTypeDateTime _) \<Rightarrow> (kEebusErrorNoChange, False, None))"

text \<open>The duration of a limit is \<open>None\<close> while nothing was stored in it.\<close>

record LoadLimit =
  ll_value :: ScaledValue
  ll_duration :: "EebusDuration option"
  ll_is_changeable :: bool
  ll_is_active :: bool
  ll_delete_duration :: bool

definition LoadLimitInitWithLoadControlLimitData :: "EebusData \<Rightarrow> EebusError + LoadLimit" where
  "LoadLimitInitWithLoadControlLimitData limit_data =
     (if \<not> LoadControlLimitIsValid limit_data then Inl kEebusErrorOther
      else case ScaledValueInitWithScaledNumber (LoadControlLimitGetValue limit_data) of
             Inl err \<Rightarrow> Inl err
           | Inr v \<Rightarrow>
               (case LoadControlLimitGetDuration limit_data of
                  (err, is_null, d) \<Rightarrow>
                    if err \<noteq> kEebusErrorOk then Inl err
                    else Inr \<lparr>ll_value = v, ll_duration = d, ll_is_changeable = LoadControlLimitIsLimitChangeable limit_data,
                              ll_is_active = LoadControlLimitIsActive limit_data, ll_delete_duration = is_null\<rparr>))"

text \<open>Members of \<^verbatim>\<open>DeviceConfigurationKeyValueDataType\<close>: keyId, value, isValueChangeable; the value has eight alternatives.\<close>

definition DeviceConfigurationKeyValueIsValid :: "EebusData \<Rightarrow> bool" where
  "DeviceConfigurationKeyValueIsValid kv \<longleftrightarrow> kv \<noteq> Null \<and> member 0 kv \<noteq> Null \<and> member 1 kv \<noteq> Null"

definition kv_duration :: "EebusData \<Rightarrow> EebusData" where "kv_duration kv = member 3 (member 1 kv)"

definition DeviceConfigurationKeyValueGetDuration :: "EebusData \<Rightarrow> EebusError + EebusDuration" where
  "DeviceConfigurationKeyValueGetDuration kv =
     (if kv = Null then Inl kEebusErrorInputArgumentNull
      else case kv_duration kv of
             Simple bs \<Rightarrow> Inr (bytes_duration bs)
           | _ \<Rightarrow> Inl kEebusErrorNoChange)"

definition DeviceConfigurationKeyValueGetScaledNumber :: "EebusData \<Rightarrow> EebusData" where
  "DeviceConfigurationKeyValueGetScaledNumber kv = member 6 (member 1 kv)"

definition DeviceConfigurationKeyValueIsChangeable :: "EebusData \<Rightarrow> bool" where
  "DeviceConfigurationKeyValueIsChangeable kv = value_flag (member 2 kv)"

section \<open>The features of a use case\<close>

text \<open>The local entity is found by its address.\<close>

definition local_entity_at :: "Node \<Rightarrow> EntityAddressType \<Rightarrow> Entity option" where
  "local_entity_at n ea = List.find (\<lambda>e. entity_address e = ea) (device_entities (local_device (world n)))"

definition GetFeatureWithTypeAndRole :: "Entity \<Rightarrow> nat \<Rightarrow> RoleType \<Rightarrow> self option" where
  "GetFeatureWithTypeAndRole e t r = List.find (\<lambda>(p, f). t = feature_type f \<and> r = feature_role f) (entity_features e)"

definition FeatureInfoServerConstruct :: "Node \<Rightarrow> EntityAddressType \<Rightarrow> nat \<Rightarrow> EebusError + self" where
  "FeatureInfoServerConstruct n ea t =
     (case Option.bind (local_entity_at n ea) (\<lambda>e. GetFeatureWithTypeAndRole e t kRoleTypeServer) of
        None \<Rightarrow> Inl kEebusErrorInputArgumentNull
      | Some f \<Rightarrow> Inr f)"

definition HelperGetFeatureData :: "Node \<Rightarrow> ptr option \<Rightarrow> ptr option \<Rightarrow> nat \<Rightarrow> EebusData" where
  "HelperGetFeatureData n lf rf t =
     (let data = (\<lambda>fs. case FeatureGetFunction fs t of None \<Rightarrow> Null | Some fn \<Rightarrow> fdata fn)
      in case lf of
           Some p \<Rightarrow> data (fl_functions (locals n p))
         | None \<Rightarrow> (case rf of Some q \<Rightarrow> data (remotes n q) | None \<Rightarrow> Null))"

text \<open>
  The iterator over the elements of the list in a container that match a pattern; the descriptor is that of the
  list, the state an index. \<open>unique_match\<close> is the element if there is exactly one.
\<close>

definition list_cfg_of :: "Model \<Rightarrow> nat \<Rightarrow> EebusDataCfg option" where
  "list_cfg_of m t =
     Option.bind (ModelGetDataCfg m t) (\<lambda>cfg.
       case metadata cfg of
         [] \<Rightarrow> None
       | lc # _ \<Rightarrow> if cfg_interface lc = eebus_data_list_methods then Some lc else None)"

definition HelperListMatchFirst :: "Model \<Rightarrow> nat \<Rightarrow> EebusData \<Rightarrow> EebusData \<Rightarrow> nat option" where
  "HelperListMatchFirst m t container pattern =
     Option.bind (list_cfg_of m t) (\<lambda>lc. EebusDataListMatchIteratorConstruct lc (member 0 container) pattern)"

definition HelperGetListUniqueMatch :: "Model \<Rightarrow> nat \<Rightarrow> EebusData \<Rightarrow> EebusData \<Rightarrow> EebusData" where
  "HelperGetListUniqueMatch m t container pattern =
     (case (list_cfg_of m t, HelperListMatchFirst m t container pattern) of
        (Some lc, Some i) \<Rightarrow>
          if EebusDataListMatchIteratorNext lc (member 0 container) pattern (Some i) \<noteq> None then Null
          else EebusDataListMatchIteratorGet (member 0 container) (Some i)
      | _ \<Rightarrow> Null)"

text \<open>All elements that the iterator visits.\<close>

lemma iterator_next:
  assumes "EebusDataListMatchIteratorNext lc v pattern (Some i) = Some j"
  shows "i < j \<and> j < length (elements_of v)"
proof -
  obtain ds ec where "v = Lst ds" "EebusDataListDataFindMatching ec ds (Suc i) pattern = Some j"
    using assms by (auto simp: EebusDataListMatchIteratorNext_def with_element_def split: EebusData.splits list.splits)
  then show ?thesis
    by (auto simp: EebusDataListDataFindMatching_def elements_of_def find_Some_iff nth_append)
qed

function matches_from :: "EebusDataCfg \<Rightarrow> EebusData \<Rightarrow> EebusData \<Rightarrow> nat option \<Rightarrow> EebusData list" where
  "matches_from lc v pattern None = []"
| "matches_from lc v pattern (Some i) =
     EebusDataListMatchIteratorGet v (Some i) #
       matches_from lc v pattern (EebusDataListMatchIteratorNext lc v pattern (Some i))"
  by pat_completeness auto
termination
  by (relation "measure (\<lambda>(lc, v, pattern, i). case i of None \<Rightarrow> 0 | Some i \<Rightarrow> Suc (length (elements_of v) - i))")
     (auto dest!: iterator_next split: option.split)

definition HelperListMatches :: "Model \<Rightarrow> nat \<Rightarrow> EebusData \<Rightarrow> EebusData \<Rightarrow> EebusData list" where
  "HelperListMatches m t container pattern =
     (case list_cfg_of m t of
        None \<Rightarrow> []
      | Some lc \<Rightarrow> matches_from lc (member 0 container) pattern (HelperListMatchFirst m t container pattern))"

definition FILTER :: "EebusData \<Rightarrow> nat \<Rightarrow> EebusData \<Rightarrow> EebusData \<Rightarrow> FilterType" where
  "FILTER ctrl t sels els =
     \<lparr>filter_id = Null, cmd_ctrl = ctrl, data_selectors_choice = sels, data_selectors_choice_type_id = t,
      data_elements_choice = els, data_elements_choice_type_id = t\<rparr>"

definition FILTER_PARTIAL :: "nat \<Rightarrow> EebusData \<Rightarrow> EebusData \<Rightarrow> FilterType" where
  "FILTER_PARTIAL = FILTER ctrl_partial"

definition FILTER_DELETE :: "nat \<Rightarrow> EebusData \<Rightarrow> EebusData \<Rightarrow> FilterType" where
  "FILTER_DELETE = FILTER ctrl_delete"

section \<open>Load control\<close>

text \<open>
  The common part works on a local feature (server) or on a remote one (client), \<open>lf\<close> and \<open>rf\<close>. A pattern for descriptions
  has the members of \<^verbatim>\<open>LoadControlLimitDescriptionDataType\<close>: limitId, limitType, limitCategory, limitDirection,
  measurementId, unit, scopeType, label, description.
\<close>

definition LimitIdMatch :: "EebusData \<Rightarrow> EebusData \<Rightarrow> bool" where
  "LimitIdMatch a b =
     (case (value_nat a, value_nat b) of (Some i, Some j) \<Rightarrow> i = j | _ \<Rightarrow> False)"

definition limit_id_pattern :: "EebusData \<Rightarrow> EebusData" where
  "limit_id_pattern i = Seq (i # replicate 8 Null)"

definition LoadControlCommonCheckLimitWithFilter ::
    "Model \<Rightarrow> Node \<Rightarrow> ptr option \<Rightarrow> ptr option \<Rightarrow> EebusData \<Rightarrow> EebusData \<Rightarrow> bool" where
  "LoadControlCommonCheckLimitWithFilter m n lf rf data pattern =
     (if data = Null \<or> pattern = Null then False
      else list_ex
        (\<lambda>descr. list_ex (\<lambda>item. LimitIdMatch (member 0 item) (member 0 descr) \<and> member 4 item \<noteq> Null)
                   (elements_of (member 0 data)))
        (HelperListMatches m kFunctionTypeLoadControlLimitDescriptionListData
           (HelperGetFeatureData n lf rf kFunctionTypeLoadControlLimitDescriptionListData) pattern))"

definition LoadControlCommonGetLimitDescriptionWithFilter ::
    "Model \<Rightarrow> Node \<Rightarrow> ptr option \<Rightarrow> ptr option \<Rightarrow> EebusData \<Rightarrow> EebusData" where
  "LoadControlCommonGetLimitDescriptionWithFilter m n lf rf pattern =
     HelperGetListUniqueMatch m kFunctionTypeLoadControlLimitDescriptionListData
       (HelperGetFeatureData n lf rf kFunctionTypeLoadControlLimitDescriptionListData) pattern"

definition LoadControlCommonGetLimitDescriptionWithId ::
    "Model \<Rightarrow> Node \<Rightarrow> ptr option \<Rightarrow> ptr option \<Rightarrow> EebusData \<Rightarrow> EebusData" where
  "LoadControlCommonGetLimitDescriptionWithId m n lf rf limit_id =
     LoadControlCommonGetLimitDescriptionWithFilter m n lf rf (limit_id_pattern limit_id)"

definition LoadControlCommonGetLimitWithFilter ::
    "Model \<Rightarrow> Node \<Rightarrow> ptr option \<Rightarrow> ptr option \<Rightarrow> EebusData \<Rightarrow> EebusData" where
  "LoadControlCommonGetLimitWithFilter m n lf rf pattern =
     (let descr = LoadControlCommonGetLimitDescriptionWithFilter m n lf rf pattern
      in if descr = Null \<or> member 0 descr = Null then Null
         else HelperGetListUniqueMatch m kFunctionTypeLoadControlLimitListData
                (HelperGetFeatureData n lf rf kFunctionTypeLoadControlLimitListData)
                (Seq [member 0 descr, Null, Null, Null, Null]))"

definition LoadControlCommonGetLimitWithId ::
    "Model \<Rightarrow> Node \<Rightarrow> ptr option \<Rightarrow> ptr option \<Rightarrow> EebusData \<Rightarrow> EebusData" where
  "LoadControlCommonGetLimitWithId m n lf rf limit_id =
     LoadControlCommonGetLimitWithFilter m n lf rf (limit_id_pattern limit_id)"

definition LoadControlServerConstruct :: "Node \<Rightarrow> EntityAddressType \<Rightarrow> EebusError + self" where
  "LoadControlServerConstruct n ea = FeatureInfoServerConstruct n ea kFeatureTypeTypeLoadControl"

text \<open>The loop over the descriptions for the next free identifier, in 32 bits.\<close>

definition next_id :: "EebusData list \<Rightarrow> u32" where
  "next_id ds =
     fold (\<lambda>d k. case value_nat (member 0 d) of None \<Rightarrow> k | Some i \<Rightarrow> if of_nat i \<ge> k then of_nat i + 1 else k) ds 0"

definition LoadControlServerGetNextLimitId :: "Node \<Rightarrow> self \<Rightarrow> u32" where
  "LoadControlServerGetNextLimitId n self =
     next_id (elements_of (member 0 (HelperGetFeatureData n (Some (fst self)) None kFunctionTypeLoadControlLimitDescriptionListData)))"

definition LoadControlServerAddLimitDescription ::
    "bool \<Rightarrow> Model \<Rightarrow> self \<Rightarrow> EebusData \<Rightarrow> Node \<Rightarrow> (EebusError \<times> u32 option \<times> Node) option" where
  "LoadControlServerAddLimitDescription z m self descr n =
     (if descr = Null then Some (kEebusErrorInputArgumentNull, None, n)
      else if member 0 descr \<noteq> Null then Some (kEebusErrorNoChange, None, n)
      else let i = LoadControlServerGetNextLimitId n self;
               data = Seq [Lst [set_member 0 (u32_value (unat i)) descr]]
           in map_option (\<lambda>(err, n). (err, Some i, n))
                (FeatureLocalUpdateData z m self kFunctionTypeLoadControlLimitDescriptionListData data
                  (Some (FILTER_PARTIAL kFunctionTypeLoadControlLimitDescriptionListData Null Null)) None n))"

definition UpdateLimitData ::
    "bool \<Rightarrow> Model \<Rightarrow> self \<Rightarrow> EebusData \<Rightarrow> EebusData \<Rightarrow> EebusData \<Rightarrow> Node \<Rightarrow> (EebusError \<times> Node) option" where
  "UpdateLimitData z m self data delete_selectors delete_elements n =
     FeatureLocalUpdateData z m self kFunctionTypeLoadControlLimitListData data
       (Some (FILTER_PARTIAL kFunctionTypeLoadControlLimitListData Null Null))
       (if delete_selectors = Null \<and> delete_elements = Null then None
        else Some (FILTER_DELETE kFunctionTypeLoadControlLimitListData delete_selectors delete_elements)) n"

definition LoadControlServerUpdateLimitWithFilter ::
    "bool \<Rightarrow> Model \<Rightarrow> self \<Rightarrow> EebusData \<Rightarrow> EebusData \<Rightarrow> EebusData \<Rightarrow> EebusData \<Rightarrow> Node \<Rightarrow> (EebusError \<times> Node) option" where
  "LoadControlServerUpdateLimitWithFilter z m self limit_data pattern delete_selectors delete_elements n =
     (if limit_data = Null \<or> pattern = Null then Some (kEebusErrorInputArgumentNull, n)
      else let descr = LoadControlCommonGetLimitDescriptionWithFilter m n (Some (fst self)) None pattern
           in if descr = Null \<or> member 0 descr = Null then Some (kEebusErrorNoChange, n)
              else UpdateLimitData z m self (Seq [Lst [set_member 0 (member 0 descr) limit_data]])
                     delete_selectors delete_elements n)"

text \<open>Here the identifier is taken from the description without looking whether it is there.\<close>

definition LoadControlServerUpdateLimitWithId ::
    "bool \<Rightarrow> Model \<Rightarrow> self \<Rightarrow> EebusData \<Rightarrow> EebusData \<Rightarrow> Node \<Rightarrow> (EebusError \<times> Node) option" where
  "LoadControlServerUpdateLimitWithId z m self limit_data limit_id n =
     (if limit_data = Null then Some (kEebusErrorInputArgumentNull, n)
      else let descr = LoadControlCommonGetLimitDescriptionWithFilter m n (Some (fst self)) None (limit_id_pattern limit_id)
           in if descr = Null then Some (kEebusErrorNoChange, n)
              else UpdateLimitData z m self (Seq [Lst [set_member 0 (member 0 descr) limit_data]]) Null Null n)"

section \<open>Device configuration\<close>

text \<open>
  A pattern for descriptions has the members of \<^verbatim>\<open>DeviceConfigurationKeyValueDescriptionDataType\<close>: keyId, keyName, valueType,
  unit, label, description.
\<close>

definition key_id_pattern :: "EebusData \<Rightarrow> EebusData" where
  "key_id_pattern i = Seq (i # replicate 5 Null)"

definition key_name_pattern :: "nat \<Rightarrow> EebusData" where
  "key_name_pattern nm = Seq [Null, enum_value nm, Null, Null, Null, Null]"

definition DeviceConfigurationCommonGetKeyValueDescriptionList :: "Node \<Rightarrow> ptr option \<Rightarrow> ptr option \<Rightarrow> EebusData" where
  "DeviceConfigurationCommonGetKeyValueDescriptionList n lf rf =
     HelperGetFeatureData n lf rf kFunctionTypeDeviceConfigurationKeyValueDescriptionListData"

definition DeviceConfigurationCommonCheckKeyValueWithFilter ::
    "Model \<Rightarrow> Node \<Rightarrow> ptr option \<Rightarrow> ptr option \<Rightarrow> EebusData \<Rightarrow> EebusData \<Rightarrow> bool" where
  "DeviceConfigurationCommonCheckKeyValueWithFilter m n lf rf data pattern =
     (if data = Null \<or> pattern = Null then False
      else list_ex
        (\<lambda>descr. list_ex (\<lambda>kv. LimitIdMatch (member 0 kv) (member 0 descr) \<and> member 1 kv \<noteq> Null) (elements_of (member 0 data)))
        (HelperListMatches m kFunctionTypeDeviceConfigurationKeyValueDescriptionListData
           (DeviceConfigurationCommonGetKeyValueDescriptionList n lf rf) pattern))"

definition DeviceConfigurationCommonGetKeyValueDescriptionWithFilter ::
    "Model \<Rightarrow> Node \<Rightarrow> ptr option \<Rightarrow> ptr option \<Rightarrow> EebusData \<Rightarrow> EebusData" where
  "DeviceConfigurationCommonGetKeyValueDescriptionWithFilter m n lf rf pattern =
     HelperGetListUniqueMatch m kFunctionTypeDeviceConfigurationKeyValueDescriptionListData
       (DeviceConfigurationCommonGetKeyValueDescriptionList n lf rf) pattern"

definition DeviceConfigurationCommonGetKeyValueDescriptionWithKeyId ::
    "Model \<Rightarrow> Node \<Rightarrow> ptr option \<Rightarrow> ptr option \<Rightarrow> EebusData \<Rightarrow> EebusData" where
  "DeviceConfigurationCommonGetKeyValueDescriptionWithKeyId m n lf rf key_id =
     DeviceConfigurationCommonGetKeyValueDescriptionWithFilter m n lf rf (key_id_pattern key_id)"

text \<open>The first key value with the identifier of the first description that matches; \<open>None\<close> is a description without one.\<close>

definition DeviceConfigurationCommonGetKeyValueWithFilter ::
    "Model \<Rightarrow> Node \<Rightarrow> ptr option \<Rightarrow> ptr option \<Rightarrow> EebusData \<Rightarrow> EebusData option" where
  "DeviceConfigurationCommonGetKeyValueWithFilter m n lf rf pattern =
     (let data = HelperGetFeatureData n lf rf kFunctionTypeDeviceConfigurationKeyValueListData;
          descrs = DeviceConfigurationCommonGetKeyValueDescriptionList n lf rf
      in if data = Null \<or> member 0 data = Null then Some Null
         else case HelperListMatchFirst m kFunctionTypeDeviceConfigurationKeyValueDescriptionListData descrs pattern of
                None \<Rightarrow> Some Null
              | Some i \<Rightarrow>
                  (case value_nat (member 0 (EebusDataListMatchIteratorGet (member 0 descrs) (Some i))) of
                     None \<Rightarrow>
                       if list_ex (\<lambda>kv. member 0 kv \<noteq> Null) (elements_of (member 0 data)) then None else Some Null
                   | Some k \<Rightarrow>
                       Some (case List.find (\<lambda>kv. value_nat (member 0 kv) = Some k) (elements_of (member 0 data)) of
                               None \<Rightarrow> Null | Some kv \<Rightarrow> kv)))"

definition DeviceConfigurationCommonGetKeyValueWithKeyId ::
    "Model \<Rightarrow> Node \<Rightarrow> ptr option \<Rightarrow> ptr option \<Rightarrow> EebusData \<Rightarrow> EebusData option" where
  "DeviceConfigurationCommonGetKeyValueWithKeyId m n lf rf key_id =
     DeviceConfigurationCommonGetKeyValueWithFilter m n lf rf (key_id_pattern key_id)"

definition DeviceConfigurationServerConstruct :: "Node \<Rightarrow> EntityAddressType \<Rightarrow> EebusError + self" where
  "DeviceConfigurationServerConstruct n ea = FeatureInfoServerConstruct n ea kFeatureTypeTypeDeviceConfiguration"

definition GetNextDeviceConfigurationKeyId :: "Node \<Rightarrow> self \<Rightarrow> u32" where
  "GetNextDeviceConfigurationKeyId n self =
     next_id (elements_of (member 0 (DeviceConfigurationCommonGetKeyValueDescriptionList n (Some (fst self)) None)))"

definition DeviceConfigurationServerAddKeyValueDescription ::
    "bool \<Rightarrow> Model \<Rightarrow> self \<Rightarrow> EebusData \<Rightarrow> Node \<Rightarrow> (EebusError \<times> Node) option" where
  "DeviceConfigurationServerAddKeyValueDescription z m self descr n =
     FeatureLocalUpdateData z m self kFunctionTypeDeviceConfigurationKeyValueDescriptionListData
       (Seq [Lst [set_member 0 (u32_value (unat (GetNextDeviceConfigurationKeyId n self))) descr]])
       (Some (FILTER_PARTIAL kFunctionTypeDeviceConfigurationKeyValueDescriptionListData Null Null)) None n"

definition GetKeyIdWithDescription :: "Model \<Rightarrow> Node \<Rightarrow> self \<Rightarrow> EebusData \<Rightarrow> EebusError + EebusData" where
  "GetKeyIdWithDescription m n self pattern =
     (let descr = DeviceConfigurationCommonGetKeyValueDescriptionWithFilter m n (Some (fst self)) None pattern
      in if descr = Null then Inl kEebusErrorOther
         else if member 0 descr = Null then Inl kEebusErrorNoChange
         else Inr (member 0 descr))"

definition DeviceConfigurationServerUpdateKeyValueWithFilter ::
    "bool \<Rightarrow> Model \<Rightarrow> self \<Rightarrow> EebusData \<Rightarrow> EebusData \<Rightarrow> EebusData \<Rightarrow> Node \<Rightarrow> (EebusError \<times> Node) option" where
  "DeviceConfigurationServerUpdateKeyValueWithFilter z m self kv delete_elements pattern n =
     (case GetKeyIdWithDescription m n self pattern of
        Inl err \<Rightarrow> Some (err, n)
      | Inr key_id \<Rightarrow>
          FeatureLocalUpdateData z m self kFunctionTypeDeviceConfigurationKeyValueListData
            (Seq [Lst [set_member 0 key_id kv]])
            (Some (FILTER_PARTIAL kFunctionTypeDeviceConfigurationKeyValueListData Null Null))
            (if delete_elements = Null then None
             else Some (FILTER_DELETE kFunctionTypeDeviceConfigurationKeyValueListData (Seq [key_id]) delete_elements)) n)"

definition DeviceConfigurationServerUpdateKeyValueWithKeyId ::
    "bool \<Rightarrow> Model \<Rightarrow> self \<Rightarrow> EebusData \<Rightarrow> EebusData \<Rightarrow> EebusData \<Rightarrow> Node \<Rightarrow> (EebusError \<times> Node) option" where
  "DeviceConfigurationServerUpdateKeyValueWithKeyId z m self kv delete_elements key_id n =
     DeviceConfigurationServerUpdateKeyValueWithFilter z m self kv delete_elements (key_id_pattern key_id) n"

end
