(* ===== verification/Use_Case_Lpc.thy ===== *)
theory Use_Case_Lpc
  imports Use_Case_Data
begin

text \<open>
  The controllable system of the use cases limitation of power consumption and production: \<^verbatim>\<open>use_case/actor/cs\<close>, with
  the parts of \<^verbatim>\<open>use_case/specialization/electrical_connection\<close> and \<^verbatim>\<open>entity_local.c\<close> that it uses. An instance is the
  record \<open>CsLpUseCase\<close>; its callbacks answer write requests (\<open>approver\<close>), its listener is a list of notifications.
  An outcome \<open>None\<close> is undefined behaviour. The device lock that the public functions take is not modelled.
\<close>

section \<open>Names\<close>

definition kErrorNumberTypeCommandRejected :: u32 where "kErrorNumberTypeCommandRejected = 7"
definition kEnergyDirectionTypeConsume :: nat where "kEnergyDirectionTypeConsume = 0"
definition kEnergyDirectionTypeProduce :: nat where "kEnergyDirectionTypeProduce = 1"
definition kUnitOfMeasurementTypeW :: nat where "kUnitOfMeasurementTypeW = 10"
definition kScopeTypeTypeActivePowerLimit :: nat where "kScopeTypeTypeActivePowerLimit = 73"
definition kLoadControlLimitTypeTypeSignDependentAbsValueLimit :: nat where "kLoadControlLimitTypeTypeSignDependentAbsValueLimit = 2"
definition kLoadControlCategoryTypeObligation :: nat where "kLoadControlCategoryTypeObligation = 0"
definition kDeviceConfigurationKeyNameTypeFailsafeConsumptionActivePowerLimit :: nat where
  "kDeviceConfigurationKeyNameTypeFailsafeConsumptionActivePowerLimit = 14"
definition kDeviceConfigurationKeyNameTypeFailsafeProductionActivePowerLimit :: nat where
  "kDeviceConfigurationKeyNameTypeFailsafeProductionActivePowerLimit = 15"
definition kDeviceConfigurationKeyNameTypeFailsafeDurationMinimum :: nat where
  "kDeviceConfigurationKeyNameTypeFailsafeDurationMinimum = 31"
definition kDeviceConfigurationKeyValueTypeTypeDuration :: nat where "kDeviceConfigurationKeyValueTypeTypeDuration = 3"
definition kDeviceConfigurationKeyValueTypeTypeScaledNumber :: nat where "kDeviceConfigurationKeyValueTypeTypeScaledNumber = 6"
definition kElectricalConnectionCharacteristicContextTypeEntity :: nat where "kElectricalConnectionCharacteristicContextTypeEntity = 1"
definition kElectricalConnectionCharacteristicTypeTypePowerConsumptionNominalMax :: nat where
  "kElectricalConnectionCharacteristicTypeTypePowerConsumptionNominalMax = 3"
definition kElectricalConnectionCharacteristicTypeTypePowerProductionNominalMax :: nat where
  "kElectricalConnectionCharacteristicTypeTypePowerProductionNominalMax = 7"
definition kElectricalConnectionCharacteristicTypeTypeContractualConsumptionNominalMax :: nat where
  "kElectricalConnectionCharacteristicTypeTypeContractualConsumptionNominalMax = 9"
definition kElectricalConnectionCharacteristicTypeTypeContractualProductionNominalMax :: nat where
  "kElectricalConnectionCharacteristicTypeTypeContractualProductionNominalMax = 10"
definition kDeviceTypeTypeEnergyManagementSystem :: u32 where "kDeviceTypeTypeEnergyManagementSystem = 11"

section \<open>The use case\<close>

text \<open>The client of device diagnosis is the local and the remote feature it connects.\<close>

record CsLpUseCase =
  uc_entity :: EntityAddressType
  energy_direction :: nat
  failsafe_power_limit_key :: nat
  electrical_connection_id :: nat
  nominal_max_characteristic :: nat
  cs_lp_listener :: bool
  heartbeat_diag_client :: "(self \<times> ptr) option"
  heartbeat_keo_workaround :: bool

definition CsLpGetFeature :: "CsLpUseCase \<Rightarrow> nat \<Rightarrow> Node \<Rightarrow> self option" where
  "CsLpGetFeature uc t n = Option.bind (local_entity_at n (uc_entity uc)) (\<lambda>e. GetFeatureWithTypeAndRole e t kRoleTypeServer)"

definition rejected :: "string \<Rightarrow> ErrorType option" where
  "rejected s = Some \<lparr>error_number = kErrorNumberTypeCommandRejected, description = Some s\<rparr>"

section \<open>Write approval\<close>

text \<open>
  The callbacks are registered at the feature they look up, so that their answers are for requests of the feature
  that calls them. The counter of the request and its feature, or nothing when the message is not complete.
\<close>

definition write_request :: "CsLpUseCase \<Rightarrow> nat \<Rightarrow> Message \<Rightarrow> Node \<Rightarrow> (u64 \<times> self) option" where
  "write_request uc t msg n =
     (case Option.bind (request_header msg) msg_cnt of
        None \<Rightarrow> None
      | Some cnt \<Rightarrow>
          if data_choice (msg_cmd msg) = Null then None
          else map_option (Pair cnt) (CsLpGetFeature uc t n))"

definition negative_limit :: "EebusData \<Rightarrow> bool" where
  "negative_limit limit_data =
     (case value_int (member 0 (LoadControlLimitGetValue limit_data)) of None \<Rightarrow> False | Some k \<Rightarrow> k < 0)"

definition CsLpLoadControlNegativeLimitWriteCallback :: "CsLpUseCase \<Rightarrow> Message \<Rightarrow> Node \<Rightarrow> approval_action list" where
  "CsLpLoadControlNegativeLimitWriteCallback uc msg n =
     (case write_request uc kFeatureTypeTypeLoadControl msg n of
        None \<Rightarrow> []
      | Some (cnt, fl) \<Rightarrow>
          let ski = Some (device_remote msg)
          in if data_choice_type_id (msg_cmd msg) \<noteq> kFunctionTypeLoadControlLimitListData then [Approve ski cnt]
             else if list_ex negative_limit (elements_of (member 0 (data_choice (msg_cmd msg))))
             then [Deny ski cnt (rejected ''Negative limit values are not allowed'')]
             else [Approve ski cnt])"

text \<open>The first key value with an identifier and a value whose description has the name.\<close>

definition CsLpFindKeyValue :: "Model \<Rightarrow> Node \<Rightarrow> self \<Rightarrow> EebusData \<Rightarrow> nat \<Rightarrow> EebusData" where
  "CsLpFindKeyValue m n dc data key_name =
     (case List.find (\<lambda>kv.
          kv \<noteq> Null \<and> member 0 kv \<noteq> Null \<and> member 1 kv \<noteq> Null \<and>
          (let descr = DeviceConfigurationCommonGetKeyValueDescriptionWithKeyId m n (Some (fst dc)) None (member 0 kv)
           in descr \<noteq> Null \<and> value_nat (member 1 descr) = Some key_name))
        (elements_of (member 0 data)) of
        None \<Rightarrow> Null
      | Some kv \<Rightarrow> kv)"

definition CsLpFailsafeActivePowerLimitWriteCallback ::
    "Model \<Rightarrow> CsLpUseCase \<Rightarrow> Message \<Rightarrow> Node \<Rightarrow> approval_action list" where
  "CsLpFailsafeActivePowerLimitWriteCallback m uc msg n =
     (case write_request uc kFeatureTypeTypeDeviceConfiguration msg n of
        None \<Rightarrow> []
      | Some (cnt, fl) \<Rightarrow>
          let ski = Some (device_remote msg)
          in if data_choice_type_id (msg_cmd msg) \<noteq> kFunctionTypeDeviceConfigurationKeyValueListData then [Approve ski cnt]
             else case DeviceConfigurationServerConstruct n (uc_entity uc) of
                    Inl err \<Rightarrow> [Deny ski cnt (rejected ''Internal error: command rejected'')]
                  | Inr dc \<Rightarrow>
                      let kv = CsLpFindKeyValue m n dc (data_choice (msg_cmd msg)) (failsafe_power_limit_key uc)
                      in case value_int (member 0 (DeviceConfigurationKeyValueGetScaledNumber kv)) of
                           None \<Rightarrow> [Approve ski cnt]
                         | Some k \<Rightarrow>
                             if k < 0 then [Deny ski cnt (rejected ''Negative failsafe power limit values are not allowed'')]
                             else [Approve ski cnt])"

definition CsLpFailsafeDurationMinimumWriteCallback ::
    "Model \<Rightarrow> CsLpUseCase \<Rightarrow> Message \<Rightarrow> Node \<Rightarrow> approval_action list" where
  "CsLpFailsafeDurationMinimumWriteCallback m uc msg n =
     (case write_request uc kFeatureTypeTypeDeviceConfiguration msg n of
        None \<Rightarrow> []
      | Some (cnt, fl) \<Rightarrow>
          let ski = Some (device_remote msg)
          in if data_choice_type_id (msg_cmd msg) \<noteq> kFunctionTypeDeviceConfigurationKeyValueListData then [Approve ski cnt]
             else case DeviceConfigurationServerConstruct n (uc_entity uc) of
                    Inl err \<Rightarrow> [Deny ski cnt (rejected ''Internal error: command rejected'')]
                  | Inr dc \<Rightarrow>
                      let kv = CsLpFindKeyValue m n dc (data_choice (msg_cmd msg))
                                 kDeviceConfigurationKeyNameTypeFailsafeDurationMinimum
                      in case kv_duration kv of
                           Simple bs \<Rightarrow>
                             let total_seconds = EebusDurationToSeconds (bytes_duration bs)
                             in if total_seconds < 2 * 3600 \<or> total_seconds > 24 * 3600
                                then [Deny ski cnt
                                  (rejected ''Invalid failsafe duration minimum value: should be between 2 hours and 24 hours'')]
                                else [Approve ski cnt]
                         | _ \<Rightarrow> [Approve ski cnt])"

text \<open>The registered callbacks: the function and its context, the number of the use case instance.\<close>

definition negative_limit_cb :: "nat \<Rightarrow> callback" where "negative_limit_cb ctx = (1, ctx)"
definition failsafe_limit_cb :: "nat \<Rightarrow> callback" where "failsafe_limit_cb ctx = (2, ctx)"
definition failsafe_duration_cb :: "nat \<Rightarrow> callback" where "failsafe_duration_cb ctx = (3, ctx)"

definition cs_lp_approver :: "Model \<Rightarrow> (nat \<Rightarrow> CsLpUseCase) \<Rightarrow> approver" where
  "cs_lp_approver m ucs cb msg n =
     (if fst cb = 1 then CsLpLoadControlNegativeLimitWriteCallback (ucs (snd cb)) msg n
      else if fst cb = 2 then CsLpFailsafeActivePowerLimitWriteCallback m (ucs (snd cb)) msg n
      else if fst cb = 3 then CsLpFailsafeDurationMinimumWriteCallback m (ucs (snd cb)) msg n
      else [])"

section \<open>The limit\<close>

text \<open>The pattern of the description of the active power limit.\<close>

definition limit_pattern :: "CsLpUseCase \<Rightarrow> EebusData" where
  "limit_pattern uc =
     Seq [Null, enum_value kLoadControlLimitTypeTypeSignDependentAbsValueLimit, enum_value kLoadControlCategoryTypeObligation,
          enum_value (energy_direction uc), Null, Null, enum_value kScopeTypeTypeActivePowerLimit, Null, Null]"

definition CsLpGetLimitId :: "Model \<Rightarrow> CsLpUseCase \<Rightarrow> self \<Rightarrow> Node \<Rightarrow> (EebusError + EebusData) option" where
  "CsLpGetLimitId m uc lcs n =
     (let descr = LoadControlCommonGetLimitDescriptionWithFilter m n (Some (fst lcs)) None (limit_pattern uc)
      in if descr = Null then Some (Inl kEebusErrorNoChange)
         else if member 0 descr = Null then None
         else Some (Inr (member 0 descr)))"

definition CsLpGetActivePowerLimit :: "Model \<Rightarrow> CsLpUseCase \<Rightarrow> Node \<Rightarrow> (EebusError + LoadLimit) option" where
  "CsLpGetActivePowerLimit m uc n =
     (case LoadControlServerConstruct n (uc_entity uc) of
        Inl err \<Rightarrow> Some (Inl err)
      | Inr lcs \<Rightarrow>
          (case CsLpGetLimitId m uc lcs n of
             None \<Rightarrow> None
           | Some (Inl err) \<Rightarrow> Some (Inl err)
           | Some (Inr i) \<Rightarrow>
               Some (LoadLimitInitWithLoadControlLimitData (LoadControlCommonGetLimitWithId m n (Some (fst lcs)) None i))))"

definition CsLpSetActivePowerLimit ::
    "bool \<Rightarrow> Model \<Rightarrow> CsLpUseCase \<Rightarrow> ScaledValue \<Rightarrow> bool \<Rightarrow> bool \<Rightarrow> Node \<Rightarrow> (EebusError \<times> Node) option" where
  "CsLpSetActivePowerLimit z m uc lim is_active is_changeable n =
     (case LoadControlServerConstruct n (uc_entity uc) of
        Inl err \<Rightarrow> Some (err, n)
      | Inr lcs \<Rightarrow>
          (case CsLpGetLimitId m uc lcs n of
             None \<Rightarrow> None
           | Some (Inl err) \<Rightarrow> Some (err, n)
           | Some (Inr i) \<Rightarrow>
               LoadControlServerUpdateLimitWithFilter z m lcs
                 (Seq [Null, bool_value is_changeable, bool_value is_active, Null, scaled_number_value lim])
                 (limit_id_pattern i) (Seq [i]) Null n))"

section \<open>The failsafe values\<close>

definition CsLpGetFailsafeActivePowerLimit :: "Model \<Rightarrow> CsLpUseCase \<Rightarrow> Node \<Rightarrow> (EebusError + ScaledValue \<times> bool) option" where
  "CsLpGetFailsafeActivePowerLimit m uc n =
     (case DeviceConfigurationServerConstruct n (uc_entity uc) of
        Inl err \<Rightarrow> Some (Inl err)
      | Inr dc \<Rightarrow>
          map_option (\<lambda>kv.
            if \<not> DeviceConfigurationKeyValueIsValid kv then Inl kEebusErrorOther
            else case ScaledValueInitWithScaledNumber (DeviceConfigurationKeyValueGetScaledNumber kv) of
                   Inl err \<Rightarrow> Inl err
                 | Inr v \<Rightarrow> Inr (v, DeviceConfigurationKeyValueIsChangeable kv))
            (DeviceConfigurationCommonGetKeyValueWithFilter m n (Some (fst dc)) None (key_name_pattern (failsafe_power_limit_key uc))))"

definition CsLpSetFailsafeActivePowerLimit ::
    "bool \<Rightarrow> Model \<Rightarrow> CsLpUseCase \<Rightarrow> ScaledValue \<Rightarrow> bool \<Rightarrow> Node \<Rightarrow> (EebusError \<times> Node) option" where
  "CsLpSetFailsafeActivePowerLimit z m uc power_limit is_changeable n =
     (case DeviceConfigurationServerConstruct n (uc_entity uc) of
        Inl err \<Rightarrow> Some (err, n)
      | Inr dc \<Rightarrow>
          DeviceConfigurationServerUpdateKeyValueWithFilter z m dc
            (Seq [Null, Seq [Null, Null, Null, Null, Null, Null, scaled_number_value power_limit, Null], bool_value is_changeable])
            Null (key_name_pattern (failsafe_power_limit_key uc)) n)"

definition CsLpGetFailsafeDurationMinimum :: "Model \<Rightarrow> CsLpUseCase \<Rightarrow> Node \<Rightarrow> (EebusError + EebusDuration \<times> bool) option" where
  "CsLpGetFailsafeDurationMinimum m uc n =
     (case DeviceConfigurationServerConstruct n (uc_entity uc) of
        Inl err \<Rightarrow> Some (Inl err)
      | Inr dc \<Rightarrow>
          map_option (\<lambda>kv.
            if \<not> DeviceConfigurationKeyValueIsValid kv \<or> kv_duration kv = Null then Inl kEebusErrorOther
            else case DeviceConfigurationKeyValueGetDuration kv of
                   Inl err \<Rightarrow> Inl kEebusErrorOther
                 | Inr d \<Rightarrow> Inr (d, DeviceConfigurationKeyValueIsChangeable kv))
            (DeviceConfigurationCommonGetKeyValueWithFilter m n (Some (fst dc)) None
              (key_name_pattern kDeviceConfigurationKeyNameTypeFailsafeDurationMinimum)))"

definition CsLpSetFailsafeDurationMinimum ::
    "bool \<Rightarrow> Model \<Rightarrow> CsLpUseCase \<Rightarrow> EebusDuration option \<Rightarrow> bool \<Rightarrow> Node \<Rightarrow> (EebusError \<times> Node) option" where
  "CsLpSetFailsafeDurationMinimum z m uc d is_changeable n =
     (case d of
        None \<Rightarrow> Some (kEebusErrorInputArgumentNull, n)
      | Some d \<Rightarrow>
          (case DeviceConfigurationServerConstruct n (uc_entity uc) of
             Inl err \<Rightarrow> Some (err, n)
           | Inr dc \<Rightarrow>
               DeviceConfigurationServerUpdateKeyValueWithFilter z m dc
                 (Seq [Null, Seq [Null, Null, Null, Simple (duration_bytes d), Null, Null, Null, Null], bool_value is_changeable])
                 Null (key_name_pattern kDeviceConfigurationKeyNameTypeFailsafeDurationMinimum) n))"

end
