(* ===== verification/Use_Case_Events.thy ===== *)
theory Use_Case_Events
  imports Use_Case_Lpc
begin

text \<open>
  How the controllable system reacts to events: \<^verbatim>\<open>use_case/use_case.c\<close> (compatible entities), the client side of
  \<^verbatim>\<open>use_case/specialization\<close> (\<^verbatim>\<open>feature_info_client.c\<close>, \<^verbatim>\<open>device_diagnosis\<close>) and \<^verbatim>\<open>use_case/actor/cs/cs_lp_events.c\<close>.
  A handler returns the calls of the listener; \<open>None\<close> is undefined behaviour. The device and the entity of an
  event are arguments beside it.
\<close>

section \<open>Compatible entities\<close>

record UseCaseInfo =
  valid_actor_types :: "UseCaseActorType list"
  valid_entity_types :: "nat list"
  use_case_scenarios :: "u32 list"
  info_actor :: UseCaseActorType
  use_case_name_id :: UseCaseNameType
  info_version :: string
  info_sub_revision :: string
  info_available :: bool

definition kUseCaseActorTypeControllableSystem :: UseCaseActorType where "kUseCaseActorTypeControllableSystem = 5"
definition kUseCaseActorTypeEnergyGuard :: UseCaseActorType where "kUseCaseActorTypeEnergyGuard = 9"
definition kUseCaseNameTypeLimitationOfPowerConsumption :: UseCaseNameType where "kUseCaseNameTypeLimitationOfPowerConsumption = 14"
definition kUseCaseNameTypeLimitationOfPowerProduction :: UseCaseNameType where "kUseCaseNameTypeLimitationOfPowerProduction = 15"
definition kEntityTypeTypeCEM :: nat where "kEntityTypeTypeCEM = 41"
definition kEntityTypeTypeGridGuard :: nat where "kEntityTypeTypeGridGuard = 46"

definition cs_lpc_use_case_info :: UseCaseInfo where
  "cs_lpc_use_case_info =
     \<lparr>valid_actor_types = [kUseCaseActorTypeEnergyGuard], valid_entity_types = [kEntityTypeTypeGridGuard, kEntityTypeTypeCEM],
      use_case_scenarios = [1, 2, 3, 4], info_actor = kUseCaseActorTypeControllableSystem,
      use_case_name_id = kUseCaseNameTypeLimitationOfPowerConsumption, info_version = ''1.0.0'',
      info_sub_revision = ''release'', info_available = True\<rparr>"

definition cs_lp_use_case_info :: UseCaseInfo where
  "cs_lp_use_case_info =
     \<lparr>valid_actor_types = [kUseCaseActorTypeEnergyGuard], valid_entity_types = [kEntityTypeTypeGridGuard, kEntityTypeTypeCEM],
      use_case_scenarios = [1, 2, 3, 4], info_actor = kUseCaseActorTypeControllableSystem,
      use_case_name_id = kUseCaseNameTypeLimitationOfPowerProduction, info_version = ''1.0.0'',
      info_sub_revision = ''release'', info_available = True\<rparr>"

definition IsEntityTypeCompatible :: "UseCaseInfo \<Rightarrow> nat \<Rightarrow> bool" where
  "IsEntityTypeCompatible info t \<longleftrightarrow> t \<in> set (valid_entity_types info)"

text \<open>The node management feature of a remote device, and the use cases that its data names for an entity.\<close>

definition RemoteNodeManagement :: "Device \<Rightarrow> ptr option" where
  "RemoteNodeManagement dr =
     map_option fst (List.find (\<lambda>(p, f). feature_type f = kFeatureTypeTypeNodeManagement \<and> feature_role f = kRoleTypeSpecial)
       (device_features dr))"

definition RemoteHasUseCaseSupport :: "Node \<Rightarrow> Device \<Rightarrow> Entity \<Rightarrow> UseCaseActorType \<Rightarrow> UseCaseNameType \<Rightarrow> bool option" where
  "RemoteHasUseCaseSupport n dr e ac nm =
     (case RemoteNodeManagement dr of
        None \<Rightarrow> Some False
      | Some p \<Rightarrow>
          (case FeatureGetFunction (remotes n p) kFunctionTypeNodeManagementUseCaseData of
             None \<Rightarrow> Some False
           | Some fn \<Rightarrow> do {
               data \<leftarrow> value_use_case_data (fdata fn);
               (case data of
                  None \<Rightarrow> Some False
                | Some infos \<Rightarrow>
                    NodeManagementUseCaseDataHasUseCaseSupport infos
                      \<lparr>device = ea_device (entity_address e), entity = ea_entity (entity_address e), feature = None\<rparr> ac nm)
             }))"

fun supports_any :: "Node \<Rightarrow> Device \<Rightarrow> Entity \<Rightarrow> UseCaseNameType \<Rightarrow> UseCaseActorType list \<Rightarrow> bool option" where
  "supports_any n dr e nm [] = Some False"
| "supports_any n dr e nm (ac # acs) = do {
     has \<leftarrow> RemoteHasUseCaseSupport n dr e ac nm;
     if has then Some True else supports_any n dr e nm acs
   }"

definition UseCaseIsEntityCompatible :: "UseCaseInfo \<Rightarrow> Node \<Rightarrow> Device \<Rightarrow> Entity option \<Rightarrow> bool option" where
  "UseCaseIsEntityCompatible info n dr en =
     (case en of
        None \<Rightarrow> Some False
      | Some e \<Rightarrow>
          if \<not> IsEntityTypeCompatible info (entity_type e) then Some False
          else supports_any n dr e (use_case_name_id info) (valid_actor_types info))"

definition UseCaseIsUseCaseCompatible :: "UseCaseInfo \<Rightarrow> (UseCaseActorType \<times> UseCaseNameType) option \<Rightarrow> bool" where
  "UseCaseIsUseCaseCompatible info use_case_filter =
     (case use_case_filter of
        None \<Rightarrow> False
      | Some (ac, nm) \<Rightarrow> list_ex (\<lambda>a. ac = a \<and> nm = use_case_name_id info) (valid_actor_types info))"

definition UseCaseGetRemoteEntityWithAddress :: "UseCaseInfo \<Rightarrow> Node \<Rightarrow> EntityAddressType option \<Rightarrow> Entity option option" where
  "UseCaseGetRemoteEntityWithAddress info n addr =
     (case addr of
        None \<Rightarrow> Some None
      | Some a \<Rightarrow>
          (case GetRemoteDeviceWithAddress n (ea_device a) of
             None \<Rightarrow> Some None
           | Some dr \<Rightarrow>
               (case DeviceGetEntity dr (ea_entity a) of
                  None \<Rightarrow> Some None
                | Some e \<Rightarrow> map_option (\<lambda>c. if c then Some e else None) (UseCaseIsEntityCompatible info n dr (Some e)))))"

section \<open>Clients of remote features\<close>

text \<open>A client: the local feature and the remote feature with its device.\<close>

definition GetLocalAndRemoteFeatures :: "Node \<Rightarrow> EntityAddressType \<Rightarrow> Device \<Rightarrow> Entity \<Rightarrow> nat \<Rightarrow> EebusError + (self \<times> ptr)" where
  "GetLocalAndRemoteFeatures n ea dr e t =
     (let lookup = (\<lambda>t. Option.bind (local_entity_at n ea) (\<lambda>le. GetFeatureWithTypeAndRole le t kRoleTypeClient))
      in case (case lookup t of None \<Rightarrow> lookup kFeatureTypeTypeGeneric | Some f \<Rightarrow> Some f) of
           None \<Rightarrow> Inl kEebusErrorInputArgumentNull
         | Some lf \<Rightarrow>
             (case Option.bind (DeviceGetEntity dr (ea_entity (entity_address e)))
                     (\<lambda>re. GetFeatureWithTypeAndRole re t kRoleTypeServer) of
                None \<Rightarrow> Inl kEebusErrorInputArgumentNull
              | Some rf \<Rightarrow> Inr (lf, fst rf)))"

definition FeatureInfoClientConstruct ::
    "Node \<Rightarrow> nat \<Rightarrow> EntityAddressType \<Rightarrow> (Device \<times> Entity) option \<Rightarrow> EebusError + (self \<times> ptr)" where
  "FeatureInfoClientConstruct n t ea remote_entity =
     (if local_entity_at n ea = None then Inl kEebusErrorInputArgumentNull
      else case remote_entity of
             None \<Rightarrow> Inl kEebusErrorInputArgumentNull
           | Some (dr, e) \<Rightarrow> GetLocalAndRemoteFeatures n ea dr e t)"

text \<open>The address of the remote feature is read through the pointer.\<close>

definition with_remote_address :: "self \<times> ptr \<Rightarrow> Node \<Rightarrow> (FeatureAddressType \<Rightarrow> 'a) \<Rightarrow> 'a option" where
  "with_remote_address c n f = map_option (\<lambda>(dr, rf). f (feature_address rf)) (remote_feature_at (world n) (Some (snd c)))"

definition HasSubscription :: "self \<times> ptr \<Rightarrow> Node \<Rightarrow> bool option" where
  "HasSubscription c n = with_remote_address c n (\<lambda>a. FeatureLocalHasSubscriptionToRemote (fst c) a n)"

definition Subscribe :: "self \<times> ptr \<Rightarrow> Node \<Rightarrow> (EebusError \<times> Node) option" where
  "Subscribe c n = with_remote_address c n (\<lambda>a. FeatureLocalSubscribeToRemote (fst c) a n)"

definition Unsubscribe :: "self \<times> ptr \<Rightarrow> Node \<Rightarrow> (EebusError \<times> Node) option" where
  "Unsubscribe c n = with_remote_address c n (\<lambda>a. FeatureLocalRemoveRemoteSubscription (fst c) a n)"

definition HasBinding_client :: "self \<times> ptr \<Rightarrow> Node \<Rightarrow> bool option" where
  "HasBinding_client c n = with_remote_address c n (\<lambda>a. FeatureLocalHasBindingToRemote (fst c) a n)"

definition Bind :: "self \<times> ptr \<Rightarrow> Node \<Rightarrow> (EebusError \<times> Node) option" where
  "Bind c n = with_remote_address c n (\<lambda>a. FeatureLocalBindToRemote (fst c) a n)"

definition Unbind :: "self \<times> ptr \<Rightarrow> Node \<Rightarrow> (EebusError \<times> Node) option" where
  "Unbind c n = with_remote_address c n (\<lambda>a. FeatureLocalRemoveRemoteBinding (fst c) a n)"

text \<open>A partial read is only asked for when the remote feature allows partial reads and partial writes.\<close>

definition RequestData ::
    "bool \<Rightarrow> Model \<Rightarrow> self \<times> ptr \<Rightarrow> nat \<Rightarrow> EebusData \<Rightarrow> EebusData \<Rightarrow> Node \<Rightarrow> (EebusError \<times> Node) option" where
  "RequestData z m c t sels els n =
     (case Option.bind (FeatureGetFunction (remotes n (snd c)) t) foperations of
        None \<Rightarrow> Some (kEebusErrorNoChange, n)
      | Some ops \<Rightarrow>
          if \<not> op_read ops then Some (kEebusErrorNoChange, n)
          else FeatureLocalRequestRemoteData z m (fst c) t
                 (if sels = Null \<or> \<not> op_read_partial ops \<or> \<not> op_write_partial ops then None
                  else Some (FILTER_PARTIAL t sels els)) (snd c) n)"

section \<open>Device diagnosis\<close>

definition DeviceDiagnosisClientConstruct ::
    "Node \<Rightarrow> EntityAddressType \<Rightarrow> (Device \<times> Entity) option \<Rightarrow> EebusError + (self \<times> ptr)" where
  "DeviceDiagnosisClientConstruct n ea remote_entity = FeatureInfoClientConstruct n kFeatureTypeTypeDeviceDiagnosis ea remote_entity"

definition DeviceDiagnosisClientCreate ::
    "Node \<Rightarrow> EntityAddressType \<Rightarrow> (Device \<times> Entity) option \<Rightarrow> (self \<times> ptr) option" where
  "DeviceDiagnosisClientCreate n ea remote_entity =
     (case DeviceDiagnosisClientConstruct n ea remote_entity of Inl err \<Rightarrow> None | Inr c \<Rightarrow> Some c)"

definition DeviceDiagnosisClientRequestHeartbeat :: "bool \<Rightarrow> Model \<Rightarrow> self \<times> ptr \<Rightarrow> Node \<Rightarrow> (EebusError \<times> Node) option" where
  "DeviceDiagnosisClientRequestHeartbeat z m c n = RequestData z m c kFunctionTypeDeviceDiagnosisHeartbeatData Null Null n"

definition DeviceDiagnosisClientRequestState :: "bool \<Rightarrow> Model \<Rightarrow> self \<times> ptr \<Rightarrow> Node \<Rightarrow> (EebusError \<times> Node) option" where
  "DeviceDiagnosisClientRequestState z m c n = RequestData z m c kFunctionTypeDeviceDiagnosisStateData Null Null n"

text \<open>The clock is read twice, \<open>now\<close> for a relative time stamp and \<open>now'\<close> for the limit.\<close>

definition DeviceDiagnosisCommonIsHeartbeatWithinDuration ::
    "EebusDateTime \<Rightarrow> EebusDateTime \<Rightarrow> Node \<Rightarrow> ptr option \<Rightarrow> ptr option \<Rightarrow> EebusDuration option \<Rightarrow> bool option" where
  "DeviceDiagnosisCommonIsHeartbeatWithinDuration now now' n lf rf dur =
     (case dur of
        None \<Rightarrow> Some False
      | Some d \<Rightarrow>
          (case value_time (member 0 (HelperGetFeatureData n lf rf kFunctionTypeDeviceDiagnosisHeartbeatData)) of
             None \<Rightarrow> Some False
           | Some t \<Rightarrow> do {
               time \<leftarrow> AbsoluteOrRelativeTimeGetTime now t;
               if \<not> EebusDateTimeIsValid time then Some False
               else do {
                 (err, diff) \<leftarrow> EebusDateTimeAddDuration now' (EebusDurationInvertSign d);
                 Some (EebusDateTimeCompare diff time \<le> 0)
               }
             }))"

definition two_minutes :: EebusDuration where
  "two_minutes = \<lparr>years = 0, months = 0, days = 0, hours = 0, minutes = 2, seconds = 0, milliseconds = 0\<rparr>"

definition CsLpIsHeartbeatWithinDuration :: "EebusDateTime \<Rightarrow> EebusDateTime \<Rightarrow> CsLpUseCase \<Rightarrow> Node \<Rightarrow> bool option" where
  "CsLpIsHeartbeatWithinDuration now now' uc n =
     (case heartbeat_diag_client uc of
        None \<Rightarrow> Some False
      | Some c \<Rightarrow> DeviceDiagnosisCommonIsHeartbeatWithinDuration now now' n None (Some (snd c)) (Some two_minutes))"

section \<open>Events\<close>

datatype listener_call =
  PowerLimitReceive ScaledValue "EebusDuration option" bool
| FailsafePowerLimitReceive ScaledValue
| FailsafeDurationReceive EebusDuration
| HeartbeatReceive nat

text \<open>The client that was created before is deleted first, also when no new one can be created.\<close>

definition AddDeviceDiagnosisClient ::
    "bool \<Rightarrow> Model \<Rightarrow> CsLpUseCase \<Rightarrow> Device \<Rightarrow> Entity option \<Rightarrow> Node \<Rightarrow> (CsLpUseCase \<times> Node) option" where
  "AddDeviceDiagnosisClient z m uc dr en n =
     (let client = DeviceDiagnosisClientCreate n (uc_entity uc) (map_option (Pair dr) en);
          uc = uc\<lparr>heartbeat_diag_client := client\<rparr>
      in case client of
           None \<Rightarrow> Some (uc, n)
         | Some c \<Rightarrow> do {
             has \<leftarrow> HasSubscription c n;
             n \<leftarrow> (if has then Some n else map_option snd (Subscribe c n));
             (err, n) \<leftarrow> DeviceDiagnosisClientRequestHeartbeat z m c n;
             Some (uc, n)
           })"

text \<open>The compatible entities with a device diagnosis server; the search stops at the second one.\<close>

fun diag_entities :: "UseCaseInfo \<Rightarrow> Node \<Rightarrow> Device \<Rightarrow> Entity option \<Rightarrow> Entity list \<Rightarrow> (Entity option \<times> bool) option" where
  "diag_entities info n dr found [] = Some (found, False)"
| "diag_entities info n dr found (e # es) = do {
     compatible \<leftarrow> UseCaseIsEntityCompatible info n dr (Some e);
     if compatible \<and> GetFeatureWithTypeAndRole e kFeatureTypeTypeDeviceDiagnosis kRoleTypeServer \<noteq> None
     then (if found \<noteq> None then Some (found, True) else diag_entities info n dr (Some e) es)
     else diag_entities info n dr found es
   }"

definition OnUseCaseDataUpdate ::
    "bool \<Rightarrow> Model \<Rightarrow> UseCaseInfo \<Rightarrow> CsLpUseCase \<Rightarrow> Device option \<Rightarrow> Node \<Rightarrow> (CsLpUseCase \<times> Node) option" where
  "OnUseCaseDataUpdate z m info uc dev n =
     (case dev of
        None \<Rightarrow> Some (uc, n)
      | Some dr \<Rightarrow> do {
          (found, has_multiple_diag_servers) \<leftarrow> diag_entities info n dr None (device_entities dr);
          if found = None then Some (uc, n)
          else if has_multiple_diag_servers then Some (uc\<lparr>heartbeat_keo_workaround := True\<rparr>, n)
          else AddDeviceDiagnosisClient z m uc dr found n
        })"

definition OnBindingAdded ::
    "bool \<Rightarrow> Model \<Rightarrow> CsLpUseCase \<Rightarrow> Device \<Rightarrow> Entity option \<Rightarrow> ptr option \<Rightarrow> Node \<Rightarrow> (CsLpUseCase \<times> Node) option" where
  "OnBindingAdded z m uc dr en local_feature n =
     (case local_feature of
        None \<Rightarrow> Some (uc, n)
      | Some p \<Rightarrow> do {
          f \<leftarrow> local_feature_at (world n) (Some p);
          if feature_type f = kFeatureTypeTypeLoadControl \<and> feature_role f = kRoleTypeServer \<and> heartbeat_keo_workaround uc
          then AddDeviceDiagnosisClient z m uc dr en n
          else Some (uc, n)
        })"

definition OnLoadControlLimitDataUpdate ::
    "Model \<Rightarrow> CsLpUseCase \<Rightarrow> ptr option \<Rightarrow> EebusData \<Rightarrow> Node \<Rightarrow> listener_call list option" where
  "OnLoadControlLimitDataUpdate m uc local_feature data n =
     (if \<not> cs_lp_listener uc \<or> local_feature \<noteq> map_option fst (CsLpGetFeature uc kFeatureTypeTypeLoadControl n) then Some []
      else case LoadControlServerConstruct n (uc_entity uc) of
             Inl err \<Rightarrow> Some []
           | Inr lcs \<Rightarrow>
               if \<not> LoadControlCommonCheckLimitWithFilter m n (Some (fst lcs)) None data (limit_pattern uc) then Some []
               else map_option
                      (\<lambda>r. case r of
                             Inl err \<Rightarrow> []
                           | Inr l \<Rightarrow> [PowerLimitReceive (ll_value l) (if ll_delete_duration l then None else ll_duration l) (ll_is_active l)])
                      (CsLpGetActivePowerLimit m uc n))"

definition OnConfigurationDataUpdate :: "Model \<Rightarrow> CsLpUseCase \<Rightarrow> EebusData \<Rightarrow> Node \<Rightarrow> listener_call list option" where
  "OnConfigurationDataUpdate m uc data n =
     (if \<not> cs_lp_listener uc then Some []
      else case DeviceConfigurationServerConstruct n (uc_entity uc) of
             Inl err \<Rightarrow> Some []
           | Inr dc \<Rightarrow>
               let concerns = (\<lambda>k. DeviceConfigurationCommonCheckKeyValueWithFilter m n (Some (fst dc)) None data (key_name_pattern k))
               in do {
                 ls \<leftarrow> (if concerns (failsafe_power_limit_key uc)
                       then map_option (\<lambda>r. case r of Inl err \<Rightarrow> [] | Inr (v, c) \<Rightarrow> [FailsafePowerLimitReceive v])
                              (CsLpGetFailsafeActivePowerLimit m uc n)
                       else Some []);
                 ds \<leftarrow> (if concerns kDeviceConfigurationKeyNameTypeFailsafeDurationMinimum
                       then map_option (\<lambda>r. case r of Inl err \<Rightarrow> [] | Inr (d, c) \<Rightarrow> [FailsafeDurationReceive d])
                              (CsLpGetFailsafeDurationMinimum m uc n)
                       else Some []);
                 Some (ls @ ds)
               })"

definition OnHeartbeat :: "CsLpUseCase \<Rightarrow> CommandClassifierType option \<Rightarrow> EebusData \<Rightarrow> listener_call list" where
  "OnHeartbeat uc classifier data =
     (if classifier \<noteq> Some kCommandClassifierTypeNotify then []
      else case value_nat (member 1 data) of
             None \<Rightarrow> []
           | Some c \<Rightarrow> if cs_lp_listener uc then [HeartbeatReceive c] else [])"

definition OnDataChange :: "Model \<Rightarrow> CsLpUseCase \<Rightarrow> DataEvent \<Rightarrow> Node \<Rightarrow> listener_call list option" where
  "OnDataChange m uc ev n =
     (if ep_cmd_classifier ev \<notin> {Some kCommandClassifierTypeWrite, Some kCommandClassifierTypeNotify} then Some []
      else if ep_function_type ev = kFunctionTypeLoadControlLimitListData
      then OnLoadControlLimitDataUpdate m uc (ep_local_feature ev) (ep_function_data ev) n
      else if ep_function_type ev = kFunctionTypeDeviceConfigurationKeyValueListData
      then OnConfigurationDataUpdate m uc (ep_function_data ev) n
      else if ep_function_type ev = kFunctionTypeDeviceDiagnosisHeartbeatData
      then Some (OnHeartbeat uc (ep_cmd_classifier ev) (ep_function_data ev))
      else Some [])"

definition CsLpHandleEvent ::
    "bool \<Rightarrow> Model \<Rightarrow> UseCaseInfo \<Rightarrow> DataEvent \<Rightarrow> Device option \<Rightarrow> Entity option \<Rightarrow> CsLpUseCase \<Rightarrow> Node \<Rightarrow>
     (listener_call list \<times> CsLpUseCase \<times> Node) option" where
  "CsLpHandleEvent z m info ev dev en uc n =
     (if ep_event_type ev = kEventTypeDeviceChange \<and> ep_change_type ev = kElementChangeUpdate \<and>
         ep_function_type ev = kFunctionTypeNodeManagementUseCaseData
      then map_option (Pair []) (OnUseCaseDataUpdate z m info uc dev n)
      else case (dev, en) of
        (Some dr, Some e) \<Rightarrow> do {
          compatible \<leftarrow> UseCaseIsEntityCompatible info n dr en;
          if \<not> compatible then Some ([], uc, n)
          else if ep_event_type ev = kEventTypeBindingChange \<and> ep_change_type ev = kElementChangeAdd
          then map_option (Pair []) (OnBindingAdded z m uc dr en (ep_local_feature ev) n)
          else if ep_event_type ev = kEventTypeDataChange \<or> ep_change_type ev = kElementChangeUpdate
          then map_option (\<lambda>ls. (ls, uc, n)) (OnDataChange m uc ev n)
          else Some ([], uc, n)
        }
      | _ \<Rightarrow> Some ([], uc, n))"

end
