(* ===== verification/Use_Case_Guard.thy ===== *)
theory Use_Case_Guard
  imports Use_Case_Events
begin

text \<open>
  The energy guard of the power limitation use cases: \<^verbatim>\<open>use_case/actor/eg\<close> with \<^verbatim>\<open>actor/common/load_control.c\<close> and the
  clients of load control and device configuration. It reads and writes the data of a controllable system
  through its copy of the remote features. The locks of the public functions are not modelled; each operation
  runs as a whole.
\<close>

definition kEntityTypeTypeCompressor :: nat where "kEntityTypeTypeCompressor = 1"
definition kEntityTypeTypeHeatPumpAppliance :: nat where "kEntityTypeTypeHeatPumpAppliance = 15"
definition kEntityTypeTypeInverter :: nat where "kEntityTypeTypeInverter = 22"
definition kEntityTypeTypeSmartEnergyAppliance :: nat where "kEntityTypeTypeSmartEnergyAppliance = 26"
definition kEntityTypeTypeSubMeterElectricity :: nat where "kEntityTypeTypeSubMeterElectricity = 29"
definition kEntityTypeTypeEVSE :: nat where "kEntityTypeTypeEVSE = 39"

record EgLpUseCase =
  eg_entity :: EntityAddressType
  eg_energy_direction :: nat
  eg_failsafe_power_limit_key :: nat
  eg_lp_listener :: bool

definition eg_lpc_use_case_info :: UseCaseInfo where
  "eg_lpc_use_case_info =
     \<lparr>valid_actor_types = [kUseCaseActorTypeControllableSystem],
      valid_entity_types = [kEntityTypeTypeCEM, kEntityTypeTypeCompressor, kEntityTypeTypeEVSE, kEntityTypeTypeHeatPumpAppliance,
        kEntityTypeTypeInverter, kEntityTypeTypeSmartEnergyAppliance, kEntityTypeTypeSubMeterElectricity],
      use_case_scenarios = [1, 2, 4], info_actor = kUseCaseActorTypeEnergyGuard,
      use_case_name_id = kUseCaseNameTypeLimitationOfPowerConsumption, info_version = ''1.0.0'',
      info_sub_revision = ''release'', info_available = True\<rparr>"

definition eg_lpp_use_case_info :: UseCaseInfo where
  "eg_lpp_use_case_info =
     \<lparr>valid_actor_types = [kUseCaseActorTypeControllableSystem],
      valid_entity_types = [kEntityTypeTypeCEM, kEntityTypeTypeEVSE, kEntityTypeTypeInverter, kEntityTypeTypeSmartEnergyAppliance,
        kEntityTypeTypeSubMeterElectricity],
      use_case_scenarios = [1, 2, 4], info_actor = kUseCaseActorTypeEnergyGuard,
      use_case_name_id = kUseCaseNameTypeLimitationOfPowerProduction, info_version = ''1.0.0'',
      info_sub_revision = ''release'', info_available = True\<rparr>"

definition EgLpUseCaseConstruct :: "nat \<Rightarrow> EntityAddressType \<Rightarrow> bool \<Rightarrow> EgLpUseCase" where
  "EgLpUseCaseConstruct direction ea listener =
     \<lparr>eg_entity = ea, eg_energy_direction = direction,
      eg_failsafe_power_limit_key =
        (if direction = kEnergyDirectionTypeConsume then kDeviceConfigurationKeyNameTypeFailsafeConsumptionActivePowerLimit
         else kDeviceConfigurationKeyNameTypeFailsafeProductionActivePowerLimit),
      eg_lp_listener = listener\<rparr>"

section \<open>Clients\<close>

text \<open>\<^verbatim>\<open>WriteCmd\<close> of \<^verbatim>\<open>feature_info_client.c\<close>; the sender is that of the device of the remote feature.\<close>

definition WriteCmd :: "self \<times> ptr \<Rightarrow> CmdType \<Rightarrow> Node \<Rightarrow> (EebusError \<times> Node) option" where
  "WriteCmd c cmd n =
     map_option (\<lambda>(dr, rf).
       with_sender (device_ski dr)
         (\<lambda>s. SenderWrite s (Some (feature_address (snd (fst c)))) (Some (feature_address rf)) (Some cmd)) n)
       (remote_feature_at (world n) (Some (snd c)))"

definition RemoteOperations :: "Node \<Rightarrow> ptr \<Rightarrow> nat \<Rightarrow> Operations option" where
  "RemoteOperations n p t = Option.bind (FeatureGetFunction (remotes n p) t) foperations"

definition LoadControlClientConstruct ::
    "Node \<Rightarrow> EntityAddressType \<Rightarrow> (Device \<times> Entity) option \<Rightarrow> EebusError + (self \<times> ptr)" where
  "LoadControlClientConstruct n ea remote_entity = FeatureInfoClientConstruct n kFeatureTypeTypeLoadControl ea remote_entity"

definition LoadControlClientRequestLimitDescriptions ::
    "bool \<Rightarrow> Model \<Rightarrow> self \<times> ptr \<Rightarrow> EebusData \<Rightarrow> EebusData \<Rightarrow> Node \<Rightarrow> (EebusError \<times> Node) option" where
  "LoadControlClientRequestLimitDescriptions z m c = RequestData z m c kFunctionTypeLoadControlLimitDescriptionListData"

definition LoadControlClientRequestLimitConstraints ::
    "bool \<Rightarrow> Model \<Rightarrow> self \<times> ptr \<Rightarrow> EebusData \<Rightarrow> EebusData \<Rightarrow> Node \<Rightarrow> (EebusError \<times> Node) option" where
  "LoadControlClientRequestLimitConstraints z m c = RequestData z m c kFunctionTypeLoadControlLimitConstraintsListData"

definition LoadControlClientRequestLimitData ::
    "bool \<Rightarrow> Model \<Rightarrow> self \<times> ptr \<Rightarrow> EebusData \<Rightarrow> EebusData \<Rightarrow> Node \<Rightarrow> (EebusError \<times> Node) option" where
  "LoadControlClientRequestLimitData z m c = RequestData z m c kFunctionTypeLoadControlLimitListData"

text \<open>A command that writes data of a function, with its filters; a full write has none and does not name the function.\<close>

definition write_cmd :: "nat \<Rightarrow> EebusData \<Rightarrow> FilterType list \<Rightarrow> CmdType" where
  "write_cmd t data fs =
     CmdCreateEmpty\<lparr>cmd_function := (if fs = [] then None else Some t), cmd_filter := fs, data_choice := data,
       data_choice_type_id := t\<rparr>"

text \<open>
  What both clients do when the remote feature takes no partial writes: the copy of the remote data is
  updated, without filters and not to be kept, and what it then holds is sent.
\<close>

definition write_full :: "bool \<Rightarrow> Model \<Rightarrow> self \<times> ptr \<Rightarrow> nat \<Rightarrow> EebusData \<Rightarrow> Node \<Rightarrow> (EebusError \<times> Node) option" where
  "write_full z m c t data n = do {
     (err, n) \<leftarrow> FeatureRemoteUpdateData z m (snd c) t data None None False n;
     if err \<noteq> kEebusErrorOk then Some (err, n)
     else WriteCmd c (write_cmd t (HelperGetFeatureData n None (Some (snd c)) t) []) n
   }"

definition LoadControlClientWriteLimitList ::
    "bool \<Rightarrow> Model \<Rightarrow> self \<times> ptr \<Rightarrow> EebusData \<Rightarrow> EebusData \<Rightarrow> EebusData \<Rightarrow> Node \<Rightarrow> (EebusError \<times> Node) option" where
  "LoadControlClientWriteLimitList z m c limit_list delete_selectors delete_elements n =
     (if limit_list = Null then Some (kEebusErrorInputArgumentNull, n)
      else if elements_of (member 0 limit_list) = [] then Some (kEebusErrorInputArgument, n)
      else let t = kFunctionTypeLoadControlLimitListData
           in case RemoteOperations n (snd c) t of
                None \<Rightarrow> write_full z m c t limit_list n
              | Some ops \<Rightarrow>
                  if \<not> op_write_partial ops then write_full z m c t limit_list n
                  else WriteCmd c (write_cmd t limit_list (FILTER_PARTIAL t Null Null #
                         (if delete_elements \<noteq> Null \<and> delete_selectors \<noteq> Null
                          then [FILTER_DELETE t delete_selectors delete_elements] else []))) n)"

definition DeviceConfigurationClientConstruct ::
    "Node \<Rightarrow> EntityAddressType \<Rightarrow> (Device \<times> Entity) option \<Rightarrow> EebusError + (self \<times> ptr)" where
  "DeviceConfigurationClientConstruct n ea remote_entity =
     FeatureInfoClientConstruct n kFeatureTypeTypeDeviceConfiguration ea remote_entity"

definition DeviceConfigurationClientRequestKeyValueDescription ::
    "bool \<Rightarrow> Model \<Rightarrow> self \<times> ptr \<Rightarrow> EebusData \<Rightarrow> EebusData \<Rightarrow> Node \<Rightarrow> (EebusError \<times> Node) option" where
  "DeviceConfigurationClientRequestKeyValueDescription z m c =
     RequestData z m c kFunctionTypeDeviceConfigurationKeyValueDescriptionListData"

definition DeviceConfigurationClientRequestKeyValue ::
    "bool \<Rightarrow> Model \<Rightarrow> self \<times> ptr \<Rightarrow> EebusData \<Rightarrow> EebusData \<Rightarrow> Node \<Rightarrow> (EebusError \<times> Node) option" where
  "DeviceConfigurationClientRequestKeyValue z m c = RequestData z m c kFunctionTypeDeviceConfigurationKeyValueListData"

definition DeviceConfigurationClientWriteKeyValueList ::
    "bool \<Rightarrow> Model \<Rightarrow> self \<times> ptr \<Rightarrow> EebusData \<Rightarrow> Node \<Rightarrow> (EebusError \<times> Node) option" where
  "DeviceConfigurationClientWriteKeyValueList z m c key_value_list n =
     (if key_value_list = Null then Some (kEebusErrorInputArgumentNull, n)
      else if elements_of (member 0 key_value_list) = [] then Some (kEebusErrorInputArgument, n)
      else let t = kFunctionTypeDeviceConfigurationKeyValueListData
           in case RemoteOperations n (snd c) t of
                None \<Rightarrow> write_full z m c t key_value_list n
              | Some ops \<Rightarrow>
                  if \<not> op_write_partial ops then write_full z m c t key_value_list n
                  else WriteCmd c (write_cmd t key_value_list [FILTER_PARTIAL t Null Null]) n)"

section \<open>The limit\<close>

text \<open>
  The remote entity with its device. The energy guard does not ask for the category of the limit as the
  controllable system does.
\<close>

definition GetRemoteEntity :: "UseCaseInfo \<Rightarrow> Node \<Rightarrow> EntityAddressType \<Rightarrow> (Device \<times> Entity) option option" where
  "GetRemoteEntity info n addr =
     map_option (\<lambda>en. Option.bind en (\<lambda>e. map_option (\<lambda>dr. (dr, e)) (GetRemoteDeviceWithAddress n (ea_device addr))))
       (UseCaseGetRemoteEntityWithAddress info n (Some addr))"

definition guard_pattern :: "EgLpUseCase \<Rightarrow> EebusData" where
  "guard_pattern uc =
     Seq [Null, enum_value kLoadControlLimitTypeTypeSignDependentAbsValueLimit, Null,
          enum_value (eg_energy_direction uc), Null, Null, enum_value kScopeTypeTypeActivePowerLimit, Null, Null]"

definition EgLpGetActivePowerLimit ::
    "Model \<Rightarrow> UseCaseInfo \<Rightarrow> EgLpUseCase \<Rightarrow> EntityAddressType \<Rightarrow> Node \<Rightarrow> (EebusError + LoadLimit) option" where
  "EgLpGetActivePowerLimit m info uc addr n = do {
     re \<leftarrow> GetRemoteEntity info n addr;
     if re = None then Some (Inl kEebusErrorNoChange)
     else case LoadControlClientConstruct n (eg_entity uc) re of
            Inl err \<Rightarrow> Some (Inl err)
          | Inr c \<Rightarrow>
              let descr = LoadControlCommonGetLimitDescriptionWithFilter m n None (Some (snd c)) (guard_pattern uc)
              in if descr = Null \<or> member 0 descr = Null then Some (Inl kEebusErrorNoChange)
                 else Some (LoadLimitInitWithLoadControlLimitData
                        (LoadControlCommonGetLimitWithId m n None (Some (snd c)) (member 0 descr)))
   }"

text \<open>An end time given as a duration: the kind, then the duration.\<close>

definition duration_value :: "EebusDuration \<Rightarrow> EebusData" where
  "duration_value d = Simple (int_bytes 4 1 @ duration_bytes d)"

definition new_limit :: "EebusData \<Rightarrow> LoadLimit \<Rightarrow> EebusDuration \<Rightarrow> EebusData" where
  "new_limit i lim d =
     Seq [i, Null, bool_value (ll_is_active lim), if EebusDurationToSeconds d > 0 then Seq [Null, duration_value d] else Null,
          scaled_number_value (ll_value lim)]"

text \<open>
  \<^verbatim>\<open>LoadControlWriteLimit\<close>. The duration of the caller is read; \<open>None\<close> is one that was never set. The tags of the elements
  to delete are not set, which selects the whole time period.
\<close>

definition LoadControlWriteLimit ::
    "bool \<Rightarrow> Model \<Rightarrow> EntityAddressType \<Rightarrow> (Device \<times> Entity) option \<Rightarrow> EebusData \<Rightarrow> LoadLimit \<Rightarrow> Node \<Rightarrow>
     (EebusError \<times> Node) option" where
  "LoadControlWriteLimit z m ea re pattern lim n =
     (case LoadControlClientConstruct n ea re of
        Inl err \<Rightarrow> Some (err, n)
      | Inr c \<Rightarrow>
          let old = LoadControlCommonGetLimitWithFilter m n None (Some (snd c)) pattern
          in if old = Null \<or> member 0 old = Null then Some (kEebusErrorNoChange, n)
             else if member 1 old \<noteq> Null \<and> \<not> LoadControlLimitIsLimitChangeable old then Some (kEebusErrorNotSupported, n)
             else case ll_duration lim of
                    None \<Rightarrow> None
                  | Some d \<Rightarrow>
                      LoadControlClientWriteLimitList z m c (Seq [Lst [new_limit (member 0 old) lim d]])
                        (if ll_delete_duration lim then Seq [member 0 old] else Null)
                        (if ll_delete_duration lim then Seq [Null, Null, Null, Seq [Null, Null], Null] else Null) n)"

definition EgLpSetActivePowerLimit ::
    "bool \<Rightarrow> Model \<Rightarrow> UseCaseInfo \<Rightarrow> EgLpUseCase \<Rightarrow> EntityAddressType \<Rightarrow> LoadLimit \<Rightarrow> Node \<Rightarrow> (EebusError \<times> Node) option" where
  "EgLpSetActivePowerLimit z m info uc addr lim n = do {
     re \<leftarrow> GetRemoteEntity info n addr;
     if re = None then Some (kEebusErrorNoChange, n)
     else LoadControlWriteLimit z m (eg_entity uc) re (guard_pattern uc) lim n
   }"

section \<open>The failsafe values\<close>

definition key_pattern :: "nat \<Rightarrow> EebusData \<Rightarrow> EebusData" where
  "key_pattern k value_type = Seq [Null, enum_value k, value_type, Null, Null, Null]"

definition EgLpGetFailsafeActivePowerLimit ::
    "Model \<Rightarrow> UseCaseInfo \<Rightarrow> EgLpUseCase \<Rightarrow> EntityAddressType \<Rightarrow> Node \<Rightarrow> (EebusError + ScaledValue) option" where
  "EgLpGetFailsafeActivePowerLimit m info uc addr n = do {
     re \<leftarrow> GetRemoteEntity info n addr;
     if re = None then Some (Inl kEebusErrorNoChange)
     else case DeviceConfigurationClientConstruct n (eg_entity uc) re of
            Inl err \<Rightarrow> Some (Inl err)
          | Inr c \<Rightarrow>
              map_option (\<lambda>kv. ScaledValueInitWithScaledNumber (DeviceConfigurationKeyValueGetScaledNumber kv))
                (DeviceConfigurationCommonGetKeyValueWithFilter m n None (Some (snd c))
                  (key_pattern (eg_failsafe_power_limit_key uc) (enum_value kDeviceConfigurationKeyValueTypeTypeScaledNumber)))
   }"

definition EgLpSetFailsafeActivePowerLimit ::
    "bool \<Rightarrow> Model \<Rightarrow> UseCaseInfo \<Rightarrow> EgLpUseCase \<Rightarrow> EntityAddressType \<Rightarrow> ScaledValue \<Rightarrow> Node \<Rightarrow> (EebusError \<times> Node) option" where
  "EgLpSetFailsafeActivePowerLimit z m info uc addr power_limit n = do {
     re \<leftarrow> GetRemoteEntity info n addr;
     if re = None then Some (kEebusErrorNoChange, n)
     else case DeviceConfigurationClientConstruct n (eg_entity uc) re of
            Inl err \<Rightarrow> Some (err, n)
          | Inr c \<Rightarrow>
              let descr = DeviceConfigurationCommonGetKeyValueDescriptionWithFilter m n None (Some (snd c))
                            (key_pattern (eg_failsafe_power_limit_key uc) Null)
              in if descr = Null \<or> member 0 descr = Null then Some (kEebusErrorNotAvailable, n)
                 else DeviceConfigurationClientWriteKeyValueList z m c
                        (Seq [Lst [Seq [member 0 descr,
                           Seq [Null, Null, Null, Null, Null, Null, scaled_number_value power_limit, Null], Null]]]) n
   }"

definition EgLpGetFailsafeDurationMinimum ::
    "Model \<Rightarrow> UseCaseInfo \<Rightarrow> EgLpUseCase \<Rightarrow> EntityAddressType \<Rightarrow> Node \<Rightarrow> (EebusError + EebusDuration) option" where
  "EgLpGetFailsafeDurationMinimum m info uc addr n = do {
     re \<leftarrow> GetRemoteEntity info n addr;
     if re = None then Some (Inl kEebusErrorNoChange)
     else case DeviceConfigurationClientConstruct n (eg_entity uc) re of
            Inl err \<Rightarrow> Some (Inl err)
          | Inr c \<Rightarrow>
              map_option DeviceConfigurationKeyValueGetDuration
                (DeviceConfigurationCommonGetKeyValueWithFilter m n None (Some (snd c))
                  (key_pattern kDeviceConfigurationKeyNameTypeFailsafeDurationMinimum
                    (enum_value kDeviceConfigurationKeyValueTypeTypeDuration)))
   }"

definition hours_only :: "int \<Rightarrow> EebusDuration" where
  "hours_only k = \<lparr>years = 0, months = 0, days = 0, hours = k, minutes = 0, seconds = 0, milliseconds = 0\<rparr>"

definition EgLpSetFailsafeDurationMinimum ::
    "bool \<Rightarrow> Model \<Rightarrow> UseCaseInfo \<Rightarrow> EgLpUseCase \<Rightarrow> EntityAddressType \<Rightarrow> EebusDuration \<Rightarrow> Node \<Rightarrow> (EebusError \<times> Node) option" where
  "EgLpSetFailsafeDurationMinimum z m info uc addr d n = do {
     re \<leftarrow> GetRemoteEntity info n addr;
     if re = None then Some (kEebusErrorNoChange, n)
     else if EebusDurationCompare d (hours_only 2) < 0 \<or> EebusDurationCompare d (hours_only 24) > 0
     then Some (kEebusErrorInputArgumentOutOfRange, n)
     else case DeviceConfigurationClientConstruct n (eg_entity uc) re of
            Inl err \<Rightarrow> Some (err, n)
          | Inr c \<Rightarrow> do {
              kv \<leftarrow> DeviceConfigurationCommonGetKeyValueWithFilter m n None (Some (snd c))
                     (key_pattern kDeviceConfigurationKeyNameTypeFailsafeDurationMinimum Null);
              if kv = Null then Some (kEebusErrorNotAvailable, n)
              else DeviceConfigurationClientWriteKeyValueList z m c
                     (Seq [Lst [Seq [member 0 kv,
                        Seq [Null, Null, Null, Simple (duration_bytes d), Null, Null, Null, Null], Null]]]) n
            }
   }"

section \<open>Heartbeats\<close>

text \<open>The client is constructed for no remote entity.\<close>

definition EgLpIsHeartbeatWithinDuration :: "EebusDateTime \<Rightarrow> EebusDateTime \<Rightarrow> EgLpUseCase \<Rightarrow> Node \<Rightarrow> bool option" where
  "EgLpIsHeartbeatWithinDuration now now' uc n =
     (case DeviceDiagnosisClientConstruct n (eg_entity uc) None of
        Inl err \<Rightarrow> Some False
      | Inr c \<Rightarrow> DeviceDiagnosisCommonIsHeartbeatWithinDuration now now' n None (Some (snd c)) (Some two_minutes))"

section \<open>Events\<close>

datatype guard_call =
  RemoteEntityConnect EntityAddressType
| RemoteEntityDisconnect EntityAddressType
| GuardPowerLimitReceive EntityAddressType ScaledValue "EebusDuration option" bool
| GuardFailsafePowerLimitReceive EntityAddressType ScaledValue
| GuardFailsafeDurationReceive EntityAddressType EebusDuration
| GuardHeartbeatReceive EntityAddressType nat

definition subscribe_once :: "self \<times> ptr \<Rightarrow> Node \<Rightarrow> Node option" where
  "subscribe_once c n = do { has \<leftarrow> HasSubscription c n; if has then Some n else map_option snd (Subscribe c n) }"

definition bind_once :: "self \<times> ptr \<Rightarrow> Node \<Rightarrow> Node option" where
  "bind_once c n = do { has \<leftarrow> HasBinding_client c n; if has then Some n else map_option snd (Bind c n) }"

definition OnEntityAddedHandleLoadControl ::
    "bool \<Rightarrow> Model \<Rightarrow> EgLpUseCase \<Rightarrow> (Device \<times> Entity) option \<Rightarrow> Node \<Rightarrow> Node option" where
  "OnEntityAddedHandleLoadControl z m uc re n =
     (case LoadControlClientConstruct n (eg_entity uc) re of
        Inl err \<Rightarrow> Some n
      | Inr c \<Rightarrow> do {
          n \<leftarrow> subscribe_once c n;
          n \<leftarrow> bind_once c n;
          map_option snd (LoadControlClientRequestLimitDescriptions z m c
            (Seq [Null, enum_value kLoadControlLimitTypeTypeSignDependentAbsValueLimit, enum_value (eg_energy_direction uc), Null,
                  enum_value kScopeTypeTypeActivePowerLimit]) Null n)
        })"

definition OnEntityAddedHandleDeviceConfiguration ::
    "bool \<Rightarrow> Model \<Rightarrow> EgLpUseCase \<Rightarrow> (Device \<times> Entity) option \<Rightarrow> Node \<Rightarrow> Node option" where
  "OnEntityAddedHandleDeviceConfiguration z m uc re n =
     (case DeviceConfigurationClientConstruct n (eg_entity uc) re of
        Inl err \<Rightarrow> Some n
      | Inr c \<Rightarrow> do {
          n \<leftarrow> subscribe_once c n;
          n \<leftarrow> bind_once c n;
          map_option snd (DeviceConfigurationClientRequestKeyValueDescription z m c Null Null n)
        })"

definition OnEntityAddedHandleDeviceDiagnosis ::
    "bool \<Rightarrow> Model \<Rightarrow> EgLpUseCase \<Rightarrow> (Device \<times> Entity) option \<Rightarrow> Node \<Rightarrow> Node option" where
  "OnEntityAddedHandleDeviceDiagnosis z m uc re n =
     (case DeviceDiagnosisClientConstruct n (eg_entity uc) re of
        Inl err \<Rightarrow> Some n
      | Inr c \<Rightarrow> do {
          n \<leftarrow> subscribe_once c n;
          map_option snd (DeviceDiagnosisClientRequestHeartbeat z m c n)
        })"

definition OnEntityAdded ::
    "bool \<Rightarrow> Model \<Rightarrow> UseCaseInfo \<Rightarrow> EgLpUseCase \<Rightarrow> (UseCaseActorType \<times> UseCaseNameType) option \<Rightarrow> Device \<times> Entity \<Rightarrow> Node \<Rightarrow>
     (guard_call list \<times> Node) option" where
  "OnEntityAdded z m info uc use_case_filter re n =
     (if \<not> UseCaseIsUseCaseCompatible info use_case_filter then Some ([], n)
      else do {
        n \<leftarrow> OnEntityAddedHandleLoadControl z m uc (Some re) n;
        n \<leftarrow> OnEntityAddedHandleDeviceConfiguration z m uc (Some re) n;
        n \<leftarrow> OnEntityAddedHandleDeviceDiagnosis z m uc (Some re) n;
        Some (if eg_lp_listener uc then [RemoteEntityConnect (entity_address (snd re))] else [], n)
      })"

definition OnEntityRemoved ::
    "UseCaseInfo \<Rightarrow> EgLpUseCase \<Rightarrow> (UseCaseActorType \<times> UseCaseNameType) option \<Rightarrow> Device \<times> Entity \<Rightarrow> guard_call list" where
  "OnEntityRemoved info uc use_case_filter re =
     (if \<not> UseCaseIsUseCaseCompatible info use_case_filter then []
      else if eg_lp_listener uc then [RemoteEntityDisconnect (entity_address (snd re))] else [])"

definition OnLoadControlLimitDescriptionDataUpdate ::
    "bool \<Rightarrow> Model \<Rightarrow> EgLpUseCase \<Rightarrow> Device \<times> Entity \<Rightarrow> Node \<Rightarrow> Node option" where
  "OnLoadControlLimitDescriptionDataUpdate z m uc re n =
     (case LoadControlClientConstruct n (eg_entity uc) (Some re) of
        Inl err \<Rightarrow> Some n
      | Inr c \<Rightarrow>
          let descr = LoadControlCommonGetLimitDescriptionWithFilter m n None (Some (snd c)) (guard_pattern uc)
          in if descr = Null \<or> member 0 descr = Null then Some n
             else map_option snd (LoadControlClientRequestLimitData z m c (Seq [member 0 descr]) Null n))"

text \<open>The listener is called without a test whether there is one.\<close>

definition OnLoadControlLimitDataUpdate_eg ::
    "Model \<Rightarrow> UseCaseInfo \<Rightarrow> EgLpUseCase \<Rightarrow> Device \<times> Entity \<Rightarrow> EebusData \<Rightarrow> Node \<Rightarrow> guard_call list option" where
  "OnLoadControlLimitDataUpdate_eg m info uc re data n =
     (case LoadControlClientConstruct n (eg_entity uc) (Some re) of
        Inl err \<Rightarrow> Some []
      | Inr c \<Rightarrow>
          let addr = entity_address (snd re)
          in if \<not> LoadControlCommonCheckLimitWithFilter m n None (Some (snd c)) data (guard_pattern uc) then Some []
             else do {
               r \<leftarrow> EgLpGetActivePowerLimit m info uc addr n;
               (case r of
                  Inl err \<Rightarrow> Some []
                | Inr l \<Rightarrow>
                    if \<not> eg_lp_listener uc then None
                    else Some [GuardPowerLimitReceive addr (ll_value l) (if ll_delete_duration l then None else ll_duration l)
                                 (ll_is_active l)])
             })"

definition OnConfigurationDescriptionDataUpdate ::
    "bool \<Rightarrow> Model \<Rightarrow> EgLpUseCase \<Rightarrow> Device \<times> Entity \<Rightarrow> Node \<Rightarrow> Node option" where
  "OnConfigurationDescriptionDataUpdate z m uc re n =
     (case DeviceConfigurationClientConstruct n (eg_entity uc) (Some re) of
        Inl err \<Rightarrow> Some n
      | Inr c \<Rightarrow> map_option snd (DeviceConfigurationClientRequestKeyValue z m c Null Null n))"

definition OnConfigurationDataUpdate_eg ::
    "Model \<Rightarrow> UseCaseInfo \<Rightarrow> EgLpUseCase \<Rightarrow> Device \<times> Entity \<Rightarrow> EebusData \<Rightarrow> Node \<Rightarrow> guard_call list option" where
  "OnConfigurationDataUpdate_eg m info uc re data n =
     (case DeviceConfigurationClientConstruct n (eg_entity uc) (Some re) of
        Inl err \<Rightarrow> Some []
      | Inr c \<Rightarrow>
          if \<not> eg_lp_listener uc then Some []
          else
            let addr = entity_address (snd re);
                concerns = (\<lambda>k. DeviceConfigurationCommonCheckKeyValueWithFilter m n None (Some (snd c)) data (key_pattern k Null))
            in do {
              ls \<leftarrow> (if concerns (eg_failsafe_power_limit_key uc)
                    then map_option (\<lambda>r. case r of Inl err \<Rightarrow> [] | Inr v \<Rightarrow> [GuardFailsafePowerLimitReceive addr v])
                           (EgLpGetFailsafeActivePowerLimit m info uc addr n)
                    else Some []);
              ds \<leftarrow> (if concerns kDeviceConfigurationKeyNameTypeFailsafeDurationMinimum
                    then map_option (\<lambda>r. case r of Inl err \<Rightarrow> [] | Inr d \<Rightarrow> [GuardFailsafeDurationReceive addr d])
                           (EgLpGetFailsafeDurationMinimum m info uc addr n)
                    else Some []);
              Some (ls @ ds)
            })"

text \<open>The test of the classifier reads through a null pointer when there is none, and never holds otherwise.\<close>

definition OnHeartbeat_eg ::
    "EgLpUseCase \<Rightarrow> Device \<times> Entity \<Rightarrow> CommandClassifierType option \<Rightarrow> EebusData \<Rightarrow> guard_call list option" where
  "OnHeartbeat_eg uc re classifier data =
     (if classifier = None then None
      else case value_nat (member 1 data) of
             None \<Rightarrow> Some []
           | Some c \<Rightarrow> Some (if eg_lp_listener uc then [GuardHeartbeatReceive (entity_address (snd re)) c] else []))"

definition OnDataChange_eg ::
    "bool \<Rightarrow> Model \<Rightarrow> UseCaseInfo \<Rightarrow> EgLpUseCase \<Rightarrow> DataEvent \<Rightarrow> Device \<times> Entity \<Rightarrow> Node \<Rightarrow> (guard_call list \<times> Node) option" where
  "OnDataChange_eg z m info uc ev re n =
     (let t = ep_function_type ev; data = ep_function_data ev
      in if t = kFunctionTypeLoadControlLimitDescriptionListData
         then map_option (Pair []) (OnLoadControlLimitDescriptionDataUpdate z m uc re n)
         else if t = kFunctionTypeLoadControlLimitListData
         then map_option (\<lambda>ls. (ls, n)) (OnLoadControlLimitDataUpdate_eg m info uc re data n)
         else if t = kFunctionTypeDeviceConfigurationKeyValueDescriptionListData
         then map_option (Pair []) (OnConfigurationDescriptionDataUpdate z m uc re n)
         else if t = kFunctionTypeDeviceConfigurationKeyValueListData
         then map_option (\<lambda>ls. (ls, n)) (OnConfigurationDataUpdate_eg m info uc re data n)
         else if t = kFunctionTypeDeviceDiagnosisHeartbeatData
         then map_option (\<lambda>ls. (ls, n)) (OnHeartbeat_eg uc re (ep_cmd_classifier ev) data)
         else Some ([], n))"

text \<open>An event without an entity is not compatible.\<close>

definition EgLpHandleEvent ::
    "bool \<Rightarrow> Model \<Rightarrow> UseCaseInfo \<Rightarrow> EgLpUseCase \<Rightarrow> DataEvent \<Rightarrow> (UseCaseActorType \<times> UseCaseNameType) option \<Rightarrow>
     (Device \<times> Entity) option \<Rightarrow> Node \<Rightarrow> (guard_call list \<times> Node) option" where
  "EgLpHandleEvent z m info uc ev use_case_filter re n =
     (case re of
        None \<Rightarrow> Some ([], n)
      | Some (dr, e) \<Rightarrow> do {
          compatible \<leftarrow> UseCaseIsEntityCompatible info n dr (Some e);
          if \<not> compatible then Some ([], n)
          else if ep_event_type ev = kEventTypeUseCaseChange
          then (if ep_change_type ev = kElementChangeAdd then OnEntityAdded z m info uc use_case_filter (dr, e) n
                else if ep_change_type ev = kElementChangeRemove then Some (OnEntityRemoved info uc use_case_filter (dr, e), n)
                else Some ([], n))
          else if ep_event_type ev = kEventTypeDataChange \<or> ep_change_type ev = kElementChangeUpdate
          then OnDataChange_eg z m info uc ev (dr, e) n
          else Some ([], n)
        })"

end
