(* ===== verification/Use_Case_Tables.thy ===== *)
theory Use_Case_Tables
  imports Spine_Function Spine_Types
begin

text \<open>
  The descriptors of the functions that the power limitation use cases exchange besides the limits themselves:
  \<^verbatim>\<open>loadcontrol_types.inc\<close> (descriptions of limits) and \<^verbatim>\<open>device_configuration_types.inc\<close> (key values and their
  descriptions), and a model with these functions at their places. Sizes are those of a 64-bit build.
\<close>

definition EEBUS_DATA_ENUM :: "string \<Rightarrow> EebusDataCfg" where
  "EEBUS_DATA_ENUM nm = EebusDataCfg eebus_data_enum_methods nm 4 0 []"

definition EEBUS_DATA_STRING :: "string \<Rightarrow> EebusDataCfg" where
  "EEBUS_DATA_STRING nm = EebusDataCfg eebus_data_string_methods nm 8 0 []"

definition EEBUS_DATA_DATE_TIME_SIZED :: "string \<Rightarrow> nat \<Rightarrow> EebusDataCfg" where
  "EEBUS_DATA_DATE_TIME_SIZED nm n = EebusDataCfg eebus_data_absolute_or_relative_time_methods nm n 0 []"

definition EEBUS_DATA_UINT32_IDENTIFIER :: "string \<Rightarrow> EebusDataCfg" where
  "EEBUS_DATA_UINT32_IDENTIFIER nm = EebusDataCfg eebus_data_numeric_methods nm 4 kEebusDataFlagIsIdentifier []"

definition EEBUS_DATA_LIST_CONTAINER :: "string \<Rightarrow> string \<Rightarrow> nat \<Rightarrow> EebusDataCfg list \<Rightarrow> EebusDataCfg" where
  "EEBUS_DATA_LIST_CONTAINER nm list_nm n cfgs =
     EebusDataCfg eebus_data_container_methods nm 16 0
       [EebusDataCfg eebus_data_list_methods list_nm 8 0 [EebusDataCfg eebus_data_sequence_methods [] n 0 cfgs]]"

section \<open>Descriptions of limits\<close>

definition load_control_limit_description_data_cfg :: "EebusDataCfg list" where
  "load_control_limit_description_data_cfg =
     [EEBUS_DATA_UINT32_IDENTIFIER ''limitId'', EEBUS_DATA_ENUM ''limitType'', EEBUS_DATA_ENUM ''limitCategory'',
      EEBUS_DATA_ENUM ''limitDirection'', uint32_cfg ''measurementId'', EEBUS_DATA_ENUM ''unit'', EEBUS_DATA_ENUM ''scopeType'',
      EEBUS_DATA_STRING ''label'', EEBUS_DATA_STRING ''description'']"

definition load_control_limit_description_data_elements_cfg :: "EebusDataCfg list" where
  "load_control_limit_description_data_elements_cfg =
     map tag_cfg [''limitId'', ''limitType'', ''limitCategory'', ''limitDirection'', ''measurementId'', ''unit'', ''scopeType'',
       ''label'', ''description'']"

definition load_control_limit_description_list_data_selectors_cfg :: "EebusDataCfg list" where
  "load_control_limit_description_list_data_selectors_cfg =
     [uint32_cfg ''limitId'', EEBUS_DATA_ENUM ''limitType'', EEBUS_DATA_ENUM ''limitDirection'', uint32_cfg ''measurementId'',
      EEBUS_DATA_ENUM ''scopeType'']"

section \<open>Key values\<close>

definition device_configuration_key_value_value_cfg :: "EebusDataCfg list" where
  "device_configuration_key_value_value_cfg =
     [EEBUS_DATA_BOOL ''boolean'', EEBUS_DATA_DATE_TIME_SIZED ''date'' 12, EEBUS_DATA_DATE_TIME_SIZED ''dateTime'' 24,
      EEBUS_DATA_DATE_TIME_SIZED ''duration'' 28, EEBUS_DATA_ENUM ''string'', EEBUS_DATA_DATE_TIME_SIZED ''time'' 12,
      EEBUS_DATA_SEQUENCE ''scaledNumber'' 16 scaled_number_cfg, EebusDataCfg eebus_data_numeric_methods ''integer'' 8 0 []]"

definition device_configuration_key_value_value_elements_cfg :: "EebusDataCfg list" where
  "device_configuration_key_value_value_elements_cfg =
     map tag_cfg [''boolean'', ''date'', ''dateTime'', ''duration'', ''string'', ''time''] @
     [EEBUS_DATA_SEQUENCE ''scaledNumber'' 16 scaled_number_elements_cfg]"

definition device_configuration_key_value_data_cfg :: "EebusDataCfg list" where
  "device_configuration_key_value_data_cfg =
     [EEBUS_DATA_UINT32_IDENTIFIER ''keyId'', EEBUS_DATA_SEQUENCE ''value'' 64 device_configuration_key_value_value_cfg,
      EEBUS_DATA_BOOL ''isValueChangeable'']"

definition device_configuration_key_value_data_elements_cfg :: "EebusDataCfg list" where
  "device_configuration_key_value_data_elements_cfg =
     [tag_cfg ''keyId'', EEBUS_DATA_SEQUENCE ''value'' 56 device_configuration_key_value_value_elements_cfg,
      tag_cfg ''isValueChangeable'']"

definition device_configuration_key_value_description_data_cfg :: "EebusDataCfg list" where
  "device_configuration_key_value_description_data_cfg =
     [EEBUS_DATA_UINT32_IDENTIFIER ''keyId'', EEBUS_DATA_ENUM ''keyName'', EEBUS_DATA_ENUM ''valueType'', EEBUS_DATA_ENUM ''unit'',
      EEBUS_DATA_STRING ''label'', EEBUS_DATA_STRING ''description'']"

definition device_configuration_key_value_description_data_elements_cfg :: "EebusDataCfg list" where
  "device_configuration_key_value_description_data_elements_cfg =
     map tag_cfg [''keyId'', ''keyName'', ''valueType'', ''unit'', ''label'', ''description'']"

definition device_configuration_key_value_description_list_data_selectors_cfg :: "EebusDataCfg list" where
  "device_configuration_key_value_description_list_data_selectors_cfg = [uint32_cfg ''keyId'', EEBUS_DATA_ENUM ''keyName'']"

section \<open>An instance of the model\<close>

text \<open>The entry of every other function is that of the limits; nothing below reads one.\<close>

definition power_limit_entry :: "nat \<Rightarrow> EebusDataCfg \<times> EebusDataCfg \<times> EebusDataCfg" where
  "power_limit_entry t =
     (if t = kFunctionTypeLoadControlLimitDescriptionListData
      then (EEBUS_DATA_LIST_CONTAINER ''loadControlLimitDescriptionListData'' ''loadControlLimitDescriptionData'' 72
              load_control_limit_description_data_cfg,
            EEBUS_DATA_SEQUENCE ''loadControlLimitDescriptionListDataSelectors'' 40
              load_control_limit_description_list_data_selectors_cfg,
            EEBUS_DATA_SEQUENCE ''loadControlLimitDescriptionDataElements'' 72 load_control_limit_description_data_elements_cfg)
      else if t = kFunctionTypeDeviceConfigurationKeyValueListData
      then (EEBUS_DATA_LIST_CONTAINER ''deviceConfigurationKeyValueListData'' ''deviceConfigurationKeyValueData'' 24
              device_configuration_key_value_data_cfg,
            EEBUS_DATA_SEQUENCE ''deviceConfigurationKeyValueListDataSelectors'' 8 [uint32_cfg ''keyId''],
            EEBUS_DATA_SEQUENCE ''deviceConfigurationKeyValueDataElements'' 24 device_configuration_key_value_data_elements_cfg)
      else if t = kFunctionTypeDeviceConfigurationKeyValueDescriptionListData
      then (EEBUS_DATA_LIST_CONTAINER ''deviceConfigurationKeyValueDescriptionListData''
              ''deviceConfigurationKeyValueDescriptionData'' 48 device_configuration_key_value_description_data_cfg,
            EEBUS_DATA_SEQUENCE ''deviceConfigurationKeyValueDescriptionListDataSelectors'' 16
              device_configuration_key_value_description_list_data_selectors_cfg,
            EEBUS_DATA_SEQUENCE ''deviceConfigurationKeyValueDescriptionDataElements'' 48
              device_configuration_key_value_description_data_elements_cfg)
      else (data_choice_data_cfg load_control_model ! 0, data_selectors_choice_data_cfg load_control_model ! 0,
            data_elements_choice_data_cfg load_control_model ! 0))"

definition power_limit_model :: Model where
  "power_limit_model =
     (let entries = map power_limit_entry [0..<47]
      in \<lparr>data_choice_data_cfg = map fst entries, data_selectors_choice_data_cfg = map (\<lambda>(d, s, e). s) entries,
          data_elements_choice_data_cfg = map (\<lambda>(d, s, e). e) entries\<rparr>)"

lemma power_limit_model_wf: "model_wf power_limit_model"
  by code_simp

lemma power_limit_entries:
  assumes "t < 47"
  shows "data_choice_data_cfg power_limit_model ! t = fst (power_limit_entry t)"
    "data_selectors_choice_data_cfg power_limit_model ! t = fst (snd (power_limit_entry t))"
    "data_elements_choice_data_cfg power_limit_model ! t = snd (snd (power_limit_entry t))"
    "ModelGetDataCfg power_limit_model t = Some (fst (power_limit_entry t))"
    "ModelGetDataSelectorsCfg power_limit_model t = Some (fst (snd (power_limit_entry t)))"
    "ModelGetDataElementsCfg power_limit_model t = Some (snd (snd (power_limit_entry t)))"
  using assms by (simp_all add: power_limit_model_def Let_def split_def ModelGetDataCfg_def ModelGetDataSelectorsCfg_def
      ModelGetDataElementsCfg_def)

lemma power_limit_list_function:
  "list_function power_limit_model kFunctionTypeLoadControlLimitListData load_control_limit_data_element_data_cfg"
  by code_simp

end
