(* ===== verification/Spine_Approval_Laws.thy ===== *)
theory Spine_Approval_Laws
  imports Spine_Feature_Laws
begin

text \<open>
  Denied writes: one denial decides, whatever the callbacks after it answer. The answer of a callback may depend on
  the message and on the data of the device, but not on the requests that wait.
\<close>

lemma log_trace_comp: "log_trace s (log_trace t n) = log_trace (t @ s) n"
  by (simp add: log_trace_def)

lemma with_sender_log: "with_sender ski f (log_trace t n) = apsnd (log_trace t) (with_sender ski f n)"
  by (simp add: with_sender_def log_trace_def split: prod.splits)

lemma deny_appended:
  assumes "FindPendingWriteRequest (locals n (fst self)) (pw_ski r) (msg_counter r) = None"
    and "feature_role (snd self) = kRoleTypeServer" "error_number e \<noteq> kErrorNumberTypeNoError"
    and "PendingWriteRequest_GetMessage r n = Inr msg"
  shows "FeatureLocalDenyWrite self (Some (pw_ski r)) (msg_counter r) (Some e) (upd_requests self (\<lambda>ps. ps @ [r]) n) =
    (kEebusErrorOk, snd (with_sender (device_remote msg)
       (\<lambda>s. ResultError s (request_header msg) (Some (feature_address (snd self))) (Some e)) n))"
proof -
  let ?f = "\<lambda>s. ResultError s (request_header msg) (Some (feature_address (snd self))) (Some e)"
  note new = find_appended [OF assms(1) refl refl]
  have get: "PendingWriteRequest_GetMessage r (upd_requests self (\<lambda>ps. ps @ [r]) n) = Inr msg"
    using assms(4) by (simp add: upd_requests_def)
  have r: "r \<notin> set (pending_write_requests (locals (snd (with_sender (device_remote msg) ?f n)) (fst self)))"
    using new(2) by simp
  have "upd_local (fst self) (remove_request r) n' = upd_requests self (remove1 r) n'" for n'
    by (simp add: upd_requests_def upd_local_def remove_request_def)
  then show ?thesis
    using assms(2,3) new(1) get replace_appended(2) [OF r]
    by (simp add: FeatureLocalDenyWrite_def upd_requests_comm)
qed

lemma answer_without_request:
  assumes "FindPendingWriteRequest (locals n (fst self)) ski cnt = None"
  shows "run_actions z m self [Approve (Some ski) cnt] n = Some n" "run_actions z m self [Deny (Some ski) cnt e] n = Some n"
  using assms by (simp_all add: FeatureLocalTryApproveWrite_def FeatureLocalDenyWrite_def)

lemma answers_without_request:
  assumes "FindPendingWriteRequest (locals n (fst self)) ski cnt = None"
    and "\<forall>cb \<in> set cbs. \<forall>w. same_data n w \<longrightarrow> (app cb msg w = [Approve (Some ski) cnt] \<or> (\<exists>e. app cb msg w = [Deny (Some ski) cnt e]))"
  shows "ProcessWriteApprovalCallbacks z m app self msg cbs n = Some (log_trace (map (\<lambda>cb. ApprovalRequest cb msg) cbs) n)"
  using assms
proof (induction cbs arbitrary: n)
  case (Cons cb cbs)
  let ?n = "log_trace [ApprovalRequest cb msg] n"
  have "same_data n n" by (simp add: same_data_def)
  then have "run_actions z m self (app cb msg n) ?n = Some ?n"
    using Cons.prems answer_without_request [of ?n self ski cnt z m] by (metis list.set_intros(1) log_trace_simps(1))
  moreover have "ProcessWriteApprovalCallbacks z m app self msg cbs ?n = Some (log_trace (map (\<lambda>cb. ApprovalRequest cb msg) cbs) ?n)"
    using Cons.prems by (intro Cons.IH) (simp_all add: same_data_log)
  ultimately show ?case by (simp add: log_trace_comp)
qed (simp add: log_trace_def)

lemma callbacks_deny:
  assumes "FindPendingWriteRequest (locals n (fst self)) (device_remote msg) cnt = None" "feature_role (snd self) = kRoleTypeServer"
    and "\<forall>cb \<in> set pre. \<forall>w. same_data n w \<longrightarrow> app cb msg w = [Approve (Some (device_remote msg)) cnt]"
    and "\<forall>w. same_data n w \<longrightarrow> app d msg w = [Deny (Some (device_remote msg)) cnt (Some e)]"
    and "\<forall>cb \<in> set post. \<forall>w. same_data n w \<longrightarrow>
      (app cb msg w = [Approve (Some (device_remote msg)) cnt] \<or> (\<exists>e. app cb msg w = [Deny (Some (device_remote msg)) cnt e]))"
    and "error_number e \<noteq> kErrorNumberTypeNoError"
    and "i + length pre < length (wr_approval_cbs (locals n (fst self)))" "i + length pre < 2 ^ 64"
    and "num_approvals r = of_nat i" "pw_ski r = device_remote msg" "msg_counter r = cnt"
    and "\<And>w i. world w = world n \<Longrightarrow> PendingWriteRequest_GetMessage (r\<lparr>num_approvals := i\<rparr>) w = Inr msg"
  shows "ProcessWriteApprovalCallbacks z m app self msg (pre @ d # post) (upd_requests self (\<lambda>ps. ps @ [r]) n) =
    Some (log_trace (map (\<lambda>cb. ApprovalRequest cb msg) (pre @ d # post)) (snd (with_sender (device_remote msg)
       (\<lambda>s. ResultError s (request_header msg) (Some (feature_address (snd self))) (Some e)) n)))"
  using assms
proof (induction pre arbitrary: n i r)
  case Nil
  let ?n = "log_trace [ApprovalRequest d msg] n"
  let ?f = "\<lambda>s. ResultError s (request_header msg) (Some (feature_address (snd self))) (Some e)"
  let ?w = "snd (with_sender (device_remote msg) ?f ?n)"
  have "r\<lparr>num_approvals := num_approvals r\<rparr> = r" by simp
  then have get: "PendingWriteRequest_GetMessage r ?n = Inr msg" using Nil.prems(12) [of ?n] by (metis log_trace_simps(2))
  have deny: "snd (FeatureLocalDenyWrite self (Some (device_remote msg)) cnt (Some e) (upd_requests self (\<lambda>ps. ps @ [r]) ?n)) = ?w"
    using deny_appended [of ?n self r e msg] Nil.prems get by simp
  have "same_data n ?w" by (simp add: same_data_def)
  then have "ProcessWriteApprovalCallbacks z m app self msg post ?w =
      Some (log_trace (map (\<lambda>cb. ApprovalRequest cb msg) post) ?w)"
    using Nil.prems(1,5) by (intro answers_without_request [of ?w self "device_remote msg" cnt]) (simp_all add: same_data_def)
  then show ?case
    using Nil.prems(4) same_data_requests [of n self "\<lambda>ps. ps @ [r]"] deny
    by (simp add: upd_requests_comm with_sender_log log_trace_comp)
next
  case (Cons cb cbs)
  let ?n = "log_trace [ApprovalRequest cb msg] n" and ?r = "r\<lparr>num_approvals := of_nat (Suc i)\<rparr>"
  have approve: "FeatureLocalTryApproveWrite z m self (Some (device_remote msg)) cnt (upd_requests self (\<lambda>ps. ps @ [r]) ?n) =
      Some (kEebusErrorOk, upd_requests self (\<lambda>ps. ps @ [?r]) ?n)"
    using approve_appended [of ?n self r i msg z m] Cons.prems by simp
  have "app cb msg (upd_requests self (\<lambda>ps. ps @ [r]) n) = [Approve (Some (device_remote msg)) cnt]"
    using Cons.prems(3) same_data_requests [of n self "\<lambda>ps. ps @ [r]"] by simp
  then have run: "ProcessWriteApprovalCallbacks z m app self msg ((cb # cbs) @ d # post) (upd_requests self (\<lambda>ps. ps @ [r]) n) =
      ProcessWriteApprovalCallbacks z m app self msg (cbs @ d # post) (upd_requests self (\<lambda>ps. ps @ [?r]) ?n)"
    using approve by (simp add: upd_requests_comm)
  show ?case
    unfolding run using Cons.prems Cons.IH [of ?n "Suc i" ?r]
    by (simp add: same_data_log with_sender_log log_trace_comp)
qed

lemma denied_write:
  assumes "known_sender n msg" "whole_message msg" "feature_role (snd self) = kRoleTypeServer"
    and "request_header msg = Some h" "msg_cnt h = Some cnt"
    and "FindPendingWriteRequest (locals n (fst self)) (device_remote msg) cnt = None"
    and "wr_approval_cbs (locals n (fst self)) = pre @ d # post" "length pre < 2 ^ 64"
    and "\<forall>cb \<in> set pre. \<forall>w. same_data n w \<longrightarrow> app cb msg w = [Approve (Some (device_remote msg)) cnt]"
    and "\<forall>w. same_data n w \<longrightarrow> app d msg w = [Deny (Some (device_remote msg)) cnt (Some e)]"
    and "\<forall>cb \<in> set post. \<forall>w. same_data n w \<longrightarrow>
      (app cb msg w = [Approve (Some (device_remote msg)) cnt] \<or> (\<exists>e. app cb msg w = [Deny (Some (device_remote msg)) cnt e]))"
    and "error_number e \<noteq> kErrorNumberTypeNoError"
  shows "ProcessWrite z m app self msg n =
    Some (kEebusErrorOk, log_trace (map (\<lambda>cb. ApprovalRequest cb msg) (pre @ d # post)) (snd (with_sender (device_remote msg)
       (\<lambda>s. ResultError s (Some h) (Some (feature_address (snd self))) (Some e)) n)))"
proof -
  obtain r where r: "AddPendingWriteRequest self msg n = Some (upd_requests self (\<lambda>ps. ps @ [r]) n)"
      "pw_ski r = device_remote msg" "msg_counter r = cnt" "num_approvals r = 0" "time_counter r = 10" "\<not> has_expired r" "pw_header r = h"
      and get: "\<And>w i t x. world w = world n \<Longrightarrow>
        PendingWriteRequest_GetMessage (r\<lparr>num_approvals := i, time_counter := t, has_expired := x\<rparr>) w = Inr msg"
    using pending_request [OF assms(1-6)] by blast
  have get: "PendingWriteRequest_GetMessage (r\<lparr>num_approvals := i\<rparr>) w = Inr msg" if "world w = world n" for w i
    using get [where i = i and t = "time_counter r" and x = "has_expired r", OF that] by simp
  have "ProcessWriteApprovalCallbacks z m app self msg (pre @ d # post) (upd_requests self (\<lambda>ps. ps @ [r]) n) =
      Some (log_trace (map (\<lambda>cb. ApprovalRequest cb msg) (pre @ d # post)) (snd (with_sender (device_remote msg)
        (\<lambda>s. ResultError s (request_header msg) (Some (feature_address (snd self))) (Some e)) n)))"
    using assms(3,6,7,8,9,10,11,12) r get by (intro callbacks_deny [where i = 0]) simp_all
  then show ?thesis
    using assms(4,7) r(1) by (simp add: ProcessWrite_def upd_requests_def)
qed

text \<open>
  C26. A write that an approval callback denies changes nothing but the writer's mail: whatever the callbacks
  after it answer, every callback is asked exactly once, the data and the pending requests of all features
  are as they were, and the only datagram that is written is one result to the writer that refers to
  its message and carries the error of the first denial.
\<close>

theorem denied_write_changes_nothing:
  assumes "known_sender n msg" "whole_message msg" "feature_role (snd self) = kRoleTypeServer"
    and "request_header msg = Some h" "msg_cnt h = Some cnt" "src_addr h = Some client" "dest_addr h = Some server"
    and "FindPendingWriteRequest (locals n (fst self)) (device_remote msg) cnt = None" "writer (senders n (device_remote msg))"
    and "wr_approval_cbs (locals n (fst self)) = pre @ d # post" "length pre < 2 ^ 64"
    and "\<forall>cb \<in> set pre. \<forall>w. same_data n w \<longrightarrow> app cb msg w = [Approve (Some (device_remote msg)) cnt]"
    and "\<forall>w. same_data n w \<longrightarrow> app d msg w = [Deny (Some (device_remote msg)) cnt (Some e)]"
    and "\<forall>cb \<in> set post. \<forall>w. same_data n w \<longrightarrow>
      (app cb msg w = [Approve (Some (device_remote msg)) cnt] \<or> (\<exists>e. app cb msg w = [Deny (Some (device_remote msg)) cnt e]))"
    and "error_number e \<noteq> kErrorNumberTypeNoError"
  shows "\<exists>n' result. ProcessWrite z m app self msg n = Some (kEebusErrorOk, n') \<and>
    locals n' = locals n \<and> remotes n' = remotes n \<and> world n' = world n \<and>
    traces n' = traces n @ map (\<lambda>cb. ApprovalRequest cb msg) (wr_approval_cbs (locals n (fst self))) \<and>
    (\<forall>ski. written (senders n' ski) = written (senders n ski) @ (if ski = device_remote msg then [result] else [])) \<and>
    map_option (\<lambda>r. (dest_addr r, msg_cnt_ref r, cmd_classifier r)) (header result) =
      Some (Some client, Some cnt, Some kCommandClassifierTypeResult) \<and>
    map_option (map (map_option data_choice)) (payload result) =
      Some [Some (result_data_value (error_number e) (description e))]"
proof -
  have "ProcessWrite z m app self msg n =
    Some (kEebusErrorOk, log_trace (map (\<lambda>cb. ApprovalRequest cb msg) (pre @ d # post)) (snd (with_sender (device_remote msg)
       (\<lambda>s. ResultError s (Some h) (Some (feature_address (snd self))) (Some e)) n)))"
    using assms(1-5,8,10-15) by (rule denied_write)
  then show ?thesis
    using assms(5,6,7,9,10)
    by (simp add: ResultError_def SendResult_def SendSpineMessage_def SenderGetNextMsgCounter_def split_def Let_def)
qed

theorem denied_write_changes_nothing_witness:
  "\<exists>n' result. ProcessWrite False load_control_model
      (\<lambda>cb msg w. if cb = (1, 1) then [Deny (Some ''A'') 7 (Some timeout_error)] else [Approve (Some ''A'') 7])
      example_self example_write (example_node [(0, 0), (1, 1), (2, 2)]) = Some (kEebusErrorOk, n') \<and>
    FeatureLocalGetData example_self 0 n' = FeatureLocalGetData example_self 0 (example_node [(0, 0), (1, 1), (2, 2)]) \<and>
    written (senders n' ''A'') = [result]"
proof -
  let ?n = "example_node [(0, 0), (1, 1), (2, 2)]"
  let ?app = "\<lambda>(cb :: callback) msg w. if cb = (1, 1) then [Deny (Some ''A'') 7 (Some timeout_error)] else [Approve (Some ''A'') 7]"
  have snd: "writer (senders ?n ''A'')" "written (senders ?n ''A'') = []" by (simp_all add: example_node_def SenderConstruct_def)
  obtain client server where addr: "src_addr example_header = Some client" "dest_addr example_header = Some server"
    by (simp add: example_header_def)
  have known: "FindPendingWriteRequest (locals ?n (fst example_self)) (device_remote example_write) 7 = None"
      "writer (senders ?n (device_remote example_write))"
      "wr_approval_cbs (locals ?n (fst example_self)) = [(0, 0)] @ (1, 1) # [(2, 2)]" "length [(0, 0) :: callback] < 2 ^ 64"
      "\<forall>cb \<in> set [(0, 0)]. \<forall>w. same_data ?n w \<longrightarrow> ?app cb example_write w = [Approve (Some (device_remote example_write)) 7]"
      "\<forall>w. same_data ?n w \<longrightarrow> ?app (1, 1) example_write w = [Deny (Some (device_remote example_write)) 7 (Some timeout_error)]"
      "\<forall>cb \<in> set [(2, 2)]. \<forall>w. same_data ?n w \<longrightarrow> (?app cb example_write w = [Approve (Some (device_remote example_write)) 7] \<or>
        (\<exists>e. ?app cb example_write w = [Deny (Some (device_remote example_write)) 7 e]))"
      "error_number timeout_error \<noteq> kErrorNumberTypeNoError"
    by (simp_all add: example_known snd [unfolded One_nat_def] timeout_error_def kErrorNumberTypeTimeout_def kErrorNumberTypeNoError_def)
  obtain n' result where "ProcessWrite False load_control_model ?app example_self example_write ?n = Some (kEebusErrorOk, n')"
      "locals n' = locals ?n" "\<forall>ski. written (senders n' ski) = written (senders ?n ski) @ (if ski = ''A'' then [result] else [])"
    using denied_write_changes_nothing [OF example_known(1) [of "[(0, 0), (1, 1), (2, 2)]"] example_known(2,7,4,5) addr known,
        of False load_control_model] unfolding example_known(6) by blast
  then show ?thesis using snd(2) by (intro exI [of _ n'] exI [of _ result]) (simp add: FeatureLocalGetData_def)
qed

end
