(* ===== verification/Spine_Element_Laws.thy ===== *)
theory Spine_Element_Laws
  imports Spine_Function
begin

text \<open>
  What every element of a function's list keeps: a predicate that overlaying and deleting members keep is
  an invariant of every update, as long as the data that is written has it.
\<close>

section \<open>Deleting members\<close>

text \<open>The same value with some members, on any level, set to null.\<close>

fun part_of :: "EebusData \<Rightarrow> EebusData \<Rightarrow> bool" where
  "part_of (Seq ws) (Seq vs) \<longleftrightarrow> length ws = length vs \<and> list_all (\<lambda>(w, v). part_of w v) (zip ws vs)"
| "part_of w v \<longleftrightarrow> w = Null \<or> w = v"

lemma part_of_Null [simp]: "part_of Null v"
  by (cases v) simp_all

lemma part_of_refl [simp]: "part_of v v"
  by (induction v) (auto simp: list_all_iff zip_same_conv_map)

lemma part_of_Seq: "part_of (Seq ws) (Seq vs) \<longleftrightarrow> list_all2 part_of ws vs"
  by (auto simp: list_all2_iff list_all_iff)

lemma part_of_cases: "part_of w v \<Longrightarrow> w = Null \<or> w = v \<or> (\<exists>ws vs. w = Seq ws \<and> v = Seq vs \<and> list_all2 part_of ws vs)"
  by (cases w; cases v) (auto simp: part_of_Seq simp del: part_of.simps(1))

lemma delete_elements_part:
  assumes "plain cfg" "fits z cfg v" "fits z' elements_cfg elements"
  shows "part_of (EEBUS_DATA_DELETE_ELEMENTS cfg v elements_cfg elements) v"
  using assms
proof (induction cfg arbitrary: v elements_cfg elements rule: cfg_induct)
  case (1 cfg)
  note IH = 1(1) and pl = 1(2) and v = 1(3) and e = 1(4)
  have null: "EEBUS_DATA_DELETE c d = Null" if "plain c" for c d
    using plain_interface [OF that] by auto
  show ?case
  proof (cases "cfg_interface cfg = eebus_data_sequence_methods")
    case True
    then have st: "is_structure cfg" by simp
    have eq: "EEBUS_DATA_DELETE_ELEMENTS cfg v elements_cfg elements =
        EebusDataSequenceDeleteElements EEBUS_DATA_DELETE_ELEMENTS cfg v elements_cfg elements"
      using True by (simp add: EEBUS_DATA_DELETE_ELEMENTS.simps [of cfg])
    show ?thesis
    proof (cases "cfg_interface elements_cfg = eebus_data_sequence_methods \<and> (\<exists>ds es. v = Seq ds \<and> elements = Seq es)")
      case True
      then obtain ds es where [simp]: "v = Seq ds" "elements = Seq es" and ei: "is_structure elements_cfg" by auto
      have es: "length es = length (metadata elements_cfg)" "list_all2 (fits z') (metadata elements_cfg) es"
        using e fits_Seq_iff [OF ei] by simp_all
      have ds: "length ds = length (metadata cfg)" "list_all2 (fits z) (metadata cfg) ds" using v fits_Seq_iff [OF st] by simp_all
      let ?f = "\<lambda>c d ec e. if EEBUS_DATA_IS_NULL ec e then d else if EEBUS_DATA_IS_EMPTY ec e then EEBUS_DATA_DELETE c d
        else EEBUS_DATA_DELETE_ELEMENTS c d ec e"
      let ?ws = "map (\<lambda>((c, d), (ec, e)). ?f c d ec e) (zip (zip (metadata cfg) ds) (zip (metadata elements_cfg) es)) @
        drop (min (length (metadata cfg)) (length (metadata elements_cfg))) ds"
      have m: "part_of (?f (metadata cfg ! i) (ds ! i) (metadata elements_cfg ! i) (es ! i)) (ds ! i)"
        if "i < length (metadata cfg)" "i < length es" for i
        using IH [of "metadata cfg ! i"] null plain_memberD [OF pl] list_all2_nthD [OF ds(2)] list_all2_nthD2 [OF es(2)] that
        by simp
      have "list_all2 part_of ?ws ds"
      proof (rule list_all2_all_nthI)
        show "length ?ws = length ds" using ds(1) es(1) by simp
        fix i assume "i < length ?ws"
        then show "part_of (?ws ! i) (ds ! i)" using m [of i] ds(1) es(1) by (auto simp: nth_append)
      qed
      then have part: "part_of (Seq ?ws) (Seq ds)" unfolding part_of_Seq .
      have "EEBUS_DATA_DELETE_ELEMENTS cfg v elements_cfg elements =
          (if EEBUS_DATA_IS_EMPTY elements_cfg elements then Null else Seq ?ws)"
        unfolding eq using null [OF pl] True by (simp add: EebusDataSequenceDeleteElements_def Let_def)
      then show ?thesis using part by (cases "EEBUS_DATA_IS_EMPTY elements_cfg elements") (simp_all only: if_True if_False part_of_Null \<open>v = Seq ds\<close>)
    qed (use eq in \<open>auto simp: EebusDataSequenceDeleteElements_def split: EebusData.split\<close>)
  next
    case False
    then have "EEBUS_DATA_DELETE_ELEMENTS cfg v elements_cfg elements = EebusDataSimpleDeleteElements cfg v elements_cfg elements"
      using plain_interface [OF pl] unfolding EEBUS_DATA_DELETE_ELEMENTS.simps [of cfg] by (auto split: EebusDataInterface.split)
    then show ?thesis using null [OF pl] by (simp add: EebusDataSimpleDeleteElements_def)
  qed
qed

section \<open>Invariants of the elements\<close>

definition all_elements :: "(EebusData \<Rightarrow> bool) \<Rightarrow> EebusData \<Rightarrow> bool" where
  "all_elements P v = (case function_list v of None \<Rightarrow> True | Some ds \<Rightarrow> list_all P ds)"

locale element_invariant =
  fixes ec :: EebusDataCfg
    and P :: "EebusData \<Rightarrow> bool"
  assumes plain_element: "plain ec"
    and overlay_keeps: "fits z ec d \<Longrightarrow> fits z ec s \<Longrightarrow> P d \<Longrightarrow> P s \<Longrightarrow> P (overlay d s)"
    and part_keeps: "part_of w v \<Longrightarrow> P v \<Longrightarrow> P w"
begin

lemma foldl_keeps:
  "fits z ec d \<Longrightarrow> P d \<Longrightarrow> list_all (fits z ec) xs \<Longrightarrow> list_all P xs \<Longrightarrow> P (foldl overlay d xs)"
  using overlay_keeps fits_overlay [OF plain_element] by (induction xs arbitrary: d) auto

lemma merge_keeps:
  assumes "list_all (fits z ec) ds" "list_all P ds" "list_all (fits z ec) ss" "list_all P ss"
  shows "list_all P (merge_spec ec ds ss)"
proof -
  have "P (foldl overlay (ds ! i) (filter Q ss))" if "i < length ds" for i Q
    using assms that by (intro foldl_keeps) (auto simp: list_all_iff)
  then show ?thesis using assms(4) by (auto simp: merge_spec_def list_all_iff)
qed

lemma write_keeps:
  assumes "list_ok z ec old" "pred_option (list_all P) old" "list_all (fits z ec) ss" "list_all P ss" "ss \<noteq> []"
  shows "pred_option (list_all P) (rfe_write ec selectors_cfg selectors ss old)"
proof -
  have hd: "fits z ec (hd ss)" "P (hd ss)" using assms(3-5) by (cases ss; simp)+
  have ov: "list_all P (map (\<lambda>d. if Q d then overlay d (hd ss) else d) ds)" if "list_all (fits z ec) ds" "list_all P ds" for Q ds
    using that hd overlay_keeps by (auto simp: list_all_iff)
  show ?thesis
  proof (cases old)
    case None
    then show ?thesis using merge_keeps [of z "[]" ss] assms(3,4) by (simp add: rfe_write_def)
  next
    case (Some ds)
    then have "list_all (fits z ec) ds" "list_all P ds" using assms(1,2) by (simp_all add: list_ok_def)
    then show ?thesis
      using Some assms(3,4) merge_keeps ov [of ds] ov [of ds "\<lambda>_. True"] by (simp add: rfe_write_def)
  qed
qed

lemma delete_keeps:
  assumes "list_ok z ec old" "pred_option (list_all P) old" "fits z' elements_cfg elements"
  shows "pred_option (list_all P) (rfe_delete z ec selectors_cfg selectors elements_cfg elements old)"
proof -
  have "P (EEBUS_DATA_DELETE_ELEMENTS ec d elements_cfg elements)" if "fits z ec d" "P d" for d
    using part_keeps delete_elements_part [OF plain_element that(1) assms(3)] that(2) by blast
  then show ?thesis using assms(1,2) by (cases old) (auto simp: rfe_delete_def list_ok_def Let_def list_all_iff)
qed

lemma update_keeps:
  assumes "model_wf m" "list_function m (ftype f) ec" "fits z (data_choice_data_cfg m ! ftype f) (fdata f)" "all_elements P (fdata f)"
    and "ftype f < length (data_choice_data_cfg m)" "new_data = Seq [Lst ss]" "fits z (data_choice_data_cfg m ! ftype f) new_data"
    and "ss \<noteq> []" "list_all P ss"
    and "filter_delete = None \<or> filter_ok z m (ftype f) (the filter_delete)"
  shows "\<exists>v. FunctionUpdateData z m f new_data filter_partial filter_delete True = Some (kEebusErrorOk, f\<lparr>fdata := v\<rparr>) \<and>
    fits z (data_choice_data_cfg m ! ftype f) v \<and> all_elements P v"
proof -
  let ?cfg = "data_choice_data_cfg m ! ftype f" and ?scfg = "data_selectors_choice_data_cfg m ! ftype f"
    and ?ecfg = "data_elements_choice_data_cfg m ! ftype f"
  have cfgs: "ModelGetDataCfg m (ftype f) = Some ?cfg" "ModelGetDataSelectorsCfg m (ftype f) = Some ?scfg"
      "ModelGetDataElementsCfg m (ftype f) = Some ?ecfg"
    using assms(1,5) by (simp_all add: ModelGetDataCfg_def ModelGetDataSelectorsCfg_def ModelGetDataElementsCfg_def model_wf_def)
  obtain lc where cfg: "cfg_interface ?cfg = eebus_data_container_methods" "0 < cfg_size ?cfg" "metadata ?cfg = [lc]"
    and lc: "cfg_interface lc = eebus_data_list_methods" "metadata lc = [ec]"
    using assms(2) cfgs(1) by (auto elim: list_functionE)
  note fits = fits_holds_iff [OF cfg lc]
  obtain old where old: "holds (fdata f) old" "list_ok z ec old" using assms(3) fits by blast
  obtain new where new: "holds new_data new" "list_ok z ec new" using assms(7) fits by blast
  have ss: "list_all (fits z ec) ss" "new = Some ss"
    using new assms(6) holds_function_list [OF new(1)] by (auto simp: list_ok_def function_list_def)
  have P: "pred_option (list_all P) old"
    using assms(4) holds_function_list [OF old(1)] by (auto simp: all_elements_def split: option.splits)
  show ?thesis
  proof (cases "filter_partial = None \<and> filter_delete = None")
    case True
    then show ?thesis
      using cfgs assms(6,7,9) write_function_data(2) [OF assms(1,5,7)]
      by (intro exI [of _ new_data]) (simp add: FunctionUpdateData_def all_elements_def function_list_def)
  next
    case False
    have del: "filter_delete = None \<or> fits z ?ecfg (data_elements_choice (the filter_delete))"
      using assms(10) by (auto simp: filter_ok_def)
    then obtain v where v: "FunctionUpdateData z m f new_data filter_partial filter_delete True = Some (kEebusErrorOk, f\<lparr>fdata := v\<rparr>)"
        "fits z ?cfg v" "function_list v =
          (case filter_partial of None \<Rightarrow> id | Some p \<Rightarrow> rfe_write ec ?scfg (data_selectors_choice p) ss)
          ((case filter_delete of None \<Rightarrow> id
            | Some d \<Rightarrow> rfe_delete z ec ?scfg (data_selectors_choice d) ?ecfg (data_elements_choice d)) old)"
      using update_refines [OF assms(2) cfgs assms(3), of filter_partial new_data ss filter_delete True] assms(6,8) ss(1) False
        holds_function_list [OF old(1)] by auto
    have "pred_option (list_all P) (function_list v)"
      unfolding v(3) using write_keeps [OF _ _ ss(1) assms(9,8)] delete_keeps [OF old(2) P] rfe_delete_ok [OF plain_element old(2)]
        old(2) P del
      by (auto split: option.split)
    then show ?thesis using v(1,2) by (auto simp: all_elements_def split: option.split)
  qed
qed

end

end
