(* ===== verification/Use_Case_Laws.thy ===== *)
theory Use_Case_Laws
  imports Use_Case_Lpc Use_Case_Tables Spine_Approval_Laws Spine_Element_Laws Spine_Feature_Remote
begin

text \<open>
  What the controllable system of the power limitation use cases guarantees for the limits that clients write.
\<close>

section \<open>Members\<close>

lemma member_Null [simp]: "member i Null = Null"
  by (simp add: member_def)

lemma member_Seq [simp]: "member i (Seq ds) = (if i < length ds then ds ! i else Null)"
  by (simp add: member_def)

lemma member_overlay:
  assumes "v = Null \<or> (\<exists>ds. v = Seq ds \<and> length ds = k)" "s = Null \<or> (\<exists>ss. s = Seq ss \<and> length ss = k)"
  shows "member i (overlay v s) = overlay (member i v) (member i s)"
  using assms by auto

lemma fits_structure_cases:
  assumes "is_structure cfg" "fits z cfg v"
  shows "v = Null \<or> (\<exists>ds. v = Seq ds \<and> length ds = length (metadata cfg))"
  using assms fits_structure [OF assms(1)] by blast

lemma fits_member:
  assumes "is_structure cfg" "fits z cfg v" "i < length (metadata cfg)" "cfg_interface (metadata cfg ! i) \<noteq> eebus_data_choice_methods"
  shows "fits z (metadata cfg ! i) (member i v)"
proof (cases "v = Null")
  case False
  then obtain ds where "v = Seq ds" "length ds = length (metadata cfg)" "list_all2 (fits z) (metadata cfg) ds"
    using assms(1,2) fits_structure [OF assms(1)] by blast
  then show ?thesis using assms(3) by (simp add: list_all2_nthD)
qed (use assms(4) in simp)

lemma part_of_member: "part_of w v \<Longrightarrow> part_of (member i w) (member i v)"
  using part_of_cases [of w v] by (auto simp: list_all2_conv_all_nth)

section \<open>Limits are not negative\<close>

definition limit_number :: "EebusData \<Rightarrow> EebusData" where
  "limit_number d = member 0 (LoadControlLimitGetValue d)"

lemma negative_limit_number:
  "negative_limit d \<longleftrightarrow> (case value_int (limit_number d) of None \<Rightarrow> False | Some k \<Rightarrow> k < 0)"
  by (simp add: negative_limit_def limit_number_def)

abbreviation "limit_cfg \<equiv> load_control_limit_data_element_data_cfg"

lemma limit_cfg_members:
  "is_structure limit_cfg" "length (metadata limit_cfg) = 5" "is_structure (metadata limit_cfg ! 4)"
  "length (metadata (metadata limit_cfg ! 4)) = 2"
  "cfg_interface (metadata limit_cfg ! 4) = eebus_data_sequence_methods"
  "cfg_interface (metadata (metadata limit_cfg ! 4) ! 0) = eebus_data_numeric_methods"
  "plain limit_cfg"
  by code_simp+

lemma limit_number_leaf:
  assumes "fits z limit_cfg d"
  shows "limit_number d = Null \<or> (\<exists>bs. limit_number d = Simple bs)"
proof -
  have "fits z (metadata limit_cfg ! 4) (member 4 d)"
    by (rule fits_member [OF limit_cfg_members(1) assms]) (simp_all add: limit_cfg_members(2,5))
  then have "fits z (metadata (metadata limit_cfg ! 4) ! 0) (member 0 (member 4 d))"
    by (intro fits_member [OF limit_cfg_members(3)]) (simp_all add: limit_cfg_members(4,6))
  then show ?thesis
    unfolding fits.simps [of z "metadata (metadata limit_cfg ! 4) ! 0"] limit_number_def LoadControlLimitGetValue_def limit_cfg_members(6)
    by (simp split: EebusData.splits)
qed

lemma limit_number_overlay:
  assumes "fits z limit_cfg d" "fits z limit_cfg s"
  shows "limit_number (overlay d s) = (if limit_number s = Null then limit_number d else limit_number s)"
proof -
  have m: "fits z (metadata limit_cfg ! 4) (member 4 v)" if "fits z limit_cfg v" for v
    by (rule fits_member [OF limit_cfg_members(1) that]) (simp_all add: limit_cfg_members(2,5))
  have "member 4 (overlay d s) = overlay (member 4 d) (member 4 s)"
    using fits_structure_cases [OF limit_cfg_members(1) assms(1)] fits_structure_cases [OF limit_cfg_members(1) assms(2)]
    by (rule member_overlay)
  moreover have "member 0 (overlay (member 4 d) (member 4 s)) = overlay (member 0 (member 4 d)) (member 0 (member 4 s))"
    using fits_structure_cases [OF limit_cfg_members(3) m [OF assms(1)]] fits_structure_cases [OF limit_cfg_members(3) m [OF assms(2)]]
    by (rule member_overlay)
  ultimately have "limit_number (overlay d s) = overlay (limit_number d) (limit_number s)"
    by (simp add: limit_number_def LoadControlLimitGetValue_def)
  then show ?thesis using limit_number_leaf [OF assms(2)] by (auto simp: overlay_not_Seq)
qed

interpretation limits: element_invariant limit_cfg "\<lambda>d. \<not> negative_limit d"
proof
  show "\<not> negative_limit (overlay d s)" if "fits z limit_cfg d" "fits z limit_cfg s" "\<not> negative_limit d" "\<not> negative_limit s" for z d s
    using that(3,4) limit_number_overlay [OF that(1,2)] by (simp add: negative_limit_number)
  show "\<not> negative_limit w" if "part_of w v" "\<not> negative_limit v" for w v
  proof -
    have "part_of (limit_number w) (limit_number v)"
      using that(1) by (simp add: limit_number_def LoadControlLimitGetValue_def part_of_member)
    then show ?thesis using that(2) part_of_cases by (force simp: negative_limit_number value_int_def)
  qed
qed (rule limit_cfg_members(7))

section \<open>The check of written limits\<close>

definition limit_denial :: ErrorType where
  "limit_denial = \<lparr>error_number = kErrorNumberTypeCommandRejected, description = Some ''Negative limit values are not allowed''\<rparr>"

definition limits_of :: "Message \<Rightarrow> EebusData list" where
  "limits_of msg = elements_of (member 0 (data_choice (msg_cmd msg)))"

lemma CsLpGetFeature_same_data: "same_data n w \<Longrightarrow> CsLpGetFeature uc t w = CsLpGetFeature uc t n"
  by (simp add: same_data_def CsLpGetFeature_def local_entity_at_def)

lemma limit_callback:
  assumes "request_header msg = Some h" "msg_cnt h = Some cnt" "data_choice (msg_cmd msg) \<noteq> Null"
    and "data_choice_type_id (msg_cmd msg) = kFunctionTypeLoadControlLimitListData"
    and "CsLpGetFeature (ucs ctx) kFeatureTypeTypeLoadControl n \<noteq> None" "same_data n w"
  shows "cs_lp_approver m ucs (negative_limit_cb ctx) msg w =
    (if list_ex negative_limit (limits_of msg) then [Deny (Some (device_remote msg)) cnt (Some limit_denial)]
     else [Approve (Some (device_remote msg)) cnt])"
proof -
  obtain fl where "write_request (ucs ctx) kFeatureTypeTypeLoadControl msg w = Some (cnt, fl)"
    using assms CsLpGetFeature_same_data [OF assms(6)] by (auto simp: write_request_def)
  then show ?thesis
    using assms(4) by (simp add: cs_lp_approver_def negative_limit_cb_def CsLpLoadControlNegativeLimitWriteCallback_def
        limits_of_def limit_denial_def rejected_def)
qed

lemma limit_writes:
  assumes "known_sender n msg" "whole_message msg" "feature_role (snd self) = kRoleTypeServer"
    and "request_header msg = Some h" "msg_cnt h = Some cnt"
    and "FindPendingWriteRequest (locals n (fst self)) (device_remote msg) cnt = None"
    and "wr_approval_cbs (locals n (fst self)) = map negative_limit_cb ctxs" "ctxs \<noteq> []" "length ctxs < 2 ^ 64"
    and "\<forall>ctx \<in> set ctxs. CsLpGetFeature (ucs ctx) kFeatureTypeTypeLoadControl n \<noteq> None"
    and "data_choice_type_id (msg_cmd msg) = kFunctionTypeLoadControlLimitListData" "data_choice (msg_cmd msg) \<noteq> Null"
  shows "ProcessWrite z m (cs_lp_approver m ucs) self msg n =
    (let asked = map (\<lambda>ctx. ApprovalRequest (negative_limit_cb ctx) msg) ctxs
     in if list_ex negative_limit (limits_of msg)
        then Some (kEebusErrorOk, log_trace asked (snd (with_sender (device_remote msg)
          (\<lambda>s. ResultError s (Some h) (Some (feature_address (snd self))) (Some limit_denial)) n)))
        else map_option (\<lambda>(err, n'). (kEebusErrorOk, n')) (ProcessWriteInternal z m self msg (log_trace asked n)))"
proof -
  let ?app = "cs_lp_approver m ucs"
  note answer = limit_callback [where n = n and ucs = ucs and m = m, OF assms(4,5,12,11)]
  show ?thesis
  proof (cases "list_ex negative_limit (limits_of msg)")
    case True
    obtain c cs where ctxs: "ctxs = c # cs" using assms(8) by (cases ctxs) auto
    have deny: "\<forall>w. same_data n w \<longrightarrow> ?app (negative_limit_cb c) msg w = [Deny (Some (device_remote msg)) cnt (Some limit_denial)]"
      if "c \<in> set ctxs" for c
      using answer True assms(10) that by simp
    show ?thesis
      using denied_write [OF assms(1-6), of "[]" "negative_limit_cb c" "map negative_limit_cb cs" ?app limit_denial z m]
        assms(7) ctxs deny True
      by (simp add: comp_def limit_denial_def kErrorNumberTypeCommandRejected_def kErrorNumberTypeNoError_def)
  next
    case False
    have "\<forall>cb \<in> set (map negative_limit_cb ctxs). \<forall>w. same_data n w \<longrightarrow> ?app cb msg w = [Approve (Some (device_remote msg)) cnt]"
      using answer False assms(10) by auto
    then show ?thesis
      using approved_write [OF assms(1-6), of "map negative_limit_cb ctxs" ?app z m] assms(7-9) False by (simp add: comp_def)
  qed
qed


lemma notify_all_world: "world (notify_all cmd ts n) = world n"
  by (induction cmd ts n rule: notify_all.induct) simp_all

lemma write_stores:
  assumes "model_wf m" "t < length (data_choice_data_cfg m)" "container_ok (world n) (subscription_entries (subscription_manager n))"
    and "\<forall>ski. writer (senders n ski)" "known_sender n msg" "request_header msg = Some h"
    and "FeatureGetFunction (fl_functions (locals n (fst self))) t = Some fn" "data_choice_type_id (msg_cmd msg) = t"
    and "fits z (data_choice_data_cfg m ! t) (data_choice (msg_cmd msg))"
    and "msg_filter_partial msg = None \<or> filter_ok z m t (the (msg_filter_partial msg))"
    and "msg_filter_delete msg = None \<or> filter_ok z m t (the (msg_filter_delete msg))"
    and "FunctionUpdateData z m fn (data_choice (msg_cmd msg)) (msg_filter_partial msg) (msg_filter_delete msg) True =
      Some (kEebusErrorOk, fn\<lparr>fdata := v\<rparr>)"
  shows "\<exists>n'. ProcessWriteInternal z m self msg n = Some (kEebusErrorOk, n') \<and> FeatureLocalGetData self t n' = Some v \<and>
    world n' = world n \<and> fl_functions (locals n' (fst self)) = set_function (fn\<lparr>fdata := v\<rparr>) (fl_functions (locals n (fst self)))"
proof -
  let ?fn = "fn\<lparr>fdata := v\<rparr>"
  let ?n = "upd_local (fst self) (\<lambda>fl. fl\<lparr>fl_functions := set_function ?fn (fl_functions fl)\<rparr>) n"
  have ty: "ftype fn = t" using get_function_type [OF assms(7)] by simp
  obtain cmd where cmd: "CreateNotifyCmd z m ?fn (data_choice (msg_cmd msg)) (msg_filter_partial msg) (msg_filter_delete msg) = Some (Some cmd)"
    using notify_carries_update [of m ?fn z "data_choice (msg_cmd msg)" "msg_filter_partial msg" "msg_filter_delete msg"]
      assms(1,2,9-11) ty by auto
  obtain n1 where n1: "NotifySubscribers (feature_address (snd self)) cmd ?n = Some n1" "locals n1 = locals ?n" "world n1 = world ?n"
  proof (rule NotifySubscribers_spec [of ?n "feature_address (snd self)" cmd])
    fix w assume w: "NotifySubscribers (feature_address (snd self)) cmd ?n = Some w"
    then have "locals w = locals ?n" "world w = world ?n"
      by (auto simp: NotifySubscribers_def notify_all_frame notify_all_world)
    then show thesis by (rule that [OF w])
  qed (use assms(3,4) in simp_all)
  obtain dr f where f: "remote_feature_at (world n) (Some (feature_remote msg)) = Some (dr, f)"
    using assms(5) by (auto simp: known_sender_def split: option.splits)
  obtain n2 where n2: "ProcessWriteFunctionData z m self msg n = Some (kEebusErrorOk, n2)" "locals n2 = locals ?n" "world n2 = world n"
    using assms(7,8,12) cmd n1 f
    by (auto simp: ProcessWriteFunctionData_def update_function_def FunctionUpdateNotifySubscribers_def PublishDataUpdateEvent_def)
  have "FeatureLocalGetData self t n2 = Some v"
    using n2(2) find_set_function [OF assms(7), of ?fn] ty by (simp add: FeatureLocalGetData_def)
  then show ?thesis
    using n2 assms(6) by (auto simp: ProcessWriteInternal_def FeatureLocalGetData_def)
qed


text \<open>
  C27. A stored power limit never gets negative by a write: at the load control feature of power limitation use
  cases (one or both of them), a write of limits by a remote device, whole or partial, with selectors,
  a delete filter or without identifiers, returns and leaves a list without a negative limit, of the type of
  the function, if there was none before. A write with a negative number in any limit leaves the list as it was;
  every other write is done as it was asked for.
\<close>

theorem stored_limits_stay_nonnegative:
  assumes "model_wf m" "list_function m kFunctionTypeLoadControlLimitListData limit_cfg"
    and "known_sender n msg" "whole_message msg" "feature_role (snd self) = kRoleTypeServer"
    and "request_header msg = Some h" "msg_cnt h = Some cnt"
    and "FindPendingWriteRequest (locals n (fst self)) (device_remote msg) cnt = None"
    and "container_ok (world n) (subscription_entries (subscription_manager n))" "\<forall>ski. writer (senders n ski)"
    and "wr_approval_cbs (locals n (fst self)) = map negative_limit_cb ctxs" "ctxs \<noteq> []" "length ctxs < 2 ^ 64"
    and "\<forall>ctx \<in> set ctxs. CsLpGetFeature (ucs ctx) kFeatureTypeTypeLoadControl n \<noteq> None"
    and "FeatureGetFunction (fl_functions (locals n (fst self))) kFunctionTypeLoadControlLimitListData = Some fn"
    and "fits z (data_choice_data_cfg m ! kFunctionTypeLoadControlLimitListData) (fdata fn)" "all_elements (\<lambda>d. \<not> negative_limit d) (fdata fn)"
    and "data_choice_type_id (msg_cmd msg) = kFunctionTypeLoadControlLimitListData"
    and "data_choice (msg_cmd msg) = Seq [Lst ss]" "ss \<noteq> []"
    and "fits z (data_choice_data_cfg m ! kFunctionTypeLoadControlLimitListData) (data_choice (msg_cmd msg))"
    and "msg_filter_partial msg = None \<or> filter_ok z m kFunctionTypeLoadControlLimitListData (the (msg_filter_partial msg))"
    and "msg_filter_delete msg = None \<or> filter_ok z m kFunctionTypeLoadControlLimitListData (the (msg_filter_delete msg))"
  shows "\<exists>n' v. ProcessWrite z m (cs_lp_approver m ucs) self msg n = Some (kEebusErrorOk, n') \<and>
    FeatureLocalGetData self kFunctionTypeLoadControlLimitListData n' = Some v \<and>
    fits z (data_choice_data_cfg m ! kFunctionTypeLoadControlLimitListData) v \<and> all_elements (\<lambda>d. \<not> negative_limit d) v \<and>
    (if list_ex negative_limit ss then v = fdata fn
     else FunctionUpdateData z m fn (data_choice (msg_cmd msg)) (msg_filter_partial msg) (msg_filter_delete msg) True =
       Some (kEebusErrorOk, fn\<lparr>fdata := v\<rparr>))"
proof -
  let ?t = kFunctionTypeLoadControlLimitListData and ?P = "\<lambda>d. \<not> negative_limit d"
  let ?asked = "map (\<lambda>ctx. ApprovalRequest (negative_limit_cb ctx) msg) ctxs"
  have t: "?t < length (data_choice_data_cfg m)" "ftype fn = ?t"
    using assms(2) get_function_type [OF assms(15)] by (auto elim!: list_functionE simp: ModelGetDataCfg_def split: if_splits)
  have ss: "limits_of msg = ss" by (simp add: limits_of_def assms(19) elements_of_def)
  have outcome: "ProcessWrite z m (cs_lp_approver m ucs) self msg n =
      (if list_ex negative_limit ss
       then Some (kEebusErrorOk, log_trace ?asked (snd (with_sender (device_remote msg)
         (\<lambda>s. ResultError s (Some h) (Some (feature_address (snd self))) (Some limit_denial)) n)))
       else map_option (\<lambda>(err, n'). (kEebusErrorOk, n')) (ProcessWriteInternal z m self msg (log_trace ?asked n)))"
    using limit_writes [OF assms(3-8,11-14,18), of z m] assms(19) by (simp add: ss)
  show ?thesis
  proof (cases "list_ex negative_limit ss")
    case True
    then show ?thesis using outcome assms(15-17) by (simp add: FeatureLocalGetData_def)
  next
    case False
    then have "list_all ?P ss" by (auto simp: list_all_iff list_ex_iff)
    then obtain v where v: "FunctionUpdateData z m fn (data_choice (msg_cmd msg)) (msg_filter_partial msg) (msg_filter_delete msg) True =
        Some (kEebusErrorOk, fn\<lparr>fdata := v\<rparr>)" "fits z (data_choice_data_cfg m ! ?t) v" "all_elements ?P v"
      using limits.update_keeps [of m fn z "data_choice (msg_cmd msg)" ss "msg_filter_delete msg" "msg_filter_partial msg"]
        assms(1,2,16,17,19,20,21,23) t by auto
    obtain n' where "ProcessWriteInternal z m self msg (log_trace ?asked n) = Some (kEebusErrorOk, n')"
        "FeatureLocalGetData self ?t n' = Some v"
      using write_stores [OF assms(1) t(1), of "log_trace ?asked n" msg h self fn z v] assms(3,6,9,10,15,18,21-23) v(1)
      by (auto simp: known_sender_log)
    then show ?thesis using outcome False v by auto
  qed
qed

section \<open>An example\<close>

text \<open>The entity of a controllable system, with a feature for its limits and one for its key values.\<close>

definition power_entity :: Entity where
  "power_entity =
     \<lparr>entity_address = \<lparr>ea_device = Some ''L'', ea_entity = Some [Some 1]\<rparr>,
      entity_features =
        [(4, \<lparr>feature_address = \<lparr>device = Some ''L'', entity = Some [Some 1], feature = Some 2\<rparr>,
           feature_type = kFeatureTypeTypeLoadControl, feature_role = kRoleTypeServer, feature_desc = None\<rparr>),
         (5, \<lparr>feature_address = \<lparr>device = Some ''L'', entity = Some [Some 1], feature = Some 3\<rparr>,
           feature_type = kFeatureTypeTypeDeviceConfiguration, feature_role = kRoleTypeServer, feature_desc = None\<rparr>)],
      entity_type = 0, entity_desc = None, next_feature_id = 4\<rparr>"

definition power_use_case :: CsLpUseCase where
  "power_use_case =
     \<lparr>uc_entity = entity_address power_entity, energy_direction = kEnergyDirectionTypeConsume,
      failsafe_power_limit_key = kDeviceConfigurationKeyNameTypeFailsafeConsumptionActivePowerLimit, electrical_connection_id = 0,
      nominal_max_characteristic = kElectricalConnectionCharacteristicTypeTypeContractualConsumptionNominalMax,
      cs_lp_listener = True, heartbeat_diag_client = None, heartbeat_keo_workaround = False\<rparr>"

definition power_function :: "nat \<Rightarrow> EebusData list \<Rightarrow> Function" where
  "power_function t ds = \<lparr>ftype = t, fdata = limits ds, foperations = None\<rparr>"

text \<open>The stored limits, the descriptions of the key values and the key values.\<close>

definition power_node :: "EebusData list \<Rightarrow> EebusData list \<Rightarrow> EebusData list \<Rightarrow> Node" where
  "power_node ls descrs kvs =
     (example_node [])
       \<lparr>world := example_world\<lparr>local_device := (example_device ''L'' 4 kRoleTypeServer)\<lparr>device_entities := [power_entity]\<rparr>\<rparr>,
        binding_manager := \<lparr>binding_num = 0, binding_entries = VectorConstruct\<rparr>,
        subscription_manager := \<lparr>subscription_num = 0, subscription_entries = VectorConstruct\<rparr>,
        locals := (\<lambda>p. if p = 4
          then (FeatureLocalConstruct [power_function kFunctionTypeLoadControlLimitListData ls])
                 \<lparr>wr_approval_cbs := [negative_limit_cb 0]\<rparr>
          else (FeatureLocalConstruct [power_function kFunctionTypeDeviceConfigurationKeyValueDescriptionListData descrs,
                  power_function kFunctionTypeDeviceConfigurationKeyValueListData kvs])
                 \<lparr>wr_approval_cbs := [failsafe_limit_cb 0, failsafe_duration_cb 0]\<rparr>)\<rparr>"

definition power_write :: "nat \<Rightarrow> EebusData list \<Rightarrow> FilterType list \<Rightarrow> Message" where
  "power_write t ds fs =
     (let cmd = CmdCreateEmpty\<lparr>data_choice := limits ds, data_choice_type_id := t, cmd_filter := fs\<rparr>
      in example_write\<lparr>msg_cmd := cmd, msg_filter_partial := CmdGetFilterPartial cmd, msg_filter_delete := CmdGetFilterDelete cmd\<rparr>)"

lemma power_world: "world (power_node ls descrs kvs) = example_world\<lparr>local_device :=
    (example_device ''L'' 4 kRoleTypeServer)\<lparr>device_entities := [power_entity]\<rparr>\<rparr>"
  by (simp add: power_node_def)

lemma known_sender_cong:
  assumes "remote_devices (world n') = remote_devices (world n)" "feature_remote msg' = feature_remote msg" "device_remote msg' = device_remote msg"
  shows "known_sender n' msg' = known_sender n msg"
proof -
  have a: "GetRemoteDeviceWithAddress n' = GetRemoteDeviceWithAddress n"
    using assms(1) by (simp add: fun_eq_iff GetRemoteDeviceWithAddress_def)
  have b: "remote_feature_at (world n') = remote_feature_at (world n)"
    using assms(1) by (simp add: fun_eq_iff remote_feature_at_def)
  show ?thesis unfolding known_sender_def assms(2,3) a b ..
qed

lemma power_known: "known_sender (power_node ls descrs kvs) (power_write t ds fs)" "whole_message (power_write t ds fs)"
proof -
  have "known_sender (power_node ls descrs kvs) (power_write t ds fs) = known_sender (example_node []) example_write"
    by (rule known_sender_cong) (simp_all add: power_write_def Let_def power_world, simp add: example_node_def)
  then show "known_sender (power_node ls descrs kvs) (power_write t ds fs)" using example_known(1) by blast
  show "whole_message (power_write t ds fs)" by (simp add: whole_message_def power_write_def Let_def)
qed

lemma power_entity_at [simp]: "local_entity_at (power_node ls descrs kvs) (uc_entity power_use_case) = Some power_entity"
  by (simp add: local_entity_at_def power_world power_use_case_def)

lemma power_features:
  "GetFeatureWithTypeAndRole power_entity kFeatureTypeTypeLoadControl kRoleTypeServer = Some (entity_features power_entity ! 0)"
  "GetFeatureWithTypeAndRole power_entity kFeatureTypeTypeDeviceConfiguration kRoleTypeServer = Some (entity_features power_entity ! 1)"
  by (simp_all add: GetFeatureWithTypeAndRole_def power_entity_def kFeatureTypeTypeLoadControl_def kFeatureTypeTypeDeviceConfiguration_def)

text \<open>
  A limit of 42 W, active; a client sets it to 50 W, and with a partial write without an identifier to -1 W.
\<close>

definition watts :: "int \<Rightarrow> EebusData" where
  "watts k = scaled_number_value \<lparr>sv_value = k, sv_scale = 0\<rparr>"

definition power_limit :: "EebusData \<Rightarrow> int \<Rightarrow> EebusData" where
  "power_limit i k = Seq [i, Null, bool_value True, Null, watts k]"

lemma power_node_simps:
  "wr_approval_cbs (locals (power_node ls descrs kvs) 4) = map negative_limit_cb [0]"
  "pending_write_requests (locals (power_node ls descrs kvs) p) = []"
  "FeatureGetFunction (fl_functions (locals (power_node ls descrs kvs) 4)) kFunctionTypeLoadControlLimitListData =
     Some (power_function kFunctionTypeLoadControlLimitListData ls)"
  "writer (senders (power_node ls descrs kvs) ski)"
  "container_ok (world (power_node ls descrs kvs)) (subscription_entries (subscription_manager (power_node ls descrs kvs)))"
  by (simp_all add: power_node_def FeatureLocalConstruct_def FeatureGetFunction_def power_function_def container_ok_def
      VectorConstruct_ok VectorConstruct_list)
    (simp add: example_node_def SenderConstruct_def)

lemma power_write_simps:
  "request_header (power_write t ds fs) = Some example_header" "data_choice_type_id (msg_cmd (power_write t ds fs)) = t"
  "data_choice (msg_cmd (power_write t ds fs)) = limits ds" "device_remote (power_write t ds fs) = ''A''"
  by (simp_all add: power_write_def Let_def example_write_def CmdCreateEmpty_def)

lemmas limit_entry = power_limit_entries [of kFunctionTypeLoadControlLimitListData, simplified kFunctionTypeLoadControlLimitListData_def, simplified,
  folded kFunctionTypeLoadControlLimitListData_def]

lemma power_limit_number:
  assumes "- (2 ^ 63) \<le> k" "k < 2 ^ 63"
  shows "negative_limit (power_limit i k) \<longleftrightarrow> k < 0"
  using assms bytes_int_bytes [of 8 k]
  by (simp add: negative_limit_def LoadControlLimitGetValue_def power_limit_def watts_def scaled_number_value_def value_int_def)

lemma power_limit_fits:
  assumes "i = Null \<or> (\<exists>k. i = u32_value k)"
  shows "fits z (data_choice_data_cfg power_limit_model ! kFunctionTypeLoadControlLimitListData) (limits [power_limit i k])"
  using assms unfolding limit_entry
  by (auto simp: power_limit_entry_def kFunctionTypeLoadControlLimitListData_def kFunctionTypeLoadControlLimitDescriptionListData_def
      kFunctionTypeDeviceConfigurationKeyValueListData_def kFunctionTypeDeviceConfigurationKeyValueDescriptionListData_def
      load_control_defs limits_def power_limit_def watts_def scaled_number_value_def u32_value_def bool_value_def int_bytes_def
      fits.simps [of z "EebusDataCfg _ _ _ _ _"] with_element_def)

theorem stored_limits_stay_nonnegative_witness:
  "\<exists>n'. ProcessWrite False power_limit_model (cs_lp_approver power_limit_model (\<lambda>_. power_use_case))
      (entity_features power_entity ! 0) (power_write kFunctionTypeLoadControlLimitListData [power_limit Null (-1)] [no_selectors])
      (power_node [power_limit (u32_value 2) 42] [] []) = Some (kEebusErrorOk, n') \<and>
    FeatureLocalGetData (entity_features power_entity ! 0) kFunctionTypeLoadControlLimitListData n' =
      Some (limits [power_limit (u32_value 2) 42])"
proof -
  let ?t = kFunctionTypeLoadControlLimitListData
  let ?msg = "power_write ?t [power_limit Null (-1)] [no_selectors]" and ?n = "power_node [power_limit (u32_value 2) 42] [] []"
    and ?fn = "power_function ?t [power_limit (u32_value 2) 42]" and ?self = "entity_features power_entity ! 0"
  have self: "fst ?self = 4" "feature_role (snd ?self) = kRoleTypeServer" by (simp_all add: power_entity_def)
  have uc: "\<forall>ctx \<in> set [0]. CsLpGetFeature power_use_case kFeatureTypeTypeLoadControl ?n \<noteq> None"
    by (simp add: CsLpGetFeature_def power_features)
  have old: "fits False (data_choice_data_cfg power_limit_model ! ?t) (fdata ?fn)" "all_elements (\<lambda>d. \<not> negative_limit d) (fdata ?fn)"
    using power_limit_fits [of "u32_value 2"] power_limit_number [of 42]
    by (auto simp: power_function_def all_elements_def function_list_def limits_def)
  have new: "fits False (data_choice_data_cfg power_limit_model ! ?t) (limits [power_limit Null (-1)])" "list_ex negative_limit [power_limit Null (-1)]"
    using power_limit_fits [of Null] power_limit_number [of "-1" Null] by simp_all
  have fs: "msg_filter_partial ?msg = Some no_selectors" "msg_filter_delete ?msg = None" "filter_ok False power_limit_model ?t no_selectors"
    unfolding filter_ok_def limit_entry by (simp_all add: power_write_def Let_def CmdGetFilterPartial_def CmdGetFilterDelete_def
        CmdGetFilterWithType_def CmdCreateEmpty_def no_selectors_def FilterGetType_def ctrl_partial_def uint32_cfg_def power_limit_entry_def
        kFunctionTypeLoadControlLimitListData_def kFunctionTypeLoadControlLimitDescriptionListData_def
        kFunctionTypeDeviceConfigurationKeyValueListData_def kFunctionTypeDeviceConfigurationKeyValueDescriptionListData_def load_control_defs)
  show ?thesis
    using stored_limits_stay_nonnegative [OF power_limit_model_wf power_limit_list_function power_known(1) [of "[power_limit (u32_value 2) 42]" "[]" "[]" ?t
          "[power_limit Null (-1)]" "[no_selectors]"] power_known(2) self(2), where h = example_header and cnt = 7 and ctxs = "[0]" and ucs = "\<lambda>_. power_use_case"
        and fn = ?fn and z = False and ss = "[power_limit Null (-1)]"]
      uc old new fs self example_known(5)
    by (auto simp: power_node_simps power_write_simps FindPendingWriteRequest_def limits_def power_function_def)
qed

end
