(* ===== verification/Use_Case_Failsafe.thy ===== *)
theory Use_Case_Failsafe
  imports Use_Case_Laws
begin

text \<open>
  What the checks of the failsafe values let through: the callbacks look only at the first key value that has the
  identifier of the key.
\<close>

lemma failsafe_feature:
  assumes "CsLpGetFeature uc kFeatureTypeTypeDeviceConfiguration n = Some f"
  shows "DeviceConfigurationServerConstruct n (uc_entity uc) = Inr f"
  using assms by (auto simp: CsLpGetFeature_def DeviceConfigurationServerConstruct_def FeatureInfoServerConstruct_def split: option.splits)

lemma find_key_value_none:
  assumes "\<forall>kv \<in> set (elements_of (member 0 data)). member 0 kv = Null"
  shows "CsLpFindKeyValue m n dc data k = Null"
proof -
  have "List.find (\<lambda>kv. kv \<noteq> Null \<and> member 0 kv \<noteq> Null \<and> member 1 kv \<noteq> Null \<and> P kv) (elements_of (member 0 data)) = None" for P
    using assms by (auto simp: find_None_iff)
  then show ?thesis by (simp add: CsLpFindKeyValue_def del: not_None_eq)
qed

lemma failsafe_callbacks:
  assumes "request_header msg = Some h" "msg_cnt h = Some cnt" "data_choice (msg_cmd msg) \<noteq> Null"
    and "CsLpGetFeature (ucs ctx) kFeatureTypeTypeDeviceConfiguration n \<noteq> None" "same_data n w"
    and "\<forall>kv \<in> set (elements_of (member 0 (data_choice (msg_cmd msg)))). member 0 kv = Null"
    and "cb \<in> {failsafe_limit_cb ctx, failsafe_duration_cb ctx}"
  shows "cs_lp_approver m ucs cb msg w = [Approve (Some (device_remote msg)) cnt]"
proof -
  obtain fl where fl: "CsLpGetFeature (ucs ctx) kFeatureTypeTypeDeviceConfiguration w = Some fl"
    using assms(4) CsLpGetFeature_same_data [OF assms(5)] by auto
  then have "write_request (ucs ctx) kFeatureTypeTypeDeviceConfiguration msg w = Some (cnt, fl)"
    using assms(1-3) by (simp add: write_request_def)
  then show ?thesis
    using assms(7) failsafe_feature [OF fl]
    by (auto simp: find_key_value_none [OF assms(6)] cs_lp_approver_def failsafe_limit_cb_def failsafe_duration_cb_def CsLpFailsafeActivePowerLimitWriteCallback_def
        CsLpFailsafeDurationMinimumWriteCallback_def DeviceConfigurationKeyValueGetScaledNumber_def kv_duration_def value_int_def Let_def)
qed

text \<open>
  C38. Key values without an identifier are not checked: a write whose key values name no key is approved by the
  callbacks of the failsafe values and done, although a partial write without identifiers is
  written over every key value of the list.
\<close>

theorem failsafe_checks_bypassed:
  assumes "known_sender n msg" "whole_message msg" "feature_role (snd self) = kRoleTypeServer"
    and "request_header msg = Some h" "msg_cnt h = Some cnt"
    and "FindPendingWriteRequest (locals n (fst self)) (device_remote msg) cnt = None"
    and "cbs = wr_approval_cbs (locals n (fst self))" "cbs \<noteq> []" "length cbs < 2 ^ 64"
    and "\<forall>cb \<in> set cbs. \<exists>ctx. cb \<in> {failsafe_limit_cb ctx, failsafe_duration_cb ctx} \<and>
      CsLpGetFeature (ucs ctx) kFeatureTypeTypeDeviceConfiguration n \<noteq> None"
    and "data_choice (msg_cmd msg) \<noteq> Null"
    and "\<forall>kv \<in> set (elements_of (member 0 (data_choice (msg_cmd msg)))). member 0 kv = Null"
  shows "ProcessWrite z m (cs_lp_approver m ucs) self msg n =
    map_option (\<lambda>(err, n'). (kEebusErrorOk, n')) (ProcessWriteInternal z m self msg (log_trace (map (\<lambda>cb. ApprovalRequest cb msg) cbs) n))"
proof -
  have "\<forall>cb \<in> set cbs. \<forall>w. same_data n w \<longrightarrow> cs_lp_approver m ucs cb msg w = [Approve (Some (device_remote msg)) cnt]"
    using failsafe_callbacks [where n = n and ucs = ucs and m = m, OF assms(4,5,11) _ _ assms(12)] assms(10) by blast
  with assms(1-9) show ?thesis by (rule approved_write)
qed

text \<open>
  The failsafe limit is 4200 W. A partial write of -1 W, without a key, passes both checks, and the failsafe limit
  of the use case is -1 W.
\<close>

definition failsafe_value :: "EebusData \<Rightarrow> int \<Rightarrow> EebusData \<Rightarrow> EebusData" where
  "failsafe_value i k c = Seq [i, Seq [Null, Null, Null, Null, Null, Null, watts k, Null], c]"

definition failsafe_description :: EebusData where
  "failsafe_description =
     Seq [u32_value 2, enum_value kDeviceConfigurationKeyNameTypeFailsafeConsumptionActivePowerLimit,
          enum_value kDeviceConfigurationKeyValueTypeTypeScaledNumber, enum_value kUnitOfMeasurementTypeW, Null, Null]"

lemma nat_bytes_numeral [simp]: "nat_bytes (numeral v) k = char_of (k mod 256) # nat_bytes (pred_numeral v) (k div 256)"
  by (simp only: numeral_eq_Suc nat_bytes.simps)

lemma power_bytes:
  "watts (-1) = Seq [Simple (replicate 8 (CHR 0xFF)), Simple [CHR 0x00]]"
  "watts 4200 = Seq [Simple (CHR ''h'' # CHR 0x10 # replicate 6 (CHR 0x00)), Simple [CHR 0x00]]"
  "u32_value 2 = Simple [CHR 0x02, CHR 0x00, CHR 0x00, CHR 0x00]" "enum_value 6 = Simple [CHR 0x06, CHR 0x00, CHR 0x00, CHR 0x00]"
  "enum_value 10 = Simple [CHR 0x0A, CHR 0x00, CHR 0x00, CHR 0x00]" "enum_value 14 = Simple [CHR 0x0E, CHR 0x00, CHR 0x00, CHR 0x00]"
  by (simp_all add: watts_def scaled_number_value_def int_bytes_def u32_value_def enum_value_def) code_simp+

lemmas failsafe_simps = failsafe_value_def failsafe_description_def kDeviceConfigurationKeyNameTypeFailsafeConsumptionActivePowerLimit_def
  kDeviceConfigurationKeyValueTypeTypeScaledNumber_def kUnitOfMeasurementTypeW_def power_bytes

lemma failsafe_update:
  "FunctionUpdateData False power_limit_model
     (power_function kFunctionTypeDeviceConfigurationKeyValueListData [failsafe_value (u32_value 2) 4200 (bool_value True)])
     (limits [failsafe_value Null (-1) Null]) (Some no_selectors) None True =
   Some (kEebusErrorOk, power_function kFunctionTypeDeviceConfigurationKeyValueListData [failsafe_value (u32_value 2) (-1) (bool_value True)])"
proof -
  let ?t = kFunctionTypeDeviceConfigurationKeyValueListData
  have "?t < 47" by (simp add: kFunctionTypeDeviceConfigurationKeyValueListData_def)
  note entry = power_limit_entries [OF this]
  have "EEBUS_DATA_WRITE_PARTIAL False (fst (power_limit_entry ?t)) (limits [failsafe_value (u32_value 2) 4200 (bool_value True)])
      (limits [failsafe_value Null (-1) Null]) (Some (fst (snd (power_limit_entry ?t)), Null)) =
    Some (kEebusErrorOk, limits [failsafe_value (u32_value 2) (-1) (bool_value True)])"
    unfolding failsafe_simps by code_simp
  then show ?thesis by (simp add: FunctionUpdateData_def power_function_def entry no_selectors_def)
qed

lemma member_limits: "member 0 (limits ds) = Lst ds" "limits ds \<noteq> Null"
  by (simp_all add: limits_def)

lemma failsafe_value_key: "member 0 (failsafe_value i k c) = i"
  by (simp add: failsafe_value_def)

lemma failsafe_lookup:
  assumes "world n = world (power_node [] [] [])"
    and "fl_functions (locals n 5) = [power_function kFunctionTypeDeviceConfigurationKeyValueDescriptionListData [failsafe_description],
      power_function kFunctionTypeDeviceConfigurationKeyValueListData [failsafe_value (u32_value 2) k (bool_value True)]]"
    and "- (2 ^ 63) \<le> k" "k < 2 ^ 63"
  shows "CsLpGetFailsafeActivePowerLimit power_limit_model power_use_case n = Some (Inr (\<lparr>sv_value = k, sv_scale = 0\<rparr>, True))"
proof -
  let ?d = kFunctionTypeDeviceConfigurationKeyValueDescriptionListData and ?t = kFunctionTypeDeviceConfigurationKeyValueListData
  let ?kv = "failsafe_value (u32_value 2) k (bool_value True)"
  have "?d < 47" by (simp add: kFunctionTypeDeviceConfigurationKeyValueDescriptionListData_def)
  note entry = power_limit_entries [OF this]
  have dc: "DeviceConfigurationServerConstruct n (uc_entity power_use_case) = Inr (entity_features power_entity ! 1)"
    using assms(1) power_entity_at [of "[]" "[]" "[]"] power_features(2)
    by (simp add: DeviceConfigurationServerConstruct_def FeatureInfoServerConstruct_def local_entity_at_def)
  have five: "fst (entity_features power_entity ! 1) = 5" by (simp add: power_entity_def)
  have ne: "?d \<noteq> ?t" by (simp add: kFunctionTypeDeviceConfigurationKeyValueDescriptionListData_def kFunctionTypeDeviceConfigurationKeyValueListData_def)
  have "list_cfg_of power_limit_model ?d = Some (hd (metadata (fst (power_limit_entry ?d))))"
    unfolding list_cfg_of_def entry by code_simp
  moreover have "EebusDataListMatchIteratorConstruct (hd (metadata (fst (power_limit_entry ?d)))) (Lst [failsafe_description])
      (key_name_pattern 14) = Some 0"
    unfolding failsafe_simps key_name_pattern_def by code_simp
  ultimately have match: "HelperListMatchFirst power_limit_model ?d (limits [failsafe_description]) (key_name_pattern 14) = Some 0"
    by (simp add: HelperListMatchFirst_def limits_def)
  have data: "HelperGetFeatureData n (Some 5) None ?d = limits [failsafe_description]" "HelperGetFeatureData n (Some 5) None ?t = limits [?kv]"
    using assms(2) ne by (simp_all add: HelperGetFeatureData_def FeatureGetFunction_def power_function_def)
  have id: "value_nat (member 0 failsafe_description) = Some 2" "value_nat (member 0 ?kv) = Some 2"
    by (simp_all add: failsafe_description_def failsafe_value_def u32_value_def value_nat_def bytes_nat_bytes del: nat_bytes_numeral)
  have "DeviceConfigurationCommonGetKeyValueWithFilter power_limit_model n (Some 5) None (key_name_pattern 14) = Some ?kv"
    by (simp add: DeviceConfigurationCommonGetKeyValueWithFilter_def DeviceConfigurationCommonGetKeyValueDescriptionList_def data match id
        member_limits elements_of_def EebusDataListMatchIteratorGet_def Let_def)
  moreover have "ScaledValueInitWithScaledNumber (DeviceConfigurationKeyValueGetScaledNumber ?kv) = Inr \<lparr>sv_value = k, sv_scale = 0\<rparr>"
    using bytes_int_bytes [of 8 k] bytes_int_bytes [of 1 0] assms(3,4)
    by (simp add: ScaledValueInitWithScaledNumber_def DeviceConfigurationKeyValueGetScaledNumber_def failsafe_value_def watts_def
        scaled_number_value_def value_int_def del: nat_bytes_numeral)
  ultimately show ?thesis
    using dc five
    by (simp add: CsLpGetFailsafeActivePowerLimit_def power_use_case_def
        kDeviceConfigurationKeyNameTypeFailsafeConsumptionActivePowerLimit_def DeviceConfigurationKeyValueIsValid_def
        DeviceConfigurationKeyValueIsChangeable_def failsafe_value_def u32_value_def bool_value_def value_flag_def)
qed

lemma failsafe_write_fits:
  "fits False (data_choice_data_cfg power_limit_model ! kFunctionTypeDeviceConfigurationKeyValueListData) (limits [failsafe_value Null (-1) Null])"
  "filter_ok False power_limit_model kFunctionTypeDeviceConfigurationKeyValueListData no_selectors"
proof -
  have "kFunctionTypeDeviceConfigurationKeyValueListData < 47" by (simp add: kFunctionTypeDeviceConfigurationKeyValueListData_def)
  note entry = power_limit_entries [OF this]
  show "fits False (data_choice_data_cfg power_limit_model ! kFunctionTypeDeviceConfigurationKeyValueListData)
      (limits [failsafe_value Null (-1) Null])"
    unfolding entry failsafe_simps by code_simp
  show "filter_ok False power_limit_model kFunctionTypeDeviceConfigurationKeyValueListData no_selectors"
    unfolding entry filter_ok_def by code_simp
qed

theorem failsafe_checks_bypassed_witness:
  "\<exists>n'. ProcessWrite False power_limit_model (cs_lp_approver power_limit_model (\<lambda>_. power_use_case)) (entity_features power_entity ! 1)
      (power_write kFunctionTypeDeviceConfigurationKeyValueListData [failsafe_value Null (-1) Null] [no_selectors])
      (power_node [] [failsafe_description] [failsafe_value (u32_value 2) 4200 (bool_value True)]) = Some (kEebusErrorOk, n') \<and>
    CsLpGetFailsafeActivePowerLimit power_limit_model power_use_case n' = Some (Inr (\<lparr>sv_value = -1, sv_scale = 0\<rparr>, True))"
proof -
  let ?t = kFunctionTypeDeviceConfigurationKeyValueListData and ?self = "entity_features power_entity ! 1"
  let ?msg = "power_write ?t [failsafe_value Null (-1) Null] [no_selectors]"
    and ?n = "power_node [] [failsafe_description] [failsafe_value (u32_value 2) 4200 (bool_value True)]"
  let ?cbs = "[failsafe_limit_cb 0, failsafe_duration_cb 0]" and ?fn = "power_function ?t [failsafe_value (u32_value 2) 4200 (bool_value True)]"
  have self: "fst ?self = 5" "feature_role (snd ?self) = kRoleTypeServer" by (simp_all add: power_entity_def)
  note self' = self [unfolded One_nat_def]
  have cbs: "wr_approval_cbs (locals ?n 5) = ?cbs"
    "fl_functions (locals ?n 5) = [power_function kFunctionTypeDeviceConfigurationKeyValueDescriptionListData [failsafe_description], ?fn]"
    by (simp_all add: power_node_def FeatureLocalConstruct_def)
  have uc: "CsLpGetFeature power_use_case kFeatureTypeTypeDeviceConfiguration ?n = Some ?self"
    by (simp add: CsLpGetFeature_def power_features)
  have ne: "kFunctionTypeDeviceConfigurationKeyValueDescriptionListData \<noteq> ?t"
    by (simp add: kFunctionTypeDeviceConfigurationKeyValueDescriptionListData_def kFunctionTypeDeviceConfigurationKeyValueListData_def)
  have get: "FeatureGetFunction (fl_functions (locals ?n (fst ?self))) ?t = Some ?fn"
    using ne unfolding self cbs by (simp add: FeatureGetFunction_def power_function_def)
  have t: "?t < length (data_choice_data_cfg power_limit_model)"
    by (simp add: power_limit_model_def Let_def kFunctionTypeDeviceConfigurationKeyValueListData_def)
  have fs: "msg_filter_partial ?msg = Some no_selectors" "msg_filter_delete ?msg = None"
    by (simp_all add: power_write_def Let_def CmdGetFilterPartial_def CmdGetFilterDelete_def
        CmdGetFilterWithType_def CmdCreateEmpty_def no_selectors_def FilterGetType_def ctrl_partial_def)
  let ?asked = "map (\<lambda>cb. ApprovalRequest cb ?msg) ?cbs"
  have direct: "ProcessWrite False power_limit_model (cs_lp_approver power_limit_model (\<lambda>_. power_use_case)) ?self ?msg ?n =
      map_option (\<lambda>(err, n'). (kEebusErrorOk, n')) (ProcessWriteInternal False power_limit_model ?self ?msg (log_trace ?asked ?n))"
    using uc by (intro failsafe_checks_bypassed [OF power_known self(2) power_write_simps(1) example_known(5)])
      (auto simp: self' cbs power_node_simps power_write_simps FindPendingWriteRequest_def member_limits elements_of_def failsafe_value_key)
  obtain n' where n': "ProcessWriteInternal False power_limit_model ?self ?msg (log_trace ?asked ?n) = Some (kEebusErrorOk, n')"
      "world n' = world ?n"
      "fl_functions (locals n' 5) = set_function (?fn\<lparr>fdata := limits [failsafe_value (u32_value 2) (-1) (bool_value True)]\<rparr>) (fl_functions (locals ?n 5))"
    using write_stores [OF power_limit_model_wf t, of "log_trace ?asked ?n" ?msg example_header ?self ?fn False
        "limits [failsafe_value (u32_value 2) (-1) (bool_value True)]"] failsafe_write_fits failsafe_update
    by (auto simp: power_node_simps known_sender_log power_known power_write_simps get [unfolded self] fs self' power_function_def)
  have "fl_functions (locals n' 5) = [power_function kFunctionTypeDeviceConfigurationKeyValueDescriptionListData [failsafe_description],
      power_function ?t [failsafe_value (u32_value 2) (-1) (bool_value True)]]"
    using n'(3) ne by (simp add: cbs set_function_def power_function_def)
  then have "CsLpGetFailsafeActivePowerLimit power_limit_model power_use_case n' = Some (Inr (\<lparr>sv_value = -1, sv_scale = 0\<rparr>, True))"
    using n'(2) by (intro failsafe_lookup) (simp_all add: power_world)
  then show ?thesis using direct n'(1) by auto
qed

end
