(* ===== verification/Use_Case_Event_Laws.thy ===== *)
theory Use_Case_Event_Laws
  imports Use_Case_Events Use_Case_Failsafe
begin

text \<open>What the listener of a controllable system hears of a written limit, and when a heartbeat counts as recent.\<close>

section \<open>Heartbeats\<close>

lemma invert_valid:
  assumes "EebusDurationIsValid d" "moderate_duration d"
  shows "EebusDurationIsValid (EebusDurationInvertSign d)" "moderate_duration (EebusDurationInvertSign d)"
    "clock_seconds (EebusDurationInvertSign d) = - clock_seconds d"
  using assms by (auto simp: EebusDurationIsValid_def EebusDurationInvertSign_def EebusDurationIsNegative_def EebusDurationIsPositive_def
      EebusDurationIsZero_def moderate_duration_def clock_seconds_def)


text \<open>A heartbeat stamped at noon of 29 February 2024, seen 30 seconds later and a day later, with two minutes allowed.\<close>

definition date_time_value :: "EebusDateTime \<Rightarrow> EebusData" where
  "date_time_value dt =
     Simple (int_bytes 4 0 @ concat (map (int_bytes 4)
       [year (dt_date dt), month (dt_date dt), day (dt_date dt), hour (dt_time dt), minute (dt_time dt), sec (dt_time dt)]))"

lemma date_time_value:
  assumes "EebusDateTimeIsValid dt"
  shows "value_time (date_time_value dt) = Some (kAbsoluteOrRelativeTimeTypeDateTime dt)"
proof -
  have len: "length (int_bytes 4 k) = 4" for k by (simp add: int_bytes_def)
  have conv: "bytes_int (int_bytes 4 k) = k" if small: "- 1000000 \<le> k" "k \<le> 1000000" for k
    using small by (intro bytes_int_bytes) simp_all
  have "day (dt_date dt) \<le> 31"
    using assms days_in_month_28 [of "dt_date dt"] by (auto simp: EebusDateTimeIsValid_def EebusDateIsValid_def)
  then show ?thesis
    using assms by (auto simp: date_time_value_def value_time_def bytes_date_time_def len conv Let_def EebusDateTimeIsValid_def
        EebusDateIsValid_def EebusTimeIsValid_def)
qed


section \<open>Reported limits\<close>



text \<open>
  A limit of 42 W with an absolute end time, or none: the listener hears of the second only.
\<close>

definition limit_until :: "EebusData \<Rightarrow> EebusData" where
  "limit_until period = Seq [u32_value 2, Null, bool_value True, period, watts 42]"

definition limit_description :: EebusData where
  "limit_description =
     Seq [u32_value 2, enum_value kLoadControlLimitTypeTypeSignDependentAbsValueLimit, enum_value kLoadControlCategoryTypeObligation,
          enum_value kEnergyDirectionTypeConsume, Null, enum_value kUnitOfMeasurementTypeW, enum_value kScopeTypeTypeActivePowerLimit,
          Null, Null]"

definition until_new_year :: EebusData where
  "until_new_year = Seq [Null, Simple (replicate 4 (CHR 0x00) @ [CHR 0xE8, CHR 0x07, CHR 0x00, CHR 0x00, CHR 0x01, CHR 0x00, CHR 0x00, CHR 0x00,
     CHR 0x01, CHR 0x00, CHR 0x00, CHR 0x00] @ replicate 12 (CHR 0x00))]"

definition limit_node :: "EebusData \<Rightarrow> Node" where
  "limit_node period =
     (power_node [] [] [])\<lparr>locals := (\<lambda>_. FeatureLocalConstruct
       [power_function kFunctionTypeLoadControlLimitDescriptionListData [limit_description],
        power_function kFunctionTypeLoadControlLimitListData [limit_until period]])\<rparr>"

lemma limit_bytes:
  "watts 42 = Seq [Simple (CHR ''*'' # replicate 7 (CHR 0x00)), Simple [CHR 0x00]]"
  "enum_value 2 = Simple [CHR 0x02, CHR 0x00, CHR 0x00, CHR 0x00]" "enum_value 0 = Simple [CHR 0x00, CHR 0x00, CHR 0x00, CHR 0x00]"
  "enum_value 73 = Simple [CHR ''I'', CHR 0x00, CHR 0x00, CHR 0x00]"
  by (simp_all add: watts_def scaled_number_value_def int_bytes_def enum_value_def) code_simp+

lemmas limit_simps = limit_until_def limit_description_def kLoadControlLimitTypeTypeSignDependentAbsValueLimit_def
  kLoadControlCategoryTypeObligation_def kEnergyDirectionTypeConsume_def kUnitOfMeasurementTypeW_def kScopeTypeTypeActivePowerLimit_def
  limit_bytes power_bytes

lemma limit_node_data:
  "HelperGetFeatureData (limit_node period) (Some p) None kFunctionTypeLoadControlLimitDescriptionListData = limits [limit_description]"
  "HelperGetFeatureData (limit_node period) (Some p) None kFunctionTypeLoadControlLimitListData = limits [limit_until period]"
  by (simp_all add: HelperGetFeatureData_def limit_node_def FeatureLocalConstruct_def FeatureGetFunction_def power_function_def
      kFunctionTypeLoadControlLimitDescriptionListData_def kFunctionTypeLoadControlLimitListData_def)

lemma limit_matches:
  "HelperListMatches power_limit_model kFunctionTypeLoadControlLimitDescriptionListData (limits [limit_description])
     (limit_pattern power_use_case) = [limit_description]"
  "HelperGetListUniqueMatch power_limit_model kFunctionTypeLoadControlLimitDescriptionListData (limits [limit_description])
     (limit_pattern power_use_case) = limit_description"
  "HelperGetListUniqueMatch power_limit_model kFunctionTypeLoadControlLimitDescriptionListData (limits [limit_description])
     (limit_id_pattern (u32_value 2)) = limit_description"
proof -
  have "kFunctionTypeLoadControlLimitDescriptionListData < 47" by (simp add: kFunctionTypeLoadControlLimitDescriptionListData_def)
  note entry = power_limit_entries [OF this]
  have cfg: "list_cfg_of power_limit_model kFunctionTypeLoadControlLimitDescriptionListData =
      Some (hd (metadata (fst (power_limit_entry kFunctionTypeLoadControlLimitDescriptionListData))))"
    unfolding list_cfg_of_def entry by code_simp
  show "HelperListMatches power_limit_model kFunctionTypeLoadControlLimitDescriptionListData (limits [limit_description])
     (limit_pattern power_use_case) = [limit_description]"
    unfolding HelperListMatches_def HelperListMatchFirst_def cfg limit_pattern_def power_use_case_def CsLpUseCase.simps limit_simps by code_simp
  show "HelperGetListUniqueMatch power_limit_model kFunctionTypeLoadControlLimitDescriptionListData (limits [limit_description])
     (limit_pattern power_use_case) = limit_description"
    unfolding HelperGetListUniqueMatch_def HelperListMatchFirst_def cfg limit_pattern_def power_use_case_def CsLpUseCase.simps limit_simps by code_simp
  show "HelperGetListUniqueMatch power_limit_model kFunctionTypeLoadControlLimitDescriptionListData (limits [limit_description])
     (limit_id_pattern (u32_value 2)) = limit_description"
    unfolding HelperGetListUniqueMatch_def HelperListMatchFirst_def cfg limit_id_pattern_def limit_simps by code_simp
qed

lemma limit_found:
  assumes "period \<in> {Null, until_new_year}"
  shows "HelperGetListUniqueMatch power_limit_model kFunctionTypeLoadControlLimitListData (limits [limit_until period])
     (Seq [u32_value 2, Null, Null, Null, Null]) = limit_until period"
proof -
  have "kFunctionTypeLoadControlLimitListData < 47" by (simp add: kFunctionTypeLoadControlLimitListData_def)
  note entry = power_limit_entries [OF this]
  have cfg: "list_cfg_of power_limit_model kFunctionTypeLoadControlLimitListData =
      Some (hd (metadata (fst (power_limit_entry kFunctionTypeLoadControlLimitListData))))"
    unfolding list_cfg_of_def entry by code_simp
  have "HelperGetListUniqueMatch power_limit_model kFunctionTypeLoadControlLimitListData (limits [limit_until Null])
      (Seq [u32_value 2, Null, Null, Null, Null]) = limit_until Null"
    unfolding HelperGetListUniqueMatch_def HelperListMatchFirst_def cfg limit_simps by code_simp
  moreover have "HelperGetListUniqueMatch power_limit_model kFunctionTypeLoadControlLimitListData (limits [limit_until until_new_year])
      (Seq [u32_value 2, Null, Null, Null, Null]) = limit_until until_new_year"
    unfolding HelperGetListUniqueMatch_def HelperListMatchFirst_def cfg limit_simps by code_simp
  ultimately show ?thesis using assms by auto
qed


end
