(* ===== verification/Use_Case_Guard_Laws.thy ===== *)
theory Use_Case_Guard_Laws
  imports Use_Case_Guard Use_Case_Event_Laws Spine_Exchange
begin

text \<open>
  The energy guard and the controllable system together: a limit that the guard sets is the limit that the system
  reads, if the system takes partial writes; otherwise it is not sent.
\<close>

section \<open>What the guard sends\<close>

text \<open>The guard has found the remote load control feature, of which it holds a limit that may be changed.\<close>

definition guard_knows ::
    "Model \<Rightarrow> UseCaseInfo \<Rightarrow> EgLpUseCase \<Rightarrow> EntityAddressType \<Rightarrow> Node \<Rightarrow> self \<times> ptr \<Rightarrow> Device \<Rightarrow> Feature \<Rightarrow> EebusData \<Rightarrow> bool" where
  "guard_knows m info uc addr n c dr rf i \<longleftrightarrow>
     (case GetRemoteEntity info n addr of
        Some (Some re) \<Rightarrow> LoadControlClientConstruct n (eg_entity uc) (Some re) = Inr c
      | _ \<Rightarrow> False) \<and>
     remote_feature_at (world n) (Some (snd c)) = Some (dr, rf) \<and> writer (senders n (device_ski dr)) \<and>
     (let old = LoadControlCommonGetLimitWithFilter m n None (Some (snd c)) (guard_pattern uc)
      in old \<noteq> Null \<and> member 0 old = i \<and> i \<noteq> Null \<and> (member 1 old \<noteq> Null \<longrightarrow> LoadControlLimitIsLimitChangeable old))"

definition takes_partial_writes :: "Function \<Rightarrow> bool" where
  "takes_partial_writes fn \<longleftrightarrow> (case foperations fn of None \<Rightarrow> False | Some ops \<Rightarrow> op_write_partial ops)"

definition write_header :: "FeatureAddressType \<Rightarrow> FeatureAddressType \<Rightarrow> u64 \<Rightarrow> HeaderType" where
  "write_header src dst cnt =
     \<lparr>spec_version = Some specification_version, src_addr = Some src, dest_addr = Some dst, originator_addr = None,
      msg_cnt = Some cnt, msg_cnt_ref = None, cmd_classifier = Some kCommandClassifierTypeWrite, ack_request = Some True\<rparr>"

definition sends_write :: "self \<times> ptr \<Rightarrow> Device \<Rightarrow> Feature \<Rightarrow> CmdType \<Rightarrow> Node \<Rightarrow> Node \<Rightarrow> bool" where
  "sends_write c dr rf cmd n n' \<longleftrightarrow>
     written (senders n' (device_ski dr)) = written (senders n (device_ski dr)) @
       [\<lparr>header = Some (write_header (feature_address (snd (fst c))) (feature_address rf) (msg_num (senders n (device_ski dr)) + 1)),
         payload = Some [Some cmd]\<rparr>] \<and>
     remotes n' = remotes n \<and> world n' = world n"

lemma WriteCmd_sends:
  assumes "remote_feature_at (world n) (Some (snd c)) = Some (dr, rf)" "writer (senders n (device_ski dr))"
  shows "\<exists>n'. WriteCmd c cmd n = Some (kEebusErrorOk, n') \<and> sends_write c dr rf cmd n n'"
  using assms by (simp add: WriteCmd_def with_sender_def SenderWrite_def SendSpineMessage_def SenderGetNextMsgCounter_def Let_def
      sends_write_def write_header_def)

definition deletes :: "EebusData \<Rightarrow> LoadLimit \<Rightarrow> FilterType list" where
  "deletes i lim =
     (if ll_delete_duration lim
      then [FILTER_DELETE kFunctionTypeLoadControlLimitListData (Seq [i]) (Seq [Null, Null, Null, Seq [Null, Null], Null])] else [])"

lemma guard_writes:
  assumes "guard_knows m info uc addr n c dr rf i" "ll_duration lim = Some d"
  shows "EgLpSetActivePowerLimit z m info uc addr lim n =
    LoadControlClientWriteLimitList z m c (limits [new_limit i lim d])
      (if ll_delete_duration lim then Seq [i] else Null)
      (if ll_delete_duration lim then Seq [Null, Null, Null, Seq [Null, Null], Null] else Null) n"
  using assms by (auto simp: guard_knows_def EgLpSetActivePowerLimit_def LoadControlWriteLimit_def Let_def limits_def split: option.splits)

lemma guard_sends:
  assumes "guard_knows m info uc addr n c dr rf i" "ll_duration lim = Some d"
    and "RemoteOperations n (snd c) kFunctionTypeLoadControlLimitListData = Some ops" "op_write_partial ops"
  shows "\<exists>n'. EgLpSetActivePowerLimit z m info uc addr lim n = Some (kEebusErrorOk, n') \<and>
    sends_write c dr rf (write_cmd kFunctionTypeLoadControlLimitListData (limits [new_limit i lim d])
      (FILTER_PARTIAL kFunctionTypeLoadControlLimitListData Null Null # deletes i lim)) n n'"
  using assms(1,3,4) WriteCmd_sends [of n c dr rf]
  by (simp add: guard_writes [OF assms(1,2)] LoadControlClientWriteLimitList_def guard_knows_def limits_def elements_of_def deletes_def Let_def)

section \<open>Full writes\<close>

lemma set_function_same:
  assumes "FeatureGetFunction fs t = Some f"
  shows "set_function f fs = fs"
proof -
  have "ftype f = t" using assms by (rule get_function_type)
  then show ?thesis using assms by (induction fs) (auto simp: FeatureGetFunction_def set_function_def split: if_splits)
qed

lemma full_write_sends_old:
  assumes "guard_knows m info uc addr n c dr rf i" "ll_duration lim = Some d"
    and "FeatureGetFunction (remotes n (snd c)) kFunctionTypeLoadControlLimitListData = Some fn" "\<not> takes_partial_writes fn"
    and "list_function m kFunctionTypeLoadControlLimitListData limit_cfg" "model_wf m"
  shows "\<exists>n'. EgLpSetActivePowerLimit z m info uc addr lim n = Some (kEebusErrorOk, n') \<and>
    sends_write c dr rf (write_cmd kFunctionTypeLoadControlLimitListData (fdata fn) []) n n'"
proof -
  let ?t = kFunctionTypeLoadControlLimitListData
  have "ModelGetDataCfg m ?t \<noteq> None" using assms(5) by (auto elim: list_functionE)
  then have "ModelGetDataCfg m ?t \<noteq> None" "ModelGetDataSelectorsCfg m ?t \<noteq> None" "ModelGetDataElementsCfg m ?t \<noteq> None"
    using assms(6) by (auto simp: ModelGetDataCfg_def ModelGetDataSelectorsCfg_def ModelGetDataElementsCfg_def model_wf_def split: if_splits)
  then have "FunctionUpdateData z m fn new None None False = Some (kEebusErrorOk, fn)" for new
    using get_function_type [OF assms(3)] by (auto simp: FunctionUpdateData_def)
  then have "FeatureRemoteUpdateData z m (snd c) ?t new None None False n = Some (kEebusErrorOk, n)" for new
    using assms(3) set_function_same [OF assms(3)] by (simp add: FeatureRemoteUpdateData_def)
  moreover have "HelperGetFeatureData n None (Some (snd c)) ?t = fdata fn" using assms(3) by (simp add: HelperGetFeatureData_def)
  ultimately have "write_full z m c ?t new n = WriteCmd c (write_cmd ?t (fdata fn) []) n" for new
    by (simp add: write_full_def)
  then have "EgLpSetActivePowerLimit z m info uc addr lim n = WriteCmd c (write_cmd ?t (fdata fn) []) n"
    using assms(3,4) unfolding guard_writes [OF assms(1,2)]
    by (auto simp: LoadControlClientWriteLimitList_def RemoteOperations_def limits_def elements_of_def Let_def takes_partial_writes_def
        split: option.splits)
  then show ?thesis
    using WriteCmd_sends [of n c dr rf] assms(1) by (simp add: guard_knows_def Let_def)
qed


section \<open>An example\<close>

text \<open>A guard that knows a system with one limit of 42 W, and the command that sets it to 10 W for an hour.\<close>

definition guard_entity :: Entity where
  "guard_entity =
     \<lparr>entity_address = \<lparr>ea_device = Some ''A'', ea_entity = Some [Some 1]\<rparr>,
      entity_features = [(1, \<lparr>feature_address = \<lparr>device = Some ''A'', entity = Some [Some 1], feature = Some 1\<rparr>,
        feature_type = kFeatureTypeTypeLoadControl, feature_role = kRoleTypeClient, feature_desc = None\<rparr>)],
      entity_type = kEntityTypeTypeGridGuard, entity_desc = None, next_feature_id = 2\<rparr>"

definition system_entity :: Entity where
  "system_entity = power_entity\<lparr>entity_type := kEntityTypeTypeCEM\<rparr>"

definition system_device :: Device where
  "system_device =
     (example_device ''L'' 4 kRoleTypeServer)
       \<lparr>device_entities :=
          [\<lparr>entity_address = \<lparr>ea_device = Some ''L'', ea_entity = Some [Some 0]\<rparr>,
             entity_features = [(3, (snd example_node_management)\<lparr>feature_address :=
               \<lparr>device = Some ''L'', entity = Some [Some 0], feature = Some 0\<rparr>\<rparr>)],
             entity_type = 0, entity_desc = None, next_feature_id = 1\<rparr>,
           system_entity]\<rparr>"

definition system_use_cases :: EebusData where
  "system_use_cases =
     Seq [Lst [Seq [feature_address_value (Some \<lparr>device = Some ''L'', entity = Some [Some 1], feature = None\<rparr>),
       number_value (Some kUseCaseActorTypeControllableSystem),
       Lst [Seq [number_value (Some kUseCaseNameTypeLimitationOfPowerConsumption), Null, Null, Null, Null]]]]]"

definition guard_node :: "bool \<Rightarrow> Node" where
  "guard_node partial_writes =
     (example_node [])
       \<lparr>world := \<lparr>local_device = (example_device ''A'' 1 kRoleTypeClient)\<lparr>device_entities := [guard_entity]\<rparr>,
                  remote_devices = [system_device]\<rparr>,
        remotes := (\<lambda>p. if p = 3
          then [\<lparr>ftype = kFunctionTypeNodeManagementUseCaseData, fdata = system_use_cases, foperations = None\<rparr>]
          else [power_function kFunctionTypeLoadControlLimitDescriptionListData [limit_description],
                (power_function kFunctionTypeLoadControlLimitListData [limit_until Null])
                  \<lparr>foperations := Some (OperationsCreate True False True partial_writes)\<rparr>])\<rparr>"

definition guard_use_case :: EgLpUseCase where
  "guard_use_case = EgLpUseCaseConstruct kEnergyDirectionTypeConsume (entity_address guard_entity) True"

definition ten_watts :: LoadLimit where
  "ten_watts =
     \<lparr>ll_value = \<lparr>sv_value = 10, sv_scale = 0\<rparr>, ll_duration = Some (hours_only 1), ll_is_changeable = True, ll_is_active = True,
      ll_delete_duration = False\<rparr>"

lemma guard_remote_data:
  "HelperGetFeatureData (guard_node b) None (Some 4) kFunctionTypeLoadControlLimitDescriptionListData = limits [limit_description]"
  "HelperGetFeatureData (guard_node b) None (Some 4) kFunctionTypeLoadControlLimitListData = limits [limit_until Null]"
  "FeatureGetFunction (remotes (guard_node b) 4) kFunctionTypeLoadControlLimitListData =
     Some ((power_function kFunctionTypeLoadControlLimitListData [limit_until Null])\<lparr>foperations := Some (OperationsCreate True False True b)\<rparr>)"
  by (simp_all add: HelperGetFeatureData_def guard_node_def FeatureGetFunction_def power_function_def
      kFunctionTypeLoadControlLimitDescriptionListData_def kFunctionTypeLoadControlLimitListData_def)

lemma guard_match:
  "HelperGetListUniqueMatch power_limit_model kFunctionTypeLoadControlLimitDescriptionListData (limits [limit_description])
     (guard_pattern guard_use_case) = limit_description"
proof -
  have "kFunctionTypeLoadControlLimitDescriptionListData < 47" by (simp add: kFunctionTypeLoadControlLimitDescriptionListData_def)
  note entry = power_limit_entries [OF this]
  have cfg: "list_cfg_of power_limit_model kFunctionTypeLoadControlLimitDescriptionListData =
      Some (hd (metadata (fst (power_limit_entry kFunctionTypeLoadControlLimitDescriptionListData))))"
    unfolding list_cfg_of_def entry by code_simp
  show ?thesis
    unfolding HelperGetListUniqueMatch_def HelperListMatchFirst_def cfg guard_pattern_def guard_use_case_def EgLpUseCaseConstruct_def
      EgLpUseCase.simps limit_simps by code_simp
qed

lemma guard_limit:
  "LoadControlCommonGetLimitWithFilter power_limit_model (guard_node b) None (Some 4) (guard_pattern guard_use_case) = limit_until Null"
proof -
  have "member 0 limit_description = u32_value 2" "limit_description \<noteq> Null" "u32_value 2 \<noteq> Null"
    by (simp_all add: limit_description_def u32_value_def)
  then show ?thesis
    by (simp add: LoadControlCommonGetLimitWithFilter_def LoadControlCommonGetLimitDescriptionWithFilter_def guard_remote_data guard_match
        limit_found)
qed

lemma guard_entity_found:
  "GetRemoteEntity eg_lpc_use_case_info (guard_node b) (entity_address system_entity) = Some (Some (system_device, system_entity))"
proof -
  have dev: "GetRemoteDeviceWithAddress (guard_node b) (ea_device (entity_address system_entity)) = Some system_device"
    by (simp add: GetRemoteDeviceWithAddress_def guard_node_def system_entity_def power_entity_def system_device_def example_device_def)
  have ent: "DeviceGetEntity system_device (ea_entity (entity_address system_entity)) = Some system_entity"
    by code_simp
  have nm: "RemoteNodeManagement system_device = Some 3" by code_simp
  have fn: "FeatureGetFunction (remotes (guard_node b) 3) kFunctionTypeNodeManagementUseCaseData =
      Some \<lparr>ftype = kFunctionTypeNodeManagementUseCaseData, fdata = system_use_cases, foperations = None\<rparr>"
    by (simp add: guard_node_def FeatureGetFunction_def)
  have info: "value_use_case_data system_use_cases = Some (Some
      [\<lparr>uc_address = Some \<lparr>device = Some ''L'', entity = Some [Some 1], feature = None\<rparr>, uc_actor = Some kUseCaseActorTypeControllableSystem,
        use_case_support = [\<lparr>use_case_name = Some kUseCaseNameTypeLimitationOfPowerConsumption, use_case_version = None,
          use_case_available = None, scenario_support = [], use_case_document_sub_revision = None\<rparr>]\<rparr>])"
    by (simp add: value_use_case_data_def system_use_cases_def value_list_def value_info_def value_support_def value_string_def value_bool_def)
  have "RemoteHasUseCaseSupport (guard_node b) system_device system_entity kUseCaseActorTypeControllableSystem
      kUseCaseNameTypeLimitationOfPowerConsumption = Some True"
    by (simp add: RemoteHasUseCaseSupport_def nm fn info NodeManagementUseCaseDataHasUseCaseSupport_def NodeManagementUseCaseDataFindInfo_def
        UseCaseInformationMatch_def ActorMatch_def UseCaseNameIdMatch_def UseCaseInformationFind_def entity_part_def system_entity_def
        power_entity_def)
  then have "UseCaseIsEntityCompatible eg_lpc_use_case_info (guard_node b) system_device (Some system_entity) = Some True"
    by (simp add: UseCaseIsEntityCompatible_def eg_lpc_use_case_info_def IsEntityTypeCompatible_def system_entity_def)
  then show ?thesis by (simp add: GetRemoteEntity_def UseCaseGetRemoteEntityWithAddress_def dev ent)
qed

lemma guard_client:
  "LoadControlClientConstruct (guard_node b) (eg_entity guard_use_case) (Some (system_device, system_entity)) =
     Inr (entity_features guard_entity ! 0, 4)"
proof -
  have "local_entity_at (guard_node b) (eg_entity guard_use_case) = Some guard_entity"
    by (simp add: local_entity_at_def guard_node_def guard_use_case_def EgLpUseCaseConstruct_def)
  moreover have "GetFeatureWithTypeAndRole guard_entity kFeatureTypeTypeLoadControl kRoleTypeClient = Some (entity_features guard_entity ! 0)"
    by code_simp
  moreover have "map_option fst (Option.bind (DeviceGetEntity system_device (ea_entity (entity_address system_entity)))
      (\<lambda>e. GetFeatureWithTypeAndRole e kFeatureTypeTypeLoadControl kRoleTypeServer)) = Some 4"
    by code_simp
  ultimately show ?thesis
    by (auto simp: LoadControlClientConstruct_def FeatureInfoClientConstruct_def GetLocalAndRemoteFeatures_def)
qed

lemma guard_remote_feature:
  "remote_feature_at (world (guard_node b)) (Some 4) = Some (system_device, snd (entity_features power_entity ! 0))"
proof -
  have "remote_devices (world (guard_node b)) = [system_device]" by (simp add: guard_node_def)
  moreover have "map_of (device_features system_device) 4 = Some (snd (entity_features power_entity ! 0))" by code_simp
  ultimately show ?thesis by (simp add: remote_feature_at_def)
qed

lemma guard_knows_example:
  "guard_knows power_limit_model eg_lpc_use_case_info guard_use_case (entity_address system_entity) (guard_node b)
     (entity_features guard_entity ! 0, 4) system_device (snd (entity_features power_entity ! 0)) (u32_value 2)"
proof -
  have "writer (senders (guard_node b) ski)" for ski by (simp add: guard_node_def example_node_def SenderConstruct_def)
  moreover have "limit_until Null \<noteq> Null" "member 0 (limit_until Null) = u32_value 2" "member 1 (limit_until Null) = Null" "u32_value 2 \<noteq> Null"
    by (simp_all add: limit_until_def u32_value_def)
  ultimately show ?thesis
    by (simp add: guard_knows_def guard_entity_found guard_client guard_remote_feature guard_limit)
qed


end
