(* ===== verification/Use_Case_Exchange.thy ===== *)
theory Use_Case_Exchange
  imports Use_Case_Guard_Laws
begin

text \<open>
  The energy guard and the controllable system together: the limit that the guard sets is the limit that the
  system then has.
\<close>

section \<open>Lists of limits\<close>

abbreviation "limit_selectors_cfg \<equiv> data_selectors_choice_data_cfg load_control_model ! 0"
abbreviation "limit_elements_cfg \<equiv> data_elements_choice_data_cfg load_control_model ! 0"

definition limit_model :: "Model \<Rightarrow> bool" where
  "limit_model m \<longleftrightarrow> model_wf m \<and> list_function m kFunctionTypeLoadControlLimitListData limit_cfg \<and>
     ModelGetDataSelectorsCfg m kFunctionTypeLoadControlLimitListData = Some limit_selectors_cfg \<and>
     ModelGetDataElementsCfg m kFunctionTypeLoadControlLimitListData = Some limit_elements_cfg"

lemma limit_cases:
  assumes "fits z limit_cfg d"
  obtains "d = Null" | a b c e f where "d = Seq [a, b, c, e, f]" "fits z (metadata limit_cfg ! 0) a"
    "fits z (metadata limit_cfg ! 3) e" "fits z (metadata limit_cfg ! 4) f"
  using assms unfolding fits_structure [OF limit_cfg_members(1)]
  by (auto simp: limit_cfg_members(2) list_all2_conv_all_nth numeral_eq_Suc length_Suc_conv All_less_Suc nth_Cons split: nat.splits)

lemma limit_id_cases:
  assumes "fits z (metadata limit_cfg ! 0) a"
  obtains "a = Null" | bs where "a = Simple bs" "length bs = 4"
  using assms by (auto simp: load_control_defs fits.simps [of z "EebusDataCfg _ _ _ _ _"] split: EebusData.splits)

lemma limit_parts_without_identifiers:
  assumes "k = 3 \<or> k = 4"
  shows "\<not> EEBUS_DATA_HAS_IDENTIFIERS (metadata limit_cfg ! k) s" "EEBUS_DATA_IDENTIFIERS_MATCH (metadata limit_cfg ! k) d s"
proof -
  have leaf: "\<not> EebusDataBaseHasIdentifiers c v" if "c \<in> set (metadata (metadata limit_cfg ! k))" for c v
    using assms that by (auto simp: load_control_defs EEBUS_DATA_SEQUENCE_def EebusDataBaseHasIdentifiers_def EebusDataBaseHasIdentifiersFlags_def
        kEebusDataFlagIsIdentifier_def kEebusDataFlagIsSubIdentifier_def)
  have i: "cfg_interface (metadata limit_cfg ! k) = eebus_data_sequence_methods" "\<not> EebusDataBaseHasIdentifiersFlags (metadata limit_cfg ! k)"
      "\<forall>c \<in> set (metadata (metadata limit_cfg ! k)). cfg_interface c \<in> {eebus_data_absolute_or_relative_time_methods, eebus_data_numeric_methods}"
    using assms by (auto simp: load_control_defs EEBUS_DATA_SEQUENCE_def EebusDataBaseHasIdentifiersFlags_def kEebusDataFlagIsIdentifier_def
        kEebusDataFlagIsSubIdentifier_def)
  have "\<not> EEBUS_DATA_HAS_IDENTIFIERS c v" if "c \<in> set (metadata (metadata limit_cfg ! k))" for c v
    using leaf [OF that] i(3) that by (auto simp: EEBUS_DATA_HAS_IDENTIFIERS.simps [of c])
  then show none: "\<not> EEBUS_DATA_HAS_IDENTIFIERS (metadata limit_cfg ! k) s" for s
    using i(1,2) by (auto simp: EEBUS_DATA_HAS_IDENTIFIERS.simps [of "metadata limit_cfg ! k"] EebusDataSequenceHasIdentifiers_def list_ex_iff
        dest: set_zip_leftD split: EebusData.splits)
  show "EEBUS_DATA_IDENTIFIERS_MATCH (metadata limit_cfg ! k) d s"
    using i(1,2) none by (simp add: EEBUS_DATA_IDENTIFIERS_MATCH.simps [of "metadata limit_cfg ! k"] EebusDataSequenceIdentifiersMatch_def)
qed

lemma limit_leaf_identifiers:
  "EEBUS_DATA_HAS_IDENTIFIERS (metadata limit_cfg ! 0) s \<longleftrightarrow> \<not> EEBUS_DATA_IS_NULL (metadata limit_cfg ! 0) s"
  "EEBUS_DATA_IDENTIFIERS_MATCH (metadata limit_cfg ! 0) d s \<longleftrightarrow>
     EEBUS_DATA_IS_NULL (metadata limit_cfg ! 0) s \<or> EEBUS_DATA_COMPARE (metadata limit_cfg ! 0) d (metadata limit_cfg ! 0) s"
  "k = 1 \<or> k = 2 \<Longrightarrow> EEBUS_DATA_IDENTIFIERS_MATCH (metadata limit_cfg ! k) d s"
  by (auto simp: load_control_defs EEBUS_DATA_HAS_IDENTIFIERS.simps [of "EebusDataCfg _ _ _ _ _"] EEBUS_DATA_BOOL_def
      EEBUS_DATA_IDENTIFIERS_MATCH.simps [of "EebusDataCfg _ _ _ _ _"] EebusDataBaseHasIdentifiers_def EebusDataBaseIdentifiersMatch_def
      EebusDataBaseHasIdentifiersFlags_def kEebusDataFlagIsIdentifier_def kEebusDataFlagIsSubIdentifier_def)

lemma limit_identifiers:
  assumes "fits z limit_cfg d" "fits z limit_cfg s" "member 0 s \<noteq> Null"
  shows "EEBUS_DATA_IDENTIFIERS_MATCH limit_cfg d s \<longleftrightarrow> member 0 d = member 0 s" "EEBUS_DATA_HAS_IDENTIFIERS limit_cfg s"
proof -
  obtain a b c e f where s: "s = Seq [a, b, c, e, f]" "fits z (metadata limit_cfg ! 0) a" using assms(2,3) by (auto elim: limit_cases)
  then obtain bs where a: "a = Simple bs" "length bs = 4" using assms(3) by (auto elim: limit_id_cases)
  have i: "cfg_interface limit_cfg = eebus_data_sequence_methods" "\<not> EebusDataBaseHasIdentifiersFlags limit_cfg"
      "plain (metadata limit_cfg ! 0)" "cfg_interface (metadata limit_cfg ! 0) = eebus_data_numeric_methods" by code_simp+
  have md: "metadata limit_cfg = map (\<lambda>k. metadata limit_cfg ! k) [0, 1, 2, 3, 4]"
    by (simp add: load_control_defs)
  have "\<not> EEBUS_DATA_IS_NULL (metadata limit_cfg ! 0) a" using i(4) by (simp add: a EEBUS_DATA_IS_NULL.simps [of "metadata limit_cfg ! 0"])
  note leaf = this limit_leaf_identifiers [where s = a, unfolded this]
  show has: "EEBUS_DATA_HAS_IDENTIFIERS limit_cfg s"
    using i(1) leaf unfolding EEBUS_DATA_HAS_IDENTIFIERS.simps [of limit_cfg] EebusDataSequenceHasIdentifiers_def s(1) by (subst md) simp
  show "EEBUS_DATA_IDENTIFIERS_MATCH limit_cfg d s \<longleftrightarrow> member 0 d = member 0 s"
    using assms(1)
  proof (cases rule: limit_cases)
    case 1
    then show ?thesis
      using has i(1,2) by (simp add: EEBUS_DATA_IDENTIFIERS_MATCH.simps [of limit_cfg] EebusDataSequenceIdentifiersMatch_def s a)
  next
    case (2 a' b' c' e' f')
    have "EEBUS_DATA_COMPARE (metadata limit_cfg ! 0) a' (metadata limit_cfg ! 0) a \<longleftrightarrow> a' = a"
      by (rule compare_eq [OF i(3) 2(2) s(2)])
    then have "list_all (\<lambda>(c, d, s). EEBUS_DATA_IDENTIFIERS_MATCH c d s)
        (zip (metadata limit_cfg) (zip [a', b', c', e', f'] [a, b, c, e, f])) \<longleftrightarrow> a' = a"
      using leaf limit_leaf_identifiers(3) limit_parts_without_identifiers(2) by (subst md) simp
    then show ?thesis
      using has i(1,2) 2(1) s(1) by (simp add: EEBUS_DATA_IDENTIFIERS_MATCH.simps [of limit_cfg] EebusDataSequenceIdentifiersMatch_def)
  qed
qed

lemma limit_selected:
  assumes "fits z limit_cfg d" "fits z (metadata limit_cfg ! 0) i" "i \<noteq> Null"
  shows "EEBUS_DATA_SELECTORS_MATCH limit_cfg d limit_selectors_cfg (Seq [i]) \<longleftrightarrow> member 0 d = i"
    "EEBUS_DATA_SELECTORS_MATCH limit_cfg d limit_cfg (Seq [i, Null, Null, Null, Null]) \<longleftrightarrow> member 0 d = i"
proof -
  obtain bs where i: "i = Simple bs" "length bs = 4" using assms(2,3) by (auto elim: limit_id_cases)
  note d = EEBUS_DATA_SELECTORS_MATCH_def EebusDataSequence_SelectorsMatch_def EebusDataSequenceGetFieldCfg_def
    EEBUS_DATA_IS_NULL.simps [of "EebusDataCfg _ _ _ _ _"] EEBUS_DATA_COMPARE.simps [of "EebusDataCfg _ _ _ _ _"] EebusDataSimpleCompare_def load_control_defs
  have "(EEBUS_DATA_SELECTORS_MATCH limit_cfg d limit_selectors_cfg (Seq [i]) \<longleftrightarrow> member 0 d = i) \<and>
      (EEBUS_DATA_SELECTORS_MATCH limit_cfg d limit_cfg (Seq [i, Null, Null, Null, Null]) \<longleftrightarrow> member 0 d = i)"
    using assms(1)
  proof (cases rule: limit_cases)
    case (2 a b c e f)
    then show ?thesis by (elim limit_id_cases) (simp_all add: d i)
  qed (simp add: d i)
  then show "EEBUS_DATA_SELECTORS_MATCH limit_cfg d limit_selectors_cfg (Seq [i]) \<longleftrightarrow> member 0 d = i"
    "EEBUS_DATA_SELECTORS_MATCH limit_cfg d limit_cfg (Seq [i, Null, Null, Null, Null]) \<longleftrightarrow> member 0 d = i" by simp_all
qed

text \<open>The one element that matches, and what becomes of it when an element with its identifier is written.\<close>

lemma filter_unique:
  "filter P ds = [x] \<longleftrightarrow> (\<exists>xs ys. ds = xs @ x # ys \<and> P x \<and> (\<forall>y \<in> set xs \<union> set ys. \<not> P y))"
  unfolding filter_eq_Cons_iff empty_filter_conv by (intro ex_cong1) auto

lemma unique_match:
  assumes "list_function m t ec" "pattern \<noteq> Null" "filter (\<lambda>d. EEBUS_DATA_SELECTORS_MATCH ec d ec pattern) ds = [x]"
  shows "HelperGetListUniqueMatch m t (limits ds) pattern = x"
proof -
  obtain cfg lc where cfg: "ModelGetDataCfg m t = Some cfg" "metadata cfg = [lc]" "cfg_interface lc = eebus_data_list_methods" "metadata lc = [ec]"
    using assms(1) by (rule list_functionE)
  then have lc: "list_cfg_of m t = Some lc" by (simp add: list_cfg_of_def)
  let ?P = "\<lambda>d. EEBUS_DATA_SELECTORS_MATCH ec d ec pattern"
  obtain xs ys where ds: "ds = xs @ x # ys" "?P x" "\<forall>y \<in> set xs \<union> set ys. \<not> ?P y"
    using assms(3) unfolding filter_unique by blast
  have "EebusDataListDataFindMatching ec ds 0 pattern = Some (length xs)"
    unfolding EebusDataListDataFindMatching_def find_Some_iff using ds by (intro exI [of _ "length xs"]) (auto simp: nth_append)
  moreover have "EebusDataListDataFindMatching ec ds (Suc (length xs)) pattern = None"
    unfolding EebusDataListDataFindMatching_def find_None_iff using ds by (auto simp: nth_append nth_Cons split: nat.split)
  ultimately show ?thesis
    using assms(2) cfg lc ds(1)
    by (simp add: HelperGetListUniqueMatch_def HelperListMatchFirst_def EebusDataListMatchIteratorConstruct_def
        EebusDataListMatchIteratorNext_def EebusDataListMatchIteratorGet_def with_element_def limits_def)
qed

lemma merge_unique:
  assumes "filter (\<lambda>d. EEBUS_DATA_IDENTIFIERS_MATCH ec d s) ds = [x]"
  obtains xs ys where "ds = xs @ x # ys" "\<forall>y \<in> set xs \<union> set ys. \<not> EEBUS_DATA_IDENTIFIERS_MATCH ec y s"
    "merge_spec ec ds [s] = xs @ overlay x s # ys"
proof -
  obtain xs ys where ds: "ds = xs @ x # ys" "EEBUS_DATA_IDENTIFIERS_MATCH ec x s" "\<forall>y \<in> set xs \<union> set ys. \<not> EEBUS_DATA_IDENTIFIERS_MATCH ec y s"
    using assms unfolding filter_unique by blast
  have "first_match ec ds s = Some (length xs)" unfolding ds(1) using ds(2,3) by (induction xs) auto
  then have "merge_spec ec ds [s] = map (\<lambda>i. if i = length xs then overlay (ds ! i) s else ds ! i) [0..<length ds]"
    by (simp add: merge_spec_def)
  also have "\<dots> = ds[length xs := overlay (ds ! length xs) s]"
    by (rule nth_equalityI) auto
  also have "\<dots> = xs @ overlay x s # ys"
    unfolding ds(1) by (simp add: list_update_append)
  finally have "merge_spec ec ds [s] = xs @ overlay x s # ys" .
  then show thesis using that ds by blast
qed

lemma delete_period:
  assumes "fits z limit_cfg d" "d \<noteq> Null"
  shows "EEBUS_DATA_DELETE_ELEMENTS limit_cfg d limit_elements_cfg (Seq [Null, Null, Null, Seq [Null, Null], Null]) =
    Seq [member 0 d, member 1 d, member 2 d, Null, member 4 d]"
  using assms
proof (cases rule: limit_cases)
  case (2 a b c e f)
  then show ?thesis
    by (simp add: EEBUS_DATA_DELETE_ELEMENTS.simps [of "EebusDataCfg _ _ _ _ _"] load_control_defs EEBUS_DATA_SEQUENCE_def EEBUS_DATA_BOOL_def
        EebusDataSequenceDeleteElements_def EebusDataSequenceIsEmpty_def EEBUS_DATA_IS_NULL.simps [of "EebusDataCfg _ _ _ _ _"]
        EEBUS_DATA_IS_EMPTY.simps [of "EebusDataCfg _ _ _ _ _"] EEBUS_DATA_DELETE.simps [of "EebusDataCfg _ _ _ _ _"] tag_cfg_def)
qed simp

section \<open>What the system makes of the limit\<close>

abbreviation "limit_type \<equiv> kFunctionTypeLoadControlLimitListData"

text \<open>The element that the write leaves in the place of \<open>x\<close>.\<close>

definition stored_limit :: "EebusData \<Rightarrow> EebusData \<Rightarrow> LoadLimit \<Rightarrow> EebusDuration \<Rightarrow> EebusData" where
  "stored_limit x i lim d =
     overlay (if ll_delete_duration lim then Seq [member 0 x, member 1 x, member 2 x, Null, member 4 x] else x) (new_limit i lim d)"

lemma length_int_bytes: "length (int_bytes n k) = n"
  by (simp add: int_bytes_def)

lemma new_limit_fits:
  assumes "fits z (metadata limit_cfg ! 0) i"
  shows "fits z limit_cfg (new_limit i lim d)"
  using assms by (elim limit_id_cases)
    (simp_all add: new_limit_def load_control_defs EEBUS_DATA_SEQUENCE_def EEBUS_DATA_BOOL_def bool_value_def duration_value_def duration_bytes_def
      scaled_number_value_def length_int_bytes fits.simps [of z "EebusDataCfg _ _ _ _ _"])

lemma limit_model_cfgs:
  assumes "limit_model m"
  obtains cfg lc where "ModelGetDataCfg m limit_type = Some cfg" "cfg = data_choice_data_cfg m ! limit_type" "limit_type < length (data_choice_data_cfg m)"
    "cfg_interface cfg = eebus_data_container_methods" "0 < cfg_size cfg" "metadata cfg = [lc]"
    "cfg_interface lc = eebus_data_list_methods" "metadata lc = [limit_cfg]"
  using assms unfolding limit_model_def by (auto elim!: list_functionE simp: ModelGetDataCfg_def split: if_splits)

lemma limits_fit:
  assumes "limit_model m" "list_all (fits z limit_cfg) ds" "ds \<noteq> []"
  shows "fits z (data_choice_data_cfg m ! limit_type) (limits ds)"
proof (rule limit_model_cfgs [OF assms(1)])
  fix cfg lc
  assume c: "cfg = data_choice_data_cfg m ! limit_type" "cfg_interface cfg = eebus_data_container_methods" "0 < cfg_size cfg" "metadata cfg = [lc]"
    "cfg_interface lc = eebus_data_list_methods" "metadata lc = [limit_cfg]"
  have "holds (limits ds) (Some ds)" "list_ok z limit_cfg (Some ds)" using assms(2,3) by (simp_all add: holds_def limits_def list_ok_def)
  then show ?thesis using fits_holds_iff [OF c(2-6)] unfolding c(1) [symmetric] by blast
qed

lemma new_limit_merged:
  assumes "list_all (fits z limit_cfg) ds" "filter (\<lambda>d. member 0 d = i) ds = [x]" "fits z (metadata limit_cfg ! 0) i" "i \<noteq> Null"
  shows "filter (\<lambda>d. member 0 d = i) (merge_spec limit_cfg ds [new_limit i lim d]) = [overlay x (new_limit i lim d)]"
proof -
  let ?s = "new_limit i lim d"
  have s: "fits z limit_cfg ?s" "member 0 ?s = i" using new_limit_fits assms(3) by (simp_all add: new_limit_def)
  have m: "EEBUS_DATA_IDENTIFIERS_MATCH limit_cfg y ?s \<longleftrightarrow> member 0 y = i" if "y \<in> set ds" for y
    using limit_identifiers(1) [OF _ s(1)] s(2) assms(1,4) that by (simp add: list_all_iff)
  then have "filter (\<lambda>y. EEBUS_DATA_IDENTIFIERS_MATCH limit_cfg y ?s) ds = [x]" using assms(2) by (simp cong: filter_cong)
  then obtain xs ys where ds: "ds = xs @ x # ys" "\<forall>y \<in> set xs \<union> set ys. \<not> EEBUS_DATA_IDENTIFIERS_MATCH limit_cfg y ?s"
      "merge_spec limit_cfg ds [?s] = xs @ overlay x ?s # ys"
    by (rule merge_unique)
  have x: "fits z limit_cfg x" "member 0 x = i" using assms(1,2) unfolding filter_unique by auto
  have "member 0 (overlay x ?s) = i"
    using x by (cases rule: limit_cases) (use assms(4) x(2) in \<open>auto simp: new_limit_def\<close>)
  moreover have "filter (\<lambda>d. member 0 d = i) xs = []" "filter (\<lambda>d. member 0 d = i) ys = []" using ds(1,2) m by (auto simp: filter_empty_conv)
  ultimately show ?thesis unfolding ds(3) by simp
qed

lemma deleted_period:
  assumes "list_all (fits z limit_cfg) ds" "filter (\<lambda>d. member 0 d = i) ds = [x]" "fits z (metadata limit_cfg ! 0) i" "i \<noteq> Null"
  defines "del d \<equiv> Seq [member 0 d, member 1 d, member 2 d, Null, member 4 d]"
  defines "ds' \<equiv> map (\<lambda>d. if member 0 d = i then del d else d) ds"
  shows "rfe_delete z' limit_cfg limit_selectors_cfg (Seq [i]) limit_elements_cfg (Seq [Null, Null, Null, Seq [Null, Null], Null]) (Some ds) = Some ds'"
    "list_all (fits z limit_cfg) ds'" "filter (\<lambda>d. member 0 d = i) ds' = [del x]"
proof -
  let ?els = "Seq [Null, Null, Null, Seq [Null, Null], Null]"
  have nn: "\<not> EEBUS_DATA_IS_NULL limit_elements_cfg ?els"
    by (simp add: load_control_defs EEBUS_DATA_SEQUENCE_def EEBUS_DATA_IS_NULL.simps [of "EebusDataCfg _ _ _ _ _"])
  have el: "EEBUS_DATA_DELETE_ELEMENTS limit_cfg y limit_elements_cfg ?els = del y" if "y \<in> set ds" "member 0 y = i" for y
  proof -
    have "y \<noteq> Null" using that assms(4) by auto
    then show ?thesis using delete_period [of z y] assms(1) that(1) unfolding del_def by (simp add: list_all_iff)
  qed
  show "rfe_delete z' limit_cfg limit_selectors_cfg (Seq [i]) limit_elements_cfg ?els (Some ds) = Some ds'"
    using nn el limit_selected(1) assms(1,3,4) by (auto simp: rfe_delete_def ds'_def list_all_iff)
  have "fits z limit_cfg (del y)" if "fits z limit_cfg y" "y \<noteq> Null" for y
    using that(1)
  proof (cases rule: limit_cases)
    case (2 a b c e f)
    then show ?thesis using that(1) unfolding fits_structure [OF limit_cfg_members(1)]
      by (auto simp: del_def load_control_defs EEBUS_DATA_SEQUENCE_def fits.simps [of z "EebusDataCfg _ _ _ _ _"])
  qed (use that in simp)
  moreover have "y \<noteq> Null" if "member 0 y = i" for y using assms(4) that by auto
  ultimately show "list_all (fits z limit_cfg) ds'" using assms(1) by (auto simp: ds'_def list_all_iff)
  have "filter (\<lambda>d. member 0 d = i) ds' = map del (filter (\<lambda>d. member 0 d = i) ds)"
    unfolding ds'_def by (induction ds) (simp_all add: del_def)
  then show "filter (\<lambda>d. member 0 d = i) ds' = [del x]" using assms(2) by simp
qed

text \<open>The update of the system's list of limits by the write of the guard.\<close>

lemma guard_write_merges:
  assumes "limit_model m" "ftype fn = limit_type" "fdata fn = limits ds" "list_all (fits z limit_cfg) ds"
    and "filter (\<lambda>d. member 0 d = i) ds = [x]" "fits z (metadata limit_cfg ! 0) i" "i \<noteq> Null"
  shows "\<exists>ds'. FunctionUpdateData z m fn (limits [new_limit i lim d]) (Some (FILTER_PARTIAL limit_type Null Null))
      (if ll_delete_duration lim then Some (hd (deletes i lim)) else None) True = Some (kEebusErrorOk, fn\<lparr>fdata := limits ds'\<rparr>) \<and>
    list_all (fits z limit_cfg) ds' \<and> filter (\<lambda>d. member 0 d = i) ds' = [stored_limit x i lim d]"
proof -
  let ?new = "new_limit i lim d" and ?p = "FILTER_PARTIAL limit_type Null Null" and ?del = "if ll_delete_duration lim then Some (hd (deletes i lim)) else None"
  define mid where "mid = (if ll_delete_duration lim
    then map (\<lambda>d. if member 0 d = i then Seq [member 0 d, member 1 d, member 2 d, Null, member 4 d] else d) ds else ds)"
  define x' where "x' = (if ll_delete_duration lim then Seq [member 0 x, member 1 x, member 2 x, Null, member 4 x] else x)"
  note del = deleted_period [OF assms(4-7)]
  have mid: "list_all (fits z limit_cfg) mid" "filter (\<lambda>d. member 0 d = i) mid = [x']" "mid \<noteq> []"
    using del(2,3) assms(4,5) by (auto simp: mid_def x'_def)
  have new: "fits z limit_cfg ?new" "member 0 ?new = i" using new_limit_fits [OF assms(6)] by (simp_all add: new_limit_def)
  have lf: "list_function m (ftype fn) limit_cfg" and sel: "ModelGetDataSelectorsCfg m (ftype fn) = Some limit_selectors_cfg"
      "ModelGetDataElementsCfg m (ftype fn) = Some limit_elements_cfg"
    using assms(1,2) by (simp_all add: limit_model_def)
  have ne: "ds \<noteq> []" using assms(5) by auto
  have els: "fits z limit_elements_cfg (Seq [Null, Null, Null, Seq [Null, Null], Null])"
    by (simp add: load_control_defs EEBUS_DATA_SEQUENCE_def tag_cfg_def fits.simps [of z "EebusDataCfg _ _ _ _ _"])
  have nn: "EEBUS_DATA_IS_NULL limit_selectors_cfg Null"
    by (simp add: load_control_defs EEBUS_DATA_SEQUENCE_def EEBUS_DATA_IS_NULL.simps [of "EebusDataCfg _ _ _ _ _"])
  show ?thesis
  proof (rule limit_model_cfgs [OF assms(1)])
    fix cfg lc
    assume c: "ModelGetDataCfg m limit_type = Some cfg" "cfg = data_choice_data_cfg m ! limit_type"
      "cfg_interface cfg = eebus_data_container_methods" "0 < cfg_size cfg" "metadata cfg = [lc]"
      "cfg_interface lc = eebus_data_list_methods" "metadata lc = [limit_cfg]"
    have "fits z cfg (fdata fn)" using limits_fit [OF assms(1,4) ne] c(2) assms(3) by simp
    then have "\<exists>v. FunctionUpdateData z m fn (limits [?new]) (Some ?p) ?del True = Some (kEebusErrorOk, fn\<lparr>fdata := v\<rparr>) \<and>
        fits z cfg v \<and> function_list v = (case Some ?p of None \<Rightarrow> id | Some p \<Rightarrow> rfe_write limit_cfg limit_selectors_cfg (data_selectors_choice p) [?new])
          ((case ?del of None \<Rightarrow> id | Some f \<Rightarrow> rfe_delete z limit_cfg limit_selectors_cfg (data_selectors_choice f) limit_elements_cfg
              (data_elements_choice f)) (function_list (fdata fn)))"
      using c(1) assms(2) new(1) els by (intro update_refines [OF lf _ sel]) (auto simp: limits_def deletes_def FILTER_DELETE_def FILTER_def)
    then obtain v where v: "FunctionUpdateData z m fn (limits [?new]) (Some ?p) ?del True = Some (kEebusErrorOk, fn\<lparr>fdata := v\<rparr>)"
        "fits z cfg v" "function_list v = rfe_write limit_cfg limit_selectors_cfg (data_selectors_choice ?p) [?new]
          ((case ?del of None \<Rightarrow> id | Some f \<Rightarrow> rfe_delete z limit_cfg limit_selectors_cfg (data_selectors_choice f) limit_elements_cfg
              (data_elements_choice f)) (function_list (fdata fn)))"
      by auto
    have "function_list v = Some (merge_spec limit_cfg mid [?new])"
      unfolding v(3) using del(1) nn limit_identifiers(2) [OF new(1) new(1)] new(2) assms(3,7)
      by (simp add: rfe_write_def FILTER_PARTIAL_def FILTER_DELETE_def FILTER_def deletes_def mid_def function_list_def limits_def)
    moreover obtain old where old: "holds v old" "list_ok z limit_cfg old" using v(2) fits_holds_iff [OF c(3-7)] by blast
    ultimately have "v = limits (merge_spec limit_cfg mid [?new])" "list_all (fits z limit_cfg) (merge_spec limit_cfg mid [?new])"
      using holds_function_list [OF old(1)] by (auto simp: holds_def limits_def list_ok_def)
    then show ?thesis
      using v(1) new_limit_merged [OF mid(1,2) assms(6,7)] by (auto simp: stored_limit_def x'_def)
  qed
qed

section \<open>Reading the limit back\<close>

definition in_int :: "nat \<Rightarrow> int \<Rightarrow> bool" where
  "in_int k v \<longleftrightarrow> - (256 ^ k) \<le> 2 * v \<and> 2 * v < 256 ^ k"

definition limit_in_range :: "LoadLimit \<Rightarrow> EebusDuration \<Rightarrow> bool" where
  "limit_in_range lim d \<longleftrightarrow> in_int 8 (sv_value (ll_value lim)) \<and> in_int 1 (sv_scale (ll_value lim)) \<and>
     list_all (in_int 4) [years d, months d, days d, hours d, minutes d, seconds d, milliseconds d]"

text \<open>What the system then has for its limit: an end time that the guard did not set or delete is that of \<open>x\<close>.\<close>

definition limit_after :: "EebusData \<Rightarrow> LoadLimit \<Rightarrow> EebusDuration \<Rightarrow> EebusError + LoadLimit" where
  "limit_after x lim d =
     (case (if EebusDurationToSeconds d > 0 then (kEebusErrorOk, False, Some d)
            else if ll_delete_duration lim then (kEebusErrorOk, True, None) else LoadControlLimitGetDuration x) of
        (err, is_null, dur) \<Rightarrow>
          if err \<noteq> kEebusErrorOk then Inl err
          else Inr \<lparr>ll_value = ll_value lim, ll_duration = dur, ll_is_changeable = LoadControlLimitIsLimitChangeable x,
                    ll_is_active = ll_is_active lim, ll_delete_duration = is_null\<rparr>)"

lemma in_int_bytes: "in_int k v \<Longrightarrow> bytes_int (int_bytes k v) = v"
  unfolding in_int_def by (rule bytes_int_bytes) simp_all

lemma duration_read:
  assumes "limit_in_range lim d"
  shows "value_time (duration_value d) = Some (kAbsoluteOrRelativeTimeTypeDuration d)"
proof -
  have one: "bytes_int (int_bytes 4 1) = 1" by (rule in_int_bytes) (simp add: in_int_def)
  have "bytes_duration (duration_bytes d) = d"
    using assms in_int_bytes by (simp add: bytes_duration_def duration_bytes_def length_int_bytes limit_in_range_def Let_def)
  then show ?thesis by (simp add: value_time_def duration_value_def length_int_bytes one)
qed

lemma stored_limit_read:
  assumes "fits z limit_cfg x" "member 0 x = i" "i \<noteq> Null" "limit_in_range lim d"
  shows "LoadLimitInitWithLoadControlLimitData (stored_limit x i lim d) = limit_after x lim d"
  using assms(1)
proof (cases rule: limit_cases)
  case (2 a b c e f)
  define e' where "e' = (if ll_delete_duration lim then Null else e)"
  define p where "p = (if EebusDurationToSeconds d > 0 then Seq [Null, duration_value d] else Null)"
  have stored: "stored_limit x i lim d = Seq [overlay a i, b, bool_value (ll_is_active lim), overlay e' p, overlay f (scaled_number_value (ll_value lim))]"
    by (simp add: stored_limit_def 2(1) new_limit_def e'_def p_def bool_value_def overlay_not_Seq)
  have f: "overlay f (scaled_number_value (ll_value lim)) = scaled_number_value (ll_value lim)"
    using 2(4) by (auto simp: load_control_defs EEBUS_DATA_SEQUENCE_def fits.simps [of z "EebusDataCfg _ _ _ _ _"] scaled_number_value_def
        overlay_not_Seq length_Suc_conv split: EebusData.splits)
  have e: "member 1 (overlay e' p) = (if EebusDurationToSeconds d > 0 then duration_value d else member 1 e')"
    using 2(3) by (auto simp: e'_def p_def load_control_defs EEBUS_DATA_SEQUENCE_def fits.simps [of z "EebusDataCfg _ _ _ _ _"] duration_value_def
        overlay_not_Seq length_Suc_conv split: EebusData.splits)
  have val: "ScaledValueInitWithScaledNumber (scaled_number_value (ll_value lim)) = Inr (ll_value lim)"
    using assms(4) in_int_bytes by (simp add: ScaledValueInitWithScaledNumber_def scaled_number_value_def value_int_def limit_in_range_def)
  have dur: "LoadControlLimitGetDuration (stored_limit x i lim d) =
      (if EebusDurationToSeconds d > 0 then (kEebusErrorOk, False, Some d)
       else if ll_delete_duration lim then (kEebusErrorOk, True, None) else LoadControlLimitGetDuration x)"
  proof -
    have m: "member 3 (stored_limit x i lim d) = overlay e' p" "member 3 x = e" unfolding stored by (simp_all add: 2(1))
    have n: "value_time (member 1 Null) = None" by (simp add: value_time_def)
    show ?thesis
      unfolding LoadControlLimitGetDuration_def m e using n by (simp add: duration_read [OF assms(4)] e'_def del: One_nat_def member_Null)
  qed
  have "overlay a i \<noteq> Null" using assms(2,3) 2(1) by simp
  then have "LoadControlLimitIsValid (stored_limit x i lim d)"
    by (simp add: LoadControlLimitIsValid_def stored f) (simp add: scaled_number_value_def)
  moreover have "LoadControlLimitIsActive (stored_limit x i lim d) = ll_is_active lim"
    by (simp add: LoadControlLimitIsActive_def stored bool_value_def value_flag_def)
  moreover have "LoadControlLimitIsLimitChangeable (stored_limit x i lim d) = LoadControlLimitIsLimitChangeable x"
    unfolding stored by (simp add: LoadControlLimitIsLimitChangeable_def 2(1))
  ultimately show ?thesis
    unfolding LoadLimitInitWithLoadControlLimitData_def limit_after_def dur
    by (simp add: LoadControlLimitGetValue_def stored f val split: prod.split)
qed (use assms in simp)

section \<open>From the guard to the system\<close>

text \<open>The feature of the system that holds its limit \<open>x\<close>, with the identifier \<open>i\<close>.\<close>

definition limit_server :: "Model \<Rightarrow> CsLpUseCase \<Rightarrow> Node \<Rightarrow> self \<Rightarrow> EebusData \<Rightarrow> EebusData list \<Rightarrow> EebusData \<Rightarrow> bool" where
  "limit_server m uc n self i ds x \<longleftrightarrow>
     CsLpGetFeature uc kFeatureTypeTypeLoadControl n = Some self \<and> feature_role (snd self) = kRoleTypeServer \<and>
     fst self \<noteq> fst (node_management n) \<and> CsLpGetLimitId m uc self n = Some (Inr i) \<and>
     member 0 (LoadControlCommonGetLimitDescriptionWithId m n (Some (fst self)) None i) = i \<and>
     FeatureLocalGetData self limit_type n = Some (limits ds) \<and> filter (\<lambda>d. member 0 d = i) ds = [x]"

text \<open>The system knows the feature with address \<open>a\<close> of the guard, which is bound to its own.\<close>

definition limit_client :: "Node \<Rightarrow> self \<Rightarrow> string \<Rightarrow> FeatureAddressType \<Rightarrow> Device \<Rightarrow> ptr \<Rightarrow> Feature \<Rightarrow> bool" where
  "limit_client n self ski a dr r g \<longleftrightarrow>
     GetRemoteDeviceWithSki n ski = Some dr \<and> RemoteGetFeatureWithAddress dr (Some a) = Some (Some (r, g)) \<and>
     remote_feature_at (world n) (Some r) = Some (dr, g) \<and> GetRemoteDeviceWithAddress n (device (feature_address g)) = Some dr \<and>
     RemoteGetFeatureWithAddress dr (Some (feature_address g)) = Some (Some (r, g)) \<and>
     HasBinding (world n) (binding_manager n) (Some (feature_address (snd self))) (Some (feature_address g)) = Some True"

lemma limit_read:
  assumes "limit_model m" "limit_server m uc n self i ds x" "world n' = world n"
    and "FeatureGetFunction (fl_functions (locals n' (fst self))) kFunctionTypeLoadControlLimitDescriptionListData =
      FeatureGetFunction (fl_functions (locals n (fst self))) kFunctionTypeLoadControlLimitDescriptionListData"
    and "FeatureLocalGetData self limit_type n' = Some (limits ds')" "list_all (fits z limit_cfg) ds'"
    and "filter (\<lambda>d. member 0 d = i) ds' = [x']" "fits z (metadata limit_cfg ! 0) i" "i \<noteq> Null"
  shows "CsLpGetActivePowerLimit m uc n' = Some (LoadLimitInitWithLoadControlLimitData x')"
proof -
  have "HelperGetFeatureData n' (Some (fst self)) None kFunctionTypeLoadControlLimitDescriptionListData =
      HelperGetFeatureData n (Some (fst self)) None kFunctionTypeLoadControlLimitDescriptionListData"
    using assms(4) by (simp add: HelperGetFeatureData_def)
  then have d: "LoadControlCommonGetLimitDescriptionWithFilter m n' (Some (fst self)) None =
      LoadControlCommonGetLimitDescriptionWithFilter m n (Some (fst self)) None"
    by (simp add: LoadControlCommonGetLimitDescriptionWithFilter_def fun_eq_iff)
  have con: "LoadControlServerConstruct n' (uc_entity uc) = Inr self"
    using assms(2,3) by (simp add: limit_server_def CsLpGetFeature_def LoadControlServerConstruct_def FeatureInfoServerConstruct_def local_entity_at_def)
  have "HelperGetFeatureData n' (Some (fst self)) None limit_type = limits ds'"
    using assms(5) by (auto simp: FeatureLocalGetData_def HelperGetFeatureData_def)
  moreover have "HelperGetListUniqueMatch m limit_type (limits ds') (Seq [i, Null, Null, Null, Null]) = x'"
  proof (rule unique_match)
    have "EEBUS_DATA_SELECTORS_MATCH limit_cfg d limit_cfg (Seq [i, Null, Null, Null, Null]) \<longleftrightarrow> member 0 d = i" if "d \<in> set ds'" for d
      using limit_selected(2) [OF _ assms(8,9)] assms(6) that by (auto simp: list_all_iff)
    then show "filter (\<lambda>d. EEBUS_DATA_SELECTORS_MATCH limit_cfg d limit_cfg (Seq [i, Null, Null, Null, Null])) ds' = [x']"
      using assms(7) by (simp cong: filter_cong)
  qed (use assms(1) in \<open>simp_all add: limit_model_def\<close>)
  ultimately have "LoadControlCommonGetLimitWithId m n' (Some (fst self)) None i = x'"
    using assms(2,9) by (auto simp: LoadControlCommonGetLimitWithId_def LoadControlCommonGetLimitWithFilter_def d limit_server_def
        LoadControlCommonGetLimitDescriptionWithId_def Let_def)
  moreover have "CsLpGetLimitId m uc self n' = Some (Inr i)" using assms(2) by (simp add: CsLpGetLimitId_def d limit_server_def)
  ultimately show ?thesis by (simp add: CsLpGetActivePowerLimit_def con)
qed

lemma other_function_same:
  assumes "ftype f \<noteq> t"
  shows "FeatureGetFunction (set_function f fs) t = FeatureGetFunction fs t"
  using assms by (induction fs) (auto simp: FeatureGetFunction_def set_function_def)

lemma limit_filters_ok:
  assumes "limit_model m" "fits z (metadata limit_cfg ! 0) i" "i \<noteq> Null"
  shows "filter_ok z m limit_type (FILTER_PARTIAL limit_type Null Null)" "ll_delete_duration lim \<Longrightarrow> filter_ok z m limit_type (hd (deletes i lim))"
proof -
  have cfgs: "data_selectors_choice_data_cfg m ! limit_type = limit_selectors_cfg" "data_elements_choice_data_cfg m ! limit_type = limit_elements_cfg"
    using assms(1) by (auto simp: limit_model_def ModelGetDataSelectorsCfg_def ModelGetDataElementsCfg_def split: if_splits)
  note d = filter_ok_def cfgs FILTER_PARTIAL_def FILTER_DELETE_def FILTER_def deletes_def uint32_cfg_def EEBUS_DATA_SEQUENCE_def tag_cfg_def
    fits.simps [of z "EebusDataCfg _ _ _ _ _"] load_control_defs
  show "filter_ok z m limit_type (FILTER_PARTIAL limit_type Null Null)" by (simp add: d)
  obtain bs where "i = Simple bs" "length bs = 4" using assms(2,3) by (auto elim: limit_id_cases)
  then show "filter_ok z m limit_type (hd (deletes i lim))" if "ll_delete_duration lim" using that by (simp add: d)
qed

lemma guard_message:
  fixes lim i new h r ski
  defines "cmd \<equiv> write_cmd limit_type (limits [new]) (FILTER_PARTIAL limit_type Null Null # deletes i lim)"
  defines "msg \<equiv> cmd_message h kCommandClassifierTypeWrite cmd r ski"
  shows "msg_filter_partial msg = Some (FILTER_PARTIAL limit_type Null Null)"
    "msg_filter_delete msg = (if ll_delete_duration lim then Some (hd (deletes i lim)) else None)"
    "data_choice (msg_cmd msg) = limits [new]" "data_choice_type_id (msg_cmd msg) = limit_type" "request_header msg = Some h"
    "whole_message msg" "limits_of msg = [new]" "device_remote msg = ski" "feature_remote msg = r" "msg_classifier msg = kCommandClassifierTypeWrite"
  by (simp_all add: msg_def cmd_def cmd_message_def write_cmd_def whole_message_def limits_of_def limits_def elements_of_def
      CmdGetFilterPartial_def CmdGetFilterDelete_def CmdGetFilterWithType_def deletes_def FILTER_PARTIAL_def FILTER_DELETE_def FILTER_def
      FilterGetType_def ctrl_partial_def ctrl_delete_def)

text \<open>The system handles the write of the guard, by an approval callback for each of its use cases.\<close>

lemma limit_write_handled:
  assumes "limit_model m" "limit_in_range lim d" "limit_server m uc n self i ds x" "list_all (fits z limit_cfg) ds" "i \<noteq> Null"
    and "limit_client n self ski a dr r g" "device_ski dr = ski"
    and "wr_approval_cbs (locals n (fst self)) = map negative_limit_cb ctxs" "ctxs \<noteq> []" "length ctxs < 2 ^ 64"
    and "\<forall>ctx \<in> set ctxs. CsLpGetFeature (ucs ctx) kFeatureTypeTypeLoadControl n \<noteq> None"
    and "msg_cnt h = Some cnt" "FindPendingWriteRequest (locals n (fst self)) ski cnt = None"
    and "container_ok (world n) (subscription_entries (subscription_manager n))" "\<forall>ski. writer (senders n ski)"
  defines "msg \<equiv> cmd_message h kCommandClassifierTypeWrite
    (write_cmd limit_type (limits [new_limit i lim d]) (FILTER_PARTIAL limit_type Null Null # deletes i lim)) r ski"
  shows "\<exists>n'. ProcessWrite z m (cs_lp_approver m ucs) self msg n = Some (kEebusErrorOk, n') \<and>
    CsLpGetActivePowerLimit m uc n' =
      (if sv_value (ll_value lim) < 0 then CsLpGetActivePowerLimit m uc n else Some (limit_after x lim d))"
proof -
  let ?new = "new_limit i lim d" and ?asked = "map (\<lambda>ctx. ApprovalRequest (negative_limit_cb ctx) msg) ctxs"
  note msg = guard_message [of h "?new" i lim r ski, folded msg_def]
  have srv: "feature_role (snd self) = kRoleTypeServer" "FeatureLocalGetData self limit_type n = Some (limits ds)" "filter (\<lambda>d. member 0 d = i) ds = [x]"
    using assms(3) by (simp_all add: limit_server_def)
  obtain fn where fn: "FeatureGetFunction (fl_functions (locals n (fst self))) limit_type = Some fn" "fdata fn = limits ds"
    using srv(2) by (auto simp: FeatureLocalGetData_def)
  have x: "fits z limit_cfg x" "member 0 x = i" using srv(3) assms(4) unfolding filter_unique by auto
  then have i: "fits z (metadata limit_cfg ! 0) i" by (cases rule: limit_cases) (use assms(5) x in auto)
  have known: "known_sender n msg" using assms(6,7) msg by (simp add: known_sender_def limit_client_def)
  have neg: "list_ex negative_limit (limits_of msg) \<longleftrightarrow> sv_value (ll_value lim) < 0"
    using assms(2) in_int_bytes by (simp add: msg negative_limit_def LoadControlLimitGetValue_def new_limit_def scaled_number_value_def
        value_int_def limit_in_range_def)
  have outcome: "ProcessWrite z m (cs_lp_approver m ucs) self msg n =
      (let asked = ?asked in if list_ex negative_limit (limits_of msg)
       then Some (kEebusErrorOk, log_trace asked (snd (with_sender (device_remote msg)
         (\<lambda>s. ResultError s (Some h) (Some (feature_address (snd self))) (Some limit_denial)) n)))
       else map_option (\<lambda>(err, n'). (kEebusErrorOk, n')) (ProcessWriteInternal z m self msg (log_trace asked n)))"
    by (rule limit_writes [OF known msg(6) srv(1) msg(5) assms(12) _ assms(8-11) msg(4)]) (simp_all add: msg assms(13) limits_def)
  note read = limit_read [OF assms(1,3) _ _ _ _ _ i assms(5)]
  show ?thesis
  proof (cases "sv_value (ll_value lim) < 0")
    case True
    let ?n = "log_trace ?asked (snd (with_sender (device_remote msg)
        (\<lambda>s. ResultError s (Some h) (Some (feature_address (snd self))) (Some limit_denial)) n))"
    have same: "world ?n = world n" "locals ?n = locals n" by (simp_all add: with_sender_def split: prod.splits)
    then have "CsLpGetActivePowerLimit m uc w = Some (LoadLimitInitWithLoadControlLimitData x)" if "w \<in> {n, ?n}" for w
      using that srv(2,3) assms(4) by (intro read [of w ds x]) (auto simp: FeatureLocalGetData_def)
    then show ?thesis using outcome True neg by simp
  next
    case False
    have lf: "model_wf m" using assms(1) by (simp add: limit_model_def)
    have new: "fits z limit_cfg ?new" using new_limit_fits i by blast
    have t: "limit_type < length (data_choice_data_cfg m)" using limit_model_cfgs [OF assms(1)] by metis
    obtain ds' where ds': "FunctionUpdateData z m fn (limits [?new]) (Some (FILTER_PARTIAL limit_type Null Null))
        (if ll_delete_duration lim then Some (hd (deletes i lim)) else None) True = Some (kEebusErrorOk, fn\<lparr>fdata := limits ds'\<rparr>)"
        "list_all (fits z limit_cfg) ds'" "filter (\<lambda>d. member 0 d = i) ds' = [stored_limit x i lim d]"
      using guard_write_merges [OF assms(1) get_function_type [OF fn(1)] fn(2) assms(4) srv(3) i assms(5)] by blast
    have "\<exists>n'. ProcessWriteInternal z m self msg (log_trace ?asked n) = Some (kEebusErrorOk, n') \<and>
        FeatureLocalGetData self limit_type n' = Some (limits ds') \<and> world n' = world (log_trace ?asked n) \<and>
        fl_functions (locals n' (fst self)) = set_function (fn\<lparr>fdata := limits ds'\<rparr>) (fl_functions (locals (log_trace ?asked n) (fst self)))"
      by (rule write_stores [OF lf t])
        (use msg fn ds'(1) known limits_fit [OF assms(1), of z "[?new]"] new limit_filters_ok [OF assms(1) i assms(5)] assms(14,15) in
          \<open>simp_all add: known_sender_log\<close>)
    then obtain n' where n': "ProcessWriteInternal z m self msg (log_trace ?asked n) = Some (kEebusErrorOk, n')"
        "FeatureLocalGetData self limit_type n' = Some (limits ds')" "world n' = world n"
        "fl_functions (locals n' (fst self)) = set_function (fn\<lparr>fdata := limits ds'\<rparr>) (fl_functions (locals n (fst self)))"
      by auto
    have "FeatureGetFunction (fl_functions (locals n' (fst self))) kFunctionTypeLoadControlLimitDescriptionListData =
        FeatureGetFunction (fl_functions (locals n (fst self))) kFunctionTypeLoadControlLimitDescriptionListData"
      unfolding n'(4) using get_function_type [OF fn(1)]
      by (intro other_function_same) (simp add: kFunctionTypeLoadControlLimitDescriptionListData_def kFunctionTypeLoadControlLimitListData_def)
    then have "CsLpGetActivePowerLimit m uc n' = Some (LoadLimitInitWithLoadControlLimitData (stored_limit x i lim d))"
      using n' ds'(2,3) by (intro read)
    then show ?thesis
      using outcome False neg n'(1) stored_limit_read [OF x assms(5,2)] by simp
  qed
qed

text \<open>
  C16. The limit that the energy guard sets is the limit that the system has. A guard that knows the limit of a system
  sets it; the datagram it sends, handled by the system, is checked by the use cases of the system and
  stored: the system then reads the value, the activity and the end time that the guard has set, or no end time if it
  is to be deleted, and the old one otherwise. If the value is negative the system keeps the limit it had.
\<close>

theorem limit_reaches_system:
  assumes "guard_knows m info guc addr G c dr rf i" "ll_duration lim = Some d" "limit_in_range lim d"
    and "FeatureGetFunction (remotes G (snd c)) limit_type = Some fn" "takes_partial_writes fn" "limit_model m"
    and "LocalGetFeatureWithAddress (local_device (world S)) (Some (feature_address rf)) = Some self"
    and "limit_client S self ski (feature_address (snd (fst c))) drs r g" "device_ski drs = ski"
    and "limit_server m uc S self i ds x" "list_all (fits z limit_cfg) ds"
    and "wr_approval_cbs (locals S (fst self)) = map negative_limit_cb ctxs" "ctxs \<noteq> []" "length ctxs < 2 ^ 64"
    and "\<forall>ctx \<in> set ctxs. CsLpGetFeature (ucs ctx) kFeatureTypeTypeLoadControl S \<noteq> None"
    and "FindPendingWriteRequest (locals S (fst self)) ski (msg_num (senders G (device_ski dr)) + 1) = None"
    and "container_ok (world S) (subscription_entries (subscription_manager S))" "\<forall>ski. writer (senders S ski)"
  shows "\<exists>G' dg S'. EgLpSetActivePowerLimit z' m info guc addr lim G = Some (kEebusErrorOk, G') \<and>
    written (senders G' (device_ski dr)) = written (senders G (device_ski dr)) @ [dg] \<and>
    ProcessDatagram z m (cs_lp_approver m ucs) (Some dg) ski S = Some (kEebusErrorOk, S') \<and>
    CsLpGetActivePowerLimit m uc S' =
      (if sv_value (ll_value lim) < 0 then CsLpGetActivePowerLimit m uc S else Some (limit_after x lim d))"
proof -
  define h where "h = write_header (feature_address (snd (fst c))) (feature_address rf) (msg_num (senders G (device_ski dr)) + 1)"
  define cmd where "cmd = write_cmd limit_type (limits [new_limit i lim d]) (FILTER_PARTIAL limit_type Null Null # deletes i lim)"
  obtain ops where "RemoteOperations G (snd c) limit_type = Some ops" "op_write_partial ops"
    using assms(4,5) by (auto simp: RemoteOperations_def takes_partial_writes_def split: option.splits)
  then obtain G' where G': "EgLpSetActivePowerLimit z' m info guc addr lim G = Some (kEebusErrorOk, G')" "sends_write c dr rf cmd G G'"
    using guard_sends [OF assms(1,2)] unfolding cmd_def by blast
  have i: "i \<noteq> Null" using assms(1) by (simp add: guard_knows_def Let_def)
  have h: "dest_addr h = Some (feature_address rf)" "src_addr h = Some (feature_address (snd (fst c)))"
      "cmd_classifier h = Some kCommandClassifierTypeWrite" "msg_cnt h = Some (msg_num (senders G (device_ski dr)) + 1)"
    by (simp_all add: h_def write_header_def)
  obtain S' where S': "ProcessWrite z m (cs_lp_approver m ucs) self (cmd_message h kCommandClassifierTypeWrite cmd r ski) S = Some (kEebusErrorOk, S')"
      "CsLpGetActivePowerLimit m uc S' = (if sv_value (ll_value lim) < 0 then CsLpGetActivePowerLimit m uc S else Some (limit_after x lim d))"
    using limit_write_handled [OF assms(6,3,10,11) i assms(8,9,12-15) h(4) assms(16-18)] unfolding cmd_def by blast
  have "ProcessCmd z m (cs_lp_approver m ucs) h cmd ski S =
      FEATURE_LOCAL_HANDLE_MESSAGE z m (cs_lp_approver m ucs) self (cmd_message h kCommandClassifierTypeWrite cmd r ski) S"
    by (rule ProcessCmd_message [of S h self ski drs r g]) (use assms(7,8) h in \<open>simp_all add: limit_client_def\<close>)
  also have "\<dots> = Some (kEebusErrorOk, S')"
    using assms(10) S'(1) guard_message [of h "new_limit i lim d" i lim r ski, folded cmd_def]
    by (simp add: FEATURE_LOCAL_HANDLE_MESSAGE_def FeatureLocalHandleMessage_def limit_server_def limits_def)
  finally have "ProcessDatagram z m (cs_lp_approver m ucs) (Some \<lparr>header = Some h, payload = Some [Some cmd]\<rparr>) ski S = Some (kEebusErrorOk, S')"
    by (simp add: ProcessDatagram_def h)
  then show ?thesis
    using G' S'(2) unfolding sends_write_def h_def by blast
qed

section \<open>An example\<close>

text \<open>The system that the guard of \<open>guard_node\<close> knows; the guard's feature is bound to that of the system.\<close>

definition guard_device :: Device where
  "guard_device = (example_device ''A'' 2 kRoleTypeClient)
     \<lparr>device_entities := [guard_entity\<lparr>entity_features := [(2, snd (entity_features guard_entity ! 0))]\<rparr>]\<rparr>"

definition system_node :: Node where
  "system_node =
     (limit_node Null)
       \<lparr>world := \<lparr>local_device = system_device\<lparr>device_entities := [power_entity]\<rparr>, remote_devices = [guard_device]\<rparr>,
        binding_manager := \<lparr>binding_num = 1, binding_entries =
          \<lparr>elements = Some [Some (FeatureLinkCreate 0 (Some 4) (Some 2))], num_elements = 1, buffer_size = 16\<rparr>\<rparr>,
        locals := (\<lambda>p. (locals (limit_node Null) p)\<lparr>wr_approval_cbs := [negative_limit_cb 0]\<rparr>)\<rparr>"

lemma system_world:
  "world system_node = \<lparr>local_device = system_device\<lparr>device_entities := [power_entity]\<rparr>, remote_devices = [guard_device]\<rparr>"
  by (simp add: system_node_def)

lemma system_client:
  "limit_client system_node (entity_features power_entity ! 0) ''A'' (feature_address (snd (entity_features guard_entity ! 0))) guard_device 2
     (snd (entity_features guard_entity ! 0))"
  unfolding limit_client_def
proof (intro conjI)
  show "GetRemoteDeviceWithSki system_node ''A'' = Some guard_device"
    by (simp add: GetRemoteDeviceWithSki_def system_world guard_device_def example_device_def)
  show "RemoteGetFeatureWithAddress guard_device (Some (feature_address (snd (entity_features guard_entity ! 0)))) =
      Some (Some (2, snd (entity_features guard_entity ! 0)))" by code_simp
  then show "RemoteGetFeatureWithAddress guard_device (Some (feature_address (snd (entity_features guard_entity ! 0)))) =
      Some (Some (2, snd (entity_features guard_entity ! 0)))" .
  have "map_of (device_features guard_device) 2 = Some (snd (entity_features guard_entity ! 0))" by code_simp
  then show "remote_feature_at (world system_node) (Some 2) = Some (guard_device, snd (entity_features guard_entity ! 0))"
    by (simp add: remote_feature_at_def system_world)
  show "GetRemoteDeviceWithAddress system_node (device (feature_address (snd (entity_features guard_entity ! 0)))) = Some guard_device"
    by (simp add: GetRemoteDeviceWithAddress_def system_world guard_device_def example_device_def guard_entity_def)
  show "HasBinding (world system_node) (binding_manager system_node) (Some (feature_address (snd (entity_features power_entity ! 0))))
      (Some (feature_address (snd (entity_features guard_entity ! 0)))) = Some True"
    unfolding system_world by (simp add: system_node_def) code_simp
qed

lemma power_limit_model_ok: "limit_model power_limit_model"
proof -
  have t: "limit_type < 47" by (simp add: kFunctionTypeLoadControlLimitListData_def)
  have "fst (snd (power_limit_entry limit_type)) = limit_selectors_cfg" "snd (snd (power_limit_entry limit_type)) = limit_elements_cfg"
    by (simp_all add: power_limit_entry_def kFunctionTypeLoadControlLimitListData_def kFunctionTypeLoadControlLimitDescriptionListData_def
        kFunctionTypeDeviceConfigurationKeyValueListData_def kFunctionTypeDeviceConfigurationKeyValueDescriptionListData_def)
  then show ?thesis
    using power_limit_model_wf power_limit_list_function power_limit_entries(5,6) [OF t] by (simp add: limit_model_def)
qed

lemma system_data:
  "HelperGetFeatureData system_node (Some p) None kFunctionTypeLoadControlLimitDescriptionListData = limits [limit_description]"
  "FeatureLocalGetData self limit_type system_node = Some (limits [limit_until Null])"
  by (simp_all add: HelperGetFeatureData_def FeatureLocalGetData_def system_node_def limit_node_def FeatureLocalConstruct_def FeatureGetFunction_def
      power_function_def kFunctionTypeLoadControlLimitDescriptionListData_def kFunctionTypeLoadControlLimitListData_def)

lemma system_feature:
  "CsLpGetFeature power_use_case kFeatureTypeTypeLoadControl system_node = Some (entity_features power_entity ! 0)"
  by (simp add: CsLpGetFeature_def local_entity_at_def system_world power_use_case_def power_features)

lemma system_server:
  "limit_server power_limit_model power_use_case system_node (entity_features power_entity ! 0) (u32_value 2) [limit_until Null] (limit_until Null)"
proof -
  have id: "member 0 limit_description = u32_value 2" "limit_description \<noteq> Null" "u32_value 2 \<noteq> Null" "member 0 (limit_until Null) = u32_value 2"
    by (simp_all add: limit_description_def limit_until_def u32_value_def)
  have nm: "fst (node_management system_node) = 0" "fst (entity_features power_entity ! 0) = 4"
      "feature_role (snd (entity_features power_entity ! 0)) = kRoleTypeServer"
    by (simp_all add: system_node_def limit_node_def power_node_def example_node_def example_node_management_def power_entity_def)
  show ?thesis
    by (simp add: limit_server_def system_feature nm system_data CsLpGetLimitId_def LoadControlCommonGetLimitDescriptionWithFilter_def
        LoadControlCommonGetLimitDescriptionWithId_def limit_matches id)
qed

theorem limit_reaches_system_witness:
  "\<exists>G' dg S'. EgLpSetActivePowerLimit False power_limit_model eg_lpc_use_case_info guard_use_case (entity_address system_entity) ten_watts
      (guard_node True) = Some (kEebusErrorOk, G') \<and> written (senders G' ''L'') = [dg] \<and>
    ProcessDatagram False power_limit_model (cs_lp_approver power_limit_model (\<lambda>_. power_use_case)) (Some dg) ''A'' system_node =
      Some (kEebusErrorOk, S') \<and>
    CsLpGetActivePowerLimit power_limit_model power_use_case S' =
      Some (Inr \<lparr>ll_value = \<lparr>sv_value = 10, sv_scale = 0\<rparr>, ll_duration = Some (hours_only 1), ll_is_changeable = False, ll_is_active = True,
        ll_delete_duration = False\<rparr>)"
proof -
  let ?m = power_limit_model and ?self = "entity_features power_entity ! 0" and ?c = "(entity_features guard_entity ! 0, 4 :: ptr)"
  let ?fn = "(power_function limit_type [limit_until Null])\<lparr>foperations := Some (OperationsCreate True False True True)\<rparr>"
  have lim: "ll_duration ten_watts = Some (hours_only 1)" "limit_in_range ten_watts (hours_only 1)" "\<not> sv_value (ll_value ten_watts) < 0"
    by (simp_all add: ten_watts_def limit_in_range_def in_int_def hours_only_def)
  have ski: "device_ski system_device = ''L''" "device_ski guard_device = ''A''" by (simp_all add: system_device_def guard_device_def example_device_def)
  have fn: "FeatureGetFunction (remotes (guard_node True) (snd ?c)) limit_type = Some ?fn" "takes_partial_writes ?fn"
    by (simp_all add: guard_remote_data takes_partial_writes_def OperationsCreate_def)
  have self: "LocalGetFeatureWithAddress (local_device (world system_node)) (Some (feature_address (snd ?self))) = Some ?self"
    unfolding system_world by code_simp
  have fits: "list_all (fits False limit_cfg) [limit_until Null]"
    by (simp add: limit_until_def u32_value_def bool_value_def watts_def scaled_number_value_def int_bytes_def load_control_defs
        EEBUS_DATA_SEQUENCE_def EEBUS_DATA_BOOL_def fits.simps [of False "EebusDataCfg _ _ _ _ _"])
  have cbs: "wr_approval_cbs (locals system_node (fst ?self)) = map negative_limit_cb [0]"
      "FindPendingWriteRequest (locals system_node (fst ?self)) ''A'' k = None" for k
    by (simp_all add: system_node_def limit_node_def FeatureLocalConstruct_def FindPendingWriteRequest_def)
  have links: "container_ok (world system_node) (subscription_entries (subscription_manager system_node))" "\<forall>ski. writer (senders system_node ski)"
    by (simp_all add: system_node_def limit_node_def power_node_def container_ok_def VectorConstruct_ok VectorConstruct_list
        example_node_def SenderConstruct_def)
  have after: "limit_after (limit_until Null) ten_watts (hours_only 1) =
      Inr \<lparr>ll_value = \<lparr>sv_value = 10, sv_scale = 0\<rparr>, ll_duration = Some (hours_only 1), ll_is_changeable = False, ll_is_active = True,
        ll_delete_duration = False\<rparr>"
  proof -
    have "EebusDurationToSeconds (hours_only 1) = 3600" by code_simp
    then show ?thesis by (simp add: limit_after_def ten_watts_def LoadControlLimitIsLimitChangeable_def limit_until_def value_flag_def)
  qed
  have client: "limit_client system_node ?self ''A'' (feature_address (snd (fst ?c))) guard_device 2 (snd (entity_features guard_entity ! 0))"
    using system_client by simp
  have "written (senders (guard_node True) ''L'') = []" by (simp add: guard_node_def example_node_def SenderConstruct_def)
  then show ?thesis
    using limit_reaches_system [OF guard_knows_example lim(1,2) fn power_limit_model_ok self client ski(2) system_server fits cbs(1), where
        ucs = "\<lambda>_. power_use_case" and z' = False] cbs(2) links lim(3) after system_feature ski(1) by simp
qed

end
