(* ===== verification/Spec2Isabelle.thy ===== *)
theory Spec2Isabelle
  imports Eebus_Queue Eebus_Date_Time Ship_Liveness Ship_Node_Laws Spine_Exchange Use_Case_Exchange
begin

text \<open>
  Verification of openeebus, a SHIP and SPINE stack in C (\<^verbatim>\<open>src/openeebus/src\<close>), as it is used by the
  ESPHome components of this repository.

  \<^bold>\<open>The program.\<close> Two EEBUS devices talk SHIP over a TLS websocket. Each connection is an object with a
  thread of its own (\<^verbatim>\<open>ship/ship_connection\<close>): it shakes hands with the peer (init message, hello,
  protocol version, PIN, access methods) and then exchanges SPINE datagrams. The websocket, the timers
  and the application run in other threads and reach the connection through its message queue
  (\<^verbatim>\<open>common/eebus_queue\<close>); messages are JSON texts behind a type byte
  (\<^verbatim>\<open>ship_message_serialize.c\<close>, \<^verbatim>\<open>ship_message_deserialize.c\<close>) built with cJSON. Above SHIP, the SPINE layer
  (\<^verbatim>\<open>spine\<close>) keeps devices, entities, features, bindings and subscriptions, and the use cases (\<^verbatim>\<open>use_case\<close>)
  are the application profiles.

  \<^bold>\<open>The theories.\<close>
  \<^item> \<open>Eebus_Prelude\<close>: error codes, byte and word types, C strings, shared lemmas.
  \<^item> \<open>Eebus_Queue\<close>: \<^verbatim>\<open>common/eebus_queue/eebus_queue.c\<close>. The cyclic buffer with its mutex and condition
    variables; a wait is a list of wake-ups, each with what the other threads did before it. Sends and
    receives are shown to be those of a bounded first-in first-out list.
  \<^item> \<open>Eebus_Buffer\<close>: \<^verbatim>\<open>common/message_buffer.c\<close>, \<^verbatim>\<open>string_util.c\<close>, \<^verbatim>\<open>eebus_bool.c\<close>, \<^verbatim>\<open>eebus_math.c\<close>.
  \<^item> \<open>Eebus_Duration\<close>, \<open>Eebus_Date_Time\<close>: \<^verbatim>\<open>common/eebus_date_time\<close>. Texts of durations, dates and times are parsed and printed;
    adding a duration is compared with the calendar, the seconds since the beginning of year 0 (\<open>calendar_seconds\<close>).
  \<^item> \<open>Eebus_Json\<close>: \<^verbatim>\<open>common/json_impl_cjson.c\<close>. cJSON is a parameter (\<open>cjson_api\<close>); \<open>cjson_ok\<close> states what its
    documentation promises (a printed text parses to the value that was printed), and \<open>json_api\<close> is an
    instance that satisfies it.
  \<^item> \<open>Ship_Model\<close>, \<open>Ship_Serialize\<close>, \<open>Ship_Deserialize\<close>: the SHIP messages, their serializer and
    deserializer, one definition per C function.
  \<^item> \<open>Eebus_Timer\<close>: the timer interface and its FreeRTOS and Linux implementations; locale \<open>timer\<close>,
    interpreted for both.
  \<^item> \<open>Ship_Connection\<close>: \<^verbatim>\<open>ship_connection.c\<close>, \<^verbatim>\<open>client.c\<close>, \<^verbatim>\<open>server.c\<close>. The record \<open>ShipConnection\<close> is the C structure,
    \<open>out\<close> logs the calls to the collaborators, \<open>env\<close> is what one iteration finds outside: JSON library,
    timer implementation, results of writes, events of other threads while it waits.
  \<^item> \<open>Ship_Handshake\<close>: the abstract handshake (\<open>spec_next\<close>), the step relation of a connection among its
    threads (\<open>sc_step\<close>), its invariant, refinement, progress and the gates of the handshake.
  \<^item> \<open>Ship_Delivery\<close>: which messages reach the data reader; closing; the identifier check.
  \<^item> \<open>Ship_Liveness\<close>: a client and a server that receive each other's messages complete the handshake;
    aborts and timers that interfere with it.
  \<^item> \<open>Ship_Mdns\<close>: device information, service details, and service discovery: entries, TXT records, what the FreeRTOS
    port announces and finds. An announced service is found.
  \<^item> \<open>Ship_Node\<close>, \<open>Ship_Node_Laws\<close>: \<^verbatim>\<open>ship/ship_node/ship_node.c\<close>, the node that owns the connections, as the steps of its
    threads (\<open>node_step\<close>); locale \<open>node_invariant\<close>, interpreted for the ownership of the connections and for trust.
  \<^item> \<open>Eebus_Data\<close>, \<open>Eebus_Data_Laws\<close>: \<^verbatim>\<open>common/eebus_data\<close>. A C structure is described by a table of descriptors
    (\<open>EebusDataCfg\<close>); \<open>EebusData\<close> is a value as its descriptor sees it, and comparison, copying, partial
    writing with identifiers and selectors, and deletion are one definition per C function, with the
    dispatch of the \<^verbatim>\<open>EEBUS_DATA_\<close> macros. Comparison is equality, writing copies, a partial write keeps the type
    and merges lists by their identifiers.
  \<^item> \<open>Spine_Function\<close>: \<^verbatim>\<open>spine/function/function.c\<close>, \<^verbatim>\<open>operations.c\<close>, \<^verbatim>\<open>filter.c\<close>, \<^verbatim>\<open>cmd.c\<close>. The update of a function with its
    filters refines the restricted function exchange of the protocol; the commands built from a function
    carry its data. The descriptors of the whole data model are a parameter (\<open>Model\<close>), those of load
    control are written out.
  \<^item> \<open>Eebus_Containers\<close>: \<^verbatim>\<open>vector.c\<close>, \<^verbatim>\<open>string_lut.c\<close>, \<^verbatim>\<open>uint64_lut.c\<close>; locales \<open>list_container\<close> and \<open>lookup_table\<close>.
  \<^item> \<open>Spine_Links\<close>, \<open>Spine_Links_Laws\<close>: addresses, the look-ups of the devices, the link container, the binding
    manager and the subscription manager; locale \<open>link_manager\<close>, interpreted for both. A pointer to a
    feature is valid while the feature is in its device (\<open>World\<close>).
  \<^item> \<open>Spine_Use_Case\<close>: \<^verbatim>\<open>usecase_information_types.c\<close>, the use case part of \<^verbatim>\<open>node_management_types.c\<close> and the events of
    \<^verbatim>\<open>node_management_remote.c\<close>; locale \<open>use_case_registry\<close>.
  \<^item> \<open>Spine_Sender\<close>: datagrams and \<^verbatim>\<open>spine/device/sender.c\<close>. A sender logs the datagrams it hands to its writer.
  \<^item> \<open>Spine_Feature\<close>: \<^verbatim>\<open>feature_local.c\<close>, \<^verbatim>\<open>feature_remote.c\<close>, \<^verbatim>\<open>pending_write_request.c\<close>, \<^verbatim>\<open>feature_address_container.c\<close>. The record
    \<open>Node\<close> is the local device with all it reaches; callbacks are the parameter \<open>app\<close>.
  \<^item> \<open>Spine_Feature_Laws\<close>, \<open>Spine_Feature_Remote\<close>: writes wait for approvals, are then done as asked for, or
    time out; updates reach subscribers; the loops that give up subscriptions and bindings (locale
    \<open>remote_entries\<close>) return exactly when every device is known.
  \<^item> \<open>Spine_Types\<close>: the names of functions, feature types, roles and error numbers, and
    \<^verbatim>\<open>feature_types.c\<close>, which functions a feature type has.
  \<^item> \<open>Spine_Discovery\<close>: the detailed discovery data, how it is built from a device, written as a value of the data
    model and read back.
  \<^item> \<open>Spine_Device\<close>: the handlers of node management, \<^verbatim>\<open>device_local.c\<close> and \<^verbatim>\<open>device_remote.c\<close>: from a received datagram
    to the feature that handles it, the set-up of a remote device, its discovery and its removal.
  \<^item> \<open>Spine_Heartbeat\<close>: \<^verbatim>\<open>heartbeat_manager.c\<close>, the tick of a second and the queue of the local device.
  \<^item> \<open>Spine_Device_Laws\<close>: locales \<open>message_frame\<close> and \<open>node_frame\<close> reduce a property of a received datagram to the
    handlers of one feature; only a bound client changes data; nothing is left of a removed device.
  \<^item> \<open>Spine_Discovery_Laws\<close>: a device that announces itself is reproduced by the device that discovers it.
  \<^item> \<open>Spine_Exchange\<close>: two devices together: the call that one sends is the subscription of the other, and the
    heartbeats that follow arrive before their timeout.
  \<^item> \<open>Spine_Approval_Laws\<close>: a write that an approval callback denies changes nothing. \<open>Spine_Element_Laws\<close>: what a
    callback demands of every element that is written holds of every element that is stored (locale \<open>element_invariant\<close>).
  \<^item> \<open>Use_Case_Data\<close>: limits and key values, \<^verbatim>\<open>use_case/specialization\<close> (\<^verbatim>\<open>helper.c\<close>, \<^verbatim>\<open>load_control\<close>, \<^verbatim>\<open>device_configuration\<close>)
    with \<^verbatim>\<open>loadcontrol_types.c\<close> and \<^verbatim>\<open>device_configuration_types.c\<close>; \<open>Use_Case_Tables\<close>: the descriptors of this data.
  \<^item> \<open>Use_Case_Lpc\<close>, \<open>Use_Case_Events\<close>: the controllable system of the power limitation use cases,
    \<^verbatim>\<open>use_case/actor/cs\<close> with \<^verbatim>\<open>use_case.c\<close>: approval of writes, access to limits and failsafe values, reactions to events.
    A use case is the record \<open>CsLpUseCase\<close>; what its listener hears is a list of \<open>listener_call\<close>.
  \<^item> \<open>Use_Case_Guard\<close>: the energy guard that sets the limits, \<^verbatim>\<open>use_case/actor/eg\<close>, \<^verbatim>\<open>actor/common/load_control.c\<close> and the clients
    of load control and device configuration.
  \<^item> \<open>Use_Case_Laws\<close>: stored limits are never negative. \<open>Use_Case_Failsafe\<close>: what the checks of the failsafe values miss.
    \<open>Use_Case_Event_Laws\<close>: which limits the listener hears of, and which heartbeats are recent. \<open>Use_Case_Guard_Laws\<close>:
    what the guard sends when it sets a limit. \<open>Use_Case_Exchange\<close>: the limit that the guard sets is the limit that the system then has.

  \<^bold>\<open>Termination and bounds.\<close> Handlers are total functions; a handler that waits returns \<open>None\<close> when no
  message arrives, which is the thread blocking. The connection's loop takes one environment per
  iteration; thirteen iterations are a complete handshake, and \<open>handshake_progress\<close> bounds any
  handshake with a peer that is not pending by 18. Loops over buffers recurse on the data. The queue of
  a connection holds 30 messages, as in \<^verbatim>\<open>ShipConnectionTryStart\<close>.

  \<^bold>\<open>Not modelled.\<close> Input and output (websockets, HTTP server, mDNS, TLS), the Windows and Apple ports,
  allocation failure except where the code's answer to it is part of a property, the command line, the
  C++ components, logging. Of the SPINE layer, the
  construction of the local device and its threads, entities that are added and removed at run time, the
  text of datagrams (values of the data model as JSON) are not modelled; of the use cases, the set-up of
  their features, nominal values and the actors for monitoring.
\<close>

end
